(* ===== verification/Prelude.thy ===== *)
theory Prelude
  imports Main "HOL-Library.AList" "HOL-Library.Multiset"
begin

text \<open>
  The part of JavaScript the components share, and the automation of the development.

  \<^item> Strings are lists of code units. A \<^typ>\<open>char\<close> is one code unit of the Latin-1 range, and
    \<open>trim\<close> and \<open>toLowerCase\<close> are exact on that range.
  \<^item> A JavaScript \<open>Map\<close> is an association list in insertion order: \<open>set\<close> on a present key keeps
    its position, \<open>delete\<close> removes it, a new key goes to the end. The interface \<open>js_map\<close>
    states what the clients rely on and is interpreted on these operations.
  \<^item> \<open>Array.prototype.sort\<close> with a comparator is the stable insertion sort \<open>js_sort\<close>.
  \<^item> A buffer that keeps its newest entries is the interface \<open>bounded_log\<close>.
  \<^item> A component driven by a sequence of events is the interface \<open>event_machine\<close>.
\<close>

named_theorems js_simps
named_theorems inv_intros

section \<open>Strings\<close>

definition is_js_space :: "char \<Rightarrow> bool" where
  "is_js_space c \<longleftrightarrow>
     c = CHR 0x09 \<or> c = CHR 0x0A \<or> c = CHR 0x0B \<or> c = CHR 0x0C \<or> c = CHR 0x0D \<or>
     c = CHR 0x20 \<or> c = CHR 0xA0"

definition is_js_upper :: "char \<Rightarrow> bool" where
  "is_js_upper c \<longleftrightarrow>
     (let n = (of_char c :: nat)
      in (65 \<le> n \<and> n \<le> 90) \<or> (192 \<le> n \<and> n \<le> 222 \<and> n \<noteq> 215))"

definition lower_char :: "char \<Rightarrow> char" where
  "lower_char c = (if is_js_upper c then char_of ((of_char c :: nat) + 32) else c)"

definition js_lower :: "string \<Rightarrow> string" where
  "js_lower s = map lower_char s"

definition js_trim :: "string \<Rightarrow> string" where
  "js_trim s = rev (dropWhile is_js_space (rev (dropWhile is_js_space s)))"

text \<open>\<open>String.prototype.includes\<close>.\<close>

fun starts_with :: "'a list \<Rightarrow> 'a list \<Rightarrow> bool" where
  "starts_with [] ys = True"
| "starts_with (x # xs) [] = False"
| "starts_with (x # xs) (y # ys) = (x = y \<and> starts_with xs ys)"

fun str_includes :: "'a list \<Rightarrow> 'a list \<Rightarrow> bool" where
  "str_includes [] pat = (pat = [])"
| "str_includes (y # ys) pat = (starts_with pat (y # ys) \<or> str_includes ys pat)"

lemma starts_with_iff: "starts_with xs ys \<longleftrightarrow> (\<exists>zs. ys = xs @ zs)"
  by (induction xs ys rule: starts_with.induct) auto

lemma includes_append: "str_includes (us @ pat @ vs) pat"
proof (induction us)
  case Nil
  have "starts_with pat (pat @ vs)" by (auto simp: starts_with_iff)
  then show ?case by (cases "pat @ vs") auto
qed simp

lemma includes_iff: "str_includes ys pat \<longleftrightarrow> (\<exists>us vs. ys = us @ pat @ vs)"
proof
  show "str_includes ys pat \<Longrightarrow> \<exists>us vs. ys = us @ pat @ vs"
  proof (induction ys)
    case (Cons y ys)
    show ?case
    proof (cases "starts_with pat (y # ys)")
      case True
      then show ?thesis by (metis starts_with_iff append_Nil)
    next
      case False
      with Cons obtain us vs where "ys = us @ pat @ vs" by auto
      then show ?thesis by (metis append_Cons)
    qed
  qed simp
qed (auto simp: includes_append)

lemma lower_char_not_upper: "\<not> is_js_upper (lower_char c)"
proof (cases "is_js_upper c")
  case True
  define n where "n = (of_char c :: nat)"
  from True have n: "(65 \<le> n \<and> n \<le> 90) \<or> (192 \<le> n \<and> n \<le> 222 \<and> n \<noteq> 215)"
    by (simp add: is_js_upper_def n_def Let_def)
  then have "(of_char (char_of (n + 32) :: char) :: nat) = n + 32"
    by (auto simp: of_char_of)
  with n True show ?thesis
    by (auto simp: lower_char_def is_js_upper_def Let_def simp flip: n_def)
next
  case False
  then show ?thesis by (simp add: lower_char_def)
qed

lemma lower_char_idem [simp]: "lower_char (lower_char c) = lower_char c"
  using lower_char_not_upper [of c] by (simp add: lower_char_def [of "lower_char c"])

lemma is_js_space_code:
  "is_js_space c \<longleftrightarrow> (of_char c :: nat) \<in> {9, 10, 11, 12, 13, 32, 160}"
  by (simp add: is_js_space_def flip: of_char_eq_iff [where ?'a = nat])

lemma is_js_space_lower [simp]: "is_js_space (lower_char c) = is_js_space c"
proof (cases "is_js_upper c")
  case True
  define n where "n = (of_char c :: nat)"
  from True have n: "(65 \<le> n \<and> n \<le> 90) \<or> (192 \<le> n \<and> n \<le> 222 \<and> n \<noteq> 215)"
    by (simp add: is_js_upper_def n_def Let_def)
  then have "(of_char (lower_char c) :: nat) = n + 32"
    using True by (auto simp: lower_char_def of_char_of simp flip: n_def)
  with n show ?thesis
    by (auto simp: is_js_space_code simp flip: n_def)
next
  case False
  then show ?thesis by (simp add: lower_char_def)
qed

lemma js_lower_idem [simp]: "js_lower (js_lower s) = js_lower s"
  by (induction s) (auto simp: js_lower_def)

lemma dropWhile_map_space:
  "dropWhile is_js_space (map lower_char s) = map lower_char (dropWhile is_js_space s)"
  by (induction s) auto

lemma js_trim_lower: "js_trim (js_lower s) = js_lower (js_trim s)"
  by (simp add: js_trim_def js_lower_def dropWhile_map_space rev_map)

lemma dropWhile_rev_dropWhile:
  "dropWhile P (rev (dropWhile P (rev (dropWhile P s)))) = rev (dropWhile P (rev (dropWhile P s)))"
proof (cases "dropWhile P s")
  case Nil
  show ?thesis unfolding Nil by simp
next
  case (Cons x xs)
  then have "\<not> P x" by (metis dropWhile_eq_Cons_conv)
  with Cons show ?thesis by (simp add: dropWhile_append)
qed

lemma js_trim_idem [simp]: "js_trim (js_trim s) = js_trim s"
  by (simp add: js_trim_def dropWhile_rev_dropWhile)

section \<open>Maps in insertion order\<close>

type_synonym ('k, 'v) omap = "('k \<times> 'v) list"

definition omap_get :: "('k, 'v) omap \<Rightarrow> 'k \<Rightarrow> 'v option" where
  "omap_get m k = map_of m k"

definition omap_has :: "('k, 'v) omap \<Rightarrow> 'k \<Rightarrow> bool" where
  "omap_has m k \<longleftrightarrow> k \<in> fst ` set m"

fun omap_set :: "'k \<Rightarrow> 'v \<Rightarrow> ('k, 'v) omap \<Rightarrow> ('k, 'v) omap" where
  "omap_set k v [] = [(k, v)]"
| "omap_set k v ((k', v') # m) = (if k' = k then (k, v) # m else (k', v') # omap_set k v m)"

definition omap_delete :: "'k \<Rightarrow> ('k, 'v) omap \<Rightarrow> ('k, 'v) omap" where
  "omap_delete k m = filter (\<lambda>(k', _). k' \<noteq> k) m"

definition omap_keys :: "('k, 'v) omap \<Rightarrow> 'k list" where
  "omap_keys m = map fst m"

definition omap_values :: "('k, 'v) omap \<Rightarrow> 'v list" where
  "omap_values m = map snd m"

text \<open>\<open>new Map(entries)\<close>: later entries overwrite earlier ones in place.\<close>

definition omap_of :: "('k \<times> 'v) list \<Rightarrow> ('k, 'v) omap" where
  "omap_of kvs = fold (\<lambda>(k, v) m. omap_set k v m) kvs []"

definition omap_ok :: "('k, 'v) omap \<Rightarrow> bool" where
  "omap_ok m \<longleftrightarrow> distinct (map fst m)"

text \<open>In-place change of every stored value (the code mutates the objects a map holds).\<close>

definition omap_map :: "('k \<Rightarrow> 'v \<Rightarrow> 'v) \<Rightarrow> ('k, 'v) omap \<Rightarrow> ('k, 'v) omap" where
  "omap_map f m = map (\<lambda>(k, v). (k, f k v)) m"

text \<open>In-place change of the value stored under one key, if there is one.\<close>

definition omap_update :: "'k \<Rightarrow> ('v \<Rightarrow> 'v) \<Rightarrow> ('k, 'v) omap \<Rightarrow> ('k, 'v) omap" where
  "omap_update k f m = map (\<lambda>(k', v). (k', if k' = k then f v else v)) m"

lemma omap_get_empty [simp]: "omap_get [] k = None"
  by (simp add: omap_get_def)

lemma omap_get_set [simp]:
  "omap_get (omap_set k v m) k' = (if k' = k then Some v else omap_get m k')"
  by (induction k v m rule: omap_set.induct) (auto simp: omap_get_def)

lemma omap_get_delete [simp]:
  "omap_get (omap_delete k m) k' = (if k' = k then None else omap_get m k')"
  by (induction m) (auto simp: omap_get_def omap_delete_def)

lemma omap_has_get: "omap_has m k \<longleftrightarrow> omap_get m k \<noteq> None"
  by (simp add: omap_has_def omap_get_def map_of_eq_None_iff)

lemma omap_keys_set [simp]:
  "set (omap_keys (omap_set k v m)) = insert k (set (omap_keys m))"
  by (induction k v m rule: omap_set.induct) (auto simp: omap_keys_def)

lemma omap_keys_delete [simp]:
  "set (omap_keys (omap_delete k m)) = set (omap_keys m) - {k}"
  by (auto simp: omap_keys_def omap_delete_def)

lemma omap_keys_map [simp]: "omap_keys (omap_map f m) = omap_keys m"
  by (auto simp: omap_keys_def omap_map_def)

lemma omap_keys_update [simp]: "omap_keys (omap_update k f m) = omap_keys m"
  by (auto simp: omap_keys_def omap_update_def)

lemma omap_get_update [simp]:
  "omap_get (omap_update k f m) k' =
     (if k' = k then map_option f (omap_get m k) else omap_get m k')"
  by (induction m) (auto simp: omap_get_def omap_update_def)

lemma omap_get_map [simp]: "omap_get (omap_map f m) k = map_option (f k) (omap_get m k)"
  by (induction m) (auto simp: omap_get_def omap_map_def)

lemma omap_ok_empty [simp]: "omap_ok []"
  by (simp add: omap_ok_def)

lemma omap_ok_set [simp]: "omap_ok m \<Longrightarrow> omap_ok (omap_set k v m)"
proof (induction k v m rule: omap_set.induct)
  case (1 k v)
  then show ?case by (simp add: omap_ok_def)
next
  case (2 k v k' v' m)
  then show ?case
    using omap_keys_set [of k v m] by (auto simp: omap_ok_def omap_keys_def)
qed

lemma omap_ok_delete [simp]: "omap_ok m \<Longrightarrow> omap_ok (omap_delete k m)"
  by (induction m) (auto simp: omap_ok_def omap_delete_def)

lemma omap_ok_map [simp]: "omap_ok (omap_map f m) = omap_ok m"
  using omap_keys_map [of f m] by (simp add: omap_ok_def omap_keys_def)

lemma omap_ok_update [simp]: "omap_ok (omap_update k f m) = omap_ok m"
  using omap_keys_update [of k f m] by (simp add: omap_ok_def omap_keys_def)

lemma omap_ok_fold_set: "omap_ok m \<Longrightarrow> omap_ok (fold (\<lambda>(k, v) m. omap_set k v m) kvs m)"
  by (induction kvs arbitrary: m) auto

lemma omap_ok_of [simp]: "omap_ok (omap_of kvs)"
  by (simp add: omap_of_def omap_ok_fold_set)

lemma omap_get_SomeD: "omap_get m k = Some v \<Longrightarrow> (k, v) \<in> set m"
  by (simp add: omap_get_def map_of_SomeD)

lemma omap_get_in: "omap_ok m \<Longrightarrow> (k, v) \<in> set m \<Longrightarrow> omap_get m k = Some v"
  by (simp add: omap_get_def omap_ok_def)

lemma omap_get_iff: "omap_ok m \<Longrightarrow> omap_get m k = Some v \<longleftrightarrow> (k, v) \<in> set m"
  by (auto dest: omap_get_SomeD omap_get_in)

lemma omap_values_set: "v \<in> set (omap_values m) \<longleftrightarrow> (\<exists>k. (k, v) \<in> set m)"
  by (force simp: omap_values_def)

lemma omap_keys_get: "k \<in> set (omap_keys m) \<longleftrightarrow> omap_get m k \<noteq> None"
  by (simp add: omap_keys_def omap_get_def map_of_eq_None_iff)

lemma set_omap_set:
  "omap_ok m \<Longrightarrow> set (omap_set k v m) = insert (k, v) {p \<in> set m. fst p \<noteq> k}"
proof (induction k v m rule: omap_set.induct)
  case (2 k v k' v' m)
  then show ?case by (force simp: omap_ok_def)
qed simp

lemma set_omap_delete: "set (omap_delete k m) = {p \<in> set m. fst p \<noteq> k}"
  by (auto simp: omap_delete_def)

lemma length_omap_set:
  "length (omap_set k v m) = (if omap_has m k then length m else Suc (length m))"
  by (induction k v m rule: omap_set.induct) (auto simp: omap_has_def)

lemma length_omap_delete_le [simp]: "length (omap_delete k m) \<le> length m"
  by (simp add: omap_delete_def)

text \<open>What the components rely on when they keep records in a \<open>Map\<close>.\<close>

locale js_map =
  fixes get :: "'m \<Rightarrow> 'k \<Rightarrow> 'v option"
    and put :: "'k \<Rightarrow> 'v \<Rightarrow> 'm \<Rightarrow> 'm"
    and del :: "'k \<Rightarrow> 'm \<Rightarrow> 'm"
    and ok :: "'m \<Rightarrow> bool"
  assumes get_put: "get (put k v m) k' = (if k' = k then Some v else get m k')"
    and get_del: "get (del k m) k' = (if k' = k then None else get m k')"
    and ok_put: "ok m \<Longrightarrow> ok (put k v m)"
    and ok_del: "ok m \<Longrightarrow> ok (del k m)"
begin

lemma put_put_get: "get (put k v (put k w m)) = get (put k v m)"
  by (rule ext) (simp add: get_put)

lemma del_put_get: "get (del k (put k v m)) = get (del k m)"
  by (rule ext) (simp add: get_put get_del)

lemma put_other: "k' \<noteq> k \<Longrightarrow> get (put k v m) k' = get m k'"
  by (simp add: get_put)

text \<open>Writing a batch of pairs: the last pair of a key wins.\<close>

lemma get_fold_put:
  "get (fold (\<lambda>(k, v) m. put k v m) kvs m) k =
     (case map_of (rev kvs) k of None \<Rightarrow> get m k | Some v \<Rightarrow> Some v)"
  by (induction kvs arbitrary: m) (auto simp: get_put map_add_def split: option.splits)

lemma get_fold_del:
  "get (fold del ks m) k = (if k \<in> set ks then None else get m k)"
  by (induction ks arbitrary: m) (auto simp: get_del)

lemma ok_fold_put: "ok m \<Longrightarrow> ok (fold (\<lambda>(k, v) m. put k v m) kvs m)"
  by (induction kvs arbitrary: m) (auto simp: ok_put)

end

interpretation om: js_map omap_get omap_set omap_delete omap_ok
  by unfold_locales auto

lemma omap_get_of: "omap_get (omap_of kvs) k = map_of (rev kvs) k"
  unfolding omap_of_def by (simp add: om.get_fold_put split: option.splits)

section \<open>Sorting with a comparator\<close>

fun js_insert :: "('a \<Rightarrow> 'a \<Rightarrow> int) \<Rightarrow> 'a \<Rightarrow> 'a list \<Rightarrow> 'a list" where
  "js_insert cmp x [] = [x]"
| "js_insert cmp x (y # ys) = (if cmp x y \<le> 0 then x # y # ys else y # js_insert cmp x ys)"

text \<open>Inserting from the right, before the first element that is not smaller, is stable.\<close>

fun js_sort :: "('a \<Rightarrow> 'a \<Rightarrow> int) \<Rightarrow> 'a list \<Rightarrow> 'a list" where
  "js_sort cmp [] = []"
| "js_sort cmp (x # xs) = js_insert cmp x (js_sort cmp xs)"

lemma mset_js_insert: "mset (js_insert cmp x xs) = add_mset x (mset xs)"
  by (induction xs) auto

lemma mset_js_sort [simp]: "mset (js_sort cmp xs) = mset xs"
  by (induction xs) (auto simp: mset_js_insert)

lemma set_js_insert [simp]: "set (js_insert cmp x xs) = insert x (set xs)"
  by (metis mset_js_insert set_mset_add_mset_insert set_mset_mset)

lemma set_js_sort [simp]: "set (js_sort cmp xs) = set xs"
  by (metis mset_js_sort set_mset_mset)

lemma length_js_sort [simp]: "length (js_sort cmp xs) = length xs"
  by (metis mset_js_sort size_mset)

lemma sorted_js_insert:
  assumes total: "\<And>a b. cmp a b > 0 \<Longrightarrow> cmp b a \<le> 0"
    and trans: "\<And>a b c. cmp a b \<le> 0 \<Longrightarrow> cmp b c \<le> 0 \<Longrightarrow> cmp a c \<le> 0"
    and "sorted_wrt (\<lambda>a b. cmp a b \<le> 0) xs"
  shows "sorted_wrt (\<lambda>a b. cmp a b \<le> 0) (js_insert cmp x xs)"
  using assms(3)
proof (induction xs)
  case (Cons y ys)
  then show ?case
    by (auto dest: trans total simp: not_le)
qed simp

lemma sorted_js_sort:
  assumes "\<And>a b. cmp a b > 0 \<Longrightarrow> cmp b a \<le> 0"
    and "\<And>a b c. cmp a b \<le> 0 \<Longrightarrow> cmp b c \<le> 0 \<Longrightarrow> cmp a c \<le> 0"
  shows "sorted_wrt (\<lambda>a b. cmp a b \<le> 0) (js_sort cmp xs)"
  using assms by (induction xs) (auto intro!: sorted_js_insert)

text \<open>Stability: the elements of one equivalence class keep their order.\<close>

lemma filter_js_insert_skip: "\<not> P x \<Longrightarrow> filter P (js_insert cmp x xs) = filter P xs"
  by (induction xs) auto

lemma filter_js_insert_keep:
  assumes "P x" and "\<And>y. y \<in> set xs \<Longrightarrow> P y \<Longrightarrow> cmp x y \<le> 0"
  shows "filter P (js_insert cmp x xs) = x # filter P xs"
  using assms by (induction xs) auto

lemma js_sort_stable:
  assumes "\<And>a b. P a \<Longrightarrow> P b \<Longrightarrow> cmp a b \<le> 0"
  shows "filter P (js_sort cmp xs) = filter P xs"
  using assms
  by (induction xs) (auto simp: filter_js_insert_skip filter_js_insert_keep)

section \<open>Buffers that keep their newest entries\<close>

definition take_last :: "nat \<Rightarrow> 'a list \<Rightarrow> 'a list" where
  "take_last n xs = drop (length xs - n) xs"

lemma length_take_last [simp]: "length (take_last n xs) = min n (length xs)"
  by (simp add: take_last_def)

lemma take_last_all [simp]: "length xs \<le> n \<Longrightarrow> take_last n xs = xs"
  by (simp add: take_last_def)

lemma take_last_append_take_last:
  "take_last n (take_last n xs @ ys) = take_last n (xs @ ys)"
  by (cases "n \<le> length xs") (auto simp: take_last_def add.commute)

lemma set_take_last: "set (take_last n xs) \<subseteq> set xs"
  by (simp add: take_last_def set_drop_subset)

locale bounded_log =
  fixes cap :: nat
    and append_log :: "'a list \<Rightarrow> 'a list \<Rightarrow> 'a list"
  assumes append_log_eq: "append_log xs ys = take_last cap (xs @ ys)"
begin

lemma log_bounded: "length (append_log xs ys) \<le> cap"
  by (simp add: append_log_eq)

lemma log_run: "fold (\<lambda>ys xs. append_log xs ys) yss xs =
    (if yss = [] then xs else take_last cap (xs @ concat yss))"
proof (induction yss arbitrary: xs)
  case (Cons ys yss)
  then show ?case
    by (simp add: append_log_eq take_last_append_take_last)
qed simp

lemma log_keeps_last: "ys \<noteq> [] \<Longrightarrow> 0 < cap \<Longrightarrow> last (append_log xs ys) = last ys"
  by (cases ys rule: rev_cases) (auto simp: append_log_eq take_last_def)

end

section \<open>Event-driven machines\<close>

locale event_machine =
  fixes step :: "'e \<Rightarrow> 's \<Rightarrow> 's"
    and good :: "'s \<Rightarrow> bool"
  assumes step_good: "good s \<Longrightarrow> good (step e s)"
begin

lemma run_good: "good s \<Longrightarrow> good (fold step es s)"
  by (induction es arbitrary: s) (auto simp: step_good)

lemma run_prefix_good: "good s \<Longrightarrow> good (fold step (take n es) s)"
  by (rule run_good)

end

section \<open>Values\<close>

text \<open>A field that may be absent, \<open>null\<close> or a value.\<close>

datatype 'a jsopt = Undef | Null | Val 'a

fun nullish :: "'a jsopt \<Rightarrow> 'a option" where
  "nullish (Val x) = Some x"
| "nullish _ = None"

definition of_null :: "'a option \<Rightarrow> 'a jsopt" where
  "of_null v = (case v of None \<Rightarrow> Null | Some x \<Rightarrow> Val x)"

text \<open>\<open>a ?? b\<close>.\<close>

definition coalesce :: "'a option \<Rightarrow> 'a \<Rightarrow> 'a" where
  "coalesce a b = (case a of None \<Rightarrow> b | Some x \<Rightarrow> x)"

definition or_else :: "'a option \<Rightarrow> 'a option \<Rightarrow> 'a option" where
  "or_else a b = (case a of None \<Rightarrow> b | Some x \<Rightarrow> Some x)"

lemma coalesce_simps [simp]: "coalesce None b = b" "coalesce (Some a) b = a"
  by (simp_all add: coalesce_def)

lemma or_else_simps [simp]: "or_else None b = b" "or_else (Some a) b = Some a"
  by (simp_all add: or_else_def)

lemma nullish_of_null [simp]: "nullish (of_null v) = v"
  by (cases v) (auto simp: of_null_def)

text \<open>JSON values, for the payloads the program passes on.\<close>

datatype json =
    JNull
  | JBool bool
  | JNum int
  | JStr string
  | JArr "json list"
  | JObj "(string \<times> json) list"

definition jopt :: "('a \<Rightarrow> json) \<Rightarrow> 'a option \<Rightarrow> json" where
  "jopt f v = (case v of None \<Rightarrow> JNull | Some x \<Rightarrow> f x)"

text \<open>Decimal text of an integer, as \<open>String(n)\<close> and template literals give it.\<close>

fun digits_of_nat :: "nat \<Rightarrow> string" where
  "digits_of_nat n =
     (if n < 10 then [char_of (48 + n)]
      else digits_of_nat (n div 10) @ [char_of (48 + n mod 10)])"

declare digits_of_nat.simps [simp del]

definition show_int :: "int \<Rightarrow> string" where
  "show_int n = (if n < 0 then ''-'' @ digits_of_nat (nat (- n)) else digits_of_nat (nat n))"

definition show_nat :: "nat \<Rightarrow> string" where
  "show_nat n = digits_of_nat n"

text \<open>\<open>JSON.stringify\<close> of a string of Latin-1 code units.\<close>

definition hex_digit :: "nat \<Rightarrow> char" where
  "hex_digit n = char_of (if n < 10 then 48 + n else 87 + n)"

definition js_escape :: "char \<Rightarrow> string" where
  "js_escape c =
     (let n = of_char c :: nat
      in if c = CHR 0x22 \<or> c = CHR 0x5C then [CHR 0x5C, c]
         else if n = 8 then [CHR 0x5C, CHR ''b'']
         else if n = 9 then [CHR 0x5C, CHR ''t'']
         else if n = 10 then [CHR 0x5C, CHR ''n'']
         else if n = 12 then [CHR 0x5C, CHR ''f'']
         else if n = 13 then [CHR 0x5C, CHR ''r'']
         else if n < 32 then [CHR 0x5C] @ ''u00'' @ [hex_digit (n div 16), hex_digit (n mod 16)]
         else [c])"

definition js_quote :: "string \<Rightarrow> string" where
  "js_quote s = [CHR 0x22] @ concat (map js_escape s) @ [CHR 0x22]"

end
