(* ===== verification/StateMachine.thy ===== *)
theory StateMachine
  imports Prelude
begin

text \<open>
  \<open>src/src/state/machine.ts\<close>: the workflow state machine. The state is what the constructor
  stores: the stages in order, the set of their keys and, for every known state, the set of
  states it may move to. A \<open>Record\<close> of the configuration is the list of its entries in
  \<open>Object.entries\<close> order.
\<close>

section \<open>Data\<close>

datatype stage_input = StageName string | StageObj string "bool option"

record stage =
  stage_key :: string
  stage_terminal :: bool

record machine_config =
  mc_stages :: "stage_input list option"
  mc_transitions :: "(string \<times> string list) list option"
  mc_active :: "string list option"
  mc_terminal :: "string list option"

record state_machine =
  sm_stages :: "stage list"
  sm_stage_set :: "string set"
  sm_transition_map :: "(string, string set) omap"

definition DEFAULT_ACTIVE_STATES :: "string list" where
  "DEFAULT_ACTIVE_STATES = [''Backlog'', ''Todo'', ''In Progress'']"

definition DEFAULT_TERMINAL_STATES :: "string list" where
  "DEFAULT_TERMINAL_STATES = [''Done'', ''Canceled'']"

section \<open>Operations\<close>

definition normalizeState :: "string \<Rightarrow> string" where
  "normalizeState value = js_lower (js_trim value)"

fun uniqueStates_loop :: "string set \<Rightarrow> string list \<Rightarrow> string list \<Rightarrow> string list" where
  "uniqueStates_loop seen normalized [] = normalized"
| "uniqueStates_loop seen normalized (state # states) =
     (let next_state = normalizeState state
      in if next_state = [] \<or> next_state \<in> seen then uniqueStates_loop seen normalized states
         else uniqueStates_loop (insert next_state seen) (normalized @ [next_state]) states)"

definition uniqueStates :: "string list \<Rightarrow> string list" where
  "uniqueStates states = uniqueStates_loop {} [] states"

fun put_stage :: "string list \<Rightarrow> stage_input \<Rightarrow> (string, stage) omap \<Rightarrow> (string, stage) omap" where
  "put_stage terminalStates (StageName entry) deduped =
     (let key = normalizeState entry
      in if key = [] then deduped
         else omap_set key \<lparr>stage_key = key, stage_terminal = key \<in> set terminalStates\<rparr> deduped)"
| "put_stage terminalStates (StageObj entry_key terminal) deduped =
     (let key = normalizeState entry_key
      in if key = [] then deduped
         else omap_set key \<lparr>stage_key = key, stage_terminal = (terminal = Some True)\<rparr> deduped)"

definition toStageRecord ::
  "stage_input list option \<Rightarrow> string list \<Rightarrow> string list \<Rightarrow> stage list" where
  "toStageRecord input activeStates terminalStates =
     (case input of
        Some (entry # entries) \<Rightarrow>
          omap_values (fold (put_stage terminalStates) (entry # entries) [])
      | _ \<Rightarrow>
          map (\<lambda>key. \<lparr>stage_key = key, stage_terminal = key \<in> set terminalStates\<rparr>)
            (uniqueStates (activeStates @ terminalStates)))"

definition allowedTargets :: "string list \<Rightarrow> string \<Rightarrow> string list \<Rightarrow> string set" where
  "allowedTargets known normalizedFrom rawTargets =
     fold (\<lambda>rawTarget allowed.
             let normalizedTarget = normalizeState rawTarget
             in if normalizedTarget \<in> set known then insert normalizedTarget allowed else allowed)
       rawTargets {normalizedFrom}"

definition buildExplicitTransitions ::
  "string list \<Rightarrow> (string \<times> string list) list \<Rightarrow> (string, string set) omap" where
  "buildExplicitTransitions known explicitTransitions =
     (let normalizedTransitions =
            omap_of (map (\<lambda>(from, rawTargets). (normalizeState from, rawTargets)) explicitTransitions)
      in fold (\<lambda>normalizedFrom transitions.
                 omap_set normalizedFrom
                   (case omap_get normalizedTransitions normalizedFrom of
                      None \<Rightarrow> {normalizedFrom}
                    | Some rawTargets \<Rightarrow> allowedTargets known normalizedFrom rawTargets)
                   transitions)
           known [])"

definition buildDefaultTransitions :: "stage list \<Rightarrow> (string, string set) omap" where
  "buildDefaultTransitions stages =
     (let stageKeys = map stage_key stages;
          terminalByKey = omap_of (map (\<lambda>s. (stage_key s, stage_terminal s)) stages)
      in fold (\<lambda>from transitions.
                 omap_set from
                   (if omap_get terminalByKey from = Some True then {from} else set stageKeys)
                   transitions)
           stageKeys [])"

definition buildTransitionMap ::
  "stage list \<Rightarrow> (string \<times> string list) list option \<Rightarrow> (string, string set) omap" where
  "buildTransitionMap stages explicitTransitions =
     (let known = remdups (map stage_key stages)
      in case explicitTransitions of
           Some (t # ts) \<Rightarrow> buildExplicitTransitions known (t # ts)
         | _ \<Rightarrow> buildDefaultTransitions stages)"

definition new_StateMachine :: "machine_config \<Rightarrow> state_machine" where
  "new_StateMachine config =
     (let activeStates = uniqueStates (coalesce (mc_active config) DEFAULT_ACTIVE_STATES);
          terminalStates = uniqueStates (coalesce (mc_terminal config) DEFAULT_TERMINAL_STATES);
          stages = toStageRecord (mc_stages config) activeStates terminalStates
      in \<lparr>sm_stages = stages,
          sm_stage_set = set (map stage_key stages),
          sm_transition_map = buildTransitionMap stages (mc_transitions config)\<rparr>)"

definition createDefaultStateMachine :: state_machine where
  "createDefaultStateMachine =
     new_StateMachine \<lparr>mc_stages = None, mc_transitions = None, mc_active = None, mc_terminal = None\<rparr>"

definition getStages :: "state_machine \<Rightarrow> stage list" where
  "getStages m = sm_stages m"

definition isKnownState :: "state_machine \<Rightarrow> string \<Rightarrow> bool" where
  "isKnownState m state \<longleftrightarrow> normalizeState state \<in> sm_stage_set m"

definition isTerminalIn :: "state_machine \<Rightarrow> string \<Rightarrow> bool" where
  "isTerminalIn m state \<longleftrightarrow>
     (let normalized = normalizeState state
      in list_ex (\<lambda>stage. stage_key stage = normalized \<and> stage_terminal stage) (sm_stages m))"

definition canTransition :: "state_machine \<Rightarrow> string \<Rightarrow> string \<Rightarrow> bool" where
  "canTransition m from to \<longleftrightarrow>
     (case omap_get (sm_transition_map m) (normalizeState from) of
        None \<Rightarrow> False
      | Some allowed \<Rightarrow> normalizeState to \<in> allowed)"

definition assertTransition :: "state_machine \<Rightarrow> string \<Rightarrow> string \<Rightarrow> string + unit" where
  "assertTransition m from to =
     (if \<not> isKnownState m from then Inl (''unknown source state: '' @ from)
      else if \<not> isKnownState m to then Inl (''unknown target state: '' @ to)
      else if \<not> canTransition m from to
      then Inl (''invalid transition: '' @ normalizeState from @ '' -> '' @ normalizeState to)
      else Inr ())"

section \<open>Normalisation and the stages\<close>

lemma normalizeState_idem [simp]: "normalizeState (normalizeState s) = normalizeState s"
  by (simp add: normalizeState_def js_trim_lower)

definition normal_key :: "string \<Rightarrow> bool" where
  "normal_key k \<longleftrightarrow> k \<noteq> [] \<and> normalizeState k = k"

lemma normal_key_normalize: "normalizeState s \<noteq> [] \<Longrightarrow> normal_key (normalizeState s)"
  by (simp add: normal_key_def)

lemma uniqueStates_loop_Cons:
  "uniqueStates_loop seen acc (state # states) =
     (if normalizeState state \<in> insert [] seen then uniqueStates_loop seen acc states
      else uniqueStates_loop (insert (normalizeState state) seen)
             (acc @ [normalizeState state]) states)"
  by (simp add: Let_def)

lemma uniqueStates_loop_spec:
  "distinct acc \<Longrightarrow> set acc = seen \<Longrightarrow>
     distinct (uniqueStates_loop seen acc states) \<and>
     set (uniqueStates_loop seen acc states) = seen \<union> (normalizeState ` set states - {[]})"
proof (induction states arbitrary: seen acc)
  case (Cons state states)
  show ?case
  proof (cases "normalizeState state \<in> insert [] seen")
    case True
    then show ?thesis
      using Cons.IH [OF Cons.prems] unfolding uniqueStates_loop_Cons by auto
  next
    case False
    then show ?thesis
      using Cons.IH [of "acc @ [normalizeState state]" "insert (normalizeState state) seen"]
        Cons.prems
      unfolding uniqueStates_loop_Cons by auto
  qed
qed simp

lemma distinct_uniqueStates [simp]: "distinct (uniqueStates states)"
  by (simp add: uniqueStates_def uniqueStates_loop_spec)

lemma set_uniqueStates: "set (uniqueStates states) = normalizeState ` set states - {[]}"
  by (simp add: uniqueStates_def uniqueStates_loop_spec)

lemma uniqueStates_normal: "s \<in> set (uniqueStates states) \<Longrightarrow> normal_key s"
  by (auto simp: set_uniqueStates normal_key_normalize)

text \<open>The stages of a machine: distinct, non-empty, normalised keys.\<close>

definition stages_ok :: "stage list \<Rightarrow> bool" where
  "stages_ok stages \<longleftrightarrow>
     distinct (map stage_key stages) \<and>
     (\<forall>s\<in>set stages. normal_key (stage_key s))"

definition staged_map_ok :: "(string, stage) omap \<Rightarrow> bool" where
  "staged_map_ok m \<longleftrightarrow>
     omap_ok m \<and> (\<forall>p\<in>set m. stage_key (snd p) = fst p \<and> normal_key (fst p))"

lemma staged_map_ok_put: "staged_map_ok m \<Longrightarrow> staged_map_ok (put_stage ts e m)"
  by (cases e) (simp_all add: staged_map_ok_def Let_def set_omap_set normal_key_normalize)

lemma staged_map_ok_fold: "staged_map_ok m \<Longrightarrow> staged_map_ok (fold (put_stage ts) es m)"
  by (induction es arbitrary: m) (auto simp: staged_map_ok_put)

lemma stages_ok_values:
  assumes "staged_map_ok m"
  shows "stages_ok (omap_values m)"
proof -
  have "map stage_key (omap_values m) = map fst m"
    using assms by (simp add: omap_values_def staged_map_ok_def)
  moreover have "\<forall>s\<in>set (omap_values m). normal_key (stage_key s)"
    using assms by (auto simp: omap_values_def staged_map_ok_def)
  ultimately show ?thesis
    using assms unfolding stages_ok_def staged_map_ok_def omap_ok_def by metis
qed

lemma stages_ok_toStageRecord: "stages_ok (toStageRecord input as ts)"
proof (cases "\<exists>e es. input = Some (e # es)")
  case True
  then obtain e es where "input = Some (e # es)" by blast
  moreover have "staged_map_ok (fold (put_stage ts) (e # es) [])"
    by (rule staged_map_ok_fold) (simp add: staged_map_ok_def)
  ultimately show ?thesis
    by (simp add: toStageRecord_def stages_ok_values)
next
  case False
  then have "toStageRecord input as ts =
      map (\<lambda>key. \<lparr>stage_key = key, stage_terminal = key \<in> set ts\<rparr>) (uniqueStates (as @ ts))"
    by (auto simp: toStageRecord_def split: option.splits list.splits)
  then show ?thesis
    by (auto simp: stages_ok_def comp_def dest: uniqueStates_normal)
qed

lemma sm_stages_ok [simp]: "stages_ok (sm_stages (new_StateMachine config))"
  by (simp add: new_StateMachine_def Let_def stages_ok_toStageRecord)

lemma sm_stage_set_new:
  "sm_stage_set (new_StateMachine config) = stage_key ` set (sm_stages (new_StateMachine config))"
  by (simp add: new_StateMachine_def Let_def)

lemma isKnown_new:
  "isKnownState (new_StateMachine config) s \<longleftrightarrow>
     (\<exists>st\<in>set (sm_stages (new_StateMachine config)). stage_key st = normalizeState s)"
  by (metis (no_types, lifting) isKnownState_def sm_stage_set_new image_iff)

section \<open>Transitions\<close>

lemma fold_omap_set_get:
  "omap_get (fold (\<lambda>k m. omap_set k (f k) m) ks m) k =
     (if k \<in> set ks then Some (f k) else omap_get m k)"
  by (induction ks arbitrary: m) auto

lemma allowedTargets_eq:
  "allowedTargets known from raw = insert from (normalizeState ` set raw \<inter> set known)"
proof -
  have "fold (\<lambda>rawTarget allowed.
             let normalizedTarget = normalizeState rawTarget
             in if normalizedTarget \<in> set known then insert normalizedTarget allowed else allowed)
       raw A = A \<union> (normalizeState ` set raw \<inter> set known)" for A
    by (induction raw arbitrary: A) (simp_all add: Let_def)
  then show ?thesis by (simp add: allowedTargets_def)
qed

lemma omap_get_omap_of_keyed:
  assumes "distinct (map f xs)" and "x \<in> set xs"
  shows "omap_get (omap_of (map (\<lambda>x. (f x, g x)) xs)) (f x) = Some (g x)"
proof -
  have "distinct (map fst (rev (map (\<lambda>x. (f x, g x)) xs)))"
    using assms(1) by (simp add: comp_def rev_map flip: distinct_rev [of "map f xs"])
  moreover have "(f x, g x) \<in> set (rev (map (\<lambda>x. (f x, g x)) xs))"
    using assms(2) by auto
  ultimately show ?thesis
    by (simp only: omap_get_of map_of_is_SomeI)
qed

lemma omap_get_omap_of_absent:
  "k \<notin> f ` set xs \<Longrightarrow> omap_get (omap_of (map (\<lambda>x. (f x, g x)) xs)) k = None"
  by (auto simp: omap_get_of map_of_eq_None_iff)

definition terminal_key :: "stage list \<Rightarrow> string \<Rightarrow> bool" where
  "terminal_key stages k \<longleftrightarrow> (\<exists>s\<in>set stages. stage_key s = k \<and> stage_terminal s)"

lemma stage_unique:
  assumes "stages_ok stages" "s \<in> set stages" "s' \<in> set stages" "stage_key s' = stage_key s"
  shows "s' = s"
  using assms by (auto simp: stages_ok_def distinct_map inj_on_def)

lemma terminalByKey_get:
  assumes "stages_ok stages"
  shows "omap_get (omap_of (map (\<lambda>s. (stage_key s, stage_terminal s)) stages)) k = Some True
    \<longleftrightarrow> terminal_key stages k"
proof (cases "k \<in> stage_key ` set stages")
  case True
  then obtain s where s: "s \<in> set stages" "stage_key s = k" by blast
  have "omap_get (omap_of (map (\<lambda>s. (stage_key s, stage_terminal s)) stages)) (stage_key s)
      = Some (stage_terminal s)"
    using assms s(1) by (simp add: omap_get_omap_of_keyed stages_ok_def)
  moreover have "terminal_key stages k \<longleftrightarrow> stage_terminal s"
    unfolding terminal_key_def using stage_unique [OF assms s(1)] s by metis
  ultimately show ?thesis using s(2) by simp
next
  case False
  then have "\<not> terminal_key stages k" by (auto simp: terminal_key_def)
  with False show ?thesis by (simp add: omap_get_omap_of_absent)
qed

lemma default_transition_get:
  assumes "stages_ok stages"
  shows "omap_get (buildDefaultTransitions stages) k =
    (if k \<in> stage_key ` set stages
     then Some (if terminal_key stages k then {k} else stage_key ` set stages)
     else None)"
  by (simp add: buildDefaultTransitions_def Let_def fold_omap_set_get terminalByKey_get [OF assms])

lemma explicit_transition_get:
  "omap_get (buildExplicitTransitions known ex) k =
    (if k \<in> set known
     then Some (case omap_get (omap_of (map (\<lambda>(f, ts). (normalizeState f, ts)) ex)) k of
                  None \<Rightarrow> {k} | Some raw \<Rightarrow> allowedTargets known k raw)
     else None)"
  by (simp add: buildExplicitTransitions_def Let_def fold_omap_set_get)

lemma sm_transition_map_new:
  "sm_transition_map (new_StateMachine config) =
     buildTransitionMap (sm_stages (new_StateMachine config)) (mc_transitions config)"
  by (simp add: new_StateMachine_def Let_def)

lemma isTerminalIn_new:
  "isTerminalIn (new_StateMachine config) s \<longleftrightarrow>
     terminal_key (sm_stages (new_StateMachine config)) (normalizeState s)"
  by (auto simp: isTerminalIn_def terminal_key_def Let_def list_ex_iff)

lemma isKnown_key:
  "isKnownState (new_StateMachine config) s \<longleftrightarrow>
     normalizeState s \<in> stage_key ` set (sm_stages (new_StateMachine config))"
  by (simp add: isKnownState_def sm_stage_set_new)

lemma buildTransitionMap_default:
  "ex = None \<or> ex = Some [] \<Longrightarrow> buildTransitionMap stages ex = buildDefaultTransitions stages"
  by (auto simp: buildTransitionMap_def Let_def)

lemma buildTransitionMap_explicit:
  "buildTransitionMap stages (Some (t # ts)) =
     buildExplicitTransitions (remdups (map stage_key stages)) (t # ts)"
  by (simp add: buildTransitionMap_def Let_def)

definition normalized_entries :: "(string \<times> string list) list \<Rightarrow> (string \<times> string list) list" where
  "normalized_entries ex = map (\<lambda>(f, raw). (normalizeState f, raw)) ex"

lemma canTransition_explicit_aux:
  assumes "mc_transitions config = Some (t # ts)"
  shows "canTransition (new_StateMachine config) from to \<longleftrightarrow>
    isKnownState (new_StateMachine config) from \<and>
    (normalizeState to = normalizeState from \<or>
     isKnownState (new_StateMachine config) to \<and>
     (case map_of (rev (normalized_entries (t # ts))) (normalizeState from) of
        None \<Rightarrow> False
      | Some raw \<Rightarrow> normalizeState to \<in> set (map normalizeState raw)))"
  unfolding canTransition_def sm_transition_map_new assms buildTransitionMap_explicit
    explicit_transition_get isKnown_key allowedTargets_eq omap_get_of normalized_entries_def
  by (auto split: option.splits)

lemma canTransition_default_aux:
  assumes "mc_transitions config = None \<or> mc_transitions config = Some []"
  shows "canTransition (new_StateMachine config) from to \<longleftrightarrow>
    isKnownState (new_StateMachine config) from \<and> isKnownState (new_StateMachine config) to \<and>
    (isTerminalIn (new_StateMachine config) from \<longrightarrow> normalizeState from = normalizeState to)"
  unfolding canTransition_def sm_transition_map_new buildTransitionMap_default [OF assms]
    default_transition_get [OF sm_stages_ok] isKnown_key isTerminalIn_new
  by auto

text \<open>
  With no configured transitions, a machine allows a move exactly between known states, and
  from a terminal state only to itself: terminal states are absorbing, everything else is open.
\<close>

theorem canTransition_default:
  assumes "mc_transitions config = None \<or> mc_transitions config = Some []"
  shows "canTransition (new_StateMachine config) from to \<longleftrightarrow>
    isKnownState (new_StateMachine config) from \<and> isKnownState (new_StateMachine config) to \<and>
    (isTerminalIn (new_StateMachine config) from \<longrightarrow> normalizeState from = normalizeState to)"
  unfolding canTransition_def sm_transition_map_new buildTransitionMap_default [OF assms]
    default_transition_get [OF sm_stages_ok] isKnown_key isTerminalIn_new
  by auto

theorem canTransition_default_witness:
  "\<not> canTransition createDefaultStateMachine ''Done'' ''Todo'' \<and>
   canTransition createDefaultStateMachine '' done'' ''DONE''"
proof -
  have hyp: "mc_transitions \<lparr>mc_stages = None, mc_transitions = None, mc_active = None, mc_terminal = None\<rparr> = None
      \<or> mc_transitions \<lparr>mc_stages = None, mc_transitions = None, mc_active = None, mc_terminal = None\<rparr> = Some []"
    by simp
  show ?thesis
    unfolding createDefaultStateMachine_def canTransition_default [OF hyp]
    by code_simp
qed

text \<open>
  With configured transitions, a move is allowed exactly from a known state to itself or to a
  known state that the last entry normalising to the source names, raw names being compared after
  trimming and lower-casing.
\<close>

theorem canTransition_explicit:
  assumes "mc_transitions config = Some (t # ts)"
  shows "canTransition (new_StateMachine config) from to \<longleftrightarrow>
    isKnownState (new_StateMachine config) from \<and>
    (normalizeState to = normalizeState from \<or>
     isKnownState (new_StateMachine config) to \<and>
     (case map_of (rev (normalized_entries (t # ts))) (normalizeState from) of
        None \<Rightarrow> False
      | Some raw \<Rightarrow> normalizeState to \<in> set (map normalizeState raw)))"
  by (rule canTransition_explicit_aux [OF assms])

definition example_config :: machine_config where
  "example_config =
     \<lparr>mc_stages = Some [StageName '' Todo'', StageObj ''Review'' None, StageObj ''Done'' (Some True)],
      mc_transitions = Some [(''TODO'', [''review'', ''nowhere'']), (''Review '', [''Done''])],
      mc_active = None, mc_terminal = None\<rparr>"

theorem canTransition_explicit_witness:
  "canTransition (new_StateMachine example_config) ''todo'' ''Review'' \<and>
   \<not> canTransition (new_StateMachine example_config) ''todo'' ''Done''"
proof -
  have hyp: "mc_transitions example_config =
      Some ((''TODO'', [''review'', ''nowhere'']) # [(''Review '', [''Done''])])"
    by (simp add: example_config_def)
  show ?thesis
    unfolding canTransition_explicit [OF hyp]
    by code_simp
qed

lemma canTransition_known:
  assumes "canTransition (new_StateMachine config) from to"
  shows "isKnownState (new_StateMachine config) from \<and> isKnownState (new_StateMachine config) to"
proof (cases "\<exists>t ts. mc_transitions config = Some (t # ts)")
  case True
  then obtain t ts where "mc_transitions config = Some (t # ts)" by blast
  with assms show ?thesis
    by (simp add: canTransition_explicit_aux) (metis isKnown_key)
next
  case False
  then have "mc_transitions config = None \<or> mc_transitions config = Some []"
    by (metis list.exhaust option.exhaust)
  with assms show ?thesis by (simp add: canTransition_default_aux)
qed

text \<open>
  C12: \<open>assertTransition\<close> accepts exactly the moves \<open>canTransition\<close> allows, and names the first
  reason otherwise: unknown source, then unknown target, then the refused pair.
\<close>

theorem assertTransition_spec:
  "assertTransition (new_StateMachine config) from to =
     (if canTransition (new_StateMachine config) from to then Inr ()
      else Inl (if \<not> isKnownState (new_StateMachine config) from
                then ''unknown source state: '' @ from
                else if \<not> isKnownState (new_StateMachine config) to
                then ''unknown target state: '' @ to
                else ''invalid transition: '' @ normalizeState from @ '' -> '' @ normalizeState to))"
  using canTransition_known [of config "from" to] by (simp add: assertTransition_def)

text \<open>
  Whatever the configuration, the stages of a machine have distinct, non-empty, trimmed and
  lower-cased keys; without configured stages they are exactly the normalised active and
  terminal states, and a state is terminal exactly when it is one of the terminal states.
\<close>

theorem stages_wellformed:
  "stages_ok (getStages (new_StateMachine config)) \<and>
   (mc_stages config = None \<longrightarrow>
      (isKnownState (new_StateMachine config) s \<longleftrightarrow> normalizeState s \<noteq> [] \<and>
         normalizeState s \<in> set (map normalizeState
           (coalesce (mc_active config) DEFAULT_ACTIVE_STATES @
            coalesce (mc_terminal config) DEFAULT_TERMINAL_STATES))) \<and>
      (isTerminalIn (new_StateMachine config) s \<longleftrightarrow> normalizeState s \<noteq> [] \<and>
         normalizeState s \<in> set (map normalizeState
            (coalesce (mc_terminal config) DEFAULT_TERMINAL_STATES))))"
proof (intro conjI impI)
  show "stages_ok (getStages (new_StateMachine config))" by (simp add: getStages_def)
  let ?as = "coalesce (mc_active config) DEFAULT_ACTIVE_STATES"
  let ?ts = "coalesce (mc_terminal config) DEFAULT_TERMINAL_STATES"
  assume none: "mc_stages config = None"
  have st: "sm_stages (new_StateMachine config) =
      map (\<lambda>key. \<lparr>stage_key = key, stage_terminal = key \<in> set (uniqueStates ?ts)\<rparr>)
        (uniqueStates (uniqueStates ?as @ uniqueStates ?ts))"
    by (simp add: new_StateMachine_def Let_def none toStageRecord_def)
  have un: "normalizeState ` set (uniqueStates xs) = set (uniqueStates xs)" for xs
    by (rule image_cong [where g = id, THEN trans])
      (auto dest!: uniqueStates_normal simp: normal_key_def)
  have keys: "set (uniqueStates (uniqueStates ?as @ uniqueStates ?ts)) =
      set (uniqueStates ?as) \<union> set (uniqueStates ?ts)"
    by (subst set_uniqueStates) (auto simp: image_Un un dest: uniqueStates_normal simp: normal_key_def)
  have im: "stage_key ` set (map (\<lambda>key. \<lparr>stage_key = key, stage_terminal = P key\<rparr>) xs) = set xs"
    for P xs by force
  show "isKnownState (new_StateMachine config) s \<longleftrightarrow> normalizeState s \<noteq> [] \<and>
      normalizeState s \<in> set (map normalizeState (?as @ ?ts))"
    unfolding isKnown_key st im keys by (auto simp: set_uniqueStates)
  show "isTerminalIn (new_StateMachine config) s \<longleftrightarrow> normalizeState s \<noteq> [] \<and>
      normalizeState s \<in> set (map normalizeState ?ts)"
    unfolding isTerminalIn_new terminal_key_def st set_map bex_simps(7) keys
    by (auto simp: set_uniqueStates)
qed

theorem stages_wellformed_witness:
  "isKnownState createDefaultStateMachine ''BACKLOG '' \<and>
   \<not> isTerminalIn createDefaultStateMachine ''todo''"
proof -
  let ?c = "\<lparr>mc_stages = None, mc_transitions = None, mc_active = None, mc_terminal = None\<rparr>"
  have none: "mc_stages ?c = None" by simp
  have "normalizeState ''BACKLOG '' \<noteq> [] \<and> normalizeState ''BACKLOG '' \<in> set (map normalizeState
      (coalesce (mc_active ?c) DEFAULT_ACTIVE_STATES @
       coalesce (mc_terminal ?c) DEFAULT_TERMINAL_STATES))"
    by code_simp
  moreover have "normalizeState ''todo'' \<notin> set (map normalizeState
      (coalesce (mc_terminal ?c) DEFAULT_TERMINAL_STATES))"
    by code_simp
  ultimately show ?thesis
    unfolding createDefaultStateMachine_def using stages_wellformed [of ?c] none by blast
qed

end
