(* ===== verification/CoreTypes.thy ===== *)
theory CoreTypes
  imports Prelude
begin

text \<open>
  \<open>src/src/core/types/*.ts\<close> and \<open>src/src/orchestrator/runtime-types.ts\<close>: the records the
  orchestrator works on. A field of type \<open>T | null\<close> is an \<open>option\<close>; a field that the code can
  also leave \<open>undefined\<close>, and where that shows, is a \<open>jsopt\<close>. Timestamps are ISO strings or
  integer milliseconds as in the source. An \<open>AbortController\<close> is the reason it was aborted with,
  if any; a timer is a number, live while the orchestrator's timer list holds it.

  What depends on the host (\<open>Date.parse\<close>, \<open>localeCompare\<close>, \<open>JSON.parse\<close>, whose results
  follow the engine and its locale) is a field of \<open>host\<close>.
\<close>

section \<open>Host functions\<close>

record host =
  h_date_parse :: "string \<Rightarrow> int option"
  h_locale_compare :: "string \<Rightarrow> string \<Rightarrow> int"
  h_json_parse :: "string \<Rightarrow> json option"

text \<open>\<open>new Date(ms).toISOString()\<close>: proleptic Gregorian calendar, UTC.\<close>

definition pad_nat :: "nat \<Rightarrow> nat \<Rightarrow> string" where
  "pad_nat w n = (let d = digits_of_nat n in replicate (w - length d) CHR ''0'' @ d)"

definition civil_of_days :: "int \<Rightarrow> int \<times> int \<times> int" where
  "civil_of_days days =
     (let z = days + 719468;
          era = z div 146097;
          doe = z mod 146097;
          yoe = (doe - doe div 1460 + doe div 36524 - doe div 146096) div 365;
          doy = doe - (365 * yoe + yoe div 4 - yoe div 100);
          mp = (5 * doy + 2) div 153;
          d = doy - (153 * mp + 2) div 5 + 1;
          m = (if mp < 10 then mp + 3 else mp - 9);
          y = yoe + era * 400 + (if m \<le> 2 then 1 else 0)
      in (y, m, d))"

definition iso_year :: "int \<Rightarrow> string" where
  "iso_year y =
     (if 0 \<le> y \<and> y \<le> 9999 then pad_nat 4 (nat y)
      else (if y < 0 then ''-'' else ''+'') @ pad_nat 6 (nat \<bar>y\<bar>))"

definition iso_of_ms :: "int \<Rightarrow> string" where
  "iso_of_ms ms =
     (let days = ms div 86400000; r = nat (ms mod 86400000); (y, m, d) = civil_of_days days
      in iso_year y @ ''-'' @ pad_nat 2 (nat m) @ ''-'' @ pad_nat 2 (nat d) @ ''T'' @
         pad_nat 2 (r div 3600000) @ '':'' @ pad_nat 2 (r div 60000 mod 60) @ '':'' @
         pad_nat 2 (r div 1000 mod 60) @ ''.'' @ pad_nat 3 (r mod 1000) @ ''Z'')"

section \<open>Issues, models, attempts\<close>

record issue_blocker_ref =
  blk_id :: "string option"
  blk_identifier :: "string option"
  blk_state :: "string option"

record issue =
  issue_id :: string
  issue_identifier :: string
  issue_title :: string
  issue_description :: "string option"
  issue_priority :: "int option"
  issue_state :: string
  issue_branchName :: "string option"
  issue_url :: "string option"
  issue_labels :: "string list"
  issue_blockedBy :: "issue_blocker_ref list"
  issue_createdAt :: "string option"
  issue_updatedAt :: "string option"

record token_usage =
  inputTokens :: int
  outputTokens :: int
  totalTokens :: int

datatype reasoning_effort = EffortNone | Minimal | Low | Medium | High | Xhigh

fun effort_name :: "reasoning_effort \<Rightarrow> string" where
  "effort_name EffortNone = ''none''"
| "effort_name Minimal = ''minimal''"
| "effort_name Low = ''low''"
| "effort_name Medium = ''medium''"
| "effort_name High = ''high''"
| "effort_name Xhigh = ''xhigh''"

datatype model_source = DefaultSource | OverrideSource

fun source_name :: "model_source \<Rightarrow> string" where
  "source_name DefaultSource = ''default''"
| "source_name OverrideSource = ''override''"

record model_override =
  ov_model :: string
  ov_effort :: "reasoning_effort jsopt"

record model_selection =
  sel_model :: string
  sel_effort :: "reasoning_effort jsopt"
  sel_source :: model_source

datatype outcome_kind = Normal | Failed | TimedOut | Stalled | Cancelled

record codex_error_info =
  cei_type :: string
  cei_message :: string
  cei_retryAfterMs :: "int option"

record run_outcome =
  out_kind :: outcome_kind
  out_errorCode :: "string option"
  out_errorMessage :: "string option"
  out_codexErrorInfo :: "codex_error_info option"
  out_threadId :: "string option"
  out_turnId :: "string option"
  out_turnCount :: int

datatype stop_signal = Done | Blocked

fun stop_signal_name :: "stop_signal \<Rightarrow> string" where
  "stop_signal_name Done = ''done''"
| "stop_signal_name Blocked = ''blocked''"

datatype attempt_status =
  ARunning | ACompleted | AFailed | ATimedOut | AStalled | ACancelled | APaused

fun attempt_status_name :: "attempt_status \<Rightarrow> string" where
  "attempt_status_name ARunning = ''running''"
| "attempt_status_name ACompleted = ''completed''"
| "attempt_status_name AFailed = ''failed''"
| "attempt_status_name ATimedOut = ''timed_out''"
| "attempt_status_name AStalled = ''stalled''"
| "attempt_status_name ACancelled = ''cancelled''"
| "attempt_status_name APaused = ''paused''"

record attempt_record =
  at_attemptId :: string
  at_issueId :: string
  at_issueIdentifier :: string
  at_title :: string
  at_workspaceKey :: "string option"
  at_workspacePath :: "string option"
  at_status :: attempt_status
  at_attemptNumber :: "int option"
  at_startedAt :: string
  at_endedAt :: "string option"
  at_model :: string
  at_reasoningEffort :: "reasoning_effort jsopt"
  at_modelSource :: model_source
  at_threadId :: "string option"
  at_turnId :: "string option"
  at_turnCount :: int
  at_errorCode :: "string option"
  at_errorMessage :: "string option"
  at_tokenUsage :: "token_usage option"
  at_pullRequestUrl :: "string jsopt"
  at_stopSignal :: "stop_signal jsopt"
  at_summary :: "string jsopt"

text \<open>
  An event pushed by a handler or a worker. \<open>content\<close> and \<open>metadata\<close> are only ever read through
  \<open>?? null\<close>, so absent and \<open>null\<close> coincide there; \<open>rateLimits\<close> is tested against
  \<open>undefined\<close>.
\<close>

datatype usage_mode = AbsoluteTotal | Delta

record runtime_event =
  ev_at :: string
  ev_issueId :: "string option"
  ev_issueIdentifier :: "string option"
  ev_sessionId :: "string option"
  ev_event :: string
  ev_message :: string
  ev_content :: "string option"
  ev_metadata :: "json option"
  ev_usage :: "token_usage option"
  ev_usageMode :: "usage_mode option"
  ev_rateLimits :: "json jsopt"
  ev_stopSignal :: "stop_signal option"

record recent_event =
  rec_at :: string
  rec_issueId :: "string option"
  rec_issueIdentifier :: "string option"
  rec_sessionId :: "string option"
  rec_event :: string
  rec_message :: string
  rec_content :: "string option"
  rec_metadata :: "json option"

text \<open>\<open>createLifecycleEvent\<close> of \<open>src/src/core/lifecycle-events.ts\<close>; \<open>now\<close> is \<open>new Date()\<close>.\<close>

definition createLifecycleEvent ::
  "string \<Rightarrow> string option \<Rightarrow> issue \<Rightarrow> string \<Rightarrow> string \<Rightarrow> string option \<Rightarrow> json option \<Rightarrow>
     runtime_event" where
  "createLifecycleEvent now_iso at_iso i event message sessionId metadata =
     \<lparr>ev_at = coalesce at_iso now_iso,
      ev_issueId = Some (issue_id i), ev_issueIdentifier = Some (issue_identifier i),
      ev_sessionId = sessionId, ev_event = event, ev_message = message, ev_content = None,
      ev_metadata = metadata, ev_usage = None, ev_usageMode = None, ev_rateLimits = Undef,
      ev_stopSignal = None\<rparr>"

section \<open>Configuration\<close>

datatype stage_kind = KBacklog | KTodo | KActive | KGate | KTerminal | KOther

record stage_config =
  sc_name :: string
  sc_kind :: stage_kind

record state_machine_config =
  smc_stages :: "stage_config list"
  smc_transitions :: "(string \<times> string list) list"

datatype workspace_strategy = DirectoryStrategy | WorktreeStrategy

record service_config =
  trk_activeStates :: "string list"
  trk_terminalStates :: "string list"
  cfg_stateMachine :: "state_machine_config option"
  cfg_intervalMs :: int
  cfg_workspaceRoot :: string
  cfg_strategy :: workspace_strategy
  cfg_branchPrefix :: string
  maxConcurrentAgents :: int
  maxConcurrentAgentsByState :: "(string, int) omap"
  maxRetryBackoffMs :: int
  maxContinuationAttempts :: int
  successState :: "string option"
  autoClaim :: bool
  codex_model :: string
  codex_reasoningEffort :: "reasoning_effort option"
  codex_stallTimeoutMs :: int

section \<open>Runtime entries\<close>

record workspace =
  ws_path :: string
  ws_key :: string
  ws_createdNow :: bool

record repo_match =
  rm_repoUrl :: string
  rm_defaultBranch :: string
  rm_githubOwner :: "string option"
  rm_githubRepo :: "string option"
  rm_githubTokenEnv :: string

datatype entry_status = SRunning | SStopping

fun entry_status_name :: "entry_status \<Rightarrow> string" where
  "entry_status_name SRunning = ''running''"
| "entry_status_name SStopping = ''stopping''"

record running_entry =
  en_runId :: string
  en_issue :: issue
  en_workspace :: workspace
  en_startedAtMs :: int
  en_lastEventAtMs :: int
  en_attempt :: "int option"
  en_aborted :: "string option"
  en_cleanupOnExit :: bool
  en_status :: entry_status
  en_sessionId :: "string option"
  en_tokenUsage :: "token_usage option"
  en_modelSelection :: model_selection
  en_lastAgentMessageContent :: "string option"
  en_lastStopSignal :: "stop_signal option"
  en_repoMatch :: "repo_match option"
  en_steerReady :: bool

text \<open>\<open>AbortController.abort(reason)\<close>: the first reason stays.\<close>

definition abort_entry :: "string \<Rightarrow> running_entry \<Rightarrow> running_entry" where
  "abort_entry reason e =
     (case en_aborted e of None \<Rightarrow> e\<lparr>en_aborted := Some reason\<rparr> | Some _ \<Rightarrow> e)"

definition is_aborted :: "running_entry \<Rightarrow> bool" where
  "is_aborted e \<longleftrightarrow> en_aborted e \<noteq> None"

record retry_entry =
  re_issueId :: string
  re_identifier :: string
  re_attempt :: int
  re_dueAtMs :: int
  re_error :: "string option"
  re_timer :: "nat option"
  re_threadId :: "string option"
  re_issue :: issue
  re_workspaceKey :: "string option"

record stall_event =
  st_at :: string
  st_issueId :: string
  st_issueIdentifier :: string
  st_silentMs :: int
  st_timeoutMs :: int

section \<open>Views\<close>

record issue_view =
  v_issueId :: string
  v_identifier :: string
  v_title :: string
  v_state :: string
  v_workspaceKey :: "string option"
  v_workspacePath :: "string jsopt"
  v_message :: "string jsopt"
  v_status :: string
  v_updatedAt :: string
  v_attempt :: "int jsopt"
  v_error :: "string jsopt"
  v_priority :: "int jsopt"
  v_labels :: "string list jsopt"
  v_startedAt :: "string jsopt"
  v_lastEventAt :: "string jsopt"
  v_tokenUsage :: "token_usage jsopt"
  v_model :: "string jsopt"
  v_reasoningEffort :: "reasoning_effort jsopt"
  v_modelSource :: "model_source jsopt"
  v_configuredModel :: "string jsopt"
  v_configuredReasoningEffort :: "reasoning_effort jsopt"
  v_configuredModelSource :: "model_source jsopt"
  v_modelChangePending :: "bool jsopt"
  v_configuredTemplateId :: "string jsopt"
  v_configuredTemplateName :: "string jsopt"
  v_url :: "string jsopt"
  v_description :: "string jsopt"
  v_blockedBy :: "issue_blocker_ref list jsopt"
  v_branchName :: "string jsopt"
  v_pullRequestUrl :: "string jsopt"
  v_nextRetryDueAt :: "string jsopt"
  v_createdAt :: "string jsopt"

section \<open>Effects\<close>

text \<open>
  Calls to the ports (attempt store, tracker, workspace manager, notification manager, event bus,
  issue-configuration store, agent runner) leave the process: the model records each call, with
  its arguments, in the order they are made. Calls to the logger, the metrics and the
  observability recorder are left out.
\<close>

datatype notification_type =
  NIssueClaimed | NWorkerLaunched | NWorkerCompleted | NWorkerRetry | NWorkerFailed

datatype severity = Info | Warning | Critical

record issue_ref =
  ir_id :: string
  ir_identifier :: string
  ir_title :: string
  ir_state :: string
  ir_url :: "string option"

record notification =
  nt_type :: notification_type
  nt_severity :: severity
  nt_timestamp :: string
  nt_message :: string
  nt_issue :: issue_ref
  nt_attempt :: "int option"
  nt_metadata :: "json jsopt"

datatype effect =
    UpdateAttempt string "(string \<times> json) list"
  | CreateAttempt attempt_record
  | AppendEvent string string "(string \<times> json) list"
  | AppendCheckpoint string "(string \<times> json) list"
  | UpsertPr "(string \<times> json) list"
  | Notify notification
  | Emit string "(string \<times> json) list"
  | CreateComment string string
  | UpdateIssueState string string
  | RemoveWorkspace string
  | RemoveContainer string
  | AbortSignal string string
  | RunAttempt string "int option" model_selection "string option"
  | GitPostRun string
  | SteerTurn string string
  | UpsertModel string string "reasoning_effort option"
  | UpsertTemplateId string string
  | ClearTemplateId string

fun js_effort :: "reasoning_effort jsopt \<Rightarrow> json" where
  "js_effort (Val e) = JStr (effort_name e)"
| "js_effort _ = JNull"

definition js_usage :: "token_usage \<Rightarrow> json" where
  "js_usage u = JObj [(''inputTokens'', JNum (inputTokens u)),
     (''outputTokens'', JNum (outputTokens u)), (''totalTokens'', JNum (totalTokens u))]"

end
