(* ===== verification/StatePolicy.thy ===== *)
theory StatePolicy
  imports StateMachine CoreTypes
begin

text \<open>
  \<open>src/src/state/policy.ts\<close> and \<open>src/src/workflow/columns.ts\<close>: which tracker states are active,
  terminal, todo or gate states under a configuration, and the board columns built from them.
  The \<open>WeakMap\<close> caches of the source hold values computed from the same configuration object;
  the model computes the value. The interface \<open>stage_policy\<close> is what the orchestrator asks of it.
\<close>

section \<open>Operations\<close>

definition normalizeStateKey :: "string \<Rightarrow> string" where
  "normalizeStateKey state = js_lower (js_trim state)"

definition normalizeStateList :: "string list \<Rightarrow> string list" where
  "normalizeStateList states = uniqueStates states"

definition getStateMachine :: "service_config \<Rightarrow> state_machine" where
  "getStateMachine config =
     (case cfg_stateMachine config of
        None \<Rightarrow>
          new_StateMachine \<lparr>mc_stages = None, mc_transitions = None,
            mc_active = Some (trk_activeStates config),
            mc_terminal = Some (trk_terminalStates config)\<rparr>
      | Some smc \<Rightarrow>
          new_StateMachine \<lparr>mc_stages =
              Some (map (\<lambda>stage. StageObj (sc_name stage) (Some (sc_kind stage = KTerminal))) (smc_stages smc)),
            mc_transitions = Some (smc_transitions smc),
            mc_active = Some (trk_activeStates config),
            mc_terminal = Some (trk_terminalStates config)\<rparr>)"

definition isTerminalState :: "string \<Rightarrow> service_config \<Rightarrow> bool" where
  "isTerminalState state config = isTerminalIn (getStateMachine config) state"

record stage_sets =
  ss_activeOrTodo :: "string set"
  ss_gate :: "string set"
  ss_todo :: "string set"

definition add_stage_sets :: "stage_config \<Rightarrow> stage_sets \<Rightarrow> stage_sets" where
  "add_stage_sets stage acc =
     (let normalizedStage = normalizeStateKey (sc_name stage);
          acc1 = (if sc_kind stage = KActive \<or> sc_kind stage = KTodo
                  then acc\<lparr>ss_activeOrTodo := insert normalizedStage (ss_activeOrTodo acc)\<rparr> else acc);
          acc2 = (if sc_kind stage = KGate
                  then acc1\<lparr>ss_gate := insert normalizedStage (ss_gate acc1)\<rparr> else acc1)
      in (if sc_kind stage = KTodo
          then acc2\<lparr>ss_todo := insert normalizedStage (ss_todo acc2)\<rparr> else acc2))"

definition getStageSets :: "state_machine_config \<Rightarrow> stage_sets" where
  "getStageSets smc =
     fold add_stage_sets (smc_stages smc) \<lparr>ss_activeOrTodo = {}, ss_gate = {}, ss_todo = {}\<rparr>"

definition isActiveState :: "string \<Rightarrow> service_config \<Rightarrow> bool" where
  "isActiveState state config =
     (case cfg_stateMachine config of
        Some smc \<Rightarrow> normalizeStateKey state \<in> ss_activeOrTodo (getStageSets smc)
      | None \<Rightarrow> normalizeStateKey state \<in> set (normalizeStateList (trk_activeStates config)))"

definition isGateState :: "string \<Rightarrow> service_config \<Rightarrow> bool" where
  "isGateState state config =
     (case cfg_stateMachine config of
        Some smc \<Rightarrow> normalizeStateKey state \<in> ss_gate (getStageSets smc)
      | None \<Rightarrow> False)"

definition isTodoState :: "string \<Rightarrow> service_config \<Rightarrow> bool" where
  "isTodoState state config =
     (case cfg_stateMachine config of
        Some smc \<Rightarrow> normalizeStateKey state \<in> ss_todo (getStageSets smc)
      | None \<Rightarrow> normalizeStateKey state = ''todo'')"

record workflow_stage =
  wf_key :: string
  wf_label :: string
  wf_kind :: stage_kind
  wf_terminal :: bool

definition appendStage ::
  "workflow_stage \<Rightarrow> workflow_stage list \<times> string set \<Rightarrow> workflow_stage list \<times> string set" where
  "appendStage stage acc =
     (let (stages, seen) = acc
      in if wf_key stage = [] \<or> wf_key stage \<in> seen then (stages, seen)
         else (stages @ [stage], insert (wf_key stage) seen))"

definition active_stage :: "string \<Rightarrow> workflow_stage" where
  "active_stage state =
     (let key = normalizeStateKey state;
          kind = (if key = ''backlog'' then KBacklog else if key = ''todo'' then KTodo else KActive)
      in \<lparr>wf_key = key, wf_label = state, wf_kind = kind, wf_terminal = False\<rparr>)"

definition terminal_stage :: "string \<Rightarrow> workflow_stage" where
  "terminal_stage label =
     \<lparr>wf_key = normalizeStateKey label, wf_label = label, wf_kind = KTerminal, wf_terminal = True\<rparr>"

definition configured_stage :: "stage_config \<Rightarrow> workflow_stage" where
  "configured_stage stage =
     \<lparr>wf_key = normalizeStateKey (sc_name stage), wf_label = sc_name stage, wf_kind = sc_kind stage,
      wf_terminal = (sc_kind stage = KTerminal)\<rparr>"

definition listWorkflowStages :: "service_config \<Rightarrow> workflow_stage list" where
  "listWorkflowStages config =
     (let configured = (case cfg_stateMachine config of None \<Rightarrow> [] | Some smc \<Rightarrow> smc_stages smc)
      in if configured \<noteq> []
         then fst (fold appendStage (map configured_stage configured) ([], {}))
         else fst (fold appendStage
                (map active_stage (trk_activeStates config) @
                 map terminal_stage (trk_terminalStates config)) ([], {})))"

section \<open>Board columns\<close>

record column =
  col_key :: string
  col_label :: string
  col_kind :: stage_kind
  col_terminal :: bool
  col_count :: nat
  col_issues :: "issue_view list"

definition view_key :: "issue_view \<Rightarrow> string" where
  "view_key item = (if v_identifier item \<noteq> [] then v_identifier item else v_issueId item)"

fun dedupe_loop :: "string set \<Rightarrow> issue_view list \<Rightarrow> issue_view list \<Rightarrow> issue_view list" where
  "dedupe_loop seen unique [] = unique"
| "dedupe_loop seen unique (item # items) =
     (if view_key item = [] \<or> view_key item \<in> seen then dedupe_loop seen unique items
      else dedupe_loop (insert (view_key item) seen) (unique @ [item]) items)"

definition dedupeIssueViews :: "issue_view list \<Rightarrow> issue_view list" where
  "dedupeIssueViews items = dedupe_loop {} [] items"

definition empty_column :: "workflow_stage \<Rightarrow> column" where
  "empty_column stage =
     \<lparr>col_key = wf_key stage, col_label = wf_label stage, col_kind = wf_kind stage,
      col_terminal = wf_terminal stage, col_count = 0, col_issues = []\<rparr>"

definition push_issue :: "issue_view \<Rightarrow> column \<Rightarrow> column" where
  "push_issue item column =
     column\<lparr>col_issues := col_issues column @ [item], col_count := col_count column + 1\<rparr>"

definition place_item ::
  "issue_view \<Rightarrow> (string, column) omap \<times> issue_view list \<Rightarrow> (string, column) omap \<times> issue_view list" where
  "place_item item acc =
     (let (columns, otherItems) = acc; key = normalizeStateKey (v_state item)
      in case omap_get columns key of
           Some _ \<Rightarrow> (omap_update key (push_issue item) columns, otherItems)
         | None \<Rightarrow> (columns, otherItems @ [item]))"

definition buildWorkflowColumns ::
  "service_config \<Rightarrow> issue_view list \<Rightarrow> issue_view list \<Rightarrow> issue_view list option \<Rightarrow>
     issue_view list option \<Rightarrow> column list" where
  "buildWorkflowColumns config running retrying queued completed =
     (let stages = listWorkflowStages config;
          columns = fold (\<lambda>stage m. omap_set (wf_key stage) (empty_column stage) m) stages [];
          items = dedupeIssueViews (running @ retrying @ coalesce queued [] @ coalesce completed []);
          (columns', otherItems) = fold place_item items (columns, []);
          ordered = List.map_filter (\<lambda>stage. omap_get columns' (wf_key stage)) stages
      in if otherItems \<noteq> []
         then ordered @ [\<lparr>col_key = ''other'', col_label = ''Other'', col_kind = KOther,
                col_terminal = False, col_count = length otherItems, col_issues = otherItems\<rparr>]
         else ordered)"

section \<open>Active, terminal, todo and gate states\<close>

lemma normalizeStateKey_eq: "normalizeStateKey = normalizeState"
  by (rule ext) (simp add: normalizeStateKey_def normalizeState_def)

definition stage_names :: "stage_config list \<Rightarrow> stage_kind set \<Rightarrow> string set" where
  "stage_names stages kinds =
     normalizeState ` sc_name ` {s \<in> set stages. sc_kind s \<in> kinds}"

lemma stage_names_Nil [simp]: "stage_names [] K = {}"
  by (simp add: stage_names_def)

lemma stage_names_Cons:
  "stage_names (s # ss) K =
     (if sc_kind s \<in> K then insert (normalizeState (sc_name s)) (stage_names ss K) else stage_names ss K)"
  by (auto simp: stage_names_def)

lemma fold_add_stage_sets:
  "ss_activeOrTodo (fold add_stage_sets ss acc) = ss_activeOrTodo acc \<union> stage_names ss {KActive, KTodo}
   \<and> ss_gate (fold add_stage_sets ss acc) = ss_gate acc \<union> stage_names ss {KGate}
   \<and> ss_todo (fold add_stage_sets ss acc) = ss_todo acc \<union> stage_names ss {KTodo}"
  by (induction ss arbitrary: acc)
    (auto simp: stage_names_Cons add_stage_sets_def Let_def normalizeStateKey_eq)

lemma getStageSets_eq:
  "ss_activeOrTodo (getStageSets smc) = stage_names (smc_stages smc) {KActive, KTodo}"
  "ss_gate (getStageSets smc) = stage_names (smc_stages smc) {KGate}"
  "ss_todo (getStageSets smc) = stage_names (smc_stages smc) {KTodo}"
  by (simp_all add: getStageSets_def fold_add_stage_sets)

text \<open>
  What the orchestrator relies on: a verdict depends on the state only up to surrounding spaces and
  letter case.
\<close>

locale stage_policy =
  fixes norm_key :: "string \<Rightarrow> string"
    and verdict :: "string \<Rightarrow> 'c \<Rightarrow> bool"
  assumes norm_idem: "norm_key (norm_key s) = norm_key s"
    and verdict_norm: "verdict (norm_key s) c = verdict s c"
begin

lemma verdict_cong: "norm_key s = norm_key t \<Longrightarrow> verdict s c = verdict t c"
  by (metis verdict_norm)

end

interpretation active_policy: stage_policy normalizeStateKey isActiveState
  by unfold_locales
    (simp_all add: normalizeStateKey_eq isActiveState_def split: option.splits)

interpretation todo_policy: stage_policy normalizeStateKey isTodoState
  by unfold_locales
    (simp_all add: normalizeStateKey_eq isTodoState_def split: option.splits)

interpretation gate_policy: stage_policy normalizeStateKey isGateState
  by unfold_locales
    (simp_all add: normalizeStateKey_eq isGateState_def split: option.splits)

interpretation terminal_policy: stage_policy normalizeStateKey isTerminalState
  by unfold_locales
    (simp_all add: normalizeStateKey_eq isTerminalState_def isTerminalIn_def)

section \<open>Columns\<close>

lemma fold_appendStage:
  assumes "distinct (map wf_key stages)" and "set (map wf_key stages) = seen"
    and "\<forall>s\<in>set stages. wf_key s \<noteq> []"
  shows "distinct (map wf_key (fst (fold appendStage new (stages, seen))))
    \<and> (\<forall>s\<in>set (fst (fold appendStage new (stages, seen))). wf_key s \<noteq> [])
    \<and> set (map wf_key (fst (fold appendStage new (stages, seen)))) =
        seen \<union> (wf_key ` set new - {[]})
    \<and> set (fst (fold appendStage new (stages, seen))) \<subseteq> set stages \<union> set new"
  using assms
proof (induction new arbitrary: stages seen)
  case (Cons s new)
  show ?case
  proof (cases "wf_key s \<in> insert [] seen")
    case True
    then have "appendStage s (stages, seen) = (stages, seen)"
      by (auto simp: appendStage_def)
    with True show ?thesis using Cons.IH [OF Cons.prems] by auto
  next
    case False
    then have "appendStage s (stages, seen) = (stages @ [s], insert (wf_key s) seen)"
      by (auto simp: appendStage_def)
    with False show ?thesis
      using Cons.IH [of "stages @ [s]" "insert (wf_key s) seen"] Cons.prems by auto
  qed
qed simp

definition stage_inputs :: "service_config \<Rightarrow> workflow_stage list" where
  "stage_inputs config =
     (let configured = (case cfg_stateMachine config of None \<Rightarrow> [] | Some smc \<Rightarrow> smc_stages smc)
      in if configured \<noteq> [] then map configured_stage configured
         else map active_stage (trk_activeStates config) @ map terminal_stage (trk_terminalStates config))"

lemma listWorkflowStages_eq:
  "listWorkflowStages config = fst (fold appendStage (stage_inputs config) ([], {}))"
  unfolding listWorkflowStages_def stage_inputs_def Let_def by (simp del: fold_append)

lemma listWorkflowStages_distinct: "distinct (map wf_key (listWorkflowStages config))"
  unfolding listWorkflowStages_eq using fold_appendStage [of "[]" "{}"] by simp

lemma listWorkflowStages_nonempty: "s \<in> set (listWorkflowStages config) \<Longrightarrow> wf_key s \<noteq> []"
  unfolding listWorkflowStages_eq using fold_appendStage [of "[]" "{}"] by simp

lemma dedupe_loop_spec:
  assumes "view_key ` set unique = seen" and "distinct (map view_key unique)"
    and "[] \<notin> seen"
  shows "distinct (map view_key (dedupe_loop seen unique items))
    \<and> set (map view_key (dedupe_loop seen unique items)) = seen \<union> (view_key ` set items - {[]})
    \<and> set (dedupe_loop seen unique items) \<subseteq> set unique \<union> set items"
  using assms
proof (induction items arbitrary: seen unique)
  case (Cons item items)
  show ?case
  proof (cases "view_key item = [] \<or> view_key item \<in> seen")
    case True
    then show ?thesis using Cons.IH [OF Cons.prems] by auto
  next
    case False
    have "distinct (map view_key (unique @ [item]))"
      using Cons.prems False by auto
    then show ?thesis
      using Cons.IH [of "unique @ [item]" "insert (view_key item) seen"] Cons.prems False
      by (simp add: insert_Diff_if)
  qed
qed simp

lemma dedupeIssueViews_keys:
  "distinct (map view_key (dedupeIssueViews items))"
  "set (map view_key (dedupeIssueViews items)) = view_key ` set items - {[]}"
  "set (dedupeIssueViews items) \<subseteq> set items"
  using dedupe_loop_spec [of "[]" "{}" items] by (auto simp: dedupeIssueViews_def)

text \<open>
  Placing items keeps the columns' keys; every column then holds the items of its state in order,
  and the rest are the items whose state has no column.
\<close>

definition item_key :: "issue_view \<Rightarrow> string" where
  "item_key item = normalizeStateKey (v_state item)"

lemma fold_place_item:
  "fold place_item items (columns, others) =
     (omap_map (\<lambda>k c. c\<lparr>col_issues := col_issues c @ filter (\<lambda>i. item_key i = k) items,
                         col_count := col_count c + length (filter (\<lambda>i. item_key i = k) items)\<rparr>) columns,
      others @ filter (\<lambda>i. item_key i \<notin> set (omap_keys columns)) items)"
proof (induction items arbitrary: columns others)
  case Nil
  show ?case by (simp add: omap_map_def case_prod_beta)
next
  case (Cons item items)
  show ?case
  proof (cases "item_key item \<in> set (omap_keys columns)")
    case True
    then obtain c where "omap_get columns (item_key item) = Some c"
      by (auto simp: omap_keys_get)
    then have "place_item item (columns, others) =
        (omap_update (item_key item) (push_issue item) columns, others)"
      by (simp add: place_item_def item_key_def)
    with True show ?thesis
      by (simp add: Cons.IH)
        (auto simp: omap_map_def omap_update_def push_issue_def intro!: map_cong)
  next
    case False
    then have "place_item item (columns, others) = (columns, others @ [item])"
      by (simp add: place_item_def item_key_def omap_keys_get split: option.splits)
    moreover have "omap_map (\<lambda>k c. c\<lparr>col_issues := col_issues c @ filter (\<lambda>i. item_key i = k) items,
         col_count := col_count c + length (filter (\<lambda>i. item_key i = k) items)\<rparr>) columns =
       omap_map (\<lambda>k c. c\<lparr>col_issues := col_issues c @ filter (\<lambda>i. item_key i = k) (item # items),
         col_count := col_count c + length (filter (\<lambda>i. item_key i = k) (item # items))\<rparr>) columns"
      using False unfolding omap_map_def omap_keys_def
      by (intro map_cong [OF refl]) (force simp: image_iff split: prod.splits)
    ultimately show ?thesis using False by (simp add: Cons.IH)
  qed
qed

lemma stage_columns_get:
  assumes "distinct (map wf_key stages)"
  shows "omap_get (fold (\<lambda>stage m. omap_set (wf_key stage) (empty_column stage) m) stages m) k =
    (case find (\<lambda>s. wf_key s = k) stages of
       Some s \<Rightarrow> Some (empty_column s) | None \<Rightarrow> omap_get m k)"
  using assms
proof (induction stages arbitrary: m)
  case (Cons s stages)
  show ?case
  proof (cases "wf_key s = k")
    case True
    then have "find (\<lambda>s. wf_key s = k) stages = None"
      using Cons.prems by (auto simp: find_None_iff image_iff)
    with True Cons show ?thesis by simp
  qed (use Cons in \<open>simp split: option.splits\<close>)
qed simp

lemma find_distinct_key:
  assumes "distinct (map wf_key stages)" and "s \<in> set stages"
  shows "find (\<lambda>s'. wf_key s' = wf_key s) stages = Some s"
  using assms by (induction stages) auto

text \<open>The board in closed form: one column per stage, in stage order, then the rest.\<close>

definition stage_column :: "issue_view list \<Rightarrow> workflow_stage \<Rightarrow> column" where
  "stage_column items s =
     (empty_column s)\<lparr>col_issues := filter (\<lambda>i. item_key i = wf_key s) items,
        col_count := length (filter (\<lambda>i. item_key i = wf_key s) items)\<rparr>"

lemma map_filter_all_Some:
  "(\<And>x. x \<in> set xs \<Longrightarrow> f x = Some (g x)) \<Longrightarrow> List.map_filter f xs = map g xs"
  by (induction xs) auto

lemma buildWorkflowColumns_eq:
  "buildWorkflowColumns config running retrying queued completed =
     (let items = dedupeIssueViews (running @ retrying @ coalesce queued [] @ coalesce completed []);
          stages = listWorkflowStages config;
          others = filter (\<lambda>i. item_key i \<notin> wf_key ` set stages) items
      in map (stage_column items) stages @
         (if others \<noteq> [] then [\<lparr>col_key = ''other'', col_label = ''Other'', col_kind = KOther,
            col_terminal = False, col_count = length others, col_issues = others\<rparr>] else []))"
proof -
  define items where
    "items = dedupeIssueViews (running @ retrying @ coalesce queued [] @ coalesce completed [])"
  define stages where "stages = listWorkflowStages config"
  define cols where
    "cols = fold (\<lambda>stage m. omap_set (wf_key stage) (empty_column stage) m) stages []"
  have dist: "distinct (map wf_key stages)" by (simp add: stages_def listWorkflowStages_distinct)
  have get: "omap_get cols k =
      map_option empty_column (find (\<lambda>s. wf_key s = k) stages)" for k
    using stage_columns_get [OF dist, of "[]" k] by (simp add: cols_def split: option.splits)
  have keys: "set (omap_keys cols) = wf_key ` set stages"
    by (auto simp: omap_keys_get get find_None_iff image_iff)
  have place: "fold place_item items (cols, []) =
      (omap_map (\<lambda>k c. c\<lparr>col_issues := col_issues c @ filter (\<lambda>i. item_key i = k) items,
                 col_count := col_count c + length (filter (\<lambda>i. item_key i = k) items)\<rparr>) cols,
       filter (\<lambda>i. item_key i \<notin> wf_key ` set stages) items)"
    by (simp add: fold_place_item keys)
  have "List.map_filter (\<lambda>s. omap_get (fst (fold place_item items (cols, []))) (wf_key s)) stages
      = map (stage_column items) stages"
    by (rule map_filter_all_Some)
      (simp add: place get find_distinct_key [OF dist] stage_column_def empty_column_def)
  then show ?thesis
    unfolding buildWorkflowColumns_def Let_def
    by (simp add: place flip: items_def stages_def cols_def)
qed

lemma mset_partition_by_key:
  assumes "distinct ks"
  shows "mset (concat (map (\<lambda>k. filter (\<lambda>i. f i = k) items) ks)) +
      mset (filter (\<lambda>i. f i \<notin> set ks) items) = mset items"
  using assms
proof (induction ks)
  case (Cons k ks)
  have "filter_mset (\<lambda>i. f i \<notin> set ks) (mset items) =
      filter_mset (\<lambda>i. f i = k) (mset items) + filter_mset (\<lambda>i. f i \<notin> set (k # ks)) (mset items)"
    using Cons.prems by (induction items) auto
  with Cons show ?case by (simp add: ac_simps)
qed simp

text \<open>
  The board loses no issue and shows none twice. Over the de-duplicated runtime views, the
  columns' issues taken together are exactly those views; every count is the length of its
  column; the stage columns come in stage order, and an issue stands in the column of its state.
\<close>

theorem workflow_columns_partition:
  fixes config running retrying queued completed
  defines "cols \<equiv> buildWorkflowColumns config running retrying queued completed"
    and "items \<equiv> dedupeIssueViews (running @ retrying @ coalesce queued [] @ coalesce completed [])"
    and "n \<equiv> length (listWorkflowStages config)"
  shows "mset (concat (map col_issues cols)) = mset items \<and>
    list_all (\<lambda>c. col_count c = length (col_issues c)) cols \<and>
    map col_key (take n cols) = map wf_key (listWorkflowStages config) \<and>
    list_all (\<lambda>c. list_all (\<lambda>i. item_key i = col_key c) (col_issues c)) (take n cols) \<and>
    length (drop n cols) \<le> 1"
proof -
  let ?stages = "listWorkflowStages config"
  have conc: "concat (map col_issues (map (stage_column items) ?stages)) =
      concat (map (\<lambda>k. filter (\<lambda>i. item_key i = k) items) (map wf_key ?stages))"
    by (simp add: comp_def stage_column_def)
  have part: "mset (concat (map (\<lambda>k. filter (\<lambda>i. item_key i = k) items) (map wf_key ?stages))) +
      mset (filter (\<lambda>i. item_key i \<notin> wf_key ` set ?stages) items) = mset items"
    using mset_partition_by_key [OF listWorkflowStages_distinct [of config], of item_key items]
    by simp
  have eq: "cols = map (stage_column items) ?stages @
     (let others = filter (\<lambda>i. item_key i \<notin> wf_key ` set ?stages) items
      in if others \<noteq> [] then [\<lparr>col_key = ''other'', col_label = ''Other'', col_kind = KOther,
            col_terminal = False, col_count = length others, col_issues = others\<rparr>] else [])"
    unfolding cols_def buildWorkflowColumns_eq Let_def items_def by simp
  have take: "take n cols = map (stage_column items) ?stages"
    by (simp add: eq n_def)
  have "concat (map col_issues cols) =
      concat (map col_issues (map (stage_column items) ?stages)) @
      filter (\<lambda>i. item_key i \<notin> wf_key ` set ?stages) items"
    unfolding eq Let_def by auto
  then have "mset (concat (map col_issues cols)) = mset items"
    unfolding conc by (simp only: mset_append part)
  moreover have "list_all (\<lambda>c. col_count c = length (col_issues c)) cols"
    unfolding eq Let_def by (auto simp: list_all_iff stage_column_def empty_column_def)
  moreover have "map col_key (take n cols) = map wf_key ?stages"
    unfolding take by (simp add: stage_column_def empty_column_def)
  moreover have "list_all (\<lambda>c. list_all (\<lambda>i. item_key i = col_key c) (col_issues c)) (take n cols)"
    unfolding take by (auto simp: list_all_iff stage_column_def empty_column_def)
  moreover have "length (drop n cols) \<le> 1"
    unfolding eq Let_def n_def by simp
  ultimately show ?thesis by blast
qed

end
