(* ===== verification/Views.thy ===== *)
theory Views
  imports StatePolicy
begin

text \<open>
  The read models of \<open>src/src/orchestrator/views.ts\<close>, \<open>core/snapshot-projection.ts\<close>,
  \<open>issue-locator.ts\<close> and the model resolution of \<open>model-selection.ts\<close>.
  A spread \<open>...extra\<close> is a function that updates the fields \<open>extra\<close> carries.
\<close>

section \<open>views.ts\<close>

definition isHardFailure :: "string option \<Rightarrow> bool" where
  "isHardFailure errorCode \<longleftrightarrow>
     errorCode \<in> Some ` set [''startup_failed'', ''inactive'', ''terminal'', ''shutdown'',
       ''cancelled'', ''auth_token_expired'', ''unauthorized'']"

definition issueView :: "string \<Rightarrow> issue \<Rightarrow> (issue_view \<Rightarrow> issue_view) \<Rightarrow> issue_view" where
  "issueView now_iso i extra = extra
     \<lparr>v_issueId = issue_id i, v_identifier = issue_identifier i, v_title = issue_title i,
      v_state = issue_state i, v_workspaceKey = None, v_workspacePath = Undef, v_message = Null,
      v_status = issue_state i, v_updatedAt = coalesce (issue_updatedAt i) now_iso,
      v_attempt = Null, v_error = Null, v_priority = of_null (issue_priority i),
      v_labels = Val (issue_labels i), v_startedAt = Undef, v_lastEventAt = Undef,
      v_tokenUsage = Undef, v_model = Undef, v_reasoningEffort = Undef, v_modelSource = Undef,
      v_configuredModel = Undef, v_configuredReasoningEffort = Undef,
      v_configuredModelSource = Undef, v_modelChangePending = Undef,
      v_configuredTemplateId = Undef, v_configuredTemplateName = Undef,
      v_url = of_null (issue_url i), v_description = of_null (issue_description i),
      v_blockedBy = Val (issue_blockedBy i), v_branchName = of_null (issue_branchName i),
      v_pullRequestUrl = Undef, v_nextRetryDueAt = Undef, v_createdAt = of_null (issue_createdAt i)\<rparr>"

definition usageDelta :: "token_usage option \<Rightarrow> token_usage \<Rightarrow> token_usage" where
  "usageDelta previous nxt =
     \<lparr>inputTokens = max 0 (inputTokens nxt - coalesce (map_option inputTokens previous) 0),
      outputTokens = max 0 (outputTokens nxt - coalesce (map_option outputTokens previous) 0),
      totalTokens = max 0 (totalTokens nxt - coalesce (map_option totalTokens previous) 0)\<rparr>"

section \<open>snapshot-projection.ts\<close>

definition projectModelViewFields ::
  "model_selection \<Rightarrow> model_selection \<Rightarrow> issue_view \<Rightarrow> issue_view" where
  "projectModelViewFields configured active v =
     v\<lparr>v_configuredModel := Val (sel_model configured),
       v_configuredReasoningEffort := sel_effort configured,
       v_configuredModelSource := Val (sel_source configured),
       v_model := Val (sel_model active),
       v_reasoningEffort := sel_effort active,
       v_modelSource := Val (sel_source active),
       v_modelChangePending :=
         Val (sel_model configured \<noteq> sel_model active \<or> sel_effort configured \<noteq> sel_effort active)\<rparr>"

definition projectRunningIssueView ::
  "string \<Rightarrow> running_entry \<Rightarrow> (string \<Rightarrow> model_selection) \<Rightarrow> issue_view" where
  "projectRunningIssueView now_iso entry resolveModelSelection =
     (let configuredSelection = resolveModelSelection (issue_identifier (en_issue entry));
          action = (if en_status entry = SStopping then ''stopping'' else ''running'')
      in issueView now_iso (en_issue entry) (\<lambda>v. projectModelViewFields configuredSelection
           (en_modelSelection entry)
           (v\<lparr>v_workspaceKey := Some (ws_key (en_workspace entry)),
              v_workspacePath := Val (ws_path (en_workspace entry)),
              v_status := entry_status_name (en_status entry),
              v_attempt := of_null (en_attempt entry),
              v_message := Val (action @ '' in '' @ ws_path (en_workspace entry)),
              v_startedAt := Val (iso_of_ms (en_startedAtMs entry)),
              v_lastEventAt := Val (iso_of_ms (en_lastEventAtMs entry)),
              v_tokenUsage := of_null (en_tokenUsage entry),
              v_priority := of_null (issue_priority (en_issue entry)),
              v_labels := Val (issue_labels (en_issue entry))\<rparr>)))"

definition projectRetryIssueView ::
  "string \<Rightarrow> retry_entry \<Rightarrow> (string \<Rightarrow> model_selection) \<Rightarrow> issue_view" where
  "projectRetryIssueView now_iso entry resolveModelSelection =
     (let configuredSelection = resolveModelSelection (re_identifier entry);
          nextRetryDueAt = iso_of_ms (re_dueAtMs entry)
      in issueView now_iso (re_issue entry) (\<lambda>v.
           (projectModelViewFields configuredSelection configuredSelection v)
             \<lparr>v_modelChangePending := Val False,
              v_workspaceKey := re_workspaceKey entry,
              v_status := ''retrying'',
              v_attempt := Val (re_attempt entry),
              v_error := of_null (re_error entry),
              v_message := Val (''retry due at '' @ nextRetryDueAt),
              v_nextRetryDueAt := Val nextRetryDueAt\<rparr>))"

record view_overrides =
  vo_status :: string
  vo_attempt :: "int jsopt"
  vo_error :: "string jsopt"
  vo_message :: "string jsopt"
  vo_pullRequestUrl :: "string jsopt"

definition no_overrides :: "string \<Rightarrow> view_overrides" where
  "no_overrides status =
     \<lparr>vo_status = status, vo_attempt = Undef, vo_error = Undef, vo_message = Undef,
      vo_pullRequestUrl = Undef\<rparr>"

definition projectOutcomeIssueView ::
  "string \<Rightarrow> issue \<Rightarrow> workspace \<Rightarrow> running_entry \<Rightarrow> model_selection \<Rightarrow> view_overrides \<Rightarrow> issue_view" where
  "projectOutcomeIssueView now_iso i ws entry configuredSelection overrides =
     (let lastEventIso = iso_of_ms (en_lastEventAtMs entry)
      in issueView now_iso i (\<lambda>v.
           v\<lparr>v_workspaceKey := Some (ws_key ws),
             v_workspacePath := Val (ws_path ws),
             v_status := vo_status overrides,
             v_attempt := vo_attempt overrides,
             v_error := vo_error overrides,
             v_message := vo_message overrides,
             v_startedAt := Val (iso_of_ms (en_startedAtMs entry)),
             v_updatedAt := lastEventIso,
             v_lastEventAt := Val lastEventIso,
             v_tokenUsage := of_null (en_tokenUsage entry),
             v_configuredModel := Val (sel_model configuredSelection),
             v_configuredReasoningEffort := sel_effort configuredSelection,
             v_configuredModelSource := Val (sel_source configuredSelection),
             v_modelChangePending := Val False,
             v_model := Val (sel_model (en_modelSelection entry)),
             v_reasoningEffort := sel_effort (en_modelSelection entry),
             v_modelSource := Val (sel_source (en_modelSelection entry)),
             v_pullRequestUrl := vo_pullRequestUrl overrides\<rparr>))"

text \<open>
  The comparator subtracts two parsed dates; when one of them does not parse the difference is
  \<open>NaN\<close>, which \<open>sort\<close> treats as 0.
\<close>

definition completed_cmp :: "host \<Rightarrow> issue_view \<Rightarrow> issue_view \<Rightarrow> int" where
  "completed_cmp h left right =
     (case (h_date_parse h (v_updatedAt right), h_date_parse h (v_updatedAt left)) of
        (Some r, Some l) \<Rightarrow> r - l
      | _ \<Rightarrow> 0)"

definition projectCompletedViewsForSnapshot :: "host \<Rightarrow> issue_view list \<Rightarrow> nat \<Rightarrow> issue_view list" where
  "projectCompletedViewsForSnapshot h completedViews limit =
     take limit (js_sort (completed_cmp h) completedViews)"

section \<open>model-selection.ts: resolution\<close>

definition resolveModelSelection ::
  "(string, model_override) omap \<Rightarrow> service_config \<Rightarrow> string \<Rightarrow> model_selection" where
  "resolveModelSelection overrides config identifier =
     (case omap_get overrides identifier of
        Some override \<Rightarrow>
          \<lparr>sel_model = ov_model override, sel_effort = ov_effort override, sel_source = OverrideSource\<rparr>
      | None \<Rightarrow>
          \<lparr>sel_model = codex_model config, sel_effort = of_null (codex_reasoningEffort config),
           sel_source = DefaultSource\<rparr>)"

section \<open>issue-locator.ts\<close>

datatype issue_location =
    LocRunning running_entry
  | LocRetry retry_entry
  | LocCompleted issue_view
  | LocDetail issue_view

definition buildRunningEntryIndex :: "(string, running_entry) omap \<Rightarrow> (string, running_entry) omap" where
  "buildRunningEntryIndex entries =
     fold (\<lambda>entry index. omap_set (issue_identifier (en_issue entry)) entry index) (omap_values entries) []"

definition buildRetryEntryIndex :: "(string, retry_entry) omap \<Rightarrow> (string, retry_entry) omap" where
  "buildRetryEntryIndex entries =
     fold (\<lambda>entry index. omap_set (re_identifier entry) entry index) (omap_values entries) []"

definition resolveIssue ::
  "string \<Rightarrow> (string, running_entry) omap \<Rightarrow> (string, retry_entry) omap \<Rightarrow>
     (string, issue_view) omap \<Rightarrow> (string, issue_view) omap \<Rightarrow> issue_location option" where
  "resolveIssue identifier running retry completed detail =
     (case omap_get (buildRunningEntryIndex running) identifier of
        Some runningEntry \<Rightarrow> Some (LocRunning runningEntry)
      | None \<Rightarrow>
     (case omap_get (buildRetryEntryIndex retry) identifier of
        Some retryEntry \<Rightarrow> Some (LocRetry retryEntry)
      | None \<Rightarrow>
     (case omap_get completed identifier of
        Some completedView \<Rightarrow> Some (LocCompleted completedView)
      | None \<Rightarrow> map_option LocDetail (omap_get detail identifier))))"

definition toIssueView ::
  "string \<Rightarrow> issue_location \<Rightarrow> (string \<Rightarrow> model_selection) \<Rightarrow> issue_view" where
  "toIssueView now_iso location resolve =
     (case location of
        LocRunning entry \<Rightarrow> projectRunningIssueView now_iso entry resolve
      | LocRetry entry \<Rightarrow> projectRetryIssueView now_iso entry resolve
      | LocCompleted view \<Rightarrow> view
      | LocDetail view \<Rightarrow> view)"

section \<open>Lemmas\<close>

lemma usageDelta_nonneg [simp]:
  "0 \<le> inputTokens (usageDelta p n)" "0 \<le> outputTokens (usageDelta p n)"
  "0 \<le> totalTokens (usageDelta p n)"
  by (simp_all add: usageDelta_def)

lemma fold_index_get:
  "omap_get (fold (\<lambda>e index. omap_set (f e) e index) es m) k =
     (case find (\<lambda>e. f e = k) (rev es) of Some e \<Rightarrow> Some e | None \<Rightarrow> omap_get m k)"
proof (induction es arbitrary: m)
  case (Cons e es)
  have "find P (xs @ [y]) = (case find P xs of Some x \<Rightarrow> Some x | None \<Rightarrow> if P y then Some y else None)"
    for P and xs :: "'a list" and y
    by (induction xs) auto
  with Cons show ?case by (simp split: option.splits)
qed simp

lemma find_rev_SomeD: "find P (rev xs) = Some x \<Longrightarrow> P x \<and> x \<in> set xs"
  by (metis find_Some_iff nth_mem set_rev)

lemma resolveIssue_identifier:
  assumes "resolveIssue ident running retry completed detail = Some loc"
    and "\<And>v. omap_get completed ident = Some v \<Longrightarrow> v_identifier v = ident"
    and "\<And>v. omap_get detail ident = Some v \<Longrightarrow> v_identifier v = ident"
    and "\<And>e. e \<in> set (omap_values retry) \<Longrightarrow> issue_identifier (re_issue e) = re_identifier e"
  shows "v_identifier (toIssueView now_iso loc resolve) = ident"
  using assms
  by (auto simp: resolveIssue_def buildRunningEntryIndex_def buildRetryEntryIndex_def fold_index_get
      toIssueView_def projectRunningIssueView_def projectRetryIssueView_def issueView_def
      projectModelViewFields_def Let_def
      dest!: find_rev_SomeD
      split: option.splits)

lemma length_completed_le: "length (projectCompletedViewsForSnapshot h views limit) \<le> limit"
  by (simp add: projectCompletedViewsForSnapshot_def)

end
