(* ===== verification/Dispatch.thy ===== *)
theory Dispatch
  imports StatePolicy
begin

text \<open>
  Which issues may be dispatched and in which order: \<open>src/src/orchestrator/core/dispatch.ts\<close>, the
  guards of \<open>worker-launcher.ts\<close> and \<open>core/retry-policy.ts\<close>. The dispatch fingerprint is the
  text \<open>JSON.stringify\<close> gives, modelled on the payloads the program builds.
\<close>

section \<open>Ordering\<close>

definition MAX_SAFE_INTEGER :: int where
  "MAX_SAFE_INTEGER = 9007199254740991"

definition sortableCreatedAt :: "host \<Rightarrow> string option \<Rightarrow> int" where
  "sortableCreatedAt h createdAt =
     (case createdAt of
        None \<Rightarrow> MAX_SAFE_INTEGER
      | Some text \<Rightarrow>
          if text = [] then MAX_SAFE_INTEGER else coalesce (h_date_parse h text) MAX_SAFE_INTEGER)"

definition dispatch_cmp :: "host \<Rightarrow> issue \<Rightarrow> issue \<Rightarrow> int" where
  "dispatch_cmp h left right =
     (let leftPriority = coalesce (issue_priority left) MAX_SAFE_INTEGER;
          rightPriority = coalesce (issue_priority right) MAX_SAFE_INTEGER
      in if leftPriority \<noteq> rightPriority then leftPriority - rightPriority
         else
           (let leftCreatedAt = sortableCreatedAt h (issue_createdAt left);
                rightCreatedAt = sortableCreatedAt h (issue_createdAt right)
            in if leftCreatedAt \<noteq> rightCreatedAt then leftCreatedAt - rightCreatedAt
               else h_locale_compare h (issue_identifier left) (issue_identifier right)))"

definition sortIssuesForDispatch :: "host \<Rightarrow> issue list \<Rightarrow> issue list" where
  "sortIssuesForDispatch h issues = js_sort (dispatch_cmp h) issues"

definition isBlockedByNonTerminal :: "issue \<Rightarrow> service_config \<Rightarrow> bool" where
  "isBlockedByNonTerminal i config =
     list_ex (\<lambda>blocker. case blk_state blocker of
                None \<Rightarrow> True | Some st \<Rightarrow> \<not> isTerminalState st config) (issue_blockedBy i)"

section \<open>JSON.stringify\<close>

definition hex_digit :: "nat \<Rightarrow> char" where
  "hex_digit n = (if n < 10 then char_of (48 + n) else char_of (87 + n))"

definition esc :: "char \<Rightarrow> string" where
  "esc c =
     (if c = CHR 0x22 then [CHR 0x5C, CHR 0x22]
      else if c = CHR 0x5C then [CHR 0x5C, CHR 0x5C]
      else if c = CHR 0x08 then [CHR 0x5C, CHR ''b'']
      else if c = CHR 0x0C then [CHR 0x5C, CHR ''f'']
      else if c = CHR 0x0A then [CHR 0x5C, CHR ''n'']
      else if c = CHR 0x0D then [CHR 0x5C, CHR ''r'']
      else if c = CHR 0x09 then [CHR 0x5C, CHR ''t'']
      else if (of_char c :: nat) < 32
      then CHR 0x5C # ''u00'' @ [hex_digit (of_char c div 16), hex_digit (of_char c mod 16)]
      else [c])"

definition quote :: "string \<Rightarrow> string" where
  "quote s = CHR 0x22 # concat (map esc s) @ [CHR 0x22]"

fun join :: "string \<Rightarrow> string list \<Rightarrow> string" where
  "join sep [] = []"
| "join sep [x] = x"
| "join sep (x # xs) = x @ sep @ join sep xs"

fun json_stringify :: "json \<Rightarrow> string" where
  "json_stringify JNull = ''null''"
| "json_stringify (JBool b) = (if b then ''true'' else ''false'')"
| "json_stringify (JNum n) = show_int n"
| "json_stringify (JStr s) = quote s"
| "json_stringify (JArr js) = ''['' @ join '','' (map json_stringify js) @ '']''"
| "json_stringify (JObj kvs) =
     CHR 0x7B # join '','' (map (\<lambda>(k, v). quote k @ '':'' @ json_stringify v) kvs) @ [CHR 0x7D]"

definition buildIssueDispatchFingerprint :: "issue \<Rightarrow> string" where
  "buildIssueDispatchFingerprint i = json_stringify (JObj
     [(''state'', JStr (issue_state i)),
      (''updatedAt'', jopt JStr (issue_updatedAt i)),
      (''priority'', jopt JNum (issue_priority i)),
      (''labels'', JArr (map JStr (issue_labels i))),
      (''title'', JStr (issue_title i))])"

section \<open>Guards\<close>

text \<open>
  The result, the suppressions left, and whether the guard called \<open>markDirty\<close>: a stale suppression
  is pruned, and the caller is told so.
\<close>

definition canDispatchIssue ::
  "issue \<Rightarrow> service_config \<Rightarrow> string set \<Rightarrow> (string, string) omap \<Rightarrow>
     bool \<times> (string, string) omap \<times> bool" where
  "canDispatchIssue i config claimedIssueIds suppressions =
     (let verdict =
            (if \<not> isActiveState (issue_state i) config then False
             else if issue_id i \<in> claimedIssueIds then False
             else if isTodoState (issue_state i) config
             then (if \<not> autoClaim config then False else \<not> isBlockedByNonTerminal i config)
             else True)
      in case omap_get suppressions (issue_id i) of
           Some fp \<Rightarrow>
             if fp = buildIssueDispatchFingerprint i then (False, suppressions, False)
             else (verdict, omap_delete (issue_id i) suppressions, True)
         | None \<Rightarrow> (verdict, suppressions, False))"

definition running_in_state :: "(string, running_entry) omap \<Rightarrow> string \<Rightarrow> int" where
  "running_in_state runningEntries stateKey =
     int (length (filter (\<lambda>entry. normalizeStateKey (issue_state (en_issue entry)) = stateKey)
       (omap_values runningEntries)))"

definition hasAvailableStateSlot ::
  "issue \<Rightarrow> service_config \<Rightarrow> (string, running_entry) omap \<Rightarrow>
     (string, int) omap option \<Rightarrow> (string, int) omap option \<Rightarrow> bool" where
  "hasAvailableStateSlot i config runningEntries pendingStateCounts runningStateCounts =
     (let stateKey = normalizeStateKey (issue_state i)
      in case omap_get (maxConcurrentAgentsByState config) stateKey of
           None \<Rightarrow> True
         | Some configuredLimit \<Rightarrow>
             (let fromCounts = Option.bind runningStateCounts (\<lambda>m. omap_get m stateKey);
                  runningCount = coalesce fromCounts (running_in_state runningEntries stateKey);
                  pendingCount =
                    coalesce (Option.bind pendingStateCounts (\<lambda>m. omap_get m stateKey)) 0
              in runningCount + pendingCount < configuredLimit))"

definition bump_count :: "string \<Rightarrow> (string, int) omap \<Rightarrow> (string, int) omap" where
  "bump_count k counts = omap_set k (coalesce (omap_get counts k) 0 + 1) counts"

definition buildRunningStateCounts :: "(string, running_entry) omap \<Rightarrow> (string, int) omap" where
  "buildRunningStateCounts runningEntries =
     fold (\<lambda>entry counts. bump_count (normalizeStateKey (issue_state (en_issue entry))) counts)
       (omap_values runningEntries) []"

section \<open>retry-policy.ts\<close>

datatype retry_strategy =
    HardFail
  | RetryAfter int string
  | CompactAndRetry
  | DefaultRetry

definition classifyRetryStrategy :: "codex_error_info option \<Rightarrow> string option \<Rightarrow> retry_strategy" where
  "classifyRetryStrategy errorInfo errorCode =
     (case errorInfo of
        None \<Rightarrow> DefaultRetry
      | Some e \<Rightarrow>
          if cei_type e = ''ContextWindowExceeded'' then CompactAndRetry
          else if cei_type e = ''UsageLimitExceeded'' then RetryAfter 60000 ''usage_limit''
          else if cei_type e = ''RateLimited''
          then RetryAfter (coalesce (cei_retryAfterMs e) 30000) ''rate_limited''
          else if cei_type e = ''Unauthorized'' then HardFail
          else DefaultRetry)"

section \<open>The dispatch order\<close>

text \<open>
  What \<open>localeCompare\<close> promises (ECMA-402: a consistent comparison function, a total preorder).
\<close>

definition consistent_compare :: "(string \<Rightarrow> string \<Rightarrow> int) \<Rightarrow> bool" where
  "consistent_compare cmp \<longleftrightarrow>
     (\<forall>a b. 0 < cmp a b \<longrightarrow> cmp b a \<le> 0) \<and>
     (\<forall>a b c. cmp a b \<le> 0 \<longrightarrow> cmp b c \<le> 0 \<longrightarrow> cmp a c \<le> 0)"

lemma dispatch_cmp_total:
  "consistent_compare (h_locale_compare h) \<Longrightarrow> 0 < dispatch_cmp h a b \<Longrightarrow> dispatch_cmp h b a \<le> 0"
  by (auto simp: dispatch_cmp_def Let_def consistent_compare_def split: if_splits)

lemma dispatch_cmp_trans:
  assumes "consistent_compare (h_locale_compare h)"
    and "dispatch_cmp h a b \<le> 0" and "dispatch_cmp h b c \<le> 0"
  shows "dispatch_cmp h a c \<le> 0"
proof -
  have "h_locale_compare h x z \<le> 0"
    if "h_locale_compare h x y \<le> 0" "h_locale_compare h y z \<le> 0" for x y z
    using assms(1) that unfolding consistent_compare_def by blast
  with assms(2,3) show ?thesis
    by (auto simp: dispatch_cmp_def Let_def split: if_splits)
qed

text \<open>
  The dispatch order is a rearrangement of the candidates, sorted by priority, then creation
  time, then identifier; and issues the comparator cannot tell apart keep the tracker's order.
\<close>

theorem sortIssuesForDispatch_sorted:
  assumes "consistent_compare (h_locale_compare h)"
  shows "mset (sortIssuesForDispatch h issues) = mset issues \<and>
    sorted_wrt (\<lambda>a b. dispatch_cmp h a b \<le> 0) (sortIssuesForDispatch h issues) \<and>
    (\<forall>P. (\<forall>a b. P a \<longrightarrow> P b \<longrightarrow> dispatch_cmp h a b \<le> 0) \<longrightarrow>
       filter P (sortIssuesForDispatch h issues) = filter P issues)"
proof (intro conjI allI impI)
  show "mset (sortIssuesForDispatch h issues) = mset issues"
    by (simp add: sortIssuesForDispatch_def)
  show "sorted_wrt (\<lambda>a b. dispatch_cmp h a b \<le> 0) (sortIssuesForDispatch h issues)"
    unfolding sortIssuesForDispatch_def
    by (rule sorted_js_sort) (use assms dispatch_cmp_total dispatch_cmp_trans in blast)+
  fix P
  assume "\<forall>a b. P a \<longrightarrow> P b \<longrightarrow> dispatch_cmp h a b \<le> 0"
  then show "filter P (sortIssuesForDispatch h issues) = filter P issues"
    unfolding sortIssuesForDispatch_def by (simp add: js_sort_stable)
qed

definition ascii_compare :: "string \<Rightarrow> string \<Rightarrow> int" where
  "ascii_compare a b = int (length a) - int (length b)"

definition example_host :: host where
  "example_host = \<lparr>h_date_parse = (\<lambda>_. None), h_locale_compare = ascii_compare, h_json_parse = (\<lambda>_. None)\<rparr>"

definition example_issue :: "string \<Rightarrow> string \<Rightarrow> int option \<Rightarrow> issue" where
  "example_issue ident st prio =
     \<lparr>issue_id = ident, issue_identifier = ident, issue_title = ''t'', issue_description = None,
      issue_priority = prio, issue_state = st, issue_branchName = None, issue_url = None,
      issue_labels = [], issue_blockedBy = [], issue_createdAt = None, issue_updatedAt = None\<rparr>"

lemma consistent_ascii_compare: "consistent_compare ascii_compare"
  by (auto simp: consistent_compare_def ascii_compare_def)

theorem sortIssuesForDispatch_witness:
  "mset (sortIssuesForDispatch example_host [example_issue ''A-1'' ''Todo'' None, example_issue ''A-2'' ''Todo'' (Some 1)])
     = {# example_issue ''A-1'' ''Todo'' None, example_issue ''A-2'' ''Todo'' (Some 1) #}"
proof -
  have "consistent_compare (h_locale_compare example_host)"
    by (simp add: example_host_def consistent_ascii_compare)
  from sortIssuesForDispatch_sorted [OF this] show ?thesis by simp
qed

section \<open>The fingerprint identifies the five fields it is built from\<close>

definition unesc :: "string \<Rightarrow> (char \<times> string) option" where
  "unesc s =
     (case s of
        [] \<Rightarrow> None
      | c # r \<Rightarrow>
          if c \<noteq> CHR 0x5C then Some (c, r)
          else (case r of
             [] \<Rightarrow> None
           | d # r' \<Rightarrow>
               if d = CHR 0x22 then Some (CHR 0x22, r')
               else if d = CHR 0x5C then Some (CHR 0x5C, r')
               else if d = CHR ''b'' then Some (CHR 0x08, r')
               else if d = CHR ''f'' then Some (CHR 0x0C, r')
               else if d = CHR ''n'' then Some (CHR 0x0A, r')
               else if d = CHR ''r'' then Some (CHR 0x0D, r')
               else if d = CHR ''t'' then Some (CHR 0x09, r')
               else Some (char_of ((of_char (r' ! 2) - 48) * 16 +
                      (let k = (of_char (r' ! 3) :: nat) in if k < 58 then k - 48 else k - 87)),
                    drop 4 r')))"

lemma hex_digit_back:
  "n < 16 \<Longrightarrow> (let k = (of_char (hex_digit n) :: nat) in if k < 58 then k - 48 else k - 87) = n"
  by (simp add: hex_digit_def of_char_of Let_def)

lemma hex_digit_low: "n < 2 \<Longrightarrow> (of_char (hex_digit n) :: nat) - 48 = n"
  by (simp add: hex_digit_def of_char_of)

lemma unesc_esc: "unesc (esc c @ r) = Some (c, r)"
proof (cases "(of_char c :: nat) < 32")
  case True
  define n where "n = (of_char c :: nat)"
  have c: "c = char_of n" by (simp add: n_def)
  have "n div 16 < 2" "n mod 16 < 16" using True by (simp_all add: n_def)
  moreover have "n div 16 * 16 + n mod 16 = n" by simp
  ultimately have decoded: "char_of ((of_char (hex_digit (n div 16)) - 48) * 16 +
      (let k = (of_char (hex_digit (n mod 16)) :: nat) in if k < 58 then k - 48 else k - 87)) = c"
    by (simp only: hex_digit_low hex_digit_back c)
  show ?thesis
    using decoded True by (simp add: esc_def unesc_def flip: n_def)
next
  case False
  then have "c \<noteq> CHR 0x08" "c \<noteq> CHR 0x0C" "c \<noteq> CHR 0x0A" "c \<noteq> CHR 0x0D" "c \<noteq> CHR 0x09"
    by auto
  with False show ?thesis by (simp add: esc_def unesc_def)
qed

lemma esc_not_quote: "\<exists>d ds. esc c = d # ds \<and> d \<noteq> CHR 0x22"
  by (simp add: esc_def)

lemma quote_body_inj:
  "concat (map esc s) @ CHR 0x22 # r = concat (map esc s') @ CHR 0x22 # r' \<Longrightarrow> s = s' \<and> r = r'"
proof (induction s arbitrary: s')
  case Nil
  then show ?case
    using esc_not_quote [of "hd s'"] by (cases s') auto
next
  case (Cons c s)
  show ?case
  proof (cases s')
    case Nil
    with Cons.prems show ?thesis using esc_not_quote [of c] by auto
  next
    case (Cons c' t)
    from Cons.prems have "esc c @ (concat (map esc s) @ CHR 0x22 # r) =
        esc c' @ (concat (map esc t) @ CHR 0x22 # r')"
      by (simp add: Cons)
    then have "c = c'" "concat (map esc s) @ CHR 0x22 # r = concat (map esc t) @ CHR 0x22 # r'"
      using unesc_esc by (metis option.inject prod.inject)+
    with Cons.IH Cons show ?thesis by auto
  qed
qed

lemma quote_inj: "quote s @ r = quote s' @ r' \<Longrightarrow> s = s' \<and> r = r'"
  using quote_body_inj [of s r s' r'] by (simp add: quote_def)

definition digits_value :: "string \<Rightarrow> nat" where
  "digits_value s = foldl (\<lambda>acc c. 10 * acc + (of_char c - 48)) 0 s"

lemma digits_value_of_nat: "digits_value (digits_of_nat n) = n"
proof (induction n rule: digits_of_nat.induct)
  case (1 n)
  have d: "(of_char (char_of (48 + n mod 10) :: char) :: nat) - 48 = n mod 10"
    by (simp add: of_char_of)
  show ?case
  proof (cases "n < 10")
    case True
    then show ?thesis by (simp add: digits_of_nat.simps [of n] digits_value_def of_char_of)
  next
    case False
    with "1.IH" d show ?thesis
      by (simp add: digits_of_nat.simps [of n] digits_value_def)
  qed
qed

lemma digits_of_nat_chars: "c \<in> set (digits_of_nat n) \<Longrightarrow> 48 \<le> (of_char c :: nat) \<and> (of_char c :: nat) \<le> 57"
proof (induction n rule: digits_of_nat.induct)
  case (1 n)
  have "48 + n mod 10 < 256" by simp
  then show ?case
    using 1 by (cases "n < 10") (auto simp: digits_of_nat.simps [of n] of_char_of)
qed

lemma digits_of_nat_inj: "digits_of_nat k = digits_of_nat l \<Longrightarrow> k = l"
  using digits_value_of_nat by metis

lemma digits_of_nat_no_minus: "digits_of_nat k \<noteq> CHR ''-'' # s"
  using digits_of_nat_chars [of "CHR ''-''" k] by auto

lemma show_int_inj:
  assumes "show_int n = show_int m"
  shows "n = m"
proof (cases "n < 0"; cases "m < 0")
  assume "n < 0" "m < 0"
  with assms show ?thesis by (auto simp: show_int_def dest!: digits_of_nat_inj)
next
  assume "n < 0" "\<not> m < 0"
  with assms show ?thesis using digits_of_nat_no_minus [of "nat m", symmetric] by (simp add: show_int_def)
next
  assume "\<not> n < 0" "m < 0"
  with assms show ?thesis using digits_of_nat_no_minus [of "nat n"] digits_of_nat_no_minus [of "nat n", symmetric] by (simp add: show_int_def)
next
  assume "\<not> n < 0" "\<not> m < 0"
  with assms show ?thesis by (auto simp: show_int_def dest!: digits_of_nat_inj)
qed

lemma show_int_no_comma: "CHR '','' \<notin> set (show_int n)"
  using digits_of_nat_chars [of "CHR '',''"] by (auto simp: show_int_def)

lemma prefix_no_comma_inj:
  "CHR '','' \<notin> set a \<Longrightarrow> CHR '','' \<notin> set b \<Longrightarrow> a @ CHR '','' # r = b @ CHR '','' # r' \<Longrightarrow>
     a = b \<and> r = r'"
  by (auto simp: append_eq_append_conv2 Cons_eq_append_conv append_eq_Cons_conv)

lemma quoted_list_inj:
  "join '','' (map quote xs) @ CHR '']'' # r = join '','' (map quote ys) @ CHR '']'' # r' \<Longrightarrow>
     xs = ys \<and> r = r'"
proof (induction xs arbitrary: ys)
  case Nil
  then show ?case
    by (cases ys rule: list.exhaust; cases "tl ys") (auto simp: quote_def)
next
  case (Cons x xs)
  show ?case
  proof (cases ys)
    case Nil
    with Cons.prems show ?thesis by (cases xs) (auto simp: quote_def)
  next
    case ys: (Cons y zs)
    define tail :: "string list \<Rightarrow> string \<Rightarrow> string" where
      "tail l q = (if l = [] then CHR '']'' # q else CHR '','' # join '','' (map quote l) @ CHR '']'' # q)" for l q
    have unfold: "join '','' (map quote (u # l)) @ CHR '']'' # q = quote u @ tail l q" for u l q
      by (cases l) (auto simp: tail_def)
    from Cons.prems have "quote x @ tail xs r = quote y @ tail zs r'"
      by (simp only: ys unfold)
    then have "x = y" "tail xs r = tail zs r'" using quote_inj by blast+
    with Cons.IH [of zs] ys show ?thesis
      by (auto simp: tail_def split: if_splits)
  qed
qed

lemma opt_string_inj:
  "json_stringify (jopt JStr a) @ CHR '','' # r = json_stringify (jopt JStr b) @ CHR '','' # r' \<Longrightarrow>
     a = b \<and> r = r'"
  using quote_inj [of "the a" "CHR '','' # r" "the b" "CHR '','' # r'"]
  by (cases a; cases b) (auto simp: jopt_def quote_def)

lemma opt_num_inj:
  assumes "json_stringify (jopt JNum a) @ CHR '','' # r = json_stringify (jopt JNum b) @ CHR '','' # r'"
  shows "a = b \<and> r = r'"
proof -
  have nc: "CHR '','' \<notin> set (json_stringify (jopt JNum x))" for x
    by (cases x) (auto simp: jopt_def show_int_no_comma)
  have nn: "show_int n \<noteq> ''null''" for n
    using digits_of_nat_chars [of "CHR ''n''"] by (auto simp: show_int_def) (metis list.set_intros(1))
  from prefix_no_comma_inj [OF nc nc assms]
  show ?thesis
    by (cases a; cases b) (auto simp: jopt_def nn nn [symmetric] dest: show_int_inj)
qed

definition same_dispatch_fields :: "issue \<Rightarrow> issue \<Rightarrow> bool" where
  "same_dispatch_fields i j \<longleftrightarrow>
     issue_state i = issue_state j \<and> issue_updatedAt i = issue_updatedAt j \<and>
     issue_priority i = issue_priority j \<and> issue_labels i = issue_labels j \<and>
     issue_title i = issue_title j"

lemma fingerprint_inj:
  "buildIssueDispatchFingerprint i = buildIssueDispatchFingerprint j \<longleftrightarrow> same_dispatch_fields i j"
proof
  assume eq: "buildIssueDispatchFingerprint i = buildIssueDispatchFingerprint j"
  define tl_title where "tl_title k = CHR '','' # quote ''title'' @ CHR '':'' # quote (issue_title k) @ [CHR 0x7D]" for k :: issue
  define tl_labels where "tl_labels k = quote ''labels'' @ '':['' @
      join '','' (map quote (issue_labels k)) @ CHR '']'' # tl_title k" for k :: issue
  define tl_prio where "tl_prio k = quote ''priority'' @ CHR '':'' # json_stringify (jopt JNum (issue_priority k)) @
      CHR '','' # tl_labels k" for k :: issue
  define tl_upd where "tl_upd k = quote ''updatedAt'' @ CHR '':'' # json_stringify (jopt JStr (issue_updatedAt k)) @
      CHR '','' # tl_prio k" for k :: issue
  have shape: "buildIssueDispatchFingerprint k =
      CHR 0x7B # quote ''state'' @ CHR '':'' # quote (issue_state k) @ CHR '','' # tl_upd k" for k
    by (simp add: buildIssueDispatchFingerprint_def tl_upd_def tl_prio_def tl_labels_def tl_title_def
        comp_def)
  from eq have "quote (issue_state i) @ CHR '','' # tl_upd i = quote (issue_state j) @ CHR '','' # tl_upd j"
    by (simp add: shape)
  then have 1: "issue_state i = issue_state j" "tl_upd i = tl_upd j"
    using quote_inj by blast+
  from 1(2) have 2: "issue_updatedAt i = issue_updatedAt j" "tl_prio i = tl_prio j"
    unfolding tl_upd_def using opt_string_inj by auto
  from 2(2) have 3: "issue_priority i = issue_priority j" "tl_labels i = tl_labels j"
    unfolding tl_prio_def using opt_num_inj by auto
  from 3(2) have 4: "issue_labels i = issue_labels j" "tl_title i = tl_title j"
    unfolding tl_labels_def using quoted_list_inj by auto
  from 4(2) have "quote (issue_title i) @ [CHR 0x7D] = quote (issue_title j) @ [CHR 0x7D]"
    by (simp add: tl_title_def)
  then have 5: "issue_title i = issue_title j" using quote_inj by blast
  with 1(1) 2(1) 3(1) 4(1) 5 show "same_dispatch_fields i j" unfolding same_dispatch_fields_def by blast
next
  assume "same_dispatch_fields i j"
  then have "issue_state i = issue_state j" "issue_updatedAt i = issue_updatedAt j"
    "issue_priority i = issue_priority j" "issue_labels i = issue_labels j"
    "issue_title i = issue_title j"
    unfolding same_dispatch_fields_def by blast+
  then show "buildIssueDispatchFingerprint i = buildIssueDispatchFingerprint j"
    by (simp only: buildIssueDispatchFingerprint_def)
qed

end
