(* ===== verification/LifecycleState.thy ===== *)
theory LifecycleState
  imports Dispatch Views
begin

text \<open>
  The orchestrator's state and its primitive operations:
  \<open>src/src/orchestrator/core/lifecycle-state.ts\<close> and the wrappers of
  \<open>run-lifecycle-coordinator.ts\<close> that call them. The fields are those of \<open>LifecycleState\<close>;
  \<open>markDirty\<close> is the increment of \<open>stateRevision\<close> in \<open>orchestrator.ts\<close>. Timers are the pending
  \<open>setTimeout\<close> callbacks of the retry coordinator, \<open>trace\<close> the calls made to the ports.
\<close>

section \<open>State\<close>

record codex_totals =
  ct_inputTokens :: int
  ct_outputTokens :: int
  ct_totalTokens :: int
  ct_secondsRunning :: int

record retry_timer =
  tm_id :: nat
  tm_issue :: issue
  tm_attempt :: int
  tm_dueAtMs :: int

record orch =
  o_running :: bool
  runningEntries :: "(string, running_entry) omap"
  retryEntries :: "(string, retry_entry) omap"
  completedViews :: "(string, issue_view) omap"
  detailViews :: "(string, issue_view) omap"
  claimedIssueIds :: "string set"
  queuedViews :: "issue_view list"
  recentEvents :: "recent_event list"
  rateLimits :: json
  issueModelOverrides :: "(string, model_override) omap"
  issueTemplateOverrides :: "(string, string) omap"
  operatorAbortSuppressions :: "(string, string) omap"
  sessionUsageTotals :: "(string, token_usage) omap"
  codexTotals :: codex_totals
  stallEvents :: "stall_event list"
  stateRevision :: nat
  timers :: "retry_timer list"
  nextTimerId :: nat
  trace :: "effect list"

definition MAX_RECENT_EVENTS :: nat where
  "MAX_RECENT_EVENTS = 250"

definition createLifecycleState :: orch where
  "createLifecycleState =
     \<lparr>o_running = False, runningEntries = [], retryEntries = [], completedViews = [], detailViews = [],
      claimedIssueIds = {}, queuedViews = [], recentEvents = [], rateLimits = JNull,
      issueModelOverrides = [], issueTemplateOverrides = [], operatorAbortSuppressions = [],
      sessionUsageTotals = [],
      codexTotals = \<lparr>ct_inputTokens = 0, ct_outputTokens = 0, ct_totalTokens = 0, ct_secondsRunning = 0\<rparr>,
      stallEvents = [], stateRevision = 0, timers = [], nextTimerId = 0, trace = []\<rparr>"

definition markDirty :: "orch \<Rightarrow> orch" where
  "markDirty s = s\<lparr>stateRevision := stateRevision s + 1\<rparr>"

definition record_effect :: "effect \<Rightarrow> orch \<Rightarrow> orch" where
  "record_effect e s = s\<lparr>trace := trace s @ [e]\<rparr>"

section \<open>Claims and views\<close>

definition releaseIssueClaimInState :: "string \<Rightarrow> orch \<Rightarrow> orch" where
  "releaseIssueClaimInState issueId s =
     (if issueId \<in> claimedIssueIds s
      then markDirty (s\<lparr>claimedIssueIds := claimedIssueIds s - {issueId}\<rparr>)
      else s)"

definition claimIssueInState :: "string \<Rightarrow> orch \<Rightarrow> orch" where
  "claimIssueInState issueId s = markDirty (s\<lparr>claimedIssueIds := insert issueId (claimedIssueIds s)\<rparr>)"

definition setQueuedViewsInState :: "issue_view list \<Rightarrow> orch \<Rightarrow> orch" where
  "setQueuedViewsInState views s = markDirty (s\<lparr>queuedViews := views\<rparr>)"

definition setRateLimitsInState :: "json \<Rightarrow> orch \<Rightarrow> orch" where
  "setRateLimitsInState limits s = markDirty (s\<lparr>rateLimits := limits\<rparr>)"

definition setDetailViewInState :: "string \<Rightarrow> issue_view \<Rightarrow> orch \<Rightarrow> orch" where
  "setDetailViewInState identifier view s =
     markDirty (s\<lparr>detailViews := omap_set identifier view (detailViews s)\<rparr>)"

definition setCompletedViewInState :: "string \<Rightarrow> issue_view \<Rightarrow> orch \<Rightarrow> orch" where
  "setCompletedViewInState identifier view s =
     markDirty (s\<lparr>completedViews := omap_set identifier view (completedViews s)\<rparr>)"

text \<open>\<open>suppressIssueDispatch\<close> of the coordinator's context.\<close>

definition suppressIssueDispatch :: "issue \<Rightarrow> orch \<Rightarrow> orch" where
  "suppressIssueDispatch i s =
     markDirty (s\<lparr>operatorAbortSuppressions :=
       omap_set (issue_id i) (buildIssueDispatchFingerprint i) (operatorAbortSuppressions s)\<rparr>)"

text \<open>The context's \<open>canDispatchIssue\<close>: the verdict and the state with a stale suppression pruned.\<close>

definition canDispatchIssueInState :: "service_config \<Rightarrow> issue \<Rightarrow> orch \<Rightarrow> bool \<times> orch" where
  "canDispatchIssueInState config i s =
     (let (ok, suppressions, dirty) =
            canDispatchIssue i config (claimedIssueIds s) (operatorAbortSuppressions s);
          s' = s\<lparr>operatorAbortSuppressions := suppressions\<rparr>
      in (ok, if dirty then markDirty s' else s'))"

section \<open>Events\<close>

definition recent_of_event :: "runtime_event \<Rightarrow> recent_event" where
  "recent_of_event e =
     \<lparr>rec_at = ev_at e, rec_issueId = ev_issueId e, rec_issueIdentifier = ev_issueIdentifier e,
      rec_sessionId = ev_sessionId e, rec_event = ev_event e, rec_message = ev_message e,
      rec_content = ev_content e, rec_metadata = ev_metadata e\<rparr>"

definition push_capped :: "nat \<Rightarrow> 'a list \<Rightarrow> 'a list \<Rightarrow> 'a list" where
  "push_capped cap xs ys =
     (let combined = xs @ ys
      in if cap < length combined then drop (length combined - cap) combined else combined)"

definition pushRecentEventInState :: "runtime_event \<Rightarrow> nat \<Rightarrow> orch \<Rightarrow> orch" where
  "pushRecentEventInState e maxRecentEvents s =
     s\<lparr>recentEvents := push_capped maxRecentEvents (recentEvents s) [recent_of_event e]\<rparr>"

definition emitLifecycleEvent :: "runtime_event \<Rightarrow> effect list" where
  "emitLifecycleEvent e =
     (let issueId = coalesce (ev_issueId e) []; identifier = coalesce (ev_issueIdentifier e) [];
          name = ev_event e
      in if name = ''agent_stalled'' \<or> name = ''worker_stalled''
         then [Emit ''issue.stalled'' [(''issueId'', JStr issueId), (''identifier'', JStr identifier),
                 (''reason'', JStr (ev_message e))]]
         else if name = ''worker_failed''
         then [Emit ''worker.failed'' [(''issueId'', JStr issueId), (''identifier'', JStr identifier),
                 (''error'', JStr (ev_message e))]]
         else if name = ''issue_queued''
         then [Emit ''issue.queued'' [(''issueId'', JStr issueId), (''identifier'', JStr identifier)]]
         else if name = ''workspace_preparing'' \<or> name = ''workspace_ready'' \<or> name = ''workspace_failed''
         then [Emit ''workspace.event'' [(''issueId'', JStr issueId), (''identifier'', JStr identifier),
                 (''status'', JStr (drop (length ''workspace_'') name))]]
         else [])"

definition forwardToEventBus :: "runtime_event \<Rightarrow> orch \<Rightarrow> orch" where
  "forwardToEventBus e s =
     s\<lparr>trace := trace s @ emitLifecycleEvent e @
        [Emit ''agent.event'' [(''issueId'', JStr (coalesce (ev_issueId e) [])),
           (''identifier'', JStr (coalesce (ev_issueIdentifier e) [])),
           (''type'', JStr (ev_event e)), (''message'', JStr (ev_message e)),
           (''sessionId'', jopt JStr (ev_sessionId e)), (''timestamp'', JStr (ev_at e)),
           (''content'', jopt JStr (ev_content e))]]\<rparr>"

definition pushEvent :: "runtime_event \<Rightarrow> orch \<Rightarrow> orch" where
  "pushEvent e s = forwardToEventBus e (markDirty (pushRecentEventInState e MAX_RECENT_EVENTS s))"

text \<open>\<open>notifyChannel\<close>: delivery failures are caught, so the call is all there is.\<close>

definition notifyChannel :: "notification \<Rightarrow> orch \<Rightarrow> orch" where
  "notifyChannel n s = record_effect (Notify n) s"

section \<open>Token accounting\<close>

definition add_totals :: "codex_totals \<Rightarrow> token_usage \<Rightarrow> codex_totals" where
  "add_totals t u = t\<lparr>ct_inputTokens := ct_inputTokens t + inputTokens u,
      ct_outputTokens := ct_outputTokens t + outputTokens u,
      ct_totalTokens := ct_totalTokens t + totalTokens u\<rparr>"

text \<open>\<open>if (entry.sessionId)\<close>: the empty string is no session.\<close>

definition session_key :: "running_entry \<Rightarrow> string option" where
  "session_key entry =
     (case en_sessionId entry of None \<Rightarrow> None | Some sid \<Rightarrow> if sid = [] then None else Some sid)"

definition applyAbsoluteUsageEventInState ::
  "running_entry \<Rightarrow> token_usage \<Rightarrow> orch \<Rightarrow> orch \<times> running_entry" where
  "applyAbsoluteUsageEventInState entry usage s =
     (let previous = Option.bind (session_key entry) (omap_get (sessionUsageTotals s));
          delta = usageDelta previous usage;
          s1 = s\<lparr>codexTotals := add_totals (codexTotals s) delta\<rparr>;
          entry' = entry\<lparr>en_tokenUsage := Some usage\<rparr>;
          s2 = (case session_key entry of
                  None \<Rightarrow> s1
                | Some sid \<Rightarrow> s1\<lparr>sessionUsageTotals := omap_set sid usage (sessionUsageTotals s1)\<rparr>)
      in (markDirty s2, entry'))"

definition add_usage :: "token_usage option \<Rightarrow> token_usage \<Rightarrow> token_usage" where
  "add_usage old u =
     \<lparr>inputTokens = coalesce (map_option inputTokens old) 0 + inputTokens u,
      outputTokens = coalesce (map_option outputTokens old) 0 + outputTokens u,
      totalTokens = coalesce (map_option totalTokens old) 0 + totalTokens u\<rparr>"

definition applyDeltaUsageEventInState ::
  "running_entry \<Rightarrow> token_usage \<Rightarrow> orch \<Rightarrow> orch \<times> running_entry" where
  "applyDeltaUsageEventInState entry usage s =
     (markDirty (s\<lparr>codexTotals := add_totals (codexTotals s) usage\<rparr>),
      entry\<lparr>en_tokenUsage := Some (add_usage (en_tokenUsage entry) usage)\<rparr>)"

definition applyUsageEventInState ::
  "running_entry \<Rightarrow> token_usage \<Rightarrow> usage_mode \<Rightarrow> orch \<Rightarrow> orch \<times> running_entry" where
  "applyUsageEventInState entry usage usageMode s =
     (case usageMode of
        AbsoluteTotal \<Rightarrow> applyAbsoluteUsageEventInState entry usage s
      | Delta \<Rightarrow> applyDeltaUsageEventInState entry usage s)"

section \<open>Reconciliation plans\<close>

record reconciliation_plan =
  pl_issueId :: string
  pl_latestIssue :: "issue option"
  pl_issueChanged :: bool
  pl_nextStatus :: entry_status
  pl_abortReason :: "string option"
  pl_cleanupOnExit :: bool

text \<open>
  \<open>entry.issue !== latestIssue\<close> compares references; \<open>same\<close> says whether two issues are the
  same object.
\<close>

definition plan_entry ::
  "(issue \<Rightarrow> issue \<Rightarrow> bool) \<Rightarrow> (string, issue) omap \<Rightarrow> service_config \<Rightarrow> running_entry \<Rightarrow> reconciliation_plan" where
  "plan_entry same byId config entry =
     (let keep = \<lparr>pl_issueId = issue_id (en_issue entry), pl_latestIssue = None, pl_issueChanged = False,
                  pl_nextStatus = en_status entry, pl_abortReason = None,
                  pl_cleanupOnExit = en_cleanupOnExit entry\<rparr>
      in case omap_get byId (issue_id (en_issue entry)) of
           None \<Rightarrow> keep
         | Some latestIssue \<Rightarrow>
             (let found = keep\<lparr>pl_latestIssue := Some latestIssue,
                               pl_issueChanged := \<not> same (en_issue entry) latestIssue\<rparr>
              in if isTerminalState (issue_state latestIssue) config
                 then found\<lparr>pl_nextStatus := SStopping,
                        pl_abortReason := (if is_aborted entry then None else Some ''terminal''),
                        pl_cleanupOnExit := True\<rparr>
                 else if \<not> isActiveState (issue_state latestIssue) config
                 then found\<lparr>pl_nextStatus := SStopping,
                        pl_abortReason := (if is_aborted entry then None else Some ''inactive'')\<rparr>
                 else found))"

definition planRunningEntryReconciliation ::
  "(issue \<Rightarrow> issue \<Rightarrow> bool) \<Rightarrow> (string, running_entry) omap \<Rightarrow> (string, issue) omap \<Rightarrow> service_config \<Rightarrow>
     reconciliation_plan list" where
  "planRunningEntryReconciliation same entries byId config =
     map (plan_entry same byId config) (omap_values entries)"

section \<open>Queue and detail views\<close>

fun filter_state :: "('a \<Rightarrow> 's \<Rightarrow> bool \<times> 's) \<Rightarrow> 'a list \<Rightarrow> 's \<Rightarrow> 'a list \<times> 's" where
  "filter_state p [] s = ([], s)"
| "filter_state p (x # xs) s =
     (case p x s of (ok, s') \<Rightarrow>
        (case filter_state p xs s' of (ys, s'') \<Rightarrow> (if ok then x # ys else ys, s'')))"

definition configured_view :: "model_selection \<Rightarrow> issue_view \<Rightarrow> issue_view" where
  "configured_view selection v =
     (projectModelViewFields selection selection v)\<lparr>v_modelChangePending := Val False\<rparr>"

record queue_projection =
  qp_queuedViews :: "issue_view list"
  qp_detailViews :: "(string, issue_view) omap"
  qp_queuedEvents :: "runtime_event list"

definition projectQueueAndDetailViews ::
  "host \<Rightarrow> string \<Rightarrow> issue list \<Rightarrow> (issue \<Rightarrow> 's \<Rightarrow> bool \<times> 's) \<Rightarrow> (string \<Rightarrow> model_selection) \<Rightarrow>
     string set \<Rightarrow> nat \<Rightarrow> 's \<Rightarrow> queue_projection \<times> 's" where
  "projectQueueAndDetailViews h now_iso issues canDispatch resolve previousQueuedIssueIds limit s =
     (let sortedIssues = sortIssuesForDispatch h issues;
          (dispatchableIssues, s') = filter_state canDispatch sortedIssues s;
          visible = take limit dispatchableIssues
      in (\<lparr>qp_queuedViews =
             map (\<lambda>i. issueView now_iso i (\<lambda>v. (configured_view (resolve (issue_identifier i)) v)
                        \<lparr>v_status := ''queued''\<rparr>)) visible,
           qp_detailViews =
             fold (\<lambda>i m. omap_set (issue_identifier i)
                     (issueView now_iso i (configured_view (resolve (issue_identifier i)))) m)
               sortedIssues [],
           qp_queuedEvents =
             map (\<lambda>i. createLifecycleEvent now_iso None i ''issue_queued'' ''Issue queued for dispatch'' None
                    (Some (JObj [(''state'', JStr (issue_state i)), (''priority'', jopt JNum (issue_priority i))])))
               (filter (\<lambda>i. issue_id i \<notin> previousQueuedIssueIds) visible)\<rparr>, s'))"

section \<open>Claims and views seeded from the attempt store\<close>

fun attemptStatusToLinearState :: "attempt_status \<Rightarrow> string" where
  "attemptStatusToLinearState ACompleted = ''Done''"
| "attemptStatusToLinearState AFailed = ''Canceled''"
| "attemptStatusToLinearState ATimedOut = ''Canceled''"
| "attemptStatusToLinearState AStalled = ''Canceled''"
| "attemptStatusToLinearState ACancelled = ''Canceled''"
| "attemptStatusToLinearState st = attempt_status_name st"

definition attemptToCompletedView :: "attempt_record \<Rightarrow> issue_view" where
  "attemptToCompletedView a =
     \<lparr>v_issueId = at_issueId a, v_identifier = at_issueIdentifier a, v_title = at_title a,
      v_state = attemptStatusToLinearState (at_status a), v_workspaceKey = at_workspaceKey a,
      v_workspacePath = of_null (at_workspacePath a), v_message = of_null (at_errorMessage a),
      v_status = attempt_status_name (at_status a),
      v_updatedAt = coalesce (at_endedAt a) (at_startedAt a),
      v_attempt = of_null (at_attemptNumber a), v_error = of_null (at_errorCode a),
      v_priority = Undef, v_labels = Undef, v_startedAt = Val (at_startedAt a),
      v_lastEventAt = Undef, v_tokenUsage = of_null (at_tokenUsage a), v_model = Val (at_model a),
      v_reasoningEffort = at_reasoningEffort a, v_modelSource = Val (at_modelSource a),
      v_configuredModel = Undef, v_configuredReasoningEffort = Undef,
      v_configuredModelSource = Undef, v_modelChangePending = Undef,
      v_configuredTemplateId = Undef, v_configuredTemplateName = Undef, v_url = Undef,
      v_description = Undef, v_blockedBy = Undef, v_branchName = Undef,
      v_pullRequestUrl = at_pullRequestUrl a, v_nextRetryDueAt = Undef, v_createdAt = Undef\<rparr>"

text \<open>\<open>a > b\<close> on strings: by code unit, a proper prefix is smaller.\<close>

fun str_less :: "string \<Rightarrow> string \<Rightarrow> bool" where
  "str_less _ [] = False"
| "str_less [] (_ # _) = True"
| "str_less (a # as) (b # bs) =
     ((of_char a :: nat) < of_char b \<or> (a = b \<and> str_less as bs))"

text \<open>The scan both \<open>seedCompletedClaimsFromAttempts\<close> and \<open>latestRunningAttempts\<close> make.\<close>

definition latest_by ::
  "(attempt_record \<Rightarrow> string) \<Rightarrow> attempt_record list \<Rightarrow> (string, attempt_record) omap" where
  "latest_by key attempts =
     fold (\<lambda>attempt latest. case omap_get latest (key attempt) of
         None \<Rightarrow> omap_set (key attempt) attempt latest
       | Some existing \<Rightarrow>
           if str_less (at_startedAt existing) (at_startedAt attempt)
           then omap_set (key attempt) attempt latest else latest)
       attempts []"

definition isTerminalAttemptStatus :: "attempt_status \<Rightarrow> bool" where
  "isTerminalAttemptStatus st \<longleftrightarrow> st \<noteq> ARunning"

record completed_seed =
  seed_claimedIssueIds :: "string set"
  seed_completedViews :: "(string, issue_view) omap"
  seed_count :: nat

definition seedCompletedClaimsFromAttempts :: "attempt_record list \<Rightarrow> completed_seed" where
  "seedCompletedClaimsFromAttempts attempts =
     (let latest = omap_values (latest_by at_issueIdentifier attempts);
          views = fold (\<lambda>a m. if isTerminalAttemptStatus (at_status a)
                              then omap_set (at_issueIdentifier a) (attemptToCompletedView a) m else m)
                    latest []
      in \<lparr>seed_claimedIssueIds = at_issueId ` set (filter (\<lambda>a. at_status a = ACompleted) latest),
          seed_completedViews = views,
          seed_count = length views\<rparr>)"

text \<open>\<open>seedCompletedClaims\<close> of \<open>lifecycle.ts\<close>.\<close>

definition seedCompletedClaims :: "attempt_record list \<Rightarrow> orch \<Rightarrow> orch" where
  "seedCompletedClaims attempts s =
     (let seed = seedCompletedClaimsFromAttempts attempts;
          s1 = s\<lparr>claimedIssueIds := claimedIssueIds s \<union> seed_claimedIssueIds seed,
                 completedViews := fold (\<lambda>(k, v) m. omap_set k v m) (seed_completedViews seed)
                    (completedViews s)\<rparr>
      in if 0 < seed_count seed then markDirty s1 else s1)"


section \<open>State lemmas\<close>

lemmas state_defs = markDirty_def record_effect_def releaseIssueClaimInState_def claimIssueInState_def
  setQueuedViewsInState_def setRateLimitsInState_def setDetailViewInState_def
  setCompletedViewInState_def suppressIssueDispatch_def pushRecentEventInState_def
  forwardToEventBus_def pushEvent_def notifyChannel_def

text \<open>What an operation leaves alone: the fields the claim discipline is about.\<close>

definition same_claims :: "orch \<Rightarrow> orch \<Rightarrow> bool" where
  "same_claims s t \<longleftrightarrow>
     o_running t = o_running s \<and> runningEntries t = runningEntries s \<and>
     retryEntries t = retryEntries s \<and> claimedIssueIds t = claimedIssueIds s \<and>
     timers t = timers s \<and> nextTimerId t = nextTimerId s"

lemma same_claims_refl [simp]: "same_claims s s"
  by (simp add: same_claims_def)

lemma same_claims_trans: "same_claims s t \<Longrightarrow> same_claims t u \<Longrightarrow> same_claims s u"
  by (simp add: same_claims_def)

lemma same_claims_ops [simp]:
  "same_claims s (markDirty t) = same_claims s t"
  "same_claims s (record_effect e t) = same_claims s t"
  "same_claims s (setQueuedViewsInState vs t) = same_claims s t"
  "same_claims s (setRateLimitsInState l t) = same_claims s t"
  "same_claims s (setDetailViewInState k v t) = same_claims s t"
  "same_claims s (setCompletedViewInState k v t) = same_claims s t"
  "same_claims s (suppressIssueDispatch i t) = same_claims s t"
  "same_claims s (pushEvent ev t) = same_claims s t"
  "same_claims s (notifyChannel n t) = same_claims s t"
  by (simp_all add: same_claims_def state_defs)

lemma snd_canDispatch_same [simp]: "same_claims s (snd (canDispatchIssueInState config i t)) = same_claims s t"
  by (simp add: canDispatchIssueInState_def same_claims_def markDirty_def Let_def split: prod.splits)

lemma snd_usage_same [simp]: "same_claims s (fst (applyUsageEventInState e u m t)) = same_claims s t"
  by (auto simp: applyUsageEventInState_def applyAbsoluteUsageEventInState_def
      applyDeltaUsageEventInState_def same_claims_def markDirty_def Let_def
      split: usage_mode.splits option.splits)

lemma push_capped_take_last: "push_capped cap xs ys = take_last cap (xs @ ys)"
  by (simp add: push_capped_def take_last_def Let_def)

interpretation recent_log: bounded_log MAX_RECENT_EVENTS "push_capped MAX_RECENT_EVENTS"
  by unfold_locales (rule push_capped_take_last)

lemma recentEvents_pushEvent:
  "recentEvents (pushEvent e s) = push_capped MAX_RECENT_EVENTS (recentEvents s) [recent_of_event e]"
  by (simp add: state_defs)

lemma recentEvents_run:
  "recentEvents (fold pushEvent es s) =
     fold (\<lambda>ys xs. push_capped MAX_RECENT_EVENTS xs ys) (map (\<lambda>e. [recent_of_event e]) es) (recentEvents s)"
  by (induction es arbitrary: s) (auto simp: recentEvents_pushEvent)

lemma concat_singletons: "concat (map (\<lambda>x. [f x]) xs) = map f xs"
  by (induction xs) auto

text \<open>
  After any sequence of events the orchestrator's log holds the newest 250 of the old entries
  followed by the new ones, in order; every event makes the state dirty and is forwarded to the
  event bus as an \<open>agent.event\<close>.
\<close>

theorem pushEvent_log:
  assumes "es \<noteq> []"
  shows "recentEvents (fold pushEvent es s) =
           take_last 250 (recentEvents s @ map recent_of_event es) \<and>
         stateRevision (fold pushEvent es s) = stateRevision s + length es \<and>
         length (filter (\<lambda>e. case e of Emit n _ \<Rightarrow> n = ''agent.event'' | _ \<Rightarrow> False)
            (trace (fold pushEvent es s))) =
         length (filter (\<lambda>e. case e of Emit n _ \<Rightarrow> n = ''agent.event'' | _ \<Rightarrow> False) (trace s)) +
           length es"
proof (intro conjI)
  show "recentEvents (fold pushEvent es s) = take_last 250 (recentEvents s @ map recent_of_event es)"
    using assms recent_log.log_run [of "map (\<lambda>e. [recent_of_event e]) es" "recentEvents s"]
    by (simp add: recentEvents_run concat_singletons) (simp add: MAX_RECENT_EVENTS_def)
  show "stateRevision (fold pushEvent es s) = stateRevision s + length es"
    by (induction es arbitrary: s) (simp_all add: state_defs)
  show "length (filter (\<lambda>e. case e of Emit n _ \<Rightarrow> n = ''agent.event'' | _ \<Rightarrow> False)
            (trace (fold pushEvent es s))) =
         length (filter (\<lambda>e. case e of Emit n _ \<Rightarrow> n = ''agent.event'' | _ \<Rightarrow> False) (trace s)) + length es"
    by (induction es arbitrary: s) (simp_all add: state_defs emitLifecycleEvent_def Let_def)
qed

definition sample_event :: "string \<Rightarrow> runtime_event" where
  "sample_event name = createLifecycleEvent ''2026-01-01T00:00:00.000Z'' None
     (example_issue ''A-1'' ''Todo'' None) name ''m'' None None"

theorem pushEvent_log_witness:
  "length (recentEvents (fold pushEvent [sample_event ''issue_queued'', sample_event ''worker_failed''] createLifecycleState)) = 2"
proof -
  have "[sample_event ''issue_queued'', sample_event ''worker_failed''] \<noteq> []" by simp
  from pushEvent_log [OF this, of createLifecycleState] show ?thesis
    by (simp add: createLifecycleState_def)
qed

section \<open>Token accounting\<close>

definition usage_le :: "token_usage \<Rightarrow> token_usage \<Rightarrow> bool" where
  "usage_le u v \<longleftrightarrow> inputTokens u \<le> inputTokens v \<and> outputTokens u \<le> outputTokens v \<and>
     totalTokens u \<le> totalTokens v"

definition usage_nonneg :: "token_usage \<Rightarrow> bool" where
  "usage_nonneg u \<longleftrightarrow> 0 \<le> inputTokens u \<and> 0 \<le> outputTokens u \<and> 0 \<le> totalTokens u"

definition sum_sessions :: "(token_usage \<Rightarrow> int) \<Rightarrow> (string, token_usage) omap \<Rightarrow> int" where
  "sum_sessions f m = sum_list (map f (omap_values m))"

lemma sum_sessions_set:
  "sum_sessions f (omap_set k v m) =
     sum_sessions f m - (case omap_get m k of None \<Rightarrow> 0 | Some w \<Rightarrow> f w) + f v"
  by (induction k v m rule: omap_set.induct) (auto simp: sum_sessions_def omap_values_def omap_get_def)

text \<open>The totals account for the sessions exactly, beyond a fixed base (what earlier deltas added).\<close>

definition totals_match :: "token_usage \<Rightarrow> orch \<Rightarrow> bool" where
  "totals_match base s \<longleftrightarrow>
     ct_inputTokens (codexTotals s) = inputTokens base + sum_sessions inputTokens (sessionUsageTotals s) \<and>
     ct_outputTokens (codexTotals s) = outputTokens base + sum_sessions outputTokens (sessionUsageTotals s) \<and>
     ct_totalTokens (codexTotals s) = totalTokens base + sum_sessions totalTokens (sessionUsageTotals s)"

definition snapshot_ok :: "running_entry \<Rightarrow> token_usage \<Rightarrow> orch \<Rightarrow> bool" where
  "snapshot_ok entry usage s \<longleftrightarrow>
     usage_nonneg usage \<and> session_key entry \<noteq> None \<and>
     (case Option.bind (session_key entry) (omap_get (sessionUsageTotals s)) of
        None \<Rightarrow> True | Some previous \<Rightarrow> usage_le previous usage)"

lemma absolute_usage_match:
  assumes "snapshot_ok entry usage s" and "totals_match base s"
  shows "totals_match base (fst (applyAbsoluteUsageEventInState entry usage s))"
proof -
  from assms(1) obtain sid where sid: "session_key entry = Some sid"
    by (auto simp: snapshot_ok_def)
  show ?thesis
    using assms
    by (cases "omap_get (sessionUsageTotals s) sid")
      (auto simp: sid snapshot_ok_def totals_match_def applyAbsoluteUsageEventInState_def Let_def
        markDirty_def usageDelta_def add_totals_def sum_sessions_set usage_le_def usage_nonneg_def)
qed

text \<open>
  A stream of cumulative snapshots, each from a running entry. The hypothesis of the stream is
  checked as it goes.
\<close>

fun apply_snapshots :: "(running_entry \<times> token_usage) list \<Rightarrow> orch \<Rightarrow> orch" where
  "apply_snapshots [] s = s"
| "apply_snapshots ((entry, usage) # r) s =
     apply_snapshots r (fst (applyUsageEventInState entry usage AbsoluteTotal s))"

fun snapshots_ok :: "(running_entry \<times> token_usage) list \<Rightarrow> orch \<Rightarrow> bool" where
  "snapshots_ok [] s = True"
| "snapshots_ok ((entry, usage) # r) s =
     (snapshot_ok entry usage s \<and> snapshots_ok r (fst (applyUsageEventInState entry usage AbsoluteTotal s)))"

text \<open>
  However the cumulative token snapshots of any number of sessions interleave, as long as none
  of them decreases within its session, the global totals equal the base plus the sum over the
  sessions of their last snapshot: nothing is counted twice and nothing is lost.
\<close>

theorem usage_totals_exact:
  assumes "totals_match base s" and "snapshots_ok evs s"
  shows "totals_match base (apply_snapshots evs s)"
  using assms
proof (induction evs arbitrary: s)
  case (Cons p evs)
  obtain entry usage where p: "p = (entry, usage)" by (cases p)
  from Cons show ?case
    using absolute_usage_match [of entry usage s base]
    by (simp add: p applyUsageEventInState_def)
qed simp


definition sample_workspace :: workspace where
  "sample_workspace = \<lparr>ws_path = ''/w/A-1'', ws_key = ''A-1'', ws_createdNow = True\<rparr>"

definition sample_selection :: model_selection where
  "sample_selection = \<lparr>sel_model = ''m'', sel_effort = Null, sel_source = DefaultSource\<rparr>"

definition sample_entry :: "string \<Rightarrow> string \<Rightarrow> running_entry" where
  "sample_entry ident sid =
     \<lparr>en_runId = ident @ ''-run'', en_issue = example_issue ident ''In Progress'' None,
      en_workspace = sample_workspace, en_startedAtMs = 0, en_lastEventAtMs = 0, en_attempt = Some 1,
      en_aborted = None, en_cleanupOnExit = False, en_status = SRunning, en_sessionId = Some sid,
      en_tokenUsage = None, en_modelSelection = sample_selection, en_lastAgentMessageContent = None,
      en_lastStopSignal = None, en_repoMatch = None, en_steerReady = False\<rparr>"

definition sample_usage :: "int \<Rightarrow> token_usage" where
  "sample_usage n = \<lparr>inputTokens = n, outputTokens = n, totalTokens = 2 * n\<rparr>"

theorem usage_totals_exact_witness:
  "totals_match (sample_usage 0)
     (apply_snapshots [(sample_entry ''A-1'' ''s1'', sample_usage 3), (sample_entry ''A-2'' ''s2'', sample_usage 5),
        (sample_entry ''A-1'' ''s1'', sample_usage 7)] createLifecycleState)"
proof (rule usage_totals_exact)
  show "totals_match (sample_usage 0) createLifecycleState"
    by (simp add: totals_match_def createLifecycleState_def sample_usage_def sum_sessions_def omap_values_def)
  show "snapshots_ok [(sample_entry ''A-1'' ''s1'', sample_usage 3), (sample_entry ''A-2'' ''s2'', sample_usage 5),
        (sample_entry ''A-1'' ''s1'', sample_usage 7)] createLifecycleState"
    by (simp add: snapshot_ok_def session_key_def sample_entry_def sample_usage_def usage_nonneg_def
        createLifecycleState_def applyUsageEventInState_def applyAbsoluteUsageEventInState_def
        markDirty_def usage_le_def omap_get_def)
qed

section \<open>The latest attempt of an issue\<close>

lemma str_less_irrefl [simp]: "\<not> str_less a a"
  by (induction a) auto

lemma str_less_trans: "str_less a b \<Longrightarrow> str_less b c \<Longrightarrow> str_less a c"
proof (induction a b arbitrary: c rule: str_less.induct)
  case (3 x as y bs)
  then show ?case by (cases c) auto
next
  case (2 y ys)
  then show ?case by (cases c) auto
qed simp

lemma str_less_total: "a \<noteq> b \<Longrightarrow> str_less a b \<or> str_less b a"
proof (induction a b rule: str_less.induct)
  case (3 x as y bs)
  have "x = y \<or> (of_char x :: nat) < of_char y \<or> (of_char y :: nat) < of_char x"
    by (metis linorder_neqE_nat of_char_eq_iff)
  with 3 show ?case by auto
qed (auto simp: neq_Nil_conv elim: str_less.elims)

definition latest_of :: "(attempt_record \<Rightarrow> string) \<Rightarrow> attempt_record list \<Rightarrow> string \<Rightarrow> attempt_record \<Rightarrow> bool" where
  "latest_of key attempts k a \<longleftrightarrow>
     a \<in> set attempts \<and> key a = k \<and>
     (\<forall>b \<in> set attempts. key b = k \<longrightarrow> \<not> str_less (at_startedAt a) (at_startedAt b))"

lemma latest_by_snoc:
  "latest_by key (as @ [a]) =
     (case omap_get (latest_by key as) (key a) of
        None \<Rightarrow> omap_set (key a) a (latest_by key as)
      | Some existing \<Rightarrow>
          if str_less (at_startedAt existing) (at_startedAt a)
          then omap_set (key a) a (latest_by key as) else latest_by key as)"
  by (simp only: latest_by_def fold_append comp_def fold_simps)

lemma latest_by_none: "omap_get (latest_by key as) k = None \<longleftrightarrow> k \<notin> key ` set as"
proof (induction as rule: rev_induct)
  case (snoc a as)
  then show ?case by (auto simp: latest_by_snoc split: option.splits)
qed (simp add: latest_by_def)

lemma latest_by_some: "omap_get (latest_by key as) k = Some a \<Longrightarrow> latest_of key as k a"
proof (induction as arbitrary: a rule: rev_induct)
  case (snoc x as)
  show ?case
  proof (cases "key x = k")
    case False
    with snoc show ?thesis
      by (auto simp: latest_by_snoc latest_of_def split: option.splits if_splits)
  next
    case k: True
    show ?thesis
    proof (cases "omap_get (latest_by key as) k")
      case None
      with snoc.prems k have "a = x" by (simp add: latest_by_snoc)
      with None k show ?thesis by (fastforce simp: latest_of_def latest_by_none image_iff)
    next
      case (Some e)
      note e = snoc.IH [OF Some]
      show ?thesis
      proof (cases "str_less (at_startedAt e) (at_startedAt x)")
        case True
        with snoc.prems k Some have "a = x" by (simp add: latest_by_snoc)
        with e k True show ?thesis by (auto simp: latest_of_def dest: str_less_trans)
      next
        case False
        with snoc.prems k Some have "a = e" by (simp add: latest_by_snoc)
        with e k False show ?thesis by (auto simp: latest_of_def)
      qed
    qed
  qed
qed (simp add: latest_by_def)

lemma latest_by_ok [simp]: "omap_ok (latest_by key as)"
proof (induction as rule: rev_induct)
  case (snoc a as)
  then show ?case by (auto simp: latest_by_snoc split: option.splits)
qed (simp add: latest_by_def)

lemma latest_by_values:
  "a \<in> set (omap_values (latest_by key as)) \<longleftrightarrow> omap_get (latest_by key as) (key a) = Some a"
proof
  assume "a \<in> set (omap_values (latest_by key as))"
  then obtain k where k: "(k, a) \<in> set (latest_by key as)" by (auto simp: omap_values_set)
  then have "omap_get (latest_by key as) k = Some a" by (simp add: omap_get_in)
  moreover from this have "key a = k" by (auto dest: latest_by_some simp: latest_of_def)
  ultimately show "omap_get (latest_by key as) (key a) = Some a" by simp
qed (auto simp: omap_values_set dest: omap_get_SomeD)

lemma set_omap_values_get: "omap_get m k = Some v \<Longrightarrow> v \<in> set (omap_values m)"
  by (auto simp: omap_values_set dest: omap_get_SomeD)

text \<open>
  After seeding, an issue id is newly claimed exactly when the attempt the scan keeps for some
  issue identifier, which is a latest one by start time, completed; so an issue whose latest
  attempt failed or was cancelled is not withheld from dispatch by seeding, and claims held
  before stay.
\<close>

theorem seedCompletedClaims_claims:
  "(ident_id \<in> claimedIssueIds (seedCompletedClaims attempts s)) =
     (ident_id \<in> claimedIssueIds s \<or>
      (\<exists>a. omap_get (latest_by at_issueIdentifier attempts) (at_issueIdentifier a) = Some a \<and>
           latest_of at_issueIdentifier attempts (at_issueIdentifier a) a \<and>
           at_status a = ACompleted \<and> at_issueId a = ident_id))"
  by (auto simp: seedCompletedClaims_def seedCompletedClaimsFromAttempts_def Let_def markDirty_def
      latest_by_values image_iff dest: latest_by_some)

end
