(* ===== verification/RetryQueue.thy ===== *)
theory RetryQueue
  imports LifecycleState
begin

text \<open>
  The retry queue of \<open>src/src/orchestrator/retry-coordinator.ts\<close>: backoff, \<open>queueRetry\<close> and
  \<open>cancel\<close>, with the claim discipline they keep. A timer is live while it is in \<open>timers\<close>;
  \<open>clearTimeout\<close> takes it out, and firing takes it out before its callback runs.
\<close>

section \<open>Operations\<close>

definition computeBackoffForAttempt :: "int \<Rightarrow> int \<Rightarrow> int" where
  "computeBackoffForAttempt currentAttempt maxBackoffMs =
     (let nextAttempt = currentAttempt + 1
      in min (10000 * 2 ^ nat (max 0 (nextAttempt - 1))) maxBackoffMs)"

definition issueRef :: "issue \<Rightarrow> issue_ref" where
  "issueRef i = \<lparr>ir_id = issue_id i, ir_identifier = issue_identifier i, ir_title = issue_title i,
     ir_state = issue_state i, ir_url = issue_url i\<rparr>"

definition clearTimeout :: "nat option \<Rightarrow> orch \<Rightarrow> orch" where
  "clearTimeout timer s =
     (case timer of
        None \<Rightarrow> s
      | Some t \<Rightarrow> s\<lparr>timers := filter (\<lambda>tm. tm_id tm \<noteq> t) (timers s)\<rparr>)"

definition cancelRetry :: "string \<Rightarrow> orch \<Rightarrow> orch" where
  "cancelRetry issueId s =
     (let retryEntry = omap_get (retryEntries s) issueId;
          s1 = clearTimeout (Option.bind retryEntry re_timer) s;
          s2 = (if omap_has (retryEntries s1) issueId
                then markDirty (s1\<lparr>retryEntries := omap_delete issueId (retryEntries s1)\<rparr>) else s1)
      in if omap_has (runningEntries s2) issueId then s2 else releaseIssueClaimInState issueId s2)"

definition retry_notification ::
  "int \<Rightarrow> issue \<Rightarrow> int \<Rightarrow> int \<Rightarrow> string option \<Rightarrow> notification" where
  "retry_notification now i attempt delayMs error =
     \<lparr>nt_type = NWorkerRetry, nt_severity = Critical, nt_timestamp = iso_of_ms now,
      nt_message = ''retry queued in '' @ show_int delayMs @ ''ms'', nt_issue = issueRef i,
      nt_attempt = Some attempt,
      nt_metadata = Val (JObj [(''delayMs'', JNum delayMs), (''error'', jopt JStr error)])\<rparr>"

definition queueRetry ::
  "int \<Rightarrow> issue \<Rightarrow> int \<Rightarrow> int \<Rightarrow> string option \<Rightarrow> string option \<Rightarrow> orch \<Rightarrow> orch" where
  "queueRetry now i attempt delayMs error threadId s =
     (if \<not> o_running s then s
      else
        (let s1 = claimIssueInState (issue_id i) s;
             existing = omap_get (retryEntries s1) (issue_id i);
             s2 = clearTimeout (Option.bind existing re_timer) s1;
             dueAtMs = now + delayMs;
             timer = nextTimerId s2;
             s3 = s2\<lparr>timers := timers s2 @
                      [\<lparr>tm_id = timer, tm_issue = i, tm_attempt = attempt, tm_dueAtMs = dueAtMs\<rparr>],
                     nextTimerId := timer + 1\<rparr>;
             entry = \<lparr>re_issueId = issue_id i, re_identifier = issue_identifier i, re_attempt = attempt,
                      re_dueAtMs = dueAtMs, re_error = error, re_timer = Some timer,
                      re_threadId = threadId, re_issue = i,
                      re_workspaceKey =
                        Option.bind (omap_get (detailViews s3) (issue_identifier i)) v_workspaceKey\<rparr>;
             s4 = markDirty (s3\<lparr>retryEntries := omap_set (issue_id i) entry (retryEntries s3)\<rparr>)
         in notifyChannel (retry_notification now i attempt delayMs error) s4))"

text \<open>The retry timer fires: it is no longer live.\<close>

definition fire_timer :: "retry_timer \<Rightarrow> orch \<Rightarrow> orch" where
  "fire_timer tm s = s\<lparr>timers := filter (\<lambda>t. tm_id t \<noteq> tm_id tm) (timers s)\<rparr>"

section \<open>The claim discipline\<close>

text \<open>
  Running and retry entries are keyed by the id of their issue; no issue is in both maps; while the
  orchestrator runs, every issue in either map is claimed, so dispatch cannot start it a second
  time; a stopped orchestrator has no retries. Timers have distinct numbers, and every retry entry
  names an issued one.
\<close>

definition keys_ok :: "orch \<Rightarrow> bool" where
  "keys_ok s \<longleftrightarrow> omap_ok (runningEntries s) \<and> omap_ok (retryEntries s) \<and>
     (\<forall>p \<in> set (runningEntries s). issue_id (en_issue (snd p)) = fst p) \<and>
     (\<forall>p \<in> set (retryEntries s). re_issueId (snd p) = fst p \<and> issue_id (re_issue (snd p)) = fst p)"

definition claims_ok :: "orch \<Rightarrow> bool" where
  "claims_ok s \<longleftrightarrow>
     (\<forall>k. omap_has (runningEntries s) k \<longrightarrow> \<not> omap_has (retryEntries s) k) \<and>
     (if o_running s
      then \<forall>k. omap_has (runningEntries s) k \<or> omap_has (retryEntries s) k \<longrightarrow> k \<in> claimedIssueIds s
      else retryEntries s = [])"

definition timers_ok :: "orch \<Rightarrow> bool" where
  "timers_ok s \<longleftrightarrow> distinct (map tm_id (timers s)) \<and>
     (\<forall>tm \<in> set (timers s). tm_id tm < nextTimerId s) \<and>
     (\<forall>p \<in> set (retryEntries s). \<exists>t. re_timer (snd p) = Some t \<and> t < nextTimerId s)"

definition claim_inv :: "orch \<Rightarrow> bool" where
  "claim_inv s \<longleftrightarrow> keys_ok s \<and> claims_ok s \<and> timers_ok s"

lemma omap_has_simps [simp]:
  "omap_has (omap_set k v m) k' \<longleftrightarrow> k' = k \<or> omap_has m k'"
  "omap_has (omap_delete k m) k' \<longleftrightarrow> k' \<noteq> k \<and> omap_has m k'"
  "\<not> omap_has [] k'"
  by (auto simp: omap_has_get)

lemma claim_inv_same: "same_claims s t \<Longrightarrow> claim_inv t = claim_inv s"
  by (auto simp: same_claims_def claim_inv_def keys_ok_def claims_ok_def timers_ok_def)

lemma claim_inv_same_ops [simp]:
  "claim_inv (markDirty t) = claim_inv t"
  "claim_inv (record_effect e t) = claim_inv t"
  "claim_inv (setQueuedViewsInState vs t) = claim_inv t"
  "claim_inv (setRateLimitsInState l t) = claim_inv t"
  "claim_inv (setDetailViewInState k v t) = claim_inv t"
  "claim_inv (setCompletedViewInState k v t) = claim_inv t"
  "claim_inv (suppressIssueDispatch i t) = claim_inv t"
  "claim_inv (pushEvent ev t) = claim_inv t"
  "claim_inv (notifyChannel n t) = claim_inv t"
  by (rule claim_inv_same, simp)+

lemma claim_inv_claim [intro]: "claim_inv s \<Longrightarrow> claim_inv (claimIssueInState k s)"
  by (auto simp: claim_inv_def keys_ok_def claims_ok_def timers_ok_def claimIssueInState_def markDirty_def)

lemma claim_inv_release [intro]:
  "claim_inv s \<Longrightarrow> \<not> omap_has (runningEntries s) k \<Longrightarrow> \<not> omap_has (retryEntries s) k \<Longrightarrow>
     claim_inv (releaseIssueClaimInState k s)"
  by (auto simp: claim_inv_def keys_ok_def claims_ok_def timers_ok_def releaseIssueClaimInState_def
      markDirty_def)

lemma claim_inv_delete_running [intro]:
  "claim_inv s \<Longrightarrow> claim_inv (s\<lparr>runningEntries := omap_delete k (runningEntries s)\<rparr>)"
  by (auto simp: claim_inv_def keys_ok_def claims_ok_def timers_ok_def set_omap_delete)

lemma omap_delete_Nil [simp]: "omap_delete k [] = []"
  by (simp add: omap_delete_def)

lemma claim_inv_delete_retry [intro]:
  "claim_inv s \<Longrightarrow> claim_inv (s\<lparr>retryEntries := omap_delete k (retryEntries s)\<rparr>)"
  by (auto simp: claim_inv_def keys_ok_def claims_ok_def timers_ok_def set_omap_delete)

lemma distinct_map_filter_id: "distinct (map f xs) \<Longrightarrow> distinct (map f (filter P xs))"
  by (induction xs) auto

lemma claim_inv_clearTimeout [intro]: "claim_inv s \<Longrightarrow> claim_inv (clearTimeout t s)"
  by (cases t) (auto simp: claim_inv_def keys_ok_def claims_ok_def timers_ok_def clearTimeout_def
      distinct_map_filter_id)

lemma claim_inv_fire [intro]: "claim_inv s \<Longrightarrow> claim_inv (fire_timer tm s)"
  by (auto simp: claim_inv_def keys_ok_def claims_ok_def timers_ok_def fire_timer_def
      distinct_map_filter_id)

lemma clearTimeout_fields [simp]:
  "o_running (clearTimeout t s) = o_running s"
  "runningEntries (clearTimeout t s) = runningEntries s"
  "retryEntries (clearTimeout t s) = retryEntries s"
  "claimedIssueIds (clearTimeout t s) = claimedIssueIds s"
  "nextTimerId (clearTimeout t s) = nextTimerId s"
  "detailViews (clearTimeout t s) = detailViews s"
  "trace (clearTimeout t s) = trace s"
  "set (timers (clearTimeout t s)) \<subseteq> set (timers s)"
  by (cases t; auto simp: clearTimeout_def)+

lemma claim_inv_cancelRetry: "claim_inv s \<Longrightarrow> claim_inv (cancelRetry k s)"
proof -
  assume inv: "claim_inv s"
  define s1 where "s1 = clearTimeout (Option.bind (omap_get (retryEntries s) k) re_timer) s"
  define s2 where "s2 = (if omap_has (retryEntries s1) k
    then markDirty (s1\<lparr>retryEntries := omap_delete k (retryEntries s1)\<rparr>) else s1)"
  have "claim_inv s1" using inv by (auto simp: s1_def)
  then have inv2: "claim_inv s2" by (auto simp: s2_def)
  have "\<not> omap_has (retryEntries s2) k" by (simp add: s2_def markDirty_def)
  moreover have "cancelRetry k s =
      (if omap_has (runningEntries s2) k then s2 else releaseIssueClaimInState k s2)"
    by (simp only: cancelRetry_def Let_def s1_def s2_def)
  ultimately show ?thesis
    using inv2 by (simp add: claim_inv_release)
qed

lemma cancelRetry_spec:
  "omap_get (retryEntries (cancelRetry k s)) k' = (if k' = k then None else omap_get (retryEntries s) k')"
  "runningEntries (cancelRetry k s) = runningEntries s"
  "k' \<in> claimedIssueIds (cancelRetry k s) \<longleftrightarrow>
     k' \<in> claimedIssueIds s \<and> (k' = k \<longrightarrow> omap_has (runningEntries s) k)"
  "o_running (cancelRetry k s) = o_running s"
  "trace (cancelRetry k s) = trace s"
  by (auto simp: cancelRetry_def Let_def markDirty_def releaseIssueClaimInState_def omap_has_get)

lemma cancelRetry_timer:
  "omap_get (retryEntries s) k = Some e \<Longrightarrow> re_timer e = Some t \<Longrightarrow>
     t \<notin> tm_id ` set (timers (cancelRetry k s))"
  by (auto simp: cancelRetry_def Let_def markDirty_def releaseIssueClaimInState_def clearTimeout_def)

lemma claim_inv_add_retry:
  assumes "claim_inv s" and "\<not> omap_has (runningEntries s) k" and "k \<in> claimedIssueIds s"
    and "o_running s" and "re_issueId e = k" and "issue_id (re_issue e) = k"
    and "re_timer e = Some (nextTimerId s)" and "tm_id tm = nextTimerId s"
  shows "claim_inv (s\<lparr>timers := timers s @ [tm], nextTimerId := nextTimerId s + 1,
      retryEntries := omap_set k e (retryEntries s)\<rparr>)" (is "claim_inv ?t")
proof -
  have "keys_ok ?t"
    using assms by (auto simp: claim_inv_def keys_ok_def set_omap_set)
  moreover have "claims_ok ?t"
    using assms by (auto simp: claim_inv_def claims_ok_def)
  moreover have "timers_ok ?t"
    using assms by (fastforce simp: claim_inv_def keys_ok_def timers_ok_def set_omap_set)
  ultimately show ?thesis by (simp add: claim_inv_def)
qed

lemma claim_inv_queueRetry:
  assumes "claim_inv s" and "\<not> omap_has (runningEntries s) (issue_id i)"
  shows "claim_inv (queueRetry now i attempt delay err thread s)"
proof (cases "o_running s")
  case True
  define s2 where "s2 = clearTimeout (Option.bind (omap_get (retryEntries (claimIssueInState (issue_id i) s)) (issue_id i)) re_timer)
    (claimIssueInState (issue_id i) s)"
  have inv2: "claim_inv s2" using assms(1) by (auto simp: s2_def)
  have run2: "\<not> omap_has (runningEntries s2) (issue_id i)" "issue_id i \<in> claimedIssueIds s2" "o_running s2"
    using assms(2) True by (simp_all add: s2_def claimIssueInState_def markDirty_def)
  show ?thesis
    unfolding queueRetry_def Let_def s2_def [symmetric]
    using claim_inv_add_retry [OF inv2 run2] True by simp
qed (use assms in \<open>simp add: queueRetry_def\<close>)

lemma queueRetry_spec:
  assumes "o_running s"
  shows "omap_has (retryEntries (queueRetry now i attempt delay err thread s)) k \<longleftrightarrow>
           k = issue_id i \<or> omap_has (retryEntries s) k"
    and "claimedIssueIds (queueRetry now i attempt delay err thread s) = insert (issue_id i) (claimedIssueIds s)"
    and "runningEntries (queueRetry now i attempt delay err thread s) = runningEntries s"
    and "o_running (queueRetry now i attempt delay err thread s)"
  by (simp_all add: queueRetry_def assms Let_def markDirty_def notifyChannel_def record_effect_def
      claimIssueInState_def)

lemma queueRetry_stopped [simp]: "\<not> o_running s \<Longrightarrow> queueRetry now i attempt delay err thread s = s"
  by (simp add: queueRetry_def)

end
