(* ===== verification/SignalDetection.thy ===== *)
theory SignalDetection
  imports CoreTypes
begin

text \<open>
  \<open>src/src/core/signal-detection.ts\<close>: the stop signal an agent's message carries.
  \<open>JSON.parse\<close> is \<open>h_json_parse\<close> (\<open>None\<close> where it throws). \<open>toUpperCase\<close> is given on the
  Latin-1 range; the two letters whose upper case lies outside it stay as they are, which no
  comparison with an ASCII word can tell.
\<close>

definition upper_char :: "char \<Rightarrow> string" where
  "upper_char c =
     (let n = (of_char c :: nat)
      in if (97 \<le> n \<and> n \<le> 122) \<or> (224 \<le> n \<and> n \<le> 254 \<and> n \<noteq> 247) then [char_of (n - 32)]
         else if n = 223 then ''SS'' else [c])"

definition js_upper :: "string \<Rightarrow> string" where
  "js_upper s = concat (map upper_char s)"

definition DONE_MARKERS :: "string list" where
  "DONE_MARKERS = [''risoluto_status: done'', ''risoluto status: done'',
     ''symphony_status: done'', ''symphony status: done'']"

definition BLOCKED_MARKERS :: "string list" where
  "BLOCKED_MARKERS = [''risoluto_status: blocked'', ''risoluto status: blocked'',
     ''symphony_status: blocked'', ''symphony status: blocked'']"

text \<open>\<open>replaceAll(/\s+/g, " ")\<close>.\<close>

function collapse_ws :: "string \<Rightarrow> string" where
  "collapse_ws [] = []"
| "collapse_ws (c # cs) =
     (if is_js_space c then CHR 0x20 # collapse_ws (dropWhile is_js_space cs)
      else c # collapse_ws cs)"
  by pat_completeness auto
termination
  by (relation "measure length") (auto simp: le_imp_less_Suc length_dropWhile_le)

definition normalizeForDetection :: "string \<Rightarrow> string" where
  "normalizeForDetection content = collapse_ws (js_lower content)"

text \<open>
  \<open>Object(parsed ?? {}).status\<close>: only an object has such a member, and it counts when it is a
  string.
\<close>

definition detectStructuredStatus :: "host \<Rightarrow> string \<Rightarrow> stop_signal option" where
  "detectStructuredStatus h content =
     (case h_json_parse h content of
        Some (JObj members) \<Rightarrow>
          (case map_of members ''status'' of
             Some (JStr v) \<Rightarrow>
               (let status = js_upper v
                in if status = ''DONE'' then Some Done
                   else if status = ''BLOCKED'' then Some Blocked else None)
           | _ \<Rightarrow> None)
      | _ \<Rightarrow> None)"

definition has_marker :: "string list \<Rightarrow> string \<Rightarrow> bool" where
  "has_marker markers normalized = list_ex (str_includes normalized) markers"

definition detectStopSignal :: "host \<Rightarrow> string option \<Rightarrow> stop_signal option" where
  "detectStopSignal h content =
     (case content of
        None \<Rightarrow> None
      | Some text \<Rightarrow>
          if text = [] then None
          else (case detectStructuredStatus h text of
             Some sig \<Rightarrow> Some sig
           | None \<Rightarrow>
               (let normalized = normalizeForDetection text
                in if has_marker DONE_MARKERS normalized then Some Done
                   else if has_marker BLOCKED_MARKERS normalized then Some Blocked
                   else None)))"

section \<open>Lemmas\<close>

lemma collapse_append_nonspace:
  "\<not> is_js_space c \<Longrightarrow> collapse_ws (u @ c # v) = collapse_ws u @ collapse_ws (c # v)"
proof (induction u rule: collapse_ws.induct)
  case (2 d cs)
  have "collapse_ws (dropWhile is_js_space cs) = []" if "\<forall>x\<in>set cs. is_js_space x"
  proof -
    from that have "dropWhile is_js_space cs = []" by simp
    then show ?thesis by (simp only: collapse_ws.simps)
  qed
  with 2 show ?case
    by (cases "is_js_space d") (auto simp: dropWhile_append)
qed simp

lemma collapse_words:
  "list_all (\<lambda>c. \<not> is_js_space c) w \<Longrightarrow> collapse_ws (w @ v) = w @ collapse_ws v"
  by (induction w) auto

lemma dropWhile_all: "list_all is_js_space ws \<Longrightarrow> dropWhile is_js_space (ws @ v) = dropWhile is_js_space v"
  by (induction ws) auto

lemma collapse_spaces:
  assumes "ws \<noteq> []" and "list_all is_js_space ws" and "\<not> is_js_space c"
  shows "collapse_ws (ws @ c # v) = CHR 0x20 # collapse_ws (c # v)"
  using assms by (cases ws) (auto simp: dropWhile_all)

lemma js_lower_append [simp]: "js_lower (u @ v) = js_lower u @ js_lower v"
  by (simp add: js_lower_def)

lemma list_all_space_lower [simp]: "list_all is_js_space (js_lower ws) = list_all is_js_space ws"
  by (induction ws) (auto simp: js_lower_def)

lemma js_lower_Nil_iff [simp]: "js_lower s = [] \<longleftrightarrow> s = []" "js_lower [] = []"
  by (simp_all add: js_lower_def)

lemma no_space_tag: "list_all (\<lambda>c. \<not> is_js_space c) ''risoluto_status:''"
  by (simp only: list.pred_inject(2)) (simp_all add: is_js_space_def)

lemma no_space_done: "list_all (\<lambda>c. \<not> is_js_space c) ''done''"
  by (simp only: list.pred_inject(2)) (simp_all add: is_js_space_def)

lemma normalize_marker:
  assumes "js_lower word = m" and "list_all (\<lambda>c. \<not> is_js_space c) m" and "m \<noteq> []"
    and "js_lower tag = ''risoluto_status:''" and "ws \<noteq> []" and "list_all is_js_space ws"
  shows "\<exists>p q. normalizeForDetection (u @ tag @ ws @ word @ v) = p @ (''risoluto_status: '' @ m) @ q"
proof -
  obtain c m' where m: "m = c # m'" "\<not> is_js_space c"
    using assms(2,3) by (cases m) auto
  have "normalizeForDetection (u @ tag @ ws @ word @ v) =
      collapse_ws (js_lower u @ ''risoluto_status:'' @ (js_lower ws @ m @ js_lower v))"
    by (simp add: normalizeForDetection_def assms(1,4))
  also have "\<dots> = collapse_ws (js_lower u) @ collapse_ws (''risoluto_status:'' @ (js_lower ws @ m @ js_lower v))"
    using collapse_append_nonspace [of "CHR ''r''" "js_lower u"] by (simp add: is_js_space_def)
  also have "collapse_ws (''risoluto_status:'' @ (js_lower ws @ m @ js_lower v)) =
      ''risoluto_status:'' @ collapse_ws (js_lower ws @ m @ js_lower v)"
    by (rule collapse_words [OF no_space_tag])
  also have "collapse_ws (js_lower ws @ m @ js_lower v) = CHR 0x20 # collapse_ws (m @ js_lower v)"
    using collapse_spaces [of "js_lower ws" c "m' @ js_lower v"] assms(5,6) m by simp
  also have "collapse_ws (m @ js_lower v) = m @ collapse_ws (js_lower v)"
    by (rule collapse_words [OF assms(2)])
  finally have "normalizeForDetection (u @ tag @ ws @ word @ v) =
      collapse_ws (js_lower u) @ (''risoluto_status: '' @ m) @ collapse_ws (js_lower v)" by simp
  then show ?thesis by blast
qed

text \<open>
  A message that is no JSON status and that carries the marker \<open>RISOLUTO_STATUS: DONE\<close>, in
  any letter case and with any white space before the word, anywhere in it, is a done signal, even
  if it also carries blocked markers.
\<close>

theorem detectStopSignal_done:
  assumes "js_lower tag = ''risoluto_status:''" and "js_lower word = ''done''"
    and "ws \<noteq> []" and "list_all is_js_space ws"
    and "detectStructuredStatus h (u @ tag @ ws @ word @ v) = None"
  shows "detectStopSignal h (Some (u @ tag @ ws @ word @ v)) = Some Done"
proof -
  from normalize_marker [OF assms(2) no_space_done _ assms(1,3,4), of u v]
  obtain p q where n: "normalizeForDetection (u @ tag @ ws @ word @ v) =
      p @ (''risoluto_status: '' @ ''done'') @ q" by auto
  have "has_marker DONE_MARKERS (normalizeForDetection (u @ tag @ ws @ word @ v))"
    unfolding n using includes_append [of p "''risoluto_status: done''" q]
    by (simp add: has_marker_def DONE_MARKERS_def)
  moreover have "ws = [] \<longrightarrow> False" using assms(3) by simp
  ultimately show ?thesis
    using assms(3,5) by (auto simp: detectStopSignal_def Let_def)
qed

theorem detectStopSignal_done_witness:
  "detectStopSignal \<lparr>h_date_parse = (\<lambda>_. None), h_locale_compare = (\<lambda>_ _. 0), h_json_parse = (\<lambda>_. None)\<rparr>
     (Some (''ok '' @ ''Risoluto_STATUS:'' @ [CHR 0x0A] @ ''Done'' @ ''.'')) = Some Done"
  by (rule detectStopSignal_done) (simp add: detectStructuredStatus_def | code_simp)+

text \<open>
  A signal is reported exactly for a reason: the message is not empty, and it is a JSON object
  whose status is the signal's word in some letter case, or it is no JSON status and its normalised
  text holds a marker of the signal; from text, blocked is reported only when no done marker is
  there.
\<close>

theorem detectStopSignal_exact:
  "(detectStopSignal h content = Some sig) =
   (\<exists>text. content = Some text \<and> text \<noteq> [] \<and>
      (case detectStructuredStatus h text of
         Some s \<Rightarrow> s = sig
       | None \<Rightarrow>
           (case sig of
              Done \<Rightarrow> has_marker DONE_MARKERS (normalizeForDetection text)
            | Blocked \<Rightarrow> has_marker BLOCKED_MARKERS (normalizeForDetection text) \<and>
                \<not> has_marker DONE_MARKERS (normalizeForDetection text))))"
  by (cases sig) (auto simp: detectStopSignal_def Let_def split: option.splits if_splits)

end
