(* ===== verification/Outcome.thy ===== *)
theory Outcome
  imports RetryQueue SignalDetection
begin

text \<open>
  What happens when a worker's promise settles: \<open>src/src/orchestrator/worker-outcome/*.ts\<close>,
  \<open>worker-failure.ts\<close>, the post-outcome half of \<open>retry-coordinator.ts\<close> and
  \<open>handleWorkerPromise\<close> of \<open>run-lifecycle-coordinator.ts\<close>.

  A handler awaits calls to the ports. \<open>oe_throws env p\<close> says with which error the call at point
  \<open>p\<close> rejects, if it does, and \<open>oe_await env p\<close> is what the other tasks of the event loop do to the
  state while the handler is suspended there. The handler itself runs without interruption between
  two such points. The clock is read once per handler, as is the configuration.
\<close>

section \<open>The environment of a handler\<close>

datatype js_error = JsError string | TokenRefreshError string string

fun toErrorString :: "js_error \<Rightarrow> string" where
  "toErrorString (JsError m) = m"
| "toErrorString (TokenRefreshError code m) = m"

datatype await_point =
    AwFlush | AwFetchLatest | AwPrepareUpdate | AwRemoveWorkspace | AwAutoCommitEvent
  | AwAutoCommitCheckpoint | AwGitPostRun | AwStopUpdate | AwUpsertPr | AwResolveState
  | AwUpdateState | AwComment | AwExhaustedUpdate | AwFlushFallback | AwFailureUpdate
  | AwFailureFallback

record removal =
  rv_preserved :: bool
  rv_autoCommitSha :: "string option"

record outcome_env =
  oe_host :: host
  oe_now :: int
  oe_config :: service_config
  oe_await :: "await_point \<Rightarrow> orch \<Rightarrow> orch"
  oe_throws :: "await_point \<Rightarrow> js_error option"
  oe_latest :: "issue list"
  oe_hasRemovalResult :: bool
  oe_removal :: removal
  oe_hasGitManager :: bool
  oe_gitPostRun :: "string option \<times> string option"
  oe_stateId :: "string option"
  oe_costText :: "string option"

type_synonym outcome = "js_error option \<times> orch"

text \<open>A call to a port: the effect is made, the others run, then the result arrives.\<close>

definition port_call :: "outcome_env \<Rightarrow> await_point \<Rightarrow> effect list \<Rightarrow> orch \<Rightarrow> outcome" where
  "port_call env p effects s =
     (oe_throws env p, oe_await env p (s\<lparr>trace := trace s @ effects\<rparr>))"

text \<open>A call whose rejection is caught and logged.\<close>

definition caught_call :: "outcome_env \<Rightarrow> await_point \<Rightarrow> effect list \<Rightarrow> orch \<Rightarrow> orch" where
  "caught_call env p effects s = snd (port_call env p effects s)"

definition await_then :: "outcome \<Rightarrow> (orch \<Rightarrow> outcome) \<Rightarrow> outcome" where
  "await_then r k = (case r of (Some e, s) \<Rightarrow> (Some e, s) | (None, s) \<Rightarrow> k s)"

section \<open>types.ts and prepare.ts\<close>

fun outcomeToStatus :: "outcome_kind \<Rightarrow> string" where
  "outcomeToStatus Normal = ''completed''"
| "outcomeToStatus TimedOut = ''timed_out''"
| "outcomeToStatus Stalled = ''stalled''"
| "outcomeToStatus Cancelled = ''cancelled''"
| "outcomeToStatus Failed = ''failed''"

fun kind_name :: "outcome_kind \<Rightarrow> string" where
  "kind_name Normal = ''normal''"
| "kind_name TimedOut = ''timed_out''"
| "kind_name Stalled = ''stalled''"
| "kind_name Cancelled = ''cancelled''"
| "kind_name Failed = ''failed''"

record prepared =
  pr_outcome :: run_outcome
  pr_entry :: running_entry
  pr_issue :: issue
  pr_workspace :: workspace
  pr_attempt :: "int option"
  pr_latestIssue :: issue
  pr_modelSelection :: model_selection

text \<open>
  The entry object is shared with the map; while the map still holds it (same run id) the map's
  copy is its current content.
\<close>

definition current_entry :: "string \<Rightarrow> running_entry \<Rightarrow> orch \<Rightarrow> running_entry" where
  "current_entry issueId entry s =
     (case omap_get (runningEntries s) issueId of
        Some e \<Rightarrow> if en_runId e = en_runId entry then e else entry
      | None \<Rightarrow> entry)"

definition prepare_patch :: "int \<Rightarrow> run_outcome \<Rightarrow> running_entry \<Rightarrow> issue \<Rightarrow> (string \<times> json) list" where
  "prepare_patch now outcome entry latestIssue =
     [(''issueId'', JStr (issue_id latestIssue)),
      (''issueIdentifier'', JStr (issue_identifier latestIssue)),
      (''title'', JStr (issue_title latestIssue)),
      (''status'', JStr (outcomeToStatus (out_kind outcome))),
      (''endedAt'', JStr (iso_of_ms now)),
      (''threadId'', jopt JStr (or_else (out_threadId outcome) (en_sessionId entry))),
      (''turnId'', jopt JStr (out_turnId outcome)),
      (''turnCount'', JNum (out_turnCount outcome)),
      (''errorCode'', jopt JStr (out_errorCode outcome)),
      (''errorMessage'', jopt JStr (out_errorMessage outcome)),
      (''tokenUsage'', jopt js_usage (en_tokenUsage entry))]"

definition latest_issue :: "outcome_env \<Rightarrow> issue \<Rightarrow> issue" where
  "latest_issue env i =
     (case oe_throws env AwFetchLatest of
        Some _ \<Rightarrow> i
      | None \<Rightarrow> (case oe_latest env of [] \<Rightarrow> i | latest # _ \<Rightarrow> latest))"

definition resolve_in :: "outcome_env \<Rightarrow> orch \<Rightarrow> string \<Rightarrow> model_selection" where
  "resolve_in env s identifier = resolveModelSelection (issueModelOverrides s) (oe_config env) identifier"

definition buildOutcomeView ::
  "outcome_env \<Rightarrow> prepared \<Rightarrow> view_overrides \<Rightarrow> issue_view" where
  "buildOutcomeView env p overrides =
     projectOutcomeIssueView (iso_of_ms (oe_now env)) (pr_latestIssue p) (pr_workspace p) (pr_entry p)
       (pr_modelSelection p) overrides"

definition delete_running :: "string \<Rightarrow> orch \<Rightarrow> orch" where
  "delete_running issueId s =
     markDirty (s\<lparr>runningEntries := omap_delete issueId (runningEntries s)\<rparr>)"

definition prepareWorkerOutcome ::
  "outcome_env \<Rightarrow> run_outcome \<Rightarrow> running_entry \<Rightarrow> issue \<Rightarrow> workspace \<Rightarrow> int option \<Rightarrow> orch \<Rightarrow>
     (js_error + prepared) \<times> orch" where
  "prepareWorkerOutcome env outcome entry0 i ws attempt s =
     (case port_call env AwFlush [] s of
        (Some e, s1) \<Rightarrow> (Inl e, s1)
      | (None, s1) \<Rightarrow>
          (let entry = current_entry (issue_id i) entry0 s1;
               s2 = delete_running (issue_id i) s1;
               s3 = caught_call env AwFetchLatest [] s2;
               latestIssue = latest_issue env i
           in case port_call env AwPrepareUpdate
                     [UpdateAttempt (en_runId entry) (prepare_patch (oe_now env) outcome entry latestIssue)] s3 of
                (Some e, s4) \<Rightarrow> (Inl e, s4)
              | (None, s4) \<Rightarrow>
                  (let modelSelection = resolve_in env s4 (issue_identifier latestIssue);
                       p = \<lparr>pr_outcome = outcome, pr_entry = entry, pr_issue = i, pr_workspace = ws,
                            pr_attempt = attempt, pr_latestIssue = latestIssue,
                            pr_modelSelection = modelSelection\<rparr>;
                       view = buildOutcomeView env p
                         ((no_overrides (kind_name (out_kind outcome)))
                            \<lparr>vo_attempt := of_null attempt,
                             vo_error := of_null (out_errorMessage outcome),
                             vo_message := of_null (out_errorMessage outcome)\<rparr>)
                   in (Inr p, setDetailViewInState (issue_identifier latestIssue) view s4))))"

section \<open>completion-writeback.ts\<close>

text \<open>\<open>Intl.NumberFormat("en-US")\<close> on integers: groups of three digits.\<close>

fun group_rev :: "string \<Rightarrow> string" where
  "group_rev (a # b # c # d # r) = a # b # c # CHR '','' # group_rev (d # r)"
| "group_rev s = s"

definition formatTokenCount :: "int \<Rightarrow> string" where
  "formatTokenCount n =
     (if n < 0 then ''-'' else []) @ rev (group_rev (rev (digits_of_nat (nat \<bar>n\<bar>))))"

text \<open>\<open>Math.round(ms / 1000)\<close> rounds halves up.\<close>

definition durationSeconds :: "int \<Rightarrow> running_entry \<Rightarrow> int" where
  "durationSeconds now entry = (now - en_startedAtMs entry + 500) div 1000"

definition newline :: string where
  "newline = [CHR 0x0A]"

definition buildSuccessCommentBody ::
  "outcome_env \<Rightarrow> running_entry \<Rightarrow> int option \<Rightarrow> string option \<Rightarrow> int option \<Rightarrow> int \<Rightarrow> string" where
  "buildSuccessCommentBody env entry attempt pullRequestUrl turnCount duration =
     join newline
       ([''**Risoluto agent completed**''] @
        (case attempt of None \<Rightarrow> [] | Some a \<Rightarrow> [''- **Attempt:** '' @ show_int a]) @
        (case turnCount of None \<Rightarrow> [] | Some t \<Rightarrow> [''- **Turns:** '' @ show_int t]) @
        [''- **Duration:** '' @ show_int duration @ ''s''] @
        (case en_tokenUsage entry of
           None \<Rightarrow> []
         | Some u \<Rightarrow>
             [''- **Tokens:** '' @ formatTokenCount (totalTokens u) @ '' (in: '' @
                formatTokenCount (inputTokens u) @ '', out: '' @ formatTokenCount (outputTokens u) @ '')''] @
             (case oe_costText env of None \<Rightarrow> [] | Some c \<Rightarrow> [''- **Cost:** $'' @ c])) @
        (case pullRequestUrl of
           None \<Rightarrow> []
         | Some url \<Rightarrow> if url = [] then [] else [''- **PR:** '' @ url]))"

definition transitionToSuccessState ::
  "outcome_env \<Rightarrow> issue \<Rightarrow> string \<Rightarrow> orch \<Rightarrow> string option \<times> orch" where
  "transitionToSuccessState env i success s =
     (case port_call env AwResolveState [] s of
        (Some _, s1) \<Rightarrow> (None, s1)
      | (None, s1) \<Rightarrow>
          (case oe_stateId env of
             None \<Rightarrow> (None, s1)
           | Some stateId \<Rightarrow>
               if stateId = [] then (None, s1)
               else (case port_call env AwUpdateState [UpdateIssueState (issue_id i) stateId] s1 of
                  (Some _, s2) \<Rightarrow> (None, s2)
                | (None, s2) \<Rightarrow> (Some success, s2))))"

definition postSuccessWriteback ::
  "outcome_env \<Rightarrow> prepared \<Rightarrow> string option \<Rightarrow> int option \<Rightarrow> int \<Rightarrow> orch \<Rightarrow> string option \<times> orch" where
  "postSuccessWriteback env p pullRequestUrl turnCount duration s =
     (let i = pr_latestIssue p;
          body = buildSuccessCommentBody env (pr_entry p) (pr_attempt p) pullRequestUrl turnCount duration;
          (transitioned, s1) =
            (case successState (oe_config env) of
               None \<Rightarrow> (None, s)
             | Some name \<Rightarrow> if name = [] then (None, s) else transitionToSuccessState env i name s)
      in (transitioned, caught_call env AwComment [CreateComment (issue_id i) body] s1))"

definition blocked_comment :: "int option \<Rightarrow> int \<Rightarrow> string" where
  "blocked_comment attempt duration =
     join newline [''**Risoluto agent blocked**'', ''- **Reason:** agent reported blocked'',
       ''- **Attempts:** '' @ show_int (coalesce attempt 1), ''- **Duration:** '' @ show_int duration @ ''s'']"

definition failure_comment :: "string \<Rightarrow> int option \<Rightarrow> int \<Rightarrow> string" where
  "failure_comment reason attempt duration =
     join newline [''**Risoluto agent failed**'', ''- **Reason:** '' @ reason,
       ''- **Attempts:** '' @ show_int (coalesce attempt 1), ''- **Duration:** '' @ show_int duration @ ''s'']"

definition writeCompletionWriteback ::
  "outcome_env \<Rightarrow> prepared \<Rightarrow> stop_signal \<Rightarrow> string option \<Rightarrow> int option \<Rightarrow> orch \<Rightarrow> string option \<times> orch" where
  "writeCompletionWriteback env p stopSignal pullRequestUrl turnCount s =
     (let duration = durationSeconds (oe_now env) (pr_entry p)
      in case stopSignal of
           Done \<Rightarrow> postSuccessWriteback env p pullRequestUrl turnCount duration s
         | Blocked \<Rightarrow>
             (None, caught_call env AwComment
                [CreateComment (issue_id (pr_latestIssue p)) (blocked_comment (pr_attempt p) duration)] s))"

definition writeFailureWriteback :: "outcome_env \<Rightarrow> prepared \<Rightarrow> string \<Rightarrow> orch \<Rightarrow> orch" where
  "writeFailureWriteback env p errorReason s =
     caught_call env AwComment
       [CreateComment (issue_id (pr_latestIssue p))
          (failure_comment errorReason (pr_attempt p) (durationSeconds (oe_now env) (pr_entry p)))] s"

section \<open>finalize.ts\<close>

definition worker_failed_notification ::
  "outcome_env \<Rightarrow> prepared \<Rightarrow> severity \<Rightarrow> string \<Rightarrow> json jsopt \<Rightarrow> notification" where
  "worker_failed_notification env p sev message metadata =
     \<lparr>nt_type = NWorkerFailed, nt_severity = sev, nt_timestamp = iso_of_ms (oe_now env),
      nt_message = message, nt_issue = issueRef (pr_latestIssue p), nt_attempt = pr_attempt p,
      nt_metadata = metadata\<rparr>"

definition emit_completed :: "issue \<Rightarrow> string \<Rightarrow> orch \<Rightarrow> orch" where
  "emit_completed i outcome =
     record_effect (Emit ''issue.completed'' [(''issueId'', JStr (issue_id i)),
       (''identifier'', JStr (issue_identifier i)), (''outcome'', JStr outcome)])"

definition complete_view :: "outcome_env \<Rightarrow> prepared \<Rightarrow> view_overrides \<Rightarrow> orch \<Rightarrow> orch" where
  "complete_view env p overrides =
     setCompletedViewInState (issue_identifier (pr_latestIssue p)) (buildOutcomeView env p overrides)"

definition error_code_metadata :: "prepared \<Rightarrow> json jsopt" where
  "error_code_metadata p = Val (JObj [(''errorCode'', jopt JStr (out_errorCode (pr_outcome p)))])"

definition finalizeServiceStopped :: "outcome_env \<Rightarrow> prepared \<Rightarrow> orch \<Rightarrow> orch" where
  "finalizeServiceStopped env p s =
     (let i = pr_latestIssue p;
          message = coalesce (out_errorMessage (pr_outcome p)) ''service stopped before the worker completed'';
          s1 = notifyChannel (worker_failed_notification env p Critical message Undef) s;
          s2 = releaseIssueClaimInState (issue_id i) s1;
          s3 = complete_view env p ((no_overrides ''cancelled'')
                 \<lparr>vo_attempt := of_null (pr_attempt p),
                  vo_error := of_null (out_errorMessage (pr_outcome p)), vo_message := Val message\<rparr>) s2
      in emit_completed i ''cancelled'' s3)"

definition removeWorkspaceWithLogging ::
  "outcome_env \<Rightarrow> issue \<Rightarrow> orch \<Rightarrow> removal option \<times> orch" where
  "removeWorkspaceWithLogging env i s =
     (let (err, s1) = port_call env AwRemoveWorkspace [RemoveWorkspace (issue_identifier i)] s
      in (if oe_hasRemovalResult env \<and> err = None then Some (oe_removal env) else None, s1))"

definition recordAutoCommitCleanup :: "outcome_env \<Rightarrow> prepared \<Rightarrow> string option \<Rightarrow> orch \<Rightarrow> outcome" where
  "recordAutoCommitCleanup env p autoCommitSha s =
     (case autoCommitSha of
        None \<Rightarrow> (None, s)
      | Some sha \<Rightarrow>
          if sha = [] then (None, s)
          else
            (let entry = pr_entry p; i = pr_latestIssue p; createdAt = iso_of_ms (oe_now env)
             in await_then
                  (port_call env AwAutoCommitEvent
                     [AppendEvent (en_runId entry) ''workspace_auto_committed''
                        [(''at'', JStr createdAt), (''issueId'', JStr (issue_id i)),
                         (''issueIdentifier'', JStr (issue_identifier i)),
                         (''sessionId'', jopt JStr (en_sessionId entry)),
                         (''message'', JStr ''Uncommitted workspace changes were auto-committed before cleanup''),
                         (''metadata'', JObj [(''commitSha'', JStr sha)])]] s)
                  (\<lambda>s1. port_call env AwAutoCommitCheckpoint
                     [AppendCheckpoint (en_runId entry)
                        [(''trigger'', JStr ''status_transition''), (''eventCursor'', JNull),
                         (''status'', JStr (outcomeToStatus (out_kind (pr_outcome p)))),
                         (''threadId'', jopt JStr (en_sessionId entry)),
                         (''turnId'', jopt JStr (out_turnId (pr_outcome p))),
                         (''turnCount'', JNum (out_turnCount (pr_outcome p))),
                         (''tokenUsage'', jopt js_usage (en_tokenUsage entry)),
                         (''metadata'', JObj [(''autoCommitSha'', JStr sha)]),
                         (''createdAt'', JStr createdAt)]] s1)))"

definition finalizeTerminalCleanup :: "outcome_env \<Rightarrow> prepared \<Rightarrow> orch \<Rightarrow> outcome" where
  "finalizeTerminalCleanup env p s =
     (let i = pr_latestIssue p; out = pr_outcome p;
          (removalResult, s1) = removeWorkspaceWithLogging env i s
      in await_then (recordAutoCommitCleanup env p (Option.bind removalResult rv_autoCommitSha) s1)
           (\<lambda>s2.
              (let s3 = complete_view env p ((no_overrides (outcomeToStatus (out_kind out)))
                     \<lparr>vo_attempt := of_null (pr_attempt p),
                      vo_error := of_null (or_else (out_errorMessage out) (out_errorCode out)),
                      vo_message := Val (if (case removalResult of Some r \<Rightarrow> rv_preserved r | None \<Rightarrow> False)
                        then ''workspace preserved after cleanup protection triggered''
                        else ''workspace cleaned after terminal state'')\<rparr>) s2;
                   s4 = emit_completed i (outcomeToStatus (out_kind out)) s3
               in (None, releaseIssueClaimInState (issue_id i) s4))))"

definition finalizeInactiveIssue :: "outcome_env \<Rightarrow> prepared \<Rightarrow> orch \<Rightarrow> orch" where
  "finalizeInactiveIssue env p s =
     (let i = pr_latestIssue p;
          s1 = complete_view env p ((no_overrides ''paused'')\<lparr>vo_message := Val ''issue is no longer active''\<rparr>) s;
          s2 = emit_completed i ''paused'' s1
      in releaseIssueClaimInState (issue_id i) s2)"

definition finalizeOperatorAbort :: "outcome_env \<Rightarrow> prepared \<Rightarrow> orch \<Rightarrow> orch" where
  "finalizeOperatorAbort env p s =
     (let i = pr_latestIssue p;
          message = coalesce (out_errorMessage (pr_outcome p)) ''worker cancelled by operator request'';
          s1 = notifyChannel (worker_failed_notification env p Info message (error_code_metadata p)) s;
          s2 = complete_view env p ((no_overrides ''cancelled'')
                 \<lparr>vo_attempt := of_null (pr_attempt p),
                  vo_error := of_null (out_errorCode (pr_outcome p)), vo_message := Val message\<rparr>) s1;
          s3 = emit_completed i ''cancelled'' s2;
          s4 = suppressIssueDispatch i s3
      in releaseIssueClaimInState (issue_id i) s4)"

definition finalizeCancelledOrHardFailure :: "outcome_env \<Rightarrow> prepared \<Rightarrow> orch \<Rightarrow> orch" where
  "finalizeCancelledOrHardFailure env p s =
     (let i = pr_latestIssue p; out = pr_outcome p;
          errorReason = coalesce (or_else (out_errorMessage out) (out_errorCode out))
            ''worker stopped without a retry'';
          s1 = notifyChannel (worker_failed_notification env p Critical errorReason (error_code_metadata p)) s;
          s2 = complete_view env p ((no_overrides (outcomeToStatus (out_kind out)))
                 \<lparr>vo_attempt := of_null (pr_attempt p),
                  vo_error := of_null (out_errorCode out), vo_message := Val errorReason\<rparr>) s1;
          s3 = emit_completed i (outcomeToStatus (out_kind out)) s2;
          s4 = releaseIssueClaimInState (issue_id i) s3
      in writeFailureWriteback env p errorReason s4)"

definition runGitPostRun ::
  "outcome_env \<Rightarrow> stop_signal \<Rightarrow> prepared \<Rightarrow> orch \<Rightarrow> (string option \<times> string option) \<times> orch" where
  "runGitPostRun env stopSignal p s =
     (if stopSignal \<noteq> Done \<or> en_repoMatch (pr_entry p) = None \<or> \<not> oe_hasGitManager env
      then ((None, None), s)
      else (case port_call env AwGitPostRun [GitPostRun (issue_identifier (pr_latestIssue p))] s of
         (Some _, s1) \<Rightarrow> ((None, None), s1)
       | (None, s1) \<Rightarrow> (oe_gitPostRun env, s1)))"

text \<open>The regular expression for a pull request number at the end of a URL.\<close>

definition is_digit :: "char \<Rightarrow> bool" where
  "is_digit c \<longleftrightarrow> (48 \<le> (of_char c :: nat) \<and> (of_char c :: nat) \<le> 57)"

definition pull_number :: "string \<Rightarrow> int option" where
  "pull_number url =
     (let digits = rev (takeWhile is_digit (rev url));
          rest = rev (dropWhile is_digit (rev url))
      in if digits \<noteq> [] \<and> starts_with (rev ''/pull/'') (rev rest)
         then Some (int (digits_value digits)) else None)"

definition registerPrForMonitoring :: "outcome_env \<Rightarrow> prepared \<Rightarrow> string \<Rightarrow> effect list" where
  "registerPrForMonitoring env p url =
     (case en_repoMatch (pr_entry p) of
        None \<Rightarrow> []
      | Some m \<Rightarrow>
          (case (rm_githubOwner m, rm_githubRepo m, pull_number url) of
             (Some owner, Some repo, Some n) \<Rightarrow>
               if owner = [] \<or> repo = [] then []
               else [UpsertPr
                 [(''issueId'', JStr (issue_id (pr_latestIssue p))), (''owner'', JStr owner),
                  (''repo'', JStr repo), (''pullNumber'', JNum n), (''url'', JStr url),
                  (''attemptId'', JStr (en_runId (pr_entry p))), (''status'', JStr ''open''),
                  (''createdAt'', JStr (iso_of_ms (oe_now env))),
                  (''updatedAt'', JStr (iso_of_ms (oe_now env))),
                  (''branchName'', JStr (coalesce (issue_branchName (pr_latestIssue p)) []))]]
           | _ \<Rightarrow> []))"

text \<open>
  \<open>finalizeStopSignal\<close> in three parts: git and the attempt record, the views and announcements,
  the tracker writeback.
\<close>

definition recordStopSignal ::
  "outcome_env \<Rightarrow> stop_signal \<Rightarrow> prepared \<Rightarrow> orch \<Rightarrow> string option \<times> orch" where
  "recordStopSignal env stopSignal p s =
     (let (git, s1) = runGitPostRun env stopSignal p s;
          (pullRequestUrl, summary) = git;
          s2 = caught_call env AwStopUpdate
                 [UpdateAttempt (en_runId (pr_entry p))
                    [(''stopSignal'', JStr (stop_signal_name stopSignal)),
                     (''pullRequestUrl'', jopt JStr pullRequestUrl), (''summary'', jopt JStr summary),
                     (''status'', JStr (if stopSignal = Blocked then ''paused'' else ''completed''))]] s1;
          s3 = (case pullRequestUrl of
                  None \<Rightarrow> s2
                | Some url \<Rightarrow>
                    if url = [] then s2
                    else s2\<lparr>trace := trace s2 @ registerPrForMonitoring env p url\<rparr>)
      in (pullRequestUrl, s3))"

definition announceStopSignal ::
  "outcome_env \<Rightarrow> stop_signal \<Rightarrow> prepared \<Rightarrow> string option \<Rightarrow> orch \<Rightarrow> orch" where
  "announceStopSignal env stopSignal p pullRequestUrl s3 =
     (let i = pr_latestIssue p;
          isBlocked = (stopSignal = Blocked);
          statusMessage = (if isBlocked then ''worker reported issue blocked''
                           else ''worker reported issue complete'');
          status = (if isBlocked then ''paused'' else ''completed'');
          s4 = complete_view env p ((no_overrides status)
                 \<lparr>vo_attempt := of_null (pr_attempt p), vo_message := Val statusMessage,
                  vo_pullRequestUrl := of_null pullRequestUrl\<rparr>) s3;
          s5 = notifyChannel
                 \<lparr>nt_type = (if isBlocked then NWorkerFailed else NWorkerCompleted),
                  nt_severity = (if isBlocked then Critical else Info),
                  nt_timestamp = iso_of_ms (oe_now env), nt_message = statusMessage,
                  nt_issue = issueRef i, nt_attempt = pr_attempt p,
                  nt_metadata = Val (JObj [(''workspace'', JStr (ws_path (pr_workspace p))),
                    (''pullRequestUrl'', jopt JStr pullRequestUrl)])\<rparr> s4;
          s6 = emit_completed i status s5
      in if isBlocked then releaseIssueClaimInState (issue_id i) s6 else s6)"

definition setTransitionedState :: "issue \<Rightarrow> string option \<Rightarrow> orch \<Rightarrow> orch" where
  "setTransitionedState i transitioned s =
     (case transitioned of
        None \<Rightarrow> s
      | Some st \<Rightarrow>
          if st = [] then s
          else (case omap_get (completedViews s) (issue_identifier i) of
             None \<Rightarrow> s
           | Some view \<Rightarrow> setCompletedViewInState (issue_identifier i) (view\<lparr>v_state := st\<rparr>) s))"

definition finalizeStopSignal ::
  "outcome_env \<Rightarrow> stop_signal \<Rightarrow> prepared \<Rightarrow> int option \<Rightarrow> orch \<Rightarrow> orch" where
  "finalizeStopSignal env stopSignal p turnCount s =
     (case recordStopSignal env stopSignal p s of
        (pullRequestUrl, s1) \<Rightarrow>
          (case writeCompletionWriteback env p stopSignal pullRequestUrl turnCount
                  (announceStopSignal env stopSignal p pullRequestUrl s1) of
             (transitioned, s2) \<Rightarrow> setTransitionedState (pr_latestIssue p) transitioned s2))"

section \<open>retry-coordinator.ts: dispatch after an outcome\<close>

definition handleContinuationExhausted :: "outcome_env \<Rightarrow> prepared \<Rightarrow> orch \<Rightarrow> outcome" where
  "handleContinuationExhausted env p s =
     (let i = pr_latestIssue p;
          message = ''agent did not emit RISOLUTO_STATUS after '' @
            show_int (maxContinuationAttempts (oe_config env)) @ '' continuations'';
          s1 = notifyChannel (worker_failed_notification env p Critical message Undef) s;
          s2 = complete_view env p ((no_overrides ''failed'')
                 \<lparr>vo_attempt := of_null (pr_attempt p),
                  vo_error := Val ''max_continuations_exceeded'', vo_message := Val message\<rparr>) s1;
          s3 = emit_completed i ''failed'' s2;
          s4 = releaseIssueClaimInState (issue_id i) s3
      in await_then
           (port_call env AwExhaustedUpdate
              [UpdateAttempt (en_runId (pr_entry p))
                 [(''status'', JStr ''failed''), (''errorCode'', JStr ''max_continuations_exceeded''),
                  (''errorMessage'', JStr message)]] s4)
           (\<lambda>s5. (None, writeFailureWriteback env p message s5)))"

definition queuePreparedRetry ::
  "outcome_env \<Rightarrow> prepared \<Rightarrow> int \<Rightarrow> string \<Rightarrow> string option \<Rightarrow> orch \<Rightarrow> orch" where
  "queuePreparedRetry env p delayMs reason threadId s =
     queueRetry (oe_now env) (pr_latestIssue p) (coalesce (pr_attempt p) 0 + 1) delayMs (Some reason) threadId s"

definition handleErrorRetry :: "outcome_env \<Rightarrow> prepared \<Rightarrow> orch \<Rightarrow> orch" where
  "handleErrorRetry env p s =
     (let currentAttempt = coalesce (pr_attempt p) 0;
          delayMs = computeBackoffForAttempt currentAttempt (maxRetryBackoffMs (oe_config env))
      in queuePreparedRetry env p delayMs (coalesce (out_errorCode (pr_outcome p)) ''turn_failed'')
           (or_else (en_sessionId (pr_entry p)) (out_threadId (pr_outcome p))) s)"

definition dispatchRetry :: "outcome_env \<Rightarrow> prepared \<Rightarrow> orch \<Rightarrow> outcome" where
  "dispatchRetry env p s =
     (let out = pr_outcome p
      in if out_kind out = Normal
         then (let nextAttempt = coalesce (pr_attempt p) 0 + 1
               in if nextAttempt > maxContinuationAttempts (oe_config env)
                  then handleContinuationExhausted env p s
                  else (None, queuePreparedRetry env p 1000 ''continuation'' (en_sessionId (pr_entry p)) s))
         else if out_errorCode out = Some ''model_override_updated''
         then (None, queueRetry (oe_now env) (pr_latestIssue p) (coalesce (pr_attempt p) 1) 0
                 (Some ''model_override_updated'') None s)
         else (case classifyRetryStrategy (out_codexErrorInfo out) (out_errorCode out) of
            HardFail \<Rightarrow> (None, finalizeCancelledOrHardFailure env p s)
          | RetryAfter delayMs reason \<Rightarrow> (None, queuePreparedRetry env p delayMs reason None s)
          | CompactAndRetry \<Rightarrow> (None, handleErrorRetry env p s)
          | DefaultRetry \<Rightarrow> (None, handleErrorRetry env p s)))"

section \<open>worker-outcome/index.ts\<close>

definition dispatchPostReconciliation :: "outcome_env \<Rightarrow> prepared \<Rightarrow> orch \<Rightarrow> outcome" where
  "dispatchPostReconciliation env p s =
     (let entry = pr_entry p;
          stopSignal = or_else (en_lastStopSignal entry)
            (detectStopSignal (oe_host env) (en_lastAgentMessageContent entry))
      in case stopSignal of
           Some sig \<Rightarrow> (None, finalizeStopSignal env sig p (Some (out_turnCount (pr_outcome p))) s)
         | None \<Rightarrow> dispatchRetry env p s)"

definition handleWorkerOutcome ::
  "outcome_env \<Rightarrow> run_outcome \<Rightarrow> running_entry \<Rightarrow> issue \<Rightarrow> workspace \<Rightarrow> int option \<Rightarrow> orch \<Rightarrow> outcome" where
  "handleWorkerOutcome env outcome entry i ws attempt s =
     (case prepareWorkerOutcome env outcome entry i ws attempt s of
        (Inl e, s1) \<Rightarrow> (Some e, s1)
      | (Inr p, s1) \<Rightarrow>
          if \<not> o_running s1 then (None, finalizeServiceStopped env p s1)
          else if en_cleanupOnExit (pr_entry p) \<or> isTerminalState (issue_state (pr_latestIssue p)) (oe_config env)
          then finalizeTerminalCleanup env p s1
          else if \<not> isActiveState (issue_state (pr_latestIssue p)) (oe_config env)
          then (None, finalizeInactiveIssue env p s1)
          else if out_errorCode outcome = Some ''model_override_updated'' then dispatchRetry env p s1
          else if out_errorCode outcome = Some ''operator_abort'' then (None, finalizeOperatorAbort env p s1)
          else if out_kind outcome = Cancelled \<or> isHardFailure (out_errorCode outcome)
          then (None, finalizeCancelledOrHardFailure env p s1)
          else dispatchPostReconciliation env p s1)"

section \<open>worker-failure.ts\<close>

definition worker_failed_event :: "int \<Rightarrow> issue \<Rightarrow> string option \<Rightarrow> string \<Rightarrow> runtime_event" where
  "worker_failed_event now i sessionId message =
     \<lparr>ev_at = iso_of_ms now, ev_issueId = Some (issue_id i),
      ev_issueIdentifier = Some (issue_identifier i), ev_sessionId = sessionId,
      ev_event = ''worker_failed'', ev_message = message, ev_content = None, ev_metadata = None,
      ev_usage = None, ev_usageMode = None, ev_rateLimits = Undef, ev_stopSignal = None\<rparr>"

definition handleWorkerFailure :: "outcome_env \<Rightarrow> issue \<Rightarrow> running_entry \<Rightarrow> js_error \<Rightarrow> orch \<Rightarrow> orch" where
  "handleWorkerFailure env i entry0 err s =
     (let (flushError, s1) = port_call env AwFlush [] s;
          s2 = (if flushError = None then s1
                else caught_call env AwFlushFallback
                  [UpdateAttempt (en_runId entry0) [(''errorCode'', JStr ''flush_failed'')]] s1);
          entry = current_entry (issue_id i) entry0 s2;
          s3 = delete_running (issue_id i) s2;
          s4 = releaseIssueClaimInState (issue_id i) s3;
          s5 = pushEvent (worker_failed_event (oe_now env) i (en_sessionId entry) (toErrorString err)) s4;
          errorCode = (case err of TokenRefreshError code _ \<Rightarrow> code | JsError _ \<Rightarrow> ''worker_failed'');
          (updateError, s6) = port_call env AwFailureUpdate
            [UpdateAttempt (en_runId entry)
               [(''status'', JStr ''failed''), (''endedAt'', JStr (iso_of_ms (oe_now env))),
                (''errorCode'', JStr errorCode), (''errorMessage'', JStr (toErrorString err)),
                (''tokenUsage'', jopt js_usage (en_tokenUsage entry)), (''threadId'', JNull)]] s5
      in if updateError = None then s6
         else caught_call env AwFailureFallback
           [UpdateAttempt (en_runId entry) [(''errorCode'', JStr ''update_failed'')]] s6)"

section \<open>handleWorkerPromise\<close>

datatype settlement = Fulfilled run_outcome | Rejected js_error

definition handleWorkerPromise ::
  "outcome_env \<Rightarrow> settlement \<Rightarrow> issue \<Rightarrow> workspace \<Rightarrow> running_entry \<Rightarrow> int option \<Rightarrow> orch \<Rightarrow> orch" where
  "handleWorkerPromise env settled i ws entry attempt s =
     (case settled of
        Fulfilled outcome \<Rightarrow>
          (case handleWorkerOutcome env outcome entry i ws attempt s of
             (None, s1) \<Rightarrow> s1
           | (Some e, s1) \<Rightarrow> handleWorkerFailure env i entry e s1)
      | Rejected e \<Rightarrow> handleWorkerFailure env i entry e s)"

end
