(* ===== verification/OutcomeClaims.thy ===== *)
theory OutcomeClaims
  imports Outcome
begin

text \<open>
  Claims across a worker's settlement. As long as the handler owns an issue (its running entry is
  gone, no retry is queued, and a running orchestrator has it claimed) the other tasks of the event
  loop neither start, queue nor release it; dispatch refuses claimed issues. Once the handler has
  released the claim it may still await writes, and then the others may start the issue again:
  \<open>rely\<close> only asks that they keep the claim discipline and give every run an id of its own.
\<close>

definition owned :: "string \<Rightarrow> orch \<Rightarrow> bool" where
  "owned k s \<longleftrightarrow> \<not> omap_has (runningEntries s) k \<and> \<not> omap_has (retryEntries s) k"

definition held :: "string \<Rightarrow> orch \<Rightarrow> bool" where
  "held k s \<longleftrightarrow> claim_inv s \<and> owned k s"

definition reserved :: "string \<Rightarrow> orch \<Rightarrow> bool" where
  "reserved k s \<longleftrightarrow> held k s \<and> (o_running s \<longrightarrow> k \<in> claimedIssueIds s)"

definition has_worker :: "string \<Rightarrow> orch \<Rightarrow> bool" where
  "has_worker k s \<longleftrightarrow> claim_inv s \<and> omap_has (runningEntries s) k"

text \<open>No entry of the run \<open>r\<close>; the issue may be running again under another run.\<close>

definition run_over :: "string \<Rightarrow> string \<Rightarrow> orch \<Rightarrow> bool" where
  "run_over k r s \<longleftrightarrow>
     claim_inv s \<and> (case omap_get (runningEntries s) k of None \<Rightarrow> True | Some e \<Rightarrow> en_runId e \<noteq> r)"

definition rely :: "outcome_env \<Rightarrow> string \<Rightarrow> string \<Rightarrow> bool" where
  "rely env k r \<longleftrightarrow>
     (\<forall>p s. reserved k s \<longrightarrow> reserved k (oe_await env p s)) \<and>
     (\<forall>p s. run_over k r s \<longrightarrow> run_over k r (oe_await env p s)) \<and>
     (\<forall>s. has_worker k s \<longrightarrow> has_worker k (oe_await env AwFlush s) \<and>
                            has_worker k (oe_await env AwFlushFallback s))"

text \<open>A property of the claims that the other tasks keep at every suspension point.\<close>

definition stable :: "outcome_env \<Rightarrow> (orch \<Rightarrow> bool) \<Rightarrow> bool" where
  "stable env P \<longleftrightarrow>
     (\<forall>s t. same_claims s t \<longrightarrow> P s \<longrightarrow> P t) \<and> (\<forall>p s. P s \<longrightarrow> P (oe_await env p s))"

section \<open>Held issues\<close>

lemma held_same: "same_claims s t \<Longrightarrow> held k t = held k s"
  using claim_inv_same [of s t] by (auto simp: held_def owned_def same_claims_def)

lemma reserved_same: "same_claims s t \<Longrightarrow> reserved k t = reserved k s"
  using held_same [of s t] by (auto simp: reserved_def same_claims_def)

lemma run_over_same: "same_claims s t \<Longrightarrow> run_over k r t = run_over k r s"
  using claim_inv_same [of s t] by (auto simp: run_over_def same_claims_def)

lemma same_trace [simp]: "same_claims s (t\<lparr>trace := es\<rparr>) = same_claims s t"
  by (simp add: same_claims_def)

lemma same_complete [simp]: "same_claims s (complete_view env p ov t) = same_claims s t"
  by (simp add: complete_view_def)

lemma same_emit [simp]: "same_claims s (emit_completed i out t) = same_claims s t"
  by (simp add: emit_completed_def)

lemma reserved_ops [simp]:
  "reserved k (markDirty t) = reserved k t"
  "reserved k (record_effect e t) = reserved k t"
  "reserved k (setDetailViewInState v w t) = reserved k t"
  "reserved k (setCompletedViewInState v w t) = reserved k t"
  "reserved k (suppressIssueDispatch i t) = reserved k t"
  "reserved k (pushEvent ev t) = reserved k t"
  "reserved k (notifyChannel n t) = reserved k t"
  "reserved k (complete_view env p ov t) = reserved k t"
  "reserved k (emit_completed i out t) = reserved k t"
  "reserved k (t\<lparr>trace := es\<rparr>) = reserved k t"
  by (rule reserved_same, simp)+

lemma run_over_ops [simp]:
  "run_over k r (markDirty t) = run_over k r t"
  "run_over k r (record_effect e t) = run_over k r t"
  "run_over k r (setDetailViewInState v w t) = run_over k r t"
  "run_over k r (setCompletedViewInState v w t) = run_over k r t"
  "run_over k r (suppressIssueDispatch i t) = run_over k r t"
  "run_over k r (pushEvent ev t) = run_over k r t"
  "run_over k r (notifyChannel n t) = run_over k r t"
  "run_over k r (complete_view env p ov t) = run_over k r t"
  "run_over k r (emit_completed i out t) = run_over k r t"
  "run_over k r (t\<lparr>trace := es\<rparr>) = run_over k r t"
  by (rule run_over_same, simp)+

lemma stable_reserved: "rely env k r \<Longrightarrow> stable env (reserved k)"
  by (auto simp: stable_def rely_def dest: reserved_same)

lemma stable_over: "rely env k r \<Longrightarrow> stable env (run_over k r)"
  by (auto simp: stable_def rely_def dest: run_over_same)

lemma omap_get_None: "\<not> omap_has m k \<Longrightarrow> omap_get m k = None"
  by (auto simp: omap_has_def omap_get_def map_of_eq_None_iff)

lemma reserved_over: "reserved k s \<Longrightarrow> run_over k r s"
  by (simp add: reserved_def held_def owned_def run_over_def omap_get_None)

lemma release_over: "reserved k s \<Longrightarrow> run_over k r (releaseIssueClaimInState k s)"
  using claim_inv_release [of s k] reserved_over [of k s r]
  by (auto simp: reserved_def held_def owned_def run_over_def releaseIssueClaimInState_def markDirty_def)

lemma stable_same: "stable env P \<Longrightarrow> same_claims s t \<Longrightarrow> P s \<Longrightarrow> P t"
  by (simp add: stable_def)

lemma stable_trace: "stable env P \<Longrightarrow> P s \<Longrightarrow> P (s\<lparr>trace := es\<rparr>)"
  by (rule stable_same [of env P s]) simp_all

lemma stable_call: "stable env P \<Longrightarrow> P s \<Longrightarrow> P (snd (port_call env p es s))"
  using stable_trace [of env P s] by (simp add: stable_def port_call_def)

lemma stable_caught: "stable env P \<Longrightarrow> P s \<Longrightarrow> P (caught_call env p es s)"
  by (simp add: caught_call_def stable_call)

lemma await_then_keeps:
  "P (snd r) \<Longrightarrow> (\<And>s. P s \<Longrightarrow> P (snd (f s))) \<Longrightarrow> P (snd (await_then r f))"
  by (auto simp: await_then_def split: prod.splits option.splits)

lemma held_delete_running: "has_worker k s \<Longrightarrow> held k (delete_running k s)"
  by (auto simp: has_worker_def held_def owned_def delete_running_def claim_inv_def claims_ok_def
      markDirty_def intro: claim_inv_delete_running [unfolded claim_inv_def]
      simp: keys_ok_def timers_ok_def set_omap_delete)

lemma reserved_delete_running: "has_worker k s \<Longrightarrow> reserved k (delete_running k s)"
  using held_delete_running [of k s]
  by (auto simp: reserved_def has_worker_def claim_inv_def claims_ok_def delete_running_def markDirty_def)

section \<open>Finalizers\<close>

lemmas stable_calls = stable_call stable_caught

lemma over_serviceStopped:
  "issue_id (pr_latestIssue p) = k \<Longrightarrow> reserved k s \<Longrightarrow> run_over k r (finalizeServiceStopped env p s)"
  by (simp add: finalizeServiceStopped_def Let_def release_over)

lemma over_inactive:
  "issue_id (pr_latestIssue p) = k \<Longrightarrow> reserved k s \<Longrightarrow> run_over k r (finalizeInactiveIssue env p s)"
  by (simp add: finalizeInactiveIssue_def Let_def release_over)

lemma over_operatorAbort:
  "issue_id (pr_latestIssue p) = k \<Longrightarrow> reserved k s \<Longrightarrow> run_over k r (finalizeOperatorAbort env p s)"
  by (simp add: finalizeOperatorAbort_def Let_def release_over)

lemma over_hardFailure:
  "rely env k r \<Longrightarrow> issue_id (pr_latestIssue p) = k \<Longrightarrow> reserved k s \<Longrightarrow>
     run_over k r (finalizeCancelledOrHardFailure env p s)"
  by (simp add: finalizeCancelledOrHardFailure_def writeFailureWriteback_def Let_def
      stable_caught [OF stable_over] release_over)

lemma stable_autoCommit:
  assumes "stable env P" and "P s"
  shows "P (snd (recordAutoCommitCleanup env p sha s))"
proof -
  note call = stable_call [OF assms(1)] and keeps = await_then_keeps [where P = P]
  show ?thesis
    unfolding recordAutoCommitCleanup_def Let_def
    by (cases sha) (auto intro!: keeps call simp: assms(2))
qed

lemma over_terminalCleanup:
  assumes "rely env k r" "issue_id (pr_latestIssue p) = k" "reserved k s"
  shows "case finalizeTerminalCleanup env p s of (None, s1) \<Rightarrow> run_over k r s1 | (Some e, s1) \<Rightarrow> reserved k s1"
proof -
  note st = stable_reserved [OF assms(1)]
  let ?rm = "removeWorkspaceWithLogging env (pr_latestIssue p) s"
  let ?ac = "recordAutoCommitCleanup env p (Option.bind (fst ?rm) rv_autoCommitSha) (snd ?rm)"
  have "reserved k (snd ?rm)" using stable_call [OF st assms(3)] by (simp add: removeWorkspaceWithLogging_def case_prod_beta)
  then have "reserved k (snd ?ac)" by (rule stable_autoCommit [OF st])
  then show ?thesis
    by (cases ?ac; cases "fst ?ac")
      (auto simp: finalizeTerminalCleanup_def Let_def case_prod_beta await_then_def assms(2)
        intro!: release_over)
qed

lemma stable_transition:
  assumes "stable env P" and "P s"
  shows "P (snd (transitionToSuccessState env i st s))"
  using stable_call [OF assms, of AwResolveState "[]"] stable_call [OF assms(1)]
  by (auto simp: transitionToSuccessState_def split: prod.splits option.splits) (metis snd_conv)+

lemma stable_writeback:
  assumes "stable env P" and "P s"
  shows "P (snd (writeCompletionWriteback env p sg url n s))"
proof -
  note steps = stable_call [OF assms(1)] stable_caught [OF assms(1)] stable_transition [OF assms(1)]
  show ?thesis
    by (auto simp: writeCompletionWriteback_def postSuccessWriteback_def Let_def case_prod_beta assms(2)
        intro!: steps split: stop_signal.splits option.splits)
qed

lemma stable_gitPostRun:
  assumes "stable env P" and "P s"
  shows "P (snd (runGitPostRun env sg p s))"
  using stable_call [OF assms, of AwGitPostRun] assms(2)
  by (auto simp: runGitPostRun_def split: prod.splits option.splits) (metis snd_conv)+

lemma stable_record:
  assumes "stable env P" and "P s"
  shows "P (snd (recordStopSignal env sg p s))"
proof -
  note steps = stable_call [OF assms(1)] stable_caught [OF assms(1)] stable_gitPostRun [OF assms(1)] stable_trace [OF assms(1)]
  show ?thesis
    by (auto simp: recordStopSignal_def Let_def case_prod_beta assms(2) intro!: steps split: option.splits)
qed

lemma over_announce:
  "issue_id (pr_latestIssue p) = k \<Longrightarrow> reserved k s \<Longrightarrow> run_over k r (announceStopSignal env sg p url s)"
  by (simp add: announceStopSignal_def Let_def release_over reserved_over)

lemma stable_setTransitioned:
  assumes "stable env P" and "P s"
  shows "P (setTransitionedState i st s)"
proof -
  have "same_claims s (setTransitionedState i st s)" by (simp add: setTransitionedState_def split: option.split)
  then show ?thesis by (rule stable_same [OF assms(1) _ assms(2)])
qed

lemma over_stopSignal:
  "rely env k r \<Longrightarrow> issue_id (pr_latestIssue p) = k \<Longrightarrow> reserved k s \<Longrightarrow> run_over k r (finalizeStopSignal env sg p n s)"
  unfolding finalizeStopSignal_def case_prod_beta
  by (intro stable_setTransitioned [OF stable_over] stable_writeback [OF stable_over] over_announce
      stable_record [OF stable_reserved])

lemma over_exhausted:
  assumes "rely env k r" "issue_id (pr_latestIssue p) = k" "reserved k s" "oe_throws env AwExhaustedUpdate = None"
  shows "fst (handleContinuationExhausted env p s) = None \<and> run_over k r (snd (handleContinuationExhausted env p s))"
proof -
  have call: "port_call env AwExhaustedUpdate es t = (None, snd (port_call env AwExhaustedUpdate es t))" for es t
    by (simp add: port_call_def assms(4))
  show ?thesis
    unfolding handleContinuationExhausted_def writeFailureWriteback_def Let_def await_then_def
    by (subst (1 2) call) (simp add: assms(2,3) stable_caught [OF stable_over [OF assms(1)]]
      stable_call [OF stable_over [OF assms(1)]] release_over)
qed

section \<open>The whole settlement\<close>

lemma over_queue:
  "reserved k s \<Longrightarrow> issue_id i = k \<Longrightarrow> run_over k r (queueRetry now i a d e t s)"
  using claim_inv_queueRetry [of s i] queueRetry_spec(3) [of s now i a d e t] reserved_over [of k s r]
  by (cases "o_running s") (auto simp: reserved_def held_def owned_def run_over_def)

text \<open>A rejected handler still owns the issue, for \<open>handleWorkerFailure\<close> to let go of.\<close>

definition outcome_ok :: "string \<Rightarrow> string \<Rightarrow> outcome \<Rightarrow> bool" where
  "outcome_ok k r x \<longleftrightarrow>
     (if fst x = None then run_over k r (snd x) else has_worker k (snd x) \<or> reserved k (snd x))"

lemma outcome_ok_None: "run_over k r s \<Longrightarrow> outcome_ok k r (None, s)"
  by (simp add: outcome_ok_def)

lemma has_worker_trace [simp]: "has_worker k (s\<lparr>trace := es\<rparr>) = has_worker k s"
proof -
  have "claim_inv (s\<lparr>trace := es\<rparr>) = claim_inv s"
    by (rule claim_inv_same) (simp add: same_claims_def)
  then show ?thesis by (simp add: has_worker_def)
qed

lemma has_worker_flush: "rely env k r \<Longrightarrow> has_worker k s \<Longrightarrow> has_worker k (snd (port_call env AwFlush es s))"
  by (simp add: rely_def port_call_def)

lemma has_worker_fallback:
  "rely env k r \<Longrightarrow> has_worker k s \<Longrightarrow> has_worker k (caught_call env AwFlushFallback es s)"
  by (simp add: rely_def caught_call_def port_call_def)

lemma markDirty_fields [simp]:
  "o_running (markDirty s) = o_running s" "runningEntries (markDirty s) = runningEntries s"
  "retryEntries (markDirty s) = retryEntries s" "claimedIssueIds (markDirty s) = claimedIssueIds s"
  "timers (markDirty s) = timers s" "detailViews (markDirty s) = detailViews s"
  "completedViews (markDirty s) = completedViews s"
  by (simp_all add: markDirty_def)

lemma held_delete: "has_worker k s \<or> held k s \<Longrightarrow> held k (delete_running k s)"
proof (elim disjE)
  assume "held k s"
  then show "held k (delete_running k s)"
    using claim_inv_delete_running [of s k] by (auto simp: held_def owned_def delete_running_def)
qed (rule held_delete_running)

lemma reserved_delete: "has_worker k s \<or> reserved k s \<Longrightarrow> reserved k (delete_running k s)"
proof (elim disjE)
  assume "reserved k s"
  then show "reserved k (delete_running k s)"
    using held_delete [of k s] by (auto simp: reserved_def delete_running_def)
qed (rule reserved_delete_running)

lemma settled_dispatch:
  assumes "rely env k r" and "issue_id (pr_latestIssue p) = k" and "reserved k s" and "oe_throws env AwExhaustedUpdate = None"
  shows "outcome_ok k r (dispatchRetry env p s)"
proof -
  have q: "outcome_ok k r (None, queueRetry now (pr_latestIssue p) a d e t s)" for now a d e t
    by (rule outcome_ok_None [OF over_queue [OF assms(3,2)]])
  have x: "outcome_ok k r (handleContinuationExhausted env p s)"
    using over_exhausted [OF assms] by (simp add: outcome_ok_def)
  show ?thesis
    using q x outcome_ok_None [OF over_hardFailure [OF assms(1-3)]]
    by (simp add: dispatchRetry_def queuePreparedRetry_def handleErrorRetry_def Let_def
        split: retry_strategy.splits)
qed

lemma prepare_cases:
  assumes "rely env k r" and "has_worker k s" and "issue_id i = k"
  shows "case prepareWorkerOutcome env out entry i ws attempt s of
           (Inl e, s1) \<Rightarrow> has_worker k s1 \<or> reserved k s1
         | (Inr p, s1) \<Rightarrow> reserved k s1 \<and> pr_latestIssue p = latest_issue env i \<and> pr_outcome p = out"
proof -
  note st = stable_reserved [OF assms(1)]
  obtain r1 s1 where c1: "port_call env AwFlush [] s = (r1, s1)" by fastforce
  have w: "has_worker k s1" using has_worker_flush [OF assms(1,2), of "[]"] c1 by simp
  define s3 where "s3 = caught_call env AwFetchLatest [] (delete_running (issue_id i) s1)"
  have h3: "reserved k s3"
    unfolding s3_def using stable_caught [OF st] reserved_delete [of k s1] w assms(3) by simp
  define e where "e = current_entry (issue_id i) entry s1"
  define eff where "eff = [UpdateAttempt (en_runId e) (prepare_patch (oe_now env) out e (latest_issue env i))]"
  obtain r4 s4 where c4: "port_call env AwPrepareUpdate eff s3 = (r4, s4)" by fastforce
  have h4: "reserved k s4" using stable_call [OF st h3, of AwPrepareUpdate eff] c4 by simp
  show ?thesis
    using w h4
    by (cases r1; cases r4)
      (simp_all add: prepareWorkerOutcome_def c1 Let_def c4 flip: s3_def e_def eff_def)
qed

lemma settled_outcome:
  assumes "rely env k r" and "has_worker k s" and "issue_id i = k"
    and "issue_id (latest_issue env i) = k" and "oe_throws env AwExhaustedUpdate = None"
  shows "outcome_ok k r (handleWorkerOutcome env out entry i ws attempt s)"
proof -
  obtain x s1 where c: "prepareWorkerOutcome env out entry i ws attempt s = (x, s1)" by fastforce
  show ?thesis
  proof (cases x)
    case (Inl e)
    then show ?thesis
      using prepare_cases [OF assms(1-3), of out entry ws attempt] c
      by (simp add: handleWorkerOutcome_def outcome_ok_def)
  next
    case (Inr p)
    then have h: "reserved k s1" and id: "issue_id (pr_latestIssue p) = k"
      using prepare_cases [OF assms(1-3), of out entry ws attempt] c assms(4) by simp_all
    have clean: "outcome_ok k r (finalizeTerminalCleanup env p s1)"
      using over_terminalCleanup [OF assms(1) id h] by (auto simp: outcome_ok_def split: prod.splits option.splits)
    note fin = outcome_ok_None [OF over_serviceStopped [OF id h]] outcome_ok_None [OF over_inactive [OF id h]]
      outcome_ok_None [OF over_operatorAbort [OF id h]] outcome_ok_None [OF over_hardFailure [OF assms(1) id h]]
      settled_dispatch [OF assms(1) id h assms(5)] outcome_ok_None [OF over_stopSignal [OF assms(1) id h]] clean
    show ?thesis
      using fin
      by (simp add: handleWorkerOutcome_def dispatchPostReconciliation_def c Inr Let_def
          split: option.splits)
  qed
qed

lemma settled_failure:
  assumes "rely env k r" and "has_worker k s \<or> reserved k s" and "issue_id i = k"
  shows "run_over k r (handleWorkerFailure env i entry err s)"
proof -
  note st = stable_reserved [OF assms(1)] and ov = stable_over [OF assms(1)]
  define s1 where "s1 = snd (port_call env AwFlush [] s)"
  define s2 where "s2 = (if fst (port_call env AwFlush [] s) = None then s1
     else caught_call env AwFlushFallback [UpdateAttempt (en_runId entry) [(''errorCode'', JStr ''flush_failed'')]] s1)"
  have "has_worker k s1 \<or> reserved k s1"
    using assms(2) has_worker_flush [OF assms(1)] stable_call [OF st] by (auto simp: s1_def)
  then have "has_worker k s2 \<or> reserved k s2"
    using has_worker_fallback [OF assms(1)] stable_caught [OF st] by (auto simp: s2_def)
  then have "run_over k r (releaseIssueClaimInState k (delete_running k s2))" by (intro release_over reserved_delete)
  then show ?thesis
    unfolding handleWorkerFailure_def Let_def case_prod_beta s1_def [symmetric] s2_def [symmetric] assms(3)
    by (auto intro!: stable_call [OF ov] stable_caught [OF ov])
qed

text \<open>
  C2: However the promise of a worker settles and whichever of the handler's port calls reject, the
  handler ends with no running entry of the settled run and with the claim discipline intact: no
  issue is both running and queued, every running or queued issue of a running orchestrator is
  claimed, and no retry has lost its timer. At every suspension point the other tasks may do
  anything that leaves an issue alone that the handler still owns, keeps the claim discipline and
  gives new runs new ids; after the handler has released the claim they may start the issue again.
  The one rejection left out is that of the update after exhausted continuations, which comes after
  the release: \<open>exhausted_update_drops_new_run\<close> shows what it does.
\<close>

theorem handleWorkerPromise_settles:
  assumes "rely env (issue_id i) (en_runId entry)" and "claim_inv s" and "omap_has (runningEntries s) (issue_id i)"
    and "issue_id (latest_issue env i) = issue_id i" and "oe_throws env AwExhaustedUpdate = None"
  shows "run_over (issue_id i) (en_runId entry) (handleWorkerPromise env settled i ws entry attempt s)"
proof -
  let ?k = "issue_id i" and ?r = "en_runId entry"
  have w: "has_worker ?k s" using assms(2,3) by (simp add: has_worker_def)
  show ?thesis
  proof (cases settled)
    case (Rejected e)
    then show ?thesis
      using settled_failure [OF assms(1), of s i entry e] w by (simp add: handleWorkerPromise_def)
  next
    case (Fulfilled out)
    obtain x s1 where c: "handleWorkerOutcome env out entry i ws attempt s = (x, s1)" by fastforce
    have "outcome_ok ?k ?r (x, s1)"
      using settled_outcome [OF assms(1) w refl assms(4,5), of out entry ws attempt] c by simp
    then show ?thesis
      using settled_failure [OF assms(1), of s1 i entry]
      by (cases x) (simp_all add: handleWorkerPromise_def Fulfilled c outcome_ok_def)
  qed
qed

section \<open>Sample settlement\<close>

definition sample_config :: service_config where
  "sample_config =
     \<lparr>trk_activeStates = [''Todo'', ''In Progress''], trk_terminalStates = [''Done''],
      cfg_stateMachine = None, cfg_intervalMs = 30000, cfg_workspaceRoot = ''/w'',
      cfg_strategy = DirectoryStrategy, cfg_branchPrefix = ''r/'', maxConcurrentAgents = 2,
      maxConcurrentAgentsByState = [], maxRetryBackoffMs = 300000, maxContinuationAttempts = 3,
      successState = Some ''Done'', autoClaim = True, codex_model = ''m'',
      codex_reasoningEffort = None, codex_stallTimeoutMs = 60000\<rparr>"

definition sample_env :: outcome_env where
  "sample_env =
     \<lparr>oe_host = example_host, oe_now = 5000, oe_config = sample_config, oe_await = (\<lambda>_ s. s),
      oe_throws = (\<lambda>_. None), oe_latest = [], oe_hasRemovalResult = False,
      oe_removal = \<lparr>rv_preserved = False, rv_autoCommitSha = None\<rparr>, oe_hasGitManager = False,
      oe_gitPostRun = (None, None), oe_stateId = None, oe_costText = None\<rparr>"

definition sample_running :: orch where
  "sample_running = createLifecycleState
     \<lparr>o_running := True, runningEntries := [(''A-1'', sample_entry ''A-1'' ''s1'')],
      claimedIssueIds := {''A-1''}\<rparr>"

definition sample_outcome :: "outcome_kind \<Rightarrow> run_outcome" where
  "sample_outcome k =
     \<lparr>out_kind = k, out_errorCode = None, out_errorMessage = None, out_codexErrorInfo = None,
      out_threadId = None, out_turnId = None, out_turnCount = 1\<rparr>"

lemma sample_running_inv: "claim_inv sample_running"
  by (simp add: claim_inv_def keys_ok_def claims_ok_def timers_ok_def sample_running_def
      createLifecycleState_def sample_entry_def example_issue_def omap_ok_def omap_has_def)

lemma sample_rely: "rely sample_env k r"
  by (simp add: rely_def sample_env_def)

theorem handleWorkerPromise_settles_witness:
  "run_over ''A-1'' (en_runId (sample_entry ''A-1'' ''s1'')) (handleWorkerPromise sample_env (Fulfilled (sample_outcome Failed))
      (example_issue ''A-1'' ''In Progress'' None) sample_workspace (sample_entry ''A-1'' ''s1'') (Some 1)
      sample_running)"
proof -
  have id: "issue_id (example_issue ''A-1'' ''In Progress'' None) = ''A-1''"
    by (simp add: example_issue_def)
  have "omap_has (runningEntries sample_running) (issue_id (example_issue ''A-1'' ''In Progress'' None))"
    by (simp add: sample_running_def id omap_has_def)
  moreover have "issue_id (latest_issue sample_env (example_issue ''A-1'' ''In Progress'' None)) =
      issue_id (example_issue ''A-1'' ''In Progress'' None)"
    by (simp add: latest_issue_def sample_env_def)
  moreover have "oe_throws sample_env AwExhaustedUpdate = None" by (simp add: sample_env_def)
  ultimately show ?thesis
    using handleWorkerPromise_settles [OF sample_rely sample_running_inv,
        of "example_issue ''A-1'' ''In Progress'' None" "sample_entry ''A-1'' ''s1''"
        "Fulfilled (sample_outcome Failed)" sample_workspace "Some 1"] id by simp
qed

section \<open>A late rejection\<close>

text \<open>
  The update of an attempt whose continuations are exhausted is awaited after the claim is released,
  and nothing catches its rejection but \<open>handleWorkerFailure\<close>, which deletes the running entry of the
  issue, whichever run it belongs to. Here the issue is started again while the update is under way.
\<close>

definition restart_issue :: "await_point \<Rightarrow> orch \<Rightarrow> orch" where
  "restart_issue p s =
     (if p = AwExhaustedUpdate
      then s\<lparr>runningEntries := omap_set ''A-1'' (sample_entry ''A-1'' ''s2'') (runningEntries s),
             claimedIssueIds := insert ''A-1'' (claimedIssueIds s)\<rparr>
      else s)"

definition restart_env :: outcome_env where
  "restart_env = sample_env\<lparr>oe_await := restart_issue,
     oe_throws := (\<lambda>p. if p = AwExhaustedUpdate then Some (JsError ''locked'') else None)\<rparr>"

lemma same_run: "same_claims s t \<Longrightarrow> runningEntries t = runningEntries s"
  "same_claims s t \<Longrightarrow> o_running t = o_running s"
  by (simp_all add: same_claims_def)

lemma run_ops [simp]:
  "runningEntries (notifyChannel n t) = runningEntries t" "runningEntries (complete_view env p ov t) = runningEntries t"
  "runningEntries (emit_completed i out t) = runningEntries t" "runningEntries (pushEvent ev t) = runningEntries t"
  "runningEntries (setDetailViewInState v w t) = runningEntries t" "o_running (setDetailViewInState v w t) = o_running t"
  by (rule same_run, simp)+

lemma run_release [simp]: "runningEntries (releaseIssueClaimInState k t) = runningEntries t"
  by (simp add: releaseIssueClaimInState_def markDirty_def)

theorem exhausted_update_drops_new_run:
  "runningEntries (snd (handleWorkerOutcome restart_env (sample_outcome Normal) (sample_entry ''A-1'' ''s1'')
      (example_issue ''A-1'' ''In Progress'' None) sample_workspace (Some 3) sample_running)) = [(''A-1'', sample_entry ''A-1'' ''s2'')] \<and>
   runningEntries (handleWorkerPromise restart_env (Fulfilled (sample_outcome Normal))
      (example_issue ''A-1'' ''In Progress'' None) sample_workspace (sample_entry ''A-1'' ''s1'') (Some 3) sample_running) = []"
proof -
  let ?i = "example_issue ''A-1'' ''In Progress'' None"
  have id: "issue_id ?i = ''A-1''" "issue_state ?i = ''In Progress''" by (simp_all add: example_issue_def)
  have cfg: "oe_config restart_env = sample_config" "oe_now restart_env = 5000" "oe_host restart_env = example_host" "oe_latest restart_env = []"
    "oe_throws restart_env q = (if q = AwExhaustedUpdate then Some (JsError ''locked'') else None)" "oe_await restart_env = restart_issue" for q
    by (simp_all add: restart_env_def sample_env_def)
  have active: "\<not> isTerminalState ''In Progress'' sample_config" "isActiveState ''In Progress'' sample_config" by code_simp+
  have entry: "en_cleanupOnExit (sample_entry ''A-1'' s) = False" "en_lastStopSignal (sample_entry ''A-1'' s) = None"
    "en_lastAgentMessageContent (sample_entry ''A-1'' s) = None" for s by (simp_all add: sample_entry_def)
  have out: "out_kind (sample_outcome Normal) = Normal" "out_errorCode (sample_outcome Normal) = None" by (simp_all add: sample_outcome_def)
  have hf: "\<not> isHardFailure None" by code_simp
  obtain p s1 where prep: "prepareWorkerOutcome restart_env (sample_outcome Normal) (sample_entry ''A-1'' ''s1'') ?i sample_workspace (Some 3) sample_running = (Inr p, s1)"
    "pr_entry p = sample_entry ''A-1'' ''s1''" "pr_latestIssue p = ?i" "pr_outcome p = sample_outcome Normal" "pr_attempt p = Some 3"
    "runningEntries s1 = []" "o_running s1"
    by (simp add: prepareWorkerOutcome_def port_call_def caught_call_def cfg restart_issue_def latest_issue_def Let_def id
      sample_running_def current_entry_def delete_running_def markDirty_def createLifecycleState_def omap_get_def omap_delete_def)
  have max3: "maxContinuationAttempts sample_config = 3" by (simp add: sample_config_def)
  have none: "detectStopSignal example_host None = None" by (simp add: detectStopSignal_def)
  have ex: "handleWorkerOutcome restart_env (sample_outcome Normal) (sample_entry ''A-1'' ''s1'') ?i sample_workspace (Some 3) sample_running =
      handleContinuationExhausted restart_env p s1"
    by (simp add: handleWorkerOutcome_def prep id entry cfg active out hf dispatchPostReconciliation_def none dispatchRetry_def Let_def max3)
  have fst: "fst (handleContinuationExhausted restart_env p s1) = Some (JsError ''locked'')"
    by (simp add: handleContinuationExhausted_def Let_def await_then_def port_call_def cfg)
  have run: "runningEntries (snd (handleContinuationExhausted restart_env p s1)) = [(''A-1'', sample_entry ''A-1'' ''s2'')]"
    by (simp add: handleContinuationExhausted_def Let_def await_then_def port_call_def cfg restart_issue_def prep(6))
  have del: "runningEntries (handleWorkerFailure restart_env ?i en err t) = omap_delete ''A-1'' (runningEntries t)" for en err t
    by (simp add: handleWorkerFailure_def Let_def port_call_def cfg restart_issue_def id delete_running_def)
  show ?thesis
    unfolding handleWorkerPromise_def settlement.case ex
    using fst run by (cases "handleContinuationExhausted restart_env p s1") (simp add: del omap_delete_def)
qed

section \<open>What becomes of the claim\<close>




definition is_completed :: "string \<Rightarrow> effect \<Rightarrow> bool" where
  "is_completed k e =
     (case e of
        Emit name payload \<Rightarrow> name = ''issue.completed'' \<and> map_of payload ''issueId'' = Some (JStr k)
      | _ \<Rightarrow> False)"

lemma is_completed_simps [simp]:
  "\<not> is_completed k (UpdateAttempt a b)" "\<not> is_completed k (AppendEvent a c b)"
  "\<not> is_completed k (AppendCheckpoint a b)" "\<not> is_completed k (UpsertPr b)"
  "\<not> is_completed k (Notify n)" "\<not> is_completed k (CreateComment a c)"
  "\<not> is_completed k (UpdateIssueState a c)" "\<not> is_completed k (RemoveWorkspace a)"
  "\<not> is_completed k (GitPostRun a)"
  by (simp_all add: is_completed_def)

definition completions :: "string \<Rightarrow> orch \<Rightarrow> nat" where
  "completions k s = length (filter (is_completed k) (trace s))"


text \<open>What is observed of an issue: claimed, its retry, how often its completion was announced.\<close>

definition obs :: "string \<Rightarrow> orch \<Rightarrow> bool \<times> retry_entry option \<times> nat" where
  "obs k s = (k \<in> claimedIssueIds s, omap_get (retryEntries s) k, completions k s)"

lemma obs_ops [simp]:
  "obs k (markDirty t) = obs k t"
  "obs k (setDetailViewInState v w t) = obs k t"
  "obs k (setCompletedViewInState v w t) = obs k t"
  "obs k (suppressIssueDispatch i t) = obs k t"
  "obs k (notifyChannel n t) = obs k t"
  "obs k (complete_view env p ov t) = obs k t"
  "obs k (delete_running j t) = obs k t"
  "obs k (releaseIssueClaimInState k t) = (False, snd (obs k t))"
  by (simp_all add: obs_def completions_def markDirty_def setDetailViewInState_def
      setCompletedViewInState_def suppressIssueDispatch_def notifyChannel_def record_effect_def
      complete_view_def delete_running_def releaseIssueClaimInState_def)

lemma obs_emit [simp]:
  "obs k (emit_completed i out t) =
     (case obs k t of (c, r, n) \<Rightarrow> (c, r, if issue_id i = k then n + 1 else n))"
  by (simp add: obs_def completions_def emit_completed_def record_effect_def is_completed_def)












lemma obs_setTransitioned [simp]: "obs k (setTransitionedState i st s) = obs k s"
  by (simp add: setTransitionedState_def split: option.splits)



















end
