(* ===== verification/WorkspacePaths.thy ===== *)
theory WorkspacePaths
  imports Dispatch
begin

text \<open>
  \<open>src/src/workspace/paths.ts\<close>: from an issue identifier to a directory under the workspace root.
  \<open>path.resolve\<close> and \<open>path.relative\<close> are Node's POSIX functions; \<open>cwd\<close> is the (absolute)
  working directory of the process.
\<close>

section \<open>POSIX paths\<close>

fun split_on :: "char \<Rightarrow> string \<Rightarrow> string list" where
  "split_on sep [] = [[]]"
| "split_on sep (c # cs) =
     (if c = sep then [] # split_on sep cs
      else (case split_on sep cs of [] \<Rightarrow> [[c]] | w # ws \<Rightarrow> (c # w) # ws))"

definition path_isAbsolute :: "string \<Rightarrow> bool" where
  "path_isAbsolute p = starts_with ''/'' p"

text \<open>The segments of an absolute path, with empty, \<open>.\<close> and \<open>..\<close> segments resolved.\<close>

fun push_segment :: "string \<Rightarrow> string list \<Rightarrow> string list" where
  "push_segment seg acc =
     (if seg = [] \<or> seg = ''.'' then acc
      else if seg = ''..'' then butlast acc
      else acc @ [seg])"

declare push_segment.simps [simp del]

definition resolve_segments :: "string \<Rightarrow> string list \<Rightarrow> string list" where
  "resolve_segments p acc = fold push_segment (split_on CHR ''/'' p) acc"

definition resolve_all :: "string \<Rightarrow> string list \<Rightarrow> string list" where
  "resolve_all cwd paths =
     fold (\<lambda>p acc. resolve_segments p (if path_isAbsolute p then [] else acc)) paths
       (resolve_segments cwd [])"

definition path_resolve :: "string \<Rightarrow> string list \<Rightarrow> string" where
  "path_resolve cwd paths = ''/'' @ join ''/'' (resolve_all cwd paths)"

fun drop_common :: "'a list \<Rightarrow> 'a list \<Rightarrow> 'a list \<times> 'a list" where
  "drop_common (x # xs) (y # ys) = (if x = y then drop_common xs ys else (x # xs, y # ys))"
| "drop_common xs ys = (xs, ys)"

definition path_relative :: "string \<Rightarrow> string \<Rightarrow> string \<Rightarrow> string" where
  "path_relative cwd a b =
     (let (up, down) = drop_common (resolve_all cwd [a]) (resolve_all cwd [b])
      in join ''/'' (replicate (length up) ''..'' @ down))"

section \<open>paths.ts\<close>

definition isWithinRoot :: "string \<Rightarrow> string \<Rightarrow> string \<Rightarrow> bool" where
  "isWithinRoot cwd root candidate =
     (let relative = path_relative cwd root candidate
      in if path_isAbsolute relative then False
         else \<not> list_ex (\<lambda>segment. segment = ''..'') (split_on CHR ''/'' relative))"

definition is_safe_char :: "char \<Rightarrow> bool" where
  "is_safe_char c \<longleftrightarrow>
     (let n = (of_char c :: nat)
      in (65 \<le> n \<and> n \<le> 90) \<or> (97 \<le> n \<and> n \<le> 122) \<or> (48 \<le> n \<and> n \<le> 57) \<or> n = 46 \<or> n = 95 \<or> n = 45)"

definition sanitizeIdentifier :: "string \<Rightarrow> string" where
  "sanitizeIdentifier identifier =
     (let sanitized = map (\<lambda>c. if is_safe_char c then c else CHR ''_'') identifier
      in if sanitized = ''.'' \<or> sanitized = ''..''
         then map (\<lambda>c. if c = CHR ''.'' then CHR ''_'' else c) sanitized else sanitized)"

definition resolveWorkspacePath :: "string \<Rightarrow> string \<Rightarrow> string \<Rightarrow> string + string \<times> string" where
  "resolveWorkspacePath cwd workspaceRoot issueIdentifier =
     (let workspaceKey = sanitizeIdentifier issueIdentifier;
          workspacePath = path_resolve cwd [workspaceRoot, workspaceKey]
      in if \<not> isWithinRoot cwd workspaceRoot workspacePath
         then Inl (''workspace path escaped root: '' @ workspacePath)
         else Inr (workspaceKey, workspacePath))"

definition SAFE_PATH_DIRS :: "string list" where
  "SAFE_PATH_DIRS = [''/usr/local/bin'', ''/usr/bin'', ''/bin'', ''/usr/local/sbin'', ''/usr/sbin'', ''/sbin'']"

definition buildSafePath :: "string option \<Rightarrow> string" where
  "buildSafePath current =
     (case current of
        None \<Rightarrow> ''/usr/local/bin:/usr/bin:/bin''
      | Some p \<Rightarrow>
          if p = [] then ''/usr/local/bin:/usr/bin:/bin''
          else (let filtered = filter (\<lambda>dir. dir \<in> set SAFE_PATH_DIRS) (split_on CHR '':'' p)
                in if filtered \<noteq> [] then join '':'' filtered else ''/usr/local/bin:/usr/bin:/bin''))"

section \<open>Lemmas\<close>

lemma split_on_nonempty [simp]: "split_on sep s \<noteq> []"
  by (induction s) (auto split: list.splits)

lemma split_on_no_sep: "sep \<notin> set s \<Longrightarrow> split_on sep s = [s]"
  by (induction s) auto

lemma split_on_append: "split_on sep (s @ sep # t) = split_on sep s @ split_on sep t"
  by (induction s) (auto split: list.splits)

lemma split_on_join:
  "xs \<noteq> [] \<Longrightarrow> \<forall>x \<in> set xs. sep \<notin> set x \<Longrightarrow> split_on sep (join [sep] xs) = xs"
proof (induction "[sep]" xs rule: join.induct)
  case (3 x y ys)
  then show ?case
    using split_on_append [of sep x "join [sep] (y # ys)"] by (simp add: split_on_no_sep)
qed (auto simp: split_on_no_sep)

text \<open>A segment of a resolved path: not empty, no slash, neither dot name.\<close>

definition plain_segment :: "string \<Rightarrow> bool" where
  "plain_segment seg \<longleftrightarrow> seg \<noteq> [] \<and> seg \<noteq> ''.'' \<and> seg \<noteq> ''..'' \<and> CHR ''/'' \<notin> set seg"

lemma set_split_on: "seg \<in> set (split_on sep s) \<Longrightarrow> sep \<notin> set seg"
  by (induction s arbitrary: seg) (auto split: list.splits if_splits)

lemma fold_push_plain:
  "\<forall>s \<in> set segs. CHR ''/'' \<notin> set s \<Longrightarrow> \<forall>s \<in> set acc. plain_segment s \<Longrightarrow>
     \<forall>s \<in> set (fold push_segment segs acc). plain_segment s"
proof (induction segs arbitrary: acc)
  case (Cons seg segs)
  have "\<forall>s \<in> set (push_segment seg acc). plain_segment s"
    using Cons.prems by (auto simp: push_segment.simps plain_segment_def dest: in_set_butlastD)
  with Cons show ?case by simp
qed simp

lemma fold_push_id:
  "\<forall>s \<in> set segs. plain_segment s \<Longrightarrow> fold push_segment segs acc = acc @ segs"
  by (induction segs arbitrary: acc) (auto simp: push_segment.simps plain_segment_def)

lemma resolve_segments_plain:
  "\<forall>s \<in> set acc. plain_segment s \<Longrightarrow> \<forall>s \<in> set (resolve_segments p acc). plain_segment s"
  unfolding resolve_segments_def by (rule fold_push_plain) (auto dest: set_split_on)

lemma resolve_all_plain: "\<forall>s \<in> set (resolve_all cwd paths). plain_segment s"
proof -
  have "\<forall>s \<in> set acc. plain_segment s \<Longrightarrow> \<forall>s \<in> set (fold (\<lambda>p acc. resolve_segments p
      (if path_isAbsolute p then [] else acc)) paths acc). plain_segment s" for acc
  proof (induction paths arbitrary: acc)
    case (Cons p paths)
    have "\<forall>s \<in> set (resolve_segments p (if path_isAbsolute p then [] else acc)). plain_segment s"
      by (rule resolve_segments_plain) (use Cons.prems in auto)
    from Cons.IH [OF this] show ?case by simp
  qed simp
  moreover have "\<forall>s \<in> set (resolve_segments cwd []). plain_segment s"
    by (rule resolve_segments_plain) simp
  ultimately show ?thesis unfolding resolve_all_def by blast
qed

text \<open>Resolving a resolved path gives its segments back.\<close>

lemma resolve_resolved:
  "\<forall>s \<in> set segs. plain_segment s \<Longrightarrow> resolve_all cwd [''/'' @ join ''/'' segs] = segs"
proof (cases "segs = []")
  case True
  then show ?thesis
    by (simp add: resolve_all_def path_isAbsolute_def resolve_segments_def push_segment.simps)
next
  case False
  assume p: "\<forall>s \<in> set segs. plain_segment s"
  then have "split_on CHR ''/'' (join ''/'' segs) = segs"
    using False by (intro split_on_join) (auto simp: plain_segment_def)
  then show ?thesis
    using fold_push_id [OF p]
    by (simp add: resolve_all_def path_isAbsolute_def resolve_segments_def push_segment.simps)
qed

lemma join_not_absolute:
  assumes "\<forall>s \<in> set l. s \<noteq> [] \<and> CHR ''/'' \<notin> set s"
  shows "\<not> path_isAbsolute (join ''/'' l)"
proof (cases l)
  case (Cons x xs)
  with assms obtain c r where "x = c # r" "c \<noteq> CHR ''/''" by (cases x) auto
  with Cons show ?thesis by (cases xs) (auto simp: path_isAbsolute_def)
qed (simp add: path_isAbsolute_def)

lemma drop_common_split: "drop_common xs ys = (u, v) \<Longrightarrow> \<exists>zs. xs = zs @ u \<and> ys = zs @ v"
proof (induction xs ys rule: drop_common.induct)
  case (1 x xs y ys)
  show ?case
  proof (cases "x = y")
    case True
    with 1 obtain zs where "xs = zs @ u" "ys = zs @ v" by auto
    with True have "x # xs = (x # zs) @ u" "y # ys = (x # zs) @ v" by simp_all
    then show ?thesis by blast
  qed (use 1 in auto)
qed auto

lemma drop_common_empty: "drop_common xs ys = (u, v) \<Longrightarrow> u = [] \<longleftrightarrow> (\<exists>r. ys = xs @ r)"
  by (induction xs ys rule: drop_common.induct) (auto split: if_splits)

lemma drop_common_prefix: "drop_common xs (xs @ ys) = ([], ys)"
  by (induction xs) auto

lemma sanitize_chars: "c \<in> set (sanitizeIdentifier ident) \<Longrightarrow> is_safe_char c"
proof -
  have u: "is_safe_char CHR ''_''" by (simp add: is_safe_char_def)
  assume "c \<in> set (sanitizeIdentifier ident)"
  then show ?thesis using u by (auto simp: sanitizeIdentifier_def Let_def split: if_splits)
qed

lemma sanitize_plain:
  assumes "ident \<noteq> []"
  shows "plain_segment (sanitizeIdentifier ident)"
proof -
  have "CHR ''/'' \<notin> set (sanitizeIdentifier ident)"
    using sanitize_chars [of "CHR ''/''" ident] by (auto simp: is_safe_char_def)
  moreover have "sanitizeIdentifier ident \<noteq> ''.'' \<and> sanitizeIdentifier ident \<noteq> ''..''"
    by (auto simp: sanitizeIdentifier_def Let_def)
  ultimately show ?thesis
    using assms by (auto simp: plain_segment_def sanitizeIdentifier_def Let_def)
qed

lemma resolve_child:
  assumes "plain_segment key"
  shows "resolve_all cwd [root, key] = resolve_all cwd [root] @ [key]"
proof -
  have "\<not> path_isAbsolute key" "split_on CHR ''/'' key = [key]"
    using assms by (auto simp: plain_segment_def path_isAbsolute_def split_on_no_sep neq_Nil_conv)
  then show ?thesis
    using assms by (simp add: resolve_all_def resolve_segments_def push_segment.simps plain_segment_def)
qed

lemma resolveWorkspacePath_child:
  assumes "ident \<noteq> []"
  shows "\<exists>key path. resolveWorkspacePath cwd root ident = Inr (key, path) \<and> key = sanitizeIdentifier ident \<and>
     list_all is_safe_char key \<and> resolve_all cwd [path] = resolve_all cwd [root] @ [key]"
proof -
  define key where "key = sanitizeIdentifier ident"
  have key: "plain_segment key" unfolding key_def by (rule sanitize_plain [OF assms])
  have path: "path_resolve cwd [root, key] = ''/'' @ join ''/'' (resolve_all cwd [root] @ [key])"
    by (simp add: path_resolve_def resolve_child [OF key])
  have plain: "\<forall>s \<in> set (resolve_all cwd [root] @ [key]). plain_segment s"
    using resolve_all_plain [of cwd "[root]"] key by auto
  have again: "resolve_all cwd [path_resolve cwd [root, key]] = resolve_all cwd [root] @ [key]"
    unfolding path by (rule resolve_resolved [OF plain])
  have "path_relative cwd root (path_resolve cwd [root, key]) = key"
    by (simp add: path_relative_def again drop_common_prefix)
  then have "isWithinRoot cwd root (path_resolve cwd [root, key])"
    using key by (auto simp: isWithinRoot_def plain_segment_def path_isAbsolute_def split_on_no_sep neq_Nil_conv)
  then have "resolveWorkspacePath cwd root ident = Inr (key, path_resolve cwd [root, key])"
    by (simp add: resolveWorkspacePath_def Let_def flip: key_def)
  moreover have "list_all is_safe_char key"
    using sanitize_chars by (auto simp: key_def list_all_iff)
  ultimately show ?thesis using again key_def by blast
qed

text \<open>
  The workspace of an issue is always a direct child of the workspace root, whatever the
  identifier contains (slashes, dots, dot-dot, any other character): resolution succeeds, the
  directory name has safe characters only, and the path consists of the root's segments followed by
  that one name.
\<close>

theorem resolveWorkspacePath_inside:
  assumes "ident \<noteq> []"
  shows "\<exists>key path. resolveWorkspacePath cwd root ident = Inr (key, path) \<and> key = sanitizeIdentifier ident \<and>
     list_all is_safe_char key \<and> resolve_all cwd [path] = resolve_all cwd [root] @ [key]"
  using assms by (rule resolveWorkspacePath_child)

theorem resolveWorkspacePath_inside_witness:
  "\<exists>path. resolveWorkspacePath ''/srv'' ''work'' ''../A 1'' = Inr (''.._A_1'', path)"
proof -
  have "sanitizeIdentifier ''../A 1'' = ''.._A_1''" by code_simp
  then show ?thesis using resolveWorkspacePath_inside [of "''../A 1''" "''/srv''" "''work''"] by auto
qed

text \<open>
  A candidate path is within the root exactly when its resolved segments extend those of the
  root: no sequence of dot-dot segments, absolute paths or repeated slashes gets around the check.
\<close>

theorem isWithinRoot_prefix:
  "isWithinRoot cwd root candidate = (\<exists>rest. resolve_all cwd [candidate] = resolve_all cwd [root] @ rest)"
proof -
  obtain up down where d: "drop_common (resolve_all cwd [root]) (resolve_all cwd [candidate]) = (up, down)"
    by fastforce
  obtain zs where "resolve_all cwd [candidate] = zs @ down"
    using drop_common_split [OF d] by blast
  then have "set down \<subseteq> set (resolve_all cwd [candidate])" by simp
  then have "\<forall>s \<in> set down. plain_segment s"
    using resolve_all_plain [of cwd "[candidate]"] by blast
  then have down: "\<forall>s \<in> set down. s \<noteq> [] \<and> CHR ''/'' \<notin> set s" and nd: "''..'' \<notin> set down"
    unfolding plain_segment_def by blast+
  have "''..'' \<noteq> [] \<and> CHR ''/'' \<notin> set ''..''" by simp
  with down have plain: "\<forall>s \<in> set (replicate (length up) ''..'' @ down). s \<noteq> [] \<and> CHR ''/'' \<notin> set s"
    by (metis in_set_replicate Un_iff set_append)
  have rel: "path_relative cwd root candidate = join ''/'' (replicate (length up) ''..'' @ down)"
    by (simp add: path_relative_def d)
  note abs = join_not_absolute [OF plain]
  have "isWithinRoot cwd root candidate \<longleftrightarrow> up = []"
  proof (cases "replicate (length up) ''..'' @ down = []")
    case True
    then show ?thesis by (auto simp: isWithinRoot_def rel path_isAbsolute_def)
  next
    case False
    have "split_on CHR ''/'' (join ''/'' (replicate (length up) ''..'' @ down)) = replicate (length up) ''..'' @ down"
      using plain False by (intro split_on_join) auto
    then show ?thesis
      using abs nd by (cases up) (auto simp: isWithinRoot_def rel list_ex_iff)
  qed
  with drop_common_empty [OF d] show ?thesis by simp
qed

end
