(* ===== verification/Launcher.thy ===== *)
theory Launcher
  imports Outcome WorkspacePaths
begin

text \<open>
  Starting workers: \<open>src/src/orchestrator/worker-launcher.ts\<close> and \<open>workspace-preparation.ts\<close>,
  with the events a running agent sends back. As in the settlement handlers, \<open>le_throws\<close> and
  \<open>le_await\<close> say what the calls to the ports answer and what the other tasks do meanwhile. The
  pruning of dangling links in the workspace touches only the file system and swallows its errors;
  it is left out.
\<close>

section \<open>The environment of a launch\<close>

datatype launch_point =
    LwLock | LwEnsure | LwClone | LwCreateAttempt | LwCheckpoint | LwUpdateAttempt | LwAppendEvent
  | LwRecoveredCheckpoint | LwTemplate | LwRun

record launch_env =
  le_host :: host
  le_now :: int
  le_cwd :: string
  le_config :: service_config
  le_await :: "launch_point \<Rightarrow> orch \<Rightarrow> orch"
  le_throws :: "launch_point \<Rightarrow> js_error option"
  le_workspace :: workspace
  le_repoMatch :: "repo_match option"
  le_hasGitManager :: bool
  le_runId :: string

record launch_options =
  lo_claimHeld :: bool
  lo_previousThreadId :: "string option"
  lo_recoveredAttempt :: "attempt_record option"
  lo_modelSelectionOverride :: "model_selection option"

definition launch_call :: "launch_env \<Rightarrow> launch_point \<Rightarrow> effect list \<Rightarrow> orch \<Rightarrow> outcome" where
  "launch_call env p effects s = (le_throws env p, le_await env p (s\<lparr>trace := trace s @ effects\<rparr>))"

section \<open>workspace-preparation.ts\<close>

fun strategy_name :: "workspace_strategy \<Rightarrow> string" where
  "strategy_name DirectoryStrategy = ''directory''"
| "strategy_name WorktreeStrategy = ''worktree''"

definition workspace_event ::
  "launch_env \<Rightarrow> issue \<Rightarrow> string \<Rightarrow> string \<Rightarrow> (string \<times> json) list \<Rightarrow> runtime_event" where
  "workspace_event env i event message metadata =
     createLifecycleEvent (iso_of_ms (le_now env)) None i event message None (Some (JObj metadata))"

definition ensureAndClone :: "launch_env \<Rightarrow> orch \<Rightarrow> outcome" where
  "ensureAndClone env s =
     await_then (launch_call env LwEnsure [] s)
       (\<lambda>s2. if cfg_strategy (le_config env) = DirectoryStrategy \<and> le_repoMatch env \<noteq> None \<and>
                ws_createdNow (le_workspace env) \<and> le_hasGitManager env
             then launch_call env LwClone [] s2 else (None, s2))"

definition prepareWorkspaceForLaunch ::
  "launch_env \<Rightarrow> issue \<Rightarrow> orch \<Rightarrow> (js_error + workspace) \<times> orch" where
  "prepareWorkspaceForLaunch env i s =
     (let config = le_config env; strategy = (''strategy'', JStr (strategy_name (cfg_strategy config)))
      in case resolveWorkspacePath (le_cwd env) (cfg_workspaceRoot config) (issue_identifier i) of
           Inl message \<Rightarrow> (Inl (JsError message), s)
         | Inr (_, workspacePath) \<Rightarrow>
             (let s1 = pushEvent (workspace_event env i ''workspace_preparing'' ''Preparing issue workspace''
                         [(''workspacePath'', JStr workspacePath), strategy]) s;
                  ws = le_workspace env
              in case ensureAndClone env s1 of
                   (None, s3) \<Rightarrow>
                     (Inr ws, pushEvent (workspace_event env i ''workspace_ready'' ''Workspace ready''
                        [(''workspacePath'', JStr (ws_path ws)), (''workspaceKey'', JStr (ws_key ws)),
                         (''createdNow'', JBool (ws_createdNow ws)), strategy]) s3)
                 | (Some e, s3) \<Rightarrow>
                     (Inl e, releaseIssueClaimInState (issue_id i)
                        (pushEvent (workspace_event env i ''workspace_failed'' ''Workspace preparation failed''
                           [(''workspacePath'', JStr workspacePath), strategy,
                            (''error'', JStr (toErrorString e))]) s3))))"

section \<open>The running entry\<close>

definition buildRunningEntry ::
  "launch_env \<Rightarrow> issue \<Rightarrow> workspace \<Rightarrow> int option \<Rightarrow> model_selection \<Rightarrow> attempt_record option \<Rightarrow> running_entry" where
  "buildRunningEntry env i ws attempt modelSelection recovered =
     (let recoveredStartedAt = Option.bind recovered (\<lambda>a. h_date_parse (le_host env) (at_startedAt a))
      in \<lparr>en_runId = coalesce (map_option at_attemptId recovered) (le_runId env), en_issue = i,
          en_workspace = ws, en_startedAtMs = coalesce recoveredStartedAt (le_now env),
          en_lastEventAtMs = le_now env,
          en_attempt = or_else (Option.bind recovered at_attemptNumber) attempt,
          en_aborted = None, en_cleanupOnExit = False, en_status = SRunning,
          en_sessionId = Option.bind recovered at_threadId,
          en_tokenUsage = Option.bind recovered at_tokenUsage, en_modelSelection = modelSelection,
          en_lastAgentMessageContent = None, en_lastStopSignal = None,
          en_repoMatch = le_repoMatch env, en_steerReady = False\<rparr>)"

definition checkpoint_payload :: "running_entry \<Rightarrow> string \<Rightarrow> string \<Rightarrow> (string \<times> json) list" where
  "checkpoint_payload entry trigger createdAt =
     [(''trigger'', JStr trigger), (''eventCursor'', JNull), (''status'', JStr ''running''),
      (''threadId'', jopt JStr (en_sessionId entry)), (''turnId'', JNull), (''turnCount'', JNum 0),
      (''tokenUsage'', jopt js_usage (en_tokenUsage entry)), (''metadata'', JNull),
      (''createdAt'', JStr createdAt)]"

definition writeCheckpoint :: "launch_env \<Rightarrow> running_entry \<Rightarrow> string \<Rightarrow> orch \<Rightarrow> orch" where
  "writeCheckpoint env entry trigger s =
     snd (launch_call env LwCheckpoint
       [AppendCheckpoint (en_runId entry) (checkpoint_payload entry trigger (iso_of_ms (le_now env)))] s)"

definition persistInitialAttempt ::
  "launch_env \<Rightarrow> running_entry \<Rightarrow> issue \<Rightarrow> workspace \<Rightarrow> int option \<Rightarrow> model_selection \<Rightarrow> orch \<Rightarrow> outcome" where
  "persistInitialAttempt env entry i ws attempt modelSelection s =
     await_then
       (launch_call env LwCreateAttempt
          [CreateAttempt
             \<lparr>at_attemptId = en_runId entry, at_issueId = issue_id i,
              at_issueIdentifier = issue_identifier i, at_title = issue_title i,
              at_workspaceKey = Some (ws_key ws), at_workspacePath = Some (ws_path ws),
              at_status = ARunning, at_attemptNumber = attempt,
              at_startedAt = iso_of_ms (en_startedAtMs entry), at_endedAt = None,
              at_model = sel_model modelSelection, at_reasoningEffort = sel_effort modelSelection,
              at_modelSource = sel_source modelSelection, at_threadId = None, at_turnId = None,
              at_turnCount = 0, at_errorCode = None, at_errorMessage = None, at_tokenUsage = None,
              at_pullRequestUrl = Undef, at_stopSignal = Undef, at_summary = Undef\<rparr>] s)
       (\<lambda>s1. (None, writeCheckpoint env entry ''attempt_created'' s1))"

definition persistRecoveredAttempt ::
  "launch_env \<Rightarrow> issue \<Rightarrow> workspace \<Rightarrow> attempt_record \<Rightarrow> model_selection \<Rightarrow> orch \<Rightarrow> outcome" where
  "persistRecoveredAttempt env i ws a modelSelection s =
     (let now = iso_of_ms (le_now env); thread = jopt JStr (at_threadId a)
      in await_then
           (launch_call env LwUpdateAttempt
              [UpdateAttempt (at_attemptId a)
                 [(''workspaceKey'', JStr (ws_key ws)), (''workspacePath'', JStr (ws_path ws)),
                  (''status'', JStr ''running''), (''endedAt'', JNull),
                  (''model'', JStr (sel_model modelSelection)),
                  (''reasoningEffort'', js_effort (sel_effort modelSelection)),
                  (''modelSource'', JStr (source_name (sel_source modelSelection))),
                  (''threadId'', thread), (''turnId'', jopt JStr (at_turnId a)),
                  (''turnCount'', JNum (at_turnCount a)), (''errorCode'', JNull),
                  (''errorMessage'', JNull), (''tokenUsage'', jopt js_usage (at_tokenUsage a))]] s)
           (\<lambda>s1. await_then
              (launch_call env LwAppendEvent
                 [AppendEvent (at_attemptId a) ''attempt_recovered''
                    [(''at'', JStr now), (''issueId'', JStr (issue_id i)),
                     (''issueIdentifier'', JStr (issue_identifier i)), (''sessionId'', thread),
                     (''message'', JStr ''Attempt recovered on orchestrator startup''),
                     (''metadata'', JObj [(''workspacePath'', JStr (ws_path ws)),
                        (''attemptNumber'', jopt JNum (at_attemptNumber a))])]] s1)
              (\<lambda>s2. launch_call env LwRecoveredCheckpoint
                 [AppendCheckpoint (at_attemptId a)
                    [(''trigger'', JStr ''status_transition''), (''eventCursor'', JNull),
                     (''status'', JStr ''running''), (''threadId'', thread),
                     (''turnId'', jopt JStr (at_turnId a)), (''turnCount'', JNum (at_turnCount a)),
                     (''tokenUsage'', jopt js_usage (at_tokenUsage a)),
                     (''metadata'', JObj [(''recoveryAction'', JStr ''resume''),
                        (''workspacePath'', JStr (ws_path ws))]),
                     (''createdAt'', JStr now)]] s2)))"

definition emitLaunchNotifications ::
  "launch_env \<Rightarrow> issue \<Rightarrow> workspace \<Rightarrow> int option \<Rightarrow> model_selection \<Rightarrow> orch \<Rightarrow> orch" where
  "emitLaunchNotifications env i ws attempt modelSelection s =
     (let note = (\<lambda>ty message metadata.
            \<lparr>nt_type = ty, nt_severity = Info, nt_timestamp = iso_of_ms (le_now env),
             nt_message = message, nt_issue = issueRef i, nt_attempt = attempt,
             nt_metadata = Val (JObj metadata)\<rparr>)
      in notifyChannel (note NWorkerLaunched ''worker launched''
           [(''workspace'', JStr (ws_path ws)), (''model'', JStr (sel_model modelSelection)),
            (''reasoningEffort'', js_effort (sel_effort modelSelection))])
         (notifyChannel (note NIssueClaimed ''issue claimed for execution''
           [(''workspace'', JStr (ws_path ws))]) s))"

section \<open>launchWorker\<close>

definition start_entry :: "issue \<Rightarrow> running_entry \<Rightarrow> orch \<Rightarrow> orch" where
  "start_entry i entry s =
     (let s1 = markDirty (s\<lparr>runningEntries := omap_set (issue_id i) entry (runningEntries s),
                           completedViews := omap_delete (issue_identifier i) (completedViews s)\<rparr>)
      in setQueuedViewsInState (filter (\<lambda>view. v_issueId view \<noteq> issue_id i) (queuedViews s1)) s1)"

definition launch_view :: "launch_env \<Rightarrow> issue \<Rightarrow> workspace \<Rightarrow> int option \<Rightarrow> model_selection \<Rightarrow> issue_view" where
  "launch_view env i ws attempt modelSelection =
     issueView (iso_of_ms (le_now env)) i (\<lambda>v. (configured_view modelSelection v)
       \<lparr>v_workspaceKey := Some (ws_key ws), v_status := ''running'', v_attempt := of_null attempt\<rparr>)"

definition run_agent ::
  "launch_env \<Rightarrow> issue \<Rightarrow> workspace \<Rightarrow> int option \<Rightarrow> model_selection \<Rightarrow> launch_options \<Rightarrow> orch \<Rightarrow> outcome" where
  "run_agent env i ws attempt modelSelection opts s =
     (let s1 = setDetailViewInState (issue_identifier i) (launch_view env i ws attempt modelSelection) s;
          s2 = emitLaunchNotifications env i ws attempt modelSelection s1;
          previousThreadId = or_else (lo_previousThreadId opts)
            (Option.bind (lo_recoveredAttempt opts) at_threadId)
      in await_then (launch_call env LwTemplate [] s2)
           (\<lambda>s3. (le_throws env LwRun,
               record_effect (RunAttempt (issue_id i) attempt modelSelection previousThreadId) s3)))"

definition launch_body ::
  "launch_env \<Rightarrow> issue \<Rightarrow> int option \<Rightarrow> launch_options \<Rightarrow> orch \<Rightarrow> outcome" where
  "launch_body env i attempt opts s =
     (case prepareWorkspaceForLaunch env i s of
        (Inl e, s1) \<Rightarrow> (Some e, s1)
      | (Inr ws, s1) \<Rightarrow>
          (let modelSelection = coalesce (lo_modelSelectionOverride opts)
                 (resolveModelSelection (issueModelOverrides s1) (le_config env) (issue_identifier i));
               entry = buildRunningEntry env i ws attempt modelSelection (lo_recoveredAttempt opts);
               s2 = start_entry i entry s1
           in await_then
                (case lo_recoveredAttempt opts of
                   Some a \<Rightarrow> persistRecoveredAttempt env i ws a modelSelection s2
                 | None \<Rightarrow> persistInitialAttempt env entry i ws attempt modelSelection s2)
                (run_agent env i ws attempt modelSelection opts)))"

definition launchWorker ::
  "launch_env \<Rightarrow> issue \<Rightarrow> int option \<Rightarrow> launch_options \<Rightarrow> orch \<Rightarrow> outcome" where
  "launchWorker env i attempt opts s =
     (let s0 = (if lo_claimHeld opts then s else claimIssueInState (issue_id i) s);
          s1 = snd (launch_call env LwLock [] s0)
      in case launch_body env i attempt opts s1 of
           (None, s2) \<Rightarrow> (None, s2)
         | (Some e, s2) \<Rightarrow>
             (Some e, markDirty (releaseIssueClaimInState (issue_id i)
                (s2\<lparr>runningEntries := omap_delete (issue_id i) (runningEntries s2)\<rparr>))))"

text \<open>\<open>launchWorker\<close> of the coordinator's context announces the start.\<close>

definition ctx_launchWorker ::
  "launch_env \<Rightarrow> issue \<Rightarrow> int option \<Rightarrow> launch_options \<Rightarrow> orch \<Rightarrow> outcome" where
  "ctx_launchWorker env i attempt opts s =
     await_then (launchWorker env i attempt opts s)
       (\<lambda>s1. (None, record_effect (Emit ''issue.started'' [(''issueId'', JStr (issue_id i)),
           (''identifier'', JStr (issue_identifier i)), (''attempt'', jopt JNum attempt)]) s1))"

section \<open>launchAvailableWorkers\<close>

definition claim_held :: launch_options where
  "claim_held = \<lparr>lo_claimHeld = True, lo_previousThreadId = None, lo_recoveredAttempt = None,
     lo_modelSelectionOverride = None\<rparr>"

fun launch_loop ::
  "(issue \<Rightarrow> launch_env) \<Rightarrow> service_config \<Rightarrow> int \<Rightarrow> (string, int) omap \<Rightarrow> issue list \<Rightarrow> int \<Rightarrow>
     (string, int) omap \<Rightarrow> orch \<Rightarrow> outcome" where
  "launch_loop envs config availableSlots runningStateCounts [] launched pending s = (None, s)"
| "launch_loop envs config availableSlots runningStateCounts (i # issues) launched pending s =
     (if launched \<ge> availableSlots then (None, s)
      else (case canDispatchIssueInState config i s of
         (False, s1) \<Rightarrow>
           launch_loop envs config availableSlots runningStateCounts issues launched pending s1
       | (True, s1) \<Rightarrow>
           if \<not> hasAvailableStateSlot i config (runningEntries s1) (Some pending) (Some runningStateCounts)
           then launch_loop envs config availableSlots runningStateCounts issues launched pending s1
           else
             (let s2 = claimIssueInState (issue_id i) s1;
                  pending' = bump_count (normalizeStateKey (issue_state i)) pending
              in await_then (ctx_launchWorker (envs i) i (Some 1) claim_held s2)
                   (launch_loop envs config availableSlots runningStateCounts issues (launched + 1) pending'))))"

definition launchAvailableWorkers ::
  "(issue \<Rightarrow> launch_env) \<Rightarrow> service_config \<Rightarrow> issue list \<Rightarrow> orch \<Rightarrow> outcome" where
  "launchAvailableWorkers envs config issues s =
     (let availableSlots = maxConcurrentAgents config - int (length (runningEntries s))
      in if availableSlots \<le> 0 then (None, s)
         else launch_loop envs config availableSlots (buildRunningStateCounts (runningEntries s))
                issues 0 [] s)"

section \<open>Events of a running agent\<close>

definition put_entry :: "string \<Rightarrow> running_entry \<Rightarrow> orch \<Rightarrow> orch" where
  "put_entry issueId entry s =
     s\<lparr>runningEntries := omap_update issueId
         (\<lambda>e. if en_runId e = en_runId entry then entry else e) (runningEntries s)\<rparr>"

definition usage_mode_of :: "runtime_event \<Rightarrow> usage_mode" where
  "usage_mode_of event = coalesce (ev_usageMode event) Delta"

definition event_entry :: "int \<Rightarrow> runtime_event \<Rightarrow> running_entry \<Rightarrow> running_entry" where
  "event_entry now event entry =
     (let e1 = entry\<lparr>en_sessionId := ev_sessionId event, en_lastEventAtMs := now\<rparr>;
          e2 = (case ev_content event of
                  Some text \<Rightarrow>
                    if ev_event event = ''agent_message'' \<and> text \<noteq> []
                    then e1\<lparr>en_lastAgentMessageContent := Some text\<rparr> else e1
                | None \<Rightarrow> e1)
      in case ev_stopSignal event of None \<Rightarrow> e2 | Some sig \<Rightarrow> e2\<lparr>en_lastStopSignal := Some sig\<rparr>)"

text \<open>
  The writes \<open>queuePersistence\<close> chains up, in the order the chain performs them. The chain runs
  after the handler returns; the usage it writes is the entry's then.
\<close>

definition event_persistence :: "int \<Rightarrow> runtime_event \<Rightarrow> running_entry \<Rightarrow> effect list" where
  "event_persistence now event entry =
     [AppendEvent (en_runId entry) (ev_event event)
       ([(''at'', JStr (ev_at event)), (''issueId'', jopt JStr (ev_issueId event)),
         (''issueIdentifier'', jopt JStr (ev_issueIdentifier event)),
         (''sessionId'', jopt JStr (ev_sessionId event)), (''message'', JStr (ev_message event)),
         (''content'', jopt JStr (ev_content event)),
         (''metadata'', jopt (\<lambda>m. m) (ev_metadata event)),
         (''usage'', jopt js_usage (ev_usage event))] @
        (case ev_rateLimits event of
           Undef \<Rightarrow> [] | Null \<Rightarrow> [(''rateLimits'', JNull)] | Val limits \<Rightarrow> [(''rateLimits'', limits)]))] @
     (case ev_usage event of
        None \<Rightarrow> []
      | Some _ \<Rightarrow>
          [UpdateAttempt (en_runId entry) [(''tokenUsage'', jopt js_usage (en_tokenUsage entry))],
           AppendCheckpoint (en_runId entry) (checkpoint_payload entry ''cursor_advanced'' (iso_of_ms now))])"

definition onEvent :: "int \<Rightarrow> string \<Rightarrow> runtime_event \<Rightarrow> orch \<times> running_entry \<Rightarrow> orch \<times> running_entry" where
  "onEvent now issueId event st =
     (let (s, entry0) = st;
          entry1 = event_entry now event (current_entry issueId entry0 s);
          s1 = pushEvent event (put_entry issueId entry1 s);
          (s2, entry2) = (case ev_usage event of
             None \<Rightarrow> (s1, entry1)
           | Some usage \<Rightarrow> applyUsageEventInState entry1 usage (usage_mode_of event) s1);
          s3 = put_entry issueId entry2 s2;
          s4 = (case ev_rateLimits event of
             Undef \<Rightarrow> s3 | Null \<Rightarrow> setRateLimitsInState JNull s3 | Val limits \<Rightarrow> setRateLimitsInState limits s3)
      in (s4\<lparr>trace := trace s4 @ event_persistence now event entry2\<rparr>, entry2))"

end
