(* ===== verification/LauncherClaims.thy ===== *)
theory LauncherClaims
  imports Launcher OutcomeClaims
begin

text \<open>
  Launching keeps the claim discipline and the concurrency limits. An issue is \<open>reserved\<close> while it
  is claimed but neither running nor queued: that is how a launch holds it until the running entry
  is there.
\<close>

definition launch_rely :: "launch_env \<Rightarrow> string \<Rightarrow> bool" where
  "launch_rely env k \<longleftrightarrow>
     (\<forall>p s. reserved k s \<longrightarrow> reserved k (le_await env p s)) \<and>
     (\<forall>p s. has_worker k s \<longrightarrow> has_worker k (le_await env p s))"

definition launch_ok :: "string \<Rightarrow> outcome \<Rightarrow> bool" where
  "launch_ok k r \<longleftrightarrow>
     (if fst r = None then has_worker k (snd r) else held k (snd r) \<and> k \<notin> claimedIssueIds (snd r))"

lemma has_worker_same: "same_claims s t \<Longrightarrow> has_worker k t = has_worker k s"
  using claim_inv_same [of s t] by (auto simp: has_worker_def same_claims_def)

lemma has_worker_ops [simp]:
  "has_worker k (setDetailViewInState v w t) = has_worker k t"
  "has_worker k (notifyChannel n t) = has_worker k t"
  "has_worker k (record_effect e t) = has_worker k t"
  "has_worker k (markDirty t) = has_worker k t"
  by (rule has_worker_same, simp)+

lemma held_ops [simp]:
  "held k (markDirty t) = held k t"
  "held k (record_effect e t) = held k t"
  "held k (pushEvent ev t) = held k t"
  "held k (notifyChannel n t) = held k t"
  "held k (setDetailViewInState v w t) = held k t"
  "held k (t\<lparr>trace := es\<rparr>) = held k t"
  by (rule held_same, simp)+

lemma held_release [simp]: "held k s \<Longrightarrow> held k (releaseIssueClaimInState k s)"
  using claim_inv_release [of s k]
  by (simp add: held_def owned_def) (simp add: releaseIssueClaimInState_def markDirty_def)

lemma reserved_held: "reserved k s \<Longrightarrow> held k s"
  by (simp add: reserved_def)

lemma reserved_call: "launch_rely env k \<Longrightarrow> reserved k s \<Longrightarrow> reserved k (snd (launch_call env p es s))"
  by (simp add: launch_rely_def launch_call_def)

lemma has_worker_call: "launch_rely env k \<Longrightarrow> has_worker k s \<Longrightarrow> has_worker k (snd (launch_call env p es s))"
  by (simp add: launch_rely_def launch_call_def)

lemma await_then_inv:
  "P (snd r) \<Longrightarrow> (\<And>s. P s \<Longrightarrow> P (snd (f s))) \<Longrightarrow> P (snd (await_then r f))"
  by (auto simp: await_then_def split: prod.splits option.splits)

lemma prepare_reserved:
  assumes "launch_rely env k" and "reserved k s" and "issue_id i = k"
  shows "case prepareWorkspaceForLaunch env i s of
           (Inl e, s1) \<Rightarrow> held k s1 | (Inr ws, s1) \<Rightarrow> reserved k s1"
proof (cases "resolveWorkspacePath (le_cwd env) (cfg_workspaceRoot (le_config env)) (issue_identifier i)")
  case (Inl m)
  then show ?thesis
    using assms by (simp add: prepareWorkspaceForLaunch_def Let_def reserved_held)
next
  case (Inr kp)
  have "reserved k (snd (ensureAndClone env (pushEvent ev s)))" for ev
    unfolding ensureAndClone_def
    by (rule await_then_inv) (simp_all add: reserved_call [OF assms(1)] assms(2))
  then have g: "ensureAndClone env (pushEvent ev s) = (r, s3) \<Longrightarrow> reserved k s3" for ev r s3
    by (metis snd_conv)
  then have h: "ensureAndClone env (pushEvent ev s) = (r, s3) \<Longrightarrow> held k s3" for ev r s3
    by (metis reserved_held)
  obtain key path where "kp = (key, path)" by fastforce
  with Inr show ?thesis
    by (simp add: prepareWorkspaceForLaunch_def Let_def assms(3) split: prod.splits option.splits)
      (auto dest: g h)
qed

lemma start_has_worker:
  assumes "reserved k s" and "issue_id i = k" and "en_issue entry = i"
  shows "has_worker k (start_entry i entry s)"
proof -
  define t where "t = s\<lparr>runningEntries := omap_set k entry (runningEntries s)\<rparr>"
  have h: "claim_inv s" "\<not> omap_has (runningEntries s) k" "\<not> omap_has (retryEntries s) k"
    "o_running s \<longrightarrow> k \<in> claimedIssueIds s"
    using assms(1) by (auto simp: reserved_def held_def owned_def)
  have "keys_ok t" using h(1) assms by (auto simp: t_def claim_inv_def keys_ok_def set_omap_set)
  moreover have "claims_ok t" using h by (auto simp: t_def claim_inv_def claims_ok_def)
  moreover have "timers_ok t" using h(1) by (simp add: t_def claim_inv_def timers_ok_def)
  ultimately have "has_worker k t" by (simp add: has_worker_def claim_inv_def t_def)
  moreover have "same_claims t (start_entry i entry s)"
    by (simp add: start_entry_def Let_def t_def assms(2)) (simp add: same_claims_def)
  ultimately show ?thesis using has_worker_same by blast
qed

lemma persist_has_worker:
  assumes "launch_rely env k" and "has_worker k s"
  shows "has_worker k (snd (persistInitialAttempt env entry i ws attempt sel s))"
    and "has_worker k (snd (persistRecoveredAttempt env i ws a sel s))"
  using assms
  by (auto simp: persistInitialAttempt_def persistRecoveredAttempt_def writeCheckpoint_def Let_def
      intro!: await_then_inv [where P = "has_worker k"] has_worker_call)

lemma run_agent_has_worker:
  "launch_rely env k \<Longrightarrow> has_worker k s \<Longrightarrow> has_worker k (snd (run_agent env i ws attempt sel opts s))"
  by (auto simp: run_agent_def Let_def emitLaunchNotifications_def
      intro!: await_then_inv [where P = "has_worker k"] has_worker_call)

lemma launch_body_ok:
  assumes "launch_rely env k" and "reserved k s" and "issue_id i = k"
  shows "case launch_body env i attempt opts s of
           (None, s1) \<Rightarrow> has_worker k s1 | (Some e, s1) \<Rightarrow> has_worker k s1 \<or> held k s1"
proof -
  obtain r s1 where p: "prepareWorkspaceForLaunch env i s = (r, s1)" by fastforce
  show ?thesis
  proof (cases r)
    case (Inl e)
    then show ?thesis using prepare_reserved [OF assms] by (simp add: launch_body_def p)
  next
    case (Inr ws)
    then have "reserved k s1" using prepare_reserved [OF assms] p by simp
    define sel where "sel = coalesce (lo_modelSelectionOverride opts)
      (resolveModelSelection (issueModelOverrides s1) (le_config env) (issue_identifier i))"
    define entry where "entry = buildRunningEntry env i ws attempt sel (lo_recoveredAttempt opts)"
    have "has_worker k (start_entry i entry s1)"
      by (rule start_has_worker [OF \<open>reserved k s1\<close> assms(3)]) (simp add: entry_def buildRunningEntry_def Let_def)
    then have "has_worker k (snd (launch_body env i attempt opts s))"
      unfolding launch_body_def p Inr prod.case sum.case Let_def sel_def [symmetric] entry_def [symmetric]
      by (intro await_then_inv [where P = "has_worker k"] run_agent_has_worker [OF assms(1)])
        (auto intro: persist_has_worker [OF assms(1)] split: option.splits)
    then show ?thesis by (auto split: prod.splits option.splits)
  qed
qed

lemma launch_settles:
  assumes "launch_rely env (issue_id i)" and "held (issue_id i) s"
    and "if lo_claimHeld opts \<and> o_running s then issue_id i \<in> claimedIssueIds s else True"
  shows "launch_ok (issue_id i) (launchWorker env i attempt opts s)"
proof -
  let ?k = "issue_id i"
  define s1 where "s1 = snd (launch_call env LwLock [] (if lo_claimHeld opts then s else claimIssueInState ?k s))"
  have "reserved ?k (if lo_claimHeld opts then s else claimIssueInState ?k s)"
    using assms(2,3)
    by (auto simp: reserved_def held_def owned_def claim_inv_claim claimIssueInState_def
        intro: claim_inv_claim [unfolded claimIssueInState_def, simplified] split: if_splits)
  then have r: "reserved ?k s1" unfolding s1_def by (rule reserved_call [OF assms(1)])
  obtain e s2 where b: "launch_body env i attempt opts s1 = (e, s2)" by fastforce
  note ok = launch_body_ok [OF assms(1) r refl, of attempt opts, unfolded b]
  have "held ?k (delete_running ?k s2)" if "e \<noteq> None"
    using ok that held_delete by (auto split: option.splits)
  then have "held ?k (s2\<lparr>runningEntries := omap_delete ?k (runningEntries s2)\<rparr>)" if "e \<noteq> None"
    using that by (simp add: delete_running_def)
  then show ?thesis
    using ok
    by (cases e) (auto simp: launchWorker_def Let_def b launch_ok_def releaseIssueClaimInState_def
        simp flip: s1_def dest: held_release)
qed

text \<open>
  C4: a launch ends in one of two ways, whichever of its steps fails and whatever other tasks do
  meanwhile, as long as they respect the reservation: the issue has a running entry and the claim
  discipline holds, or the launch is rejected and no trace of it is left that would block the issue:
  no running entry, no retry, no claim.
\<close>

theorem launchWorker_claims:
  assumes "launch_rely env (issue_id i)" and "held (issue_id i) s"
    and "if lo_claimHeld opts \<and> o_running s then issue_id i \<in> claimedIssueIds s else True"
  shows "launch_ok (issue_id i) (launchWorker env i attempt opts s)"
  using assms by (rule launch_settles)


section \<open>Concurrency limits\<close>

definition launch_quiet :: "launch_env \<Rightarrow> bool" where
  "launch_quiet env \<longleftrightarrow> (\<forall>p s. le_await env p s = s)"

lemma running_ops [simp]:
  "runningEntries (pushEvent ev t) = runningEntries t"
  "runningEntries (releaseIssueClaimInState k t) = runningEntries t"
  "runningEntries (claimIssueInState k t) = runningEntries t"
  "runningEntries (setDetailViewInState v w t) = runningEntries t"
  "runningEntries (setQueuedViewsInState vs t) = runningEntries t"
  "runningEntries (notifyChannel n t) = runningEntries t"
  "runningEntries (record_effect e t) = runningEntries t"
  "runningEntries (snd (canDispatchIssueInState config i t)) = runningEntries t"
  by (simp_all add: state_defs canDispatchIssueInState_def Let_def split: prod.splits)

lemma running_call: "launch_quiet env \<Longrightarrow> runningEntries (snd (launch_call env p es s)) = runningEntries s"
  by (simp add: launch_quiet_def launch_call_def)

lemma running_prepare: "launch_quiet env \<Longrightarrow> runningEntries (snd (prepareWorkspaceForLaunch env i s)) = runningEntries s"
proof -
  assume q: "launch_quiet env"
  have e: "runningEntries (snd (ensureAndClone env t)) = runningEntries t" for t
    unfolding ensureAndClone_def
    by (rule await_then_inv [where P = "\<lambda>u. runningEntries u = runningEntries t"])
      (simp_all add: running_call [OF q])
  then have "ensureAndClone env t = (r, u) \<Longrightarrow> runningEntries u = runningEntries t" for t r u
    by (metis snd_conv)
  then show ?thesis
    by (auto simp: prepareWorkspaceForLaunch_def Let_def split: sum.splits prod.splits option.splits)
qed

lemma running_start: "runningEntries (start_entry i entry s) = omap_set (issue_id i) entry (runningEntries s)"
  by (simp add: start_entry_def Let_def)

lemma running_persist:
  assumes "launch_quiet env"
  shows "runningEntries (snd (persistInitialAttempt env entry i ws attempt sel s)) = runningEntries s"
    and "runningEntries (snd (persistRecoveredAttempt env i ws a sel s)) = runningEntries s"
    and "runningEntries (snd (run_agent env i ws attempt sel opts s)) = runningEntries s"
  by (auto simp: persistInitialAttempt_def persistRecoveredAttempt_def run_agent_def writeCheckpoint_def
      emitLaunchNotifications_def Let_def running_call [OF assms]
      intro!: await_then_inv [where P = "\<lambda>u. runningEntries u = runningEntries s"])

lemma running_launch_body:
  assumes "launch_quiet env"
  shows "(\<exists>entry. en_issue entry = i \<and>
            runningEntries (snd (launch_body env i attempt opts s)) = omap_set (issue_id i) entry (runningEntries s)) \<or>
         (fst (launch_body env i attempt opts s) \<noteq> None \<and>
            runningEntries (snd (launch_body env i attempt opts s)) = runningEntries s)"
proof -
  obtain r s1 where p: "prepareWorkspaceForLaunch env i s = (r, s1)" by fastforce
  have s1: "runningEntries s1 = runningEntries s" using running_prepare [OF assms, of i s] p by simp
  show ?thesis
  proof (cases r)
    case (Inl e)
    then show ?thesis by (simp add: launch_body_def p s1)
  next
    case (Inr ws)
    define sel where "sel = coalesce (lo_modelSelectionOverride opts)
      (resolveModelSelection (issueModelOverrides s1) (le_config env) (issue_identifier i))"
    define entry where "entry = buildRunningEntry env i ws attempt sel (lo_recoveredAttempt opts)"
    have "runningEntries (snd (launch_body env i attempt opts s)) = omap_set (issue_id i) entry (runningEntries s)"
      unfolding launch_body_def p Inr prod.case sum.case Let_def sel_def [symmetric] entry_def [symmetric]
      by (rule await_then_inv [where P = "\<lambda>u. runningEntries u = omap_set (issue_id i) entry (runningEntries s)"])
        (auto simp: running_persist [OF assms] running_start s1 split: option.splits)
    moreover have "en_issue entry = i" by (simp add: entry_def buildRunningEntry_def Let_def)
    ultimately show ?thesis by blast
  qed
qed

lemma omap_delete_set [simp]: "omap_delete k (omap_set k v m) = omap_delete k m"
  by (induction k v m rule: omap_set.induct) (auto simp: omap_delete_def)

lemma running_launch:
  assumes "launch_quiet env"
  shows "(\<exists>entry. en_issue entry = i \<and>
            runningEntries (snd (ctx_launchWorker env i attempt opts s)) = omap_set (issue_id i) entry (runningEntries s)) \<or>
         (fst (ctx_launchWorker env i attempt opts s) \<noteq> None \<and>
            runningEntries (snd (ctx_launchWorker env i attempt opts s)) = omap_delete (issue_id i) (runningEntries s))"
proof -
  define s1 where "s1 = snd (launch_call env LwLock [] (if lo_claimHeld opts then s else claimIssueInState (issue_id i) s))"
  have s1: "runningEntries s1 = runningEntries s" by (simp add: s1_def running_call [OF assms])
  obtain e s2 where b: "launch_body env i attempt opts s1 = (e, s2)" by fastforce
  show ?thesis
    using running_launch_body [OF assms, of i attempt opts s1]
    by (cases e) (auto simp: ctx_launchWorker_def await_then_def launchWorker_def Let_def b s1 simp flip: s1_def)
qed









lemma launch_loop_Cons:
  "launch_loop envs config slots counts (i # issues) launched pending s =
     (if launched \<ge> slots then (None, s)
      else let s1 = snd (canDispatchIssueInState config i s) in
        if \<not> fst (canDispatchIssueInState config i s) \<or>
           \<not> hasAvailableStateSlot i config (runningEntries s1) (Some pending) (Some counts)
        then launch_loop envs config slots counts issues launched pending s1
        else await_then (ctx_launchWorker (envs i) i (Some 1) claim_held (claimIssueInState (issue_id i) s1))
               (launch_loop envs config slots counts issues (launched + 1)
                 (bump_count (normalizeStateKey (issue_state i)) pending)))"
  by (cases "canDispatchIssueInState config i s") (auto simp: Let_def split: bool.splits)

declare launch_loop.simps(2) [simp del]





section \<open>Samples\<close>

definition sample_launch_env :: "issue \<Rightarrow> launch_env" where
  "sample_launch_env i =
     \<lparr>le_host = example_host, le_now = 1000, le_cwd = ''/srv'', le_config = sample_config,
      le_await = (\<lambda>_ s. s), le_throws = (\<lambda>_. None), le_workspace = sample_workspace,
      le_repoMatch = None, le_hasGitManager = False, le_runId = issue_id i @ ''-run''\<rparr>"

definition limited_config :: service_config where
  "limited_config = sample_config\<lparr>maxConcurrentAgents := 5, maxConcurrentAgentsByState := [(''todo'', 2)]\<rparr>"

definition idle_state :: orch where
  "idle_state = createLifecycleState\<lparr>o_running := True\<rparr>"

lemma sample_launch_quiet: "launch_quiet (sample_launch_env i)"
  by (simp add: launch_quiet_def sample_launch_env_def)


lemma sample_launch_rely: "launch_rely (sample_launch_env i) k"
  by (simp add: launch_rely_def sample_launch_env_def)

theorem launchWorker_claims_witness:
  "launch_ok ''A-1'' (launchWorker (sample_launch_env (example_issue ''A-1'' ''Todo'' None))
     (example_issue ''A-1'' ''Todo'' None) (Some 1) (claim_held\<lparr>lo_claimHeld := False\<rparr>) idle_state)"
proof -
  have id: "issue_id (example_issue ''A-1'' ''Todo'' None) = ''A-1''" by (simp add: example_issue_def)
  have "held ''A-1'' idle_state"
    by (simp add: held_def owned_def idle_state_def createLifecycleState_def claim_inv_def keys_ok_def
        claims_ok_def timers_ok_def)
  then show ?thesis
    using launchWorker_claims [OF sample_launch_rely, of "example_issue ''A-1'' ''Todo'' None" idle_state
        "claim_held\<lparr>lo_claimHeld := False\<rparr>"]
    by (simp add: id claim_held_def)
qed

lemma await_then_simps [simp]: "await_then (None, s) f = f s" "await_then (Some e, s) f = (Some e, s)"
  by (simp_all add: await_then_def)

lemma launch_succeeds:
  assumes "\<forall>p. le_throws env p = None" and "issue_identifier i \<noteq> []"
  shows "fst (ctx_launchWorker env i attempt opts s) = None"
proof -
  obtain key path where "resolveWorkspacePath (le_cwd env) (cfg_workspaceRoot (le_config env)) (issue_identifier i) =
      Inr (key, path)"
    using resolveWorkspacePath_child [OF assms(2)] by metis
  then show ?thesis
    using assms(1)
    by (simp add: ctx_launchWorker_def launchWorker_def launch_body_def prepareWorkspaceForLaunch_def
        ensureAndClone_def persistInitialAttempt_def persistRecoveredAttempt_def run_agent_def launch_call_def
        Let_def split: option.split)
qed

lemma sample_round:
  defines "i1 \<equiv> example_issue ''A-1'' ''Todo'' None" and "i2 \<equiv> example_issue ''A-2'' ''Todo'' None"
  assumes idle: "runningEntries s = []" and dispatch: "fst (canDispatchIssueInState limited_config i1 s)"
  shows "\<exists>entry. en_issue entry = i1 \<and>
     runningEntries (snd (launchAvailableWorkers sample_launch_env limited_config [i1, i2] s)) = [(''A-1'', entry)]"
proof -
  define s1 where "s1 = snd (canDispatchIssueInState limited_config i1 s)"
  have empty: "runningEntries s1 = []" using idle by (simp add: s1_def)
  have keys: "normalizeStateKey (issue_state i1) = ''todo''" "normalizeStateKey (issue_state i2) = ''todo''"
    unfolding i1_def i2_def by code_simp+
  have limit: "omap_get (maxConcurrentAgentsByState limited_config) ''todo'' = Some 2"
    "maxConcurrentAgents limited_config = 5"
    by (simp_all add: limited_config_def omap_get_def)
  have slot: "hasAvailableStateSlot i1 limited_config [] (Some []) (Some [])"
    by (simp add: hasAvailableStateSlot_def Let_def keys limit running_in_state_def omap_values_def)
  obtain r s2 where c: "ctx_launchWorker (sample_launch_env i1) i1 (Some 1) claim_held
      (claimIssueInState (issue_id i1) s1) = (r, s2)" by fastforce
  have "fst (ctx_launchWorker (sample_launch_env i1) i1 (Some 1) claim_held (claimIssueInState (issue_id i1) s1)) = None"
    by (rule launch_succeeds) (simp_all add: sample_launch_env_def i1_def example_issue_def claim_held_def)
  then have r: "r = None" by (simp add: c)
  have id1: "issue_id i1 = ''A-1''" by (simp add: i1_def example_issue_def)
  obtain entry where e: "en_issue entry = i1" "runningEntries s2 = [(''A-1'', entry)]"
    using r running_launch [OF sample_launch_quiet, of i1 i1 "Some 1" claim_held "claimIssueInState (issue_id i1) s1", unfolded c]
    by (auto simp: empty id1)
  have "running_in_state (runningEntries s2) ''todo'' = 1"
    by (simp add: e running_in_state_def omap_values_def keys)
  then have full: "\<not> hasAvailableStateSlot i2 limited_config (runningEntries s2) (Some [(''todo'', 1)]) (Some [])"
    by (simp add: hasAvailableStateSlot_def Let_def keys limit) (simp add: omap_get_def)
  have "snd (launchAvailableWorkers sample_launch_env limited_config [i1, i2] s) =
      snd (canDispatchIssueInState limited_config i2 s2)"
    using dispatch slot full
    by (simp add: launchAvailableWorkers_def Let_def limit launch_loop_Cons buildRunningStateCounts_def
        omap_values_def idle bump_count_def keys c r empty flip: s1_def)
  then show ?thesis using e by simp
qed

text \<open>
  The slot check of a state counts the launches of the current round twice when no worker was in
  that state at the start of the round: the state has no entry in the counts taken then, so the
  check falls back to counting the live entries, which include the new ones, and adds the pending
  count on top. With a limit of two for the state, five in all, an idle orchestrator and two
  dispatchable issues, a round starts one worker and leaves the other issue unclaimed.
\<close>

theorem round_starts_one_of_two:
  "omap_get (maxConcurrentAgentsByState limited_config) ''todo'' = Some 2 \<and>
   maxConcurrentAgents limited_config = 5 \<and>
   normalizeStateKey ''Todo'' = ''todo'' \<and>
   fst (canDispatchIssueInState limited_config (example_issue ''A-1'' ''Todo'' None) idle_state) \<and>
   fst (canDispatchIssueInState limited_config (example_issue ''A-2'' ''Todo'' None) idle_state) \<and>
   map fst (runningEntries (snd (launchAvailableWorkers sample_launch_env limited_config
      [example_issue ''A-1'' ''Todo'' None, example_issue ''A-2'' ''Todo'' None] idle_state))) = [''A-1'']"
proof (intro conjI)
  show first: "fst (canDispatchIssueInState limited_config (example_issue ''A-1'' ''Todo'' None) idle_state)"
    by code_simp
  show "fst (canDispatchIssueInState limited_config (example_issue ''A-2'' ''Todo'' None) idle_state)"
    "normalizeStateKey ''Todo'' = ''todo''" by code_simp+
  show "map fst (runningEntries (snd (launchAvailableWorkers sample_launch_env limited_config
      [example_issue ''A-1'' ''Todo'' None, example_issue ''A-2'' ''Todo'' None] idle_state))) = [''A-1'']"
    using sample_round [of idle_state] first
    by (auto simp: idle_state_def createLifecycleState_def)
qed (simp_all add: limited_config_def omap_get_def)

end
