(* ===== verification/RetryLaunch.thy ===== *)
theory RetryLaunch
  imports LauncherClaims
begin

text \<open>
  What a retry timer does when it fires: \<open>revalidateAndLaunch\<close> and \<open>handleRetryLaunchFailure\<close> of
  \<open>src/src/orchestrator/retry-coordinator.ts\<close>.
\<close>

datatype retry_point = RpFetch | RpRemove | RpUpdate | RpCreate

record retry_env =
  rt_launch :: launch_env
  rt_await :: "retry_point \<Rightarrow> orch \<Rightarrow> orch"
  rt_throws :: "retry_point \<Rightarrow> js_error option"
  rt_latest :: "issue option"
  rt_uuid :: string

definition retry_call :: "retry_env \<Rightarrow> retry_point \<Rightarrow> effect list \<Rightarrow> orch \<Rightarrow> outcome" where
  "retry_call env p effects s = (rt_throws env p, rt_await env p (s\<lparr>trace := trace s @ effects\<rparr>))"

abbreviation rt_config :: "retry_env \<Rightarrow> service_config" where
  "rt_config env \<equiv> le_config (rt_launch env)"

abbreviation rt_now :: "retry_env \<Rightarrow> int" where
  "rt_now env \<equiv> le_now (rt_launch env)"

text \<open>
  \<open>retryEntry.issue = latestIssue\<close> writes through the entry object, which the map still holds if
  its timer is the same.
\<close>

definition set_retry_issue :: "string \<Rightarrow> retry_entry \<Rightarrow> issue \<Rightarrow> orch \<Rightarrow> orch" where
  "set_retry_issue issueId entry latest s =
     s\<lparr>retryEntries := omap_update issueId
         (\<lambda>e. if re_timer e = re_timer entry then e\<lparr>re_issue := latest\<rparr> else e) (retryEntries s)\<rparr>"

definition delete_retry :: "string \<Rightarrow> orch \<Rightarrow> orch" where
  "delete_retry issueId s = markDirty (s\<lparr>retryEntries := omap_delete issueId (retryEntries s)\<rparr>)"

definition retry_options :: "retry_entry \<Rightarrow> launch_options" where
  "retry_options entry =
     \<lparr>lo_claimHeld = True, lo_previousThreadId = re_threadId entry, lo_recoveredAttempt = None,
      lo_modelSelectionOverride = None\<rparr>"

definition revalidateAndLaunch :: "retry_env \<Rightarrow> string \<Rightarrow> int \<Rightarrow> orch \<Rightarrow> outcome" where
  "revalidateAndLaunch env issueId attempt s =
     (case omap_get (retryEntries s) issueId of
        None \<Rightarrow> (None, s)
      | Some retryEntry \<Rightarrow>
          if \<not> o_running s then (None, s)
          else
            await_then (retry_call env RpFetch [] s) (\<lambda>s1.
              let config = rt_config env in
              case rt_latest env of
                None \<Rightarrow> (None, cancelRetry issueId s1)
              | Some latestIssue \<Rightarrow>
                  let s2 = set_retry_issue issueId retryEntry latestIssue s1 in
                  if isTerminalState (issue_state latestIssue) config
                  then (None, snd (retry_call env RpRemove [RemoveWorkspace (issue_identifier latestIssue)]
                                (cancelRetry issueId s2)))
                  else if \<not> isActiveState (issue_state latestIssue) config
                  then (None, cancelRetry issueId s2)
                  else if int (length (runningEntries s2)) \<ge> maxConcurrentAgents config \<or>
                          \<not> hasAvailableStateSlot latestIssue config (runningEntries s2) None None
                  then (None, queueRetry (rt_now env) latestIssue attempt 1000 (re_error retryEntry)
                                (re_threadId retryEntry) s2)
                  else ctx_launchWorker (rt_launch env) latestIssue (Some attempt) (retry_options retryEntry)
                         (delete_retry issueId s2)))"

definition buildRetryFailureView ::
  "retry_env \<Rightarrow> issue \<Rightarrow> running_entry option \<Rightarrow> string \<Rightarrow> int \<Rightarrow> orch \<Rightarrow> issue_view" where
  "buildRetryFailureView env i runningEntry errorText attempt s =
     (let configuredSelection = resolveModelSelection (issueModelOverrides s) (rt_config env) (issue_identifier i);
          selection = coalesce (map_option en_modelSelection runningEntry) configuredSelection;
          workspaceKey = or_else (map_option (\<lambda>e. ws_key (en_workspace e)) runningEntry)
            (Option.bind (omap_get (detailViews s) (issue_identifier i)) v_workspaceKey)
      in issueView (iso_of_ms (rt_now env)) i (\<lambda>v.
           (projectModelViewFields configuredSelection selection v)
             \<lparr>v_modelChangePending := Val False,
              v_workspaceKey := workspaceKey,
              v_workspacePath := of_null (map_option (\<lambda>e. ws_path (en_workspace e)) runningEntry),
              v_status := ''failed'', v_attempt := Val attempt, v_error := Val errorText,
              v_message := Val (''retry startup failed: '' @ errorText),
              v_startedAt := of_null (map_option (\<lambda>e. iso_of_ms (en_startedAtMs e)) runningEntry),
              v_tokenUsage := of_null (Option.bind runningEntry en_tokenUsage)\<rparr>))"

definition buildFailureAttemptData ::
  "retry_env \<Rightarrow> running_entry option \<Rightarrow> issue \<Rightarrow> model_selection \<Rightarrow> string \<Rightarrow> int \<Rightarrow> string option \<Rightarrow> attempt_record" where
  "buildFailureAttemptData env runningEntry i selection errorText attempt workspaceKey =
     (let endedAt = iso_of_ms (rt_now env)
      in \<lparr>at_attemptId = coalesce (map_option en_runId runningEntry) (rt_uuid env),
          at_issueId = issue_id i, at_issueIdentifier = issue_identifier i, at_title = issue_title i,
          at_workspaceKey = workspaceKey,
          at_workspacePath = map_option (\<lambda>e. ws_path (en_workspace e)) runningEntry,
          at_status = AFailed, at_attemptNumber = Some attempt,
          at_startedAt = coalesce (map_option (\<lambda>e. iso_of_ms (en_startedAtMs e)) runningEntry) endedAt,
          at_endedAt = Some endedAt, at_model = sel_model selection,
          at_reasoningEffort = sel_effort selection, at_modelSource = sel_source selection,
          at_threadId = Option.bind runningEntry en_sessionId, at_turnId = None, at_turnCount = 0,
          at_errorCode = Some ''worker_failed'', at_errorMessage = Some errorText,
          at_tokenUsage = Option.bind runningEntry en_tokenUsage, at_pullRequestUrl = Undef,
          at_stopSignal = Undef, at_summary = Undef\<rparr>)"

definition persistRetryFailure ::
  "retry_env \<Rightarrow> running_entry option \<Rightarrow> issue \<Rightarrow> model_selection \<Rightarrow> string \<Rightarrow> int \<Rightarrow> string option \<Rightarrow> orch \<Rightarrow> orch" where
  "persistRetryFailure env runningEntry i selection errorText attempt workspaceKey s =
     (let create = (\<lambda>s. snd (retry_call env RpCreate
            [CreateAttempt (buildFailureAttemptData env runningEntry i selection errorText attempt workspaceKey)] s))
      in case runningEntry of
           None \<Rightarrow> create s
         | Some e \<Rightarrow>
             (case retry_call env RpUpdate
                [UpdateAttempt (en_runId e)
                   [(''status'', JStr ''failed''), (''endedAt'', JStr (iso_of_ms (rt_now env))),
                    (''errorCode'', JStr ''worker_failed''), (''errorMessage'', JStr errorText),
                    (''tokenUsage'', jopt js_usage (en_tokenUsage e)),
                    (''threadId'', jopt JStr (en_sessionId e))]] s of
                (None, s1) \<Rightarrow> s1
              | (Some _, s1) \<Rightarrow> create s1))"

definition handleRetryLaunchFailure :: "retry_env \<Rightarrow> issue \<Rightarrow> int \<Rightarrow> js_error \<Rightarrow> orch \<Rightarrow> orch" where
  "handleRetryLaunchFailure env i attempt err s =
     (let runningEntry = omap_get (runningEntries s) (issue_id i);
          s2 = cancelRetry (issue_id i) (delete_running (issue_id i) s);
          errorText = toErrorString err;
          message = ''retry startup failed: '' @ errorText;
          s3 = pushEvent (worker_failed_event (rt_now env) i (Option.bind runningEntry en_sessionId) message) s2;
          failureView = buildRetryFailureView env i runningEntry errorText attempt s3;
          s4 = setDetailViewInState (issue_identifier i) failureView s3;
          s5 = setCompletedViewInState (issue_identifier i) failureView s4;
          selection = coalesce (map_option en_modelSelection runningEntry)
            (resolveModelSelection (issueModelOverrides s5) (rt_config env) (issue_identifier i))
      in persistRetryFailure env runningEntry i selection errorText attempt (v_workspaceKey failureView) s5)"

text \<open>The callback \<open>queueRetry\<close> hands to \<open>setTimeout\<close>.\<close>

definition retryTimerFired :: "retry_env \<Rightarrow> retry_timer \<Rightarrow> orch \<Rightarrow> orch" where
  "retryTimerFired env tm s =
     (case revalidateAndLaunch env (issue_id (tm_issue tm)) (tm_attempt tm) (fire_timer tm s) of
        (None, s1) \<Rightarrow> s1
      | (Some e, s1) \<Rightarrow> handleRetryLaunchFailure env (tm_issue tm) (tm_attempt tm) e s1)"

section \<open>No issue is stranded\<close>

definition unstranded :: "string \<Rightarrow> orch \<Rightarrow> bool" where
  "unstranded k s \<longleftrightarrow> claim_inv s \<and>
     (k \<in> claimedIssueIds s \<longrightarrow> omap_has (runningEntries s) k \<or> omap_has (retryEntries s) k)"

definition queued :: "string \<Rightarrow> orch \<Rightarrow> bool" where
  "queued k s \<longleftrightarrow> claim_inv s \<and> o_running s \<and> omap_has (retryEntries s) k"

definition retry_rely :: "retry_env \<Rightarrow> string \<Rightarrow> bool" where
  "retry_rely env k \<longleftrightarrow> launch_rely (rt_launch env) k \<and>
     (\<forall>s. queued k s \<longrightarrow> queued k (rt_await env RpFetch s)) \<and>
     (\<forall>p s. unstranded k s \<longrightarrow> unstranded k (rt_await env p s))"

lemma unstranded_same: "same_claims s t \<Longrightarrow> unstranded k t = unstranded k s"
  using claim_inv_same [of s t] by (auto simp: unstranded_def same_claims_def)

lemma unstranded_ops [simp]:
  "unstranded k (pushEvent ev t) = unstranded k t"
  "unstranded k (setDetailViewInState v w t) = unstranded k t"
  "unstranded k (setCompletedViewInState v w t) = unstranded k t"
  "unstranded k (record_effect e t) = unstranded k t"
  "unstranded k (t\<lparr>trace := es\<rparr>) = unstranded k t"
  by (rule unstranded_same, simp)+

lemma unstranded_call:
  "retry_rely env k \<Longrightarrow> unstranded k s \<Longrightarrow> unstranded k (snd (retry_call env p es s))"
  by (simp add: retry_rely_def retry_call_def)

lemma unstranded_cancel: "claim_inv s \<Longrightarrow> unstranded k (cancelRetry k s)"
  by (simp add: unstranded_def claim_inv_cancelRetry cancelRetry_spec omap_has_get)

lemma has_worker_unstranded: "has_worker k s \<Longrightarrow> unstranded k s"
  by (simp add: has_worker_def unstranded_def)

lemma queued_no_worker: "queued k s \<Longrightarrow> \<not> omap_has (runningEntries s) k"
  by (auto simp: queued_def claim_inv_def claims_ok_def)

lemma set_omap_update: "p \<in> set (omap_update k f m) \<Longrightarrow> \<exists>v. (fst p, v) \<in> set m \<and> snd p = (if fst p = k then f v else v)"
  by (auto simp: omap_update_def)

lemma omap_has_update [simp]: "omap_has (omap_update k f m) k' = omap_has m k'"
  by (simp add: omap_has_get)

lemma queued_set_issue:
  assumes "queued k s" and "issue_id latest = k"
  shows "queued k (set_retry_issue k e latest s)"
proof -
  define t where "t = set_retry_issue k e latest s"
  have r: "retryEntries t = omap_update k (\<lambda>x. if re_timer x = re_timer e then x\<lparr>re_issue := latest\<rparr> else x) (retryEntries s)"
    and same: "runningEntries t = runningEntries s" "o_running t = o_running s" "timers t = timers s"
      "nextTimerId t = nextTimerId s" "claimedIssueIds t = claimedIssueIds s"
    by (simp_all add: t_def set_retry_issue_def)
  have inv: "keys_ok s" "claims_ok s" "timers_ok s" "o_running s" "omap_has (retryEntries s) k"
    using assms(1) by (simp_all add: queued_def claim_inv_def)
  have "keys_ok t"
    using inv(1) assms(2) by (auto simp: keys_ok_def r same dest!: set_omap_update)
  moreover have "claims_ok t" using inv(2,4) by (simp add: claims_ok_def r same)
  moreover have "timers_ok t"
    using inv(3) by (auto simp: timers_ok_def r same dest!: set_omap_update) fastforce+
  ultimately show ?thesis using inv(4,5) by (simp add: queued_def claim_inv_def t_def [symmetric] r same)
qed

lemma queued_delete_reserved: "queued k s \<Longrightarrow> reserved k (delete_retry k s)"
  using queued_no_worker [of k s] claim_inv_delete_retry [of s k]
  by (auto simp: queued_def reserved_def held_def owned_def delete_retry_def claim_inv_def [of s] claims_ok_def)

lemma unstranded_queue:
  assumes "queued k s" and "issue_id i = k"
  shows "unstranded k (queueRetry now i a d r t s)"
  using claim_inv_queueRetry [of s i] queueRetry_spec [of s now i a d r t] assms queued_no_worker [OF assms(1)]
  by (auto simp: unstranded_def queued_def)

lemma unstranded_failure:
  assumes "retry_rely env k" and "claim_inv s" and "issue_id i = k"
  shows "unstranded k (handleRetryLaunchFailure env i attempt err s)"
proof -
  have persist: "unstranded k t \<Longrightarrow> unstranded k (persistRetryFailure env re i sel tx attempt wk t)" for t re sel tx wk
    using unstranded_call [OF assms(1)]
    by (auto simp: persistRetryFailure_def Let_def split: option.splits prod.splits) (metis snd_conv)+
  have "claim_inv (delete_running (issue_id i) s)"
    using claim_inv_delete_running [OF assms(2), of "issue_id i"] by (simp add: delete_running_def)
  then have "unstranded k (cancelRetry (issue_id i) (delete_running (issue_id i) s))"
    using unstranded_cancel assms(3) by blast
  then show ?thesis by (simp add: handleRetryLaunchFailure_def Let_def persist)
qed

lemma revalidate_unstranded:
  assumes rely: "retry_rely env k" and "queued k s"
    and "\<And>latest. rt_latest env = Some latest \<Longrightarrow> issue_id latest = k"
  shows "case revalidateAndLaunch env k attempt s of
           (None, s1) \<Rightarrow> unstranded k s1 | (Some e, s1) \<Rightarrow> claim_inv s1"
proof -
  obtain entry where e: "omap_get (retryEntries s) k = Some entry" and run: "o_running s"
    using assms(2) by (auto simp: queued_def omap_has_get)
  obtain r s1 where f: "retry_call env RpFetch [] s = (r, s1)" by fastforce
  have q1: "queued k s1"
    using rely assms(2) f by (auto simp: retry_rely_def retry_call_def)
  have inv1: "claim_inv s1" using q1 by (simp add: queued_def)
  show ?thesis
  proof (cases r)
    case (Some x)
    then show ?thesis using inv1 by (simp add: revalidateAndLaunch_def e run f)
  next
    case None
    show ?thesis
    proof (cases "rt_latest env")
      case None
      with \<open>r = None\<close> show ?thesis
        using unstranded_cancel [OF inv1, of k] by (simp add: revalidateAndLaunch_def e run f)
    next
      case (Some latest)
      define s2 where "s2 = set_retry_issue k entry latest s1"
      have id: "issue_id latest = k" by (rule assms(3) [OF Some])
      have q2: "queued k s2" unfolding s2_def by (rule queued_set_issue [OF q1 id])
      have inv2: "claim_inv s2" using q2 by (simp add: queued_def)
      have c2: "unstranded k (cancelRetry k s2)" by (rule unstranded_cancel [OF inv2])
      have lr: "launch_rely (rt_launch env) (issue_id latest)" using rely id by (simp add: retry_rely_def)
      have res: "reserved k (delete_retry k s2)" by (rule queued_delete_reserved [OF q2])
      have "launch_ok k (launchWorker (rt_launch env) latest (Some attempt) (retry_options entry) (delete_retry k s2))"
        using launch_settles [OF lr] res by (simp add: id reserved_def)
      then have "case ctx_launchWorker (rt_launch env) latest (Some attempt) (retry_options entry) (delete_retry k s2) of
          (None, t) \<Rightarrow> unstranded k t | (Some e, t) \<Rightarrow> claim_inv t"
        by (auto simp: ctx_launchWorker_def launch_ok_def held_def has_worker_unstranded await_then_def
            split: prod.splits option.splits if_splits)
      then show ?thesis
        using \<open>r = None\<close> c2 unstranded_call [OF rely c2] unstranded_queue [OF q2 id]
        by (simp add: revalidateAndLaunch_def e run f Some Let_def flip: s2_def)
    qed
  qed
qed


text \<open>
  C5: when a retry timer fires, the issue ends up running, queued again, or free for dispatch:
  never claimed with nobody working on it. That holds whatever the tracker answers, whichever step
  of the launch fails, and whatever other tasks do meanwhile, as long as they leave the queued retry
  and the launch in progress alone and strand no issue themselves.
\<close>

theorem retryTimerFired_unstranded:
  assumes "retry_rely env (issue_id (tm_issue tm))" and "queued (issue_id (tm_issue tm)) s"
    and "\<And>latest. rt_latest env = Some latest \<Longrightarrow> issue_id latest = issue_id (tm_issue tm)"
  shows "unstranded (issue_id (tm_issue tm)) (retryTimerFired env tm s)"
proof -
  let ?k = "issue_id (tm_issue tm)"
  have "queued ?k (fire_timer tm s)"
    using assms(2) by (auto simp: queued_def claim_inv_fire) (simp_all add: fire_timer_def)
  note rv = revalidate_unstranded [OF assms(1) this assms(3), of "tm_attempt tm"]
  obtain r s1 where r: "revalidateAndLaunch env ?k (tm_attempt tm) (fire_timer tm s) = (r, s1)" by fastforce
  show ?thesis
    using rv r unstranded_failure [OF assms(1), of s1 "tm_issue tm"]
    by (cases r) (simp_all add: retryTimerFired_def)
qed

definition sample_retry_env :: "issue option \<Rightarrow> retry_env" where
  "sample_retry_env latest =
     \<lparr>rt_launch = sample_launch_env (example_issue ''A-1'' ''Todo'' None), rt_await = (\<lambda>_ s. s),
      rt_throws = (\<lambda>_. None), rt_latest = latest, rt_uuid = ''u2''\<rparr>"

definition sample_timer :: retry_timer where
  "sample_timer = \<lparr>tm_id = 0, tm_issue = example_issue ''A-1'' ''Todo'' None, tm_attempt = 2, tm_dueAtMs = 1000\<rparr>"

definition sample_retry :: retry_entry where
  "sample_retry =
     \<lparr>re_issueId = ''A-1'', re_identifier = ''A-1'', re_attempt = 2, re_dueAtMs = 1000, re_error = None,
      re_timer = Some 0, re_threadId = None, re_issue = example_issue ''A-1'' ''Todo'' None,
      re_workspaceKey = None\<rparr>"

definition queued_state :: orch where
  "queued_state = idle_state\<lparr>retryEntries := [(''A-1'', sample_retry)], claimedIssueIds := {''A-1''},
     timers := [sample_timer], nextTimerId := 1\<rparr>"

lemma queued_sample: "queued ''A-1'' queued_state"
  by (simp add: queued_def claim_inv_def keys_ok_def claims_ok_def timers_ok_def queued_state_def idle_state_def
      createLifecycleState_def sample_retry_def sample_timer_def example_issue_def omap_ok_def omap_has_def)

theorem retryTimerFired_unstranded_witness:
  "unstranded ''A-1'' (retryTimerFired (sample_retry_env (Some (example_issue ''A-1'' ''Todo'' None))) sample_timer queued_state)"
proof -
  have id: "issue_id (tm_issue sample_timer) = ''A-1''" by (simp add: sample_timer_def example_issue_def)
  have "retry_rely (sample_retry_env (Some (example_issue ''A-1'' ''Todo'' None))) ''A-1''"
    using sample_launch_rely by (simp add: retry_rely_def sample_retry_env_def)
  then show ?thesis
    using retryTimerFired_unstranded [of "sample_retry_env (Some (example_issue ''A-1'' ''Todo'' None))" sample_timer
        queued_state] queued_sample
    by (simp add: id) (simp add: sample_retry_env_def example_issue_def)
qed

end
