(* ===== verification/Reconcile.thy ===== *)
theory Reconcile
  imports RetryLaunch
begin

text \<open>
  The reconciliation half of a tick: \<open>src/src/orchestrator/lifecycle.ts\<close> (running and retrying
  issues against the tracker, the queue and detail views, terminal workspace cleanup) and
  \<open>stall-detector.ts\<close>. \<open>rc_same\<close> says whether the tracker returned the very object an entry holds.
\<close>

datatype reconcile_point = RcFetch | RcRemove

record reconcile_env =
  rc_now :: int
  rc_host :: host
  rc_config :: service_config
  rc_same :: "issue \<Rightarrow> issue \<Rightarrow> bool"
  rc_await :: "reconcile_point \<Rightarrow> orch \<Rightarrow> orch"
  rc_fetch :: "string list \<Rightarrow> js_error + issue list"

section \<open>Running entries\<close>

definition planned_entry :: "reconciliation_plan \<Rightarrow> issue \<Rightarrow> running_entry \<Rightarrow> running_entry" where
  "planned_entry plan latest entry =
     (let e1 = (if pl_issueChanged plan then entry\<lparr>en_issue := latest\<rparr> else entry);
          e2 = (if pl_cleanupOnExit plan then e1\<lparr>en_cleanupOnExit := True\<rparr> else e1);
          e3 = (case pl_abortReason plan of None \<Rightarrow> e2 | Some reason \<Rightarrow> abort_entry reason e2)
      in e3\<lparr>en_status := pl_nextStatus plan\<rparr>)"

definition plan_changes :: "reconciliation_plan \<Rightarrow> running_entry \<Rightarrow> bool" where
  "plan_changes plan entry \<longleftrightarrow>
     pl_issueChanged plan \<or> (pl_cleanupOnExit plan \<and> \<not> en_cleanupOnExit entry) \<or>
     en_status entry \<noteq> pl_nextStatus plan"

definition plan_effects :: "reconciliation_plan \<Rightarrow> running_entry \<Rightarrow> effect list" where
  "plan_effects plan entry =
     (case pl_abortReason plan of None \<Rightarrow> [] | Some reason \<Rightarrow> [AbortSignal (en_runId entry) reason])"

definition apply_plan :: "reconciliation_plan \<Rightarrow> orch \<times> bool \<Rightarrow> orch \<times> bool" where
  "apply_plan plan st =
     (let (s, changed) = st
      in case (omap_get (runningEntries s) (pl_issueId plan), pl_latestIssue plan) of
           (Some entry, Some latest) \<Rightarrow>
             (s\<lparr>runningEntries := omap_update (pl_issueId plan) (planned_entry plan latest) (runningEntries s),
                trace := trace s @ plan_effects plan entry\<rparr>,
              changed \<or> plan_changes plan entry)
         | _ \<Rightarrow> (s, changed))"

definition reconcileRunning ::
  "reconcile_env \<Rightarrow> (string, issue) omap \<Rightarrow> orch \<Rightarrow> orch \<times> bool" where
  "reconcileRunning env byId s =
     fold apply_plan (planRunningEntryReconciliation (rc_same env) (runningEntries s) byId (rc_config env))
       (s, False)"

section \<open>Retry entries\<close>

definition reconcile_retry ::
  "reconcile_env \<Rightarrow> (string, issue) omap \<Rightarrow> retry_entry \<Rightarrow> orch \<Rightarrow> orch" where
  "reconcile_retry env byId retryEntry s =
     (case omap_get byId (re_issueId retryEntry) of
        None \<Rightarrow> cancelRetry (re_issueId retryEntry) s
      | Some latest \<Rightarrow>
          (let s1 = set_retry_issue (re_issueId retryEntry) retryEntry latest s
           in if isTerminalState (issue_state latest) (rc_config env)
              then rc_await env RcRemove
                     (record_effect (RemoveWorkspace (issue_identifier latest))
                        (cancelRetry (re_issueId retryEntry) s1))
              else if \<not> isActiveState (issue_state latest) (rc_config env)
              then cancelRetry (re_issueId retryEntry) s1
              else s1))"

definition reconcileRetries :: "reconcile_env \<Rightarrow> (string, issue) omap \<Rightarrow> orch \<Rightarrow> orch" where
  "reconcileRetries env byId s = fold (reconcile_retry env byId) (omap_values (retryEntries s)) s"

definition issues_by_id :: "issue list \<Rightarrow> (string, issue) omap" where
  "issues_by_id issues = omap_of (map (\<lambda>i. (issue_id i, i)) issues)"

definition reconcileRunningAndRetrying :: "reconcile_env \<Rightarrow> orch \<Rightarrow> (js_error + bool) \<times> orch" where
  "reconcileRunningAndRetrying env s =
     (let trackedIds = remdups (omap_keys (runningEntries s) @ omap_keys (retryEntries s))
      in if trackedIds = [] then (Inr False, s)
         else
           (let s1 = rc_await env RcFetch s
            in case rc_fetch env trackedIds of
                 Inl e \<Rightarrow> (Inl e, s1)
               | Inr issues \<Rightarrow>
                   (case reconcileRunning env (issues_by_id issues) s1 of
                      (s2, runningChanged) \<Rightarrow>
                        (Inr runningChanged, reconcileRetries env (issues_by_id issues) s2))))"

section \<open>Queue views\<close>

definition VISIBLE_QUEUE_LIMIT :: nat where
  "VISIBLE_QUEUE_LIMIT = 50"

definition refreshDetailViews :: "(string, issue_view) omap \<Rightarrow> orch \<Rightarrow> orch" where
  "refreshDetailViews nextDetailViews s =
     (let hadEntries = (0 < length (detailViews s) \<or> 0 < length nextDetailViews);
          s1 = s\<lparr>detailViews := fold (\<lambda>(k, v) m. omap_set k v m) nextDetailViews []\<rparr>
      in if hadEntries then markDirty s1 else s1)"

definition refreshQueueViews :: "reconcile_env \<Rightarrow> issue list \<Rightarrow> orch \<Rightarrow> orch" where
  "refreshQueueViews env issues s =
     (case projectQueueAndDetailViews (rc_host env) (iso_of_ms (rc_now env)) issues
             (canDispatchIssueInState (rc_config env))
             (resolveModelSelection (issueModelOverrides s) (rc_config env))
             (v_issueId ` set (queuedViews s)) VISIBLE_QUEUE_LIMIT s of
        (projection, s1) \<Rightarrow>
          refreshDetailViews (qp_detailViews projection)
            (setQueuedViewsInState (qp_queuedViews projection)
               (fold pushEvent (qp_queuedEvents projection) s1)))"

definition cleanupTerminalIssueWorkspaces :: "js_error + issue list \<Rightarrow> orch \<Rightarrow> orch" where
  "cleanupTerminalIssueWorkspaces fetched s =
     (case fetched of
        Inl _ \<Rightarrow> s
      | Inr issues \<Rightarrow> s\<lparr>trace := trace s @ map (\<lambda>i. RemoveWorkspace (issue_identifier i)) issues\<rparr>)"

section \<open>stall-detector.ts\<close>

definition MAX_STALL_EVENTS :: nat where
  "MAX_STALL_EVENTS = 100"

definition stalled :: "int \<Rightarrow> int \<Rightarrow> running_entry \<Rightarrow> bool" where
  "stalled now timeout entry \<longleftrightarrow> \<not> is_aborted entry \<and> now - en_lastEventAtMs entry > timeout"

definition kill_entry :: "running_entry \<Rightarrow> running_entry" where
  "kill_entry entry = (abort_entry ''stalled'' entry)\<lparr>en_status := SStopping\<rparr>"

definition stall_event_of :: "int \<Rightarrow> int \<Rightarrow> running_entry \<Rightarrow> stall_event" where
  "stall_event_of now timeout entry =
     \<lparr>st_at = iso_of_ms now, st_issueId = issue_id (en_issue entry),
      st_issueIdentifier = issue_identifier (en_issue entry),
      st_silentMs = now - en_lastEventAtMs entry, st_timeoutMs = timeout\<rparr>"

text \<open>The dash in the message is one code unit outside Latin-1; it is written as a hyphen here.\<close>

definition stall_runtime_event :: "int \<Rightarrow> running_entry \<Rightarrow> runtime_event" where
  "stall_runtime_event now entry =
     \<lparr>ev_at = iso_of_ms now, ev_issueId = Some (issue_id (en_issue entry)),
      ev_issueIdentifier = Some (issue_identifier (en_issue entry)),
      ev_sessionId = en_sessionId entry, ev_event = ''worker_stalled'',
      ev_message = ''agent silent for '' @ show_int ((now - en_lastEventAtMs entry + 500) div 1000) @
        ''s - killed by stall detector'',
      ev_content = None, ev_metadata = None, ev_usage = None, ev_usageMode = None,
      ev_rateLimits = Undef, ev_stopSignal = None\<rparr>"

text \<open>The detector's \<open>pushEvent\<close> does not mark the state dirty; the tick does when it killed.\<close>

definition push_stall_event :: "runtime_event \<Rightarrow> orch \<Rightarrow> orch" where
  "push_stall_event e s = forwardToEventBus e (pushRecentEventInState e MAX_RECENT_EVENTS s)"

definition detect_entry :: "int \<Rightarrow> int \<Rightarrow> string \<times> running_entry \<Rightarrow> orch \<times> stall_event list \<Rightarrow> orch \<times> stall_event list" where
  "detect_entry now timeout p st =
     (let (k, entry) = p; (s, newEvents) = st
      in if \<not> stalled now timeout entry then (s, newEvents)
         else
           (push_stall_event (stall_runtime_event now entry)
              (record_effect (AbortSignal (en_runId entry) ''stalled'')
                 (s\<lparr>runningEntries := omap_update k kill_entry (runningEntries s)\<rparr>)),
            newEvents @ [stall_event_of now timeout entry]))"

definition detectAndKillStalledWorkers :: "int \<Rightarrow> service_config \<Rightarrow> orch \<Rightarrow> nat \<times> orch" where
  "detectAndKillStalledWorkers now config s =
     (if codex_stallTimeoutMs config \<le> 0 then (0, s)
      else (case fold (detect_entry now (codex_stallTimeoutMs config)) (runningEntries s) (s, []) of
         (s1, newEvents) \<Rightarrow>
           if newEvents = [] then (0, s1)
           else (length newEvents,
                 s1\<lparr>stallEvents := take_last MAX_STALL_EVENTS (stallEvents s1 @ newEvents)\<rparr>)))"

end
