(* ===== verification/ReconcileClaims.thy ===== *)
theory ReconcileClaims
  imports Reconcile
begin

text \<open>What reconciliation and stall detection do to the running and retry entries.\<close>

section \<open>Updating the values of a map in place, one key after the other\<close>

lemma fold_update_map:
  assumes "distinct (map fst xs)" and "set xs \<subseteq> set m" and "omap_ok m"
  shows "fold (\<lambda>p. omap_update (fst p) (g (snd p))) xs m =
     map (\<lambda>p. (fst p, if p \<in> set xs then g (snd p) (snd p) else snd p)) m"
  using assms
proof (induction xs rule: rev_induct)
  case Nil
  then show ?case by simp
next
  case (snoc p xs)
  have "omap_update (fst p) (g (snd p)) (map (\<lambda>q. (fst q, if q \<in> set xs then g (snd q) (snd q) else snd q)) m) =
      map (\<lambda>q. (fst q, if q \<in> set (xs @ [p]) then g (snd q) (snd q) else snd q)) m"
    unfolding omap_update_def map_map comp_def
  proof (rule map_cong [OF refl])
    fix q
    assume q: "q \<in> set m"
    have "fst q = fst p \<Longrightarrow> q = p"
      using q snoc.prems by (metis omap_get_in option.inject prod.collapse subsetD list.set_intros(1) set_append UnCI)
    moreover have "p \<notin> set xs" using snoc.prems(1) by (force simp: distinct_append)
    ultimately show "(case (fst q, if q \<in> set xs then g (snd q) (snd q) else snd q) of
        (k', v) \<Rightarrow> (k', if k' = fst p then g (snd p) v else v)) =
        (fst q, if q \<in> set (xs @ [p]) then g (snd q) (snd q) else snd q)"
      by auto
  qed
  then show ?case using snoc by simp
qed

lemma fold_update_all:
  assumes "omap_ok m"
  shows "fold (\<lambda>p. omap_update (fst p) (g (snd p))) m m = omap_map (\<lambda>_ v. g v v) m"
  using fold_update_map [of m m g] assms
  by (auto simp: omap_ok_def omap_map_def)

section \<open>Running entries\<close>

text \<open>What reconciliation makes of one running entry.\<close>

definition reconciled ::
  "(issue \<Rightarrow> issue \<Rightarrow> bool) \<Rightarrow> (string, issue) omap \<Rightarrow> service_config \<Rightarrow> running_entry \<Rightarrow> running_entry" where
  "reconciled same byId config entry =
     (case omap_get byId (issue_id (en_issue entry)) of
        None \<Rightarrow> entry
      | Some latest \<Rightarrow>
          (let e = (if same (en_issue entry) latest then entry else entry\<lparr>en_issue := latest\<rparr>)
           in if isTerminalState (issue_state latest) config
              then (abort_entry ''terminal'' e)\<lparr>en_cleanupOnExit := True, en_status := SStopping\<rparr>
              else if \<not> isActiveState (issue_state latest) config
              then (abort_entry ''inactive'' e)\<lparr>en_status := SStopping\<rparr>
              else e))"

definition plan_update ::
  "(issue \<Rightarrow> issue \<Rightarrow> bool) \<Rightarrow> (string, issue) omap \<Rightarrow> service_config \<Rightarrow> running_entry \<Rightarrow> running_entry \<Rightarrow> running_entry" where
  "plan_update same byId config e =
     (case omap_get byId (issue_id (en_issue e)) of
        None \<Rightarrow> (\<lambda>x. x)
      | Some latest \<Rightarrow> planned_entry (plan_entry same byId config e) latest)"

lemma plan_update_self: "plan_update same byId config e e = reconciled same byId config e"
  by (cases e) (auto simp: plan_update_def reconciled_def planned_entry_def plan_entry_def Let_def abort_entry_def
      is_aborted_def split: option.splits)

lemma omap_update_absent: "omap_get m k = None \<Longrightarrow> omap_update k f m = m"
  by (induction m) (auto simp: omap_update_def omap_get_def split: if_splits)

lemma omap_update_id: "omap_update k (\<lambda>x. x) m = m"
  by (induction m) (auto simp: omap_update_def)

lemma plan_ids:
  "pl_issueId (plan_entry same byId config e) = issue_id (en_issue e)"
  "pl_latestIssue (plan_entry same byId config e) = omap_get byId (issue_id (en_issue e))"
  by (auto simp: plan_entry_def Let_def split: option.splits)

lemma apply_plan_running:
  "runningEntries (fst (apply_plan (plan_entry same byId config e) st)) =
     omap_update (issue_id (en_issue e)) (plan_update same byId config e) (runningEntries (fst st))"
  by (cases st) (auto simp: apply_plan_def plan_ids plan_update_def omap_update_id omap_update_absent split: option.splits)

lemma fold_plans_running:
  "runningEntries (fst (fold apply_plan (map (plan_entry same byId config) es) st)) =
     fold (\<lambda>e. omap_update (issue_id (en_issue e)) (plan_update same byId config e)) es (runningEntries (fst st))"
  by (induction es arbitrary: st) (auto simp: apply_plan_running)

lemma fold_values_keys:
  "\<forall>p \<in> set m. f (snd p) = fst p \<Longrightarrow>
     fold (\<lambda>e. omap_update (f e) (g e)) (omap_values m) x = fold (\<lambda>p. omap_update (fst p) (g (snd p))) m x"
  by (induction m arbitrary: x) (auto simp: omap_values_def)

definition same_but_running :: "orch \<Rightarrow> orch \<Rightarrow> bool" where
  "same_but_running s t \<longleftrightarrow>
     o_running t = o_running s \<and> retryEntries t = retryEntries s \<and> claimedIssueIds t = claimedIssueIds s \<and>
     timers t = timers s \<and> nextTimerId t = nextTimerId s \<and> stallEvents t = stallEvents s"

lemma same_but_running_trans: "same_but_running s t \<Longrightarrow> same_but_running t u \<Longrightarrow> same_but_running s u"
  by (simp add: same_but_running_def)

lemma apply_plan_same: "same_but_running (fst st) (fst (apply_plan plan st))"
  by (cases st) (auto simp: apply_plan_def same_but_running_def split: option.splits)

lemma fold_plans_same: "same_but_running (fst st) (fst (fold apply_plan plans st))"
proof (induction plans arbitrary: st)
  case Nil
  then show ?case by (simp add: same_but_running_def)
next
  case (Cons p plans)
  show ?case
    using same_but_running_trans [OF apply_plan_same [of st p] Cons.IH [of "apply_plan p st"]] by simp
qed

text \<open>
  Reconciling against the tracker turns every running entry into what its latest issue calls
  for: a terminal issue stops its worker with reason terminal and marks the workspace for cleanup,
  an inactive one stops it with reason inactive, an active one only takes over the new issue data,
  and an issue the tracker did not return is left alone; an earlier abort reason is never replaced,
  and no claim, retry or timer is touched.
\<close>

theorem reconcileRunning_spec:
  assumes "keys_ok s"
  shows "runningEntries (fst (reconcileRunning env byId s)) =
           omap_map (\<lambda>_. reconciled (rc_same env) byId (rc_config env)) (runningEntries s) \<and>
         same_but_running s (fst (reconcileRunning env byId s))"
proof
  let ?g = "plan_update (rc_same env) byId (rc_config env)"
  have ok: "omap_ok (runningEntries s)" "\<forall>p \<in> set (runningEntries s). issue_id (en_issue (snd p)) = fst p"
    using assms by (simp_all add: keys_ok_def)
  have "runningEntries (fst (reconcileRunning env byId s)) =
      fold (\<lambda>e. omap_update (issue_id (en_issue e)) (?g e)) (omap_values (runningEntries s)) (runningEntries s)"
    by (simp add: reconcileRunning_def planRunningEntryReconciliation_def fold_plans_running)
  also have "\<dots> = fold (\<lambda>p. omap_update (fst p) (?g (snd p))) (runningEntries s) (runningEntries s)"
    by (rule fold_values_keys [OF ok(2)])
  also have "\<dots> = omap_map (\<lambda>_ v. ?g v v) (runningEntries s)" by (rule fold_update_all [OF ok(1)])
  finally show "runningEntries (fst (reconcileRunning env byId s)) =
      omap_map (\<lambda>_. reconciled (rc_same env) byId (rc_config env)) (runningEntries s)"
    by (simp add: plan_update_self)
  show "same_but_running s (fst (reconcileRunning env byId s))"
    using fold_plans_same [of "(s, False)"] by (simp add: reconcileRunning_def)
qed

definition sample_reconcile_env :: "issue list \<Rightarrow> reconcile_env" where
  "sample_reconcile_env issues =
     \<lparr>rc_now = 100000, rc_host = example_host, rc_config = sample_config, rc_same = (\<lambda>_ _. False),
      rc_await = (\<lambda>_ s. s), rc_fetch = (\<lambda>_. Inr issues)\<rparr>"

theorem reconcileRunning_spec_witness:
  "map_option en_cleanupOnExit (omap_get (runningEntries (fst (reconcileRunning (sample_reconcile_env [])
      (issues_by_id [example_issue ''A-1'' ''Done'' None]) sample_running))) ''A-1'') = Some True"
proof -
  have "keys_ok sample_running" using sample_running_inv by (simp add: claim_inv_def)
  note spec = reconcileRunning_spec [OF this, of "sample_reconcile_env []" "issues_by_id [example_issue ''A-1'' ''Done'' None]"]
  have r: "runningEntries sample_running = [(''A-1'', sample_entry ''A-1'' ''s1'')]" by (simp add: sample_running_def)
  have "en_cleanupOnExit (reconciled (\<lambda>_ _. False) (issues_by_id [example_issue ''A-1'' ''Done'' None]) sample_config
      (sample_entry ''A-1'' ''s1''))"
    by code_simp
  then show ?thesis using spec by (simp add: r sample_reconcile_env_def omap_map_def omap_get_def)
qed

section \<open>Stall detection\<close>

lemma detect_running:
  "runningEntries (fst (detect_entry now t p st)) =
     (if stalled now t (snd p) then omap_update (fst p) kill_entry (runningEntries (fst st)) else runningEntries (fst st))"
  by (cases p; cases st)
    (auto simp: detect_entry_def push_stall_event_def forwardToEventBus_def pushRecentEventInState_def record_effect_def)

lemma detect_same: "same_but_running (fst st) (fst (detect_entry now t p st))"
  by (cases p; cases st)
    (auto simp: detect_entry_def same_but_running_def push_stall_event_def forwardToEventBus_def
      pushRecentEventInState_def record_effect_def)

lemma detect_events:
  "snd (detect_entry now t p st) = snd st @ (if stalled now t (snd p) then [stall_event_of now t (snd p)] else [])"
  by (cases p; cases st) (auto simp: detect_entry_def)

lemma fold_detect:
  "runningEntries (fst (fold (detect_entry now t) xs st)) =
     fold (\<lambda>p. omap_update (fst p) (if stalled now t (snd p) then kill_entry else (\<lambda>x. x))) xs (runningEntries (fst st)) \<and>
   snd (fold (detect_entry now t) xs st) =
     snd st @ map (stall_event_of now t) (filter (stalled now t) (map snd xs)) \<and>
   same_but_running (fst st) (fst (fold (detect_entry now t) xs st))"
proof (induction xs arbitrary: st)
  case Nil
  then show ?case by (simp add: same_but_running_def)
next
  case (Cons p xs)
  have "same_but_running (fst st) (fst (fold (detect_entry now t) xs (detect_entry now t p st)))"
    using Cons.IH detect_same same_but_running_trans by blast
  then show ?case using Cons.IH by (simp add: detect_running detect_events omap_update_id)
qed

interpretation stall_log: bounded_log MAX_STALL_EVENTS "\<lambda>xs ys. take_last MAX_STALL_EVENTS (xs @ ys)"
  by unfold_locales simp

definition silenced :: "int \<Rightarrow> int \<Rightarrow> running_entry \<Rightarrow> running_entry" where
  "silenced now timeout entry = (if stalled now timeout entry then kill_entry entry else entry)"

lemma not_stalled_silenced: "\<not> stalled now t (silenced now t e)"
  by (simp add: silenced_def) (simp add: stalled_def is_aborted_def kill_entry_def abort_entry_def split: option.split)

text \<open>
  The detector stops exactly the workers that have been silent for longer than the timeout and
  are not aborted yet, counts and logs each of them once, keeps the log at 100 entries, and touches
  no claim, retry or timer; run again at the same moment it finds nothing. A timeout of zero or less
  turns it off.
\<close>

theorem detectAndKill_spec:
  assumes "omap_ok (runningEntries s)" and "0 < codex_stallTimeoutMs config"
    and "length (stallEvents s) \<le> 100"
  shows "case detectAndKillStalledWorkers now config s of (killed, s') \<Rightarrow>
     runningEntries s' = omap_map (\<lambda>_. silenced now (codex_stallTimeoutMs config)) (runningEntries s) \<and>
     killed = length (filter (stalled now (codex_stallTimeoutMs config)) (omap_values (runningEntries s))) \<and>
     stallEvents s' = take_last 100 (stallEvents s @
        map (stall_event_of now (codex_stallTimeoutMs config))
          (filter (stalled now (codex_stallTimeoutMs config)) (omap_values (runningEntries s)))) \<and>
     claimedIssueIds s' = claimedIssueIds s \<and> retryEntries s' = retryEntries s \<and> timers s' = timers s \<and>
     fst (detectAndKillStalledWorkers now config s') = 0"
proof -
  let ?t = "codex_stallTimeoutMs config"
  obtain s1 new where f: "fold (detect_entry now ?t) (runningEntries s) (s, []) = (s1, new)" by fastforce
  have new: "new = map (stall_event_of now ?t) (filter (stalled now ?t) (omap_values (runningEntries s)))"
    and same: "same_but_running s s1"
    using fold_detect [of now ?t "runningEntries s" "(s, [])"] by (simp_all add: f omap_values_def)
  have r1: "runningEntries s1 = omap_map (\<lambda>_. silenced now ?t) (runningEntries s)"
    using fold_detect [of now ?t "runningEntries s" "(s, [])"]
      fold_update_all [OF assms(1), of "\<lambda>v. if stalled now ?t v then kill_entry else (\<lambda>x. x)"]
    by (auto simp: f silenced_def [abs_def] omap_map_def)
  define s' where "s' = snd (detectAndKillStalledWorkers now config s)"
  have d: "detectAndKillStalledWorkers now config s = (length new, s')"
    using assms(2) f by (simp add: s'_def detectAndKillStalledWorkers_def split: prod.splits)
  have s': "runningEntries s' = runningEntries s1" "same_but_running s1 (s'\<lparr>stallEvents := stallEvents s1\<rparr>)"
    "stallEvents s' = take_last 100 (stallEvents s @ new)"
    using assms(2,3) f same
    by (auto simp: s'_def detectAndKillStalledWorkers_def same_but_running_def MAX_STALL_EVENTS_def split: prod.splits)
  have none: "filter (stalled now ?t) (map snd (runningEntries s')) = []"
    by (auto simp: filter_empty_conv s'(1) r1 omap_map_def not_stalled_silenced)
  have "fst (detectAndKillStalledWorkers now config s') = 0"
    using fold_detect [of now ?t "runningEntries s'" "(s', [])"] none
    by (auto simp: detectAndKillStalledWorkers_def split: prod.splits)
  then show ?thesis
    using d s' r1 new same by (simp add: same_but_running_def)
qed

theorem detectAndKill_spec_witness:
  "fst (detectAndKillStalledWorkers 100000 sample_config sample_running) = 1"
proof -
  have "omap_ok (runningEntries sample_running)" "0 < codex_stallTimeoutMs sample_config"
    "length (stallEvents sample_running) \<le> 100"
    by (simp_all add: sample_running_def omap_ok_def sample_config_def createLifecycleState_def)
  from detectAndKill_spec [OF this, of 100000] show ?thesis
    by (simp add: split: prod.splits)
      (simp add: sample_running_def omap_values_def stalled_def is_aborted_def sample_entry_def sample_config_def)
qed


section \<open>Retry entries\<close>

definition keeps_retry :: "(string, issue) omap \<Rightarrow> service_config \<Rightarrow> string \<Rightarrow> bool" where
  "keeps_retry byId config k \<longleftrightarrow>
     (case omap_get byId k of
        None \<Rightarrow> False
      | Some latest \<Rightarrow> \<not> isTerminalState (issue_state latest) config \<and> isActiveState (issue_state latest) config)"

lemma set_retry_issue_fields [simp]:
  "runningEntries (set_retry_issue k e i s) = runningEntries s"
  "claimedIssueIds (set_retry_issue k e i s) = claimedIssueIds s"
  "o_running (set_retry_issue k e i s) = o_running s"
  "omap_has (retryEntries (set_retry_issue k e i s)) k' = omap_has (retryEntries s) k'"
  by (simp_all add: set_retry_issue_def)

lemma omap_has_cancel [simp]: "omap_has (retryEntries (cancelRetry k s)) k' \<longleftrightarrow> k' \<noteq> k \<and> omap_has (retryEntries s) k'"
  by (simp add: omap_has_get cancelRetry_spec)

lemma reconcile_retry_step:
  assumes "\<And>t. rc_await env RcRemove t = t" and "\<not> omap_has (runningEntries s) (re_issueId e)"
  shows "omap_has (retryEntries (reconcile_retry env byId e s)) k \<longleftrightarrow>
           omap_has (retryEntries s) k \<and> (k = re_issueId e \<longrightarrow> keeps_retry byId (rc_config env) k)"
    and "k \<in> claimedIssueIds (reconcile_retry env byId e s) \<longleftrightarrow>
           k \<in> claimedIssueIds s \<and> (k = re_issueId e \<longrightarrow> keeps_retry byId (rc_config env) k)"
    and "runningEntries (reconcile_retry env byId e s) = runningEntries s"
    and "o_running (reconcile_retry env byId e s) = o_running s"
  using assms
  by (auto simp: reconcile_retry_def keeps_retry_def Let_def cancelRetry_spec record_effect_def split: option.splits)

lemma fold_reconcile_retries:
  assumes "\<And>t. rc_await env RcRemove t = t" and "\<forall>e \<in> set es. \<not> omap_has (runningEntries s) (re_issueId e)"
  shows "(omap_has (retryEntries (fold (reconcile_retry env byId) es s)) k \<longleftrightarrow>
           omap_has (retryEntries s) k \<and> (k \<in> re_issueId ` set es \<longrightarrow> keeps_retry byId (rc_config env) k)) \<and>
         (k \<in> claimedIssueIds (fold (reconcile_retry env byId) es s) \<longleftrightarrow>
           k \<in> claimedIssueIds s \<and> (k \<in> re_issueId ` set es \<longrightarrow> keeps_retry byId (rc_config env) k)) \<and>
         runningEntries (fold (reconcile_retry env byId) es s) = runningEntries s"
  using assms(2)
proof (induction es arbitrary: s)
  case (Cons e es)
  note step = reconcile_retry_step [OF assms(1), of s e]
  have "\<forall>e' \<in> set es. \<not> omap_has (runningEntries (reconcile_retry env byId e s)) (re_issueId e')"
    using Cons.prems step(3) by simp
  from Cons.IH [OF this] show ?case
    using Cons.prems step by auto
qed simp

text \<open>
  Reconciliation keeps the retry of an issue exactly when the tracker still returns the issue in
  an active, non-terminal state; every other retry is dropped and its claim released, and issues
  that were not queued for retry keep theirs.
\<close>

theorem reconcileRetries_spec:
  assumes "claim_inv s" and "\<And>t. rc_await env RcRemove t = t"
  shows "(omap_has (retryEntries (reconcileRetries env byId s)) k =
            (omap_has (retryEntries s) k \<and> keeps_retry byId (rc_config env) k)) \<and>
         ((k \<in> claimedIssueIds (reconcileRetries env byId s)) =
            (k \<in> claimedIssueIds s \<and> (if omap_has (retryEntries s) k then keeps_retry byId (rc_config env) k else True)))"
proof -
  have keys: "\<forall>p \<in> set (retryEntries s). re_issueId (snd p) = fst p" and ok: "omap_ok (retryEntries s)"
    using assms(1) by (auto simp: claim_inv_def keys_ok_def)
  have ids: "re_issueId ` set (omap_values (retryEntries s)) = {k. omap_has (retryEntries s) k}"
    using keys by (force simp: omap_values_def omap_has_def)
  have "\<forall>e \<in> set (omap_values (retryEntries s)). \<not> omap_has (runningEntries s) (re_issueId e)"
    using ids assms(1) by (auto simp: claim_inv_def claims_ok_def)
  from fold_reconcile_retries [of env "omap_values (retryEntries s)" s byId k, OF assms(2) this] show ?thesis
    unfolding reconcileRetries_def ids by auto
qed

theorem reconcileRetries_spec_witness:
  "\<not> omap_has (retryEntries (reconcileRetries (sample_reconcile_env []) [] queued_state)) ''A-1''"
proof -
  have "claim_inv queued_state" using queued_sample by (simp add: queued_def)
  moreover have "rc_await (sample_reconcile_env []) RcRemove t = t" for t by (simp add: sample_reconcile_env_def)
  ultimately show ?thesis
    using reconcileRetries_spec [of queued_state "sample_reconcile_env []" "[]" "''A-1''"]
    by (simp add: keeps_retry_def)
qed

section \<open>Queue views\<close>

lemma filter_state_subset:
  assumes "filter_state p xs s = (ys, s')"
    and "\<And>x t ok t'. p x t = (ok, t') \<Longrightarrow> Q t \<Longrightarrow> Q t' \<and> (ok \<longrightarrow> R x)" and "Q s"
  shows "Q s' \<and> set ys \<subseteq> set xs \<and> (\<forall>y \<in> set ys. R y)"
  using assms(1,3)
proof (induction xs arbitrary: s ys s')
  case (Cons x xs)
  obtain ok t where p: "p x s = (ok, t)" by fastforce
  obtain zs u where f: "filter_state p xs t = (zs, u)" by fastforce
  have "Q t \<and> (ok \<longrightarrow> R x)" using assms(2) [OF p] Cons.prems by simp
  with Cons.IH [OF f] Cons.prems p f show ?case by (auto split: if_splits)
qed simp

lemma canDispatch_unclaimed:
  assumes "canDispatchIssueInState config i s = (ok, t)" and "claimedIssueIds s = C"
  shows "claimedIssueIds t = C \<and> (ok \<longrightarrow> issue_id i \<notin> C)"
  using assms
  by (auto simp: canDispatchIssueInState_def canDispatchIssue_def Let_def split: option.splits if_splits prod.splits)

lemma pushEvents_same: "same_claims s (fold pushEvent es s)"
proof (induction es arbitrary: s)
  case (Cons e es)
  have "same_claims s (pushEvent e s)" by simp
  then show ?case using Cons.IH same_claims_trans by (metis fold_simps(2))
qed simp

lemma refreshDetail_fields [simp]:
  "queuedViews (refreshDetailViews m s) = queuedViews s"
  "claimedIssueIds (refreshDetailViews m s) = claimedIssueIds s"
  by (simp_all add: refreshDetailViews_def Let_def markDirty_def)

text \<open>
  After a refresh the visible queue has at most 50 entries, all with status queued, each for a
  candidate the tracker returned that nobody has claimed; claims do not change.
\<close>

theorem refreshQueueViews_spec:
  "length (queuedViews (refreshQueueViews env issues s)) \<le> 50 \<and>
   v_status ` set (queuedViews (refreshQueueViews env issues s)) \<subseteq> {''queued''} \<and>
   v_issueId ` set (queuedViews (refreshQueueViews env issues s)) \<subseteq> issue_id ` set issues - claimedIssueIds s \<and>
   claimedIssueIds (refreshQueueViews env issues s) = claimedIssueIds s"
proof -
  obtain ds s1 where f: "filter_state (canDispatchIssueInState (rc_config env)) (sortIssuesForDispatch (rc_host env) issues) s = (ds, s1)"
    by fastforce
  have q: "claimedIssueIds s1 = claimedIssueIds s \<and> set ds \<subseteq> set (sortIssuesForDispatch (rc_host env) issues) \<and>
      (\<forall>y \<in> set ds. issue_id y \<notin> claimedIssueIds s)"
    by (rule filter_state_subset [OF f, where Q = "\<lambda>t. claimedIssueIds t = claimedIssueIds s"
          and R = "\<lambda>i. issue_id i \<notin> claimedIssueIds s"]) (use canDispatch_unclaimed in blast, simp)
  define qs where "qs = map (\<lambda>i. issueView (iso_of_ms (rc_now env)) i
     (\<lambda>v. (configured_view (resolveModelSelection (issueModelOverrides s) (rc_config env) (issue_identifier i)) v)
            \<lparr>v_status := ''queued''\<rparr>)) (take VISIBLE_QUEUE_LIMIT ds)"
  obtain es m where r: "refreshQueueViews env issues s = refreshDetailViews m (setQueuedViewsInState qs (fold pushEvent es s1))"
    by (simp add: refreshQueueViews_def projectQueueAndDetailViews_def f Let_def qs_def)
  have "claimedIssueIds (fold pushEvent es s1) = claimedIssueIds s1"
    using pushEvents_same [of s1 es] by (simp add: same_claims_def)
  then have c: "claimedIssueIds (refreshQueueViews env issues s) = claimedIssueIds s"
    using q by (simp add: r setQueuedViewsInState_def markDirty_def)
  have v: "queuedViews (refreshQueueViews env issues s) = qs" by (simp add: r setQueuedViewsInState_def markDirty_def)
  have "v_issueId ` set qs = issue_id ` set (take VISIBLE_QUEUE_LIMIT ds)" "v_status ` set qs \<subseteq> {''queued''}"
    by (auto simp: qs_def image_image issueView_def configured_view_def projectModelViewFields_def)
  moreover have "set (take VISIBLE_QUEUE_LIMIT ds) \<subseteq> set ds" by (rule set_take_subset)
  ultimately show ?thesis
    using q c by (auto simp: v sortIssuesForDispatch_def) (simp add: qs_def VISIBLE_QUEUE_LIMIT_def)
qed

end
