(* ===== verification/Recovery.thy ===== *)
theory Recovery
  imports LauncherClaims
begin

text \<open>
  Startup recovery, \<open>src/src/orchestrator/recovery.ts\<close> and \<open>recovery-types.ts\<close>: the attempts the
  store still has as running are resumed, cleaned up or escalated, one after the other. The tracker,
  the container runtime, the file system, the workspace manager and the attempt store are the
  environment: \<open>rx_throws\<close> says which call rejects for which attempt, \<open>rx_await\<close> what the other
  tasks do while it is pending.
\<close>

section \<open>Types\<close>

datatype recovery_action = Resume | Cleanup | Escalate | Skip

record container =
  ctn_name :: string
  ctn_running :: bool

record cleanup_result =
  cr_preserved :: bool
  cr_autoCommitSha :: "string option"
  cr_autoCommitError :: "string option"

record recovery_assessment =
  ra_attemptId :: string
  ra_issueId :: string
  ra_issueIdentifier :: string
  ra_persistedStatus :: attempt_status
  ra_attemptNumber :: "int option"
  ra_threadId :: "string option"
  ra_workspacePath :: "string option"
  ra_workspaceExists :: bool
  ra_workerAlive :: bool
  ra_containerNames :: "string list"
  ra_action :: recovery_action
  ra_reason :: string

record recovery_result = recovery_assessment +
  rs_success :: bool
  rs_autoCommitSha :: "string option"
  rs_workspacePreserved :: bool
  rs_error :: "string option"

record recovery_error =
  rer_attemptId :: string
  rer_issueIdentifier :: string
  rer_error :: string

record recovery_report =
  rp_generatedAt :: string
  rp_dryRun :: bool
  rp_totalScanned :: nat
  rp_resumed :: "string list"
  rp_cleanedUp :: "string list"
  rp_escalated :: "string list"
  rp_skipped :: "string list"
  rp_errors :: "recovery_error list"
  rp_results :: "recovery_result list"
  rp_durationMs :: int

datatype recovery_point = RxFetch | RxProbe | RxContainer string | RxRemove | RxUpdate | RxEvent | RxCheckpoint

record recovery_env =
  rx_now :: int
  rx_finishedMs :: int
  rx_config :: service_config
  rx_fetch :: "string list \<Rightarrow> js_error + issue list"
  rx_containers :: "string \<Rightarrow> js_error + container list"
  rx_isDirectory :: "string \<Rightarrow> bool"
  rx_removal :: "string \<Rightarrow> cleanup_result option"
  rx_launch :: "attempt_record \<Rightarrow> launch_env"
  rx_throws :: "recovery_point \<Rightarrow> string \<Rightarrow> js_error option"
  rx_await :: "recovery_point \<Rightarrow> string \<Rightarrow> orch \<Rightarrow> orch"

definition rx_call :: "recovery_env \<Rightarrow> recovery_point \<Rightarrow> string \<Rightarrow> effect list \<Rightarrow> orch \<Rightarrow> outcome" where
  "rx_call env p attemptId effects s =
     (rx_throws env p attemptId, rx_await env p attemptId (s\<lparr>trace := trace s @ effects\<rparr>))"

section \<open>Assessment\<close>

definition latestRunningAttempts :: "attempt_record list \<Rightarrow> attempt_record list" where
  "latestRunningAttempts attempts =
     omap_values (latest_by at_issueId (filter (\<lambda>a. at_status a = ARunning) attempts))"

definition recoveryModelSelection :: "attempt_record \<Rightarrow> model_selection" where
  "recoveryModelSelection a =
     \<lparr>sel_model = at_model a, sel_effort = at_reasoningEffort a, sel_source = at_modelSource a\<rparr>"

definition workspaceExists :: "recovery_env \<Rightarrow> string option \<Rightarrow> bool" where
  "workspaceExists env path =
     (case path of None \<Rightarrow> False | Some p \<Rightarrow> p \<noteq> [] \<and> rx_isDirectory env p)"

definition has_text :: "string option \<Rightarrow> bool" where
  "has_text v = (case v of None \<Rightarrow> False | Some t \<Rightarrow> t \<noteq> [])"

definition recovery_decision ::
  "attempt_record \<Rightarrow> issue option \<Rightarrow> service_config \<Rightarrow> bool \<Rightarrow> bool \<Rightarrow> recovery_action \<times> string" where
  "recovery_decision a issue_opt config exists_ws alive =
     (case issue_opt of
        None \<Rightarrow> (Cleanup, ''Issue is no longer available from the tracker'')
      | Some i \<Rightarrow>
          if isTerminalState (issue_state i) config \<or> \<not> isActiveState (issue_state i) config
          then (Cleanup, ''Issue state '' @ js_quote (issue_state i) @ '' is no longer active'')
          else if \<not> exists_ws then (Cleanup, ''Workspace is missing'')
          else if has_text (at_threadId a)
          then (Resume, if alive then ''Orphaned container detected; restarting via thread resume''
                        else ''Workspace and thread id are intact; resume is possible'')
          else (Escalate, ''Workspace exists but the attempt has no resumable thread id''))"

definition assessAttempt ::
  "attempt_record \<Rightarrow> issue option \<Rightarrow> service_config \<Rightarrow> bool \<Rightarrow> bool \<Rightarrow> string list \<Rightarrow> recovery_assessment" where
  "assessAttempt a issue_opt config exists_ws alive names =
     (case recovery_decision a issue_opt config exists_ws alive of (action, reason) \<Rightarrow>
        \<lparr>ra_attemptId = at_attemptId a, ra_issueId = at_issueId a,
         ra_issueIdentifier = at_issueIdentifier a, ra_persistedStatus = at_status a,
         ra_attemptNumber = at_attemptNumber a, ra_threadId = at_threadId a,
         ra_workspacePath = at_workspacePath a, ra_workspaceExists = exists_ws,
         ra_workerAlive = alive, ra_containerNames = names, ra_action = action, ra_reason = reason\<rparr>)"

definition probeContainers :: "recovery_env \<Rightarrow> attempt_record \<Rightarrow> container list \<times> string option" where
  "probeContainers env a =
     (case at_workspacePath a of
        None \<Rightarrow> ([], None)
      | Some path \<Rightarrow>
          if path = [] then ([], None)
          else (case rx_containers env path of
                  Inr containers \<Rightarrow> (containers, None)
                | Inl e \<Rightarrow> ([], Some (toErrorString e))))"

section \<open>Acting on an assessment\<close>

definition recovery_status :: "(string \<times> json) list \<Rightarrow> string" where
  "recovery_status metadata =
     (case map_of metadata ''status'' of
        Some (JStr st) \<Rightarrow> if st = ''running'' \<or> st = ''paused'' then st else ''failed''
      | _ \<Rightarrow> ''failed'')"

definition appendRecoveryEvent ::
  "recovery_env \<Rightarrow> attempt_record \<Rightarrow> string \<Rightarrow> string \<Rightarrow> (string \<times> json) list \<Rightarrow> orch \<Rightarrow> outcome" where
  "appendRecoveryEvent env a event message metadata s =
     (let at_iso = iso_of_ms (rx_now env); thread = jopt JStr (at_threadId a)
      in await_then
           (rx_call env RxEvent (at_attemptId a)
              [AppendEvent (at_attemptId a) event
                 [(''at'', JStr at_iso), (''issueId'', JStr (at_issueId a)),
                  (''issueIdentifier'', JStr (at_issueIdentifier a)), (''sessionId'', thread),
                  (''message'', JStr message), (''metadata'', JObj metadata)]] s)
           (rx_call env RxCheckpoint (at_attemptId a)
              [AppendCheckpoint (at_attemptId a)
                 [(''trigger'', JStr ''status_transition''), (''eventCursor'', JNull),
                  (''status'', JStr (recovery_status metadata)), (''threadId'', thread),
                  (''turnId'', jopt JStr (at_turnId a)), (''turnCount'', JNum (at_turnCount a)),
                  (''tokenUsage'', jopt js_usage (at_tokenUsage a)), (''metadata'', JObj metadata),
                  (''createdAt'', JStr at_iso)]]))"

definition recordReportOutcome :: "string \<Rightarrow> recovery_action \<Rightarrow> recovery_report \<Rightarrow> recovery_report" where
  "recordReportOutcome attemptId action report =
     (case action of
        Resume \<Rightarrow> report\<lparr>rp_resumed := rp_resumed report @ [attemptId]\<rparr>
      | Cleanup \<Rightarrow> report\<lparr>rp_cleanedUp := rp_cleanedUp report @ [attemptId]\<rparr>
      | Escalate \<Rightarrow> report\<lparr>rp_escalated := rp_escalated report @ [attemptId]\<rparr>
      | Skip \<Rightarrow> report\<lparr>rp_skipped := rp_skipped report @ [attemptId]\<rparr>)"

fun cleanupContainers :: "recovery_env \<Rightarrow> string \<Rightarrow> container list \<Rightarrow> orch \<Rightarrow> outcome" where
  "cleanupContainers env attemptId [] s = (None, s)"
| "cleanupContainers env attemptId (c # cs) s =
     await_then (rx_call env (RxContainer (ctn_name c)) attemptId [RemoveContainer (ctn_name c)] s)
       (cleanupContainers env attemptId cs)"

text \<open>
  A handler's answer: the rejection if there was one, the state, and the report and result objects
  with the fields it had set by then.
\<close>

type_synonym recovery_step = "outcome \<times> recovery_report \<times> recovery_result"

definition recovery_options :: "attempt_record \<Rightarrow> launch_options" where
  "recovery_options a =
     \<lparr>lo_claimHeld = False, lo_previousThreadId = at_threadId a, lo_recoveredAttempt = Some a,
      lo_modelSelectionOverride = Some (recoveryModelSelection a)\<rparr>"

definition handleResume ::
  "recovery_env \<Rightarrow> attempt_record \<Rightarrow> recovery_assessment \<Rightarrow> issue \<Rightarrow> container list \<Rightarrow>
     recovery_report \<Rightarrow> recovery_result \<Rightarrow> orch \<Rightarrow> recovery_step" where
  "handleResume env a assessment i containers report result s =
     (let r = await_then (cleanupContainers env (at_attemptId a) containers s) (\<lambda>s1.
            await_then (ctx_launchWorker (rx_launch env a) i (at_attemptNumber a) (recovery_options a) s1)
              (appendRecoveryEvent env a ''attempt_recovery_resumed'' ''Recovered attempt resumed''
                 [(''action'', JStr ''resume''), (''reason'', JStr (ra_reason assessment)),
                  (''status'', JStr ''running''),
                  (''containers'', JArr (map JStr (ra_containerNames assessment)))]))
      in (r, if fst r = None then recordReportOutcome (at_attemptId a) Resume report else report, result))"

definition update_recovered ::
  "recovery_env \<Rightarrow> attempt_record \<Rightarrow> string \<Rightarrow> string \<Rightarrow> string \<Rightarrow> orch \<Rightarrow> outcome" where
  "update_recovered env a status errorCode errorMessage =
     rx_call env RxUpdate (at_attemptId a)
       [UpdateAttempt (at_attemptId a)
          [(''status'', JStr status), (''endedAt'', JStr (iso_of_ms (rx_now env))),
           (''errorCode'', JStr errorCode), (''errorMessage'', JStr errorMessage)]]"

definition cleanup_preserved ::
  "recovery_env \<Rightarrow> attempt_record \<Rightarrow> recovery_assessment \<Rightarrow> cleanup_result \<Rightarrow>
     recovery_report \<Rightarrow> recovery_result \<Rightarrow> orch \<Rightarrow> recovery_step" where
  "cleanup_preserved env a assessment c report result s =
     (let r = await_then
            (update_recovered env a ''failed'' ''recovery_cleanup_preserved''
               (coalesce (cr_autoCommitError c) (ra_reason assessment)) s)
            (appendRecoveryEvent env a ''attempt_recovery_preserved''
               ''Attempt recovery preserved the workspace for manual inspection''
               [(''action'', JStr ''escalate''),
                (''reason'', JStr (coalesce (cr_autoCommitError c) (ra_reason assessment))),
                (''status'', JStr ''failed''), (''autoCommitSha'', jopt JStr (cr_autoCommitSha c))])
      in if fst r = None
         then (r, recordReportOutcome (at_attemptId a) Escalate report,
               result\<lparr>rs_success := False, rs_workspacePreserved := True,
                 rs_error := Some (coalesce (cr_autoCommitError c) ''workspace preserved during recovery cleanup'')\<rparr>)
         else (r, report, result))"

definition handleCleanup ::
  "recovery_env \<Rightarrow> attempt_record \<Rightarrow> recovery_assessment \<Rightarrow> container list \<Rightarrow>
     recovery_report \<Rightarrow> recovery_result \<Rightarrow> orch \<Rightarrow> recovery_step" where
  "handleCleanup env a assessment containers report result s =
     (case await_then (cleanupContainers env (at_attemptId a) containers s)
             (rx_call env RxRemove (at_attemptId a) [RemoveWorkspace (at_issueIdentifier a)]) of
        (Some e, s1) \<Rightarrow> ((Some e, s1), report, result)
      | (None, s1) \<Rightarrow>
          (let cleanupResult = rx_removal env (at_issueIdentifier a);
               sha = Option.bind cleanupResult cr_autoCommitSha;
               result1 = result\<lparr>rs_autoCommitSha := sha\<rparr>;
               cleaned = (\<lambda>s. await_then
                 (update_recovered env a ''failed'' ''recovery_cleanup'' (ra_reason assessment) s)
                 (appendRecoveryEvent env a ''attempt_recovery_cleaned'' ''Recovered attempt cleaned up''
                    [(''action'', JStr ''cleanup''), (''reason'', JStr (ra_reason assessment)),
                     (''status'', JStr ''failed''), (''autoCommitSha'', jopt JStr sha)]))
           in case cleanupResult of
                Some c \<Rightarrow>
                  if cr_preserved c then cleanup_preserved env a assessment c report result1 s1
                  else (cleaned s1, if fst (cleaned s1) = None
                          then recordReportOutcome (at_attemptId a) Cleanup report else report, result1)
              | None \<Rightarrow> (cleaned s1, if fst (cleaned s1) = None
                          then recordReportOutcome (at_attemptId a) Cleanup report else report, result1)))"

definition handleEscalation ::
  "recovery_env \<Rightarrow> attempt_record \<Rightarrow> recovery_assessment \<Rightarrow> recovery_report \<Rightarrow> recovery_result \<Rightarrow>
     orch \<Rightarrow> recovery_step" where
  "handleEscalation env a assessment report result s =
     (let r = await_then (update_recovered env a ''paused'' ''recovery_escalated'' (ra_reason assessment) s)
            (appendRecoveryEvent env a ''attempt_recovery_escalated''
               ''Attempt recovery requires operator attention''
               [(''action'', JStr ''escalate''), (''reason'', JStr (ra_reason assessment)),
                (''status'', JStr ''paused''),
                (''containerNames'', JArr (map JStr (ra_containerNames assessment)))])
      in (r, if fst r = None then recordReportOutcome (at_attemptId a) Escalate report else report, result))"

definition executeAssessment ::
  "recovery_env \<Rightarrow> attempt_record \<Rightarrow> recovery_assessment \<Rightarrow> issue option \<Rightarrow> container list \<Rightarrow>
     recovery_report \<Rightarrow> recovery_result \<Rightarrow> orch \<Rightarrow> recovery_step" where
  "executeAssessment env a assessment issue_opt containers report result s =
     (case (ra_action assessment, issue_opt) of
        (Resume, Some i) \<Rightarrow> handleResume env a assessment i containers report result s
      | (Cleanup, _) \<Rightarrow> handleCleanup env a assessment containers report result s
      | (Escalate, _) \<Rightarrow> handleEscalation env a assessment report result s
      | _ \<Rightarrow> ((None, s), recordReportOutcome (at_attemptId a) Skip report, result))"

section \<open>runStartupRecovery\<close>

definition buildRecoveryReport :: "recovery_env \<Rightarrow> nat \<Rightarrow> bool \<Rightarrow> recovery_report" where
  "buildRecoveryReport env totalScanned dryRun =
     \<lparr>rp_generatedAt = iso_of_ms (rx_now env), rp_dryRun = dryRun, rp_totalScanned = totalScanned,
      rp_resumed = [], rp_cleanedUp = [], rp_escalated = [], rp_skipped = [], rp_errors = [],
      rp_results = [], rp_durationMs = 0\<rparr>"

definition initial_result :: "recovery_assessment \<Rightarrow> string option \<Rightarrow> recovery_result" where
  "initial_result assessment err =
     recovery_assessment.extend assessment
       (recovery_result.fields True None False err)"

definition assess ::
  "recovery_env \<Rightarrow> (string, issue) omap \<Rightarrow> attempt_record \<Rightarrow> recovery_assessment" where
  "assess env issuesById a =
     assessAttempt a (omap_get issuesById (at_issueId a)) (rx_config env)
       (workspaceExists env (at_workspacePath a))
       (list_ex ctn_running (fst (probeContainers env a))) (map ctn_name (fst (probeContainers env a)))"

definition recovery_step_of ::
  "recovery_env \<Rightarrow> attempt_record \<Rightarrow> (string, issue) omap \<Rightarrow> bool \<Rightarrow> recovery_report \<Rightarrow> orch \<Rightarrow> recovery_step" where
  "recovery_step_of env a issuesById dryRun report s =
     (let (containers, err) = probeContainers env a;
          assessment = assess env issuesById a;
          result = initial_result assessment err
      in if dryRun
         then ((None, s), recordReportOutcome (at_attemptId a) (ra_action assessment) report, result)
         else executeAssessment env a assessment (omap_get issuesById (at_issueId a)) containers report result s)"

definition processAttempt ::
  "recovery_env \<Rightarrow> (string, issue) omap \<Rightarrow> bool \<Rightarrow> attempt_record \<Rightarrow> recovery_report \<times> orch \<Rightarrow>
     recovery_report \<times> orch" where
  "processAttempt env issuesById dryRun a st =
     (let (report, s) = st;
          ((err, s1), report1, result) =
            recovery_step_of env a issuesById dryRun report (rx_await env RxProbe (at_attemptId a) s);
          (report2, result2) = (case err of
             None \<Rightarrow> (report1, result)
           | Some e \<Rightarrow>
               (report1\<lparr>rp_errors := rp_errors report1 @
                  [\<lparr>rer_attemptId = at_attemptId a, rer_issueIdentifier = at_issueIdentifier a,
                    rer_error = toErrorString e\<rparr>]\<rparr>,
                result\<lparr>rs_success := False, rs_error := Some (toErrorString e)\<rparr>))
      in (report2\<lparr>rp_results := rp_results report2 @ [result2]\<rparr>, s1))"

definition recovery_issues :: "issue list \<Rightarrow> (string, issue) omap" where
  "recovery_issues issues = omap_of (map (\<lambda>i. (issue_id i, i)) issues)"

definition runStartupRecovery ::
  "recovery_env \<Rightarrow> attempt_record list \<Rightarrow> bool \<Rightarrow> orch \<Rightarrow> (js_error + recovery_report) \<times> orch" where
  "runStartupRecovery env attempts dryRun s =
     (let runningAttempts = latestRunningAttempts attempts
      in if runningAttempts = [] then (Inr (buildRecoveryReport env 0 dryRun), s)
         else
           (let s1 = rx_await env RxFetch [] s
            in case rx_fetch env (remdups (map at_issueId runningAttempts)) of
                 Inl e \<Rightarrow> (Inl e, s1)
               | Inr issues \<Rightarrow>
                   (case fold (processAttempt env (recovery_issues issues) dryRun) runningAttempts
                           (buildRecoveryReport env (length runningAttempts) dryRun, s1) of
                      (report, s2) \<Rightarrow>
                        (Inr (report\<lparr>rp_durationMs := rx_finishedMs env - rx_now env\<rparr>), s2))))"

end
