(* ===== verification/RecoveryClaims.thy ===== *)
theory RecoveryClaims
  imports Recovery
begin

text \<open>
  What startup recovery guarantees: the report accounts for every scanned attempt once, a dry run
  predicts the real one and changes nothing, and the claim discipline survives.
\<close>

section \<open>The scan\<close>

lemma latestRunning_scan:
  "distinct (map at_issueId (latestRunningAttempts attempts)) \<and>
   set (map at_issueId (latestRunningAttempts attempts)) = {at_issueId a | a. a \<in> set attempts \<and> at_status a = ARunning} \<and>
   set (latestRunningAttempts attempts) \<subseteq>
     {a. latest_of at_issueId (filter (\<lambda>a. at_status a = ARunning) attempts) (at_issueId a) a}"
proof -
  let ?R = "filter (\<lambda>a. at_status a = ARunning) attempts"
  let ?m = "latest_by at_issueId ?R"
  have key: "at_issueId a = k" if "(k, a) \<in> set ?m" for k a
    using that omap_get_in [of ?m k a] latest_by_some [of at_issueId ?R k a] by (simp add: latest_of_def)
  then have "map at_issueId (omap_values ?m) = map fst ?m" by (auto simp: omap_values_def)
  then have "distinct (map at_issueId (omap_values ?m))"
    using latest_by_ok [of at_issueId ?R] by (simp add: omap_ok_def)
  moreover have "k \<in> at_issueId ` set (omap_values ?m) \<longleftrightarrow> k \<in> at_issueId ` set ?R" for k
  proof -
    have "at_issueId ` set (omap_values ?m) = fst ` set ?m"
      using \<open>map at_issueId (omap_values ?m) = map fst ?m\<close> by (metis list.set_map)
    moreover have "k \<in> fst ` set ?m \<longleftrightarrow> k \<in> at_issueId ` set ?R"
      using latest_by_none [of at_issueId ?R k] unfolding omap_get_def map_of_eq_None_iff by blast
    ultimately show ?thesis by simp
  qed
  then have "at_issueId ` set (omap_values ?m) = at_issueId ` set ?R" by blast
  moreover have "set (omap_values ?m) \<subseteq> {a. latest_of at_issueId ?R (at_issueId a) a}"
    using latest_by_values [of _ at_issueId ?R] latest_by_some [of at_issueId ?R] by blast
  ultimately show ?thesis by (auto simp: latestRunningAttempts_def)
qed

lemma latestRunning_distinct: "distinct (map at_issueId (latestRunningAttempts attempts))"
  using latestRunning_scan by blast

text \<open>
  Recovery scans one attempt per issue that has a running one, and it is a latest running
  attempt of that issue.
\<close>

theorem latestRunningAttempts_spec:
  "distinct (map at_issueId (latestRunningAttempts attempts)) \<and>
   set (map at_issueId (latestRunningAttempts attempts)) = {at_issueId a | a. a \<in> set attempts \<and> at_status a = ARunning} \<and>
   set (latestRunningAttempts attempts) \<subseteq>
     {a. latest_of at_issueId (filter (\<lambda>a. at_status a = ARunning) attempts) (at_issueId a) a}"
  by (rule latestRunning_scan)

section \<open>The report\<close>

definition report_ids :: "recovery_report \<Rightarrow> string list" where
  "report_ids r = rp_resumed r @ rp_cleanedUp r @ rp_escalated r @ rp_skipped r @ map rer_attemptId (rp_errors r)"

lemma initial_result_fields [simp]:
  "ra_attemptId (initial_result ra e) = ra_attemptId ra"
  "ra_action (initial_result ra e) = ra_action ra"
  by (simp_all add: initial_result_def recovery_assessment.defs recovery_result.defs)

lemma assess_fields [simp]:
  "ra_attemptId (assess env m a) = at_attemptId a"
  "ra_action (assess env m a) \<noteq> Skip"
  "ra_action (assess env m a) = Resume \<Longrightarrow> \<exists>i. omap_get m (at_issueId a) = Some i"
  by (auto simp: assess_def assessAttempt_def recovery_decision_def split: prod.splits option.splits if_splits)

definition step_reports :: "attempt_record \<Rightarrow> recovery_action \<Rightarrow> recovery_report \<Rightarrow> recovery_step \<Rightarrow> bool" where
  "step_reports a action report st \<longleftrightarrow>
     (case st of (r, report', result') \<Rightarrow> ra_attemptId result' = at_attemptId a \<and>
        (if fst r = None
         then report' = recordReportOutcome (at_attemptId a) action report \<or>
              report' = recordReportOutcome (at_attemptId a) Escalate report
         else report' = report))"

lemma cleanup_reports:
  "ra_attemptId result = at_attemptId a \<Longrightarrow> step_reports a Cleanup report (handleCleanup env a ra cs report result s)"
  by (auto simp: handleCleanup_def cleanup_preserved_def step_reports_def Let_def split: option.splits prod.splits)

lemma step_reports_of:
  "step_reports a (ra_action (assess env m a)) report (recovery_step_of env a m dry report s)"
proof -
  let ?ra = "assess env m a"
  obtain cs e where p: "probeContainers env a = (cs, e)" by fastforce
  show ?thesis
  proof (cases "ra_action ?ra")
    case Resume
    then obtain i where "omap_get m (at_issueId a) = Some i" by (auto dest: assess_fields(3))
    with Resume show ?thesis
      by (simp add: recovery_step_of_def p executeAssessment_def handleResume_def step_reports_def Let_def)
  next
    case Cleanup
    then show ?thesis
      using cleanup_reports [of "initial_result ?ra e" a report env ?ra cs s]
      by (cases dry) (simp_all add: recovery_step_of_def p executeAssessment_def step_reports_def Let_def)
  qed (simp_all add: recovery_step_of_def p executeAssessment_def handleEscalation_def step_reports_def Let_def)
qed

lemma recordReport_fields [simp]:
  "mset (report_ids (recordReportOutcome k act r)) = add_mset k (mset (report_ids r))"
  "rp_errors (recordReportOutcome k act r) = rp_errors r"
  "rp_results (recordReportOutcome k act r) = rp_results r"
  "rp_totalScanned (recordReportOutcome k act r) = rp_totalScanned r"
  "act \<noteq> Skip \<Longrightarrow> rp_skipped (recordReportOutcome k act r) = rp_skipped r"
  by (cases act; simp add: recordReportOutcome_def report_ids_def)+

definition accounts :: "attempt_record list \<Rightarrow> recovery_report \<Rightarrow> recovery_report \<Rightarrow> bool" where
  "accounts as r0 r \<longleftrightarrow>
     mset (report_ids r) = mset (report_ids r0) + mset (map at_attemptId as) \<and>
     map ra_attemptId (rp_results r) = map ra_attemptId (rp_results r0) @ map at_attemptId as \<and>
     rp_totalScanned r = rp_totalScanned r0 \<and> rp_skipped r = rp_skipped r0"

lemma process_accounts: "accounts [a] r (fst (processAttempt env m dry a (r, s)))"
proof -
  obtain err s1 r1 res where st: "recovery_step_of env a m dry r (rx_await env RxProbe (at_attemptId a) s) = ((err, s1), r1, res)"
    by (metis prod.collapse)
  have ok: "ra_attemptId res = at_attemptId a"
    "if err = None then r1 = recordReportOutcome (at_attemptId a) (ra_action (assess env m a)) r \<or>
       r1 = recordReportOutcome (at_attemptId a) Escalate r else r1 = r"
    using step_reports_of [of a env m r dry "rx_await env RxProbe (at_attemptId a) s"] by (auto simp: st step_reports_def)
  show ?thesis
  proof (cases err)
    case None
    then have "mset (report_ids r1) = add_mset (at_attemptId a) (mset (report_ids r))"
      "rp_results r1 = rp_results r" "rp_totalScanned r1 = rp_totalScanned r" "rp_skipped r1 = rp_skipped r"
      using ok(2) by auto
    then show ?thesis by (simp add: processAttempt_def st None accounts_def ok(1)) (simp add: report_ids_def)
  next
    case (Some e)
    then have "r1 = r" using ok(2) by simp
    then show ?thesis by (simp add: processAttempt_def st Some accounts_def ok(1)) (simp add: report_ids_def)
  qed
qed

lemma accounts_trans: "accounts as r0 r1 \<Longrightarrow> accounts bs r1 r2 \<Longrightarrow> accounts (as @ bs) r0 r2"
  by (simp add: accounts_def)

lemma fold_accounts: "accounts as r (fst (fold (processAttempt env m dry) as (r, s)))"
proof (induction as arbitrary: r s)
  case (Cons a as)
  obtain r1 s1 where p: "processAttempt env m dry a (r, s) = (r1, s1)" by fastforce
  have "accounts [a] r r1" using process_accounts [of a r env m dry s] by (simp add: p)
  from accounts_trans [OF this Cons.IH [of r1 s1]] show ?case by (simp add: p)
qed (simp add: accounts_def)

text \<open>
  The report of a recovery that gets its issues from the tracker accounts for every scanned
  attempt exactly once, as resumed, cleaned up, escalated or failed with an error, none as skipped;
  there is one result per attempt, in the order of the scan, and the total is their number.
\<close>

theorem recovery_report_partition:
  "case fst (runStartupRecovery env attempts dryRun s) of
     Inl e \<Rightarrow> latestRunningAttempts attempts \<noteq> []
   | Inr report \<Rightarrow>
       mset (rp_resumed report @ rp_cleanedUp report @ rp_escalated report @ map rer_attemptId (rp_errors report)) =
         mset (map at_attemptId (latestRunningAttempts attempts)) \<and>
       map ra_attemptId (rp_results report) = map at_attemptId (latestRunningAttempts attempts) \<and>
       rp_skipped report = [] \<and> rp_totalScanned report = length (latestRunningAttempts attempts)"
proof (cases "latestRunningAttempts attempts = []")
  case False
  let ?L = "latestRunningAttempts attempts"
  show ?thesis
  proof (cases "rx_fetch env (remdups (map at_issueId ?L))")
    case (Inr issues)
    define r0 where "r0 = buildRecoveryReport env (length ?L) dryRun"
    obtain r s2 where f: "fold (processAttempt env (recovery_issues issues) dryRun) ?L (r0, rx_await env RxFetch [] s) = (r, s2)"
      by fastforce
    have "accounts ?L r0 r" using fold_accounts [of ?L r0 env "recovery_issues issues" dryRun] f by (metis fst_conv)
    then show ?thesis
      using False f
      by (simp add: runStartupRecovery_def Let_def Inr accounts_def report_ids_def flip: r0_def)
        (clarsimp simp: r0_def buildRecoveryReport_def)
  qed (use False in \<open>simp add: runStartupRecovery_def Let_def\<close>)
qed (simp add: runStartupRecovery_def buildRecoveryReport_def)

section \<open>Claims\<close>

definition pending_ok :: "string set \<Rightarrow> orch \<Rightarrow> bool" where
  "pending_ok ks s \<longleftrightarrow> claim_inv s \<and> (\<forall>k \<in> ks. owned k s)"

text \<open>
  What recovery relies on while it waits: the claim discipline is kept, and nobody starts or queues an
  issue whose attempt is still to be processed.
\<close>

fun recovery_rely :: "recovery_env \<Rightarrow> attempt_record list \<Rightarrow> bool" where
  "recovery_rely env [] = True"
| "recovery_rely env (a # as) =
     ((\<forall>p s. pending_ok (at_issueId ` set as) s \<longrightarrow> pending_ok (at_issueId ` set as) (rx_await env p (at_attemptId a) s)) \<and>
      (\<forall>p s. p = RxProbe \<or> (\<exists>n. p = RxContainer n) \<longrightarrow> pending_ok (at_issueId ` set (a # as)) s \<longrightarrow>
              pending_ok (at_issueId ` set (a # as)) (rx_await env p (at_attemptId a) s)) \<and>
      launch_rely (rx_launch env a) (at_issueId a) \<and>
      (\<forall>k \<in> at_issueId ` set as. \<forall>p s. owned k s \<longrightarrow> owned k (le_await (rx_launch env a) p s)) \<and>
      recovery_rely env as)"

lemma await_then_rule:
  "P (snd r) \<Longrightarrow> (\<And>s. P s \<Longrightarrow> Q (snd (f s))) \<Longrightarrow> (\<And>s. P s \<Longrightarrow> Q s) \<Longrightarrow> Q (snd (await_then r f))"
  by (auto simp: await_then_def split: prod.splits option.splits)

lemma owned_ops [simp]:
  "owned k (pushEvent ev t) = owned k t" "owned k (t\<lparr>trace := es\<rparr>) = owned k t"
  "owned k (claimIssueInState k' t) = owned k t" "owned k (releaseIssueClaimInState k' t) = owned k t"
  "owned k (setDetailViewInState v w t) = owned k t" "owned k (notifyChannel n t) = owned k t"
  "owned k (record_effect e t) = owned k t" "owned k (markDirty t) = owned k t"
  by (simp_all add: owned_def state_defs)

lemma owned_start: "k \<noteq> issue_id i \<Longrightarrow> owned k (start_entry i entry s) = owned k s"
  by (simp add: owned_def start_entry_def Let_def) (simp add: setQueuedViewsInState_def markDirty_def)

lemma owned_launch:
  assumes aw: "\<And>p s. owned k s \<Longrightarrow> owned k (le_await env p s)" and "k \<noteq> issue_id i" and "owned k s"
  shows "owned k (snd (ctx_launchWorker env i attempt opts s))"
proof -
  have call: "owned k t \<Longrightarrow> owned k (snd (launch_call env p es t))" for p es t
    by (simp add: launch_call_def aw)
  have "owned k (snd (ensureAndClone env t))" if "owned k t" for t
    unfolding ensureAndClone_def by (rule await_then_inv) (simp_all add: call that)
  then have clone: "owned k t \<Longrightarrow> ensureAndClone env t = (r, u) \<Longrightarrow> owned k u" for t r u
    by (metis snd_conv)
  have prep: "owned k (snd (prepareWorkspaceForLaunch env i t))" if t: "owned k t" for t
  proof (cases "resolveWorkspacePath (le_cwd env) (cfg_workspaceRoot (le_config env)) (issue_identifier i)")
    case (Inr kp)
    have g: "ensureAndClone env (pushEvent ev t) = (r, u) \<Longrightarrow> owned k u" for ev r u
      using clone [of "pushEvent ev t"] t by simp
    obtain key path where "kp = (key, path)" by fastforce
    with Inr show ?thesis
      by (simp add: prepareWorkspaceForLaunch_def Let_def split: prod.splits option.splits) (auto dest: g)
  qed (use t in \<open>simp add: prepareWorkspaceForLaunch_def Let_def\<close>)
  have body: "owned k (snd (launch_body env i attempt opts t))" if t: "owned k t" for t
  proof -
    obtain r u where p: "prepareWorkspaceForLaunch env i t = (r, u)" by fastforce
    then have u: "owned k u" using prep [OF t] by simp
    have persist: "owned k v \<Longrightarrow> owned k (snd (persistInitialAttempt env e i ws attempt sel v))"
      "owned k v \<Longrightarrow> owned k (snd (persistRecoveredAttempt env i ws a sel v))"
      "owned k v \<Longrightarrow> owned k (snd (run_agent env i ws attempt sel opts v))" for e ws sel a v
      by (auto simp: persistInitialAttempt_def persistRecoveredAttempt_def run_agent_def writeCheckpoint_def
          emitLaunchNotifications_def Let_def call intro!: await_then_inv [where P = "owned k"])
    show ?thesis
      using u persist owned_start [OF assms(2)]
      by (auto simp: launch_body_def p Let_def intro!: await_then_inv [where P = "owned k"] split: sum.splits option.splits)
  qed
  define s1 where "s1 = snd (launch_call env LwLock [] (if lo_claimHeld opts then s else claimIssueInState (issue_id i) s))"
  have s1: "owned k s1" by (simp add: s1_def call assms(3))
  obtain e s2 where b: "launch_body env i attempt opts s1 = (e, s2)" by fastforce
  have "owned k s2" using body [OF s1] b by simp
  then have "owned k (snd (launchWorker env i attempt opts s))"
    by (cases e) (simp_all add: launchWorker_def Let_def b flip: s1_def, simp add: owned_def)
  then show ?thesis unfolding ctx_launchWorker_def by (rule await_then_inv) simp
qed

lemma pending_trace [simp]: "pending_ok ks (s\<lparr>trace := es\<rparr>) = pending_ok ks s"
  using claim_inv_same [of s "s\<lparr>trace := es\<rparr>"] by (simp add: pending_ok_def same_claims_def)

lemma pending_mono: "pending_ok (insert k ks) s \<Longrightarrow> pending_ok ks s"
  by (simp add: pending_ok_def)

lemma recovery_event_pending:
  assumes "\<forall>p s. pending_ok ks s \<longrightarrow> pending_ok ks (rx_await env p (at_attemptId a) s)" and "pending_ok ks s"
  shows "pending_ok ks (snd (appendRecoveryEvent env a ev msg md s))"
    and "pending_ok ks (snd (update_recovered env a st code m s))"
    and "pending_ok ks (snd (rx_call env pt (at_attemptId a) es s))"
  using assms
  by (auto simp: appendRecoveryEvent_def update_recovered_def rx_call_def Let_def
      intro!: await_then_inv [where P = "pending_ok ks"])

lemma containers_pending:
  assumes "\<forall>n s. pending_ok ks s \<longrightarrow> pending_ok ks (rx_await env (RxContainer n) k s)"
  shows "pending_ok ks s \<Longrightarrow> pending_ok ks (snd (cleanupContainers env k cs s))"
proof (induction cs arbitrary: s)
  case (Cons c cs)
  then show ?case
    by (auto simp: rx_call_def assms intro!: await_then_inv [where P = "pending_ok ks"])
qed simp

lemma launch_pending:
  assumes "launch_rely (rx_launch env a) (issue_id i)"
    and "\<And>k p s. k \<in> ks \<Longrightarrow> owned k s \<Longrightarrow> owned k (le_await (rx_launch env a) p s)"
    and "issue_id i \<notin> ks" and "pending_ok (insert (issue_id i) ks) s" and "\<not> lo_claimHeld opts"
  shows "pending_ok ks (snd (ctx_launchWorker (rx_launch env a) i n opts s))"
proof -
  have "held (issue_id i) s" using assms(4) by (simp add: pending_ok_def held_def)
  then have "launch_ok (issue_id i) (launchWorker (rx_launch env a) i n opts s)"
    using launch_settles [OF assms(1)] assms(5) by simp
  then have "claim_inv (snd (launchWorker (rx_launch env a) i n opts s))"
    by (auto simp: launch_ok_def has_worker_def held_def split: if_splits)
  then have "claim_inv (snd (ctx_launchWorker (rx_launch env a) i n opts s))"
    unfolding ctx_launchWorker_def by (rule await_then_inv) simp
  moreover have "owned k (snd (ctx_launchWorker (rx_launch env a) i n opts s))" if "k \<in> ks" for k
    by (rule owned_launch) (use that assms in \<open>auto simp: pending_ok_def\<close>)
  ultimately show ?thesis by (simp add: pending_ok_def)
qed

lemma recovery_issues_id: "omap_get (recovery_issues issues) k = Some i \<Longrightarrow> issue_id i = k"
  by (auto simp: recovery_issues_def omap_get_of dest!: map_of_SomeD)

lemma step_pending:
  assumes rely: "recovery_rely env (a # as)" and fresh: "at_issueId a \<notin> at_issueId ` set as"
    and s: "pending_ok (at_issueId ` set (a # as)) s"
  shows "pending_ok (at_issueId ` set as) (snd (fst (recovery_step_of env a (recovery_issues issues) dry report s)))"
proof -
  let ?ks = "at_issueId ` set as"
  have aw: "\<forall>p s. pending_ok ?ks s \<longrightarrow> pending_ok ?ks (rx_await env p (at_attemptId a) s)" using rely by simp
  have s': "pending_ok ?ks s" using s by (simp add: pending_mono)
  note ev = recovery_event_pending [where env = env and a = a and ks = ?ks, OF aw]
  have cont: "pending_ok ?ks (snd (cleanupContainers env (at_attemptId a) cs s))" for cs
    by (rule containers_pending [OF _ s']) (use aw in blast)
  have cont': "pending_ok (at_issueId ` set (a # as)) (snd (cleanupContainers env (at_attemptId a) cs s))" for cs
    by (rule containers_pending [OF _ s]) (use rely in simp)
  have resume: "pending_ok ?ks (snd (fst (handleResume env a ra i cs report res s)))"
    if i: "issue_id i = at_issueId a" for ra i cs res
  proof -
    have launch: "pending_ok ?ks (snd (ctx_launchWorker (rx_launch env a) i n (recovery_options a) t))"
      if "pending_ok (at_issueId ` set (a # as)) t" for n t
      by (rule launch_pending) (use that rely fresh i in \<open>auto simp: recovery_options_def\<close>)
    have "pending_ok ?ks (snd (await_then (ctx_launchWorker (rx_launch env a) i n (recovery_options a) t)
        (appendRecoveryEvent env a e msg md)))"
      if "pending_ok (at_issueId ` set (a # as)) t" for n t e msg md
      by (rule await_then_inv [where P = "pending_ok ?ks", OF launch [OF that] ev(1)])
    then show ?thesis
      unfolding handleResume_def Let_def fst_conv
      by (rule await_then_rule [where P = "pending_ok (at_issueId ` set (a # as))", OF cont']) (simp_all add: pending_mono)
  qed
  have cleanup: "pending_ok ?ks (snd (fst (handleCleanup env a ra cs report res s)))" for ra cs res
  proof -
    obtain r u where c: "await_then (cleanupContainers env (at_attemptId a) cs s)
        (rx_call env RxRemove (at_attemptId a) [RemoveWorkspace (at_issueIdentifier a)]) = (r, u)" by fastforce
    have "pending_ok ?ks (snd (await_then (cleanupContainers env (at_attemptId a) cs s)
        (rx_call env RxRemove (at_attemptId a) [RemoveWorkspace (at_issueIdentifier a)])))"
      by (rule await_then_inv [where P = "pending_ok ?ks", OF cont ev(3)])
    then have u: "pending_ok ?ks u" by (simp add: c)
    have store: "pending_ok ?ks (snd (await_then (update_recovered env a st code m u) (appendRecoveryEvent env a e msg md)))"
      for st code m e msg md
      by (rule await_then_inv [where P = "pending_ok ?ks", OF ev(2) [OF u] ev(1)])
    show ?thesis
      using u store by (cases r) (simp_all add: handleCleanup_def c Let_def cleanup_preserved_def split: option.split)
  qed
  have esc: "pending_ok ?ks (snd (fst (handleEscalation env a ra report res s)))" for ra res
    unfolding handleEscalation_def Let_def fst_conv
    by (rule await_then_inv [where P = "pending_ok ?ks", OF ev(2) [OF s'] ev(1)])
  show ?thesis
    using s' resume [OF recovery_issues_id] cleanup esc
    by (auto simp: recovery_step_of_def Let_def executeAssessment_def split: prod.splits recovery_action.splits option.splits)
qed

lemma process_pending:
  assumes "recovery_rely env (a # as)" and "at_issueId a \<notin> at_issueId ` set as"
    and "pending_ok (at_issueId ` set (a # as)) s"
  shows "pending_ok (at_issueId ` set as) (snd (processAttempt env (recovery_issues issues) dry a (report, s)))"
proof -
  have "pending_ok (at_issueId ` set (a # as)) (rx_await env RxProbe (at_attemptId a) s)"
    using assms(1,3) by simp
  note step = step_pending [OF assms(1,2) this, of issues dry report]
  obtain err s1 r1 res where "recovery_step_of env a (recovery_issues issues) dry report
      (rx_await env RxProbe (at_attemptId a) s) = ((err, s1), r1, res)" by (metis prod.collapse)
  with step show ?thesis by (simp add: processAttempt_def split: option.split)
qed

lemma fold_pending:
  "recovery_rely env as \<Longrightarrow> distinct (map at_issueId as) \<Longrightarrow> pending_ok (at_issueId ` set as) s \<Longrightarrow>
     claim_inv (snd (fold (processAttempt env (recovery_issues issues) dry) as (report, s)))"
proof (induction as arbitrary: report s)
  case (Cons a as)
  obtain report' s' where p: "processAttempt env (recovery_issues issues) dry a (report, s) = (report', s')" by fastforce
  have "pending_ok (at_issueId ` set as) s'"
    using process_pending [OF Cons.prems(1), of s issues dry report] Cons.prems by (simp add: p)
  then show ?case using Cons by (simp add: p)
qed (simp add: pending_ok_def)

lemma recovery_keeps_claims:
  assumes "recovery_rely env (latestRunningAttempts attempts)"
    and "\<And>s. pending_ok (at_issueId ` set (latestRunningAttempts attempts)) s \<Longrightarrow>
           pending_ok (at_issueId ` set (latestRunningAttempts attempts)) (rx_await env RxFetch [] s)"
    and "pending_ok (at_issueId ` set (latestRunningAttempts attempts)) s"
  shows "claim_inv (snd (runStartupRecovery env attempts dryRun s))"
proof -
  let ?L = "latestRunningAttempts attempts"
  have s1: "pending_ok (at_issueId ` set ?L) (rx_await env RxFetch [] s)" by (rule assms(2) [OF assms(3)])
  have d: "distinct (map at_issueId ?L)" by (rule latestRunning_distinct)
  have "claim_inv s" using assms(3) by (simp add: pending_ok_def)
  moreover have "claim_inv (rx_await env RxFetch [] s)" using s1 by (simp add: pending_ok_def)
  ultimately show ?thesis
    using fold_pending [OF assms(1) d s1]
    by (auto simp: runStartupRecovery_def Let_def split: sum.splits prod.splits) (metis snd_conv)
qed

text \<open>
  C6: startup recovery keeps the claim discipline: whatever it resumes, whichever launch, cleanup or
  store write rejects, and whether the tracker answers or not, every running entry is claimed, no
  issue is both running and queued, and rejected launches leave no claim behind. The other tasks may
  do anything that keeps the discipline and does not start an issue recovery has yet to process.
\<close>

theorem runStartupRecovery_claims:
  assumes "recovery_rely env (latestRunningAttempts attempts)"
    and "\<And>s. pending_ok (at_issueId ` set (latestRunningAttempts attempts)) s \<Longrightarrow>
           pending_ok (at_issueId ` set (latestRunningAttempts attempts)) (rx_await env RxFetch [] s)"
    and "pending_ok (at_issueId ` set (latestRunningAttempts attempts)) s"
  shows "claim_inv (snd (runStartupRecovery env attempts dryRun s))"
  using assms by (rule recovery_keeps_claims)

section \<open>Dry runs\<close>

definition smooth :: "recovery_env \<Rightarrow> bool" where
  "smooth env \<longleftrightarrow>
     (\<forall>p k. rx_throws env p k = None) \<and> (\<forall>a p. le_throws (rx_launch env a) p = None) \<and>
     (\<forall>k c. rx_removal env k = Some c \<longrightarrow> \<not> cr_preserved c) \<and>
     (\<forall>ids issues. rx_fetch env ids = Inr issues \<longrightarrow> [] \<notin> issue_identifier ` set issues)"

lemma smooth_containers: "smooth env \<Longrightarrow> fst (cleanupContainers env k cs s) = None"
proof (induction cs arbitrary: s)
  case (Cons c cs)
  then show ?case by (simp add: await_then_def rx_call_def smooth_def split: prod.split)
qed simp

lemma fst_await_then: "fst r = None \<Longrightarrow> fst (await_then r f) = fst (f (snd r))"
  by (cases r) (simp add: await_then_def)

lemma smooth_event: "smooth env \<Longrightarrow> fst (appendRecoveryEvent env a e m md s) = None"
  by (simp add: appendRecoveryEvent_def Let_def fst_await_then rx_call_def smooth_def)

lemma recovery_issues_set: "omap_get (recovery_issues issues) k = Some i \<Longrightarrow> i \<in> set issues"
  by (auto simp: recovery_issues_def omap_get_of dest!: map_of_SomeD)

lemma smooth_step:
  assumes "smooth env" and "[] \<notin> issue_identifier ` set issues"
  shows "fst (fst (recovery_step_of env a (recovery_issues issues) False report s)) = None \<and>
         fst (snd (recovery_step_of env a (recovery_issues issues) False report s)) =
           recordReportOutcome (at_attemptId a) (ra_action (assess env (recovery_issues issues) a)) report"
proof -
  let ?m = "recovery_issues issues"
  let ?ra = "assess env ?m a"
  obtain cs e where p: "probeContainers env a = (cs, e)" by fastforce
  note c = smooth_containers [OF assms(1)] and ev = smooth_event [OF assms(1)]
  have call: "fst (rx_call env pt k es t) = None" for pt k es t
    using assms(1) by (simp add: rx_call_def smooth_def)
  have store: "fst (await_then (update_recovered env a st code m t) (appendRecoveryEvent env a e' msg md)) = None"
    for st code m t e' msg md by (simp add: fst_await_then ev update_recovered_def call)
  show ?thesis
  proof (cases "ra_action ?ra")
    case Resume
    then obtain i where i: "omap_get ?m (at_issueId a) = Some i" by (auto dest: assess_fields(3))
    have "issue_identifier i \<noteq> []" using recovery_issues_set [OF i] assms(2) by force
    then have "fst (ctx_launchWorker (rx_launch env a) i n opts t) = None" for n opts t
      using launch_succeeds [of "rx_launch env a" i] assms(1) by (simp add: smooth_def)
    with Resume i show ?thesis
      by (simp add: recovery_step_of_def p executeAssessment_def handleResume_def Let_def fst_await_then c ev)
  next
    case Cleanup
    obtain r u where r: "await_then (cleanupContainers env (at_attemptId a) cs s)
        (rx_call env RxRemove (at_attemptId a) [RemoveWorkspace (at_issueIdentifier a)]) = (r, u)" by fastforce
    have "r = None" using arg_cong [OF r, of fst] by (simp add: fst_await_then c call)
    moreover have "rx_removal env k = Some c \<Longrightarrow> \<not> cr_preserved c" for k c using assms(1) by (simp add: smooth_def)
    ultimately show ?thesis using Cleanup
      by (simp add: recovery_step_of_def p executeAssessment_def handleCleanup_def r Let_def store split: option.split)
  next
    case Escalate
    then show ?thesis
      by (simp add: recovery_step_of_def p executeAssessment_def handleEscalation_def Let_def store)
  qed simp
qed

definition same_lists :: "recovery_report \<Rightarrow> recovery_report \<Rightarrow> bool" where
  "same_lists r q \<longleftrightarrow> rp_resumed r = rp_resumed q \<and> rp_cleanedUp r = rp_cleanedUp q \<and>
     rp_escalated r = rp_escalated q \<and> rp_skipped r = rp_skipped q \<and> rp_errors r = rp_errors q \<and>
     rp_totalScanned r = rp_totalScanned q"

lemma recordReport_same:
  "same_lists r q \<Longrightarrow> same_lists (recordReportOutcome k act r) (recordReportOutcome k act q)"
  by (cases act) (simp_all add: recordReportOutcome_def same_lists_def)

lemma smooth_process:
  assumes "smooth env" and "[] \<notin> issue_identifier ` set issues" and "same_lists r q"
  shows "same_lists (fst (processAttempt env (recovery_issues issues) False a (r, s)))
           (fst (processAttempt env (recovery_issues issues) True a (q, t)))"
proof -
  let ?m = "recovery_issues issues"
  let ?s = "rx_await env RxProbe (at_attemptId a) s"
  obtain err s1 r1 res where st: "recovery_step_of env a ?m False r ?s = ((err, s1), r1, res)"
    by (metis prod.collapse)
  have "err = None" "r1 = recordReportOutcome (at_attemptId a) (ra_action (assess env ?m a)) r"
    using smooth_step [OF assms(1,2), of a r ?s] by (simp_all add: st)
  then show ?thesis
    using recordReport_same [OF assms(3), of "at_attemptId a" "ra_action (assess env ?m a)"]
    by (simp add: processAttempt_def st) (simp add: recovery_step_of_def Let_def same_lists_def split: prod.splits)
qed

lemma smooth_fold:
  assumes "smooth env" and "[] \<notin> issue_identifier ` set issues"
  shows "same_lists r q \<Longrightarrow> same_lists (fst (fold (processAttempt env (recovery_issues issues) False) as (r, s)))
           (fst (fold (processAttempt env (recovery_issues issues) True) as (q, t)))"
proof (induction as arbitrary: r q s t)
  case (Cons a as)
  note step = smooth_process [OF assms Cons.prems, of a s t]
  obtain r1 s1 where p: "processAttempt env (recovery_issues issues) False a (r, s) = (r1, s1)" by fastforce
  obtain q1 t1 where q: "processAttempt env (recovery_issues issues) True a (q, t) = (q1, t1)" by fastforce
  show ?case using Cons.IH [of r1 q1 s1 t1] step by (simp add: p q)
qed simp

lemma dry_process:
  assumes "\<And>p k s. rx_await env p k s = s"
  shows "snd (processAttempt env m True a st) = snd st"
  by (cases st) (simp add: processAttempt_def recovery_step_of_def Let_def assms split: prod.split)

lemma dry_fold:
  "(\<And>p k s. rx_await env p k s = s) \<Longrightarrow> snd (fold (processAttempt env m True) as st) = snd st"
  by (induction as arbitrary: st) (simp_all add: dry_process)

lemma dry_process_errors: "rp_errors (fst (processAttempt env m True a st)) = rp_errors (fst st)"
  by (cases st) (simp add: processAttempt_def recovery_step_of_def Let_def split: prod.split)

lemma dry_errors: "rp_errors (fst (fold (processAttempt env m True) as st)) = rp_errors (fst st)"
  by (induction as arbitrary: st) (simp_all add: dry_process_errors)

text \<open>
  A dry run changes nothing and predicts the real run: when no call of the real run rejects and no
  workspace is preserved, both reports list the same attempts as resumed, cleaned up and escalated,
  in the same order, whatever the state the real run starts in.
\<close>

theorem dry_run_predicts:
  assumes "smooth env" and "\<And>p k s. rx_await env p k s = s"
  shows "snd (runStartupRecovery env attempts True s) = s \<and>
     (case (fst (runStartupRecovery env attempts True s), fst (runStartupRecovery env attempts False t)) of
        (Inr predicted, Inr actual) \<Rightarrow> same_lists actual predicted \<and> rp_errors actual = []
      | (Inl e, Inl e') \<Rightarrow> e' = e
      | _ \<Rightarrow> False)"
proof (cases "latestRunningAttempts attempts = []")
  case False
  let ?L = "latestRunningAttempts attempts"
  show ?thesis
  proof (cases "rx_fetch env (remdups (map at_issueId ?L))")
    case (Inr issues)
    let ?m = "recovery_issues issues" and ?r = "buildRecoveryReport env (length ?L)"
    have ids: "[] \<notin> issue_identifier ` set issues" using assms(1) Inr by (simp add: smooth_def)
    have "same_lists (?r False) (?r True)" by (simp add: buildRecoveryReport_def same_lists_def)
    note same = smooth_fold [OF assms(1) ids this, of ?L t s]
    obtain p s1 where p: "fold (processAttempt env ?m True) ?L (?r True, s) = (p, s1)" by fastforce
    obtain q t1 where q: "fold (processAttempt env ?m False) ?L (?r False, t) = (q, t1)" by fastforce
    have "s1 = s" using dry_fold [where env = env and m = ?m and as = ?L and st = "(?r True, s)"] assms(2) p by simp
    moreover have "rp_errors p = []"
      using dry_errors [of env ?m ?L "(?r True, s)"] by (simp add: p) (simp add: buildRecoveryReport_def)
    ultimately show ?thesis
      using False same p q by (simp add: runStartupRecovery_def Let_def Inr assms(2)) (simp add: same_lists_def)
  qed (use False assms(2) in \<open>simp add: runStartupRecovery_def Let_def\<close>)
qed (simp add: runStartupRecovery_def buildRecoveryReport_def same_lists_def)

lemma dry_report:
  "rp_resumed (fst (fold (processAttempt env m True) as st)) =
     rp_resumed (fst st) @ map at_attemptId (filter (\<lambda>a. ra_action (assess env m a) = Resume) as) \<and>
   rp_cleanedUp (fst (fold (processAttempt env m True) as st)) =
     rp_cleanedUp (fst st) @ map at_attemptId (filter (\<lambda>a. ra_action (assess env m a) = Cleanup) as)"
proof (induction as arbitrary: st)
  case (Cons a as)
  have "fst (processAttempt env m True a st) = recordReportOutcome (at_attemptId a) (ra_action (assess env m a)) (fst st)
      \<lparr>rp_results := rp_results (fst st) @ [initial_result (assess env m a) (snd (probeContainers env a))]\<rparr>"
    by (cases st) (simp add: processAttempt_def recovery_step_of_def Let_def split: prod.split)
  with Cons show ?case
    by (cases "ra_action (assess env m a)"; simp add: recordReportOutcome_def)
qed simp

section \<open>Samples\<close>

definition sample_attempt :: "string \<Rightarrow> string option \<Rightarrow> attempt_record" where
  "sample_attempt k thread =
     \<lparr>at_attemptId = k @ ''-run'', at_issueId = k, at_issueIdentifier = k, at_title = ''t'',
      at_workspaceKey = Some k, at_workspacePath = Some (''/w/'' @ k), at_status = ARunning,
      at_attemptNumber = Some 1, at_startedAt = ''2026-01-01T00:00:00.000Z'', at_endedAt = None, at_model = ''m'',
      at_reasoningEffort = Undef, at_modelSource = DefaultSource, at_threadId = thread, at_turnId = None,
      at_turnCount = 0, at_errorCode = None, at_errorMessage = None, at_tokenUsage = None,
      at_pullRequestUrl = Undef, at_stopSignal = Undef, at_summary = Undef\<rparr>"

definition sample_recovery_env :: recovery_env where
  "sample_recovery_env =
     \<lparr>rx_now = 1000, rx_finishedMs = 1200, rx_config = sample_config,
      rx_fetch = (\<lambda>_. Inr [example_issue ''A-1'' ''In Progress'' None, example_issue ''A-2'' ''Done'' None]),
      rx_containers = (\<lambda>_. Inr []), rx_isDirectory = (\<lambda>_. True), rx_removal = (\<lambda>_. None),
      rx_launch = (\<lambda>a. sample_launch_env (example_issue (at_issueId a) ''In Progress'' None)),
      rx_throws = (\<lambda>_ _. None), rx_await = (\<lambda>_ _ s. s)\<rparr>"

definition sample_attempts :: "attempt_record list" where
  "sample_attempts = [sample_attempt ''A-1'' (Some ''th''), sample_attempt ''A-2'' None]"

lemma sample_recovery_rely: "recovery_rely sample_recovery_env as"
  by (induction as)
    (use sample_launch_rely in \<open>auto simp: sample_recovery_env_def sample_launch_env_def\<close>)

theorem runStartupRecovery_claims_witness:
  "claim_inv (snd (runStartupRecovery sample_recovery_env sample_attempts False idle_state))"
  by (rule runStartupRecovery_claims [OF sample_recovery_rely])
    (simp_all add: sample_recovery_env_def pending_ok_def owned_def idle_state_def createLifecycleState_def
       claim_inv_def keys_ok_def claims_ok_def timers_ok_def)

theorem dry_run_predicts_witness:
  "case fst (runStartupRecovery sample_recovery_env sample_attempts False idle_state) of
     Inr report \<Rightarrow> rp_resumed report = [''A-1-run''] \<and> rp_cleanedUp report = [''A-2-run'']
   | Inl e \<Rightarrow> False"
proof -
  have "smooth sample_recovery_env"
    by (auto simp: smooth_def sample_recovery_env_def sample_launch_env_def example_issue_def)
  note pred = dry_run_predicts [OF this, of sample_attempts idle_state idle_state]
  define m where "m = recovery_issues [example_issue ''A-1'' ''In Progress'' None, example_issue ''A-2'' ''Done'' None]"
  have scan: "latestRunningAttempts sample_attempts = sample_attempts" by code_simp
  have "ra_action (assess sample_recovery_env m (sample_attempt ''A-1'' (Some ''th''))) = Resume"
    "ra_action (assess sample_recovery_env m (sample_attempt ''A-2'' None)) = Cleanup"
    unfolding m_def by code_simp+
  moreover have "at_attemptId (sample_attempt k th) = k @ ''-run''" for k th by (simp add: sample_attempt_def)
  moreover obtain r s1 where r: "fold (processAttempt sample_recovery_env m True) sample_attempts
      (buildRecoveryReport sample_recovery_env 2 True, idle_state) = (r, s1)" by fastforce
  ultimately have lists: "rp_resumed r = [''A-1-run'']" "rp_cleanedUp r = [''A-2-run'']"
    using dry_report [of sample_recovery_env m sample_attempts "(buildRecoveryReport sample_recovery_env 2 True, idle_state)"]
    by (simp_all add: sample_attempts_def) (simp_all add: buildRecoveryReport_def)
  have await: "rx_await sample_recovery_env p k s = s" for p k s by (simp add: sample_recovery_env_def)
  have fetch: "rx_fetch sample_recovery_env ids =
      Inr [example_issue ''A-1'' ''In Progress'' None, example_issue ''A-2'' ''Done'' None]" for ids
    by (simp add: sample_recovery_env_def)
  have "length sample_attempts = 2" "sample_attempts \<noteq> []" by (simp_all add: sample_attempts_def)
  then have dry: "case fst (runStartupRecovery sample_recovery_env sample_attempts True idle_state) of
     Inr report \<Rightarrow> rp_resumed report = [''A-1-run''] \<and> rp_cleanedUp report = [''A-2-run'']
   | Inl e \<Rightarrow> False"
    by (simp add: runStartupRecovery_def scan await fetch Let_def r lists flip: m_def)
  show ?thesis
    using pred [OF await] dry
    by (auto simp: same_lists_def split: sum.splits prod.splits)
qed

end
