(* ===== verification/HealthRunner.thy ===== *)
theory HealthRunner
  imports LifecycleState
begin

text \<open>
  The subsystem health checks: \<open>src/src/core/types/health.ts\<close>, \<open>src/src/health/health-runner.ts\<close>,
  \<open>timed-probe.ts\<close> and \<open>health-notification-bridge.ts\<close>. A probe run is one step of the runner:
  what the probe answered is an argument. Jitter delays and timeouts decide when a step happens, not
  what it does.
\<close>

section \<open>Types\<close>

datatype check_status = ChkOk | ChkSlow | ChkDegraded | ChkDown | ChkUnknown

fun check_status_name :: "check_status \<Rightarrow> string" where
  "check_status_name ChkOk = ''ok''"
| "check_status_name ChkSlow = ''slow''"
| "check_status_name ChkDegraded = ''degraded''"
| "check_status_name ChkDown = ''down''"
| "check_status_name ChkUnknown = ''unknown''"

datatype failure_kind =
  FkOk | AuthFailure | RateLimited | RemoteError | Unreachable | ConfigDrift | Resource | ImageMissing

fun failure_kind_name :: "failure_kind \<Rightarrow> string" where
  "failure_kind_name FkOk = ''ok''"
| "failure_kind_name AuthFailure = ''auth_failure''"
| "failure_kind_name RateLimited = ''rate_limited''"
| "failure_kind_name RemoteError = ''remote_error''"
| "failure_kind_name Unreachable = ''unreachable''"
| "failure_kind_name ConfigDrift = ''config_drift''"
| "failure_kind_name Resource = ''resource''"
| "failure_kind_name ImageMissing = ''image_missing''"

datatype probe_id = PGithub | PLinear | PDocker

fun probe_name :: "probe_id \<Rightarrow> string" where
  "probe_name PGithub = ''github''"
| "probe_name PLinear = ''linear''"
| "probe_name PDocker = ''docker''"

record subprobe =
  sp_name :: string
  sp_status :: check_status
  sp_failureKind :: failure_kind
  sp_latencyMs :: int
  sp_detail :: string

record probe_result =
  pb_status :: check_status
  pb_failureKind :: failure_kind
  pb_checkedAt :: string
  pb_lastSuccessAt :: "string option"
  pb_lastFailureAt :: "string option"
  pb_latencyMs :: int
  pb_detail :: string
  pb_subprobes :: "subprobe list"
  pb_windowOk :: nat
  pb_windowFailed :: nat

record health_checks =
  hc_github :: probe_result
  hc_linear :: probe_result
  hc_docker :: probe_result

section \<open>timed-probe.ts\<close>

definition timedSubprobe ::
  "string \<Rightarrow> int \<Rightarrow> int \<Rightarrow> int \<Rightarrow> check_status \<times> failure_kind \<times> string \<Rightarrow> subprobe" where
  "timedSubprobe name slowMs downMs latencyMs decision =
     (let (status, kind, detail) = decision;
          (status', detail') =
            (if status = ChkOk \<and> latencyMs \<ge> downMs
             then (ChkDown, if detail \<noteq> [] then detail
                     else name @ '' timeout (>'' @ show_int downMs @ ''ms)'')
             else if status = ChkOk \<and> latencyMs \<ge> slowMs
             then (ChkSlow, if detail \<noteq> [] then detail
                     else name @ '' slow ('' @ show_int latencyMs @ ''ms)'')
             else (status, detail))
      in \<lparr>sp_name = name, sp_status = status', sp_failureKind = kind, sp_latencyMs = latencyMs,
          sp_detail = detail'\<rparr>)"

section \<open>health-runner.ts\<close>

definition WINDOW_SIZE :: nat where
  "WINDOW_SIZE = 5"

definition STEADY_STATE_INTERVAL_TICKS :: int where
  "STEADY_STATE_INTERVAL_TICKS = 5"

text \<open>The sliding window holds \<open>True\<close> for \<open>"ok"\<close> and \<open>False\<close> for \<open>"fail"\<close>.\<close>

record probe_state =
  ps_lastResult :: "probe_result option"
  ps_lastResultBeforeUpdate :: "probe_result option"
  ps_window :: "bool list"
  ps_lastTickRunAt :: int

definition createInitialState :: probe_state where
  "createInitialState =
     \<lparr>ps_lastResult = None, ps_lastResultBeforeUpdate = None, ps_window = [],
      ps_lastTickRunAt = - STEADY_STATE_INTERVAL_TICKS\<rparr>"

definition pushWindow :: "bool \<Rightarrow> bool list \<Rightarrow> bool list" where
  "pushWindow entry window =
     (let w = window @ [entry] in if WINDOW_SIZE < length w then tl w else w)"

fun rankStatus :: "check_status \<Rightarrow> nat" where
  "rankStatus ChkOk = 0"
| "rankStatus ChkSlow = 1"
| "rankStatus ChkUnknown = 1"
| "rankStatus ChkDegraded = 2"
| "rankStatus ChkDown = 3"

definition failures :: "bool list \<Rightarrow> nat" where
  "failures window = length (filter (\<lambda>ok. \<not> ok) window)"

definition applyHysteresis :: "check_status \<Rightarrow> bool list \<Rightarrow> check_status" where
  "applyHysteresis current window =
     (if failures window \<ge> 4
      then (if rankStatus current \<ge> rankStatus ChkDown then current else ChkDown)
      else if failures window \<ge> 2
      then (if rankStatus current \<ge> rankStatus ChkDegraded then current else ChkDegraded)
      else current)"

fun worst_of :: "subprobe \<Rightarrow> subprobe list \<Rightarrow> subprobe" where
  "worst_of worst [] = worst"
| "worst_of worst (p # ps) =
     worst_of (if rankStatus (sp_status p) > rankStatus (sp_status worst) then p else worst) ps"

definition aggregate :: "subprobe list \<Rightarrow> check_status \<times> failure_kind \<times> string \<times> int" where
  "aggregate subprobes =
     (case subprobes of
        [] \<Rightarrow> (ChkUnknown, FkOk, ''No subprobes'', 0)
      | p # ps \<Rightarrow>
          (let worst = worst_of p ps
           in (sp_status worst, sp_failureKind worst,
               if sp_status worst = ChkOk then ''All subprobes ok''
               else if sp_detail worst \<noteq> [] then sp_name worst @ '': '' @ sp_detail worst
               else sp_name worst,
               Max (sp_latencyMs ` set subprobes))))"

definition composeResult ::
  "int \<Rightarrow> int \<Rightarrow> subprobe list \<Rightarrow> probe_state \<Rightarrow> probe_result \<times> probe_state" where
  "composeResult now tickCount subprobes st =
     (let (status, kind, detail, latency) = aggregate subprobes;
          previous = ps_lastResult st;
          checkedAt = iso_of_ms now;
          window = pushWindow (status = ChkOk) (ps_window st);
          windowOk = length (filter (\<lambda>ok. ok) window);
          result = \<lparr>pb_status = applyHysteresis status window, pb_failureKind = kind, pb_checkedAt = checkedAt,
             pb_lastSuccessAt =
               (if status = ChkOk then Some checkedAt else Option.bind previous pb_lastSuccessAt),
             pb_lastFailureAt =
               (if status \<noteq> ChkOk then Some checkedAt else Option.bind previous pb_lastFailureAt),
             pb_latencyMs = latency, pb_detail = detail, pb_subprobes = subprobes,
             pb_windowOk = windowOk, pb_windowFailed = length window - windowOk\<rparr>
      in (result, \<lparr>ps_lastResult = Some result, ps_lastResultBeforeUpdate = previous, ps_window = window,
            ps_lastTickRunAt = tickCount\<rparr>))"

text \<open>A \<open>health.transition\<close> event on the bus, when the status changed.\<close>

record transition_event =
  te_probe :: probe_id
  te_previousStatus :: check_status
  te_currentStatus :: check_status
  te_failureKind :: failure_kind
  te_detail :: string
  te_checkedAt :: string

definition maybeEmitTransition ::
  "probe_id \<Rightarrow> probe_result option \<Rightarrow> probe_result \<Rightarrow> transition_event option" where
  "maybeEmitTransition probe previous result =
     (let previousStatus = (case previous of None \<Rightarrow> ChkUnknown | Some r \<Rightarrow> pb_status r)
      in if previousStatus = pb_status result then None
         else Some \<lparr>te_probe = probe, te_previousStatus = previousStatus,
                te_currentStatus = pb_status result, te_failureKind = pb_failureKind result,
                te_detail = pb_detail result, te_checkedAt = pb_checkedAt result\<rparr>)"

text \<open>The probes run in parallel, each on its own state; the model takes them in the order they were registered.\<close>

record runner =
  hr_probes :: "probe_id list"
  hr_state :: "probe_id \<Rightarrow> probe_state option"
  hr_tickCount :: int

definition new_runner :: "probe_id list \<Rightarrow> runner" where
  "new_runner probes =
     \<lparr>hr_probes = probes, hr_state = (\<lambda>p. if p \<in> set probes then Some createInitialState else None), hr_tickCount = 0\<rparr>"

definition hasNonOkInWindow :: "probe_state \<Rightarrow> bool" where
  "hasNonOkInWindow st \<longleftrightarrow> list_ex (\<lambda>ok. \<not> ok) (ps_window st)"

definition isDue :: "probe_id \<Rightarrow> runner \<Rightarrow> bool" where
  "isDue p r =
     (case hr_state r p of
        None \<Rightarrow> False
      | Some st \<Rightarrow>
          (case ps_lastResult st of
             None \<Rightarrow> True
           | Some res \<Rightarrow>
               pb_status res = ChkDown \<or> hasNonOkInWindow st \<or>
               hr_tickCount r - ps_lastTickRunAt st \<ge> STEADY_STATE_INTERVAL_TICKS))"

text \<open>
  One probe run of a tick that found the probe due: its subprobes (or the single \<open>down\<close> subprobe
  made of an exception) are composed into the result, and a transition is announced.
\<close>

definition thrown_subprobes :: "string \<Rightarrow> subprobe list" where
  "thrown_subprobes message =
     [\<lparr>sp_name = ''probe'', sp_status = ChkDown, sp_failureKind = RemoteError, sp_latencyMs = 0,
       sp_detail = message\<rparr>]"

definition invokeProbe :: "string + subprobe list \<Rightarrow> subprobe list" where
  "invokeProbe answer = (case answer of Inl message \<Rightarrow> thrown_subprobes message | Inr ps \<Rightarrow> ps)"

definition runProbe ::
  "int \<Rightarrow> probe_id \<Rightarrow> string + subprobe list \<Rightarrow> runner \<Rightarrow> runner \<times> transition_event option" where
  "runProbe now p answer r =
     (case hr_state r p of
        None \<Rightarrow> (r, None)
      | Some st \<Rightarrow>
          (case composeResult now (hr_tickCount r) (invokeProbe answer) st of
             (result, st') \<Rightarrow>
               (r\<lparr>hr_state := (hr_state r)(p := Some st')\<rparr>,
                maybeEmitTransition p (ps_lastResultBeforeUpdate st') result)))"

fun run_due ::
  "int \<Rightarrow> (probe_id \<Rightarrow> string + subprobe list) \<Rightarrow> probe_id list \<Rightarrow> runner \<Rightarrow> runner \<times> transition_event list" where
  "run_due now answers [] r = (r, [])"
| "run_due now answers (p # ps) r =
     (let (r1, ev) = runProbe now p (answers p) r; (r2, evs) = run_due now answers ps r1
      in (r2, (case ev of None \<Rightarrow> [] | Some e \<Rightarrow> [e]) @ evs))"

definition health_tick ::
  "int \<Rightarrow> (probe_id \<Rightarrow> string + subprobe list) \<Rightarrow> runner \<Rightarrow> runner \<times> transition_event list" where
  "health_tick now answers r =
     (let r1 = r\<lparr>hr_tickCount := hr_tickCount r + 1\<rparr>
      in run_due now answers (filter (\<lambda>p. isDue p r1) (hr_probes r1)) r1)"

definition resolveResult :: "int \<Rightarrow> probe_id \<Rightarrow> runner \<Rightarrow> probe_result" where
  "resolveResult now p r =
     (case Option.bind (hr_state r p) ps_lastResult of
        Some res \<Rightarrow> res
      | None \<Rightarrow>
          \<lparr>pb_status = ChkUnknown, pb_failureKind = FkOk, pb_checkedAt = iso_of_ms now,
           pb_lastSuccessAt = None, pb_lastFailureAt = None, pb_latencyMs = 0,
           pb_detail = ''No probe configured'', pb_subprobes = [], pb_windowOk = 0, pb_windowFailed = 0\<rparr>)"

definition getChecks :: "int \<Rightarrow> runner \<Rightarrow> health_checks" where
  "getChecks now r =
     \<lparr>hc_github = resolveResult now PGithub r, hc_linear = resolveResult now PLinear r,
      hc_docker = resolveResult now PDocker r\<rparr>"

section \<open>health-notification-bridge.ts\<close>

record health_notification =
  hn_type :: string
  hn_severity :: severity
  hn_timestamp :: string
  hn_title :: string
  hn_message :: string
  hn_source :: string
  hn_dedupeKey :: string

text \<open>The arrow of the messages is one code unit outside Latin-1; it is written \<open>->\<close> here.\<close>

definition health_bridge :: "transition_event \<Rightarrow> health_notification option" where
  "health_bridge e =
     (let probe = probe_name (te_probe e)
      in if te_currentStatus e = ChkDown
         then Some \<lparr>hn_type = ''health_down'', hn_severity = Critical, hn_timestamp = te_checkedAt e,
                hn_title = probe @ '' health: down'',
                hn_message = (if te_detail e \<noteq> [] then te_detail e
                  else probe @ '' probe transitioned '' @ check_status_name (te_previousStatus e) @ '' -> down''),
                hn_source = ''health-probe:'' @ probe, hn_dedupeKey = ''health:'' @ probe @ '':down''\<rparr>
         else if te_previousStatus e = ChkDown \<and> te_currentStatus e = ChkOk
         then Some \<lparr>hn_type = ''health_recovered'', hn_severity = Info, hn_timestamp = te_checkedAt e,
                hn_title = probe @ '' health: recovered'',
                hn_message = probe @ '' probe recovered from down -> ok'',
                hn_source = ''health-probe:'' @ probe, hn_dedupeKey = ''health:'' @ probe @ '':recovered''\<rparr>
         else None)"

section \<open>Hysteresis\<close>

lemma pushWindow_take_last: "length w \<le> WINDOW_SIZE \<Longrightarrow> pushWindow e w = take_last WINDOW_SIZE (w @ [e])"
  by (cases w) (auto simp: pushWindow_def take_last_def WINDOW_SIZE_def Let_def drop_Cons')

lemma length_pushWindow: "length w \<le> WINDOW_SIZE \<Longrightarrow> length (pushWindow e w) \<le> WINDOW_SIZE"
  by (auto simp: pushWindow_def WINDOW_SIZE_def Let_def)

definition floor_status :: "bool list \<Rightarrow> nat" where
  "floor_status window = (if failures window \<ge> 4 then 3 else if failures window \<ge> 2 then 2 else 0)"

text \<open>
  A probe is never reported better than its last answer nor better than its window allows (two
  or three failures of the last five make it at least degraded, four or five make it down), and
  never worse than the worse of the two.
\<close>

theorem applyHysteresis_spec:
  "rankStatus (applyHysteresis current window) = max (rankStatus current) (floor_status window) \<and>
   (applyHysteresis current window = current) = (floor_status window \<le> rankStatus current)"
  by (cases current) (auto simp: applyHysteresis_def floor_status_def)

lemma failures_push_le: "failures w \<le> failures (pushWindow True w) + 1"
  by (cases w) (auto simp: pushWindow_def failures_def Let_def)

lemma composeResult_ok:
  assumes "fst (aggregate ps) = ChkOk"
  shows "pb_status (fst (composeResult now n ps st)) = applyHysteresis ChkOk (pushWindow True (ps_window st))"
    and "ps_window (snd (composeResult now n ps st)) = pushWindow True (ps_window st)"
    and "ps_lastResult (snd (composeResult now n ps st)) = Some (fst (composeResult now n ps st))"
    and "ps_lastResultBeforeUpdate (snd (composeResult now n ps st)) = ps_lastResult st"
  using assms by (auto simp: composeResult_def Let_def split: prod.splits)

fun probe_runs ::
  "probe_id \<Rightarrow> (int \<times> (string + subprobe list)) list \<Rightarrow> runner \<Rightarrow> runner \<times> transition_event list" where
  "probe_runs p [] r = (r, [])"
| "probe_runs p ((now, answer) # rest) r =
     (let (r1, ev) = runProbe now p answer r; (r2, evs) = probe_runs p rest r1
      in (r2, (case ev of None \<Rightarrow> [] | Some e \<Rightarrow> [e]) @ evs))"

definition announces_recovery :: "transition_event \<Rightarrow> bool" where
  "announces_recovery e \<longleftrightarrow> (case health_bridge e of None \<Rightarrow> False | Some n \<Rightarrow> hn_type n = ''health_recovered'')"

lemma announces_recovery_iff:
  "announces_recovery e \<longleftrightarrow> te_previousStatus e = ChkDown \<and> te_currentStatus e = ChkOk"
  by (auto simp: announces_recovery_def health_bridge_def Let_def)

text \<open>The window is worse than the report a successful run left: then a recovery passes through degraded.\<close>

definition latched :: "probe_state \<Rightarrow> bool" where
  "latched st \<longleftrightarrow> (\<exists>res. ps_lastResult st = Some res \<and>
     (pb_status res = ChkDown \<longrightarrow> 2 \<le> failures (pushWindow True (ps_window st))))"

lemma latched_run:
  assumes "hr_state r p = Some st" and "latched st" and "fst (aggregate (invokeProbe answer)) = ChkOk"
  shows "\<exists>st'. hr_state (fst (runProbe now p answer r)) p = Some st' \<and> latched st' \<and>
     ps_window st' = pushWindow True (ps_window st) \<and>
     (\<exists>res. ps_lastResult st' = Some res \<and> pb_status res = applyHysteresis ChkOk (ps_window st')) \<and>
     (case snd (runProbe now p answer r) of None \<Rightarrow> True | Some e \<Rightarrow> \<not> announces_recovery e)"
proof -
  obtain res st' where c: "composeResult now (hr_tickCount r) (invokeProbe answer) st = (res, st')" by fastforce
  note ok = composeResult_ok [OF assms(3), of now "hr_tickCount r" st, unfolded c fst_conv snd_conv]
  obtain prev where prev: "ps_lastResult st = Some prev"
    "pb_status prev = ChkDown \<longrightarrow> 2 \<le> failures (pushWindow True (ps_window st))"
    using assms(2) by (auto simp: latched_def)
  have "pb_status res = ChkDown \<longrightarrow> 4 \<le> failures (ps_window st')"
    by (auto simp: ok applyHysteresis_def split: if_splits)
  then have "latched st'"
    using failures_push_le [of "ps_window st'"] by (auto simp: latched_def ok(3))
  moreover have "pb_status prev = ChkDown \<longrightarrow> pb_status res \<noteq> ChkOk"
    using prev(2) by (auto simp: ok applyHysteresis_def)
  ultimately show ?thesis
    using ok prev(1)
    by (auto simp: runProbe_def assms(1) c maybeEmitTransition_def announces_recovery_iff Let_def)
qed

lemma latched_runs:
  "hr_state r p = Some st \<Longrightarrow> latched st \<Longrightarrow> \<forall>a \<in> snd ` set answers. fst (aggregate (invokeProbe a)) = ChkOk \<Longrightarrow>
     list_all (\<lambda>e. \<not> announces_recovery e) (snd (probe_runs p answers r)) \<and>
     (\<exists>st'. hr_state (fst (probe_runs p answers r)) p = Some st' \<and>
        ps_window st' = (pushWindow True ^^ length answers) (ps_window st) \<and>
        (answers \<noteq> [] \<longrightarrow> (\<exists>res. ps_lastResult st' = Some res \<and> pb_status res = applyHysteresis ChkOk (ps_window st'))))"
proof (induction answers arbitrary: r st)
  case (Cons x answers)
  obtain now answer where x: "x = (now, answer)" by fastforce
  have "fst (aggregate (invokeProbe answer)) = ChkOk" using Cons.prems(3) by (simp add: x)
  from latched_run [OF Cons.prems(1,2) this, of now] obtain st1 where
    1: "hr_state (fst (runProbe now p answer r)) p = Some st1" "latched st1"
       "ps_window st1 = pushWindow True (ps_window st)"
       "\<exists>res. ps_lastResult st1 = Some res \<and> pb_status res = applyHysteresis ChkOk (ps_window st1)"
       "case snd (runProbe now p answer r) of None \<Rightarrow> True | Some e \<Rightarrow> \<not> announces_recovery e"
    by blast
  obtain r1 ev where r1: "runProbe now p answer r = (r1, ev)" by fastforce
  obtain r2 evs where r2: "probe_runs p answers r1 = (r2, evs)" by fastforce
  have "hr_state r1 p = Some st1" using 1(1) by (simp add: r1)
  from Cons.IH [OF this 1(2)] Cons.prems(3) obtain st2 where
    2: "list_all (\<lambda>e. \<not> announces_recovery e) evs" "hr_state r2 p = Some st2"
       "ps_window st2 = (pushWindow True ^^ length answers) (ps_window st1)"
       "answers \<noteq> [] \<longrightarrow> (\<exists>res. ps_lastResult st2 = Some res \<and> pb_status res = applyHysteresis ChkOk (ps_window st2))"
    by (auto simp: r2)
  have "st2 = st1" if "answers = []" using that r2 2(2) \<open>hr_state r1 p = Some st1\<close> by simp
  then have "\<exists>res. ps_lastResult st2 = Some res \<and> pb_status res = applyHysteresis ChkOk (ps_window st2)"
    using 1(4) 2(4) by (cases "answers = []") simp_all
  then show ?case
    using 1(3,5) 2(1-3) by (simp add: x r1 r2 funpow_swap1 split: option.splits)
qed simp

lemma window_after_oks:
  assumes "length w \<le> WINDOW_SIZE"
  shows "(pushWindow True ^^ n) w = take_last WINDOW_SIZE (w @ replicate n True)"
proof (induction n)
  case 0
  then show ?case using assms by (simp add: take_last_def)
next
  case (Suc n)
  have "(pushWindow True ^^ Suc n) w = take_last WINDOW_SIZE (take_last WINDOW_SIZE (w @ replicate n True) @ [True])"
    by (simp add: Suc pushWindow_take_last)
  also have "\<dots> = take_last WINDOW_SIZE (w @ replicate (Suc n) True)"
    by (simp add: take_last_append_take_last replicate_append_same)
  finally show ?case .
qed

lemma failures_after_oks:
  assumes "length w \<le> WINDOW_SIZE" and "4 \<le> n"
  shows "failures ((pushWindow True ^^ n) w) \<le> 1"
proof -
  have "failures (take_last WINDOW_SIZE (w @ replicate n True)) = failures (drop (length w + n - WINDOW_SIZE) w)"
    by (simp add: take_last_def failures_def)
  also have "\<dots> \<le> length (drop (length w + n - WINDOW_SIZE) w)" unfolding failures_def by (rule length_filter_le)
  also have "\<dots> \<le> 1" using assms by (simp add: WINDOW_SIZE_def)
  finally show ?thesis by (simp add: window_after_oks [OF assms(1)])
qed

text \<open>
  An outage of two failed runs or more is announced when the probe goes down, but its end never
  is: successful runs bring the report back to ok after at most five of them, by way of degraded, and
  the bridge announces a recovery only on the direct step from down to ok.
\<close>

theorem outage_end_not_announced:
  assumes "hr_state r p = Some st" and "ps_lastResult st = Some res" and "pb_status res = ChkDown"
    and "length (ps_window st) \<le> WINDOW_SIZE" and "2 \<le> failures (pushWindow True (ps_window st))"
    and "\<And>now answer. (now, answer) \<in> set answers \<Longrightarrow> fst (aggregate (invokeProbe answer)) = ChkOk"
    and "5 \<le> length answers"
  shows "pb_status (resolveResult t p (fst (probe_runs p answers r))) = ChkOk \<and>
     filter announces_recovery (snd (probe_runs p answers r)) = []"
proof -
  have "latched st" using assms(2,5) by (simp add: latched_def)
  from latched_runs [OF assms(1) this, of answers] assms(6) obtain st' where
    l: "list_all (\<lambda>e. \<not> announces_recovery e) (snd (probe_runs p answers r))"
       "hr_state (fst (probe_runs p answers r)) p = Some st'"
       "ps_window st' = (pushWindow True ^^ length answers) (ps_window st)"
       "answers \<noteq> [] \<longrightarrow> (\<exists>res'. ps_lastResult st' = Some res' \<and> pb_status res' = applyHysteresis ChkOk (ps_window st'))"
    by fastforce
  have "failures (ps_window st') \<le> 1"
    using failures_after_oks [OF assms(4), of "length answers"] assms(7) by (simp add: l(3))
  then have "applyHysteresis ChkOk (ps_window st') = ChkOk" by (simp add: applyHysteresis_def)
  moreover have "answers \<noteq> []" using assms(7) by auto
  ultimately show ?thesis
    using l by (auto simp: resolveResult_def filter_empty_conv list_all_iff)
qed

definition sample_subprobe :: "check_status \<Rightarrow> subprobe" where
  "sample_subprobe st =
     \<lparr>sp_name = ''auth'', sp_status = st, sp_failureKind = (if st = ChkOk then FkOk else RemoteError),
      sp_latencyMs = 10, sp_detail = []\<rparr>"

definition failed_state :: probe_state where
  "failed_state =
     \<lparr>ps_lastResult = Some \<lparr>pb_status = ChkDown, pb_failureKind = RemoteError, pb_checkedAt = ''c'',
        pb_lastSuccessAt = None, pb_lastFailureAt = Some ''c'', pb_latencyMs = 10, pb_detail = ''auth'',
        pb_subprobes = [sample_subprobe ChkDown], pb_windowOk = 0, pb_windowFailed = 2\<rparr>,
      ps_lastResultBeforeUpdate = None, ps_window = [False, False], ps_lastTickRunAt = 2\<rparr>"

definition failed_runner :: runner where
  "failed_runner = (new_runner [PGithub])\<lparr>hr_state := (\<lambda>_. None)(PGithub := Some failed_state)\<rparr>"

theorem outage_end_not_announced_witness:
  "pb_status (resolveResult 0 PGithub (fst (probe_runs PGithub (replicate 5 (0, Inr [sample_subprobe ChkOk])) failed_runner))) = ChkOk \<and>
   filter announces_recovery (snd (probe_runs PGithub (replicate 5 (0, Inr [sample_subprobe ChkOk])) failed_runner)) = []"
proof (rule outage_end_not_announced)
  show "hr_state failed_runner PGithub = Some failed_state" by (simp add: failed_runner_def)
  show "ps_lastResult failed_state = Some (the (ps_lastResult failed_state))"
    "pb_status (the (ps_lastResult failed_state)) = ChkDown"
    "length (ps_window failed_state) \<le> WINDOW_SIZE" "2 \<le> failures (pushWindow True (ps_window failed_state))"
    by (simp_all add: failed_state_def WINDOW_SIZE_def failures_def pushWindow_def Let_def)
  show "5 \<le> length (replicate 5 (0, Inr [sample_subprobe ChkOk]))" by simp
qed (auto simp: in_set_replicate invokeProbe_def aggregate_def sample_subprobe_def Let_def)

section \<open>Cadence\<close>

definition ran_recently :: "runner \<Rightarrow> probe_id \<Rightarrow> bool" where
  "ran_recently r p \<longleftrightarrow> (case hr_state r p of None \<Rightarrow> False | Some st \<Rightarrow>
     ps_lastResult st \<noteq> None \<and> hr_tickCount r - ps_lastTickRunAt st < STEADY_STATE_INTERVAL_TICKS)"

lemma runProbe_state:
  "hr_tickCount (fst (runProbe now p a r)) = hr_tickCount r"
  "hr_probes (fst (runProbe now p a r)) = hr_probes r"
  "q \<noteq> p \<Longrightarrow> hr_state (fst (runProbe now p a r)) q = hr_state r q"
  "hr_state r p \<noteq> None \<Longrightarrow> ran_recently (fst (runProbe now p a r)) p"
  by (auto simp: runProbe_def composeResult_def ran_recently_def Let_def STEADY_STATE_INTERVAL_TICKS_def
      split: option.splits prod.splits)

lemma run_due_state:
  "hr_tickCount (fst (run_due now answers ps r)) = hr_tickCount r \<and>
   hr_probes (fst (run_due now answers ps r)) = hr_probes r \<and>
   (hr_state r q \<noteq> None \<longrightarrow> (if q \<in> set ps then ran_recently (fst (run_due now answers ps r)) q
     else hr_state (fst (run_due now answers ps r)) q = hr_state r q))"
proof (induction ps arbitrary: r q)
  case (Cons p ps)
  obtain r1 ev where r1: "runProbe now p (answers p) r = (r1, ev)" by fastforce
  note run = runProbe_state [where now = now and p = p and a = "answers p" and r = r, unfolded r1 fst_conv]
  have "hr_state r1 q \<noteq> None" if "hr_state r q \<noteq> None"
    using that run(3,4) by (cases "q = p") (auto simp: ran_recently_def split: option.splits)
  moreover have "ran_recently (fst (run_due now answers ps r1)) p" if "p \<notin> set ps" "hr_state r p \<noteq> None"
    using Cons.IH [of r1 p] run(4) [OF that(2)] that(1)
    by (cases "hr_state r1 p") (auto simp: ran_recently_def r1 split: option.splits)
  ultimately show ?case
    using Cons.IH [of r1 q] run by (auto simp: r1 Let_def split: prod.splits if_splits)
qed simp

definition regular :: "runner \<Rightarrow> bool" where
  "regular r \<longleftrightarrow> (\<forall>p \<in> set (hr_probes r). case hr_state r p of None \<Rightarrow> False | Some st \<Rightarrow>
     ps_lastResult st = None \<or> hr_tickCount r - ps_lastTickRunAt st < STEADY_STATE_INTERVAL_TICKS)"

lemma tick_ran_recently:
  assumes "regular r" and "p \<in> set (hr_probes r)"
  shows "ran_recently (fst (health_tick now answers r)) p"
proof -
  define r1 where "r1 = r\<lparr>hr_tickCount := hr_tickCount r + 1\<rparr>"
  have p: "hr_state r1 p \<noteq> None" "p \<in> set (hr_probes r1)"
    using assms by (auto simp: r1_def regular_def split: option.splits)
  have "ran_recently (fst (run_due now answers ps r1)) p" if "\<not> isDue p r1" "p \<notin> set ps" for ps
    using run_due_state [where now = now and answers = answers and ps = ps and r = r1 and q = p] that p
    by (auto simp: ran_recently_def isDue_def split: option.splits)
  then show ?thesis
    using run_due_state [where now = now and answers = answers and ps = "filter (\<lambda>p. isDue p r1) (hr_probes r1)" and r = r1 and q = p] p
    by (cases "isDue p r1") (auto simp: health_tick_def Let_def simp flip: r1_def)
qed

lemma health_tick_probes: "hr_probes (fst (health_tick now answers r)) = hr_probes r"
  using run_due_state [where now = now and answers = answers and r = "r\<lparr>hr_tickCount := hr_tickCount r + 1\<rparr>"]
  by (simp add: health_tick_def Let_def)

interpretation health_machine: event_machine "\<lambda>(now, answers) r. fst (health_tick now answers r)" regular
proof
  fix r :: runner and e :: "int \<times> (probe_id \<Rightarrow> string + subprobe list)"
  assume "regular r"
  then have "ran_recently (fst (health_tick now answers r)) p" if "p \<in> set (hr_probes r)" for now answers p
    using that by (rule tick_ran_recently)
  then show "regular ((case e of (now, answers) \<Rightarrow> \<lambda>r. fst (health_tick now answers r)) r)"
    by (cases e) (force simp: regular_def ran_recently_def health_tick_probes split: option.splits)
qed

lemma new_runner_regular: "regular (new_runner probes)"
  by (simp add: regular_def new_runner_def createInitialState_def)

lemma ticks_probes:
  "hr_probes (fold (\<lambda>(now, answers) r. fst (health_tick now answers r)) ticks r) = hr_probes r"
  by (induction ticks arbitrary: r) (auto simp: health_tick_probes)

text \<open>
  No registered probe goes unchecked for long: after any number of ticks, whatever the probes
  answered, each of them has a result, and that result is at most four ticks old.
\<close>

theorem probes_run_regularly:
  assumes "p \<in> set probes" and "ticks \<noteq> []"
  shows "ran_recently (fold (\<lambda>(now, answers) r. fst (health_tick now answers r)) ticks (new_runner probes)) p"
proof -
  obtain ts now answers where t: "ticks = ts @ [(now, answers)]"
    using assms(2) by (metis prod.collapse rev_exhaust)
  have "regular (fold (\<lambda>(now, answers) r. fst (health_tick now answers r)) ts (new_runner probes))"
    by (rule health_machine.run_good [OF new_runner_regular])
  moreover have "p \<in> set (hr_probes (fold (\<lambda>(now, answers) r. fst (health_tick now answers r)) ts (new_runner probes)))"
    using assms(1) by (simp add: ticks_probes) (simp add: new_runner_def)
  ultimately show ?thesis
    using tick_ran_recently [of "fold (\<lambda>(now, answers) r. fst (health_tick now answers r)) ts (new_runner probes)" p]
    by (simp add: t)
qed

theorem probes_run_regularly_witness:
  "ran_recently (fold (\<lambda>(now, answers) r. fst (health_tick now answers r))
     [(0, \<lambda>_. Inr [sample_subprobe ChkOk])] (new_runner [PGithub, PLinear])) PLinear"
  by (rule probes_run_regularly) simp_all

end
