(* ===== verification/WebhookHealth.thy ===== *)
theory WebhookHealth
  imports CoreTypes
begin

text \<open>
  The webhook health tracker, \<open>src/src/webhook/health-tracker.ts\<close> and \<open>types.ts\<close>: a state machine over
  verified deliveries, subscription checks, the firing of its cooldown timer and \<open>stop\<close>. The timer is
  the time it is due; the events it emits are collected in the order of the calls.
\<close>

datatype webhook_status = Connected | WDegraded | Disconnected

fun webhook_status_name :: "webhook_status \<Rightarrow> string" where
  "webhook_status_name Connected = ''connected''"
| "webhook_status_name WDegraded = ''degraded''"
| "webhook_status_name Disconnected = ''disconnected''"

record webhook_config =
  wc_pollingBaseMs :: int
  wc_pollingStretchMs :: int
  wc_webhookUrl :: string

record webhook_stats =
  wst_deliveriesReceived :: nat
  wst_lastDeliveryAt :: "string option"
  wst_lastEventType :: "string option"

record webhook_health =
  wh_status :: webhook_status
  wh_effectiveIntervalMs :: int
  wh_stats :: webhook_stats
  wh_lastDeliveryAt :: "string option"
  wh_lastEventType :: "string option"

datatype webhook_event =
    WebhookReceived string string
  | HealthChanged webhook_status webhook_status

record tracker =
  tr_status :: webhook_status
  tr_deliveriesReceived :: nat
  tr_lastDeliveryAt :: "string option"
  tr_lastEventType :: "string option"
  tr_cooldownTimer :: "int option"
  tr_stopped :: bool
  tr_events :: "webhook_event list"

definition DEGRADED_COOLDOWN_MS :: int where
  "DEGRADED_COOLDOWN_MS = 60000"

definition new_tracker :: tracker where
  "new_tracker =
     \<lparr>tr_status = Disconnected, tr_deliveriesReceived = 0, tr_lastDeliveryAt = None,
      tr_lastEventType = None, tr_cooldownTimer = None, tr_stopped = False, tr_events = []\<rparr>"

definition emit_webhook :: "webhook_event \<Rightarrow> tracker \<Rightarrow> tracker" where
  "emit_webhook e t = t\<lparr>tr_events := tr_events t @ [e]\<rparr>"

definition transition :: "webhook_status \<Rightarrow> tracker \<Rightarrow> tracker" where
  "transition newStatus t =
     (if tr_status t = newStatus then t
      else emit_webhook (HealthChanged (tr_status t) newStatus) (t\<lparr>tr_status := newStatus\<rparr>))"

definition startCooldown :: "int \<Rightarrow> tracker \<Rightarrow> tracker" where
  "startCooldown now t = t\<lparr>tr_cooldownTimer := Some (now + DEGRADED_COOLDOWN_MS)\<rparr>"

definition resetCooldown :: "tracker \<Rightarrow> tracker" where
  "resetCooldown t = t\<lparr>tr_cooldownTimer := None\<rparr>"

definition recordVerifiedDelivery :: "int \<Rightarrow> string \<Rightarrow> tracker \<Rightarrow> tracker" where
  "recordVerifiedDelivery now eventType t =
     (if tr_stopped t then t
      else
        (let t1 = emit_webhook (WebhookReceived eventType (iso_of_ms now))
               (t\<lparr>tr_deliveriesReceived := tr_deliveriesReceived t + 1,
                  tr_lastDeliveryAt := Some (iso_of_ms now), tr_lastEventType := Some eventType\<rparr>)
         in if tr_status t1 = Disconnected then transition Connected t1
            else if tr_status t1 = WDegraded then startCooldown now t1
            else t1))"

definition recordSubscriptionCheck :: "bool \<Rightarrow> tracker \<Rightarrow> tracker" where
  "recordSubscriptionCheck enabled t =
     (if tr_stopped t then t
      else if \<not> enabled \<and> tr_status t = Connected then transition WDegraded t
      else if \<not> enabled \<and> tr_status t = WDegraded then resetCooldown t
      else t)"

text \<open>The callback of the cooldown timer, when it is due.\<close>

definition cooldownFired :: "int \<Rightarrow> tracker \<Rightarrow> tracker" where
  "cooldownFired now t =
     (case tr_cooldownTimer t of
        None \<Rightarrow> t
      | Some due \<Rightarrow>
          if now < due then t
          else (let t1 = t\<lparr>tr_cooldownTimer := None\<rparr>
                in if \<not> tr_stopped t1 \<and> tr_status t1 = WDegraded then transition Connected t1 else t1))"

definition stop_tracker :: "tracker \<Rightarrow> tracker" where
  "stop_tracker t =
     (if tr_stopped t then t
      else
        (let t1 = t\<lparr>tr_stopped := True, tr_cooldownTimer := None\<rparr>
         in if tr_status t1 \<noteq> Disconnected
            then emit_webhook (HealthChanged (tr_status t1) Disconnected) (t1\<lparr>tr_status := Disconnected\<rparr>)
            else t1))"

text \<open>
  \<open>runSubscriptionCheck\<close>: the answer of the tracker's GraphQL endpoint is \<open>Inl\<close> for a rejected call
  and \<open>Inr\<close> the nodes (URL and flag) otherwise.
\<close>

definition runSubscriptionCheck :: "webhook_config \<Rightarrow> unit + (string \<times> bool) list \<Rightarrow> tracker \<Rightarrow> tracker" where
  "runSubscriptionCheck config answer t =
     (if tr_stopped t then t
      else (case answer of
              Inl _ \<Rightarrow> t
            | Inr nodes \<Rightarrow>
                (case find (\<lambda>node. fst node = wc_webhookUrl config) nodes of
                   Some node \<Rightarrow> recordSubscriptionCheck (snd node) t
                 | None \<Rightarrow> t)))"

definition computeEffectiveInterval :: "webhook_config \<Rightarrow> tracker \<Rightarrow> int" where
  "computeEffectiveInterval config t =
     (if tr_status t = Connected then wc_pollingStretchMs config else wc_pollingBaseMs config)"

definition buildStats :: "tracker \<Rightarrow> webhook_stats" where
  "buildStats t =
     \<lparr>wst_deliveriesReceived = tr_deliveriesReceived t, wst_lastDeliveryAt = tr_lastDeliveryAt t,
      wst_lastEventType = tr_lastEventType t\<rparr>"

definition tracker_health :: "webhook_config \<Rightarrow> tracker \<Rightarrow> webhook_health" where
  "tracker_health config t =
     \<lparr>wh_status = tr_status t, wh_effectiveIntervalMs = computeEffectiveInterval config t,
      wh_stats = buildStats t, wh_lastDeliveryAt = tr_lastDeliveryAt t,
      wh_lastEventType = tr_lastEventType t\<rparr>"

section \<open>The state machine\<close>

datatype tracker_input =
    Delivery int string
  | SubscriptionCheck "unit + (string \<times> bool) list"
  | CooldownTick int
  | StopTracker

fun tracker_step :: "webhook_config \<Rightarrow> tracker_input \<Rightarrow> tracker \<Rightarrow> tracker" where
  "tracker_step config (Delivery now ty) t = recordVerifiedDelivery now ty t"
| "tracker_step config (SubscriptionCheck answer) t = runSubscriptionCheck config answer t"
| "tracker_step config (CooldownTick now) t = cooldownFired now t"
| "tracker_step config StopTracker t = stop_tracker t"

lemmas tracker_defs = recordVerifiedDelivery_def runSubscriptionCheck_def recordSubscriptionCheck_def
  cooldownFired_def stop_tracker_def transition_def startCooldown_def resetCooldown_def emit_webhook_def

text \<open>
  A cooldown only runs while the tracker is degraded; a stopped tracker is disconnected with no timer;
  the announced changes chain up from disconnected to the present status, each to another status.
\<close>

fun chained :: "webhook_status \<Rightarrow> webhook_event list \<Rightarrow> webhook_status option" where
  "chained st [] = Some st"
| "chained st (HealthChanged a b # es) = (if a = st \<and> b \<noteq> a then chained b es else None)"
| "chained st (WebhookReceived ty at_iso # es) = chained st es"

lemma chained_append: "chained st (es @ fs) = Option.bind (chained st es) (\<lambda>st'. chained st' fs)"
  by (induction st es rule: chained.induct) auto

definition tracker_inv :: "tracker \<Rightarrow> bool" where
  "tracker_inv t \<longleftrightarrow>
     (tr_cooldownTimer t \<noteq> None \<longrightarrow> tr_status t = WDegraded) \<and>
     (tr_stopped t \<longrightarrow> tr_status t = Disconnected \<and> tr_cooldownTimer t = None) \<and>
     (tr_status t \<noteq> Disconnected \<longrightarrow> 0 < tr_deliveriesReceived t) \<and>
     chained Disconnected (tr_events t) = Some (tr_status t) \<and>
     tr_deliveriesReceived t = length (filter (\<lambda>e. case e of WebhookReceived _ _ \<Rightarrow> True | _ \<Rightarrow> False) (tr_events t))"

lemma tracker_step_inv: "tracker_inv t \<Longrightarrow> tracker_inv (tracker_step config e t)"
  by (cases e) (auto simp: tracker_inv_def tracker_defs chained_append Let_def split: sum.splits option.splits)

interpretation tracker_machine: event_machine "tracker_step config" tracker_inv
  by unfold_locales (rule tracker_step_inv)

text \<open>
  Whatever deliveries, subscription answers and timer callbacks the tracker sees: its status
  changes were all announced, each from the status before, and chain up to the present one; a
  cooldown runs only in the degraded state; it never leaves disconnected without a verified delivery;
  every delivery of a running tracker is counted; and the polling interval is stretched exactly when
  connected.
\<close>

theorem tracker_run_inv:
  "tracker_inv (fold (tracker_step config) es new_tracker) \<and>
   (wh_effectiveIntervalMs (tracker_health config (fold (tracker_step config) es new_tracker)) =
      (if wh_status (tracker_health config (fold (tracker_step config) es new_tracker)) = Connected
       then wc_pollingStretchMs config else wc_pollingBaseMs config))"
proof -
  have "tracker_inv new_tracker" by (simp add: tracker_inv_def new_tracker_def)
  then show ?thesis
    by (simp add: tracker_machine.run_good tracker_health_def computeEffectiveInterval_def)
qed

text \<open>
  A degraded tracker becomes connected only by its cooldown: 60 seconds without a failed
  subscription check or a later delivery after the last delivery; a disabled subscription cancels the
  cooldown, so then only another delivery can start it.
\<close>

theorem degraded_promotion:
  assumes "tr_status t = WDegraded" and "\<not> tr_stopped t"
  shows "tr_status (tracker_step config e t) =
     (case e of
        CooldownTick now \<Rightarrow>
          (case tr_cooldownTimer t of Some due \<Rightarrow> if due \<le> now then Connected else WDegraded | None \<Rightarrow> WDegraded)
      | StopTracker \<Rightarrow> Disconnected | _ \<Rightarrow> WDegraded) \<and>
     tr_cooldownTimer (recordVerifiedDelivery now ty t) = Some (now + 60000) \<and>
     tr_cooldownTimer (recordSubscriptionCheck False t) = None"
  using assms
  by (cases e) (auto simp: tracker_defs Let_def DEGRADED_COOLDOWN_MS_def split: sum.splits option.splits)

definition sample_degraded :: tracker where
  "sample_degraded = recordSubscriptionCheck False (recordVerifiedDelivery 0 ''Issue'' new_tracker)"

theorem degraded_promotion_witness:
  "tr_status (tracker_step \<lparr>wc_pollingBaseMs = 1, wc_pollingStretchMs = 9, wc_webhookUrl = ''u''\<rparr>
     (CooldownTick 60000) (recordVerifiedDelivery 0 ''Issue'' sample_degraded)) = Connected"
proof -
  have s: "tr_status sample_degraded = WDegraded" "\<not> tr_stopped sample_degraded"
    by (simp_all add: sample_degraded_def tracker_defs new_tracker_def Let_def)
  note d = degraded_promotion [OF s, of undefined "Delivery 0 ''Issue''" 0 "''Issue''"]
  then have "tr_status (recordVerifiedDelivery 0 ''Issue'' sample_degraded) = WDegraded"
    "tr_cooldownTimer (recordVerifiedDelivery 0 ''Issue'' sample_degraded) = Some 60000" by simp_all
  moreover have "\<not> tr_stopped (recordVerifiedDelivery 0 ''Issue'' sample_degraded)"
    using s by (simp add: tracker_defs Let_def)
  ultimately show ?thesis
    using degraded_promotion [of "recordVerifiedDelivery 0 ''Issue'' sample_degraded" _ "CooldownTick 60000"] by simp
qed

end
