(* ===== verification/WatchdogModel.thy ===== *)
theory WatchdogModel
  imports LifecycleState
begin

text \<open>
  The workflow watchdog, \<open>src/src/orchestrator/watchdog.ts\<close>. Its context reads the orchestrator's
  state: the number of running entries and queued views and the stall events.
\<close>

datatype health_status = Healthy | HDegraded | HCritical

fun health_status_name :: "health_status \<Rightarrow> string" where
  "health_status_name Healthy = ''healthy''"
| "health_status_name HDegraded = ''degraded''"
| "health_status_name HCritical = ''critical''"

record watchdog_health =
  wd_status :: health_status
  wd_checkedAt :: string
  wd_runningCount :: nat
  wd_recentStalls :: "stall_event list"
  wd_message :: string

record watchdog =
  wd_timer :: bool
  wd_health :: watchdog_health

definition STALL_WINDOW_MS :: int where
  "STALL_WINDOW_MS = 300000"

definition new_watchdog :: "int \<Rightarrow> watchdog" where
  "new_watchdog now =
     \<lparr>wd_timer = False,
      wd_health = \<lparr>wd_status = Healthy, wd_checkedAt = iso_of_ms now, wd_runningCount = 0,
        wd_recentStalls = [], wd_message = ''not started''\<rparr>\<rparr>"

text \<open>
  \<open>new Date(s.at).getTime() >= cutoff\<close>, false when the text does not parse. The dash of the idle
  message is one code unit outside Latin-1; it is written as a hyphen.
\<close>

definition recent_stalls :: "host \<Rightarrow> int \<Rightarrow> stall_event list \<Rightarrow> stall_event list" where
  "recent_stalls h now stalls =
     filter (\<lambda>e. case h_date_parse h (st_at e) of None \<Rightarrow> False | Some ms \<Rightarrow> ms \<ge> now - STALL_WINDOW_MS) stalls"

definition check_health :: "host \<Rightarrow> int \<Rightarrow> nat \<Rightarrow> nat \<Rightarrow> stall_event list \<Rightarrow> watchdog_health" where
  "check_health h now runningCount queuedCount stalls =
     (let recentStalls = recent_stalls h now stalls;
          (status, message) =
            (if recentStalls \<noteq> []
             then (HDegraded, show_nat (length recentStalls) @ '' stall(s) detected in last 5 min'')
             else if runningCount = 0 \<and> queuedCount > 0
             then (HCritical, show_nat queuedCount @ '' issue(s) queued but no agents running'')
             else (Healthy, if runningCount = 0 then ''idle - no issues queued''
                            else show_nat runningCount @ '' agent(s) running''))
      in \<lparr>wd_status = status, wd_checkedAt = iso_of_ms now, wd_runningCount = runningCount,
          wd_recentStalls = recentStalls, wd_message = message\<rparr>)"

definition runCheck :: "host \<Rightarrow> int \<Rightarrow> watchdog \<times> orch \<Rightarrow> watchdog \<times> orch" where
  "runCheck h now st =
     (let (w, s) = st
      in (w\<lparr>wd_health := check_health h now (length (runningEntries s)) (length (queuedViews s)) (stallEvents s)\<rparr>,
          markDirty s))"

definition watchdog_start :: "host \<Rightarrow> int \<Rightarrow> watchdog \<times> orch \<Rightarrow> watchdog \<times> orch" where
  "watchdog_start h now st =
     (if wd_timer (fst st) then st
      else (let (w, s) = runCheck h now st in (w\<lparr>wd_timer := True\<rparr>, s)))"

definition watchdog_stop :: "watchdog \<Rightarrow> watchdog" where
  "watchdog_stop w = w\<lparr>wd_timer := False\<rparr>"

definition watchdog_tick :: "host \<Rightarrow> int \<Rightarrow> watchdog \<times> orch \<Rightarrow> watchdog \<times> orch" where
  "watchdog_tick h now st = (if wd_timer (fst st) then runCheck h now st else st)"

definition buildHealthSnapshot :: "watchdog_health \<Rightarrow> (string \<times> json) list" where
  "buildHealthSnapshot hl =
     [(''status'', JStr (health_status_name (wd_status hl))), (''checkedAt'', JStr (wd_checkedAt hl)),
      (''runningCount'', JNum (int (wd_runningCount hl))),
      (''recentStalls'', JArr (map (\<lambda>e. JObj [(''at'', JStr (st_at e)), (''issueId'', JStr (st_issueId e)),
          (''issueIdentifier'', JStr (st_issueIdentifier e)), (''silentMs'', JNum (st_silentMs e)),
          (''timeoutMs'', JNum (st_timeoutMs e))]) (wd_recentStalls hl))),
      (''message'', JStr (wd_message hl))]"

text \<open>
  The watchdog reports degraded exactly when a stall was logged within the last five minutes,
  critical exactly when there is none, nobody runs and something is queued, and healthy otherwise;
  the stalls it reports are those of the window. A check leaves claims, entries and timers alone, and
  makes a cached snapshot stale.
\<close>

theorem runCheck_spec:
  "case runCheck h now (w, s) of (w', s') \<Rightarrow>
     (wd_status (wd_health w') = HDegraded) =
       (\<exists>e \<in> set (stallEvents s). \<exists>ms. h_date_parse h (st_at e) = Some ms \<and> now - 300000 \<le> ms) \<and>
     (wd_status (wd_health w') = HCritical) =
       (runningEntries s = [] \<and> queuedViews s \<noteq> [] \<and>
        (\<nexists>e. e \<in> set (stallEvents s) \<and> (\<exists>ms. h_date_parse h (st_at e) = Some ms \<and> now - 300000 \<le> ms))) \<and>
     wd_recentStalls (wd_health w') = recent_stalls h now (stallEvents s) \<and>
     same_claims s s' \<and> stateRevision s' = stateRevision s + 1"
proof -
  have "recent_stalls h now (stallEvents s) \<noteq> [] \<longleftrightarrow>
      (\<exists>e \<in> set (stallEvents s). \<exists>ms. h_date_parse h (st_at e) = Some ms \<and> now - 300000 \<le> ms)"
    by (auto simp: recent_stalls_def filter_empty_conv STALL_WINDOW_MS_def split: option.splits)
  then show ?thesis
    by (auto simp: runCheck_def check_health_def Let_def same_claims_def markDirty_def)
qed

end
