(* ===== verification/ModelPricing.thy ===== *)
theory ModelPricing
  imports Complex_Main LifecycleState
begin

text \<open>
  The pricing table and attempt costs, \<open>src/src/core/model-pricing.ts\<close>. Amounts are exact rationals;
  the rounding of the program's binary floating point is not modelled. The table is looked up for its
  own keys: model names that are properties of every JavaScript object (such as \<open>constructor\<close>) are
  outside the model.
\<close>

record model_price =
  inputUsd :: rat
  outputUsd :: rat

definition price :: "rat \<Rightarrow> rat \<Rightarrow> model_price" where
  "price i out = \<lparr>inputUsd = i, outputUsd = out\<rparr>"

definition PRICES :: "(string \<times> model_price) list" where
  "PRICES =
     [(''gpt-5.4'', price 3 12), (''gpt-4.1'', price 2 8), (''gpt-4.1-mini'', price (4/10) (16/10)),
      (''gpt-4.1-nano'', price (1/10) (4/10)), (''gpt-4o'', price (25/10) 10),
      (''gpt-4o-mini'', price (15/100) (6/10)), (''o3'', price 10 40), (''o4-mini'', price (11/10) (44/10)),
      (''o3-mini'', price (11/10) (44/10)), (''claude-opus-4-6'', price 15 75),
      (''claude-sonnet-4-6'', price 3 15), (''claude-haiku-4-5'', price (8/10) 4)]"

definition lookupModelPrice :: "string \<Rightarrow> model_price option" where
  "lookupModelPrice model = map_of PRICES model"

definition computeAttemptCostUsd :: "string \<Rightarrow> token_usage option \<Rightarrow> rat option" where
  "computeAttemptCostUsd model tokenUsage =
     (case tokenUsage of
        None \<Rightarrow> None
      | Some u \<Rightarrow>
          (case lookupModelPrice model of
             None \<Rightarrow> None
           | Some p \<Rightarrow>
               Some ((of_int (inputTokens u) * inputUsd p + of_int (outputTokens u) * outputUsd p) / 1000000)))"

definition getAvailableModelIds :: "string list" where
  "getAvailableModelIds = map fst PRICES"

definition plus_usage :: "token_usage \<Rightarrow> token_usage \<Rightarrow> token_usage" where
  "plus_usage a b = \<lparr>inputTokens = inputTokens a + inputTokens b, outputTokens = outputTokens a + outputTokens b,
     totalTokens = totalTokens a + totalTokens b\<rparr>"

lemma price_nonneg: "lookupModelPrice m = Some p \<Longrightarrow> 0 \<le> inputUsd p \<and> 0 \<le> outputUsd p"
  by (auto simp: lookupModelPrice_def PRICES_def price_def split: if_splits dest!: map_of_SomeD)

text \<open>
  Costs are additive and monotone: the cost of two usages of one model together is the sum of
  their costs, a known model's cost of a usage without negative counts is not negative, and a cost is
  known exactly when the usage is and the model is one the table lists.
\<close>

theorem attempt_cost_additive:
  "(computeAttemptCostUsd m (Some (plus_usage a b)) =
     (case (computeAttemptCostUsd m (Some a), computeAttemptCostUsd m (Some b)) of
        (Some x, Some y) \<Rightarrow> Some (x + y) | _ \<Rightarrow> None)) \<and>
   ((computeAttemptCostUsd m u \<noteq> None) = (u \<noteq> None \<and> m \<in> set getAvailableModelIds)) \<and>
   (case computeAttemptCostUsd m (Some a) of
      None \<Rightarrow> True | Some x \<Rightarrow> (if 0 \<le> inputTokens a \<and> 0 \<le> outputTokens a then 0 \<le> x else True))"
proof -
  have "lookupModelPrice m \<noteq> None \<longleftrightarrow> m \<in> set getAvailableModelIds"
    by (simp add: lookupModelPrice_def getAvailableModelIds_def map_of_eq_None_iff)
  moreover have "0 \<le> (of_int (inputTokens a) * inputUsd p + of_int (outputTokens a) * outputUsd p) / 1000000"
    if "lookupModelPrice m = Some p" "0 \<le> inputTokens a" "0 \<le> outputTokens a" for p
    using price_nonneg [OF that(1)] that(2,3) by simp
  ultimately show ?thesis
    by (auto simp: computeAttemptCostUsd_def plus_usage_def add_divide_distrib ring_distribs
        split: option.splits)
qed

end
