(* ===== verification/Snapshot.thy ===== *)
theory Snapshot
  imports ModelPricing HealthRunner WebhookHealth WatchdogModel
begin

text \<open>
  The read model behind the API and the dashboard, \<open>src/src/orchestrator/snapshot-builder.ts\<close>: the
  snapshot of the orchestrator's state, the detail of an issue and of an attempt, and the snake-case
  wire format. The attempt store, the template store, the sample store and the health sources are the
  environment \<open>read_env\<close>; amounts of money and seconds are exact rationals.
\<close>

section \<open>Types\<close>

record cost_sample =
  cs_atMs :: int
  cs_costUsd :: "rat option"
  cs_inputTokens :: int
  cs_outputTokens :: int
  cs_secondsRunning :: rat
  cs_headroomPct :: "rat option"

record system_health =
  sh_status :: health_status
  sh_checkedAt :: string
  sh_runningCount :: nat
  sh_message :: string

record snapshot_totals =
  sn_inputTokens :: int
  sn_outputTokens :: int
  sn_totalTokens :: int
  sn_secondsRunning :: rat
  sn_costUsd :: rat

record snapshot =
  sn_generatedAt :: string
  sn_runningCount :: nat
  sn_retryingCount :: nat
  sn_running :: "issue_view list"
  sn_retrying :: "issue_view list"
  sn_queued :: "issue_view list"
  sn_completed :: "issue_view list"
  sn_workflowColumns :: "column list"
  sn_codexTotals :: snapshot_totals
  sn_rateLimits :: json
  sn_recentEvents :: "recent_event list"
  sn_stallEvents :: "stall_event list"
  sn_systemHealth :: system_health
  sn_webhookHealth :: "webhook_health option"
  sn_costSamples :: "cost_sample list"
  sn_healthChecks :: "health_checks option"

record read_env =
  rd_host :: host
  rd_now :: int
  rd_config :: service_config
  rd_getAttempt :: "string \<Rightarrow> attempt_record option"
  rd_getEvents :: "string \<Rightarrow> recent_event list"
  rd_attemptsForIssue :: "string \<Rightarrow> attempt_record list"
  rd_archivedSeconds :: rat
  rd_archivedCost :: rat
  rd_archivedTokens :: token_usage
  rd_templateName :: "string \<Rightarrow> string option"
  rd_systemHealth :: system_health
  rd_webhookHealth :: "webhook_health option"
  rd_costSamples :: "cost_sample list"
  rd_healthChecks :: "health_checks option"

section \<open>buildSnapshot\<close>

definition computeSecondsRunning :: "read_env \<Rightarrow> (string, running_entry) omap \<Rightarrow> rat" where
  "computeSecondsRunning env entries =
     rd_archivedSeconds env +
     fold (\<lambda>entry total. total + max 0 (of_int (rd_now env - en_startedAtMs entry) / 1000)) (omap_values entries) 0"

definition computeCostUsd :: "read_env \<Rightarrow> (string, running_entry) omap \<Rightarrow> rat" where
  "computeCostUsd env entries =
     rd_archivedCost env +
     fold (\<lambda>entry total. total +
         coalesce (computeAttemptCostUsd (sel_model (en_modelSelection entry)) (en_tokenUsage entry)) 0)
       (omap_values entries) 0"

definition snapshot_totals_of :: "read_env \<Rightarrow> orch \<Rightarrow> snapshot_totals" where
  "snapshot_totals_of env s =
     \<lparr>sn_inputTokens = max (inputTokens (rd_archivedTokens env)) (ct_inputTokens (codexTotals s)),
      sn_outputTokens = max (outputTokens (rd_archivedTokens env)) (ct_outputTokens (codexTotals s)),
      sn_totalTokens = max (totalTokens (rd_archivedTokens env)) (ct_totalTokens (codexTotals s)),
      sn_secondsRunning = computeSecondsRunning env (runningEntries s),
      sn_costUsd = computeCostUsd env (runningEntries s)\<rparr>"

definition buildSnapshot :: "read_env \<Rightarrow> orch \<Rightarrow> snapshot" where
  "buildSnapshot env s =
     (let now_iso = iso_of_ms (rd_now env);
          resolve = resolveModelSelection (issueModelOverrides s) (rd_config env);
          running = map (\<lambda>e. projectRunningIssueView now_iso e resolve) (omap_values (runningEntries s));
          retrying = map (\<lambda>e. projectRetryIssueView now_iso e resolve) (omap_values (retryEntries s));
          completed = projectCompletedViewsForSnapshot (rd_host env) (omap_values (completedViews s)) 25
      in \<lparr>sn_generatedAt = now_iso, sn_runningCount = length (runningEntries s),
          sn_retryingCount = length (retryEntries s), sn_running = running, sn_retrying = retrying,
          sn_queued = queuedViews s, sn_completed = completed,
          sn_workflowColumns = buildWorkflowColumns (rd_config env) running retrying (Some (queuedViews s))
            (Some (completed @ omap_values (detailViews s))),
          sn_codexTotals = snapshot_totals_of env s, sn_rateLimits = rateLimits s,
          sn_recentEvents = recentEvents s, sn_stallEvents = stallEvents s,
          sn_systemHealth = rd_systemHealth env, sn_webhookHealth = rd_webhookHealth env,
          sn_costSamples = rd_costSamples env, sn_healthChecks = rd_healthChecks env\<rparr>)"

section \<open>Attempt summaries\<close>

definition record_or_null :: "json option \<Rightarrow> (string \<times> json) list option" where
  "record_or_null v = (case v of Some (JObj fs) \<Rightarrow> Some fs | _ \<Rightarrow> None)"

definition string_or_null :: "json option \<Rightarrow> string option" where
  "string_or_null v = (case v of Some (JStr t) \<Rightarrow> Some t | _ \<Rightarrow> None)"

definition asStringArray :: "json option \<Rightarrow> string list option" where
  "asStringArray v =
     (case v of Some (JArr xs) \<Rightarrow> Some (List.map_filter (\<lambda>x. string_or_null (Some x)) xs) | _ \<Rightarrow> None)"

text \<open>\<open>record?.key\<close> of a record that may be missing.\<close>

definition field_of :: "(string \<times> json) list option \<Rightarrow> string \<Rightarrow> json option" where
  "field_of r key = Option.bind r (\<lambda>fs. map_of fs key)"

definition findLatestEvent :: "recent_event list \<Rightarrow> string \<Rightarrow> recent_event option" where
  "findLatestEvent events eventName = find (\<lambda>e. rec_event e = eventName) (rev events)"

definition event_metadata :: "recent_event option \<Rightarrow> (string \<times> json) list option" where
  "event_metadata event = record_or_null (Option.bind event rec_metadata)"

definition extractThreadStatusPayload :: "recent_event option \<Rightarrow> (string \<times> json) list option" where
  "extractThreadStatusPayload event =
     or_else (record_or_null (field_of (event_metadata event) ''threadStatus''))
       (record_or_null (field_of (event_metadata event) ''status''))"

record app_server =
  as_effectiveProvider :: "string option"
  as_threadStatus :: "string option"
  as_effectiveModel :: "string option"
  as_reasoningEffort :: "string jsopt"
  as_approvalPolicy :: "string option"
  as_threadName :: "string option"
  as_threadStatusPayload :: "(string \<times> json) list option"
  as_allowedApprovalPolicies :: "string list option"
  as_allowedSandboxModes :: "string list option"
  as_networkRequirements :: "(string \<times> json) list option"

fun effort_text :: "reasoning_effort jsopt \<Rightarrow> string jsopt" where
  "effort_text Undef = Undef"
| "effort_text Null = Null"
| "effort_text (Val e) = Val (effort_name e)"

definition app_server_of :: "attempt_record \<Rightarrow> recent_event list \<Rightarrow> app_server" where
  "app_server_of a events =
     (let config = event_metadata (findLatestEvent events ''codex_config_loaded'');
          requirements = event_metadata (findLatestEvent events ''codex_requirements_loaded'');
          loaded = event_metadata (findLatestEvent events ''thread_loaded'');
          payload = or_else (extractThreadStatusPayload (findLatestEvent events ''thread_status''))
            (record_or_null (field_of loaded ''status''))
      in \<lparr>as_effectiveProvider = string_or_null (field_of config ''modelProvider''),
          as_threadStatus = string_or_null (field_of payload ''type''),
          as_effectiveModel = Some (coalesce (string_or_null (field_of config ''model'')) (at_model a)),
          as_reasoningEffort = (case string_or_null (field_of config ''reasoningEffort'') of
             Some t \<Rightarrow> Val t | None \<Rightarrow> effort_text (at_reasoningEffort a)),
          as_approvalPolicy = string_or_null (field_of config ''approvalPolicy''),
          as_threadName = string_or_null (field_of loaded ''name''), as_threadStatusPayload = payload,
          as_allowedApprovalPolicies = asStringArray (field_of requirements ''allowedApprovalPolicies''),
          as_allowedSandboxModes = asStringArray (field_of requirements ''allowedSandboxModes''),
          as_networkRequirements = record_or_null (field_of requirements ''network'')\<rparr>)"

definition hasAppServerData :: "app_server \<Rightarrow> bool" where
  "hasAppServerData v \<longleftrightarrow>
     as_effectiveProvider v \<noteq> None \<or> as_threadStatus v \<noteq> None \<or> as_effectiveModel v \<noteq> None \<or>
     as_reasoningEffort v \<noteq> Null \<or> as_approvalPolicy v \<noteq> None \<or> as_threadName v \<noteq> None \<or>
     as_threadStatusPayload v \<noteq> None \<or> as_allowedApprovalPolicies v \<noteq> None \<or>
     as_allowedSandboxModes v \<noteq> None \<or> as_networkRequirements v \<noteq> None"

definition buildAttemptAppServer :: "attempt_record \<Rightarrow> recent_event list \<Rightarrow> app_server option" where
  "buildAttemptAppServer a events =
     (if hasAppServerData (app_server_of a events) then Some (app_server_of a events) else None)"

definition buildAttemptAppServerBadge :: "app_server option \<Rightarrow> (string option \<times> string option) option" where
  "buildAttemptAppServerBadge v =
     Option.bind v (\<lambda>v. if as_effectiveProvider v \<noteq> None \<or> as_threadStatus v \<noteq> None
       then Some (as_effectiveProvider v, as_threadStatus v) else None)"

text \<open>The summary repeats the record's fields; what it adds is the cost and the badge.\<close>

record attempt_summary =
  sm_attempt :: attempt_record
  sm_costUsd :: "rat option"
  sm_appServerBadge :: "(string option \<times> string option) option"

definition buildAttemptSummary :: "attempt_record \<Rightarrow> recent_event list \<Rightarrow> attempt_summary" where
  "buildAttemptSummary a events =
     \<lparr>sm_attempt = a, sm_costUsd = computeAttemptCostUsd (at_model a) (at_tokenUsage a),
      sm_appServerBadge = buildAttemptAppServerBadge (buildAttemptAppServer a events)\<rparr>"

record attempt_detail =
  ad_summary :: attempt_summary
  ad_events :: "recent_event list"
  ad_text :: "string option"
  ad_appServer :: "app_server option"

definition buildAttemptDetail :: "read_env \<Rightarrow> string \<Rightarrow> attempt_detail option" where
  "buildAttemptDetail env attemptId =
     (case rd_getAttempt env attemptId of
        None \<Rightarrow> None
      | Some a \<Rightarrow>
          (let events = rd_getEvents env attemptId
           in Some \<lparr>ad_summary = buildAttemptSummary a events, ad_events = events,
                ad_text = nullish (at_summary a), ad_appServer = buildAttemptAppServer a events\<rparr>))"

section \<open>buildIssueDetail\<close>

definition sum_usage :: "attempt_record list \<Rightarrow> token_usage" where
  "sum_usage attempts =
     fold (\<lambda>a acc. case at_tokenUsage a of None \<Rightarrow> acc | Some u \<Rightarrow> plus_usage acc u) attempts
       \<lparr>inputTokens = 0, outputTokens = 0, totalTokens = 0\<rparr>"

definition enrichFromArchive :: "issue_view \<Rightarrow> attempt_record list \<Rightarrow> issue_view" where
  "enrichFromArchive detail archived =
     (case archived of
        [] \<Rightarrow> detail
      | a # _ \<Rightarrow>
          (let d1 = (if nullish (v_tokenUsage detail) = None
                     then detail\<lparr>v_tokenUsage := Val (sum_usage archived)\<rparr> else detail)
           in if nullish (v_startedAt d1) = None \<or> v_startedAt d1 = Val []
              then d1\<lparr>v_startedAt := Val (at_startedAt a)\<rparr> else d1))"

definition resolveRelatedEvents ::
  "read_env \<Rightarrow> orch \<Rightarrow> string \<Rightarrow> attempt_record list \<Rightarrow> issue_location \<Rightarrow> recent_event list" where
  "resolveRelatedEvents env s identifier archived location =
     (let live = filter (\<lambda>e. rec_issueIdentifier e = Some identifier) (recentEvents s)
      in case location of
           LocRunning entry \<Rightarrow> rd_getEvents env (en_runId entry)
         | LocRetry _ \<Rightarrow> live
         | _ \<Rightarrow> if archived = [] then live
               else concat (map (\<lambda>a. rd_getEvents env (at_attemptId a)) archived))"

record issue_detail =
  id_view :: issue_view
  id_recentEvents :: "recent_event list"
  id_attempts :: "attempt_summary list"
  id_currentAttemptId :: "string option"

definition locate_issue :: "orch \<Rightarrow> string \<Rightarrow> issue_location option" where
  "locate_issue s identifier =
     resolveIssue identifier (runningEntries s) (retryEntries s) (completedViews s) (detailViews s)"

definition template_fields :: "read_env \<Rightarrow> orch \<Rightarrow> string \<Rightarrow> issue_view \<Rightarrow> issue_view" where
  "template_fields env s identifier v =
     (let templateId = omap_get (issueTemplateOverrides s) identifier
      in v\<lparr>v_configuredTemplateId := of_null templateId,
           v_configuredTemplateName := of_null
             (case templateId of None \<Rightarrow> None
              | Some t \<Rightarrow> if t = [] then None else rd_templateName env t)\<rparr>)"

definition buildIssueDetail :: "read_env \<Rightarrow> orch \<Rightarrow> string \<Rightarrow> issue_detail option" where
  "buildIssueDetail env s identifier =
     (case locate_issue s identifier of
        None \<Rightarrow> None
      | Some location \<Rightarrow>
          (let now_iso = iso_of_ms (rd_now env);
               detail = toIssueView now_iso location
                 (resolveModelSelection (issueModelOverrides s) (rd_config env));
               archived = rd_attemptsForIssue env identifier
           in Some \<lparr>id_view = template_fields env s identifier (enrichFromArchive detail archived),
                id_recentEvents = resolveRelatedEvents env s identifier archived location,
                id_attempts = map (\<lambda>a. buildAttemptSummary a (rd_getEvents env (at_attemptId a))) archived,
                id_currentAttemptId = (case location of LocRunning entry \<Rightarrow> Some (en_runId entry) | _ \<Rightarrow> None)\<rparr>))"

section \<open>The wire format\<close>

datatype wire =
    WNull | WUndef | WBool bool | WNum rat | WStr string | WJson json | WView issue_view
  | WArr "wire list" | WObj "(string \<times> wire) list"

definition wopt :: "('a \<Rightarrow> wire) \<Rightarrow> 'a option \<Rightarrow> wire" where
  "wopt f v = (case v of None \<Rightarrow> WNull | Some x \<Rightarrow> f x)"

definition wundef :: "('a \<Rightarrow> wire) \<Rightarrow> 'a option \<Rightarrow> wire" where
  "wundef f v = (case v of None \<Rightarrow> WUndef | Some x \<Rightarrow> f x)"

abbreviation wint :: "int \<Rightarrow> wire" where
  "wint n \<equiv> WNum (of_int n)"

abbreviation wnat :: "nat \<Rightarrow> wire" where
  "wnat n \<equiv> WNum (of_nat n)"

fun stage_kind_name :: "stage_kind \<Rightarrow> string" where
  "stage_kind_name KBacklog = ''backlog''"
| "stage_kind_name KTodo = ''todo''"
| "stage_kind_name KActive = ''active''"
| "stage_kind_name KGate = ''gate''"
| "stage_kind_name KTerminal = ''terminal''"
| "stage_kind_name KOther = ''other''"

definition serializeColumn :: "column \<Rightarrow> wire" where
  "serializeColumn c =
     WObj [(''key'', WStr (col_key c)), (''label'', WStr (col_label c)),
       (''kind'', WStr (stage_kind_name (col_kind c))), (''terminal'', WBool (col_terminal c)),
       (''count'', wnat (col_count c)), (''issues'', WArr (map WView (col_issues c)))]"

definition serializeRecentEvent :: "recent_event \<Rightarrow> wire" where
  "serializeRecentEvent e =
     WObj [(''at'', WStr (rec_at e)), (''issue_id'', wopt WStr (rec_issueId e)),
       (''issue_identifier'', wopt WStr (rec_issueIdentifier e)), (''session_id'', wopt WStr (rec_sessionId e)),
       (''event'', WStr (rec_event e)), (''message'', WStr (rec_message e)),
       (''content'', wopt WStr (rec_content e)), (''metadata'', wopt WJson (rec_metadata e))]"

definition serializeStall :: "stall_event \<Rightarrow> wire" where
  "serializeStall e =
     WObj [(''at'', WStr (st_at e)), (''issue_id'', WStr (st_issueId e)),
       (''issue_identifier'', WStr (st_issueIdentifier e)), (''silent_ms'', wint (st_silentMs e)),
       (''timeout_ms'', wint (st_timeoutMs e))]"

definition serializeSample :: "cost_sample \<Rightarrow> wire" where
  "serializeSample e =
     WObj [(''at_ms'', wint (cs_atMs e)), (''cost_usd'', wopt WNum (cs_costUsd e)),
       (''input_tokens'', wint (cs_inputTokens e)), (''output_tokens'', wint (cs_outputTokens e)),
       (''seconds_running'', WNum (cs_secondsRunning e)), (''headroom_pct'', wopt WNum (cs_headroomPct e))]"

definition serializeSubprobe :: "subprobe \<Rightarrow> wire" where
  "serializeSubprobe p =
     WObj [(''name'', WStr (sp_name p)), (''status'', WStr (check_status_name (sp_status p))),
       (''failure_kind'', WStr (failure_kind_name (sp_failureKind p))), (''latency_ms'', wint (sp_latencyMs p)),
       (''detail'', WStr (sp_detail p))]"

definition serializeHealthProbe :: "probe_result \<Rightarrow> wire" where
  "serializeHealthProbe p =
     WObj [(''status'', WStr (check_status_name (pb_status p))),
       (''failure_kind'', WStr (failure_kind_name (pb_failureKind p))), (''checked_at'', WStr (pb_checkedAt p)),
       (''last_success_at'', wopt WStr (pb_lastSuccessAt p)), (''last_failure_at'', wopt WStr (pb_lastFailureAt p)),
       (''latency_ms'', wint (pb_latencyMs p)), (''detail'', WStr (pb_detail p)),
       (''subprobes'', WArr (map serializeSubprobe (pb_subprobes p))),
       (''window_ok'', wnat (pb_windowOk p)), (''window_failed'', wnat (pb_windowFailed p))]"

definition serializeChecks :: "health_checks \<Rightarrow> wire" where
  "serializeChecks c =
     WObj [(''github'', serializeHealthProbe (hc_github c)), (''linear'', serializeHealthProbe (hc_linear c)),
       (''docker'', serializeHealthProbe (hc_docker c))]"

definition serializeSystemHealth :: "system_health \<Rightarrow> wire" where
  "serializeSystemHealth h =
     WObj [(''status'', WStr (health_status_name (sh_status h))), (''checked_at'', WStr (sh_checkedAt h)),
       (''running_count'', wnat (sh_runningCount h)), (''message'', WStr (sh_message h))]"

definition serializeWebhook :: "webhook_health \<Rightarrow> wire" where
  "serializeWebhook w =
     WObj [(''status'', WStr (webhook_status_name (wh_status w))),
       (''effective_interval_ms'', wint (wh_effectiveIntervalMs w)),
       (''stats'', WObj [(''deliveries_received'', wnat (wst_deliveriesReceived (wh_stats w))),
          (''last_delivery_at'', wopt WStr (wst_lastDeliveryAt (wh_stats w))),
          (''last_event_type'', wopt WStr (wst_lastEventType (wh_stats w)))]),
       (''last_delivery_at'', wopt WStr (wh_lastDeliveryAt w)),
       (''last_event_type'', wopt WStr (wh_lastEventType w))]"

definition serializeTotals :: "snapshot_totals \<Rightarrow> wire" where
  "serializeTotals t =
     WObj [(''input_tokens'', wint (sn_inputTokens t)), (''output_tokens'', wint (sn_outputTokens t)),
       (''total_tokens'', wint (sn_totalTokens t)), (''seconds_running'', WNum (sn_secondsRunning t)),
       (''cost_usd'', WNum (sn_costUsd t))]"

definition wviews :: "issue_view list \<Rightarrow> wire" where
  "wviews vs = WArr (map WView vs)"

definition serializeSnapshot :: "snapshot \<Rightarrow> (string \<times> wire) list" where
  "serializeSnapshot s =
     [(''generated_at'', WStr (sn_generatedAt s)),
      (''counts'', WObj [(''running'', wnat (sn_runningCount s)), (''retrying'', wnat (sn_retryingCount s))]),
      (''queued'', wviews (sn_queued s)), (''running'', wviews (sn_running s)),
      (''retrying'', wviews (sn_retrying s)), (''completed'', wviews (sn_completed s)),
      (''workflow_columns'', WArr (map serializeColumn (sn_workflowColumns s))),
      (''codex_totals'', serializeTotals (sn_codexTotals s)), (''rate_limits'', WJson (sn_rateLimits s)),
      (''recent_events'', WArr (map serializeRecentEvent (sn_recentEvents s))),
      (''stall_events'', WArr (map serializeStall (sn_stallEvents s))),
      (''cost_samples'', WArr (map serializeSample (sn_costSamples s))),
      (''health_checks'', wundef serializeChecks (sn_healthChecks s)),
      (''system_health'', serializeSystemHealth (sn_systemHealth s)),
      (''webhook_health'', wundef serializeWebhook (sn_webhookHealth s))]"

section \<open>Nothing is lost on the wire\<close>

text \<open>Each encoder is injective: two values with the same wire form are equal.\<close>

lemma stage_name_inj [simp]: "stage_kind_name a = stage_kind_name b \<longleftrightarrow> a = b"
  by (cases a; cases b; simp)

lemma check_name_inj [simp]: "check_status_name a = check_status_name b \<longleftrightarrow> a = b"
  by (cases a; cases b; simp)

lemma failure_name_inj [simp]: "failure_kind_name a = failure_kind_name b \<longleftrightarrow> a = b"
  by (cases a; cases b; simp)

lemma health_name_inj [simp]: "health_status_name a = health_status_name b \<longleftrightarrow> a = b"
  by (cases a; cases b; simp)

lemma webhook_name_inj [simp]: "webhook_status_name a = webhook_status_name b \<longleftrightarrow> a = b"
  by (cases a; cases b; simp)

lemma wopt_inj: "(\<And>x y. f x = f y \<longleftrightarrow> x = y) \<Longrightarrow> (\<And>x. f x \<noteq> WNull) \<Longrightarrow> wopt f a = wopt f b \<longleftrightarrow> a = b"
  by (cases a; cases b; simp add: wopt_def) metis+

lemma wundef_inj: "(\<And>x y. f x = f y \<longleftrightarrow> x = y) \<Longrightarrow> (\<And>x. f x \<noteq> WUndef) \<Longrightarrow> wundef f a = wundef f b \<longleftrightarrow> a = b"
  by (cases a; cases b; simp add: wundef_def) metis+

lemma map_inj: "(\<And>x y. f x = f y \<longleftrightarrow> x = y) \<Longrightarrow> map f xs = map f ys \<longleftrightarrow> xs = ys"
  by (metis inj_def inj_map_eq_map)

lemma wopt_simps [simp]:
  "wopt WStr a = wopt WStr b \<longleftrightarrow> a = b" "wopt WJson c = wopt WJson d \<longleftrightarrow> c = d"
  "wopt WNum e = wopt WNum f \<longleftrightarrow> e = f" "wviews vs = wviews ws \<longleftrightarrow> vs = ws"
  by (simp_all add: wopt_inj wviews_def map_inj)

lemma leaf_inj [simp]:
  "serializeColumn c = serializeColumn c' \<longleftrightarrow> c = c'"
  "serializeRecentEvent e = serializeRecentEvent e' \<longleftrightarrow> e = e'"
  "serializeStall t = serializeStall t' \<longleftrightarrow> t = t'"
  "serializeSample m = serializeSample m' \<longleftrightarrow> m = m'"
  "serializeSubprobe p = serializeSubprobe p' \<longleftrightarrow> p = p'"
  "serializeSystemHealth h = serializeSystemHealth h' \<longleftrightarrow> h = h'"
  "serializeTotals u = serializeTotals u' \<longleftrightarrow> u = u'"
  by (auto simp: serializeColumn_def serializeRecentEvent_def serializeStall_def serializeSample_def
      serializeSubprobe_def serializeSystemHealth_def serializeTotals_def map_inj)

lemma probe_inj [simp]: "serializeHealthProbe p = serializeHealthProbe p' \<longleftrightarrow> p = p'"
  by (auto simp: serializeHealthProbe_def map_inj)

lemma checks_inj [simp]: "serializeChecks c = serializeChecks c' \<longleftrightarrow> c = c'"
  by (auto simp: serializeChecks_def)

lemma webhook_inj [simp]: "serializeWebhook w = serializeWebhook w' \<longleftrightarrow> w = w'"
  by (auto simp: serializeWebhook_def)

lemma checks_wire_inj [simp]: "wundef serializeChecks a = wundef serializeChecks b \<longleftrightarrow> a = b"
  by (rule wundef_inj, rule checks_inj) (simp add: serializeChecks_def)

lemma webhook_wire_inj [simp]: "wundef serializeWebhook a = wundef serializeWebhook b \<longleftrightarrow> a = b"
  by (rule wundef_inj, rule webhook_inj) (simp add: serializeWebhook_def)

text \<open>
  The snake-case wire form of a snapshot determines it: no field is dropped, merged or renamed
  onto another, and every missing value is told from the values it could be taken for.
\<close>

theorem serializeSnapshot_faithful: "(serializeSnapshot s = serializeSnapshot t) = (s = t)"
  by (auto simp: serializeSnapshot_def map_inj)

section \<open>What the read model shows\<close>

lemma fold_sum_ge: "(\<And>e. 0 \<le> f e) \<Longrightarrow> (z :: rat) \<le> fold (\<lambda>e total. total + f e) es z"
proof (induction es arbitrary: z)
  case (Cons e es)
  have "z \<le> z + f e" using Cons.prems by simp
  also have "\<dots> \<le> fold (\<lambda>e total. total + f e) es (z + f e)" using Cons by blast
  finally show ?case by simp
qed simp

text \<open>
  A snapshot shows every running and every queued-for-retry issue once, in the order they were
  started, with counts that match, at most 25 finished ones, and totals that never fall below what
  the archive holds nor below what this process counted.
\<close>

theorem buildSnapshot_spec:
  "map v_identifier (sn_running (buildSnapshot env s)) =
     map (\<lambda>e. issue_identifier (en_issue e)) (omap_values (runningEntries s)) \<and>
   map v_identifier (sn_retrying (buildSnapshot env s)) =
     map (\<lambda>e. issue_identifier (re_issue e)) (omap_values (retryEntries s)) \<and>
   v_status ` set (sn_retrying (buildSnapshot env s)) \<subseteq> {''retrying''} \<and>
   sn_runningCount (buildSnapshot env s) = length (sn_running (buildSnapshot env s)) \<and>
   sn_retryingCount (buildSnapshot env s) = length (sn_retrying (buildSnapshot env s)) \<and>
   length (sn_completed (buildSnapshot env s)) \<le> 25 \<and>
   inputTokens (rd_archivedTokens env) \<le> sn_inputTokens (sn_codexTotals (buildSnapshot env s)) \<and>
   ct_inputTokens (codexTotals s) \<le> sn_inputTokens (sn_codexTotals (buildSnapshot env s)) \<and>
   rd_archivedSeconds env \<le> sn_secondsRunning (sn_codexTotals (buildSnapshot env s))"
proof -
  have "0 \<le> fold (\<lambda>entry total. total + max 0 (of_int (rd_now env - en_startedAtMs entry) / 1000 :: rat))
      (omap_values (runningEntries s)) 0"
    by (rule fold_sum_ge) simp
  then show ?thesis
    by (auto simp: buildSnapshot_def Let_def snapshot_totals_of_def computeSecondsRunning_def omap_values_def
        projectRunningIssueView_def projectRetryIssueView_def issueView_def projectModelViewFields_def
        length_completed_le)
qed

text \<open>
  An issue has a detail exactly when something is known of it: a running entry, a retry entry, a
  completed or a detail view under that identifier; the detail names the run of the last running entry
  of that identifier, if there is one, and lists the archived attempts in their order.
\<close>

theorem buildIssueDetail_spec:
  "(buildIssueDetail env s k = None) =
     (k \<notin> (\<lambda>e. issue_identifier (en_issue e)) ` set (omap_values (runningEntries s)) \<and>
      k \<notin> re_identifier ` set (omap_values (retryEntries s)) \<and>
      omap_get (completedViews s) k = None \<and> omap_get (detailViews s) k = None) \<and>
   (case buildIssueDetail env s k of None \<Rightarrow> True | Some d \<Rightarrow>
      id_currentAttemptId d = map_option en_runId
        (find (\<lambda>e. issue_identifier (en_issue e) = k) (rev (omap_values (runningEntries s)))) \<and>
      map sm_attempt (id_attempts d) = rd_attemptsForIssue env k)"
proof -
  have running: "omap_get (buildRunningEntryIndex (runningEntries s)) k =
      find (\<lambda>e. issue_identifier (en_issue e) = k) (rev (omap_values (runningEntries s)))"
    by (simp add: buildRunningEntryIndex_def fold_index_get split: option.split)
  have retry: "omap_get (buildRetryEntryIndex (retryEntries s)) k =
      find (\<lambda>e. re_identifier e = k) (rev (omap_values (retryEntries s)))"
    by (simp add: buildRetryEntryIndex_def fold_index_get split: option.split)
  have none: "find P (rev xs) = None \<longleftrightarrow> (\<forall>x \<in> set xs. \<not> P x)" for P and xs :: "'a list"
    by (auto simp: find_None_iff)
  have loc: "locate_issue s k = (case find (\<lambda>e. issue_identifier (en_issue e) = k) (rev (omap_values (runningEntries s))) of
      Some e \<Rightarrow> Some (LocRunning e)
    | None \<Rightarrow> (case find (\<lambda>e. re_identifier e = k) (rev (omap_values (retryEntries s))) of
        Some e \<Rightarrow> Some (LocRetry e)
      | None \<Rightarrow> (case omap_get (completedViews s) k of
          Some v \<Rightarrow> Some (LocCompleted v) | None \<Rightarrow> map_option LocDetail (omap_get (detailViews s) k))))"
    unfolding locate_issue_def resolveIssue_def running retry by (rule refl)
  have "(locate_issue s k = None) =
     (k \<notin> (\<lambda>e. issue_identifier (en_issue e)) ` set (omap_values (runningEntries s)) \<and>
      k \<notin> re_identifier ` set (omap_values (retryEntries s)) \<and>
      omap_get (completedViews s) k = None \<and> omap_get (detailViews s) k = None)"
    by (auto simp: loc none split: option.splits dest: find_rev_SomeD)
  moreover have "map sm_attempt (map (\<lambda>a. buildAttemptSummary a (rd_getEvents env (at_attemptId a))) as) = as" for as
    by (simp add: buildAttemptSummary_def comp_def)
  ultimately show ?thesis
    by (auto simp: buildIssueDetail_def Let_def loc split: option.splits)
qed

text \<open>
  The detail of an attempt always carries an app-server part, since the model is always known:
  it is the one the last loaded configuration names, or else the attempt's own.
\<close>

theorem buildAttemptDetail_spec:
  "case buildAttemptDetail env k of
     None \<Rightarrow> rd_getAttempt env k = None
   | Some d \<Rightarrow> (\<exists>a. rd_getAttempt env k = Some a \<and> sm_attempt (ad_summary d) = a \<and>
       ad_events d = rd_getEvents env k \<and>
       map_option as_effectiveModel (ad_appServer d) = Some (Some
         (coalesce (string_or_null (field_of (event_metadata (findLatestEvent (rd_getEvents env k) ''codex_config_loaded'')) ''model''))
            (at_model a))))"
  by (auto simp: buildAttemptDetail_def buildAttemptSummary_def buildAttemptAppServer_def hasAppServerData_def
      app_server_of_def Let_def split: option.split)

end
