(* ===== verification/Orchestrator.thy ===== *)
theory Orchestrator
  imports Snapshot Recovery ReconcileClaims
begin

text \<open>
  The orchestrator object, \<open>src/src/orchestrator/orchestrator.ts\<close>, with the commands of \<open>port.ts\<close> and
  \<open>updateIssueModelSelection\<close> of \<open>model-selection.ts\<close>. Its private fields are those of the class;
  \<open>or_nextTickTimer\<close> is the time the pending tick is due. \<open>markStateDirty\<close> drops both caches; in the
  model they stay, with the revision they were made at, and count only at that revision, which comes
  to the same because revisions only grow.
\<close>

section \<open>State\<close>

record orchestrator =
  or_state :: orch
  or_tickInFlight :: bool
  or_nextTickTimer :: "int option"
  or_refreshQueued :: bool
  or_watchdog :: watchdog
  or_lastRecoveryReport :: "recovery_report option"
  or_cachedSnapshot :: "(nat \<times> snapshot) option"
  or_lookupCache :: "(nat \<times> (string, string) omap) option"
  or_costSamples :: "cost_sample list"

record issue_config_row =
  ic_identifier :: string
  ic_model :: "string option"
  ic_reasoningEffort :: "reasoning_effort option"
  ic_templateId :: "string option"

record orch_env =
  ox_now :: int
  ox_host :: host
  ox_config :: service_config
  ox_webhookHealth :: "webhook_health option"
  ox_read :: read_env
  ox_number :: "json \<Rightarrow> rat option"

definition new_orchestrator :: "int \<Rightarrow> orchestrator" where
  "new_orchestrator now =
     \<lparr>or_state = createLifecycleState, or_tickInFlight = False, or_nextTickTimer = None,
      or_refreshQueued = False, or_watchdog = new_watchdog now, or_lastRecoveryReport = None,
      or_cachedSnapshot = None, or_lookupCache = None, or_costSamples = []\<rparr>"

abbreviation on_state :: "(orch \<Rightarrow> orch) \<Rightarrow> orchestrator \<Rightarrow> orchestrator" where
  "on_state f o' \<equiv> o'\<lparr>or_state := f (or_state o')\<rparr>"

section \<open>Caches\<close>

text \<open>The identifier index holds, for each identifier, the key of the entry that wins.\<close>

definition entries_by_identifier :: "(string, running_entry) omap \<Rightarrow> (string, string) omap" where
  "entries_by_identifier entries =
     fold (\<lambda>(k, entry) m. omap_set (issue_identifier (en_issue entry)) k m) entries []"

definition getRunningEntryByIdentifier ::
  "string \<Rightarrow> orchestrator \<Rightarrow> (string \<times> running_entry) option \<times> orchestrator" where
  "getRunningEntryByIdentifier identifier o' =
     (let rev = stateRevision (or_state o');
          index = (case or_lookupCache o' of
             Some (r, m) \<Rightarrow> if r = rev then m else entries_by_identifier (runningEntries (or_state o'))
           | None \<Rightarrow> entries_by_identifier (runningEntries (or_state o')))
      in (Option.bind (omap_get index identifier) (\<lambda>k.
            map_option (\<lambda>e. (k, e)) (omap_get (runningEntries (or_state o')) k)),
          o'\<lparr>or_lookupCache := Some (rev, index)\<rparr>))"

definition system_health_of :: "watchdog_health \<Rightarrow> system_health" where
  "system_health_of h =
     \<lparr>sh_status = wd_status h, sh_checkedAt = wd_checkedAt h, sh_runningCount = wd_runningCount h,
      sh_message = wd_message h\<rparr>"

definition read_env_of :: "orch_env \<Rightarrow> orchestrator \<Rightarrow> read_env" where
  "read_env_of env o' =
     (ox_read env)\<lparr>rd_host := ox_host env, rd_now := ox_now env, rd_config := ox_config env,
        rd_systemHealth := system_health_of (wd_health (or_watchdog o')),
        rd_webhookHealth := ox_webhookHealth env, rd_costSamples := or_costSamples o'\<rparr>"

definition getCachedSnapshot :: "orch_env \<Rightarrow> orchestrator \<Rightarrow> snapshot \<times> orchestrator" where
  "getCachedSnapshot env o' =
     (let rev = stateRevision (or_state o');
          fresh = (let snap = buildSnapshot (read_env_of env o') (or_state o')
                   in (snap, o'\<lparr>or_cachedSnapshot := Some (rev, snap)\<rparr>))
      in case or_cachedSnapshot o' of
           Some (r, snap) \<Rightarrow> if r = rev then (snap, o') else fresh
         | None \<Rightarrow> fresh)"

definition getSerializedState :: "orch_env \<Rightarrow> orchestrator \<Rightarrow> (string \<times> wire) list \<times> orchestrator" where
  "getSerializedState env o' =
     (case getCachedSnapshot env o' of (snap, o1) \<Rightarrow> (serializeSnapshot snap, o1))"

definition getIssueDetail :: "orch_env \<Rightarrow> orchestrator \<Rightarrow> string \<Rightarrow> issue_detail option" where
  "getIssueDetail env o' identifier = buildIssueDetail (read_env_of env o') (or_state o') identifier"

section \<open>Scheduling\<close>

definition scheduleTick :: "int \<Rightarrow> int \<Rightarrow> orchestrator \<Rightarrow> orchestrator" where
  "scheduleTick now delayMs o' =
     (if \<not> o_running (or_state o') \<or> or_tickInFlight o' then o'
      else o'\<lparr>or_nextTickTimer := Some (now + delayMs)\<rparr>)"

definition getEffectivePollingInterval :: "orch_env \<Rightarrow> int" where
  "getEffectivePollingInterval env =
     (case ox_webhookHealth env of
        None \<Rightarrow> cfg_intervalMs (ox_config env)
      | Some h \<Rightarrow>
          if wh_status h = Disconnected then cfg_intervalMs (ox_config env)
          else if wh_status h = Connected then wh_effectiveIntervalMs h
          else cfg_intervalMs (ox_config env))"

record refresh_result =
  rf_queued :: bool
  rf_coalesced :: bool
  rf_requestedAt :: string
  rf_target :: "(string \<times> string) option"

definition plain_refresh :: "int \<Rightarrow> orchestrator \<Rightarrow> refresh_result \<times> orchestrator" where
  "plain_refresh now o' =
     (let coalesced = or_refreshQueued o'
      in (\<lparr>rf_queued = (\<not> coalesced), rf_coalesced = coalesced, rf_requestedAt = iso_of_ms now,
           rf_target = None\<rparr>,
          scheduleTick now 0 (o'\<lparr>or_refreshQueued := True\<rparr>)))"

definition handleRefreshCommand ::
  "int \<Rightarrow> string option \<Rightarrow> string option \<Rightarrow> orchestrator \<Rightarrow> refresh_result \<times> orchestrator" where
  "handleRefreshCommand now issueId issueIdentifier o' =
     (case (issueId, issueIdentifier) of
        (Some i, Some ident) \<Rightarrow>
          if i \<noteq> [] \<and> ident \<noteq> []
          then (case plain_refresh now o' of (r, o1) \<Rightarrow> (r\<lparr>rf_target := Some (i, ident)\<rparr>, o1))
          else plain_refresh now o'
      | _ \<Rightarrow> plain_refresh now o')"

definition requestRefresh :: "int \<Rightarrow> orchestrator \<Rightarrow> orchestrator" where
  "requestRefresh now o' = snd (handleRefreshCommand now None None o')"

section \<open>Commands\<close>

definition is_stopping :: "running_entry \<Rightarrow> bool" where
  "is_stopping entry \<longleftrightarrow> en_status entry = SStopping \<or> is_aborted entry"

definition worker_event :: "int \<Rightarrow> running_entry \<Rightarrow> string \<Rightarrow> string \<Rightarrow> runtime_event" where
  "worker_event now entry event message =
     \<lparr>ev_at = iso_of_ms now, ev_issueId = Some (issue_id (en_issue entry)),
      ev_issueIdentifier = Some (issue_identifier (en_issue entry)), ev_sessionId = en_sessionId entry,
      ev_event = event, ev_message = message, ev_content = None, ev_metadata = None, ev_usage = None,
      ev_usageMode = None, ev_rateLimits = Undef, ev_stopSignal = None\<rparr>"

text \<open>Marking an entry as stopping, announcing it and aborting its agent, in the order of the code.\<close>

definition stop_entry :: "string \<Rightarrow> running_entry \<Rightarrow> runtime_event \<Rightarrow> string \<Rightarrow> orch \<Rightarrow> orch" where
  "stop_entry k entry event reason s =
     (let s1 = markDirty (s\<lparr>runningEntries := omap_update k (\<lambda>e. e\<lparr>en_status := SStopping\<rparr>) (runningEntries s)\<rparr>);
          s2 = pushEvent event s1
      in record_effect (AbortSignal (en_runId entry) reason)
           (s2\<lparr>runningEntries := omap_update k (abort_entry reason) (runningEntries s2)\<rparr>))"

definition stopWorkerForIssue :: "int \<Rightarrow> string \<Rightarrow> string \<Rightarrow> orchestrator \<Rightarrow> orchestrator" where
  "stopWorkerForIssue now identifier reason o' =
     (case getRunningEntryByIdentifier identifier o' of
        (None, o1) \<Rightarrow> o1
      | (Some (k, entry), o1) \<Rightarrow>
          if is_stopping entry then o1
          else requestRefresh now
                 (on_state (stop_entry k entry
                    (worker_event now entry ''worker_webhook_stop'' (''worker stopped via webhook: '' @ reason))
                    ''webhook_stop'') o1))"

datatype abort_result = AbortOk bool string | AbortNotFound | AbortConflict

definition handleAbortIssueCommand :: "orch_env \<Rightarrow> string \<Rightarrow> orchestrator \<Rightarrow> abort_result \<times> orchestrator" where
  "handleAbortIssueCommand env identifier o' =
     (case getRunningEntryByIdentifier identifier o' of
        (None, o1) \<Rightarrow>
          (if getIssueDetail env o1 identifier = None then AbortNotFound else AbortConflict, o1)
      | (Some (k, entry), o1) \<Rightarrow>
          (let now = ox_now env; alreadyStopping = is_stopping entry;
               o2 = (if alreadyStopping then o1
                     else on_state (stop_entry k entry
                       (worker_event now entry ''worker_abort_requested'' ''operator requested worker abort'')
                       ''operator_abort'') o1)
           in (AbortOk alreadyStopping (iso_of_ms now), requestRefresh now o2)))"

record model_update =
  mu_appliesNextAttempt :: bool
  mu_selection :: model_selection

definition model_updated_event ::
  "int \<Rightarrow> issue \<Rightarrow> string option \<Rightarrow> model_selection \<Rightarrow> runtime_event" where
  "model_updated_event now i session selection =
     \<lparr>ev_at = iso_of_ms now, ev_issueId = Some (issue_id i), ev_issueIdentifier = Some (issue_identifier i),
      ev_sessionId = session, ev_event = ''model_selection_updated'',
      ev_message = ''next run model updated to '' @ sel_model selection @
        (case sel_effort selection of Val e \<Rightarrow> '' ('' @ effort_name e @ '')'' | _ \<Rightarrow> []),
      ev_content = None, ev_metadata = None, ev_usage = None, ev_usageMode = None, ev_rateLimits = Undef,
      ev_stopSignal = None\<rparr>"

definition updateIssueModelSelection ::
  "orch_env \<Rightarrow> string \<Rightarrow> string \<Rightarrow> reasoning_effort option \<Rightarrow> orchestrator \<Rightarrow> model_update option \<times> orchestrator" where
  "updateIssueModelSelection env identifier model effort o' =
     (if getIssueDetail env o' identifier = None then (None, o')
      else
        (let now = ox_now env;
             s = or_state o';
             s1 = record_effect (UpsertModel identifier model effort)
               (markDirty (s\<lparr>issueModelOverrides := omap_set identifier
                  \<lparr>ov_model = model, ov_effort = of_null effort\<rparr> (issueModelOverrides s)\<rparr>));
             selection = resolveModelSelection (issueModelOverrides s1) (ox_config env) identifier;
             o1 = o'\<lparr>or_state := s1\<rparr>
         in case resolveIssue identifier (runningEntries s1) (retryEntries s1) [] [] of
              Some (LocRunning entry) \<Rightarrow>
                if is_aborted entry
                then (Some \<lparr>mu_appliesNextAttempt = False, mu_selection = selection\<rparr>, requestRefresh now o1)
                else (Some \<lparr>mu_appliesNextAttempt = True, mu_selection = selection\<rparr>,
                  on_state (pushEvent (model_updated_event now (en_issue entry) (en_sessionId entry) selection)) o1)
            | Some (LocRetry entry) \<Rightarrow>
                (Some \<lparr>mu_appliesNextAttempt = True, mu_selection = selection\<rparr>,
                  on_state (pushEvent (model_updated_event now (re_issue entry) None selection)) o1)
            | _ \<Rightarrow> (Some \<lparr>mu_appliesNextAttempt = False, mu_selection = selection\<rparr>, requestRefresh now o1)))"

definition handleUpdateIssueModelSelectionCommand ::
  "orch_env \<Rightarrow> string \<Rightarrow> string \<Rightarrow> reasoning_effort option \<Rightarrow> orchestrator \<Rightarrow> model_update option \<times> orchestrator" where
  "handleUpdateIssueModelSelectionCommand env identifier model effort o' =
     (case updateIssueModelSelection env identifier model effort o' of
        (None, o1) \<Rightarrow> (None, o1)
      | (Some u, o1) \<Rightarrow>
          (Some u, on_state (record_effect (Emit ''model.updated''
             [(''identifier'', JStr identifier), (''model'', JStr (sel_model (mu_selection u))),
              (''source'', JStr (source_name (sel_source (mu_selection u))))])) o1))"

definition handleSetIssueTemplateOverrideCommand ::
  "orch_env \<Rightarrow> string \<Rightarrow> string \<Rightarrow> orchestrator \<Rightarrow> bool \<times> orchestrator" where
  "handleSetIssueTemplateOverrideCommand env identifier templateId o' =
     (if getIssueDetail env o' identifier = None then (False, o')
      else (True, on_state (\<lambda>s. record_effect (UpsertTemplateId identifier templateId)
        (markDirty (s\<lparr>issueTemplateOverrides := omap_set identifier templateId (issueTemplateOverrides s)\<rparr>))) o'))"

definition handleClearIssueTemplateOverrideCommand ::
  "orch_env \<Rightarrow> string \<Rightarrow> orchestrator \<Rightarrow> bool \<times> orchestrator" where
  "handleClearIssueTemplateOverrideCommand env identifier o' =
     (if getIssueDetail env o' identifier = None then (False, o')
      else (True, on_state (\<lambda>s. record_effect (ClearTemplateId identifier)
        (markDirty (s\<lparr>issueTemplateOverrides := omap_delete identifier (issueTemplateOverrides s)\<rparr>))) o'))"

definition getTemplateOverride :: "string \<Rightarrow> orchestrator \<Rightarrow> string option" where
  "getTemplateOverride identifier o' = omap_get (issueTemplateOverrides (or_state o')) identifier"

text \<open>\<open>steerTurn\<close> resolves to whether the running turn took the message: \<open>accepted\<close>.\<close>

definition handleSteerIssueCommand :: "bool \<Rightarrow> string \<Rightarrow> string \<Rightarrow> orchestrator \<Rightarrow> bool option \<times> orchestrator" where
  "handleSteerIssueCommand accepted identifier message o' =
     (case getRunningEntryByIdentifier identifier o' of
        (Some (k, entry), o1) \<Rightarrow>
          if en_steerReady entry
          then (Some accepted, on_state (record_effect (SteerTurn (en_runId entry) message)) o1)
          else (None, o1)
      | (None, o1) \<Rightarrow> (None, o1))"

section \<open>Cost samples\<close>

text \<open>\<open>ox_number\<close> is JavaScript's \<open>Number\<close>, with \<open>None\<close> for \<open>NaN\<close>; an absent property and \<open>null\<close> fall through.\<close>

definition nullish_field :: "json \<Rightarrow> string \<Rightarrow> json option" where
  "nullish_field v key =
     (case v of JObj fs \<Rightarrow> (case map_of fs key of Some JNull \<Rightarrow> None | r \<Rightarrow> r) | _ \<Rightarrow> None)"

definition extractHeadroomPct :: "(json \<Rightarrow> rat option) \<Rightarrow> json \<Rightarrow> rat option" where
  "extractHeadroomPct num limits =
     (case limits of
        JObj _ \<Rightarrow>
          (let limit = num (coalesce (or_else (nullish_field limits ''limit'') (nullish_field limits ''total'')) (JNum 0));
               remaining = num (coalesce (nullish_field limits ''remaining'') (JNum 0))
           in case (limit, remaining) of
                (Some l, Some r) \<Rightarrow> if l = 0 then None else Some (r / l * 100)
              | _ \<Rightarrow> None)
      | _ \<Rightarrow> None)"

definition recordCostSample :: "orch_env \<Rightarrow> orchestrator \<Rightarrow> orchestrator" where
  "recordCostSample env o' =
     (let s = or_state o'; renv = read_env_of env o'
      in o'\<lparr>or_costSamples := or_costSamples o' @
           [\<lparr>cs_atMs = ox_now env, cs_costUsd = Some (computeCostUsd renv (runningEntries s)),
             cs_inputTokens = ct_inputTokens (codexTotals s), cs_outputTokens = ct_outputTokens (codexTotals s),
             cs_secondsRunning = computeSecondsRunning renv (runningEntries s),
             cs_headroomPct = extractHeadroomPct (ox_number env) (rateLimits s)\<rparr>]\<rparr>)"

section \<open>The tick\<close>

record tick_env =
  tk_env :: orch_env
  tk_reconcile :: reconcile_env
  tk_candidates :: "js_error + issue list"
  tk_awaitCandidates :: "orch \<Rightarrow> orch"
  tk_launch :: "issue \<Rightarrow> launch_env"

definition runLifecycleBody :: "tick_env \<Rightarrow> orch \<Rightarrow> outcome" where
  "runLifecycleBody t s =
     (let config = ox_config (tk_env t);
          (killed, s1) = detectAndKillStalledWorkers (ox_now (tk_env t)) config s;
          s2 = (if killed > 0 then markDirty s1 else s1)
      in case reconcileRunningAndRetrying (tk_reconcile t) s2 of
           (Inl e, s3) \<Rightarrow> (Some e, s3)
         | (Inr changed, s3) \<Rightarrow>
             (let s4 = tk_awaitCandidates t (if changed then markDirty s3 else s3)
              in case tk_candidates t of
                   Inl e \<Rightarrow> (Some e, s4)
                 | Inr issues \<Rightarrow>
                     (let candidates = sortIssuesForDispatch (ox_host (tk_env t)) issues
                      in launchAvailableWorkers (tk_launch t) config candidates
                           (refreshQueueViews (tk_reconcile t) candidates s4))))"

text \<open>
  A tick in three parts, since other events may come in between: its timer fires, its body runs, and
  it ends, with the error the body rejected with, if any.
\<close>

definition tick_begin :: "orchestrator \<Rightarrow> orchestrator" where
  "tick_begin o' =
     (let o1 = o'\<lparr>or_nextTickTimer := None\<rparr>
      in if \<not> o_running (or_state o1) \<or> or_tickInFlight o1 then o1 else o1\<lparr>or_tickInFlight := True\<rparr>)"

definition tick_end :: "orch_env \<Rightarrow> js_error option \<Rightarrow> orchestrator \<Rightarrow> orchestrator" where
  "tick_end env err o' =
     (let o1 = (case err of
            Some _ \<Rightarrow> o'
          | None \<Rightarrow>
              recordCostSample env (on_state (\<lambda>s. record_effect (Emit ''poll.complete''
                [(''timestamp'', JStr (iso_of_ms (ox_now env))),
                 (''issueCount'', JNum (int (length (queuedViews s) + length (runningEntries s))))]) s) o'));
          o2 = o1\<lparr>or_tickInFlight := False\<rparr>;
          delayMs = (if or_refreshQueued o2 then 0 else getEffectivePollingInterval env);
          o3 = o2\<lparr>or_refreshQueued := False\<rparr>
      in if o_running (or_state o3) then scheduleTick (ox_now env) delayMs o3 else o3)"

definition tick :: "tick_env \<Rightarrow> orchestrator \<Rightarrow> orchestrator" where
  "tick t o' =
     (let o1 = tick_begin o'
      in if \<not> or_tickInFlight o1 \<or> or_tickInFlight o' then o1
         else (case runLifecycleBody t (or_state o1) of
                 (err, s) \<Rightarrow> tick_end (tk_env t) err (o1\<lparr>or_state := s\<rparr>)))"

section \<open>Start and stop\<close>

record start_env =
  sv_env :: orch_env
  sv_recovery :: recovery_env
  sv_attempts :: "attempt_record list"
  sv_terminal :: "js_error + issue list"
  sv_archive :: "attempt_record list"
  sv_configRows :: "issue_config_row list"

definition load_row :: "issue_config_row \<Rightarrow> orch \<Rightarrow> orch" where
  "load_row row s =
     (let s1 = (case ic_model row of
            None \<Rightarrow> s
          | Some m \<Rightarrow> s\<lparr>issueModelOverrides := omap_set (ic_identifier row)
              \<lparr>ov_model = m, ov_effort = (case ic_reasoningEffort row of None \<Rightarrow> Undef | Some e \<Rightarrow> Val e)\<rparr>
              (issueModelOverrides s)\<rparr>)
      in case ic_templateId row of
           None \<Rightarrow> s1
         | Some tid \<Rightarrow> s1\<lparr>issueTemplateOverrides := omap_set (ic_identifier row) tid (issueTemplateOverrides s1)\<rparr>)"

definition load_rows :: "issue_config_row list \<Rightarrow> orch \<Rightarrow> orch" where
  "load_rows rows s = (let s1 = fold load_row rows s in if rows \<noteq> [] then markDirty s1 else s1)"

text \<open>
  \<open>start\<close> in its parts, since other events may come in between: the call up to the recovery, the recovery
  with the report it leaves, and what follows it up to the first scheduling.
\<close>

definition start_call :: "orch_env \<Rightarrow> orchestrator \<Rightarrow> orchestrator" where
  "start_call env o' =
     (let s1 = markDirty ((or_state o')\<lparr>o_running := True\<rparr>);
          (w, s2) = watchdog_start (ox_host env) (ox_now env) (or_watchdog o', s1)
      in o'\<lparr>or_watchdog := w, or_state := s2\<rparr>)"

definition start_seed :: "start_env \<Rightarrow> orchestrator \<Rightarrow> orchestrator" where
  "start_seed v o' =
     on_state (\<lambda>s. load_rows (sv_configRows v)
       (seedCompletedClaims (sv_archive v) (cleanupTerminalIssueWorkspaces (sv_terminal v) s))) o'"

definition start :: "start_env \<Rightarrow> orchestrator \<Rightarrow> js_error option \<times> orchestrator" where
  "start v o' =
     (if o_running (or_state o') then (None, o')
      else
        (let env = sv_env v;
             o1 = start_call env o'
         in case runStartupRecovery (sv_recovery v) (sv_attempts v) False (or_state o1) of
              (Inl e, s) \<Rightarrow> (Some e, o1\<lparr>or_state := s\<rparr>)
            | (Inr report, s) \<Rightarrow>
                (None, scheduleTick (ox_now env) 0
                  (start_seed v (o1\<lparr>or_state := s, or_lastRecoveryReport := Some report\<rparr>)))))"

definition stop_retry :: "retry_entry \<Rightarrow> orch \<Rightarrow> orch" where
  "stop_retry entry s = clearTimeout (re_timer entry) s"

definition shutdown_worker :: "string \<times> running_entry \<Rightarrow> orch \<Rightarrow> orch" where
  "shutdown_worker p s =
     record_effect (AbortSignal (en_runId (snd p)) ''shutdown'')
       (s\<lparr>runningEntries := omap_update (fst p) (abort_entry ''shutdown'') (runningEntries s)\<rparr>)"

text \<open>\<open>stop\<close> up to its \<open>Promise.allSettled\<close>: what it does before it waits for the workers.\<close>

definition stop_state :: "orch \<Rightarrow> orch" where
  "stop_state s =
     (let s1 = markDirty (s\<lparr>o_running := False\<rparr>);
          s2 = fold stop_retry (omap_values (retryEntries s1)) s1;
          s3 = (if retryEntries s2 \<noteq> [] then markDirty (s2\<lparr>retryEntries := []\<rparr>) else s2);
          s4 = (if claimedIssueIds s3 \<noteq> {} then markDirty (s3\<lparr>claimedIssueIds := {}\<rparr>) else s3)
      in fold shutdown_worker (runningEntries s4) s4)"

definition stop :: "orchestrator \<Rightarrow> orchestrator" where
  "stop o' =
     o'\<lparr>or_state := stop_state (or_state o'), or_watchdog := watchdog_stop (or_watchdog o'),
        or_nextTickTimer := None\<rparr>"

end
