(* ===== verification/OrchestratorClaims.thy ===== *)
theory OrchestratorClaims
  imports Orchestrator RecoveryClaims
begin

text \<open>
  The orchestrator object as a state machine: \<open>or_step\<close> is one event of its polling (its timer
  fires, the work of a tick or of a worker changes the state, a tick ends, a command arrives);
  \<open>om_step\<close> adds the calls of \<open>start\<close>, which return or reject some events later, and \<open>stop\<close>;
  \<open>om_reachable\<close> is what any sequence of them leads to. The scheduling invariant is proved by rule
  induction over it; the commands are then specified one by one.
\<close>

section \<open>Frames\<close>

lemma or_more [simp]:
  "or_tickInFlight (snd (getRunningEntryByIdentifier k x)) = or_tickInFlight x"
  "or_nextTickTimer (snd (getRunningEntryByIdentifier k x)) = or_nextTickTimer x"
  "or_refreshQueued (snd (getRunningEntryByIdentifier k x)) = or_refreshQueued x"
  "or_state (snd (getRunningEntryByIdentifier k x)) = or_state x"
  by (simp_all add: getRunningEntryByIdentifier_def Let_def)

lemma scheduleTick_fields [simp]:
  "or_state (scheduleTick now d x) = or_state x"
  "or_tickInFlight (scheduleTick now d x) = or_tickInFlight x"
  "or_refreshQueued (scheduleTick now d x) = or_refreshQueued x"
  "or_nextTickTimer (scheduleTick now d x) =
     (if o_running (or_state x) \<and> \<not> or_tickInFlight x then Some (now + d) else or_nextTickTimer x)"
  by (simp_all add: scheduleTick_def)

lemma requestRefresh_fields [simp]:
  "or_state (requestRefresh now x) = or_state x"
  "or_tickInFlight (requestRefresh now x) = or_tickInFlight x"
  "or_refreshQueued (requestRefresh now x)"
  "or_nextTickTimer (requestRefresh now x) =
     (if o_running (or_state x) \<and> \<not> or_tickInFlight x then Some now else or_nextTickTimer x)"
  by (simp_all add: requestRefresh_def handleRefreshCommand_def plain_refresh_def Let_def)

lemma stop_entry_running [simp]: "o_running (stop_entry k e ev reason s) = o_running s"
  by (simp add: stop_entry_def Let_def state_defs)

lemma fold_stop_retry_keeps:
  "o_running (fold stop_retry es s) = o_running s \<and> runningEntries (fold stop_retry es s) = runningEntries s \<and>
   retryEntries (fold stop_retry es s) = retryEntries s \<and> claimedIssueIds (fold stop_retry es s) = claimedIssueIds s \<and>
   trace (fold stop_retry es s) = trace s"
proof (induction es arbitrary: s)
  case (Cons e es)
  then show ?case by (simp add: stop_retry_def)
qed simp

lemma fold_shutdown_keeps:
  "o_running (fold shutdown_worker ps s) = o_running s \<and> retryEntries (fold shutdown_worker ps s) = retryEntries s \<and>
   claimedIssueIds (fold shutdown_worker ps s) = claimedIssueIds s \<and> timers (fold shutdown_worker ps s) = timers s \<and>
   runningEntries (fold shutdown_worker ps s) =
     fold (\<lambda>p. omap_update (fst p) (abort_entry ''shutdown'')) ps (runningEntries s) \<and>
   trace (fold shutdown_worker ps s) = trace s @ map (\<lambda>p. AbortSignal (en_runId (snd p)) ''shutdown'') ps"
  by (induction ps arbitrary: s) (simp_all add: shutdown_worker_def record_effect_def)

lemmas stop_frames = fold_stop_retry_keeps fold_shutdown_keeps

lemma stop_state_running [simp]: "\<not> o_running (stop_state s)"
  by (simp add: stop_state_def Let_def stop_frames markDirty_def)

section \<open>The body of a tick keeps the running flag\<close>

text \<open>Only \<open>start\<close> and \<open>stop\<close> write the flag; other tasks that run during the awaits are assumed not to.\<close>

definition tick_rely :: "tick_env \<Rightarrow> bool" where
  "tick_rely t \<longleftrightarrow>
     (\<forall>i p s. o_running (le_await (tk_launch t i) p s) = o_running s) \<and>
     (\<forall>p s. o_running (rc_await (tk_reconcile t) p s) = o_running s) \<and>
     (\<forall>s. o_running (tk_awaitCandidates t s) = o_running s)"

lemma flag_ops [simp]:
  "o_running (pushEvent ev t) = o_running t"
  "o_running (markDirty t) = o_running t"
  "o_running (releaseIssueClaimInState k t) = o_running t"
  "o_running (claimIssueInState k t) = o_running t"
  "o_running (setDetailViewInState v w t) = o_running t"
  "o_running (setQueuedViewsInState vs t) = o_running t"
  "o_running (notifyChannel n t) = o_running t"
  "o_running (record_effect e t) = o_running t"
  "o_running (refreshDetailViews vws t) = o_running t"
  "o_running (snd (canDispatchIssueInState config i t)) = o_running t"
  by (simp_all add: state_defs canDispatchIssueInState_def refreshDetailViews_def Let_def split: prod.splits)

definition launch_keeps :: "launch_env \<Rightarrow> bool" where
  "launch_keeps env \<longleftrightarrow> (\<forall>p s. o_running (le_await env p s) = o_running s)"

lemma flag_call: "launch_keeps env \<Longrightarrow> o_running (snd (launch_call env p es s)) = o_running s"
  by (simp add: launch_keeps_def launch_call_def)

lemma flag_prepare:
  assumes "launch_keeps env"
  shows "o_running (snd (prepareWorkspaceForLaunch env i s)) = o_running s"
proof -
  have "o_running (snd (ensureAndClone env t)) = o_running t" for t
    unfolding ensureAndClone_def
    by (rule await_then_inv [where P = "\<lambda>u. o_running u = o_running t"]) (simp_all add: flag_call [OF assms])
  then have "ensureAndClone env t = (r, u) \<Longrightarrow> o_running u = o_running t" for t r u
    by (metis snd_conv)
  then show ?thesis
    by (auto simp: prepareWorkspaceForLaunch_def Let_def split: sum.splits prod.splits option.splits)
qed

lemma flag_persist:
  assumes "launch_keeps env"
  shows "o_running (snd (persistInitialAttempt env entry i ws attempt sel s)) = o_running s"
    and "o_running (snd (persistRecoveredAttempt env i ws a sel s)) = o_running s"
    and "o_running (snd (run_agent env i ws attempt sel opts s)) = o_running s"
  by (auto simp: persistInitialAttempt_def persistRecoveredAttempt_def run_agent_def writeCheckpoint_def
      emitLaunchNotifications_def Let_def flag_call [OF assms]
      intro!: await_then_inv [where P = "\<lambda>u. o_running u = o_running s"])

lemma flag_start: "o_running (start_entry i entry s) = o_running s"
  by (simp add: start_entry_def Let_def)

lemma flag_launch_body:
  assumes "launch_keeps env"
  shows "o_running (snd (launch_body env i attempt opts s)) = o_running s"
proof -
  obtain r s1 where p: "prepareWorkspaceForLaunch env i s = (r, s1)" by fastforce
  have s1: "o_running s1 = o_running s" using flag_prepare [OF assms, of i s] p by simp
  show ?thesis
  proof (cases r)
    case (Inl e)
    then show ?thesis by (simp add: launch_body_def p s1)
  next
    case (Inr ws)
    show ?thesis
      unfolding launch_body_def p Inr prod.case sum.case Let_def
      by (rule await_then_inv [where P = "\<lambda>u. o_running u = o_running s"])
        (auto simp: flag_persist [OF assms] flag_start s1 split: option.splits)
  qed
qed

lemma flag_launch:
  assumes "launch_keeps env"
  shows "o_running (snd (ctx_launchWorker env i attempt opts s)) = o_running s"
proof -
  define s1 where "s1 = snd (launch_call env LwLock [] (if lo_claimHeld opts then s else claimIssueInState (issue_id i) s))"
  have s1: "o_running s1 = o_running s" by (simp add: s1_def flag_call [OF assms])
  obtain e s2 where b: "launch_body env i attempt opts s1 = (e, s2)" by fastforce
  then have "o_running s2 = o_running s"
    using flag_launch_body [OF assms, of i attempt opts s1] s1 by simp
  then show ?thesis
    by (cases e) (auto simp: ctx_launchWorker_def await_then_def launchWorker_def Let_def b simp flip: s1_def)
qed

lemma flag_launch_loop:
  assumes "\<forall>i. launch_keeps (envs i)"
  shows "o_running (snd (launch_loop envs config slots counts issues launched pending s)) = o_running s"
proof (induction issues arbitrary: launched pending s)
  case (Cons i issues)
  have "o_running (snd (await_then (ctx_launchWorker (envs i) i (Some 1) claim_held t)
          (launch_loop envs config slots counts issues n q))) = o_running t" for t n q
    by (rule await_then_inv [where P = "\<lambda>u. o_running u = o_running t"])
      (use assms in \<open>simp_all add: flag_launch Cons.IH\<close>)
  then show ?case by (auto simp: launch_loop_Cons Let_def Cons.IH)
qed simp

lemma flag_reconcile_retry:
  assumes "\<forall>p s. o_running (rc_await env p s) = o_running s"
  shows "o_running (fold (reconcile_retry env byId) es s) = o_running s"
proof (induction es arbitrary: s)
  case (Cons e es)
  have "o_running (reconcile_retry env byId e s) = o_running s"
    using assms by (auto simp: reconcile_retry_def Let_def cancelRetry_spec split: option.splits)
  with Cons show ?case by simp
qed simp

lemma flag_reconcile:
  assumes "\<forall>p s. o_running (rc_await env p s) = o_running s"
  shows "o_running (snd (reconcileRunningAndRetrying env s)) = o_running s"
proof -
  have "o_running (fst (reconcileRunning env byId u)) = o_running u" for byId u
    unfolding reconcileRunning_def planRunningEntryReconciliation_def
    using fold_plans_same [of "(u, False)"] by (simp add: same_but_running_def)
  then have "reconcileRunning env byId u = (v, b) \<Longrightarrow> o_running v = o_running u" for byId u v b
    by (metis fst_conv)
  with assms flag_reconcile_retry [OF assms] show ?thesis
    by (auto simp: reconcileRunningAndRetrying_def reconcileRetries_def Let_def split: sum.splits prod.splits)
qed

lemma flag_refreshQueue: "o_running (refreshQueueViews env issues s) = o_running s"
proof -
  obtain ds s1 where f: "filter_state (canDispatchIssueInState (rc_config env)) (sortIssuesForDispatch (rc_host env) issues) s = (ds, s1)"
    by fastforce
  have "o_running s1 = o_running s"
    using filter_state_subset [OF f, where Q = "\<lambda>t. o_running t = o_running s" and R = "\<lambda>_. True"]
    by (metis flag_ops(10) snd_conv)
  moreover have "o_running (fold pushEvent es u) = o_running u" for es u
    using pushEvents_same [of u es] by (simp add: same_claims_def)
  ultimately show ?thesis
    by (simp add: refreshQueueViews_def projectQueueAndDetailViews_def f Let_def)
qed

lemma flag_detect: "o_running (snd (detectAndKillStalledWorkers now config s)) = o_running s"
  using fold_detect [of now "codex_stallTimeoutMs config" "runningEntries s" "(s, [])"]
  by (auto simp: detectAndKillStalledWorkers_def same_but_running_def split: prod.splits)

lemma body_keeps_running:
  assumes "tick_rely t"
  shows "o_running (snd (runLifecycleBody t s)) = o_running s"
proof -
  have l: "\<forall>i. launch_keeps (tk_launch t i)" and c: "o_running (tk_awaitCandidates t u) = o_running u" for u
    using assms by (auto simp: tick_rely_def launch_keeps_def)
  have r: "\<forall>p u. o_running (rc_await (tk_reconcile t) p u) = o_running u"
    using assms by (simp add: tick_rely_def)
  obtain k s1 where d: "detectAndKillStalledWorkers (ox_now (tk_env t)) (ox_config (tk_env t)) s = (k, s1)"
    by fastforce
  define s2 where "s2 = (if k > 0 then markDirty s1 else s1)"
  obtain res s3 where rc: "reconcileRunningAndRetrying (tk_reconcile t) s2 = (res, s3)" by fastforce
  have "o_running s1 = o_running s" using flag_detect d by (metis snd_conv)
  then have "o_running s3 = o_running s"
    using flag_reconcile [OF r, of s2] rc by (auto simp: s2_def split: if_splits)
  moreover have "o_running (snd (launchAvailableWorkers envs config xs u)) = o_running u"
    if "\<forall>i. launch_keeps (envs i)" for envs config xs u
    using that by (simp add: launchAvailableWorkers_def Let_def flag_launch_loop)
  ultimately show ?thesis
    using l c by (simp add: runLifecycleBody_def d rc flag_refreshQueue Let_def flip: s2_def split: sum.split)
qed

section \<open>The scheduling state machine\<close>

text \<open>
  \<open>work\<close> is everything that changes the shared state without touching the orchestrator's own fields:
  a tick's body between its awaits, a worker, a retry timer, a watchdog check.
\<close>

inductive or_step :: "orchestrator \<Rightarrow> orchestrator \<Rightarrow> bool" where
  fires: "or_nextTickTimer x = Some due \<Longrightarrow> or_step x (tick_begin x)"
| body: "or_tickInFlight x \<Longrightarrow> tick_rely t \<Longrightarrow>
    or_step x (x\<lparr>or_state := snd (runLifecycleBody t (or_state x))\<rparr>)"
| work: "o_running s = o_running (or_state x) \<Longrightarrow> or_step x (x\<lparr>or_state := s\<rparr>)"
| ends: "or_tickInFlight x \<Longrightarrow> or_step x (tick_end env err x)"
| refresh: "or_step x (snd (handleRefreshCommand now i ident x))"
| abort: "or_step x (snd (handleAbortIssueCommand env k x))"
| webhook_stop: "or_step x (stopWorkerForIssue now k reason x)"
| model: "or_step x (snd (handleUpdateIssueModelSelectionCommand env k m e x))"
| set_template: "or_step x (snd (handleSetIssueTemplateOverrideCommand env k tid x))"
| clear_template: "or_step x (snd (handleClearIssueTemplateOverrideCommand env k x))"
| steer: "or_step x (snd (handleSteerIssueCommand accepted k msg x))"

text \<open>
  Beside the object, the machine counts the calls of \<open>start\<close> that have neither returned nor rejected,
  and remembers whether one has rejected since the last \<open>stop\<close>. A call made while the orchestrator is
  running returns at once and is no step. Between the steps of a call anything else may happen,
  \<open>stop\<close> and another call included.
\<close>

record orch_machine =
  om_object :: orchestrator
  om_starts :: nat
  om_failed :: bool

abbreviation om_running :: "orch_machine \<Rightarrow> bool" where
  "om_running m \<equiv> o_running (or_state (om_object m))"

definition new_machine :: "int \<Rightarrow> orch_machine" where
  "new_machine now = \<lparr>om_object = new_orchestrator now, om_starts = 0, om_failed = False\<rparr>"

inductive om_step :: "orch_machine \<Rightarrow> orch_machine \<Rightarrow> bool" where
  event: "or_step (om_object m) y \<Longrightarrow> om_step m (m\<lparr>om_object := y\<rparr>)"
| called: "\<not> om_running m \<Longrightarrow>
    om_step m (m\<lparr>om_object := start_call env (om_object m), om_starts := om_starts m + 1\<rparr>)"
| recovered: "0 < om_starts m \<Longrightarrow>
    om_step m (m\<lparr>om_object := (om_object m)\<lparr>or_lastRecoveryReport := Some report\<rparr>\<rparr>)"
| returned: "0 < om_starts m \<Longrightarrow>
    om_step m (m\<lparr>om_object := scheduleTick now 0 (start_seed v (om_object m)), om_starts := om_starts m - 1\<rparr>)"
| rejected: "0 < om_starts m \<Longrightarrow> om_step m (m\<lparr>om_starts := om_starts m - 1, om_failed := True\<rparr>)"
| stopped: "om_step m (m\<lparr>om_object := stop (om_object m), om_failed := False\<rparr>)"

inductive om_reachable :: "orch_machine \<Rightarrow> bool" where
  init: "om_reachable (new_machine now)"
| step: "om_reachable m \<Longrightarrow> om_step m m' \<Longrightarrow> om_reachable m'"

inductive_cases or_step_elim: "or_step x y"
inductive_cases om_step_elim: "om_step m m'"

text \<open>Polling is under way: a tick is in flight or the timer of the next one is pending.\<close>

definition polls :: "orchestrator \<Rightarrow> bool" where
  "polls x \<longleftrightarrow> or_tickInFlight x \<or> or_nextTickTimer x \<noteq> None"

definition sched_ok :: "orchestrator \<Rightarrow> bool" where
  "sched_ok x \<longleftrightarrow>
     (if o_running (or_state x) then \<not> (or_tickInFlight x \<and> or_nextTickTimer x \<noteq> None)
      else or_nextTickTimer x = None)"

definition om_ok :: "orch_machine \<Rightarrow> bool" where
  "om_ok m \<longleftrightarrow> sched_ok (om_object m) \<and>
     (om_running m \<and> om_starts m = 0 \<and> \<not> om_failed m \<longrightarrow> polls (om_object m))"

text \<open>An update of the shared state that leaves the flag alone leaves the schedule alone.\<close>

lemma sched_ok_state: "o_running s = o_running (or_state x) \<Longrightarrow> sched_ok (x\<lparr>or_state := s\<rparr>) = sched_ok x"
  by (simp add: sched_ok_def)

lemma sched_ok_schedule: "sched_ok x \<Longrightarrow> sched_ok (scheduleTick now d x)"
  by (auto simp: sched_ok_def)

lemma sched_ok_fields:
  assumes "or_state y = or_state x" "or_tickInFlight y = or_tickInFlight x" "or_nextTickTimer y = or_nextTickTimer x"
  shows "sched_ok y = sched_ok x"
  using assms by (simp add: sched_ok_def)

lemma sched_ok_requestRefresh: "sched_ok x \<Longrightarrow> sched_ok (requestRefresh now x)"
  by (auto simp: sched_ok_def)

lemma sched_ok_lookup [simp]: "sched_ok (snd (getRunningEntryByIdentifier k x)) = sched_ok x"
  by (rule sched_ok_fields) simp_all

lemma recordCostSample_fields [simp]:
  "or_state (recordCostSample env x) = or_state x"
  "or_tickInFlight (recordCostSample env x) = or_tickInFlight x"
  "or_nextTickTimer (recordCostSample env x) = or_nextTickTimer x"
  "or_refreshQueued (recordCostSample env x) = or_refreshQueued x"
  by (simp_all add: recordCostSample_def Let_def)

lemma tick_end_fields:
  "or_tickInFlight (tick_end env err x) = False"
  "o_running (or_state (tick_end env err x)) = o_running (or_state x)"
  "or_refreshQueued (tick_end env err x) = False"
  "or_nextTickTimer (tick_end env err x) =
     (if o_running (or_state x)
      then Some (ox_now env + (if or_refreshQueued x then 0 else getEffectivePollingInterval env))
      else or_nextTickTimer x)"
  by (simp_all add: tick_end_def Let_def split: option.split)

lemma tick_begin_fields:
  "or_state (tick_begin x) = or_state x"
  "or_nextTickTimer (tick_begin x) = None"
  "or_tickInFlight (tick_begin x) = (or_tickInFlight x \<or> o_running (or_state x))"
  by (auto simp: tick_begin_def Let_def)

lemma sched_ok_commands:
  assumes "sched_ok x"
  shows "sched_ok (snd (handleRefreshCommand now i ident x))"
    and "sched_ok (snd (handleAbortIssueCommand env k x))"
    and "sched_ok (stopWorkerForIssue now k reason x)"
    and "sched_ok (snd (handleUpdateIssueModelSelectionCommand env k m e x))"
    and "sched_ok (snd (handleSetIssueTemplateOverrideCommand env k tid x))"
    and "sched_ok (snd (handleClearIssueTemplateOverrideCommand env k x))"
    and "sched_ok (snd (handleSteerIssueCommand accepted k msg x))"
proof -
  have l: "getRunningEntryByIdentifier k x = (r, y) \<Longrightarrow> sched_ok y" for r y
    using assms sched_ok_lookup [of k x] by simp
  show "sched_ok (snd (handleRefreshCommand now i ident x))"
    using assms
    by (auto simp: handleRefreshCommand_def plain_refresh_def Let_def sched_ok_def split: option.split)
  show "sched_ok (snd (handleAbortIssueCommand env k x))"
    by (auto simp: handleAbortIssueCommand_def Let_def sched_ok_state sched_ok_requestRefresh
        split: prod.split option.split dest: l)
  show "sched_ok (stopWorkerForIssue now k reason x)"
    by (auto simp: stopWorkerForIssue_def sched_ok_state sched_ok_requestRefresh split: prod.split option.split dest: l)
  show "sched_ok (snd (handleUpdateIssueModelSelectionCommand env k m e x))"
    using assms
    by (auto simp: handleUpdateIssueModelSelectionCommand_def updateIssueModelSelection_def Let_def sched_ok_state
        sched_ok_requestRefresh split: prod.split option.split issue_location.split)
  show "sched_ok (snd (handleSetIssueTemplateOverrideCommand env k tid x))"
    using assms by (simp add: handleSetIssueTemplateOverrideCommand_def sched_ok_state)
  show "sched_ok (snd (handleClearIssueTemplateOverrideCommand env k x))"
    using assms by (simp add: handleClearIssueTemplateOverrideCommand_def sched_ok_state)
  show "sched_ok (snd (handleSteerIssueCommand accepted k msg x))"
    by (auto simp: handleSteerIssueCommand_def sched_ok_state split: prod.split option.split dest: l)
qed

lemma polls_state [simp]: "polls (x\<lparr>or_state := s\<rparr>) = polls x"
  by (simp add: polls_def)

lemma polls_lookup [simp]: "polls (snd (getRunningEntryByIdentifier k x)) = polls x"
  by (simp add: polls_def)

lemma polls_schedule: "polls x \<Longrightarrow> polls (scheduleTick now d x)"
  by (auto simp: polls_def)

lemma polls_refresh: "o_running (or_state x) \<or> polls x \<Longrightarrow> polls (requestRefresh now x)"
  by (auto simp: polls_def)

lemma polls_commands:
  assumes "polls x"
  shows "polls (snd (handleRefreshCommand now i ident x))"
    and "polls (snd (handleAbortIssueCommand env k x))"
    and "polls (stopWorkerForIssue now k reason x)"
    and "polls (snd (handleUpdateIssueModelSelectionCommand env k m e x))"
    and "polls (snd (handleSetIssueTemplateOverrideCommand env k tid x))"
    and "polls (snd (handleClearIssueTemplateOverrideCommand env k x))"
    and "polls (snd (handleSteerIssueCommand accepted k msg x))"
proof -
  have l: "getRunningEntryByIdentifier k x = (r, y) \<Longrightarrow> polls y" for r y
    using assms polls_lookup [of k x] by simp
  show "polls (snd (handleRefreshCommand now i ident x))"
    using assms
    by (auto simp: handleRefreshCommand_def plain_refresh_def Let_def polls_def split: option.split)
  show "polls (snd (handleAbortIssueCommand env k x))"
    by (auto simp: handleAbortIssueCommand_def Let_def polls_refresh split: prod.split option.split dest: l)
  show "polls (stopWorkerForIssue now k reason x)"
    by (auto simp: stopWorkerForIssue_def polls_refresh split: prod.split option.split dest: l)
  show "polls (snd (handleUpdateIssueModelSelectionCommand env k m e x))"
    using assms
    by (auto simp: handleUpdateIssueModelSelectionCommand_def updateIssueModelSelection_def Let_def
        polls_refresh split: prod.split option.split issue_location.split)
  show "polls (snd (handleSetIssueTemplateOverrideCommand env k tid x))"
    using assms by (simp add: handleSetIssueTemplateOverrideCommand_def)
  show "polls (snd (handleClearIssueTemplateOverrideCommand env k x))"
    using assms by (simp add: handleClearIssueTemplateOverrideCommand_def)
  show "polls (snd (handleSteerIssueCommand accepted k msg x))"
    by (auto simp: handleSteerIssueCommand_def split: prod.split option.split dest: l)
qed

lemma sched_ok_step: "or_step x y \<Longrightarrow> sched_ok x \<Longrightarrow> sched_ok y"
proof (induction rule: or_step.induct)
  case (fires x due)
  then show ?case by (auto simp: sched_ok_def tick_begin_fields)
next
  case (body x t)
  then show ?case by (simp add: sched_ok_state body_keeps_running)
next
  case (ends x env err)
  then show ?case by (auto simp: sched_ok_def tick_end_fields)
qed (simp_all add: sched_ok_state sched_ok_commands)

lemma polls_tick: "o_running (or_state x) \<Longrightarrow> polls (tick_begin x)" "o_running (or_state x) \<Longrightarrow> polls (tick_end env err x)"
  by (simp_all add: polls_def tick_begin_fields tick_end_fields)

lemma polls_step: "or_step x y \<Longrightarrow> o_running (or_state x) \<Longrightarrow> polls x \<Longrightarrow> polls y"
  by (induction rule: or_step.induct) (simp_all add: polls_commands polls_tick)

lemma commands_keep_running:
  "o_running (or_state (snd (handleRefreshCommand now i ident x))) = o_running (or_state x)"
  "o_running (or_state (snd (handleAbortIssueCommand env k x))) = o_running (or_state x)"
  "o_running (or_state (stopWorkerForIssue now k reason x)) = o_running (or_state x)"
  "o_running (or_state (snd (handleUpdateIssueModelSelectionCommand env k m e x))) = o_running (or_state x)"
  "o_running (or_state (snd (handleSetIssueTemplateOverrideCommand env k tid x))) = o_running (or_state x)"
  "o_running (or_state (snd (handleClearIssueTemplateOverrideCommand env k x))) = o_running (or_state x)"
  "o_running (or_state (snd (handleSteerIssueCommand accepted k msg x))) = o_running (or_state x)"
proof -
  have l: "getRunningEntryByIdentifier k x = (r, y) \<Longrightarrow> o_running (or_state y) = o_running (or_state x)" for r y
    using or_more(4) [of k x] by simp
  show "o_running (or_state (snd (handleRefreshCommand now i ident x))) = o_running (or_state x)"
    by (auto simp: handleRefreshCommand_def plain_refresh_def Let_def split: option.split)
  show "o_running (or_state (snd (handleAbortIssueCommand env k x))) = o_running (or_state x)"
    by (auto simp: handleAbortIssueCommand_def Let_def split: prod.split option.split dest: l)
  show "o_running (or_state (stopWorkerForIssue now k reason x)) = o_running (or_state x)"
    by (auto simp: stopWorkerForIssue_def split: prod.split option.split dest: l)
  show "o_running (or_state (snd (handleUpdateIssueModelSelectionCommand env k m e x))) = o_running (or_state x)"
    by (auto simp: handleUpdateIssueModelSelectionCommand_def updateIssueModelSelection_def Let_def
        split: prod.split option.split issue_location.split)
  show "o_running (or_state (snd (handleSetIssueTemplateOverrideCommand env k tid x))) = o_running (or_state x)"
    by (simp add: handleSetIssueTemplateOverrideCommand_def)
  show "o_running (or_state (snd (handleClearIssueTemplateOverrideCommand env k x))) = o_running (or_state x)"
    by (simp add: handleClearIssueTemplateOverrideCommand_def)
  show "o_running (or_state (snd (handleSteerIssueCommand accepted k msg x))) = o_running (or_state x)"
    by (auto simp: handleSteerIssueCommand_def split: prod.split option.split dest: l)
qed

lemma or_step_running: "or_step x y \<Longrightarrow> o_running (or_state y) = o_running (or_state x)"
  by (induction rule: or_step.induct)
    (simp_all add: commands_keep_running tick_begin_fields tick_end_fields body_keeps_running)

lemma start_call_fields:
  "o_running (or_state (start_call env x))"
  "or_tickInFlight (start_call env x) = or_tickInFlight x"
  "or_nextTickTimer (start_call env x) = or_nextTickTimer x"
  by (auto simp: start_call_def watchdog_start_def runCheck_def Let_def split: prod.split)

lemma load_row_running: "o_running (load_row row s) = o_running s"
  by (simp add: load_row_def Let_def split: option.split)

lemma fold_load_running: "o_running (fold load_row rows s) = o_running s"
  by (induction rows arbitrary: s) (simp_all add: load_row_running)

lemma start_seed_fields:
  "o_running (or_state (start_seed v x)) = o_running (or_state x)"
  "or_tickInFlight (start_seed v x) = or_tickInFlight x"
  "or_nextTickTimer (start_seed v x) = or_nextTickTimer x"
  by (auto simp: start_seed_def load_rows_def seedCompletedClaims_def cleanupTerminalIssueWorkspaces_def Let_def
      fold_load_running split: sum.split)

lemmas start_fields = start_call_fields start_seed_fields

lemma om_step_polls:
  assumes "om_step m m'" and "om_running m" and "om_running m'" and "polls (om_object m)"
  shows "polls (om_object m')"
  using assms
proof (cases rule: om_step.cases)
  case (event y)
  then show ?thesis using assms(2,4) polls_step [of "om_object m" y] by simp
qed (auto simp: polls_def start_fields stop_def)

lemma om_ok_step:
  assumes "om_step m m'" and "om_ok m"
  shows "om_ok m'"
  using assms(1)
proof (cases rule: om_step.cases)
  case (event y)
  then show ?thesis
    using assms(2) sched_ok_step [of "om_object m" y] polls_step [of "om_object m" y] or_step_running [of "om_object m" y]
    by (auto simp: om_ok_def)
next
  case (returned now v)
  then show ?thesis using assms(2) by (auto simp: om_ok_def sched_ok_def polls_def start_fields)
qed (use assms(2) in \<open>auto simp: om_ok_def sched_ok_def polls_def start_fields stop_def\<close>)

lemma om_reachable_ok: "om_reachable m \<Longrightarrow> om_ok m"
proof (induction rule: om_reachable.induct)
  case (init now)
  then show ?case
    by (simp add: om_ok_def sched_ok_def new_machine_def new_orchestrator_def createLifecycleState_def)
next
  case (step m m')
  then show ?case using om_ok_step by blast
qed

text \<open>
  C3: at no moment are a tick in flight and a pending timer of the next one there together, and no
  timer is pending while the orchestrator is stopped. While it runs, with no call of \<open>start\<close> under way and
  none rejected since the last \<open>stop\<close>, one of the two is there: polling goes on. Polling that
  goes on ends only with \<open>stop\<close>, whatever the body of a tick does or fails with and however commands,
  worker events and further starts come in between; and a refresh requested of a running orchestrator
  sets polling going, also after a start that rejected.
\<close>

theorem polling_invariant:
  assumes "om_reachable m"
  shows "\<not> (or_tickInFlight (om_object m) \<and> or_nextTickTimer (om_object m) \<noteq> None) \<and>
         (\<not> om_running m \<longrightarrow> or_nextTickTimer (om_object m) = None) \<and>
         (om_running m \<and> om_starts m = 0 \<and> \<not> om_failed m \<longrightarrow> polls (om_object m)) \<and>
         (\<forall>m'. om_step m m' \<and> om_running m \<and> polls (om_object m) \<and> om_running m' \<longrightarrow> polls (om_object m')) \<and>
         (om_running m \<longrightarrow> polls (requestRefresh now (om_object m)))"
proof -
  have "om_ok m" by (rule om_reachable_ok [OF assms])
  then show ?thesis
    by (auto simp: om_ok_def sched_ok_def polls_refresh intro: om_step_polls split: if_splits)
qed

lemma tick_next:
  assumes "o_running (or_state x)" and "\<not> or_tickInFlight x" and "tick_rely t"
  shows "\<not> or_tickInFlight (tick t x) \<and> \<not> or_refreshQueued (tick t x) \<and> o_running (or_state (tick t x)) \<and>
         or_nextTickTimer (tick t x) =
           Some (ox_now (tk_env t) +
             (if or_refreshQueued x then 0 else getEffectivePollingInterval (tk_env t)))"
proof -
  obtain err s where b: "runLifecycleBody t (or_state (tick_begin x)) = (err, s)" by fastforce
  have "o_running s" using body_keeps_running [OF assms(3), of "or_state (tick_begin x)"] b assms(1)
    by (simp add: tick_begin_fields)
  moreover have "or_refreshQueued (tick_begin x) = or_refreshQueued x" by (simp add: tick_begin_def Let_def)
  moreover have "tick t x = tick_end (tk_env t) err ((tick_begin x)\<lparr>or_state := s\<rparr>)"
    using assms(1,2) by (simp add: tick_def Let_def tick_begin_fields b [unfolded tick_begin_fields])
  ultimately show ?thesis by (simp add: tick_end_fields)
qed

text \<open>
  A tick that starts while the orchestrator runs always ends with the next one scheduled,
  whichever part of its body rejects: at once if a refresh was queued, after the effective polling
  interval otherwise; and the queued refresh is spent.
\<close>

theorem tick_reschedules:
  assumes "o_running (or_state x)" and "\<not> or_tickInFlight x" and "tick_rely t"
  shows "\<not> or_tickInFlight (tick t x) \<and> \<not> or_refreshQueued (tick t x) \<and> o_running (or_state (tick t x)) \<and>
         or_nextTickTimer (tick t x) =
           Some (ox_now (tk_env t) +
             (if or_refreshQueued x then 0 else getEffectivePollingInterval (tk_env t)))"
  by (rule tick_next [OF assms])

section \<open>Stopping\<close>

lemma fold_stop_retry_timers:
  "set (timers (fold stop_retry es s)) = {tm \<in> set (timers s). Some (tm_id tm) \<notin> re_timer ` set es} \<and>
   nextTimerId (fold stop_retry es s) = nextTimerId s \<and>
   (distinct (map tm_id (timers s)) \<longrightarrow> distinct (map tm_id (timers (fold stop_retry es s))))"
proof (induction es arbitrary: s)
  case (Cons e es)
  have "set (timers (stop_retry e s)) = {tm \<in> set (timers s). Some (tm_id tm) \<noteq> re_timer e}"
    by (cases "re_timer e") (auto simp: stop_retry_def clearTimeout_def)
  moreover have "distinct (map tm_id (timers s)) \<longrightarrow> distinct (map tm_id (timers (stop_retry e s)))"
    by (cases "re_timer e") (auto simp: stop_retry_def clearTimeout_def distinct_map_filter_id)
  moreover have "nextTimerId (stop_retry e s) = nextTimerId s" by (simp add: stop_retry_def)
  moreover note Cons.IH [of "stop_retry e s"]
  ultimately show ?case by auto
qed simp

lemma fold_shutdown_all:
  "omap_ok m \<Longrightarrow> fold (\<lambda>p. omap_update (fst p) (abort_entry ''shutdown'')) m m =
     omap_map (\<lambda>_. abort_entry ''shutdown'') m"
  using fold_update_all [of m "\<lambda>_. abort_entry ''shutdown''"] by simp

lemma fold_shutdown_timer: "nextTimerId (fold shutdown_worker ps s) = nextTimerId s"
  by (induction ps arbitrary: s) (simp_all add: shutdown_worker_def record_effect_def)

lemma stop_state_spec:
  assumes "omap_ok (runningEntries s)"
  shows "retryEntries (stop_state s) = []" and "claimedIssueIds (stop_state s) = {}"
    and "runningEntries (stop_state s) = omap_map (\<lambda>_. abort_entry ''shutdown'') (runningEntries s)"
    and "set (timers (stop_state s)) =
           {tm \<in> set (timers s). Some (tm_id tm) \<notin> re_timer ` set (omap_values (retryEntries s))}"
    and "trace (stop_state s) =
           trace s @ map (\<lambda>e. AbortSignal (en_runId e) ''shutdown'') (omap_values (runningEntries s))"
    and "nextTimerId (stop_state s) = nextTimerId s"
    and "distinct (map tm_id (timers s)) \<Longrightarrow> distinct (map tm_id (timers (stop_state s)))"
  using assms
  by (simp_all add: stop_state_def Let_def stop_frames markDirty_def fold_stop_retry_timers
      fold_shutdown_all fold_shutdown_timer omap_values_def comp_def)

lemma claim_inv_stop:
  assumes "claim_inv s"
  shows "claim_inv (stop_state s)"
proof -
  have ok: "omap_ok (runningEntries s)" using assms by (simp add: claim_inv_def keys_ok_def)
  note spec = stop_state_spec [OF ok]
  have "issue_id (en_issue (abort_entry r e)) = issue_id (en_issue e)" for r e
    by (simp add: abort_entry_def split: option.split)
  then have "keys_ok (stop_state s)"
    using assms by (auto simp: keys_ok_def claim_inv_def spec) (auto simp: omap_map_def)
  moreover have "claims_ok (stop_state s)" by (simp add: claims_ok_def spec)
  moreover have "timers_ok (stop_state s)"
    using assms spec(7) by (auto simp: timers_ok_def claim_inv_def spec)
  ultimately show ?thesis by (simp add: claim_inv_def)
qed

text \<open>
  C7: stopping clears the timer of the next tick, the queued retries with their timers, the watchdog
  and all claims; every worker is told to stop, in the order of the map, and an entry that was being
  stopped already keeps its reason. The claim discipline holds afterwards. A tick that is in flight is left
  in flight.
\<close>

theorem stop_spec:
  assumes "claim_inv (or_state x)"
  shows "\<not> o_running (or_state (stop x)) \<and> or_nextTickTimer (stop x) = None \<and>
         or_tickInFlight (stop x) = or_tickInFlight x \<and>
         \<not> wd_timer (or_watchdog (stop x)) \<and>
         retryEntries (or_state (stop x)) = [] \<and> claimedIssueIds (or_state (stop x)) = {} \<and>
         (\<forall>e \<in> set (omap_values (retryEntries (or_state x))). \<forall>tm \<in> set (timers (or_state (stop x))).
            re_timer e \<noteq> Some (tm_id tm)) \<and>
         runningEntries (or_state (stop x)) =
           omap_map (\<lambda>_. abort_entry ''shutdown'') (runningEntries (or_state x)) \<and>
         trace (or_state (stop x)) = trace (or_state x) @
           map (\<lambda>e. AbortSignal (en_runId e) ''shutdown'') (omap_values (runningEntries (or_state x))) \<and>
         claim_inv (or_state (stop x))"
proof -
  have ok: "omap_ok (runningEntries (or_state x))" using assms by (simp add: claim_inv_def keys_ok_def)
  show ?thesis
    using claim_inv_stop [OF assms]
    by (auto simp: stop_def stop_state_spec [OF ok] watchdog_stop_def image_iff)
qed

lemma fold_stop_suppressions:
  "operatorAbortSuppressions (fold stop_retry es s) = operatorAbortSuppressions s"
  "operatorAbortSuppressions (fold shutdown_worker ps s) = operatorAbortSuppressions s"
  by (induction es arbitrary: s; simp add: stop_retry_def clearTimeout_def split: option.split)
    (induction ps arbitrary: s; simp add: shutdown_worker_def record_effect_def)

text \<open>
  The rest of a tick in flight is not told of the stop and does not look at the running flag: here the
  orchestrator is stopped while its tick waits for the candidates, and the tick launches a worker afterwards.
\<close>

theorem stopped_tick_launches:
  defines "x \<equiv> (new_orchestrator 0)\<lparr>or_state := idle_state, or_tickInFlight := True\<rparr>"
  shows "\<not> o_running (or_state (stop x)) \<and> or_tickInFlight (stop x) \<and>
    map fst (runningEntries (snd (launchAvailableWorkers sample_launch_env limited_config
      [example_issue ''A-1'' ''Todo'' None, example_issue ''A-2'' ''Todo'' None] (or_state (stop x))))) = [''A-1'']"
proof -
  define s where "s = or_state (stop x)"
  have s: "s = stop_state idle_state" by (simp add: s_def x_def stop_def)
  have ok: "omap_ok (runningEntries idle_state)"
    by (simp add: idle_state_def createLifecycleState_def omap_ok_def)
  have empty: "runningEntries s = []"
    unfolding s stop_state_spec(3) [OF ok] by (simp add: idle_state_def createLifecycleState_def omap_map_def)
  have sup: "operatorAbortSuppressions s = []"
    by (simp add: s stop_state_def Let_def fold_stop_suppressions markDirty_def) (simp add: idle_state_def createLifecycleState_def)
  have "fst (canDispatchIssue (example_issue ''A-1'' ''Todo'' None) limited_config {} [])" by code_simp
  then have "fst (canDispatchIssueInState limited_config (example_issue ''A-1'' ''Todo'' None) s)"
    using stop_state_spec(2) [OF ok] unfolding s [symmetric]
    by (auto simp: canDispatchIssueInState_def sup Let_def split: prod.splits)
  from sample_round [OF empty this] have "map fst (runningEntries (snd (launchAvailableWorkers sample_launch_env limited_config
      [example_issue ''A-1'' ''Todo'' None, example_issue ''A-2'' ''Todo'' None] s))) = [''A-1'']" by auto
  moreover have "\<not> o_running (or_state (stop x))" "or_tickInFlight (stop x)" by (simp_all add: x_def stop_def)
  ultimately show ?thesis by (simp add: s_def)
qed

section \<open>Looking up a worker\<close>

text \<open>The cached index is the index of the current entries whenever its revision is the current one.\<close>

definition lookup_ok :: "orchestrator \<Rightarrow> bool" where
  "lookup_ok x \<longleftrightarrow>
     (case or_lookupCache x of
        Some (r, m) \<Rightarrow> r < stateRevision (or_state x) \<or>
          (r = stateRevision (or_state x) \<and> m = entries_by_identifier (runningEntries (or_state x)))
      | None \<Rightarrow> True)"

lemma entries_by_identifier_get:
  "omap_get (entries_by_identifier m) ident =
     map_option fst (find (\<lambda>p. issue_identifier (en_issue (snd p)) = ident) (rev m))"
proof (induction m rule: rev_induct)
  case (snoc p m)
  then show ?case by (cases p) (simp add: entries_by_identifier_def)
qed (simp add: entries_by_identifier_def)

lemma find_mem: "find P xs = Some y \<Longrightarrow> y \<in> set xs \<and> P y"
  by (auto simp: find_Some_iff)

lemma lookup_result:
  assumes "lookup_ok x" and "omap_ok (runningEntries (or_state x))"
  shows "fst (getRunningEntryByIdentifier ident x) =
     find (\<lambda>p. issue_identifier (en_issue (snd p)) = ident) (rev (runningEntries (or_state x)))"
proof -
  let ?m = "runningEntries (or_state x)"
  have "fst (getRunningEntryByIdentifier ident x) =
      Option.bind (omap_get (entries_by_identifier ?m) ident) (\<lambda>k. map_option (\<lambda>e. (k, e)) (omap_get ?m k))"
    using assms(1) by (auto simp: getRunningEntryByIdentifier_def Let_def lookup_ok_def split: option.splits prod.splits)
  also have "\<dots> = find (\<lambda>p. issue_identifier (en_issue (snd p)) = ident) (rev ?m)"
  proof (cases "find (\<lambda>p. issue_identifier (en_issue (snd p)) = ident) (rev ?m)")
    case (Some p)
    then have "p \<in> set ?m" using find_mem [OF Some] by simp
    then have "omap_get ?m (fst p) = Some (snd p)" using assms(2) by (simp add: omap_get_in)
    with Some show ?thesis by (simp add: entries_by_identifier_get)
  qed (simp add: entries_by_identifier_get)
  finally show ?thesis .
qed

lemma lookup_keeps_ok: "lookup_ok x \<Longrightarrow> lookup_ok (snd (getRunningEntryByIdentifier k x))"
  by (auto simp: lookup_ok_def getRunningEntryByIdentifier_def Let_def split: option.splits prod.splits)

text \<open>
  A lookup by identifier, whether it is served from the cache or not, finds the entry added last
  among the running entries with that identifier, and finds none exactly when there is none; it
  leaves the cache consistent and changes nothing else.
\<close>

theorem lookup_spec:
  assumes "lookup_ok x" and "omap_ok (runningEntries (or_state x))"
  shows "case getRunningEntryByIdentifier ident x of (r, y) \<Rightarrow>
     r = find (\<lambda>p. issue_identifier (en_issue (snd p)) = ident) (rev (runningEntries (or_state x))) \<and>
     (r = None) = (ident \<notin> (issue_identifier \<circ> en_issue) ` set (omap_values (runningEntries (or_state x)))) \<and>
     lookup_ok y \<and> y\<lparr>or_lookupCache := or_lookupCache x\<rparr> = x"
proof -
  obtain r y where g: "getRunningEntryByIdentifier ident x = (r, y)" by fastforce
  have r: "r = find (\<lambda>p. issue_identifier (en_issue (snd p)) = ident) (rev (runningEntries (or_state x)))"
    using lookup_result [OF assms, of ident] g by simp
  moreover have "(r = None) = (ident \<notin> (issue_identifier \<circ> en_issue) ` set (omap_values (runningEntries (or_state x))))"
    unfolding r find_None_iff by (force simp: omap_values_def)
  moreover have "lookup_ok y" using lookup_keeps_ok [OF assms(1), of ident] g by simp
  moreover have "y\<lparr>or_lookupCache := or_lookupCache x\<rparr> = x"
    using g by (auto simp: getRunningEntryByIdentifier_def Let_def)
  ultimately show ?thesis by (simp add: g)
qed

section \<open>Aborting\<close>

definition abort_signals :: "orch \<Rightarrow> effect list" where
  "abort_signals s = filter (\<lambda>e. case e of AbortSignal _ _ \<Rightarrow> True | _ \<Rightarrow> False) (trace s)"

lemma abort_signals_push [simp]: "abort_signals (pushEvent ev s) = abort_signals s"
  by (simp add: abort_signals_def state_defs emitLifecycleEvent_def Let_def)

lemma abort_signals_ops [simp]:
  "abort_signals (markDirty s) = abort_signals s"
  "abort_signals (s\<lparr>runningEntries := m\<rparr>) = abort_signals s"
  "abort_signals (record_effect (AbortSignal i r) s) = abort_signals s @ [AbortSignal i r]"
  by (simp_all add: abort_signals_def markDirty_def record_effect_def)

definition stopped_entry :: "string \<Rightarrow> running_entry \<Rightarrow> running_entry" where
  "stopped_entry reason e = abort_entry reason (e\<lparr>en_status := SStopping\<rparr>)"

lemma omap_update_update: "omap_update k f (omap_update k g m) = omap_update k (f \<circ> g) m"
  by (induction m) (auto simp: omap_update_def)

lemma stop_entry_spec:
  "runningEntries (stop_entry k e ev reason s) = omap_update k (stopped_entry reason) (runningEntries s)"
  "abort_signals (stop_entry k e ev reason s) = abort_signals s @ [AbortSignal (en_runId e) reason]"
  "stateRevision (stop_entry k e ev reason s) = stateRevision s + 2"
  "claimedIssueIds (stop_entry k e ev reason s) = claimedIssueIds s"
  "retryEntries (stop_entry k e ev reason s) = retryEntries s"
  by (simp_all add: stop_entry_def Let_def omap_update_update stopped_entry_def [abs_def] comp_def)
    (simp_all add: state_defs)

lemma stopped_stopping: "is_stopping (stopped_entry reason e)"
  by (simp add: is_stopping_def stopped_entry_def abort_entry_def split: option.split)

lemma stopped_issue: "en_issue (stopped_entry reason e) = en_issue e"
  by (simp add: stopped_entry_def abort_entry_def split: option.split)

lemma find_rev_update:
  assumes "find (\<lambda>p. issue_identifier (en_issue (snd p)) = ident) xs = Some (k, e)"
    and "\<forall>v. en_issue (f v) = en_issue v" and "distinct (map fst xs)"
  shows "find (\<lambda>p. issue_identifier (en_issue (snd p)) = ident) (omap_update k f xs) = Some (k, f e)"
  using assms
proof (induction xs)
  case (Cons p xs)
  obtain k' v where p: "p = (k', v)" by (cases p)
  show ?case
  proof (cases "issue_identifier (en_issue v) = ident")
    case True
    with Cons.prems show ?thesis by (simp add: p omap_update_def)
  next
    case False
    with Cons.prems(1) have f: "find (\<lambda>p. issue_identifier (en_issue (snd p)) = ident) xs = Some (k, e)"
      by (simp add: p)
    then have "(k, e) \<in> set xs" using find_mem by metis
    then have "k \<noteq> k'" using Cons.prems(3) by (force simp: p)
    with False Cons.IH [OF f assms(2)] Cons.prems(3) show ?thesis by (simp add: p omap_update_def)
  qed
qed simp

lemma rev_omap_update: "rev (omap_update k f m) = omap_update k f (rev m)"
  by (simp add: omap_update_def rev_map)

definition aborted_state :: "orch_env \<Rightarrow> string \<Rightarrow> running_entry \<Rightarrow> orch \<Rightarrow> orch" where
  "aborted_state env k entry s =
     (if is_stopping entry then s
      else stop_entry k entry (worker_event (ox_now env) entry ''worker_abort_requested'' ''operator requested worker abort'')
             ''operator_abort'' s)"

lemma abort_found:
  assumes "fst (getRunningEntryByIdentifier ident x) = Some (k, entry)"
  shows "fst (handleAbortIssueCommand env ident x) = AbortOk (is_stopping entry) (iso_of_ms (ox_now env))"
    and "or_state (snd (handleAbortIssueCommand env ident x)) = aborted_state env k entry (or_state x)"
    and "or_refreshQueued (snd (handleAbortIssueCommand env ident x))"
    and "or_lookupCache (snd (handleAbortIssueCommand env ident x)) = or_lookupCache (snd (getRunningEntryByIdentifier ident x))"
proof -
  obtain y where y: "getRunningEntryByIdentifier ident x = (Some (k, entry), y)"
    using assms by (metis prod.collapse)
  moreover have "or_state y = or_state x" using or_more(4) [of ident x] y by simp
  moreover have "or_lookupCache (requestRefresh now z) = or_lookupCache z" for now z
    by (simp add: requestRefresh_def handleRefreshCommand_def plain_refresh_def scheduleTick_def Let_def)
  ultimately show "fst (handleAbortIssueCommand env ident x) = AbortOk (is_stopping entry) (iso_of_ms (ox_now env))"
    "or_state (snd (handleAbortIssueCommand env ident x)) = aborted_state env k entry (or_state x)"
    "or_refreshQueued (snd (handleAbortIssueCommand env ident x))"
    "or_lookupCache (snd (handleAbortIssueCommand env ident x)) = or_lookupCache (snd (getRunningEntryByIdentifier ident x))"
    by (simp_all add: handleAbortIssueCommand_def Let_def aborted_state_def)
qed

lemma abort_again:
  assumes "lookup_ok x" and "omap_ok (runningEntries (or_state x))"
    and "fst (getRunningEntryByIdentifier ident x) = Some (k, entry)"
  shows "\<exists>entry'. is_stopping entry' \<and>
    fst (getRunningEntryByIdentifier ident (snd (handleAbortIssueCommand env ident x))) = Some (k, entry')"
proof -
  let ?y = "snd (handleAbortIssueCommand env ident x)" and ?P = "\<lambda>p. issue_identifier (en_issue (snd p)) = ident"
  note found = abort_found [OF assms(3), of env]
  have f: "find ?P (rev (runningEntries (or_state x))) = Some (k, entry)"
    using lookup_result [OF assms(1,2), of ident] assms(3) by simp
  have c: "lookup_ok (snd (getRunningEntryByIdentifier ident x))" by (rule lookup_keeps_ok [OF assms(1)])
  have y: "lookup_ok ?y \<and> omap_ok (runningEntries (or_state ?y))"
    using assms(2) c by (auto simp: lookup_ok_def found aborted_state_def stop_entry_spec split: option.splits prod.splits)
  have "\<exists>entry'. is_stopping entry' \<and> find ?P (rev (runningEntries (or_state ?y))) = Some (k, entry')"
  proof (cases "is_stopping entry")
    case True
    then show ?thesis using f by (auto simp: found aborted_state_def)
  next
    case False
    have "distinct (map fst (rev (runningEntries (or_state x))))"
      using assms(2) by (simp add: omap_ok_def rev_map [symmetric])
    from find_rev_update [OF f _ this, of "stopped_entry ''operator_abort''"] False
    show ?thesis
      by (auto simp: found aborted_state_def stop_entry_spec rev_omap_update stopped_issue stopped_stopping)
  qed
  then show ?thesis using lookup_result [of ?y ident] y by simp
qed

text \<open>
  C8: an operator's abort of a running issue marks its entry as stopping, sends exactly one abort
  signal, touches no other entry and no claim, and queues a refresh; asked again while the entry is
  as the first abort left it, it reports that the worker is stopping already and sends nothing. A worker
  that was being stopped for another reason is left as it is.
\<close>

theorem abort_signals_once:
  assumes "lookup_ok x" and "omap_ok (runningEntries (or_state x))"
    and "fst (getRunningEntryByIdentifier ident x) = Some (k, entry)"
  shows "case handleAbortIssueCommand env ident x of (r, y) \<Rightarrow>
     r = AbortOk (is_stopping entry) (iso_of_ms (ox_now env)) \<and>
     abort_signals (or_state y) = abort_signals (or_state x) @
       (if is_stopping entry then [] else [AbortSignal (en_runId entry) ''operator_abort'']) \<and>
     runningEntries (or_state y) =
       (if is_stopping entry then runningEntries (or_state x)
        else omap_update k (stopped_entry ''operator_abort'') (runningEntries (or_state x))) \<and>
     claimedIssueIds (or_state y) = claimedIssueIds (or_state x) \<and> or_refreshQueued y \<and>
     (case handleAbortIssueCommand env2 ident y of (r2, z) \<Rightarrow>
        r2 = AbortOk True (iso_of_ms (ox_now env2)) \<and> or_state z = or_state y)"
proof -
  note found = abort_found [OF assms(3), of env]
  define y where "y = snd (handleAbortIssueCommand env ident x)"
  obtain entry' where e: "is_stopping entry'" "fst (getRunningEntryByIdentifier ident y) = Some (k, entry')"
    using abort_again [OF assms] unfolding y_def by blast
  note again = abort_found [OF e(2), of env2]
  have "or_state y = aborted_state env k entry (or_state x)" by (simp add: y_def found)
  moreover have "or_refreshQueued y" unfolding y_def by (rule found(3))
  moreover have "handleAbortIssueCommand env ident x = (AbortOk (is_stopping entry) (iso_of_ms (ox_now env)), y)"
    by (metis found(1) prod.collapse y_def)
  moreover have "handleAbortIssueCommand env2 ident y =
      (AbortOk True (iso_of_ms (ox_now env2)), snd (handleAbortIssueCommand env2 ident y))"
    by (metis again(1) e(1) prod.collapse)
  moreover have "or_state (snd (handleAbortIssueCommand env2 ident y)) = or_state y"
    using e(1) by (simp add: again(2) aborted_state_def)
  ultimately show ?thesis
    by (auto simp: aborted_state_def stop_entry_spec split: prod.splits)
qed

section \<open>Refreshing\<close>

text \<open>
  A refresh requested while the orchestrator is idle is served by two polls, not one: the timer is
  moved to now, and since a tick does not take the queued refresh when it starts, the tick it starts
  schedules another one at once; a second request before the first tick is coalesced.
\<close>

theorem idle_refresh_polls_twice:
  assumes "o_running (or_state x)" and "\<not> or_tickInFlight x" and "tick_rely t" and "tick_rely t2"
  shows "case plain_refresh now x of (r, y) \<Rightarrow>
     rf_coalesced r = or_refreshQueued x \<and> rf_queued r = (\<not> or_refreshQueued x) \<and>
     or_nextTickTimer y = Some now \<and> rf_coalesced (fst (plain_refresh now2 y)) \<and>
     or_nextTickTimer (tick t y) = Some (ox_now (tk_env t)) \<and>
     or_nextTickTimer (tick t2 (tick t y)) =
       Some (ox_now (tk_env t2) + getEffectivePollingInterval (tk_env t2))"
proof -
  have resched: "\<not> or_tickInFlight (tick u z) \<and> \<not> or_refreshQueued (tick u z) \<and> o_running (or_state (tick u z)) \<and>
      or_nextTickTimer (tick u z) = Some (ox_now (tk_env u) +
        (if or_refreshQueued z then 0 else getEffectivePollingInterval (tk_env u)))"
    if "tick_rely u" "o_running (or_state z)" "\<not> or_tickInFlight z" for u z
    by (rule tick_next [OF that(2,3,1)])
  obtain r y where p: "plain_refresh now x = (r, y)" by fastforce
  then have y: "o_running (or_state y)" "\<not> or_tickInFlight y" "or_refreshQueued y" "or_nextTickTimer y = Some now"
    "r = fst (plain_refresh now x)"
    using assms(1,2) by (auto simp: plain_refresh_def Let_def)
  have first: "or_nextTickTimer (tick t y) = Some (ox_now (tk_env t))" "\<not> or_tickInFlight (tick t y)"
      "\<not> or_refreshQueued (tick t y)" "o_running (or_state (tick t y))"
    using resched [OF assms(3) y(1,2)] y(3) by simp_all
  moreover have "or_nextTickTimer (tick t2 (tick t y)) =
      Some (ox_now (tk_env t2) + getEffectivePollingInterval (tk_env t2))"
    using resched [OF assms(4) first(4,2)] first(3) by simp
  moreover have "rf_coalesced (fst (plain_refresh now2 y))" using y(3) by (simp add: plain_refresh_def Let_def)
  moreover have "rf_coalesced r = or_refreshQueued x \<and> rf_queued r = (\<not> or_refreshQueued x)"
    by (simp add: y(5)) (simp add: plain_refresh_def Let_def)
  ultimately show ?thesis using y(4) by (simp add: p)
qed

section \<open>Starting\<close>

text \<open>
  When startup recovery fails, as it does when the tracker cannot be reached, \<open>start\<close> rejects but
  leaves the orchestrator marked as running with no tick pending, and a later \<open>start\<close>, whatever the
  tracker does then, returns at once and changes nothing: nothing polls until some other event asks
  for a refresh.
\<close>

theorem failed_start_strands:
  assumes "fst (start v x) = Some e" and "or_nextTickTimer x = None" and "\<not> or_tickInFlight x"
    and "\<And>p k s. o_running (rx_await (sv_recovery v) p k s) = o_running s"
  shows "o_running (or_state (snd (start v x))) \<and> or_nextTickTimer (snd (start v x)) = None \<and>
         \<not> or_tickInFlight (snd (start v x)) \<and>
         start v2 (snd (start v x)) = (None, snd (start v x))"
proof -
  have nr: "\<not> o_running (or_state x)" using assms(1) by (auto simp: start_def)
  let ?s2 = "or_state (start_call (sv_env v) x)"
  have "o_running ?s2" by (rule start_call_fields)
  moreover obtain r s3 where r: "runStartupRecovery (sv_recovery v) (sv_attempts v) False ?s2 = (r, s3)" by fastforce
  ultimately have "o_running s3" if "r = Inl e'" for e'
    using that assms(4)
    by (auto simp: runStartupRecovery_def Let_def split: if_splits sum.splits prod.splits)
  moreover from assms(1) nr r have "r = Inl e"
    by (auto simp: start_def Let_def split: sum.splits)
  ultimately show ?thesis
    using nr r assms(2,3) by (simp add: start_def Let_def start_call_fields)
qed

lemma claim_inv_extra_claims: "claim_inv s \<Longrightarrow> claim_inv (s\<lparr>claimedIssueIds := claimedIssueIds s \<union> ks, completedViews := vs\<rparr>)"
  by (auto simp: claim_inv_def keys_ok_def claims_ok_def timers_ok_def)

lemma seed_keeps_claims: "claim_inv s \<Longrightarrow> claim_inv (seedCompletedClaims attempts s)"
  by (auto simp: seedCompletedClaims_def Let_def claim_inv_extra_claims)

lemma load_row_same: "same_claims s (load_row row s)"
  by (auto simp: load_row_def same_claims_def Let_def split: option.split)

lemma load_rows_same: "same_claims s (load_rows rows s)"
proof -
  have "same_claims s (fold load_row rs s)" for rs
  proof (induction rs arbitrary: s)
    case (Cons r rs)
    then show ?case using load_row_same same_claims_trans by (metis fold_simps(2))
  qed simp
  then show ?thesis by (simp add: load_rows_def Let_def)
qed

lemma cleanup_same: "same_claims s (cleanupTerminalIssueWorkspaces fetched s)"
  by (auto simp: cleanupTerminalIssueWorkspaces_def same_claims_def split: sum.split)

lemma watchdog_start_same: "watchdog_start h now (w, s) = (w', s') \<Longrightarrow> same_claims s s'"
  by (auto simp: watchdog_start_def runCheck_def Let_def split: if_splits)

lemma start_success:
  assumes "start v x = (None, y)" and "\<not> o_running (or_state x)"
  obtains s2 report s3 where
    "same_claims ((or_state x)\<lparr>o_running := True\<rparr>) s2"
    "runStartupRecovery (sv_recovery v) (sv_attempts v) False s2 = (Inr report, s3)"
    "or_state y = load_rows (sv_configRows v) (seedCompletedClaims (sv_archive v) (cleanupTerminalIssueWorkspaces (sv_terminal v) s3))"
    "or_lastRecoveryReport y = Some report"
proof -
  let ?s2 = "or_state (start_call (sv_env v) x)"
  obtain w s' where w: "watchdog_start (ox_host (sv_env v)) (ox_now (sv_env v))
      (or_watchdog x, markDirty ((or_state x)\<lparr>o_running := True\<rparr>)) = (w, s')" by fastforce
  then have s2: "same_claims ((or_state x)\<lparr>o_running := True\<rparr>) ?s2"
    using watchdog_start_same [OF w] by (simp add: same_claims_def markDirty_def start_call_def)
  obtain r s3 where r: "runStartupRecovery (sv_recovery v) (sv_attempts v) False ?s2 = (r, s3)" by fastforce
  have "or_lastRecoveryReport (scheduleTick now d z) = or_lastRecoveryReport z" for now d z
    by (simp add: scheduleTick_def)
  with assms r have "\<exists>report. r = Inr report \<and> or_lastRecoveryReport y = Some report \<and>
      or_state y = load_rows (sv_configRows v) (seedCompletedClaims (sv_archive v) (cleanupTerminalIssueWorkspaces (sv_terminal v) s3))"
    by (auto simp: start_def start_seed_def Let_def split: sum.splits)
  then show thesis using that s2 r by blast
qed

text \<open>
  A successful start from a state in which nothing runs or waits leaves the claim discipline in
  force, keeps the recovery report, and withholds from dispatch every issue whose latest archived
  attempt completed; what recovery resumed is running and claimed.
\<close>

theorem start_claims:
  assumes "start v x = (None, y)" and "\<not> o_running (or_state x)" and "claim_inv (or_state x)"
    and "runningEntries (or_state x) = []" and "retryEntries (or_state x) = []"
    and "recovery_rely (sv_recovery v) (latestRunningAttempts (sv_attempts v))"
    and "\<And>s. pending_ok (at_issueId ` set (latestRunningAttempts (sv_attempts v))) s \<Longrightarrow>
           pending_ok (at_issueId ` set (latestRunningAttempts (sv_attempts v))) (rx_await (sv_recovery v) RxFetch [] s)"
  shows "claim_inv (or_state y) \<and> or_lastRecoveryReport y \<noteq> None \<and>
         seed_claimedIssueIds (seedCompletedClaimsFromAttempts (sv_archive v)) \<subseteq> claimedIssueIds (or_state y)"
proof -
  obtain s2 report s3 where s: "same_claims ((or_state x)\<lparr>o_running := True\<rparr>) s2"
    "runStartupRecovery (sv_recovery v) (sv_attempts v) False s2 = (Inr report, s3)"
    "or_state y = load_rows (sv_configRows v) (seedCompletedClaims (sv_archive v) (cleanupTerminalIssueWorkspaces (sv_terminal v) s3))"
    "or_lastRecoveryReport y = Some report"
    using start_success [OF assms(1,2)] by metis
  let ?s4 = "seedCompletedClaims (sv_archive v) (cleanupTerminalIssueWorkspaces (sv_terminal v) s3)"
  have "claim_inv ((or_state x)\<lparr>o_running := True\<rparr>)"
    using assms(3-5) by (simp add: claim_inv_def keys_ok_def claims_ok_def timers_ok_def)
  then have "claim_inv s2" using claim_inv_same [OF s(1)] by simp
  moreover have "owned k s2" for k using s(1) assms(4,5) by (simp add: owned_def same_claims_def)
  ultimately have "pending_ok (at_issueId ` set (latestRunningAttempts (sv_attempts v))) s2"
    by (simp add: pending_ok_def)
  with assms(6,7) have "claim_inv (snd (runStartupRecovery (sv_recovery v) (sv_attempts v) False s2))"
    by (intro recovery_keeps_claims) blast+
  then have "claim_inv ?s4"
    using s(2) by (simp add: seed_keeps_claims claim_inv_same [OF cleanup_same])
  then have "claim_inv (or_state y)" by (simp add: s(3) claim_inv_same [OF load_rows_same])
  moreover have "claimedIssueIds (or_state y) = claimedIssueIds ?s4"
    using load_rows_same [of ?s4 "sv_configRows v"] by (simp add: s(3) same_claims_def)
  moreover have "seed_claimedIssueIds (seedCompletedClaimsFromAttempts (sv_archive v)) \<subseteq> claimedIssueIds ?s4"
    by (auto simp: seedCompletedClaims_def Let_def markDirty_def)
  ultimately show ?thesis using s(4) by simp
qed

section \<open>Overrides\<close>

lemma detail_known: "(getIssueDetail env x ident = None) = (locate_issue (or_state x) ident = None)"
  by (simp add: getIssueDetail_def buildIssueDetail_def Let_def split: option.split)

lemma locate_same:
  "locate_issue (record_effect e s) ident = locate_issue s ident"
  "locate_issue (markDirty s) ident = locate_issue s ident"
  "locate_issue (s\<lparr>issueTemplateOverrides := m\<rparr>) ident = locate_issue s ident"
  "locate_issue (s\<lparr>issueModelOverrides := m2\<rparr>) ident = locate_issue s ident"
  by (simp_all add: locate_issue_def record_effect_def markDirty_def)

text \<open>
  Setting a template for an issue and clearing it again is a round trip: after the set, and only
  for that issue, the lookup returns the template; after the clear, none. Each write makes the caches
  stale and reaches the store. An identifier the orchestrator does not know is refused and nothing
  changes.
\<close>

theorem template_override_roundtrip:
  "if getIssueDetail env x ident = None
   then handleSetIssueTemplateOverrideCommand env ident tid x = (False, x) \<and>
        handleClearIssueTemplateOverrideCommand env ident x = (False, x)
   else case handleSetIssueTemplateOverrideCommand env ident tid x of (ok, y) \<Rightarrow>
     ok \<and> getTemplateOverride other y = (if other = ident then Some tid else getTemplateOverride other x) \<and>
     trace (or_state y) = trace (or_state x) @ [UpsertTemplateId ident tid] \<and>
     stateRevision (or_state y) = stateRevision (or_state x) + 1 \<and>
     (case handleClearIssueTemplateOverrideCommand env2 ident y of (ok2, z) \<Rightarrow>
        ok2 \<and> getTemplateOverride other z = (if other = ident then None else getTemplateOverride other x) \<and>
        trace (or_state z) = trace (or_state y) @ [ClearTemplateId ident])"
  by (simp add: handleSetIssueTemplateOverrideCommand_def handleClearIssueTemplateOverrideCommand_def
      getTemplateOverride_def detail_known locate_same record_effect_def)
    (simp add: markDirty_def locate_issue_def)

text \<open>
  A model update for a known issue is what the next launch of that issue resolves to, and no other
  issue's selection moves; it is stored, and the answer says whether a live worker or queued retry will
  pick it up, which a worker that is being aborted will not. An unknown identifier changes nothing.
\<close>

theorem model_update_resolves:
  "case updateIssueModelSelection env ident m effort x of
     (None, y) \<Rightarrow> y = x \<and> getIssueDetail env x ident = None
   | (Some u, y) \<Rightarrow>
       mu_selection u = \<lparr>sel_model = m, sel_effort = of_null effort, sel_source = OverrideSource\<rparr> \<and>
       resolveModelSelection (issueModelOverrides (or_state y)) cfg other =
         (if other = ident then mu_selection u
          else resolveModelSelection (issueModelOverrides (or_state x)) cfg other) \<and>
       UpsertModel ident m effort \<in> set (trace (or_state y)) \<and>
       mu_appliesNextAttempt u =
         (case resolveIssue ident (runningEntries (or_state x)) (retryEntries (or_state x)) [] [] of
            Some (LocRunning e) \<Rightarrow> \<not> is_aborted e | Some (LocRetry r) \<Rightarrow> True | _ \<Rightarrow> False)"
proof (cases "getIssueDetail env x ident = None")
  case True
  then show ?thesis by (simp add: updateIssueModelSelection_def)
next
  case False
  let ?loc = "resolveIssue ident (runningEntries (or_state x)) (retryEntries (or_state x)) [] []"
  define s1 where "s1 = record_effect (UpsertModel ident m effort)
     (markDirty ((or_state x)\<lparr>issueModelOverrides := omap_set ident
        \<lparr>ov_model = m, ov_effort = of_null effort\<rparr> (issueModelOverrides (or_state x))\<rparr>))"
  have loc: "resolveIssue ident (runningEntries s1) (retryEntries s1) [] [] = ?loc"
    by (simp add: s1_def record_effect_def markDirty_def)
  have t: "UpsertModel ident m effort \<in> set (trace s1)" by (simp add: s1_def record_effect_def)
  have r: "resolveModelSelection (issueModelOverrides s1) c other =
      (if other = ident then \<lparr>sel_model = m, sel_effort = of_null effort, sel_source = OverrideSource\<rparr>
       else resolveModelSelection (issueModelOverrides (or_state x)) c other)" for c other
    by (simp add: resolveModelSelection_def s1_def record_effect_def markDirty_def)
  have p: "issueModelOverrides (pushEvent ev s) = issueModelOverrides s"
    "e \<in> set (trace s) \<Longrightarrow> e \<in> set (trace (pushEvent ev s))" for ev s e
    by (auto simp: state_defs)
  show ?thesis
  proof (cases ?loc)
    case None
    show ?thesis
      using False unfolding updateIssueModelSelection_def Let_def s1_def [symmetric] loc None
      by (simp add: r t)
  next
    case (Some l)
    show ?thesis
      using False p t unfolding updateIssueModelSelection_def Let_def s1_def [symmetric] loc Some
      by (cases l) (auto simp: r)
  qed
qed

section \<open>The snapshot cache\<close>

lemma getCachedSnapshot_state [simp]: "or_state (snd (getCachedSnapshot env x)) = or_state x"
  by (simp add: getCachedSnapshot_def Let_def split: option.split prod.split)

lemma getCachedSnapshot_hit:
  "\<exists>snap. or_cachedSnapshot (snd (getCachedSnapshot env x)) = Some (stateRevision (or_state x), snap) \<and>
     fst (getCachedSnapshot env x) = snap"
  by (auto simp: getCachedSnapshot_def Let_def split: option.split prod.split)

text \<open>
  As long as no operation moves the state's revision, every reader is given the snapshot the first
  one was given, at whatever time and with whatever data behind it; a snapshot read after the state was
  marked dirty is built anew from the state at that moment.
\<close>

theorem snapshot_cache:
  assumes "stateRevision s = stateRevision (or_state x)" and "stateRevision (or_state x) < stateRevision s2"
  shows "case getCachedSnapshot env x of (snap, y) \<Rightarrow>
     fst (getCachedSnapshot env2 (y\<lparr>or_state := s\<rparr>)) = snap \<and>
     getSerializedState env2 (y\<lparr>or_state := s\<rparr>) = (serializeSnapshot snap, y\<lparr>or_state := s\<rparr>) \<and>
     fst (getCachedSnapshot env2 (y\<lparr>or_state := s2\<rparr>)) = buildSnapshot (read_env_of env2 y) s2"
proof -
  obtain snap y where g: "getCachedSnapshot env x = (snap, y)" by fastforce
  then have c: "or_cachedSnapshot y = Some (stateRevision (or_state x), snap)"
    using getCachedSnapshot_hit [of env x] by simp
  have "read_env_of env2 (y\<lparr>or_state := s2\<rparr>) = read_env_of env2 y" by (simp add: read_env_of_def)
  then show ?thesis
    using assms by (simp add: g) (simp add: getSerializedState_def getCachedSnapshot_def c Let_def)
qed

text \<open>
  Reconciling a queued retry of an issue that is still active replaces the issue it holds without
  marking the state dirty, so what the tracker changed (a title, a state, a priority) is not shown by
  a snapshot until something else moves the revision.
\<close>

theorem retry_update_unseen:
  assumes "omap_get byId (re_issueId e) = Some latest"
    and "\<not> isTerminalState (issue_state latest) (rc_config renv)"
    and "isActiveState (issue_state latest) (rc_config renv)"
    and "omap_get (retryEntries (or_state x)) (re_issueId e) = Some e"
    and "or_cachedSnapshot x = Some (stateRevision (or_state x), snap)"
  shows "map_option re_issue (omap_get (retryEntries (reconcile_retry renv byId e (or_state x))) (re_issueId e)) = Some latest \<and>
         fst (getCachedSnapshot env (x\<lparr>or_state := reconcile_retry renv byId e (or_state x)\<rparr>)) = snap"
  using assms
  by (simp add: reconcile_retry_def set_retry_issue_def getCachedSnapshot_def)

section \<open>Samples\<close>

definition sample_orch_env :: orch_env where
  "sample_orch_env =
     \<lparr>ox_now = 7000, ox_host = example_host, ox_config = sample_config, ox_webhookHealth = None,
      ox_read = \<lparr>rd_host = example_host, rd_now = 0, rd_config = sample_config, rd_getAttempt = (\<lambda>_. None),
        rd_getEvents = (\<lambda>_. []), rd_attemptsForIssue = (\<lambda>_. []), rd_archivedSeconds = 0,
        rd_archivedCost = 0, rd_archivedTokens = sample_usage 0, rd_templateName = (\<lambda>_. None),
        rd_systemHealth = \<lparr>sh_status = Healthy, sh_checkedAt = [], sh_runningCount = 0, sh_message = []\<rparr>,
        rd_webhookHealth = None, rd_costSamples = [], rd_healthChecks = None\<rparr>,
      ox_number = (\<lambda>_. None)\<rparr>"

definition sample_tick :: tick_env where
  "sample_tick =
     \<lparr>tk_env = sample_orch_env, tk_reconcile = sample_reconcile_env [], tk_candidates = Inl (JsError ''fetch failed''),
      tk_awaitCandidates = (\<lambda>s. s), tk_launch = sample_launch_env\<rparr>"

definition sample_start :: "attempt_record list \<Rightarrow> (js_error + issue list) \<Rightarrow> start_env" where
  "sample_start attempts fetched =
     \<lparr>sv_env = sample_orch_env, sv_recovery = sample_recovery_env\<lparr>rx_fetch := (\<lambda>_. fetched)\<rparr>,
      sv_attempts = attempts, sv_terminal = Inr [], sv_archive = [], sv_configRows = []\<rparr>"

definition sample_orchestrator :: orchestrator where
  "sample_orchestrator = (new_orchestrator 0)\<lparr>or_state := sample_running\<rparr>"

lemma sample_tick_rely: "tick_rely sample_tick"
  by (simp add: tick_rely_def sample_tick_def sample_launch_env_def sample_reconcile_env_def)

text \<open>A call of \<open>start\<close> whose tracker answers: what it leaves is what the machine's steps lead to.\<close>

lemma start_by_steps:
  assumes "start v (om_object m) = (None, y)" and "\<not> om_running m" and "om_starts m = 0"
    and "\<And>s. o_running (snd (runStartupRecovery (sv_recovery v) (sv_attempts v) False s)) = o_running s"
  shows "om_step\<^sup>*\<^sup>* m (m\<lparr>om_object := y\<rparr>)"
proof -
  let ?x1 = "start_call (sv_env v) (om_object m)"
  obtain report s where r: "runStartupRecovery (sv_recovery v) (sv_attempts v) False (or_state ?x1) = (Inr report, s)"
    and y: "y = scheduleTick (ox_now (sv_env v)) 0 (start_seed v (?x1\<lparr>or_state := s, or_lastRecoveryReport := Some report\<rparr>))"
    using assms(1,2) by (auto simp: start_def Let_def split: prod.splits sum.splits)
  let ?m = "\<lambda>x n. \<lparr>om_object = x, om_starts = n, om_failed = om_failed m\<rparr>"
  have m: "m\<lparr>om_object := x, om_starts := n\<rparr> = ?m x n" for x n by (cases m) simp
  have a: "om_step m (?m ?x1 1)" using called [OF assms(2), of "sv_env v"] assms(3) by (simp add: m)
  have b: "om_step (?m ?x1 1) (?m (?x1\<lparr>or_state := s\<rparr>) 1)"
    using event [of "?m ?x1 1", OF work [of s]] assms(4) [of "or_state ?x1"] by (simp add: r)
  have c: "om_step (?m (?x1\<lparr>or_state := s\<rparr>) 1) (?m (?x1\<lparr>or_state := s, or_lastRecoveryReport := Some report\<rparr>) 1)"
    using recovered [of "?m (?x1\<lparr>or_state := s\<rparr>) 1" report] by simp
  have d: "om_step (?m (?x1\<lparr>or_state := s, or_lastRecoveryReport := Some report\<rparr>) 1) (?m y 0)"
    using returned [of "?m (?x1\<lparr>or_state := s, or_lastRecoveryReport := Some report\<rparr>) 1" "ox_now (sv_env v)" v] by (simp add: y)
  have "om_step\<^sup>*\<^sup>* m (?m y 0)"
    by (rule rtranclp.rtrancl_into_rtrancl [OF rtranclp.rtrancl_into_rtrancl [OF rtranclp.rtrancl_into_rtrancl
          [OF r_into_rtranclp [of om_step, OF a] b] c] d])
  also have "?m y 0 = m\<lparr>om_object := y\<rparr>" using assms(3) by (cases m) simp
  finally show ?thesis by simp
qed

lemma sample_started: "start (sample_start [] (Inr [])) (new_orchestrator 0) = (None, snd (start (sample_start [] (Inr [])) (new_orchestrator 0)))"
  "o_running (or_state (snd (start (sample_start [] (Inr [])) (new_orchestrator 0))))"
proof -
  have r: "latestRunningAttempts [] = []" by (simp add: latestRunningAttempts_def latest_by_def omap_values_def)
  have n: "\<not> o_running (or_state (new_orchestrator 0))" by (simp add: new_orchestrator_def createLifecycleState_def)
  show "start (sample_start [] (Inr [])) (new_orchestrator 0) = (None, snd (start (sample_start [] (Inr [])) (new_orchestrator 0)))"
    "o_running (or_state (snd (start (sample_start [] (Inr [])) (new_orchestrator 0))))"
    using n
    by (simp_all add: start_fields start_def sample_start_def runStartupRecovery_def r Let_def cleanupTerminalIssueWorkspaces_def load_rows_def)
qed

definition sample_machine :: orch_machine where
  "sample_machine = (new_machine 0)\<lparr>om_object :=
     scheduleTick 7000 0 (start_seed (sample_start [] (Inr [])) (start_call sample_orch_env (new_orchestrator 0)))\<rparr>"

lemma sample_machine_reachable: "om_reachable sample_machine" "om_running sample_machine"
proof -
  let ?m1 = "(new_machine 0)\<lparr>om_object := start_call sample_orch_env (new_orchestrator 0), om_starts := 1\<rparr>"
  have "\<not> om_running (new_machine 0)" by (simp add: new_machine_def new_orchestrator_def createLifecycleState_def)
  from called [OF this, of sample_orch_env] have "om_step (new_machine 0) ?m1" by (simp add: new_machine_def)
  moreover have "om_step ?m1 sample_machine"
    using returned [of ?m1 7000 "sample_start [] (Inr [])"] by (simp add: sample_machine_def new_machine_def)
  ultimately show "om_reachable sample_machine" by (meson om_reachable.intros)
  show "om_running sample_machine" by (simp add: sample_machine_def start_fields)
qed

theorem polling_invariant_witness:
  "polls (om_object sample_machine) \<and>
   \<not> (or_tickInFlight (om_object sample_machine) \<and> or_nextTickTimer (om_object sample_machine) \<noteq> None)"
  using polling_invariant [OF sample_machine_reachable(1)] sample_machine_reachable(2)
  by (simp add: sample_machine_def new_machine_def)

theorem tick_reschedules_witness:
  "or_nextTickTimer (tick sample_tick sample_orchestrator) = Some 37000"
proof -
  have "o_running (or_state sample_orchestrator)" "\<not> or_tickInFlight sample_orchestrator"
    "\<not> or_refreshQueued sample_orchestrator"
    by (simp_all add: sample_orchestrator_def new_orchestrator_def sample_running_def)
  with tick_reschedules [OF this(1,2) sample_tick_rely] show ?thesis
    by (simp add: getEffectivePollingInterval_def sample_tick_def sample_orch_env_def sample_config_def)
qed

theorem stop_spec_witness:
  "runningEntries (or_state (stop sample_orchestrator)) =
     [(''A-1'', abort_entry ''shutdown'' (sample_entry ''A-1'' ''s1''))]"
proof -
  have "claim_inv (or_state sample_orchestrator)" using sample_running_inv by (simp add: sample_orchestrator_def)
  from stop_spec [OF this] show ?thesis
    by (simp add: sample_orchestrator_def sample_running_def omap_map_def)
qed

lemma sample_lookup:
  "lookup_ok sample_orchestrator" "omap_ok (runningEntries (or_state sample_orchestrator))"
  "fst (getRunningEntryByIdentifier ''A-1'' sample_orchestrator) = Some (''A-1'', sample_entry ''A-1'' ''s1'')"
proof -
  show l: "lookup_ok sample_orchestrator" "omap_ok (runningEntries (or_state sample_orchestrator))"
    by (simp_all add: lookup_ok_def sample_orchestrator_def new_orchestrator_def sample_running_def omap_ok_def)
  show "fst (getRunningEntryByIdentifier ''A-1'' sample_orchestrator) = Some (''A-1'', sample_entry ''A-1'' ''s1'')"
    by (simp add: lookup_result [OF l]) (simp add: sample_orchestrator_def sample_running_def sample_entry_def example_issue_def)
qed

theorem lookup_spec_witness:
  "fst (getRunningEntryByIdentifier ''B-9'' sample_orchestrator) = None"
  using lookup_spec [OF sample_lookup(1,2), of "''B-9''"]
  by (auto simp: sample_orchestrator_def sample_running_def sample_entry_def example_issue_def omap_values_def)

theorem abort_signals_once_witness:
  "abort_signals (or_state (snd (handleAbortIssueCommand sample_orch_env ''A-1'' sample_orchestrator))) =
     [AbortSignal ''A-1-run'' ''operator_abort'']"
proof -
  have "\<not> is_stopping (sample_entry ''A-1'' ''s1'')" "en_runId (sample_entry ''A-1'' ''s1'') = ''A-1-run''"
    "abort_signals (or_state sample_orchestrator) = []"
    by (simp_all add: is_stopping_def sample_entry_def is_aborted_def abort_signals_def sample_orchestrator_def
        sample_running_def createLifecycleState_def)
  then show ?thesis
    using abort_signals_once [OF sample_lookup, of sample_orch_env sample_orch_env] by (auto split: prod.splits)
qed

theorem idle_refresh_polls_twice_witness:
  "or_nextTickTimer (tick sample_tick (snd (plain_refresh 6000 sample_orchestrator))) = Some 7000"
proof -
  have "o_running (or_state sample_orchestrator)" "\<not> or_tickInFlight sample_orchestrator"
    by (simp_all add: sample_orchestrator_def new_orchestrator_def sample_running_def)
  moreover have "ox_now (tk_env sample_tick) = 7000" by (simp add: sample_tick_def sample_orch_env_def)
  ultimately show ?thesis
    using idle_refresh_polls_twice [OF _ _ sample_tick_rely sample_tick_rely, of sample_orchestrator 6000 0]
    by (simp split: prod.splits)
qed

lemma sample_start_fails:
  "fst (start (sample_start [sample_attempt ''A-1'' None] (Inl (JsError ''unreachable''))) (new_orchestrator 0)) =
     Some (JsError ''unreachable'')"
proof -
  have r: "latestRunningAttempts [sample_attempt ''A-1'' None] \<noteq> []"
    by (simp add: latestRunningAttempts_def latest_by_def omap_values_def sample_attempt_def)
  have n: "\<not> o_running (or_state (new_orchestrator 0))" by (simp add: new_orchestrator_def createLifecycleState_def)
  show ?thesis
    using r n by (simp add: start_def sample_start_def runStartupRecovery_def Let_def split: prod.split)
qed

theorem failed_start_strands_witness:
  "or_nextTickTimer (snd (start (sample_start [] (Inr []))
      (snd (start (sample_start [sample_attempt ''A-1'' None] (Inl (JsError ''unreachable''))) (new_orchestrator 0))))) = None"
proof -
  have "or_nextTickTimer (new_orchestrator 0) = None" "\<not> or_tickInFlight (new_orchestrator 0)"
    by (simp_all add: new_orchestrator_def)
  moreover have "o_running (rx_await (sv_recovery (sample_start as f)) p k s) = o_running s" for as f p k s
    by (simp add: sample_start_def sample_recovery_env_def)
  ultimately show ?thesis
    using failed_start_strands [OF sample_start_fails, of "sample_start [] (Inr [])"] by simp
qed

theorem start_claims_witness:
  "claim_inv (or_state (snd (start (sample_start [] (Inr [])) (new_orchestrator 0))))"
proof -
  let ?v = "sample_start [] (Inr [])" and ?x = "new_orchestrator 0"
  have r: "latestRunningAttempts (sv_attempts ?v) = []"
    by (simp add: sample_start_def latestRunningAttempts_def latest_by_def omap_values_def)
  have s: "\<not> o_running (or_state ?x)" "claim_inv (or_state ?x)" "runningEntries (or_state ?x) = []"
    "retryEntries (or_state ?x) = []"
    by (simp_all add: new_orchestrator_def createLifecycleState_def claim_inv_def keys_ok_def claims_ok_def timers_ok_def)
  have "recovery_rely (sv_recovery ?v) (latestRunningAttempts (sv_attempts ?v))" by (simp add: r)
  moreover have "rx_await (sv_recovery ?v) RxFetch [] u = u" for u
    by (simp add: sample_start_def sample_recovery_env_def)
  ultimately show ?thesis
    using start_claims [OF sample_started(1) s] by simp
qed

theorem snapshot_cache_witness:
  "fst (getCachedSnapshot (sample_orch_env\<lparr>ox_now := 99999\<rparr>) (snd (getCachedSnapshot sample_orch_env sample_orchestrator))) =
     fst (getCachedSnapshot sample_orch_env sample_orchestrator)"
proof -
  let ?e2 = "sample_orch_env\<lparr>ox_now := 99999\<rparr>" and ?s = "or_state sample_orchestrator"
  obtain snap y where g: "getCachedSnapshot sample_orch_env sample_orchestrator = (snap, y)" by fastforce
  have "stateRevision ?s < stateRevision (markDirty ?s)" by (simp add: markDirty_def)
  from snapshot_cache [OF refl this, where env = sample_orch_env and ?env2.0 = ?e2]
  have "fst (getCachedSnapshot ?e2 (y\<lparr>or_state := ?s\<rparr>)) = snap" unfolding g prod.case by (rule conjunct1)
  moreover have "y\<lparr>or_state := ?s\<rparr> = y"
    using getCachedSnapshot_state [of sample_orch_env sample_orchestrator] unfolding g snd_conv
    by (cases y) simp
  ultimately show ?thesis by (simp only: g fst_conv snd_conv)
qed

theorem retry_update_unseen_witness:
  "map_option (issue_state \<circ> re_issue) (omap_get (retryEntries (reconcile_retry (sample_reconcile_env [])
     [(''A-1'', example_issue ''A-1'' ''In Progress'' None)] sample_retry queued_state)) ''A-1'') = Some ''In Progress''"
proof -
  let ?x = "(new_orchestrator 0)\<lparr>or_state := queued_state\<rparr>" and ?i = "example_issue ''A-1'' ''In Progress'' None"
  let ?y = "snd (getCachedSnapshot sample_orch_env ?x)"
  obtain snap where "or_cachedSnapshot ?y = Some (stateRevision (or_state ?y), snap)"
    using getCachedSnapshot_hit [of sample_orch_env ?x] by auto
  moreover have "omap_get [(''A-1'', ?i)] (re_issueId sample_retry) = Some ?i"
    by (simp add: omap_get_def sample_retry_def)
  moreover have "\<not> isTerminalState (issue_state ?i) (rc_config (sample_reconcile_env []))"
    "isActiveState (issue_state ?i) (rc_config (sample_reconcile_env []))" "issue_state ?i = ''In Progress''"
    by code_simp+
  moreover have "omap_get (retryEntries (or_state ?y)) (re_issueId sample_retry) = Some sample_retry"
    by (simp add: queued_state_def omap_get_def) (simp add: sample_retry_def)
  ultimately have "map_option re_issue (omap_get (retryEntries (reconcile_retry (sample_reconcile_env [])
      [(''A-1'', ?i)] sample_retry (or_state ?y))) (re_issueId sample_retry)) = Some ?i"
    using retry_update_unseen by blast
  moreover have "re_issueId sample_retry = ''A-1''" by (simp add: sample_retry_def)
  ultimately show ?thesis by (auto simp: example_issue_def)
qed

end
