(* ===== verification/Sanitizer.thy ===== *)
theory Sanitizer
  imports CoreTypes
begin

text \<open>
  The content sanitizer, \<open>src/src/core/content-sanitizer.ts\<close>. Each of its hand-written scanners walks
  the text with an index; here the walk is \<open>scan_with\<close> over the rest of the text, and what a scanner
  does at one position is its \<open>match\<close> function: \<open>None\<close> where it copies a character, \<open>Some (out, n)\<close>
  where it writes \<open>out\<close> and skips \<open>n\<close> characters after the current one. Strings are Latin-1 code
  units, on which \<open>toLowerCase\<close> keeps the length. The values \<open>redactSensitiveValue\<close> walks are JSON
  values, which \<open>structuredClone\<close> copies as they are; its fallback for values that are not JSON is not
  modelled. The ellipsis of the truncation hint is one code unit outside Latin-1, written as the code
  unit \<open>0x85\<close>.
\<close>

section \<open>Scanning\<close>

function scan_with :: "(string \<Rightarrow> (string \<times> nat) option) \<Rightarrow> string \<Rightarrow> string" where
  "scan_with m [] = []"
| "scan_with m (c # s) =
     (case m (c # s) of None \<Rightarrow> c # scan_with m s | Some (out, n) \<Rightarrow> out @ scan_with m (drop n s))"
  by pat_completeness auto
termination by (relation "measure (length \<circ> snd)") auto

definition redaction :: string where
  "redaction = ''[REDACTED]''"

definition redactedObject :: string where
  "redactedObject = ''[REDACTED_OBJECT]''"

definition is_digit :: "char \<Rightarrow> bool" where
  "is_digit c \<longleftrightarrow> (let n = (of_char c :: nat) in 48 \<le> n \<and> n \<le> 57)"

definition is_upper_az :: "char \<Rightarrow> bool" where
  "is_upper_az c \<longleftrightarrow> (let n = (of_char c :: nat) in 65 \<le> n \<and> n \<le> 90)"

definition is_lower_az :: "char \<Rightarrow> bool" where
  "is_lower_az c \<longleftrightarrow> (let n = (of_char c :: nat) in 97 \<le> n \<and> n \<le> 122)"

definition isWordChar :: "char \<Rightarrow> bool" where
  "isWordChar c \<longleftrightarrow> is_digit c \<or> is_upper_az c \<or> is_lower_az c \<or> c = CHR ''_''"

definition isBearerTokenChar :: "char \<Rightarrow> bool" where
  "isBearerTokenChar c \<longleftrightarrow> isWordChar c \<or> c \<in> set ''.~+/-''"

definition isSlackTokenChar :: "char \<Rightarrow> bool" where
  "isSlackTokenChar c \<longleftrightarrow> is_digit c \<or> is_upper_az c \<or> is_lower_az c \<or> c = CHR ''-''"

definition isAwsAccessKeyChar :: "char \<Rightarrow> bool" where
  "isAwsAccessKeyChar c \<longleftrightarrow> is_digit c \<or> is_upper_az c"

definition isCredentialUsernameChar :: "char \<Rightarrow> bool" where
  "isCredentialUsernameChar c \<longleftrightarrow> \<not> is_js_space c \<and> c \<notin> set ''/:@''"

definition isCredentialPasswordChar :: "char \<Rightarrow> bool" where
  "isCredentialPasswordChar c \<longleftrightarrow> \<not> is_js_space c \<and> c \<notin> set ''/@''"

definition isAssignmentWhitespace :: "char \<Rightarrow> bool" where
  "isAssignmentWhitespace c \<longleftrightarrow> c = CHR '' '' \<or> c = CHR 0x09 \<or> c = CHR 0x0A \<or> c = CHR 0x0D"

definition isGenericAssignmentTerminator :: "char \<Rightarrow> bool" where
  "isGenericAssignmentTerminator c \<longleftrightarrow>
     c = CHR 0x22 \<or> c = CHR 0x27 \<or> c = CHR '','' \<or> c = CHR ''}'' \<or> isAssignmentWhitespace c"

definition head_is :: "(char \<Rightarrow> bool) \<Rightarrow> string \<Rightarrow> bool" where
  "head_is P s = (case s of [] \<Rightarrow> False | c # _ \<Rightarrow> P c)"

section \<open>The scanners\<close>

definition linear_match :: "string \<Rightarrow> (string \<times> nat) option" where
  "linear_match s =
     (if \<not> starts_with ''lin_api_'' s then None
      else let rest = drop 8 s
           in if \<not> head_is isWordChar rest then None
              else Some (redaction, 7 + length (takeWhile isWordChar rest)))"

definition redactLinearApiTokens :: "string \<Rightarrow> string" where
  "redactLinearApiTokens = scan_with linear_match"

definition sk_match :: "string \<Rightarrow> (string \<times> nat) option" where
  "sk_match s =
     (if \<not> starts_with ''sk-'' s then None
      else let token = takeWhile isWordChar (drop 3 s)
           in if length token < 20 then None else Some (redaction, 2 + length token))"

definition redactSkTokens :: "string \<Rightarrow> string" where
  "redactSkTokens = scan_with sk_match"

definition slack_match :: "string \<Rightarrow> (string \<times> nat) option" where
  "slack_match s =
     (if \<not> starts_with ''xox'' s \<or> \<not> head_is (\<lambda>c. c \<in> set ''baprs'') (drop 3 s) \<or>
         \<not> head_is (\<lambda>c. c = CHR ''-'') (drop 4 s) then None
      else let rest = drop 5 s
           in if \<not> head_is isSlackTokenChar rest then None
              else Some (redaction, 4 + length (takeWhile isSlackTokenChar rest)))"

definition redactSlackTokens :: "string \<Rightarrow> string" where
  "redactSlackTokens = scan_with slack_match"

definition full_run :: "(char \<Rightarrow> bool) \<Rightarrow> nat \<Rightarrow> string \<Rightarrow> bool" where
  "full_run P n s \<longleftrightarrow> length (take n s) = n \<and> list_all P (take n s)"

definition aws_match :: "string \<Rightarrow> (string \<times> nat) option" where
  "aws_match s =
     (if \<not> starts_with ''AKIA'' s then None
      else if \<not> full_run isAwsAccessKeyChar 16 (drop 4 s) then None
      else Some (redaction, 19))"

definition redactAwsAccessKeys :: "string \<Rightarrow> string" where
  "redactAwsAccessKeys = scan_with aws_match"

definition github_match :: "string \<Rightarrow> (string \<times> nat) option" where
  "github_match s =
     (if \<not> starts_with ''ghp_'' s then None
      else if \<not> full_run isWordChar 36 (drop 4 s) then None
      else Some (redaction, 39))"

definition redactGitHubTokens :: "string \<Rightarrow> string" where
  "redactGitHubTokens = scan_with github_match"

definition url_match :: "string \<Rightarrow> (string \<times> nat) option" where
  "url_match s =
     (let scheme = (if starts_with ''https://'' s then ''https://''
                    else if starts_with ''http://'' s then ''http://'' else [])
      in if scheme = [] then None
         else let user = takeWhile isCredentialUsernameChar (drop (length scheme) s);
                  after_user = drop (length scheme + length user) s
              in if user = [] \<or> \<not> head_is (\<lambda>c. c = CHR '':'') after_user then None
                 else let password = takeWhile isCredentialPasswordChar (drop 1 after_user);
                          after_password = drop (1 + length password) after_user
                      in if password = [] \<or> \<not> head_is (\<lambda>c. c = CHR ''@'') after_password then None
                         else Some (scheme @ redaction @ ''@'',
                                length scheme + length user + 1 + length password))"

definition redactCredentialUrls :: "string \<Rightarrow> string" where
  "redactCredentialUrls = scan_with url_match"

definition bearer_match :: "string \<Rightarrow> (string \<times> nat) option" where
  "bearer_match s =
     (if \<not> starts_with ''bearer'' (js_lower s) then None
      else let blanks = takeWhile isAssignmentWhitespace (drop 6 s)
           in if blanks = [] then None
              else let rest = drop (6 + length blanks) s;
                       token = takeWhile isBearerTokenChar rest
                   in if js_lower token = ''null'' \<or> js_lower token = ''undefined'' then None
                      else let eqs = takeWhile (\<lambda>c. c = CHR ''='') (drop (length token) rest)
                           in if token = [] \<and> eqs = [] then None
                              else Some (redaction, 5 + length blanks + length token + length eqs))"

definition redactBearerTokens :: "string \<Rightarrow> string" where
  "redactBearerTokens = scan_with bearer_match"

definition GENERIC_SECRET_KEYS :: "string list" where
  "GENERIC_SECRET_KEYS =
     [''api_key'', ''api-key'', ''apikey'', ''authorization'', ''password'', ''secret'', ''token'']"

definition generic_match :: "string \<Rightarrow> (string \<times> nat) option" where
  "generic_match s =
     (case find (\<lambda>key. starts_with key (js_lower s)) GENERIC_SECRET_KEYS of
        None \<Rightarrow> None
      | Some key \<Rightarrow>
          let k = length key
          in if \<not> head_is (\<lambda>c. c = CHR '':'' \<or> c = CHR ''='') (drop k s) then None
             else let v1 = k + 1;
                      v2 = (if head_is isAssignmentWhitespace (drop v1 s) then v1 + 1 else v1);
                      v3 = (if head_is (\<lambda>c. c = CHR 0x22 \<or> c = CHR 0x27) (drop v2 s) then v2 + 1 else v2);
                      val = takeWhile (\<lambda>c. \<not> isGenericAssignmentTerminator c) (drop v3 s)
                  in if val = [] then None
                     else Some (take v3 s @ redaction, v3 + length val - 1))"

definition redactGenericSecretAssignments :: "string \<Rightarrow> string" where
  "redactGenericSecretAssignments = scan_with generic_match"

definition redactSecretPatterns :: "string \<Rightarrow> string" where
  "redactSecretPatterns text' =
     redactGenericSecretAssignments (redactCredentialUrls (redactGitHubTokens (redactAwsAccessKeys
       (redactSlackTokens (redactSkTokens (redactLinearApiTokens (redactBearerTokens text')))))))"

section \<open>Structured values\<close>

definition REDACT_KEYS :: "string list" where
  "REDACT_KEYS =
     [''secret'', ''token'', ''key'', ''password'', ''credential'', ''authorization'', ''auth'', ''webhook'']"

definition is_redact_key :: "string \<Rightarrow> bool" where
  "is_redact_key k \<longleftrightarrow> list_ex (str_includes (js_lower k)) REDACT_KEYS"

definition redactMatchingKeyValue :: "json \<Rightarrow> json" where
  "redactMatchingKeyValue v =
     (case v of
        JArr _ \<Rightarrow> JStr redactedObject
      | JObj fs \<Rightarrow> JObj (map (\<lambda>(k, _). (k, JStr redaction)) fs)
      | JNull \<Rightarrow> JStr redactedObject
      | _ \<Rightarrow> JStr redaction)"

fun redactSensitiveValue :: "json \<Rightarrow> json" where
  "redactSensitiveValue (JStr t) = JStr (redactSecretPatterns t)"
| "redactSensitiveValue (JArr vs) = JArr (map redactSensitiveValue vs)"
| "redactSensitiveValue (JObj fs) =
     JObj (map (\<lambda>(k, v). (k, if is_redact_key k then redactMatchingKeyValue v else redactSensitiveValue v)) fs)"
| "redactSensitiveValue v = v"

section \<open>JSON text and truncation\<close>

definition indent :: "nat \<Rightarrow> string" where
  "indent n = CHR 0x0A # replicate (2 * n) CHR '' ''"

fun join_with :: "string \<Rightarrow> string list \<Rightarrow> string" where
  "join_with sep [] = []"
| "join_with sep [x] = x"
| "join_with sep (x # xs) = x @ sep @ join_with sep xs"

text \<open>\<open>JSON.stringify(value, null, 2)\<close> at a nesting depth.\<close>

fun stringify2 :: "nat \<Rightarrow> json \<Rightarrow> string" where
  "stringify2 d JNull = ''null''"
| "stringify2 d (JBool b) = (if b then ''true'' else ''false'')"
| "stringify2 d (JNum n) = show_int n"
| "stringify2 d (JStr t) = js_quote t"
| "stringify2 d (JArr vs) =
     (if vs = [] then ''[]''
      else ''['' @ indent (d + 1) @ join_with ('','' @ indent (d + 1)) (map (stringify2 (d + 1)) vs) @ indent d @ '']'')"
| "stringify2 d (JObj fs) =
     (if fs = [] then ''{}''
      else ''{'' @ indent (d + 1) @
           join_with ('','' @ indent (d + 1)) (map (\<lambda>(k, v). js_quote k @ '': '' @ stringify2 (d + 1) v) fs) @
           indent d @ ''}'')"

definition maybeRedactStructuredJson :: "host \<Rightarrow> string \<Rightarrow> string" where
  "maybeRedactStructuredJson h text' =
     (case h_json_parse h text' of None \<Rightarrow> text' | Some v \<Rightarrow> stringify2 0 (redactSensitiveValue v))"

definition truncateSanitizedContent :: "string \<Rightarrow> nat \<Rightarrow> bool \<Rightarrow> string" where
  "truncateSanitizedContent text' maxLength isDiff =
     (if length text' \<le> maxLength then text'
      else take maxLength text' @ [CHR 0x0A, CHR 0x85, CHR ''[''] @
             (if isDiff then ''diff truncated'' else ''truncated'') @ '', '' @
             show_nat (length text' - maxLength) @ '' more chars]'')"

definition sanitizeContent :: "host \<Rightarrow> string option \<Rightarrow> bool \<Rightarrow> nat option \<Rightarrow> string option" where
  "sanitizeContent h content isDiff maxLength =
     map_option (\<lambda>t. truncateSanitizedContent (maybeRedactStructuredJson h (redactSecretPatterns t))
        (coalesce maxLength (if isDiff then 500 else 2000)) isDiff) content"

end
