(* ===== verification/SanitizerClaims.thy ===== *)
theory SanitizerClaims
  imports Sanitizer Dispatch
begin

text \<open>
  What the sanitizer guarantees. Each scanner only replaces runs of its input by text with a
  placeholder in it (\<open>edits\<close>). A detector of secrets that looks no further than the next opening
  bracket, that no placeholder triggers, and that a cut at the start of a replaced run cannot trigger
  (the interface \<open>detector\<close>), stays silent under every later scanner once its own scanner has run.
\<close>

section \<open>Edits\<close>

definition upto_bracket :: "string \<Rightarrow> string" where
  "upto_bracket s = takeWhile (\<lambda>c. c \<noteq> CHR ''['') s"

definition cut_chars :: string where
  "cut_chars = [CHR ''/'', CHR '':'', CHR ''='', CHR 0x22, CHR 0x27, CHR '' '', CHR 0x09, CHR 0x0A, CHR 0x0D]"

definition token_prefixes :: "string list" where
  "token_prefixes = [''lin_api_'', ''sk-'', ''xox'', ''AKIA'', ''ghp_'']"

definition starts_token :: "string \<Rightarrow> bool" where
  "starts_token q \<longleftrightarrow> list_ex (\<lambda>p. starts_with p q) token_prefixes \<or> starts_with ''bearer'' (js_lower q)"

text \<open>Where a replaced run may begin, given the text kept before it.\<close>

definition good_cut :: "string \<Rightarrow> string \<Rightarrow> bool" where
  "good_cut x q \<longleftrightarrow> (if x = [] then starts_token q else starts_token q \<or> last x \<in> set cut_chars)"

inductive edits :: "string \<Rightarrow> string \<Rightarrow> bool" where
  edits_end: "edits [] []"
| edits_keep: "edits s t \<Longrightarrow> edits (c # s) (c # t)"
| edits_block: "edits (drop n q) t \<Longrightarrow> good_cut pre q \<Longrightarrow> CHR ''['' \<notin> set pre \<Longrightarrow> post \<in> {[], ''@''} \<Longrightarrow>
    edits (pre @ q) (pre @ redaction @ post @ t)"

lemma upto_cons: "upto_bracket (c # s) = (if c = CHR ''['' then [] else c # upto_bracket s)"
  by (simp add: upto_bracket_def)

lemma upto_append: "CHR ''['' \<notin> set p \<Longrightarrow> upto_bracket (p @ s) = p @ upto_bracket s"
  by (induction p) (auto simp: upto_bracket_def)

lemma upto_redaction: "CHR ''['' \<notin> set p \<Longrightarrow> upto_bracket (p @ redaction @ s) = p"
  by (simp add: upto_append) (simp add: redaction_def upto_bracket_def)

text \<open>The text an edited string begins with is that of the original, or is cut off where a run begins.\<close>

lemma edits_upto:
  "edits s t \<Longrightarrow> upto_bracket t = upto_bracket s \<or>
     (\<exists>p q. s = p @ q \<and> good_cut p q \<and> upto_bracket t = upto_bracket p)"
proof (induction rule: edits.induct)
  case (edits_keep s t c)
  from edits_keep.IH show ?case
  proof
    assume "\<exists>p q. s = p @ q \<and> good_cut p q \<and> upto_bracket t = upto_bracket p"
    then obtain p q where "s = p @ q" "good_cut p q" "upto_bracket t = upto_bracket p" by blast
    then have "c # s = (c # p) @ q" "good_cut (c # p) q" "upto_bracket (c # t) = upto_bracket (c # p)"
      by (auto simp: good_cut_def upto_cons split: if_splits)
    then show ?case by blast
  qed (simp add: upto_cons)
next
  case (edits_block n q t pre post)
  have "upto_bracket pre = pre"
    using edits_block.hyps(3) by (auto simp: upto_bracket_def takeWhile_eq_all_conv)
  then have "upto_bracket (pre @ redaction @ post @ t) = upto_bracket pre"
    using upto_redaction [OF edits_block.hyps(3), of "post @ t"] by simp
  then show ?case using edits_block.hyps(2) by blast
qed simp

section \<open>Detectors\<close>

fun silent :: "(string \<Rightarrow> (string \<times> nat) option) \<Rightarrow> string \<Rightarrow> bool" where
  "silent m [] = True"
| "silent m (c # s) = (m (c # s) = None \<and> silent m s)"

lemma silent_drop: "silent m s \<Longrightarrow> silent m (drop n s)"
proof (induction s arbitrary: n)
  case (Cons c s)
  then show ?case by (cases n) auto
qed simp

lemma silent_append: "silent m (p @ s) \<Longrightarrow> silent m s"
  using silent_drop [of m "p @ s" "length p"] by simp

lemma silent_scan: "silent m s \<Longrightarrow> scan_with m s = s"
  by (induction s) auto

definition placeholder_chars :: string where
  "placeholder_chars = ''REDCT]@''"

locale detector =
  fixes m :: "string \<Rightarrow> (string \<times> nat) option"
  assumes empty: "m [] = None"
    and bounded: "(m s = None) = (m (upto_bracket s) = None)"
    and cut: "m (x @ q) = None \<Longrightarrow> good_cut x q \<Longrightarrow> m x = None"
    and inert: "c \<in> set placeholder_chars \<Longrightarrow> m (c # s) = None"
    and inert_A: "m (CHR ''A'' # CHR ''C'' # s) = None"
begin

lemma bracket: "m (CHR ''['' # s) = None"
  using bounded [of "CHR ''['' # s"] empty by (simp add: upto_cons)

lemma none_kept:
  assumes "edits s t" and "m (c # s) = None"
  shows "m (c # t) = None"
proof (cases "c = CHR ''[''")
  case False
  from edits_upto [OF assms(1)] show ?thesis
  proof
    assume "upto_bracket t = upto_bracket s"
    then have "upto_bracket (c # t) = upto_bracket (c # s)" by (simp add: upto_cons)
    then show ?thesis using assms(2) bounded by metis
  next
    assume "\<exists>p q. s = p @ q \<and> good_cut p q \<and> upto_bracket t = upto_bracket p"
    then obtain p q where s: "s = p @ q" "good_cut p q" and t: "upto_bracket t = upto_bracket p" by blast
    have "good_cut (c # p) q" using s(2) by (auto simp: good_cut_def split: if_splits)
    with assms(2) s(1) have "m (c # p) = None" using cut [of "c # p" q] by simp
    moreover have "upto_bracket (c # t) = upto_bracket (c # p)" using t False by (simp add: upto_cons)
    ultimately show ?thesis using bounded by metis
  qed
qed (simp add: bracket)

lemma silent_redaction: "silent m t \<Longrightarrow> post \<in> {[], ''@''} \<Longrightarrow> silent m (redaction @ post @ t)"
  by (auto simp: redaction_def bracket inert_A inert placeholder_chars_def)

lemma none_at_run:
  assumes "m (pre @ q) = None" and "good_cut pre q" and "CHR ''['' \<notin> set pre"
  shows "m (pre @ redaction @ r) = None"
proof -
  have "m pre = None" using cut assms by blast
  then show ?thesis
    using bounded [of "pre @ redaction @ r"] upto_redaction [OF assms(3), of r] by simp
qed

lemma silent_run:
  assumes "silent m (pre @ q)" and "good_cut pre q" and "CHR ''['' \<notin> set pre" and "silent m (redaction @ r)"
  shows "silent m (pre @ redaction @ r)"
  using assms
proof (induction pre)
  case (Cons c pre)
  have n: "m ((c # pre) @ redaction @ r) = None"
    by (rule none_at_run [of "c # pre" q]) (use Cons.prems in simp_all)
  show ?case
  proof (cases pre)
    case Nil
    with n Cons.prems(4) show ?thesis by simp
  next
    case (Cons d ds)
    then have "good_cut pre q" using Cons.prems(2) by (auto simp: good_cut_def split: if_splits)
    with Cons.IH Cons.prems n show ?thesis by simp
  qed
qed simp

text \<open>Once silent, silent after any edit.\<close>

lemma silent_edits: "edits s t \<Longrightarrow> silent m s \<Longrightarrow> silent m t"
proof (induction rule: edits.induct)
  case (edits_keep s t c)
  then show ?case using none_kept by simp
next
  case (edits_block n q t pre post)
  have "silent m (drop n q)" by (rule silent_drop, rule silent_append [OF edits_block.prems])
  then have "silent m (redaction @ post @ t)" using edits_block silent_redaction by blast
  then show ?case using silent_run [OF edits_block.prems] edits_block.hyps by blast
qed simp

text \<open>A scanner that replaces exactly what the detector finds silences it.\<close>

lemma scan_silences:
  assumes "\<forall>s out n. m s = Some (out, n) \<longrightarrow> out = redaction" and "\<forall>s. edits s (scan_with m s)"
  shows "silent m (scan_with m s)"
proof (induction s rule: length_induct)
  case (1 s)
  show ?case
  proof (cases s)
    case (Cons c r)
    show ?thesis
    proof (cases "m s")
      case None
      have "silent m (scan_with m r)" using 1 Cons by simp
      moreover have "m (c # scan_with m r) = None" using none_kept assms(2) None Cons by blast
      ultimately show ?thesis using None Cons by simp
    next
      case (Some p)
      then obtain n where p: "p = (redaction, n)" using assms(1) by (cases p) auto
      have "length (drop n r) < length s" using Cons by simp
      then have "silent m (scan_with m (drop n r))" using 1 by blast
      then show ?thesis using silent_redaction [of _ "[]"] Some p Cons by simp
    qed
  qed simp
qed

end

section \<open>Scanners are edits\<close>

definition run_ok :: "(string \<Rightarrow> (string \<times> nat) option) \<Rightarrow> bool" where
  "run_ok m \<longleftrightarrow> (\<forall>s out n. m s = Some (out, n) \<longrightarrow>
     (\<exists>pre post q. s = pre @ q \<and> length pre \<le> Suc n \<and> good_cut pre q \<and> CHR ''['' \<notin> set pre \<and>
        post \<in> {[], ''@''} \<and> out = pre @ redaction @ post))"

lemma scan_edits:
  assumes "run_ok m"
  shows "edits s (scan_with m s)"
proof (induction s rule: length_induct)
  case (1 s)
  show ?case
  proof (cases s)
    case Nil
    then show ?thesis by (simp add: edits_end)
  next
    case (Cons c r)
    show ?thesis
    proof (cases "m s")
      case None
      then show ?thesis using 1 Cons by (simp add: edits_keep)
    next
      case (Some p)
      then obtain out n where p: "m s = Some (out, n)" by (cases p) auto
      with assms obtain pre post q where b: "s = pre @ q" "length pre \<le> Suc n" "good_cut pre q"
        "CHR ''['' \<notin> set pre" "post \<in> {[], ''@''}" "out = pre @ redaction @ post"
        unfolding run_ok_def by meson
      have "drop n r = drop (Suc n) s" using Cons by simp
      also have "\<dots> = drop (Suc n - length pre) q" using b by simp
      finally have d: "drop n r = drop (Suc n - length pre) q" .
      have "length (drop n r) < length s" using Cons by simp
      then have "edits (drop n r) (scan_with m (drop n r))" using 1 by blast
      then have "edits (pre @ q) (pre @ redaction @ post @ scan_with m (drop n r))"
        using b d by (intro edits_block) auto
      then show ?thesis using Cons p b by simp
    qed
  qed
qed

lemma run_ok_plain:
  assumes "\<forall>s out n. m s = Some (out, n) \<longrightarrow> out = redaction \<and> starts_token s"
  shows "run_ok m"
  unfolding run_ok_def
proof (intro allI impI)
  fix s out n
  assume "m s = Some (out, n)"
  with assms have "out = redaction" "starts_token s" by blast+
  then show "\<exists>pre post q. s = pre @ q \<and> length pre \<le> Suc n \<and> good_cut pre q \<and> CHR ''['' \<notin> set pre \<and>
      post \<in> {[], ''@''} \<and> out = pre @ redaction @ post"
    by (intro exI [of _ "[]"] exI [of _ s]) (simp add: good_cut_def)
qed

lemma plain_runs:
  "run_ok linear_match" "run_ok sk_match" "run_ok slack_match" "run_ok aws_match" "run_ok github_match"
  "run_ok bearer_match"
  by (rule run_ok_plain; auto simp: linear_match_def sk_match_def slack_match_def aws_match_def github_match_def
      bearer_match_def starts_token_def token_prefixes_def Let_def split: if_splits)+

lemma starts_with_take: "starts_with p s \<Longrightarrow> take (length p) s = p"
  by (auto simp: starts_with_iff)

lemma starts_with_split: "starts_with p s \<Longrightarrow> s = p @ drop (length p) s"
  by (auto simp: starts_with_iff)

lemma url_run_ok: "run_ok url_match"
  unfolding run_ok_def
proof (intro allI impI)
  fix s out n
  assume m: "url_match s = Some (out, n)"
  define scheme where "scheme = (if starts_with ''https://'' s then ''https://''
    else if starts_with ''http://'' s then ''http://'' else [])"
  from m have f: "scheme \<noteq> []" "out = scheme @ redaction @ ''@''" "length scheme \<le> Suc n"
    by (auto simp: url_match_def Let_def simp flip: scheme_def split: if_splits)
  have "starts_with scheme s" using f(1) by (auto simp: scheme_def split: if_splits)
  then have s: "s = scheme @ drop (length scheme) s" by (rule starts_with_split)
  have "last scheme \<in> set cut_chars" "CHR ''['' \<notin> set scheme"
    using f(1) by (auto simp: scheme_def cut_chars_def split: if_splits)
  then have "good_cut scheme (drop (length scheme) s)" using f(1) by (simp add: good_cut_def)
  then show "\<exists>pre post q. s = pre @ q \<and> length pre \<le> Suc n \<and> good_cut pre q \<and> CHR ''['' \<notin> set pre \<and>
      post \<in> {[], ''@''} \<and> out = pre @ redaction @ post"
    using s f \<open>CHR ''['' \<notin> set scheme\<close> by (intro exI [of _ scheme] exI [of _ "''@''"] exI [of _ "drop (length scheme) s"]) simp
qed

lemma lower_bracket: "lower_char c = CHR ''['' \<Longrightarrow> c = CHR ''[''"
  by (cases "is_js_upper c") (auto simp: lower_char_def is_js_upper_def Let_def of_char_of split: if_splits
      dest!: arg_cong [where f = "of_char :: char \<Rightarrow> nat"])

lemma generic_keys_plain: "\<forall>key \<in> set GENERIC_SECRET_KEYS. CHR ''['' \<notin> set key \<and> key \<noteq> []"
  by (simp add: GENERIC_SECRET_KEYS_def)

lemma lower_prefix: "starts_with key (js_lower s) \<Longrightarrow> js_lower (take (length key) s) = key"
  using starts_with_take [of key "js_lower s"] by (simp add: js_lower_def take_map)

lemma lower_no_bracket:
  assumes "starts_with p (js_lower s)" and "CHR ''['' \<notin> set p"
  shows "CHR ''['' \<notin> set (take (length p) s)"
proof
  assume "CHR ''['' \<in> set (take (length p) s)"
  then have "lower_char (CHR ''['') \<in> set (js_lower (take (length p) s))" by (simp add: js_lower_def)
  moreover have "lower_char (CHR ''['') = CHR ''[''" by code_simp
  ultimately show False using lower_prefix [OF assms(1)] assms(2) by simp
qed

lemma generic_run_ok: "run_ok generic_match"
  unfolding run_ok_def
proof (intro allI impI)
  fix s out n
  assume m: "generic_match s = Some (out, n)"
  then obtain key where key: "find (\<lambda>key. starts_with key (js_lower s)) GENERIC_SECRET_KEYS = Some key"
    by (auto simp: generic_match_def split: option.splits)
  then have k: "key \<in> set GENERIC_SECRET_KEYS" "starts_with key (js_lower s)"
    by (auto simp: find_Some_iff)
  define v2 where "v2 = (if head_is isAssignmentWhitespace (drop (length key + 1) s) then length key + 2 else length key + 1)"
  define v3 where "v3 = (if head_is (\<lambda>c. c = CHR 0x22 \<or> c = CHR 0x27) (drop v2 s) then v2 + 1 else v2)"
  have o: "out = take v3 s @ redaction" "v3 \<le> Suc n" "head_is (\<lambda>c. c = CHR '':'' \<or> c = CHR ''='') (drop (length key) s)"
    using m by (auto simp: generic_match_def key Let_def v3_def v2_def split: if_splits)
  obtain sep r where d: "drop (length key) s = sep # r" "sep = CHR '':'' \<or> sep = CHR ''=''"
    using o(3) by (cases "drop (length key) s") (auto simp: head_is_def)
  have dr: "drop (length key + j) s = drop j (sep # r)" for j
    using d(1) by (metis add.commute drop_drop)
  define j where "j = v3 - length key"
  have j: "v3 = length key + j" "0 < j" by (auto simp: j_def v3_def v2_def)
  have tk: "take v3 s = take (length key) s @ take j (sep # r)"
    unfolding j(1) using d(1) by (simp add: take_add)
  have d1: "drop (Suc (length key)) s = r" "drop (Suc (Suc (length key))) s = drop 1 r"
    using dr [of 1] dr [of 2] by simp_all
  have run: "take j (sep # r) \<noteq> [] \<and> set (take j (sep # r)) \<subseteq> set cut_chars"
  proof (cases r)
    case Nil
    then show ?thesis using d(2) j(2) by (cases j) (auto simp: cut_chars_def)
  next
    case (Cons a r')
    then show ?thesis
      using d(2) d1
      by (cases r') (auto simp: j_def v3_def v2_def head_is_def cut_chars_def isAssignmentWhitespace_def take_Cons')
  qed
  then have run_last: "last (take j (sep # r)) \<in> set cut_chars" by (meson last_in_set subsetD)
  have nb: "CHR ''['' \<notin> set (take (length key) s)"
    using lower_no_bracket [OF k(2)] generic_keys_plain k(1) by blast
  have "CHR ''['' \<notin> set cut_chars" by (simp add: cut_chars_def)
  then have "CHR ''['' \<notin> set (take v3 s)" using run nb by (auto simp: tk)
  moreover have "good_cut (take v3 s) (drop v3 s)" using run run_last by (auto simp: good_cut_def tk)
  moreover have "length (take v3 s) \<le> Suc n" using o(2) by simp
  ultimately show "\<exists>pre post q. s = pre @ q \<and> length pre \<le> Suc n \<and> good_cut pre q \<and> CHR ''['' \<notin> set pre \<and>
      post \<in> {[], ''@''} \<and> out = pre @ redaction @ post"
    using o(1) by (intro exI [of _ "take v3 s"] exI [of _ "[]"] exI [of _ "drop v3 s"]) simp
qed

section \<open>Detectors of fixed patterns\<close>

fun fits :: "(char \<Rightarrow> bool) list \<Rightarrow> string \<Rightarrow> bool" where
  "fits [] s = True"
| "fits (P # Ps) [] = False"
| "fits (P # Ps) (c # s) = (P c \<and> fits Ps s)"

lemma fits_append: "fits Ps s \<Longrightarrow> fits Ps (s @ q)"
  by (induction Ps s rule: fits.induct) auto

lemma fits_upto: "list_all (\<lambda>P. \<not> P (CHR ''['')) Ps \<Longrightarrow> fits Ps (upto_bracket s) = fits Ps s"
proof (induction Ps s rule: fits.induct)
  case (3 P Ps c s)
  then show ?case by (auto simp: upto_cons)
qed (auto simp: upto_bracket_def)

lemma fits_chars: "fits (map (=) p @ Ps) s = (starts_with p s \<and> fits Ps (drop (length p) s))"
proof (induction p arbitrary: s)
  case (Cons a p)
  then show ?case by (cases s) (auto simp: starts_with_iff)
qed simp

lemma fits_run: "fits (replicate n P) s = (n \<le> length (takeWhile P s))"
proof (induction n arbitrary: s)
  case (Suc n)
  then show ?case by (cases s) auto
qed simp

lemma fits_full_run: "full_run P n s = fits (replicate n P) s"
  unfolding full_run_def
proof (induction n arbitrary: s)
  case (Suc n)
  then show ?case by (cases s) auto
qed simp

lemma fits_one: "fits [P] s = head_is P s"
  by (cases s) (auto simp: head_is_def)

locale pattern_detector =
  fixes m :: "string \<Rightarrow> (string \<times> nat) option" and Ps :: "(char \<Rightarrow> bool) list"
  assumes match: "(m s = None) = (\<not> fits Ps s)"
    and plain: "list_all (\<lambda>P. \<not> P (CHR ''['')) Ps"
    and two: "2 \<le> length Ps"
    and first: "c \<in> set placeholder_chars \<Longrightarrow> \<not> hd Ps c"
    and second: "hd Ps (CHR ''A'') \<Longrightarrow> \<not> (Ps ! 1) (CHR ''C'')"
begin

lemma shape: obtains P Q Rs where "Ps = P # Q # Rs"
  using two by (cases Ps; cases "tl Ps") auto

lemma first_no: "c \<in> set placeholder_chars \<Longrightarrow> \<not> fits Ps (c # s)"
  using first shape by (metis fits.simps(3) list.sel(1))

lemma second_no: "\<not> fits Ps (CHR ''A'' # CHR ''C'' # s)"
  by (rule shape) (use second in auto)

lemma empty_no: "\<not> fits Ps []"
  by (rule shape) auto

end

sublocale pattern_detector \<subseteq> detector m
proof
  show "m [] = None" using match empty_no by simp
  show "(m s = None) = (m (upto_bracket s) = None)" for s using match fits_upto [OF plain] by simp
  show "m (x @ q) = None \<Longrightarrow> good_cut x q \<Longrightarrow> m x = None" for x q using match fits_append by blast
  show "c \<in> set placeholder_chars \<Longrightarrow> m (c # s) = None" for c s using match first_no by blast
  show "m (CHR ''A'' # CHR ''C'' # s) = None" for s using match second_no by blast
qed

lemma fits_after: "length p = k \<Longrightarrow> fits (map (=) p @ Ps) s = (starts_with p s \<and> fits Ps (drop k s))"
  using fits_chars by blast

definition linear_pattern :: "(char \<Rightarrow> bool) list" where
  "linear_pattern = map (=) ''lin_api_'' @ [isWordChar]"

definition sk_pattern :: "(char \<Rightarrow> bool) list" where
  "sk_pattern = map (=) ''sk-'' @ replicate 20 isWordChar"

definition slack_pattern :: "(char \<Rightarrow> bool) list" where
  "slack_pattern = map (=) ''xox'' @ [\<lambda>c. c \<in> set ''baprs'', \<lambda>c. c = CHR ''-'', isSlackTokenChar]"

definition aws_pattern :: "(char \<Rightarrow> bool) list" where
  "aws_pattern = map (=) ''AKIA'' @ replicate 16 isAwsAccessKeyChar"

definition github_pattern :: "(char \<Rightarrow> bool) list" where
  "github_pattern = map (=) ''ghp_'' @ replicate 36 isWordChar"

lemmas patterns = linear_pattern_def sk_pattern_def slack_pattern_def aws_pattern_def github_pattern_def

lemma bracket_chars: "\<not> isWordChar (CHR ''['')" "\<not> isSlackTokenChar (CHR ''['')" "\<not> isAwsAccessKeyChar (CHR ''['')"
    "\<not> isBearerTokenChar (CHR ''['')" "\<not> isAssignmentWhitespace (CHR ''['')"
  by code_simp+

lemma linear_fits: "(linear_match s = None) = (\<not> fits linear_pattern s)"
  by (simp add: linear_pattern_def linear_match_def fits_after [where k = 8] fits_one Let_def del: list.map)

lemma sk_fits: "(sk_match s = None) = (\<not> fits sk_pattern s)"
  by (simp add: sk_pattern_def sk_match_def fits_after [where k = 3] fits_run Let_def not_less del: list.map)

lemma slack_fits: "(slack_match s = None) = (\<not> fits slack_pattern s)"
proof -
  have f3: "fits [P, Q, R] t = (head_is P t \<and> head_is Q (drop 1 t) \<and> head_is R (drop 2 t))" for P Q R t
    by (cases t; cases "tl t"; cases "tl (tl t)") (auto simp: head_is_def)
  show ?thesis
    by (simp add: slack_pattern_def slack_match_def fits_after [where k = 3] f3 Let_def del: list.map) auto
qed

lemma aws_fits: "(aws_match s = None) = (\<not> fits aws_pattern s)"
  by (simp add: aws_pattern_def aws_match_def fits_after [where k = 4] fits_full_run del: list.map)

lemma github_fits: "(github_match s = None) = (\<not> fits github_pattern s)"
  by (simp add: github_pattern_def github_match_def fits_after [where k = 4] fits_full_run del: list.map)

interpretation linear: pattern_detector linear_match linear_pattern
  by unfold_locales (auto simp: linear_fits linear_pattern_def placeholder_chars_def bracket_chars)

interpretation sk: pattern_detector sk_match sk_pattern
  by unfold_locales (auto simp: sk_fits sk_pattern_def placeholder_chars_def bracket_chars list_all_iff)

interpretation slack: pattern_detector slack_match slack_pattern
  by unfold_locales (auto simp: slack_fits slack_pattern_def placeholder_chars_def bracket_chars)

interpretation aws: pattern_detector aws_match aws_pattern
  by unfold_locales (auto simp: aws_fits aws_pattern_def placeholder_chars_def bracket_chars list_all_iff)

interpretation github: pattern_detector github_match github_pattern
  by unfold_locales (auto simp: github_fits github_pattern_def placeholder_chars_def bracket_chars list_all_iff)

section \<open>The bearer detector\<close>

definition bearer_run :: "string \<Rightarrow> bool" where
  "bearer_run rest \<longleftrightarrow> (let token = takeWhile isBearerTokenChar rest
     in \<not> (js_lower token = ''null'' \<or> js_lower token = ''undefined'') \<and>
        (token \<noteq> [] \<or> takeWhile (\<lambda>c. c = CHR ''='') (drop (length token) rest) \<noteq> []))"

lemma bearer_none:
  "(bearer_match s = None) = (\<not> (starts_with ''bearer'' (js_lower s) \<and> head_is isAssignmentWhitespace (drop 6 s) \<and>
     bearer_run (dropWhile isAssignmentWhitespace (drop 6 s))))"
proof -
  have h: "head_is P r = (takeWhile P r \<noteq> [])" for P r by (cases r) (auto simp: head_is_def)
  have d: "drop (6 + length (takeWhile P (drop 6 s))) s = dropWhile P (drop 6 s)" for P
    by (simp add: dropWhile_eq_drop add.commute)
  show ?thesis by (auto simp: bearer_match_def bearer_run_def h d Let_def)
qed

lemma takeWhile_upto: "\<not> P (CHR ''['') \<Longrightarrow> takeWhile P (upto_bracket s) = takeWhile P s"
  by (induction s) (auto simp: upto_bracket_def)

lemma dropWhile_upto: "\<not> P (CHR ''['') \<Longrightarrow> dropWhile P (upto_bracket s) = upto_bracket (dropWhile P s)"
  by (induction s) (auto simp: upto_bracket_def)

lemma lower_starts_upto:
  "CHR ''['' \<notin> set p \<Longrightarrow> starts_with p (js_lower (upto_bracket s)) = starts_with p (js_lower s)"
proof (induction p arbitrary: s)
  case (Cons a p)
  have "lower_char (CHR ''['') = CHR ''[''" by code_simp
  with Cons show ?case by (cases s) (auto simp: upto_cons js_lower_def upto_bracket_def)
qed simp

lemma drop_upto: "CHR ''['' \<notin> set (take n s) \<Longrightarrow> drop n (upto_bracket s) = upto_bracket (drop n s)"
proof (induction n arbitrary: s)
  case (Suc n)
  then show ?case by (cases s) (auto simp: upto_cons upto_bracket_def)
qed simp

lemma bearer_run_upto: "bearer_run (upto_bracket s) = bearer_run s"
proof -
  have d: "drop (length (takeWhile P r)) r = dropWhile P r" for P and r :: string
    by (simp add: dropWhile_eq_drop)
  show ?thesis
    using d [of isBearerTokenChar "upto_bracket s"]
    by (simp add: bearer_run_def Let_def bracket_chars takeWhile_upto dropWhile_upto d)
qed

lemma bearer_bounded: "(bearer_match s = None) = (bearer_match (upto_bracket s) = None)"
proof (cases "starts_with ''bearer'' (js_lower s)")
  case True
  then have "CHR ''['' \<notin> set (take 6 s)"
    using lower_no_bracket [OF True] by (simp add: eval_nat_numeral)
  then have d: "drop 6 (upto_bracket s) = upto_bracket (drop 6 s)" by (rule drop_upto)
  have h: "head_is isAssignmentWhitespace (upto_bracket r) = head_is isAssignmentWhitespace r" for r
    by (cases r) (auto simp: head_is_def upto_cons bracket_chars, simp add: upto_bracket_def)
  show ?thesis
    by (simp add: bearer_none d h lower_starts_upto dropWhile_upto bracket_chars bearer_run_upto)
qed (simp add: bearer_none lower_starts_upto)

lemma bearer_run_cut:
  assumes "bearer_run r" and "\<not> bearer_run (r @ q)"
  shows "r \<noteq> [] \<and> takeWhile isBearerTokenChar q \<noteq> [] \<and>
    js_lower (r @ takeWhile isBearerTokenChar q) \<in> {''null'', ''undefined''}"
proof (cases "list_all isBearerTokenChar r")
  case True
  then have t: "takeWhile isBearerTokenChar r = r" "takeWhile isBearerTokenChar (r @ q) = r @ takeWhile isBearerTokenChar q"
    by (auto simp: list_all_iff takeWhile_eq_all_conv)
  then have "r \<noteq> []" using assms(1) by (auto simp: bearer_run_def Let_def)
  with assms(1) [unfolded bearer_run_def Let_def t(1)] assms(2) [unfolded bearer_run_def Let_def t(2)]
  show ?thesis by auto
next
  case False
  define tk where "tk = takeWhile isBearerTokenChar r"
  from False have t: "takeWhile isBearerTokenChar (r @ q) = tk" "length tk < length r"
    by (auto simp: list_all_iff tk_def takeWhile_append1 intro: le_neq_implies_less length_takeWhile_le
        dest!: takeWhile_eq_all_conv [THEN iffD1, rotated])
      (metis length_takeWhile_le linorder_neqE_nat not_le takeWhile_eq_all_conv takeWhile_eq_take take_all)
  have "takeWhile P u \<noteq> [] \<Longrightarrow> takeWhile P (u @ q) \<noteq> []" for P u
    by (cases u) (auto split: if_splits)
  then show ?thesis
    using assms t by (auto simp: bearer_run_def Let_def simp flip: tk_def)
qed

lemma lower_word: "isWordChar c \<Longrightarrow> lower_char c = (if is_upper_az c then lower_char c else c)"
  by (auto simp: isWordChar_def lower_char_def is_js_upper_def is_digit_def is_upper_az_def is_lower_az_def Let_def)

lemma lower_cut: "c \<in> set cut_chars \<Longrightarrow> lower_char c \<notin> set (''null'' @ ''undefined'')"
proof -
  have "list_all (\<lambda>c. lower_char c \<notin> set (''null'' @ ''undefined'')) cut_chars" by code_simp
  then show "c \<in> set cut_chars \<Longrightarrow> lower_char c \<notin> set (''null'' @ ''undefined'')"
    by (simp add: list_all_iff del: set_append)
qed

lemma starts_takeWhile: "starts_with p q \<Longrightarrow> list_all P p \<Longrightarrow> starts_with p (takeWhile P q)"
  by (induction p q rule: starts_with.induct) auto

lemma starts_lower: "starts_with p q \<Longrightarrow> starts_with (js_lower p) (js_lower q)"
  by (induction p q rule: starts_with.induct) (auto simp: js_lower_def)

definition lower_prefixes :: "string list" where
  "lower_prefixes = ''bearer'' # map js_lower token_prefixes"

lemma token_no_null:
  "n < 9 \<Longrightarrow> list_all (\<lambda>p. \<not> starts_with p (drop n w)) lower_prefixes" if "w = ''null'' \<or> w = ''undefined''"
proof -
  have "list_all (\<lambda>n. list_all (\<lambda>p. \<not> starts_with p (drop n ''null'') \<and> \<not> starts_with p (drop n ''undefined''))
    lower_prefixes) [0..<9]" by code_simp
  then show "n < 9 \<Longrightarrow> list_all (\<lambda>p. \<not> starts_with p (drop n w)) lower_prefixes"
    using that by (auto simp: list_all_iff)
qed

lemma lower_az: "is_lower_az (lower_char c) \<Longrightarrow> isWordChar c"
  by (cases "is_js_upper c")
    (auto simp: lower_char_def is_js_upper_def is_lower_az_def isWordChar_def is_upper_az_def Let_def)

lemma starts_lower_run:
  assumes "starts_token q"
  shows "list_ex (\<lambda>p. starts_with p (js_lower (takeWhile isBearerTokenChar q))) lower_prefixes"
proof (cases "list_ex (\<lambda>p. starts_with p q) token_prefixes")
  case True
  then obtain p where p: "p \<in> set token_prefixes" "starts_with p q" by (auto simp: list_ex_iff)
  have "list_all (list_all isBearerTokenChar) token_prefixes" by code_simp
  then have "starts_with p (takeWhile isBearerTokenChar q)"
    using p by (intro starts_takeWhile) (auto simp: list_all_iff)
  then have "starts_with (js_lower p) (js_lower (takeWhile isBearerTokenChar q))" by (rule starts_lower)
  then show ?thesis using p(1) by (auto simp: list_ex_iff lower_prefixes_def)
next
  case False
  then have b: "starts_with ''bearer'' (js_lower q)" using assms by (simp add: starts_token_def)
  then have t: "js_lower (take 6 q) = ''bearer''" using lower_prefix [OF b] by (simp add: eval_nat_numeral)
  have "isWordChar c" if "c \<in> set (take 6 q)" for c
  proof -
    have "lower_char c \<in> set ''bearer''" using that t by (metis js_lower_def list.set_map imageI)
    moreover have "list_all is_lower_az ''bearer''" by code_simp
    ultimately show ?thesis using lower_az by (simp add: list_all_iff) metis
  qed
  then have "list_all isBearerTokenChar (take 6 q)" by (simp add: list_all_iff isBearerTokenChar_def)
  moreover have "starts_with (take 6 q) q" by (metis append_take_drop_id starts_with_iff)
  ultimately have "starts_with (take 6 q) (takeWhile isBearerTokenChar q)" by (intro starts_takeWhile)
  then have "starts_with (js_lower (take 6 q)) (js_lower (takeWhile isBearerTokenChar q))" by (rule starts_lower)
  then show ?thesis unfolding t lower_prefixes_def by (simp only: list_ex_iff) auto
qed

lemma bearer_cut:
  assumes "bearer_match (x @ q) = None" and "good_cut x q"
  shows "bearer_match x = None"
proof (rule ccontr)
  assume "bearer_match x \<noteq> None"
  then have s: "starts_with ''bearer'' (js_lower x)" "head_is isAssignmentWhitespace (drop 6 x)"
    and r: "bearer_run (dropWhile isAssignmentWhitespace (drop 6 x))" by (auto simp: bearer_none)
  define r where "r = dropWhile isAssignmentWhitespace (drop 6 x)"
  from r have run: "bearer_run r" by (simp add: r_def)
  then have ne: "r \<noteq> []" by (auto simp: bearer_run_def Let_def)
  have "\<exists>c\<in>set (drop 6 x). \<not> isAssignmentWhitespace c" using ne by (auto simp: r_def dropWhile_eq_Nil_conv)
  then have w: "dropWhile isAssignmentWhitespace (drop 6 x @ q) = r @ q"
    unfolding r_def by (meson dropWhile_append1)
  from s(2) obtain d ds where d: "drop 6 x = d # ds" "isAssignmentWhitespace d"
    by (cases "drop 6 x") (auto simp: head_is_def)
  then have "6 \<le> length x" by (metis drop_all le_cases list.simps(3))
  then have x6: "drop 6 (x @ q) = drop 6 x @ q" by simp
  have "head_is isAssignmentWhitespace (drop 6 x @ q)" using d by (simp add: head_is_def)
  moreover have "starts_with ''bearer'' (js_lower (x @ q))"
    using s(1) by (auto simp: starts_with_iff js_lower_def)
  ultimately have "\<not> bearer_run (r @ q)" using assms(1) unfolding bearer_none x6 w by blast
  from bearer_run_cut [OF run this] have c: "takeWhile isBearerTokenChar q \<noteq> []" and
    n: "js_lower r @ js_lower (takeWhile isBearerTokenChar q) \<in> {''null'', ''undefined''}"
    by (simp_all add: js_lower_def)
  have "drop 6 x = takeWhile isAssignmentWhitespace (drop 6 x) @ r" by (simp add: r_def)
  then have "x = (take 6 x @ takeWhile isAssignmentWhitespace (drop 6 x)) @ r" by (metis append.assoc append_take_drop_id)
  then have lx: "last x = last r" "x \<noteq> []" using ne by (metis last_appendR, metis append_is_Nil_conv)
  obtain w' where w': "w' = ''null'' \<or> w' = ''undefined''" "js_lower r @ js_lower (takeWhile isBearerTokenChar q) = w'"
    using n by blast
  have "lower_char (last r) \<in> set (js_lower r)" using ne by (simp add: js_lower_def)
  then have "lower_char (last r) \<in> set w'" using w'(2) by (metis Un_iff set_append)
  then have "lower_char (last r) \<in> set (''null'' @ ''undefined'')" using w'(1) by (metis Un_iff set_append)
  then have "last x \<notin> set cut_chars" using lower_cut lx(1) by metis
  then have "starts_token q" using assms(2) lx(2) by (simp add: good_cut_def)
  then have "list_ex (\<lambda>p. starts_with p (js_lower (takeWhile isBearerTokenChar q))) lower_prefixes"
    by (rule starts_lower_run)
  moreover have "js_lower (takeWhile isBearerTokenChar q) = drop (length (js_lower r)) w'" by (simp flip: w'(2))
  moreover have "length (js_lower r) < length w'" using c by (simp add: js_lower_def flip: w'(2))
  moreover have "length w' \<le> 9" using w'(1) by auto
  ultimately show False using token_no_null [OF w'(1), of "length (js_lower r)"]
    by (simp add: list_ex_iff list_all_iff)
qed

lemma bearer_inert: "c \<in> set placeholder_chars \<Longrightarrow> bearer_match (c # s) = None"
proof -
  have "list_all (\<lambda>c. lower_char c \<noteq> CHR ''b'') placeholder_chars" by code_simp
  then show "c \<in> set placeholder_chars \<Longrightarrow> bearer_match (c # s) = None"
    by (auto simp: list_all_iff bearer_match_def js_lower_def)
qed

interpretation bearer: detector bearer_match
proof
  show "bearer_match [] = None" by code_simp
  show "(bearer_match s = None) = (bearer_match (upto_bracket s) = None)" for s by (rule bearer_bounded)
  show "bearer_match (x @ q) = None \<Longrightarrow> good_cut x q \<Longrightarrow> bearer_match x = None" for x q by (rule bearer_cut)
  show "c \<in> set placeholder_chars \<Longrightarrow> bearer_match (c # s) = None" for c s by (rule bearer_inert)
  have "lower_char (CHR ''A'') \<noteq> CHR ''b''" by code_simp
  then show "bearer_match (CHR ''A'' # CHR ''C'' # s) = None" for s
    by (simp add: bearer_match_def js_lower_def)
qed

section \<open>What the passes leave\<close>

text \<open>No detector of a fixed secret format fires anywhere in the text.\<close>

definition secret_free :: "string \<Rightarrow> bool" where
  "secret_free s \<longleftrightarrow> silent linear_match s \<and> silent sk_match s \<and> silent slack_match s \<and> silent aws_match s \<and>
     silent github_match s"

definition clean :: "string \<Rightarrow> bool" where
  "clean s \<longleftrightarrow> secret_free s \<and> silent bearer_match s"

lemma plain_out:
  "\<forall>s out n. linear_match s = Some (out, n) \<longrightarrow> out = redaction" "\<forall>s out n. sk_match s = Some (out, n) \<longrightarrow> out = redaction"
  "\<forall>s out n. slack_match s = Some (out, n) \<longrightarrow> out = redaction" "\<forall>s out n. aws_match s = Some (out, n) \<longrightarrow> out = redaction"
  "\<forall>s out n. github_match s = Some (out, n) \<longrightarrow> out = redaction" "\<forall>s out n. bearer_match s = Some (out, n) \<longrightarrow> out = redaction"
  by (auto simp: linear_match_def sk_match_def slack_match_def aws_match_def github_match_def bearer_match_def Let_def
      split: if_splits)

lemmas all_edits = plain_runs [THEN scan_edits] url_run_ok [THEN scan_edits] generic_run_ok [THEN scan_edits]

lemmas pass_defs = redactLinearApiTokens_def redactSkTokens_def redactSlackTokens_def redactAwsAccessKeys_def
  redactGitHubTokens_def redactCredentialUrls_def redactBearerTokens_def redactGenericSecretAssignments_def

lemma linear_pass: "silent linear_match (scan_with linear_match s)"
  by (rule linear.scan_silences) (use plain_out all_edits in blast)+

lemma sk_pass: "silent sk_match (scan_with sk_match s)"
  by (rule sk.scan_silences) (use plain_out all_edits in blast)+

lemma slack_pass: "silent slack_match (scan_with slack_match s)"
  by (rule slack.scan_silences) (use plain_out all_edits in blast)+

lemma aws_pass: "silent aws_match (scan_with aws_match s)"
  by (rule aws.scan_silences) (use plain_out all_edits in blast)+

lemma github_pass: "silent github_match (scan_with github_match s)"
  by (rule github.scan_silences) (use plain_out all_edits in blast)+

lemma bearer_pass: "silent bearer_match (scan_with bearer_match s)"
  by (rule bearer.scan_silences) (use plain_out all_edits in blast)+

lemmas silent_steps = all_edits [THEN linear.silent_edits] all_edits [THEN sk.silent_edits]
  all_edits [THEN slack.silent_edits] all_edits [THEN aws.silent_edits] all_edits [THEN github.silent_edits]
  all_edits [THEN bearer.silent_edits]

lemma redaction_cleans: "clean (redactSecretPatterns s)"
  unfolding clean_def secret_free_def redactSecretPatterns_def pass_defs
  by (intro conjI)
    (rule linear_pass sk_pass slack_pass aws_pass github_pass bearer_pass silent_steps)+

lemma redaction_keeps_clean:
  assumes "clean s" and "silent url_match s" and "silent generic_match s"
  shows "redactSecretPatterns s = s"
  using assms by (simp add: clean_def secret_free_def redactSecretPatterns_def pass_defs silent_scan)

section \<open>Secrets, said without the scanners\<close>

text \<open>
  What the secrets look like, as sets of texts with their alphabets written out: the keys and tokens of five
  issuers, and a bearer credential, which is a maximal run of token characters after the word and a blank. The
  words \<open>null\<close> and \<open>undefined\<close> are no credentials.
\<close>

definition between :: "char \<Rightarrow> char \<Rightarrow> char set" where
  "between a b = {c. of_char a \<le> (of_char c :: nat) \<and> of_char c \<le> (of_char b :: nat)}"

definition digits :: "char set" where "digits = between (CHR ''0'') (CHR ''9'')"

definition capitals :: "char set" where "capitals = between (CHR ''A'') (CHR ''Z'')"

definition letters :: "char set" where "letters = capitals \<union> between (CHR ''a'') (CHR ''z'')"

definition word_chars :: "char set" where "word_chars = digits \<union> letters \<union> {CHR ''_''}"

definition bearer_chars :: "char set" where "bearer_chars = word_chars \<union> set ''.~+/-''"

definition blank_chars :: "char set" where "blank_chars = {CHR '' '', CHR 0x09, CHR 0x0A, CHR 0x0D}"

inductive secret :: "string \<Rightarrow> bool" where
  linear_key: "body \<noteq> [] \<Longrightarrow> set body \<subseteq> word_chars \<Longrightarrow> secret (''lin_api_'' @ body)"
| sk_key: "20 \<le> length body \<Longrightarrow> set body \<subseteq> word_chars \<Longrightarrow> secret (''sk-'' @ body)"
| slack_token: "c \<in> set ''baprs'' \<Longrightarrow> body \<noteq> [] \<Longrightarrow>
    set body \<subseteq> digits \<union> letters \<union> {CHR ''-''} \<Longrightarrow> secret (''xox'' @ [c] @ ''-'' @ body)"
| aws_key: "length body = 16 \<Longrightarrow> set body \<subseteq> digits \<union> capitals \<Longrightarrow> secret (''AKIA'' @ body)"
| github_token: "length body = 36 \<Longrightarrow> set body \<subseteq> word_chars \<Longrightarrow> secret (''ghp_'' @ body)"

definition holds_secret :: "string \<Rightarrow> bool" where
  "holds_secret t \<longleftrightarrow> (\<exists>pre tok post. t = pre @ tok @ post \<and> secret tok)"

definition holds_bearer :: "string \<Rightarrow> bool" where
  "holds_bearer t \<longleftrightarrow>
     (\<exists>pre word blanks tok post. t = pre @ word @ blanks @ tok @ post \<and> js_lower word = ''bearer'' \<and>
        blanks \<noteq> [] \<and> set blanks \<subseteq> blank_chars \<and> tok \<noteq> [] \<and> set tok \<subseteq> bearer_chars \<and>
        (post = [] \<or> hd post \<notin> bearer_chars) \<and> js_lower tok \<notin> {''null'', ''undefined''})"

lemmas char_sets = digits_def capitals_def letters_def word_chars_def between_def
  is_digit_def is_upper_az_def is_lower_az_def isWordChar_def isSlackTokenChar_def isAwsAccessKeyChar_def Let_def

lemma word_char: "isWordChar c = (c \<in> word_chars)"
  by (auto simp: char_sets)

lemma slack_char: "isSlackTokenChar c = (c \<in> digits \<union> letters \<union> {CHR ''-''})"
  by (auto simp: char_sets)

lemma aws_char: "isAwsAccessKeyChar c = (c \<in> digits \<union> capitals)"
  by (auto simp: char_sets)

lemma bearer_char: "isBearerTokenChar c = (c \<in> bearer_chars)"
  by (auto simp: isBearerTokenChar_def bearer_chars_def word_char)

lemma blank_char: "isAssignmentWhitespace c = (c \<in> blank_chars)"
  by (auto simp: isAssignmentWhitespace_def blank_chars_def)

lemma fits_word: "fits (map (=) p @ Ps) (p @ s) = fits Ps s"
  by (simp add: fits_chars starts_with_iff)

lemma fits_all: "n \<le> length body \<Longrightarrow> \<forall>c \<in> set body. P c \<Longrightarrow> fits (replicate n P) (body @ s)"
proof (induction n arbitrary: body)
  case (Suc n)
  then show ?case by (cases body) auto
qed simp

lemma secret_fits:
  assumes "secret tok"
  shows "fits linear_pattern (tok @ s) \<or> fits sk_pattern (tok @ s) \<or> fits slack_pattern (tok @ s) \<or>
         fits aws_pattern (tok @ s) \<or> fits github_pattern (tok @ s)"
  using assms
proof cases
  case (linear_key body)
  have "fits [isWordChar] (body @ s)" using linear_key fits_all [of 1 body isWordChar s]
    by (cases body) (auto simp: word_char)
  then have "fits linear_pattern (''lin_api_'' @ body @ s)" unfolding linear_pattern_def by (simp only: fits_word)
  then show ?thesis by (simp add: linear_key(1))
next
  case (sk_key body)
  then have "fits (replicate 20 isWordChar) (body @ s)" by (intro fits_all) (auto simp: word_char)
  then have "fits sk_pattern (''sk-'' @ body @ s)" unfolding sk_pattern_def by (simp only: fits_word)
  then show ?thesis by (simp add: sk_key(1))
next
  case (slack_token c body)
  have "isSlackTokenChar (hd body)" unfolding slack_char using slack_token hd_in_set by blast
  moreover obtain d ds where "body = d # ds" using slack_token(3) by (cases body) auto
  ultimately have "fits slack_pattern (''xox'' @ c # CHR ''-'' # body @ s)"
    using slack_token(2) by (simp add: slack_pattern_def)
  then show ?thesis by (simp add: slack_token(1))
next
  case (aws_key body)
  then have "fits (replicate 16 isAwsAccessKeyChar) (body @ s)" by (intro fits_all) (auto simp: aws_char)
  then have "fits aws_pattern (''AKIA'' @ body @ s)" unfolding aws_pattern_def by (simp only: fits_word)
  then show ?thesis by (simp add: aws_key(1))
next
  case (github_token body)
  then have "fits (replicate 36 isWordChar) (body @ s)" by (intro fits_all) (auto simp: word_char)
  then have "fits github_pattern (''ghp_'' @ body @ s)" unfolding github_pattern_def by (simp only: fits_word)
  then show ?thesis by (simp add: github_token(1))
qed

lemma silent_here: "silent m (pre @ s) \<Longrightarrow> m [] = None \<Longrightarrow> m s = None"
  using silent_append [of m pre s] by (cases s) auto

lemma secret_free_holds: "secret_free t \<Longrightarrow> \<not> holds_secret t"
proof
  assume f: "secret_free t" and "holds_secret t"
  then obtain pre tok post where t: "t = pre @ tok @ post" "secret tok" unfolding holds_secret_def by blast
  from f have "linear_match (tok @ post) = None" "sk_match (tok @ post) = None" "slack_match (tok @ post) = None"
    "aws_match (tok @ post) = None" "github_match (tok @ post) = None"
    unfolding secret_free_def t(1)
    using silent_here [of _ pre "tok @ post"] linear.empty sk.empty slack.empty aws.empty github.empty by blast+
  with secret_fits [OF t(2), of post] show False by (simp add: linear_fits sk_fits slack_fits aws_fits github_fits)
qed

lemma bearer_fires:
  assumes "js_lower word = ''bearer''" and "blanks \<noteq> []" and "set blanks \<subseteq> blank_chars" and "tok \<noteq> []"
    and "set tok \<subseteq> bearer_chars" and "post = [] \<or> hd post \<notin> bearer_chars"
    and "js_lower tok \<notin> {''null'', ''undefined''}"
  shows "bearer_match (word @ blanks @ tok @ post) \<noteq> None"
proof -
  have "length (js_lower word) = 6" by (simp add: assms(1))
  then have len: "length word = 6" by (simp add: js_lower_def)
  have disjoint: "\<not> isBearerTokenChar c" if "isAssignmentWhitespace c" for c
    using that unfolding isAssignmentWhitespace_def by (elim disjE; hypsubst) code_simp+
  have "js_lower (word @ blanks @ tok @ post) = ''bearer'' @ js_lower (blanks @ tok @ post)"
    using assms(1) by (simp add: js_lower_def)
  then have "starts_with ''bearer'' (js_lower (word @ blanks @ tok @ post))" by (simp add: starts_with_iff)
  moreover have "drop 6 (word @ blanks @ tok @ post) = blanks @ tok @ post" using len by simp
  moreover have "head_is isAssignmentWhitespace (blanks @ tok @ post)"
    using assms(2,3) by (cases blanks) (auto simp: head_is_def blank_char)
  moreover have "dropWhile isAssignmentWhitespace (blanks @ tok @ post) = tok @ post"
  proof -
    have "\<forall>c \<in> set blanks. isAssignmentWhitespace c" using assms(3) by (auto simp: blank_char)
    then have "dropWhile isAssignmentWhitespace (blanks @ tok @ post) = dropWhile isAssignmentWhitespace (tok @ post)"
      by (simp add: dropWhile_append)
    then show ?thesis using assms(4,5) disjoint by (cases tok) (auto simp: bearer_char)
  qed
  moreover have "takeWhile isBearerTokenChar (tok @ post) = tok"
    using assms(5,6) by (cases post) (auto simp: bearer_char takeWhile_append)
  ultimately show ?thesis using assms(4,7) by (simp add: bearer_none bearer_run_def Let_def)
qed

lemma clean_holds: "clean t \<Longrightarrow> \<not> holds_secret t \<and> \<not> holds_bearer t"
proof (intro conjI)
  assume "clean t"
  then show "\<not> holds_secret t" by (simp add: clean_def secret_free_holds)
  show "\<not> holds_bearer t"
  proof
    assume "holds_bearer t"
    then obtain pre word blanks tok post where t: "t = pre @ word @ blanks @ tok @ post"
      and c: "js_lower word = ''bearer''" "blanks \<noteq> []" "set blanks \<subseteq> blank_chars" "tok \<noteq> []" "set tok \<subseteq> bearer_chars"
        "post = [] \<or> hd post \<notin> bearer_chars" "js_lower tok \<notin> {''null'', ''undefined''}"
      unfolding holds_bearer_def by metis
    have fires: "bearer_match (word @ blanks @ tok @ post) \<noteq> None" by (rule bearer_fires [OF c])
    have "silent bearer_match (pre @ word @ blanks @ tok @ post)" using \<open>clean t\<close> by (simp add: clean_def t)
    from silent_here [OF this bearer.empty] fires show False by simp
  qed
qed

section \<open>Structured values\<close>

text \<open>
  A value whose strings hold none of these secrets and which has nothing but placeholders under a key that
  has a sensitive word in it, in capitals or not. What is under a sensitive key is not walked further: one level of
  keys of an object may stay. The names of keys are not looked at.
\<close>

definition is_placeholder :: "json \<Rightarrow> bool" where
  "is_placeholder v = (case v of JStr t \<Rightarrow> t = redaction \<or> t = redactedObject | _ \<Rightarrow> False)"

definition sensitive_key :: "string \<Rightarrow> bool" where
  "sensitive_key k \<longleftrightarrow>
     (\<exists>word \<in> {''secret'', ''token'', ''key'', ''password'', ''credential'', ''auth'', ''webhook''}.
        \<exists>us vs. js_lower k = us @ word @ vs)"

lemma sensitive_redact: "sensitive_key k = is_redact_key k"
proof -
  have "(\<exists>us vs. x = us @ ''authorization'' @ vs) \<Longrightarrow> (\<exists>us vs. x = us @ ''auth'' @ vs)" for x :: string
    by (metis append.assoc append_Cons append_Nil)
  then show ?thesis by (auto simp: sensitive_key_def is_redact_key_def REDACT_KEYS_def includes_iff)
qed

fun sanitised :: "json \<Rightarrow> bool" where
  "sanitised (JStr t) = (\<not> holds_secret t \<and> \<not> holds_bearer t)"
| "sanitised (JArr vs) = list_all sanitised vs"
| "sanitised (JObj fs) =
     list_all (\<lambda>(k, v). if sensitive_key k
        then is_placeholder v \<or> (case v of JObj gs \<Rightarrow> list_all (\<lambda>(_, w). is_placeholder w) gs | _ \<Rightarrow> False)
        else sanitised v) fs"
| "sanitised _ = True"

lemma matching_placeholder:
  "is_placeholder (redactMatchingKeyValue v) \<or>
   (case redactMatchingKeyValue v of JObj gs \<Rightarrow> list_all (\<lambda>(_, w). is_placeholder w) gs | _ \<Rightarrow> False)"
  by (cases v) (auto simp: redactMatchingKeyValue_def is_placeholder_def list_all_iff)

lemma sanitised_value: "sanitised (redactSensitiveValue v)"
proof (induction v rule: redactSensitiveValue.induct)
  case (3 fs)
  then show ?case using matching_placeholder by (force simp: list_all_iff sensitive_redact)
next
  case (1 t)
  then show ?case using clean_holds [OF redaction_cleans] by simp
qed (auto simp: list_all_iff)

section \<open>Truncation\<close>

lemma show_nat_digits: "set (show_nat n) \<subseteq> set ''0123456789''"
  unfolding show_nat_def
proof (induction n rule: digits_of_nat.induct)
  case (1 n)
  define S where "S = set ''0123456789''"
  have "list_all (\<lambda>k. char_of (48 + k) \<in> set ''0123456789'') [0..<10]" by code_simp
  then have d: "k < 10 \<Longrightarrow> char_of (48 + k) \<in> S" for k :: nat
    by (simp add: list_all_iff flip: S_def del: list.set)
  have "n mod 10 < 10" by simp
  from d [OF this] 1 [folded S_def] d [of n] show ?case unfolding S_def [symmetric]
    by (cases "n < 10") (auto simp: digits_of_nat.simps [of n])
qed

lemma fits_newline:
  assumes "list_all (\<lambda>P. \<not> P (CHR 0x0A)) Ps" and "fits Ps (p @ CHR 0x0A # h)"
  shows "fits Ps p"
  using assms
proof (induction Ps p rule: fits.induct)
  case (3 P Ps c s)
  then show ?case by auto
qed auto

lemma silent_prefix:
  assumes "\<And>c s. c \<in> set u \<Longrightarrow> m (c # s) = None" and "silent m v"
  shows "silent m (u @ v)"
  using assms by (induction u) auto

definition hint_words :: "string list" where
  "hint_words = [''diff truncated'', ''truncated'']"

definition hint_ok :: "(char \<Rightarrow> bool) list \<Rightarrow> bool" where
  "hint_ok Ps \<longleftrightarrow> list_all (list_all (\<lambda>c. \<not> hd Ps c)) hint_words \<and>
     list_all (\<lambda>c. \<not> hd Ps c) (''0123456789, '' @ [CHR 0x0A, CHR 0x85])"

context pattern_detector
begin

lemma silent_cut:
  assumes "silent m (p @ q)" and "list_all (\<lambda>P. \<not> P (CHR 0x0A)) Ps" and "silent m (CHR 0x0A # h)"
  shows "silent m (p @ CHR 0x0A # h)"
  using assms(1)
proof (induction p)
  case (Cons c p)
  then have "\<not> fits Ps (c # p @ q)" using match by simp
  then have "\<not> fits Ps (c # p @ CHR 0x0A # h)"
    using fits_append fits_newline [OF assms(2), of "c # p" h] by fastforce
  with Cons show ?case using match by simp
qed (use assms(3) in simp)

lemma silent_hint:
  assumes "w \<in> set hint_words" and "hint_ok Ps" and "silent m '' more chars]''"
  shows "silent m (CHR 0x0A # CHR 0x85 # CHR ''['' # w @ '', '' @ show_nat n @ '' more chars]'')"
proof -
  have digits: "set (show_nat n) \<subseteq> set ''0123456789''" by (rule show_nat_digits)
  have no: "\<not> hd Ps c \<Longrightarrow> m (c # s) = None" for c s
    using match shape by (metis fits.simps(3) list.sel(1))
  have "silent m ((CHR 0x0A # CHR 0x85 # CHR ''['' # w @ '', '' @ show_nat n) @ '' more chars]'')"
  proof (rule silent_prefix)
    fix c s
    assume "c \<in> set (CHR 0x0A # CHR 0x85 # CHR ''['' # w @ '', '' @ show_nat n)"
    then have "c = CHR ''['' \<or> \<not> hd Ps c" using assms(1, 2) digits by (auto simp: hint_ok_def list_all_iff)
    then show "m (c # s) = None" by (elim disjE) (simp_all only: no bracket not_False_eq_True)
  qed (rule assms(3))
  then show ?thesis by simp
qed

end

lemma pattern_newlines:
  "list_all (\<lambda>P. \<not> P (CHR 0x0A)) linear_pattern" "list_all (\<lambda>P. \<not> P (CHR 0x0A)) sk_pattern"
  "list_all (\<lambda>P. \<not> P (CHR 0x0A)) slack_pattern" "list_all (\<lambda>P. \<not> P (CHR 0x0A)) aws_pattern"
  "list_all (\<lambda>P. \<not> P (CHR 0x0A)) github_pattern"
proof -
  have "\<not> isWordChar (CHR 0x0A)" "\<not> isSlackTokenChar (CHR 0x0A)" "\<not> isAwsAccessKeyChar (CHR 0x0A)" by code_simp+
  then show "list_all (\<lambda>P. \<not> P (CHR 0x0A)) linear_pattern" "list_all (\<lambda>P. \<not> P (CHR 0x0A)) sk_pattern"
    "list_all (\<lambda>P. \<not> P (CHR 0x0A)) slack_pattern" "list_all (\<lambda>P. \<not> P (CHR 0x0A)) aws_pattern"
    "list_all (\<lambda>P. \<not> P (CHR 0x0A)) github_pattern"
    by (simp_all add: patterns list_all_iff)
qed

lemma hint_silent:
  "w \<in> set hint_words \<Longrightarrow> secret_free (CHR 0x0A # CHR 0x85 # CHR ''['' # w @ '', '' @ show_nat n @ '' more chars]'')"
proof -
  assume w: "w \<in> set hint_words"
  have "hint_ok linear_pattern" "hint_ok sk_pattern" "hint_ok slack_pattern" "hint_ok aws_pattern"
    "hint_ok github_pattern" by code_simp+
  moreover have "secret_free '' more chars]''" unfolding secret_free_def by code_simp
  ultimately show ?thesis
    unfolding secret_free_def
    using linear.silent_hint [OF w] sk.silent_hint [OF w] slack.silent_hint [OF w] aws.silent_hint [OF w]
      github.silent_hint [OF w] by blast
qed

lemma truncation_secret_free:
  assumes "secret_free s"
  shows "secret_free (truncateSanitizedContent s n d)"
proof (cases "length s \<le> n")
  case False
  define w where "w = (if d then ''diff truncated'' else ''truncated'')"
  have w: "w \<in> set hint_words" by (simp add: w_def hint_words_def)
  have s: "secret_free (take n s @ drop n s)" using assms by simp
  have "truncateSanitizedContent s n d = take n s @ CHR 0x0A #
      (CHR 0x85 # CHR ''['' # w @ '', '' @ show_nat (length s - n) @ '' more chars]'')"
    using False by (simp add: truncateSanitizedContent_def w_def)
  moreover note hint_silent [OF w, of "length s - n"]
  ultimately show ?thesis
    using s pattern_newlines linear.silent_cut sk.silent_cut slack.silent_cut aws.silent_cut github.silent_cut
    unfolding secret_free_def by metis
qed (use assms in \<open>simp add: truncateSanitizedContent_def\<close>)

lemma sanitize_text:
  assumes "h_json_parse h (redactSecretPatterns s) = None"
  shows "sanitizeContent h (Some s) d mx =
    Some (truncateSanitizedContent (redactSecretPatterns s) (coalesce mx (if d then 500 else 2000)) d)"
  using assms by (simp add: sanitizeContent_def maybeRedactStructuredJson_def)

section \<open>Properties\<close>

text \<open>
  C9: after the eight passes of \<open>redactSecretPatterns\<close> over a Latin-1 text, no part of the text has the
  form of a Linear, \<open>sk-\<close>, Slack, AWS or GitHub key and none that of a bearer credential: no later pass
  uncovers or assembles one that an earlier pass removed. Passwords in URLs and assignments in general
  are not claimed: \<open>redaction_not_idempotent\<close> and \<open>two_blanks_kept\<close> leave some.
\<close>

theorem redaction_leaves_no_secret:
  "\<not> holds_secret (redactSecretPatterns s) \<and> \<not> holds_bearer (redactSecretPatterns s)"
  by (rule clean_holds [OF redaction_cleans])

text \<open>
  C10: in the JSON value \<open>redactSensitiveValue\<close> returns no string outside the sensitive keys holds one of these
  secrets, and under a key whose name contains a sensitive word there are only placeholders. The names of the keys
  are not redacted, and a password in a URL or in an assignment may be left where the scanners leave one.
\<close>

theorem redacted_value_sanitised: "sanitised (redactSensitiveValue v)"
  by (rule sanitised_value)

text \<open>
  Content that is not JSON is returned at its length limit (500 characters for a diff and 2,000
  otherwise, unless the caller says) with a hint on what was cut off, and cutting the text and
  appending the hint makes no token of the five fixed formats appear.
\<close>

theorem sanitized_content_safe:
  assumes "h_json_parse h (redactSecretPatterns s) = None" and "limit = coalesce mx (if d then 500 else 2000)"
  shows "\<exists>r. sanitizeContent h (Some s) d mx = Some r \<and> take limit r = take limit (redactSecretPatterns s) \<and>
    \<not> holds_secret r"
proof -
  define r where "r = truncateSanitizedContent (redactSecretPatterns s) limit d"
  have "secret_free r"
    unfolding r_def by (rule truncation_secret_free) (use redaction_cleans [of s] in \<open>simp add: clean_def\<close>)
  moreover have "sanitizeContent h (Some s) d mx = Some r"
    using sanitize_text [OF assms(1)] assms(2) by (simp add: r_def)
  moreover have "take limit r = take limit (redactSecretPatterns s)"
    by (simp add: r_def truncateSanitizedContent_def)
  ultimately show ?thesis using secret_free_holds by blast
qed

theorem sanitized_content_safe_witness:
  "\<exists>r. sanitizeContent example_host (Some ''id lin_api_x'') False (Some 6) = Some r \<and> take 6 r = ''id [RE'' \<and> \<not> holds_secret r"
proof -
  have "h_json_parse example_host (redactSecretPatterns ''id lin_api_x'') = None"
    by (simp add: example_host_def)
  from sanitized_content_safe [OF this, of 6 "Some 6" False]
  have "\<exists>r. sanitizeContent example_host (Some ''id lin_api_x'') False (Some 6) = Some r \<and>
    take 6 r = take 6 (redactSecretPatterns ''id lin_api_x'') \<and> \<not> holds_secret r"
    by (auto simp: coalesce_def)
  moreover have "take 6 (redactSecretPatterns ''id lin_api_x'') = ''id [RE''" by code_simp
  ultimately show ?thesis by simp
qed

text \<open>The text before the redaction does hold a secret.\<close>

lemma secret_before: "holds_secret ''id lin_api_x'' \<and> holds_bearer ''Bearer abc''"
proof
  have "secret ''lin_api_x''" using linear_key [of "''x''"] by (simp add: char_sets)
  then show "holds_secret ''id lin_api_x''"
    unfolding holds_secret_def by (intro exI [of _ "''id ''"] exI [of _ "''lin_api_x''"] exI [of _ "[]"]) simp
  have "js_lower ''Bearer'' = ''bearer''" "js_lower ''abc'' = ''abc''" by code_simp+
  then show "holds_bearer ''Bearer abc''"
    unfolding holds_bearer_def
    by (intro exI [of _ "[]"] exI [of _ "''Bearer''"] exI [of _ "'' ''"] exI [of _ "''abc''"] exI [of _ "[]"])
      (simp add: blank_chars_def bearer_chars_def char_sets)
qed

text \<open>
  The passes are not idempotent: the placeholder a later pass writes can complete what an earlier
  pass looks for.
\<close>

lemma redaction_not_idempotent:
  "redactSecretPatterns ''https://a:token=x/y,@b'' = ''https://a:token=[REDACTED],@b'' \<and>
   redactSecretPatterns (redactSecretPatterns ''https://a:token=x/y,@b'') = ''https://[REDACTED]@b''"
proof -
  have "redactSecretPatterns ''https://a:token=x/y,@b'' = ''https://a:token=[REDACTED],@b''" by code_simp
  moreover have "redactSecretPatterns ''https://a:token=[REDACTED],@b'' = ''https://[REDACTED]@b''" by code_simp
  ultimately show ?thesis by simp
qed

text \<open>A bearer pass that swallows the name of an assignment leaves its value in the text.\<close>

lemma bearer_pass_keeps_value: "redactSecretPatterns ''bearer password=hunter2'' = ''[REDACTED]hunter2''"
  by code_simp

lemma two_blanks_kept: "redactSecretPatterns ''password:  hunter2'' = ''password:  hunter2''"
  by code_simp

end
