(* ===== verification/AgentHelpers.thy ===== *)
theory AgentHelpers
  imports CoreTypes Dispatch SignalDetection Sanitizer
begin

text \<open>
  What the agent runner reads out of the agent's messages: \<open>src/src/utils/type-guards.ts\<close>,
  \<open>src/src/agent-runner/helpers.ts\<close> and \<open>error-classifier.ts\<close>. An \<open>unknown\<close> value is a \<open>json option\<close>,
  \<open>None\<close> for \<open>undefined\<close>; numbers are integers. The configuration of the agent that the
  orchestrator does not read is the record \<open>runner_config\<close>.
\<close>

section \<open>Type guards\<close>

definition asRecord :: "json option \<Rightarrow> (string, json) omap" where
  "asRecord v = (case v of Some (JObj fs) \<Rightarrow> fs | _ \<Rightarrow> [])"

definition asString :: "json option \<Rightarrow> string option" where
  "asString v = (case v of Some (JStr s) \<Rightarrow> Some s | _ \<Rightarrow> None)"

definition asNumber :: "json option \<Rightarrow> int option" where
  "asNumber v = (case v of Some (JNum n) \<Rightarrow> Some n | _ \<Rightarrow> None)"

text \<open>\<open>asRecord(value).key\<close>, and \<open>a ?? b\<close> on values where \<open>null\<close> counts as absent.\<close>

definition member :: "json option \<Rightarrow> string \<Rightarrow> json option" where
  "member v k = omap_get (asRecord v) k"

definition non_null :: "json option \<Rightarrow> json option" where
  "non_null v = (if v = Some JNull then None else v)"

definition truthy_string :: "string option \<Rightarrow> string option" where
  "truthy_string s = (if s = Some [] then None else s)"

section \<open>The configuration the runner reads\<close>

record runner_config =
  rc_service :: service_config
  rc_maxTurns :: int
  rc_turnTimeoutMs :: int
  rc_drainTimeoutMs :: int
  rc_approvalPolicy :: json
  rc_threadSandbox :: string
  rc_turnSandboxPolicy :: "(string, json) omap"
  rc_structuredOutput :: bool
  rc_personality :: json
  rc_selfReview :: bool
  rc_memory :: string

section \<open>helpers.ts\<close>

definition extractThreadId :: "json option \<Rightarrow> string option" where
  "extractThreadId r = or_else (asString (member r ''threadId'')) (asString (member (member r ''thread'') ''id''))"

definition extractTurnId :: "json option \<Rightarrow> string option" where
  "extractTurnId r = or_else (asString (member r ''turnId'')) (asString (member (member r ''turn'') ''id''))"

definition extractTokenUsageSnapshot :: "json option \<Rightarrow> token_usage option" where
  "extractTokenUsageSnapshot v =
     (case (asNumber (member v ''inputTokens''), asNumber (member v ''outputTokens''), asNumber (member v ''totalTokens'')) of
        (Some i, Some ot, Some t) \<Rightarrow> Some \<lparr>inputTokens = i, outputTokens = ot, totalTokens = t\<rparr>
      | _ \<Rightarrow> None)"

definition getThreadSandbox :: "runner_config \<Rightarrow> string" where
  "getThreadSandbox c =
     (if rc_threadSandbox c = ''workspace-write'' then ''danger-full-access'' else rc_threadSandbox c)"

definition getTurnSandboxPolicy :: "runner_config \<Rightarrow> (string, json) omap" where
  "getTurnSandboxPolicy c =
     (if omap_get (rc_turnSandboxPolicy c) ''type'' = Some (JStr ''workspaceWrite'')
      then [(''type'', JStr ''dangerFullAccess'')] else rc_turnSandboxPolicy c)"

definition extractRateLimits :: "json option \<Rightarrow> json" where
  "extractRateLimits r =
     coalesce (or_else (non_null (member r ''rateLimits'')) (non_null (member r ''limits''))) JNull"

definition authIsRequired :: "json option \<Rightarrow> bool" where
  "authIsRequired r \<longleftrightarrow>
     member r ''authRequired'' = Some (JBool True) \<or> member r ''requiresOpenaiAuth'' = Some (JBool True) \<or>
     member r ''requiresLogin'' = Some (JBool True) \<or> member (member r ''auth'') ''required'' = Some (JBool True) \<or>
     member (member r ''openai'') ''required'' = Some (JBool True) \<or> member r ''status'' = Some (JStr ''unauthenticated'')"

definition hasUsableAccount :: "json option \<Rightarrow> bool" where
  "hasUsableAccount r \<longleftrightarrow>
     (case member r ''account'' of Some (JObj _) \<Rightarrow> True | Some (JArr _) \<Rightarrow> True | _ \<Rightarrow> False) \<or>
     asString (member r ''accountId'') \<noteq> None \<or> asString (member (member r ''auth'') ''accountId'') \<noteq> None \<or>
     member r ''status'' = Some (JStr ''authenticated'')"

definition text_part :: "json \<Rightarrow> string list" where
  "text_part c = (case truthy_string (asString (member (Some c) ''text'')) of None \<Rightarrow> [] | Some p \<Rightarrow> [p])"

definition extractAgentOrUserMessage :: "json option \<Rightarrow> string option" where
  "extractAgentOrUserMessage item =
     (case truthy_string (asString (member item ''text'')) of
        Some t \<Rightarrow> Some t
      | None \<Rightarrow> (case member item ''content'' of
           Some (JArr parts) \<Rightarrow> Some (concat (concat (map text_part parts)))
         | _ \<Rightarrow> None))"

definition extractReasoningContent :: "string option \<Rightarrow> json option \<Rightarrow> (string, string) omap \<Rightarrow> string option" where
  "extractReasoningContent id' item buffers =
     (case truthy_string id' of
        Some i \<Rightarrow> (case omap_get buffers i of
            Some t \<Rightarrow> Some t
          | None \<Rightarrow> or_else (asString (member item ''summary'')) (asString (member item ''text'')))
      | None \<Rightarrow> or_else (asString (member item ''summary'')) (asString (member item ''text'')))"

datatype verb = Started | Completed

fun verb_name :: "verb \<Rightarrow> string" where
  "verb_name Started = ''started''"
| "verb_name Completed = ''completed''"

definition command_part :: "json \<Rightarrow> string" where
  "command_part p = (case p of JStr s \<Rightarrow> s | _ \<Rightarrow> json_stringify p)"

definition extractCommandContent :: "json option \<Rightarrow> verb \<Rightarrow> string option" where
  "extractCommandContent item v =
     (if v = Started
      then (case member item ''command'' of
              Some (JArr ps) \<Rightarrow> Some (join '' '' (map command_part ps))
            | c \<Rightarrow> asString c)
      else (case or_else (asString (member item ''output'')) (asString (member item ''aggregatedOutput'')) of
              Some ot \<Rightarrow> Some ot
            | None \<Rightarrow>
                let streams = concat (map (\<lambda>k. case truthy_string (asString (member item k)) of None \<Rightarrow> [] | Some s \<Rightarrow> [s])
                                 [''stdout'', ''stderr''])
                in if streams \<noteq> [] then Some (join [CHR 0x0A] streams)
                   else map_option (\<lambda>c. ''Exit code: '' @ json_stringify c) (member item ''exitCode'')))"

definition extractFileChangeContent :: "json option \<Rightarrow> verb \<Rightarrow> string option \<times> bool" where
  "extractFileChangeContent item v =
     (if v = Started then (asString (member item ''path''), False)
      else (or_else (asString (member item ''diff''))
              (or_else (asString (member item ''content'')) (asString (member item ''path''))), True))"

definition extractDynamicToolCallContent :: "host \<Rightarrow> json option \<Rightarrow> verb \<Rightarrow> string option" where
  "extractDynamicToolCallContent h item v =
     (if v = Started
      then let name = coalesce (or_else (asString (member item ''tool'')) (asString (member item ''name''))) ''tool'';
               args = (case member item ''arguments'' of
                         Some (JStr s) \<Rightarrow> coalesce (sanitizeContent h (Some s) False None) ''null''
                       | a \<Rightarrow> json_stringify (redactSensitiveValue (coalesce (non_null a) (JObj []))))
           in Some (name @ ''('' @ args @ '')'')
      else (case asString (member item ''output'') of
              Some ot \<Rightarrow> Some ot
            | None \<Rightarrow> (case member item ''result'' of
                 Some (JStr s) \<Rightarrow> Some s
               | r \<Rightarrow> Some (json_stringify (coalesce (non_null r) (JObj []))))))"

definition extractWebSearchContent :: "json option \<Rightarrow> verb \<Rightarrow> string option" where
  "extractWebSearchContent item v =
     (if v = Started then asString (member item ''query'')
      else Some (''Found '' @ show_nat (case member item ''results'' of Some (JArr rs) \<Rightarrow> length rs | _ \<Rightarrow> 0) @ '' results''))"

definition extractItemContent ::
  "host \<Rightarrow> string \<Rightarrow> string option \<Rightarrow> json option \<Rightarrow> verb \<Rightarrow> (string, string) omap \<Rightarrow> string option" where
  "extractItemContent h type' id' item v buffers =
     (let (content, isDiff) =
        (if (type' = ''agentMessage'' \<and> v = Completed) \<or> (type' = ''userMessage'' \<and> v = Started) \<or>
            (type' = ''plan'' \<and> v = Completed) then (extractAgentOrUserMessage item, False)
         else if type' = ''reasoning'' \<and> v = Completed then (extractReasoningContent id' item buffers, False)
         else if type' = ''commandExecution'' then (extractCommandContent item v, False)
         else if type' = ''fileChange'' then extractFileChangeContent item v
         else if type' = ''dynamicToolCall'' then (extractDynamicToolCallContent h item v, False)
         else if type' = ''webSearch'' then (extractWebSearchContent item v, False)
         else if type' = ''enteredReviewMode'' \<or> type' = ''exitedReviewMode'' then (asString (member item ''review''), False)
         else (None, False))
      in sanitizeContent h content isDiff None)"

section \<open>error-classifier.ts\<close>

definition extractCodexErrorInfo :: "json option \<Rightarrow> codex_error_info option" where
  "extractCodexErrorInfo e =
     (let info = member e ''codexErrorInfo''
      in case truthy_string (asString (member info ''type'')) of
           Some t \<Rightarrow> Some \<lparr>cei_type = t, cei_message = coalesce (asString (member info ''message'')) t,
                         cei_retryAfterMs = asNumber (member info ''retryAfterMs'')\<rparr>
         | None \<Rightarrow> map_option (\<lambda>t. \<lparr>cei_type = t, cei_message = coalesce (asString (member e ''message'')) t,
                         cei_retryAfterMs = asNumber (member e ''retryAfterMs'')\<rparr>)
              (truthy_string (asString (member e ''type''))))"

end
