(* ===== verification/TurnState.thy ===== *)
theory TurnState
  imports AgentHelpers
begin

text \<open>
  \<open>src/src/agent-runner/turn-state.ts\<close>: what a session remembers between the notifications of its agent.
  A timer of a streaming buffer is the data its closure captured (\<open>flush\<close>), held by the buffer while the
  timer is pending. A promise of \<open>waitForTurnCompletion\<close> is a \<open>waiter\<close>: its result, whether its timer is
  pending and whether it listens to the abort signal; a resolver is the waiter's number. The abort signal
  of the run dispatches its listeners once (\<open>ts_aborted\<close>).
\<close>

section \<open>State\<close>

record flush =
  fl_sessionId :: "string option"
  fl_event :: string
  fl_message :: string

record streaming_buffer =
  sb_content :: string
  sb_lastFlushMs :: int
  sb_pendingFlush :: "flush option"

datatype settlement = Resolved json | Rejected string

record waiter =
  wt_turn :: string
  wt_timeoutMs :: int
  wt_timer :: bool
  wt_listening :: bool
  wt_result :: "settlement option"

record turn_state =
  reasoningBuffers :: "(string, string) omap"
  commandOutputBuffers :: "(string, streaming_buffer) omap"
  agentMessageBuffers :: "(string, streaming_buffer) omap"
  reasoningDeltaBuffers :: "(string, streaming_buffer) omap"
  turnCompletionResolvers :: "(string, nat) omap"
  completedTurnNotifications :: "(string, json) omap"
  reviewSummaries :: "(string, string) omap"
  ts_waiters :: "waiter list"
  ts_aborted :: bool

definition createTurnState :: turn_state where
  "createTurnState =
     \<lparr>reasoningBuffers = [], commandOutputBuffers = [], agentMessageBuffers = [], reasoningDeltaBuffers = [],
      turnCompletionResolvers = [], completedTurnNotifications = [], reviewSummaries = [], ts_waiters = [],
      ts_aborted = False\<rparr>"

section \<open>Buffers\<close>

type_synonym buffers = "(string, streaming_buffer) omap"

definition getOrCreateStreamingBuffer :: "buffers \<Rightarrow> string \<Rightarrow> streaming_buffer \<times> buffers" where
  "getOrCreateStreamingBuffer bs itemId =
     (case omap_get bs itemId of
        Some b \<Rightarrow> (b, bs)
      | None \<Rightarrow> let b = \<lparr>sb_content = [], sb_lastFlushMs = 0, sb_pendingFlush = None\<rparr> in (b, omap_set itemId b bs))"

definition clearStreamingBuffer :: "buffers \<Rightarrow> string option \<Rightarrow> buffers" where
  "clearStreamingBuffer bs itemId =
     (case truthy_string itemId of None \<Rightarrow> bs | Some i \<Rightarrow> omap_delete i bs)"

definition clear_all_buffers :: "buffers \<Rightarrow> buffers" where
  "clear_all_buffers bs = fold (\<lambda>i m. clearStreamingBuffer m (Some i)) (omap_keys bs) bs"

definition clearAllStreamingBuffers :: "turn_state \<Rightarrow> turn_state" where
  "clearAllStreamingBuffers s =
     s\<lparr>commandOutputBuffers := clear_all_buffers (commandOutputBuffers s),
       agentMessageBuffers := clear_all_buffers (agentMessageBuffers s),
       reasoningDeltaBuffers := clear_all_buffers (reasoningDeltaBuffers s)\<rparr>"

definition composeSessionId :: "string option \<Rightarrow> string option \<Rightarrow> string option" where
  "composeSessionId threadId turnId =
     (case (truthy_string threadId, truthy_string turnId) of
        (Some th, Some tu) \<Rightarrow> Some (th @ ''-'' @ tu)
      | _ \<Rightarrow> threadId)"

definition appendReasoningText :: "string option \<Rightarrow> string option \<Rightarrow> turn_state \<Rightarrow> turn_state" where
  "appendReasoningText itemId t s =
     (case (truthy_string itemId, truthy_string t) of
        (Some i, Some x) \<Rightarrow>
          s\<lparr>reasoningBuffers := omap_set i (coalesce (omap_get (reasoningBuffers s) i) [] @ x) (reasoningBuffers s)\<rparr>
      | _ \<Rightarrow> s)"

definition deleteReasoningBuffer :: "string option \<Rightarrow> turn_state \<Rightarrow> turn_state" where
  "deleteReasoningBuffer itemId s =
     (case truthy_string itemId of
        None \<Rightarrow> s | Some i \<Rightarrow> s\<lparr>reasoningBuffers := omap_delete i (reasoningBuffers s)\<rparr>)"

section \<open>Turn completion\<close>

text \<open>A promise is settled once; later calls of \<open>resolve\<close> and \<open>reject\<close> do nothing.\<close>

definition settle :: "settlement \<Rightarrow> waiter \<Rightarrow> waiter" where
  "settle r w = (case wt_result w of None \<Rightarrow> w\<lparr>wt_result := Some r\<rparr> | Some _ \<Rightarrow> w)"

definition update_waiter :: "nat \<Rightarrow> (waiter \<Rightarrow> waiter) \<Rightarrow> turn_state \<Rightarrow> turn_state" where
  "update_waiter n f s = s\<lparr>ts_waiters := (ts_waiters s)[n := f (ts_waiters s ! n)]\<rparr>"

definition resolve_waiter :: "json \<Rightarrow> waiter \<Rightarrow> waiter" where
  "resolve_waiter payload w = settle (Resolved payload) (w\<lparr>wt_timer := False, wt_listening := False\<rparr>)"

definition recordCompletedTurn :: "string option \<Rightarrow> json \<Rightarrow> turn_state \<Rightarrow> turn_state" where
  "recordCompletedTurn turnId payload s =
     (case truthy_string turnId of
        None \<Rightarrow> s
      | Some t \<Rightarrow>
          (case omap_get (turnCompletionResolvers s) t of
             Some n \<Rightarrow> (update_waiter n (resolve_waiter payload) s)
                        \<lparr>turnCompletionResolvers := omap_delete t (turnCompletionResolvers s)\<rparr>
           | None \<Rightarrow> s\<lparr>completedTurnNotifications := omap_set t payload (completedTurnNotifications s)\<rparr>))"

definition recordReviewSummary :: "string option \<Rightarrow> string option \<Rightarrow> turn_state \<Rightarrow> turn_state" where
  "recordReviewSummary turnId summary s =
     (case (truthy_string turnId, truthy_string summary) of
        (Some t, Some x) \<Rightarrow> s\<lparr>reviewSummaries := omap_set t x (reviewSummaries s)\<rparr>
      | _ \<Rightarrow> s)"

definition consumeReviewSummary :: "string option \<Rightarrow> turn_state \<Rightarrow> string option \<times> turn_state" where
  "consumeReviewSummary turnId s =
     (case truthy_string turnId of
        None \<Rightarrow> (None, s)
      | Some t \<Rightarrow> (omap_get (reviewSummaries s) t, s\<lparr>reviewSummaries := omap_delete t (reviewSummaries s)\<rparr>))"

text \<open>\<open>waitForTurnCompletion\<close>: the number of the new promise and the state.\<close>

definition waitForTurnCompletion :: "string \<Rightarrow> int \<Rightarrow> turn_state \<Rightarrow> nat \<times> turn_state" where
  "waitForTurnCompletion turnId timeoutMs s =
     (let n = length (ts_waiters s);
          w = \<lparr>wt_turn = turnId, wt_timeoutMs = timeoutMs, wt_timer = False, wt_listening = False, wt_result = None\<rparr>
      in case omap_get (completedTurnNotifications s) turnId of
           Some payload \<Rightarrow>
             (n, s\<lparr>completedTurnNotifications := omap_delete turnId (completedTurnNotifications s),
                   ts_waiters := ts_waiters s @ [w\<lparr>wt_result := Some (Resolved payload)\<rparr>]\<rparr>)
         | None \<Rightarrow>
             (n, s\<lparr>turnCompletionResolvers := omap_set turnId n (turnCompletionResolvers s),
                   ts_waiters := ts_waiters s @ [w\<lparr>wt_timer := True, wt_listening := True\<rparr>]\<rparr>))"

definition on_abort_waiter :: "nat \<Rightarrow> turn_state \<Rightarrow> turn_state" where
  "on_abort_waiter n s =
     (let w = ts_waiters s ! n
      in (update_waiter n (\<lambda>w. settle (Rejected ''turn completion interrupted'') (w\<lparr>wt_timer := False, wt_listening := False\<rparr>)) s)
           \<lparr>turnCompletionResolvers := omap_delete (wt_turn w) (turnCompletionResolvers s)\<rparr>)"

definition abort_signal :: "turn_state \<Rightarrow> turn_state" where
  "abort_signal s =
     (if ts_aborted s then s
      else fold (\<lambda>n s. if wt_listening (ts_waiters s ! n) then on_abort_waiter n s else s)
             [0..<length (ts_waiters s)] (s\<lparr>ts_aborted := True\<rparr>))"

definition timer_fired :: "nat \<Rightarrow> turn_state \<Rightarrow> turn_state" where
  "timer_fired n s =
     (if n < length (ts_waiters s) \<and> wt_timer (ts_waiters s ! n)
      then let w = ts_waiters s ! n
           in (update_waiter n (\<lambda>w. settle (Rejected (''timed out waiting for turn completion after '' @
                    show_int (wt_timeoutMs w) @ ''ms'')) (w\<lparr>wt_timer := False, wt_listening := False\<rparr>)) s)
                \<lparr>turnCompletionResolvers := omap_delete (wt_turn w) (turnCompletionResolvers s)\<rparr>
      else s)"

section \<open>Runs\<close>

datatype turn_op =
    WaitOp string int
  | CompleteOp string json
  | TimerOp nat
  | AbortOp

fun turn_step :: "turn_op \<Rightarrow> turn_state \<Rightarrow> turn_state" where
  "turn_step (WaitOp t ms) s = snd (waitForTurnCompletion t ms s)"
| "turn_step (CompleteOp t payload) s = recordCompletedTurn (Some t) payload s"
| "turn_step (TimerOp n) s = timer_fired n s"
| "turn_step AbortOp s = abort_signal s"

section \<open>Invariant\<close>

definition waiter_ok :: "waiter \<Rightarrow> bool" where
  "waiter_ok w \<longleftrightarrow> (wt_timer w = (wt_result w = None)) \<and> (wt_listening w = (wt_result w = None))"

definition ts_ok :: "turn_state \<Rightarrow> bool" where
  "ts_ok s \<longleftrightarrow>
     omap_ok (turnCompletionResolvers s) \<and> omap_ok (completedTurnNotifications s) \<and>
     list_all waiter_ok (ts_waiters s) \<and>
     list_all (\<lambda>(t, n). n < length (ts_waiters s) \<and> wt_turn (ts_waiters s ! n) = t \<and>
        wt_result (ts_waiters s ! n) = None \<and> \<not> omap_has (completedTurnNotifications s) t)
       (turnCompletionResolvers s)"

definition settled :: "turn_state \<Rightarrow> nat \<Rightarrow> settlement \<Rightarrow> bool" where
  "settled s n r \<longleftrightarrow> n < length (ts_waiters s) \<and> wt_result (ts_waiters s ! n) = Some r"

lemma ts_okI:
  assumes "omap_ok (turnCompletionResolvers s)" and "omap_ok (completedTurnNotifications s)"
    and "\<And>n. n < length (ts_waiters s) \<Longrightarrow> waiter_ok (ts_waiters s ! n)"
    and "\<And>t n. omap_get (turnCompletionResolvers s) t = Some n \<Longrightarrow> n < length (ts_waiters s) \<and>
      wt_turn (ts_waiters s ! n) = t \<and> wt_result (ts_waiters s ! n) = None \<and>
      omap_get (completedTurnNotifications s) t = None"
  shows "ts_ok s"
proof -
  have "list_all waiter_ok (ts_waiters s)" using assms(3) by (simp add: list_all_length)
  moreover have "(t, n) \<in> set (turnCompletionResolvers s) \<Longrightarrow> omap_get (turnCompletionResolvers s) t = Some n" for t n
    using assms(1) omap_get_in by fast
  ultimately show ?thesis using assms(1, 2, 4)
    by (fastforce simp: ts_ok_def list_all_iff omap_has_get)
qed

lemma ts_okD:
  assumes "ts_ok s"
  shows "omap_ok (turnCompletionResolvers s)" and "omap_ok (completedTurnNotifications s)"
    and "n < length (ts_waiters s) \<Longrightarrow> waiter_ok (ts_waiters s ! n)"
    and "omap_get (turnCompletionResolvers s) t = Some m \<Longrightarrow> m < length (ts_waiters s) \<and>
      wt_turn (ts_waiters s ! m) = t \<and> wt_result (ts_waiters s ! m) = None \<and>
      omap_get (completedTurnNotifications s) t = None"
proof -
  show "omap_ok (turnCompletionResolvers s)" "omap_ok (completedTurnNotifications s)"
    using assms by (simp_all add: ts_ok_def)
  show "n < length (ts_waiters s) \<Longrightarrow> waiter_ok (ts_waiters s ! n)"
    using assms by (simp add: ts_ok_def list_all_length)
  show "omap_get (turnCompletionResolvers s) t = Some m \<Longrightarrow> m < length (ts_waiters s) \<and>
      wt_turn (ts_waiters s ! m) = t \<and> wt_result (ts_waiters s ! m) = None \<and>
      omap_get (completedTurnNotifications s) t = None"
    using assms omap_get_SomeD [of "turnCompletionResolvers s" t m]
    by (auto simp: ts_ok_def list_all_iff omap_has_get)
qed

lemma ts_ok_create [simp]: "ts_ok createTurnState"
  by (simp add: createTurnState_def ts_ok_def)

lemma waiters_update [simp]:
  "ts_waiters (update_waiter n f s) = (ts_waiters s)[n := f (ts_waiters s ! n)]"
  "turnCompletionResolvers (update_waiter n f s) = turnCompletionResolvers s"
  "completedTurnNotifications (update_waiter n f s) = completedTurnNotifications s"
  "ts_aborted (update_waiter n f s) = ts_aborted s"
  by (simp_all add: update_waiter_def)

text \<open>Settling the waiter a resolver (or a timer) belongs to and forgetting the turn keeps the invariant.\<close>

lemma ts_ok_settle:
  assumes "ts_ok s" and "n < length (ts_waiters s)" and "t = wt_turn (ts_waiters s ! n)"
    and "w = settle r ((ts_waiters s ! n)\<lparr>wt_timer := False, wt_listening := False\<rparr>)"
  shows "ts_ok (s\<lparr>ts_waiters := (ts_waiters s)[n := w],
           turnCompletionResolvers := omap_delete t (turnCompletionResolvers s)\<rparr>)"
proof (rule ts_okI)
  fix k
  assume "k < length (ts_waiters (s\<lparr>ts_waiters := (ts_waiters s)[n := w],
     turnCompletionResolvers := omap_delete t (turnCompletionResolvers s)\<rparr>))"
  moreover have "waiter_ok w" using ts_okD(3) [OF assms(1, 2)] assms(4)
    by (auto simp: waiter_ok_def settle_def split: option.splits)
  ultimately show "waiter_ok (ts_waiters (s\<lparr>ts_waiters := (ts_waiters s)[n := w],
     turnCompletionResolvers := omap_delete t (turnCompletionResolvers s)\<rparr>) ! k)"
    using ts_okD(3) [OF assms(1), of k] by (cases "k = n") auto
next
  fix t' m
  assume m: "omap_get (turnCompletionResolvers (s\<lparr>ts_waiters := (ts_waiters s)[n := w],
     turnCompletionResolvers := omap_delete t (turnCompletionResolvers s)\<rparr>)) t' = Some m"
  then have "t' \<noteq> t" and g: "omap_get (turnCompletionResolvers s) t' = Some m" by (auto split: if_splits)
  with ts_okD(4) [OF assms(1) g] assms(3) have "m \<noteq> n" by auto
  then show "m < length (ts_waiters (s\<lparr>ts_waiters := (ts_waiters s)[n := w],
       turnCompletionResolvers := omap_delete t (turnCompletionResolvers s)\<rparr>)) \<and>
     wt_turn (ts_waiters (s\<lparr>ts_waiters := (ts_waiters s)[n := w],
       turnCompletionResolvers := omap_delete t (turnCompletionResolvers s)\<rparr>) ! m) = t' \<and>
     wt_result (ts_waiters (s\<lparr>ts_waiters := (ts_waiters s)[n := w],
       turnCompletionResolvers := omap_delete t (turnCompletionResolvers s)\<rparr>) ! m) = None \<and>
     omap_get (completedTurnNotifications (s\<lparr>ts_waiters := (ts_waiters s)[n := w],
       turnCompletionResolvers := omap_delete t (turnCompletionResolvers s)\<rparr>)) t' = None"
    using ts_okD(4) [OF assms(1) g] by simp
qed (use ts_okD [OF assms(1)] in simp_all)

lemma settle_state:
  "(update_waiter n f s)\<lparr>turnCompletionResolvers := R\<rparr> =
   s\<lparr>ts_waiters := (ts_waiters s)[n := f (ts_waiters s ! n)], turnCompletionResolvers := R\<rparr>"
  by (simp add: update_waiter_def)

lemma ts_ok_complete:
  assumes "ts_ok s"
  shows "ts_ok (recordCompletedTurn t payload s)"
proof (cases "truthy_string t")
  case (Some i)
  show ?thesis
  proof (cases "omap_get (turnCompletionResolvers s) i")
    case None
    then show ?thesis
      using ts_okD [OF assms] Some by (intro ts_okI) (auto simp: recordCompletedTurn_def)
  next
    case (Some n)
    from ts_okD(4) [OF assms Some] have n: "n < length (ts_waiters s)" "i = wt_turn (ts_waiters s ! n)" by auto
    show ?thesis
      using ts_ok_settle [OF assms n refl] Some \<open>truthy_string t = Some i\<close>
      by (simp add: recordCompletedTurn_def settle_state resolve_waiter_def)
  qed
qed (simp add: assms recordCompletedTurn_def)

lemma ts_ok_wait:
  assumes "ts_ok s"
  shows "ts_ok (snd (waitForTurnCompletion t ms s))"
proof (cases "omap_get (completedTurnNotifications s) t")
  case None
  then show ?thesis
    using ts_okD [OF assms]
    by (intro ts_okI) (auto simp: waitForTurnCompletion_def Let_def nth_append waiter_ok_def split: if_splits)
next
  case (Some p)
  then show ?thesis
    using ts_okD [OF assms]
    by (intro ts_okI)
      (auto simp: waitForTurnCompletion_def Let_def nth_append waiter_ok_def less_Suc_eq split: if_splits)
qed

lemma ts_ok_timer: "ts_ok s \<Longrightarrow> ts_ok (timer_fired n s)"
  using ts_ok_settle [OF _ _ refl refl] by (auto simp: timer_fired_def Let_def settle_state)

lemma ts_ok_on_abort: "ts_ok s \<Longrightarrow> n < length (ts_waiters s) \<Longrightarrow> ts_ok (on_abort_waiter n s)"
  using ts_ok_settle [OF _ _ refl refl] by (auto simp: on_abort_waiter_def Let_def settle_state)

lemma length_on_abort [simp]: "length (ts_waiters (on_abort_waiter n s)) = length (ts_waiters s)"
  by (simp add: on_abort_waiter_def Let_def)

lemma ts_ok_abort_fold:
  "ts_ok s \<Longrightarrow> \<forall>n\<in>set ns. n < length (ts_waiters s) \<Longrightarrow>
   ts_ok (fold (\<lambda>n s. if wt_listening (ts_waiters s ! n) then on_abort_waiter n s else s) ns s)"
  by (induction ns arbitrary: s) (auto simp: ts_ok_on_abort)

lemma ts_ok_aborted [simp]: "ts_ok (s\<lparr>ts_aborted := b\<rparr>) = ts_ok s"
  by (simp add: ts_ok_def)

lemma ts_ok_abort: "ts_ok s \<Longrightarrow> ts_ok (abort_signal s)"
  by (auto simp: abort_signal_def intro!: ts_ok_abort_fold)

lemma ts_ok_step: "ts_ok s \<Longrightarrow> ts_ok (turn_step op s)"
  by (cases op) (auto simp: ts_ok_wait ts_ok_complete ts_ok_timer ts_ok_abort)

lemma ts_ok_run: "ts_ok s \<Longrightarrow> ts_ok (fold turn_step ops s)"
  by (induction ops arbitrary: s) (auto simp: ts_ok_step)

section \<open>Settled once\<close>

lemma settled_list_update:
  assumes "settled s n r"
    and "ts_waiters s' = (ts_waiters s)[k := settle q ((ts_waiters s ! k)\<lparr>wt_timer := False, wt_listening := False\<rparr>)]"
  shows "settled s' n r"
proof (cases "n = k")
  case True
  with assms show ?thesis by (auto simp: settled_def settle_def)
next
  case False
  with assms show ?thesis by (simp add: settled_def)
qed

lemma settled_on_abort: "settled s n r \<Longrightarrow> settled (on_abort_waiter k s) n r"
  by (erule settled_list_update [where k = k and q = "Rejected ''turn completion interrupted''"])
    (simp add: on_abort_waiter_def Let_def)

lemma settled_step: "settled s n r \<Longrightarrow> settled (turn_step op s) n r"
proof (cases op)
  case (WaitOp t ms)
  assume "settled s n r"
  then show ?thesis
    using WaitOp by (auto simp: settled_def waitForTurnCompletion_def Let_def nth_append split: option.splits)
next
  case (CompleteOp t p)
  assume s: "settled s n r"
  show ?thesis
  proof (cases "truthy_string (Some t)")
    case None
    then show ?thesis using s CompleteOp by (simp add: recordCompletedTurn_def)
  next
    case (Some i)
    show ?thesis
    proof (cases "omap_get (turnCompletionResolvers s) i")
      case None
      then show ?thesis using s CompleteOp Some by (simp add: recordCompletedTurn_def settled_def)
    next
      case (Some k)
      then show ?thesis
        using CompleteOp \<open>truthy_string (Some t) = Some i\<close>
        by (intro settled_list_update [OF s, of _ k "Resolved p"]) (simp add: recordCompletedTurn_def resolve_waiter_def)
    qed
  qed
next
  case (TimerOp k)
  assume s: "settled s n r"
  show ?thesis
  proof (cases "k < length (ts_waiters s) \<and> wt_timer (ts_waiters s ! k)")
    case True
    then show ?thesis
      using TimerOp
      by (intro settled_list_update [OF s, of _ k "Rejected (''timed out waiting for turn completion after '' @
            show_int (wt_timeoutMs (ts_waiters s ! k)) @ ''ms'')"]) (simp add: timer_fired_def Let_def)
  next
    case False
    then have "timer_fired k s = s" unfolding timer_fired_def by (simp only: if_False)
    then show ?thesis using s TimerOp by simp
  qed
next
  case AbortOp
  assume s: "settled s n r"
  have "settled s n r \<Longrightarrow>
    settled (fold (\<lambda>n s. if wt_listening (ts_waiters s ! n) then on_abort_waiter n s else s) ns s) n r" for ns s
    by (induction ns arbitrary: s) (auto simp: settled_on_abort)
  moreover have "settled (s\<lparr>ts_aborted := True\<rparr>) n r" using s by (simp add: settled_def)
  ultimately show ?thesis using AbortOp s by (simp add: abort_signal_def)
qed

lemma settled_run: "settled s n r \<Longrightarrow> settled (fold turn_step ops s) n r"
  by (induction ops arbitrary: s) (auto simp: settled_step)

section \<open>Rendezvous\<close>

lemma omap_forget_set: "omap_get m k = None \<Longrightarrow> omap_delete k (omap_set k v m) = m"
proof (induction m)
  case (Cons p m)
  have "omap_get m k = None \<Longrightarrow> filter (\<lambda>(k', _). k' \<noteq> k) m = m"
    by (force simp: omap_get_def map_of_eq_None_iff filter_id_conv)
  with Cons show ?case by (cases p) (auto simp: omap_get_def omap_delete_def split: if_splits)
qed (simp add: omap_delete_def)

lemma list_update_last: "(xs @ [x])[length xs := y] = xs @ [y]"
  by (induction xs) auto

lemma complete_then_wait:
  assumes "t \<noteq> []" and "omap_get (turnCompletionResolvers s) t = None" and "omap_get (completedTurnNotifications s) t = None"
  shows "snd (waitForTurnCompletion t ms (recordCompletedTurn (Some t) p s)) =
    s\<lparr>ts_waiters := ts_waiters s @ [\<lparr>wt_turn = t, wt_timeoutMs = ms, wt_timer = False, wt_listening = False,
        wt_result = Some (Resolved p)\<rparr>]\<rparr>"
  using assms by (simp add: waitForTurnCompletion_def recordCompletedTurn_def truthy_string_def omap_forget_set)

lemma wait_then_complete:
  assumes "t \<noteq> []" and "omap_get (turnCompletionResolvers s) t = None" and "omap_get (completedTurnNotifications s) t = None"
  shows "recordCompletedTurn (Some t) p (snd (waitForTurnCompletion t ms s)) =
    s\<lparr>ts_waiters := ts_waiters s @ [\<lparr>wt_turn = t, wt_timeoutMs = ms, wt_timer = False, wt_listening = False,
        wt_result = Some (Resolved p)\<rparr>]\<rparr>"
  using assms
  by (simp add: waitForTurnCompletion_def recordCompletedTurn_def truthy_string_def omap_forget_set Let_def
      settle_state resolve_waiter_def settle_def list_update_last)

section \<open>Properties\<close>

text \<open>
  In any order of waits, completions, timeouts and aborts, every promise that is pending has its timer
  armed and listens to the abort signal, a settled one has neither, every resolver belongs to a pending
  promise of its turn, and no turn has both a resolver and an undelivered completion.
\<close>

theorem turn_state_invariant: "ts_ok (fold turn_step ops createTurnState)"
  by (rule ts_ok_run) simp

text \<open>
  A promise of \<open>waitForTurnCompletion\<close> is settled at most once: whatever happens later, the result
  it has got stays.
\<close>

theorem completion_settled_once:
  assumes "settled s n r"
  shows "settled (fold turn_step ops s) n r"
  using assms by (rule settled_run)

theorem completion_settled_once_witness:
  "settled (fold turn_step [AbortOp, TimerOp 0, CompleteOp ''t'' (JBool True)]
     (fold turn_step [WaitOp ''t'' 1000, CompleteOp ''t'' (JBool False)] createTurnState)) 0 (Resolved (JBool False))"
proof -
  have "settled (fold turn_step [WaitOp ''t'' 1000, CompleteOp ''t'' (JBool False)] createTurnState) 0 (Resolved (JBool False))"
    by code_simp
  then show ?thesis by (rule completion_settled_once)
qed

text \<open>
  A turn's completion reaches the one who waits for it whichever comes first: completing before
  waiting and waiting before completing lead to the same state, in which the promise holds the
  payload and nothing about the turn is left behind.
\<close>

theorem completion_rendezvous:
  assumes "t \<noteq> []" and "omap_get (turnCompletionResolvers s) t = None"
    and "omap_get (completedTurnNotifications s) t = None"
  shows "turn_step (WaitOp t ms) (turn_step (CompleteOp t p) s) = turn_step (CompleteOp t p) (turn_step (WaitOp t ms) s) \<and>
    settled (turn_step (CompleteOp t p) (turn_step (WaitOp t ms) s)) (length (ts_waiters s)) (Resolved p) \<and>
    omap_get (turnCompletionResolvers (turn_step (CompleteOp t p) (turn_step (WaitOp t ms) s))) t = None \<and>
    omap_get (completedTurnNotifications (turn_step (CompleteOp t p) (turn_step (WaitOp t ms) s))) t = None"
  using complete_then_wait [OF assms] wait_then_complete [OF assms] assms(2, 3) by (simp add: settled_def)

theorem completion_rendezvous_witness:
  "turn_step (WaitOp ''t'' 9) (turn_step (CompleteOp ''t'' JNull) createTurnState) =
   turn_step (CompleteOp ''t'' JNull) (turn_step (WaitOp ''t'' 9) createTurnState)"
  using completion_rendezvous [of "''t''" createTurnState 9 JNull] by (simp add: createTurnState_def)

text \<open>
  The abort signal dispatches its listeners once, so a wait that starts after the abort is not
  interrupted by it: only a completion or the timeout settles its promise.
\<close>

lemma wait_after_abort:
  assumes "ts_aborted s"
  shows "turn_step AbortOp s = s"
  using assms by (simp add: abort_signal_def)

end
