(* ===== verification/JsonRpc.thy ===== *)
theory JsonRpc
  imports AgentHelpers WorkspacePaths
begin

text \<open>
  The connection to the agent, \<open>src/src/agent/json-rpc-connection.ts\<close> and \<open>src/src/codex/protocol.ts\<close>:
  JSON-RPC messages, one per line, over the pipes of a child process. The promise of a request is
  known by the request's id; \<open>rpc_settled\<close> lists what promises were settled with, in order, and
  \<open>rpc_stranded\<close> those that were taken from the pending map and will never be settled. A chunk is the
  text \<open>chunk.toString("utf8")\<close> gives; what it gives for a character cut in two is not modelled. The
  handler of the agent's requests runs asynchronously: the request is recorded, and its answer is an
  operation of its own.
\<close>

section \<open>Messages\<close>

definition jsonrpc_field :: "string \<times> json" where
  "jsonrpc_field = (''jsonrpc'', JStr ''2.0'')"

definition createRequest :: "int \<Rightarrow> string \<Rightarrow> json \<Rightarrow> json" where
  "createRequest nextId method params =
     JObj [jsonrpc_field, (''id'', JNum nextId), (''method'', JStr method), (''params'', params)]"

definition createSuccessResponse :: "json \<Rightarrow> json \<Rightarrow> json" where
  "createSuccessResponse id' result = JObj [jsonrpc_field, (''id'', id'), (''result'', result)]"

definition createErrorResponse :: "json \<Rightarrow> string \<Rightarrow> json" where
  "createErrorResponse id' message =
     JObj [jsonrpc_field, (''id'', id'),
       (''error'', JObj [(''code'', JNum (- 32000)), (''message'', JStr message)])]"

definition has_member :: "json \<Rightarrow> string \<Rightarrow> bool" where
  "has_member m k \<longleftrightarrow> member (Some m) k \<noteq> None"

definition has_method :: "json \<Rightarrow> bool" where
  "has_method m \<longleftrightarrow> asString (member (Some m) ''method'') \<noteq> None"

definition isJsonRpcRequest :: "json \<Rightarrow> bool" where
  "isJsonRpcRequest m \<longleftrightarrow> has_method m \<and> has_member m ''id''"

definition isJsonRpcNotification :: "json \<Rightarrow> bool" where
  "isJsonRpcNotification m \<longleftrightarrow> has_method m \<and> \<not> has_member m ''id''"

definition isJsonRpcSuccessResponse :: "json \<Rightarrow> bool" where
  "isJsonRpcSuccessResponse m \<longleftrightarrow> has_member m ''id'' \<and> has_member m ''result''"

definition isJsonRpcErrorResponse :: "json \<Rightarrow> bool" where
  "isJsonRpcErrorResponse m \<longleftrightarrow> has_member m ''id'' \<and> has_member m ''error''"

section \<open>State\<close>

datatype reply = Reply json | RpcError string

record rpc =
  rpc_buffer :: string
  rpc_nextId :: int
  rpc_pending :: "int list"
  rpc_timers :: "(int \<times> string) list"
  rpc_settled :: "(int \<times> reply) list"
  rpc_stranded :: "int list"
  rpc_exited :: bool
  rpc_kills :: nat
  rpc_sent :: "json list"
  rpc_requests :: "json list"
  rpc_notifications :: "json list"

definition MAX_LINE_BYTES :: nat where
  "MAX_LINE_BYTES = 10 * 1024 * 1024"

definition new_rpc :: rpc where
  "new_rpc = \<lparr>rpc_buffer = [], rpc_nextId = 1, rpc_pending = [], rpc_timers = [], rpc_settled = [],
     rpc_stranded = [], rpc_exited = False, rpc_kills = 0, rpc_sent = [], rpc_requests = [], rpc_notifications = []\<rparr>"

section \<open>Operations\<close>

definition rpc_send :: "json \<Rightarrow> rpc \<Rightarrow> rpc" where
  "rpc_send m s = (if rpc_exited s then s else s\<lparr>rpc_sent := rpc_sent s @ [m]\<rparr>)"

definition rpc_close :: "rpc \<Rightarrow> rpc" where
  "rpc_close s = (if rpc_exited s then s else s\<lparr>rpc_kills := rpc_kills s + 1\<rparr>)"

definition rpc_notify :: "string \<Rightarrow> json \<Rightarrow> rpc \<Rightarrow> rpc" where
  "rpc_notify method params s =
     (if rpc_exited s then s
      else rpc_send (JObj [jsonrpc_field, (''method'', JStr method), (''params'', params)]) s)"

text \<open>\<open>request\<close>: the id of the promise, or the error it is rejected with at once.\<close>

definition rpc_request :: "string \<Rightarrow> json \<Rightarrow> rpc \<Rightarrow> (string + int) \<times> rpc" where
  "rpc_request method params s =
     (if rpc_exited s then (Inl ''connection already exited'', s)
      else let id' = rpc_nextId s
           in (Inr id', rpc_send (createRequest id' method params)
                (s\<lparr>rpc_nextId := id' + 1, rpc_timers := rpc_timers s @ [(id', method)],
                   rpc_pending := rpc_pending s @ [id']\<rparr>)))"

definition clear_timer :: "int \<Rightarrow> rpc \<Rightarrow> rpc" where
  "clear_timer id' s = s\<lparr>rpc_timers := filter (\<lambda>(i, _). i \<noteq> id') (rpc_timers s)\<rparr>"

definition delete_pending :: "int \<Rightarrow> rpc \<Rightarrow> rpc" where
  "delete_pending id' s = s\<lparr>rpc_pending := filter (\<lambda>i. i \<noteq> id') (rpc_pending s)\<rparr>"

definition settle_request :: "int \<Rightarrow> reply \<Rightarrow> rpc \<Rightarrow> rpc" where
  "settle_request id' r s = s\<lparr>rpc_settled := rpc_settled s @ [(id', r)]\<rparr>"

definition rpc_timeout :: "int \<Rightarrow> rpc \<Rightarrow> rpc" where
  "rpc_timeout id' s =
     (case map_of (rpc_timers s) id' of
        None \<Rightarrow> s
      | Some method \<Rightarrow>
          settle_request id' (RpcError (''timed out waiting for '' @ method)) (delete_pending id' (clear_timer id' s)))"

definition rpc_exit :: "rpc \<Rightarrow> rpc" where
  "rpc_exit s =
     (fold (\<lambda>i s. settle_request i (RpcError (''connection exited while waiting for request '' @ show_int i)) (clear_timer i s))
        (rpc_pending s) (s\<lparr>rpc_exited := True\<rparr>))\<lparr>rpc_pending := []\<rparr>"

text \<open>\<open>pending.get(parsed.id)\<close>: the keys are the numbers the counter gave out.\<close>

definition pending_of :: "json \<Rightarrow> rpc \<Rightarrow> int option" where
  "pending_of m s = (case member (Some m) ''id'' of
     Some (JNum i) \<Rightarrow> if i \<in> set (rpc_pending s) then Some i else None | _ \<Rightarrow> None)"

text \<open>\<open>String(value)\<close>, and \<open>new Error(parsed.error.message)\<close>: no error if \<open>parsed.error\<close> has no members.\<close>

fun js_string :: "json \<Rightarrow> string" where
  "js_string JNull = ''null''"
| "js_string (JBool b) = (if b then ''true'' else ''false'')"
| "js_string (JNum n) = show_int n"
| "js_string (JStr s) = s"
| "js_string (JArr vs) = join '','' (map (\<lambda>v. if v = JNull then [] else js_string v) vs)"
| "js_string (JObj _) = ''[object Object]''"

definition error_message :: "json \<Rightarrow> string option" where
  "error_message m =
     (case member (Some m) ''error'' of
        None \<Rightarrow> None
      | Some JNull \<Rightarrow> None
      | Some e \<Rightarrow> Some (case member (Some e) ''message'' of None \<Rightarrow> [] | Some v \<Rightarrow> js_string v))"

text \<open>\<open>onLine\<close>: the state and whether a \<open>TypeError\<close> is thrown.\<close>

definition onLine :: "host \<Rightarrow> string \<Rightarrow> rpc \<Rightarrow> rpc \<times> bool" where
  "onLine h line s =
     (if starts_with ''risoluto:'' line then (s, False)
      else case h_json_parse h line of
        None \<Rightarrow> (s, False)
      | Some m \<Rightarrow>
          if isJsonRpcSuccessResponse m
          then (case pending_of m s of
                  None \<Rightarrow> (s, False)
                | Some i \<Rightarrow> (settle_request i (Reply (coalesce (member (Some m) ''result'') JNull))
                              (delete_pending i (clear_timer i s)), False))
          else if isJsonRpcErrorResponse m
          then (case pending_of m s of
                  None \<Rightarrow> (s, False)
                | Some i \<Rightarrow>
                    let s1 = delete_pending i (clear_timer i s)
                    in case error_message m of
                         None \<Rightarrow> (s1\<lparr>rpc_stranded := rpc_stranded s1 @ [i]\<rparr>, True)
                       | Some t \<Rightarrow> (settle_request i (RpcError t) s1, False))
          else if isJsonRpcRequest m then (s\<lparr>rpc_requests := rpc_requests s @ [m]\<rparr>, False)
          else if isJsonRpcNotification m then (s\<lparr>rpc_notifications := rpc_notifications s @ [m]\<rparr>, False)
          else (s, False))"

definition handler_failed :: "json \<Rightarrow> string \<Rightarrow> rpc \<Rightarrow> rpc" where
  "handler_failed m err s = rpc_send (createErrorResponse (coalesce (member (Some m) ''id'') JNull) err) s"

lemma ops_buffer [simp]:
  "rpc_buffer (settle_request i r s) = rpc_buffer s" "rpc_buffer (delete_pending i s) = rpc_buffer s"
  "rpc_buffer (clear_timer i s) = rpc_buffer s"
  by (simp_all add: settle_request_def delete_pending_def clear_timer_def)

lemma onLine_buffer [simp]: "rpc_buffer (fst (onLine h line s)) = rpc_buffer s"
  by (auto simp: onLine_def Let_def split: option.splits)

function drain :: "host \<Rightarrow> rpc \<Rightarrow> rpc \<times> bool" where
  "drain h s =
     (if CHR 0x0A \<notin> set (rpc_buffer s) then (s, False)
      else let line = js_trim (takeWhile (\<lambda>c. c \<noteq> CHR 0x0A) (rpc_buffer s));
               s1 = s\<lparr>rpc_buffer := tl (dropWhile (\<lambda>c. c \<noteq> CHR 0x0A) (rpc_buffer s))\<rparr>;
               r = (if line = [] then (s1, False) else onLine h line s1)
           in if snd r then r else drain h (fst r))"
  by pat_completeness auto
termination
proof (relation "measure (\<lambda>(h, s). length (rpc_buffer s))", goal_cases)
  case (2 h s line s1 r)
  have "dropWhile (\<lambda>c. c \<noteq> CHR 0x0A) (rpc_buffer s) \<noteq> []"
    using 2(1) by (simp add: dropWhile_eq_Nil_conv)
  then have "length (tl (dropWhile (\<lambda>c. c \<noteq> CHR 0x0A) (rpc_buffer s))) < length (rpc_buffer s)"
    by (metis length_dropWhile_le length_tl diff_less length_greater_0_conv less_le_trans zero_less_one)
  then show ?case using 2 by simp
qed simp

declare drain.simps [simp del]

definition utf8_bytes :: "char \<Rightarrow> nat" where
  "utf8_bytes c = (if (of_char c :: nat) < 128 then 1 else 2)"

definition byteLength :: "string \<Rightarrow> nat" where
  "byteLength s = sum_list (map utf8_bytes s)"

definition onChunk :: "host \<Rightarrow> string \<Rightarrow> rpc \<Rightarrow> rpc \<times> bool" where
  "onChunk h chunk s =
     (let s1 = s\<lparr>rpc_buffer := rpc_buffer s @ chunk\<rparr>
      in if byteLength (rpc_buffer s1) > MAX_LINE_BYTES then (rpc_close s1, False)
         else drain h s1)"

text \<open>
  \<open>interruptTurn\<close> races the request's promise against a timer of its own: it tells whether the reply
  came first.
\<close>

datatype race = Replied | Failed_first | Timer_first

definition interruptTurn :: "string \<Rightarrow> string \<Rightarrow> race \<Rightarrow> rpc \<Rightarrow> bool \<times> rpc" where
  "interruptTurn threadId turnId race s =
     (if rpc_exited s then (False, s)
      else (race = Replied,
            snd (rpc_request ''turn/interrupt'' (JObj [(''threadId'', JStr threadId), (''turnId'', JStr turnId)]) s)))"

section \<open>Runs\<close>

datatype rpc_op =
    RequestOp string json
  | NotifyOp string json
  | ChunkOp string
  | TimeoutOp int
  | ExitOp
  | CloseOp
  | HandlerFailedOp json string

fun rpc_step :: "host \<Rightarrow> rpc_op \<Rightarrow> rpc \<Rightarrow> rpc" where
  "rpc_step h (RequestOp method params) s = snd (rpc_request method params s)"
| "rpc_step h (NotifyOp method params) s = rpc_notify method params s"
| "rpc_step h (ChunkOp chunk) s = fst (onChunk h chunk s)"
| "rpc_step h (TimeoutOp i) s = rpc_timeout i s"
| "rpc_step h ExitOp s = rpc_exit s"
| "rpc_step h CloseOp s = rpc_close s"
| "rpc_step h (HandlerFailedOp m e) s = handler_failed m e s"

section \<open>Every request has one fate\<close>

text \<open>
  The requests issued so far are those pending, with their timers, those settled, each once, and those
  stranded by a malformed error response.
\<close>

definition fates :: "rpc \<Rightarrow> int list" where
  "fates s = rpc_pending s @ map fst (rpc_settled s) @ rpc_stranded s"

definition rpc_ok :: "rpc \<Rightarrow> bool" where
  "rpc_ok s \<longleftrightarrow> distinct (fates s) \<and> set (fates s) = {1..<rpc_nextId s} \<and> 1 \<le> rpc_nextId s \<and>
     map fst (rpc_timers s) = rpc_pending s \<and> (rpc_exited s \<longrightarrow> rpc_pending s = [])"

lemma rpc_ok_new [simp]: "rpc_ok new_rpc"
  by (simp add: rpc_ok_def new_rpc_def fates_def)

lemma rpc_ok_more [simp]:
  "rpc_ok (s\<lparr>rpc_buffer := b\<rparr>) = rpc_ok s" "rpc_ok (s\<lparr>rpc_sent := x\<rparr>) = rpc_ok s"
  "rpc_ok (s\<lparr>rpc_kills := k\<rparr>) = rpc_ok s" "rpc_ok (s\<lparr>rpc_requests := x\<rparr>) = rpc_ok s"
  "rpc_ok (s\<lparr>rpc_notifications := x\<rparr>) = rpc_ok s"
  by (simp_all add: rpc_ok_def fates_def)

lemma rpc_ok_send [simp]: "rpc_ok (rpc_send m s) = rpc_ok s"
  by (simp add: rpc_send_def)

lemma rpc_ok_request: "rpc_ok s \<Longrightarrow> rpc_ok (snd (rpc_request method params s))"
proof (cases "rpc_exited s")
  case False
  assume ok: "rpc_ok s"
  define t where "t = s\<lparr>rpc_nextId := rpc_nextId s + 1, rpc_timers := rpc_timers s @ [(rpc_nextId s, method)],
    rpc_pending := rpc_pending s @ [rpc_nextId s]\<rparr>"
  have "rpc_nextId s \<notin> set (fates s)" using ok by (simp add: rpc_ok_def)
  then have "distinct (fates t)" "set (fates t) = insert (rpc_nextId s) (set (fates s))"
    using ok by (auto simp: t_def fates_def rpc_ok_def)
  then have "rpc_ok t" using ok False by (auto simp: rpc_ok_def t_def)
  then show ?thesis using False by (simp add: rpc_request_def Let_def t_def)
qed (simp add: rpc_request_def)

lemma timers_filter: "map fst (filter (\<lambda>(i, _). i \<noteq> k) xs) = filter (\<lambda>i. i \<noteq> k) (map fst xs)"
  by (induction xs) auto

text \<open>Taking a pending request and settling (or stranding) it.\<close>

lemma rpc_ok_move:
  assumes "rpc_ok s" and "i \<in> set (rpc_pending s)"
  shows "rpc_ok (settle_request i r (delete_pending i (clear_timer i s)))"
    and "rpc_ok ((delete_pending i (clear_timer i s))\<lparr>rpc_stranded := rpc_stranded s @ [i]\<rparr>)"
  using assms
  by (auto simp: rpc_ok_def settle_request_def delete_pending_def clear_timer_def fates_def timers_filter)

lemma pending_of_mem: "pending_of m s = Some i \<Longrightarrow> i \<in> set (rpc_pending s)"
  by (auto simp: pending_of_def split: option.splits json.splits if_splits)

lemma stranded_ops [simp]: "rpc_stranded (delete_pending i (clear_timer i s)) = rpc_stranded s"
  by (simp add: delete_pending_def clear_timer_def)

lemma rpc_ok_line: "rpc_ok s \<Longrightarrow> rpc_ok (fst (onLine h line s))"
  using rpc_ok_move pending_of_mem [of _ s] by (auto simp: onLine_def Let_def split: option.splits)

lemma rpc_ok_drain: "rpc_ok s \<Longrightarrow> rpc_ok (fst (drain h s))"
proof (induction h s rule: drain.induct)
  case (1 h s)
  then show ?case by (subst drain.simps) (simp add: Let_def rpc_ok_line)
qed

lemma rpc_ok_chunk: "rpc_ok s \<Longrightarrow> rpc_ok (fst (onChunk h chunk s))"
  by (simp add: onChunk_def Let_def rpc_ok_drain rpc_close_def)

lemma rpc_ok_timeout: "rpc_ok s \<Longrightarrow> rpc_ok (rpc_timeout i s)"
proof (cases "map_of (rpc_timers s) i")
  case (Some m)
  assume ok: "rpc_ok s"
  have "i \<in> fst ` set (rpc_timers s)" using Some by (metis map_of_eq_None_iff not_None_eq)
  then have "i \<in> set (rpc_pending s)" using ok by (simp add: rpc_ok_def flip: set_map)
  then show ?thesis using rpc_ok_move(1) [OF ok] Some by (simp add: rpc_timeout_def)
qed (simp add: rpc_timeout_def)

lemma exit_fold:
  "fold (\<lambda>i s. settle_request i (f i) (clear_timer i s)) is s =
   s\<lparr>rpc_settled := rpc_settled s @ map (\<lambda>i. (i, f i)) is,
     rpc_timers := filter (\<lambda>(i, _). i \<notin> set is) (rpc_timers s)\<rparr>"
proof (induction "is" arbitrary: s)
  case (Cons i "is")
  have "filter (\<lambda>(k, _). k \<notin> set is) (filter (\<lambda>(k, _). k \<noteq> i) ts) = filter (\<lambda>(k, _). k \<notin> set (i # is)) ts"
    for ts :: "(int \<times> string) list"
    by (induction ts) auto
  then show ?case
    by (simp only: fold_simps Cons.IH) (simp add: settle_request_def clear_timer_def)
qed simp

lemma exit_state:
  "rpc_exit s = s\<lparr>rpc_exited := True, rpc_pending := [],
     rpc_settled := rpc_settled s @ map (\<lambda>i. (i, RpcError (''connection exited while waiting for request '' @ show_int i))) (rpc_pending s),
     rpc_timers := filter (\<lambda>(i, _). i \<notin> set (rpc_pending s)) (rpc_timers s)\<rparr>"
  by (simp add: rpc_exit_def exit_fold)

lemma rpc_ok_exit: "rpc_ok s \<Longrightarrow> rpc_ok (rpc_exit s)"
proof -
  assume ok: "rpc_ok s"
  have "fst ` set (rpc_timers s) = set (rpc_pending s)" using ok by (simp add: rpc_ok_def flip: set_map)
  then have "filter (\<lambda>(i, _). i \<notin> set (rpc_pending s)) (rpc_timers s) = []"
    by (force simp: filter_empty_conv)
  then show ?thesis using ok by (auto simp: exit_state rpc_ok_def fates_def comp_def)
qed

lemma rpc_ok_step: "rpc_ok s \<Longrightarrow> rpc_ok (rpc_step h op s)"
  by (cases op)
    (auto simp: rpc_ok_request rpc_notify_def rpc_ok_chunk rpc_ok_timeout rpc_ok_exit rpc_close_def handler_failed_def)

lemma rpc_ok_run: "rpc_ok s \<Longrightarrow> rpc_ok (fold (rpc_step h) ops s)"
  by (induction ops arbitrary: s) (auto simp: rpc_ok_step)

section \<open>Framing\<close>

definition lines_of :: "string \<Rightarrow> string list" where
  "lines_of t = butlast (split_on (CHR 0x0A) t)"

definition rest_of :: "string \<Rightarrow> string" where
  "rest_of t = last (split_on (CHR 0x0A) t)"

definition take_line :: "host \<Rightarrow> string \<Rightarrow> rpc \<Rightarrow> rpc \<times> bool" where
  "take_line h l s = (if js_trim l = [] then (s, False) else onLine h (js_trim l) s)"

definition malformed_error :: "host \<Rightarrow> string \<Rightarrow> bool" where
  "malformed_error h l \<longleftrightarrow> (case h_json_parse h (js_trim l) of
     Some m \<Rightarrow> member (Some m) ''error'' = Some JNull | None \<Rightarrow> False)"

text \<open>The reference: every complete line of the text is handled, in order, and the rest kept.\<close>

definition handle_text :: "host \<Rightarrow> string \<Rightarrow> rpc \<Rightarrow> rpc" where
  "handle_text h t s = (fold (\<lambda>l s. fst (take_line h l s)) (lines_of t) s)\<lparr>rpc_buffer := rest_of t\<rparr>"

lemma split_on_step: "split_on x (u @ v) = butlast (split_on x u) @ split_on x (last (split_on x u) @ v)"
proof (induction u)
  case (Cons c u)
  have n: "split_on x u \<noteq> []" by (rule split_on_nonempty)
  then obtain w ws where w: "split_on x u = w # ws" by (cases "split_on x u") auto
  show ?case
  proof (cases "c = x")
    case True
    then show ?thesis using Cons n by simp
  next
    case False
    show ?thesis
    proof (cases ws)
      case Nil
      have "split_on x (w @ v) \<noteq> []" by (rule split_on_nonempty)
      then show ?thesis using Cons w Nil False by (cases "split_on x (w @ v)") auto
    next
      case (Cons a as)
      then show ?thesis using Cons.IH w False \<open>split_on x (u @ v) = _\<close> by simp
    qed
  qed
qed simp

lemma lines_rest_append:
  "lines_of (u @ v) = lines_of u @ lines_of (rest_of u @ v)" "rest_of (u @ v) = rest_of (rest_of u @ v)"
  using split_on_step [of "CHR 0x0A" u v] split_on_nonempty [of "CHR 0x0A"]
  by (simp_all add: lines_of_def rest_of_def butlast_append)

lemma rest_suffix: "\<exists>p. u = p @ rest_of u"
proof (cases "CHR 0x0A \<in> set u")
  case True
  then obtain a b where u: "u = a @ CHR 0x0A # b" "CHR 0x0A \<notin> set b" using split_list_last by metis
  then have "rest_of u = b" by (simp add: rest_of_def split_on_append split_on_no_sep)
  then show ?thesis using u by (intro exI [of _ "a @ [CHR 0x0A]"]) simp
next
  case False
  then show ?thesis by (simp add: rest_of_def split_on_no_sep)
qed

lemma onLine_buffer_free:
  "onLine h l (s\<lparr>rpc_buffer := b\<rparr>) = ((fst (onLine h l s))\<lparr>rpc_buffer := b\<rparr>, snd (onLine h l s))"
  by (auto simp: onLine_def Let_def pending_of_def settle_request_def delete_pending_def clear_timer_def
      split: option.splits json.splits)

lemma take_line_buffer_free:
  "take_line h l (s\<lparr>rpc_buffer := b\<rparr>) = ((fst (take_line h l s))\<lparr>rpc_buffer := b\<rparr>, snd (take_line h l s))"
  by (simp add: take_line_def onLine_buffer_free)

lemma fold_take_buffer_free:
  "fold (\<lambda>l s. fst (take_line h l s)) ls (s\<lparr>rpc_buffer := b\<rparr>) =
   (fold (\<lambda>l s. fst (take_line h l s)) ls s)\<lparr>rpc_buffer := b\<rparr>"
  by (induction ls arbitrary: s) (auto simp: take_line_buffer_free)

lemma take_line_throws: "snd (take_line h l s) \<Longrightarrow> malformed_error h l"
  by (auto simp: take_line_def onLine_def malformed_error_def error_message_def isJsonRpcErrorResponse_def
      has_member_def Let_def split: option.splits if_splits json.splits)

lemma drain_text:
  "\<not> list_ex (malformed_error h) (lines_of (rpc_buffer s)) \<Longrightarrow>
   drain h s = (handle_text h (rpc_buffer s) s, False)"
proof (induction h s rule: drain.induct)
  case (1 h s)
  show ?case
  proof (cases "CHR 0x0A \<in> set (rpc_buffer s)")
    case False
    then have "split_on (CHR 0x0A) (rpc_buffer s) = [rpc_buffer s]" by (rule split_on_no_sep)
    then show ?thesis using False by (subst drain.simps) (simp add: handle_text_def lines_of_def rest_of_def)
  next
    case True
    then obtain u v where b: "rpc_buffer s = u @ CHR 0x0A # v" and nu: "CHR 0x0A \<notin> set u"
      using split_list_first by metis
    have all: "\<forall>c\<in>set u. c \<noteq> CHR 0x0A" using nu by blast
    then have tw: "takeWhile (\<lambda>c. c \<noteq> CHR 0x0A) (rpc_buffer s) = u" unfolding b by simp
    have dw: "tl (dropWhile (\<lambda>c. c \<noteq> CHR 0x0A) (rpc_buffer s)) = v"
      unfolding b using dropWhile_append2 [of u "\<lambda>c. c \<noteq> CHR 0x0A" "CHR 0x0A # v"] all by simp
    have ls: "lines_of (rpc_buffer s) = u # lines_of v" "rest_of (rpc_buffer s) = rest_of v"
      using split_on_no_sep [OF nu] by (simp_all add: b lines_of_def rest_of_def split_on_append)
    define r where "r = take_line h u (s\<lparr>rpc_buffer := v\<rparr>)"
    have nt: "\<not> snd r" using take_line_throws "1.prems" ls by (auto simp: r_def)
    have st: "drain h s = (if snd r then r else drain h (fst r))"
      using True by (subst drain.simps) (simp add: r_def take_line_def Let_def tw dw)
    have rb: "rpc_buffer (fst r) = v" by (simp add: r_def take_line_buffer_free)
    have "drain h (fst r) = (handle_text h (rpc_buffer (fst r)) (fst r), False)"
      using "1.IH" [OF _ refl refl refl] True nt "1.prems" ls rb
      unfolding tw dw r_def take_line_def by simp
    then show ?thesis
      using st nt rb ls by (simp add: handle_text_def r_def take_line_buffer_free fold_take_buffer_free)
  qed
qed

lemma byteLength_append: "byteLength (u @ v) = byteLength u + byteLength v"
  by (simp add: byteLength_def)

lemma byteLength_rest: "byteLength (rest_of u) \<le> byteLength u"
proof -
  obtain p where "u = p @ rest_of u" using rest_suffix by blast
  from arg_cong [where f = byteLength, OF this] show ?thesis by (simp add: byteLength_append)
qed

lemma handle_text_append:
  "handle_text h (u @ v) s = handle_text h (rest_of u @ v) (handle_text h u s)"
  by (simp add: handle_text_def lines_rest_append [of u v] fold_take_buffer_free)

lemma buffer_handle_text [simp]: "rpc_buffer (handle_text h t s) = rest_of t"
  by (simp add: handle_text_def)

lemma rest_idem [simp]: "rest_of (rest_of u) = rest_of u"
  by (rule lines_rest_append(2) [of u "[]", unfolded append_Nil2, symmetric])

lemma lines_rest [simp]: "lines_of (rest_of u) = []"
  using lines_rest_append(1) [of u "[]", unfolded append_Nil2] by (metis append_self_conv)

lemma rest_no_lines:
  assumes "lines_of t = []"
  shows "rest_of t = t"
proof (cases "CHR 0x0A \<in> set t")
  case True
  then obtain a b where "t = a @ CHR 0x0A # b" using split_list by metis
  then have "lines_of t \<noteq> []" by (simp add: lines_of_def split_on_append butlast_append)
  with assms show ?thesis by simp
qed (simp add: rest_of_def split_on_no_sep)

lemma handle_text_rest: "lines_of (rpc_buffer s) = [] \<Longrightarrow> handle_text h (rpc_buffer s) s = s"
  using rest_no_lines by (simp add: handle_text_def)

lemma chunk_text:
  assumes "byteLength (rpc_buffer s @ c) \<le> MAX_LINE_BYTES"
    and "\<not> list_ex (malformed_error h) (lines_of (rpc_buffer s @ c))"
  shows "onChunk h c s = (handle_text h (rpc_buffer s @ c) s, False)"
  using drain_text [of h "s\<lparr>rpc_buffer := rpc_buffer s @ c\<rparr>"] assms
  by (simp add: onChunk_def Let_def handle_text_def fold_take_buffer_free not_less)

lemma chunks_text:
  assumes "lines_of (rpc_buffer s) = []" and "byteLength (rpc_buffer s @ concat cs) \<le> MAX_LINE_BYTES"
    and "\<not> list_ex (malformed_error h) (lines_of (rpc_buffer s @ concat cs))"
  shows "fold (\<lambda>c s. fst (onChunk h c s)) cs s = handle_text h (rpc_buffer s @ concat cs) s"
  using assms
proof (induction cs arbitrary: s)
  case Nil
  then show ?case by (simp add: handle_text_rest)
next
  case (Cons c cs)
  define u where "u = rpc_buffer s @ c"
  have ls: "lines_of (rpc_buffer s @ concat (c # cs)) = lines_of u @ lines_of (rest_of u @ concat cs)"
    using lines_rest_append(1) [of u "concat cs"] by (simp add: u_def)
  have c: "onChunk h c s = (handle_text h u s, False)"
    using chunk_text [of s c h] Cons.prems(2, 3) unfolding ls u_def [symmetric] by (simp add: u_def byteLength_append)
  define s1 where "s1 = handle_text h u s"
  have b: "rpc_buffer s1 = rest_of u" by (simp add: s1_def)
  have "byteLength (rest_of u) + byteLength (concat cs) \<le> MAX_LINE_BYTES"
    using Cons.prems(2) byteLength_rest [of u] by (simp add: u_def byteLength_append)
  then have "fold (\<lambda>c s. fst (onChunk h c s)) cs s1 = handle_text h (rest_of u @ concat cs) s1"
    using Cons.IH [of s1] Cons.prems ls by (simp add: b byteLength_append)
  then show ?case
    using handle_text_append [of h u "concat cs" s] by (simp add: c s1_def u_def)
qed

section \<open>Properties\<close>

text \<open>
  C39: Whatever requests, chunks, timeouts and exit a connection sees, every request it has issued has
  exactly one fate: it is pending with its timer armed, settled once, or stranded by a malformed error
  response; and after the exit none is pending.
\<close>

theorem rpc_request_fates: "rpc_ok (fold (rpc_step h) ops new_rpc)"
  by (rule rpc_ok_run) simp

text \<open>
  The connection handles exactly the complete lines of the agent's output, in order, and keeps the
  incomplete last one, however the output is cut into chunks; as long as it fits the line limit and no
  line is a malformed error response.
\<close>

theorem framing_ignores_chunks:
  assumes "lines_of (rpc_buffer s) = []" and "byteLength (rpc_buffer s @ concat cs) \<le> MAX_LINE_BYTES"
    and "\<not> list_ex (malformed_error h) (lines_of (rpc_buffer s @ concat cs))"
  shows "fold (\<lambda>c s. rpc_step h (ChunkOp c) s) cs s = handle_text h (rpc_buffer s @ concat cs) s"
  using chunks_text [OF assms] by simp

definition sample_line_host :: host where
  "sample_line_host = \<lparr>h_date_parse = (\<lambda>_. None), h_locale_compare = (\<lambda>_ _. 0),
     h_json_parse = (\<lambda>t. if t = ''ok'' then Some (createSuccessResponse (JNum 1) (JBool True)) else None)\<rparr>"

theorem framing_ignores_chunks_witness:
  "fold (\<lambda>c s. rpc_step sample_line_host (ChunkOp c) s) [''o'', ''k'' @ [CHR 0x0A] @ ''re'', ''st'']
     (rpc_step sample_line_host (RequestOp ''m'' JNull) new_rpc) =
   handle_text sample_line_host (''ok'' @ [CHR 0x0A] @ ''rest'') (rpc_step sample_line_host (RequestOp ''m'' JNull) new_rpc)"
proof -
  define s where "s = rpc_step sample_line_host (RequestOp ''m'' JNull) new_rpc"
  define cs where "cs = [''o'', ''k'' @ [CHR 0x0A] @ ''re'', ''st'']"
  have b: "rpc_buffer s = []" unfolding s_def by (simp add: rpc_request_def new_rpc_def rpc_send_def Let_def)
  have c: "concat cs = ''ok'' @ [CHR 0x0A] @ ''rest''" unfolding cs_def by simp
  have ls: "lines_of [] = []" "lines_of (''ok'' @ [CHR 0x0A] @ ''rest'') = [''ok'']"
    "\<not> malformed_error sample_line_host ''ok''" by code_simp+
  have bl: "byteLength (''ok'' @ [CHR 0x0A] @ ''rest'') \<le> MAX_LINE_BYTES"
    by (simp add: byteLength_def utf8_bytes_def MAX_LINE_BYTES_def)
  have "fold (\<lambda>c s. rpc_step sample_line_host (ChunkOp c) s) cs s = handle_text sample_line_host (rpc_buffer s @ concat cs) s"
    by (rule framing_ignores_chunks) (simp_all only: b c ls bl append_Nil list_ex_iff list.set ball_simps bex_simps simp_thms)
  then show ?thesis by (simp only: b c append_Nil s_def [symmetric] cs_def [symmetric])
qed

text \<open>
  A response settles the pending request with its id, with the result it carries, clears its timer
  and leaves every other request as it was.
\<close>

theorem response_settles_request:
  assumes "i \<in> set (rpc_pending s)" and "h_json_parse h line = Some (createSuccessResponse (JNum i) v)"
    and "\<not> starts_with ''risoluto:'' line"
  shows "case onLine h line s of (t, thrown) \<Rightarrow> \<not> thrown \<and> rpc_settled t = rpc_settled s @ [(i, Reply v)] \<and>
    rpc_pending t = filter (\<lambda>j. j \<noteq> i) (rpc_pending s) \<and> map_of (rpc_timers t) i = None \<and>
    (j \<noteq> i \<longrightarrow> map_of (rpc_timers t) j = map_of (rpc_timers s) j)"
proof -
  have m: "isJsonRpcSuccessResponse (createSuccessResponse (JNum i) v)"
    "pending_of (createSuccessResponse (JNum i) v) s = Some i"
    "member (Some (createSuccessResponse (JNum i) v)) ''result'' = Some v"
    using assms(1) by (simp_all add: isJsonRpcSuccessResponse_def has_member_def createSuccessResponse_def member_def
        asRecord_def omap_get_def jsonrpc_field_def pending_of_def)
  have t: "map_of (filter (\<lambda>(k, _). k \<noteq> i) ts) j = (if j = i then None else map_of ts j)" for ts :: "(int \<times> string) list" and j
    by (induction ts) auto
  show ?thesis
    using assms(2, 3) m by (simp add: onLine_def settle_request_def delete_pending_def clear_timer_def t)
qed

theorem response_settles_request_witness:
  "rpc_settled (fst (onLine sample_line_host ''ok'' (rpc_step sample_line_host (RequestOp ''m'' JNull) new_rpc))) =
     [(1, Reply (JBool True))]"
proof -
  have "1 \<in> set (rpc_pending (rpc_step sample_line_host (RequestOp ''m'' JNull) new_rpc))"
    "rpc_settled (rpc_step sample_line_host (RequestOp ''m'' JNull) new_rpc) = []"
    by (simp_all add: rpc_request_def new_rpc_def rpc_send_def Let_def)
  moreover have "h_json_parse sample_line_host ''ok'' = Some (createSuccessResponse (JNum 1) (JBool True))"
    by (simp add: sample_line_host_def)
  ultimately show ?thesis
    using response_settles_request [of 1 "rpc_step sample_line_host (RequestOp ''m'' JNull) new_rpc" sample_line_host
        "''ok''" "JBool True" 2] by (auto simp: split_beta)
qed

text \<open>
  A malformed error response (its \<open>error\<close> is \<open>null\<close>) takes the request from the pending map and clears
  its timer before the \<open>TypeError\<close>: nothing settles its promise any more.
\<close>

lemma malformed_error_strands:
  assumes "i \<in> set (rpc_pending s)"
    and "h_json_parse h line = Some (JObj [(''id'', JNum i), (''error'', JNull)])"
    and "\<not> starts_with ''risoluto:'' line"
  shows "snd (onLine h line s) \<and> i \<notin> set (rpc_pending (fst (onLine h line s))) \<and>
    rpc_settled (fst (onLine h line s)) = rpc_settled s \<and> i \<in> set (rpc_stranded (fst (onLine h line s)))"
  using assms
  by (simp add: onLine_def isJsonRpcSuccessResponse_def isJsonRpcErrorResponse_def has_member_def member_def asRecord_def
      omap_get_def pending_of_def error_message_def Let_def delete_pending_def clear_timer_def)

end
