(* ===== verification/TurnExecutor.thy ===== *)
theory TurnExecutor
  imports AgentHelpers TurnState OutcomeClaims
begin

text \<open>
  The turns of one run: \<open>src/src/agent-runner/turn-executor.ts\<close>, \<open>abort-outcomes.ts\<close>,
  \<open>exit-classifier.ts\<close>, \<open>thread-compact.ts\<close> and \<open>self-review.ts\<close>. The connection, the tracker, the
  abort signal, the flags the notification handler sets and the container are read through a
  \<open>turn_env\<close> over a world of any type: whatever happens during an \<open>await\<close> is a change of that world. The
  loop of the turns may run forever, so it is a \<open>partial_function\<close>: \<open>None\<close> means it does not return.
\<close>

section \<open>Outcomes\<close>

definition make_outcome ::
  "outcome_kind \<Rightarrow> string option \<Rightarrow> string option \<Rightarrow> codex_error_info option \<Rightarrow> string option \<Rightarrow> string option \<Rightarrow> int \<Rightarrow> run_outcome" where
  "make_outcome kind code message info threadId turnId turnCount =
     \<lparr>out_kind = kind, out_errorCode = code, out_errorMessage = message, out_codexErrorInfo = info,
      out_threadId = threadId, out_turnId = turnId, out_turnCount = turnCount\<rparr>"

definition ABORT_REASONS :: "(string \<times> outcome_kind \<times> string) list" where
  "ABORT_REASONS =
     [(''stalled'', Stalled, ''worker exceeded stall timeout''),
      (''operator_abort'', Cancelled, ''worker cancelled by operator request''),
      (''terminal'', Cancelled, ''worker stopped because the issue reached a terminal state''),
      (''inactive'', Cancelled, ''worker stopped because the issue is no longer in an active state''),
      (''shutdown'', Cancelled, ''worker cancelled during service shutdown''),
      (''model_override_updated'', Cancelled, ''worker cancelled to apply updated model settings'')]"

definition outcomeForAbort :: "string \<Rightarrow> string option \<Rightarrow> string option \<Rightarrow> int \<Rightarrow> run_outcome" where
  "outcomeForAbort reason threadId turnId turnCount =
     (case map_of ABORT_REASONS reason of
        Some (kind, message) \<Rightarrow> make_outcome kind (Some reason) (Some message) None threadId turnId turnCount
      | None \<Rightarrow> make_outcome Cancelled (Some ''cancelled'') (Some ''worker cancelled'') None threadId turnId turnCount)"

text \<open>Every \<open>JsonRpcTimeoutError\<close> says "timed out", so testing the message covers the class.\<close>

definition classifyRunError :: "js_error \<Rightarrow> string option \<Rightarrow> string option \<Rightarrow> int \<Rightarrow> run_outcome" where
  "classifyRunError err threadId turnId turnCount =
     (let message = toErrorString err;
          out = (\<lambda>kind code. make_outcome kind (Some code) (Some message) None threadId turnId turnCount)
      in if str_includes message ''timed out''
         then out TimedOut (if str_includes message ''turn completion'' then ''turn_timeout'' else ''read_timeout'')
         else if str_includes message ''connection exited'' then out Failed ''port_exit''
         else if str_includes message ''startup readiness'' then out Failed ''startup_timeout''
         else out Failed ''startup_failed'')"

definition failureOutcome :: "(string \<times> string) option \<Rightarrow> string option \<Rightarrow> string option \<Rightarrow> int \<Rightarrow> run_outcome option" where
  "failureOutcome failure threadId turnId turnCount =
     map_option (\<lambda>(code, message). make_outcome Failed (Some code) (Some message) None threadId turnId turnCount) failure"

section \<open>The environment\<close>

record 'w turn_env =
  te_host :: host
  te_config :: runner_config
  te_issue :: issue
  te_prompt :: string
  te_cwd :: string
  te_model :: model_selection
  te_container :: "string option"
  te_logger :: bool
  te_now :: "'w \<Rightarrow> string"
  te_request :: "string \<Rightarrow> json \<Rightarrow> 'w \<Rightarrow> (js_error + json) \<times> 'w"
  te_wait :: "string \<Rightarrow> 'w \<Rightarrow> (js_error + json) \<times> 'w"
  te_fetch :: "'w \<Rightarrow> (js_error + issue option) \<times> 'w"
  te_setTurn :: "string \<Rightarrow> 'w \<Rightarrow> 'w"
  te_emit :: "runtime_event \<Rightarrow> 'w \<Rightarrow> 'w"
  te_fatal :: "'w \<Rightarrow> (string \<times> string) option"
  te_aborted :: "'w \<Rightarrow> string option"
  te_stopSignal :: "'w \<Rightarrow> stop_signal option"
  te_content :: "'w \<Rightarrow> string option"
  te_exit :: "'w \<Rightarrow> int option \<times> 'w"
  te_oom :: "'w \<Rightarrow> (js_error + bool) \<times> 'w"

record exec_state =
  ex_threadId :: "string option"
  ex_turnId :: "string option"
  ex_turnCount :: int

datatype turn_result = TStop | TContinue | TCompact | TOutcome run_outcome

definition exec_outcome :: "outcome_kind \<Rightarrow> string option \<Rightarrow> string option \<Rightarrow> codex_error_info option \<Rightarrow> exec_state \<Rightarrow> run_outcome" where
  "exec_outcome kind code message info st =
     make_outcome kind code message info (ex_threadId st) (ex_turnId st) (ex_turnCount st)"

definition checkFatalFailure :: "'w turn_env \<Rightarrow> exec_state \<Rightarrow> 'w \<Rightarrow> run_outcome option" where
  "checkFatalFailure env st w = failureOutcome (te_fatal env w) (ex_threadId st) (ex_turnId st) (ex_turnCount st)"

definition abort_outcome :: "'w turn_env \<Rightarrow> exec_state \<Rightarrow> 'w \<Rightarrow> run_outcome option" where
  "abort_outcome env st w =
     map_option (\<lambda>reason. outcomeForAbort reason (ex_threadId st) (ex_turnId st) (ex_turnCount st)) (te_aborted env w)"

section \<open>One turn\<close>

definition getContinuationPrompt :: string where
  "getContinuationPrompt = join '' ''
     [''Continue the current issue, make concrete progress, and stop only when done or blocked.'',
      ''When the issue is complete, end your final message with `RISOLUTO_STATUS: DONE`.'',
      ''If you are blocked and cannot proceed, end your final message with `RISOLUTO_STATUS: BLOCKED`.'']"

definition STRUCTURED_OUTPUT_SCHEMA :: json where
  "STRUCTURED_OUTPUT_SCHEMA = JObj
     [(''type'', JStr ''object''),
      (''properties'', JObj
         [(''status'', JObj [(''type'', JStr ''string''), (''enum'', JArr [JStr ''DONE'', JStr ''BLOCKED'', JStr ''CONTINUE''])]),
          (''summary'', JObj [(''type'', JStr ''string'')])]),
      (''required'', JArr [JStr ''status'', JStr ''summary''])]"

definition isContextWindowError :: "string \<Rightarrow> json option \<Rightarrow> bool" where
  "isContextWindowError errorMessage completedError \<longleftrightarrow>
     or_else (asString (member completedError ''type''))
       (asString (member (member completedError ''codexErrorInfo'') ''type'')) = Some ''ContextWindowExceeded'' \<or>
     str_includes (js_lower errorMessage) ''context window'' \<or>
     str_includes (js_lower errorMessage) ''context length exceeded''"

definition classifyTurnResult :: "string \<Rightarrow> json option \<Rightarrow> exec_state \<Rightarrow> turn_result option" where
  "classifyTurnResult status completedError st =
     (if status = ''failed''
      then let errorMessage = coalesce (asString (member completedError ''message'')) ''turn failed''
           in if isContextWindowError errorMessage completedError then Some TCompact
              else Some (TOutcome (exec_outcome Failed (Some ''turn_failed'') (Some errorMessage)
                     (extractCodexErrorInfo completedError) st))
      else if status = ''interrupted''
      then Some (TOutcome (exec_outcome Cancelled (Some ''interrupted'')
             (Some (coalesce (asString (member completedError ''message'')) ''turn interrupted'')) None st))
      else None)"

definition resolveTokenUsage :: "json option \<Rightarrow> json option \<Rightarrow> json option \<Rightarrow> token_usage option" where
  "resolveTokenUsage turnRecord completedTurn turnResult =
     fold (\<lambda>v u. or_else u (extractTokenUsageSnapshot v))
       [member turnRecord ''usage'', member turnRecord ''tokenUsage'', member completedTurn ''usage'',
        member completedTurn ''tokenUsage'', member turnResult ''usage'', member turnResult ''tokenUsage''] None"

definition turn_completed_message :: "host \<Rightarrow> int \<Rightarrow> string \<Rightarrow> json option \<Rightarrow> string" where
  "turn_completed_message h turnCount status completedError =
     (let fallbackMessage = ''turn '' @ show_int turnCount @ '' ended with status '' @ status;
          rawMessage = (if status = ''completed'' then ''turn '' @ show_int turnCount @ '' completed''
                        else case member completedError ''message'' of
                          None \<Rightarrow> fallbackMessage | Some (JStr m) \<Rightarrow> m | Some v \<Rightarrow> json_stringify v)
      in case truthy_string (sanitizeContent h (Some rawMessage) False None) of
           Some m \<Rightarrow> m | None \<Rightarrow> fallbackMessage)"

definition emitTurnCompletedEvent ::
  "'w turn_env \<Rightarrow> exec_state \<Rightarrow> string \<Rightarrow> json option \<Rightarrow> token_usage option \<Rightarrow> json \<Rightarrow> 'w \<Rightarrow> 'w" where
  "emitTurnCompletedEvent env st status completedError completedUsage turnResult w =
     te_emit env
       \<lparr>ev_at = te_now env w, ev_issueId = Some (issue_id (te_issue env)),
        ev_issueIdentifier = Some (issue_identifier (te_issue env)),
        ev_sessionId = composeSessionId (ex_threadId st) (ex_turnId st), ev_event = ''turn_completed'',
        ev_message = turn_completed_message (te_host env) (ex_turnCount st) status completedError,
        ev_content = None, ev_metadata = None, ev_usage = completedUsage, ev_usageMode = None,
        ev_rateLimits = (let r = extractRateLimits (Some turnResult) in if r = JNull then Undef else Val r),
        ev_stopSignal = None\<rparr> w"

definition js_effort_field :: "reasoning_effort jsopt \<Rightarrow> (string \<times> json) list" where
  "js_effort_field e = (case e of Undef \<Rightarrow> [] | Null \<Rightarrow> [(''effort'', JNull)] | Val v \<Rightarrow> [(''effort'', JStr (effort_name v))])"

definition turn_start_params :: "'w turn_env \<Rightarrow> exec_state \<Rightarrow> string \<Rightarrow> json" where
  "turn_start_params env st prompt = JObj
     ([(''threadId'', jopt JStr (ex_threadId st)), (''cwd'', JStr (te_cwd env)),
       (''title'', JStr (issue_identifier (te_issue env) @ '': '' @ issue_title (te_issue env))),
       (''model'', JStr (sel_model (te_model env)))] @ js_effort_field (sel_effort (te_model env)) @
      [(''approvalPolicy'', rc_approvalPolicy (te_config env)),
       (''sandboxPolicy'', JObj (getTurnSandboxPolicy (te_config env))), (''summary'', JStr ''detailed''),
       (''input'', JArr [JObj [(''type'', JStr ''text''), (''text'', JStr prompt)]])] @
      (if rc_structuredOutput (te_config env) then [(''outputSchema'', STRUCTURED_OUTPUT_SCHEMA)] else []))"

text \<open>What is left of a turn once its completion has arrived.\<close>

definition finish_turn :: "'w turn_env \<Rightarrow> exec_state \<Rightarrow> json \<Rightarrow> json \<Rightarrow> 'w \<Rightarrow> (js_error + turn_result) \<times> 'w" where
  "finish_turn env st turnResult completedTurn w =
     (let turnRecord = member (Some completedTurn) ''turn'';
          status = coalesce (asString (member turnRecord ''status'')) ''failed'';
          completedError = member turnRecord ''error'';
          usage = resolveTokenUsage turnRecord (Some completedTurn) (Some turnResult);
          w1 = emitTurnCompletedEvent env st status completedError usage turnResult w
      in case checkFatalFailure env st w1 of
           Some out \<Rightarrow> (Inr (TOutcome out), w1)
         | None \<Rightarrow>
             (case classifyTurnResult status completedError st of
                Some r \<Rightarrow> (Inr r, w1)
              | None \<Rightarrow>
                  (case te_fetch env w1 of
                     (Inl e, w2) \<Rightarrow> (Inl e, w2)
                   | (Inr None, w2) \<Rightarrow> (Inr TStop, w2)
                   | (Inr (Some latest), w2) \<Rightarrow>
                       (Inr (if isActiveState (issue_state latest) (rc_service (te_config env))
                             then TContinue else TStop), w2))))"

definition runSingleTurn ::
  "'w turn_env \<Rightarrow> exec_state \<Rightarrow> string \<Rightarrow> 'w \<Rightarrow> (js_error + turn_result) \<times> exec_state \<times> 'w" where
  "runSingleTurn env st prompt w =
     (let st1 = st\<lparr>ex_turnCount := ex_turnCount st + 1\<rparr>
      in case te_request env ''turn/start'' (turn_start_params env st1 prompt) w of
           (Inl e, w1) \<Rightarrow> (Inl e, st1, w1)
         | (Inr turnResult, w1) \<Rightarrow>
             let turnId = extractTurnId (Some turnResult); st2 = st1\<lparr>ex_turnId := turnId\<rparr>
             in case truthy_string turnId of
                  None \<Rightarrow> (Inl (JsError ''turn/start did not return a turn identifier''), st2, w1)
                | Some t \<Rightarrow>
                    (case te_wait env t (te_setTurn env t w1) of
                       (Inl e, w2) \<Rightarrow> (Inl e, st2, w2)
                     | (Inr completedTurn, w2) \<Rightarrow>
                         (case finish_turn env st2 turnResult completedTurn w2 of (r, w3) \<Rightarrow> (r, st2, w3))))"

section \<open>The loop\<close>

definition compactThread :: "'w turn_env \<Rightarrow> string \<Rightarrow> 'w \<Rightarrow> bool \<times> 'w" where
  "compactThread env threadId w =
     (case te_request env ''thread/compact/start'' (JObj [(''threadId'', JStr threadId)]) w of
        (Inr _, w1) \<Rightarrow> (True, w1) | (Inl _, w1) \<Rightarrow> (False, w1))"

text \<open>A loop action: \<open>None\<close> to go on, \<open>Some None\<close> to leave the loop, \<open>Some (Some out)\<close> an outcome.\<close>

definition tryCompactAndRetry :: "'w turn_env \<Rightarrow> exec_state \<Rightarrow> 'w \<Rightarrow> run_outcome option option \<times> exec_state \<times> 'w" where
  "tryCompactAndRetry env st w =
     (let (compacted, w1) = (case truthy_string (ex_threadId st) of
            Some t \<Rightarrow> if te_logger env then compactThread env t w else (False, w)
          | None \<Rightarrow> (False, w))
      in if compacted then (None, st\<lparr>ex_turnCount := ex_turnCount st - 1\<rparr>, w1)
         else (Some (Some (exec_outcome Failed (Some ''context_window_exceeded'')
                 (Some ''context window exceeded and compaction failed'') None st)), st, w1))"

definition resolveTurnResult ::
  "turn_result \<Rightarrow> 'w turn_env \<Rightarrow> exec_state \<Rightarrow> 'w \<Rightarrow> run_outcome option option \<times> exec_state \<times> 'w" where
  "resolveTurnResult r env st w =
     (case r of
        TStop \<Rightarrow> (Some None, st, w)
      | TOutcome out \<Rightarrow> (Some (Some out), st, w)
      | TCompact \<Rightarrow> tryCompactAndRetry env st w
      | TContinue \<Rightarrow>
          if te_stopSignal env w \<noteq> None \<or> detectStopSignal (te_host env) (te_content env w) \<noteq> None
          then (Some None, st, w) else (None, st, w))"

text \<open>One pass of \<open>handleTurnLoop\<close>: \<open>Inl\<close> with what it returns (or throws), \<open>Inr\<close> to go on.\<close>

definition turn_loop_step ::
  "'w turn_env \<Rightarrow> exec_state \<Rightarrow> 'w \<Rightarrow> ((js_error + run_outcome option) + unit) \<times> exec_state \<times> 'w" where
  "turn_loop_step env st w =
     (if ex_turnCount st \<ge> rc_maxTurns (te_config env) then (Inl (Inr None), st, w)
      else case abort_outcome env st w of
        Some out \<Rightarrow> (Inl (Inr (Some out)), st, w)
      | None \<Rightarrow>
          (case runSingleTurn env st (if ex_turnCount st = 0 then te_prompt env else getContinuationPrompt) w of
             (Inl e, st1, w1) \<Rightarrow> (Inl (Inl e), st1, w1)
           | (Inr r, st1, w1) \<Rightarrow>
               (case resolveTurnResult r env st1 w1 of
                  (Some x, st2, w2) \<Rightarrow> (Inl (Inr x), st2, w2)
                | (None, st2, w2) \<Rightarrow> (Inr (), st2, w2))))"

partial_function (option) handleTurnLoop ::
  "'w turn_env \<Rightarrow> exec_state \<Rightarrow> 'w \<Rightarrow> ((js_error + run_outcome option) \<times> exec_state \<times> 'w) option" where
  "handleTurnLoop env st w =
     (case turn_loop_step env st w of
        (Inl r, st1, w1) \<Rightarrow> Some (r, st1, w1)
      | (Inr _, st1, w1) \<Rightarrow> handleTurnLoop env st1 w1)"

section \<open>The outcome of a run\<close>

definition classifyExitState :: "'w turn_env \<Rightarrow> exec_state \<Rightarrow> 'w \<Rightarrow> (js_error + run_outcome) \<times> 'w" where
  "classifyExitState env st w =
     (case te_exit env w of
        (code, w1) \<Rightarrow>
          (case checkFatalFailure env st w1 of
             Some out \<Rightarrow> (Inr out, w1)
           | None \<Rightarrow>
               (case code of
                  Some c \<Rightarrow>
                    if te_aborted env w1 \<noteq> None then (Inr (exec_outcome Normal None None None st), w1)
                    else
                      let (oom, w2) = (if truthy_string (te_container env) \<noteq> None \<and> c = 137 then te_oom env w1
                                       else (Inr False, w1))
                      in (case oom of
                            Inl e \<Rightarrow> (Inl e, w2)
                          | Inr True \<Rightarrow> (Inr (exec_outcome Failed (Some ''container_oom'')
                              (Some (''container OOM-killed (memory limit: '' @ rc_memory (te_config env) @ '')'')) None st), w2)
                          | Inr False \<Rightarrow> (Inr (exec_outcome Failed (Some ''port_exit'')
                              (Some (''codex subprocess exited with code '' @ show_int c)) None st), w2))
                | None \<Rightarrow> (Inr (exec_outcome Normal None None None st), w1))))"

definition handleExecutionError :: "'w turn_env \<Rightarrow> js_error \<Rightarrow> exec_state \<Rightarrow> 'w \<Rightarrow> run_outcome" where
  "handleExecutionError env err st w =
     (case checkFatalFailure env st w of
        Some out \<Rightarrow> out
      | None \<Rightarrow>
          (case abort_outcome env st w of
             Some out \<Rightarrow> out
           | None \<Rightarrow> classifyRunError err (ex_threadId st) (ex_turnId st) (ex_turnCount st)))"

definition executeTurns :: "'w turn_env \<Rightarrow> exec_state \<Rightarrow> 'w \<Rightarrow> ((js_error + run_outcome) \<times> 'w) option" where
  "executeTurns env st w =
     map_option (\<lambda>(r, st1, w1).
       case r of
         Inl e \<Rightarrow> (Inr (handleExecutionError env e st1 w1), w1)
       | Inr (Some out) \<Rightarrow> (Inr out, w1)
       | Inr None \<Rightarrow> classifyExitState env st1 w1) (handleTurnLoop env st w)"

section \<open>Self review\<close>

definition classifyReviewSummary :: "string \<Rightarrow> bool option" where
  "classifyReviewSummary summary =
     (let normalized = js_lower summary
      in if normalized = ''review completed'' then None
         else if list_ex (str_includes normalized) [''no findings'', ''looks solid'', ''no issues found'', ''nothing to fix'']
         then Some True
         else if js_trim summary \<noteq> [] then Some False else None)"

text \<open>The request, the wait and the stored summary are arguments; \<open>None\<close> when anything throws.\<close>

definition runSelfReview ::
  "js_error + json \<Rightarrow> (string \<Rightarrow> js_error + turn_state) \<Rightarrow> turn_state \<Rightarrow> (bool option \<times> string) option \<times> turn_state" where
  "runSelfReview reply wait s =
     (case reply of
        Inl _ \<Rightarrow> (None, s)
      | Inr result \<Rightarrow>
          (case truthy_string (extractTurnId (Some result)) of
             Some t \<Rightarrow>
               (case wait t of
                  Inl _ \<Rightarrow> (None, s)
                | Inr s1 \<Rightarrow>
                    let (found, s2) = consumeReviewSummary (Some t) s1;
                        summary = coalesce found ''review completed''
                    in (Some (classifyReviewSummary summary, summary), s2))
           | None \<Rightarrow>
               (let status = asString (member (Some result) ''status'')
                in (Some (if status = Some ''passed'' then Some True
                          else if truthy_string status \<noteq> None then Some False else None,
                          coalesce (asString (member (Some result) ''summary'')) ''review completed''), s))))"

section \<open>The loop ends\<close>

text \<open>
  What bounds the loop: a number that no action of the environment increases and that a successful
  compaction decreases, such as the compactions the agent still grants.
\<close>

definition compactions_bounded :: "'w turn_env \<Rightarrow> ('w \<Rightarrow> nat) \<Rightarrow> bool" where
  "compactions_bounded env mu \<longleftrightarrow>
     (\<forall>m p w. mu (snd (te_request env m p w)) \<le> mu w) \<and>
     (\<forall>p w r w'. te_request env ''thread/compact/start'' p w = (Inr r, w') \<longrightarrow> mu w' < mu w) \<and>
     (\<forall>t w. mu (snd (te_wait env t w)) \<le> mu w) \<and> (\<forall>w. mu (snd (te_fetch env w)) \<le> mu w) \<and>
     (\<forall>t w. mu (te_setTurn env t w) \<le> mu w) \<and> (\<forall>e w. mu (te_emit env e w) \<le> mu w)"

lemma finish_turn_mu:
  assumes "compactions_bounded env mu" and "finish_turn env st tr ct w = (r, w1)"
  shows "mu w1 \<le> mu w"
proof -
  have e: "mu (emitTurnCompletedEvent env st a b c d w) \<le> mu w" for a b c d
    using assms(1) by (simp add: emitTurnCompletedEvent_def compactions_bounded_def)
  have f: "te_fetch env v = (x, v') \<Longrightarrow> mu v' \<le> mu v" for v v' x
    using assms(1) by (metis compactions_bounded_def snd_conv)
  show ?thesis
    using assms(2) e f unfolding finish_turn_def Let_def
    by (auto split: option.splits prod.splits sum.splits) (meson order_trans)+
qed

lemma single_turn_mu:
  assumes "compactions_bounded env mu" and "runSingleTurn env st p w = (r, st1, w1)"
  shows "mu w1 \<le> mu w \<and> ex_turnCount st1 = ex_turnCount st + 1 \<and> ex_threadId st1 = ex_threadId st"
proof -
  have rq: "te_request env m q v = (x, v') \<Longrightarrow> mu v' \<le> mu v" for m q v x v'
    using assms(1) by (metis compactions_bounded_def snd_conv)
  have wt: "te_wait env t v = (x, v') \<Longrightarrow> mu v' \<le> mu v" for t v x v'
    using assms(1) by (metis compactions_bounded_def snd_conv)
  have sv: "mu (te_setTurn env t v) \<le> mu v" for t v
    using assms(1) by (simp add: compactions_bounded_def)
  obtain x v where v: "te_request env ''turn/start'' (turn_start_params env (st\<lparr>ex_turnCount := ex_turnCount st + 1\<rparr>) p) w = (x, v)"
    by fastforce
  show ?thesis
  proof (cases x)
    case (Inl e)
    then show ?thesis using assms(2) v rq [OF v] by (auto simp: runSingleTurn_def Let_def)
  next
    case (Inr reply)
    show ?thesis
    proof (cases "truthy_string (extractTurnId (Some reply))")
      case None
      then show ?thesis using assms(2) v Inr rq [OF v] by (auto simp: runSingleTurn_def Let_def)
    next
      case (Some t)
      obtain y v2 where v2: "te_wait env t (te_setTurn env t v) = (y, v2)" by fastforce
      have "mu v2 \<le> mu w" using wt [OF v2] sv [of t v] rq [OF v] by linarith
      then show ?thesis
        using assms(2) v Inr Some v2 finish_turn_mu [OF assms(1)]
        by (auto simp: runSingleTurn_def Let_def split: sum.splits prod.splits) (meson order_trans)
    qed
  qed
qed

lemma resolve_mu:
  assumes "compactions_bounded env mu" and "resolveTurnResult r env st w = (None, st1, w1)"
  shows "(mu w1 < mu w \<and> ex_turnCount st1 = ex_turnCount st - 1) \<or> (mu w1 = mu w \<and> ex_turnCount st1 = ex_turnCount st)"
proof -
  have "compactThread env t v = (True, v') \<Longrightarrow> mu v' < mu v" for t v v'
    using assms(1) unfolding compactThread_def compactions_bounded_def
    by (auto split: prod.splits sum.splits)
  then show ?thesis
    using assms(2)
    by (auto simp: resolveTurnResult_def tryCompactAndRetry_def split: turn_result.splits option.splits prod.splits if_splits)
qed

lemma loop_step_decreases:
  assumes "compactions_bounded env mu" and "turn_loop_step env st w = (Inr u, st1, w1)"
  shows "ex_turnCount st < rc_maxTurns (te_config env) \<and>
    (mu w1 < mu w \<and> ex_turnCount st1 = ex_turnCount st \<or> mu w1 \<le> mu w \<and> ex_turnCount st1 = ex_turnCount st + 1)"
proof -
  obtain r sa wa where t: "runSingleTurn env st (if ex_turnCount st = 0 then te_prompt env else getContinuationPrompt) w = (r, sa, wa)"
    by (metis prod_cases3)
  from assms(2) t obtain q where q: "ex_turnCount st < rc_maxTurns (te_config env)" "r = Inr q"
      "resolveTurnResult q env sa wa = (None, st1, w1)"
    by (auto simp: turn_loop_step_def split: if_splits option.splits sum.splits prod.splits)
  show ?thesis using single_turn_mu [OF assms(1) t] resolve_mu [OF assms(1) q(3)] q(1) by auto
qed

lemma loop_returns:
  assumes "compactions_bounded env mu"
  shows "\<exists>r. handleTurnLoop env st w = Some r"
proof (induction "(mu w, nat (rc_maxTurns (te_config env) - ex_turnCount st))" arbitrary: st w
    rule: wf_induct_rule [OF wf_lex_prod [OF wf_less_than wf_less_than]])
  case (1 st w)
  obtain x st1 w1 where s: "turn_loop_step env st w = (x, st1, w1)" by (metis prod_cases3)
  show ?case
  proof (cases x)
    case (Inl r)
    then show ?thesis using s by (subst handleTurnLoop.simps) simp
  next
    case (Inr u)
    from loop_step_decreases [OF assms s [unfolded Inr]]
    have "\<exists>r. handleTurnLoop env st1 w1 = Some r" by (intro 1) auto
    then show ?thesis using s Inr by (subst handleTurnLoop.simps) simp
  qed
qed

section \<open>What the loop returns\<close>

lemma loop_rule:
  assumes "handleTurnLoop env st w = Some y"
    and "\<And>st w r st1 w1. Q st w \<Longrightarrow> turn_loop_step env st w = (Inl r, st1, w1) \<Longrightarrow> P (r, st1, w1)"
    and "\<And>st w st1 w1. Q st w \<Longrightarrow> turn_loop_step env st w = (Inr (), st1, w1) \<Longrightarrow> Q st1 w1"
    and "Q st w"
  shows "P y"
proof -
  have "Q st w \<longrightarrow> P y" if "handleTurnLoop env st w = Some y"
  proof (rule handleTurnLoop.raw_induct [where P = "\<lambda>env' st w y. env' = env \<longrightarrow> Q st w \<longrightarrow> P y", OF _ that, THEN mp], goal_cases)
    case (1 loop env' st w y)
    show ?case
    proof (intro impI)
      assume e: "env' = env" and q: "Q st w"
      obtain x st1 w1 where s: "turn_loop_step env st w = (x, st1, w1)" by (metis prod_cases3)
      show "P y"
      proof (cases x)
        case (Inl r)
        then show ?thesis using 1(2) s e assms(2) [OF q] by auto
      next
        case (Inr u)
        then have "Q st1 w1" using assms(3) [OF q] s by auto
        then show ?thesis using 1 s e Inr by auto
      qed
    qed
  qed simp
  then show ?thesis using assms(1, 4) by blast
qed

lemma resolve_count: "resolveTurnResult r env st w = (x, st1, w1) \<Longrightarrow> ex_turnCount st1 \<le> ex_turnCount st"
  by (auto simp: resolveTurnResult_def tryCompactAndRetry_def split: turn_result.splits option.splits prod.splits if_splits)

lemma single_turn_count: "runSingleTurn env st p w = (r, st1, w1) \<Longrightarrow> ex_turnCount st1 = ex_turnCount st + 1"
  by (auto simp: runSingleTurn_def Let_def split: sum.splits prod.splits option.splits)

lemma loop_step_count:
  "turn_loop_step env st w = (x, st1, w1) \<Longrightarrow>
   ex_turnCount st1 \<le> max (ex_turnCount st) (rc_maxTurns (te_config env))"
  by (auto simp: turn_loop_step_def split: if_splits option.splits sum.splits prod.splits
      dest!: resolve_count single_turn_count)

lemma loop_count:
  assumes "handleTurnLoop env st w = Some (r, st1, w1)"
  shows "ex_turnCount st1 \<le> max (ex_turnCount st) (rc_maxTurns (te_config env))"
proof -
  define b where "b = max (ex_turnCount st) (rc_maxTurns (te_config env))"
  have "case (r, st1, w1) of (r, s, w) \<Rightarrow> ex_turnCount s \<le> b"
    by (rule loop_rule [OF assms, where Q = "\<lambda>s w. ex_turnCount s \<le> b"])
      (use loop_step_count in \<open>fastforce simp: b_def\<close>)+
  then show ?thesis by (simp add: b_def)
qed

definition context_always_full :: "'w turn_env \<Rightarrow> bool" where
  "context_always_full env \<longleftrightarrow> te_logger env \<and> (\<forall>w. te_aborted env w = None \<and> te_fatal env w = None) \<and>
     (\<forall>p w. \<exists>reply w'. te_request env ''turn/start'' p w = (Inr reply, w') \<and> truthy_string (extractTurnId (Some reply)) \<noteq> None) \<and>
     (\<forall>t w. \<exists>c w'. te_wait env t w = (Inr c, w') \<and>
        asString (member (member (Some c) ''turn'') ''status'') = Some ''failed'' \<and>
        asString (member (member (member (Some c) ''turn'') ''error'') ''type'') = Some ''ContextWindowExceeded'') \<and>
     (\<forall>p w. \<exists>reply w'. te_request env ''thread/compact/start'' p w = (Inr reply, w'))"

lemma full_context_step:
  assumes "context_always_full env" and "truthy_string (ex_threadId st) = Some t" and "ex_turnCount st < rc_maxTurns (te_config env)"
  shows "\<exists>st1 w1. turn_loop_step env st w = (Inr (), st1, w1) \<and> ex_threadId st1 = ex_threadId st \<and>
    ex_turnCount st1 = ex_turnCount st"
proof -
  have n: "te_aborted env v = None" "te_fatal env v = None" "te_logger env" for v
    using assms(1) by (auto simp: context_always_full_def)
  define p where "p = (if ex_turnCount st = 0 then te_prompt env else getContinuationPrompt)"
  define st' where "st' = st\<lparr>ex_turnCount := ex_turnCount st + 1\<rparr>"
  obtain reply v where r: "te_request env ''turn/start'' (turn_start_params env st' p) w = (Inr reply, v)"
    "truthy_string (extractTurnId (Some reply)) \<noteq> None"
    using assms(1) unfolding context_always_full_def by blast
  then obtain u where u: "truthy_string (extractTurnId (Some reply)) = Some u" by blast
  obtain c v2 where c: "te_wait env u (te_setTurn env u v) = (Inr c, v2)"
    "asString (member (member (Some c) ''turn'') ''status'') = Some ''failed''"
    "asString (member (member (member (Some c) ''turn'') ''error'') ''type'') = Some ''ContextWindowExceeded''"
    using assms(1) unfolding context_always_full_def by blast
  define sb where "sb = st'\<lparr>ex_turnId := extractTurnId (Some reply)\<rparr>"
  obtain v3 where f: "finish_turn env sb reply c v2 = (Inr TCompact, v3)"
    using c(2, 3) by (simp add: finish_turn_def Let_def checkFatalFailure_def n failureOutcome_def classifyTurnResult_def
        isContextWindowError_def)
  have s: "runSingleTurn env st p w = (Inr TCompact, sb, v3)"
    using r(1) u c(1) f by (simp add: runSingleTurn_def Let_def flip: st'_def sb_def)
  obtain r2 v4 where k: "te_request env ''thread/compact/start'' (JObj [(''threadId'', JStr t)]) v3 = (Inr r2, v4)"
    using assms(1) unfolding context_always_full_def by blast
  have "resolveTurnResult TCompact env sb v3 = (None, sb\<lparr>ex_turnCount := ex_turnCount sb - 1\<rparr>, v4)"
    using k assms(2) n(3) by (simp add: resolveTurnResult_def tryCompactAndRetry_def compactThread_def sb_def st'_def)
  then have "turn_loop_step env st w = (Inr (), sb\<lparr>ex_turnCount := ex_turnCount sb - 1\<rparr>, v4)"
    using s assms(3) by (simp add: turn_loop_step_def abort_outcome_def n flip: p_def)
  then show ?thesis by (simp add: sb_def st'_def)
qed

lemma full_context_diverges:
  assumes "context_always_full env" and "truthy_string (ex_threadId st) = Some t" and "ex_turnCount st < rc_maxTurns (te_config env)"
  shows "handleTurnLoop env st w = None"
proof (rule ccontr)
  assume "handleTurnLoop env st w \<noteq> None"
  then obtain y where y: "handleTurnLoop env st w = Some y" by blast
  show False
  proof (rule loop_rule [OF y, where Q = "\<lambda>s _. truthy_string (ex_threadId s) = Some t \<and> ex_turnCount s < rc_maxTurns (te_config env)"])
    fix s v r s1 v1
    assume "truthy_string (ex_threadId s) = Some t \<and> ex_turnCount s < rc_maxTurns (te_config env)"
      and "turn_loop_step env s v = (Inl r, s1, v1)"
    then show False using full_context_step [OF assms(1), of s t v] by auto
  next
    fix s v s1 v1
    assume "truthy_string (ex_threadId s) = Some t \<and> ex_turnCount s < rc_maxTurns (te_config env)"
      and "turn_loop_step env s v = (Inr (), s1, v1)"
    then show "truthy_string (ex_threadId s1) = Some t \<and> ex_turnCount s1 < rc_maxTurns (te_config env)"
      using full_context_step [OF assms(1), of s t v] by auto
  qed (use assms in simp)
qed

section \<open>Normal outcomes\<close>

lemma finish_outcome_kind: "finish_turn env st tr ct w = (Inr (TOutcome out), w1) \<Longrightarrow> out_kind out \<noteq> Normal"
  by (auto simp: finish_turn_def Let_def checkFatalFailure_def failureOutcome_def classifyTurnResult_def exec_outcome_def
      make_outcome_def split: option.splits sum.splits prod.splits if_splits)

lemma single_outcome_kind: "runSingleTurn env st p w = (Inr (TOutcome out), st1, w1) \<Longrightarrow> out_kind out \<noteq> Normal"
  by (auto simp: runSingleTurn_def Let_def split: sum.splits prod.splits option.splits dest: finish_outcome_kind)

lemma abort_kind: "out_kind (outcomeForAbort reason th tu n) \<noteq> Normal"
  by (auto simp: outcomeForAbort_def make_outcome_def ABORT_REASONS_def split: option.splits prod.splits if_splits)

lemma loop_step_kind: "turn_loop_step env st w = (Inl (Inr (Some out)), st1, w1) \<Longrightarrow> out_kind out \<noteq> Normal"
  by (auto simp: turn_loop_step_def abort_outcome_def abort_kind resolveTurnResult_def tryCompactAndRetry_def exec_outcome_def
      make_outcome_def split: if_splits option.splits sum.splits prod.splits turn_result.splits dest: single_outcome_kind)

definition not_normal :: "(js_error + run_outcome option) \<times> exec_state \<times> 'w \<Rightarrow> bool" where
  "not_normal y \<longleftrightarrow> (case fst y of Inr (Some out) \<Rightarrow> out_kind out \<noteq> Normal | _ \<Rightarrow> True)"

lemma loop_kind:
  assumes "handleTurnLoop env st w = Some (Inr (Some out), st1, w1)"
  shows "out_kind out \<noteq> Normal"
proof -
  have "not_normal (Inr (Some out), st1, w1)"
    by (rule loop_rule [OF assms, where Q = "\<lambda>_ _. True"])
      (auto simp: not_normal_def split: sum.splits option.splits dest: loop_step_kind)
  then show ?thesis by (simp add: not_normal_def)
qed

lemma error_kind: "out_kind (handleExecutionError env e st w) \<noteq> Normal"
  by (auto simp: handleExecutionError_def checkFatalFailure_def failureOutcome_def abort_outcome_def abort_kind
      classifyRunError_def make_outcome_def Let_def split: option.splits)

lemma exit_kind:
  assumes "classifyExitState env st w = (Inr out, w1)" and "out_kind out = Normal"
  shows "te_fatal env w1 = None \<and> (fst (te_exit env w) \<noteq> None \<longrightarrow> te_aborted env w1 \<noteq> None)"
  using assms
  by (auto simp: classifyExitState_def checkFatalFailure_def failureOutcome_def exec_outcome_def make_outcome_def Let_def
      split: option.splits prod.splits if_splits sum.splits bool.splits)

section \<open>A world to run in\<close>

text \<open>An agent whose every turn ends as \<open>turn\<close> says; the world counts the compactions it still grants.\<close>

definition sample_runner_config :: "service_config \<Rightarrow> runner_config" where
  "sample_runner_config c =
     \<lparr>rc_service = c, rc_maxTurns = 3, rc_turnTimeoutMs = 1000, rc_drainTimeoutMs = 0, rc_approvalPolicy = JNull,
      rc_threadSandbox = ''workspace-write'', rc_turnSandboxPolicy = [], rc_structuredOutput = False, rc_personality = JNull,
      rc_selfReview = False, rc_memory = ''4g''\<rparr>"

definition full_turn :: json where
  "full_turn = JObj [(''turn'', JObj [(''status'', JStr ''failed''),
     (''error'', JObj [(''type'', JStr ''ContextWindowExceeded'')])])]"

definition done_turn :: json where
  "done_turn = JObj [(''turn'', JObj [(''status'', JStr ''completed'')])]"

definition sample_turn_env :: "service_config \<Rightarrow> json \<Rightarrow> bool \<Rightarrow> string option \<Rightarrow> nat turn_env" where
  "sample_turn_env c turn unlimited aborted =
     \<lparr>te_host = example_host, te_config = sample_runner_config c, te_issue = example_issue ''A-1'' ''Todo'' None,
      te_prompt = ''go'', te_cwd = ''/w/A-1'',
      te_model = \<lparr>sel_model = ''m'', sel_effort = Undef, sel_source = DefaultSource\<rparr>,
      te_container = Some ''c'', te_logger = True, te_now = (\<lambda>_. ''now''),
      te_request = (\<lambda>m _ w. if m = ''thread/compact/start''
         then if unlimited then (Inr JNull, w) else if w = 0 then (Inl (JsError ''no''), w) else (Inr JNull, w - 1)
         else (Inr (JObj [(''turnId'', JStr ''t'')]), w)),
      te_wait = (\<lambda>_ w. (Inr turn, w)), te_fetch = (\<lambda>w. (Inr (Some (example_issue ''A-1'' ''Todo'' None)), w)),
      te_setTurn = (\<lambda>_ w. w), te_emit = (\<lambda>_ w. w), te_fatal = (\<lambda>_. None), te_aborted = (\<lambda>_. aborted),
      te_stopSignal = (\<lambda>_. None), te_content = (\<lambda>_. None), te_exit = (\<lambda>w. (None, w)), te_oom = (\<lambda>w. (Inr False, w))\<rparr>"

definition sample_exec :: exec_state where
  "sample_exec = \<lparr>ex_threadId = Some ''th'', ex_turnId = None, ex_turnCount = 0\<rparr>"

lemma sample_bounded: "compactions_bounded (sample_turn_env c turn False a) (\<lambda>w. w)"
  by (auto simp: compactions_bounded_def sample_turn_env_def split: if_splits)

lemma sample_full: "context_always_full (sample_turn_env c full_turn True None)"
  by (simp add: context_always_full_def sample_turn_env_def full_turn_def extractTurnId_def member_def asRecord_def
      asString_def omap_get_def truthy_string_def)

section \<open>Properties\<close>

text \<open>
  C20: if the agent grants only finitely many compactions, the loop of the turns returns, and the turns
  counted do not exceed the configured maximum (or the count it started from).
\<close>

theorem turn_loop_returns:
  assumes "compactions_bounded env mu"
  shows "\<exists>r st1 w1. handleTurnLoop env st w = Some (r, st1, w1) \<and>
    ex_turnCount st1 \<le> max (ex_turnCount st) (rc_maxTurns (te_config env))"
proof -
  obtain r st1 w1 where "handleTurnLoop env st w = Some (r, st1, w1)"
    using loop_returns [OF assms] by (metis prod_cases3)
  then show ?thesis using loop_count [of env st w r st1 w1] by blast
qed

theorem turn_loop_returns_witness:
  "\<exists>r st1 w1. handleTurnLoop (sample_turn_env sample_config full_turn False None) sample_exec 2 = Some (r, st1, w1)"
  using turn_loop_returns [OF sample_bounded] by blast

text \<open>
  C21: a compaction gives the turn back, so when every turn exceeds the context window and every
  compaction succeeds, the run never ends: the maximum of turns does not stop it.
\<close>

theorem full_context_never_ends:
  assumes "context_always_full env" and "truthy_string (ex_threadId st) = Some t" and "ex_turnCount st < rc_maxTurns (te_config env)"
  shows "executeTurns env st w = None"
  using full_context_diverges [OF assms] by (simp add: executeTurns_def)

theorem full_context_never_ends_witness:
  "executeTurns (sample_turn_env sample_config full_turn True None) sample_exec 0 = None"
proof -
  have "truthy_string (ex_threadId sample_exec) = Some ''th''" by (simp add: sample_exec_def truthy_string_def)
  moreover have "ex_turnCount sample_exec < rc_maxTurns (te_config (sample_turn_env sample_config full_turn True None))"
    by (simp add: sample_exec_def sample_turn_env_def sample_runner_config_def)
  ultimately show ?thesis by (rule full_context_never_ends [OF sample_full])
qed

text \<open>
  A run is reported as normal only if the agent's request handler recorded no fatal failure and the
  agent's process was still alive, or had exited after the run was aborted.
\<close>

theorem normal_run_sound:
  assumes "executeTurns env st w = Some (Inr out, w1)" and "out_kind out = Normal"
  shows "te_fatal env w1 = None \<and> (\<exists>st1 v. handleTurnLoop env st w = Some (Inr None, st1, v) \<and>
    (fst (te_exit env v) = None \<or> te_aborted env w1 \<noteq> None))"
proof -
  obtain r st1 v where l: "handleTurnLoop env st w = Some (r, st1, v)"
    using assms(1) by (auto simp: executeTurns_def)
  have "r = Inr None"
  proof (cases r)
    case (Inl e)
    then have "out = handleExecutionError env e st1 v" using assms(1) l by (auto simp: executeTurns_def)
    then show ?thesis using assms(2) error_kind [of env e st1 v] by simp
  next
    case (Inr x)
    then show ?thesis using assms l loop_kind [of env st w] by (cases x) (auto simp: executeTurns_def)
  qed
  moreover from this have "classifyExitState env st1 v = (Inr out, w1)" using assms(1) l by (simp add: executeTurns_def)
  ultimately show ?thesis using exit_kind [of env st1 v out w1] assms(2) l by auto
qed

theorem normal_run_sound_witness:
  "te_fatal (sample_turn_env sample_config done_turn False None) 0 = None \<and>
   (\<exists>st1 v. handleTurnLoop (sample_turn_env sample_config done_turn False None) (sample_exec\<lparr>ex_turnCount := 3\<rparr>) 0 = Some (Inr None, st1, v))"
proof -
  have "turn_loop_step (sample_turn_env sample_config done_turn False None) (sample_exec\<lparr>ex_turnCount := 3\<rparr>) 0 =
    (Inl (Inr None), sample_exec\<lparr>ex_turnCount := 3\<rparr>, 0)"
    by (simp add: turn_loop_step_def sample_turn_env_def sample_runner_config_def)
  then have l: "handleTurnLoop (sample_turn_env sample_config done_turn False None) (sample_exec\<lparr>ex_turnCount := 3\<rparr>) 0 =
    Some (Inr None, sample_exec\<lparr>ex_turnCount := 3\<rparr>, 0)"
    by (subst handleTurnLoop.simps) simp
  define out where "out = exec_outcome Normal None None None (sample_exec\<lparr>ex_turnCount := 3\<rparr>)"
  have x: "executeTurns (sample_turn_env sample_config done_turn False None) (sample_exec\<lparr>ex_turnCount := 3\<rparr>) 0 = Some (Inr out, 0)"
    using l by (simp add: executeTurns_def classifyExitState_def checkFatalFailure_def failureOutcome_def
        sample_turn_env_def out_def)
  have "out_kind out = Normal" by (simp add: out_def exec_outcome_def make_outcome_def)
  from normal_run_sound [OF x this] show ?thesis by auto
qed

text \<open>
  An abort that is seen before a turn starts ends the run without asking the agent anything, with
  the kind and code of its reason, or a plain cancellation for a reason that is not in the table.
\<close>

theorem abort_ends_run:
  assumes "te_aborted env w = Some reason" and "ex_turnCount st < rc_maxTurns (te_config env)"
  shows "executeTurns env st w = Some (Inr (outcomeForAbort reason (ex_threadId st) (ex_turnId st) (ex_turnCount st)), w) \<and>
    out_errorCode (outcomeForAbort reason (ex_threadId st) (ex_turnId st) (ex_turnCount st)) =
      Some (if reason \<in> set (map fst ABORT_REASONS) then reason else ''cancelled'')"
proof -
  have "turn_loop_step env st w =
    (Inl (Inr (Some (outcomeForAbort reason (ex_threadId st) (ex_turnId st) (ex_turnCount st)))), st, w)"
    using assms by (simp add: turn_loop_step_def abort_outcome_def)
  then have "handleTurnLoop env st w =
    Some (Inr (Some (outcomeForAbort reason (ex_threadId st) (ex_turnId st) (ex_turnCount st))), st, w)"
    by (subst handleTurnLoop.simps) simp
  moreover have "map_of ABORT_REASONS reason = None \<longleftrightarrow> reason \<notin> set (map fst ABORT_REASONS)"
    by (simp add: map_of_eq_None_iff)
  ultimately show ?thesis
    by (auto simp: executeTurns_def outcomeForAbort_def make_outcome_def split: option.splits)
qed

theorem abort_ends_run_witness:
  "executeTurns (sample_turn_env sample_config done_turn False (Some ''shutdown'')) sample_exec 0 =
     Some (Inr (outcomeForAbort ''shutdown'' (Some ''th'') None 0), 0)"
  using abort_ends_run [of "sample_turn_env sample_config done_turn False (Some ''shutdown'')" 0 "''shutdown''" sample_exec]
  by (simp add: sample_turn_env_def sample_runner_config_def sample_exec_def)

end
