(* ===== verification/NotificationHandler.thy ===== *)
theory NotificationHandler
  imports TurnState
begin

text \<open>
  \<open>src/src/agent-runner/notification-handler.ts\<close>: what the notifications of the agent do to the turn state,
  and the events they emit. A debounced flush is the pending \<open>flush\<close> of a buffer; \<open>flush_fired\<close> is its
  timer's callback. Methods named like members of \<open>Object.prototype\<close> are not modelled.
\<close>

definition STREAM_DEBOUNCE_MS :: int where
  "STREAM_DEBOUNCE_MS = 80"

definition MAX_LIVE_BUFFER_CHARS :: nat where
  "MAX_LIVE_BUFFER_CHARS = 16000"

record notification_input =
  ni_host :: host
  ni_now :: string
  ni_issue :: issue
  ni_threadId :: "string option"
  ni_turnId :: "string option"

type_synonym handled = "turn_state \<times> runtime_event list"

definition plain_event :: "notification_input \<Rightarrow> string option \<Rightarrow> string \<Rightarrow> string \<Rightarrow> runtime_event" where
  "plain_event inp sessionId event message =
     \<lparr>ev_at = ni_now inp, ev_issueId = Some (issue_id (ni_issue inp)),
      ev_issueIdentifier = Some (issue_identifier (ni_issue inp)), ev_sessionId = sessionId, ev_event = event,
      ev_message = message, ev_content = None, ev_metadata = None, ev_usage = None, ev_usageMode = None,
      ev_rateLimits = Undef, ev_stopSignal = None\<rparr>"

section \<open>Streaming\<close>

datatype buffer_kind = CommandOutput | AgentMessage | ReasoningDelta

fun get_buffers :: "buffer_kind \<Rightarrow> turn_state \<Rightarrow> buffers" where
  "get_buffers CommandOutput s = commandOutputBuffers s"
| "get_buffers AgentMessage s = agentMessageBuffers s"
| "get_buffers ReasoningDelta s = reasoningDeltaBuffers s"

fun set_buffers :: "buffer_kind \<Rightarrow> buffers \<Rightarrow> turn_state \<Rightarrow> turn_state" where
  "set_buffers CommandOutput b s = s\<lparr>commandOutputBuffers := b\<rparr>"
| "set_buffers AgentMessage b s = s\<lparr>agentMessageBuffers := b\<rparr>"
| "set_buffers ReasoningDelta b s = s\<lparr>reasoningDeltaBuffers := b\<rparr>"

definition append_delta :: "flush \<Rightarrow> string \<Rightarrow> streaming_buffer \<Rightarrow> streaming_buffer" where
  "append_delta fl delta b =
     b\<lparr>sb_content := take_last MAX_LIVE_BUFFER_CHARS (sb_content b @ delta),
       sb_pendingFlush := (case sb_pendingFlush b of Some f \<Rightarrow> Some f | None \<Rightarrow> Some fl)\<rparr>"

definition scheduleStreamEmit ::
  "notification_input \<Rightarrow> buffer_kind \<Rightarrow> string \<Rightarrow> string \<Rightarrow> string \<Rightarrow> string \<Rightarrow> turn_state \<Rightarrow> turn_state" where
  "scheduleStreamEmit inp kind itemId event message delta s =
     (if delta = [] then s
      else case getOrCreateStreamingBuffer (get_buffers kind s) itemId of
        (b, bs) \<Rightarrow> set_buffers kind (omap_set itemId (append_delta
             \<lparr>fl_sessionId = composeSessionId (ni_threadId inp) (ni_turnId inp), fl_event = event, fl_message = message\<rparr>
             delta b) bs) s)"

definition flush_fired :: "notification_input \<Rightarrow> int \<Rightarrow> buffer_kind \<Rightarrow> string \<Rightarrow> turn_state \<Rightarrow> handled" where
  "flush_fired inp nowMs kind itemId s =
     (case omap_get (get_buffers kind s) itemId of
        None \<Rightarrow> (s, [])
      | Some b \<Rightarrow>
          (case sb_pendingFlush b of
             None \<Rightarrow> (s, [])
           | Some fl \<Rightarrow>
               (set_buffers kind (omap_set itemId (b\<lparr>sb_pendingFlush := None, sb_lastFlushMs := nowMs\<rparr>) (get_buffers kind s)) s,
                [(plain_event inp (fl_sessionId fl) (fl_event fl) (fl_message fl))
                   \<lparr>ev_content := Some (sb_content b),
                    ev_metadata := Some (JObj [(''itemId'', JStr itemId), (''streaming'', JBool True)])\<rparr>])))"

section \<open>Handlers\<close>

definition session_of :: "notification_input \<Rightarrow> string option \<Rightarrow> string option" where
  "session_of inp turnId = composeSessionId (ni_threadId inp) (or_else turnId (ni_turnId inp))"

definition handleTurnStarted :: "notification_input \<Rightarrow> json option \<Rightarrow> turn_state \<Rightarrow> handled" where
  "handleTurnStarted inp params s =
     (let startedTurnId = asString (member (member params ''turn'') ''id'')
      in (s, [plain_event inp (session_of inp startedTurnId) ''turn_started''
                (case truthy_string startedTurnId of Some t \<Rightarrow> ''turn '' @ t @ '' started'' | None \<Rightarrow> ''turn started'')]))"

definition handleTurnCompleted :: "notification_input \<Rightarrow> json option \<Rightarrow> turn_state \<Rightarrow> handled" where
  "handleTurnCompleted inp params s =
     (recordCompletedTurn (asString (member (member params ''turn'') ''id'')) (JObj (asRecord params)) s, [])"

definition handleTokenUsageUpdated :: "notification_input \<Rightarrow> json option \<Rightarrow> turn_state \<Rightarrow> handled" where
  "handleTokenUsageUpdated inp params s =
     (let turnId = asString (member params ''turnId'')
      in case extractTokenUsageSnapshot (member (member params ''tokenUsage'') ''total'') of
           None \<Rightarrow> (s, [])
         | Some tot \<Rightarrow>
             (s, [(plain_event inp (session_of inp turnId) ''token_usage_updated''
                    (case truthy_string turnId of Some t \<Rightarrow> ''token usage updated for '' @ t | None \<Rightarrow> ''token usage updated''))
                  \<lparr>ev_usage := Some tot, ev_usageMode := Some AbsoluteTotal\<rparr>]))"

definition stream_reasoning :: "notification_input \<Rightarrow> string option \<Rightarrow> string option \<Rightarrow> turn_state \<Rightarrow> handled" where
  "stream_reasoning inp itemId t s =
     (let s1 = appendReasoningText itemId t s
      in (case (truthy_string itemId, truthy_string t) of
            (Some i, Some x) \<Rightarrow> scheduleStreamEmit inp ReasoningDelta i ''reasoning_delta'' ''Agent thinking'' x s1
          | _ \<Rightarrow> s1, []))"

definition handleReasoningDelta :: "notification_input \<Rightarrow> json option \<Rightarrow> turn_state \<Rightarrow> handled" where
  "handleReasoningDelta inp params =
     stream_reasoning inp
       (or_else (asString (member (member params ''delta'') ''id'')) (asString (member params ''itemId'')))
       (asString (member (member params ''delta'') ''text''))"

definition handleReasoningPartAdded :: "notification_input \<Rightarrow> json option \<Rightarrow> turn_state \<Rightarrow> handled" where
  "handleReasoningPartAdded inp params =
     stream_reasoning inp (asString (member params ''itemId'')) (asString (member (member params ''part'') ''text''))"

definition handleAgentMessageDelta :: "notification_input \<Rightarrow> json option \<Rightarrow> turn_state \<Rightarrow> handled" where
  "handleAgentMessageDelta inp params s =
     (let delta = member params ''delta'';
          itemId = or_else (asString (member delta ''id'')) (asString (member params ''itemId''));
          t = or_else (asString (member delta ''text''))
                (or_else (asString (member params ''text'')) (asString (member delta ''content'')))
      in (case (truthy_string itemId, truthy_string t) of
            (Some i, Some x) \<Rightarrow> scheduleStreamEmit inp AgentMessage i ''agent_message_partial'' ''Agent typing'' x s
          | _ \<Rightarrow> s, []))"

definition handleCommandOutputDelta :: "notification_input \<Rightarrow> json option \<Rightarrow> turn_state \<Rightarrow> handled" where
  "handleCommandOutputDelta inp params s =
     (let delta = member params ''delta'';
          itemId = or_else (asString (member params ''itemId'')) (asString (member delta ''id''));
          chunk = or_else (asString (member delta ''text'')) (or_else (asString (member delta ''output''))
                    (or_else (asString (member params ''text'')) (asString (member params ''output''))))
      in (case (truthy_string itemId, truthy_string chunk) of
            (Some i, Some x) \<Rightarrow> scheduleStreamEmit inp CommandOutput i ''tool_output_live'' ''Command output streaming'' x s
          | _ \<Rightarrow> s, []))"

definition handlePlanDelta :: "notification_input \<Rightarrow> json option \<Rightarrow> turn_state \<Rightarrow> handled" where
  "handlePlanDelta inp params s =
     (appendReasoningText (asString (member params ''itemId''))
        (or_else (asString (member (member params ''delta'') ''text'')) (asString (member params ''text''))) s, [])"

definition handleTurnPlanUpdated :: "notification_input \<Rightarrow> json option \<Rightarrow> turn_state \<Rightarrow> handled" where
  "handleTurnPlanUpdated inp params s =
     (let plan = member params ''plan'';
          steps = (case plan of Some (JArr _) \<Rightarrow> plan | _ \<Rightarrow> or_else (non_null (member plan ''steps'')) plan);
          explanation = asString (member params ''explanation'');
          shown = (case steps of None \<Rightarrow> None | Some (JStr t) \<Rightarrow> Some t | Some v \<Rightarrow> Some (json_stringify v));
          parts = concat (map (\<lambda>x. case truthy_string x of None \<Rightarrow> [] | Some y \<Rightarrow> [y]) [explanation, shown])
      in (s, [(plain_event inp (composeSessionId (ni_threadId inp) (ni_turnId inp)) ''agent_plan'' ''Agent plan updated'')
                \<lparr>ev_content := Some (join [CHR 0x0A] parts),
                 ev_metadata := Some (JObj [(''isPlan'', JBool True), (''explanation'', jopt JStr explanation)])\<rparr>]))"

definition handleThreadStatusChanged :: "notification_input \<Rightarrow> json option \<Rightarrow> turn_state \<Rightarrow> handled" where
  "handleThreadStatusChanged inp params s =
     (let status = member params ''status'';
          statusType = coalesce (asString (member status ''type'')) ''unknown'';
          activeFlags = (case member status ''activeFlags'' of Some (JArr fs) \<Rightarrow> fs | _ \<Rightarrow> [])
      in (s, [(plain_event inp
                (composeSessionId (or_else (asString (member params ''threadId'')) (ni_threadId inp)) (ni_turnId inp))
                ''thread_status'' (''Thread status changed to '' @ statusType))
                \<lparr>ev_metadata := Some (JObj [(''threadStatus'', JStr statusType), (''activeFlags'', JArr activeFlags),
                    (''raw'', JObj (asRecord status))])\<rparr>]))"

definition handleTurnDiffUpdated :: "notification_input \<Rightarrow> json option \<Rightarrow> turn_state \<Rightarrow> handled" where
  "handleTurnDiffUpdated inp params s =
     (case truthy_string (asString (member params ''diff'')) of
        None \<Rightarrow> (s, [])
      | Some diff \<Rightarrow>
          (s, [(plain_event inp (session_of inp (asString (member params ''turnId''))) ''turn_diff'' ''Turn diff updated'')
                \<lparr>ev_content := Some diff, ev_metadata := Some (JObj [(''isDiff'', JBool True)])\<rparr>]))"

section \<open>Items\<close>

definition ITEM_TYPE_EVENT :: "(string \<times> string) list" where
  "ITEM_TYPE_EVENT =
     [(''reasoning'', ''reasoning''), (''agentMessage'', ''agent_message''), (''userMessage'', ''user_message''),
      (''commandExecution'', ''tool_exec''), (''fileChange'', ''tool_edit''), (''dynamicToolCall'', ''tool_call''),
      (''webSearch'', ''web_search''), (''plan'', ''agent_plan''), (''mcpToolCall'', ''mcp_tool_call''),
      (''contextCompaction'', ''context_compaction''), (''imageView'', ''image_view''),
      (''enteredReviewMode'', ''review_started''), (''exitedReviewMode'', ''review_completed'')]"

definition method_event :: "string \<Rightarrow> string" where
  "method_event method = map (\<lambda>c. if c = CHR ''/'' then CHR ''_'' else c) method"

text \<open>What the completion of an item clears.\<close>

definition complete_item :: "string option \<Rightarrow> turn_state \<Rightarrow> turn_state" where
  "complete_item itemId s =
     (let s1 = deleteReasoningBuffer itemId s
      in s1\<lparr>agentMessageBuffers := clearStreamingBuffer (agentMessageBuffers s1) itemId,
            commandOutputBuffers := clearStreamingBuffer (commandOutputBuffers s1) itemId,
            reasoningDeltaBuffers := clearStreamingBuffer (reasoningDeltaBuffers s1) itemId\<rparr>)"

definition handleItemEvent :: "notification_input \<Rightarrow> string \<Rightarrow> json option \<Rightarrow> verb \<Rightarrow> turn_state \<Rightarrow> handled" where
  "handleItemEvent inp method params v s =
     (let item = member params ''item'';
          itemType = coalesce (asString (member item ''type'')) ''item'';
          itemId = asString (member item ''id'');
          content = extractItemContent (ni_host inp) itemType itemId item v (reasoningBuffers s);
          s1 = (if itemType = ''exitedReviewMode'' \<and> v = Completed
                then recordReviewSummary itemId (asString (member item ''review'')) s else s);
          s2 = (if v = Completed then complete_item itemId s1 else s1);
          stopSignal = (if itemType = ''agentMessage'' \<and> v = Completed
                        then detectStopSignal (ni_host inp) (extractAgentOrUserMessage item) else None);
          isDiff = (itemType = ''fileChange'' \<and> v = Completed);
          label = (case truthy_string itemId of
                     Some i \<Rightarrow> itemType @ '' '' @ i @ '' '' @ verb_name v | None \<Rightarrow> itemType @ '' '' @ verb_name v);
          message = coalesce (truthy_string (sanitizeContent (ni_host inp) (Some label) False None)) ''item event''
      in (s2, [(plain_event inp (composeSessionId (ni_threadId inp) (ni_turnId inp))
                 (coalesce (map_of ITEM_TYPE_EVENT itemType) (method_event method)) message)
                 \<lparr>ev_content := content, ev_stopSignal := stopSignal,
                  ev_metadata := Some (JObj ([(''itemType'', JStr itemType), (''verb'', JStr (verb_name v))] @
                    (case truthy_string itemId of Some i \<Rightarrow> [(''itemId'', JStr i)] | None \<Rightarrow> []) @
                    (if isDiff then [(''isDiff'', JBool True)] else [])))\<rparr>]))"

section \<open>Other notifications\<close>

definition CODEX_NOTIFICATION_LABELS :: "(string \<times> string \<times> string) list" where
  "CODEX_NOTIFICATION_LABELS =
     [(''codex/event/task_started'', ''agent_started'', ''Agent started working''),
      (''codex/event/task_complete'', ''agent_complete'', ''Agent completed work''),
      (''codex/event/item_started'', ''step_started'', ''Agent began a step''),
      (''codex/event/item_completed'', ''step_completed'', ''Agent finished a step''),
      (''codex/event/agent_message'', ''agent_message'', ''Agent sent a message''),
      (''codex/event/agent_message_delta'', ''agent_streaming'', ''Agent streaming text''),
      (''codex/event/agent_message_content_delta'', ''agent_streaming'', ''Agent streaming text''),
      (''codex/event/token_count'', ''token_usage'', ''Token usage updated''),
      (''codex/event/turn_diff'', ''turn_diff'', ''Turn diff computed''),
      (''codex/event/exec_command_begin'', ''tool_exec'', ''Running shell command''),
      (''codex/event/exec_command_end'', ''tool_exec'', ''Shell command finished''),
      (''codex/event/exec_command_output_delta'', ''tool_output'', ''Command output streaming''),
      (''codex/event/patch_apply_begin'', ''tool_edit'', ''Applying file changes''),
      (''codex/event/patch_apply_end'', ''tool_edit'', ''File changes applied''),
      (''codex/event/mcp_startup_complete'', ''system'', ''MCP tools initialized''),
      (''thread/started'', ''thread_started'', ''Thread session opened''),
      (''account/rateLimits/updated'', ''rate_limits'', ''API rate limits updated'')]"

definition mapCodexNotification :: "host \<Rightarrow> string \<Rightarrow> json option \<Rightarrow> string \<times> string" where
  "mapCodexNotification h method params =
     (case map_of CODEX_NOTIFICATION_LABELS method of
        Some em \<Rightarrow> em
      | None \<Rightarrow>
          (case truthy_string (or_else (asString (member params ''message''))
                  (or_else (asString (member params ''text'')) (asString (member params ''description'')))) of
             Some msg \<Rightarrow> (''agent_output'', coalesce (truthy_string (sanitizeContent h (Some msg) False None)) method)
           | None \<Rightarrow> (''other'', method)))"

definition method_handlers :: "(string \<times> (notification_input \<Rightarrow> json option \<Rightarrow> turn_state \<Rightarrow> handled)) list" where
  "method_handlers =
     [(''turn/started'', handleTurnStarted), (''turn/completed'', handleTurnCompleted),
      (''turn/diff/updated'', handleTurnDiffUpdated), (''thread/tokenUsage/updated'', handleTokenUsageUpdated),
      (''item/reasoning/summaryTextDelta'', handleReasoningDelta), (''item/reasoning/textDelta'', handleReasoningDelta),
      (''item/reasoning/summaryPartAdded'', handleReasoningPartAdded), (''item/plan/delta'', handlePlanDelta),
      (''turn/plan/updated'', handleTurnPlanUpdated), (''thread/status/changed'', handleThreadStatusChanged),
      (''item/agentMessage/delta'', handleAgentMessageDelta),
      (''item/commandExecution/outputDelta'', handleCommandOutputDelta),
      (''item/fileChange/outputDelta'', handleCommandOutputDelta)]"

definition handleNotification :: "notification_input \<Rightarrow> string \<Rightarrow> json option \<Rightarrow> turn_state \<Rightarrow> handled" where
  "handleNotification inp method params s =
     (case map_of method_handlers method of
        Some handler \<Rightarrow> handler inp params s
      | None \<Rightarrow>
          if method = ''item/started'' then handleItemEvent inp method params Started s
          else if method = ''item/completed'' then handleItemEvent inp method params Completed s
          else (case mapCodexNotification (ni_host inp) method params of
                  (event, message) \<Rightarrow>
                    (s, [plain_event inp (composeSessionId (ni_threadId inp) (ni_turnId inp)) event message])))"

section \<open>Bounded buffers\<close>

definition buffer_bounded :: "buffers \<Rightarrow> bool" where
  "buffer_bounded bs \<longleftrightarrow> list_all (\<lambda>(_, b). length (sb_content b) \<le> MAX_LIVE_BUFFER_CHARS) bs"

definition live_bounded :: "turn_state \<Rightarrow> bool" where
  "live_bounded s \<longleftrightarrow> buffer_bounded (commandOutputBuffers s) \<and> buffer_bounded (agentMessageBuffers s) \<and>
     buffer_bounded (reasoningDeltaBuffers s)"

lemma bounded_set: "buffer_bounded bs \<Longrightarrow> length (sb_content b) \<le> MAX_LIVE_BUFFER_CHARS \<Longrightarrow> buffer_bounded (omap_set i b bs)"
  by (induction i b bs rule: omap_set.induct) (auto simp: buffer_bounded_def)

lemma bounded_get: "buffer_bounded bs \<Longrightarrow> omap_get bs i = Some b \<Longrightarrow> length (sb_content b) \<le> MAX_LIVE_BUFFER_CHARS"
  by (auto simp: buffer_bounded_def list_all_iff dest!: omap_get_SomeD)

lemma bounded_delete: "buffer_bounded bs \<Longrightarrow> buffer_bounded (omap_delete i bs)"
  by (auto simp: buffer_bounded_def list_all_iff omap_delete_def)

lemma bounded_clear: "buffer_bounded bs \<Longrightarrow> buffer_bounded (clearStreamingBuffer bs i)"
  by (auto simp: clearStreamingBuffer_def bounded_delete split: option.splits)

lemma live_get: "live_bounded s \<Longrightarrow> buffer_bounded (get_buffers k s)"
  by (cases k) (auto simp: live_bounded_def)

lemma live_set: "live_bounded s \<Longrightarrow> buffer_bounded bs \<Longrightarrow> live_bounded (set_buffers k bs s)"
  by (cases k) (auto simp: live_bounded_def)

lemma bounded_create:
  "buffer_bounded bs \<Longrightarrow> getOrCreateStreamingBuffer bs i = (b, bs') \<Longrightarrow> buffer_bounded bs'"
  by (auto simp: getOrCreateStreamingBuffer_def Let_def intro!: bounded_set split: option.splits)

lemma live_schedule: "live_bounded s \<Longrightarrow> live_bounded (scheduleStreamEmit inp k i ev msg d s)"
  using live_get [of s k]
  by (auto simp: scheduleStreamEmit_def append_delta_def intro!: live_set bounded_set dest: bounded_create split: prod.splits)

lemma live_append [simp]: "live_bounded (appendReasoningText i t s) = live_bounded s"
  by (auto simp: appendReasoningText_def live_bounded_def split: option.splits)

lemma live_complete_turn [simp]: "live_bounded (recordCompletedTurn i p s) = live_bounded s"
  by (auto simp: recordCompletedTurn_def live_bounded_def update_waiter_def split: option.splits)

lemma live_review [simp]: "live_bounded (recordReviewSummary i t s) = live_bounded s"
  by (auto simp: recordReviewSummary_def live_bounded_def split: option.splits)

lemma live_complete_item: "live_bounded s \<Longrightarrow> live_bounded (complete_item i s)"
  by (auto simp: complete_item_def Let_def live_bounded_def deleteReasoningBuffer_def intro!: bounded_clear split: option.splits)

lemma live_item: "live_bounded s \<Longrightarrow> live_bounded (fst (handleItemEvent inp m p v s))"
  by (simp add: handleItemEvent_def Let_def live_complete_item)

lemma live_stream_reasoning: "live_bounded s \<Longrightarrow> live_bounded (fst (stream_reasoning inp i t s))"
  by (auto simp: stream_reasoning_def Let_def live_schedule split: option.splits)

lemma live_handlers:
  "\<forall>(m, handler) \<in> set method_handlers. \<forall>inp p s. live_bounded s \<longrightarrow> live_bounded (fst (handler inp p s))"
proof -
  have "live_bounded s \<Longrightarrow> live_bounded (fst (handleAgentMessageDelta inp p s))"
    "live_bounded s \<Longrightarrow> live_bounded (fst (handleCommandOutputDelta inp p s))" for inp p s
    by (auto simp: handleAgentMessageDelta_def handleCommandOutputDelta_def Let_def live_schedule split: option.splits)
  then show ?thesis
    by (simp add: method_handlers_def handleTurnStarted_def handleTurnCompleted_def handleTurnDiffUpdated_def
        handleTokenUsageUpdated_def handleReasoningDelta_def handleReasoningPartAdded_def handlePlanDelta_def
        handleTurnPlanUpdated_def handleThreadStatusChanged_def live_stream_reasoning Let_def split: option.splits)
qed

lemma live_notification: "live_bounded s \<Longrightarrow> live_bounded (fst (handleNotification inp m p s))"
proof (cases "map_of method_handlers m")
  case None
  assume "live_bounded s"
  then show ?thesis using None by (simp add: handleNotification_def live_item split_beta)
next
  case (Some handler)
  assume "live_bounded s"
  then show ?thesis
    using live_handlers map_of_SomeD [OF Some] Some by (fastforce simp: handleNotification_def)
qed

lemma live_flush: "live_bounded s \<Longrightarrow> live_bounded (fst (flush_fired inp now k i s))"
  using live_get [of s k]
  by (auto simp: flush_fired_def intro!: live_set bounded_set dest: bounded_get split: option.splits)

section \<open>Coalescing\<close>

lemma get_set_buffers [simp]: "get_buffers k (set_buffers k b s) = b"
  by (cases k) auto

lemma set_set_buffers [simp]: "set_buffers k b (set_buffers k c s) = set_buffers k b s"
  by (cases k) auto

lemma omap_set_set [simp]: "omap_set k v (omap_set k w m) = omap_set k v m"
  by (induction k w m rule: omap_set.induct) auto

lemma take_last_idem: "take_last n (take_last n xs @ ys) = take_last n (xs @ ys)"
  by (rule take_last_append_take_last)

definition delta_flush :: "notification_input \<Rightarrow> string \<Rightarrow> string \<Rightarrow> flush" where
  "delta_flush inp ev msg =
     \<lparr>fl_sessionId = composeSessionId (ni_threadId inp) (ni_turnId inp), fl_event = ev, fl_message = msg\<rparr>"

text \<open>Deltas after the first only extend the content: the pending flush is that of the first.\<close>

lemma schedule_more:
  assumes "omap_get (get_buffers k s) i = Some \<lparr>sb_content = take_last MAX_LIVE_BUFFER_CHARS c, sb_lastFlushMs = t, sb_pendingFlush = Some fl\<rparr>"
    and "d \<noteq> []"
  shows "scheduleStreamEmit inp k i ev msg d s =
    set_buffers k (omap_set i \<lparr>sb_content = take_last MAX_LIVE_BUFFER_CHARS (c @ d), sb_lastFlushMs = t, sb_pendingFlush = Some fl\<rparr>
      (get_buffers k s)) s"
  using assms by (simp add: scheduleStreamEmit_def getOrCreateStreamingBuffer_def append_delta_def take_last_idem)

lemma schedule_all:
  assumes "[] \<notin> set ds"
    and "omap_get (get_buffers k s) i = Some \<lparr>sb_content = take_last MAX_LIVE_BUFFER_CHARS c, sb_lastFlushMs = t, sb_pendingFlush = Some fl\<rparr>"
  shows "omap_get (get_buffers k (fold (scheduleStreamEmit inp k i ev msg) ds s)) i =
    Some \<lparr>sb_content = take_last MAX_LIVE_BUFFER_CHARS (c @ concat ds), sb_lastFlushMs = t, sb_pendingFlush = Some fl\<rparr>"
  using assms
proof (induction ds arbitrary: s c)
  case (Cons d ds)
  then have d: "d \<noteq> []" by auto
  show ?case
    using Cons.IH [of "scheduleStreamEmit inp k i ev msg d s" "c @ d"] Cons.prems
    by (simp add: schedule_more [OF Cons.prems(2) d])
qed simp

lemma schedule_first:
  assumes "omap_get (get_buffers k s) i = None" and "d \<noteq> []"
  shows "omap_get (get_buffers k (scheduleStreamEmit inp k i ev msg d s)) i =
    Some \<lparr>sb_content = take_last MAX_LIVE_BUFFER_CHARS d, sb_lastFlushMs = 0, sb_pendingFlush = Some (delta_flush inp ev msg)\<rparr>"
  using assms by (simp add: scheduleStreamEmit_def getOrCreateStreamingBuffer_def append_delta_def delta_flush_def Let_def)

section \<open>Properties\<close>

datatype notify_op =
    NotifyOp string "json option"
  | FlushOp buffer_kind string

fun notify_step :: "notification_input \<Rightarrow> notify_op \<Rightarrow> turn_state \<Rightarrow> turn_state" where
  "notify_step inp (NotifyOp m p) s = fst (handleNotification inp m p s)"
| "notify_step inp (FlushOp k i) s = fst (flush_fired inp 0 k i s)"

lemma live_run: "live_bounded s \<Longrightarrow> live_bounded (fold (notify_step inp) ops s)"
proof (induction ops arbitrary: s)
  case (Cons op ops)
  then show ?case by (cases op) (auto simp: live_notification live_flush)
qed simp

text \<open>
  Whatever the agent sends, no streaming buffer ever holds more than 16,000 characters.
\<close>

theorem live_buffers_bounded: "live_bounded (fold (notify_step inp) ops createTurnState)"
  by (rule live_run) (simp add: live_bounded_def createTurnState_def buffer_bounded_def)

text \<open>
  Deltas of an item that come before its flush are coalesced: one event is emitted, with the last
  16,000 characters of their concatenation, and a second firing emits nothing.
\<close>

theorem deltas_coalesced:
  assumes "omap_get (get_buffers k s) i = None" and "d \<noteq> []" and "[] \<notin> set ds"
    and "flush_fired inp now k i (fold (scheduleStreamEmit inp k i ev msg) (d # ds) s) = (t, evs)"
  shows "map ev_content evs = [Some (take_last MAX_LIVE_BUFFER_CHARS (concat (d # ds)))] \<and> map ev_event evs = [ev] \<and>
    snd (flush_fired inp now2 k i t) = []"
proof -
  have "omap_get (get_buffers k (fold (scheduleStreamEmit inp k i ev msg) (d # ds) s)) i =
    Some \<lparr>sb_content = take_last MAX_LIVE_BUFFER_CHARS (concat (d # ds)), sb_lastFlushMs = 0,
      sb_pendingFlush = Some (delta_flush inp ev msg)\<rparr>"
    using schedule_all [OF assms(3) schedule_first [OF assms(1, 2)], of inp ev msg] by simp
  with assms(4) show ?thesis
    by (auto simp: flush_fired_def delta_flush_def plain_event_def)
qed

definition sample_notification :: notification_input where
  "sample_notification = \<lparr>ni_host = example_host, ni_now = ''now'', ni_issue = example_issue ''A-1'' ''Todo'' None,
     ni_threadId = Some ''th'', ni_turnId = Some ''tu''\<rparr>"

theorem deltas_coalesced_witness:
  "map ev_content (snd (flush_fired sample_notification 5 AgentMessage ''i''
     (fold (scheduleStreamEmit sample_notification AgentMessage ''i'' ''e'' ''m'') [''he'', ''llo''] createTurnState))) =
   [Some (take_last MAX_LIVE_BUFFER_CHARS ''hello'')]"
proof -
  obtain t evs where f: "flush_fired sample_notification 5 AgentMessage ''i''
     (fold (scheduleStreamEmit sample_notification AgentMessage ''i'' ''e'' ''m'') [''he'', ''llo''] createTurnState) = (t, evs)"
    by fastforce
  have "omap_get (get_buffers AgentMessage createTurnState) ''i'' = None" by (simp add: createTurnState_def)
  from deltas_coalesced [OF this _ _ f] show ?thesis using f by simp
qed

text \<open>
  When an item completes, its stop signal is detected in its whole text, before the content is
  redacted and cut, its reasoning buffer is gone, and none of its pending flushes fires any more.
\<close>

theorem item_completion:
  assumes "map_of fs ''item'' = Some (JObj item)" and "map_of item ''type'' = Some (JStr ''agentMessage'')"
    and "map_of item ''id'' = Some (JStr i)" and "i \<noteq> []"
    and "handleNotification inp ''item/completed'' (Some (JObj fs)) s = (t, evs)"
  shows "map ev_stopSignal evs = [detectStopSignal (ni_host inp) (extractAgentOrUserMessage (Some (JObj item)))] \<and>
    map ev_content evs = [sanitizeContent (ni_host inp) (extractAgentOrUserMessage (Some (JObj item))) False None] \<and>
    omap_get (reasoningBuffers t) i = None \<and> snd (flush_fired inp2 now k i t) = []"
proof -
  have m: "member (Some (JObj fs)) ''item'' = Some (JObj item)" "asString (member (Some (JObj item)) ''type'') = Some ''agentMessage''"
    "asString (member (Some (JObj item)) ''id'') = Some i" "truthy_string (Some i) = Some i"
    using assms(1-4) by (simp_all add: member_def asRecord_def omap_get_def asString_def truthy_string_def)
  have "map_of method_handlers ''item/completed'' = None" by (simp add: method_handlers_def)
  then have h: "handleItemEvent inp ''item/completed'' (Some (JObj fs)) Completed s = (t, evs)"
    using assms(5) by (simp add: handleNotification_def)
  then have t: "t = complete_item (Some i) s"
    by (simp add: handleItemEvent_def m Let_def)
  have "omap_get (get_buffers k t) i = None" for k
    by (cases k) (simp_all add: t complete_item_def Let_def clearStreamingBuffer_def m deleteReasoningBuffer_def)
  then have "snd (flush_fired inp2 now k i t) = []" by (simp add: flush_fired_def)
  moreover have "omap_get (reasoningBuffers t) i = None"
    by (simp add: t complete_item_def Let_def deleteReasoningBuffer_def m)
  moreover have "map ev_stopSignal evs = [detectStopSignal (ni_host inp) (extractAgentOrUserMessage (Some (JObj item)))] \<and>
    map ev_content evs = [sanitizeContent (ni_host inp) (extractAgentOrUserMessage (Some (JObj item))) False None]"
    using h by (auto simp: handleItemEvent_def m Let_def extractItemContent_def)
  ultimately show ?thesis by blast
qed

definition sample_item :: "(string \<times> json) list" where
  "sample_item = [(''type'', JStr ''agentMessage''), (''id'', JStr ''i''), (''text'', JStr ''RISOLUTO_STATUS: DONE'')]"

theorem item_completion_witness:
  "map ev_stopSignal (snd (handleNotification sample_notification ''item/completed'' (Some (JObj [(''item'', JObj sample_item)])) createTurnState)) =
   [detectStopSignal example_host (extractAgentOrUserMessage (Some (JObj sample_item)))]"
proof -
  obtain t evs where h: "handleNotification sample_notification ''item/completed'' (Some (JObj [(''item'', JObj sample_item)])) createTurnState = (t, evs)"
    by fastforce
  have "map_of sample_item ''type'' = Some (JStr ''agentMessage'')" "map_of sample_item ''id'' = Some (JStr ''i'')"
    by (simp_all add: sample_item_def)
  from item_completion [OF _ this _ h] h show ?thesis by (simp add: sample_notification_def)
qed

text \<open>Streamed text reaches the event as it came: a token in a delta is not redacted.\<close>

lemma streamed_text_unredacted:
  "map ev_content (snd (flush_fired sample_notification 5 AgentMessage ''i''
     (scheduleStreamEmit sample_notification AgentMessage ''i'' ''e'' ''m'' ''lin_api_x'' createTurnState))) = [Some ''lin_api_x'']"
  by (simp add: flush_fired_def scheduleStreamEmit_def getOrCreateStreamingBuffer_def append_delta_def createTurnState_def
      MAX_LIVE_BUFFER_CHARS_def plain_event_def Let_def omap_get_def)

end
