(* ===== verification/CodexRequest.thy ===== *)
theory CodexRequest
  imports JsonRpc NotificationHandler
begin

text \<open>
  Requests of the agent: \<open>src/src/agent/codex-request-handler.ts\<close>, \<open>src/src/utils/tool-call-result.ts\<close> and the
  connection callbacks of \<open>src/src/agent-runner/docker-session.ts\<close>. The tool providers are functions of
  the environment; their calls may fail, which rejects the handler's promise.
\<close>

section \<open>Tool results\<close>

definition tool_result :: "bool \<Rightarrow> json \<Rightarrow> json" where
  "tool_result success payload =
     JObj [(''success'', JBool success),
       (''contentItems'', JArr [JObj [(''type'', JStr ''inputText''), (''text'', JStr (json_stringify payload))]])]"

definition toolCallSuccess :: "json \<Rightarrow> json" where
  "toolCallSuccess value' = tool_result True value'"

definition toolCallFailure :: "string \<Rightarrow> json" where
  "toolCallFailure message = tool_result False (JObj [(''error'', JStr message)])"

definition toolCallErrorPayload :: "json \<Rightarrow> json" where
  "toolCallErrorPayload payload = tool_result False payload"

section \<open>The handler\<close>

record fatal_failure =
  ff_code :: string
  ff_message :: string

record request_result =
  qr_response :: "json option"
  qr_fatal :: "fatal_failure option"

record side_event =
  se_event :: string
  se_message :: string
  se_content :: "string option"
  se_metadata :: "json option"

datatype tracker_reply = NotHandled | Handled request_result

record tool_env =
  tl_tracker :: "string \<Rightarrow> json \<Rightarrow> string + tracker_reply"
  tl_github :: "(json \<Rightarrow> string + json) option"

type_synonym request_outcome = "(string + request_result) \<times> side_event list"

definition respond :: "json \<Rightarrow> request_result" where
  "respond r = \<lparr>qr_response = Some r, qr_fatal = None\<rparr>"

definition fatalResult :: "string \<Rightarrow> string \<Rightarrow> request_result" where
  "fatalResult code message = \<lparr>qr_response = None, qr_fatal = Some \<lparr>ff_code = code, ff_message = message\<rparr>\<rparr>"

definition opt_field :: "string \<Rightarrow> string option \<Rightarrow> (string \<times> json) list" where
  "opt_field k v = (case truthy_string v of None \<Rightarrow> [] | Some s \<Rightarrow> [(k, JStr s)])"

definition buildApprovalMetadata :: "string \<Rightarrow> json option \<Rightarrow> json" where
  "buildApprovalMetadata method params = JObj
     ([(''method'', JStr method), (''decision'', JStr ''acceptForSession'')] @
      opt_field ''itemId'' (asString (member params ''itemId'')) @
      opt_field ''reason'' (asString (member params ''reason'')) @
      (case member params ''command'' of
         Some (JStr c) \<Rightarrow> [(''command'', JStr c)] | Some (JArr c) \<Rightarrow> [(''command'', JArr c)] | _ \<Rightarrow> []) @
      opt_field ''cwd'' (asString (member params ''cwd'')))"

definition string_parts :: "json list \<Rightarrow> string list option" where
  "string_parts ps = (if list_all (\<lambda>p. asString (Some p) \<noteq> None) ps
     then Some (map (\<lambda>p. coalesce (asString (Some p)) []) ps) else None)"

definition describeApproval :: "string \<Rightarrow> json option \<Rightarrow> string" where
  "describeApproval method params =
     (if method = ''item/fileChange/requestApproval''
      then (case truthy_string (asString (member params ''path'')) of
              Some p \<Rightarrow> ''Approved file change: '' @ p | None \<Rightarrow> ''Approved file change'')
      else if method = ''item/commandExecution/requestApproval''
      then (case member params ''command'' of
              Some (JStr c) \<Rightarrow> ''Approved command: '' @ c
            | Some (JArr ps) \<Rightarrow>
                (case string_parts ps of Some ws \<Rightarrow> ''Approved command: '' @ join '' '' ws | None \<Rightarrow> ''Approved shell command'')
            | _ \<Rightarrow> ''Approved shell command'')
      else ''Approved sandboxed action'')"

definition toolErrorResponse :: "string \<Rightarrow> request_result" where
  "toolErrorResponse message = respond (tool_result False (JObj [(''error'', JStr message)]))"

definition handleToolCall :: "tool_env \<Rightarrow> json option \<Rightarrow> string + request_result" where
  "handleToolCall env params =
     (let toolName = or_else (asString (member params ''name'')) (asString (member params ''toolName''));
          toolArgs = coalesce (or_else (non_null (member params ''arguments''))
            (or_else (non_null (member params ''args'')) (non_null (member params ''input'')))) JNull
      in case toolName of
           None \<Rightarrow> Inr (toolErrorResponse ''unsupported dynamic tool: unknown'')
         | Some name \<Rightarrow>
             if name = ''github_api''
             then (case tl_github env of
                     None \<Rightarrow> Inr (toolErrorResponse ''github_api is not configured'')
                   | Some call \<Rightarrow> (case call toolArgs of Inl e \<Rightarrow> Inl e | Inr r \<Rightarrow> Inr (respond r)))
             else (case tl_tracker env name toolArgs of
                     Inl e \<Rightarrow> Inl e
                   | Inr (Handled r) \<Rightarrow>
                       Inr (case qr_fatal r of
                              Some f \<Rightarrow> \<lparr>qr_response = None, qr_fatal = Some f\<rparr>
                            | None \<Rightarrow> \<lparr>qr_response = qr_response r, qr_fatal = None\<rparr>)
                   | Inr NotHandled \<Rightarrow>
                       Inr (toolErrorResponse
                         (if name = ''linear_graphql''
                          then ''linear_graphql is not available: tracker is not configured for Linear''
                          else ''unsupported dynamic tool: '' @ name))))"

definition handleApprovalRequest :: "string \<Rightarrow> json option \<Rightarrow> request_outcome" where
  "handleApprovalRequest method params =
     (Inr (respond (JObj [(''decision'', JStr ''acceptForSession'')])),
      [\<lparr>se_event = ''tool_approval_granted'', se_message = describeApproval method params, se_content = None,
        se_metadata = Some (buildApprovalMetadata method params)\<rparr>])"

definition handlePermissionsRequest :: "json option \<Rightarrow> request_result" where
  "handlePermissionsRequest params = respond (JObj
     [(''permissions'', coalesce (or_else (non_null (member params ''permissionProfile'')) (non_null (member params ''permissions''))) JNull),
      (''scope'', JStr ''session'')])"

definition handleUserInputRequest :: "json option \<Rightarrow> request_outcome" where
  "handleUserInputRequest params =
     (let prompt = coalesce (or_else (asString (member params ''prompt'')) (asString (member params ''message'')))
                     ''Agent requested user input.''
      in (Inr (respond (JObj [(''result'', JNull)])),
          [\<lparr>se_event = ''user_input_requested'', se_message = ''Agent asked for user input'', se_content = Some prompt,
            se_metadata = Some (JObj [(''prompt'', JStr prompt),
              (''questions'', coalesce (non_null (member params ''questions'')) JNull)])\<rparr>]))"

definition FATAL_METHOD_RESPONSES :: "(string \<times> string \<times> string) list" where
  "FATAL_METHOD_RESPONSES =
     [(''mcpServer/elicitation/request'', ''startup_failed'',
         ''thread/start failed because a required MCP server did not initialize''),
      (''account/chatgptAuthTokens/refresh'', ''auth_token_expired'',
         ''ChatGPT auth token expired and Risoluto cannot refresh it''),
      (''applyPatchApproval'', ''startup_failed'', ''unsupported interactive request from codex: applyPatchApproval''),
      (''execCommandApproval'', ''startup_failed'', ''unsupported interactive request from codex: execCommandApproval'')]"

definition handleCodexRequest :: "tool_env \<Rightarrow> string \<Rightarrow> json option \<Rightarrow> request_outcome" where
  "handleCodexRequest env method params =
     (if method = ''item/commandExecution/requestApproval'' \<or> method = ''item/fileChange/requestApproval''
      then handleApprovalRequest method params
      else if method = ''item/permissions/requestApproval'' then (Inr (handlePermissionsRequest params), [])
      else if method = ''item/tool/call'' then (handleToolCall env params, [])
      else if method = ''item/tool/requestUserInput'' then handleUserInputRequest params
      else (case map_of FATAL_METHOD_RESPONSES method of
              Some (code, message) \<Rightarrow> (Inr (fatalResult code message), [])
            | None \<Rightarrow> (Inr (respond (JObj [(''error'', JObj [(''code'', JNum (- 32601)),
                (''message'', JStr (''unknown request method: '' @ method))])])), [])))"

section \<open>The connection of a session\<close>

record session_conn =
  sx_rpc :: rpc
  sx_fatal :: "fatal_failure option"
  sx_threadId :: "string option"
  sx_turnId :: "string option"
  sx_turns :: turn_state
  sx_events :: "runtime_event list"
  sx_stdin :: "json list"

definition side_runtime_event :: "notification_input \<Rightarrow> session_conn \<Rightarrow> side_event \<Rightarrow> runtime_event" where
  "side_runtime_event inp s e =
     (plain_event inp (composeSessionId (sx_threadId s) (sx_turnId s)) (se_event e) (se_message e))
       \<lparr>ev_content := se_content e, ev_metadata := se_metadata e\<rparr>"

text \<open>
  The callback for a request of the agent. A failure of the handler is answered by the connection with an
  error response; the answer itself is written to the pipe without asking whether the process is alive.
\<close>

definition onCodexRequest :: "tool_env \<Rightarrow> notification_input \<Rightarrow> json \<Rightarrow> session_conn \<Rightarrow> session_conn" where
  "onCodexRequest env inp request s =
     (let method = coalesce (asString (member (Some request) ''method'')) [];
          id' = coalesce (member (Some request) ''id'') JNull
      in case handleCodexRequest env method (member (Some request) ''params'') of
           (r, sides) \<Rightarrow>
             let s1 = s\<lparr>sx_events := sx_events s @ map (side_runtime_event inp s) sides\<rparr>
             in (case r of
                   Inl e \<Rightarrow> s1\<lparr>sx_rpc := handler_failed request e (sx_rpc s1)\<rparr>
                 | Inr q \<Rightarrow>
                     (case qr_fatal q of
                        Some f \<Rightarrow> s1\<lparr>sx_fatal := Some f, sx_rpc := rpc_close (sx_rpc s1)\<rparr>
                      | None \<Rightarrow>
                          (case qr_response q of
                             Some resp \<Rightarrow> s1\<lparr>sx_stdin := sx_stdin s1 @ [createSuccessResponse id' resp]\<rparr>
                           | None \<Rightarrow> s1))))"

definition onCodexNotification :: "notification_input \<Rightarrow> string \<Rightarrow> json option \<Rightarrow> session_conn \<Rightarrow> session_conn" where
  "onCodexNotification inp method params s =
     (let turnId = (if method = ''turn/started''
                    then or_else (asString (member (member params ''turn'') ''id'')) (sx_turnId s) else sx_turnId s);
          s1 = s\<lparr>sx_turnId := turnId\<rparr>
      in case handleNotification (inp\<lparr>ni_threadId := sx_threadId s1, ni_turnId := sx_turnId s1\<rparr>) method params (sx_turns s1) of
           (t, evs) \<Rightarrow> s1\<lparr>sx_turns := t, sx_events := sx_events s1 @ evs\<rparr>)"

section \<open>Properties\<close>

definition answered :: "session_conn \<Rightarrow> session_conn \<Rightarrow> json list" where
  "answered s t = drop (length (sx_stdin s)) (sx_stdin t) @ drop (length (rpc_sent (sx_rpc s))) (rpc_sent (sx_rpc t))"

definition provider_answers :: "tool_env \<Rightarrow> bool" where
  "provider_answers env \<longleftrightarrow> (\<forall>name args r. tl_tracker env name args = Inr (Handled r) \<longrightarrow> (qr_response r = None) = (qr_fatal r \<noteq> None))"

lemma request_result_total:
  assumes "provider_answers env" and "handleCodexRequest env method params = (Inr q, sides)"
  shows "(qr_response q = None) = (qr_fatal q \<noteq> None)"
proof -
  have "handleToolCall env params = Inr q \<Longrightarrow> (qr_response q = None) = (qr_fatal q \<noteq> None)" for q
    using assms(1)
    by (auto simp: handleToolCall_def Let_def toolErrorResponse_def respond_def provider_answers_def
        split: option.splits if_splits sum.splits tracker_reply.splits)
  then show ?thesis
    using assms(2)
    by (auto simp: handleCodexRequest_def handleApprovalRequest_def handlePermissionsRequest_def handleUserInputRequest_def
        respond_def fatalResult_def Let_def split: if_splits option.splits prod.splits)
qed

text \<open>
  Every request of the agent is answered exactly once, under its id (with a result, or with an error
  when a tool provider fails), or ends the session: the fatal failure is recorded, the process is
  killed and nothing is answered.
\<close>

theorem request_answered_once:
  assumes "provider_answers env" and "\<not> rpc_exited (sx_rpc s)" and "member (Some request) ''id'' = Some i"
  shows "let t = onCodexRequest env inp request s in
    (case handleCodexRequest env (coalesce (asString (member (Some request) ''method'')) []) (member (Some request) ''params'') of
       (Inl e, _) \<Rightarrow> answered s t = [createErrorResponse i e] \<and> sx_fatal t = sx_fatal s
     | (Inr q, _) \<Rightarrow>
         (case qr_fatal q of
            Some f \<Rightarrow> answered s t = [] \<and> sx_fatal t = Some f \<and> rpc_kills (sx_rpc t) = rpc_kills (sx_rpc s) + 1
          | None \<Rightarrow> (case qr_response q of Some r \<Rightarrow> answered s t = [createSuccessResponse i r] \<and> sx_fatal t = sx_fatal s
                                        | None \<Rightarrow> False)))"
proof -
  obtain r sides where h: "handleCodexRequest env (coalesce (asString (member (Some request) ''method'')) [])
      (member (Some request) ''params'') = (r, sides)" by fastforce
  show ?thesis
  proof (cases r)
    case (Inl e)
    then show ?thesis using assms(2, 3) h
      by (simp add: onCodexRequest_def Let_def answered_def handler_failed_def rpc_send_def)
  next
    case (Inr q)
    from request_result_total [OF assms(1) h [unfolded Inr]] show ?thesis
      using assms(2, 3) h Inr
      by (cases "qr_fatal q"; cases "qr_response q") (simp_all add: onCodexRequest_def Let_def answered_def rpc_close_def)
  qed
qed

definition sample_tools :: tool_env where
  "sample_tools = \<lparr>tl_tracker = (\<lambda>_ _. Inr NotHandled), tl_github = None\<rparr>"

definition sample_session :: session_conn where
  "sample_session = \<lparr>sx_rpc = new_rpc, sx_fatal = None, sx_threadId = Some ''th'', sx_turnId = Some ''tu'',
     sx_turns = createTurnState, sx_events = [], sx_stdin = []\<rparr>"

definition sample_request :: json where
  "sample_request = JObj [(''id'', JNum 7), (''method'', JStr ''applyPatchApproval''), (''params'', JNull)]"

theorem request_answered_once_witness:
  "sx_fatal (onCodexRequest sample_tools sample_notification sample_request sample_session) =
     Some \<lparr>ff_code = ''startup_failed'', ff_message = ''unsupported interactive request from codex: applyPatchApproval''\<rparr>"
proof -
  have "provider_answers sample_tools" by (simp add: provider_answers_def sample_tools_def)
  moreover have "\<not> rpc_exited (sx_rpc sample_session)" by (simp add: sample_session_def new_rpc_def)
  moreover have "member (Some sample_request) ''id'' = Some (JNum 7)"
    by (simp add: sample_request_def member_def asRecord_def omap_get_def)
  moreover have "handleCodexRequest sample_tools (coalesce (asString (member (Some sample_request) ''method'')) [])
      (member (Some sample_request) ''params'') =
    (Inr (fatalResult ''startup_failed'' ''unsupported interactive request from codex: applyPatchApproval''), [])"
    by (simp add: sample_request_def member_def asRecord_def omap_get_def asString_def handleCodexRequest_def FATAL_METHOD_RESPONSES_def)
  ultimately show ?thesis
    using request_answered_once [of sample_tools sample_session sample_request "JNum 7" sample_notification]
    by (simp add: Let_def fatalResult_def)
qed

text \<open>
  An unknown request is answered with a success response whose result holds the error.
\<close>

lemma unknown_request_succeeds:
  assumes "method \<notin> {''item/commandExecution/requestApproval'', ''item/fileChange/requestApproval'',
      ''item/permissions/requestApproval'', ''item/tool/call'', ''item/tool/requestUserInput''}"
    and "map_of FATAL_METHOD_RESPONSES method = None"
  shows "\<exists>r. handleCodexRequest env method params = (Inr (respond r), []) \<and> member (Some r) ''error'' \<noteq> None"
  using assms
  by (intro exI [of _ "JObj [(''error'', JObj [(''code'', JNum (- 32601)),
      (''message'', JStr (''unknown request method: '' @ method))])]"])
    (simp add: handleCodexRequest_def member_def asRecord_def omap_get_def)

end
