(* ===== verification/AttemptExecutor.thy ===== *)
theory AttemptExecutor
  imports TurnExecutor
begin

text \<open>
  One attempt of an agent at an issue: \<open>src/src/agent-runner/attempt-executor.ts\<close>. The workspace manager
  and the session are functions on a world; the calls made on them are recorded in order. The abort
  bridge forwards the orchestrator's abort signal to the session's: it is what the source was aborted
  with, whether the bridge still listens to it, and what the bridge's signal was aborted with.
\<close>

section \<open>The abort bridge\<close>

record bridge =
  br_source :: "string option"
  br_listening :: bool
  br_signal :: "string option"


definition abort_source :: "string \<Rightarrow> bridge \<Rightarrow> bridge" where
  "abort_source reason b =
     (if br_source b \<noteq> None then b
      else let b1 = b\<lparr>br_source := Some reason\<rparr>
           in if br_listening b
              then b1\<lparr>br_listening := False, br_signal := (if br_signal b = None then Some reason else br_signal b)\<rparr>
              else b1)"

definition bridge_abort :: "string \<Rightarrow> bridge \<Rightarrow> bridge" where
  "bridge_abort reason b =
     b\<lparr>br_listening := False, br_signal := (if br_signal b = None then Some reason else br_signal b)\<rparr>"

definition bridge_detach :: "bridge \<Rightarrow> bridge" where
  "bridge_detach b = b\<lparr>br_listening := False\<rparr>"

section \<open>What the attempt remembers of its events\<close>

record captured =
  cp_content :: "string option"
  cp_stopSignal :: "stop_signal option"

definition is_final_agent_message :: "runtime_event \<Rightarrow> bool" where
  "is_final_agent_message ev \<longleftrightarrow>
     asString (member (ev_metadata ev) ''verb'') = Some ''completed'' \<and>
     (asString (member (ev_metadata ev) ''itemType'') = Some ''agentMessage'' \<or> ev_event ev = ''agent_message'')"

definition capture_event :: "runtime_event \<Rightarrow> captured \<Rightarrow> captured" where
  "capture_event ev c =
     \<lparr>cp_content = (if is_final_agent_message ev \<and> truthy_string (ev_content ev) \<noteq> None then ev_content ev else cp_content c),
      cp_stopSignal = (case ev_stopSignal ev of Some x \<Rightarrow> Some x | None \<Rightarrow> cp_stopSignal c)\<rparr>"

section \<open>Running an attempt\<close>

datatype attempt_call = CPrepare | CBeforeRun | CStart | CInitialize | CExecute | CReview | CShutdown | CAfterRun



record 'w attempt_state =
  as_world :: 'w
  as_calls :: "attempt_call list"
  as_events :: "runtime_event list"
  as_captured :: captured
  as_bridge :: bridge

definition attempt_call :: "attempt_call \<Rightarrow> ('w \<Rightarrow> 'r \<times> 'w) \<Rightarrow> 'w attempt_state \<Rightarrow> 'r \<times> 'w attempt_state" where
  "attempt_call c f s =
     (case f (as_world s) of (r, w) \<Rightarrow> (r, s\<lparr>as_world := w, as_calls := as_calls s @ [c]\<rparr>))"

definition on_event :: "runtime_event \<Rightarrow> 'w attempt_state \<Rightarrow> 'w attempt_state" where
  "on_event ev s = s\<lparr>as_captured := capture_event ev (as_captured s), as_events := as_events s @ [ev]\<rparr>"








section \<open>Lemmas\<close>


lemma on_event_fields [simp]: "as_calls (on_event ev s) = as_calls s" "as_bridge (on_event ev s) = as_bridge s"
  by (simp_all add: on_event_def)





section \<open>Properties\<close>




text \<open>
  The bridge's signal is aborted with the first reason that reaches it, from the orchestrator or from
  \<open>abort\<close>, and never again; after it is detached the orchestrator's abort does not reach it.
\<close>

theorem bridge_first_reason:
  "br_signal (abort_source r (bridge_abort r' b)) = br_signal (bridge_abort r' b) \<and>
   br_signal (bridge_abort r' (abort_source r b)) =
     (case br_signal b of Some x \<Rightarrow> Some x
      | None \<Rightarrow> Some (if br_source b = None \<and> br_listening b then r else r')) \<and>
   br_signal (abort_source r (bridge_detach b)) = br_signal b"
  by (auto simp: abort_source_def bridge_abort_def bridge_detach_def Let_def split: option.splits)

end
