(* ===== verification/WebhookInbox.thy ===== *)
theory WebhookInbox
  imports LifecycleState
begin

text \<open>
  The durable inbox of webhook deliveries: \<open>src/src/persistence/sqlite/webhook-inbox.ts\<close>. The table is the
  list of its rows in insertion order; the statements of each operation are written as the list
  operations they denote. A time is its ISO text, compared as text as SQLite does. Errors of
  the database itself appear in the workflow that calls the inbox.
\<close>

section \<open>Rows\<close>

datatype inbox_status = IReceived | IProcessing | IApplied | IIgnored | IRetry | IDeadLetter

record verified_delivery =
  vd_deliveryId :: string
  vd_type :: string
  vd_action :: string
  vd_entityId :: "string option"
  vd_issueId :: "string option"
  vd_issueIdentifier :: "string option"
  vd_webhookTimestamp :: "int option"
  vd_payloadJson :: "string option"

record delivery_record =
  dr_delivery :: verified_delivery
  dr_receivedAt :: string
  dr_status :: inbox_status
  dr_attemptCount :: int
  dr_nextAttemptAt :: "string option"
  dr_lastError :: "string option"
  dr_appliedAt :: "string option"

type_synonym inbox = "delivery_record list"

definition dr_id :: "delivery_record \<Rightarrow> string" where
  "dr_id row = vd_deliveryId (dr_delivery row)"

section \<open>Operations\<close>

definition MAX_ERROR_LENGTH :: nat where
  "MAX_ERROR_LENGTH = 500"

definition truncateError :: "string \<Rightarrow> string" where
  "truncateError e = take (min (length e) MAX_ERROR_LENGTH) e"

definition insertVerified :: "string \<Rightarrow> verified_delivery \<Rightarrow> inbox \<Rightarrow> bool \<times> inbox" where
  "insertVerified now d t =
     (if vd_deliveryId d \<in> set (map dr_id t) then (False, t)
      else (True, t @ [\<lparr>dr_delivery = d, dr_receivedAt = now, dr_status = IReceived, dr_attemptCount = 0,
              dr_nextAttemptAt = None, dr_lastError = None, dr_appliedAt = None\<rparr>]))"

definition update_row :: "string \<Rightarrow> (delivery_record \<Rightarrow> delivery_record) \<Rightarrow> inbox \<Rightarrow> inbox" where
  "update_row i f t = map (\<lambda>row. if dr_id row = i then f row else row) t"

definition markProcessing :: "string \<Rightarrow> inbox \<Rightarrow> inbox" where
  "markProcessing i t = update_row i (\<lambda>row. row\<lparr>dr_status := IProcessing\<rparr>) t"

definition markApplied :: "string \<Rightarrow> string \<Rightarrow> inbox \<Rightarrow> inbox" where
  "markApplied now i t = update_row i (\<lambda>row. row\<lparr>dr_status := IApplied, dr_appliedAt := Some now\<rparr>) t"

definition markIgnored :: "string \<Rightarrow> string \<Rightarrow> inbox \<Rightarrow> inbox" where
  "markIgnored now i t = update_row i (\<lambda>row. row\<lparr>dr_status := IIgnored, dr_appliedAt := Some now\<rparr>) t"

definition markForRetry :: "string \<Rightarrow> string \<Rightarrow> int \<Rightarrow> string \<Rightarrow> inbox \<Rightarrow> inbox" where
  "markForRetry i e attemptCount nextAttemptAt t =
     update_row i (\<lambda>row. row\<lparr>dr_status := IRetry, dr_attemptCount := attemptCount,
       dr_nextAttemptAt := Some nextAttemptAt, dr_lastError := Some (truncateError e)\<rparr>) t"

definition markDeadLetter :: "string \<Rightarrow> string \<Rightarrow> inbox \<Rightarrow> inbox" where
  "markDeadLetter i e t =
     update_row i (\<lambda>row. row\<lparr>dr_status := IDeadLetter, dr_lastError := Some (truncateError e)\<rparr>) t"

definition is_due :: "string \<Rightarrow> delivery_record \<Rightarrow> bool" where
  "is_due now row = (case dr_nextAttemptAt row of None \<Rightarrow> True | Some at \<Rightarrow> str_less at now)"

definition fetchDueForRetry :: "string \<Rightarrow> inbox \<Rightarrow> inbox" where
  "fetchDueForRetry now t = filter (\<lambda>row. dr_status row = IRetry \<and> is_due now row) t"

text \<open>\<open>ORDER BY received_at\<close>, ascending or descending, rows with equal keys in insertion order.\<close>

definition by_received :: "delivery_record \<Rightarrow> delivery_record \<Rightarrow> int" where
  "by_received a b =
     (if str_less (dr_receivedAt a) (dr_receivedAt b) then -1
      else if str_less (dr_receivedAt b) (dr_receivedAt a) then 1 else 0)"

record inbox_stats =
  is_backlogCount :: nat
  is_oldestBacklogAgeSeconds :: "int option"
  is_dlqCount :: nat
  is_duplicateCount :: nat
  is_lastDeliveryAgeSeconds :: "int option"

definition age_seconds :: "host \<Rightarrow> int \<Rightarrow> inbox \<Rightarrow> int option" where
  "age_seconds h now rows =
     (case rows of [] \<Rightarrow> None
      | row # _ \<Rightarrow> map_option (\<lambda>at. (now - at) div 1000) (h_date_parse h (dr_receivedAt row)))"

definition getStats :: "host \<Rightarrow> int \<Rightarrow> inbox \<Rightarrow> inbox_stats" where
  "getStats h now t =
     (let received = filter (\<lambda>row. dr_status row = IReceived) t
      in \<lparr>is_backlogCount = length (filter (is_due (iso_of_ms now)) received),
          is_oldestBacklogAgeSeconds = age_seconds h now (js_sort by_received received),
          is_dlqCount = length (filter (\<lambda>row. dr_status row = IDeadLetter) t),
          is_duplicateCount = 0,
          is_lastDeliveryAgeSeconds = age_seconds h now (js_sort (\<lambda>a b. by_received b a) t)\<rparr>)"

definition getRecent :: "nat \<Rightarrow> inbox \<Rightarrow> inbox" where
  "getRecent limit t = take limit (js_sort (\<lambda>a b. by_received b a) t)"

section \<open>Operations as steps\<close>

datatype inbox_op =
    OpInsert string verified_delivery
  | OpProcessing string
  | OpApplied string string
  | OpIgnored string string
  | OpRetry string string int string
  | OpDeadLetter string string

fun inbox_step :: "inbox_op \<Rightarrow> inbox \<Rightarrow> inbox" where
  "inbox_step (OpInsert now d) t = snd (insertVerified now d t)"
| "inbox_step (OpProcessing i) t = markProcessing i t"
| "inbox_step (OpApplied now i) t = markApplied now i t"
| "inbox_step (OpIgnored now i) t = markIgnored now i t"
| "inbox_step (OpRetry i e n at) t = markForRetry i e n at t"
| "inbox_step (OpDeadLetter i e) t = markDeadLetter i e t"

definition inbox_ok :: "inbox \<Rightarrow> bool" where
  "inbox_ok t \<longleftrightarrow> distinct (map dr_id t) \<and>
     (\<forall>row \<in> set t. case dr_lastError row of None \<Rightarrow> True | Some e \<Rightarrow> length e \<le> MAX_ERROR_LENGTH)"

section \<open>Lemmas\<close>

lemma update_row_ids [simp]: "(\<And>row. dr_id (f row) = dr_id row) \<Longrightarrow> map dr_id (update_row i f t) = map dr_id t"
  by (simp add: update_row_def)

lemma dr_id_updates [simp]:
  "dr_id (row\<lparr>dr_status := a\<rparr>) = dr_id row" "dr_id (row\<lparr>dr_attemptCount := b\<rparr>) = dr_id row"
  "dr_id (row\<lparr>dr_nextAttemptAt := c\<rparr>) = dr_id row" "dr_id (row\<lparr>dr_lastError := c\<rparr>) = dr_id row"
  "dr_id (row\<lparr>dr_appliedAt := c\<rparr>) = dr_id row"
  by (simp_all add: dr_id_def)

lemmas mark_defs = markProcessing_def markApplied_def markIgnored_def markForRetry_def markDeadLetter_def

lemma length_truncateError [simp]: "length (truncateError e) \<le> MAX_ERROR_LENGTH"
  by (simp add: truncateError_def)

lemma update_row_ok:
  assumes "inbox_ok t" and "\<And>row. dr_id (f row) = dr_id row"
    and "\<And>row. dr_lastError (f row) = dr_lastError row \<or> (\<exists>e. dr_lastError (f row) = Some (truncateError e))"
  shows "inbox_ok (update_row i f t)"
proof -
  have "case dr_lastError (f row) of None \<Rightarrow> True | Some e \<Rightarrow> length e \<le> MAX_ERROR_LENGTH" if "row \<in> set t" for row
    using assms(1) assms(3) [of row] that by (auto simp: inbox_ok_def)
  then show ?thesis using assms(1) assms(2) by (auto simp: inbox_ok_def update_row_def comp_def if_distrib cong: if_cong)
qed

lemma inbox_step_ok: "inbox_ok t \<Longrightarrow> inbox_ok (inbox_step op t)"
proof (cases op)
  case (OpInsert now d)
  assume "inbox_ok t"
  then show ?thesis using OpInsert by (auto simp: inbox_ok_def insertVerified_def dr_id_def)
qed (auto simp: mark_defs intro!: update_row_ok)

lemma mark_ids:
  "map dr_id (markProcessing i t) = map dr_id t" "map dr_id (markApplied now i t) = map dr_id t"
  "map dr_id (markIgnored now i t) = map dr_id t" "map dr_id (markForRetry i e n at t) = map dr_id t"
  "map dr_id (markDeadLetter i e t) = map dr_id t"
  by (simp_all add: mark_defs del: map_eq_conv)

lemma inbox_step_ids: "set (map dr_id t) \<subseteq> set (map dr_id (inbox_step op t))"
  by (cases op) (auto simp: insertVerified_def mark_ids simp del: set_map)

interpretation inbox_run: event_machine inbox_step inbox_ok
  by unfold_locales (rule inbox_step_ok)

lemma inbox_ids_kept: "i \<in> set (map dr_id t) \<Longrightarrow> i \<in> set (map dr_id (fold inbox_step ops t))"
proof (induction ops arbitrary: t)
  case (Cons op ops)
  then show ?case using inbox_step_ids [of t op] by (auto simp del: set_map)
qed simp

lemma inserted_present: "vd_deliveryId d \<in> set (map dr_id (snd (insertVerified now d t)))"
  by (auto simp: insertVerified_def dr_id_def)

text \<open>Inserting again leaves the row as it is, whatever happened to it since.\<close>

lemma insert_duplicate: "vd_deliveryId d \<in> set (map dr_id t) \<Longrightarrow> insertVerified now d t = (False, t)"
  by (simp add: insertVerified_def)

lemma by_received_total: "by_received a b > 0 \<Longrightarrow> by_received b a \<le> 0"
  by (auto simp: by_received_def split: if_splits dest: str_less_trans)

section \<open>Properties\<close>

text \<open>
  From the empty table, after any operations: delivery ids are unique, kept errors have at most 500
  characters, and an id once inserted is answered as a duplicate by every later insert.
\<close>

theorem inbox_deduplicates:
  "inbox_ok (fold inbox_step ops []) \<and>
   insertVerified now d (fold inbox_step later (snd (insertVerified now' (d'\<lparr>vd_deliveryId := vd_deliveryId d\<rparr>) (fold inbox_step ops [])))) =
     (False, fold inbox_step later (snd (insertVerified now' (d'\<lparr>vd_deliveryId := vd_deliveryId d\<rparr>) (fold inbox_step ops []))))"
proof -
  have "inbox_ok []" by (simp add: inbox_ok_def)
  then have "inbox_ok (fold inbox_step ops [])" by (rule inbox_run.run_good)
  moreover have "vd_deliveryId d \<in> set (map dr_id (fold inbox_step later
      (snd (insertVerified now' (d'\<lparr>vd_deliveryId := vd_deliveryId d\<rparr>) (fold inbox_step ops [])))))"
    using inserted_present [of "d'\<lparr>vd_deliveryId := vd_deliveryId d\<rparr>"] by (intro inbox_ids_kept) simp
  ultimately show ?thesis by (simp only: insert_duplicate simp_thms)
qed

end
