(* ===== verification/WebhookIngress.thy ===== *)
theory WebhookIngress
  imports AgentHelpers WebhookInbox WebhookHealth OrchestratorClaims
begin

text \<open>
  Webhook ingress: \<open>src/src/webhook/signature.ts\<close>, \<open>delivery-workflow.ts\<close>, \<open>linear-handler.ts\<close>,
  \<open>github-handler.ts\<close>, \<open>src/src/http/webhook-types.ts\<close> and the wiring of \<open>service.ts\<close>. A handler is a
  function on a world of type \<open>'w\<close> and the responses sent; the HMAC (hex digest under a key) is a
  parameter. A raw body is a list of bytes; an exception that leaves the handler is the first component of
  its result. The asynchronous part of a delivery runs as one step. Recording a verified delivery and announcing
  a failed insert are total: they emit on the event bus, and the model is that of a bus none of whose listeners throws
  (a throwing one would skip the processing of the delivery in the first case, and its answer in the second).
  A dash outside Latin-1 in one message is written as a colon.
\<close>

section \<open>Signatures\<close>

text \<open>\<open>Buffer.from(text)\<close>: UTF-8 of Latin-1 text.\<close>

definition utf8_char :: "char \<Rightarrow> string" where
  "utf8_char c =
     (let n = of_char c :: nat
      in if n < 128 then [c] else [char_of (192 + n div 64), char_of (128 + n mod 64)])"

definition buffer_from :: "string \<Rightarrow> string" where
  "buffer_from s = concat (map utf8_char s)"

text \<open>\<open>timingSafeEqual\<close> throws when the buffers differ in length.\<close>

definition timingSafeEqual :: "string \<Rightarrow> string \<Rightarrow> js_error + bool" where
  "timingSafeEqual a b =
     (if length a \<noteq> length b then Inl (JsError ''Input buffers must have the same byte length'') else Inr (a = b))"

type_synonym hmac = "string \<Rightarrow> string \<Rightarrow> string"

definition verifyLinearSignature :: "hmac \<Rightarrow> string \<Rightarrow> string \<Rightarrow> string \<Rightarrow> js_error + bool" where
  "verifyLinearSignature hmac rawBody signature secret =
     (let expected = hmac secret rawBody
      in if length expected \<noteq> length signature then Inr False
         else timingSafeEqual (buffer_from expected) (buffer_from signature))"

definition verifyGitHubSignature :: "hmac \<Rightarrow> string \<Rightarrow> string \<Rightarrow> string \<Rightarrow> js_error + bool" where
  "verifyGitHubSignature hmac rawBody signatureHeader secret =
     (let normalized = (if starts_with ''sha256='' signatureHeader then drop 7 signatureHeader else signatureHeader);
          expected = hmac secret rawBody
      in if length expected \<noteq> length normalized then Inr False
         else timingSafeEqual (buffer_from expected) (buffer_from normalized))"

section \<open>Requests and responses\<close>

record webhook_request =
  wq_headers :: "string \<Rightarrow> string option"
  wq_rawBody :: "string option"
  wq_body :: "json option"

record web_response =
  ws_status :: int
  ws_headers :: "(string \<times> string) list"
  ws_body :: json

record 'w ingress =
  in_world :: 'w
  in_responses :: "web_response list"

definition respond_with :: "int \<Rightarrow> (string \<times> string) list \<Rightarrow> json \<Rightarrow> 'w ingress \<Rightarrow> 'w ingress" where
  "respond_with status headers body s =
     s\<lparr>in_responses := in_responses s @ [\<lparr>ws_status = status, ws_headers = headers, ws_body = body\<rparr>]\<rparr>"

definition error_body :: "string \<Rightarrow> string \<Rightarrow> json" where
  "error_body code message = JObj [(''error'', JObj [(''code'', JStr code), (''message'', JStr message)])]"

definition sendError :: "int \<Rightarrow> string \<Rightarrow> string \<Rightarrow> 'w ingress \<Rightarrow> 'w ingress" where
  "sendError status code message s = respond_with status [] (error_body code message) s"

section \<open>The delivery workflow\<close>

record 'w workflow =
  wf_insert :: "(verified_delivery \<Rightarrow> 'w \<Rightarrow> (js_error + bool) \<times> 'w) option"
  wf_systemError :: "(string \<Rightarrow> json \<Rightarrow> 'w \<Rightarrow> 'w) option"

definition deliveryLogContext :: "verified_delivery \<Rightarrow> (string \<times> json) list" where
  "deliveryLogContext d =
     [(''deliveryId'', JStr (vd_deliveryId d)), (''type'', JStr (vd_type d)), (''action'', JStr (vd_action d))]"

text \<open>\<open>None\<close> is the rejection with \<open>WebhookInboxUnavailableError\<close>.\<close>

definition ensureNew :: "'w workflow \<Rightarrow> verified_delivery \<Rightarrow> 'w \<Rightarrow> bool option \<times> 'w" where
  "ensureNew flow d w =
     (case wf_insert flow of
        None \<Rightarrow> (Some True, w)
      | Some ins \<Rightarrow>
          (case ins d w of
             (Inr isNew, w1) \<Rightarrow> (Some isNew, w1)
           | (Inl e, w1) \<Rightarrow>
               (None, (case wf_systemError flow of
                  None \<Rightarrow> w1
                | Some emit \<Rightarrow> emit ''Webhook inbox insert failed; delivery was dropped to preserve durable dedupe.''
                    (JObj (deliveryLogContext d @ [(''error'', JStr (toErrorString e))])) w1))))"

text \<open>\<open>process\<close> may throw; the error is logged, the response has been sent by then.\<close>

definition respondAccepted ::
  "'w workflow \<Rightarrow> verified_delivery \<Rightarrow> (('w \<Rightarrow> 'w) option) \<Rightarrow> ('w \<Rightarrow> js_error option \<times> 'w) \<Rightarrow> 'w ingress \<Rightarrow> 'w ingress" where
  "respondAccepted flow d recordVerified process s =
     (case ensureNew flow d (in_world s) of
        (None, w) \<Rightarrow> sendError 503 ''webhook_inbox_unavailable'' ''Webhook inbox persistence is unavailable'' (s\<lparr>in_world := w\<rparr>)
      | (Some isNew, w) \<Rightarrow>
          let s1 = respond_with 200 [] (JObj [(''ok'', JBool True)]) (s\<lparr>in_world := w\<rparr>)
          in if \<not> isNew then s1
             else s1\<lparr>in_world := snd (process (case recordVerified of None \<Rightarrow> w | Some r \<Rightarrow> r w))\<rparr>)"

section \<open>Linear\<close>

definition REPLAY_WINDOW_MS :: int where
  "REPLAY_WINDOW_MS = 60000"

definition SUPPORTED_WEBHOOK_TYPES :: "string list" where
  "SUPPORTED_WEBHOOK_TYPES = [''Issue'', ''Comment'']"

definition ISSUE_ACTIONS :: "string list" where
  "ISSUE_ACTIONS = [''create'', ''update'', ''remove'']"

definition COMMENT_ACTIONS :: "string list" where
  "COMMENT_ACTIONS = [''create'', ''update'', ''remove'']"

definition is_object :: "json option \<Rightarrow> bool" where
  "is_object v = (case v of Some (JObj _) \<Rightarrow> True | Some (JArr _) \<Rightarrow> True | _ \<Rightarrow> False)"

definition validateWebhookPayload :: "json option \<Rightarrow> string option" where
  "validateWebhookPayload body =
     (if \<not> is_object body then Some ''payload is not an object''
      else if truthy_string (AgentHelpers.asString (member body ''action'')) = None then Some ''missing or invalid 'action' field''
      else if truthy_string (AgentHelpers.asString (member body ''type'')) = None then Some ''missing or invalid 'type' field''
      else if \<not> is_object (member body ''data'') then Some ''missing or invalid 'data' field''
      else if asNumber (member body ''webhookTimestamp'') = None then Some ''missing or invalid 'webhookTimestamp' field''
      else None)"

record 'w webhook_deps =
  wd_now :: int
  wd_hmac :: hmac
  wd_secret :: "string option"
  wd_previousSecret :: "string option"
  wd_requestRefresh :: "string \<Rightarrow> 'w \<Rightarrow> 'w"
  wd_targetedRefresh :: "(string \<Rightarrow> string \<Rightarrow> string \<Rightarrow> 'w \<Rightarrow> 'w) option"
  wd_stopWorker :: "(string \<Rightarrow> string \<Rightarrow> 'w \<Rightarrow> 'w) option"
  wd_recordDelivery :: "string \<Rightarrow> 'w \<Rightarrow> 'w"
  wd_workflow :: "'w workflow"

definition extractDeliveryId :: "webhook_request \<Rightarrow> string option" where
  "extractDeliveryId req = map_option js_trim (truthy_string (wq_headers req ''linear-delivery''))"

definition extractIssueInfo :: "json option \<Rightarrow> string \<Rightarrow> string option \<times> string option" where
  "extractIssueInfo data type' =
     (if type' = ''Issue'' then (AgentHelpers.asString (member data ''id''), AgentHelpers.asString (member data ''identifier''))
      else (AgentHelpers.asString (member (member data ''issue'') ''id''), AgentHelpers.asString (member (member data ''issue'') ''identifier'')))"

definition maybeStopWorker :: "'w webhook_deps \<Rightarrow> string \<Rightarrow> json option \<Rightarrow> string \<Rightarrow> 'w \<Rightarrow> 'w" where
  "maybeStopWorker deps action body issueIdentifier w =
     (if action \<noteq> ''update'' then w
      else case truthy_string (AgentHelpers.asString (member (member (member body ''data'') ''state'') ''name'')) of
             None \<Rightarrow> w
           | Some stateName \<Rightarrow>
               if js_lower stateName \<in> {''done'', ''cancelled'', ''canceled'', ''archived'', ''closed''}
               then (case wd_stopWorker deps of
                       None \<Rightarrow> w
                     | Some halt \<Rightarrow> halt issueIdentifier (''webhook:issue:update:state='' @ stateName) w)
               else w)"

text \<open>\<open>issueId && issueIdentifier && deps.requestTargetedRefresh\<close>.\<close>

definition targeted ::
  "'w webhook_deps \<Rightarrow> string option \<Rightarrow> string option \<Rightarrow> (string \<times> string \<times> (string \<Rightarrow> string \<Rightarrow> string \<Rightarrow> 'w \<Rightarrow> 'w)) option" where
  "targeted deps issueId issueIdentifier =
     (case (truthy_string issueId, truthy_string issueIdentifier, wd_targetedRefresh deps) of
        (Some i, Some ident, Some f) \<Rightarrow> Some (i, ident, f)
      | _ \<Rightarrow> None)"

definition handleIssueEvent ::
  "'w webhook_deps \<Rightarrow> string \<Rightarrow> json option \<Rightarrow> string option \<Rightarrow> string option \<Rightarrow> 'w \<Rightarrow> 'w" where
  "handleIssueEvent deps action body issueId issueIdentifier w =
     (case targeted deps issueId issueIdentifier of
        Some (i, ident, refresh) \<Rightarrow> maybeStopWorker deps action body ident (refresh i ident (''webhook:issue:'' @ action) w)
      | None \<Rightarrow> wd_requestRefresh deps (''webhook:issue:'' @ action) w)"

definition handleCommentEvent :: "'w webhook_deps \<Rightarrow> string \<Rightarrow> string option \<Rightarrow> string option \<Rightarrow> 'w \<Rightarrow> 'w" where
  "handleCommentEvent deps action issueId issueIdentifier w =
     (case targeted deps issueId issueIdentifier of
        Some (i, ident, refresh) \<Rightarrow> refresh i ident (''webhook:comment:'' @ action) w
      | None \<Rightarrow> wd_requestRefresh deps (''webhook:comment:'' @ action) w)"

definition processWebhookEvent ::
  "'w webhook_deps \<Rightarrow> string \<Rightarrow> string \<Rightarrow> json option \<Rightarrow> string option \<Rightarrow> string option \<Rightarrow> 'w \<Rightarrow> 'w" where
  "processWebhookEvent deps type' action body issueId issueIdentifier w =
     (if type' \<notin> set SUPPORTED_WEBHOOK_TYPES then w
      else if type' = ''Issue'' \<and> action \<in> set ISSUE_ACTIONS then handleIssueEvent deps action body issueId issueIdentifier w
      else if type' = ''Comment'' \<and> action \<in> set COMMENT_ACTIONS then handleCommentEvent deps action issueId issueIdentifier w
      else w)"

text \<open>The signature against the current secret, then against the previous one.\<close>

definition signature_valid :: "'w webhook_deps \<Rightarrow> string \<Rightarrow> string \<Rightarrow> string \<Rightarrow> js_error + bool" where
  "signature_valid deps rawBody signature secret =
     (case verifyLinearSignature (wd_hmac deps) rawBody signature secret of
        Inr False \<Rightarrow>
          (case truthy_string (wd_previousSecret deps) of
             None \<Rightarrow> Inr False
           | Some previous \<Rightarrow> verifyLinearSignature (wd_hmac deps) rawBody signature previous)
      | r \<Rightarrow> r)"

text \<open>The delivery, its event type and what processing it does, of a payload that passed validation.\<close>

definition accept_linear :: "'w webhook_deps \<Rightarrow> json option \<Rightarrow> int \<Rightarrow> string \<Rightarrow> 'w ingress \<Rightarrow> 'w ingress" where
  "accept_linear deps body timestamp deliveryId s =
     (let action = coalesce (AgentHelpers.asString (member body ''action'')) [];
          type' = coalesce (AgentHelpers.asString (member body ''type'')) [];
          data = member body ''data'';
          (issueId, issueIdentifier) = extractIssueInfo data type'
      in respondAccepted (wd_workflow deps)
           \<lparr>vd_deliveryId = deliveryId, vd_type = type', vd_action = action, vd_entityId = AgentHelpers.asString (member data ''id''),
            vd_issueId = issueId, vd_issueIdentifier = issueIdentifier, vd_webhookTimestamp = Some timestamp,
            vd_payloadJson = map_option json_stringify body\<rparr>
           (Some (wd_recordDelivery deps (type' @ '':'' @ action)))
           (\<lambda>w. (None, processWebhookEvent deps type' action body issueId issueIdentifier w)) s)"

definition handleWebhookLinear :: "'w webhook_deps \<Rightarrow> webhook_request \<Rightarrow> 'w ingress \<Rightarrow> js_error option \<times> 'w ingress" where
  "handleWebhookLinear deps req s =
     (case truthy_string (wd_secret deps) of
        None \<Rightarrow> (None, respond_with 503 [(''Retry-After'', ''5'')]
                   (error_body ''webhook_not_configured'' ''Webhook signing secret is not configured'') s)
      | Some secret \<Rightarrow>
     (case truthy_string (wq_headers req ''linear-signature'') of
        None \<Rightarrow> (None, sendError 401 ''signature_missing'' ''Missing Linear-Signature header'' s)
      | Some signature \<Rightarrow>
     (case wq_rawBody req of
        None \<Rightarrow> (None, sendError 401 ''signature_invalid'' ''Unable to verify signature: raw body unavailable'' s)
      | Some rawBody \<Rightarrow>
     (case signature_valid deps rawBody signature secret of
        Inl e \<Rightarrow> (Some e, s)
      | Inr False \<Rightarrow> (None, sendError 401 ''signature_invalid'' ''Invalid webhook signature'' s)
      | Inr True \<Rightarrow>
     (case validateWebhookPayload (wq_body req) of
        Some e \<Rightarrow> (None, sendError 400 ''invalid_payload'' e s)
      | None \<Rightarrow>
          let timestamp = coalesce (asNumber (member (wq_body req) ''webhookTimestamp'')) 0
          in if \<bar>wd_now deps - timestamp\<bar> > REPLAY_WINDOW_MS
             then (None, sendError 401 ''replay_rejected'' ''Webhook timestamp outside acceptable window'' s)
             else case truthy_string (extractDeliveryId req) of
                    None \<Rightarrow> (None, sendError 400 ''delivery_missing'' ''Missing Linear delivery header'' s)
                  | Some deliveryId \<Rightarrow> (None, accept_linear deps (wq_body req) timestamp deliveryId s))))))"

section \<open>GitHub\<close>

definition SUPPORTED_GITHUB_ISSUE_ACTIONS :: "string list" where
  "SUPPORTED_GITHUB_ISSUE_ACTIONS = [''opened'', ''edited'', ''reopened'', ''closed'', ''labeled'', ''unlabeled'']"

record github_config =
  gc_githubSecret :: "string option"
  gc_trackerKind :: string
  gc_owner :: "string option"
  gc_repo :: "string option"

record 'w github_deps =
  gd_hmac :: hmac
  gd_config :: "github_config option"
  gd_targetedRefresh :: "(string \<Rightarrow> string \<Rightarrow> string \<Rightarrow> 'w \<Rightarrow> 'w) option"
  gd_stopWorker :: "(string \<Rightarrow> string \<Rightarrow> 'w \<Rightarrow> 'w) option"
  gd_workflow :: "'w workflow"

record github_context =
  gx_action :: string
  gx_deliveryId :: string
  gx_event :: string
  gx_issueId :: "string option"
  gx_issueIdentifier :: "string option"
  gx_payload :: "(string, json) omap"
  gx_repoFullName :: "string option"

datatype github_validation = GThrows js_error | GRejected int string string | GValid string

definition validateGitHubWebhookRequest :: "'w github_deps \<Rightarrow> webhook_request \<Rightarrow> github_validation" where
  "validateGitHubWebhookRequest deps req =
     (case truthy_string (Option.bind (gd_config deps) gc_githubSecret) of
        None \<Rightarrow> GRejected 503 ''webhook_not_configured'' ''GitHub webhook signing secret is not configured''
      | Some secret \<Rightarrow>
     (case truthy_string (wq_headers req ''x-hub-signature-256'') of
        None \<Rightarrow> GRejected 401 ''signature_missing'' ''Missing X-Hub-Signature-256 header''
      | Some signature \<Rightarrow>
     (case wq_rawBody req of
        None \<Rightarrow> GRejected 401 ''signature_invalid'' ''Unable to verify signature: raw body unavailable''
      | Some rawBody \<Rightarrow>
     (case verifyGitHubSignature (gd_hmac deps) rawBody signature secret of
        Inl e \<Rightarrow> GThrows e
      | Inr False \<Rightarrow> GRejected 401 ''signature_invalid'' ''Invalid GitHub webhook signature''
      | Inr True \<Rightarrow>
     (case truthy_string (wq_headers req ''x-github-event'') of
        None \<Rightarrow> GRejected 400 ''event_missing'' ''Missing X-GitHub-Event header''
      | Some event \<Rightarrow>
          if truthy_string (map_option js_trim (wq_headers req ''x-github-delivery'')) = None
          then GRejected 400 ''delivery_missing'' ''Missing X-GitHub-Delivery header''
          else if wf_insert (gd_workflow deps) = None
          then GRejected 503 ''webhook_inbox_unavailable'' ''GitHub webhook inbox persistence is unavailable''
          else GValid event)))))"

definition buildGitHubWebhookContext :: "webhook_request \<Rightarrow> string \<Rightarrow> github_context" where
  "buildGitHubWebhookContext req event =
     (let payload = Some (JObj (AgentHelpers.asRecord (wq_body req)));
          repo = AgentHelpers.asString (member (member payload ''repository'') ''full_name'');
          issueNumber = asNumber (member (member payload ''issue'') ''number'')
      in \<lparr>gx_action = coalesce (AgentHelpers.asString (member payload ''action'')) ''unknown'',
          gx_deliveryId = coalesce (map_option js_trim (wq_headers req ''x-github-delivery'')) [],
          gx_event = event,
          gx_issueId = map_option show_int issueNumber,
          gx_issueIdentifier = (case (issueNumber, truthy_string repo) of
             (Some n, Some r) \<Rightarrow> Some (r @ ''#'' @ show_int n) | _ \<Rightarrow> None),
          gx_payload = AgentHelpers.asRecord (wq_body req),
          gx_repoFullName = repo\<rparr>)"

definition configured_repo :: "github_config option \<Rightarrow> string option" where
  "configured_repo config =
     (case config of
        None \<Rightarrow> None
      | Some c \<Rightarrow>
          (case (gc_trackerKind c = ''github'', truthy_string (gc_owner c), truthy_string (gc_repo c)) of
             (True, Some ow, Some r) \<Rightarrow> Some (js_lower (ow @ ''/'' @ r))
           | _ \<Rightarrow> None))"

definition processGitHubWebhook :: "'w github_deps \<Rightarrow> github_context \<Rightarrow> 'w \<Rightarrow> 'w" where
  "processGitHubWebhook deps gx w =
     (if gx_event gx \<noteq> ''issues'' \<or> gx_action gx \<notin> set SUPPORTED_GITHUB_ISSUE_ACTIONS then w
      else case (configured_repo (gd_config deps), truthy_string (gx_repoFullName gx)) of
        (Some repo, Some full) \<Rightarrow>
          if repo \<noteq> js_lower full then w
          else (case (truthy_string (gx_issueId gx), truthy_string (gx_issueIdentifier gx)) of
             (Some i, Some ident) \<Rightarrow>
               let w1 = (case gd_targetedRefresh deps of None \<Rightarrow> w
                  | Some refresh \<Rightarrow> refresh i ident (''github:'' @ gx_event gx @ '':'' @ gx_action gx) w)
               in if gx_action gx = ''closed''
                  then (case gd_stopWorker deps of None \<Rightarrow> w1
                     | Some halt \<Rightarrow> halt ident ''github webhook reported issue closed'' w1)
                  else w1
           | _ \<Rightarrow> w)
      | _ \<Rightarrow> w)"

definition github_delivery :: "github_context \<Rightarrow> verified_delivery" where
  "github_delivery gx =
     \<lparr>vd_deliveryId = gx_deliveryId gx, vd_type = gx_event gx, vd_action = gx_action gx, vd_entityId = gx_issueId gx,
      vd_issueId = gx_issueId gx, vd_issueIdentifier = gx_issueIdentifier gx, vd_webhookTimestamp = None,
      vd_payloadJson = Some (json_stringify (JObj (gx_payload gx)))\<rparr>"

definition handleWebhookGitHub :: "'w github_deps \<Rightarrow> webhook_request \<Rightarrow> 'w ingress \<Rightarrow> js_error option \<times> 'w ingress" where
  "handleWebhookGitHub deps req s =
     (case validateGitHubWebhookRequest deps req of
        GThrows e \<Rightarrow> (Some e, s)
      | GRejected status code message \<Rightarrow> (None, sendError status code message s)
      | GValid event \<Rightarrow>
          let gx = buildGitHubWebhookContext req event
          in (None, respondAccepted (gd_workflow deps) (github_delivery gx) None
                (\<lambda>w. (None, processGitHubWebhook deps gx w)) s))"

section \<open>The wiring\<close>

text \<open>
  The world of the running service, as far as webhooks reach it: the inbox, the orchestrator, the health
  tracker (absent when no secret is configured) and the \<open>system.error\<close> events emitted.
\<close>

record ingress_world =
  iw_inbox :: inbox
  iw_orch :: orchestrator
  iw_tracker :: "tracker option"
  iw_errors :: "(string \<times> json) list"

text \<open>\<open>sw_dbError\<close> is the error the database raises at this request, if any.\<close>

record wiring =
  sw_now :: int
  sw_hmac :: hmac
  sw_webhookUrlSet :: bool
  sw_secret :: "string option"
  sw_previousSecret :: "string option"
  sw_dbError :: "js_error option"
  sw_github :: "github_config option"

definition on_orch :: "(orchestrator \<Rightarrow> orchestrator) \<Rightarrow> ingress_world \<Rightarrow> ingress_world" where
  "on_orch f w = w\<lparr>iw_orch := f (iw_orch w)\<rparr>"

definition wired_insert :: "wiring \<Rightarrow> verified_delivery \<Rightarrow> ingress_world \<Rightarrow> (js_error + bool) \<times> ingress_world" where
  "wired_insert sw d w =
     (case sw_dbError sw of
        Some e \<Rightarrow> (Inl e, w)
      | None \<Rightarrow> (case insertVerified (iso_of_ms (sw_now sw)) d (iw_inbox w) of
          (isNew, t) \<Rightarrow> (Inr isNew, w\<lparr>iw_inbox := t\<rparr>)))"

definition wired_workflow :: "wiring \<Rightarrow> ingress_world workflow" where
  "wired_workflow sw =
     \<lparr>wf_insert = Some (wired_insert sw),
      wf_systemError = Some (\<lambda>message context w. w\<lparr>iw_errors := iw_errors w @ [(message, context)]\<rparr>)\<rparr>"

definition wired_refresh :: "wiring \<Rightarrow> string \<Rightarrow> string \<Rightarrow> string \<Rightarrow> ingress_world \<Rightarrow> ingress_world" where
  "wired_refresh sw issueId issueIdentifier reason w =
     on_orch (\<lambda>x. snd (handleRefreshCommand (sw_now sw) (Some issueId) (Some issueIdentifier) x)) w"

definition wired_stop :: "wiring \<Rightarrow> string \<Rightarrow> string \<Rightarrow> ingress_world \<Rightarrow> ingress_world" where
  "wired_stop sw issueIdentifier reason w = on_orch (stopWorkerForIssue (sw_now sw) issueIdentifier reason) w"

definition buildHandlerDeps :: "wiring \<Rightarrow> ingress_world webhook_deps option" where
  "buildHandlerDeps sw =
     (if \<not> sw_webhookUrlSet sw then None
      else Some \<lparr>wd_now = sw_now sw, wd_hmac = sw_hmac sw, wd_secret = sw_secret sw,
        wd_previousSecret = sw_previousSecret sw,
        wd_requestRefresh = (\<lambda>reason w. on_orch (requestRefresh (sw_now sw)) w),
        wd_targetedRefresh = Some (wired_refresh sw), wd_stopWorker = Some (wired_stop sw),
        wd_recordDelivery = (\<lambda>eventType w. w\<lparr>iw_tracker := map_option (recordVerifiedDelivery (sw_now sw) eventType) (iw_tracker w)\<rparr>),
        wd_workflow = wired_workflow sw\<rparr>)"

definition githubWebhookDeps :: "wiring \<Rightarrow> ingress_world github_deps" where
  "githubWebhookDeps sw =
     \<lparr>gd_hmac = sw_hmac sw, gd_config = sw_github sw, gd_targetedRefresh = Some (wired_refresh sw),
      gd_stopWorker = Some (wired_stop sw), gd_workflow = wired_workflow sw\<rparr>"

text \<open>The two POST routes; without a webhook URL they are not registered.\<close>

datatype webhook_route = LinearRoute | GitHubRoute

definition webhook_post ::
  "wiring \<Rightarrow> webhook_route \<Rightarrow> webhook_request \<Rightarrow> ingress_world ingress \<Rightarrow> js_error option \<times> ingress_world ingress" where
  "webhook_post sw route req s =
     (case buildHandlerDeps sw of
        None \<Rightarrow> (None, s)
      | Some deps \<Rightarrow>
          (case route of LinearRoute \<Rightarrow> handleWebhookLinear deps req s
           | GitHubRoute \<Rightarrow> handleWebhookGitHub (githubWebhookDeps sw) req s))"

end
