(* ===== verification/WebhookIngressClaims.thy ===== *)
theory WebhookIngressClaims
  imports WebhookIngress
begin

text \<open>What webhook ingress guarantees: authenticity, one response, de-duplication, and what a delivery does.\<close>

section \<open>Signatures\<close>

lemma char_of_small: "n < 256 \<Longrightarrow> (of_char (char_of n :: char) :: nat) = n"
  by (simp add: of_char_of)

lemma of_char_less: "(of_char (c :: char) :: nat) < 256"
  using of_char_mod_256 [of c, where ?'a = nat] by linarith

lemma utf8_char_cases:
  "utf8_char c = (if (of_char c :: nat) < 128 then [c]
     else [char_of (192 + (of_char c :: nat) div 64), char_of (128 + (of_char c :: nat) mod 64)])"
  by (simp add: utf8_char_def Let_def)

lemma utf8_head:
  assumes "\<not> (of_char c :: nat) < 128"
  shows "(of_char (char_of (192 + (of_char c :: nat) div 64) :: char) :: nat) = 192 + of_char c div 64"
    and "(of_char (char_of (128 + (of_char c :: nat) mod 64) :: char) :: nat) = 128 + of_char c mod 64"
proof -
  have "(of_char c :: nat) div 64 < 4" using of_char_less [of c] by linarith
  then show "(of_char (char_of (192 + (of_char c :: nat) div 64) :: char) :: nat) = 192 + of_char c div 64"
    by (intro char_of_small) simp
  have "(of_char c :: nat) mod 64 < 64" by simp
  then show "(of_char (char_of (128 + (of_char c :: nat) mod 64) :: char) :: nat) = 128 + of_char c mod 64"
    by (intro char_of_small) linarith
qed

lemma utf8_char_append:
  assumes "utf8_char c @ x = utf8_char d @ y"
  shows "c = d \<and> x = y"
proof -
  let ?n = "of_char c :: nat" and ?m = "of_char d :: nat"
  consider (aa) "?n < 128" "?m < 128" | (ab) "?n < 128" "\<not> ?m < 128" | (ba) "\<not> ?n < 128" "?m < 128"
    | (bb) "\<not> ?n < 128" "\<not> ?m < 128" by blast
  then show ?thesis
  proof cases
    case aa
    then show ?thesis using assms by (simp add: utf8_char_cases)
  next
    case ab
    then have "c = char_of (192 + ?m div 64)" using assms by (simp add: utf8_char_cases)
    then show ?thesis using ab utf8_head(1) [of d] by simp
  next
    case ba
    then have "d = char_of (192 + ?n div 64)" using assms by (simp add: utf8_char_cases)
    then show ?thesis using ba utf8_head(1) [of c] by simp
  next
    case bb
    then have e: "(char_of (192 + ?n div 64) :: char) = char_of (192 + ?m div 64)"
      "(char_of (128 + ?n mod 64) :: char) = char_of (128 + ?m mod 64)" "x = y"
      using assms by (simp_all add: utf8_char_cases)
    have "?n div 64 = ?m div 64" using arg_cong [OF e(1), of "of_char :: char \<Rightarrow> nat"] utf8_head(1) bb by simp
    moreover have "?n mod 64 = ?m mod 64" using arg_cong [OF e(2), of "of_char :: char \<Rightarrow> nat"] utf8_head(2) bb by simp
    ultimately have "?n = ?m" by (metis div_mult_mod_eq)
    then show ?thesis using e(3) by (simp add: of_char_eq_iff)
  qed
qed

lemma utf8_char_nonempty [simp]: "utf8_char c \<noteq> []"
  by (simp add: utf8_char_cases)

lemma buffer_from_inj: "buffer_from a = buffer_from b \<longleftrightarrow> a = b"
proof (induction a arbitrary: b)
  case Nil
  then show ?case by (cases b) (auto simp: buffer_from_def)
next
  case (Cons c a)
  show ?case
  proof (cases b)
    case (Cons d b')
    then show ?thesis using Cons.IH [of b'] utf8_char_append [of c "buffer_from a" d "buffer_from b'"]
      by (auto simp: buffer_from_def)
  qed (simp add: buffer_from_def)
qed

definition ascii :: "string \<Rightarrow> bool" where
  "ascii s \<longleftrightarrow> (\<forall>c \<in> set s. (of_char c :: nat) < 128)"

lemma length_buffer_from: "length (buffer_from s) = length s + length (filter (\<lambda>c. \<not> (of_char c :: nat) < 128) s)"
  by (induction s) (auto simp: buffer_from_def utf8_char_cases)

lemma buffer_from_ascii: "length (buffer_from s) = length s \<longleftrightarrow> ascii s"
  by (auto simp: length_buffer_from ascii_def filter_empty_conv)

lemma compare_true:
  "(if length a \<noteq> length b then Inr False else timingSafeEqual (buffer_from a) (buffer_from b)) = Inr True \<longleftrightarrow> b = a"
  by (auto simp: timingSafeEqual_def buffer_from_inj)

lemma linear_signature_true: "verifyLinearSignature hm raw sig sec = Inr True \<longleftrightarrow> sig = hm sec raw"
  unfolding verifyLinearSignature_def Let_def by (rule compare_true)

lemma github_signature_true:
  "verifyGitHubSignature hm raw sig sec = Inr True \<longleftrightarrow>
     (if starts_with ''sha256='' sig then drop 7 sig else sig) = hm sec raw"
  unfolding verifyGitHubSignature_def Let_def by (rule compare_true)

lemma linear_signature_throws:
  "isl (verifyLinearSignature hm raw sig sec) \<longleftrightarrow>
     length sig = length (hm sec raw) \<and> length (buffer_from sig) \<noteq> length (buffer_from (hm sec raw))"
  unfolding verifyLinearSignature_def Let_def timingSafeEqual_def by auto

section \<open>Handlers\<close>

lemma truthy_Some: "truthy_string s = Some x \<longleftrightarrow> s = Some x \<and> x \<noteq> []"
  by (auto simp: truthy_string_def)

lemma signature_valid_true:
  "signature_valid deps raw sig sec = Inr True \<Longrightarrow>
     sig = wd_hmac deps sec raw \<or> (\<exists>p. wd_previousSecret deps = Some p \<and> p \<noteq> [] \<and> sig = wd_hmac deps p raw)"
proof -
  assume a: "signature_valid deps raw sig sec = Inr True"
  consider (err) err where "verifyLinearSignature (wd_hmac deps) raw sig sec = Inl err"
    | (yes) "verifyLinearSignature (wd_hmac deps) raw sig sec = Inr True"
    | (no) "verifyLinearSignature (wd_hmac deps) raw sig sec = Inr False"
    by (cases "verifyLinearSignature (wd_hmac deps) raw sig sec") auto
  then show ?thesis
  proof cases
    case no
    with a obtain p where "truthy_string (wd_previousSecret deps) = Some p" "verifyLinearSignature (wd_hmac deps) raw sig p = Inr True"
      by (auto simp: signature_valid_def split: option.splits)
    then show ?thesis by (auto simp: linear_signature_true truthy_Some)
  qed (use a in \<open>auto simp: signature_valid_def linear_signature_true\<close>)
qed

text \<open>What an accepted request passed: its signature, its shape, its timestamp and its id.\<close>

definition linear_checks :: "'w webhook_deps \<Rightarrow> webhook_request \<Rightarrow> int \<Rightarrow> string \<Rightarrow> bool" where
  "linear_checks deps req timestamp deliveryId \<longleftrightarrow>
     (\<exists>secret raw sig. wd_secret deps = Some secret \<and> secret \<noteq> [] \<and> wq_rawBody req = Some raw \<and>
        wq_headers req ''linear-signature'' = Some sig \<and> sig \<noteq> [] \<and> signature_valid deps raw sig secret = Inr True) \<and>
     validateWebhookPayload (wq_body req) = None \<and>
     member (wq_body req) ''webhookTimestamp'' = Some (JNum timestamp) \<and> \<bar>wd_now deps - timestamp\<bar> \<le> 60000 \<and>
     extractDeliveryId req = Some deliveryId \<and> deliveryId \<noteq> []"

lemma asNumber_Some: "asNumber v = Some n \<longleftrightarrow> v = Some (JNum n)"
  by (auto simp: asNumber_def split: option.splits json.splits)

text \<open>A request either changes no world or is handed to \<open>accept_linear\<close> after every check.\<close>

lemma asNumber_JNum [simp]: "asNumber (Some (JNum n)) = Some n"
  by (simp add: asNumber_def)

text \<open>Rejections.\<close>

definition rejected :: "js_error option \<Rightarrow> 'w ingress \<Rightarrow> 'w ingress \<Rightarrow> bool" where
  "rejected e s t \<longleftrightarrow> in_world t = in_world s \<and>
     (if e = None then \<exists>r. in_responses t = in_responses s @ [r] \<and> ws_status r \<in> {400, 401, 503} else t = s)"

lemma rejected_simps [simp]:
  "st \<in> {400, 401, 503} \<Longrightarrow> rejected None s (respond_with st hs b s)"
  "st \<in> {400, 401, 503} \<Longrightarrow> rejected None s (sendError st c m s)"
  "rejected (Some err) s s"
  by (auto simp: rejected_def sendError_def respond_with_def)

lemma linear_cases:
  assumes "handleWebhookLinear deps req s = (e, t)"
  shows "rejected e s t \<or> (\<exists>ts i. e = None \<and> linear_checks deps req ts i \<and> t = accept_linear deps (wq_body req) ts i s)"
proof -
  consider (secret) "truthy_string (wd_secret deps) = None"
    | (sig) secret where "truthy_string (wd_secret deps) = Some secret" "truthy_string (wq_headers req ''linear-signature'') = None"
    | (raw) secret sig where "truthy_string (wd_secret deps) = Some secret"
        "truthy_string (wq_headers req ''linear-signature'') = Some sig" "wq_rawBody req = None"
    | (checked) secret sig raw where "truthy_string (wd_secret deps) = Some secret"
        "truthy_string (wq_headers req ''linear-signature'') = Some sig" "wq_rawBody req = Some raw"
    by blast
  then show ?thesis
  proof cases
    case checked
    consider (throws) err where "signature_valid deps raw sig secret = Inl err"
      | (forged) "signature_valid deps raw sig secret = Inr False"
      | (payload) err where "signature_valid deps raw sig secret = Inr True" "validateWebhookPayload (wq_body req) = Some err"
      | (valid) "signature_valid deps raw sig secret = Inr True" "validateWebhookPayload (wq_body req) = None"
      by (cases "signature_valid deps raw sig secret") auto
    then show ?thesis
    proof cases
      case valid
      then obtain ts where ts: "member (wq_body req) ''webhookTimestamp'' = Some (JNum ts)"
        by (auto simp: validateWebhookPayload_def asNumber_Some split: if_splits)
      show ?thesis
      proof (cases "\<bar>wd_now deps - ts\<bar> > 60000 \<or> truthy_string (extractDeliveryId req) = None")
        case True
        then have "rejected e s t" using assms checked valid ts
          by (auto simp: handleWebhookLinear_def REPLAY_WINDOW_MS_def split: if_splits)
        then show ?thesis ..
      next
        case False
        then obtain i where i: "truthy_string (extractDeliveryId req) = Some i" by blast
        then have "e = None" "t = accept_linear deps (wq_body req) ts i s"
          using assms checked valid ts False by (simp_all add: handleWebhookLinear_def REPLAY_WINDOW_MS_def)
        moreover have "linear_checks deps req ts i"
          using checked valid ts False i by (auto simp: linear_checks_def truthy_Some)
        ultimately show ?thesis by blast
      qed
    qed (use assms checked in \<open>auto simp: handleWebhookLinear_def\<close>)
  qed (use assms in \<open>auto simp: handleWebhookLinear_def\<close>)
qed

lemma respondAccepted_responses:
  "\<exists>r. in_responses (respondAccepted flow d rv p s) = in_responses s @ [r] \<and> ws_status r \<in> {200, 503}"
  by (auto simp: respondAccepted_def sendError_def respond_with_def Let_def split: prod.splits option.splits)

lemma accept_linear_responses:
  "\<exists>r. in_responses (accept_linear deps body ts i s) = in_responses s @ [r] \<and> ws_status r \<in> {200, 503}"
  unfolding accept_linear_def Let_def by (simp only: case_prod_beta) (rule respondAccepted_responses)

lemma github_cases:
  assumes "handleWebhookGitHub deps req s = (e, t)"
  shows "rejected e s t \<or>
    (\<exists>event. e = None \<and> validateGitHubWebhookRequest deps req = GValid event \<and>
       t = respondAccepted (gd_workflow deps) (github_delivery (buildGitHubWebhookContext req event)) None
         (\<lambda>w. (None, processGitHubWebhook deps (buildGitHubWebhookContext req event) w)) s)"
proof (cases "validateGitHubWebhookRequest deps req")
  case (GRejected st c m)
  then have "st \<in> {400, 401, 503}"
    by (auto simp: validateGitHubWebhookRequest_def split: option.splits sum.splits bool.splits if_splits)
  then show ?thesis using assms GRejected by (auto simp: handleWebhookGitHub_def)
qed (use assms in \<open>auto simp: handleWebhookGitHub_def Let_def\<close>)

section \<open>The wired service\<close>

text \<open>The delivery id a request carries, under the name its route reads.\<close>

definition request_delivery :: "webhook_route \<Rightarrow> webhook_request \<Rightarrow> string option" where
  "request_delivery route req =
     (case route of LinearRoute \<Rightarrow> truthy_string (extractDeliveryId req)
      | GitHubRoute \<Rightarrow> truthy_string (map_option js_trim (wq_headers req ''x-github-delivery'')))"

definition inbox_ids :: "ingress_world \<Rightarrow> string set" where
  "inbox_ids w = set (map dr_id (iw_inbox w))"

lemma on_orch_fields [simp]:
  "iw_inbox (on_orch f w) = iw_inbox w" "iw_tracker (on_orch f w) = iw_tracker w" "iw_errors (on_orch f w) = iw_errors w"
  "iw_orch (on_orch f w) = f (iw_orch w)"
  by (simp_all add: on_orch_def)

lemma wired_deps_inbox:
  assumes "buildHandlerDeps sw = Some deps"
  shows "iw_inbox (processWebhookEvent deps ty ac body i d w) = iw_inbox w"
proof -
  have refresh: "iw_inbox (wd_requestRefresh deps r w) = iw_inbox w" for r w
    using assms by (auto simp: buildHandlerDeps_def split: if_splits)
  have target: "iw_inbox (f a b c w) = iw_inbox w" if "targeted deps i d = Some (x, y, f)" for x y f a b c w
    using assms that by (auto simp: buildHandlerDeps_def targeted_def wired_refresh_def split: if_splits option.splits)
  have halt: "iw_inbox (maybeStopWorker deps ac body id' w) = iw_inbox w" for id' w
    using assms by (auto simp: buildHandlerDeps_def maybeStopWorker_def wired_stop_def split: if_splits option.splits)
  show ?thesis
    by (auto simp: processWebhookEvent_def handleIssueEvent_def handleCommentEvent_def refresh target halt split: option.splits)
qed

lemma wired_github_inbox: "iw_inbox (processGitHubWebhook (githubWebhookDeps sw) gx w) = iw_inbox w"
proof -
  have "gd_targetedRefresh (githubWebhookDeps sw) = Some (wired_refresh sw)"
    "gd_stopWorker (githubWebhookDeps sw) = Some (wired_stop sw)"
    by (simp_all add: githubWebhookDeps_def)
  then show ?thesis
    by (simp add: processGitHubWebhook_def Let_def wired_refresh_def wired_stop_def split: option.split)
qed

text \<open>The three ways a delivery can go.\<close>

lemma wired_respond:
  assumes t: "t = respondAccepted (wired_workflow sw) d rv p s"
    and p: "\<And>w. iw_inbox (snd (p w)) = iw_inbox w"
    and r: "\<And>f w. rv = Some f \<Longrightarrow> iw_inbox (f w) = iw_inbox w"
  shows "(sw_dbError sw \<noteq> None \<and> in_world t\<lparr>iw_errors := iw_errors (in_world s)\<rparr> = in_world s \<and>
       ws_status (last (in_responses t)) = 503) \<or>
     (sw_dbError sw = None \<and> vd_deliveryId d \<in> inbox_ids (in_world s) \<and> in_world t = in_world s) \<or>
     (sw_dbError sw = None \<and> vd_deliveryId d \<notin> inbox_ids (in_world s) \<and>
       iw_inbox (in_world t) = snd (insertVerified (iso_of_ms (sw_now sw)) d (iw_inbox (in_world s))))"
proof (cases "sw_dbError sw")
  case None
  show ?thesis
  proof (cases "vd_deliveryId d \<in> inbox_ids (in_world s)")
    case True
    then have "insertVerified (iso_of_ms (sw_now sw)) d (iw_inbox (in_world s)) = (False, iw_inbox (in_world s))"
      by (simp add: inbox_ids_def insert_duplicate)
    then show ?thesis using True None t
      by (simp add: respondAccepted_def ensureNew_def wired_workflow_def wired_insert_def respond_with_def)
  next
    case False
    then have "fst (insertVerified (iso_of_ms (sw_now sw)) d (iw_inbox (in_world s)))"
      by (simp add: inbox_ids_def insertVerified_def)
    then show ?thesis using False None t p r
      by (auto simp: respondAccepted_def ensureNew_def wired_workflow_def wired_insert_def respond_with_def
          split: prod.split option.split)
  qed
qed (use t in \<open>auto simp: respondAccepted_def ensureNew_def wired_workflow_def wired_insert_def sendError_def respond_with_def\<close>)

definition webhook_run :: "(wiring \<times> webhook_route \<times> webhook_request) list \<Rightarrow> ingress_world ingress \<Rightarrow> ingress_world ingress" where
  "webhook_run reqs s = fold (\<lambda>(sw, route, req) x. snd (webhook_post sw route req x)) reqs s"

text \<open>A request changes nothing but the error log, or it carries an id that is then in the inbox.\<close>

lemma post_cases:
  assumes "webhook_post sw route req s = (e, t)"
  shows "(in_world t\<lparr>iw_errors := iw_errors (in_world s)\<rparr> = in_world s \<and>
      (\<forall>r. in_responses t = in_responses s @ [r] \<longrightarrow> ws_status r \<noteq> 200)) \<or>
    (\<exists>i. request_delivery route req = Some i \<and> i \<in> inbox_ids (in_world s) \<and> in_world t = in_world s) \<or>
    (\<exists>d. request_delivery route req = Some (vd_deliveryId d) \<and> vd_deliveryId d \<notin> inbox_ids (in_world s) \<and>
      iw_inbox (in_world t) = snd (insertVerified (iso_of_ms (sw_now sw)) d (iw_inbox (in_world s))))"
proof (cases "buildHandlerDeps sw")
  case None
  then show ?thesis using assms by (simp add: webhook_post_def)
next
  case (Some deps)
  have flow: "wd_workflow deps = wired_workflow sw" "gd_workflow (githubWebhookDeps sw) = wired_workflow sw"
    using Some by (auto simp: buildHandlerDeps_def githubWebhookDeps_def split: if_splits)
  have track: "iw_inbox (wd_recordDelivery deps ty w) = iw_inbox w" for ty w
    using Some by (auto simp: buildHandlerDeps_def split: if_splits)
  have reject: "?thesis" if "rejected e s t"
    using that by (intro disjI1) (auto simp: rejected_def split: if_splits)
  have accept: "?thesis" if "t = respondAccepted (wired_workflow sw) d rv p s" "request_delivery route req = Some (vd_deliveryId d)"
    "\<And>w. iw_inbox (snd (p w)) = iw_inbox w" "\<And>f w. rv = Some f \<Longrightarrow> iw_inbox (f w) = iw_inbox w" for d rv p
  proof -
    have ins: "\<And>f w. rv = Some f \<longrightarrow> iw_inbox (f w) = iw_inbox w" using that(4) by blast
    have "in_world t\<lparr>iw_errors := iw_errors (in_world s)\<rparr> = in_world s \<and> ws_status (last (in_responses t)) = 503 \<or>
      vd_deliveryId d \<in> inbox_ids (in_world s) \<and> in_world t = in_world s \<or>
      vd_deliveryId d \<notin> inbox_ids (in_world s) \<and>
      iw_inbox (in_world t) = snd (insertVerified (iso_of_ms (sw_now sw)) d (iw_inbox (in_world s)))"
      using wired_respond [of t sw d rv p s] that(1,3) ins by blast
    then show ?thesis using that(2) by (elim disjE conjE) auto
  qed
  show ?thesis
  proof (cases route)
    case LinearRoute
    then have "handleWebhookLinear deps req s = (e, t)" using assms Some by (simp add: webhook_post_def)
    from linear_cases [OF this] show ?thesis
    proof
      assume "\<exists>ts i. e = None \<and> linear_checks deps req ts i \<and> t = accept_linear deps (wq_body req) ts i s"
      then obtain ts i where l: "linear_checks deps req ts i" "t = accept_linear deps (wq_body req) ts i s" by blast
      then have "request_delivery route req = Some i"
        using LinearRoute by (simp add: request_delivery_def linear_checks_def truthy_Some)
      then show ?thesis using l(2) wired_deps_inbox [OF Some] track
        unfolding accept_linear_def Let_def flow case_prod_beta by (elim accept) auto
    qed (rule reject)
  next
    case GitHubRoute
    then have "handleWebhookGitHub (githubWebhookDeps sw) req s = (e, t)" using assms Some by (simp add: webhook_post_def)
    from github_cases [OF this] show ?thesis
    proof
      assume "\<exists>event. e = None \<and> validateGitHubWebhookRequest (githubWebhookDeps sw) req = GValid event \<and>
        t = respondAccepted (gd_workflow (githubWebhookDeps sw)) (github_delivery (buildGitHubWebhookContext req event)) None
          (\<lambda>w. (None, processGitHubWebhook (githubWebhookDeps sw) (buildGitHubWebhookContext req event) w)) s"
      then obtain event where g: "validateGitHubWebhookRequest (githubWebhookDeps sw) req = GValid event"
        "t = respondAccepted (wired_workflow sw) (github_delivery (buildGitHubWebhookContext req event)) None
          (\<lambda>w. (None, processGitHubWebhook (githubWebhookDeps sw) (buildGitHubWebhookContext req event) w)) s"
        unfolding flow by blast
      have "truthy_string (map_option js_trim (wq_headers req ''x-github-delivery'')) \<noteq> None"
        using g(1) by (auto simp: validateGitHubWebhookRequest_def split: option.splits sum.splits bool.splits if_splits)
      then have "request_delivery route req = Some (vd_deliveryId (github_delivery (buildGitHubWebhookContext req event)))"
        using GitHubRoute by (auto simp: request_delivery_def github_delivery_def buildGitHubWebhookContext_def Let_def truthy_Some)
      then show ?thesis using accept [OF g(2)] wired_github_inbox by simp
    qed (rule reject)
  qed
qed

section \<open>Properties\<close>

text \<open>
  C19: a Linear delivery changes the world of the service only if its raw body is signed under the current
  secret or a configured previous one, its timestamp is within a minute of the clock and it names a delivery.
\<close>

theorem webhook_effects_authentic:
  assumes "handleWebhookLinear deps req s = (e, t)" and "in_world t \<noteq> in_world s"
  shows "\<exists>raw sig secret ts i. wq_rawBody req = Some raw \<and> wq_headers req ''linear-signature'' = Some sig \<and>
    (wd_secret deps = Some secret \<or> wd_previousSecret deps = Some secret) \<and> secret \<noteq> [] \<and> sig = wd_hmac deps secret raw \<and>
    member (wq_body req) ''webhookTimestamp'' = Some (JNum ts) \<and> \<bar>wd_now deps - ts\<bar> \<le> 60000 \<and>
    extractDeliveryId req = Some i \<and> i \<noteq> []"
proof -
  obtain ts i where "linear_checks deps req ts i" using linear_cases [OF assms(1)] assms(2) by (auto simp: rejected_def)
  then obtain secret raw sig where c: "wd_secret deps = Some secret" "secret \<noteq> []" "wq_rawBody req = Some raw"
    "wq_headers req ''linear-signature'' = Some sig" "signature_valid deps raw sig secret = Inr True"
    "member (wq_body req) ''webhookTimestamp'' = Some (JNum ts)" "\<bar>wd_now deps - ts\<bar> \<le> 60000"
    "extractDeliveryId req = Some i" "i \<noteq> []"
    by (auto simp: linear_checks_def)
  from signature_valid_true [OF c(5)] show ?thesis
  proof
    assume "sig = wd_hmac deps secret raw"
    with c show ?thesis by blast
  next
    assume "\<exists>p. wd_previousSecret deps = Some p \<and> p \<noteq> [] \<and> sig = wd_hmac deps p raw"
    with c show ?thesis by blast
  qed
qed

text \<open>
  Every webhook request is answered exactly once, unless the handler throws, which leaves everything as
  it was.
\<close>

theorem webhook_answered_once:
  "case (handleWebhookLinear deps req s, handleWebhookGitHub gdeps req s) of ((e, t), (ge, gt)) \<Rightarrow>
     length (in_responses t) = length (in_responses s) + (if e = None then 1 else 0) \<and> (e = None \<or> t = s) \<and>
     length (in_responses gt) = length (in_responses s) + (if ge = None then 1 else 0) \<and> (ge = None \<or> gt = s)"
proof -
  obtain e t ge gt where l: "handleWebhookLinear deps req s = (e, t)" and g: "handleWebhookGitHub gdeps req s = (ge, gt)"
    by fastforce
  have "length (in_responses t) = length (in_responses s) + (if e = None then 1 else 0) \<and> (e = None \<or> t = s)"
    using linear_cases [OF l]
  proof
    assume "\<exists>ts i. e = None \<and> linear_checks deps req ts i \<and> t = accept_linear deps (wq_body req) ts i s"
    then obtain ts i where "e = None" "t = accept_linear deps (wq_body req) ts i s" by blast
    then show ?thesis using accept_linear_responses [of deps "wq_body req" ts i s] by auto
  qed (auto simp: rejected_def split: if_splits)
  moreover have "length (in_responses gt) = length (in_responses s) + (if ge = None then 1 else 0) \<and> (ge = None \<or> gt = s)"
    using github_cases [OF g]
  proof
    assume "\<exists>event. ge = None \<and> validateGitHubWebhookRequest gdeps req = GValid event \<and>
       gt = respondAccepted (gd_workflow gdeps) (github_delivery (buildGitHubWebhookContext req event)) None
         (\<lambda>w. (None, processGitHubWebhook gdeps (buildGitHubWebhookContext req event) w)) s"
    then obtain d p where "ge = None" "gt = respondAccepted (gd_workflow gdeps) d None p s" by blast
    then show ?thesis using respondAccepted_responses [of "gd_workflow gdeps" d None p s] by auto
  qed (auto simp: rejected_def split: if_splits)
  ultimately show ?thesis by (simp add: l g)
qed

text \<open>
  The check accepts the HMAC and nothing else; but a signature of the right length with a character
  outside ASCII makes \<open>timingSafeEqual\<close> throw, which rejects the request with an exception of the handler
  instead of an answer.
\<close>

theorem signature_exact:
  "(verifyLinearSignature hm raw sig sec = Inr True) = (sig = hm sec raw) \<and>
   (verifyGitHubSignature hm raw (''sha256='' @ sig) sec = Inr True) = (sig = hm sec raw) \<and>
   isl (verifyLinearSignature hm raw sig sec) =
     (length sig = length (hm sec raw) \<and> length (buffer_from sig) \<noteq> length (buffer_from (hm sec raw)))"
  by (simp add: linear_signature_true github_signature_true linear_signature_throws)

lemma post_inbox_grows: "inbox_ids (in_world s) \<subseteq> inbox_ids (in_world (snd (webhook_post sw route req s)))"
proof -
  obtain e t where p: "webhook_post sw route req s = (e, t)" by fastforce
  have "in_world t\<lparr>iw_errors := iw_errors (in_world s)\<rparr> = in_world s \<Longrightarrow> iw_inbox (in_world t) = iw_inbox (in_world s)"
    by (metis ingress_world.select_convs(1) ingress_world.surjective ingress_world.update_convs(4))
  then show ?thesis using post_cases [OF p]
    by (auto simp: p inbox_ids_def insertVerified_def simp del: set_map)
qed

lemma run_inbox_grows: "i \<in> inbox_ids (in_world s) \<Longrightarrow> i \<in> inbox_ids (in_world (webhook_run reqs s))"
proof (induction reqs arbitrary: s)
  case (Cons q reqs)
  then show ?case using post_inbox_grows [of s "fst q" "fst (snd q)" "snd (snd q)"]
    by (auto simp: webhook_run_def case_prod_beta)
qed (simp add: webhook_run_def)

text \<open>
  C17: once a delivery has been accepted (answered 200), a delivery with the same id that comes after it,
  whatever came between, on either route, changes neither the orchestrator nor the health tracker nor the inbox.
\<close>

theorem redelivery_has_no_effect:
  assumes "webhook_post sw route req s = (e, t)" and "in_responses t = in_responses s @ [r]" and "ws_status r = 200"
    and "request_delivery route2 req2 = request_delivery route req"
  shows "(in_world (snd (webhook_post sw2 route2 req2 (webhook_run later t))))\<lparr>iw_errors := iw_errors (in_world (webhook_run later t))\<rparr> =
    in_world (webhook_run later t)"
proof -
  let ?u = "webhook_run later t"
  obtain i where i: "request_delivery route req = Some i" "i \<in> inbox_ids (in_world t)"
  proof -
    consider (seen) i where "request_delivery route req = Some i" "i \<in> inbox_ids (in_world s)" "in_world t = in_world s"
      | (fresh) d where "request_delivery route req = Some (vd_deliveryId d)"
          "iw_inbox (in_world t) = snd (insertVerified (iso_of_ms (sw_now sw)) d (iw_inbox (in_world s)))"
      using post_cases [OF assms(1)] assms(2,3) by blast
    then show ?thesis
    proof cases
      case fresh
      then show ?thesis using that inserted_present [of d] by (simp add: inbox_ids_def del: set_map)
    qed (use that in simp)
  qed
  obtain e2 v where v: "webhook_post sw2 route2 req2 ?u = (e2, v)" by fastforce
  have "i \<in> inbox_ids (in_world ?u)" using i(2) by (rule run_inbox_grows)
  then show ?thesis using post_cases [OF v] i(1) assms(4) v by auto
qed

text \<open>
  No request ever makes a delivery due for a retry: a delivery whose processing was lost after its row
  was inserted stays \<open>received\<close>.
\<close>

lemma post_no_retry:
  "fetchDueForRetry now (iw_inbox (in_world (snd (webhook_post sw route req s)))) = fetchDueForRetry now (iw_inbox (in_world s))"
proof -
  obtain e t where p: "webhook_post sw route req s = (e, t)" by fastforce
  have "in_world t\<lparr>iw_errors := iw_errors (in_world s)\<rparr> = in_world s \<Longrightarrow> iw_inbox (in_world t) = iw_inbox (in_world s)"
    by (metis ingress_world.select_convs(1) ingress_world.surjective ingress_world.update_convs(4))
  then show ?thesis using post_cases [OF p] by (auto simp: p insertVerified_def fetchDueForRetry_def)
qed

theorem deliveries_never_retried:
  "fetchDueForRetry now (iw_inbox (in_world (webhook_run reqs s))) = fetchDueForRetry now (iw_inbox (in_world s))"
  by (induction reqs arbitrary: s) (simp_all add: webhook_run_def case_prod_beta post_no_retry)

section \<open>What a delivery does\<close>

text \<open>The orchestrator's part of a webhook stop.\<close>

lemma stop_worker_spec:
  assumes "fst (getRunningEntryByIdentifier ident x) = Some (k, entry)"
  shows "runningEntries (or_state (stopWorkerForIssue now ident reason x)) =
      (if is_stopping entry then runningEntries (or_state x)
       else omap_update k (stopped_entry ''webhook_stop'') (runningEntries (or_state x)))"
    and "abort_signals (or_state (stopWorkerForIssue now ident reason x)) = abort_signals (or_state x) @
      (if is_stopping entry then [] else [AbortSignal (en_runId entry) ''webhook_stop''])"
proof -
  obtain y where y: "getRunningEntryByIdentifier ident x = (Some (k, entry), y)" by (metis assms prod.collapse)
  moreover have "or_state y = or_state x" using or_more(4) [of ident x] y by simp
  ultimately show "runningEntries (or_state (stopWorkerForIssue now ident reason x)) =
      (if is_stopping entry then runningEntries (or_state x)
       else omap_update k (stopped_entry ''webhook_stop'') (runningEntries (or_state x)))"
    and "abort_signals (or_state (stopWorkerForIssue now ident reason x)) = abort_signals (or_state x) @
      (if is_stopping entry then [] else [AbortSignal (en_runId entry) ''webhook_stop''])"
    by (simp_all add: stopWorkerForIssue_def stop_entry_spec)
qed

lemma refresh_lookup:
  "or_state (snd (handleRefreshCommand now i d x)) = or_state x"
  "or_lookupCache (snd (handleRefreshCommand now i d x)) = or_lookupCache x"
  by (auto simp: handleRefreshCommand_def plain_refresh_def scheduleTick_def Let_def split: option.split)

lemma refresh_finds:
  "fst (getRunningEntryByIdentifier ident (snd (handleRefreshCommand now i d x))) = fst (getRunningEntryByIdentifier ident x)"
  by (auto simp: getRunningEntryByIdentifier_def refresh_lookup Let_def split: option.split)

text \<open>An update of an issue to a finished state, as the payload of a delivery.\<close>

definition finishes_issue :: "json option \<Rightarrow> string \<Rightarrow> string \<Rightarrow> bool" where
  "finishes_issue body ident state' \<longleftrightarrow>
     member body ''type'' = Some (JStr ''Issue'') \<and> member body ''action'' = Some (JStr ''update'') \<and>
     (\<exists>i. member (member body ''data'') ''id'' = Some (JStr i) \<and> i \<noteq> []) \<and>
     member (member body ''data'') ''identifier'' = Some (JStr ident) \<and> ident \<noteq> [] \<and>
     member (member (member body ''data'') ''state'') ''name'' = Some (JStr state') \<and>
     js_lower state' \<in> {''done'', ''cancelled'', ''canceled'', ''archived'', ''closed''}"

lemma finish_processing:
  assumes "buildHandlerDeps sw = Some deps" and f: "finishes_issue body ident state'"
    and i: "extractIssueInfo (member body ''data'') ''Issue'' = (i, d)"
  shows "\<exists>i'. processWebhookEvent deps ''Issue'' ''update'' body i d w =
    wired_stop sw ident (''webhook:issue:update:state='' @ state') (wired_refresh sw i' ident ''webhook:issue:update'' w)"
proof -
  obtain i' where i': "i = Some i'" "i' \<noteq> []" "d = Some ident" "ident \<noteq> []"
    using f i by (auto simp: finishes_issue_def extractIssueInfo_def AgentHelpers.asString_def)
  have "targeted deps i d = Some (i', ident, wired_refresh sw)" "wd_stopWorker deps = Some (wired_stop sw)"
    using assms(1) i' by (auto simp: targeted_def buildHandlerDeps_def truthy_string_def split: if_splits)
  moreover have "truthy_string (AgentHelpers.asString (member (member (member body ''data'') ''state'') ''name'')) = Some state'"
    using f by (auto simp: finishes_issue_def AgentHelpers.asString_def truthy_string_def js_lower_def)
  moreover have "js_lower state' \<in> {''done'', ''cancelled'', ''canceled'', ''archived'', ''closed''}"
    using f by (simp add: finishes_issue_def)
  ultimately show ?thesis
    by (auto simp: processWebhookEvent_def handleIssueEvent_def maybeStopWorker_def SUPPORTED_WEBHOOK_TYPES_def ISSUE_ACTIONS_def)
qed

text \<open>
  C18: a new, authentic delivery that reports an issue in a finished state makes the orchestrator stop the
  worker of that issue, once: its entry is stopping with the reason \<open>webhook_stop\<close>, exactly one abort signal
  is sent, no other entry changes, and the request is answered 200.
\<close>

theorem finished_issue_stops_worker:
  assumes "buildHandlerDeps sw = Some deps" and "sw_dbError sw = None" and "linear_checks deps req ts i"
    and "i \<notin> inbox_ids (in_world s)" and "finishes_issue (wq_body req) ident state'"
    and "fst (getRunningEntryByIdentifier ident (iw_orch (in_world s))) = Some (k, entry)" and "\<not> is_stopping entry"
  shows "case webhook_post sw LinearRoute req s of (e, t) \<Rightarrow>
    e = None \<and> map ws_status (in_responses t) = map ws_status (in_responses s) @ [200] \<and>
    runningEntries (or_state (iw_orch (in_world t))) =
      omap_update k (stopped_entry ''webhook_stop'') (runningEntries (or_state (iw_orch (in_world s)))) \<and>
    abort_signals (or_state (iw_orch (in_world t))) =
      abort_signals (or_state (iw_orch (in_world s))) @ [AbortSignal (en_runId entry) ''webhook_stop'']"
proof -
  have "handleWebhookLinear deps req s = (None, accept_linear deps (wq_body req) ts i s)"
    using assms(3) by (auto simp: linear_checks_def handleWebhookLinear_def truthy_string_def REPLAY_WINDOW_MS_def)
  then have post: "webhook_post sw LinearRoute req s = (None, accept_linear deps (wq_body req) ts i s)"
    using assms(1) by (simp add: webhook_post_def)
  obtain ii d where info: "extractIssueInfo (member (wq_body req) ''data'') ''Issue'' = (ii, d)" by fastforce
  have flow: "wd_workflow deps = wired_workflow sw"
    "wd_recordDelivery deps = (\<lambda>eventType w. w\<lparr>iw_tracker := map_option (recordVerifiedDelivery (sw_now sw) eventType) (iw_tracker w)\<rparr>)"
    using assms(1) by (auto simp: buildHandlerDeps_def split: if_splits)
  have ty: "AgentHelpers.asString (member (wq_body req) ''type'') = Some ''Issue''"
    "AgentHelpers.asString (member (wq_body req) ''action'') = Some ''update''"
    using assms(5) by (simp_all add: finishes_issue_def AgentHelpers.asString_def)
  define w where "w = (in_world s)\<lparr>iw_inbox := snd (insertVerified (iso_of_ms (sw_now sw))
    \<lparr>vd_deliveryId = i, vd_type = ''Issue'', vd_action = ''update'', vd_entityId = AgentHelpers.asString (member (member (wq_body req) ''data'') ''id''),
     vd_issueId = ii, vd_issueIdentifier = d, vd_webhookTimestamp = Some ts, vd_payloadJson = map_option json_stringify (wq_body req)\<rparr>
    (iw_inbox (in_world s))), iw_tracker := map_option (recordVerifiedDelivery (sw_now sw) ''Issue:update'') (iw_tracker (in_world s))\<rparr>"
  have "\<exists>r. accept_linear deps (wq_body req) ts i s =
      \<lparr>in_world = processWebhookEvent deps ''Issue'' ''update'' (wq_body req) ii d w, in_responses = in_responses s @ [r]\<rparr> \<and> ws_status r = 200"
    using assms(2,4)
    by (cases s) (auto simp: accept_linear_def ty info flow Let_def respondAccepted_def ensureNew_def wired_workflow_def wired_insert_def
        insertVerified_def inbox_ids_def respond_with_def w_def)
  then obtain r where r: "accept_linear deps (wq_body req) ts i s =
      \<lparr>in_world = processWebhookEvent deps ''Issue'' ''update'' (wq_body req) ii d w, in_responses = in_responses s @ [r]\<rparr>"
    "ws_status r = 200" by blast
  obtain i' where p: "processWebhookEvent deps ''Issue'' ''update'' (wq_body req) ii d w =
      wired_stop sw ident (''webhook:issue:update:state='' @ state') (wired_refresh sw i' ident ''webhook:issue:update'' w)"
    using finish_processing [OF assms(1,5) info] by blast
  have "iw_orch w = iw_orch (in_world s)" by (simp add: w_def)
  then have "fst (getRunningEntryByIdentifier ident (iw_orch (wired_refresh sw i' ident ''webhook:issue:update'' w))) = Some (k, entry)"
    "or_state (iw_orch (wired_refresh sw i' ident ''webhook:issue:update'' w)) = or_state (iw_orch (in_world s))"
    using assms(6) by (simp_all add: wired_refresh_def refresh_finds refresh_lookup)
  then show ?thesis using r assms(7)
    by (simp add: post p wired_stop_def stop_worker_spec)
qed

text \<open>
  A GitHub delivery reaches the orchestrator only for an issue event of the repository the tracker is
  configured for.
\<close>

theorem github_repository_gate:
  assumes "processGitHubWebhook deps gx w \<noteq> w"
  shows "\<exists>config ow repo full. gd_config deps = Some config \<and> gc_trackerKind config = ''github'' \<and> gc_owner config = Some ow \<and>
    gc_repo config = Some repo \<and> gx_repoFullName gx = Some full \<and> js_lower (ow @ ''/'' @ repo) = js_lower full \<and>
    gx_event gx = ''issues'' \<and> gx_action gx \<in> set SUPPORTED_GITHUB_ISSUE_ACTIONS \<and> gx_issueIdentifier gx \<noteq> None"
proof -
  have ev: "gx_event gx = ''issues''" "gx_action gx \<in> set SUPPORTED_GITHUB_ISSUE_ACTIONS"
    using assms by (auto simp: processGitHubWebhook_def split: if_splits)
  obtain repo full where rf: "configured_repo (gd_config deps) = Some repo" "truthy_string (gx_repoFullName gx) = Some full"
    "repo = js_lower full" "gx_issueIdentifier gx \<noteq> None"
  proof (cases "configured_repo (gd_config deps)")
    case (Some repo)
    show ?thesis
    proof (cases "truthy_string (gx_repoFullName gx)")
      case (Some full)
      then show ?thesis using that assms ev \<open>configured_repo (gd_config deps) = Some repo\<close>
        by (cases "gx_issueIdentifier gx") (auto simp: processGitHubWebhook_def truthy_string_def split: if_splits option.splits)
    qed (use assms ev Some in \<open>simp add: processGitHubWebhook_def\<close>)
  qed (use assms ev in \<open>simp add: processGitHubWebhook_def\<close>)
  then show ?thesis using ev
    by (auto simp: configured_repo_def truthy_Some split: option.splits bool.splits)
qed

section \<open>Witnesses\<close>

definition sample_wiring :: wiring where
  "sample_wiring =
     \<lparr>sw_now = 1000, sw_hmac = (\<lambda>k b. k @ b), sw_webhookUrlSet = True, sw_secret = Some ''k'', sw_previousSecret = None,
      sw_dbError = None, sw_github = Some \<lparr>gc_githubSecret = Some ''g'', gc_trackerKind = ''github'', gc_owner = Some ''acme'',
        gc_repo = Some ''web''\<rparr>\<rparr>"

definition sample_payload :: json where
  "sample_payload =
     JObj [(''type'', JStr ''Issue''), (''action'', JStr ''update''), (''webhookTimestamp'', JNum 500),
       (''data'', JObj [(''id'', JStr ''A-1''), (''identifier'', JStr ''A-1''), (''state'', JObj [(''name'', JStr ''done'')])])]"

definition sample_request :: webhook_request where
  "sample_request =
     \<lparr>wq_headers = (\<lambda>h. if h = ''linear-signature'' then Some ''kraw'' else if h = ''linear-delivery'' then Some ''d1'' else None),
      wq_rawBody = Some ''raw'', wq_body = Some sample_payload\<rparr>"

definition sample_ingress :: "ingress_world ingress" where
  "sample_ingress = \<lparr>in_world = \<lparr>iw_inbox = [], iw_orch = sample_orchestrator, iw_tracker = None, iw_errors = []\<rparr>, in_responses = []\<rparr>"

lemma sample_deps: "\<exists>deps. buildHandlerDeps sample_wiring = Some deps \<and> linear_checks deps sample_request 500 ''d1''"
proof -
  have v: "validateWebhookPayload (Some sample_payload) = None" "member (Some sample_payload) ''webhookTimestamp'' = Some (JNum 500)"
    by (simp_all add: validateWebhookPayload_def is_object_def sample_payload_def member_def omap_get_def
        AgentHelpers.asRecord_def AgentHelpers.asString_def asNumber_def truthy_string_def)
  have d: "extractDeliveryId sample_request = Some ''d1''"
    by (simp add: extractDeliveryId_def sample_request_def truthy_string_def js_trim_def is_js_space_def)
  have g: "signature_valid deps ''raw'' ''kraw'' ''k'' = Inr True" if "wd_hmac deps = (\<lambda>k b. k @ b)" for deps :: "'w webhook_deps"
  proof -
    have "verifyLinearSignature (wd_hmac deps) ''raw'' ''kraw'' ''k'' = Inr True" by (simp add: linear_signature_true that)
    then show ?thesis by (simp add: signature_valid_def)
  qed
  obtain deps where deps: "buildHandlerDeps sample_wiring = Some deps" "wd_hmac deps = (\<lambda>k b. k @ b)"
    "wd_secret deps = Some ''k''" "wd_now deps = 1000"
    by (simp add: buildHandlerDeps_def sample_wiring_def)
  have "wq_rawBody sample_request = Some ''raw''" "wq_headers sample_request ''linear-signature'' = Some ''kraw''"
    "wq_body sample_request = Some sample_payload"
    by (simp_all add: sample_request_def)
  then have "linear_checks deps sample_request 500 ''d1''"
    using v d g [OF deps(2)] deps(3,4) by (simp add: linear_checks_def)
  with deps(1) show ?thesis by blast
qed

lemma sample_finishes: "finishes_issue (wq_body sample_request) ''A-1'' ''done''"
  by (simp add: finishes_issue_def sample_request_def sample_payload_def member_def omap_get_def AgentHelpers.asRecord_def
      js_lower_def lower_char_def is_js_upper_def)

lemma sample_entry_runs: "\<not> is_stopping (sample_entry ''A-1'' ''s1'')"
  by (simp add: is_stopping_def sample_entry_def is_aborted_def)

theorem finished_issue_stops_worker_witness:
  "abort_signals (or_state (iw_orch (in_world (snd (webhook_post sample_wiring LinearRoute sample_request sample_ingress))))) =
     abort_signals (or_state sample_orchestrator) @ [AbortSignal (en_runId (sample_entry ''A-1'' ''s1'')) ''webhook_stop''] \<and>
   map ws_status (in_responses (snd (webhook_post sample_wiring LinearRoute sample_request sample_ingress))) = [200]"
proof -
  obtain deps where d: "buildHandlerDeps sample_wiring = Some deps" "linear_checks deps sample_request 500 ''d1''"
    using sample_deps by blast
  have "sw_dbError sample_wiring = None" by (simp add: sample_wiring_def)
  moreover have "''d1'' \<notin> inbox_ids (in_world sample_ingress)" by (simp add: sample_ingress_def inbox_ids_def)
  moreover have "fst (getRunningEntryByIdentifier ''A-1'' (iw_orch (in_world sample_ingress))) = Some (''A-1'', sample_entry ''A-1'' ''s1'')"
    using sample_lookup(3) by (simp add: sample_ingress_def)
  ultimately show ?thesis
    using finished_issue_stops_worker [OF d(1) _ d(2) _ sample_finishes _ sample_entry_runs, of sample_ingress "''A-1''"]
    by (simp add: sample_ingress_def split: prod.splits)
qed

lemma sample_posted:
  "\<exists>r. fst (webhook_post sample_wiring LinearRoute sample_request sample_ingress) = None \<and>
     in_responses (snd (webhook_post sample_wiring LinearRoute sample_request sample_ingress)) = in_responses sample_ingress @ [r] \<and>
     ws_status r = 200 \<and> in_world (snd (webhook_post sample_wiring LinearRoute sample_request sample_ingress)) \<noteq> in_world sample_ingress"
proof -
  obtain deps where d: "buildHandlerDeps sample_wiring = Some deps" "linear_checks deps sample_request 500 ''d1''"
    using sample_deps by blast
  have h: "handleWebhookLinear deps sample_request sample_ingress = (None, accept_linear deps (wq_body sample_request) 500 ''d1'' sample_ingress)"
    using d(2) by (auto simp: linear_checks_def handleWebhookLinear_def truthy_string_def REPLAY_WINDOW_MS_def)
  have "wd_workflow deps = wired_workflow sample_wiring" using d(1) by (auto simp: buildHandlerDeps_def sample_wiring_def)
  then have "\<exists>r. in_responses (accept_linear deps (wq_body sample_request) 500 ''d1'' sample_ingress) = [r] \<and> ws_status r = 200"
    unfolding accept_linear_def Let_def case_prod_beta
    by (simp add: respondAccepted_def ensureNew_def wired_workflow_def wired_insert_def insertVerified_def sample_ingress_def
        sample_wiring_def respond_with_def)
  moreover have "iw_inbox (in_world (accept_linear deps (wq_body sample_request) 500 ''d1'' sample_ingress)) \<noteq> []"
    using post_cases [of sample_wiring LinearRoute sample_request sample_ingress] h calculation d(1)
    by (auto simp: webhook_post_def sample_ingress_def inbox_ids_def insertVerified_def)
  ultimately show ?thesis using h d(1) by (auto simp: webhook_post_def sample_ingress_def)
qed

theorem redelivery_has_no_effect_witness:
  "iw_orch (in_world (snd (webhook_post sample_wiring LinearRoute sample_request
      (webhook_run [] (snd (webhook_post sample_wiring LinearRoute sample_request sample_ingress)))))) =
   iw_orch (in_world (snd (webhook_post sample_wiring LinearRoute sample_request sample_ingress)))"
proof -
  define t where "t = snd (webhook_post sample_wiring LinearRoute sample_request sample_ingress)"
  obtain r where r: "webhook_post sample_wiring LinearRoute sample_request sample_ingress = (None, t)"
    "in_responses t = in_responses sample_ingress @ [r]" "ws_status r = 200"
    using sample_posted by (metis prod.collapse t_def)
  have "iw_orch (w\<lparr>iw_errors := x\<rparr>) = iw_orch w" for w x by simp
  then show ?thesis
    using redelivery_has_no_effect [OF r(1,2,3), of LinearRoute sample_request "[]" sample_wiring] by (metis t_def webhook_run_def fold_simps(1))
qed

theorem webhook_effects_authentic_witness:
  "\<exists>deps raw sig secret. buildHandlerDeps sample_wiring = Some deps \<and> wq_rawBody sample_request = Some raw \<and>
     wq_headers sample_request ''linear-signature'' = Some sig \<and> sig = wd_hmac deps secret raw"
proof -
  obtain deps where d: "buildHandlerDeps sample_wiring = Some deps" using sample_deps by blast
  obtain e t where t: "handleWebhookLinear deps sample_request sample_ingress = (e, t)" by fastforce
  then have "in_world t \<noteq> in_world sample_ingress" using sample_posted d by (auto simp: webhook_post_def)
  from webhook_effects_authentic [OF t this] d show ?thesis by blast
qed

definition sample_github_context :: github_context where
  "sample_github_context =
     \<lparr>gx_action = ''closed'', gx_deliveryId = ''g1'', gx_event = ''issues'', gx_issueId = Some ''7'',
      gx_issueIdentifier = Some ''acme/web#7'', gx_payload = [], gx_repoFullName = Some ''acme/web''\<rparr>"

definition counting_deps :: "nat github_deps" where
  "counting_deps =
     \<lparr>gd_hmac = (\<lambda>k b. k @ b), gd_config = sw_github sample_wiring, gd_targetedRefresh = Some (\<lambda>_ _ _ n. n + 1),
      gd_stopWorker = None, gd_workflow = \<lparr>wf_insert = None, wf_systemError = None\<rparr>\<rparr>"

theorem github_repository_gate_witness:
  "gd_config counting_deps \<noteq> None \<and> gx_event sample_github_context = ''issues''"
proof -
  have "processGitHubWebhook counting_deps sample_github_context 0 \<noteq> 0"
    by (simp add: processGitHubWebhook_def counting_deps_def sample_github_context_def sample_wiring_def configured_repo_def
        SUPPORTED_GITHUB_ISSUE_ACTIONS_def truthy_string_def js_lower_def lower_char_def is_js_upper_def)
  from github_repository_gate [OF this] show ?thesis by auto
qed

end
