(* ===== verification/HttpGuards.thy ===== *)
theory HttpGuards
  imports WebhookIngressClaims WorkspacePaths
begin

text \<open>
  Who may call the HTTP API: \<open>src/src/http/token-compare.ts\<close>, \<open>read-guard.ts\<close> and \<open>write-guard.ts\<close>. A guard
  ends in the next handler, a rejection or an exception. The tokens of the environment are arguments.
\<close>

section \<open>Tokens\<close>

definition tokensMatch :: "string option \<Rightarrow> string \<Rightarrow> js_error + bool" where
  "tokensMatch supplied expected =
     (case truthy_string supplied of
        None \<Rightarrow> Inr False
      | Some s \<Rightarrow> if length s \<noteq> length expected then Inr False
                  else timingSafeEqual (buffer_from s) (buffer_from expected))"

fun some_match :: "string \<Rightarrow> string list \<Rightarrow> js_error + bool" where
  "some_match s [] = Inr False"
| "some_match s (t # ts) = (case tokensMatch (Some s) t of Inr False \<Rightarrow> some_match s ts | r \<Rightarrow> r)"

definition includesMatchingToken :: "string option \<Rightarrow> string list \<Rightarrow> js_error + bool" where
  "includesMatchingToken supplied expectedTokens =
     (case truthy_string supplied of None \<Rightarrow> Inr False | Some s \<Rightarrow> some_match s expectedTokens)"

definition isLoopbackAddress :: "string option \<Rightarrow> bool" where
  "isLoopbackAddress remote =
     (case truthy_string remote of
        None \<Rightarrow> False
      | Some a \<Rightarrow> a = ''::1'' \<or> starts_with ''127.'' a \<or> starts_with ''::ffff:127.'' a)"

section \<open>Requests\<close>

record http_request =
  hq_method :: string
  hq_path :: string
  hq_remote :: "string option"
  hq_authorization :: "string option"
  hq_readToken :: "string option"

datatype guard_result = Pass | Reject int string | Throws js_error

section \<open>Reading\<close>

definition PUBLIC_READ_PATHS :: "string list" where
  "PUBLIC_READ_PATHS = [''/api/v1/runtime'', ''/api/v1/openapi.json'']"

definition PROTECTED_READ_PREFIXES :: "string list" where
  "PROTECTED_READ_PREFIXES =
     [''/api/v1/state'', ''/api/v1/events'', ''/api/v1/models'', ''/api/v1/transitions'', ''/api/v1/observability'',
      ''/api/v1/recovery'', ''/api/v1/prs'', ''/api/v1/notifications'', ''/api/v1/automations'', ''/api/v1/alerts/history'',
      ''/api/v1/setup'', ''/api/v1/codex'', ''/api/v1/git/context'', ''/api/v1/workspaces'', ''/api/v1/templates'',
      ''/api/v1/config'', ''/api/v1/secrets'', ''/api/v1/audit'', ''/api/v1/attempts'']"

definition DYNAMIC_ISSUE_ROUTE_PREFIXES :: "string list" where
  "DYNAMIC_ISSUE_ROUTE_PREFIXES =
     [''state'', ''runtime'', ''models'', ''transitions'', ''attempts'', ''config'', ''secrets'', ''audit'', ''setup'', ''git'',
      ''workspaces'', ''templates'', ''openapi.json'']"

definition resolveConfiguredReadTokens :: "string option \<Rightarrow> string option \<Rightarrow> string list" where
  "resolveConfiguredReadTokens readEnv writeEnv =
     (let readToken = js_trim (coalesce readEnv []); writeToken = js_trim (coalesce writeEnv [])
      in filter (\<lambda>t. t \<noteq> []) (if readToken = writeToken then [readToken] else [readToken, writeToken]))"

definition extractBearerToken :: "http_request \<Rightarrow> string option" where
  "extractBearerToken req =
     (let authorization = coalesce (hq_authorization req) []
      in if \<not> starts_with ''Bearer '' authorization then None
         else truthy_string (Some (js_trim (drop 7 authorization))))"

definition isProtectedIssueDetailPath :: "string \<Rightarrow> bool" where
  "isProtectedIssueDetailPath pathname =
     (case filter (\<lambda>s. s \<noteq> []) (split_on CHR ''/'' pathname) of
        [a, v, x] \<Rightarrow> a = ''api'' \<and> v = ''v1'' \<and> x \<notin> set DYNAMIC_ISSUE_ROUTE_PREFIXES
      | [a, v, x, y] \<Rightarrow> a = ''api'' \<and> v = ''v1'' \<and> y = ''attempts'' \<and> x \<notin> set DYNAMIC_ISSUE_ROUTE_PREFIXES
      | _ \<Rightarrow> False)"

definition isProtectedReadPath :: "string \<Rightarrow> bool" where
  "isProtectedReadPath pathname =
     (if pathname \<in> set PUBLIC_READ_PATHS then False
      else if list_ex (\<lambda>prefix. pathname = prefix \<or> starts_with (prefix @ ''/'') pathname) PROTECTED_READ_PREFIXES then True
      else isProtectedIssueDetailPath pathname)"

definition hasConfiguredReadAccessToken :: "string option \<Rightarrow> string option \<Rightarrow> bool" where
  "hasConfiguredReadAccessToken readEnv writeEnv \<longleftrightarrow> resolveConfiguredReadTokens readEnv writeEnv \<noteq> []"

definition check_token :: "string \<Rightarrow> string list \<Rightarrow> guard_result" where
  "check_token token tokens =
     (case includesMatchingToken (Some token) tokens of
        Inl e \<Rightarrow> Throws e
      | Inr True \<Rightarrow> Pass
      | Inr False \<Rightarrow> Reject 401 ''read_unauthorized'')"

definition readGuard :: "string option \<Rightarrow> string option \<Rightarrow> http_request \<Rightarrow> guard_result" where
  "readGuard readEnv writeEnv req =
     (if hq_method req \<notin> {''GET'', ''HEAD''} \<or> \<not> isProtectedReadPath (hq_path req) then Pass
      else if isLoopbackAddress (hq_remote req) then Pass
      else let tokens = resolveConfiguredReadTokens readEnv writeEnv
           in if tokens = [] then Reject 403 ''read_forbidden''
              else case extractBearerToken req of
                     Some bearer \<Rightarrow> check_token bearer tokens
                   | None \<Rightarrow>
                       (case truthy_string (hq_readToken req) of
                          Some q \<Rightarrow> check_token q tokens
                        | None \<Rightarrow> Reject 401 ''read_unauthorized''))"

section \<open>Writing\<close>

definition isSafeMethod :: "string \<Rightarrow> bool" where
  "isSafeMethod method \<longleftrightarrow> method = ''GET'' \<or> method = ''HEAD'' \<or> method = ''OPTIONS''"

definition parseBearerToken :: "string option \<Rightarrow> string option" where
  "parseBearerToken authorization =
     (case authorization of
        None \<Rightarrow> None
      | Some a \<Rightarrow> if \<not> starts_with ''Bearer '' a then None else Some (js_trim (drop 7 a)))"

text \<open>\<open>writeEnv\<close> is the token of the environment when the guard was created.\<close>

definition writeGuard :: "string option \<Rightarrow> http_request \<Rightarrow> guard_result" where
  "writeGuard writeEnv req =
     (if isSafeMethod (hq_method req) then Pass
      else if starts_with ''/webhooks/'' (hq_path req) then Pass
      else case truthy_string (map_option js_trim writeEnv) of
             Some writeToken \<Rightarrow>
               (case tokensMatch (parseBearerToken (hq_authorization req)) writeToken of
                  Inl e \<Rightarrow> Throws e
                | Inr True \<Rightarrow> Pass
                | Inr False \<Rightarrow> Reject 401 ''write_unauthorized'')
           | None \<Rightarrow> if isLoopbackAddress (hq_remote req) then Pass else Reject 403 ''write_forbidden'')"

text \<open>The server refuses to start on a reachable address without a token to read with.\<close>

definition isLoopbackBindHost :: "string \<Rightarrow> bool" where
  "isLoopbackBindHost host' \<longleftrightarrow> host' = ''127.0.0.1'' \<or> host' = ''localhost'' \<or> host' = ''::1''"

definition may_bind :: "string option \<Rightarrow> string option \<Rightarrow> string option \<Rightarrow> bool" where
  "may_bind bindEnv readEnv writeEnv \<longleftrightarrow>
     isLoopbackBindHost (coalesce bindEnv ''127.0.0.1'') \<or> hasConfiguredReadAccessToken readEnv writeEnv"

section \<open>Lemmas\<close>

lemma tokens_match_true: "tokensMatch s t = Inr True \<longleftrightarrow> s = Some t \<and> t \<noteq> []"
  by (cases s) (auto simp: tokensMatch_def truthy_string_def timingSafeEqual_def buffer_from_inj)

lemma some_match_true: "some_match s ts = Inr True \<Longrightarrow> s \<in> set ts"
proof (induction s ts rule: some_match.induct)
  case (2 s t ts)
  then show ?case
  proof (cases "tokensMatch (Some s) t")
    case (Inr b)
    then show ?thesis using 2 tokens_match_true [of "Some s" t] by (cases b) auto
  qed simp
qed simp

lemma check_token_pass: "check_token s ts = Pass \<Longrightarrow> s \<in> set ts"
  by (auto simp: check_token_def includesMatchingToken_def truthy_string_def split: sum.splits bool.splits option.splits if_splits
      dest: some_match_true)

section \<open>Properties\<close>

text \<open>
  A protected path is read by a remote client only with a configured token, in the authorization header,
  or, when there is none, in the query.
\<close>

theorem read_guard_sound:
  assumes "readGuard readEnv writeEnv req = Pass" and "hq_method req \<in> {''GET'', ''HEAD''}"
    and "isProtectedReadPath (hq_path req)" and "\<not> isLoopbackAddress (hq_remote req)"
  shows "\<exists>t \<in> set (resolveConfiguredReadTokens readEnv writeEnv).
    extractBearerToken req = Some t \<or> (extractBearerToken req = None \<and> hq_readToken req = Some t)"
proof -
  have "(case extractBearerToken req of
          Some bearer \<Rightarrow> check_token bearer (resolveConfiguredReadTokens readEnv writeEnv)
        | None \<Rightarrow> (case truthy_string (hq_readToken req) of
             Some q \<Rightarrow> check_token q (resolveConfiguredReadTokens readEnv writeEnv)
           | None \<Rightarrow> Reject 401 ''read_unauthorized'')) = Pass"
    using assms by (auto simp: readGuard_def Let_def split: if_splits)
  then show ?thesis
    by (auto simp: truthy_Some split: option.splits dest: check_token_pass)
qed

text \<open>
  The write guard lets exactly these requests through: safe methods, the webhook paths, with a write
  token configured the bearer of that token, and without one the clients of the loopback interface.
\<close>

theorem write_guard_exact:
  "(writeGuard writeEnv req = Pass) =
     (isSafeMethod (hq_method req) \<or> starts_with ''/webhooks/'' (hq_path req) \<or>
      (case truthy_string (map_option js_trim writeEnv) of
         Some t \<Rightarrow> parseBearerToken (hq_authorization req) = Some t
       | None \<Rightarrow> isLoopbackAddress (hq_remote req)))"
proof (cases "isSafeMethod (hq_method req) \<or> starts_with ''/webhooks/'' (hq_path req)")
  case False
  show ?thesis
  proof (cases "truthy_string (map_option js_trim writeEnv)")
    case (Some t)
    then have "t \<noteq> []" by (auto simp: truthy_Some)
    then have "(tokensMatch (parseBearerToken (hq_authorization req)) t = Inr True) = (parseBearerToken (hq_authorization req) = Some t)"
      by (simp add: tokens_match_true)
    then show ?thesis using False Some
      by (cases "tokensMatch (parseBearerToken (hq_authorization req)) t") (auto simp: writeGuard_def split: bool.split)
  qed (use False in \<open>simp add: writeGuard_def\<close>)
qed (auto simp: writeGuard_def)

text \<open>
  The guard compares paths by case, so the same path in another case is not protected and passes for
  anyone. The routes of Express match without regard to case.
\<close>

theorem other_case_unprotected:
  "isProtectedReadPath ''/api/v1/config'' \<and> js_lower ''/API/v1/config'' = ''/api/v1/config'' \<and>
   readGuard readEnv writeEnv
     \<lparr>hq_method = ''GET'', hq_path = ''/API/v1/config'', hq_remote = Some ''203.0.113.9'', hq_authorization = None, hq_readToken = None\<rparr> = Pass"
proof -
  have "\<not> isProtectedReadPath ''/API/v1/config''"
    by (simp add: isProtectedReadPath_def PUBLIC_READ_PATHS_def PROTECTED_READ_PREFIXES_def isProtectedIssueDetailPath_def)
  moreover have "isProtectedReadPath ''/api/v1/config''"
    by (simp add: isProtectedReadPath_def PUBLIC_READ_PATHS_def PROTECTED_READ_PREFIXES_def)
  moreover have "js_lower ''/API/v1/config'' = ''/api/v1/config''" by code_simp
  ultimately show ?thesis by (simp add: readGuard_def)
qed

definition sample_read :: http_request where
  "sample_read = \<lparr>hq_method = ''GET'', hq_path = ''/api/v1/state'', hq_remote = Some ''203.0.113.9'',
     hq_authorization = None, hq_readToken = Some ''s3''\<rparr>"

theorem read_guard_sound_witness:
  "readGuard (Some ''s3'') None sample_read = Pass \<and> ''s3'' \<in> set (resolveConfiguredReadTokens (Some ''s3'') None)"
proof -
  have t: "resolveConfiguredReadTokens (Some ''s3'') None = [''s3'']"
    by (simp add: resolveConfiguredReadTokens_def js_trim_def is_js_space_def)
  have b: "extractBearerToken sample_read = None" by (simp add: extractBearerToken_def sample_read_def)
  have "isProtectedReadPath (hq_path sample_read)"
    by (simp add: sample_read_def isProtectedReadPath_def PUBLIC_READ_PATHS_def PROTECTED_READ_PREFIXES_def)
  moreover have "\<not> isLoopbackAddress (hq_remote sample_read)"
    by (simp add: sample_read_def isLoopbackAddress_def truthy_string_def)
  moreover have "readGuard (Some ''s3'') None sample_read = Pass"
  proof -
    have "check_token ''s3'' [''s3''] = Pass"
      by (simp add: check_token_def includesMatchingToken_def tokensMatch_def truthy_string_def timingSafeEqual_def)
    moreover have "truthy_string (hq_readToken sample_read) = Some ''s3''" by (simp add: sample_read_def truthy_string_def)
    ultimately show ?thesis by (simp add: readGuard_def t b)
  qed
  ultimately show ?thesis
    using read_guard_sound [of "Some ''s3''" None sample_read] b by (simp add: sample_read_def)
qed

end
