(* ===== verification/TriggerHandler.thy ===== *)
theory TriggerHandler
  imports HttpGuards
begin

text \<open>
  The trigger endpoint: \<open>src/src/http/trigger-handler.ts\<close>. The tracker and the orchestrator are functions on a
  world; the handler runs as one step, and an error it does not catch (the server answers 500) is the first
  component of its result. The body has passed the request schema: it is an object.
\<close>

record trigger_request =
  tq_header :: "string \<Rightarrow> string option"
  tq_body :: "(string, json) omap"

record refresh_command =
  rc_target :: "(string \<times> string) option"
  rc_reason :: string

record created_issue =
  ci_issueId :: string
  ci_identifier :: string
  ci_url :: "string option"

record create_input =
  cr_title :: string
  cr_description :: "string option"
  cr_stateName :: "string option"

record 'w trigger_deps =
  td_apiKey :: "string option"
  td_allowedActions :: "string list"
  td_execute :: "refresh_command \<Rightarrow> 'w \<Rightarrow> refresh_result \<times> 'w"
  td_createIssue :: "(create_input \<Rightarrow> 'w \<Rightarrow> (js_error + created_issue) \<times> 'w) option"
  td_insert :: "(verified_delivery \<Rightarrow> 'w \<Rightarrow> (js_error + bool) \<times> 'w) option"

record trigger_context =
  tc_action :: string
  tc_issueId :: "string option"
  tc_issueIdentifier :: "string option"

definition extractApiKey :: "trigger_request \<Rightarrow> string option" where
  "extractApiKey req =
     (case truthy_string (map_option js_trim (tq_header req ''x-risoluto-trigger-key'')) of
        Some k \<Rightarrow> Some k
      | None \<Rightarrow>
          (case truthy_string (tq_header req ''authorization'') of
             None \<Rightarrow> None
           | Some a \<Rightarrow> if \<not> starts_with ''Bearer '' a then None else truthy_string (Some (js_trim (drop 7 a)))))"

fun pickString :: "(string, json) omap \<Rightarrow> string list \<Rightarrow> string option" where
  "pickString record' [] = None"
| "pickString record' (key # keys) =
     (case omap_get record' key of
        Some (JStr v) \<Rightarrow> if js_trim v \<noteq> [] then Some (js_trim v) else pickString record' keys
      | _ \<Rightarrow> pickString record' keys)"

datatype 'a checked = Checked 'a | Refused int string string | Threw js_error

definition authorizeTriggerRequest :: "trigger_request \<Rightarrow> string \<Rightarrow> unit checked" where
  "authorizeTriggerRequest req apiKey =
     (case tokensMatch (extractApiKey req) apiKey of
        Inl e \<Rightarrow> Threw e
      | Inr True \<Rightarrow> Checked ()
      | Inr False \<Rightarrow> Refused 401 ''unauthorized'' ''Invalid trigger API key'')"

definition parseTriggerDispatchContext :: "trigger_request \<Rightarrow> string list \<Rightarrow> trigger_context checked" where
  "parseTriggerDispatchContext req allowedActions =
     (case pickString (tq_body req) [''action''] of
        None \<Rightarrow> Refused 400 ''validation_error'' ''action is required''
      | Some action \<Rightarrow>
          if action \<notin> set allowedActions
          then Refused 403 ''action_not_allowed'' (''Action '' @ action @ '' is not enabled'')
          else Checked \<lparr>tc_action = action, tc_issueId = pickString (tq_body req) [''issue_id'', ''issueId''],
                 tc_issueIdentifier = pickString (tq_body req) [''issue_identifier'', ''issueIdentifier'']\<rparr>)"

definition getIdempotencyKey :: "trigger_request \<Rightarrow> string option" where
  "getIdempotencyKey req =
     or_else (tq_header req ''idempotency-key'') (pickString (tq_body req) [''idempotency_key'', ''idempotencyKey''])"

definition trigger_delivery :: "trigger_request \<Rightarrow> trigger_context \<Rightarrow> string \<Rightarrow> verified_delivery" where
  "trigger_delivery req tc key =
     \<lparr>vd_deliveryId = key, vd_type = ''Trigger'', vd_action = tc_action tc, vd_entityId = None, vd_issueId = tc_issueId tc,
      vd_issueIdentifier = tc_issueIdentifier tc, vd_webhookTimestamp = None,
      vd_payloadJson = Some (json_stringify (JObj (tq_body req)))\<rparr>"

text \<open>\<open>Inr True\<close>: the request is a duplicate and has been answered.\<close>

definition handleDuplicateTriggerDelivery ::
  "'w trigger_deps \<Rightarrow> trigger_request \<Rightarrow> trigger_context \<Rightarrow> 'w ingress \<Rightarrow> (js_error + bool) \<times> 'w ingress" where
  "handleDuplicateTriggerDelivery deps req tc s =
     (case truthy_string (getIdempotencyKey req) of
        None \<Rightarrow> (Inr False, s)
      | Some key \<Rightarrow>
          (case ensureNew \<lparr>wf_insert = td_insert deps, wf_systemError = None\<rparr> (trigger_delivery req tc key) (in_world s) of
             (None, w) \<Rightarrow> (Inl (JsError ''webhook inbox persistence is unavailable''), s\<lparr>in_world := w\<rparr>)
           | (Some True, w) \<Rightarrow> (Inr False, s\<lparr>in_world := w\<rparr>)
           | (Some False, w) \<Rightarrow>
               (Inr True, respond_with 200 [] (JObj [(''ok'', JBool True), (''action'', JStr (tc_action tc)), (''duplicate'', JBool True)])
                  (s\<lparr>in_world := w\<rparr>))))"

definition run_refresh :: "'w trigger_deps \<Rightarrow> refresh_command \<Rightarrow> 'w ingress \<Rightarrow> refresh_result \<times> 'w ingress" where
  "run_refresh deps c s = (case td_execute deps c (in_world s) of (r, w) \<Rightarrow> (r, s\<lparr>in_world := w\<rparr>))"

definition handleRePollTrigger :: "'w trigger_deps \<Rightarrow> 'w ingress \<Rightarrow> 'w ingress" where
  "handleRePollTrigger deps s =
     (case run_refresh deps \<lparr>rc_target = None, rc_reason = ''trigger:re_poll''\<rparr> s of
        (r, s1) \<Rightarrow> respond_with 202 [] (JObj [(''ok'', JBool True), (''action'', JStr ''re_poll''),
          (''queued'', JBool (rf_queued r)), (''coalesced'', JBool (rf_coalesced r))]) s1)"

definition handleRefreshIssueTrigger :: "'w trigger_deps \<Rightarrow> trigger_context \<Rightarrow> 'w ingress \<Rightarrow> 'w ingress" where
  "handleRefreshIssueTrigger deps tc s =
     (case (truthy_string (tc_issueId tc), truthy_string (tc_issueIdentifier tc)) of
        (Some i, Some ident) \<Rightarrow>
          (case run_refresh deps \<lparr>rc_target = Some (i, ident), rc_reason = ''trigger:refresh_issue''\<rparr> s of
             (r, s1) \<Rightarrow> respond_with 202 [] (JObj ([(''ok'', JBool True), (''action'', JStr (tc_action tc)),
                 (''targeted'', JBool (rf_target r \<noteq> None))] @
               (case rf_target r of None \<Rightarrow> [] | Some (a, b) \<Rightarrow> [(''issueId'', JStr a), (''issueIdentifier'', JStr b)]))) s1)
      | _ \<Rightarrow>
          (case run_refresh deps \<lparr>rc_target = None, rc_reason = ''trigger:refresh_issue''\<rparr> s of
             (r, s1) \<Rightarrow> respond_with 202 [] (JObj [(''ok'', JBool True), (''action'', JStr (tc_action tc)),
               (''targeted'', JBool False), (''queued'', JBool (rf_queued r)), (''coalesced'', JBool (rf_coalesced r))]) s1))"

definition handleCreateIssueTrigger ::
  "'w trigger_deps \<Rightarrow> (string, json) omap \<Rightarrow> 'w ingress \<Rightarrow> js_error option \<times> 'w ingress" where
  "handleCreateIssueTrigger deps body s =
     (case td_createIssue deps of
        None \<Rightarrow> (None, sendError 503 ''tracker_not_configured'' ''Tracker is not available'' s)
      | Some create \<Rightarrow>
          (case pickString body [''title''] of
             None \<Rightarrow> (None, sendError 400 ''validation_error'' ''title is required for create_issue'' s)
           | Some title \<Rightarrow>
               (case create \<lparr>cr_title = title, cr_description = pickString body [''description''],
                       cr_stateName = pickString body [''state_name'', ''stateName'']\<rparr> (in_world s) of
                  (Inl e, w) \<Rightarrow> (Some e, s\<lparr>in_world := w\<rparr>)
                | (Inr created, w) \<Rightarrow>
                    (case run_refresh deps \<lparr>rc_target = Some (ci_issueId created, ci_identifier created),
                            rc_reason = ''trigger:create_issue''\<rparr> (s\<lparr>in_world := w\<rparr>) of
                       (_, s1) \<Rightarrow>
                         (None, respond_with 202 [] (JObj [(''ok'', JBool True), (''action'', JStr ''create_issue''),
                            (''issueId'', JStr (ci_issueId created)), (''issueIdentifier'', JStr (ci_identifier created)),
                            (''issueUrl'', jopt JStr (ci_url created))]) s1)))))"

definition dispatchTriggerAction ::
  "'w trigger_deps \<Rightarrow> trigger_request \<Rightarrow> trigger_context \<Rightarrow> 'w ingress \<Rightarrow> js_error option \<times> 'w ingress" where
  "dispatchTriggerAction deps req tc s =
     (if tc_action tc = ''re_poll'' then (None, handleRePollTrigger deps s)
      else if tc_action tc = ''refresh_issue'' then (None, handleRefreshIssueTrigger deps tc s)
      else if tc_action tc = ''create_issue'' then handleCreateIssueTrigger deps (tq_body req) s
      else (None, sendError 400 ''validation_error'' (''Unsupported action '' @ tc_action tc) s))"

definition handleTriggerDispatch :: "'w trigger_deps \<Rightarrow> trigger_request \<Rightarrow> 'w ingress \<Rightarrow> js_error option \<times> 'w ingress" where
  "handleTriggerDispatch deps req s =
     (case truthy_string (td_apiKey deps) of
        None \<Rightarrow> (None, sendError 503 ''trigger_not_configured'' ''Trigger API key is not configured'' s)
      | Some apiKey \<Rightarrow>
     (case authorizeTriggerRequest req apiKey of
        Threw e \<Rightarrow> (Some e, s)
      | Refused st code m \<Rightarrow> (None, sendError st code m s)
      | Checked _ \<Rightarrow>
     (case parseTriggerDispatchContext req (td_allowedActions deps) of
        Threw e \<Rightarrow> (Some e, s)
      | Refused st code m \<Rightarrow> (None, sendError st code m s)
      | Checked tc \<Rightarrow>
     (case handleDuplicateTriggerDelivery deps req tc s of
        (Inl e, s1) \<Rightarrow> (Some e, s1)
      | (Inr True, s1) \<Rightarrow> (None, s1)
      | (Inr False, s1) \<Rightarrow> dispatchTriggerAction deps req tc s1))))"

section \<open>Lemmas\<close>

text \<open>A request with the key and an enabled action.\<close>

definition authorised :: "'w trigger_deps \<Rightarrow> trigger_request \<Rightarrow> trigger_context \<Rightarrow> bool" where
  "authorised deps req tc \<longleftrightarrow>
     (\<exists>k. td_apiKey deps = Some k \<and> k \<noteq> [] \<and> extractApiKey req = Some k) \<and>
     parseTriggerDispatchContext req (td_allowedActions deps) = Checked tc"

lemma authorised_action: "authorised deps req tc \<Longrightarrow> tc_action tc \<in> set (td_allowedActions deps)"
  by (auto simp: authorised_def parseTriggerDispatchContext_def split: option.splits if_splits)

lemma authorize_checked: "authorizeTriggerRequest req k = Checked u \<longleftrightarrow> extractApiKey req = Some k \<and> k \<noteq> []"
  using tokens_match_true [of "extractApiKey req" k]
  by (cases "tokensMatch (extractApiKey req) k") (auto simp: authorizeTriggerRequest_def split: bool.splits)

lemma dispatch_authorised:
  assumes "authorised deps req tc"
  shows "handleTriggerDispatch deps req s =
     (case handleDuplicateTriggerDelivery deps req tc s of
        (Inl e, s1) \<Rightarrow> (Some e, s1)
      | (Inr True, s1) \<Rightarrow> (None, s1)
      | (Inr False, s1) \<Rightarrow> dispatchTriggerAction deps req tc s1)"
proof -
  obtain k where k: "td_apiKey deps = Some k" "k \<noteq> []" "extractApiKey req = Some k"
    "parseTriggerDispatchContext req (td_allowedActions deps) = Checked tc"
    using assms by (auto simp: authorised_def)
  then have "authorizeTriggerRequest req k = Checked ()" by (simp add: authorize_checked)
  then show ?thesis using k by (simp add: handleTriggerDispatch_def truthy_string_def)
qed

lemma dispatch_unauthorised:
  assumes "\<nexists>tc. authorised deps req tc"
  shows "in_world (snd (handleTriggerDispatch deps req s)) = in_world s"
proof (cases "truthy_string (td_apiKey deps)")
  case (Some k)
  show ?thesis
  proof (cases "authorizeTriggerRequest req k")
    case (Checked u)
    then have "authorised deps req tc" if "parseTriggerDispatchContext req (td_allowedActions deps) = Checked tc" for tc
      using that Some by (auto simp: authorised_def truthy_Some authorize_checked)
    then show ?thesis using assms Some Checked
      by (cases "parseTriggerDispatchContext req (td_allowedActions deps)")
        (auto simp: handleTriggerDispatch_def sendError_def respond_with_def)
  qed (use Some in \<open>auto simp: handleTriggerDispatch_def sendError_def respond_with_def\<close>)
qed (auto simp: handleTriggerDispatch_def sendError_def respond_with_def)

section \<open>Properties\<close>

text \<open>
  A trigger changes the world only with the configured key and an action the configuration enables.
\<close>

theorem trigger_effects_authorised:
  assumes "in_world (snd (handleTriggerDispatch deps req s)) \<noteq> in_world s"
  shows "\<exists>action k. td_apiKey deps = Some k \<and> k \<noteq> [] \<and> extractApiKey req = Some k \<and>
    action \<in> set (td_allowedActions deps) \<and> pickString (tq_body req) [''action''] = Some action"
proof -
  obtain tc where a: "authorised deps req tc" using assms dispatch_unauthorised by blast
  then have "pickString (tq_body req) [''action''] = Some (tc_action tc)"
    unfolding authorised_def parseTriggerDispatchContext_def
    by (cases "pickString (tq_body req) [''action'']") (auto simp del: pickString.simps split: if_splits)
  moreover obtain k where "td_apiKey deps = Some k" "k \<noteq> []" "extractApiKey req = Some k"
    using a by (auto simp: authorised_def)
  ultimately show ?thesis using authorised_action [OF a] by blast
qed

text \<open>
  The idempotency key is stored before the issue is created. When the creation fails, the caller gets an
  error, and the retry with the same key is answered 200 as a duplicate although no issue was ever created:
  the tracker is not called again.
\<close>

definition inbox_insert :: "string \<Rightarrow> verified_delivery \<Rightarrow> inbox \<times> 'v \<Rightarrow> (js_error + bool) \<times> inbox \<times> 'v" where
  "inbox_insert now d w = (case insertVerified now d (fst w) of (isNew, t) \<Rightarrow> (Inr isNew, t, snd w))"

theorem failed_create_loses_trigger:
  assumes "authorised deps req tc" and "tc_action tc = ''create_issue''" and "truthy_string (getIdempotencyKey req) = Some key"
    and "td_insert deps = Some (inbox_insert now)" and "td_createIssue deps = Some create"
    and "\<And>i w. create i w = (Inl err, w)" and "pickString (tq_body req) [''title''] = Some title"
    and "key \<notin> set (map dr_id (fst (in_world s)))"
  shows "case handleTriggerDispatch deps req s of (e1, s1) \<Rightarrow>
    e1 = Some err \<and> in_responses s1 = in_responses s \<and>
    (case handleTriggerDispatch (deps\<lparr>td_createIssue := any\<rparr>) req s1 of (e2, s2) \<Rightarrow>
       e2 = None \<and> in_world s2 = in_world s1 \<and>
       (\<exists>r. in_responses s2 = in_responses s @ [r] \<and> ws_status r = 200 \<and>
          ws_body r = JObj [(''ok'', JBool True), (''action'', JStr ''create_issue''), (''duplicate'', JBool True)]))"
proof -
  define w1 where "w1 = (snd (insertVerified now (trigger_delivery req tc key) (fst (in_world s))), snd (in_world s))"
  have new: "inbox_insert now (trigger_delivery req tc key) (in_world s) = (Inr True, w1)"
    using assms(8) by (simp add: w1_def insertVerified_def trigger_delivery_def inbox_insert_def)
  have "insertVerified now (trigger_delivery req tc key) (fst w1) = (False, fst w1)"
    unfolding w1_def fst_conv by (rule insert_duplicate) (rule inserted_present)
  then have dup: "inbox_insert now (trigger_delivery req tc key) w1 = (Inr False, w1)"
    by (simp add: inbox_insert_def)
  have "handleDuplicateTriggerDelivery deps req tc s = (Inr False, s\<lparr>in_world := w1\<rparr>)"
    using assms(3,4) new by (simp add: handleDuplicateTriggerDelivery_def ensureNew_def)
  then have first: "handleTriggerDispatch deps req s = (Some err, s\<lparr>in_world := w1\<rparr>)"
    using assms(2,5,6,7) by (simp add: dispatch_authorised [OF assms(1)] dispatchTriggerAction_def handleCreateIssueTrigger_def)
  have a: "authorised (deps\<lparr>td_createIssue := any\<rparr>) req tc" using assms(1) by (simp add: authorised_def)
  have "handleTriggerDispatch (deps\<lparr>td_createIssue := any\<rparr>) req (s\<lparr>in_world := w1\<rparr>) =
    (None, respond_with 200 [] (JObj [(''ok'', JBool True), (''action'', JStr (tc_action tc)), (''duplicate'', JBool True)])
       (s\<lparr>in_world := w1\<rparr>))"
    unfolding dispatch_authorised [OF a] using assms(3,4) dup
    by (simp add: handleDuplicateTriggerDelivery_def ensureNew_def)
  then show ?thesis using first assms(2) by (simp add: respond_with_def)
qed

section \<open>Witnesses\<close>

definition sample_trigger :: trigger_request where
  "sample_trigger =
     \<lparr>tq_header = (\<lambda>h. if h = ''x-risoluto-trigger-key'' then Some ''key'' else if h = ''idempotency-key'' then Some ''i1'' else None),
      tq_body = [(''action'', JStr ''create_issue''), (''title'', JStr ''Fix'')]\<rparr>"

definition sample_trigger_deps :: "(inbox \<times> nat) trigger_deps" where
  "sample_trigger_deps =
     \<lparr>td_apiKey = Some ''key'', td_allowedActions = [''create_issue''],
      td_execute = (\<lambda>c w. (\<lparr>rf_queued = True, rf_coalesced = False, rf_requestedAt = [], rf_target = None\<rparr>, w)),
      td_createIssue = Some (\<lambda>i w. (Inl (JsError ''tracker down''), w)), td_insert = Some (inbox_insert ''t'')\<rparr>"

definition sample_trigger_context :: trigger_context where
  "sample_trigger_context = \<lparr>tc_action = ''create_issue'', tc_issueId = None, tc_issueIdentifier = None\<rparr>"

lemma sample_authorised: "authorised sample_trigger_deps sample_trigger sample_trigger_context"
  by (simp add: authorised_def sample_trigger_deps_def sample_trigger_def sample_trigger_context_def extractApiKey_def
      truthy_string_def js_trim_def is_js_space_def parseTriggerDispatchContext_def omap_get_def)

theorem failed_create_loses_trigger_witness:
  "fst (handleTriggerDispatch sample_trigger_deps sample_trigger \<lparr>in_world = ([], 0), in_responses = []\<rparr>) = Some (JsError ''tracker down'')"
proof -
  have k: "truthy_string (getIdempotencyKey sample_trigger) = Some ''i1''"
    by (simp add: getIdempotencyKey_def sample_trigger_def truthy_string_def)
  have "td_insert sample_trigger_deps = Some (inbox_insert ''t'')"
    "td_createIssue sample_trigger_deps = Some (\<lambda>i w. (Inl (JsError ''tracker down''), w))"
    "tc_action sample_trigger_context = ''create_issue''"
    by (simp_all add: sample_trigger_deps_def sample_trigger_context_def)
  moreover have "pickString (tq_body sample_trigger) [''title''] = Some ''Fix''"
    by (simp add: sample_trigger_def omap_get_def js_trim_def is_js_space_def)
  ultimately show ?thesis
    using failed_create_loses_trigger [OF sample_authorised _ k, of "''t''" "\<lambda>i w. (Inl (JsError ''tracker down''), w)"
        "JsError ''tracker down''" "''Fix''" "\<lparr>in_world = ([], 0), in_responses = []\<rparr>" None]
    by (auto split: prod.splits)
qed

theorem trigger_effects_authorised_witness:
  "\<exists>k. td_apiKey sample_trigger_deps = Some k \<and> extractApiKey sample_trigger = Some k"
proof -
  have "in_world (snd (handleTriggerDispatch sample_trigger_deps sample_trigger \<lparr>in_world = ([], 0), in_responses = []\<rparr>)) \<noteq> ([], 0)"
    unfolding dispatch_authorised [OF sample_authorised]
    by (simp add: handleDuplicateTriggerDelivery_def getIdempotencyKey_def sample_trigger_def truthy_string_def ensureNew_def
        sample_trigger_deps_def inbox_insert_def insertVerified_def dispatchTriggerAction_def sample_trigger_context_def
        handleCreateIssueTrigger_def omap_get_def js_trim_def is_js_space_def)
  then show ?thesis
    using trigger_effects_authorised [of sample_trigger_deps sample_trigger "\<lparr>in_world = ([], 0), in_responses = []\<rparr>"] by auto
qed

end
