(* ===== verification/Notifications.thy ===== *)
theory Notifications
  imports AgentHelpers Outcome
begin

text \<open>
  Notifications: \<open>src/src/notification/channel.ts\<close>, \<open>slack-webhook.ts\<close>, \<open>webhook-channel.ts\<close>,
  \<open>desktop.ts\<close>, \<open>webhook-delivery.ts\<close> and \<open>manager.ts\<close>. What a channel does to the outside (an HTTP
  request, a command) is a function on a world; the channels of one delivery run in the order the code
  starts them. The store of notifications is a parameter.
\<close>

section \<open>Events\<close>

datatype severity = SevInfo | SevWarning | SevCritical

fun severity_name :: "severity \<Rightarrow> string" where
  "severity_name SevInfo = ''info''"
| "severity_name SevWarning = ''warning''"
| "severity_name SevCritical = ''critical''"

datatype verbosity = VOff | VCritical | VVerbose

datatype notification_event_type =
    NtIssueClaimed | NtWorkerLaunched | NtWorkerCompleted | NtWorkerRetry | NtWorkerFailed
  | NtAutomationCompleted | NtAutomationFailed | NtAlertFired | NtHealthDown | NtHealthRecovered

fun notification_type_name :: "notification_event_type \<Rightarrow> string" where
  "notification_type_name NtIssueClaimed = ''issue_claimed''"
| "notification_type_name NtWorkerLaunched = ''worker_launched''"
| "notification_type_name NtWorkerCompleted = ''worker_completed''"
| "notification_type_name NtWorkerRetry = ''worker_retry''"
| "notification_type_name NtWorkerFailed = ''worker_failed''"
| "notification_type_name NtAutomationCompleted = ''automation_completed''"
| "notification_type_name NtAutomationFailed = ''automation_failed''"
| "notification_type_name NtAlertFired = ''alert_fired''"
| "notification_type_name NtHealthDown = ''health_down''"
| "notification_type_name NtHealthRecovered = ''health_recovered''"

record notification_issue =
  ni_id :: "string option"
  ni_identifier :: string
  ni_title :: string
  ni_state :: "string option"
  ni_url :: "string option"

record notification_event =
  nv_type :: notification_event_type
  nv_severity :: severity
  nv_timestamp :: string
  nv_title :: "string option"
  nv_message :: string
  nv_href :: "string option"
  nv_source :: "string option"
  nv_issue :: notification_issue
  nv_attempt :: "int option"
  nv_metadata :: "(string, json) omap option"
  nv_dedupeKey :: "string option"

definition shouldDeliverByVerbosity :: "notification_event \<Rightarrow> verbosity \<Rightarrow> bool" where
  "shouldDeliverByVerbosity event v =
     (if v = VOff then False else if v = VCritical then nv_severity event = SevCritical else True)"

fun SEVERITY_ORDER :: "severity \<Rightarrow> nat" where
  "SEVERITY_ORDER SevInfo = 0"
| "SEVERITY_ORDER SevWarning = 1"
| "SEVERITY_ORDER SevCritical = 2"

definition shouldDeliverByMinSeverity :: "severity \<Rightarrow> severity \<Rightarrow> bool" where
  "shouldDeliverByMinSeverity eventSeverity minimumSeverity \<longleftrightarrow> SEVERITY_ORDER eventSeverity \<ge> SEVERITY_ORDER minimumSeverity"

section \<open>Channels\<close>

record 'w outside =
  os_fetch :: "string \<Rightarrow> (string, string) omap \<Rightarrow> string \<Rightarrow> 'w \<Rightarrow> (js_error + int \<times> string) \<times> 'w"
  os_run :: "string \<Rightarrow> string list \<Rightarrow> 'w \<Rightarrow> js_error option \<times> 'w"
  os_platform :: string

datatype channel =
    SlackChannel string string verbosity "severity option"
  | WebhookChannel string string "severity option" "(string, string) omap"
  | DesktopChannel string bool "severity option"

fun channel_name :: "channel \<Rightarrow> string" where
  "channel_name (SlackChannel n _ _ _) = n"
| "channel_name (WebhookChannel n _ _ _) = n"
| "channel_name (DesktopChannel n _ _) = n"

definition newline :: string where
  "newline = [CHR 0x0A]"

fun js_display :: "json \<Rightarrow> string" where
  "js_display (JStr s) = s"
| "js_display v = json_stringify v"

definition metadataLines :: "(string, json) omap option \<Rightarrow> string list" where
  "metadataLines metadata =
     (case metadata of None \<Rightarrow> [] | Some m \<Rightarrow> map (\<lambda>(k, v). k @ '': '' @ js_display v) (take 8 m))"

definition slackColorForSeverity :: "severity \<Rightarrow> string" where
  "slackColorForSeverity s = (if s = SevCritical then ''#d32f2f'' else ''#1d4ed8'')"

definition slackSeverityTag :: "severity \<Rightarrow> string" where
  "slackSeverityTag s = (if s = SevCritical then ''CRITICAL'' else ''INFO'')"

definition mrkdwn_section :: "string \<Rightarrow> json" where
  "mrkdwn_section t = JObj [(''type'', JStr ''section''), (''text'', JObj [(''type'', JStr ''mrkdwn''), (''text'', JStr t)])]"

definition buildSlackPayload :: "notification_event \<Rightarrow> json" where
  "buildSlackPayload event =
     (let issue = nv_issue event;
          details = [''Issue: '' @ ni_identifier issue,
             ''Attempt: '' @ (case nv_attempt event of None \<Rightarrow> ''n/a'' | Some n \<Rightarrow> show_int n),
             ''Type: '' @ notification_type_name (nv_type event), ''Severity: '' @ slackSeverityTag (nv_severity event),
             ''At: '' @ nv_timestamp event] @
             (case truthy_string (ni_state issue) of None \<Rightarrow> [] | Some st \<Rightarrow> [''State: '' @ st]);
          metadata = metadataLines (nv_metadata event);
          blocks = [JObj [(''type'', JStr ''header''), (''text'', JObj [(''type'', JStr ''plain_text''),
               (''text'', JStr (coalesce (nv_title event)
                  (''Risoluto '' @ slackSeverityTag (nv_severity event) @ '' '' @ notification_type_name (nv_type event))))])],
             mrkdwn_section (''*'' @ ni_identifier issue @ ''* - '' @ ni_title issue), mrkdwn_section (nv_message event),
             JObj [(''type'', JStr ''context''),
               (''elements'', JArr (map (\<lambda>line. JObj [(''type'', JStr ''mrkdwn''), (''text'', JStr line)]) details))]] @
             (case truthy_string (ni_url issue) of None \<Rightarrow> [] | Some u \<Rightarrow> [mrkdwn_section (''<'' @ u @ ''|Open issue>'')]) @
             (if metadata \<noteq> [] then [mrkdwn_section (''```'' @ join newline metadata @ ''```'')] else [])
      in JObj [(''text'', JStr (''[Risoluto '' @ slackSeverityTag (nv_severity event) @ ''] '' @ ni_identifier issue @ '': '' @ nv_message event)),
           (''attachments'', JArr [JObj [(''color'', JStr (slackColorForSeverity (nv_severity event))), (''blocks'', JArr blocks)]])])"

definition issue_json :: "notification_issue \<Rightarrow> json" where
  "issue_json i = JObj [(''id'', jopt JStr (ni_id i)), (''identifier'', JStr (ni_identifier i)), (''title'', JStr (ni_title i)),
     (''state'', jopt JStr (ni_state i)), (''url'', jopt JStr (ni_url i))]"

definition buildPayload :: "notification_event \<Rightarrow> json" where
  "buildPayload event =
     JObj [(''notification'', JObj [(''type'', JStr (notification_type_name (nv_type event))),
       (''severity'', JStr (severity_name (nv_severity event))),
       (''title'', JStr (coalesce (nv_title event) (ni_title (nv_issue event)))), (''message'', JStr (nv_message event)),
       (''source'', JStr (coalesce (nv_source event) ''risoluto'')),
       (''href'', jopt JStr (or_else (nv_href event) (ni_url (nv_issue event)))), (''timestamp'', JStr (nv_timestamp event)),
       (''issue'', issue_json (nv_issue event)), (''attempt'', jopt JNum (nv_attempt event)),
       (''metadata'', jopt JObj (nv_metadata event))])]"

definition deliverWebhookJson ::
  "'w outside \<Rightarrow> string \<Rightarrow> (string, string) omap \<Rightarrow> json \<Rightarrow> string \<Rightarrow> 'w \<Rightarrow> js_error option \<times> 'w" where
  "deliverWebhookJson os url headers payload failureLabel w =
     (case os_fetch os url (omap_of ((''content-type'', ''application/json; charset=utf-8'') # headers)) (json_stringify payload) w of
        (Inl e, w1) \<Rightarrow> (Some e, w1)
      | (Inr (status, body), w1) \<Rightarrow>
          (if 200 \<le> status \<and> status \<le> 299 then None
           else Some (JsError (failureLabel @ '' request failed with status '' @ show_int status @ '': '' @ body)), w1))"

fun js_upper_name :: "severity \<Rightarrow> string" where
  "js_upper_name SevInfo = ''INFO''"
| "js_upper_name SevWarning = ''WARNING''"
| "js_upper_name SevCritical = ''CRITICAL''"

definition buildDesktopTitle :: "notification_event \<Rightarrow> string" where
  "buildDesktopTitle event = coalesce (nv_title event) (''Risoluto '' @ js_upper_name (nv_severity event))"

definition buildDesktopMessage :: "notification_event \<Rightarrow> string" where
  "buildDesktopMessage event = ni_identifier (nv_issue event) @ '': '' @ nv_message event"

definition escapeAppleScript :: "string \<Rightarrow> string" where
  "escapeAppleScript s = concat (map (\<lambda>c. if c = CHR 0x5C \<or> c = CHR 0x22 then [CHR 0x5C, c] else [c]) s)"

definition escapePowerShell :: "string \<Rightarrow> string" where
  "escapePowerShell s = concat (map (\<lambda>c. if c = CHR 0x27 then [c, c] else [c]) s)"

definition quoted_with :: "char \<Rightarrow> string \<Rightarrow> string" where
  "quoted_with q s = [q] @ s @ [q]"

definition buildWindowsNotificationScript :: "string \<Rightarrow> string \<Rightarrow> string" where
  "buildWindowsNotificationScript title message =
     join ''; ''
       [''Add-Type -AssemblyName System.Windows.Forms'', ''Add-Type -AssemblyName System.Drawing'',
        ''$notification = New-Object System.Windows.Forms.NotifyIcon'',
        ''$notification.Icon = [System.Drawing.SystemIcons]::Information'',
        ''$notification.BalloonTipTitle = '' @ quoted_with CHR 0x27 (escapePowerShell title),
        ''$notification.BalloonTipText = '' @ quoted_with CHR 0x27 (escapePowerShell message),
        ''$notification.Visible = $true'', ''$notification.ShowBalloonTip(5000)'', ''Start-Sleep -Milliseconds 5500'',
        ''$notification.Dispose()'']"

definition apple_script :: "string \<Rightarrow> string \<Rightarrow> string" where
  "apple_script title message =
     ''display notification '' @ quoted_with CHR 0x22 (escapeAppleScript message) @ '' with title '' @
     quoted_with CHR 0x22 (escapeAppleScript title)"

definition desktop_notify :: "'w outside \<Rightarrow> notification_event \<Rightarrow> 'w \<Rightarrow> js_error option \<times> 'w" where
  "desktop_notify os event w =
     (let title = buildDesktopTitle event; message = buildDesktopMessage event
      in if os_platform os = ''linux'' then os_run os ''notify-send'' [title, message] w
         else if os_platform os = ''darwin'' then os_run os ''osascript'' [''-e'', apple_script title message] w
         else if os_platform os = ''win32''
         then os_run os ''powershell.exe'' [''-NoProfile'', ''-NonInteractive'', ''-ExecutionPolicy'', ''Bypass'', ''-Command'',
                buildWindowsNotificationScript title message] w
         else (Some (JsError (''desktop notifications are not supported on platform '' @ os_platform os)), w))"

text \<open>Whether a channel acts on an event at all, and the \<open>notify\<close> of each channel.\<close>

fun channel_wants :: "channel \<Rightarrow> notification_event \<Rightarrow> bool" where
  "channel_wants (SlackChannel _ _ v m) event =
     (shouldDeliverByVerbosity event v \<and> shouldDeliverByMinSeverity (nv_severity event) (coalesce m SevInfo))"
| "channel_wants (WebhookChannel _ _ m _) event = shouldDeliverByMinSeverity (nv_severity event) (coalesce m SevInfo)"
| "channel_wants (DesktopChannel _ enabled m) event =
     (enabled \<and> shouldDeliverByMinSeverity (nv_severity event) (coalesce m SevInfo))"

fun channel_send :: "'w outside \<Rightarrow> channel \<Rightarrow> notification_event \<Rightarrow> 'w \<Rightarrow> js_error option \<times> 'w" where
  "channel_send os (SlackChannel _ url _ _) event w = deliverWebhookJson os url [] (buildSlackPayload event) ''slack webhook'' w"
| "channel_send os (WebhookChannel _ url _ headers) event w = deliverWebhookJson os url headers (buildPayload event) ''webhook'' w"
| "channel_send os (DesktopChannel _ _ _) event w = desktop_notify os event w"

definition channel_notify :: "'w outside \<Rightarrow> channel \<Rightarrow> notification_event \<Rightarrow> 'w \<Rightarrow> js_error option \<times> 'w" where
  "channel_notify os c event w = (if channel_wants c event then channel_send os c event w else (None, w))"

section \<open>The manager\<close>

record delivery_summary =
  ds_deliveredChannels :: "string list"
  ds_failedChannels :: "(string \<times> string) list"
  ds_skippedDuplicate :: bool

record create_notification_input =
  nt_type :: string
  nt_severity :: severity
  nt_title :: string
  nt_message :: string
  nt_source :: "string option"
  nt_href :: "string option"
  nt_dedupeKey :: "string option"
  nt_metadata :: "(string, json) omap option"
  nt_createdAt :: string

record notification_record =
  nr_id :: string
  nr_input :: create_notification_input
  nr_read :: bool
  nr_deliverySummary :: "delivery_summary option"
  nr_updatedAt :: string

record 'w notification_store =
  sto_create :: "create_notification_input \<Rightarrow> 'w \<Rightarrow> (js_error + notification_record) \<times> 'w"
  sto_update :: "string \<Rightarrow> delivery_summary \<Rightarrow> 'w \<Rightarrow> (js_error + notification_record option) \<times> 'w"

datatype notification_emit = NotificationCreated notification_record | NotificationUpdated notification_record

record 'w manager_env =
  me_now :: int
  me_host :: host
  me_window :: int
  me_outside :: "'w outside"
  me_store :: "'w notification_store option"

record 'w manager =
  mg_world :: 'w
  mg_channels :: "(string, channel) omap"
  mg_recent :: "(string, int) omap"
  mg_emitted :: "notification_emit list"

definition registerChannel :: "channel \<Rightarrow> 'w manager \<Rightarrow> 'w manager" where
  "registerChannel c g = g\<lparr>mg_channels := omap_set (channel_name c) c (mg_channels g)\<rparr>"

definition removeChannel :: "string \<Rightarrow> 'w manager \<Rightarrow> bool \<times> 'w manager" where
  "removeChannel name g = (omap_has (mg_channels g) name, g\<lparr>mg_channels := omap_delete name (mg_channels g)\<rparr>)"

definition listChannels :: "host \<Rightarrow> 'w manager \<Rightarrow> string list" where
  "listChannels h g = js_sort (h_locale_compare h) (omap_keys (mg_channels g))"

definition eventDedupeKey :: "notification_event \<Rightarrow> string" where
  "eventDedupeKey event =
     (case truthy_string (nv_dedupeKey event) of
        Some k \<Rightarrow> k
      | None \<Rightarrow> join ''|'' [notification_type_name (nv_type event), ni_identifier (nv_issue event),
          (case nv_attempt event of None \<Rightarrow> ''none'' | Some n \<Rightarrow> show_int n), severity_name (nv_severity event), nv_message event])"

definition isDuplicate :: "int \<Rightarrow> int \<Rightarrow> string \<Rightarrow> (string, int) omap \<Rightarrow> bool \<times> (string, int) omap" where
  "isDuplicate now window key m =
     (case omap_get m key of
        None \<Rightarrow> (False, m)
      | Some seenAt \<Rightarrow>
          if seenAt = 0 then (False, m)
          else if now - seenAt > window then (False, omap_delete key m)
          else (True, m))"

definition remember :: "int \<Rightarrow> int \<Rightarrow> string \<Rightarrow> (string, int) omap \<Rightarrow> (string, int) omap" where
  "remember now window key m = filter (\<lambda>(k, seenAt). \<not> now - seenAt > window) (omap_set key now m)"

definition buildNotificationMetadata :: "notification_event \<Rightarrow> (string, json) omap" where
  "buildNotificationMetadata event =
     fold (\<lambda>(k, v) m. omap_set k v m)
       [(''issueId'', jopt JStr (ni_id (nv_issue event))), (''issueIdentifier'', JStr (ni_identifier (nv_issue event))),
        (''issueTitle'', JStr (ni_title (nv_issue event))), (''issueState'', jopt JStr (ni_state (nv_issue event))),
        (''issueUrl'', jopt JStr (ni_url (nv_issue event))), (''attempt'', jopt JNum (nv_attempt event))]
       (coalesce (nv_metadata event) [])"

fun defaultTitle :: "notification_event_type \<Rightarrow> string" where
  "defaultTitle NtIssueClaimed = ''Issue claimed''"
| "defaultTitle NtWorkerLaunched = ''Worker launched''"
| "defaultTitle NtWorkerCompleted = ''Worker completed''"
| "defaultTitle NtWorkerRetry = ''Worker retry queued''"
| "defaultTitle NtWorkerFailed = ''Worker attention required''"
| "defaultTitle NtAutomationCompleted = ''Automation completed''"
| "defaultTitle NtAutomationFailed = ''Automation failed''"
| "defaultTitle NtAlertFired = ''Alert fired''"
| "defaultTitle _ = ''Notification''"

definition createNotificationRecord ::
  "'w manager_env \<Rightarrow> notification_event \<Rightarrow> string \<Rightarrow> 'w manager \<Rightarrow> notification_record option \<times> 'w manager" where
  "createNotificationRecord env event key g =
     (case me_store env of
        None \<Rightarrow> (None, g)
      | Some st \<Rightarrow>
          (case sto_create st \<lparr>nt_type = notification_type_name (nv_type event), nt_severity = nv_severity event,
                  nt_title = coalesce (nv_title event) (defaultTitle (nv_type event)), nt_message = nv_message event,
                  nt_source = Some (coalesce (nv_source event) (ni_identifier (nv_issue event))),
                  nt_href = or_else (nv_href event) (ni_url (nv_issue event)), nt_dedupeKey = Some key,
                  nt_metadata = Some (buildNotificationMetadata event), nt_createdAt = nv_timestamp event\<rparr> (mg_world g) of
             (Inl _, w) \<Rightarrow> (None, g\<lparr>mg_world := w\<rparr>)
           | (Inr r, w) \<Rightarrow> (Some r, g\<lparr>mg_world := w\<rparr>)))"

definition updateNotificationRecord ::
  "'w manager_env \<Rightarrow> notification_record option \<Rightarrow> delivery_summary \<Rightarrow> 'w manager \<Rightarrow> 'w manager" where
  "updateNotificationRecord env notification summary g =
     (case (notification, me_store env) of
        (Some n, Some st) \<Rightarrow>
          (case sto_update st (nr_id n) summary (mg_world g) of
             (Inr (Some updated), w) \<Rightarrow> g\<lparr>mg_world := w, mg_emitted := mg_emitted g @ [NotificationUpdated updated]\<rparr>
           | (_, w) \<Rightarrow> g\<lparr>mg_world := w\<rparr>)
      | _ \<Rightarrow> g)"

fun deliver_all ::
  "'w outside \<Rightarrow> notification_event \<Rightarrow> channel list \<Rightarrow> string list \<times> (string \<times> string) list \<Rightarrow> 'w \<Rightarrow>
   (string list \<times> (string \<times> string) list) \<times> 'w" where
  "deliver_all os event [] acc w = (acc, w)"
| "deliver_all os event (c # cs) (delivered, failed) w =
     (case channel_notify os c event w of
        (None, w1) \<Rightarrow> deliver_all os event cs (delivered @ [channel_name c], failed) w1
      | (Some e, w1) \<Rightarrow> deliver_all os event cs (delivered, failed @ [(channel_name c, toErrorString e)]) w1)"

definition allowed_channels :: "string list option \<Rightarrow> (string, channel) omap \<Rightarrow> channel list" where
  "allowed_channels names m =
     filter (\<lambda>c. case names of None \<Rightarrow> True | Some ns \<Rightarrow> channel_name c \<in> set ns) (omap_values m)"

text \<open>\<open>new Set(names)\<close> in the order of first occurrence.\<close>

definition js_set :: "string list \<Rightarrow> string list" where
  "js_set xs = rev (remdups (rev xs))"

definition missing_channels :: "string list option \<Rightarrow> (string, channel) omap \<Rightarrow> (string \<times> string) list" where
  "missing_channels names m =
     (case names of None \<Rightarrow> []
      | Some ns \<Rightarrow> map (\<lambda>n. (n, ''channel not registered'')) (filter (\<lambda>n. \<not> omap_has m n) (js_set ns)))"

definition deliver ::
  "'w manager_env \<Rightarrow> notification_event \<Rightarrow> string list option \<Rightarrow> 'w manager \<Rightarrow> delivery_summary \<times> 'w manager" where
  "deliver env event names g =
     (case deliver_all (me_outside env) event (allowed_channels names (mg_channels g))
             ([], missing_channels names (mg_channels g)) (mg_world g) of
        ((delivered, failed), w) \<Rightarrow>
          (\<lparr>ds_deliveredChannels = js_sort (h_locale_compare (me_host env)) delivered,
             ds_failedChannels = js_sort (\<lambda>a b. h_locale_compare (me_host env) (fst a) (fst b)) failed,
             ds_skippedDuplicate = False\<rparr>,
           g\<lparr>mg_world := w\<rparr>))"

definition duplicate_summary :: delivery_summary where
  "duplicate_summary = \<lparr>ds_deliveredChannels = [], ds_failedChannels = [], ds_skippedDuplicate = True\<rparr>"

definition notify ::
  "'w manager_env \<Rightarrow> notification_event \<Rightarrow> string list option \<Rightarrow> 'w manager \<Rightarrow> delivery_summary \<times> 'w manager" where
  "notify env event names g =
     (let key = eventDedupeKey event;
          (notification, g1) = createNotificationRecord env event key g;
          g2 = (case notification of None \<Rightarrow> g1 | Some n \<Rightarrow> g1\<lparr>mg_emitted := mg_emitted g1 @ [NotificationCreated n]\<rparr>);
          (duplicate, recent) = isDuplicate (me_now env) (me_window env) key (mg_recent g2);
          g3 = g2\<lparr>mg_recent := recent\<rparr>
      in if duplicate then (duplicate_summary, updateNotificationRecord env notification duplicate_summary g3)
         else (case deliver env event names (g3\<lparr>mg_recent := remember (me_now env) (me_window env) key recent\<rparr>) of
                 (summary, g4) \<Rightarrow> (summary, updateNotificationRecord env notification summary g4)))"

end
