(* ===== verification/NotificationClaims.thy ===== *)
theory NotificationClaims
  imports Notifications
begin

text \<open>What the notification manager promises, and the quoting of desktop notifications.\<close>

section \<open>Lemmas\<close>

definition manager_ok :: "'w manager \<Rightarrow> bool" where
  "manager_ok g \<longleftrightarrow> omap_ok (mg_channels g) \<and> (\<forall>(k, c) \<in> set (mg_channels g). channel_name c = k)"

lemma registerChannel_ok: "manager_ok g \<Longrightarrow> manager_ok (registerChannel c g)"
  by (auto simp: manager_ok_def registerChannel_def set_omap_set)

lemma removeChannel_ok: "manager_ok g \<Longrightarrow> manager_ok (snd (removeChannel n g))"
  by (auto simp: manager_ok_def removeChannel_def set_omap_delete)

lemma create_fields:
  "createNotificationRecord env event key g = (n, g1) \<Longrightarrow>
     mg_channels g1 = mg_channels g \<and> mg_recent g1 = mg_recent g \<and> mg_emitted g1 = mg_emitted g \<and>
     (me_store env = None \<longrightarrow> n = None \<and> g1 = g)"
  by (auto simp: createNotificationRecord_def split: option.splits prod.splits sum.splits)

lemma update_fields [simp]:
  "mg_channels (updateNotificationRecord env n s g) = mg_channels g"
  "mg_recent (updateNotificationRecord env n s g) = mg_recent g"
  "me_store env = None \<Longrightarrow> updateNotificationRecord env n s g = g"
  by (auto simp: updateNotificationRecord_def split: option.split prod.split sum.split)

lemma deliver_fields:
  "deliver env event names g = (s, g1) \<Longrightarrow> mg_channels g1 = mg_channels g \<and> mg_recent g1 = mg_recent g \<and> \<not> ds_skippedDuplicate s"
  by (auto simp: deliver_def split: prod.splits)

text \<open>\<open>notify\<close> on the table of recent keys, and what it leaves alone.\<close>

lemma notify_recent:
  assumes "notify env event names g = (s, g')"
  shows "mg_channels g' = mg_channels g \<and>
    (case isDuplicate (me_now env) (me_window env) (eventDedupeKey event) (mg_recent g) of (dup, recent) \<Rightarrow>
       if dup then s = duplicate_summary \<and> mg_recent g' = recent \<and> (me_store env = None \<longrightarrow> mg_world g' = mg_world g)
       else \<not> ds_skippedDuplicate s \<and> mg_recent g' = remember (me_now env) (me_window env) (eventDedupeKey event) recent)"
proof -
  let ?key = "eventDedupeKey event"
  obtain n g1 where c: "createNotificationRecord env event ?key g = (n, g1)" by fastforce
  define g2 where "g2 = (case n of None \<Rightarrow> g1 | Some n \<Rightarrow> g1\<lparr>mg_emitted := mg_emitted g1 @ [NotificationCreated n]\<rparr>)"
  have g2: "mg_channels g2 = mg_channels g" "mg_recent g2 = mg_recent g" "me_store env = None \<longrightarrow> mg_world g2 = mg_world g"
    using create_fields [OF c] by (auto simp: g2_def split: option.split)
  obtain dup recent where d: "isDuplicate (me_now env) (me_window env) ?key (mg_recent g) = (dup, recent)" by fastforce
  show ?thesis
  proof (cases dup)
    case True
    then show ?thesis using assms c d g2 by (auto simp: notify_def Let_def simp flip: g2_def)
  next
    case False
    obtain sm g4 where v: "deliver env event names (g2\<lparr>mg_recent := remember (me_now env) (me_window env) ?key recent\<rparr>) = (sm, g4)"
      by fastforce
    then have "s = sm" "g' = updateNotificationRecord env n sm g4"
      using assms c d g2(2) False by (auto simp: notify_def Let_def simp flip: g2_def)
    then show ?thesis using deliver_fields [OF v] d False g2(1) by simp
  qed
qed

lemma notify_ok: "manager_ok g \<Longrightarrow> manager_ok (snd (notify env event names g))"
  using notify_recent [of env event names g "fst (notify env event names g)" "snd (notify env event names g)"]
  by (simp add: manager_ok_def)








section \<open>Runs\<close>



lemma js_set_mset: "mset (js_set xs) = mset (remdups xs)"
  by (rule set_eq_iff_mset_eq_distinct [THEN iffD1]) (auto simp: js_set_def)

lemma deliver_all_report:
  "deliver_all os event cs (d, f) w = ((d', f'), w') \<Longrightarrow>
     mset d' + mset (map fst f') = mset d + mset (map fst f) + mset (map channel_name cs)"
proof (induction cs arbitrary: d f w)
  case (Cons c cs)
  obtain e w1 where n: "channel_notify os c event w = (e, w1)" by fastforce
  show ?case
  proof (cases e)
    case None
    with Cons.prems n have "deliver_all os event cs (d @ [channel_name c], f) w1 = ((d', f'), w')" by simp
    from Cons.IH [OF this] show ?thesis by simp
  next
    case (Some err)
    with Cons.prems n have "deliver_all os event cs (d, f @ [(channel_name c, toErrorString err)]) w1 = ((d', f'), w')" by simp
    from Cons.IH [OF this] show ?thesis by simp
  qed
qed simp

lemma channel_names:
  assumes "manager_ok g"
  shows "map channel_name (omap_values (mg_channels g)) = omap_keys (mg_channels g)"
  using assms by (auto simp: manager_ok_def omap_values_def omap_keys_def)

lemma allowed_names:
  assumes "manager_ok g"
  shows "map channel_name (allowed_channels names (mg_channels g)) =
     filter (\<lambda>n. case names of None \<Rightarrow> True | Some ns \<Rightarrow> n \<in> set ns) (omap_keys (mg_channels g))"
  by (cases names) (auto simp: allowed_channels_def channel_names [OF assms, symmetric] filter_map comp_def)

lemma requested_split:
  assumes "distinct ks"
  shows "mset (filter (\<lambda>n. n \<notin> set ks) (js_set ns)) + mset (filter (\<lambda>n. n \<in> set ns) ks) = mset (remdups ns)"
proof -
  have "mset (filter (\<lambda>n. n \<in> set ns) ks) = mset (filter (\<lambda>n. n \<in> set ks) (js_set ns))"
    by (rule set_eq_iff_mset_eq_distinct [THEN iffD1]) (use assms in \<open>auto simp: js_set_def\<close>)
  then have "mset (filter (\<lambda>n. n \<notin> set ks) (js_set ns)) + mset (filter (\<lambda>n. n \<in> set ns) ks) = mset (js_set ns)"
    by (simp only: mset_filter add.commute [of "filter_mset (\<lambda>n. n \<notin> set ks) (mset (js_set ns))"] multiset_partition [symmetric])
  then show ?thesis by (simp add: js_set_mset)
qed

section \<open>Properties\<close>


text \<open>
  A delivery reports every requested channel exactly once, as delivered or as failed; a requested name
  that is not registered is reported as failed.
\<close>

theorem delivery_reports_each_channel:
  assumes "manager_ok g"
  shows "case deliver env event names g of (s, g') \<Rightarrow>
    mset (ds_deliveredChannels s) + mset (map fst (ds_failedChannels s)) =
      (case names of None \<Rightarrow> mset (omap_keys (mg_channels g)) | Some ns \<Rightarrow> mset (remdups ns)) \<and>
    manager_ok g'"
proof -
  let ?m = "mg_channels g"
  obtain d f w where r: "deliver_all (me_outside env) event (allowed_channels names ?m) ([], missing_channels names ?m) (mg_world g) = ((d, f), w)"
    by (metis prod.exhaust)
  have k: "distinct (omap_keys ?m)" using assms by (simp add: manager_ok_def omap_ok_def omap_keys_def)
  have "mset d + mset (map fst f) = mset (map fst (missing_channels names ?m)) + mset (map channel_name (allowed_channels names ?m))"
    using deliver_all_report [OF r] by simp
  also have "\<dots> = (case names of None \<Rightarrow> mset (omap_keys ?m) | Some ns \<Rightarrow> mset (remdups ns))"
  proof (cases names)
    case (Some ns)
    have "map fst (missing_channels names ?m) = filter (\<lambda>n. n \<notin> set (omap_keys ?m)) (js_set ns)"
      by (simp add: Some missing_channels_def comp_def omap_has_def omap_keys_get omap_get_def map_of_eq_None_iff)
    then show ?thesis using requested_split [OF k, of ns] Some allowed_names [OF assms, of names] by simp
  qed (simp add: missing_channels_def allowed_names [OF assms])
  finally show ?thesis
    using assms by (simp add: deliver_def r manager_ok_def)
qed

text \<open>
  A channel that filters an event out (by severity, verbosity or because it is disabled) does nothing, but
  the delivery reports it as delivered.
\<close>

theorem filtered_counts_as_delivered:
  assumes "\<not> channel_wants c event" and "mg_channels g = [(channel_name c, c)]"
  shows "deliver env event None g = (\<lparr>ds_deliveredChannels = [channel_name c], ds_failedChannels = [], ds_skippedDuplicate = False\<rparr>, g)"
  using assms by (simp add: deliver_def allowed_channels_def missing_channels_def omap_values_def channel_notify_def)

text \<open>The table of recent keys holds no key older than the window after a notification went out.\<close>

lemma recent_bounded:
  assumes "\<not> ds_skippedDuplicate (fst (notify env event names g))"
  shows "\<forall>(k, t) \<in> set (mg_recent (snd (notify env event names g))). me_now env - t \<le> me_window env"
proof -
  obtain s g' where n: "notify env event names g = (s, g')" by fastforce
  then show ?thesis using notify_recent [OF n] assms
    by (auto simp: duplicate_summary_def remember_def split: prod.splits if_splits)
qed

section \<open>Quoting\<close>

text \<open>How AppleScript and PowerShell read a quoted string: up to the first quote that is not escaped.\<close>

fun read_apple :: "string \<Rightarrow> (string \<times> string) option" where
  "read_apple [] = None"
| "read_apple (c # cs) =
     (if c = CHR 0x22 then Some ([], cs)
      else if c = CHR 0x5C then (case cs of [] \<Rightarrow> None | d # ds \<Rightarrow> map_option (\<lambda>(s, r). (d # s, r)) (read_apple ds))
      else map_option (\<lambda>(s, r). (c # s, r)) (read_apple cs))"

fun read_powershell :: "string \<Rightarrow> (string \<times> string) option" where
  "read_powershell [] = None"
| "read_powershell [c] = (if c = CHR 0x27 then Some ([], []) else None)"
| "read_powershell (c # d # ds) =
     (if c = CHR 0x27 then (if d = CHR 0x27 then map_option (\<lambda>(s, r). (d # s, r)) (read_powershell ds) else Some ([], d # ds))
      else map_option (\<lambda>(s, r). (c # s, r)) (read_powershell (d # ds)))"

lemma read_apple_escape: "read_apple (escapeAppleScript s @ CHR 0x22 # rest) = Some (s, rest)"
  by (induction s) (auto simp: escapeAppleScript_def)

lemma read_powershell_cons: "c \<noteq> CHR 0x27 \<Longrightarrow> cs \<noteq> [] \<Longrightarrow> read_powershell (c # cs) = map_option (\<lambda>(s, r). (c # s, r)) (read_powershell cs)"
  by (cases cs) auto

lemma read_powershell_escape:
  "rest = [] \<or> hd rest \<noteq> CHR 0x27 \<Longrightarrow> read_powershell (escapePowerShell s @ CHR 0x27 # rest) = Some (s, rest)"
proof (induction s)
  case Nil
  then show ?case by (cases rest) (auto simp: escapePowerShell_def)
next
  case (Cons c s)
  then show ?case by (auto simp: escapePowerShell_def read_powershell_cons)
qed

text \<open>
  No title and no message can leave its quotes in the AppleScript or PowerShell code of a desktop
  notification: the interpreter reads back exactly the text, and the code after it is the program's own.
\<close>

theorem desktop_quoting_roundtrip:
  "apple_script title message =
     ''display notification '' @ CHR 0x22 # escapeAppleScript message @ CHR 0x22 # '' with title '' @
       CHR 0x22 # escapeAppleScript title @ [CHR 0x22] \<and>
   read_apple (escapeAppleScript message @ CHR 0x22 # '' with title '' @ CHR 0x22 # escapeAppleScript title @ [CHR 0x22]) =
     Some (message, '' with title '' @ CHR 0x22 # escapeAppleScript title @ [CHR 0x22]) \<and>
   read_apple (escapeAppleScript title @ [CHR 0x22]) = Some (title, []) \<and>
   read_powershell (escapePowerShell title @ CHR 0x27 # CHR 0x3B # rest) = Some (title, CHR 0x3B # rest)"
  by (simp add: apple_script_def quoted_with_def read_apple_escape read_powershell_escape)

section \<open>Witnesses\<close>

definition sample_notification :: notification_event where
  "sample_notification =
     \<lparr>nv_type = NtWorkerFailed, nv_severity = SevWarning, nv_timestamp = ''t'', nv_title = None, nv_message = ''m'', nv_href = None,
      nv_source = None, nv_issue = \<lparr>ni_id = None, ni_identifier = ''A-1'', ni_title = ''x'', ni_state = None, ni_url = None\<rparr>,
      nv_attempt = None, nv_metadata = None, nv_dedupeKey = Some ''k''\<rparr>"

definition sample_manager_env :: "int \<Rightarrow> nat manager_env" where
  "sample_manager_env now =
     \<lparr>me_now = now, me_host = example_host, me_window = 30000,
      me_outside = \<lparr>os_fetch = (\<lambda>_ _ _ w. (Inl (JsError ''offline''), w + 1)), os_run = (\<lambda>_ _ w. (None, w + 1)), os_platform = ''linux''\<rparr>,
      me_store = None\<rparr>"

definition sample_manager :: "nat manager" where
  "sample_manager =
     \<lparr>mg_world = 0, mg_channels = [(''ops'', SlackChannel ''ops'' ''https://hooks'' VCritical None)], mg_recent = [], mg_emitted = []\<rparr>"


theorem delivery_reports_each_channel_witness:
  "mset (ds_deliveredChannels (fst (deliver (sample_manager_env 1) sample_notification (Some [''ops'', ''gone'']) sample_manager))) +
   mset (map fst (ds_failedChannels (fst (deliver (sample_manager_env 1) sample_notification (Some [''ops'', ''gone'']) sample_manager)))) =
   {#''ops'', ''gone''#}"
proof -
  have "manager_ok sample_manager" by (simp add: manager_ok_def sample_manager_def omap_ok_def)
  from delivery_reports_each_channel [OF this, of "Some [''ops'', ''gone'']" "sample_manager_env 1" sample_notification]
  show ?thesis by (auto split: prod.splits)
qed

theorem filtered_counts_as_delivered_witness:
  "ds_deliveredChannels (fst (deliver (sample_manager_env 1) sample_notification None sample_manager)) = [''ops'']"
proof -
  have "\<not> channel_wants (SlackChannel ''ops'' ''https://hooks'' VCritical None) sample_notification"
    by (simp add: sample_notification_def shouldDeliverByVerbosity_def)
  moreover have "mg_channels sample_manager = [(channel_name (SlackChannel ''ops'' ''https://hooks'' VCritical None), SlackChannel ''ops'' ''https://hooks'' VCritical None)]"
    by (simp add: sample_manager_def)
  ultimately show ?thesis using filtered_counts_as_delivered [of "SlackChannel ''ops'' ''https://hooks'' VCritical None" sample_notification sample_manager "sample_manager_env 1"] by simp
qed

end
