(* ===== verification/Alerts.thy ===== *)
theory Alerts
  imports NotificationClaims
begin

text \<open>
  Alert rules: \<open>src/src/alerts/alert-pipeline.ts\<close> and \<open>engine.ts\<close>. The history store is a function on the
  world of the notification manager; the calls made on it are recorded in order. The clock may move between
  the rules of one event: each has its own environment.
\<close>

section \<open>Rules\<close>

record alert_rule =
  ar_name :: string
  ar_type :: string
  ar_severity :: severity
  ar_channels :: "string list"
  ar_cooldownMs :: int
  ar_enabled :: bool

datatype alert_status = AlDelivered | AlSuppressed | AlPartialFailure | AlFailed

record alert_history =
  ah_ruleName :: string
  ah_eventType :: string
  ah_severity :: severity
  ah_status :: alert_status
  ah_channels :: "string list"
  ah_deliveredChannels :: "string list"
  ah_failedChannels :: "(string \<times> string) list"
  ah_message :: string
  ah_createdAt :: string

type_synonym payload = "(string, json) omap"

definition canonicalizeEventType :: "string \<Rightarrow> string" where
  "canonicalizeEventType v = map (\<lambda>c. if c = CHR ''.'' then CHR ''_'' else c) (js_lower (js_trim v))"

definition matchesEventType :: "alert_rule \<Rightarrow> string \<Rightarrow> bool" where
  "matchesEventType rule eventType \<longleftrightarrow> canonicalizeEventType (ar_type rule) = canonicalizeEventType eventType"

fun extractString :: "payload \<Rightarrow> string list \<Rightarrow> string option" where
  "extractString p [] = None"
| "extractString p (key # keys) =
     (case omap_get p key of
        Some (JStr v) \<Rightarrow> if js_trim v \<noteq> [] then Some (js_trim v) else extractString p keys
      | _ \<Rightarrow> extractString p keys)"

definition extractAttempt :: "payload \<Rightarrow> int option" where
  "extractAttempt p = (case omap_get p ''attempt'' of Some (JNum n) \<Rightarrow> Some n | _ \<Rightarrow> None)"

definition buildCooldownKey :: "alert_rule \<Rightarrow> string \<Rightarrow> payload \<Rightarrow> string" where
  "buildCooldownKey rule eventType p =
     join ''|'' [ar_name rule, canonicalizeEventType eventType,
       coalesce (or_else (extractString p [''identifier'', ''issueIdentifier'']) (extractString p [''issueId''])) ''global'']"

definition buildAlertMessage :: "alert_rule \<Rightarrow> string \<Rightarrow> payload \<Rightarrow> string" where
  "buildAlertMessage rule eventType p =
     (case (extractString p [''identifier'', ''issueIdentifier''], extractString p [''error'', ''message'']) of
        (Some ident, Some e) \<Rightarrow> ident @ '' matched '' @ ar_name rule @ '': '' @ e
      | (Some ident, None) \<Rightarrow> ident @ '' matched '' @ ar_name rule @ '' via '' @ eventType
      | (None, Some e) \<Rightarrow> ar_name rule @ '' matched '' @ eventType @ '': '' @ e
      | (None, None) \<Rightarrow> ar_name rule @ '' matched '' @ eventType)"

definition buildNotificationEvent :: "string \<Rightarrow> alert_rule \<Rightarrow> string \<Rightarrow> payload \<Rightarrow> notification_event" where
  "buildNotificationEvent now rule eventType p =
     (let title = ''Alert: '' @ ar_name rule
      in \<lparr>nv_type = NtAlertFired, nv_severity = ar_severity rule, nv_timestamp = now, nv_title = Some title,
          nv_message = buildAlertMessage rule eventType p, nv_href = None, nv_source = Some (''alert:'' @ ar_name rule),
          nv_issue = \<lparr>ni_id = extractString p [''issueId''],
            ni_identifier = coalesce (extractString p [''identifier'', ''issueIdentifier'']) (''alert:'' @ ar_name rule),
            ni_title = coalesce (extractString p [''title'']) title, ni_state = extractString p [''status''],
            ni_url = extractString p [''url'']\<rparr>,
          nv_attempt = extractAttempt p,
          nv_metadata = Some [(''eventType'', JStr eventType), (''ruleName'', JStr (ar_name rule)), (''payload'', JObj p)],
          nv_dedupeKey = None\<rparr>)"

definition summarizeStatus :: "delivery_summary \<Rightarrow> alert_status" where
  "summarizeStatus s =
     (if ds_deliveredChannels s \<noteq> [] \<and> ds_failedChannels s = [] then AlDelivered
      else if ds_deliveredChannels s = [] then (if ds_skippedDuplicate s then AlSuppressed else AlFailed)
      else AlPartialFailure)"

section \<open>The pipeline\<close>

record 'w alert_env =
  le_now :: int
  le_manager :: "'w manager_env"
  le_history :: "alert_history \<Rightarrow> 'w \<Rightarrow> js_error option \<times> 'w"

record 'w alerts =
  al_recent :: "(string, int) omap"
  al_manager :: "'w manager"
  al_history :: "alert_history list"

definition recordHistory ::
  "'w alert_env \<Rightarrow> alert_rule \<Rightarrow> string \<Rightarrow> alert_status \<Rightarrow> payload \<Rightarrow> delivery_summary \<Rightarrow> 'w alerts \<Rightarrow> 'w alerts" where
  "recordHistory env rule eventType status p summary a =
     (let h = \<lparr>ah_ruleName = ar_name rule, ah_eventType = eventType, ah_severity = ar_severity rule, ah_status = status,
            ah_channels = ar_channels rule, ah_deliveredChannels = ds_deliveredChannels summary,
            ah_failedChannels = ds_failedChannels summary, ah_message = buildAlertMessage rule eventType p,
            ah_createdAt = iso_of_ms (le_now env)\<rparr>;
          (_, w) = le_history env h (mg_world (al_manager a))
      in a\<lparr>al_manager := (al_manager a)\<lparr>mg_world := w\<rparr>, al_history := al_history a @ [h]\<rparr>)"

definition evaluateRule :: "'w alert_env \<Rightarrow> alert_rule \<Rightarrow> string \<Rightarrow> payload \<Rightarrow> 'w alerts \<Rightarrow> 'w alerts" where
  "evaluateRule env rule eventType p a =
     (let key = buildCooldownKey rule eventType p
      in if (case omap_get (al_recent a) key of None \<Rightarrow> False | Some at \<Rightarrow> le_now env - at < ar_cooldownMs rule)
         then recordHistory env rule eventType AlSuppressed p duplicate_summary a
         else let a1 = a\<lparr>al_recent := omap_set key (le_now env) (al_recent a)\<rparr>;
                  (summary, g) = notify (le_manager env) (buildNotificationEvent (iso_of_ms (le_now env)) rule eventType p)
                     (if ar_channels rule \<noteq> [] then Some (ar_channels rule) else None) (al_manager a1)
              in recordHistory env rule eventType (summarizeStatus summary) p summary (a1\<lparr>al_manager := g\<rparr>))"

fun evaluate_rules :: "(nat \<Rightarrow> 'w alert_env) \<Rightarrow> nat \<Rightarrow> alert_rule list \<Rightarrow> string \<Rightarrow> payload \<Rightarrow> 'w alerts \<Rightarrow> 'w alerts" where
  "evaluate_rules envs n [] eventType p a = a"
| "evaluate_rules envs n (rule # rules) eventType p a =
     evaluate_rules envs (n + 1) rules eventType p (evaluateRule (envs n) rule eventType p a)"

definition processEvent :: "(nat \<Rightarrow> 'w alert_env) \<Rightarrow> alert_rule list \<Rightarrow> string \<Rightarrow> payload \<Rightarrow> 'w alerts \<Rightarrow> 'w alerts" where
  "processEvent envs rules eventType p a =
     evaluate_rules envs 0 (filter (\<lambda>rule. ar_enabled rule \<and> matchesEventType rule eventType) rules) eventType p a"

text \<open>The engine passes on every event of the bus but those of notifications.\<close>

definition onAnyHandler :: "(nat \<Rightarrow> 'w alert_env) \<Rightarrow> alert_rule list \<Rightarrow> string \<Rightarrow> payload \<Rightarrow> 'w alerts \<Rightarrow> 'w alerts" where
  "onAnyHandler envs rules channel p a =
     (if starts_with ''notification.'' channel then a else processEvent envs rules channel p a)"

section \<open>Lemmas\<close>

lemma record_fields [simp]:
  "al_recent (recordHistory env rule ty st p s a) = al_recent a"
  "mg_recent (al_manager (recordHistory env rule ty st p s a)) = mg_recent (al_manager a)"
  "mg_emitted (al_manager (recordHistory env rule ty st p s a)) = mg_emitted (al_manager a)"
  by (simp_all add: recordHistory_def Let_def split: prod.split)

lemma record_history:
  "\<exists>h. al_history (recordHistory env rule ty st p s a) = al_history a @ [h] \<and> ah_ruleName h = ar_name rule \<and>
     ah_eventType h = ty \<and> ah_status h = st"
  by (simp add: recordHistory_def Let_def split: prod.split)

text \<open>A key on cooldown, and what one evaluation does to it.\<close>

definition on_cooldown :: "string \<Rightarrow> int \<Rightarrow> 'w alerts \<Rightarrow> bool" where
  "on_cooldown key at a \<longleftrightarrow> omap_get (al_recent a) key = Some at"

lemma evaluate_recent:
  "al_recent (evaluateRule env rule ty p a) =
     (if (case omap_get (al_recent a) (buildCooldownKey rule ty p) of None \<Rightarrow> False | Some at \<Rightarrow> le_now env - at < ar_cooldownMs rule)
      then al_recent a else omap_set (buildCooldownKey rule ty p) (le_now env) (al_recent a))"
  by (simp add: evaluateRule_def Let_def split: prod.split)

lemma evaluate_history:
  "\<exists>h. al_history (evaluateRule env rule ty p a) = al_history a @ [h] \<and> ah_ruleName h = ar_name rule \<and> ah_eventType h = ty"
proof -
  obtain s g where n: "notify (le_manager env) (buildNotificationEvent (iso_of_ms (le_now env)) rule ty p)
      (if ar_channels rule \<noteq> [] then Some (ar_channels rule) else None) (al_manager a) = (s, g)" by fastforce
  show ?thesis
    using record_history [of env rule ty AlSuppressed p duplicate_summary a]
      record_history [of env rule ty "summarizeStatus s" p s "a\<lparr>al_recent := omap_set (buildCooldownKey rule ty p) (le_now env) (al_recent a), al_manager := g\<rparr>"]
    by (auto simp: evaluateRule_def Let_def n)
qed

lemma rules_history:
  "\<exists>hs. al_history (evaluate_rules envs n rules ty p a) = al_history a @ hs \<and> map ah_ruleName hs = map ar_name rules \<and>
     (\<forall>h \<in> set hs. ah_eventType h = ty)"
proof (induction rules arbitrary: n a)
  case (Cons rule rules)
  obtain h where h: "al_history (evaluateRule (envs n) rule ty p a) = al_history a @ [h]" "ah_ruleName h = ar_name rule"
    "ah_eventType h = ty" using evaluate_history by blast
  obtain hs where "al_history (evaluate_rules envs (n + 1) rules ty p (evaluateRule (envs n) rule ty p a)) =
      al_history (evaluateRule (envs n) rule ty p a) @ hs" "map ah_ruleName hs = map ar_name rules" "\<forall>h \<in> set hs. ah_eventType h = ty"
    using Cons.IH by blast
  then show ?case using h by (intro exI [of _ "h # hs"]) simp
qed simp

section \<open>Properties\<close>

text \<open>
  An event is recorded in the alert history once for every enabled rule of its type, in the order of the
  rules, and for no other; events of notifications, which alerts themselves cause, are never evaluated.
\<close>

theorem every_match_recorded:
  "(\<exists>hs. al_history (onAnyHandler envs rules ty p a) = al_history a @ hs \<and>
     map ah_ruleName hs =
       (if starts_with ''notification.'' ty then []
        else map ar_name (filter (\<lambda>r. ar_enabled r \<and> canonicalizeEventType (ar_type r) = canonicalizeEventType ty) rules)) \<and>
     list_all (\<lambda>h. ah_eventType h = ty) hs)"
  using rules_history [of envs 0 "filter (\<lambda>r. ar_enabled r \<and> matchesEventType r ty) rules" ty p a]
  by (auto simp: onAnyHandler_def processEvent_def matchesEventType_def list_all_iff)

text \<open>Evaluations in sequence.\<close>

definition alert_run :: "('w alert_env \<times> alert_rule \<times> string \<times> payload) list \<Rightarrow> 'w alerts \<Rightarrow> 'w alerts" where
  "alert_run es a = fold (\<lambda>(env, rule, ty, p) a. evaluateRule env rule ty p a) es a"

lemma cooldown_step:
  assumes "on_cooldown key at a" and "buildCooldownKey rule ty p \<noteq> key \<or> le_now env - at < ar_cooldownMs rule"
  shows "on_cooldown key at (evaluateRule env rule ty p a)"
  using assms by (auto simp: on_cooldown_def evaluate_recent)

lemma cooldown_run:
  assumes "on_cooldown key at a"
    and "\<And>env rule ty p. (env, rule, ty, p) \<in> set es \<Longrightarrow> buildCooldownKey rule ty p \<noteq> key \<or> le_now env - at < ar_cooldownMs rule"
  shows "on_cooldown key at (alert_run es a)"
  using assms
proof (induction es arbitrary: a)
  case (Cons e es)
  obtain env rule ty p where e: "e = (env, rule, ty, p)" by (cases e) auto
  have "on_cooldown key at (evaluateRule env rule ty p a)"
    using cooldown_step [OF Cons.prems(1)] Cons.prems(2) [of env rule ty p] e by simp
  then have "on_cooldown key at (alert_run es (evaluateRule env rule ty p a))"
  proof (rule Cons.IH)
    fix env' rule' ty' p' assume "(env', rule', ty', p') \<in> set es"
    then show "buildCooldownKey rule' ty' p' \<noteq> key \<or> le_now env' - at < ar_cooldownMs rule'"
      using Cons.prems(2) [of env' rule' ty' p'] by simp
  qed
  then show ?case by (simp add: alert_run_def e)
qed (simp add: alert_run_def)

text \<open>
  After a rule fired for an event and issue, it does not notify again for them before its cooldown is
  over, whatever other rules and events come between: the evaluation is recorded as suppressed, and the
  notification manager is not called, so nothing is emitted and its table of recent keys stays.
\<close>

theorem cooldown_suppresses:
  assumes "le_now env2 - le_now env < ar_cooldownMs rule"
    and "\<not> (case omap_get (al_recent a) (buildCooldownKey rule ty p) of None \<Rightarrow> False | Some at \<Rightarrow> le_now env - at < ar_cooldownMs rule)"
    and "\<And>e r y q. (e, r, y, q) \<in> set between \<Longrightarrow>
      buildCooldownKey r y q \<noteq> buildCooldownKey rule ty p \<or> le_now e - le_now env < ar_cooldownMs r"
    and "buildCooldownKey rule ty2 p2 = buildCooldownKey rule ty p"
  shows "case (alert_run between (evaluateRule env rule ty p a)) of b \<Rightarrow>
    \<exists>h. al_history (evaluateRule env2 rule ty2 p2 b) = al_history b @ [h] \<and> ah_status h = AlSuppressed \<and> ah_ruleName h = ar_name rule \<and>
      mg_recent (al_manager (evaluateRule env2 rule ty2 p2 b)) = mg_recent (al_manager b) \<and>
      mg_emitted (al_manager (evaluateRule env2 rule ty2 p2 b)) = mg_emitted (al_manager b)"
proof -
  define b where "b = alert_run between (evaluateRule env rule ty p a)"
  have "on_cooldown (buildCooldownKey rule ty p) (le_now env) (evaluateRule env rule ty p a)"
    using assms(2) by (simp add: on_cooldown_def evaluate_recent)
  then have "on_cooldown (buildCooldownKey rule ty p) (le_now env) b"
    unfolding b_def by (rule cooldown_run) (rule assms(3))
  then have "evaluateRule env2 rule ty2 p2 b = recordHistory env2 rule ty2 AlSuppressed p2 duplicate_summary b"
    using assms(1,4) by (simp add: evaluateRule_def on_cooldown_def)
  then show ?thesis using record_history [of env2 rule ty2 AlSuppressed p2 duplicate_summary b] by (auto simp: b_def)
qed

text \<open>Samples.\<close>

definition sample_rule :: alert_rule where
  "sample_rule = \<lparr>ar_name = ''r'', ar_type = ''worker.failed'', ar_severity = SevCritical, ar_channels = [], ar_cooldownMs = 1000, ar_enabled = True\<rparr>"

definition sample_alert_env :: "int \<Rightarrow> nat alert_env" where
  "sample_alert_env now = \<lparr>le_now = now, le_manager = sample_manager_env now, le_history = (\<lambda>_ w. (None, w))\<rparr>"

definition sample_alerts :: "nat alerts" where
  "sample_alerts = \<lparr>al_recent = [], al_manager = sample_manager, al_history = []\<rparr>"

theorem cooldown_suppresses_witness:
  "\<exists>h. al_history (evaluateRule (sample_alert_env 500) sample_rule ''worker.failed'' []
      (alert_run [] (evaluateRule (sample_alert_env 1) sample_rule ''worker.failed'' [] sample_alerts))) =
    al_history (alert_run [] (evaluateRule (sample_alert_env 1) sample_rule ''worker.failed'' [] sample_alerts)) @ [h] \<and> ah_status h = AlSuppressed"
  using cooldown_suppresses [of "sample_alert_env 500" "sample_alert_env 1" sample_rule sample_alerts "''worker.failed''" "[]" "[]" "''worker.failed''" "[]"]
  by (auto simp: sample_alert_env_def sample_rule_def sample_alerts_def omap_get_def)

end
