(* ===== verification/Automation.thy ===== *)
theory Automation
  imports NotificationClaims Snapshot
begin

text \<open>
  Automations: \<open>src/src/automation/runner.ts\<close> and \<open>scheduler.ts\<close>. The run store, the tracker, the
  orchestrator and the notification manager are functions on a world; \<open>Inl\<close> is a rejection. A promise that
  is returned from inside a \<open>try\<close> without being awaited is not caught by it: the \<open>catch\<close> of \<open>run\<close> sees
  none of the errors of the three modes, and the model passes them on.
\<close>

section \<open>Runs\<close>

datatype automation_mode = Implement | Report | Findings

fun mode_name :: "automation_mode \<Rightarrow> string" where
  "mode_name Implement = ''implement''"
| "mode_name Report = ''report''"
| "mode_name Findings = ''findings''"

datatype run_trigger = BySchedule | Manual

datatype run_status = RunRunning | RunCompleted | RunFailed | RunSkipped

record automation_config =
  ac_name :: string
  ac_schedule :: string
  ac_mode :: automation_mode
  ac_prompt :: string
  ac_enabled :: bool
  ac_repoUrl :: "string option"

record run_record =
  ur_id :: string
  ur_automationName :: string
  ur_mode :: automation_mode
  ur_trigger :: run_trigger
  ur_repoUrl :: "string option"
  ur_status :: run_status
  ur_output :: "string option"
  ur_details :: json
  ur_issueId :: "string option"
  ur_issueIdentifier :: "string option"
  ur_issueUrl :: "string option"
  ur_error :: "string option"
  ur_startedAt :: string
  ur_finishedAt :: "string option"

record run_input =
  ui_automationName :: string
  ui_mode :: automation_mode
  ui_trigger :: run_trigger
  ui_repoUrl :: "string option"
  ui_startedAt :: string

record finish_input =
  fi_status :: run_status
  fi_output :: "string option"
  fi_details :: json
  fi_issueId :: "string option"
  fi_issueIdentifier :: "string option"
  fi_issueUrl :: "string option"
  fi_error :: "string option"
  fi_finishedAt :: string

datatype automation_event =
    RunStarted string string automation_mode run_trigger
  | RunFailedEvent string string automation_mode string
  | RunCompletedEvent string string automation_mode run_status

record automation_issue =
  ai_issueId :: string
  ai_identifier :: string
  ai_url :: "string option"

record 'w automation_env =
  ua_now :: string
  ua_createRun :: "run_input \<Rightarrow> 'w \<Rightarrow> (js_error + run_record) \<times> 'w"
  ua_finishRun :: "string \<Rightarrow> finish_input \<Rightarrow> 'w \<Rightarrow> (js_error + run_record option) \<times> 'w"
  ua_snapshot :: "'w \<Rightarrow> js_error + snapshot"
  ua_createIssue :: "(string \<Rightarrow> string \<Rightarrow> 'w \<Rightarrow> (js_error + automation_issue) \<times> 'w) option"
  ua_refresh :: "string \<Rightarrow> string \<Rightarrow> string \<Rightarrow> 'w \<Rightarrow> 'w"
  ua_notify :: "(notification_event \<Rightarrow> 'w \<Rightarrow> 'w) option"

record 'w automation =
  au_world :: 'w
  au_events :: "automation_event list"

definition emit_run :: "automation_event \<Rightarrow> 'w automation \<Rightarrow> 'w automation" where
  "emit_run e s = s\<lparr>au_events := au_events s @ [e]\<rparr>"

definition automation_notify ::
  "'w automation_env \<Rightarrow> string \<Rightarrow> automation_mode \<Rightarrow> string option \<Rightarrow> notification_event_type \<Rightarrow> severity \<Rightarrow> string \<Rightarrow>
   automation_issue option \<Rightarrow> 'w automation \<Rightarrow> 'w automation" where
  "automation_notify env name mode repoUrl ty sev message created s =
     (case ua_notify env of
        None \<Rightarrow> s
      | Some send \<Rightarrow>
          let url = Option.bind created ai_url
          in s\<lparr>au_world := send
              \<lparr>nv_type = ty, nv_severity = sev, nv_timestamp = ua_now env, nv_title = Some (name @ '' ('' @ mode_name mode @ '')''),
               nv_message = message, nv_href = url, nv_source = Some ''automation-runner'',
               nv_issue = \<lparr>ni_id = map_option ai_issueId created,
                 ni_identifier = coalesce (map_option ai_identifier created) (''automation:'' @ name),
                 ni_title = name, ni_state = None, ni_url = url\<rparr>,
               nv_attempt = None,
               nv_metadata = Some [(''automationName'', JStr name), (''mode'', JStr (mode_name mode)), (''repoUrl'', jopt JStr repoUrl)],
               nv_dedupeKey = None\<rparr> (au_world s)\<rparr>)"

definition finish_run :: "'w automation_env \<Rightarrow> run_record \<Rightarrow> finish_input \<Rightarrow> 'w automation \<Rightarrow> (js_error + run_record) \<times> 'w automation" where
  "finish_run env run input s =
     (case ua_finishRun env (ur_id run) input (au_world s) of
        (Inl e, w) \<Rightarrow> (Inl e, s\<lparr>au_world := w\<rparr>)
      | (Inr None, w) \<Rightarrow> (Inl (JsError (''automation run '' @ ur_id run @ '' could not be finalized'')), s\<lparr>au_world := w\<rparr>)
      | (Inr (Some finished), w) \<Rightarrow>
          let s1 = s\<lparr>au_world := w\<rparr>
          in (Inr finished,
              if ur_status finished = RunFailed
              then emit_run (RunFailedEvent (ur_id finished) (ur_automationName finished) (ur_mode finished)
                       (coalesce (ur_error finished) ''unknown error''))
                     (automation_notify env (ur_automationName finished) (ur_mode finished) (ur_repoUrl finished) NtAutomationFailed
                        SevCritical (coalesce (ur_error finished) (''Automation '' @ ur_automationName finished @ '' failed'')) None s1)
              else if ur_status finished = RunCompleted \<or> ur_status finished = RunSkipped
              then emit_run (RunCompletedEvent (ur_id finished) (ur_automationName finished) (ur_mode finished) (ur_status finished)) s1
              else s1))"

definition buildReportOutput :: "automation_config \<Rightarrow> snapshot \<Rightarrow> string" where
  "buildReportOutput config sn =
     join newline ([''Automation '' @ ac_name config @ '' ran in report mode.'',
        ''Running: '' @ show_nat (sn_runningCount sn), ''Retrying: '' @ show_nat (sn_retryingCount sn),
        ''Queued: '' @ show_nat (length (sn_queued sn)), ''Completed: '' @ show_nat (length (sn_completed sn))] @
       (case truthy_string (ac_repoUrl config) of None \<Rightarrow> [] | Some r \<Rightarrow> [''Repo: '' @ r]) @
       [''Prompt: '' @ ac_prompt config])"

definition buildFindings :: "snapshot \<Rightarrow> string list" where
  "buildFindings sn =
     (if sn_retrying sn \<noteq> []
      then [''Retry queue contains '' @ show_nat (length (sn_retrying sn)) @ '' issue(s): '' @ join '', '' (map v_identifier (sn_retrying sn))]
      else []) @
     (if sn_queued sn \<noteq> [] then [''Dispatch queue contains '' @ show_nat (length (sn_queued sn)) @ '' issue(s).''] else []) @
     (let stalled = filter (\<lambda>ev. rec_event ev = ''worker_stalled'') (sn_recentEvents sn)
      in if stalled \<noteq> [] then [''Recent worker stalls observed: '' @ show_nat (length stalled) @ ''.''] else [])"

definition buildImplementDescription :: "automation_config \<Rightarrow> snapshot \<Rightarrow> string" where
  "buildImplementDescription config sn =
     join newline [''Automation: '' @ ac_name config, [], ac_prompt config, [], buildReportOutput config sn]"

definition identifiers :: "issue_view list \<Rightarrow> json" where
  "identifiers vs = JArr (map (\<lambda>v. JStr (v_identifier v)) vs)"

definition finish_ok :: "string \<Rightarrow> string option \<Rightarrow> json \<Rightarrow> automation_issue option \<Rightarrow> finish_input" where
  "finish_ok now out details created =
     \<lparr>fi_status = RunCompleted, fi_output = out, fi_details = details, fi_issueId = map_option ai_issueId created,
      fi_issueIdentifier = map_option ai_identifier created, fi_issueUrl = Option.bind created ai_url, fi_error = None,
      fi_finishedAt = now\<rparr>"

definition runReport :: "'w automation_env \<Rightarrow> automation_config \<Rightarrow> run_record \<Rightarrow> 'w automation \<Rightarrow> (js_error + run_record) \<times> 'w automation" where
  "runReport env config run s =
     (case ua_snapshot env (au_world s) of
        Inl e \<Rightarrow> (Inl e, s)
      | Inr sn \<Rightarrow>
          let out = buildReportOutput config sn;
              details = JObj [(''counts'', JObj [(''running'', JNum (int (sn_runningCount sn))), (''retrying'', JNum (int (sn_retryingCount sn)))]),
                 (''running'', identifiers (sn_running sn)), (''retrying'', identifiers (sn_retrying sn)),
                 (''queued'', identifiers (sn_queued sn)), (''completed'', identifiers (sn_completed sn))];
              s1 = automation_notify env (ac_name config) (ac_mode config) (ac_repoUrl config) NtAutomationCompleted SevInfo out None s
          in finish_run env run (finish_ok (ua_now env) (Some out) details None) s1)"

definition runFindings :: "'w automation_env \<Rightarrow> automation_config \<Rightarrow> run_record \<Rightarrow> 'w automation \<Rightarrow> (js_error + run_record) \<times> 'w automation" where
  "runFindings env config run s =
     (case ua_snapshot env (au_world s) of
        Inl e \<Rightarrow> (Inl e, s)
      | Inr sn \<Rightarrow>
          let findings = buildFindings sn;
              out = (if findings = [] then ''No active findings.'' else join newline (map (\<lambda>f. ''- '' @ f) findings));
              s1 = automation_notify env (ac_name config) (ac_mode config) (ac_repoUrl config) NtAutomationCompleted
                     (if findings = [] then SevInfo else SevWarning) out None s
          in finish_run env run (finish_ok (ua_now env) (Some out) (JObj [(''findings'', JArr (map JStr findings))]) None) s1)"

definition runImplement :: "'w automation_env \<Rightarrow> automation_config \<Rightarrow> run_record \<Rightarrow> 'w automation \<Rightarrow> (js_error + run_record) \<times> 'w automation" where
  "runImplement env config run s =
     (case ua_createIssue env of
        None \<Rightarrow> (Inl (JsError ''tracker is not available for implement automations''), s)
      | Some create \<Rightarrow>
          (case ua_snapshot env (au_world s) of
             Inl e \<Rightarrow> (Inl e, s)
           | Inr sn \<Rightarrow>
               (case create (''[Automation] '' @ ac_name config) (buildImplementDescription config sn) (au_world s) of
                  (Inl e, w) \<Rightarrow> (Inl e, s\<lparr>au_world := w\<rparr>)
                | (Inr created, w) \<Rightarrow>
                    let w1 = ua_refresh env (ai_issueId created) (ai_identifier created) (''automation:'' @ ac_name config) w;
                        out = ''Created tracker issue '' @ ai_identifier created @ '' for automation '' @ ac_name config @ ''.'';
                        s1 = automation_notify env (ac_name config) (ac_mode config) (ac_repoUrl config) NtAutomationCompleted SevInfo
                               out (Some created) (s\<lparr>au_world := w1\<rparr>)
                    in finish_run env run (finish_ok (ua_now env) (Some out) (JObj [(''prompt'', JStr (ac_prompt config))]) (Some created)) s1)))"

definition run_automation ::
  "'w automation_env \<Rightarrow> automation_config \<Rightarrow> run_trigger \<Rightarrow> 'w automation \<Rightarrow> (js_error + run_record) \<times> 'w automation" where
  "run_automation env config trigger s =
     (case ua_createRun env \<lparr>ui_automationName = ac_name config, ui_mode = ac_mode config, ui_trigger = trigger,
             ui_repoUrl = ac_repoUrl config, ui_startedAt = ua_now env\<rparr> (au_world s) of
        (Inl e, w) \<Rightarrow> (Inl e, s\<lparr>au_world := w\<rparr>)
      | (Inr run, w) \<Rightarrow>
          let s1 = emit_run (RunStarted (ur_id run) (ac_name config) (ac_mode config) trigger) (s\<lparr>au_world := w\<rparr>)
          in if (ac_mode config = Report \<or> ac_mode config = Findings) \<and> truthy_string (ac_repoUrl config) = None
             then finish_run env run
                    \<lparr>fi_status = RunSkipped, fi_output = None, fi_details = JObj [(''reason'', JStr ''repo_url_required'')], fi_issueId = None,
                     fi_issueIdentifier = None, fi_issueUrl = None,
                     fi_error = Some ''repoUrl is required for report and findings automations'', fi_finishedAt = ua_now env\<rparr> s1
             else (case ac_mode config of
                     Implement \<Rightarrow> runImplement env config run s1
                   | Findings \<Rightarrow> runFindings env config run s1
                   | Report \<Rightarrow> runReport env config run s1))"

section \<open>The scheduler\<close>

text \<open>
  \<open>cron\<close> is a package: \<open>validate\<close> is a parameter, and a scheduled task is a number with the configuration its
  callback runs; \<open>sc_live\<close> are the tasks that have been scheduled and not destroyed. \<open>nextRun\<close> is left out.
\<close>

record schedule_entry =
  se_config :: automation_config
  se_signature :: string
  se_task :: "nat option"
  se_valid :: bool
  se_lastError :: "string option"

record scheduler =
  sc_entries :: "(string, schedule_entry) omap"
  sc_live :: "(nat \<times> automation_config) list"
  sc_next :: nat
  sc_notified :: "notification_event list"

definition config_json :: "automation_config \<Rightarrow> json" where
  "config_json c =
     JObj [(''name'', JStr (ac_name c)), (''schedule'', JStr (ac_schedule c)), (''mode'', JStr (mode_name (ac_mode c))),
       (''prompt'', JStr (ac_prompt c)), (''enabled'', JBool (ac_enabled c)), (''repoUrl'', jopt JStr (ac_repoUrl c))]"

definition destroy_task :: "nat option \<Rightarrow> scheduler \<Rightarrow> scheduler" where
  "destroy_task t s = s\<lparr>sc_live := filter (\<lambda>(n, c). Some n \<noteq> t) (sc_live s)\<rparr>"

definition invalid_cron_event :: "string \<Rightarrow> automation_config \<Rightarrow> string \<Rightarrow> notification_event" where
  "invalid_cron_event now c message =
     \<lparr>nv_type = NtAutomationFailed, nv_severity = SevWarning, nv_timestamp = now, nv_title = Some (ac_name c), nv_message = message,
      nv_href = None, nv_source = Some ''automation-scheduler'',
      nv_issue = \<lparr>ni_id = None, ni_identifier = ''automation:'' @ ac_name c, ni_title = ac_name c, ni_state = None, ni_url = None\<rparr>,
      nv_attempt = None, nv_metadata = Some [(''automationName'', JStr (ac_name c)), (''schedule'', JStr (ac_schedule c))],
      nv_dedupeKey = Some (''automation-invalid:'' @ ac_name c @ '':'' @ ac_schedule c)\<rparr>"

definition createEntry :: "(string \<Rightarrow> bool) \<Rightarrow> string \<Rightarrow> automation_config \<Rightarrow> string \<Rightarrow> scheduler \<Rightarrow> schedule_entry \<times> scheduler" where
  "createEntry cron_valid now c sig s =
     (if \<not> ac_enabled c
      then (\<lparr>se_config = c, se_signature = sig, se_task = None, se_valid = True, se_lastError = None\<rparr>, s)
      else if \<not> cron_valid (ac_schedule c)
      then let message = ''Invalid cron expression for automation '' @ ac_name c @ '': '' @ ac_schedule c
           in (\<lparr>se_config = c, se_signature = sig, se_task = None, se_valid = False, se_lastError = Some message\<rparr>,
               s\<lparr>sc_notified := sc_notified s @ [invalid_cron_event now c message]\<rparr>)
      else (\<lparr>se_config = c, se_signature = sig, se_task = Some (sc_next s), se_valid = True, se_lastError = None\<rparr>,
            s\<lparr>sc_live := sc_live s @ [(sc_next s, c)], sc_next := sc_next s + 1\<rparr>))"

fun remove_gone :: "string set \<Rightarrow> (string, schedule_entry) omap \<Rightarrow> scheduler \<Rightarrow> scheduler" where
  "remove_gone names [] s = s"
| "remove_gone names ((name, entry) # es) s =
     remove_gone names es
       (if name \<notin> names then (destroy_task (se_task entry) s)\<lparr>sc_entries := omap_delete name (sc_entries s)\<rparr> else s)"

definition sync_config :: "(string \<Rightarrow> bool) \<Rightarrow> string \<Rightarrow> automation_config \<Rightarrow> scheduler \<Rightarrow> scheduler" where
  "sync_config cron_valid now c s =
     (let sig = json_stringify (config_json c); existing = omap_get (sc_entries s) (ac_name c)
      in if (case existing of None \<Rightarrow> False | Some e \<Rightarrow> se_signature e = sig) then s
         else let s1 = (case existing of None \<Rightarrow> s | Some e \<Rightarrow> destroy_task (se_task e) s);
                  (entry, s2) = createEntry cron_valid now c sig s1
              in s2\<lparr>sc_entries := omap_set (ac_name c) entry (sc_entries s2)\<rparr>)"

definition sync :: "(string \<Rightarrow> bool) \<Rightarrow> string \<Rightarrow> automation_config list \<Rightarrow> scheduler \<Rightarrow> scheduler" where
  "sync cron_valid now configs s =
     fold (sync_config cron_valid now) configs (remove_gone (set (map ac_name configs)) (sc_entries s) s)"

definition stop_scheduler :: "scheduler \<Rightarrow> scheduler" where
  "stop_scheduler s = (fold (\<lambda>(_, e) s. destroy_task (se_task e) s) (sc_entries s) s)\<lparr>sc_entries := []\<rparr>"

definition runNow :: "'w automation_env \<Rightarrow> string \<Rightarrow> scheduler \<Rightarrow> 'w automation \<Rightarrow> (js_error + run_record) option \<times> 'w automation" where
  "runNow env name sc s =
     (case omap_get (sc_entries sc) name of
        None \<Rightarrow> (None, s)
      | Some e \<Rightarrow> (case run_automation env (se_config e) Manual s of (r, s1) \<Rightarrow> (Some r, s1)))"

definition task_fired :: "'w automation_env \<Rightarrow> nat \<Rightarrow> scheduler \<Rightarrow> 'w automation \<Rightarrow> 'w automation" where
  "task_fired env n sc s = (case map_of (sc_live sc) n of None \<Rightarrow> s | Some c \<Rightarrow> snd (run_automation env c BySchedule s))"

section \<open>Lemmas\<close>

text \<open>The live tasks are those of the entries, each once, with the entry's own configuration.\<close>

definition owns :: "(string, schedule_entry) omap \<Rightarrow> nat \<Rightarrow> automation_config \<Rightarrow> bool" where
  "owns m n c \<longleftrightarrow> (\<exists>e. omap_get m (ac_name c) = Some e \<and> se_task e = Some n \<and> se_config e = c)"

definition scheduler_ok :: "scheduler \<Rightarrow> bool" where
  "scheduler_ok s \<longleftrightarrow> omap_ok (sc_entries s) \<and> distinct (map fst (sc_live s)) \<and> (\<forall>(n, c) \<in> set (sc_live s). n < sc_next s) \<and>
     (\<forall>n c. (n, c) \<in> set (sc_live s) \<longleftrightarrow> owns (sc_entries s) n c) \<and>
     (\<forall>k e. omap_get (sc_entries s) k = Some e \<longrightarrow> ac_name (se_config e) = k)"

lemma scheduler_okD:
  assumes "scheduler_ok s"
  shows "omap_ok (sc_entries s)" "distinct (map fst (sc_live s))" "(n, c) \<in> set (sc_live s) \<Longrightarrow> n < sc_next s"
    "(n, c) \<in> set (sc_live s) \<longleftrightarrow> owns (sc_entries s) n c"
    "omap_get (sc_entries s) k = Some e \<Longrightarrow> ac_name (se_config e) = k"
  using assms unfolding scheduler_ok_def by blast+

lemma scheduler_okI:
  assumes "omap_ok (sc_entries s)" "distinct (map fst (sc_live s))" "\<And>n c. (n, c) \<in> set (sc_live s) \<Longrightarrow> n < sc_next s"
    "\<And>n c. (n, c) \<in> set (sc_live s) \<longleftrightarrow> owns (sc_entries s) n c"
    "\<And>k e. omap_get (sc_entries s) k = Some e \<Longrightarrow> ac_name (se_config e) = k"
  shows "scheduler_ok s"
  using assms unfolding scheduler_ok_def by blast

lemma ownsI: "omap_get m k = Some e \<Longrightarrow> ac_name (se_config e) = k \<Longrightarrow> se_task e = Some n \<Longrightarrow> owns m n (se_config e)"
  by (auto simp: owns_def)

lemma ok_task_unique:
  assumes ok: "scheduler_ok s" and e: "omap_get (sc_entries s) k = Some e" "omap_get (sc_entries s) k' = Some e'"
    and t: "se_task e = Some n" "se_task e' = Some n"
  shows "k = k'"
proof -
  have "owns (sc_entries s) n (se_config e)" by (rule ownsI [OF e(1) scheduler_okD(5) [OF ok e(1)] t(1)])
  moreover have "owns (sc_entries s) n (se_config e')" by (rule ownsI [OF e(2) scheduler_okD(5) [OF ok e(2)] t(2)])
  ultimately have "(n, se_config e) \<in> set (sc_live s)" "(n, se_config e') \<in> set (sc_live s)"
    using scheduler_okD(4) [OF ok] by blast+
  then have "se_config e = se_config e'" using scheduler_okD(2) [OF ok] by (metis eq_key_imp_eq_value)
  then show ?thesis using scheduler_okD(5) [OF ok e(1)] scheduler_okD(5) [OF ok e(2)] by simp
qed

lemma destroy_live: "(n, c) \<in> set (sc_live (destroy_task t s)) \<longleftrightarrow> (n, c) \<in> set (sc_live s) \<and> Some n \<noteq> t"
  by (auto simp: destroy_task_def)

lemma destroy_fields [simp]:
  "sc_entries (destroy_task t s) = sc_entries s" "sc_next (destroy_task t s) = sc_next s" "sc_notified (destroy_task t s) = sc_notified s"
  by (simp_all add: destroy_task_def)

lemma destroy_distinct: "distinct (map fst (sc_live s)) \<Longrightarrow> distinct (map fst (sc_live (destroy_task t s)))"
  by (simp add: destroy_task_def distinct_map_filter)

text \<open>Removing an entry together with its task.\<close>

lemma drop_entry_ok:
  assumes ok: "scheduler_ok s" and e: "omap_get (sc_entries s) k = Some e"
  shows "scheduler_ok ((destroy_task (se_task e) s)\<lparr>sc_entries := omap_delete k (sc_entries s)\<rparr>)" (is "scheduler_ok ?t")
proof (rule scheduler_okI)
  show "omap_ok (sc_entries ?t)" using scheduler_okD(1) [OF ok] by simp
  show "distinct (map fst (sc_live ?t))" using destroy_distinct [OF scheduler_okD(2) [OF ok]] by simp
  show "(n, c) \<in> set (sc_live ?t) \<Longrightarrow> n < sc_next ?t" for n c
    using scheduler_okD(3) [OF ok, of n c] by (simp add: destroy_live)
  show "omap_get (sc_entries ?t) k' = Some e' \<Longrightarrow> ac_name (se_config e') = k'" for k' e'
    using scheduler_okD(5) [OF ok, of k' e'] by (simp split: if_splits)
  show "(n, c) \<in> set (sc_live ?t) \<longleftrightarrow> owns (sc_entries ?t) n c" for n c
  proof (cases "ac_name c = k")
    case True
    have "Some n = se_task e" if "owns (sc_entries s) n c" using that True e by (auto simp: owns_def)
    then show ?thesis using scheduler_okD(4) [OF ok, of n c] True by (auto simp: destroy_live owns_def)
  next
    case False
    have "Some n \<noteq> se_task e" if o: "owns (sc_entries s) n c"
    proof
      assume a: "Some n = se_task e"
      obtain e' where e': "omap_get (sc_entries s) (ac_name c) = Some e'" "se_task e' = Some n" using o by (auto simp: owns_def)
      have "ac_name c = k" by (rule ok_task_unique [OF ok e'(1) e e'(2) a [symmetric]])
      with False show False by simp
    qed
    then have "(n, c) \<in> set (sc_live ?t) \<longleftrightarrow> owns (sc_entries s) n c"
      using scheduler_okD(4) [OF ok, of n c] by (auto simp: destroy_live)
    then show ?thesis using False by (simp add: owns_def)
  qed
qed

text \<open>Setting the entry of a name that has none.\<close>

lemma create_entry_ok:
  assumes ok: "scheduler_ok s" and none: "omap_get (sc_entries s) (ac_name c) = None"
    and cr: "createEntry v now c sig s = (entry, s2)"
  shows "scheduler_ok (s2\<lparr>sc_entries := omap_set (ac_name c) entry (sc_entries s2)\<rparr>)" (is "scheduler_ok ?t")
proof -
  have no: "\<not> owns (sc_entries s) n c'" if "ac_name c' = ac_name c" for n c' using that none by (simp add: owns_def)
  have other: "owns (sc_entries ?t) n c' = owns (sc_entries s) n c'" if "ac_name c' \<noteq> ac_name c" "sc_entries s2 = sc_entries s" for n c'
    using that by (simp add: owns_def)
  show ?thesis
  proof (cases "ac_enabled c \<and> v (ac_schedule c)")
    case True
    then have s2: "sc_live s2 = sc_live s @ [(sc_next s, c)]" "sc_next s2 = sc_next s + 1" "sc_entries s2 = sc_entries s"
      "se_task entry = Some (sc_next s)" "se_config entry = c"
      using cr by (auto simp: createEntry_def)
    show ?thesis
    proof (rule scheduler_okI)
      show "omap_ok (sc_entries ?t)" using scheduler_okD(1) [OF ok] by (simp add: s2)
      have "sc_next s \<notin> set (map fst (sc_live s))" using scheduler_okD(3) [OF ok] by force
      then show "distinct (map fst (sc_live ?t))" using scheduler_okD(2) [OF ok] by (simp add: s2)
      show "(n, c') \<in> set (sc_live ?t) \<Longrightarrow> n < sc_next ?t" for n c'
        using scheduler_okD(3) [OF ok, of n c'] by (auto simp: s2)
      show "omap_get (sc_entries ?t) k = Some e \<Longrightarrow> ac_name (se_config e) = k" for k e
        using scheduler_okD(5) [OF ok, of k e] s2(3,5) by (auto split: if_splits)
      show "(n, c') \<in> set (sc_live ?t) \<longleftrightarrow> owns (sc_entries ?t) n c'" for n c'
      proof (cases "ac_name c' = ac_name c")
        case True
        then have "(n, c') \<notin> set (sc_live s)" using no scheduler_okD(4) [OF ok] by blast
        then show ?thesis using True by (auto simp: s2 owns_def)
      next
        case False
        then show ?thesis using other [OF False s2(3)] scheduler_okD(4) [OF ok, of n c'] by (auto simp: s2)
      qed
    qed
  next
    case False
    then have s2: "sc_live s2 = sc_live s" "sc_next s2 = sc_next s" "sc_entries s2 = sc_entries s" "se_task entry = None" "se_config entry = c"
      using cr by (auto simp: createEntry_def Let_def split: if_splits)
    show ?thesis
    proof (rule scheduler_okI)
      show "omap_ok (sc_entries ?t)" using scheduler_okD(1) [OF ok] by (simp add: s2)
      show "distinct (map fst (sc_live ?t))" using scheduler_okD(2) [OF ok] by (simp add: s2)
      show "(n, c') \<in> set (sc_live ?t) \<Longrightarrow> n < sc_next ?t" for n c'
        using scheduler_okD(3) [OF ok, of n c'] by (simp add: s2)
      show "omap_get (sc_entries ?t) k = Some e \<Longrightarrow> ac_name (se_config e) = k" for k e
        using scheduler_okD(5) [OF ok, of k e] s2(3,5) by (auto split: if_splits)
      show "(n, c') \<in> set (sc_live ?t) \<longleftrightarrow> owns (sc_entries ?t) n c'" for n c'
      proof (cases "ac_name c' = ac_name c")
        case True
        then have "(n, c') \<notin> set (sc_live s)" using no scheduler_okD(4) [OF ok] by blast
        then show ?thesis using True s2 by (auto simp: owns_def)
      next
        case False
        then show ?thesis using other [OF False s2(3)] scheduler_okD(4) [OF ok, of n c'] by (simp add: s2)
      qed
    qed
  qed
qed

lemma scheduler_ok_cong:
  assumes "scheduler_ok s" "sc_live t = sc_live s" "sc_next t = sc_next s" "omap_ok (sc_entries t)"
    "omap_get (sc_entries t) = omap_get (sc_entries s)"
  shows "scheduler_ok t"
  using assms by (simp add: scheduler_ok_def owns_def)

lemma create_entry_fields:
  "createEntry v now c sig s = (entry, s2) \<Longrightarrow> sc_entries s2 = sc_entries s \<and> se_signature entry = sig"
  by (auto simp: createEntry_def Let_def split: if_splits)

lemma create_entry_entries:
  "createEntry v now c sig s = (entry, s2) \<Longrightarrow>
     createEntry v now c sig (s\<lparr>sc_entries := m\<rparr>) = (entry, s2\<lparr>sc_entries := m\<rparr>)"
  by (auto simp: createEntry_def Let_def split: if_splits)

lemma sync_config_ok:
  assumes ok: "scheduler_ok s"
  shows "scheduler_ok (sync_config v now c s)"
proof -
  let ?sig = "json_stringify (config_json c)"
  show ?thesis
  proof (cases "omap_get (sc_entries s) (ac_name c)")
    case None
    obtain entry s2 where "createEntry v now c ?sig s = (entry, s2)" by fastforce
    then show ?thesis using create_entry_ok [OF ok None] None by (simp add: sync_config_def Let_def)
  next
    case (Some e)
    show ?thesis
    proof (cases "se_signature e = ?sig")
      case True
      then show ?thesis using ok Some by (simp add: sync_config_def Let_def)
    next
      case False
      let ?d = "destroy_task (se_task e) s" and ?m = "omap_delete (ac_name c) (sc_entries s)"
      obtain entry s2 where cr: "createEntry v now c ?sig ?d = (entry, s2)" by fastforce
      have "scheduler_ok ((s2\<lparr>sc_entries := ?m\<rparr>)\<lparr>sc_entries := omap_set (ac_name c) entry ?m\<rparr>)"
        using create_entry_ok [OF drop_entry_ok [OF ok Some] _ create_entry_entries [OF cr]] by simp
      then have "scheduler_ok (s2\<lparr>sc_entries := omap_set (ac_name c) entry (sc_entries s2)\<rparr>)"
        by (rule scheduler_ok_cong) (use scheduler_okD(1) [OF ok] create_entry_fields [OF cr] in \<open>auto simp: fun_eq_iff\<close>)
      then show ?thesis using Some False cr by (simp add: sync_config_def Let_def)
    qed
  qed
qed

lemma remove_gone_ok:
  assumes "scheduler_ok s" and "distinct (map fst es)" and "\<And>k e. (k, e) \<in> set es \<Longrightarrow> omap_get (sc_entries s) k = Some e"
  shows "scheduler_ok (remove_gone names es s) \<and>
    (\<forall>k. omap_get (sc_entries (remove_gone names es s)) k =
       (if k \<in> set (map fst es) \<and> k \<notin> names then None else omap_get (sc_entries s) k))"
  using assms
proof (induction es arbitrary: s)
  case (Cons p es)
  obtain k e where p: "p = (k, e)" by (cases p)
  define t where "t = (if k \<notin> names then (destroy_task (se_task e) s)\<lparr>sc_entries := omap_delete k (sc_entries s)\<rparr> else s)"
  have k: "omap_get (sc_entries s) k = Some e" "k \<notin> set (map fst es)" "distinct (map fst es)"
    using Cons.prems(3) [of k e] Cons.prems(2) by (auto simp: p)
  have ok: "scheduler_ok t" using drop_entry_ok [OF Cons.prems(1) k(1)] Cons.prems(1) by (simp add: t_def)
  have get: "omap_get (sc_entries t) k' = (if k' = k \<and> k \<notin> names then None else omap_get (sc_entries s) k')" for k'
    by (simp add: t_def)
  have "omap_get (sc_entries t) k' = Some e'" if "(k', e') \<in> set es" for k' e'
    using that Cons.prems(3) [of k' e'] k(2) get [of k'] by force
  from Cons.IH [OF ok k(3) this] show ?case using get k(2) by (auto simp: p t_def)
qed simp

lemma sync_ok:
  assumes ok: "scheduler_ok s"
  shows "scheduler_ok (sync v now cs s)"
proof -
  have "scheduler_ok (remove_gone names (sc_entries s) s)" for names
    using remove_gone_ok [OF ok, of "sc_entries s" names] scheduler_okD(1) [OF ok] by (auto simp: omap_ok_def omap_get_in)
  then show ?thesis
  proof -
    have "scheduler_ok t \<Longrightarrow> scheduler_ok (fold (sync_config v now) cs t)" for t
      by (induction cs arbitrary: t) (auto intro: sync_config_ok)
    then show ?thesis using \<open>\<And>names. scheduler_ok (remove_gone names (sc_entries s) s)\<close> by (simp add: sync_def)
  qed
qed

lemma sync_config_get:
  "k \<noteq> ac_name c \<Longrightarrow> omap_get (sc_entries (sync_config v now c s)) k = omap_get (sc_entries s) k"
  "\<exists>e. omap_get (sc_entries (sync_config v now c s)) (ac_name c) = Some e \<and> se_signature e = json_stringify (config_json c)"
  by (auto simp: sync_config_def Let_def dest!: create_entry_fields split: option.split prod.split)

lemma sync_keys:
  assumes ok: "scheduler_ok s"
  shows "set (omap_keys (sc_entries (sync v now cs s))) = set (map ac_name cs)"
proof -
  let ?r = "remove_gone (set (map ac_name cs)) (sc_entries s) s"
  have r: "\<forall>k. omap_get (sc_entries ?r) k =
      (if k \<in> set (map fst (sc_entries s)) \<and> k \<notin> set (map ac_name cs) then None else omap_get (sc_entries s) k)"
    using remove_gone_ok [OF ok, of "sc_entries s" "set (map ac_name cs)"] scheduler_okD(1) [OF ok]
    by (auto simp: omap_ok_def omap_get_in)
  have sub: "k \<in> set (omap_keys (sc_entries ?r)) \<Longrightarrow> k \<in> set (map ac_name cs)" for k
  proof -
    assume "k \<in> set (omap_keys (sc_entries ?r))"
    then have g: "omap_get (sc_entries ?r) k \<noteq> None" by (simp add: omap_keys_get)
    then have "omap_get (sc_entries s) k \<noteq> None" using r by (metis (full_types))
    then have "k \<in> set (omap_keys (sc_entries s))" by (simp add: omap_keys_get)
    then have "k \<in> set (map fst (sc_entries s))" by (simp add: omap_keys_def)
    then show ?thesis using r g by metis
  qed
  have "set (omap_keys (sc_entries (fold (sync_config v now) ds t))) = set (omap_keys (sc_entries t)) \<union> set (map ac_name ds)" for ds t
  proof (induction ds arbitrary: t)
    case (Cons d ds)
    have "k \<in> set (omap_keys (sc_entries (sync_config v now d t))) \<longleftrightarrow> k = ac_name d \<or> k \<in> set (omap_keys (sc_entries t))" for k
      using sync_config_get(1) [of k d v now t] sync_config_get(2) [of v now d t] by (cases "k = ac_name d") (auto simp: omap_keys_get)
    then have "set (omap_keys (sc_entries (sync_config v now d t))) = insert (ac_name d) (set (omap_keys (sc_entries t)))" by blast
    then show ?case using Cons.IH [of "sync_config v now d t"] by auto
  qed simp
  then show ?thesis using sub by (auto simp: sync_def)
qed

text \<open>A configuration already in place is left alone.\<close>

lemma sync_config_same:
  "omap_get (sc_entries s) (ac_name c) = Some e \<Longrightarrow> se_signature e = json_stringify (config_json c) \<Longrightarrow> sync_config v now c s = s"
  by (simp add: sync_config_def Let_def)

definition in_place :: "automation_config list \<Rightarrow> scheduler \<Rightarrow> bool" where
  "in_place cs s \<longleftrightarrow> (\<forall>c \<in> set cs. \<exists>e. omap_get (sc_entries s) (ac_name c) = Some e \<and> se_signature e = json_stringify (config_json c))"

lemma fold_in_place: "in_place cs s \<Longrightarrow> fold (sync_config v now) cs s = s"
  by (induction cs) (auto simp: in_place_def sync_config_same)

lemma fold_sets_in_place: "distinct (map ac_name cs) \<Longrightarrow> in_place cs (fold (sync_config v now) cs s)"
proof (induction cs rule: rev_induct)
  case (snoc c cs)
  let ?t = "fold (sync_config v now) cs s"
  have "in_place cs (sync_config v now c ?t)"
    unfolding in_place_def
  proof
    fix d assume d: "d \<in> set cs"
    then have "ac_name d \<in> ac_name ` set cs" by (rule imageI)
    then have "ac_name d \<noteq> ac_name c" using snoc.prems by auto
    then show "\<exists>e. omap_get (sc_entries (sync_config v now c ?t)) (ac_name d) = Some e \<and> se_signature e = json_stringify (config_json d)"
      using sync_config_get(1) [of "ac_name d" c v now ?t] snoc d by (auto simp: in_place_def)
  qed
  then show ?case using sync_config_get(2) [of v now c ?t] by (auto simp: in_place_def)
qed (simp add: in_place_def)

lemma remove_none: "fst ` set es \<subseteq> names \<Longrightarrow> remove_gone names es s = s"
  by (induction es) auto

section \<open>Properties\<close>

definition scheduler_run :: "(string \<Rightarrow> bool) \<Rightarrow> (string \<times> automation_config list) list \<Rightarrow> scheduler \<Rightarrow> scheduler" where
  "scheduler_run v updates s = fold (\<lambda>(now, cs) s. sync v now cs s) updates s"

definition new_scheduler :: scheduler where
  "new_scheduler = \<lparr>sc_entries = [], sc_live = [], sc_next = 0, sc_notified = []\<rparr>"

lemma run_ok: "scheduler_ok s \<Longrightarrow> scheduler_ok (scheduler_run v us s)"
  by (induction us arbitrary: s) (auto simp: scheduler_run_def sync_ok)

lemma new_ok: "scheduler_ok new_scheduler"
  by (rule scheduler_okI) (auto simp: new_scheduler_def owns_def omap_get_def omap_ok_def)

text \<open>
  After any sequence of configuration updates the running cron tasks are exactly those of the
  automations of the last update: none is orphaned, none runs twice, each runs the configuration its entry
  holds, and every configured automation has an entry.
\<close>

theorem scheduler_tasks_exact:
  "case scheduler_run v (us @ [(now, cs)]) new_scheduler of s \<Rightarrow>
     scheduler_ok s \<and> set (omap_keys (sc_entries s)) = set (map ac_name cs)"
proof -
  have "scheduler_run v (us @ [(now, cs)]) new_scheduler = sync v now cs (scheduler_run v us new_scheduler)"
    by (simp add: scheduler_run_def)
  then show ?thesis using sync_ok [OF run_ok [OF new_ok]] sync_keys [OF run_ok [OF new_ok]] by simp
qed

text \<open>
  Applying the same configuration again restarts no task and repeats no warning about an invalid
  schedule: with distinct names, synchronising is idempotent.
\<close>

theorem sync_idempotent:
  assumes "distinct (map ac_name cs)" and "scheduler_ok s"
  shows "sync v now2 cs (sync v now cs s) = sync v now cs s"
proof -
  have "in_place cs (sync v now cs s)" using fold_sets_in_place [OF assms(1)] by (simp add: sync_def)
  moreover have "remove_gone (set (map ac_name cs)) (sc_entries (sync v now cs s)) (sync v now cs s) = sync v now cs s"
    by (rule remove_none) (use sync_keys [OF assms(2), of v now cs] in \<open>auto simp: omap_keys_def\<close>)
  ultimately show ?thesis by (simp add: sync_def [of v now2] fold_in_place)
qed

text \<open>
  No error of a run is ever recorded. When the tracker fails to create the issue of an implement
  automation, the run rejects, the store is not asked to finish it, and no failure is announced: after the
  announcement that the run started nothing follows.
\<close>

theorem failed_run_unrecorded:
  assumes "ac_mode config = Implement" and "ua_createIssue env = Some create" and "\<And>t d w. fst (create t d w) = Inl err"
    and "ua_createRun env \<lparr>ui_automationName = ac_name config, ui_mode = ac_mode config, ui_trigger = trigger,
      ui_repoUrl = ac_repoUrl config, ui_startedAt = ua_now env\<rparr> (au_world s) = (Inr run, w)"
    and "ua_snapshot env w = Inr sn"
  shows "run_automation env config trigger s =
    (Inl err, s\<lparr>au_world := snd (create (''[Automation] '' @ ac_name config) (buildImplementDescription config sn) w),
       au_events := au_events s @ [RunStarted (ur_id run) (ac_name config) Implement trigger]\<rparr>)"
proof -
  let ?t = "''[Automation] '' @ ac_name config" and ?d = "buildImplementDescription config sn"
  obtain w2 where "create ?t ?d w = (Inl err, w2)" using assms(3) [of ?t ?d w] by (metis prod.collapse)
  then show ?thesis using assms(1,2,4,5) by (simp add: run_automation_def runImplement_def emit_run_def Let_def)
qed

lemma notify_events [simp]: "au_events (automation_notify env n m r ty sev msg c s) = au_events s"
  by (simp add: automation_notify_def Let_def split: option.split)

text \<open>A mode either rejects without announcing anything or ends by finishing its run.\<close>

definition mode_ends :: "'w automation_env \<Rightarrow> run_record \<Rightarrow> 'w automation \<Rightarrow> js_error + run_record \<Rightarrow> 'w automation \<Rightarrow> bool" where
  "mode_ends env run s r t \<longleftrightarrow> (\<exists>e. r = Inl e) \<and> au_events t = au_events s \<or>
     (\<exists>u input. au_events u = au_events s \<and> fi_status input \<in> {RunCompleted, RunSkipped} \<and> finish_run env run input u = (r, t))"

lemma mode_rejects: "au_events t = au_events s \<Longrightarrow> mode_ends env run s (Inl e) t"
  by (simp add: mode_ends_def)

lemma mode_finishes:
  "finish_run env run (finish_ok n out d c) u = (r, t) \<Longrightarrow> au_events u = au_events s \<Longrightarrow> mode_ends env run s r t"
  unfolding mode_ends_def by (intro disjI2 exI [of _ u] exI [of _ "finish_ok n out d c"]) (simp add: finish_ok_def)

lemma report_ends: "runReport env config run s = (r, t) \<Longrightarrow> mode_ends env run s r t"
  unfolding runReport_def Let_def by (cases "ua_snapshot env (au_world s)") (auto intro: mode_rejects elim!: mode_finishes)

lemma findings_ends: "runFindings env config run s = (r, t) \<Longrightarrow> mode_ends env run s r t"
  unfolding runFindings_def Let_def by (cases "ua_snapshot env (au_world s)") (auto intro: mode_rejects elim!: mode_finishes)

lemma implement_ends:
  assumes "runImplement env config run s = (r, t)"
  shows "mode_ends env run s r t"
proof (cases "ua_createIssue env")
  case (Some create)
  show ?thesis
  proof (cases "ua_snapshot env (au_world s)")
    case (Inr sn)
    show ?thesis
    proof (cases "create (''[Automation] '' @ ac_name config) (buildImplementDescription config sn) (au_world s)")
      case (Pair q w)
      then show ?thesis using assms Some Inr
        by (cases q) (auto simp: runImplement_def Let_def intro: mode_rejects elim!: mode_finishes)
    qed
  qed (use assms Some in \<open>auto simp: runImplement_def intro: mode_rejects\<close>)
qed (use assms in \<open>auto simp: runImplement_def intro: mode_rejects\<close>)

text \<open>
  With a store that keeps the status it is given, no run of any mode announces a failure: what a run
  announces is that it started and, if it returns, that it completed or was skipped.
\<close>

definition keeps_status :: "'w automation_env \<Rightarrow> bool" where
  "keeps_status env \<longleftrightarrow> (\<forall>i input w r w'. ua_finishRun env i input w = (Inr (Some r), w') \<longrightarrow> ur_status r = fi_status input)"

lemma finish_events:
  assumes "keeps_status env" and "fi_status input \<in> {RunCompleted, RunSkipped}" and "finish_run env run input s = (r, t)"
  shows "(case r of Inl _ \<Rightarrow> au_events t = au_events s
    | Inr f \<Rightarrow> au_events t = au_events s @ [RunCompletedEvent (ur_id f) (ur_automationName f) (ur_mode f) (fi_status input)])"
proof (cases "ua_finishRun env (ur_id run) input (au_world s)")
  case (Pair q w)
  show ?thesis
  proof (cases q)
    case (Inr o')
    show ?thesis
    proof (cases o')
      case (Some f)
      then have "ur_status f = fi_status input" using assms(1) Pair Inr unfolding keeps_status_def by blast
      then show ?thesis using assms(2,3) Pair Inr Some by (auto simp: finish_run_def emit_run_def)
    qed (use assms(3) Pair Inr in \<open>auto simp: finish_run_def\<close>)
  qed (use assms(3) Pair in \<open>auto simp: finish_run_def\<close>)
qed

theorem runs_never_announce_failure:
  assumes "keeps_status env" and "run_automation env config trigger s = (r, t)"
  shows "\<exists>es. au_events t = au_events s @ es \<and>
    (\<forall>i n m e. RunFailedEvent i n m e \<notin> set es) \<and>
    (\<forall>f. r = Inr f \<longrightarrow> (\<exists>st \<in> {RunCompleted, RunSkipped}. last es = RunCompletedEvent (ur_id f) (ur_automationName f) (ur_mode f) st))"
proof (cases "ua_createRun env \<lparr>ui_automationName = ac_name config, ui_mode = ac_mode config, ui_trigger = trigger,
      ui_repoUrl = ac_repoUrl config, ui_startedAt = ua_now env\<rparr> (au_world s)")
  case (Pair q w)
  show ?thesis
  proof (cases q)
    case (Inl e)
    then show ?thesis using assms(2) Pair by (auto simp: run_automation_def)
  next
    case (Inr run)
    define s1 where "s1 = emit_run (RunStarted (ur_id run) (ac_name config) (ac_mode config) trigger) (s\<lparr>au_world := w\<rparr>)"
    have s1: "au_events s1 = au_events s @ [RunStarted (ur_id run) (ac_name config) (ac_mode config) trigger]"
      by (simp add: s1_def emit_run_def)
    define skip where "skip = \<lparr>fi_status = RunSkipped, fi_output = None, fi_details = JObj [(''reason'', JStr ''repo_url_required'')],
      fi_issueId = None, fi_issueIdentifier = None, fi_issueUrl = None,
      fi_error = Some ''repoUrl is required for report and findings automations'', fi_finishedAt = ua_now env\<rparr>"
    have ra: "(if (ac_mode config = Report \<or> ac_mode config = Findings) \<and> truthy_string (ac_repoUrl config) = None
        then finish_run env run skip s1
        else (case ac_mode config of Implement \<Rightarrow> runImplement env config run s1 | Findings \<Rightarrow> runFindings env config run s1
          | Report \<Rightarrow> runReport env config run s1)) = (r, t)"
      using assms(2) unfolding run_automation_def Pair Inr prod.case sum.case Let_def s1_def skip_def by assumption
    have "mode_ends env run s1 r t"
    proof (cases "(ac_mode config = Report \<or> ac_mode config = Findings) \<and> truthy_string (ac_repoUrl config) = None")
      case True
      then have "finish_run env run skip s1 = (r, t)" using ra by (simp only: if_True simp_thms)
      moreover have "fi_status skip = RunSkipped" by (simp add: skip_def)
      ultimately show ?thesis unfolding mode_ends_def by (intro disjI2 exI [of _ s1] exI [of _ skip]) simp
    next
      case False
      then have "(case ac_mode config of Implement \<Rightarrow> runImplement env config run s1 | Findings \<Rightarrow> runFindings env config run s1
          | Report \<Rightarrow> runReport env config run s1) = (r, t)"
        using ra by (simp only: if_False)
      then show ?thesis
        by (cases "ac_mode config") (simp_all add: implement_ends report_ends findings_ends)
    qed
    then show ?thesis unfolding mode_ends_def
    proof
      assume "(\<exists>e. r = Inl e) \<and> au_events t = au_events s1"
      then show ?thesis using s1 by auto
    next
      assume "\<exists>u input. au_events u = au_events s1 \<and> fi_status input \<in> {RunCompleted, RunSkipped} \<and> finish_run env run input u = (r, t)"
      then obtain u input where u: "au_events u = au_events s1" "fi_status input \<in> {RunCompleted, RunSkipped}" "finish_run env run input u = (r, t)"
        by blast
      show ?thesis using finish_events [OF assms(1) u(2,3)] u(1,2) s1 by (cases r) auto
    qed
  qed
qed

section \<open>Witnesses\<close>

definition sample_automation :: automation_config where
  "sample_automation =
     \<lparr>ac_name = ''nightly'', ac_schedule = ''0 3 * * *'', ac_mode = Implement, ac_prompt = ''tidy up'', ac_enabled = True, ac_repoUrl = None\<rparr>"

definition sample_run :: "run_status \<Rightarrow> run_record" where
  "sample_run st =
     \<lparr>ur_id = ''r1'', ur_automationName = ''nightly'', ur_mode = Implement, ur_trigger = Manual, ur_repoUrl = None, ur_status = st,
      ur_output = None, ur_details = JNull, ur_issueId = None, ur_issueIdentifier = None, ur_issueUrl = None, ur_error = None,
      ur_startedAt = ''t'', ur_finishedAt = None\<rparr>"

definition empty_snapshot :: snapshot where
  "empty_snapshot =
     \<lparr>sn_generatedAt = ''t'', sn_runningCount = 0, sn_retryingCount = 0, sn_running = [], sn_retrying = [], sn_queued = [],
      sn_completed = [], sn_workflowColumns = [],
      sn_codexTotals = \<lparr>sn_inputTokens = 0, sn_outputTokens = 0, sn_totalTokens = 0, sn_secondsRunning = 0, sn_costUsd = 0\<rparr>,
      sn_rateLimits = JNull, sn_recentEvents = [], sn_stallEvents = [],
      sn_systemHealth = \<lparr>sh_status = Healthy, sh_checkedAt = [], sh_runningCount = 0, sh_message = []\<rparr>, sn_webhookHealth = None,
      sn_costSamples = [], sn_healthChecks = None\<rparr>"

text \<open>The world counts the calls of \<open>finishRun\<close>.\<close>

definition sample_automation_env :: "nat automation_env" where
  "sample_automation_env =
     \<lparr>ua_now = ''t'', ua_createRun = (\<lambda>_ w. (Inr (sample_run RunRunning), w)),
      ua_finishRun = (\<lambda>_ input w. (Inr (Some (sample_run (fi_status input))), w + 1)), ua_snapshot = (\<lambda>_. Inr empty_snapshot),
      ua_createIssue = Some (\<lambda>_ _ w. (Inl (JsError ''tracker down''), w)), ua_refresh = (\<lambda>_ _ _ w. w), ua_notify = None\<rparr>"

theorem failed_run_unrecorded_witness:
  "run_automation sample_automation_env sample_automation Manual \<lparr>au_world = 0, au_events = []\<rparr> =
     (Inl (JsError ''tracker down''), \<lparr>au_world = 0, au_events = [RunStarted ''r1'' ''nightly'' Implement Manual]\<rparr>)"
  using failed_run_unrecorded [of sample_automation sample_automation_env "\<lambda>_ _ w. (Inl (JsError ''tracker down''), w)" "JsError ''tracker down''"
      Manual "\<lparr>au_world = 0, au_events = []\<rparr>" "sample_run RunRunning" 0 empty_snapshot]
  by (simp add: sample_automation_def sample_automation_env_def sample_run_def)

theorem runs_never_announce_failure_witness:
  "\<exists>es. au_events (snd (run_automation sample_automation_env sample_automation Manual \<lparr>au_world = 0, au_events = []\<rparr>)) = es \<and>
     RunFailedEvent ''r1'' ''nightly'' Implement ''tracker down'' \<notin> set es"
proof -
  obtain r t where r: "run_automation sample_automation_env sample_automation Manual \<lparr>au_world = 0, au_events = []\<rparr> = (r, t)" by fastforce
  have "keeps_status sample_automation_env" by (simp add: keeps_status_def sample_automation_env_def sample_run_def)
  from runs_never_announce_failure [OF this r] show ?thesis by (auto simp: r)
qed

theorem sync_idempotent_witness:
  "sync (\<lambda>_. True) ''t2'' [sample_automation] (sync (\<lambda>_. True) ''t1'' [sample_automation] new_scheduler) =
     sync (\<lambda>_. True) ''t1'' [sample_automation] new_scheduler"
  by (rule sync_idempotent) (simp_all add: new_ok)

end
