(* ===== verification/ConfigOverlay.thy ===== *)
theory ConfigOverlay
  imports AgentHelpers WorkspacePaths
begin

text \<open>
  The configuration overlay: \<open>src/src/config/merge.ts\<close>, \<open>overlay-helpers.ts\<close>, \<open>overlay.ts\<close> (the store in a
  YAML file) and \<open>db-store.ts\<close> (the store in the database). A configuration map is an association list of
  its own keys. The file system, the YAML codec and the derivation of the typed configuration are fields of
  environment records.
\<close>

section \<open>merge.ts\<close>

text \<open>
  \<open>merged[key] = v\<close> on an object literal: without an own property \<open>__proto__\<close> the inherited setter runs, which
  changes the prototype and adds no key.
\<close>

definition assign_key :: "string \<Rightarrow> json \<Rightarrow> (string, json) omap \<Rightarrow> (string, json) omap" where
  "assign_key k v m = (if k = ''__proto__'' \<and> \<not> omap_has m k then m else omap_set k v m)"

fun deepMerge :: "json option \<Rightarrow> json \<Rightarrow> json"
and deepMergeFields :: "(string, json) omap \<Rightarrow> (string, json) omap \<Rightarrow> (string, json) omap \<Rightarrow> (string, json) omap" where
  "deepMerge base (JObj overlay) = JObj (deepMergeFields (asRecord base) (asRecord base) overlay)"
| "deepMerge base (JArr js) = JArr js"
| "deepMerge base (JStr s) = JStr s"
| "deepMerge base (JNum n) = JNum n"
| "deepMerge base (JBool b) = JBool b"
| "deepMerge base JNull = JNull"
| "deepMergeFields base merged [] = merged"
| "deepMergeFields base merged ((k, v) # rest) =
     deepMergeFields base (assign_key k (deepMerge (omap_get base k) v) merged) rest"

section \<open>overlay-helpers.ts\<close>

definition isDangerousKey :: "string \<Rightarrow> bool" where
  "isDangerousKey key \<longleftrightarrow> key = ''__proto__'' \<or> key = ''constructor'' \<or> key = ''prototype''"

definition normalizePathExpression :: "string \<Rightarrow> string list" where
  "normalizePathExpression pathExpression =
     filter (\<lambda>segment. segment \<noteq> []) (map js_trim (split_on CHR ''.'' pathExpression))"

fun sortForStableStringify :: "host \<Rightarrow> json \<Rightarrow> json" where
  "sortForStableStringify h (JArr js) = JArr (map (sortForStableStringify h) js)"
| "sortForStableStringify h (JObj kvs) =
     JObj (js_sort (\<lambda>left right. h_locale_compare h (fst left) (fst right))
             (map (\<lambda>(k, v). (k, sortForStableStringify h v)) kvs))"
| "sortForStableStringify h (JStr s) = JStr s"
| "sortForStableStringify h (JNum n) = JNum n"
| "sortForStableStringify h (JBool b) = JBool b"
| "sortForStableStringify h JNull = JNull"

definition stableStringify :: "host \<Rightarrow> json \<Rightarrow> string" where
  "stableStringify h v = json_stringify (sortForStableStringify h v)"

fun mergeOverlayMaps :: "(string, json) omap \<Rightarrow> (string, json) omap \<Rightarrow> (string, json) omap" where
  "mergeOverlayMaps output [] = output"
| "mergeOverlayMaps output ((key, patchValue) # rest) =
     (if isDangerousKey key then mergeOverlayMaps output rest
      else mergeOverlayMaps
             (omap_set key
                (case (omap_get output key, patchValue) of
                   (Some (JObj baseValue), JObj patchFields) \<Rightarrow> JObj (mergeOverlayMaps baseValue patchFields)
                 | _ \<Rightarrow> patchValue) output) rest)"

text \<open>What a refused mutation throws, and what the file system throws.\<close>

datatype overlay_error = PlainError string | TypeError string | IoError string string

text \<open>\<open>True\<close> stands for the mode \<open>throw\<close>. The target is what the mutation leaves of it.\<close>

definition refusal :: "bool \<Rightarrow> string \<Rightarrow> string \<Rightarrow> overlay_error option" where
  "refusal throws action key =
     (if throws then Some (TypeError (''Refusing to '' @ action @ '' dangerous key: '' @ key)) else None)"

fun setOverlayPathValue ::
  "bool \<Rightarrow> (string, json) omap \<Rightarrow> string list \<Rightarrow> json \<Rightarrow> overlay_error option \<times> (string, json) omap" where
  "setOverlayPathValue throws target [] v = (None, omap_set ''undefined'' v target)"
| "setOverlayPathValue throws target [leafKey] v =
     (if isDangerousKey leafKey then (refusal throws ''set'' leafKey, target)
      else (None, omap_set leafKey v target))"
| "setOverlayPathValue throws target (key # k2 # ks) v =
     (if isDangerousKey key then (refusal throws ''traverse'' key, target)
      else let child = (case omap_get target key of Some (JObj c) \<Rightarrow> c | _ \<Rightarrow> []);
               (e, child') = setOverlayPathValue throws child (k2 # ks) v
           in (e, omap_set key (JObj child') target))"

fun removeOverlayPathValue ::
  "bool \<Rightarrow> (string, json) omap \<Rightarrow> string list \<Rightarrow> (overlay_error + bool) \<times> (string, json) omap" where
  "removeOverlayPathValue throws target [] = (Inr False, target)"
| "removeOverlayPathValue throws target (key # rest) =
     (if isDangerousKey key
      then (case refusal throws ''traverse'' key of Some e \<Rightarrow> (Inl e, target) | None \<Rightarrow> (Inr False, target))
      else if rest = []
      then (if omap_has target key then (Inr True, omap_delete key target) else (Inr False, target))
      else (case omap_get target key of
              Some (JObj child) \<Rightarrow>
                let (r, child') = removeOverlayPathValue throws child rest
                in (r, if r = Inr True \<and> child' = [] then omap_delete key target
                       else omap_set key (JObj child') target)
            | _ \<Rightarrow> (Inr False, target)))"

section \<open>overlay.ts\<close>

datatype overlay_event = OvNotified string | OvLogged string string

record overlay_store =
  os_overlay :: "(string, json) omap"
  os_listeners :: "string list"
  os_persistSequence :: nat
  os_events :: "overlay_event list"

record 'w overlay_env =
  ov_host :: host
  ov_path :: string
  ov_dir :: string
  ov_pid :: string
  ov_now :: "'w \<Rightarrow> int"
  ov_mkdir :: "string \<Rightarrow> 'w \<Rightarrow> overlay_error option \<times> 'w"
  ov_writeFile :: "string \<Rightarrow> string \<Rightarrow> 'w \<Rightarrow> overlay_error option \<times> 'w"
  ov_rename :: "string \<Rightarrow> string \<Rightarrow> 'w \<Rightarrow> overlay_error option \<times> 'w"
  ov_readFile :: "string \<Rightarrow> 'w \<Rightarrow> overlay_error + string"
  ov_yaml :: "(string, json) omap \<Rightarrow> string"
  ov_yaml_parse :: "string \<Rightarrow> overlay_error + json"
  ov_await :: "overlay_store \<Rightarrow> overlay_store"

definition isDeepEqual :: "'w overlay_env \<Rightarrow> (string, json) omap \<Rightarrow> (string, json) omap \<Rightarrow> bool" where
  "isDeepEqual e left right \<longleftrightarrow>
     stableStringify (ov_host e) (JObj left) = stableStringify (ov_host e) (JObj right)"

definition subscribe_overlay :: "string \<Rightarrow> overlay_store \<Rightarrow> overlay_store" where
  "subscribe_overlay l s = (if l \<in> set (os_listeners s) then s else s\<lparr>os_listeners := os_listeners s @ [l]\<rparr>)"

definition unsubscribe_overlay :: "string \<Rightarrow> overlay_store \<Rightarrow> overlay_store" where
  "unsubscribe_overlay l s = s\<lparr>os_listeners := filter (\<lambda>m. m \<noteq> l) (os_listeners s)\<rparr>"

definition notify_overlay :: "overlay_store \<Rightarrow> overlay_store" where
  "notify_overlay s = s\<lparr>os_events := os_events s @ map OvNotified (os_listeners s)\<rparr>"

definition log_overlay :: "string \<Rightarrow> string \<Rightarrow> overlay_store \<Rightarrow> overlay_store" where
  "log_overlay level msg s = s\<lparr>os_events := os_events s @ [OvLogged level msg]\<rparr>"

text \<open>One attempt of \<open>persist\<close>: write beside the file, then rename.\<close>

definition temporary_path :: "'w overlay_env \<Rightarrow> overlay_store \<Rightarrow> 'w \<Rightarrow> string" where
  "temporary_path e s w = ov_path e @ ''.tmp-'' @ ov_pid e @ ''-'' @ show_int (ov_now e w) @ ''-'' @ show_nat (os_persistSequence s)"

definition persist_attempt ::
  "'w overlay_env \<Rightarrow> string \<Rightarrow> overlay_store \<times> 'w \<Rightarrow> overlay_error option \<times> overlay_store \<times> 'w" where
  "persist_attempt e rendered sw =
     (let (s, w) = sw;
          temporaryPath = temporary_path e s w;
          s1 = s\<lparr>os_persistSequence := os_persistSequence s + 1\<rparr>
      in case ov_mkdir e (ov_dir e) w of
           (Some err, w1) \<Rightarrow> (Some err, ov_await e s1, w1)
         | (None, w1) \<Rightarrow>
             (case ov_writeFile e temporaryPath rendered w1 of
                (Some err, w2) \<Rightarrow> (Some err, ov_await e (ov_await e s1), w2)
              | (None, w2) \<Rightarrow>
                  (let (r, w3) = ov_rename e temporaryPath (ov_path e) w2
                   in (r, ov_await e (ov_await e (ov_await e s1)), w3))))"

definition is_enoent :: "overlay_error \<Rightarrow> bool" where
  "is_enoent err = (case err of IoError code _ \<Rightarrow> code = ''ENOENT'' | _ \<Rightarrow> False)"

definition persist :: "'w overlay_env \<Rightarrow> overlay_store \<times> 'w \<Rightarrow> overlay_error option \<times> overlay_store \<times> 'w" where
  "persist e sw =
     (let rendered = ov_yaml e (os_overlay (fst sw))
      in case persist_attempt e rendered sw of
           (Some err, s1, w1) \<Rightarrow>
             (if is_enoent err
              then persist_attempt e rendered (log_overlay ''warn'' ''config overlay persist retrying after ENOENT'' s1, w1)
              else (Some err, s1, w1))
         | (None, s1, w1) \<Rightarrow> (None, s1, w1))"

definition commit ::
  "'w overlay_env \<Rightarrow> (string, json) omap \<Rightarrow> overlay_store \<times> 'w \<Rightarrow> (overlay_error + bool) \<times> overlay_store \<times> 'w" where
  "commit e nextMap sw =
     (let (s, w) = sw
      in if isDeepEqual e nextMap (os_overlay s) then (Inr False, s, w)
         else case persist e (s\<lparr>os_overlay := nextMap\<rparr>, w) of
                (Some err, s1, w1) \<Rightarrow> (Inl err, s1, w1)
              | (None, s1, w1) \<Rightarrow>
                  (Inr True, notify_overlay (log_overlay ''info'' ''config overlay updated'' s1), w1))"

definition empty_path_error :: overlay_error where
  "empty_path_error = PlainError ''overlay path must contain at least one segment''"

definition replace_overlay ::
  "'w overlay_env \<Rightarrow> (string, json) omap \<Rightarrow> overlay_store \<times> 'w \<Rightarrow> (overlay_error + bool) \<times> overlay_store \<times> 'w" where
  "replace_overlay e nextMap sw = commit e nextMap sw"

definition applyPatch ::
  "'w overlay_env \<Rightarrow> (string, json) omap \<Rightarrow> overlay_store \<times> 'w \<Rightarrow> (overlay_error + bool) \<times> overlay_store \<times> 'w" where
  "applyPatch e patch sw = commit e (mergeOverlayMaps (os_overlay (fst sw)) patch) sw"

definition set_overlay ::
  "'w overlay_env \<Rightarrow> string \<Rightarrow> json \<Rightarrow> overlay_store \<times> 'w \<Rightarrow> (overlay_error + bool) \<times> overlay_store \<times> 'w" where
  "set_overlay e pathExpression v sw =
     (let segments = normalizePathExpression pathExpression
      in if segments = [] then (Inl empty_path_error, sw)
         else case setOverlayPathValue True (os_overlay (fst sw)) segments v of
                (Some err, _) \<Rightarrow> (Inl err, sw)
              | (None, nextMap) \<Rightarrow> commit e nextMap sw)"

definition delete_overlay ::
  "'w overlay_env \<Rightarrow> string \<Rightarrow> overlay_store \<times> 'w \<Rightarrow> (overlay_error + bool) \<times> overlay_store \<times> 'w" where
  "delete_overlay e pathExpression sw =
     (let segments = normalizePathExpression pathExpression
      in if segments = [] then (Inl empty_path_error, sw)
         else case removeOverlayPathValue True (os_overlay (fst sw)) segments of
                (Inl err, _) \<Rightarrow> (Inl err, sw)
              | (Inr removed, nextMap) \<Rightarrow>
                  if \<not> removed then (Inr False, sw)
                  else case commit e nextMap sw of
                         (Inl err, sw1) \<Rightarrow> (Inl err, sw1)
                       | (Inr _, sw1) \<Rightarrow> (Inr True, sw1))"

definition reloadFromDisk :: "'w overlay_env \<Rightarrow> overlay_store \<times> 'w \<Rightarrow> overlay_store" where
  "reloadFromDisk e sw =
     (let (s, w) = sw;
          adopt = (\<lambda>m. if isDeepEqual e (os_overlay s) m then s
                        else notify_overlay (log_overlay ''info'' ''config overlay reloaded'' (s\<lparr>os_overlay := m\<rparr>)));
          parse = (\<lambda>source. case ov_yaml_parse e source of
                     Inl _ \<Rightarrow> log_overlay ''warn'' ''config overlay parse failed'' s
                   | Inr JNull \<Rightarrow> adopt []
                   | Inr (JObj m) \<Rightarrow> adopt m
                   | Inr _ \<Rightarrow> log_overlay ''warn'' ''config overlay root must be a YAML map'' s)
      in case ov_readFile e (ov_path e) w of
           Inl err \<Rightarrow> if is_enoent err then adopt [] else log_overlay ''warn'' ''config overlay read failed'' s
         | Inr source \<Rightarrow> parse source)"

end
