(* ===== verification/ConfigStores.thy ===== *)
theory ConfigStores
  imports ConfigOverlay
begin

text \<open>
  The stores behind the typed configuration: \<open>src/src/config/db-store.ts\<close> (sections as rows of a table),
  \<open>store.ts\<close> (the workflow of the database under the overlay, refreshed on every change) and the routes of
  \<open>src/src/http/routes/config.ts\<close>. The derivation of the typed configuration is a parameter that may throw.
\<close>

section \<open>db-store.ts\<close>

record config_tables =
  tb_config :: "(string, string) omap"
  tb_templates :: "(string, string) omap"

record 'c db_store =
  ds_map :: "(string, json) omap"
  ds_config :: "'c option"
  ds_workflow :: "((string, json) omap \<times> string) option"
  ds_listeners :: "string list"
  ds_events :: "overlay_event list"

record 'c db_env =
  db_host :: host
  db_derive :: "(string, json) omap \<Rightarrow> overlay_error + 'c"

definition DEFAULT_PROMPT_TEMPLATE :: string where
  \<open>DEFAULT_PROMPT_TEMPLATE = join [CHR 0x0A]
    [''You are working on Linear issue {{ issue.identifier }}: "{{ issue.title }}"'',
     '''',
     ''{% if issue.description %}'',
     ''## Issue Description'',
     '''',
     ''{{ issue.description }}'',
     ''{% endif %}'',
     '''',
     ''When you have truly finished the issue and should stop, end your final message with '' @ [CHR 0x60] @
     ''RISOLUTO_STATUS: DONE'' @ [CHR 0x60] @ ''. If you are blocked and cannot make further progress, end your final message with ''
     @ [CHR 0x60] @ ''RISOLUTO_STATUS: BLOCKED'' @ [CHR 0x60] @ ''.'',
     '''',
     ''Respect the repository state you find in the workspace, explain what you are doing in short operator-friendly updates, and stop once the issue is either complete or blocked.'',
     '''']\<close>

definition readConfigMap :: "host \<Rightarrow> config_tables \<Rightarrow> (string, json) omap" where
  "readConfigMap h t =
     fold (\<lambda>(key, v) m. assign_key key (case h_json_parse h v of Some j \<Rightarrow> j | None \<Rightarrow> JObj []) m) (tb_config t) []"

definition first_template :: "config_tables \<Rightarrow> string" where
  "first_template t = (case tb_templates t of (_, body) # _ \<Rightarrow> body | [] \<Rightarrow> DEFAULT_PROMPT_TEMPLATE)"

definition readActiveTemplate :: "host \<Rightarrow> config_tables \<Rightarrow> overlay_error + string" where
  "readActiveTemplate h t =
     (case omap_get (tb_config t) ''system'' of
        None \<Rightarrow> Inr (first_template t)
      | Some row \<Rightarrow>
          (case h_json_parse h row of
             None \<Rightarrow> Inl (PlainError ''SyntaxError'')
           | Some JNull \<Rightarrow> Inl (TypeError ''Cannot read properties of null'')
           | Some system \<Rightarrow>
               (case member (Some system) ''selectedTemplateId'' of
                  Some (JStr selectedId) \<Rightarrow>
                    (case omap_get (tb_templates t) selectedId of
                       Some body \<Rightarrow> Inr body
                     | None \<Rightarrow> Inr (first_template t))
                | _ \<Rightarrow> Inr (first_template t))))"

definition refresh_db :: "'c db_env \<Rightarrow> config_tables \<Rightarrow> 'c db_store \<Rightarrow> overlay_error option \<times> 'c db_store" where
  "refresh_db e t s =
     (let configMap = readConfigMap (db_host e) t
      in case readActiveTemplate (db_host e) t of
           Inl err \<Rightarrow> (Some err, s)
         | Inr promptTemplate \<Rightarrow>
             (case db_derive e configMap of
                Inl err \<Rightarrow> (Some err, s)
              | Inr serviceConfig \<Rightarrow>
                  (None, s\<lparr>ds_map := configMap, ds_config := Some serviceConfig,
                           ds_workflow := Some (configMap, promptTemplate),
                           ds_events := ds_events s @ [OvLogged ''info'' ''config refreshed from DB'']\<rparr>)))"

definition getWorkflow_db :: "'c db_store \<Rightarrow> overlay_error + ((string, json) omap \<times> string)" where
  "getWorkflow_db s = (case ds_workflow s of
     None \<Rightarrow> Inl (PlainError ''DbConfigStore not started - call refresh() first'') | Some wf' \<Rightarrow> Inr wf')"

definition notify_db :: "'c db_store \<Rightarrow> 'c db_store" where
  "notify_db s = s\<lparr>ds_events := ds_events s @ map OvNotified (ds_listeners s)\<rparr>"

text \<open>The transaction of \<open>writeSections\<close>: every section is upserted, then the rows of other keys go.\<close>

definition section_keys :: "(string, json) omap \<Rightarrow> string list" where
  "section_keys m = filter (\<lambda>k. \<not> isDangerousKey k) (omap_keys m)"

definition writeSections :: "(string, json) omap \<Rightarrow> config_tables \<Rightarrow> config_tables" where
  "writeSections m t =
     (let upserted = fold (\<lambda>(key, v) rows. if isDangerousKey key then rows else omap_set key (json_stringify v) rows)
                       m (tb_config t)
      in t\<lparr>tb_config := filter (\<lambda>(key, _). key \<in> set (section_keys m)) upserted\<rparr>)"

definition store_sections ::
  "'c db_env \<Rightarrow> (string, json) omap \<Rightarrow> config_tables \<times> 'c db_store \<Rightarrow> (overlay_error + bool) \<times> config_tables \<times> 'c db_store" where
  "store_sections e m ts =
     (let t = writeSections m (fst ts)
      in case refresh_db e t (snd ts) of
           (Some err, s) \<Rightarrow> (Inl err, t, s)
         | (None, s) \<Rightarrow> (Inr True, t, notify_db s))"

definition applyPatch_db ::
  "'c db_env \<Rightarrow> (string, json) omap \<Rightarrow> config_tables \<times> 'c db_store \<Rightarrow> (overlay_error + bool) \<times> config_tables \<times> 'c db_store" where
  "applyPatch_db e patch ts =
     (let currentMap = ds_map (snd ts); merged = mergeOverlayMaps currentMap patch
      in if stableStringify (db_host e) (JObj merged) = stableStringify (db_host e) (JObj currentMap)
         then (Inr False, ts) else store_sections e merged ts)"

definition set_db ::
  "'c db_env \<Rightarrow> string \<Rightarrow> json \<Rightarrow> config_tables \<times> 'c db_store \<Rightarrow> (overlay_error + bool) \<times> config_tables \<times> 'c db_store" where
  "set_db e pathExpression v ts =
     (let segments = normalizePathExpression pathExpression; before = ds_map (snd ts)
      in if segments = [] then (Inl empty_path_error, ts)
         else let after = snd (setOverlayPathValue False before segments v)
              in if stableStringify (db_host e) (JObj after) = stableStringify (db_host e) (JObj before)
                 then (Inr False, ts) else store_sections e after ts)"

definition delete_db ::
  "'c db_env \<Rightarrow> string \<Rightarrow> config_tables \<times> 'c db_store \<Rightarrow> (overlay_error + bool) \<times> config_tables \<times> 'c db_store" where
  "delete_db e pathExpression ts =
     (let segments = normalizePathExpression pathExpression
      in if segments = [] then (Inl empty_path_error, ts)
         else case removeOverlayPathValue False (ds_map (snd ts)) segments of
                (Inr True, after) \<Rightarrow> store_sections e after ts
              | _ \<Rightarrow> (Inr False, ts))"

section \<open>store.ts\<close>

record 'c config_store =
  cs_config :: "'c option"
  cs_mergedConfigMap :: "(string, json) omap"
  cs_listeners :: "string list"
  cs_subscribed :: bool
  cs_events :: "overlay_event list"

record 'c config_env =
  ce_derive :: "(string, json) omap \<Rightarrow> overlay_error + 'c"
  ce_warnings :: "'c \<Rightarrow> (string \<times> string) list"

text \<open>\<open>workflow\<close> is what \<open>getWorkflow()\<close> gives or throws, \<open>overlay\<close> what the overlay store holds.\<close>

definition merged_config :: "(string, json) omap \<Rightarrow> (string, json) omap \<Rightarrow> (string, json) omap" where
  "merged_config workflowConfig overlay = asRecord (Some (deepMerge (Some (JObj workflowConfig)) (JObj overlay)))"

definition refresh_inputs ::
  "'c config_env \<Rightarrow> overlay_error + (string, json) omap \<Rightarrow> (string, json) omap \<Rightarrow> overlay_error + ((string, json) omap \<times> 'c)" where
  "refresh_inputs e workflow overlay =
     (case workflow of
        Inl err \<Rightarrow> Inl err
      | Inr workflowConfig \<Rightarrow>
          let m = merged_config workflowConfig overlay
          in case ce_derive e m of Inl err \<Rightarrow> Inl err | Inr c \<Rightarrow> Inr (m, c))"

definition refresh_config ::
  "'c config_env \<Rightarrow> overlay_error + (string, json) omap \<Rightarrow> (string, json) omap \<Rightarrow> 'c config_store \<Rightarrow>
     overlay_error option \<times> 'c config_store" where
  "refresh_config e workflow overlay s =
     (case refresh_inputs e workflow overlay of
        Inr (m, c) \<Rightarrow>
          (None, s\<lparr>cs_config := Some c, cs_mergedConfigMap := m,
                   cs_events := cs_events s @ [OvLogged ''info'' ''config refreshed''] @
                     map (\<lambda>(code, message). OvLogged ''warn'' message) (ce_warnings e c) @
                     map OvNotified (cs_listeners s)\<rparr>)
      | Inl err \<Rightarrow>
          if cs_config s = None then (Some err, s)
          else (None, s\<lparr>cs_events := cs_events s @
                  [OvLogged ''error'' ''config reload rejected; keeping last known good config'']\<rparr>))"

definition start_config ::
  "'c config_env \<Rightarrow> overlay_error + (string, json) omap \<Rightarrow> (string, json) omap \<Rightarrow> 'c config_store \<Rightarrow>
     overlay_error option \<times> 'c config_store" where
  "start_config e workflow overlay s =
     (case refresh_config e workflow overlay s of
        (Some err, s1) \<Rightarrow> (Some err, s1)
      | (None, s1) \<Rightarrow> (None, s1\<lparr>cs_subscribed := True\<rparr>))"

definition stop_config :: "'c config_store \<Rightarrow> 'c config_store" where
  "stop_config s = s\<lparr>cs_subscribed := False\<rparr>"

definition getConfig :: "'c config_store \<Rightarrow> overlay_error + 'c" where
  "getConfig s = (case cs_config s of
     None \<Rightarrow> Inl (PlainError ''config store has not been started'') | Some c \<Rightarrow> Inr c)"

section \<open>http/routes/config.ts\<close>

text \<open>
  \<open>for (... of Object.entries(patch))\<close>: a key with a dot is a path, and the object it spells is merged into what
  was read so far.
\<close>

fun normalizePatchFields :: "(string, json) omap \<Rightarrow> (string, json) omap \<Rightarrow> overlay_error + (string, json) omap"
and normalizePatchValue :: "json \<Rightarrow> overlay_error + json" where
  "normalizePatchValue (JObj kvs) =
     (case normalizePatchFields [] kvs of Inl err \<Rightarrow> Inl err | Inr m \<Rightarrow> Inr (JObj m))"
| "normalizePatchValue (JArr js) = Inr (JArr js)"
| "normalizePatchValue (JStr t) = Inr (JStr t)"
| "normalizePatchValue (JNum n) = Inr (JNum n)"
| "normalizePatchValue (JBool b) = Inr (JBool b)"
| "normalizePatchValue JNull = Inr JNull"
| "normalizePatchFields normalized [] = Inr normalized"
| "normalizePatchFields normalized ((key, rawValue) # rest) =
     (case normalizePatchValue rawValue of
        Inl err \<Rightarrow> Inl err
      | Inr v \<Rightarrow>
          if CHR ''.'' \<notin> set key then normalizePatchFields (assign_key key v normalized) rest
          else let segments = normalizePathExpression key
               in if segments = [] then normalizePatchFields normalized rest
                  else case setOverlayPathValue True [] segments v of
                         (Some err, _) \<Rightarrow> Inl err
                       | (None, expanded) \<Rightarrow> normalizePatchFields (mergeOverlayMaps normalized expanded) rest)"

definition normalizeOverlayPatch :: "(string, json) omap \<Rightarrow> overlay_error + (string, json) omap" where
  "normalizeOverlayPatch patch = normalizePatchFields [] patch"

datatype config_response =
    RUpdated bool "(string, json) omap"
  | RNoContent
  | RError int string
  | RThrows overlay_error

definition put_overlay ::
  "'w overlay_env \<Rightarrow> json option \<Rightarrow> overlay_store \<times> 'w \<Rightarrow> config_response \<times> overlay_store \<times> 'w" where
  "put_overlay e body sw =
     (case body of
        Some (JObj fs) \<Rightarrow>
          (case (case omap_get fs ''patch'' of Some (JObj p) \<Rightarrow> normalizeOverlayPatch p | _ \<Rightarrow> Inr fs) of
             Inl err \<Rightarrow> (RThrows err, sw)
           | Inr patch \<Rightarrow>
               (case applyPatch e patch sw of
                  (Inl err, sw1) \<Rightarrow> (RThrows err, sw1)
                | (Inr updated, sw1) \<Rightarrow> (RUpdated updated (os_overlay (fst sw1)), sw1)))
      | _ \<Rightarrow> (RError 400 ''invalid_overlay_payload'', sw))"

definition patch_overlay_path ::
  "'w overlay_env \<Rightarrow> string \<Rightarrow> json option \<Rightarrow> overlay_store \<times> 'w \<Rightarrow> config_response \<times> overlay_store \<times> 'w" where
  "patch_overlay_path e pathExpression body sw =
     (if js_trim pathExpression = [] then (RError 400 ''invalid_overlay_path'', sw)
      else case member body ''value'' of
             None \<Rightarrow> (RError 400 ''invalid_overlay_payload'', sw)
           | Some v \<Rightarrow>
               (case set_overlay e pathExpression v sw of
                  (Inl err, sw1) \<Rightarrow> (RThrows err, sw1)
                | (Inr updated, sw1) \<Rightarrow> (RUpdated updated (os_overlay (fst sw1)), sw1)))"

definition delete_overlay_path ::
  "'w overlay_env \<Rightarrow> string \<Rightarrow> overlay_store \<times> 'w \<Rightarrow> config_response \<times> overlay_store \<times> 'w" where
  "delete_overlay_path e pathExpression sw =
     (if js_trim pathExpression = [] then (RError 400 ''invalid_overlay_path'', sw)
      else case delete_overlay e pathExpression sw of
             (Inl err, sw1) \<Rightarrow> (RThrows err, sw1)
           | (Inr deleted, sw1) \<Rightarrow> (if deleted then RNoContent else RError 404 ''overlay_path_not_found'', sw1))"

end
