(* ===== verification/JsonText.thy ===== *)
theory JsonText
  imports ConfigOverlay
begin

text \<open>
  The text \<open>JSON.stringify\<close> gives determines the value, so the comparison of configuration maps by their
  stable text (\<open>isDeepEqual\<close> of \<open>src/src/config/overlay.ts\<close>) is equality up to the order of keys.
\<close>

section \<open>The text determines the value\<close>

definition no_digit :: "string \<Rightarrow> bool" where
  "no_digit r \<longleftrightarrow> (case r of [] \<Rightarrow> True | c # _ \<Rightarrow> \<not> (48 \<le> (of_char c :: nat) \<and> (of_char c :: nat) \<le> 57))"

lemma no_digit_simps [simp]:
  "no_digit []" "no_digit (CHR '','' # r)" "no_digit (CHR '']'' # r)" "no_digit (CHR 0x7D # r)"
  by (simp_all add: no_digit_def)

lemma digits_append_inj:
  assumes "\<forall>c \<in> set a. 48 \<le> (of_char c :: nat) \<and> (of_char c :: nat) \<le> 57"
    and "\<forall>c \<in> set b. 48 \<le> (of_char c :: nat) \<and> (of_char c :: nat) \<le> 57"
    and "no_digit r" "no_digit r'" "a @ r = b @ r'"
  shows "a = b \<and> r = r'"
  using assms
proof (induction a arbitrary: b)
  case Nil
  then show ?case by (cases b) (auto simp: no_digit_def)
next
  case (Cons c a)
  then show ?case by (cases b) (auto simp: no_digit_def split: list.splits)
qed

lemma digits_of_nat_append_inj:
  "no_digit r \<Longrightarrow> no_digit r' \<Longrightarrow> digits_of_nat n @ r = digits_of_nat m @ r' \<Longrightarrow> n = m \<and> r = r'"
  using digits_append_inj [of "digits_of_nat n" "digits_of_nat m" r r'] digits_of_nat_chars digits_of_nat_inj
  by blast

lemma digits_of_nat_first: "\<exists>c cs. digits_of_nat n = c # cs \<and> 48 \<le> (of_char c :: nat) \<and> (of_char c :: nat) \<le> 57"
proof -
  have "digits_of_nat n \<noteq> []" by (subst digits_of_nat.simps) simp
  then show ?thesis using digits_of_nat_chars [of "hd (digits_of_nat n)" n] by (cases "digits_of_nat n") auto
qed

lemma minus_not_digits: "CHR ''-'' # s \<noteq> digits_of_nat n @ r"
  using digits_of_nat_first [of n] by auto

lemma show_int_append_inj:
  assumes "no_digit r" "no_digit r'" "show_int n @ r = show_int m @ r'"
  shows "n = m \<and> r = r'"
proof (cases "n < 0"; cases "m < 0")
  assume "n < 0" "m < 0"
  then show ?thesis using assms digits_of_nat_append_inj [of r r' "nat (- n)" "nat (- m)"] by (auto simp: show_int_def)
next
  assume "n < 0" "\<not> m < 0"
  then show ?thesis using assms(3) minus_not_digits [of _ "nat m" r'] by (simp add: show_int_def)
next
  assume "\<not> n < 0" "m < 0"
  then show ?thesis using assms(3) minus_not_digits [of _ "nat n" r, symmetric] by (simp add: show_int_def)
next
  assume "\<not> n < 0" "\<not> m < 0"
  then show ?thesis using assms digits_of_nat_append_inj [of r r' "nat n" "nat m"] by (auto simp: show_int_def)
qed

text \<open>The first character tells the kind of the value.\<close>

fun kind_chars :: "json \<Rightarrow> char \<Rightarrow> bool" where
  "kind_chars JNull c = (c = CHR ''n'')"
| "kind_chars (JBool b) c = (if b then c = CHR ''t'' else c = CHR ''f'')"
| "kind_chars (JNum n) c = (c = CHR ''-'' \<or> 48 \<le> (of_char c :: nat) \<and> (of_char c :: nat) \<le> 57)"
| "kind_chars (JStr s) c = (c = CHR 0x22)"
| "kind_chars (JArr js) c = (c = CHR ''['')"
| "kind_chars (JObj kvs) c = (c = CHR 0x7B)"

lemma json_first: "\<exists>c cs. json_stringify v = c # cs \<and> kind_chars v c"
proof (cases v)
  case (JNum n)
  then show ?thesis using digits_of_nat_first [of "nat n"] by (auto simp: show_int_def)
qed (auto simp: quote_def)

fun json_kind :: "json \<Rightarrow> nat" where
  "json_kind JNull = 0"
| "json_kind (JBool b) = (if b then 1 else 2)"
| "json_kind (JNum n) = 3"
| "json_kind (JStr s) = 4"
| "json_kind (JArr js) = 5"
| "json_kind (JObj kvs) = 6"

lemma kind_chars_kind: "kind_chars a c \<Longrightarrow> kind_chars b c \<Longrightarrow> json_kind a = json_kind b"
  by (cases a; cases b) (auto split: if_splits)

lemma same_kind: "json_stringify a @ p = json_stringify b @ q \<Longrightarrow> json_kind a = json_kind b"
  using json_first [of a] json_first [of b] kind_chars_kind [of a _ b] by auto

definition separated :: "string list \<Rightarrow> char \<Rightarrow> string \<Rightarrow> string" where
  "separated ts close r = (if ts = [] then close # r else CHR '','' # join '','' ts @ close # r)"

lemma join_separated: "join '','' (t # ts) @ close # r = t @ separated ts close r"
  by (cases ts) (auto simp: separated_def)

lemma separated_Cons: "separated (t # ts) close r = CHR '','' # t @ separated ts close r"
  by (cases ts) (auto simp: separated_def)

text \<open>Lists of texts that are prefix codes before a separator: arrays and objects share it.\<close>

lemma separated_inj:
  assumes "close \<noteq> CHR '',''" and "close = CHR '']'' \<or> close = CHR 0x7D"
    and "\<And>x y p q. x \<in> set xs \<Longrightarrow> no_digit p \<Longrightarrow> no_digit q \<Longrightarrow> f x @ p = f y @ q \<Longrightarrow> x = y \<and> p = q"
    and "separated (map f xs) close r = separated (map f ys) close r'"
  shows "xs = ys \<and> r = r'"
  using assms(3,4)
proof (induction xs arbitrary: ys)
  case Nil
  then show ?case using assms(1) by (cases ys) (auto simp: separated_def split: if_splits)
next
  case (Cons x xs)
  show ?case
  proof (cases ys)
    case Nil
    with Cons.prems(2) assms(1) show ?thesis by (auto simp: separated_def)
  next
    case ys: (Cons y zs)
    have nd: "no_digit (separated ts close q)" for ts q
      using assms(2) by (auto simp: separated_def)
    from Cons.prems(2) have "f x @ separated (map f xs) close r = f y @ separated (map f zs) close r'"
      by (simp add: ys separated_Cons)
    from Cons.prems(1) [OF list.set_intros(1) nd nd this]
    have eq: "x = y" "separated (map f xs) close r = separated (map f zs) close r'" by simp_all
    have "xs = zs \<and> r = r'"
      by (rule Cons.IH [OF _ eq(2)]) (rule Cons.prems(1), simp_all)
    with eq(1) ys show ?thesis by simp
  qed
qed

lemma joined_inj:
  assumes "close = CHR '']'' \<or> close = CHR 0x7D"
    and "\<And>x y p q. x \<in> set xs \<Longrightarrow> no_digit p \<Longrightarrow> no_digit q \<Longrightarrow> f x @ p = f y @ q \<Longrightarrow> x = y \<and> p = q"
    and "\<And>x. \<exists>c cs. f x = c # cs \<and> c \<noteq> close"
    and "join '','' (map f xs) @ close # r = join '','' (map f ys) @ close # r'"
  shows "xs = ys \<and> r = r'"
proof (cases "xs = [] \<or> ys = []")
  case True
  have ne: "join '','' (map f (z # zs)) @ close # q \<noteq> close # q'" for z zs q q'
  proof -
    obtain c cs where "f z = c # cs" "c \<noteq> close" using assms(3) [of z] by blast
    then show ?thesis by (simp only: list.map join_separated append_Cons list.inject) simp
  qed
  have "xs = [] \<and> ys = []"
  proof (cases xs)
    case Nil
    with assms(4) ne [of "hd ys" "tl ys" r' r] show ?thesis by (cases ys) (simp_all del: list.map(2))
  next
    case (Cons z zs)
    with True assms(4) ne [of z zs r r'] show ?thesis by (simp del: list.map(2))
  qed
  with assms(4) show ?thesis by simp
next
  case False
  have comma: "separated (map f us) close q = CHR '','' # join '','' (map f us) @ close # q" if "us \<noteq> []" for us q
    using that by (simp add: separated_def)
  from assms(4) have "separated (map f xs) close r = separated (map f ys) close r'"
    using False by (simp add: comma)
  with separated_inj [of close xs f r ys r'] assms(1,2) show ?thesis by auto
qed

lemma json_stringify_prefix_inj:
  "no_digit p \<Longrightarrow> no_digit q \<Longrightarrow> json_stringify a @ p = json_stringify b @ q \<Longrightarrow> a = b \<and> p = q"
proof (induction a arbitrary: b p q)
  case (JNum n)
  then obtain m where "b = JNum m" using same_kind [of _ p b q] by (cases b) (fastforce split: if_splits)+
  with JNum show ?case using show_int_append_inj [of p q n m] by auto
next
  case (JStr s)
  then obtain t where "b = JStr t" using same_kind [of _ p b q] by (cases b) (fastforce split: if_splits)+
  with JStr show ?case using quote_inj [of s p t q] by auto
next
  case (JArr js)
  then obtain ks where b: "b = JArr ks" using same_kind [of _ p b q] by (cases b) (fastforce split: if_splits)+
  have "js = ks \<and> p = q"
  proof (rule joined_inj)
    show "join '','' (map json_stringify js) @ CHR '']'' # p = join '','' (map json_stringify ks) @ CHR '']'' # q"
      using JArr.prems(3) by (simp add: b)
    show "\<exists>c cs. json_stringify x = c # cs \<and> c \<noteq> CHR '']''" for x
      using json_first [of x] by (cases x) (auto split: if_splits)
  qed (use JArr.IH in auto)
  then show ?case by (simp add: b)
next
  case (JObj kvs)
  then obtain lws where b: "b = JObj lws" using same_kind [of _ p b q] by (cases b) (fastforce split: if_splits)+
  let ?f = "\<lambda>(k, v). quote k @ '':'' @ json_stringify v"
  have "kvs = lws \<and> p = q"
  proof (rule joined_inj)
    show "join '','' (map ?f kvs) @ CHR 0x7D # p = join '','' (map ?f lws) @ CHR 0x7D # q"
      using JObj.prems(3) by (simp add: b)
    show "\<exists>c cs. ?f x = c # cs \<and> c \<noteq> CHR 0x7D" for x
      by (cases x) (auto simp: quote_def)
    fix x y u w
    assume x: "x \<in> set kvs" "no_digit u" "no_digit w" "?f x @ u = ?f y @ w"
    obtain k v l z where xy: "x = (k, v)" "y = (l, z)" by (cases x; cases y) auto
    have "quote k @ CHR '':'' # json_stringify v @ u = quote l @ CHR '':'' # json_stringify z @ w"
      using x(4) by (simp add: xy)
    then have kl: "k = l" "json_stringify v @ u = json_stringify z @ w" by (auto dest: quote_inj)
    moreover have "v \<in> Basic_BNFs.snds x" by (simp add: xy)
    ultimately show "x = y \<and> u = w" using JObj.IH [OF x(1) _ x(2,3)] by (simp add: xy)
  qed simp
  then show ?case by (simp add: b)
next
  case JNull
  then show ?case using same_kind [of _ p b q] by (cases b) (fastforce split: if_splits)+
next
  case (JBool x)
  then show ?case using same_kind [of _ p b q] by (cases b) (fastforce split: if_splits)+
qed

lemma json_stringify_inj: "json_stringify a = json_stringify b \<longleftrightarrow> a = b"
  using json_stringify_prefix_inj [of "[]" "[]" a b] by auto

section \<open>Objects as maps\<close>

datatype jval = VNull | VBool bool | VNum int | VStr string | VArr "jval list" | VObj "string \<Rightarrow> jval option"

fun json_val :: "json \<Rightarrow> jval" where
  "json_val JNull = VNull"
| "json_val (JBool b) = VBool b"
| "json_val (JNum n) = VNum n"
| "json_val (JStr s) = VStr s"
| "json_val (JArr js) = VArr (map json_val js)"
| "json_val (JObj kvs) = VObj (map_of (map (\<lambda>(k, v). (k, json_val v)) kvs))"

fun json_ok :: "json \<Rightarrow> bool" where
  "json_ok (JArr js) \<longleftrightarrow> list_all json_ok js"
| "json_ok (JObj kvs) \<longleftrightarrow> distinct (map fst kvs) \<and> list_all (\<lambda>(_, v). json_ok v) kvs"
| "json_ok _ \<longleftrightarrow> True"

section \<open>Comparison by stable text\<close>

text \<open>
  A collator may find different strings equal (canonically equivalent ones, or some that differ in characters it
  ignores). What the order of the keys depends on is that it tells the keys of one object apart.
\<close>

definition told_apart :: "host \<Rightarrow> string list \<Rightarrow> bool" where
  "told_apart h ks \<longleftrightarrow>
     list_all (\<lambda>a. list_all (\<lambda>b. h_locale_compare h a b \<le> 0 \<and> h_locale_compare h b a \<le> 0 \<longrightarrow> a = b) ks) ks"

fun keys_apart :: "host \<Rightarrow> json \<Rightarrow> bool" where
  "keys_apart h (JArr js) \<longleftrightarrow> list_all (keys_apart h) js"
| "keys_apart h (JObj kvs) \<longleftrightarrow> told_apart h (map fst kvs) \<and> list_all (\<lambda>(_, v). keys_apart h v) kvs"
| "keys_apart h _ \<longleftrightarrow> True"

abbreviation key_compare :: "host \<Rightarrow> string \<times> 'a \<Rightarrow> string \<times> 'a \<Rightarrow> int" where
  "key_compare h l r \<equiv> h_locale_compare h (fst l) (fst r)"

lemma map_of_same_set:
  assumes "distinct (map fst xs)" "distinct (map fst ys)" "set xs = set ys"
  shows "map_of xs = map_of ys"
  using assms by (metis map_of_eq_Some_iff option.exhaust ext)

lemma distinct_fst_mset: "mset xs = mset ys \<Longrightarrow> distinct (map fst xs) = distinct (map fst ys)"
  by (metis mset_map mset_eq_imp_distinct_iff)

lemma sorted_unique:
  "told_apart h (map fst xs) \<Longrightarrow> sorted_wrt (\<lambda>a b. key_compare h a b \<le> 0) xs \<Longrightarrow> sorted_wrt (\<lambda>a b. key_compare h a b \<le> 0) ys \<Longrightarrow>
    distinct (map fst xs) \<Longrightarrow> distinct (map fst ys) \<Longrightarrow> set xs = set ys \<Longrightarrow> xs = ys"
proof (induction xs arbitrary: ys)
  case (Cons x xs)
  then obtain y zs where ys: "ys = y # zs" by (cases ys) auto
  have "x = y"
  proof (rule ccontr)
    assume ne: "x \<noteq> y"
    have y: "y \<in> set xs" "x \<in> set zs" using Cons.prems(6) ne by (auto simp: ys)
    then have "key_compare h x y \<le> 0" "key_compare h y x \<le> 0" using Cons.prems(2,3) by (auto simp: ys)
    then have "fst x = fst y" using Cons.prems(1) y(1) by (auto simp: told_apart_def list_all_iff)
    with \<open>y \<in> set xs\<close> Cons.prems(4) show False by (auto simp: image_iff)
  qed
  moreover have "set xs = set zs"
  proof -
    have "x \<notin> set xs" "y \<notin> set zs" using Cons.prems(4,5) by (auto simp: ys image_iff)
    with Cons.prems(6) \<open>x = y\<close> show ?thesis by (auto simp: ys)
  qed
  moreover have "told_apart h (map fst xs)" using Cons.prems(1) by (simp add: told_apart_def list_all_iff)
  ultimately show ?case using Cons.IH [of zs] Cons.prems by (simp add: ys)
qed simp

lemma sorted_keys: "consistent_compare (h_locale_compare h) \<Longrightarrow> sorted_wrt (\<lambda>a b. key_compare h a b \<le> 0) (js_sort (key_compare h) xs)"
  by (rule sorted_js_sort) (unfold consistent_compare_def, blast+)

lemma fst_pair_map: "map fst (map (\<lambda>(k, v). (k, f v)) xs) = map fst xs"
  by auto

lemma json_val_sort: "json_ok v \<Longrightarrow> json_val (sortForStableStringify h v) = json_val v"
proof (induction v)
  case (JArr js)
  then show ?case by (auto simp: list_all_iff)
next
  case (JObj kvs)
  let ?val = "\<lambda>kvs. map (\<lambda>(k, v). (k, json_val v)) kvs"
  let ?ps = "map (\<lambda>(k, v). (k, sortForStableStringify h v)) kvs"
  have val: "?val ?ps = ?val kvs"
    using JObj by (auto simp: list_all_iff)
  have d: "distinct (map fst kvs)" using JObj.prems by simp
  have m: "mset (?val (js_sort (key_compare h) ?ps)) = mset (?val kvs)"
    by (simp only: mset_map mset_js_sort flip: val)
  have "map_of (?val (js_sort (key_compare h) ?ps)) = map_of (?val kvs)"
  proof (rule map_of_same_set)
    show "distinct (map fst (?val kvs))" using d by (simp only: fst_pair_map)
    then show "distinct (map fst (?val (js_sort (key_compare h) ?ps)))" using distinct_fst_mset [OF m] by simp
    show "set (?val (js_sort (key_compare h) ?ps)) = set (?val kvs)" by (rule mset_eq_setD [OF m])
  qed
  then show ?case by simp
qed simp_all

lemma json_val_kind: "json_val a = json_val b \<Longrightarrow> json_kind a = json_kind b"
  by (cases a; cases b) (auto split: if_splits)

lemma sort_determined:
  assumes "consistent_compare (h_locale_compare h)"
  shows "keys_apart h a \<Longrightarrow> json_ok a \<Longrightarrow> json_ok b \<Longrightarrow> json_val a = json_val b \<Longrightarrow>
    sortForStableStringify h a = sortForStableStringify h b"
proof (induction a arbitrary: b)
  case (JArr js)
  then obtain ks where b: "b = JArr ks" using json_val_kind [of _ b] by (cases b) (fastforce split: if_splits)+
  have "map (sortForStableStringify h) js = map (sortForStableStringify h) ks"
  proof (rule nth_equalityI)
    have mv: "map json_val js = map json_val ks" using JArr.prems(4) by (simp add: b)
    then show l: "length (map (sortForStableStringify h) js) = length (map (sortForStableStringify h) ks)"
      by (metis length_map)
    fix i assume i: "i < length (map (sortForStableStringify h) js)"
    with l have "json_val (js ! i) = json_val (ks ! i)" using mv by (metis length_map nth_map)
    then show "map (sortForStableStringify h) js ! i = map (sortForStableStringify h) ks ! i"
      using JArr.IH [of "js ! i" "ks ! i"] JArr.prems(1-3) i l by (simp add: b list_all_iff)
  qed
  then show ?case by (simp add: b)
next
  case (JObj kvs)
  then obtain lws where b: "b = JObj lws" using json_val_kind [of _ b] by (cases b) (fastforce split: if_splits)+
  let ?s = "map (\<lambda>(k, v). (k, sortForStableStringify h v))"
  have d: "distinct (map fst kvs)" "distinct (map fst lws)" using JObj.prems(2,3) by (simp_all add: b)
  have mo: "map_of (map (\<lambda>(k, v). (k, json_val v)) kvs) = map_of (map (\<lambda>(k, v). (k, json_val v)) lws)"
    using JObj.prems(4) by (simp add: b)
  then have mv: "map_option json_val (map_of kvs k) = map_option json_val (map_of lws k)" for k
    by (metis map_of_map comp_apply)
  have same: "map_option (sortForStableStringify h) (map_of kvs k) = map_option (sortForStableStringify h) (map_of lws k)" for k
  proof (cases "map_of kvs k")
    case None
    with mv [of k] show ?thesis by (cases "map_of lws k") auto
  next
    case (Some v)
    with mv [of k] obtain w where w: "map_of lws k = Some w" "json_val v = json_val w"
      by (cases "map_of lws k") auto
    have in': "(k, v) \<in> set kvs" "(k, w) \<in> set lws" using Some w(1) by (auto dest: map_of_SomeD)
    then have ok: "json_ok v" "json_ok w" using JObj.prems(2,3) by (auto simp: b list_all_iff)
    have v: "v \<in> Basic_BNFs.snds (k, v)" by simp
    have "keys_apart h v" using JObj.prems(1) in'(1) by (auto simp: list_all_iff)
    from JObj.IH [OF in'(1) v this ok w(2)] show ?thesis by (simp add: Some w(1))
  qed
  have set_s: "set (?s xs) = {(k, u). map_option (sortForStableStringify h) (map_of xs k) = Some u}"
    if "distinct (map fst xs)" for xs
    using that by (auto simp: map_of_eq_Some_iff image_iff)
  have "set (?s kvs) = set (?s lws)" by (simp only: set_s [OF d(1)] set_s [OF d(2)] same)
  then have sets: "set (js_sort (key_compare h) (?s kvs)) = set (js_sort (key_compare h) (?s lws))" by simp
  have dist: "distinct (map fst (js_sort (key_compare h) (?s xs)))" if "distinct (map fst xs)" for xs
    using distinct_fst_mset [OF mset_js_sort, of "key_compare h" "?s xs"] that by (simp only: fst_pair_map)
  have "js_sort (key_compare h) (?s kvs) = js_sort (key_compare h) (?s lws)"
  proof (rule sorted_unique [OF _ sorted_keys [OF assms] sorted_keys [OF assms] dist [OF d(1)] dist [OF d(2)] sets])
    have "set (map fst (js_sort (key_compare h) (?s kvs))) = set (map fst kvs)" by force
    then show "told_apart h (map fst (js_sort (key_compare h) (?s kvs)))"
      using JObj.prems(1) unfolding told_apart_def list_all_iff keys_apart.simps by blast
  qed
  then show ?case by (simp add: b)
next
  case JNull
  then show ?case using json_val_kind [of _ b] by (cases b) (fastforce split: if_splits)+
next
  case (JBool x)
  then show ?case using json_val_kind [of _ b] by (cases b) (fastforce split: if_splits)+
next
  case (JNum x)
  then show ?case using json_val_kind [of _ b] by (cases b) (fastforce split: if_splits)+
next
  case (JStr x)
  then show ?case using json_val_kind [of _ b] by (cases b) (fastforce split: if_splits)+
qed

lemma stableStringify_sound:
  assumes "json_ok a" "json_ok b" "stableStringify h a = stableStringify h b"
  shows "json_val a = json_val b"
  using assms json_val_sort [OF assms(1), of h] json_val_sort [OF assms(2), of h]
  unfolding stableStringify_def json_stringify_inj by metis

lemma stableStringify_complete:
  assumes "consistent_compare (h_locale_compare h)" "keys_apart h a" "json_ok a" "json_ok b" "json_val a = json_val b"
  shows "stableStringify h a = stableStringify h b"
  using sort_determined [OF assms] by (simp add: stableStringify_def)

end
