(* ===== verification/ConfigClaims.thy ===== *)
theory ConfigClaims
  imports JsonText ConfigStores
begin

text \<open>
  What the configuration stores promise: paths can be read back, a patch is applied once, a rejected
  configuration leaves the last good one in force, and where a failure loses or damages a setting.
\<close>

section \<open>Paths\<close>

fun lookup :: "json option \<Rightarrow> string list \<Rightarrow> json option" where
  "lookup v [] = v"
| "lookup v (k # ks) = lookup (member v k) ks"

lemma member_obj [simp]: "member (Some (JObj m)) k = omap_get m k"
  by (simp add: member_def asRecord_def)

lemma member_other: "\<nexists>m. v = Some (JObj m) \<Longrightarrow> member v k = None"
  by (auto simp: member_def asRecord_def split: option.splits json.splits)

lemma lookup_None [simp]: "lookup None ks = None"
  by (induction ks) (simp_all add: member_other)

lemma lookup_empty_obj: "ks \<noteq> [] \<Longrightarrow> lookup (Some (JObj [])) ks = None"
  by (cases ks) simp_all

lemma lookup_other: "ks \<noteq> [] \<Longrightarrow> \<nexists>m. v = Some (JObj m) \<Longrightarrow> lookup v ks = None"
  by (cases ks) (simp_all add: member_other)

definition child_of :: "(string, json) omap \<Rightarrow> string \<Rightarrow> (string, json) omap" where
  "child_of m k = (case omap_get m k of Some (JObj c) \<Rightarrow> c | _ \<Rightarrow> [])"

lemma lookup_child: "q \<noteq> [] \<Longrightarrow> lookup (omap_get m k) q = lookup (Some (JObj (child_of m k))) q"
  by (auto simp: child_of_def lookup_empty_obj lookup_other split: option.splits json.splits)

definition diverge :: "string list \<Rightarrow> string list \<Rightarrow> bool" where
  "diverge p q \<longleftrightarrow> \<not> starts_with p q \<and> \<not> starts_with q p"

lemma diverge_Cons: "diverge (k # ks) q \<longleftrightarrow> (\<exists>l ls. q = l # ls \<and> (k = l \<longrightarrow> diverge ks ls))"
  by (cases q) (auto simp: diverge_def)

lemma diverge_Nil [simp]: "\<not> diverge [] q" "\<not> diverge q []"
  by (simp_all add: diverge_def)

definition safe_path :: "string list \<Rightarrow> bool" where
  "safe_path segs \<longleftrightarrow> segs \<noteq> [] \<and> (\<forall>k \<in> set segs. \<not> isDangerousKey k)"

lemma set_path_Cons:
  assumes "\<not> isDangerousKey k"
  shows "setOverlayPathValue throws m (k # ks) v =
    (if ks = [] then (None, omap_set k v m)
     else (fst (setOverlayPathValue throws (child_of m k) ks v),
           omap_set k (JObj (snd (setOverlayPathValue throws (child_of m k) ks v))) m))"
  using assms by (cases ks) (auto simp: child_of_def split: prod.splits)

lemma set_path:
  assumes "safe_path segs"
  shows "fst (setOverlayPathValue throws m segs v) = None \<and>
    lookup (Some (JObj (snd (setOverlayPathValue throws m segs v)))) segs = Some v \<and>
    (\<forall>q. diverge segs q \<longrightarrow>
       lookup (Some (JObj (snd (setOverlayPathValue throws m segs v)))) q = lookup (Some (JObj m)) q)"
  using assms
proof (induction segs arbitrary: m)
  case (Cons k ks)
  then have k: "\<not> isDangerousKey k" by (simp add: safe_path_def)
  show ?case
  proof (cases "ks = []")
    case True
    then show ?thesis using k by (auto simp: set_path_Cons diverge_Cons)
  next
    case False
    with Cons.prems have "safe_path ks" by (simp add: safe_path_def)
    have ch: "lookup (omap_get m k) ls = lookup (Some (JObj (child_of m k))) ls" if "diverge ks ls" for ls
      using that by (intro lookup_child) auto
    from Cons.IH [OF \<open>safe_path ks\<close>, of "child_of m k"] False k show ?thesis
      by (auto simp: set_path_Cons diverge_Cons ch)
  qed
qed (simp add: safe_path_def)

lemma remove_path_Cons:
  assumes "\<not> isDangerousKey k" "ks \<noteq> []"
  shows "removeOverlayPathValue throws m (k # ks) =
    (case omap_get m k of
       Some (JObj c) \<Rightarrow>
         (fst (removeOverlayPathValue throws c ks),
          if fst (removeOverlayPathValue throws c ks) = Inr True \<and> snd (removeOverlayPathValue throws c ks) = []
          then omap_delete k m else omap_set k (JObj (snd (removeOverlayPathValue throws c ks))) m)
     | _ \<Rightarrow> (Inr False, m))"
  using assms by (auto split: option.splits json.splits prod.splits)

lemma remove_path:
  assumes "safe_path segs"
  shows "fst (removeOverlayPathValue throws m segs) = Inr (lookup (Some (JObj m)) segs \<noteq> None) \<and>
    lookup (Some (JObj (snd (removeOverlayPathValue throws m segs)))) segs = None \<and>
    (\<forall>q. diverge segs q \<longrightarrow>
       lookup (Some (JObj (snd (removeOverlayPathValue throws m segs)))) q = lookup (Some (JObj m)) q)"
  using assms
proof (induction segs arbitrary: m)
  case (Cons k ks)
  then have k: "\<not> isDangerousKey k" by (simp add: safe_path_def)
  show ?case
  proof (cases "ks = []")
    case True
    then show ?thesis using k by (auto simp: diverge_Cons omap_has_get)
  next
    case ks: False
    with Cons.prems have safe: "safe_path ks" by (simp add: safe_path_def)
    show ?thesis
    proof (cases "\<exists>c. omap_get m k = Some (JObj c)")
      case True
      then obtain c where c: "omap_get m k = Some (JObj c)" by blast
      have frame: "lookup (Some (JObj c)) ls = None"
        if "diverge ks ls" "snd (removeOverlayPathValue throws c ks) = []" for ls
        using Cons.IH [OF safe, of c] that lookup_empty_obj by (metis diverge_Nil(2))
      show ?thesis
        using Cons.IH [OF safe, of c] k ks c frame lookup_empty_obj
        by (auto simp: remove_path_Cons diverge_Cons simp del: removeOverlayPathValue.simps)
    next
      case False
      then show ?thesis using k ks lookup_other [OF ks, of "omap_get m k"]
        by (auto simp: remove_path_Cons simp del: removeOverlayPathValue.simps split: option.splits json.splits)
    qed
  qed
qed (simp add: safe_path_def)

section \<open>Patches\<close>

definition merge_value :: "json option \<Rightarrow> json \<Rightarrow> json" where
  "merge_value base v = (case (base, v) of
     (Some (JObj b), JObj p) \<Rightarrow> JObj (mergeOverlayMaps b p) | _ \<Rightarrow> v)"

lemma merge_Cons:
  "mergeOverlayMaps m ((k, v) # rest) =
     (if isDangerousKey k then mergeOverlayMaps m rest
      else mergeOverlayMaps (omap_set k (merge_value (omap_get m k) v) m) rest)"
  by (simp add: merge_value_def)

lemma omap_set_same: "omap_get m k = Some v \<Longrightarrow> omap_set k v m = m"
  by (induction m) (auto simp: omap_get_def)

lemma omap_get_Cons: "omap_get ((k, v) # m) l = (if k = l then Some v else omap_get m l)"
  by (auto simp: omap_get_def)

lemma omap_get_notin: "k \<notin> fst ` set m \<Longrightarrow> omap_get m k = None"
  by (metis omap_get_SomeD fst_conv image_eqI not_None_eq)

lemma merge_get:
  "distinct (map fst p) \<Longrightarrow> omap_get (mergeOverlayMaps m p) k =
     (case (if isDangerousKey k then None else omap_get p k) of
        None \<Rightarrow> omap_get m k | Some v \<Rightarrow> Some (merge_value (omap_get m k) v))"
proof (induction p arbitrary: m)
  case (Cons kv p)
  obtain l v where kv: "kv = (l, v)" by (cases kv)
  with Cons.prems have "omap_get p l = None" by (auto intro!: omap_get_notin)
  with Cons show ?case
    by (auto simp: kv merge_Cons omap_get_Cons simp del: mergeOverlayMaps.simps(2) split: option.splits)
qed simp

lemma merge_same:
  assumes "\<And>k v. (k, v) \<in> set p \<Longrightarrow> \<not> isDangerousKey k \<Longrightarrow> \<exists>w. omap_get m k = Some w \<and> merge_value (Some w) v = w"
  shows "mergeOverlayMaps m p = m"
  using assms
proof (induction p)
  case (Cons kv p)
  obtain k v where kv: "kv = (k, v)" by (cases kv)
  have rest: "mergeOverlayMaps m p = m" using Cons.prems by (intro Cons.IH) simp
  show ?case
  proof (cases "isDangerousKey k")
    case False
    then obtain w where "omap_get m k = Some w" "merge_value (Some w) v = w" using Cons.prems [of k v] by (auto simp: kv)
    then show ?thesis using rest False by (simp add: kv merge_Cons omap_set_same del: mergeOverlayMaps.simps(2))
  qed (simp add: kv rest)
qed simp

lemma merge_value_again: "json_ok v \<Longrightarrow> merge_value (Some (merge_value b v)) v = merge_value b v"
proof (induction v arbitrary: b)
  case (JObj p)
  have d: "distinct (map fst p)" using JObj.prems by simp
  have IH: "merge_value (Some (merge_value c v)) v = merge_value c v" if "(k, v) \<in> set p" for k v c
    using that JObj.IH [OF that, of v c] JObj.prems by (auto simp: list_all_iff)
  have again: "mergeOverlayMaps (mergeOverlayMaps c p) p = mergeOverlayMaps c p" for c
  proof (rule merge_same)
    fix k v assume "(k, v) \<in> set p" "\<not> isDangerousKey k"
    then have "omap_get (mergeOverlayMaps c p) k = Some (merge_value (omap_get c k) v)"
      using d merge_get [OF d, of c k] by (simp add: omap_get_def)
    with IH [OF \<open>(k, v) \<in> set p\<close>] show "\<exists>w. omap_get (mergeOverlayMaps c p) k = Some w \<and> merge_value (Some w) v = w"
      by blast
  qed
  have self: "mergeOverlayMaps p p = p"
  proof (rule merge_same)
    fix k v assume kv: "(k, v) \<in> set p" "\<not> isDangerousKey k"
    then have "omap_get p k = Some v" using d by (simp add: omap_get_def)
    moreover have "merge_value (Some v) v = v" using IH [OF kv(1), of None] by (simp add: merge_value_def)
    ultimately show "\<exists>w. omap_get p k = Some w \<and> merge_value (Some w) v = w" by blast
  qed
  show ?case using again self by (auto simp: merge_value_def split: option.splits json.splits)
qed (auto simp: merge_value_def split: option.splits json.splits)

lemma merge_again:
  assumes "json_ok (JObj p)"
  shows "mergeOverlayMaps (mergeOverlayMaps m p) p = mergeOverlayMaps m p"
  using merge_value_again [OF assms, of "Some (JObj m)"] by (simp add: merge_value_def)

section \<open>Writing the overlay\<close>

definition quiet_store :: "'w overlay_env \<Rightarrow> bool" where
  "quiet_store e \<longleftrightarrow> ov_await e = (\<lambda>s. s)"

text \<open>What the code relies on of the file system: a rename moves the contents, and no other call touches the file.\<close>

definition file_laws :: "'w overlay_env \<Rightarrow> bool" where
  "file_laws e \<longleftrightarrow>
     (\<forall>d w. ov_readFile e (ov_path e) (snd (ov_mkdir e d w)) = ov_readFile e (ov_path e) w) \<and>
     (\<forall>p c w. p \<noteq> ov_path e \<longrightarrow> ov_readFile e (ov_path e) (snd (ov_writeFile e p c w)) = ov_readFile e (ov_path e) w) \<and>
     (\<forall>p c w. fst (ov_writeFile e p c w) = None \<longrightarrow> ov_readFile e p (snd (ov_writeFile e p c w)) = Inr c) \<and>
     (\<forall>p w. ov_readFile e (ov_path e) (snd (ov_rename e p (ov_path e) w)) =
        (if fst (ov_rename e p (ov_path e) w) = None then ov_readFile e p w else ov_readFile e (ov_path e) w))"

definition on_disk :: "'w overlay_env \<Rightarrow> 'w \<Rightarrow> overlay_error + string" where
  "on_disk e w = ov_readFile e (ov_path e) w"

lemma temporary_not_path: "temporary_path e s w \<noteq> ov_path e"
  by (simp add: temporary_path_def)

lemma persist_attempt_result:
  assumes "quiet_store e" "file_laws e" "persist_attempt e c (s, w) = (r, s', w')"
  shows "s' = s\<lparr>os_persistSequence := os_persistSequence s + 1\<rparr> \<and>
    on_disk e w' = (if r = None then Inr c else on_disk e w)"
proof -
  define tmp where "tmp = temporary_path e s w"
  have ne: "tmp \<noteq> ov_path e" by (simp add: tmp_def temporary_not_path)
  obtain r1 w1 where m: "ov_mkdir e (ov_dir e) w = (r1, w1)" by fastforce
  obtain r2 w2 where f: "ov_writeFile e tmp c w1 = (r2, w2)" by fastforce
  obtain r3 w3 where n: "ov_rename e tmp (ov_path e) w2 = (r3, w3)" by fastforce
  have w1: "on_disk e w1 = on_disk e w"
    using assms(2) m unfolding file_laws_def on_disk_def by (metis snd_conv)
  have w2: "on_disk e w2 = on_disk e w"
    using assms(2) f ne w1 unfolding file_laws_def on_disk_def by (metis snd_conv)
  have t2: "r2 = None \<Longrightarrow> ov_readFile e tmp w2 = Inr c"
    using assms(2) f unfolding file_laws_def by (metis fst_conv snd_conv)
  have w3: "on_disk e w3 = (if r3 = None then ov_readFile e tmp w2 else on_disk e w2)"
    using assms(2) n unfolding file_laws_def on_disk_def by (metis fst_conv snd_conv)
  have q: "ov_await e = (\<lambda>s. s)" using assms(1) by (simp add: quiet_store_def)
  show ?thesis
    using assms(3) m f n w1 w2 t2 w3
    by (auto simp: persist_attempt_def q tmp_def Let_def split: option.splits)
qed

definition commit_result ::
  "'w overlay_env \<Rightarrow> (string, json) omap \<Rightarrow> overlay_store \<times> 'w \<Rightarrow> (overlay_error + bool) \<Rightarrow> overlay_store \<times> 'w \<Rightarrow> bool" where
  "commit_result e m sw r sw' \<longleftrightarrow>
     (case r of
        Inr True \<Rightarrow> os_overlay (fst sw') = m \<and> on_disk e (snd sw') = Inr (ov_yaml e m) \<and>
          (\<forall>l \<in> set (os_listeners (fst sw)). OvNotified l \<in> set (drop (length (os_events (fst sw))) (os_events (fst sw'))))
      | Inr False \<Rightarrow> sw' = sw \<and> isDeepEqual e m (os_overlay (fst sw))
      | Inl _ \<Rightarrow> os_overlay (fst sw') = m \<and> on_disk e (snd sw') = on_disk e (snd sw) \<and>
          (\<forall>l. OvNotified l \<notin> set (drop (length (os_events (fst sw))) (os_events (fst sw')))))"

lemma persist_result:
  assumes "quiet_store e" "file_laws e" "persist e (s, w) = (r, s', w')"
  shows "os_overlay s' = os_overlay s \<and> os_listeners s' = os_listeners s \<and>
    on_disk e w' = (if r = None then Inr (ov_yaml e (os_overlay s)) else on_disk e w) \<and>
    (\<exists>logs. os_events s' = os_events s @ map (OvLogged ''warn'') logs)"
proof -
  let ?c = "ov_yaml e (os_overlay s)"
  obtain r1 s1 w1 where one: "persist_attempt e ?c (s, w) = (r1, s1, w1)" by (metis prod_cases3)
  from persist_attempt_result [OF assms(1,2) one]
  have s1: "s1 = s\<lparr>os_persistSequence := os_persistSequence s + 1\<rparr>"
    and d1: "on_disk e w1 = (if r1 = None then Inr ?c else on_disk e w)" by auto
  show ?thesis
  proof (cases "\<exists>err. r1 = Some err \<and> is_enoent err")
    case True
    let ?s = "log_overlay ''warn'' ''config overlay persist retrying after ENOENT'' s1"
    from True one assms(3) have two: "persist_attempt e ?c (?s, w1) = (r, s', w')" by (auto simp: persist_def)
    have "os_events s' = os_events s @ map (OvLogged ''warn'') [''config overlay persist retrying after ENOENT'']"
      using persist_attempt_result [OF assms(1,2) two] by (simp add: s1 log_overlay_def)
    with persist_attempt_result [OF assms(1,2) two] d1 True show ?thesis
      by (auto simp: s1 log_overlay_def simp del: list.map)
  next
    case False
    with one assms(3) have eq: "r = r1" "s' = s1" "w' = w1" by (auto simp: persist_def split: option.splits)
    have "os_events s1 = os_events s @ map (OvLogged ''warn'') []" by (simp add: s1)
    with d1 show ?thesis by (auto simp: eq s1 simp del: list.map)
  qed
qed

lemma commit_spec:
  assumes "quiet_store e" "file_laws e" "commit e m (s, w) = (r, sw')"
  shows "commit_result e m (s, w) r sw'"
proof (cases "isDeepEqual e m (os_overlay s)")
  case True
  with assms(3) show ?thesis by (auto simp: commit_def commit_result_def)
next
  case False
  obtain r1 s1 w1 where one: "persist e (s\<lparr>os_overlay := m\<rparr>, w) = (r1, s1, w1)" by (metis prod_cases3)
  from persist_result [OF assms(1,2) one] obtain logs where
    p: "os_overlay s1 = m" "os_listeners s1 = os_listeners s"
      "on_disk e w1 = (if r1 = None then Inr (ov_yaml e m) else on_disk e w)"
      "os_events s1 = os_events s @ map (OvLogged ''warn'') logs" by auto
  show ?thesis
  proof (cases r1)
    case None
    with one False assms(3) p show ?thesis
      by (auto simp: commit_def commit_result_def notify_overlay_def log_overlay_def)
  next
    case (Some err)
    with one False assms(3) p show ?thesis by (auto simp: commit_def commit_result_def)
  qed
qed

lemma commit_overlay:
  assumes "quiet_store e" "commit e m (s, w) = (r, s', w')"
  shows "os_overlay s' = (if r = Inr False then os_overlay s else m) \<and> (r = Inr False \<longrightarrow> isDeepEqual e m (os_overlay s))"
proof -
  have att: "os_overlay s1 = os_overlay s0" if "persist_attempt e c (s0, w0) = (r1, s1, w1)" for c s0 w0 r1 s1 w1
    using that assms(1)
    by (auto simp: persist_attempt_def quiet_store_def Let_def split: option.splits prod.splits)
  have per: "os_overlay s1 = os_overlay s0" if "persist e (s0, w0) = (r1, s1, w1)" for s0 w0 r1 s1 w1
    using that by (auto simp: persist_def Let_def log_overlay_def dest!: att split: option.splits prod.splits if_splits)
  show ?thesis
    using assms(2) per [of "s\<lparr>os_overlay := m\<rparr>" w]
    by (auto simp: commit_def notify_overlay_def log_overlay_def split: prod.splits option.splits if_splits)
qed

text \<open>
  A patch that was applied once is applied for good: the same patch again answers that nothing changed and
  touches neither the file nor the listeners. This includes a patch whose write failed: sending it again after
  the failure never writes it.
\<close>

theorem patch_sent_again:
  assumes "quiet_store e" "json_ok (JObj patch)" "applyPatch e patch (s, w) = (r, sw')"
  shows "applyPatch e patch sw' = (Inr False, sw')"
proof -
  let ?m = "mergeOverlayMaps (os_overlay s) patch"
  obtain s' w' where sw': "sw' = (s', w')" by (cases sw')
  have c: "commit e ?m (s, w) = (r, s', w')" using assms(3) by (simp add: applyPatch_def sw')
  from commit_overlay [OF assms(1) c]
  have "os_overlay s' = ?m \<or> (os_overlay s' = os_overlay s \<and> isDeepEqual e ?m (os_overlay s))"
    by (auto split: if_splits)
  then have "isDeepEqual e (mergeOverlayMaps (os_overlay s') patch) (os_overlay s')"
    using merge_again [OF assms(2), of "os_overlay s"] by (auto simp: isDeepEqual_def)
  then show ?thesis by (simp add: applyPatch_def commit_def sw')
qed

text \<open>A disk in memory: the files, and the calls of \<open>rename\<close> still to fail.\<close>

type_synonym mem_disk = "(string, string) omap \<times> nat"

definition sample_store_env :: "mem_disk overlay_env" where
  "sample_store_env = \<lparr>ov_host = example_host, ov_path = ''o'', ov_dir = ''d'', ov_pid = ''1'', ov_now = (\<lambda>w. 0),
     ov_mkdir = (\<lambda>d w. (None, w)),
     ov_writeFile = (\<lambda>p c w. (None, (omap_set p c (fst w), snd w))),
     ov_rename = (\<lambda>p q w.
       (case omap_get (fst w) p of
          None \<Rightarrow> (Some (IoError ''ENOENT'' ''''), w)
        | Some c \<Rightarrow> if snd w > 0 then (Some (IoError ''ENOSPC'' ''''), (fst w, snd w - 1))
                    else (None, (omap_set q c (fst w), 0)))),
     ov_readFile = (\<lambda>p w. case omap_get (fst w) p of None \<Rightarrow> Inl (IoError ''ENOENT'' '''') | Some c \<Rightarrow> Inr c),
     ov_yaml = (\<lambda>m. json_stringify (JObj m)),
     ov_yaml_parse = (\<lambda>t. if t = ''{}'' then Inr (JObj []) else Inr (JObj [(''tracker'', JObj [])])),
     ov_await = (\<lambda>s. s)\<rparr>"

definition sample_store :: overlay_store where
  "sample_store = \<lparr>os_overlay = [], os_listeners = [''config''], os_persistSequence = 0, os_events = []\<rparr>"

lemma sample_store_quiet: "quiet_store sample_store_env"
  by (simp add: quiet_store_def sample_store_env_def)

lemma sample_store_laws: "file_laws sample_store_env"
  by (auto simp: file_laws_def sample_store_env_def split: option.splits)

theorem patch_sent_again_witness:
  "fst (applyPatch sample_store_env [(''a'', JNum 1)] (sample_store, [], 1)) = Inl (IoError ''ENOSPC'' '''') \<and>
   fst (applyPatch sample_store_env [(''a'', JNum 1)]
     (snd (applyPatch sample_store_env [(''a'', JNum 1)] (sample_store, [], 1)))) = Inr False"
proof -
  obtain r sw' where a: "applyPatch sample_store_env [(''a'', JNum 1)] (sample_store, [], 1) = (r, sw')" by (metis surj_pair)
  have "fst (applyPatch sample_store_env [(''a'', JNum 1)] (sample_store, [], 1)) = Inl (IoError ''ENOSPC'' '''')"
    by code_simp
  moreover have "applyPatch sample_store_env [(''a'', JNum 1)] sw' = (Inr False, sw')"
    by (rule patch_sent_again [OF sample_store_quiet _ a]) simp
  ultimately show ?thesis unfolding a by simp
qed

text \<open>
  A patch ends in one of three ways. It succeeds: the file holds the text of the merged overlay and every
  listener was told. Nothing changed: neither the store nor the disk is touched. Or the write failed: the file is
  what it was and no listener was told, although the store already holds the merged overlay.
\<close>

theorem patch_outcomes:
  assumes "quiet_store e" "file_laws e" "applyPatch e patch (s, w) = (r, sw')"
  shows "commit_result e (mergeOverlayMaps (os_overlay s) patch) (s, w) r sw'"
  using commit_spec [OF assms(1,2)] assms(3) by (simp add: applyPatch_def)

theorem patch_outcomes_witness:
  "commit_result sample_store_env [(''a'', JNum 1)] (sample_store, [], 0)
     (fst (applyPatch sample_store_env [(''a'', JNum 1)] (sample_store, [], 0)))
     (snd (applyPatch sample_store_env [(''a'', JNum 1)] (sample_store, [], 0)))"
  using patch_outcomes [OF sample_store_quiet sample_store_laws, of "[(''a'', JNum 1)]" sample_store "([], 0)"]
  by (simp add: sample_store_def merge_Cons isDangerousKey_def merge_value_def del: mergeOverlayMaps.simps(2))

text \<open>
  C38: The store compares overlays by their stable text. Overlays that it takes for equal have equal values, the keys
  of objects in any order and numbers being integers. Equal values are taken for equal wherever the collator is
  consistent and tells the keys of each object apart.
\<close>

theorem deep_equality_exact:
  assumes "json_ok (JObj a)" "json_ok (JObj b)"
  shows "(isDeepEqual e a b \<longrightarrow> json_val (JObj a) = json_val (JObj b)) \<and>
    (json_val (JObj a) = json_val (JObj b) \<and> consistent_compare (h_locale_compare (ov_host e)) \<and>
       keys_apart (ov_host e) (JObj a) \<longrightarrow> isDeepEqual e a b)"
  unfolding isDeepEqual_def
  using stableStringify_sound [OF assms] stableStringify_complete [OF _ _ assms] by blast

text \<open>Keys that the collator does not tell apart keep the order they came in, so the same values differ in their texts.\<close>

lemma tied_keys_differ:
  assumes "h_locale_compare (ov_host e) = (\<lambda>_ _. 0)"
  shows "\<not> isDeepEqual e [(''a'', JNull), (''b'', JNull)] [(''b'', JNull), (''a'', JNull)] \<and>
    json_val (JObj [(''a'', JNull), (''b'', JNull)]) = json_val (JObj [(''b'', JNull), (''a'', JNull)])"
proof
  show "\<not> isDeepEqual e [(''a'', JNull), (''b'', JNull)] [(''b'', JNull), (''a'', JNull)]"
    unfolding isDeepEqual_def stableStringify_def json_stringify_inj
    by (simp add: assms)
  show "json_val (JObj [(''a'', JNull), (''b'', JNull)]) = json_val (JObj [(''b'', JNull), (''a'', JNull)])"
    by (auto simp: fun_eq_iff)
qed

fun lex_compare :: "string \<Rightarrow> string \<Rightarrow> int" where
  "lex_compare [] [] = 0"
| "lex_compare [] (_ # _) = - 1"
| "lex_compare (_ # _) [] = 1"
| "lex_compare (a # as) (b # bs) =
     (if a = b then lex_compare as bs else if (of_char a :: nat) < of_char b then - 1 else 1)"

definition lex_host :: host where
  "lex_host = example_host\<lparr>h_locale_compare := lex_compare\<rparr>"

lemma lex_compare_flip: "lex_compare b a = - lex_compare a b"
proof (induction a b rule: lex_compare.induct)
  case (4 a as b bs)
  have "(of_char a :: nat) \<noteq> of_char b" if "a \<noteq> b" using that by simp
  with 4 show ?case by auto
qed simp_all

lemma lex_compare_eq: "lex_compare a b = 0 \<longleftrightarrow> a = b"
  by (induction a b rule: lex_compare.induct) auto

lemma lex_compare_trans: "lex_compare a b \<le> 0 \<Longrightarrow> lex_compare b c \<le> 0 \<Longrightarrow> lex_compare a c \<le> 0"
proof (induction a b arbitrary: c rule: lex_compare.induct)
  case (2 b bs)
  then show ?case by (cases c) auto
next
  case (4 a as b bs)
  then show ?case by (cases c) (auto split: if_splits)
qed auto

lemma lex_host_consistent: "consistent_compare (h_locale_compare lex_host)"
  unfolding consistent_compare_def
proof (intro conjI allI impI)
  have h: "h_locale_compare lex_host = lex_compare" by (simp add: lex_host_def example_host_def)
  show "h_locale_compare lex_host b a \<le> 0" if "0 < h_locale_compare lex_host a b" for a b
    using that lex_compare_flip [of b a] unfolding h by linarith
  show "h_locale_compare lex_host a c \<le> 0" if "h_locale_compare lex_host a b \<le> 0" "h_locale_compare lex_host b c \<le> 0" for a b c
    using that unfolding h by (rule lex_compare_trans)
qed

theorem deep_equality_exact_witness:
  "isDeepEqual (sample_store_env\<lparr>ov_host := lex_host\<rparr>) [(''a'', JNum 1), (''b'', JNull)] [(''b'', JNull), (''a'', JNum 1)]"
proof -
  have ok: "json_ok (JObj [(''a'', JNum 1), (''b'', JNull)])" "json_ok (JObj [(''b'', JNull), (''a'', JNum 1)])" by simp_all
  have "json_val (JObj [(''a'', JNum 1), (''b'', JNull)]) = json_val (JObj [(''b'', JNull), (''a'', JNum 1)])"
    by (auto simp: fun_eq_iff)
  moreover have "keys_apart lex_host (JObj [(''a'', JNum 1), (''b'', JNull)])"
    by (simp add: told_apart_def lex_host_def)
  ultimately show ?thesis
    using deep_equality_exact [OF ok, of "sample_store_env\<lparr>ov_host := lex_host\<rparr>"] lex_host_consistent by simp
qed

section \<open>Rejected configurations\<close>

lemma isDeepEqual_empty: "isDeepEqual e [] m \<longleftrightarrow> m = []"
proof
  assume "isDeepEqual e [] m"
  then have "js_sort (key_compare (ov_host e)) (map (\<lambda>(k, v). (k, sortForStableStringify (ov_host e) v)) m) = []"
    unfolding isDeepEqual_def stableStringify_def json_stringify_inj by simp
  then show "m = []" by (metis length_0_conv length_js_sort length_map)
qed (simp add: isDeepEqual_def)

definition fresh_store :: overlay_store where
  "fresh_store = \<lparr>os_overlay = [], os_listeners = [], os_persistSequence = 0, os_events = []\<rparr>"

definition fresh_config :: "'c config_store" where
  "fresh_config = \<lparr>cs_config = None, cs_mergedConfigMap = [], cs_listeners = [], cs_subscribed = False, cs_events = []\<rparr>"

lemma reload_reads_disk:
  assumes "on_disk e w = Inr c" "ov_yaml_parse e c = Inr (JObj m)"
  shows "os_overlay (reloadFromDisk e (fresh_store, w)) = m"
  using assms isDeepEqual_empty [of e m]
  by (auto simp: reloadFromDisk_def on_disk_def fresh_store_def notify_overlay_def log_overlay_def)

lemma refresh_rejected:
  assumes "refresh_inputs ce wf' m = Inl err"
  shows "cs_config cs = Some c \<Longrightarrow> cs_config (snd (refresh_config ce wf' m cs)) = Some c \<and>
      cs_mergedConfigMap (snd (refresh_config ce wf' m cs)) = cs_mergedConfigMap cs \<and>
      fst (refresh_config ce wf' m cs) = None"
    and "start_config ce wf' m fresh_config = (Some err, fresh_config)"
  using assms by (simp_all add: refresh_config_def start_config_def fresh_config_def)

text \<open>
  C37: A patch the HTTP route answers with success can stop the next start of the service. When the merged
  configuration cannot be derived (a host that is not allowed, say), the running service keeps its last good
  configuration; but the overlay is already in the file, and after a restart the same derivation fails with no
  configuration to fall back to.
\<close>

theorem accepted_patch_stops_restart:
  assumes "quiet_store e" "file_laws e"
    and "put_overlay e body (s, w) = (RUpdated True m, s1, w1)"
    and "ov_yaml_parse e (ov_yaml e m) = Inr (JObj m)"
    and "refresh_inputs ce wf' m = Inl err" and "cs_config cs = Some c"
  shows "cs_config (snd (refresh_config ce wf' (os_overlay s1) cs)) = Some c \<and>
    start_config ce wf' (os_overlay (reloadFromDisk e (fresh_store, w1))) fresh_config = (Some err, fresh_config)"
proof -
  have m: "m = os_overlay s1" and put: "\<exists>patch. applyPatch e patch (s, w) = (Inr True, s1, w1)"
    using assms(3)
    by (auto simp: put_overlay_def split: option.splits json.splits sum.splits prod.splits)
  from put obtain patch where p: "commit e (mergeOverlayMaps (os_overlay s) patch) (s, w) = (Inr True, s1, w1)"
    by (auto simp: applyPatch_def)
  from commit_spec [OF assms(1,2) p] have "on_disk e w1 = Inr (ov_yaml e m)"
    by (simp add: commit_result_def m)
  then have disk: "os_overlay (reloadFromDisk e (fresh_store, w1)) = m"
    using assms(4) by (rule reload_reads_disk)
  show ?thesis
    using refresh_rejected [OF assms(5)] assms(6) unfolding disk m [symmetric] by blast
qed

definition sample_config_env :: "string config_env" where
  "sample_config_env = \<lparr>ce_derive = (\<lambda>m. if omap_has m ''tracker'' then Inl (TypeError ''tracker.endpoint must use https.'') else Inr ''ok''),
     ce_warnings = (\<lambda>_. [])\<rparr>"

theorem accepted_patch_stops_restart_witness:
  "fst (put_overlay sample_store_env (Some (JObj [(''tracker'', JObj [])])) (sample_store, [], 0)) = RUpdated True [(''tracker'', JObj [])] \<and>
   fst (start_config sample_config_env (Inr [])
     (os_overlay (reloadFromDisk sample_store_env
        (fresh_store, snd (snd (put_overlay sample_store_env (Some (JObj [(''tracker'', JObj [])])) (sample_store, [], 0))))))
     fresh_config) = Some (TypeError ''tracker.endpoint must use https.'')"
proof -
  define sw where "sw = snd (put_overlay sample_store_env (Some (JObj [(''tracker'', JObj [])])) (sample_store, [], 0))"
  have "fst (put_overlay sample_store_env (Some (JObj [(''tracker'', JObj [])])) (sample_store, [], 0)) = RUpdated True [(''tracker'', JObj [])]"
    by code_simp
  then have put: "put_overlay sample_store_env (Some (JObj [(''tracker'', JObj [])])) (sample_store, [], 0) =
      (RUpdated True [(''tracker'', JObj [])], fst sw, snd sw)"
    by (simp add: sw_def prod_eq_iff)
  have y: "ov_yaml_parse sample_store_env (ov_yaml sample_store_env [(''tracker'', JObj [])]) = Inr (JObj [(''tracker'', JObj [])])"
    by (simp add: sample_store_env_def quote_def)
  have r: "refresh_inputs sample_config_env (Inr []) [(''tracker'', JObj [])] = Inl (TypeError ''tracker.endpoint must use https.'')"
    by (simp add: refresh_inputs_def sample_config_env_def merged_config_def asRecord_def assign_key_def omap_has_get omap_get_def)
  have c: "cs_config ((fresh_config :: string config_store)\<lparr>cs_config := Some ''ok''\<rparr>) = Some ''ok''" by simp
  from accepted_patch_stops_restart [OF sample_store_quiet sample_store_laws put y r c] put
  show ?thesis by (simp only: sw_def [symmetric] fst_conv snd_conv)
qed

text \<open>
  A PUT body in the form \<open>{path, value}\<close>, which the route itself lists as an example, does not set the path:
  it is taken for a patch with the two keys \<open>path\<close> and \<open>value\<close>, and every other setting stays as it was.
\<close>

theorem put_example_sets_nothing:
  assumes "quiet_store e"
    and "put_overlay e (Some (JObj [(''path'', JStr p), (''value'', v)])) (s, w) = (r, s1, w1)"
  shows "\<forall>k ks. k \<noteq> ''path'' \<and> k \<noteq> ''value'' \<longrightarrow>
    lookup (Some (JObj (os_overlay s1))) (k # ks) = lookup (Some (JObj (os_overlay s))) (k # ks)"
proof -
  let ?b = "[(''path'', JStr p), (''value'', v)]"
  obtain r1 where c: "commit e (mergeOverlayMaps (os_overlay s) ?b) (s, w) = (r1, s1, w1)"
    using assms(2)
    by (auto simp: put_overlay_def applyPatch_def omap_get_Cons simp del: mergeOverlayMaps.simps split: sum.splits prod.splits)
  have "omap_get (mergeOverlayMaps (os_overlay s) ?b) k = omap_get (os_overlay s) k"
    if "k \<noteq> ''path''" "k \<noteq> ''value''" for k
    using that by (simp add: merge_get omap_get_Cons)
  with commit_overlay [OF assms(1) c] show ?thesis by (auto split: if_splits)
qed

theorem put_example_sets_nothing_witness:
  "lookup (Some (JObj (os_overlay (fst (snd
     (put_overlay sample_store_env (Some (JObj [(''path'', JStr ''codex.model''), (''value'', JStr ''m'')])) (sample_store, [], 0)))))))
     [''codex'', ''model''] = None"
proof -
  obtain r s1 w1 where p: "put_overlay sample_store_env (Some (JObj [(''path'', JStr ''codex.model''), (''value'', JStr ''m'')]))
      (sample_store, [], 0) = (r, s1, w1)" by (metis prod_cases3)
  from put_example_sets_nothing [OF sample_store_quiet p]
  have "lookup (Some (JObj (os_overlay s1))) [''codex'', ''model''] = lookup (Some (JObj (os_overlay sample_store))) [''codex'', ''model'']"
    by (simp del: lookup.simps)
  also have "\<dots> = None" by (simp add: sample_store_def member_other)
  finally show ?thesis unfolding p fst_conv snd_conv .
qed

section \<open>The database store\<close>

lemma fold_assign_get:
  assumes "distinct (map fst rows)" "''__proto__'' \<notin> fst ` set rows"
  shows "omap_get (fold (\<lambda>(key, v) m. assign_key key (g v) m) rows m0) k =
    (case omap_get rows k of None \<Rightarrow> omap_get m0 k | Some v \<Rightarrow> Some (g v))"
  using assms
proof (induction rows arbitrary: m0)
  case (Cons kv rows)
  obtain l v where kv: "kv = (l, v)" by (cases kv)
  with Cons.prems have "omap_get rows l = None" "l \<noteq> ''__proto__''" by (auto intro!: omap_get_notin)
  with Cons show ?case by (auto simp: kv assign_key_def omap_get_Cons split: option.splits)
qed simp

lemma fold_upsert_get:
  "distinct (map fst m) \<Longrightarrow>
   omap_get (fold (\<lambda>(key, v) rows. if isDangerousKey key then rows else omap_set key (f v) rows) m rows) k =
     (case (if isDangerousKey k then None else omap_get m k) of
        None \<Rightarrow> omap_get rows k | Some v \<Rightarrow> Some (f v))"
proof (induction m arbitrary: rows)
  case (Cons kv m)
  obtain l v where kv: "kv = (l, v)" by (cases kv)
  with Cons.prems have "omap_get m l = None" by (auto intro!: omap_get_notin)
  with Cons show ?case by (auto simp: kv omap_get_Cons split: option.splits)
qed simp

lemma fold_upsert_ok:
  "omap_ok rows \<Longrightarrow> omap_ok (fold (\<lambda>(key, v) rows. if isDangerousKey key then rows else omap_set key (f v) rows) m rows)"
  by (induction m arbitrary: rows) auto

lemma omap_get_filter_keys:
  "omap_get (filter (\<lambda>(key, _). key \<in> K) m) k = (if k \<in> K then omap_get m k else None)"
  by (induction m) (auto simp: omap_get_def)

lemma written_get:
  assumes "distinct (map fst m)"
  shows "omap_get (tb_config (writeSections m t)) k =
    (if isDangerousKey k then None else map_option json_stringify (omap_get m k))"
proof -
  let ?up = "fold (\<lambda>(key, v) rows. if isDangerousKey key then rows else omap_set key (json_stringify v) rows) m (tb_config t)"
  have "tb_config (writeSections m t) = filter (\<lambda>(key, _). key \<in> set (section_keys m)) ?up"
    by (simp add: writeSections_def Let_def)
  then have "omap_get (tb_config (writeSections m t)) k = (if k \<in> set (section_keys m) then omap_get ?up k else None)"
    by (simp only: omap_get_filter_keys)
  then show ?thesis
    using omap_keys_get [of k m] by (auto simp: fold_upsert_get [OF assms] section_keys_def)
qed

lemma written_ok: "omap_ok (tb_config t) \<Longrightarrow> omap_ok (tb_config (writeSections m t))"
  using fold_upsert_ok [of "tb_config t" json_stringify m]
  by (simp add: writeSections_def Let_def omap_ok_def omap_keys_def distinct_map_filter)

text \<open>
  What the database store writes, it reads back: every section under a permitted key with its value, and no
  row of a section that is gone.
\<close>

theorem sections_roundtrip:
  assumes "distinct (map fst m)" "omap_ok (tb_config t)"
    and "\<forall>(k, v) \<in> set m. h_json_parse h (json_stringify v) = Some v"
  shows "omap_get (readConfigMap h (writeSections m t)) k = (if isDangerousKey k then None else omap_get m k)"
proof -
  let ?rows = "tb_config (writeSections m t)"
  have d: "distinct (map fst ?rows)" using written_ok [OF assms(2)] by (simp add: omap_ok_def omap_keys_def)
  have "omap_get ?rows ''__proto__'' = None" by (simp add: written_get [OF assms(1)] isDangerousKey_def)
  then have "''__proto__'' \<notin> fst ` set ?rows"
    using omap_keys_get [of "''__proto__''" ?rows] by (simp add: omap_keys_def)
  from fold_assign_get [OF d this, of "\<lambda>v. case h_json_parse h v of Some j \<Rightarrow> j | None \<Rightarrow> JObj []" "[]" k]
  have r: "omap_get (readConfigMap h (writeSections m t)) k =
      (case omap_get ?rows k of None \<Rightarrow> None | Some v \<Rightarrow> Some (case h_json_parse h v of Some j \<Rightarrow> j | None \<Rightarrow> JObj []))"
    by (simp only: readConfigMap_def omap_get_empty)
  show ?thesis
  proof (cases "omap_get m k")
    case None
    then show ?thesis by (simp add: r written_get [OF assms(1)])
  next
    case (Some v)
    then have "h_json_parse h (json_stringify v) = Some v" using assms(3) omap_get_SomeD [of m k v] by auto
    with Some show ?thesis by (simp add: r written_get [OF assms(1)])
  qed
qed

definition sample_db_host :: host where
  "sample_db_host = example_host\<lparr>h_json_parse := (\<lambda>t. if t = ''{}'' then Some (JObj []) else Some (JNum 7))\<rparr>"

theorem sections_roundtrip_witness:
  "omap_get (readConfigMap sample_db_host
     (writeSections [(''a'', JNum 7)] \<lparr>tb_config = [(''b'', ''{}'')], tb_templates = []\<rparr>)) ''a'' = Some (JNum 7) \<and>
   omap_get (readConfigMap sample_db_host
     (writeSections [(''a'', JNum 7)] \<lparr>tb_config = [(''b'', ''{}'')], tb_templates = []\<rparr>)) ''b'' = None"
proof -
  have p: "\<forall>(k, v) \<in> set [(''a'', JNum 7)]. h_json_parse sample_db_host (json_stringify v) = Some v"
    using digits_of_nat_chars [of "CHR 0x7B" 7] by (auto simp: sample_db_host_def show_int_def)
  have o: "omap_ok (tb_config \<lparr>tb_config = [(''b'', ''{}'')], tb_templates = []\<rparr>)"
    by (simp add: omap_ok_def omap_keys_def)
  show ?thesis
    using sections_roundtrip [OF _ o p, of "''a''"] sections_roundtrip [OF _ o p, of "''b''"]
    by (simp add: isDangerousKey_def omap_get_Cons)
qed

text \<open>
  The database store writes before it derives. When the derivation refuses the new sections the call throws
  and the store in memory is what it was, but the table holds the refused sections, and every later refresh of
  the table fails with the same error.
\<close>

theorem refused_sections_stay:
  assumes "applyPatch_db e patch (t, s) = (Inl err, t', s')"
  shows "s' = s \<and> t' = writeSections (mergeOverlayMaps (ds_map s) patch) t \<and> fst (refresh_db e t' s0) = Some err"
proof -
  let ?t = "writeSections (mergeOverlayMaps (ds_map s) patch) t"
  obtain r s1 where f: "refresh_db e ?t s = (r, s1)" by (metis surj_pair)
  with assms have "r = Some err" "t' = ?t" "s' = s1"
    by (auto simp: applyPatch_db_def store_sections_def Let_def split: if_splits option.splits)
  moreover have "s1 = s" "fst (refresh_db e ?t s0) = Some err" if "r = Some err"
    using f that by (auto simp: refresh_db_def Let_def split: sum.splits)
  ultimately show ?thesis by blast
qed

theorem refused_sections_stay_witness:
  "fst (refresh_db \<lparr>db_host = sample_db_host, db_derive = (\<lambda>m. Inl (TypeError ''host'') :: overlay_error + unit)\<rparr>
     (writeSections [(''a'', JNum 7)] \<lparr>tb_config = [], tb_templates = []\<rparr>)
     \<lparr>ds_map = [], ds_config = None, ds_workflow = None, ds_listeners = [], ds_events = []\<rparr>) = Some (TypeError ''host'')"
proof -
  let ?e = "\<lparr>db_host = sample_db_host, db_derive = (\<lambda>m. Inl (TypeError ''host'') :: overlay_error + unit)\<rparr>"
  let ?t = "\<lparr>tb_config = [], tb_templates = []\<rparr>"
  let ?s = "\<lparr>ds_map = [], ds_config = None, ds_workflow = None, ds_listeners = [], ds_events = []\<rparr> :: unit db_store"
  let ?m = "mergeOverlayMaps (ds_map ?s) [(''a'', JNum 7)]"
  have m: "?m = [(''a'', JNum 7)]" by (simp add: isDangerousKey_def)
  have sys: "omap_get (tb_config (writeSections ?m ?t)) ''system'' = None"
    by (subst written_get) (simp_all add: m omap_get_Cons isDangerousKey_def)
  have "stableStringify (db_host ?e) (JObj ?m) \<noteq> stableStringify (db_host ?e) (JObj (ds_map ?s))"
    unfolding m stableStringify_def json_stringify_inj by simp
  then have "applyPatch_db ?e [(''a'', JNum 7)] (?t, ?s) = (Inl (TypeError ''host''), writeSections ?m ?t, ?s)"
    using sys by (simp add: applyPatch_db_def store_sections_def refresh_db_def readActiveTemplate_def del: mergeOverlayMaps.simps)
  from refused_sections_stay [OF this, of ?s] show ?thesis by (simp only: m)
qed

text \<open>
  Setting a path with a forbidden key in it is meant to be ignored by the database store. It is not: the
  value above the forbidden key, when it is not an object, has been replaced by an empty object before the
  forbidden key is seen, and this is written back.
\<close>

theorem ignored_set_replaces_value:
  assumes "\<not> isDangerousKey k" "isDangerousKey d" "omap_get m k = Some v" "\<nexists>c. v = JObj c"
  shows "setOverlayPathValue False m (k # d # ks) x = (None, omap_set k (JObj []) m)"
  using assms by (cases ks) (auto simp: refusal_def split: json.splits)

theorem ignored_set_replaces_value_witness:
  "setOverlayPathValue False [(''port'', JNum 4000)] [''port'', ''constructor'', ''x''] (JNum 1) = (None, [(''port'', JObj [])])"
  using ignored_set_replaces_value [of "''port''" "''constructor''" "[(''port'', JNum 4000)]" "JNum 4000" "[''x'']" "JNum 1"]
  by (simp add: isDangerousKey_def omap_get_Cons)

section \<open>Paths in the store\<close>

text \<open>
  C33: A value set at a path is found there, and no setting off that path changes; a path that was removed is gone,
  the answer says whether it was there, and no setting off that path changes, although objects that became empty
  are pruned.
\<close>

theorem path_operations:
  assumes "safe_path segs"
  shows "(\<exists>m'. setOverlayPathValue throws m segs v = (None, m') \<and> lookup (Some (JObj m')) segs = Some v \<and>
      (\<forall>q. diverge segs q \<longrightarrow> lookup (Some (JObj m')) q = lookup (Some (JObj m)) q)) \<and>
    (\<exists>m'. removeOverlayPathValue throws m segs = (Inr (lookup (Some (JObj m)) segs \<noteq> None), m') \<and>
      lookup (Some (JObj m')) segs = None \<and>
      (\<forall>q. diverge segs q \<longrightarrow> lookup (Some (JObj m')) q = lookup (Some (JObj m)) q))"
  using set_path [OF assms, of throws m v] remove_path [OF assms, of throws m]
  by (intro conjI; metis prod.collapse)

theorem path_operations_witness:
  "\<exists>m'. removeOverlayPathValue True [(''a'', JObj [(''b'', JNum 1)]), (''c'', JNum 2)] [''a'', ''b''] = (Inr True, m') \<and>
     lookup (Some (JObj m')) [''c''] = Some (JNum 2)"
proof -
  have s: "safe_path [''a'', ''b'']" by (simp add: safe_path_def isDangerousKey_def)
  have d: "diverge [''a'', ''b''] [''c'']" by (simp add: diverge_def)
  from path_operations [OF s, of True "[(''a'', JObj [(''b'', JNum 1)]), (''c'', JNum 2)]" JNull] d
  show ?thesis by (auto simp: omap_get_Cons simp del: removeOverlayPathValue.simps setOverlayPathValue.simps)
qed

end
