(* ===== verification/ConfigValues.thy ===== *)
theory ConfigValues
  imports ConfigOverlay Notifications
begin

text \<open>
  Reading configuration values: \<open>src/src/config/coercion.ts\<close>, \<open>resolvers.ts\<close> and \<open>url-policy.ts\<close>. The environment of
  the process, the secrets, the file paths of the platform, the URL parser and \<open>Number(string)\<close> are fields of
  \<open>derive_env\<close>; a replacement text with a \<open>$\<close> pattern in it is not modelled.
\<close>

record derive_env =
  dv_env :: "string \<Rightarrow> string option"
  dv_secret :: "(string \<Rightarrow> string option) option"
  dv_tmpdir :: string
  dv_path_join :: "string \<Rightarrow> string \<Rightarrow> string"
  dv_path_resolve :: "string \<Rightarrow> string"
  dv_url :: "string \<Rightarrow> (string \<times> string) option"
  dv_number :: "string \<Rightarrow> int option"

section \<open>coercion.ts\<close>

definition asStringOr :: "json option \<Rightarrow> string \<Rightarrow> string" where
  "asStringOr v fallback = (case v of Some (JStr s) \<Rightarrow> s | _ \<Rightarrow> fallback)"

definition asNumberOr :: "json option \<Rightarrow> int \<Rightarrow> int" where
  "asNumberOr v fallback = (case v of Some (JNum n) \<Rightarrow> n | _ \<Rightarrow> fallback)"

definition asBooleanOr :: "json option \<Rightarrow> bool \<Rightarrow> bool" where
  "asBooleanOr v fallback = (case v of Some (JBool b) \<Rightarrow> b | _ \<Rightarrow> fallback)"

definition asStringMap :: "json option \<Rightarrow> (string, string) omap" where
  "asStringMap v = List.map_filter (\<lambda>(k, x). case x of JStr s \<Rightarrow> Some (k, s) | _ \<Rightarrow> None) (asRecord v)"

definition asNumberMap :: "json option \<Rightarrow> (string, int) omap" where
  "asNumberMap v = List.map_filter (\<lambda>(k, x). case x of JNum n \<Rightarrow> Some (k, n) | _ \<Rightarrow> None) (asRecord v)"

definition array_items :: "json option \<Rightarrow> json list" where
  "array_items v = (case v of Some (JArr js) \<Rightarrow> js | _ \<Rightarrow> [])"

definition asLooseStringArray :: "json option \<Rightarrow> string list" where
  "asLooseStringArray v = List.map_filter (\<lambda>x. asString (Some x)) (array_items v)"

definition asStringArrayOr :: "json option \<Rightarrow> string list \<Rightarrow> string list" where
  "asStringArrayOr v fallback =
     (let values = filter (\<lambda>s. js_trim s \<noteq> []) (asLooseStringArray v)
      in if values \<noteq> [] then values else fallback)"

definition asRecordArray :: "json option \<Rightarrow> (string, json) omap list" where
  "asRecordArray v = List.map_filter (\<lambda>x. case x of JObj fs \<Rightarrow> Some fs | _ \<Rightarrow> None) (array_items v)"

section \<open>resolvers.ts\<close>

definition word_start :: "char \<Rightarrow> bool" where
  "word_start c \<longleftrightarrow> (let n = of_char c :: nat in 65 \<le> n \<and> n \<le> 90 \<or> 97 \<le> n \<and> n \<le> 122 \<or> n = 95)"

definition word_char :: "char \<Rightarrow> bool" where
  "word_char c \<longleftrightarrow> word_start c \<or> (let n = of_char c :: nat in 48 \<le> n \<and> n \<le> 57)"

definition secret_value :: "derive_env \<Rightarrow> string \<Rightarrow> string option" where
  "secret_value e name = (case dv_secret e of None \<Rightarrow> None | Some f \<Rightarrow> f name)"

definition is_secret_reference :: "string \<Rightarrow> bool" where
  "is_secret_reference t \<longleftrightarrow> starts_with ''$SECRET:'' t \<and> drop 8 t \<noteq> [] \<and>
     list_all (\<lambda>c. word_char c \<or> c = CHR ''.'' \<or> c = CHR ''-'') (drop 8 t)"

definition is_env_reference :: "string \<Rightarrow> bool" where
  "is_env_reference t \<longleftrightarrow> (case t of d # c # cs \<Rightarrow> d = CHR ''$'' \<and> word_start c \<and> list_all word_char cs | _ \<Rightarrow> False)"

definition resolveEnvBackedString :: "derive_env \<Rightarrow> json option \<Rightarrow> string" where
  "resolveEnvBackedString e v =
     (case v of
        Some (JStr t) \<Rightarrow>
          if is_secret_reference t then coalesce (secret_value e (drop 8 t)) []
          else if \<not> is_env_reference t then t
          else coalesce (dv_env e (drop 1 t)) []
      | _ \<Rightarrow> [])"

definition expandHomePath :: "derive_env \<Rightarrow> string \<Rightarrow> string" where
  "expandHomePath e t =
     (if t = ''~'' then coalesce (dv_env e ''HOME'') t
      else if starts_with ''~/'' t then dv_path_join e (coalesce (dv_env e ''HOME'') ''~'') (drop 2 t)
      else t)"

function replace_all :: "string \<Rightarrow> string \<Rightarrow> string \<Rightarrow> string" where
  "replace_all pat rep t =
     (if pat = [] \<or> t = [] then t
      else if starts_with pat t then rep @ replace_all pat rep (drop (length pat) t)
      else hd t # replace_all pat rep (tl t))"
  by pat_completeness auto
termination
  by (relation "measure (\<lambda>(_, _, t). length t)") auto

declare replace_all.simps [simp del]

definition resolveTmpDir :: "derive_env \<Rightarrow> string \<Rightarrow> string" where
  "resolveTmpDir e t = replace_all ''$TMPDIR'' (coalesce (dv_env e ''TMPDIR'') (dv_tmpdir e)) t"

definition resolveConfigString :: "derive_env \<Rightarrow> json option \<Rightarrow> string" where
  "resolveConfigString e v = resolveTmpDir e (expandHomePath e (resolveEnvBackedString e v))"

text \<open>\<open>replaceAll\<close> of every \<open>$NAME\<close> in the text by the variable's value.\<close>

function expandPathEnvVars :: "derive_env \<Rightarrow> string \<Rightarrow> string" where
  "expandPathEnvVars e t =
     (case t of
        [] \<Rightarrow> []
      | c # cs \<Rightarrow>
          if c = CHR ''$'' \<and> cs \<noteq> [] \<and> word_start (hd cs)
          then coalesce (dv_env e (takeWhile word_char cs)) [] @ expandPathEnvVars e (dropWhile word_char cs)
          else c # expandPathEnvVars e cs)"
  by pat_completeness auto
termination
  by (relation "measure (\<lambda>(_, t). length t)") (auto simp: le_imp_less_Suc length_dropWhile_le)

declare expandPathEnvVars.simps [simp del]

definition resolvePathConfigString :: "derive_env \<Rightarrow> json option \<Rightarrow> string" where
  "resolvePathConfigString e v =
     expandPathEnvVars e (resolveTmpDir e (expandHomePath e (resolveEnvBackedString e v)))"

section \<open>url-policy.ts\<close>

definition ends_with :: "string \<Rightarrow> string \<Rightarrow> bool" where
  "ends_with suf t \<longleftrightarrow> starts_with (rev suf) (rev t)"

definition matchesHostPattern :: "string \<Rightarrow> string \<Rightarrow> bool" where
  "matchesHostPattern host' pattern =
     (let normalizedPattern = js_lower (js_trim pattern)
      in if normalizedPattern = [] then False
         else if starts_with ''*.'' normalizedPattern then ends_with (drop 1 normalizedPattern) host'
         else host' = normalizedPattern)"

definition isHostAllowedByEnv :: "derive_env \<Rightarrow> string \<Rightarrow> string \<Rightarrow> bool" where
  "isHostAllowedByEnv e host' envName =
     (let raw = coalesce (dv_env e envName) []
      in if js_trim raw = [] then False
         else list_ex (matchesHostPattern host') (split_on CHR '','' raw))"

definition parseUrlPolicyValue :: "derive_env \<Rightarrow> string \<Rightarrow> string \<Rightarrow> overlay_error + string" where
  "parseUrlPolicyValue e t label =
     (case dv_url e t of
        None \<Rightarrow> Inl (TypeError (label @ '' must be a valid absolute URL.''))
      | Some (protocol, hostname) \<Rightarrow>
          if protocol \<noteq> ''https:'' then Inl (TypeError (label @ '' must use https.'')) else Inr hostname)"

definition ensureAllowedUrl ::
  "derive_env \<Rightarrow> string \<Rightarrow> string \<Rightarrow> string \<Rightarrow> (string \<Rightarrow> bool) \<Rightarrow> overlay_error + string" where
  "ensureAllowedUrl e t label envName hostAllowed =
     (case parseUrlPolicyValue e t label of
        Inl err \<Rightarrow> Inl err
      | Inr hostname \<Rightarrow>
          let host' = js_lower hostname
          in if \<not> hostAllowed host' \<and> \<not> isHostAllowedByEnv e host' envName
             then Inl (TypeError (label @ '' host '' @ host' @ '' is not allowlisted.''))
             else Inr (js_trim t))"

definition isAllowedLinearHost :: "string \<Rightarrow> bool" where
  "isAllowedLinearHost host' \<longleftrightarrow> host' = ''api.linear.app''"

definition isAllowedGitHubHost :: "string \<Rightarrow> bool" where
  "isAllowedGitHubHost host' \<longleftrightarrow> host' = ''api.github.com'' \<or> host' = ''github.com'' \<or> ends_with ''.github.com'' host'"

definition isAllowedSlackWebhookHost :: "string \<Rightarrow> bool" where
  "isAllowedSlackWebhookHost host' \<longleftrightarrow> host' = ''hooks.slack.com'' \<or> host' = ''hooks.slack-gov.com''"

definition isAllowedNotificationWebhookHost :: "string \<Rightarrow> bool" where
  "isAllowedNotificationWebhookHost host' \<longleftrightarrow> False"

definition normalizeTrackerEndpoint :: "derive_env \<Rightarrow> string \<Rightarrow> string \<Rightarrow> overlay_error + string" where
  "normalizeTrackerEndpoint e kind t =
     (if kind = ''github''
      then ensureAllowedUrl e t ''tracker.endpoint'' ''RISOLUTO_ALLOWED_TRACKER_HOSTS'' isAllowedGitHubHost
      else ensureAllowedUrl e t ''tracker.endpoint'' ''RISOLUTO_ALLOWED_TRACKER_HOSTS'' isAllowedLinearHost)"

definition normalizeGitHubApiBaseUrl :: "derive_env \<Rightarrow> string \<Rightarrow> overlay_error + string" where
  "normalizeGitHubApiBaseUrl e t =
     ensureAllowedUrl e t ''github.apiBaseUrl'' ''RISOLUTO_ALLOWED_GITHUB_API_HOSTS'' isAllowedGitHubHost"

definition normalizeSlackWebhookUrl :: "derive_env \<Rightarrow> string \<Rightarrow> overlay_error + string" where
  "normalizeSlackWebhookUrl e t =
     ensureAllowedUrl e t ''notifications.slack.webhookUrl'' ''RISOLUTO_ALLOWED_SLACK_WEBHOOK_HOSTS'' isAllowedSlackWebhookHost"

definition normalizeNotificationWebhookUrl :: "derive_env \<Rightarrow> string \<Rightarrow> overlay_error + string" where
  "normalizeNotificationWebhookUrl e t =
     ensureAllowedUrl e t ''notifications.channels[].url'' ''RISOLUTO_ALLOWED_NOTIFICATION_WEBHOOK_HOSTS'' isAllowedNotificationWebhookHost"

end
