(* ===== verification/ConfigSections.thy ===== *)
theory ConfigSections
  imports ConfigValues Alerts Automation JsonRpc
begin

text \<open>
  From the raw configuration map to the typed one: \<open>src/src/config/normalizers.ts\<close>, \<open>section-builders.ts\<close> and
  \<open>derivation-pipeline.ts\<close>. A section is an association list; what the code may throw is a sum.
\<close>

section \<open>Helpers of normalizers.ts\<close>

definition or_text :: "string \<Rightarrow> string \<Rightarrow> string" where
  "or_text a b = (if a = [] then b else a)"

definition text_or_null :: "string \<Rightarrow> string option" where
  "text_or_null t = (if t = [] then None else Some t)"

fun pickValue :: "(string, json) omap \<Rightarrow> string list \<Rightarrow> json option" where
  "pickValue r [] = None"
| "pickValue r (key # keys) = (if omap_has r key then omap_get r key else pickValue r keys)"

text \<open>\<open>Number(value)\<close>, \<open>None\<close> when it is not finite.\<close>

definition js_number :: "derive_env \<Rightarrow> json \<Rightarrow> int option" where
  "js_number e v = (case v of
     JNum n \<Rightarrow> Some n | JBool b \<Rightarrow> Some (if b then 1 else 0) | JNull \<Rightarrow> Some 0
   | JStr t \<Rightarrow> dv_number e t | JArr js \<Rightarrow> dv_number e (js_string (JArr js)) | JObj _ \<Rightarrow> None)"

definition numberOrDefault :: "derive_env \<Rightarrow> json option \<Rightarrow> int \<Rightarrow> int" where
  "numberOrDefault e v fallback =
     (case non_null v of
        None \<Rightarrow> fallback
      | Some x \<Rightarrow> (case js_number e x of Some n \<Rightarrow> if n \<ge> 0 then n else fallback | None \<Rightarrow> fallback))"

definition asNotificationSeverity :: "json option \<Rightarrow> severity \<Rightarrow> severity" where
  "asNotificationSeverity v fallback =
     (if v = Some (JStr ''warning'') then SevWarning
      else if v = Some (JStr ''critical'') then SevCritical
      else if v = Some (JStr ''info'') then SevInfo else fallback)"

datatype trigger_action = CreateIssue | RePoll | RefreshIssue

definition asTriggerAction :: "string \<Rightarrow> trigger_action option" where
  "asTriggerAction v =
     (if v = ''create_issue'' then Some CreateIssue else if v = ''re_poll'' then Some RePoll
      else if v = ''refresh_issue'' then Some RefreshIssue else None)"

definition asAutomationMode :: "json option \<Rightarrow> automation_mode \<Rightarrow> automation_mode" where
  "asAutomationMode v fallback =
     (if v = Some (JStr ''implement'') then Implement else if v = Some (JStr ''report'') then Report
      else if v = Some (JStr ''findings'') then Findings else fallback)"

definition asVerbosity :: "json option \<Rightarrow> verbosity" where
  "asVerbosity v =
     (let t = asStringOr v ''critical''
      in if t = ''off'' then VOff else if t = ''verbose'' then VVerbose else VCritical)"

section \<open>Notifications\<close>

record slack_config =
  sk_webhookUrl :: string
  sk_verbosity :: verbosity

datatype channel_kind =
    CSlack string verbosity
  | CWebhook string "(string, string) omap"
  | CDesktop

record channel_config =
  cc_kind :: channel_kind
  cc_name :: string
  cc_enabled :: bool
  cc_minSeverity :: severity

record notification_config =
  nc_slack :: "slack_config option"
  nc_channels :: "channel_config list"

definition normalizeLegacySlackConfig :: "derive_env \<Rightarrow> (string, json) omap \<Rightarrow> overlay_error + slack_config option" where
  "normalizeLegacySlackConfig e v =
     (let webhookUrl = resolveConfigString e (pickValue v [''webhook_url'', ''webhookUrl''])
      in if webhookUrl = [] then Inr None
         else case normalizeSlackWebhookUrl e webhookUrl of
                Inl err \<Rightarrow> Inl err
              | Inr url \<Rightarrow> Inr (Some \<lparr>sk_webhookUrl = url, sk_verbosity = asVerbosity (pickValue v [''verbosity''])\<rparr>))"

definition suffixed :: "string \<Rightarrow> nat \<Rightarrow> string" where
  "suffixed name k = name @ ''-'' @ show_nat k"

lemma suffixed_inj: "suffixed name j = suffixed name k \<longleftrightarrow> j = k"
  by (auto simp: suffixed_def show_nat_def dest: digits_of_nat_inj)

function next_suffix :: "string \<Rightarrow> string list \<Rightarrow> nat \<Rightarrow> nat" where
  "next_suffix name seenNames k =
     (if suffixed name k \<in> set seenNames then next_suffix name seenNames (k + 1) else k)"
  by pat_completeness auto
termination
proof (relation "measure (\<lambda>(name, seen, k). card {t \<in> set seen. \<exists>j \<ge> k. t = suffixed name j})")
  fix name :: string and seen :: "string list" and k :: nat
  assume k: "suffixed name k \<in> set seen"
  have "{t \<in> set seen. \<exists>j \<ge> k + 1. t = suffixed name j} \<subset> {t \<in> set seen. \<exists>j \<ge> k. t = suffixed name j}"
  proof
    show "{t \<in> set seen. \<exists>j \<ge> k + 1. t = suffixed name j} \<subseteq> {t \<in> set seen. \<exists>j \<ge> k. t = suffixed name j}"
      by (auto intro: Suc_leD)
    have "suffixed name k \<in> {t \<in> set seen. \<exists>j \<ge> k. t = suffixed name j}" using k by blast
    moreover have "suffixed name k \<notin> {t \<in> set seen. \<exists>j \<ge> k + 1. t = suffixed name j}" by (auto simp: suffixed_inj)
    ultimately show "{t \<in> set seen. \<exists>j \<ge> k + 1. t = suffixed name j} \<noteq> {t \<in> set seen. \<exists>j \<ge> k. t = suffixed name j}"
      by blast
  qed
  then show "((name, seen, k + 1), name, seen, k)
      \<in> measure (\<lambda>(name, seen, k). card {t \<in> set seen. \<exists>j \<ge> k. t = suffixed name j})"
    by (simp add: psubset_card_mono)
qed simp

declare next_suffix.simps [simp del]

definition deduplicateChannelName :: "string \<Rightarrow> string list \<Rightarrow> string \<times> string list" where
  "deduplicateChannelName name seenNames =
     (if name \<notin> set seenNames then (name, seenNames @ [name])
      else let unique = suffixed name (next_suffix name seenNames 2) in (unique, seenNames @ [unique]))"

definition normalize_channel ::
  "derive_env \<Rightarrow> (string, json) omap \<Rightarrow> string list \<Rightarrow> overlay_error + (channel_config option \<times> string list)" where
  "normalize_channel e channel seenNames =
     (let type' = js_lower (js_trim (asStringOr (omap_get channel ''type'') []));
          enabled = asBooleanOr (pickValue channel [''enabled'']) True;
          minSeverity = asNotificationSeverity (pickValue channel [''min_severity'', ''minSeverity'']) SevInfo;
          named = (\<lambda>fallback. deduplicateChannelName (asStringOr (omap_get channel ''name'') fallback) seenNames);
          make = (\<lambda>kind ns. (Some \<lparr>cc_kind = kind, cc_name = fst ns, cc_enabled = enabled, cc_minSeverity = minSeverity\<rparr>, snd ns))
      in if type' = ''slack''
         then (let webhookUrl = resolveConfigString e (pickValue channel [''webhook_url'', ''webhookUrl''])
               in if webhookUrl = [] then Inr (None, seenNames)
                  else case normalizeSlackWebhookUrl e webhookUrl of
                         Inl err \<Rightarrow> Inl err
                       | Inr url \<Rightarrow> Inr (make (CSlack url (asVerbosity (pickValue channel [''verbosity'']))) (named ''slack'')))
         else if type' = ''webhook''
         then (let url = resolveConfigString e (pickValue channel [''url''])
               in if url = [] then Inr (None, seenNames)
                  else case normalizeNotificationWebhookUrl e url of
                         Inl err \<Rightarrow> Inl err
                       | Inr url' \<Rightarrow> Inr (make (CWebhook url' (asStringMap (pickValue channel [''headers'']))) (named ''webhook'')))
         else if type' = ''desktop'' then Inr (make CDesktop (named ''desktop''))
         else Inr (None, seenNames))"

fun normalize_channels ::
  "derive_env \<Rightarrow> (string, json) omap list \<Rightarrow> string list \<Rightarrow> overlay_error + channel_config list" where
  "normalize_channels e [] seenNames = Inr []"
| "normalize_channels e (channel # rest) seenNames =
     (case normalize_channel e channel seenNames of
        Inl err \<Rightarrow> Inl err
      | Inr (c, names) \<Rightarrow>
          (case normalize_channels e rest names of
             Inl err \<Rightarrow> Inl err
           | Inr cs \<Rightarrow> Inr (case c of None \<Rightarrow> cs | Some x \<Rightarrow> x # cs)))"

definition normalizeNotificationChannels :: "derive_env \<Rightarrow> json option \<Rightarrow> overlay_error + channel_config list" where
  "normalizeNotificationChannels e v = normalize_channels e (asRecordArray v) []"

definition normalizeNotifications :: "derive_env \<Rightarrow> json option \<Rightarrow> overlay_error + notification_config" where
  "normalizeNotifications e v =
     (let root = asRecord v
      in case normalizeLegacySlackConfig e (asRecord (omap_get root ''slack'')) of
           Inl err \<Rightarrow> Inl err
         | Inr slack \<Rightarrow>
             (case normalizeNotificationChannels e (omap_get root ''channels'') of
                Inl err \<Rightarrow> Inl err
              | Inr channels \<Rightarrow>
                  Inr \<lparr>nc_slack = slack,
                       nc_channels = (case slack of
                          Some sk \<Rightarrow> if list_ex (\<lambda>ch. cc_name ch = ''slack'') channels then channels
                                     else \<lparr>cc_kind = CSlack (sk_webhookUrl sk) (sk_verbosity sk), cc_name = ''slack'',
                                            cc_enabled = True, cc_minSeverity = SevInfo\<rparr> # channels
                        | None \<Rightarrow> channels)\<rparr>))"

section \<open>Triggers, automations, alerts, GitHub, repositories, state machine\<close>

record trigger_config =
  tr_apiKey :: "string option"
  tr_allowedActions :: "trigger_action list"
  tr_githubSecret :: "string option"
  tr_rateLimitPerMinute :: int

definition normalizeTriggers :: "derive_env \<Rightarrow> json option \<Rightarrow> trigger_config option" where
  "normalizeTriggers e v =
     (let root = asRecord v
      in if root = [] then None
         else Some \<lparr>tr_apiKey = text_or_null (resolveConfigString e (pickValue root [''api_key'', ''apiKey''])),
                    tr_allowedActions = List.map_filter asTriggerAction
                      (asStringArrayOr (pickValue root [''allowed_actions'', ''allowedActions'']) []),
                    tr_githubSecret = text_or_null (resolveConfigString e (pickValue root [''github_secret'', ''githubSecret''])),
                    tr_rateLimitPerMinute = numberOrDefault e (pickValue root [''rate_limit_per_minute'', ''rateLimitPerMinute'']) 30\<rparr>)"

definition normalize_automation :: "(string, json) omap \<Rightarrow> automation_config option" where
  "normalize_automation a =
     (let name = asStringOr (omap_get a ''name'') []; schedule = asStringOr (omap_get a ''schedule'') [];
          prompt = asStringOr (omap_get a ''prompt'') []
      in if name = [] \<or> schedule = [] \<or> prompt = [] then None
         else Some \<lparr>ac_name = name, ac_schedule = schedule, ac_mode = asAutomationMode (omap_get a ''mode'') Report,
                    ac_prompt = prompt, ac_enabled = asBooleanOr (omap_get a ''enabled'') True,
                    ac_repoUrl = text_or_null (asStringOr (pickValue a [''repo_url'', ''repoUrl'']) [])\<rparr>)"

definition normalizeAutomations :: "json option \<Rightarrow> automation_config list" where
  "normalizeAutomations v = List.map_filter normalize_automation (asRecordArray v)"

definition normalize_rule :: "derive_env \<Rightarrow> (string, json) omap \<Rightarrow> alert_rule option" where
  "normalize_rule e r =
     (let name = asStringOr (omap_get r ''name'') []; type' = asStringOr (omap_get r ''type'') []
      in if name = [] \<or> type' = [] then None
         else Some \<lparr>ar_name = name, ar_type = type', ar_severity = asNotificationSeverity (omap_get r ''severity'') SevCritical,
                    ar_channels = asStringArrayOr (omap_get r ''channels'') [],
                    ar_cooldownMs = numberOrDefault e (pickValue r [''cooldown_ms'', ''cooldownMs'']) 300000,
                    ar_enabled = asBooleanOr (omap_get r ''enabled'') True\<rparr>)"

definition normalizeAlerts :: "derive_env \<Rightarrow> json option \<Rightarrow> alert_rule list option" where
  "normalizeAlerts e v =
     (let rules = List.map_filter (normalize_rule e) (asRecordArray (omap_get (asRecord v) ''rules''))
      in if rules \<noteq> [] then Some rules else None)"

record github_config =
  gh_token :: string
  gh_apiBaseUrl :: string

definition normalizeGitHub :: "derive_env \<Rightarrow> json option \<Rightarrow> overlay_error + github_config option" where
  "normalizeGitHub e v =
     (let root = asRecord v; token = resolveConfigString e (omap_get root ''token'')
      in if token = [] then Inr None
         else case normalizeGitHubApiBaseUrl e
                     (or_text (resolveConfigString e (omap_get root ''api_base_url'')) ''https://api.github.com'') of
                Inl err \<Rightarrow> Inl err
              | Inr url \<Rightarrow> Inr (Some \<lparr>gh_token = token, gh_apiBaseUrl = url\<rparr>))"

record repo_config =
  rp_repoUrl :: string
  rp_defaultBranch :: string
  rp_identifierPrefix :: "string option"
  rp_label :: "string option"
  rp_githubOwner :: "string option"
  rp_githubRepo :: "string option"
  rp_githubTokenEnv :: "string option"

definition normalize_repo :: "(string, json) omap \<Rightarrow> repo_config" where
  "normalize_repo r =
     (let opt = (\<lambda>k. text_or_null (asStringOr (omap_get r k) []))
      in \<lparr>rp_repoUrl = asStringOr (omap_get r ''repo_url'') [], rp_defaultBranch = asStringOr (omap_get r ''default_branch'') ''main'',
          rp_identifierPrefix = opt ''identifier_prefix'', rp_label = opt ''label'', rp_githubOwner = opt ''github_owner'',
          rp_githubRepo = opt ''github_repo'', rp_githubTokenEnv = opt ''github_token_env''\<rparr>)"

definition normalizeRepos :: "json option \<Rightarrow> repo_config list" where
  "normalizeRepos v =
     filter (\<lambda>r. rp_repoUrl r \<noteq> [] \<and> (rp_identifierPrefix r \<noteq> None \<or> rp_label r \<noteq> None))
       (map normalize_repo (asRecordArray v))"

definition stage_kind_of :: "string \<Rightarrow> stage_kind option" where
  "stage_kind_of k =
     (if k = ''backlog'' then Some KBacklog else if k = ''todo'' then Some KTodo else if k = ''active'' then Some KActive
      else if k = ''gate'' then Some KGate else if k = ''terminal'' then Some KTerminal else None)"

definition normalize_stage :: "(string, json) omap \<Rightarrow> stage_config option" where
  "normalize_stage st =
     (let name = asStringOr (omap_get st ''name'') []
      in case stage_kind_of (asStringOr (omap_get st ''kind'') []) of
           Some k \<Rightarrow> if name = [] then None else Some \<lparr>sc_name = name, sc_kind = k\<rparr>
         | None \<Rightarrow> None)"

definition normalizeStateMachine :: "json option \<Rightarrow> state_machine_config option" where
  "normalizeStateMachine v =
     (let root = asRecord v; stages = List.map_filter normalize_stage (asRecordArray (omap_get root ''stages''))
      in if stages = [] then None
         else Some \<lparr>smc_stages = stages,
                    smc_transitions = map (\<lambda>(source, targets). (source, asStringArrayOr (Some targets) []))
                      (asRecord (omap_get root ''transitions''))\<rparr>)"

section \<open>Codex values\<close>

datatype codex_auth_mode = ApiKey | OpenaiLogin

definition asCodexAuthMode :: "json option \<Rightarrow> codex_auth_mode \<Rightarrow> codex_auth_mode" where
  "asCodexAuthMode v fallback = (if v = Some (JStr ''openai_login'') then OpenaiLogin else fallback)"

record codex_provider =
  pv_id :: "string option"
  pv_name :: "string option"
  pv_baseUrl :: "string option"
  pv_envKey :: "string option"
  pv_envKeyInstructions :: "string option"
  pv_wireApi :: "string option"
  pv_requiresOpenaiAuth :: bool
  pv_httpHeaders :: "(string, string) omap"
  pv_envHttpHeaders :: "(string, string) omap"
  pv_queryParams :: "(string, string) omap"

definition normalizeCodexProvider :: "derive_env \<Rightarrow> json option \<Rightarrow> codex_provider option" where
  "normalizeCodexProvider e v =
     (let provider = asRecord v; str = (\<lambda>k. text_or_null (asStringOr (omap_get provider k) []));
          baseUrl = text_or_null (resolveConfigString e (omap_get provider ''base_url''))
      in if provider = [] \<or> str ''id'' = None \<and> baseUrl = None then None
         else Some \<lparr>pv_id = str ''id'', pv_name = str ''name'', pv_baseUrl = baseUrl, pv_envKey = str ''env_key'',
                    pv_envKeyInstructions = str ''env_key_instructions'', pv_wireApi = str ''wire_api'',
                    pv_requiresOpenaiAuth = asBooleanOr (omap_get provider ''requires_openai_auth'') False,
                    pv_httpHeaders = asStringMap (omap_get provider ''http_headers''),
                    pv_envHttpHeaders = asStringMap (omap_get provider ''env_http_headers''),
                    pv_queryParams = asStringMap (omap_get provider ''query_params'')\<rparr>)"

definition defaultApprovalPolicy :: json where
  "defaultApprovalPolicy = JObj [(''granular'', JObj
     [(''sandbox_approval'', JBool True), (''rules'', JBool True), (''mcp_elicitations'', JBool True)])]"

definition normalizeTurnSandboxPolicy :: "(string, json) omap \<Rightarrow> (string, json) omap" where
  "normalizeTurnSandboxPolicy v =
     (if v = [] then [(''type'', JStr ''workspaceWrite''), (''writableRoots'', JArr []), (''networkAccess'', JBool False),
                      (''readOnlyAccess'', JObj [(''type'', JStr ''fullAccess'')])]
      else fold (\<lambda>(k, x) m. omap_set k x m) v [(''type'', JStr (asStringOr (omap_get v ''type'') ''workspaceWrite''))])"

text \<open>
  The alias table is an object literal, so a policy named like a member of \<open>Object.prototype\<close> finds that member:
  \<open>None\<close> stands for such a value, which is not a string of the table.
\<close>

definition OBJECT_PROTOTYPE_MEMBERS :: "string list" where
  "OBJECT_PROTOTYPE_MEMBERS =
     [''constructor'', ''__defineGetter__'', ''__defineSetter__'', ''hasOwnProperty'', ''__lookupGetter__'',
      ''__lookupSetter__'', ''isPrototypeOf'', ''propertyIsEnumerable'', ''toString'', ''valueOf'', ''__proto__'',
      ''toLocaleString'']"

definition LEGACY_APPROVAL_ALIASES :: "(string, string) omap" where
  "LEGACY_APPROVAL_ALIASES = [(''auto-edit'', ''never''), (''auto-approve'', ''never''), (''reject'', ''never''), (''suggest'', ''on-request'')]"

definition VALID_APPROVAL_POLICIES :: "string list" where
  "VALID_APPROVAL_POLICIES = [''untrusted'', ''on-failure'', ''on-request'', ''never'']"

definition normalizeApprovalPolicy :: "json option \<Rightarrow> json option" where
  "normalizeApprovalPolicy v =
     (case v of
        Some (JStr t) \<Rightarrow>
          (case omap_get LEGACY_APPROVAL_ALIASES t of
             Some p \<Rightarrow> Some (JStr p)
           | None \<Rightarrow> if t \<in> set OBJECT_PROTOTYPE_MEMBERS then None
                     else Some (JStr (if t \<in> set VALID_APPROVAL_POLICIES then t else ''never'')))
      | _ \<Rightarrow>
          let r = asRecord v
          in Some (if r = [] then defaultApprovalPolicy
                   else case omap_get r ''reject'' of
                          Some x \<Rightarrow> if \<not> omap_has r ''granular'' then JObj [(''granular'', x)] else JObj r
                        | None \<Rightarrow> JObj r))"

definition effort_of :: "string \<Rightarrow> reasoning_effort option" where
  "effort_of t =
     (if t = ''none'' then Some EffortNone else if t = ''minimal'' then Some Minimal else if t = ''low'' then Some Low
      else if t = ''medium'' then Some Medium else if t = ''high'' then Some High else if t = ''xhigh'' then Some Xhigh else None)"

definition asReasoningEffort :: "json option \<Rightarrow> reasoning_effort option \<Rightarrow> reasoning_effort option" where
  "asReasoningEffort v fallback = (case v of Some (JStr t) \<Rightarrow> or_else (effort_of t) fallback | _ \<Rightarrow> fallback)"

end
