(* ===== verification/ConfigPipeline.thy ===== *)
theory ConfigPipeline
  imports ConfigSections ConfigStores
begin

text \<open>
  The section builders of \<open>src/src/config/section-builders.ts\<close>, the derivation of the service configuration in
  \<open>derivation-pipeline.ts\<close> and its validation in \<open>validators.ts\<close>.
\<close>

section \<open>Aliases\<close>

definition WEBHOOK_ALIAS_REGISTRY :: "(string \<times> string) list" where
  "WEBHOOK_ALIAS_REGISTRY =
     [(''webhook_url'', ''webhookUrl''), (''webhook_secret'', ''webhookSecret''), (''polling_stretch_ms'', ''pollingStretchMs''),
      (''polling_base_ms'', ''pollingBaseMs''), (''health_check_interval_ms'', ''healthCheckIntervalMs'')]"

definition AGENT_ALIAS_REGISTRY :: "(string \<times> string) list" where
  "AGENT_ALIAS_REGISTRY =
     [(''success_state'', ''successState''), (''max_concurrent_agents'', ''maxConcurrentAgents''),
      (''max_concurrent_agents_by_state'', ''maxConcurrentAgentsByState''), (''max_turns'', ''maxTurns''),
      (''max_retry_backoff_ms'', ''maxRetryBackoffMs''), (''max_continuation_attempts'', ''maxContinuationAttempts''),
      (''stall_timeout_ms'', ''stallTimeoutMs''), (''preflight_commands'', ''preflightCommands''),
      (''auto_retry_on_review_feedback'', ''autoRetryOnReviewFeedback''), (''pr_monitor_interval_ms'', ''prMonitorIntervalMs''),
      (''auto_merge'', ''autoMerge''), (''auto_claim'', ''autoClaim'')]"

definition MERGE_POLICY_ALIAS_REGISTRY :: "(string \<times> string) list" where
  "MERGE_POLICY_ALIAS_REGISTRY =
     [(''allowed_paths'', ''allowedPaths''), (''require_labels'', ''requireLabels''), (''exclude_labels'', ''excludeLabels''),
      (''max_changed_files'', ''maxChangedFiles''), (''max_diff_lines'', ''maxDiffLines''), (''merge_method'', ''mergeMethod'')]"

fun normalizeRecord :: "(string, json) omap \<Rightarrow> (string \<times> string) list \<Rightarrow> (string, json) omap" where
  "normalizeRecord out [] = out"
| "normalizeRecord out ((snakeKey, camelKey) # aliases) =
     normalizeRecord
       (case (non_null (omap_get out snakeKey), non_null (omap_get out camelKey)) of
          (None, Some v) \<Rightarrow> omap_set snakeKey v out
        | _ \<Rightarrow> out) aliases"

definition asNumberish :: "derive_env \<Rightarrow> json option \<Rightarrow> int \<Rightarrow> int" where
  "asNumberish e v fallback =
     (case v of
        Some (JStr t) \<Rightarrow> (if js_trim t = [] then fallback else coalesce (dv_number e (js_trim t)) fallback)
      | _ \<Rightarrow> asNumberOr v fallback)"

section \<open>Sections\<close>

record tracker_section =
  ts_kind :: string
  ts_apiKey :: string
  ts_endpoint :: string
  ts_projectSlug :: "string option"
  ts_owner :: string
  ts_repo :: string
  ts_activeStates :: "string list"
  ts_terminalStates :: "string list"

definition deriveTrackerConfig :: "derive_env \<Rightarrow> (string, json) omap \<Rightarrow> overlay_error + tracker_section" where
  "deriveTrackerConfig e tracker =
     (let kind = asStringOr (omap_get tracker ''kind'') ''linear'';
          defaultEndpoint = (if kind = ''github'' then ''https://api.github.com'' else ''https://api.linear.app/graphql'');
          resolve = (\<lambda>k. resolveConfigString e (omap_get tracker k));
          secret = (\<lambda>k. coalesce (secret_value e k) [])
      in case normalizeTrackerEndpoint e kind (or_text (resolve ''endpoint'') defaultEndpoint) of
           Inl err \<Rightarrow> Inl err
         | Inr endpoint \<Rightarrow>
             Inr \<lparr>ts_kind = kind, ts_apiKey = or_text (resolve ''api_key'') (secret ''LINEAR_API_KEY''), ts_endpoint = endpoint,
                  ts_projectSlug = text_or_null (or_text (resolve ''project_slug'') (secret ''LINEAR_PROJECT_SLUG'')),
                  ts_owner = or_text (asStringOr (omap_get tracker ''owner'') []) (secret ''GITHUB_OWNER''),
                  ts_repo = or_text (asStringOr (omap_get tracker ''repo'') []) (secret ''GITHUB_REPO''),
                  ts_activeStates = asStringArrayOr (omap_get tracker ''active_states'') DEFAULT_ACTIVE_STATES,
                  ts_terminalStates = asStringArrayOr (omap_get tracker ''terminal_states'') DEFAULT_TERMINAL_STATES\<rparr>)"

record workspace_hooks =
  wh_afterCreate :: "string option"
  wh_beforeRun :: "string option"
  wh_afterRun :: "string option"
  wh_beforeRemove :: "string option"
  wh_timeoutMs :: int

record workspace_section =
  wk_root :: string
  wk_hooks :: workspace_hooks
  wk_strategy :: workspace_strategy
  wk_branchPrefix :: string

definition deriveWorkspaceConfig ::
  "derive_env \<Rightarrow> (string, json) omap \<Rightarrow> (string, json) omap \<Rightarrow> workspace_section" where
  "deriveWorkspaceConfig e workspace hooks =
     (let defaultWorkspaceRoot = or_text (coalesce (dv_env e ''RISOLUTO_CONTAINER_WORKSPACE_ROOT'') []) ''../risoluto-workspaces'';
          workspaceRoot = resolvePathConfigString e (Some (JStr (asStringOr (omap_get workspace ''root'') defaultWorkspaceRoot)));
          rawHookTimeoutMs = asNumberOr (omap_get hooks ''timeout_ms'') 60000;
          hook = (\<lambda>k. text_or_null (asStringOr (omap_get hooks k) []))
      in \<lparr>wk_root = dv_path_resolve e workspaceRoot,
          wk_hooks = \<lparr>wh_afterCreate = hook ''after_create'', wh_beforeRun = hook ''before_run'', wh_afterRun = hook ''after_run'',
                      wh_beforeRemove = hook ''before_remove'',
                      wh_timeoutMs = (if rawHookTimeoutMs > 0 then rawHookTimeoutMs else 60000)\<rparr>,
          wk_strategy = (if asStringOr (omap_get workspace ''strategy'') ''directory'' = ''worktree'' then WorktreeStrategy else DirectoryStrategy),
          wk_branchPrefix = asStringOr (omap_get workspace ''branch_prefix'') ''risoluto/''\<rparr>)"

datatype merge_method = Squash | MergeCommit | Rebase

record merge_policy_section =
  mp_enabled :: bool
  mp_allowedPaths :: "string list"
  mp_maxChangedFiles :: "int option"
  mp_maxDiffLines :: "int option"
  mp_requireLabels :: "string list"
  mp_excludeLabels :: "string list"
  mp_mergeMethod :: merge_method

definition deriveMergePolicyConfig :: "(string, json) omap \<Rightarrow> merge_policy_section" where
  "deriveMergePolicyConfig raw =
     (let norm = normalizeRecord raw MERGE_POLICY_ALIAS_REGISTRY;
          limit = (\<lambda>k. map_option (\<lambda>v. asNumberOr (Some v) 0) (non_null (omap_get norm k)));
          rawMethod = asStringOr (omap_get norm ''merge_method'') ''squash''
      in \<lparr>mp_enabled = asBooleanOr (omap_get norm ''enabled'') False,
          mp_allowedPaths = asLooseStringArray (omap_get norm ''allowed_paths''),
          mp_maxChangedFiles = limit ''max_changed_files'', mp_maxDiffLines = limit ''max_diff_lines'',
          mp_requireLabels = asLooseStringArray (omap_get norm ''require_labels''),
          mp_excludeLabels = asLooseStringArray (omap_get norm ''exclude_labels''),
          mp_mergeMethod = (if rawMethod = ''merge'' then MergeCommit else if rawMethod = ''rebase'' then Rebase else Squash)\<rparr>)"

record agent_section =
  ag_maxConcurrentAgents :: int
  ag_maxConcurrentAgentsByState :: "(string, int) omap"
  ag_maxTurns :: int
  ag_maxRetryBackoffMs :: int
  ag_maxContinuationAttempts :: int
  ag_successState :: "string option"
  ag_stallTimeoutMs :: int
  ag_preflightCommands :: "string list"
  ag_autoRetryOnReviewFeedback :: bool
  ag_prMonitorIntervalMs :: int
  ag_autoMerge :: merge_policy_section
  ag_autoClaim :: bool

definition deriveAgentConfig :: "(string, json) omap \<Rightarrow> agent_section" where
  "deriveAgentConfig agent =
     (let norm = normalizeRecord agent AGENT_ALIAS_REGISTRY; num = (\<lambda>k. asNumberOr (omap_get norm k))
      in \<lparr>ag_maxConcurrentAgents = num ''max_concurrent_agents'' 10,
          ag_maxConcurrentAgentsByState =
            omap_of (map (\<lambda>(st, limit). (js_lower (js_trim st), limit)) (asNumberMap (omap_get norm ''max_concurrent_agents_by_state''))),
          ag_maxTurns = num ''max_turns'' 20, ag_maxRetryBackoffMs = num ''max_retry_backoff_ms'' 300000,
          ag_maxContinuationAttempts = num ''max_continuation_attempts'' 5,
          ag_successState = text_or_null (asStringOr (omap_get norm ''success_state'') []),
          ag_stallTimeoutMs = num ''stall_timeout_ms'' 1200000,
          ag_preflightCommands = asLooseStringArray (omap_get norm ''preflight_commands''),
          ag_autoRetryOnReviewFeedback = asBooleanOr (omap_get norm ''auto_retry_on_review_feedback'') False,
          ag_prMonitorIntervalMs = num ''pr_monitor_interval_ms'' 60000,
          ag_autoMerge = deriveMergePolicyConfig (asRecord (omap_get norm ''auto_merge'')),
          ag_autoClaim = asBooleanOr (omap_get norm ''auto_claim'') True\<rparr>)"

record sandbox_security =
  ss_noNewPrivileges :: bool
  ss_dropCapabilities :: bool
  ss_gvisor :: bool
  ss_seccompProfile :: string

definition deriveSandboxSecurityConfig :: "(string, json) omap \<Rightarrow> sandbox_security" where
  "deriveSandboxSecurityConfig s =
     \<lparr>ss_noNewPrivileges = asBooleanOr (omap_get s ''no_new_privileges'') True,
      ss_dropCapabilities = asBooleanOr (omap_get s ''drop_capabilities'') True,
      ss_gvisor = asBooleanOr (omap_get s ''gvisor'') False,
      ss_seccompProfile = asStringOr (omap_get s ''seccomp_profile'') []\<rparr>"

record sandbox_resources =
  sr_memory :: string
  sr_memoryReservation :: string
  sr_memorySwap :: string
  sr_cpus :: string
  sr_tmpfsSize :: string

definition deriveSandboxResourcesConfig :: "(string, json) omap \<Rightarrow> sandbox_resources" where
  "deriveSandboxResourcesConfig r =
     \<lparr>sr_memory = asStringOr (omap_get r ''memory'') ''4g'',
      sr_memoryReservation = asStringOr (omap_get r ''memory_reservation'') ''1g'',
      sr_memorySwap = asStringOr (omap_get r ''memory_swap'') ''4g'',
      sr_cpus = asStringOr (omap_get r ''cpus'') ''2.0'',
      sr_tmpfsSize = asStringOr (omap_get r ''tmpfs_size'') ''512m''\<rparr>"

record sandbox_logs =
  sl_driver :: string
  sl_maxSize :: string
  sl_maxFile :: int

definition deriveSandboxLogsConfig :: "(string, json) omap \<Rightarrow> sandbox_logs" where
  "deriveSandboxLogsConfig l =
     \<lparr>sl_driver = asStringOr (omap_get l ''driver'') ''json-file'', sl_maxSize = asStringOr (omap_get l ''max_size'') ''50m'',
      sl_maxFile = asNumberOr (omap_get l ''max_file'') 3\<rparr>"

record sandbox_section =
  sx_image :: string
  sx_network :: string
  sx_security :: sandbox_security
  sx_resources :: sandbox_resources
  sx_extraMounts :: "string list"
  sx_envPassthrough :: "string list"
  sx_logs :: sandbox_logs
  sx_egressAllowlist :: "string list"

definition deriveSandboxConfig :: "(string, json) omap \<Rightarrow> sandbox_section" where
  "deriveSandboxConfig s =
     \<lparr>sx_image = asStringOr (omap_get s ''image'') ''risoluto-codex:latest'',
      sx_network = asStringOr (omap_get s ''network'') [],
      sx_security = deriveSandboxSecurityConfig (asRecord (omap_get s ''security'')),
      sx_resources = deriveSandboxResourcesConfig (asRecord (omap_get s ''resources'')),
      sx_extraMounts = asLooseStringArray (omap_get s ''extra_mounts''),
      sx_envPassthrough = asLooseStringArray (omap_get s ''env_passthrough''),
      sx_logs = deriveSandboxLogsConfig (asRecord (omap_get s ''logs'')),
      sx_egressAllowlist = asLooseStringArray (omap_get s ''egress_allowlist'')\<rparr>"

record codex_section =
  cx_command :: string
  cx_model :: string
  cx_reasoningEffort :: "reasoning_effort option"
  cx_approvalPolicy :: "json option"
  cx_threadSandbox :: string
  cx_personality :: string
  cx_turnSandboxPolicy :: "(string, json) omap"
  cx_selfReview :: bool
  cx_readTimeoutMs :: int
  cx_turnTimeoutMs :: int
  cx_drainTimeoutMs :: int
  cx_startupTimeoutMs :: int
  cx_stallTimeoutMs :: int
  cx_structuredOutput :: bool
  cx_authMode :: codex_auth_mode
  cx_sourceHome :: string
  cx_provider :: "codex_provider option"
  cx_sandbox :: sandbox_section

definition deriveCodexConfig :: "derive_env \<Rightarrow> (string, json) omap \<Rightarrow> (string, json) omap \<Rightarrow> codex_section" where
  "deriveCodexConfig e codex agent =
     (let auth = asRecord (omap_get codex ''auth''); num = (\<lambda>k. asNumberOr (omap_get codex k)); str = (\<lambda>k. asStringOr (omap_get codex k))
      in \<lparr>cx_command = str ''command'' ''codex app-server'', cx_model = str ''model'' ''gpt-5.4'',
          cx_reasoningEffort = asReasoningEffort (omap_get codex ''reasoning_effort'') (Some High),
          cx_approvalPolicy = normalizeApprovalPolicy (omap_get codex ''approval_policy''),
          cx_threadSandbox = str ''thread_sandbox'' ''workspace-write'', cx_personality = str ''personality'' ''friendly'',
          cx_turnSandboxPolicy = normalizeTurnSandboxPolicy (asRecord (omap_get codex ''turn_sandbox_policy'')),
          cx_selfReview = (omap_get codex ''self_review'' = Some (JBool True)),
          cx_readTimeoutMs = num ''read_timeout_ms'' (asNumberOr (omap_get agent ''read_timeout_ms'') 5000),
          cx_turnTimeoutMs = num ''turn_timeout_ms'' 3600000, cx_drainTimeoutMs = num ''drain_timeout_ms'' 2000,
          cx_startupTimeoutMs = num ''startup_timeout_ms'' 30000,
          cx_stallTimeoutMs = num ''stall_timeout_ms'' (asNumberOr (omap_get agent ''stall_timeout_ms'') 300000),
          cx_structuredOutput = asBooleanOr (omap_get codex ''structured_output'') False,
          cx_authMode = asCodexAuthMode (omap_get auth ''mode'') ApiKey,
          cx_sourceHome = resolveConfigString e (Some (JStr (asStringOr (omap_get auth ''source_home'') ''~/.codex''))),
          cx_provider = normalizeCodexProvider e (omap_get codex ''provider''),
          cx_sandbox = deriveSandboxConfig (asRecord (omap_get codex ''sandbox''))\<rparr>)"

record webhook_section =
  wb_webhookUrl :: string
  wb_webhookSecret :: string
  wb_pollingStretchMs :: int
  wb_pollingBaseMs :: int
  wb_healthCheckIntervalMs :: int

definition deriveWebhookConfig :: "derive_env \<Rightarrow> (string, json) omap \<Rightarrow> webhook_section option" where
  "deriveWebhookConfig e webhook =
     (let norm = normalizeRecord webhook WEBHOOK_ALIAS_REGISTRY; webhookUrl = resolveConfigString e (omap_get norm ''webhook_url'')
      in if webhookUrl = [] then None
         else Some \<lparr>wb_webhookUrl = webhookUrl, wb_webhookSecret = resolveConfigString e (omap_get norm ''webhook_secret''),
                    wb_pollingStretchMs = asNumberish e (omap_get norm ''polling_stretch_ms'') 120000,
                    wb_pollingBaseMs = asNumberish e (omap_get norm ''polling_base_ms'') 15000,
                    wb_healthCheckIntervalMs = asNumberish e (omap_get norm ''health_check_interval_ms'') 300000\<rparr>)"

definition derivePollingConfig :: "(string, json) omap \<Rightarrow> int" where
  "derivePollingConfig polling = asNumberOr (omap_get polling ''interval_ms'') 15000"

definition deriveServerConfig :: "(string, json) omap \<Rightarrow> int" where
  "deriveServerConfig server = asNumberOr (omap_get server ''port'') 4000"

section \<open>derivation-pipeline.ts\<close>

record full_config =
  fc_tracker :: tracker_section
  fc_notifications :: notification_config
  fc_triggers :: "trigger_config option"
  fc_automations :: "automation_config list"
  fc_alerts :: "alert_rule list option"
  fc_github :: "github_config option"
  fc_repos :: "repo_config list"
  fc_intervalMs :: int
  fc_workspace :: workspace_section
  fc_agent :: agent_section
  fc_codex :: codex_section
  fc_stateMachine :: "state_machine_config option"
  fc_port :: int
  fc_webhook :: "webhook_section option"

definition deriveServiceConfig :: "derive_env \<Rightarrow> (string, json) omap \<Rightarrow> overlay_error + full_config" where
  "deriveServiceConfig e cfg =
     (let section' = (\<lambda>k. asRecord (omap_get cfg k))
      in case deriveTrackerConfig e (section' ''tracker'') of
           Inl err \<Rightarrow> Inl err
         | Inr tracker \<Rightarrow>
             (case normalizeNotifications e (Some (JObj (section' ''notifications''))) of
                Inl err \<Rightarrow> Inl err
              | Inr notifications \<Rightarrow>
                  (case normalizeGitHub e (Some (JObj (section' ''github''))) of
                     Inl err \<Rightarrow> Inl err
                   | Inr github \<Rightarrow>
                       Inr \<lparr>fc_tracker = tracker, fc_notifications = notifications,
                            fc_triggers = normalizeTriggers e (omap_get cfg ''triggers''),
                            fc_automations = normalizeAutomations (omap_get cfg ''automations''),
                            fc_alerts = normalizeAlerts e (Some (JObj (section' ''alerts''))),
                            fc_github = github, fc_repos = normalizeRepos (omap_get cfg ''repos''),
                            fc_intervalMs = derivePollingConfig (section' ''polling''),
                            fc_workspace = deriveWorkspaceConfig e (section' ''workspace'') (section' ''hooks''),
                            fc_agent = deriveAgentConfig (section' ''agent''),
                            fc_codex = deriveCodexConfig e (section' ''codex'') (section' ''agent''),
                            fc_stateMachine = normalizeStateMachine (Some (JObj (section' ''state_machine''))),
                            fc_port = deriveServerConfig (section' ''server''),
                            fc_webhook = deriveWebhookConfig e (section' ''webhook'')\<rparr>)))"

text \<open>The part of the configuration the orchestrator reads.\<close>

definition orchestrator_view :: "full_config \<Rightarrow> service_config" where
  "orchestrator_view c =
     \<lparr>trk_activeStates = ts_activeStates (fc_tracker c), trk_terminalStates = ts_terminalStates (fc_tracker c),
      cfg_stateMachine = fc_stateMachine c, cfg_intervalMs = fc_intervalMs c, cfg_workspaceRoot = wk_root (fc_workspace c),
      cfg_strategy = wk_strategy (fc_workspace c), cfg_branchPrefix = wk_branchPrefix (fc_workspace c),
      maxConcurrentAgents = ag_maxConcurrentAgents (fc_agent c),
      maxConcurrentAgentsByState = ag_maxConcurrentAgentsByState (fc_agent c),
      maxRetryBackoffMs = ag_maxRetryBackoffMs (fc_agent c), maxContinuationAttempts = ag_maxContinuationAttempts (fc_agent c),
      successState = ag_successState (fc_agent c), autoClaim = ag_autoClaim (fc_agent c), codex_model = cx_model (fc_codex c),
      codex_reasoningEffort = cx_reasoningEffort (fc_codex c), codex_stallTimeoutMs = cx_stallTimeoutMs (fc_codex c)\<rparr>"

section \<open>validators.ts\<close>

record validation_error =
  ve_code :: string
  ve_message :: string

definition validation :: "string \<Rightarrow> string \<Rightarrow> validation_error option" where
  "validation code message = Some \<lparr>ve_code = code, ve_message = message\<rparr>"

text \<open>The first field \<open>dispatchTrackerSchema.safeParse\<close> rejects.\<close>

definition tracker_issue :: "tracker_section \<Rightarrow> string option" where
  "tracker_issue t =
     (if ts_kind t \<noteq> ''linear'' then Some ''kind''
      else if ts_apiKey t = [] then Some ''apiKey''
      else if ts_endpoint t = [] then Some ''endpoint''
      else if coalesce (ts_projectSlug t) [] = [] then Some ''projectSlug'' else None)"

definition trackerIssueToError :: "string \<Rightarrow> string \<Rightarrow> validation_error option" where
  "trackerIssueToError field trackerKind =
     (if field = ''kind'' then validation ''invalid_tracker_kind'' (''tracker.kind must be '' @ quote ''linear'' @ ''; received '' @ quote trackerKind)
      else if field = ''apiKey'' then validation ''missing_tracker_api_key'' ''tracker.api_key is required after env resolution''
      else if field = ''endpoint'' then validation ''missing_tracker_endpoint'' ''tracker.endpoint is required''
      else if field = ''projectSlug'' then validation ''missing_tracker_project_slug'' ''tracker.project_slug is required when tracker.kind is linear''
      else validation ''invalid_tracker_config'' (''tracker.'' @ field @ '' is invalid''))"

definition validateTrackerConfig :: "full_config \<Rightarrow> validation_error option" where
  "validateTrackerConfig c =
     (case tracker_issue (fc_tracker c) of
        Some field \<Rightarrow> trackerIssueToError field (ts_kind (fc_tracker c))
      | None \<Rightarrow>
          if normalizeStateList (ts_activeStates (fc_tracker c)) = []
          then validation ''invalid_tracker_active_states'' ''tracker.active_states must contain at least one state''
          else if normalizeStateList (ts_terminalStates (fc_tracker c)) = []
          then validation ''invalid_tracker_terminal_states'' ''tracker.terminal_states must contain at least one state''
          else None)"

definition auth_json_path :: "derive_env \<Rightarrow> full_config \<Rightarrow> string" where
  "auth_json_path e c = dv_path_join e (cx_sourceHome (fc_codex c)) ''auth.json''"

definition validateCodexAuthConfig :: "derive_env \<Rightarrow> (string \<Rightarrow> bool) \<Rightarrow> full_config \<Rightarrow> validation_error option" where
  "validateCodexAuthConfig e fileExists c =
     (if cx_command (fc_codex c) = [] then validation ''missing_codex_command'' ''codex.command is required''
      else if cx_authMode (fc_codex c) = OpenaiLogin \<and> \<not> fileExists (auth_json_path e c)
      then validation ''missing_codex_auth_json'' (''codex.auth.mode=openai_login requires auth.json at '' @ auth_json_path e c)
      else if cx_turnTimeoutMs (fc_codex c) \<le> 0
      then validation ''invalid_turn_timeout_ms'' ''codex.turn_timeout_ms must be greater than zero''
      else None)"

definition validateCodexProviderConfig :: "full_config \<Rightarrow> validation_error option" where
  "validateCodexProviderConfig c =
     (case cx_provider (fc_codex c) of
        None \<Rightarrow> None
      | Some p \<Rightarrow>
          if coalesce (pv_baseUrl p) [] = []
          then validation ''missing_codex_provider_base_url'' ''codex.provider.base_url is required when codex.provider is configured''
          else if cx_authMode (fc_codex c) = OpenaiLogin \<and> \<not> pv_requiresOpenaiAuth p
          then validation ''invalid_codex_provider_auth_mode''
                 ''codex.provider.requires_openai_auth must be true when codex.auth.mode=openai_login and a custom provider is configured''
          else None)"

text \<open>The code collects a set; repeated names do not change which one is reported first.\<close>

definition required_env :: "full_config \<Rightarrow> string list" where
  "required_env c =
     (case cx_provider (fc_codex c) of
         None \<Rightarrow> [''OPENAI_API_KEY'']
       | Some p \<Rightarrow> (case truthy_string (pv_envKey p) of Some k \<Rightarrow> [k] | None \<Rightarrow> [])) @
     (case cx_provider (fc_codex c) of None \<Rightarrow> [] | Some p \<Rightarrow> omap_values (pv_envHttpHeaders p))"

definition validateApiKeyEnv :: "(string \<Rightarrow> string option) \<Rightarrow> full_config \<Rightarrow> validation_error option" where
  "validateApiKeyEnv env c =
     (if cx_authMode (fc_codex c) \<noteq> ApiKey then None
      else case filter (\<lambda>k. truthy_string (env k) = None) (required_env c) of
             [] \<Rightarrow> None
           | k # _ \<Rightarrow> validation ''missing_codex_provider_env'' (''codex runtime requires '' @ k @ '' in the host environment''))"

definition validateDispatch :: "derive_env \<Rightarrow> (string \<Rightarrow> bool) \<Rightarrow> full_config \<Rightarrow> validation_error option" where
  "validateDispatch e fileExists c =
     or_else (validateTrackerConfig c)
       (or_else (validateCodexAuthConfig e fileExists c)
          (or_else (validateCodexProviderConfig c) (validateApiKeyEnv (dv_env e) c)))"

definition replace_prefix :: "string \<Rightarrow> string \<Rightarrow> string \<Rightarrow> string" where
  "replace_prefix pre new t = (if starts_with pre t then new @ drop (length pre) t else t)"

definition normalizeRepoTarget :: "string option \<Rightarrow> string" where
  "normalizeRepoTarget v =
     (case truthy_string v of
        None \<Rightarrow> []
      | Some t \<Rightarrow>
          let low = js_lower (js_trim t);
              bare = (if ends_with ''.git'' low then take (length low - 4) low else low)
          in replace_prefix ''ssh://git@github.com/'' ''https://github.com/''
               (replace_prefix ''git@github.com:'' ''https://github.com/'' bare))"

definition collectDispatchWarnings :: "full_config \<Rightarrow> validation_error list" where
  "collectDispatchWarnings c =
     List.map_filter (\<lambda>r.
       if \<not> str_includes (normalizeRepoTarget (Some (rp_repoUrl r))) ''risoluto'' \<and> normalizeRepoTarget (rp_githubRepo r) \<noteq> ''risoluto''
       then None
       else validation ''self_routing_repo''
              (''repo route '' @ quote (coalesce (or_else (rp_identifierPrefix r) (rp_label r)) (rp_repoUrl r)) @ '' points to '' @
               ''risoluto itself. This is fine for self-test traffic, but it will make dispatched agents modify '' @
               ''the orchestrator repo instead of the intended target repository.''))
       (fc_repos c)"

text \<open>\<open>evaluateSetupMode\<close> of \<open>src/src/cli/index.ts\<close>: whether set-up is needed, and the exit code.\<close>

definition evaluateSetupMode :: "validation_error option \<Rightarrow> bool \<Rightarrow> bool \<times> int option" where
  "evaluateSetupMode validationError needsSetup =
     (if needsSetup then (True, None)
      else case validationError of
             None \<Rightarrow> (False, None)
           | Some err \<Rightarrow> if ve_code err \<in> {''missing_tracker_api_key'', ''missing_tracker_project_slug''} then (True, None)
                          else (False, Some 1))"

section \<open>defaults.ts\<close>

definition stage_json :: "string \<Rightarrow> string \<Rightarrow> json" where
  "stage_json name kind = JObj [(''name'', JStr name), (''kind'', JStr kind)]"

definition DEFAULT_CODEX_SECTION :: "(string, json) omap" where
  "DEFAULT_CODEX_SECTION =
     [(''command'', JStr ''codex app-server''), (''model'', JStr ''gpt-5.4''), (''reasoning_effort'', JStr ''high''),
      (''approval_policy'', JStr ''never''), (''thread_sandbox'', JStr ''workspace-write''), (''personality'', JStr ''friendly''),
      (''self_review'', JBool False), (''read_timeout_ms'', JNum 5000), (''turn_timeout_ms'', JNum 3600000),
      (''drain_timeout_ms'', JNum 2000), (''startup_timeout_ms'', JNum 30000), (''stall_timeout_ms'', JNum 300000),
      (''structured_output'', JBool False),
      (''auth'', JObj [(''mode'', JStr ''api_key''), (''source_home'', JStr ''~/.codex'')]),
      (''sandbox'', JObj
        [(''image'', JStr ''risoluto-codex:latest''), (''network'', JStr ''''),
         (''security'', JObj [(''no_new_privileges'', JBool True), (''drop_capabilities'', JBool True),
            (''gvisor'', JBool False), (''seccomp_profile'', JStr '''')]),
         (''resources'', JObj [(''memory'', JStr ''4g''), (''memory_reservation'', JStr ''1g''), (''memory_swap'', JStr ''4g''),
            (''cpus'', JStr ''2.0''), (''tmpfs_size'', JStr ''512m'')]),
         (''logs'', JObj [(''driver'', JStr ''json-file''), (''max_size'', JStr ''50m''), (''max_file'', JNum 3)])])]"

definition DEFAULT_CONFIG_SECTIONS :: "(string, json) omap" where
  "DEFAULT_CONFIG_SECTIONS =
     [(''tracker'', JObj [(''kind'', JStr ''linear''), (''endpoint'', JStr ''https://api.linear.app/graphql''),
         (''active_states'', JArr [JStr ''Backlog'', JStr ''Todo'', JStr ''In Progress'']),
         (''terminal_states'', JArr [JStr ''Done'', JStr ''Canceled''])]),
      (''workspace'', JObj [(''root'', JStr ''../risoluto-workspaces''), (''strategy'', JStr ''directory''), (''branch_prefix'', JStr ''risoluto/'')]),
      (''hooks'', JObj [(''timeout_ms'', JNum 60000)]),
      (''agent'', JObj [(''max_concurrent_agents'', JNum 10), (''max_turns'', JNum 20), (''max_retry_backoff_ms'', JNum 300000),
         (''max_continuation_attempts'', JNum 5), (''stall_timeout_ms'', JNum 1200000)]),
      (''codex'', JObj DEFAULT_CODEX_SECTION),
      (''server'', JObj [(''port'', JNum 4000)]),
      (''polling'', JObj [(''interval_ms'', JNum 15000)]),
      (''notifications'', JObj [(''channels'', JArr [])]),
      (''triggers'', JObj [(''allowed_actions'', JArr [JStr ''refresh_issue'']), (''rate_limit_per_minute'', JNum 30)]),
      (''automations'', JObj []),
      (''alerts'', JObj [(''rules'', JArr [])]),
      (''github'', JObj []),
      (''repos'', JObj []),
      (''state_machine'', JObj [(''stages'', JArr
         [stage_json ''Backlog'' ''backlog'', stage_json ''Todo'' ''todo'', stage_json ''In Progress'' ''active'',
          stage_json ''In Review'' ''gate'', stage_json ''Done'' ''terminal'', stage_json ''Canceled'' ''terminal''])]),
      (''system'', JObj [(''setupCompletedAt'', JNull), (''selectedTemplateId'', JNull)])]"

text \<open>\<open>seedDefaults\<close> of \<open>src/src/persistence/sqlite/runtime.ts\<close>: each table on its own, when it is empty.\<close>

definition seedDefaults :: "config_tables \<Rightarrow> config_tables" where
  "seedDefaults t =
     \<lparr>tb_config = (if tb_config t = [] then map (\<lambda>(k, v). (k, json_stringify v)) DEFAULT_CONFIG_SECTIONS else tb_config t),
      tb_templates = (if tb_templates t = [] then [(''default'', DEFAULT_PROMPT_TEMPLATE)] else tb_templates t)\<rparr>"

end
