(* ===== verification/ConfigPipelineClaims.thy ===== *)
theory ConfigPipelineClaims
  imports ConfigPipeline
begin

text \<open>
  What the derivation of the configuration promises: unique channel names, outbound URLs on allowed hosts only,
  aliases, the defaults, and exactly when dispatch is allowed.
\<close>

section \<open>Channel names\<close>

lemma next_suffix_fresh: "suffixed name (next_suffix name names k) \<notin> set names"
  by (induction name names k rule: next_suffix.induct) (subst next_suffix.simps, simp)

lemma deduplicate_fresh:
  "fst (deduplicateChannelName name names) \<notin> set names \<and>
   snd (deduplicateChannelName name names) = names @ [fst (deduplicateChannelName name names)]"
  using next_suffix_fresh by (simp add: deduplicateChannelName_def Let_def)

lemma normalize_channel_names:
  assumes "normalize_channel e ch names = Inr (c, names')"
  shows "(c = None \<and> names' = names) \<or> (\<exists>x. c = Some x \<and> cc_name x \<notin> set names \<and> names' = names @ [cc_name x])"
  using assms deduplicate_fresh
  by (auto simp: normalize_channel_def Let_def split: if_splits sum.splits)

lemma normalize_channels_distinct:
  "normalize_channels e chs names = Inr cs \<Longrightarrow> distinct (map cc_name cs) \<and> set (map cc_name cs) \<inter> set names = {}"
proof (induction chs arbitrary: names cs)
  case (Cons ch chs)
  then obtain c names' ds where one: "normalize_channel e ch names = Inr (c, names')"
    and rest: "normalize_channels e chs names' = Inr ds" and cs: "cs = (case c of None \<Rightarrow> ds | Some x \<Rightarrow> x # ds)"
    by (auto split: sum.splits)
  from normalize_channel_names [OF one] Cons.IH [OF rest] show ?case
    by (auto simp: cs disjoint_iff)
qed simp

definition with_legacy :: "slack_config option \<Rightarrow> channel_config list \<Rightarrow> channel_config list" where
  "with_legacy slack channels = (case slack of
     Some sk \<Rightarrow> if list_ex (\<lambda>ch. cc_name ch = ''slack'') channels then channels
                else \<lparr>cc_kind = CSlack (sk_webhookUrl sk) (sk_verbosity sk), cc_name = ''slack'',
                       cc_enabled = True, cc_minSeverity = SevInfo\<rparr> # channels
   | None \<Rightarrow> channels)"

lemma normalizeNotifications_Inr:
  assumes "normalizeNotifications e v = Inr c"
  obtains slack channels where
    "normalizeLegacySlackConfig e (asRecord (omap_get (asRecord v) ''slack'')) = Inr slack"
    "normalize_channels e (asRecordArray (omap_get (asRecord v) ''channels'')) [] = Inr channels"
    "nc_channels c = with_legacy slack channels"
  using assms
  by (auto simp: normalizeNotifications_def normalizeNotificationChannels_def with_legacy_def Let_def split: sum.splits)

text \<open>
  However the channels are named in the configuration, the names of the derived channels are distinct, the
  legacy Slack channel put in front included.
\<close>

theorem channel_names_distinct:
  assumes "normalizeNotifications e v = Inr c"
  shows "distinct (map cc_name (nc_channels c))"
proof -
  obtain slack chs where n: "normalize_channels e (asRecordArray (omap_get (asRecord v) ''channels'')) [] = Inr chs"
    and c: "nc_channels c = with_legacy slack chs"
    using assms by (rule normalizeNotifications_Inr)
  from normalize_channels_distinct [OF n] show ?thesis
    by (auto simp: c with_legacy_def list_ex_iff split: option.splits)
qed

definition sample_derive :: derive_env where
  "sample_derive = \<lparr>dv_env = (\<lambda>_. None), dv_secret = None, dv_tmpdir = ''/tmp'', dv_path_join = (\<lambda>a b. a @ ''/'' @ b),
     dv_path_resolve = (\<lambda>p. p), dv_url = (\<lambda>t. if t = ''https://hooks.slack.com/x'' then Some (''https:'', ''hooks.slack.com'')
        else if t = ''https://api.linear.app/graphql'' then Some (''https:'', ''api.linear.app'')
        else if t = ''https://api.github.com'' then Some (''https:'', ''api.github.com'') else None),
     dv_number = (\<lambda>_. None)\<rparr>"

definition desktop_json :: json where
  "desktop_json = JObj [(''type'', JStr ''desktop'')]"

theorem channel_names_distinct_witness:
  "map_sum id (\<lambda>c. map cc_name (nc_channels c))
     (normalizeNotifications sample_derive (Some (JObj [(''channels'', JArr [desktop_json, desktop_json, desktop_json])])))
     = Inr [''desktop'', ''desktop-2'', ''desktop-3''] \<and> distinct [''desktop'', ''desktop-2'', ''desktop-3'']"
proof -
  let ?v = "Some (JObj [(''channels'', JArr [desktop_json, desktop_json, desktop_json])])"
  have names: "map_sum id (\<lambda>c. map cc_name (nc_channels c)) (normalizeNotifications sample_derive ?v)
      = Inr [''desktop'', ''desktop-2'', ''desktop-3'']" by code_simp
  then obtain c where c: "normalizeNotifications sample_derive ?v = Inr c" "map cc_name (nc_channels c) = [''desktop'', ''desktop-2'', ''desktop-3'']"
    by (cases "normalizeNotifications sample_derive ?v") auto
  have "distinct [''desktop'', ''desktop-2'', ''desktop-3'']"
    using channel_names_distinct [OF c(1)] unfolding c(2) .
  with names show ?thesis by blast
qed

section \<open>Outbound URLs\<close>

definition allowed_url :: "derive_env \<Rightarrow> string \<Rightarrow> (string \<Rightarrow> bool) \<Rightarrow> string \<Rightarrow> bool" where
  "allowed_url e envName hostAllowed url \<longleftrightarrow>
     (\<exists>t h. url = js_trim t \<and> dv_url e t = Some (''https:'', h) \<and>
        (hostAllowed (js_lower h) \<or> isHostAllowedByEnv e (js_lower h) envName))"

lemma ensureAllowedUrl_iff:
  "(\<exists>url. ensureAllowedUrl e t label envName ok = Inr url) \<longleftrightarrow>
     (\<exists>h. dv_url e t = Some (''https:'', h) \<and> (ok (js_lower h) \<or> isHostAllowedByEnv e (js_lower h) envName))"
  by (auto simp: ensureAllowedUrl_def parseUrlPolicyValue_def Let_def split: option.splits)

lemma ensureAllowedUrl_sound: "ensureAllowedUrl e t label envName ok = Inr url \<Longrightarrow> allowed_url e envName ok url"
  by (auto simp: allowed_url_def ensureAllowedUrl_def parseUrlPolicyValue_def Let_def split: option.splits if_splits)

definition channel_url_ok :: "derive_env \<Rightarrow> channel_config \<Rightarrow> bool" where
  "channel_url_ok e c \<longleftrightarrow> (case cc_kind c of
     CSlack url _ \<Rightarrow> allowed_url e ''RISOLUTO_ALLOWED_SLACK_WEBHOOK_HOSTS'' isAllowedSlackWebhookHost url
   | CWebhook url _ \<Rightarrow> allowed_url e ''RISOLUTO_ALLOWED_NOTIFICATION_WEBHOOK_HOSTS'' isAllowedNotificationWebhookHost url
   | CDesktop \<Rightarrow> True)"

lemma normalize_channel_url:
  "normalize_channel e ch names = Inr (Some c, names') \<Longrightarrow> channel_url_ok e c"
  by (auto simp: normalize_channel_def Let_def channel_url_ok_def normalizeSlackWebhookUrl_def
      normalizeNotificationWebhookUrl_def dest!: ensureAllowedUrl_sound split: if_splits sum.splits)

lemma normalize_channels_url:
  "normalize_channels e chs names = Inr cs \<Longrightarrow> c \<in> set cs \<Longrightarrow> channel_url_ok e c"
proof (induction chs arbitrary: names cs)
  case (Cons ch chs)
  then obtain d names' ds where one: "normalize_channel e ch names = Inr (d, names')"
    and rest: "normalize_channels e chs names' = Inr ds" and cs: "cs = (case d of None \<Rightarrow> ds | Some x \<Rightarrow> x # ds)"
    by (auto split: sum.splits)
  from Cons.prems(2) have "c \<in> set ds \<or> d = Some c" by (auto simp: cs split: option.splits)
  then show ?case using Cons.IH [OF rest] normalize_channel_url one by blast
qed simp

lemma notifications_url:
  assumes "normalizeNotifications e v = Inr c" "ch \<in> set (nc_channels c)"
  shows "channel_url_ok e ch"
proof -
  obtain slack chs where s: "normalizeLegacySlackConfig e (asRecord (omap_get (asRecord v) ''slack'')) = Inr slack"
    and n: "normalize_channels e (asRecordArray (omap_get (asRecord v) ''channels'')) [] = Inr chs"
    and c: "nc_channels c = with_legacy slack chs"
    using assms(1) by (rule normalizeNotifications_Inr)
  have "slack = Some sk \<Longrightarrow> allowed_url e ''RISOLUTO_ALLOWED_SLACK_WEBHOOK_HOSTS'' isAllowedSlackWebhookHost (sk_webhookUrl sk)" for sk
    using s by (auto simp: normalizeLegacySlackConfig_def Let_def normalizeSlackWebhookUrl_def
        dest!: ensureAllowedUrl_sound split: if_splits sum.splits)
  with assms(2) normalize_channels_url [OF n] show ?thesis
    by (auto simp: c with_legacy_def channel_url_ok_def split: option.splits if_splits)
qed

definition checked_urls_ok :: "derive_env \<Rightarrow> full_config \<Rightarrow> bool" where
  "checked_urls_ok e c \<longleftrightarrow>
     allowed_url e ''RISOLUTO_ALLOWED_TRACKER_HOSTS''
       (if ts_kind (fc_tracker c) = ''github'' then isAllowedGitHubHost else isAllowedLinearHost) (ts_endpoint (fc_tracker c)) \<and>
     list_all (channel_url_ok e) (nc_channels (fc_notifications c)) \<and>
     (case fc_github c of None \<Rightarrow> True
      | Some g \<Rightarrow> allowed_url e ''RISOLUTO_ALLOWED_GITHUB_API_HOSTS'' isAllowedGitHubHost (gh_apiBaseUrl g))"

text \<open>
  C32: In a configuration that was derived the endpoint of the tracker, the URL of every notification channel and the base
  URL of the GitHub API are https URLs whose host is in the built-in list or in the environment's list. The base URL of a
  custom model provider and the repositories are not checked, as the lemma after the witness shows.
\<close>

theorem derived_urls_allowed:
  assumes "deriveServiceConfig e cfg = Inr c"
  shows "checked_urls_ok e c"
proof -
  from assms obtain t n g where t: "deriveTrackerConfig e (asRecord (omap_get cfg ''tracker'')) = Inr t" "fc_tracker c = t"
    and n: "normalizeNotifications e (Some (JObj (asRecord (omap_get cfg ''notifications'')))) = Inr n" "fc_notifications c = n"
    and g: "normalizeGitHub e (Some (JObj (asRecord (omap_get cfg ''github'')))) = Inr g" "fc_github c = g"
    by (auto simp: deriveServiceConfig_def Let_def split: sum.splits)
  have "allowed_url e ''RISOLUTO_ALLOWED_TRACKER_HOSTS''
       (if ts_kind t = ''github'' then isAllowedGitHubHost else isAllowedLinearHost) (ts_endpoint t)"
    using t(1) by (auto simp: deriveTrackerConfig_def Let_def normalizeTrackerEndpoint_def
        dest!: ensureAllowedUrl_sound split: sum.splits if_splits)
  moreover have "case g of None \<Rightarrow> True
      | Some x \<Rightarrow> allowed_url e ''RISOLUTO_ALLOWED_GITHUB_API_HOSTS'' isAllowedGitHubHost (gh_apiBaseUrl x)"
    using g(1) by (auto simp: normalizeGitHub_def Let_def normalizeGitHubApiBaseUrl_def
        dest!: ensureAllowedUrl_sound split: sum.splits if_splits)
  ultimately show ?thesis
    using notifications_url [OF n(1)] by (simp add: checked_urls_ok_def t(2) n(2) g(2) list_all_iff)
qed

theorem derived_urls_allowed_witness:
  "case deriveServiceConfig sample_derive [] of Inl _ \<Rightarrow> False
   | Inr c \<Rightarrow> ts_endpoint (fc_tracker c) = ''https://api.linear.app/graphql'' \<and> checked_urls_ok sample_derive c"
proof -
  have "case deriveServiceConfig sample_derive [] of Inl _ \<Rightarrow> False
   | Inr c \<Rightarrow> ts_endpoint (fc_tracker c) = ''https://api.linear.app/graphql''" by code_simp
  then show ?thesis
    using derived_urls_allowed [of sample_derive "[]"] by (auto split: sum.splits)
qed

lemma other_urls_unchecked:
  "case deriveServiceConfig sample_derive
     [(''codex'', JObj [(''provider'', JObj [(''base_url'', JStr ''http://10.0.0.1/v1'')])]),
      (''repos'', JArr [JObj [(''repo_url'', JStr ''http://10.0.0.1/r.git''), (''label'', JStr ''x'')]])] of
     Inl _ \<Rightarrow> False
   | Inr c \<Rightarrow> Option.bind (cx_provider (fc_codex c)) pv_baseUrl = Some ''http://10.0.0.1/v1'' \<and>
       map rp_repoUrl (fc_repos c) = [''http://10.0.0.1/r.git'']"
  by code_simp

section \<open>Validation\<close>

text \<open>
  Dispatch is allowed exactly when the tracker is Linear with a key, an endpoint, a project and both kinds of
  states, the agent has a command, a positive turn timeout and its login file if it logs in by one, a custom
  provider has a base URL and fits the login mode, and every needed environment variable is set.
\<close>

theorem validateDispatch_exact:
  "validateDispatch e fileExists c = None \<longleftrightarrow>
     ts_kind (fc_tracker c) = ''linear'' \<and> ts_apiKey (fc_tracker c) \<noteq> [] \<and> ts_endpoint (fc_tracker c) \<noteq> [] \<and>
     coalesce (ts_projectSlug (fc_tracker c)) [] \<noteq> [] \<and>
     normalizeStateList (ts_activeStates (fc_tracker c)) \<noteq> [] \<and> normalizeStateList (ts_terminalStates (fc_tracker c)) \<noteq> [] \<and>
     cx_command (fc_codex c) \<noteq> [] \<and> cx_turnTimeoutMs (fc_codex c) > 0 \<and>
     validateCodexProviderConfig c = None \<and>
     (case cx_authMode (fc_codex c) of
        OpenaiLogin \<Rightarrow> fileExists (auth_json_path e c)
      | ApiKey \<Rightarrow> list_all (\<lambda>k. truthy_string (dv_env e k) \<noteq> None) (required_env c))"
proof -
  have tr: "validateTrackerConfig c = None \<longleftrightarrow>
     ts_kind (fc_tracker c) = ''linear'' \<and> ts_apiKey (fc_tracker c) \<noteq> [] \<and> ts_endpoint (fc_tracker c) \<noteq> [] \<and>
     coalesce (ts_projectSlug (fc_tracker c)) [] \<noteq> [] \<and>
     normalizeStateList (ts_activeStates (fc_tracker c)) \<noteq> [] \<and> normalizeStateList (ts_terminalStates (fc_tracker c)) \<noteq> []"
    by (simp add: validateTrackerConfig_def tracker_issue_def trackerIssueToError_def validation_def)
  have au: "validateCodexAuthConfig e fileExists c = None \<longleftrightarrow>
     cx_command (fc_codex c) \<noteq> [] \<and> cx_turnTimeoutMs (fc_codex c) > 0 \<and>
     (cx_authMode (fc_codex c) = OpenaiLogin \<longrightarrow> fileExists (auth_json_path e c))"
    by (auto simp: validateCodexAuthConfig_def validation_def)
  have en: "validateApiKeyEnv (dv_env e) c = None \<longleftrightarrow>
     (cx_authMode (fc_codex c) = ApiKey \<longrightarrow> list_all (\<lambda>k. truthy_string (dv_env e k) \<noteq> None) (required_env c))"
    by (auto simp: validateApiKeyEnv_def validation_def list_all_iff filter_empty_conv dest: filter_eq_ConsD split: list.splits)
  have "or_else a b = None \<longleftrightarrow> a = None \<and> b = None" for a b :: "validation_error option"
    by (cases a) simp_all
  then show ?thesis
    by (auto simp: validateDispatch_def tr au en split: codex_auth_mode.splits)
qed

text \<open>
  A service configured for the GitHub tracker never starts: its configuration is derived and a tracker for it
  exists, but the validation accepts Linear only, and the error it gives does not lead to set-up mode.
\<close>

theorem github_tracker_never_starts:
  assumes "deriveServiceConfig e cfg = Inr c" "omap_get (asRecord (omap_get cfg ''tracker'')) ''kind'' = Some (JStr ''github'')"
  shows "evaluateSetupMode (validateDispatch e fileExists c) False = (False, Some 1)"
proof -
  have "ts_kind (fc_tracker c) = ''github''"
    using assms by (auto simp: deriveServiceConfig_def deriveTrackerConfig_def Let_def asStringOr_def split: sum.splits)
  then have "validateTrackerConfig c = validation ''invalid_tracker_kind'' (''tracker.kind must be '' @ quote ''linear'' @ ''; received '' @ quote ''github'')"
    by (simp add: validateTrackerConfig_def tracker_issue_def trackerIssueToError_def)
  then show ?thesis by (simp add: validateDispatch_def validation_def evaluateSetupMode_def)
qed

definition github_sample :: "(string, json) omap" where
  "github_sample = [(''tracker'', JObj [(''kind'', JStr ''github'')])]"

theorem github_tracker_never_starts_witness:
  "case deriveServiceConfig sample_derive github_sample of Inl _ \<Rightarrow> False
   | Inr c \<Rightarrow> evaluateSetupMode (validateDispatch sample_derive (\<lambda>_. True) c) False = (False, Some 1)"
proof -
  have "case deriveServiceConfig sample_derive github_sample of Inl _ \<Rightarrow> False | Inr c \<Rightarrow> True" by code_simp
  moreover have "omap_get (asRecord (omap_get github_sample ''tracker'')) ''kind'' = Some (JStr ''github'')" by code_simp
  ultimately show ?thesis
    using github_tracker_never_starts [of sample_derive github_sample] by (auto split: sum.splits)
qed

section \<open>Aliases and limits\<close>

lemma normalizeRecord_other:
  "k \<notin> fst ` set reg \<Longrightarrow> omap_get (normalizeRecord out reg) k = omap_get out k"
  by (induction out reg rule: normalizeRecord.induct) (auto split: option.splits)

text \<open>
  After the aliases are resolved a setting has the value under its snake-case key, or, when that is missing or
  null, the value under its camel-case key.
\<close>

theorem aliases_resolved:
  assumes "distinct (map fst reg)" "(snake, camel) \<in> set reg" "camel \<notin> fst ` set reg"
  shows "non_null (omap_get (normalizeRecord out reg) snake) =
    or_else (non_null (omap_get out snake)) (non_null (omap_get out camel))"
  using assms
proof (induction out reg rule: normalizeRecord.induct)
  case (2 out s c aliases)
  let ?out = "case (non_null (omap_get out s), non_null (omap_get out c)) of (None, Some v) \<Rightarrow> omap_set s v out | _ \<Rightarrow> out"
  have nn: "non_null (Some v) = Some v" if "non_null x = Some v" for x v
    using that by (auto simp: non_null_def split: if_splits)
  show ?case
  proof (cases "snake = s")
    case True
    then have "camel = c" "s \<notin> fst ` set aliases" using "2.prems" by (auto simp: image_iff)
    with True show ?thesis
      by (auto simp: normalizeRecord_other nn split: option.splits)
  next
    case False
    then have "(snake, camel) \<in> set aliases" "camel \<noteq> s" using "2.prems" by auto
    moreover have "omap_get ?out snake = omap_get out snake" "omap_get ?out camel = omap_get out camel"
      using False \<open>camel \<noteq> s\<close> by (auto split: option.splits)
    ultimately show ?thesis using "2.IH" "2.prems" by simp
  qed
qed simp

theorem aliases_resolved_witness:
  "non_null (omap_get (normalizeRecord [(''maxTurns'', JNum 3)] AGENT_ALIAS_REGISTRY) ''max_turns'') = Some (JNum 3)"
proof -
  have r: "distinct (map fst AGENT_ALIAS_REGISTRY)" "(''max_turns'', ''maxTurns'') \<in> set AGENT_ALIAS_REGISTRY"
    "''maxTurns'' \<notin> fst ` set AGENT_ALIAS_REGISTRY"
    by (simp_all add: AGENT_ALIAS_REGISTRY_def)
  from aliases_resolved [OF r, of "[(''maxTurns'', JNum 3)]"] show ?thesis
    by (simp add: non_null_def omap_get_def)
qed

lemma fold_set_keys: "set (omap_keys (fold (\<lambda>(k, v) m. omap_set k v m) kvs m)) = fst ` set kvs \<union> set (omap_keys m)"
  by (induction kvs arbitrary: m) auto

text \<open>
  The per-state limits the orchestrator gets are under the very keys it looks them up by: every key is its own
  normal form, and none occurs twice.
\<close>

theorem derived_limits_normal:
  "omap_ok (ag_maxConcurrentAgentsByState (deriveAgentConfig agent)) \<and>
   list_all (\<lambda>k. normalizeStateKey k = k) (omap_keys (ag_maxConcurrentAgentsByState (deriveAgentConfig agent)))"
proof -
  let ?kvs = "map (\<lambda>(st, limit). (js_lower (js_trim st), limit))
      (asNumberMap (omap_get (normalizeRecord agent AGENT_ALIAS_REGISTRY) ''max_concurrent_agents_by_state''))"
  have "ag_maxConcurrentAgentsByState (deriveAgentConfig agent) = omap_of ?kvs"
    by (simp add: deriveAgentConfig_def Let_def)
  moreover have "js_lower (js_trim (js_lower (js_trim t))) = js_lower (js_trim t)" for t
    by (simp add: js_trim_lower)
  ultimately show ?thesis
    by (auto simp: list_all_iff omap_of_def fold_set_keys omap_keys_def [of "[]"] normalizeStateKey_def omap_ok_fold_set)
qed

section \<open>The defaults\<close>

lemmas section_readers = asRecord_def omap_get_def asStringOr_def asNumberOr_def asBooleanOr_def asStringArrayOr_def
  asLooseStringArray_def asString_def array_items_def asRecordArray_def List.map_filter_def asStringMap_def asNumberMap_def
  non_null_def omap_has_def

lemma resolve_plain:
  assumes "t \<noteq> []" "CHR ''$'' \<notin> set t" "hd t \<noteq> CHR ''~''"
  shows "resolveConfigString e (Some (JStr t)) = t"
proof -
  have no: "replace_all ''$TMPDIR'' r u = u" if "CHR ''$'' \<notin> set u" for r u
    using that by (induction u) (subst replace_all.simps, simp)+
  have "\<not> is_secret_reference t" "\<not> is_env_reference t"
    using assms(2) by (auto simp: is_secret_reference_def is_env_reference_def starts_with_iff split: list.splits)
  moreover have "t \<noteq> ''~''" "\<not> starts_with ''~/'' t" using assms(3) by (auto simp: starts_with_iff)
  ultimately show ?thesis
    using no [OF assms(2)] by (simp add: resolveConfigString_def resolveEnvBackedString_def expandHomePath_def resolveTmpDir_def)
qed

lemma default_tracker:
  "deriveTrackerConfig e (asRecord (omap_get DEFAULT_CONFIG_SECTIONS ''tracker'')) = deriveTrackerConfig e []"
proof -
  have "resolveConfigString e (Some (JStr ''https://api.linear.app/graphql'')) = ''https://api.linear.app/graphql''"
    by (rule resolve_plain) simp_all
  moreover have "resolveConfigString e None = []"
    by (simp add: resolveConfigString_def resolveEnvBackedString_def expandHomePath_def resolveTmpDir_def replace_all.simps)
  moreover have "js_trim ''Backlog'' \<noteq> []" "js_trim ''Todo'' \<noteq> []" "js_trim ''In Progress'' \<noteq> []" "js_trim ''Done'' \<noteq> []" "js_trim ''Canceled'' \<noteq> []"
    by code_simp+
  ultimately show ?thesis
    by (simp add: deriveTrackerConfig_def DEFAULT_CONFIG_SECTIONS_def section_readers or_text_def Let_def
        DEFAULT_ACTIVE_STATES_def DEFAULT_TERMINAL_STATES_def cong: sum.case_cong)
qed

lemma default_codex:
  "deriveCodexConfig e DEFAULT_CODEX_SECTION (asRecord (omap_get DEFAULT_CONFIG_SECTIONS ''agent'')) =
     (deriveCodexConfig e [] [])\<lparr>cx_approvalPolicy := Some (JStr ''never'')\<rparr>"
  by (simp add: deriveCodexConfig_def DEFAULT_CODEX_SECTION_def DEFAULT_CONFIG_SECTIONS_def section_readers Let_def
      asReasoningEffort_def effort_of_def normalizeApprovalPolicy_def LEGACY_APPROVAL_ALIASES_def OBJECT_PROTOTYPE_MEMBERS_def
      VALID_APPROVAL_POLICIES_def asCodexAuthMode_def normalizeCodexProvider_def deriveSandboxConfig_def
      deriveSandboxSecurityConfig_def deriveSandboxResourcesConfig_def deriveSandboxLogsConfig_def)

lemma default_agent: "deriveAgentConfig (asRecord (omap_get DEFAULT_CONFIG_SECTIONS ''agent'')) = deriveAgentConfig []"
  by (simp add: deriveAgentConfig_def AGENT_ALIAS_REGISTRY_def DEFAULT_CONFIG_SECTIONS_def section_readers Let_def)

definition seeded_stages :: "stage_config list" where
  "seeded_stages = [\<lparr>sc_name = ''Backlog'', sc_kind = KBacklog\<rparr>, \<lparr>sc_name = ''Todo'', sc_kind = KTodo\<rparr>,
     \<lparr>sc_name = ''In Progress'', sc_kind = KActive\<rparr>, \<lparr>sc_name = ''In Review'', sc_kind = KGate\<rparr>,
     \<lparr>sc_name = ''Done'', sc_kind = KTerminal\<rparr>, \<lparr>sc_name = ''Canceled'', sc_kind = KTerminal\<rparr>]"

definition with_seeded :: "full_config \<Rightarrow> full_config" where
  "with_seeded c = c\<lparr>fc_codex := (fc_codex c)\<lparr>cx_approvalPolicy := Some (JStr ''never'')\<rparr>,
     fc_triggers := Some \<lparr>tr_apiKey = None, tr_allowedActions = [RefreshIssue], tr_githubSecret = None, tr_rateLimitPerMinute = 30\<rparr>,
     fc_stateMachine := Some \<lparr>smc_stages = seeded_stages, smc_transitions = []\<rparr>\<rparr>"

lemma default_workspace:
  "dv_env e ''RISOLUTO_CONTAINER_WORKSPACE_ROOT'' = None \<Longrightarrow>
   deriveWorkspaceConfig e (asRecord (omap_get DEFAULT_CONFIG_SECTIONS ''workspace'')) (asRecord (omap_get DEFAULT_CONFIG_SECTIONS ''hooks''))
     = deriveWorkspaceConfig e [] []"
  by (simp add: deriveWorkspaceConfig_def DEFAULT_CONFIG_SECTIONS_def section_readers Let_def or_text_def)

lemma default_small_sections:
  "normalizeNotifications e (Some (JObj (asRecord (omap_get DEFAULT_CONFIG_SECTIONS ''notifications'')))) = normalizeNotifications e (Some (JObj []))"
  "normalizeGitHub e (Some (JObj (asRecord (omap_get DEFAULT_CONFIG_SECTIONS ''github'')))) = normalizeGitHub e (Some (JObj []))"
  "normalizeAutomations (omap_get DEFAULT_CONFIG_SECTIONS ''automations'') = normalizeAutomations None"
  "normalizeAlerts e (Some (JObj (asRecord (omap_get DEFAULT_CONFIG_SECTIONS ''alerts'')))) = normalizeAlerts e (Some (JObj []))"
  "normalizeRepos (omap_get DEFAULT_CONFIG_SECTIONS ''repos'') = normalizeRepos None"
  "derivePollingConfig (asRecord (omap_get DEFAULT_CONFIG_SECTIONS ''polling'')) = derivePollingConfig []"
  "deriveServerConfig (asRecord (omap_get DEFAULT_CONFIG_SECTIONS ''server'')) = deriveServerConfig []"
  "asRecord (omap_get DEFAULT_CONFIG_SECTIONS ''webhook'') = []"
  "asRecord (omap_get DEFAULT_CONFIG_SECTIONS ''codex'') = DEFAULT_CODEX_SECTION"
  by (simp_all add: DEFAULT_CONFIG_SECTIONS_def section_readers normalizeNotifications_def normalizeNotificationChannels_def
      normalizeGitHub_def normalizeAutomations_def normalizeAlerts_def normalizeRepos_def derivePollingConfig_def deriveServerConfig_def cong: sum.case_cong)

lemma default_stages:
  "normalizeStateMachine (Some (JObj (asRecord (omap_get DEFAULT_CONFIG_SECTIONS ''state_machine'')))) =
     Some \<lparr>smc_stages = seeded_stages, smc_transitions = []\<rparr>"
  by (simp add: DEFAULT_CONFIG_SECTIONS_def section_readers normalizeStateMachine_def normalize_stage_def stage_json_def
      stage_kind_of_def seeded_stages_def Let_def)

lemma default_triggers:
  "normalizeTriggers e (omap_get DEFAULT_CONFIG_SECTIONS ''triggers'') =
     Some \<lparr>tr_apiKey = None, tr_allowedActions = [RefreshIssue], tr_githubSecret = None, tr_rateLimitPerMinute = 30\<rparr>"
proof -
  have "js_trim ''refresh_issue'' \<noteq> []" by code_simp
  moreover have "resolveConfigString e None = []"
    by (simp add: resolveConfigString_def resolveEnvBackedString_def expandHomePath_def resolveTmpDir_def replace_all.simps)
  ultimately show ?thesis
    by (simp add: DEFAULT_CONFIG_SECTIONS_def section_readers normalizeTriggers_def text_or_null_def asTriggerAction_def
        numberOrDefault_def js_number_def)
qed

text \<open>
  The seeded sections are said to be what an empty configuration derives to. They are, up to three
  differences: the approval policy, the triggers and the state machine; and only where no workspace root comes
  from the environment, since the seeded root hides that variable.
\<close>

theorem seeded_defaults:
  assumes "dv_env e ''RISOLUTO_CONTAINER_WORKSPACE_ROOT'' = None"
  shows "deriveServiceConfig e DEFAULT_CONFIG_SECTIONS = map_sum id with_seeded (deriveServiceConfig e [])"
proof -
  have empty: "asRecord None = []" by (simp add: asRecord_def)
  show ?thesis
    unfolding deriveServiceConfig_def Let_def default_tracker default_small_sections default_stages default_triggers
      default_workspace [OF assms] default_agent default_codex omap_get_empty empty
    by (cases "deriveTrackerConfig e []"; cases "normalizeNotifications e (Some (JObj []))";
        cases "normalizeGitHub e (Some (JObj []))") (simp_all add: with_seeded_def)
qed

theorem seeded_defaults_witness:
  "deriveServiceConfig sample_derive DEFAULT_CONFIG_SECTIONS = map_sum id with_seeded (deriveServiceConfig sample_derive [])"
  by (rule seeded_defaults) (simp add: sample_derive_def)

text \<open>
  With the seeded sections below it, an overlay that only switches the tracker to GitHub is refused: the seeded
  Linear endpoint stays and is not an allowed host for GitHub.
\<close>

theorem seeded_endpoint_blocks_github:
  assumes "dv_url e ''https://api.linear.app/graphql'' = Some (''https:'', ''api.linear.app'')"
    and "dv_env e ''RISOLUTO_ALLOWED_TRACKER_HOSTS'' = None"
  shows "deriveServiceConfig e (merged_config DEFAULT_CONFIG_SECTIONS github_sample) =
    Inl (TypeError ''tracker.endpoint host api.linear.app is not allowlisted.'')"
proof -
  have r: "resolveConfigString e (Some (JStr ''https://api.linear.app/graphql'')) = ''https://api.linear.app/graphql''"
    by (rule resolve_plain) simp_all
  have low: "js_lower ''api.linear.app'' = ''api.linear.app''" by code_simp
  have no: "\<not> isAllowedGitHubHost ''api.linear.app''" "js_trim [] = []" by code_simp+
  have tr: "asRecord (omap_get (merged_config DEFAULT_CONFIG_SECTIONS github_sample) ''tracker'') =
      [(''kind'', JStr ''github''), (''endpoint'', JStr ''https://api.linear.app/graphql''),
       (''active_states'', JArr [JStr ''Backlog'', JStr ''Todo'', JStr ''In Progress'']),
       (''terminal_states'', JArr [JStr ''Done'', JStr ''Canceled''])]"
    by (simp add: merged_config_def github_sample_def DEFAULT_CONFIG_SECTIONS_def asRecord_def assign_key_def omap_has_def omap_get_def)
  show ?thesis
    unfolding deriveServiceConfig_def Let_def tr
    by (simp add: deriveTrackerConfig_def asStringOr_def omap_get_def r or_text_def normalizeTrackerEndpoint_def
        ensureAllowedUrl_def parseUrlPolicyValue_def assms low no isHostAllowedByEnv_def)
qed

theorem seeded_endpoint_blocks_github_witness:
  "deriveServiceConfig sample_derive (merged_config DEFAULT_CONFIG_SECTIONS github_sample) =
    Inl (TypeError ''tracker.endpoint host api.linear.app is not allowlisted.'')"
  by (rule seeded_endpoint_blocks_github) (simp_all add: sample_derive_def)

end
