(* ===== verification/Effects.thy ===== *)
theory Effects
  imports Prelude
begin

text \<open>
  Operations that may fail and change a world: a function from the world to an error or a value and the world after
  it. \<open>io_bind\<close> is \<open>await\<close> followed by the rest, \<open>io_catch\<close> is \<open>try\<close> and \<open>catch\<close>. Beside them the retry loops of
  \<open>src/src/utils/retry.ts\<close>.
\<close>

section \<open>Sequencing\<close>

type_synonym ('e, 'a, 'w) eio = "'w \<Rightarrow> ('e + 'a) \<times> 'w"

definition io_return :: "'a \<Rightarrow> ('e, 'a, 'w) eio" where
  "io_return a w = (Inr a, w)"

definition io_throw :: "'e \<Rightarrow> ('e, 'a, 'w) eio" where
  "io_throw err w = (Inl err, w)"

definition io_bind :: "('e, 'a, 'w) eio \<Rightarrow> ('a \<Rightarrow> ('e, 'b, 'w) eio) \<Rightarrow> ('e, 'b, 'w) eio" where
  "io_bind m f w = (case m w of (Inl err, w1) \<Rightarrow> (Inl err, w1) | (Inr a, w1) \<Rightarrow> f a w1)"

definition io_catch :: "('e, 'a, 'w) eio \<Rightarrow> ('e \<Rightarrow> ('f, 'a, 'w) eio) \<Rightarrow> ('f, 'a, 'w) eio" where
  "io_catch m h w = (case m w of (Inl err, w1) \<Rightarrow> h err w1 | (Inr a, w1) \<Rightarrow> (Inr a, w1))"

text \<open>\<open>Promise.all\<close> and loops that await each step, for operations that run one after the other.\<close>

fun io_map :: "('a \<Rightarrow> ('e, 'b, 'w) eio) \<Rightarrow> 'a list \<Rightarrow> ('e, 'b list, 'w) eio" where
  "io_map f [] = io_return []"
| "io_map f (x # xs) = io_bind (f x) (\<lambda>y. io_bind (io_map f xs) (\<lambda>ys. io_return (y # ys)))"

lemma io_simps:
  "io_bind m f w = (case m w of (Inl err, w1) \<Rightarrow> (Inl err, w1) | (Inr a, w1) \<Rightarrow> f a w1)"
  "io_catch m h w = (case m w of (Inl err, w1) \<Rightarrow> h err w1 | (Inr a, w1) \<Rightarrow> (Inr a, w1))"
  "io_return a w = (Inr a, w)" "io_throw err w = (Inl err, w)"
  by (simp_all add: io_bind_def io_catch_def io_return_def io_throw_def)

section \<open>retry.ts\<close>

text \<open>
  \<open>attempt\<close> is the number of the attempt and \<open>left\<close> how many may follow it; \<open>pause\<close> is the wait before the next one.
\<close>

fun retry_from :: "(nat \<Rightarrow> 'w \<Rightarrow> 'w) \<Rightarrow> ('e, 'a, 'w) eio \<Rightarrow> nat \<Rightarrow> nat \<Rightarrow> ('e, 'a, 'w) eio" where
  "retry_from pause fn attempt 0 = fn"
| "retry_from pause fn attempt (Suc left) = io_catch fn (\<lambda>_ w. retry_from pause fn (attempt + 1) left (pause attempt w))"

definition withRetryReturn ::
  "'e \<Rightarrow> (nat \<Rightarrow> 'w \<Rightarrow> 'w) \<Rightarrow> int \<Rightarrow> ('e, 'a, 'w) eio \<Rightarrow> ('e, 'a, 'w) eio" where
  "withRetryReturn exhausted pause maxAttempts fn =
     (if maxAttempts < 1 then io_throw exhausted else retry_from pause fn 1 (nat maxAttempts - 1))"

definition withRetry :: "(nat \<Rightarrow> 'w \<Rightarrow> 'w) \<Rightarrow> int \<Rightarrow> ('e, unit, 'w) eio \<Rightarrow> ('e, unit, 'w) eio" where
  "withRetry pause maxAttempts fn =
     (if maxAttempts < 1 then io_return () else io_catch (retry_from pause fn 1 (nat maxAttempts - 1)) (\<lambda>_. io_return ()))"

text \<open>The wait in milliseconds; \<open>jitter\<close> is \<open>randomInt(500, 1000)\<close>, and 1000 * 2^(n-1) * (jitter / 1000) is exact here.\<close>

definition retry_delay :: "nat \<Rightarrow> int \<Rightarrow> int" where
  "retry_delay attempt jitter = 2 ^ (attempt - 1) * jitter"

section \<open>What a retry does\<close>

text \<open>An operation that fails \<open>n\<close> times and then succeeds, on a world that counts the calls.\<close>

definition counted :: "(nat \<Rightarrow> 'e option) \<Rightarrow> ('e, nat, nat \<times> nat list) eio" where
  "counted fails w =
     (case fails (fst w) of
        Some err \<Rightarrow> (Inl err, (fst w + 1, snd w))
      | None \<Rightarrow> (Inr (fst w), (fst w + 1, snd w)))"

definition noting_pause :: "nat \<Rightarrow> nat \<times> nat list \<Rightarrow> nat \<times> nat list" where
  "noting_pause attempt w = (fst w, snd w @ [attempt])"

lemma retry_from_counted:
  "retry_from noting_pause (counted fails) a left (n, ps) =
     (case List.find (\<lambda>k. fails k = None) [n..<Suc (n + left)] of
        Some k \<Rightarrow> (Inr k, (Suc k, ps @ [a..<a + (k - n)]))
      | None \<Rightarrow> (Inl (the (fails (n + left))), (Suc (n + left), ps @ [a..<a + left])))"
proof (induction left arbitrary: a n ps)
  case 0
  then show ?case by (simp add: counted_def split: option.split)
next
  case (Suc left)
  show ?case
  proof (cases "fails n")
    case None
    have "[n..<Suc (n + Suc left)] = n # [Suc n..<Suc (n + Suc left)]" by (rule upt_conv_Cons) simp
    with None show ?thesis by (simp add: io_simps counted_def del: upt_Suc)
  next
    case (Some err)
    have k: "Suc n \<le> k" if "List.find (\<lambda>k. fails k = None) [Suc n..<Suc (Suc n + left)] = Some k" for k
      using that by (metis atLeastLessThan_iff find_Some_iff nth_mem set_upt)
    have ups: "[n..<Suc (n + Suc left)] = n # [Suc n..<Suc (Suc n + left)]" by (simp add: upt_conv_Cons)
    have run: "retry_from noting_pause (counted fails) a (Suc left) (n, ps) =
        retry_from noting_pause (counted fails) (a + 1) left (Suc n, ps @ [a])"
      by (simp add: io_simps counted_def Some noting_pause_def)
    show ?thesis
    proof (cases "List.find (\<lambda>k. fails k = None) [Suc n..<Suc (Suc n + left)]")
      case None
      then show ?thesis unfolding run ups Suc.IH by (simp add: Some upt_conv_Cons)
    next
      case found: (Some m)
      then show ?thesis
        unfolding run ups Suc.IH using k [OF found] by (simp add: Some upt_conv_Cons Suc_diff_Suc)
    qed
  qed
qed

text \<open>
  C30: A retried operation is called until it first succeeds and at most as often as allowed, with a growing pause before
  every further attempt and none after the last; it returns the first success or throws the last error.
\<close>

theorem retry_exact:
  assumes "1 \<le> maxAttempts"
  shows "withRetryReturn exhausted noting_pause maxAttempts (counted fails) (0, []) =
    (case List.find (\<lambda>k. fails k = None) [0..<nat maxAttempts] of
       Some k \<Rightarrow> (Inr k, (k + 1, [1..<k + 1]))
     | None \<Rightarrow> (Inl (the (fails (nat maxAttempts - 1))), (nat maxAttempts, [1..<nat maxAttempts])))"
proof -
  obtain n where n: "nat maxAttempts = Suc n" using assms by (metis Suc_pred nat_0_less_mult_iff zero_less_nat_eq int_one_le_iff_zero_less)
  show ?thesis using assms retry_from_counted [of fails 1 n 0 "[]"] by (simp add: withRetryReturn_def n split: option.splits)
qed

theorem retry_exact_witness:
  "withRetryReturn ''exhausted'' noting_pause 3 (counted (\<lambda>k. if k < 2 then Some ''down'' else None)) (0, []) = (Inr 2, (3, [1, 2]))"
  using retry_exact [of 3 "''exhausted''" "\<lambda>k. if k < 2 then Some ''down'' else None"] by (simp add: upt_rec)

text \<open>The pauses grow: whatever the jitter, the wait after an attempt is longer than the wait after the one before it.\<close>

theorem retry_delays_grow:
  assumes "1 \<le> attempt" "500 \<le> j1" "j1 < 1000" "500 \<le> j2" "j2 < 1000"
  shows "retry_delay attempt j1 < retry_delay (attempt + 1) j2 \<and> retry_delay attempt j1 < 1000 * 2 ^ (attempt - 1)"
proof -
  obtain n where n: "attempt = Suc n" using assms(1) by (cases attempt) auto
  have "(2::int) ^ n * j1 < 2 ^ n * 1000" using assms(3) by simp
  moreover have "(2::int) ^ n * 1000 \<le> 2 ^ n * (2 * j2)" using assms(4) by (intro mult_left_mono) auto
  ultimately show ?thesis by (simp add: retry_delay_def n algebra_simps)
qed

theorem retry_delays_grow_witness: "retry_delay 1 999 < retry_delay 2 500"
  using retry_delays_grow [of 1 999 500] by (simp add: eval_nat_numeral)

text \<open>The void form never fails, so its caller cannot tell a lost write from a successful one.\<close>

theorem void_retry_never_fails: "fst (withRetry pause maxAttempts fn w) = Inr ()"
  by (simp add: withRetry_def io_simps split: prod.split sum.split)

end
