(* ===== verification/GitOps.thy ===== *)
theory GitOps
  imports ConfigPipeline Effects
begin

text \<open>
  Git and pull requests: \<open>src/src/git/merge-policy.ts\<close>, \<open>repo-router.ts\<close>, \<open>worktree-manager.ts\<close>, \<open>manager.ts\<close> and
  \<open>src/src/orchestrator/git-post-run.ts\<close>. The \<open>git\<close> command is a function on a world that answers with its
  output or an error; the GitHub client and the summary generator are parameters of the same kind.
\<close>

section \<open>Operations that may fail\<close>

type_synonym ('a, 'w) io = "(js_error, 'a, 'w) eio"

section \<open>merge-policy.ts\<close>

record merge_result =
  mr_allowed :: bool
  mr_reason :: "string option"
  mr_blockedFiles :: "string list option"

definition blocked :: "string \<Rightarrow> merge_result" where
  "blocked reason = \<lparr>mr_allowed = False, mr_reason = Some reason, mr_blockedFiles = None\<rparr>"

definition exceeds :: "int option \<Rightarrow> int \<Rightarrow> bool" where
  "exceeds limit n = (case limit of None \<Rightarrow> False | Some l \<Rightarrow> n > l)"

definition evaluateMergePolicy ::
  "merge_policy_section \<Rightarrow> string list \<Rightarrow> int \<times> int \<Rightarrow> string list \<Rightarrow> merge_result" where
  "evaluateMergePolicy policy changedFiles diffStats prLabels =
     (if \<not> mp_enabled policy then blocked ''auto-merge disabled''
      else case filter (\<lambda>label. label \<in> set prLabels) (mp_excludeLabels policy) of
        label # _ \<Rightarrow> blocked (''excluded label present: '' @ label)
      | [] \<Rightarrow>
          let missingLabels = filter (\<lambda>label. label \<notin> set prLabels) (mp_requireLabels policy);
              totalDiffLines = fst diffStats + snd diffStats;
              blockedFiles = filter (\<lambda>f. \<not> list_ex (\<lambda>pre. starts_with pre f) (mp_allowedPaths policy)) changedFiles
          in if missingLabels \<noteq> [] then blocked (''required labels missing: '' @ join '', '' missingLabels)
             else if exceeds (mp_maxChangedFiles policy) (int (length changedFiles))
             then blocked (''changed file count '' @ show_int (int (length changedFiles)) @ '' exceeds maxChangedFiles '' @
                    show_int (coalesce (mp_maxChangedFiles policy) 0))
             else if exceeds (mp_maxDiffLines policy) totalDiffLines
             then blocked (''diff lines '' @ show_int totalDiffLines @ '' exceeds maxDiffLines '' @ show_int (coalesce (mp_maxDiffLines policy) 0))
             else if mp_allowedPaths policy \<noteq> [] \<and> blockedFiles \<noteq> []
             then (blocked (''changed files outside allowed paths: '' @ join '', '' blockedFiles))\<lparr>mr_blockedFiles := Some blockedFiles\<rparr>
             else \<lparr>mr_allowed = True, mr_reason = None, mr_blockedFiles = None\<rparr>)"

section \<open>repo-router.ts\<close>

datatype matched_by = ByIdentifierPrefix | ByLabel

definition trimmed :: "string option \<Rightarrow> string option" where
  "trimmed v = truthy_string (map_option js_trim v)"

definition issuePrefix :: "string \<Rightarrow> string" where
  "issuePrefix identifier = js_trim (hd (split_on CHR ''-'' identifier))"

definition toMatch :: "repo_config \<Rightarrow> repo_match" where
  "toMatch route =
     \<lparr>rm_repoUrl = rp_repoUrl route,
      rm_defaultBranch = coalesce (trimmed (Some (rp_defaultBranch route))) ''main'',
      rm_githubOwner = trimmed (rp_githubOwner route), rm_githubRepo = trimmed (rp_githubRepo route),
      rm_githubTokenEnv = coalesce (trimmed (rp_githubTokenEnv route)) ''GITHUB_TOKEN''\<rparr>"

fun first_route :: "(repo_config \<Rightarrow> bool) \<Rightarrow> repo_config list \<Rightarrow> repo_config option" where
  "first_route ok [] = None"
| "first_route ok (r # rs) = (if ok r then Some r else first_route ok rs)"

definition route_by :: "(repo_config \<Rightarrow> string option) \<Rightarrow> (string \<Rightarrow> bool) \<Rightarrow> repo_config \<Rightarrow> bool" where
  "route_by key ok route \<longleftrightarrow> js_trim (rp_repoUrl route) \<noteq> [] \<and>
     (case trimmed (key route) of None \<Rightarrow> False | Some k \<Rightarrow> ok k)"

definition matchIssue ::
  "(string \<Rightarrow> string \<Rightarrow> bool) \<Rightarrow> issue \<Rightarrow> repo_config list \<Rightarrow> (repo_match \<times> matched_by) option" where
  "matchIssue equalsIgnoreCase i routes =
     (let labels = map js_trim (issue_labels i); prefix' = issuePrefix (issue_identifier i)
      in case first_route (route_by rp_label (\<lambda>k. list_ex (\<lambda>l. equalsIgnoreCase l k) labels)) routes of
           Some route \<Rightarrow> Some (toMatch route, ByLabel)
         | None \<Rightarrow>
             (case first_route (route_by rp_identifierPrefix (\<lambda>k. equalsIgnoreCase k prefix')) routes of
                Some route \<Rightarrow> Some (toMatch route, ByIdentifierPrefix)
              | None \<Rightarrow> None))"

section \<open>worktree-manager.ts\<close>

text \<open>\<open>runGit(args, {cwd})\<close>: its standard output or what it throws.\<close>

type_synonym 'w git = "string list \<Rightarrow> string \<Rightarrow> (string, 'w) io"

definition sanitizeChar :: "char \<Rightarrow> char" where
  "sanitizeChar c = (if word_char c \<or> c = CHR ''.'' \<or> c = CHR ''-'' then c else CHR ''-'')"

fun squeeze_dashes :: "bool \<Rightarrow> string \<Rightarrow> string" where
  "squeeze_dashes prevDash [] = []"
| "squeeze_dashes prevDash (c # cs) =
     (if sanitizeChar c = CHR ''-'' then (if prevDash then squeeze_dashes True cs else CHR ''-'' # squeeze_dashes True cs)
      else sanitizeChar c # squeeze_dashes False cs)"

definition trim_dashes :: "string \<Rightarrow> string" where
  "trim_dashes t = rev (dropWhile (\<lambda>c. c = CHR ''-'') (rev (dropWhile (\<lambda>c. c = CHR ''-'') t)))"

definition deriveRepoKey :: "string \<Rightarrow> string" where
  "deriveRepoKey repoUrl =
     (let key = js_trim repoUrl;
          bare = (if ends_with ''.git'' key then take (length key - 4) key else key)
      in or_text (trim_dashes (squeeze_dashes False bare)) ''repo'')"

definition syncBaseClone :: "'w git \<Rightarrow> string \<Rightarrow> (unit, 'w) io" where
  "syncBaseClone git baseDir = io_bind (git [''fetch'', ''origin'', ''--prune''] baseDir) (\<lambda>_. io_return ())"

definition ensureBaseClone :: "'w git \<Rightarrow> string \<Rightarrow> string \<Rightarrow> (unit, 'w) io" where
  "ensureBaseClone git repoUrl baseDir =
     io_bind (io_catch (git [''rev-parse'', ''--git-dir''] baseDir) (\<lambda>_. io_return []))
       (\<lambda>out. if js_trim out \<noteq> [] then syncBaseClone git baseDir
              else io_bind (git [''clone'', ''--bare'', repoUrl, baseDir] ''.'') (\<lambda>_. io_return ()))"

definition addWorktree :: "'w git \<Rightarrow> string \<Rightarrow> string \<Rightarrow> string \<Rightarrow> string \<Rightarrow> (unit, 'w) io" where
  "addWorktree git baseDir worktreePath branchName startPoint =
     io_bind (git [''worktree'', ''add'', ''-b'', branchName, worktreePath, startPoint] baseDir) (\<lambda>_. io_return ())"

definition attachWorktree :: "'w git \<Rightarrow> string \<Rightarrow> string \<Rightarrow> string \<Rightarrow> (unit, 'w) io" where
  "attachWorktree git baseDir worktreePath branchName =
     io_bind (git [''worktree'', ''add'', worktreePath, branchName] baseDir) (\<lambda>_. io_return ())"

definition removeWorktree :: "'w git \<Rightarrow> string \<Rightarrow> string \<Rightarrow> bool \<Rightarrow> (unit, 'w) io" where
  "removeWorktree git baseDir worktreePath force =
     io_bind (git ([''worktree'', ''remove''] @ (if force then [''--force''] else []) @ [worktreePath]) baseDir)
       (\<lambda>_. io_bind (git [''worktree'', ''prune''] baseDir) (\<lambda>_. io_return ()))"

definition branchExists :: "'w git \<Rightarrow> string \<Rightarrow> string \<Rightarrow> (bool, 'w) io" where
  "branchExists git baseDir branchName =
     io_catch (io_bind (git [''rev-parse'', ''--verify'', ''refs/heads/'' @ branchName] baseDir) (\<lambda>_. io_return True))
       (\<lambda>_. io_return False)"

definition isWorktreeClean :: "'w git \<Rightarrow> string \<Rightarrow> (bool, 'w) io" where
  "isWorktreeClean git worktreePath =
     io_bind (git [''status'', ''--porcelain''] worktreePath) (\<lambda>out. io_return (js_trim out = []))"

record worktree_entry =
  we_path :: string
  we_branch :: "string option"
  we_bare :: bool

text \<open>\<open>None\<close> stands for the empty \<open>current\<close> of the beginning; an entry without a path is not pushed.\<close>

definition push_entry :: "worktree_entry option \<Rightarrow> worktree_entry list" where
  "push_entry current = (case current of Some en \<Rightarrow> if we_path en = [] then [] else [en] | None \<Rightarrow> [])"

definition entry_update :: "(worktree_entry \<Rightarrow> worktree_entry) \<Rightarrow> worktree_entry option \<Rightarrow> worktree_entry option" where
  "entry_update f current = Some (f (coalesce current \<lparr>we_path = [], we_branch = None, we_bare = False\<rparr>))"

fun parse_lines :: "string list \<Rightarrow> worktree_entry option \<Rightarrow> worktree_entry list" where
  "parse_lines [] current = push_entry current"
| "parse_lines (line # rest) current =
     (if starts_with ''worktree '' line
      then push_entry current @ parse_lines rest (Some \<lparr>we_path = drop 9 line, we_branch = None, we_bare = False\<rparr>)
      else if starts_with ''HEAD '' line then parse_lines rest current
      else if starts_with ''branch '' line then parse_lines rest (entry_update (we_branch_update (\<lambda>_. Some (drop 7 line))) current)
      else if line = ''bare'' then parse_lines rest (entry_update (we_bare_update (\<lambda>_. True)) current)
      else if line = ''detached'' then parse_lines rest (entry_update (we_branch_update (\<lambda>_. None)) current)
      else parse_lines rest current)"

definition parseWorktreeList :: "string \<Rightarrow> worktree_entry list" where
  "parseWorktreeList out = parse_lines (split_on (CHR 0x0A) out) None"

definition listWorktrees :: "'w git \<Rightarrow> string \<Rightarrow> (worktree_entry list, 'w) io" where
  "listWorktrees git baseDir =
     io_bind (git [''worktree'', ''list'', ''--porcelain''] baseDir) (\<lambda>out. io_return (parseWorktreeList out))"

section \<open>manager.ts\<close>

definition branch_char :: "char \<Rightarrow> char" where
  "branch_char c =
     (let n = of_char c :: nat
      in if 97 \<le> n \<and> n \<le> 122 \<or> 48 \<le> n \<and> n \<le> 57 \<or> c = CHR ''.'' \<or> c = CHR ''_'' \<or> c = CHR ''/'' \<or> c = CHR ''-'' then c else CHR ''-'')"

fun collapse_dashes :: "string \<Rightarrow> string" where
  "collapse_dashes [] = []"
| "collapse_dashes [c] = [c]"
| "collapse_dashes (c # d # cs) =
     (if c = CHR ''-'' \<and> d = CHR ''-'' then collapse_dashes (d # cs) else c # collapse_dashes (d # cs))"

definition edge_char :: "char \<Rightarrow> bool" where
  "edge_char c \<longleftrightarrow> c = CHR ''-'' \<or> c = CHR ''/''"

definition sanitizeBranchSegment :: "string \<Rightarrow> string" where
  "sanitizeBranchSegment v =
     rev (dropWhile edge_char (rev (dropWhile edge_char (collapse_dashes (map branch_char (js_lower v))))))"

definition deriveBranchName :: "issue \<Rightarrow> string \<Rightarrow> string" where
  "deriveBranchName i branchPrefix =
     (case trimmed (issue_branchName i) of
        Some provided \<Rightarrow> if starts_with ''-'' provided then branchPrefix @ or_text (sanitizeBranchSegment (issue_identifier i)) ''issue''
                         else provided
      | None \<Rightarrow> branchPrefix @ or_text (sanitizeBranchSegment (issue_identifier i)) ''issue'')"

record 'w git_env =
  ge_git :: "'w git"
  ge_env :: "string \<Rightarrow> string option"
  ge_defaultTokenEnv :: string
  ge_basic_auth :: "string \<Rightarrow> string"
  ge_path_join :: "string list \<Rightarrow> string"
  ge_create_pr :: "repo_match \<Rightarrow> issue \<Rightarrow> string \<Rightarrow> string option \<Rightarrow> (string option, 'w) io"
  ge_summary :: "string \<Rightarrow> string \<Rightarrow> (string option, 'w) io"
  ge_request_merge :: "string \<Rightarrow> string \<Rightarrow> int \<Rightarrow> merge_method \<Rightarrow> string \<Rightarrow> (unit, 'w) io"

definition deriveBaseCloneDir :: "'w git_env \<Rightarrow> string \<Rightarrow> string \<Rightarrow> string" where
  "deriveBaseCloneDir e workspaceRoot repoUrl = ge_path_join e [workspaceRoot, ''.base'', deriveRepoKey repoUrl @ ''.git'']"

definition hasUncommittedChanges :: "'w git_env \<Rightarrow> string \<Rightarrow> (bool, 'w) io" where
  "hasUncommittedChanges e dir =
     io_bind (ge_git e [''status'', ''--porcelain''] dir) (\<lambda>out. io_return (js_trim out \<noteq> []))"

definition currentBranch :: "'w git_env \<Rightarrow> string \<Rightarrow> (string, 'w) io" where
  "currentBranch e dir =
     io_bind (ge_git e [''rev-parse'', ''--abbrev-ref'', ''HEAD''] dir) (\<lambda>out. io_return (or_text (js_trim out) ''main''))"

definition currentCommitSha :: "'w git_env \<Rightarrow> string \<Rightarrow> (string, 'w) io" where
  "currentCommitSha e dir = io_bind (ge_git e [''rev-parse'', ''HEAD''] dir) (\<lambda>out. io_return (js_trim out))"

definition autoCommit :: "'w git_env \<Rightarrow> string \<Rightarrow> string \<Rightarrow> bool \<Rightarrow> (string, 'w) io" where
  "autoCommit e dir message noVerify =
     io_bind (ge_git e [''add'', ''-A''] dir)
       (\<lambda>_. io_bind (ge_git e ([''commit''] @ (if noVerify then [''--no-verify''] else []) @ [''-m'', message]) dir)
          (\<lambda>_. currentCommitSha e dir))"

definition setupWorktree :: "'w git_env \<Rightarrow> repo_match \<Rightarrow> string \<Rightarrow> string \<Rightarrow> issue \<Rightarrow> string \<Rightarrow> (string, 'w) io" where
  "setupWorktree e route baseCloneDir worktreePath i branchPrefix =
     io_bind (ensureBaseClone (ge_git e) (rm_repoUrl route) baseCloneDir)
       (\<lambda>_. io_bind (syncBaseClone (ge_git e) baseCloneDir)
          (\<lambda>_. let branchName = deriveBranchName i branchPrefix
               in io_bind (branchExists (ge_git e) baseCloneDir branchName)
                    (\<lambda>there. io_bind (if there then attachWorktree (ge_git e) baseCloneDir worktreePath branchName
                                      else addWorktree (ge_git e) baseCloneDir worktreePath branchName (rm_defaultBranch route))
                       (\<lambda>_. io_return branchName))))"

definition cloneInto :: "'w git_env \<Rightarrow> repo_match \<Rightarrow> string \<Rightarrow> issue \<Rightarrow> string \<Rightarrow> (string, 'w) io" where
  "cloneInto e route dir i branchPrefix =
     (let branchName = deriveBranchName i branchPrefix
      in io_bind (ge_git e [''clone'', ''--branch'', rm_defaultBranch route, ''--single-branch'', rm_repoUrl route, ''.''] dir)
           (\<lambda>_. io_bind (ge_git e [''checkout'', ''-b'', branchName] dir) (\<lambda>_. io_return branchName)))"

definition pushWithToken :: "'w git_env \<Rightarrow> string \<Rightarrow> string \<Rightarrow> string option \<Rightarrow> (unit, 'w) io" where
  "pushWithToken e dir branch tokenEnvName =
     (let auth = (case truthy_string (ge_env e (coalesce tokenEnvName (ge_defaultTokenEnv e))) of
                    Some token \<Rightarrow> [''-c'', ''http.extraHeader=Authorization: Basic '' @ ge_basic_auth e (''x-access-token:'' @ token)]
                  | None \<Rightarrow> [])
      in io_bind (ge_git e (auth @ [''push'', ''-u'', ''origin'', branch]) dir) (\<lambda>_. io_return ()))"

record push_result =
  pu_committed :: bool
  pu_pushed :: bool
  pu_branchName :: string

definition commitAndPush :: "'w git_env \<Rightarrow> string \<Rightarrow> string \<Rightarrow> string option \<Rightarrow> string option \<Rightarrow> (push_result, 'w) io" where
  "commitAndPush e dir message branchName tokenEnvName =
     io_bind (case branchName of Some b \<Rightarrow> io_return b | None \<Rightarrow> currentBranch e dir)
       (\<lambda>resolvedBranch. io_bind (hasUncommittedChanges e dir)
          (\<lambda>changes. if \<not> changes
             then io_return \<lparr>pu_committed = False, pu_pushed = False, pu_branchName = resolvedBranch\<rparr>
             else io_bind (autoCommit e dir message False)
                    (\<lambda>_. io_bind (pushWithToken e dir resolvedBranch tokenEnvName)
                       (\<lambda>_. io_return \<lparr>pu_committed = True, pu_pushed = True, pu_branchName = resolvedBranch\<rparr>))))"

definition forcePushIfBranchExists :: "'w git_env \<Rightarrow> string \<Rightarrow> string \<Rightarrow> (unit, 'w) io" where
  "forcePushIfBranchExists e branchName dir =
     io_bind (ge_git e [''push'', ''--force-with-lease'', ''origin'', branchName] dir) (\<lambda>_. io_return ())"

definition diffNameOnly :: "'w git_env \<Rightarrow> string \<Rightarrow> string \<Rightarrow> (string list, 'w) io" where
  "diffNameOnly e repoDir fromRef =
     io_catch (io_bind (ge_git e [''diff'', ''--name-only'', fromRef @ ''...HEAD''] repoDir)
         (\<lambda>out. io_return (filter (\<lambda>l. l \<noteq> []) (map js_trim (split_on (CHR 0x0A) out)))))
       (\<lambda>_. io_return [])"

text \<open>\<open>/(\d+) word/\<close>: the digits before the first blank that the word follows and a digit precedes.\<close>

definition digit_char :: "char \<Rightarrow> bool" where
  "digit_char c \<longleftrightarrow> (let n = of_char c :: nat in 48 \<le> n \<and> n \<le> 57)"

fun count_before :: "string \<Rightarrow> string \<Rightarrow> string \<Rightarrow> int" where
  "count_before w ds [] = 0"
| "count_before w ds (c # cs) =
     (if digit_char c then count_before w (ds @ [c]) cs
      else if ds \<noteq> [] \<and> c = CHR '' '' \<and> starts_with w cs then int (digits_value ds)
      else count_before w [] cs)"

definition diffShortStat :: "'w git_env \<Rightarrow> string \<Rightarrow> string \<Rightarrow> (int \<times> int, 'w) io" where
  "diffShortStat e repoDir fromRef =
     io_catch (io_bind (ge_git e [''diff'', ''--shortstat'', fromRef @ ''...HEAD''] repoDir)
         (\<lambda>out. io_return (count_before ''insertion'' [] out, count_before ''deletion'' [] out)))
       (\<lambda>_. io_return (0, 0))"

section \<open>git-post-run.ts\<close>

fun last_after :: "string \<Rightarrow> string \<Rightarrow> string option" where
  "last_after pat [] = None"
| "last_after pat (c # cs) =
     (case last_after pat cs of
        Some t \<Rightarrow> Some t
      | None \<Rightarrow> if starts_with pat (c # cs) then Some (drop (length pat) (c # cs)) else None)"

text \<open>\<open>parseInt(tail, 10)\<close> reads blanks, a sign and digits; only a positive number counts.\<close>

definition parsePullNumber :: "string \<Rightarrow> int option" where
  "parsePullNumber htmlUrl =
     (case last_after ''/pull/'' htmlUrl of
        None \<Rightarrow> None
      | Some tail \<Rightarrow>
          let t = dropWhile is_js_space tail; u = (if starts_with ''+'' t then drop 1 t else t);
              n = int (digits_value (takeWhile digit_char u))
          in if takeWhile digit_char u \<noteq> [] \<and> n > 0 then Some n else None)"

definition tryRequestAutoMerge ::
  "'w git_env \<Rightarrow> merge_policy_section \<Rightarrow> string \<Rightarrow> string list \<Rightarrow> string \<Rightarrow> repo_match \<Rightarrow> (unit, 'w) io" where
  "tryRequestAutoMerge e policy pullRequestUrl issueLabels dir route =
     io_bind (diffNameOnly e dir (rm_defaultBranch route))
       (\<lambda>changedFiles. io_bind (diffShortStat e dir (rm_defaultBranch route))
          (\<lambda>diffStats.
             if \<not> mr_allowed (evaluateMergePolicy policy changedFiles diffStats issueLabels) then io_return ()
             else case (parsePullNumber pullRequestUrl, truthy_string (rm_githubOwner route), truthy_string (rm_githubRepo route)) of
                    (Some n, Some owner, Some repo) \<Rightarrow>
                      io_catch (ge_request_merge e owner repo n (mp_mergeMethod policy) (rm_githubTokenEnv route)) (\<lambda>_. io_return ())
                  | _ \<Rightarrow> io_return ()))"

definition executeGitPostRun ::
  "'w git_env \<Rightarrow> string \<Rightarrow> issue \<Rightarrow> repo_match \<Rightarrow> merge_policy_section option \<Rightarrow> (string option \<times> string option, 'w) io" where
  "executeGitPostRun e dir i route autoMerge =
     io_bind (commitAndPush e dir (issue_identifier i @ '': '' @ issue_title i) None (Some (rm_githubTokenEnv route)))
       (\<lambda>r. if \<not> pu_pushed r then io_return (None, None)
            else io_bind (io_catch (ge_summary e dir (rm_defaultBranch route)) (\<lambda>_. io_return None))
              (\<lambda>summary. io_bind (ge_create_pr e route i (pu_branchName r) summary)
                 (\<lambda>url. io_bind
                    (case (autoMerge, truthy_string url) of
                       (Some policy, Some u) \<Rightarrow> io_catch (tryRequestAutoMerge e policy u (issue_labels i) dir route) (\<lambda>_. io_return ())
                     | _ \<Rightarrow> io_return ())
                    (\<lambda>_. io_return (url, summary)))))"

end
