(* ===== verification/GitClaims.thy ===== *)
theory GitClaims
  imports GitOps
begin

text \<open>What the merge policy, the router, the branch names and the post-run git work promise, and where they fail.\<close>

section \<open>Merge policy and routing\<close>

text \<open>
  C34: The code allows a merge exactly when the policy is enabled, no excluded label is among the labels, every required
  one is, the numbers of files and lines are within the limits, and, if there are allowed paths, every changed file
  starts with one of them. The operator guide calls the allowed paths glob patterns; a pattern is a prefix like any other
  here, so it allows nothing that lies in the directory, as the lemma shows.
\<close>

theorem merge_policy_exact:
  "mr_allowed (evaluateMergePolicy p changed diff labels) \<longleftrightarrow>
     mp_enabled p \<and> set (mp_excludeLabels p) \<inter> set labels = {} \<and> set (mp_requireLabels p) \<subseteq> set labels \<and>
     \<not> exceeds (mp_maxChangedFiles p) (int (length changed)) \<and> \<not> exceeds (mp_maxDiffLines p) (fst diff + snd diff) \<and>
     (mp_allowedPaths p = [] \<or> list_all (\<lambda>f. list_ex (\<lambda>pre. starts_with pre f) (mp_allowedPaths p)) changed)"
proof -
  have ex: "filter (\<lambda>l. l \<in> set labels) (mp_excludeLabels p) = [] \<longleftrightarrow> set (mp_excludeLabels p) \<inter> set labels = {}"
    by (auto simp: filter_empty_conv)
  have rq: "filter (\<lambda>l. l \<notin> set labels) (mp_requireLabels p) = [] \<longleftrightarrow> set (mp_requireLabels p) \<subseteq> set labels"
    by (auto simp: filter_empty_conv)
  have pa: "filter (\<lambda>f. \<not> list_ex (\<lambda>pre. starts_with pre f) (mp_allowedPaths p)) changed = [] \<longleftrightarrow>
      list_all (\<lambda>f. list_ex (\<lambda>pre. starts_with pre f) (mp_allowedPaths p)) changed"
    by (auto simp: filter_empty_conv list_all_iff)
  show ?thesis
    by (simp add: evaluateMergePolicy_def blocked_def Let_def flip: ex rq pa split: list.split)
qed

lemma glob_allows_nothing:
  "mr_allowed (evaluateMergePolicy \<lparr>mp_enabled = True, mp_allowedPaths = [''src/''], mp_maxChangedFiles = None,
     mp_maxDiffLines = None, mp_requireLabels = [], mp_excludeLabels = [], mp_mergeMethod = Squash\<rparr> [''src/a.ts''] (1, 0) [])"
  "\<not> mr_allowed (evaluateMergePolicy \<lparr>mp_enabled = True, mp_allowedPaths = [''src/**''], mp_maxChangedFiles = None,
     mp_maxDiffLines = None, mp_requireLabels = [], mp_excludeLabels = [], mp_mergeMethod = Squash\<rparr> [''src/a.ts''] (1, 0) [])"
  by code_simp+

lemma first_route_Some: "first_route ok rs = Some r \<Longrightarrow> r \<in> set rs \<and> ok r"
  by (induction rs) (auto split: if_splits)

lemma first_route_None: "first_route ok rs = None \<longleftrightarrow> (\<forall>r \<in> set rs. \<not> ok r)"
  by (induction rs) auto

definition routes_issue :: "(string \<Rightarrow> string \<Rightarrow> bool) \<Rightarrow> issue \<Rightarrow> matched_by \<Rightarrow> repo_config \<Rightarrow> bool" where
  "routes_issue eq i by' r = (case by' of
     ByLabel \<Rightarrow> route_by rp_label (\<lambda>k. list_ex (\<lambda>l. eq l k) (map js_trim (issue_labels i))) r
   | ByIdentifierPrefix \<Rightarrow> route_by rp_identifierPrefix (\<lambda>k. eq k (issuePrefix (issue_identifier i))) r)"

text \<open>
  An issue is routed to a configured repository that fits its labels or its prefix, by label before prefix, and
  it is left without a repository only when none fits.
\<close>

theorem routing_sound_and_complete:
  "case matchIssue eq i routes of
     Some (m, by') \<Rightarrow> list_ex (\<lambda>r. m = toMatch r \<and> routes_issue eq i by' r) routes \<and>
       (by' = ByIdentifierPrefix \<longleftrightarrow> \<not> list_ex (routes_issue eq i ByLabel) routes)
   | None \<Rightarrow> \<not> list_ex (\<lambda>r. routes_issue eq i ByLabel r \<or> routes_issue eq i ByIdentifierPrefix r) routes"
proof -
  let ?L = "route_by rp_label (\<lambda>k. list_ex (\<lambda>l. eq l k) (map js_trim (issue_labels i)))"
  let ?P = "route_by rp_identifierPrefix (\<lambda>k. eq k (issuePrefix (issue_identifier i)))"
  show ?thesis
  proof (cases "first_route ?L routes")
    case (Some r)
    with first_route_Some [OF Some] show ?thesis
      by (auto simp: matchIssue_def routes_issue_def list_ex_iff Let_def)
  next
    case None
    then have nl: "\<forall>r \<in> set routes. \<not> ?L r" by (simp add: first_route_None)
    show ?thesis
    proof (cases "first_route ?P routes")
      case (Some r)
      with first_route_Some [OF Some] nl None show ?thesis
        by (auto simp: matchIssue_def routes_issue_def list_ex_iff Let_def)
    next
      case none: None
      then have "\<forall>r \<in> set routes. \<not> ?P r" by (simp add: first_route_None)
      with nl None none show ?thesis by (auto simp: matchIssue_def routes_issue_def list_ex_iff Let_def)
    qed
  qed
qed

section \<open>Names\<close>

lemma starts_with_dash: "starts_with ''-'' t \<longleftrightarrow> t \<noteq> [] \<and> hd t = CHR ''-''"
  by (cases t) auto

lemma sanitized_edge:
  "sanitizeBranchSegment v = [] \<or> \<not> edge_char (hd (sanitizeBranchSegment v))"
proof -
  let ?t = "sanitizeBranchSegment v"
  have "dropWhile edge_char ?t = ?t"
    unfolding sanitizeBranchSegment_def by (rule dropWhile_rev_dropWhile)
  then show ?thesis using length_dropWhile_le [of edge_char "tl ?t"] by (cases ?t) (auto split: if_splits)
qed

text \<open>
  C36: If the configured branch prefix does not start with a dash, then no branch name does, so that git cannot take
  it for an option, whatever the tracker supplies and whatever the identifier is. The prefix itself is not checked.
\<close>

theorem branch_name_no_option:
  assumes "\<not> starts_with ''-'' branchPrefix"
  shows "deriveBranchName i branchPrefix \<noteq> [] \<and> \<not> starts_with ''-'' (deriveBranchName i branchPrefix)"
proof -
  let ?slug = "or_text (sanitizeBranchSegment (issue_identifier i)) ''issue''"
  have slug: "?slug \<noteq> [] \<and> \<not> starts_with ''-'' ?slug"
    using sanitized_edge [of "issue_identifier i"] by (auto simp: or_text_def starts_with_dash edge_char_def)
  with assms have own: "branchPrefix @ ?slug \<noteq> [] \<and> \<not> starts_with ''-'' (branchPrefix @ ?slug)"
    by (auto simp: starts_with_dash hd_append)
  have "trimmed v = Some t \<Longrightarrow> t \<noteq> []" for v t
    by (auto simp: trimmed_def truthy_string_def split: if_splits)
  with own show ?thesis by (auto simp: deriveBranchName_def split: option.splits)
qed

definition flag_issue :: issue where
  "flag_issue = (example_issue ''--Force 1'' ''Todo'' None)\<lparr>issue_branchName := Some ''--force''\<rparr>"

lemma prefix_unchecked: "deriveBranchName flag_issue ''-x'' = ''-xforce-1''"
  by code_simp

theorem branch_name_no_option_witness:
  "deriveBranchName flag_issue ''risoluto/'' = ''risoluto/force-1'' \<and>
   \<not> starts_with ''-'' (deriveBranchName flag_issue ''risoluto/'')"
proof -
  have "deriveBranchName flag_issue ''risoluto/'' = ''risoluto/force-1''" by code_simp
  moreover have "\<not> starts_with ''-'' ''risoluto/''" by simp
  ultimately show ?thesis using branch_name_no_option [of "''risoluto/''" flag_issue] by blast
qed

text \<open>
  The key of a base clone does not tell repositories apart: two URLs whose owner and name are split at another
  dash share one base clone, and the second is served from the clone of the first.
\<close>

theorem repo_keys_collide:
  "deriveRepoKey ''https://github.com/a/b-c.git'' = deriveRepoKey ''https://github.com/a-b/c.git''"
  by code_simp

section \<open>After the run\<close>

declare io_simps [simp]

text \<open>
  Only uncommitted changes are pushed. When the workspace is clean after the run, because the agent committed
  its work itself or because an earlier run committed it and its push failed, nothing is pushed and no pull
  request is opened, whatever commits the branch holds.
\<close>

theorem clean_workspace_never_pushed:
  assumes "ge_git e [''rev-parse'', ''--abbrev-ref'', ''HEAD''] dir w = (Inr branch, w1)"
    and "ge_git e [''status'', ''--porcelain''] dir w1 = (Inr out, w2)" and "js_trim out = []"
  shows "executeGitPostRun e dir i route autoMerge w = (Inr (None, None), w2)"
  using assms by (simp add: executeGitPostRun_def commitAndPush_def currentBranch_def hasUncommittedChanges_def)

text \<open>A repository: uncommitted changes, commits not pushed, and the pushes still to fail.\<close>

definition toy_git :: "(bool \<times> nat \<times> nat) git" where
  "toy_git args dir w =
     (let (dirty, ahead, failures) = w
      in if args = [''status'', ''--porcelain''] then (Inr (if dirty then ''M a'' else []), w)
         else if ''commit'' \<in> set args then (Inr [], (False, ahead + 1, failures))
         else if ''push'' \<in> set args
         then (if failures > 0 then (Inl (JsError ''push''), (dirty, ahead, failures - 1)) else (Inr [], (dirty, 0, 0)))
         else if ''diff'' \<in> set args then (Inl (JsError ''bad revision''), w)
         else (Inr ''main'', w))"

definition toy_env :: "(bool \<times> nat \<times> nat) git_env" where
  "toy_env = \<lparr>ge_git = toy_git, ge_env = (\<lambda>_. None), ge_defaultTokenEnv = ''GITHUB_TOKEN'', ge_basic_auth = (\<lambda>t. t),
     ge_path_join = concat, ge_create_pr = (\<lambda>_ _ _ _ w. (Inr (Some ''https://github.com/o/r/pull/7''), w)),
     ge_summary = (\<lambda>_ _ w. (Inr None, w)), ge_request_merge = (\<lambda>_ _ _ _ _ w. (Inr (), w))\<rparr>"

definition toy_route :: repo_match where
  "toy_route = \<lparr>rm_repoUrl = ''u'', rm_defaultBranch = ''main'', rm_githubOwner = Some ''o'', rm_githubRepo = Some ''r'',
     rm_githubTokenEnv = ''GITHUB_TOKEN''\<rparr>"

theorem clean_workspace_never_pushed_witness:
  "executeGitPostRun toy_env ''d'' flag_issue toy_route None (True, 0, 1) = (Inl (JsError ''push''), (False, 1, 0)) \<and>
   executeGitPostRun toy_env ''d'' flag_issue toy_route None (False, 1, 0) = (Inr (None, None), (False, 1, 0))"
proof
  show "executeGitPostRun toy_env ''d'' flag_issue toy_route None (True, 0, 1) = (Inl (JsError ''push''), (False, 1, 0))"
    by code_simp
  show "executeGitPostRun toy_env ''d'' flag_issue toy_route None (False, 1, 0) = (Inr (None, None), (False, 1, 0))"
  proof (rule clean_workspace_never_pushed)
    show "ge_git toy_env [''rev-parse'', ''--abbrev-ref'', ''HEAD''] ''d'' (False, 1, 0) = (Inr ''main'', (False, 1, 0))" by code_simp
    show "ge_git toy_env [''status'', ''--porcelain''] ''d'' (False, 1, 0) = (Inr [], (False, 1, 0))" by code_simp
  qed (simp add: js_trim_def)
qed

text \<open>
  A diff that cannot be read passes the merge policy: the failed commands give no files and no lines, so a policy
  without label rules asks for the merge although not one changed path was seen.
\<close>

theorem unreadable_diff_passes_policy:
  assumes "mp_enabled p" "mp_excludeLabels p = []" "mp_requireLabels p = []"
    and "\<not> exceeds (mp_maxChangedFiles p) 0" "\<not> exceeds (mp_maxDiffLines p) 0"
    and "ge_git e [''diff'', ''--name-only'', rm_defaultBranch route @ ''...HEAD''] dir w = (Inl e1, w1)"
    and "ge_git e [''diff'', ''--shortstat'', rm_defaultBranch route @ ''...HEAD''] dir w1 = (Inl e2, w2)"
    and "parsePullNumber url = Some n" "rm_githubOwner route = Some owner" "owner \<noteq> []" "rm_githubRepo route = Some repo" "repo \<noteq> []"
  shows "snd (tryRequestAutoMerge e p url labels dir route w) =
    snd (ge_request_merge e owner repo n (mp_mergeMethod p) (rm_githubTokenEnv route) w2)"
proof -
  have "mr_allowed (evaluateMergePolicy p [] (0, 0) labels)"
    using assms(1-5) by (simp add: evaluateMergePolicy_def)
  then show ?thesis
    using assms(6-12)
    by (simp add: tryRequestAutoMerge_def diffNameOnly_def diffShortStat_def truthy_string_def split: prod.split sum.split)
qed

definition strict_policy :: merge_policy_section where
  "strict_policy = \<lparr>mp_enabled = True, mp_allowedPaths = [''docs/''], mp_maxChangedFiles = Some 1, mp_maxDiffLines = Some 10,
     mp_requireLabels = [], mp_excludeLabels = [], mp_mergeMethod = Squash\<rparr>"

theorem unreadable_diff_passes_policy_witness:
  "snd (tryRequestAutoMerge (toy_env\<lparr>ge_request_merge := (\<lambda>_ _ _ _ _ w. (Inr (), (True, 9, 9)))\<rparr>) strict_policy
     ''https://github.com/o/r/pull/7'' [] ''d'' toy_route (False, 0, 0)) = (True, 9, 9)"
proof -
  let ?e = "toy_env\<lparr>ge_request_merge := (\<lambda>_ _ _ _ _ w. (Inr (), (True, 9, 9)))\<rparr>"
  have d: "ge_git ?e [''diff'', ''--name-only'', rm_defaultBranch toy_route @ ''...HEAD''] ''d'' (False, 0, 0) = (Inl (JsError ''bad revision''), (False, 0, 0))"
    "ge_git ?e [''diff'', ''--shortstat'', rm_defaultBranch toy_route @ ''...HEAD''] ''d'' (False, 0, 0) = (Inl (JsError ''bad revision''), (False, 0, 0))"
    by (simp_all add: toy_env_def toy_git_def)
  have n: "parsePullNumber ''https://github.com/o/r/pull/7'' = Some 7" by code_simp
  have "snd (tryRequestAutoMerge ?e strict_policy ''https://github.com/o/r/pull/7'' [] ''d'' toy_route (False, 0, 0)) =
      snd (ge_request_merge ?e ''o'' ''r'' 7 (mp_mergeMethod strict_policy) (rm_githubTokenEnv toy_route) (False, 0, 0))"
    by (rule unreadable_diff_passes_policy [OF _ _ _ _ _ d n]) (simp_all add: strict_policy_def toy_route_def exceeds_def)
  then show ?thesis by simp
qed

end
