(* ===== verification/WorkspaceLock.thy ===== *)
theory WorkspaceLock
  imports Prelude
begin

text \<open>
  The lock of \<open>src/src/workspace/manager.ts\<close>: \<open>withWorkspaceLock\<close> keeps for every workspace the promise of its
  newest task; a task waits for the promise it found, runs, and resolves its own. Tasks are numbered in the
  order of their calls; a step is what happens between two suspension points.
\<close>

section \<open>The machine\<close>

datatype lock_phase = Waiting | Holding | Released

record lock_task =
  lt_key :: string
  lt_previous :: "nat option"
  lt_phase :: lock_phase

record lock_state =
  lk_map :: "(string, nat) omap"
  lk_tasks :: "lock_task list"

definition phase_of :: "lock_state \<Rightarrow> nat \<Rightarrow> lock_phase" where
  "phase_of s i = lt_phase (lk_tasks s ! i)"

definition call_lock :: "string \<Rightarrow> lock_state \<Rightarrow> lock_state" where
  "call_lock k s =
     s\<lparr>lk_map := omap_set k (length (lk_tasks s)) (lk_map s),
       lk_tasks := lk_tasks s @ [\<lparr>lt_key = k, lt_previous = omap_get (lk_map s) k, lt_phase = Waiting\<rparr>]\<rparr>"

definition can_enter :: "lock_state \<Rightarrow> nat \<Rightarrow> bool" where
  "can_enter s i \<longleftrightarrow> i < length (lk_tasks s) \<and> phase_of s i = Waiting \<and>
     (case lt_previous (lk_tasks s ! i) of None \<Rightarrow> True | Some p \<Rightarrow> phase_of s p = Released)"

definition set_phase :: "nat \<Rightarrow> lock_phase \<Rightarrow> lock_state \<Rightarrow> lock_state" where
  "set_phase i ph s = s\<lparr>lk_tasks := (lk_tasks s)[i := (lk_tasks s ! i)\<lparr>lt_phase := ph\<rparr>]\<rparr>"

definition release_lock :: "nat \<Rightarrow> lock_state \<Rightarrow> lock_state" where
  "release_lock i s =
     (let k = lt_key (lk_tasks s ! i); s1 = set_phase i Released s
      in if omap_get (lk_map s1) k = Some i then s1\<lparr>lk_map := omap_delete k (lk_map s1)\<rparr> else s1)"

inductive lock_step :: "lock_state \<Rightarrow> lock_state \<Rightarrow> bool" where
  call: "lock_step s (call_lock k s)"
| enter: "can_enter s i \<Longrightarrow> lock_step s (set_phase i Holding s)"
| release: "i < length (lk_tasks s) \<Longrightarrow> phase_of s i = Holding \<Longrightarrow> lock_step s (release_lock i s)"

inductive lock_reachable :: "lock_state \<Rightarrow> bool" where
  start': "lock_reachable \<lparr>lk_map = [], lk_tasks = []\<rparr>"
| step: "lock_reachable s \<Longrightarrow> lock_step s s' \<Longrightarrow> lock_reachable s'"

inductive_cases lock_stepE: "lock_step s s'"

section \<open>The invariant\<close>

definition same_key :: "lock_state \<Rightarrow> nat \<Rightarrow> nat \<Rightarrow> bool" where
  "same_key s i j \<longleftrightarrow> lt_key (lk_tasks s ! i) = lt_key (lk_tasks s ! j)"

definition queue_ok :: "lock_state \<Rightarrow> nat \<Rightarrow> bool" where
  "queue_ok s j \<longleftrightarrow>
     (phase_of s j \<noteq> Waiting \<longrightarrow> (\<forall>i < j. same_key s i j \<longrightarrow> phase_of s i = Released)) \<and>
     (case lt_previous (lk_tasks s ! j) of
        None \<Rightarrow> \<forall>i < j. same_key s i j \<longrightarrow> phase_of s i = Released
      | Some p \<Rightarrow> p < j \<and> same_key s p j \<and> (\<forall>i < j. p < i \<longrightarrow> \<not> same_key s i j))"

definition map_ok :: "lock_state \<Rightarrow> string \<Rightarrow> bool" where
  "map_ok s k \<longleftrightarrow>
     (case omap_get (lk_map s) k of
        None \<Rightarrow> \<forall>i < length (lk_tasks s). lt_key (lk_tasks s ! i) = k \<longrightarrow> phase_of s i = Released
      | Some n \<Rightarrow> n < length (lk_tasks s) \<and> lt_key (lk_tasks s ! n) = k \<and> phase_of s n \<noteq> Released \<and>
          (\<forall>i < length (lk_tasks s). n < i \<longrightarrow> lt_key (lk_tasks s ! i) \<noteq> k))"

definition lock_inv :: "lock_state \<Rightarrow> bool" where
  "lock_inv s \<longleftrightarrow> (\<forall>j < length (lk_tasks s). queue_ok s j) \<and> (\<forall>k. map_ok s k)"

lemma set_phase_simps [simp]:
  "length (lk_tasks (set_phase i ph s)) = length (lk_tasks s)"
  "lk_map (set_phase i ph s) = lk_map s"
  "i < length (lk_tasks s) \<Longrightarrow> lt_key (lk_tasks (set_phase i ph s) ! j) = lt_key (lk_tasks s ! j)"
  "i < length (lk_tasks s) \<Longrightarrow> lt_previous (lk_tasks (set_phase i ph s) ! j) = lt_previous (lk_tasks s ! j)"
  "i < length (lk_tasks s) \<Longrightarrow> phase_of (set_phase i ph s) j = (if j = i then ph else phase_of s j)"
  by (auto simp: set_phase_def phase_of_def nth_list_update)

lemma same_key_set_phase [simp]: "i < length (lk_tasks s) \<Longrightarrow> same_key (set_phase i ph s) a b = same_key s a b"
  by (simp add: same_key_def)

lemma call_simps [simp]:
  "length (lk_tasks (call_lock k s)) = Suc (length (lk_tasks s))"
  "j < length (lk_tasks s) \<Longrightarrow> lk_tasks (call_lock k s) ! j = lk_tasks s ! j"
  "lk_tasks (call_lock k s) ! length (lk_tasks s) = \<lparr>lt_key = k, lt_previous = omap_get (lk_map s) k, lt_phase = Waiting\<rparr>"
  by (auto simp: call_lock_def nth_append)

lemma call_inv:
  assumes "lock_inv s"
  shows "lock_inv (call_lock k s)"
proof -
  let ?n = "length (lk_tasks s)" and ?s = "call_lock k s"
  have old: "queue_ok ?s j" if "j < ?n" for j
  proof -
    have "queue_ok s j" using assms that by (simp add: lock_inv_def)
    then show ?thesis using that
      by (auto simp: queue_ok_def same_key_def phase_of_def split: option.splits)
  qed
  have mk: "map_ok s k" using assms by (simp add: lock_inv_def)
  have new: "queue_ok ?s ?n"
    using mk by (auto simp: queue_ok_def map_ok_def same_key_def phase_of_def split: option.splits)
  have "map_ok ?s l" for l
  proof -
    have ml: "map_ok s l" using assms by (simp add: lock_inv_def)
    have get: "omap_get (lk_map ?s) l = (if l = k then Some ?n else omap_get (lk_map s) l)"
      by (simp add: call_lock_def)
    show ?thesis
    proof (cases "l = k")
      case True
      then have "omap_get (lk_map ?s) l = Some ?n" using get by simp
      then show ?thesis using True by (simp add: map_ok_def phase_of_def)
    next
      case False
      then have "omap_get (lk_map ?s) l = omap_get (lk_map s) l" using get by simp
      then show ?thesis using False ml by (auto simp: map_ok_def phase_of_def less_Suc_eq split: option.splits)
    qed
  qed
  with old new show ?thesis by (auto simp: lock_inv_def less_Suc_eq)
qed

lemma enter_inv:
  assumes "lock_inv s" "can_enter s i"
  shows "lock_inv (set_phase i Holding s)"
proof -
  have i: "i < length (lk_tasks s)" "phase_of s i = Waiting"
    and prev: "case lt_previous (lk_tasks s ! i) of None \<Rightarrow> True | Some p \<Rightarrow> phase_of s p = Released"
    using assms(2) by (auto simp: can_enter_def)
  have qi: "queue_ok s i" using assms(1) i(1) by (simp add: lock_inv_def)
  have before: "phase_of s j = Released" if "j < i" "same_key s j i" for j
  proof (cases "lt_previous (lk_tasks s ! i)")
    case None
    then show ?thesis using qi that by (simp add: queue_ok_def)
  next
    case (Some p)
    then have p: "p < i" "same_key s p i" "\<forall>j < i. p < j \<longrightarrow> \<not> same_key s j i" "phase_of s p = Released"
      using qi prev by (auto simp: queue_ok_def)
    show ?thesis
    proof (cases "j < p")
      case True
      have "queue_ok s p" using assms(1) p(1) i(1) by (simp add: lock_inv_def)
      then show ?thesis using True p(2,4) that(2) by (auto simp: queue_ok_def same_key_def)
    next
      case False
      then show ?thesis using p that by (cases "j = p") auto
    qed
  qed
  have "queue_ok (set_phase i Holding s) j" if "j < length (lk_tasks s)" for j
  proof -
    have qj: "queue_ok s j" using assms(1) that by (simp add: lock_inv_def)
    show ?thesis
    proof (cases "j = i")
      case True
      then show ?thesis using qj before i by (auto simp: queue_ok_def split: option.splits)
    next
      case False
      then show ?thesis using qj i by (auto simp: queue_ok_def split: option.splits)
    qed
  qed
  moreover have "map_ok (set_phase i Holding s) k" for k
  proof -
    have "map_ok s k" using assms(1) by (simp add: lock_inv_def)
    then show ?thesis using i by (auto simp: map_ok_def split: option.splits)
  qed
  ultimately show ?thesis by (simp add: lock_inv_def)
qed

lemma release_inv:
  assumes "lock_inv s" "i < length (lk_tasks s)" "phase_of s i = Holding"
  shows "lock_inv (release_lock i s)"
proof -
  let ?k = "lt_key (lk_tasks s ! i)" and ?s = "release_lock i s"
  have shape: "length (lk_tasks ?s) = length (lk_tasks s)" "lk_tasks ?s = lk_tasks (set_phase i Released s)"
    by (simp_all add: release_lock_def Let_def)
  then have task: "lt_key (lk_tasks ?s ! j) = lt_key (lk_tasks s ! j)" "lt_previous (lk_tasks ?s ! j) = lt_previous (lk_tasks s ! j)"
    "phase_of ?s j = (if j = i then Released else phase_of s j)" for j
    using assms(2) by (simp_all add: phase_of_def [of ?s]) (simp_all add: flip: phase_of_def)
  have get: "omap_get (lk_map ?s) k = (if k = ?k \<and> omap_get (lk_map s) k = Some i then None else omap_get (lk_map s) k)" for k
    using assms(2) by (cases "omap_get (lk_map s) ?k = Some i") (auto simp: release_lock_def Let_def)
  have qi: "queue_ok s i" using assms(1,2) by (simp add: lock_inv_def)
  have before: "phase_of s j = Released" if "j < i" "lt_key (lk_tasks s ! j) = ?k" for j
    using qi that assms(3) by (simp add: queue_ok_def same_key_def)
  have "queue_ok ?s j" if "j < length (lk_tasks s)" for j
  proof -
    have "queue_ok s j" using assms(1) that by (simp add: lock_inv_def)
    then show ?thesis using assms(3) before by (auto simp: queue_ok_def same_key_def task split: option.splits)
  qed
  moreover have "map_ok ?s k" for k
  proof -
    have mk: "map_ok s k" using assms(1) by (simp add: lock_inv_def)
    show ?thesis
    proof (cases "k = ?k \<and> omap_get (lk_map s) k = Some i")
      case True
      then have "\<forall>j < length (lk_tasks s). i < j \<longrightarrow> lt_key (lk_tasks s ! j) \<noteq> k"
        using mk by (auto simp: map_ok_def split: option.splits)
      then have rel: "phase_of ?s j = Released" if "j < length (lk_tasks s)" "lt_key (lk_tasks s ! j) = k" for j
        using that before [of j] True by (cases "j < i") (auto simp: task not_less le_less)
      moreover have "omap_get (lk_map ?s) k = None" using get [of k] True by argo
      ultimately show ?thesis unfolding map_ok_def by (simp add: shape(1) task(1,2))
    next
      case False
      then have "omap_get (lk_map ?s) k = omap_get (lk_map s) k" using get [of k] by argo
      then show ?thesis using mk False by (auto simp: map_ok_def shape(1) task split: option.splits)
    qed
  qed
  ultimately show ?thesis by (simp add: lock_inv_def shape(1))
qed

lemma lock_reachable_inv: "lock_reachable s \<Longrightarrow> lock_inv s"
proof (induction rule: lock_reachable.induct)
  case start'
  then show ?case by (simp add: lock_inv_def map_ok_def)
next
  case (step s s')
  then show ?case by (auto elim!: lock_stepE intro: call_inv enter_inv release_inv)
qed

section \<open>What the lock gives\<close>

text \<open>C12: At most one task holds the lock of a workspace, however the calls and the ends of tasks interleave.\<close>

theorem lock_mutual_exclusion:
  assumes "lock_reachable s" "i < length (lk_tasks s)" "j < length (lk_tasks s)"
    and "phase_of s i = Holding" "phase_of s j = Holding" "same_key s i j"
  shows "i = j"
proof -
  have q: "queue_ok s i" "queue_ok s j" using lock_reachable_inv [OF assms(1)] assms(2,3) by (simp_all add: lock_inv_def)
  show ?thesis
  proof (cases i j rule: linorder_cases)
    case less
    then show ?thesis using q(2) assms(4-6) by (auto simp: queue_ok_def)
  next
    case greater
    then show ?thesis using q(1) assms(4-6) by (auto simp: queue_ok_def same_key_def)
  qed
qed

definition two_calls :: lock_state where
  "two_calls = set_phase 0 Holding (call_lock ''A'' (call_lock ''A'' \<lparr>lk_map = [], lk_tasks = []\<rparr>))"

lemma two_calls_reachable: "lock_reachable two_calls"
proof -
  let ?s1 = "call_lock ''A'' \<lparr>lk_map = [], lk_tasks = []\<rparr>"
  have "lock_reachable ?s1" by (rule lock_reachable.step [OF lock_reachable.start' lock_step.call])
  then have r2: "lock_reachable (call_lock ''A'' ?s1)" by (rule lock_reachable.step [OF _ lock_step.call])
  have "can_enter (call_lock ''A'' ?s1) 0" by code_simp
  then show ?thesis unfolding two_calls_def by (rule lock_reachable.step [OF r2 lock_step.enter])
qed

theorem lock_mutual_exclusion_witness:
  "phase_of two_calls 0 = Holding \<and> phase_of two_calls 1 = Waiting"
proof -
  have "phase_of two_calls 0 = Holding" "phase_of two_calls 1 = Waiting" by code_simp+
  moreover have "phase_of two_calls 0 = Holding \<Longrightarrow> (0::nat) = 0"
    by (rule lock_mutual_exclusion [OF two_calls_reachable, of 0 0]) (simp_all add: same_key_def two_calls_def)
  ultimately show ?thesis by blast
qed

text \<open>
  C13: No task waits for ever: as long as a task of a workspace has not released its lock, some task of that
  workspace holds the lock or may enter at once.
\<close>

theorem lock_progress:
  assumes "lock_reachable s" "j < length (lk_tasks s)" "phase_of s j \<noteq> Released"
  shows "\<exists>i < length (lk_tasks s). same_key s i j \<and> (phase_of s i = Holding \<or> can_enter s i)"
proof -
  let ?open = "\<lambda>i. same_key s i j \<and> phase_of s i \<noteq> Released"
  define i where "i = (LEAST i. ?open i)"
  have "?open j" using assms(3) by (simp add: same_key_def)
  then have i: "?open i" "i \<le> j" unfolding i_def by (rule LeastI, rule Least_le)
  have least: "phase_of s m = Released" if "m < i" "same_key s m i" for m
    using that i(1) not_less_Least [of m ?open] unfolding i_def [symmetric] by (auto simp: same_key_def)
  have len: "i < length (lk_tasks s)" using i(2) assms(2) by simp
  have q: "queue_ok s i" using lock_reachable_inv [OF assms(1)] len by (simp add: lock_inv_def)
  have "phase_of s i = Holding \<or> can_enter s i"
  proof (cases "phase_of s i")
    case Waiting
    then show ?thesis using q least len by (auto simp: can_enter_def queue_ok_def split: option.splits)
  qed (use i(1) in auto)
  with i(1) len show ?thesis by blast
qed

theorem lock_progress_witness:
  "\<exists>i < 2. phase_of two_calls i = Holding \<or> can_enter two_calls i"
proof -
  have l: "length (lk_tasks two_calls) = 2" by code_simp
  have w: "phase_of two_calls 1 \<noteq> Released" by code_simp
  from lock_progress [OF two_calls_reachable _ w] l show ?thesis by auto
qed

text \<open>The map of locks does not grow without end: when every task has released its lock it is empty.\<close>

theorem lock_map_drained:
  assumes "lock_reachable s" "\<forall>i < length (lk_tasks s). phase_of s i = Released"
  shows "omap_get (lk_map s) k = None"
proof -
  have "map_ok s k" using lock_reachable_inv [OF assms(1)] by (simp add: lock_inv_def)
  with assms(2) show ?thesis by (auto simp: map_ok_def split: option.splits)
qed

theorem lock_map_drained_witness: "omap_get (lk_map \<lparr>lk_map = [], lk_tasks = []\<rparr>) ''A'' = None"
  by (rule lock_map_drained [OF lock_reachable.start']) simp

end
