(* ===== verification/WorkspaceManager.thy ===== *)
theory WorkspaceManager
  imports GitOps WorkspacePaths
begin

text \<open>
  The workspaces of \<open>src/src/workspace/manager.ts\<close>: creation, hooks and removal under both strategies, over a file
  system of directories and files. Paths are kept as their resolved segments; a hook is a function on the world,
  as \<open>git\<close> is; there are no symbolic links in the model, making and reading directories fail only for what is at
  the path, a removal also for entries that cannot be taken away (for lack of permission, or because they are
  busy), and the long dash of one message is written as two short ones.
\<close>

section \<open>The file system\<close>

datatype fs_node = DirNode | FileNode

text \<open>\<open>ww_stays\<close> holds the entries that a removal cannot take away or does not get to before it fails.\<close>

record 'g ws_world =
  ww_nodes :: "(string list, fs_node) omap"
  ww_stays :: "string list list"
  ww_rest :: 'g

datatype stat_result = StatDir | StatOther | StatMissing | StatFailed js_error

definition under_file :: "(string list, fs_node) omap \<Rightarrow> string list \<Rightarrow> bool" where
  "under_file nodes p \<longleftrightarrow> list_ex (\<lambda>n. omap_get nodes (take n p) = Some FileNode) [0..<length p]"

definition fs_stat :: "(string list, fs_node) omap \<Rightarrow> string list \<Rightarrow> stat_result" where
  "fs_stat nodes p =
     (if under_file nodes p then StatFailed (JsError ''ENOTDIR'')
      else if p = [] then StatDir
      else case omap_get nodes p of None \<Rightarrow> StatMissing | Some DirNode \<Rightarrow> StatDir | Some FileNode \<Rightarrow> StatOther)"

definition fs_mkdir :: "string list \<Rightarrow> (unit, 'g ws_world) io" where
  "fs_mkdir p w =
     (case (fs_stat (ww_nodes w) p, fs_stat (ww_nodes w) (butlast p)) of
        (StatMissing, StatDir) \<Rightarrow> (Inr (), w\<lparr>ww_nodes := omap_set p DirNode (ww_nodes w)\<rparr>)
      | (StatMissing, _) \<Rightarrow> (Inl (JsError ''ENOENT''), w)
      | (StatFailed err, _) \<Rightarrow> (Inl err, w)
      | _ \<Rightarrow> (Inl (JsError ''EEXIST''), w))"

fun mkdir_from :: "string list \<Rightarrow> string list \<Rightarrow> (unit, 'g ws_world) io" where
  "mkdir_from done [] w = (Inr (), w)"
| "mkdir_from done (seg # rest) w =
     (case omap_get (ww_nodes w) (done @ [seg]) of
        Some DirNode \<Rightarrow> mkdir_from (done @ [seg]) rest w
      | Some FileNode \<Rightarrow> (Inl (JsError (if rest = [] then ''EEXIST'' else ''ENOTDIR'')), w)
      | None \<Rightarrow> mkdir_from (done @ [seg]) rest (w\<lparr>ww_nodes := omap_set (done @ [seg]) DirNode (ww_nodes w)\<rparr>))"

definition below :: "string list \<Rightarrow> string list \<Rightarrow> bool" where
  "below p q \<longleftrightarrow> take (length p) q = p"

text \<open>
  \<open>rm\<close> with \<open>recursive\<close> and \<open>force\<close>. Where entries stay, it has removed the others, and the directories above
  those that stay are still there; the error stands for \<open>EACCES\<close>, \<open>EPERM\<close> and \<open>EBUSY\<close>.
\<close>

definition stuck_below :: "string list \<Rightarrow> 'g ws_world \<Rightarrow> string list list" where
  "stuck_below p w = filter (\<lambda>r. below p r \<and> omap_has (ww_nodes w) r) (ww_stays w)"

definition fs_rm :: "string list \<Rightarrow> (unit, 'g ws_world) io" where
  "fs_rm p w =
     (if under_file (ww_nodes w) p then (Inl (JsError ''ENOTDIR''), w)
      else (if stuck_below p w = [] then Inr () else Inl (JsError ''EACCES''),
            w\<lparr>ww_nodes := filter (\<lambda>(q, _). \<not> below p q \<or> list_ex (below q) (stuck_below p w)) (ww_nodes w)\<rparr>))"

section \<open>The manager\<close>

datatype hook_exit = Exited "int option" | SpawnFailed js_error | HookTimedOut

record 'g wm_env =
  wm_cwd :: string
  wm_section :: workspace_section
  wm_pathEnv :: "string option"
  wm_spawn :: "string \<Rightarrow> string \<Rightarrow> (string \<times> string) list \<Rightarrow> 'g ws_world \<Rightarrow> hook_exit \<times> 'g ws_world"
  wm_worktree :: "('g ws_world git_env \<times> (issue \<Rightarrow> repo_match option)) option"

record git_workspace = workspace +
  gw_gitBaseDir :: "string option"

record removal_result =
  wr_removed :: bool
  wr_preserved :: bool
  wr_hadUncommittedChanges :: bool
  wr_autoCommitAttempted :: bool
  wr_autoCommitSha :: "string option"
  wr_autoCommitError :: "string option"

definition emptyRemovalResult :: removal_result where
  "emptyRemovalResult =
     \<lparr>wr_removed = False, wr_preserved = False, wr_hadUncommittedChanges = False, wr_autoCommitAttempted = False,
      wr_autoCommitSha = None, wr_autoCommitError = None\<rparr>"

definition segs :: "'g wm_env \<Rightarrow> string \<Rightarrow> string list" where
  "segs e p = resolve_all (wm_cwd e) [p]"

definition pathIsDirectory :: "'g wm_env \<Rightarrow> string \<Rightarrow> (bool, 'g ws_world) io" where
  "pathIsDirectory e p w = (Inr (fs_stat (ww_nodes w) (segs e p) = StatDir), w)"

definition pathExists :: "'g wm_env \<Rightarrow> string \<Rightarrow> (bool, 'g ws_world) io" where
  "pathExists e p w = (Inr (fs_stat (ww_nodes w) (segs e p) \<in> {StatDir, StatOther}), w)"

definition assertWorkspaceWithinRoot :: "'g wm_env \<Rightarrow> 'a workspace_scheme \<Rightarrow> (unit, 'g ws_world) io" where
  "assertWorkspaceWithinRoot e ws =
     (if isWithinRoot (wm_cwd e) (wk_root (wm_section e)) (ws_path ws) then io_return ()
      else io_throw (JsError (''workspace path escaped root: '' @ ws_path ws)))"

definition hook_result :: "int \<Rightarrow> hook_exit \<times> 'g ws_world \<Rightarrow> (js_error + unit) \<times> 'g ws_world" where
  "hook_result timeoutMs r = (case r of
     (Exited code, w) \<Rightarrow>
       (if code = Some 0 then Inr ()
        else Inl (JsError (''hook exited with code '' @ (case code of None \<Rightarrow> ''null'' | Some n \<Rightarrow> show_int n))), w)
   | (SpawnFailed err, w) \<Rightarrow> (Inl err, w)
   | (HookTimedOut, w) \<Rightarrow> (Inl (JsError (''hook timed out after '' @ show_int timeoutMs @ ''ms'')), w))"

definition runHook :: "'g wm_env \<Rightarrow> string option \<Rightarrow> 'a workspace_scheme \<Rightarrow> string \<Rightarrow> (unit, 'g ws_world) io" where
  "runHook e hook ws sanitizedIdentifier =
     (case truthy_string hook of
        None \<Rightarrow> io_return ()
      | Some h \<Rightarrow> io_bind (assertWorkspaceWithinRoot e ws)
          (\<lambda>_ w. hook_result (wh_timeoutMs (wk_hooks (wm_section e)))
             (wm_spawn e h (path_resolve (wm_cwd e) [ws_path ws])
               [(''PATH'', buildSafePath (wm_pathEnv e)), (''RISOLUTO_WORKSPACE_PATH'', ws_path ws),
                (''RISOLUTO_ISSUE_IDENTIFIER'', sanitizedIdentifier)] w)))"

definition runBeforeRun :: "'g wm_env \<Rightarrow> 'a workspace_scheme \<Rightarrow> string \<Rightarrow> (unit, 'g ws_world) io" where
  "runBeforeRun e ws ident = runHook e (wh_beforeRun (wk_hooks (wm_section e))) ws (sanitizeIdentifier ident)"

definition runAfterRun :: "'g wm_env \<Rightarrow> 'a workspace_scheme \<Rightarrow> string \<Rightarrow> (unit, 'g ws_world) io" where
  "runAfterRun e ws ident = runHook e (wh_afterRun (wk_hooks (wm_section e))) ws (sanitizeIdentifier ident)"

definition runBeforeRemoveHook :: "'g wm_env \<Rightarrow> 'a workspace_scheme \<Rightarrow> string \<Rightarrow> (unit, 'g ws_world) io" where
  "runBeforeRemoveHook e ws key =
     io_catch (runHook e (wh_beforeRemove (wk_hooks (wm_section e))) ws key) (\<lambda>_. io_return ())"

definition TRANSIENT_DIRECTORIES :: "string list" where
  "TRANSIENT_DIRECTORIES = [''tmp'', ''.elixir_ls'']"

fun rm_transient :: "'g wm_env \<Rightarrow> string \<Rightarrow> string list \<Rightarrow> (unit, 'g ws_world) io" where
  "rm_transient e p [] = io_return ()"
| "rm_transient e p (d # ds) =
     (let target = path_resolve (wm_cwd e) [path_resolve (wm_cwd e) [p, d]]
      in io_bind (if isWithinRoot (wm_cwd e) p target then fs_rm (segs e target) else io_return ())
           (\<lambda>_. rm_transient e p ds))"

definition prepareForAttempt :: "'g wm_env \<Rightarrow> 'a workspace_scheme \<Rightarrow> (unit, 'g ws_world) io" where
  "prepareForAttempt e ws =
     io_bind (assertWorkspaceWithinRoot e ws) (\<lambda>_. rm_transient e (ws_path ws) TRANSIENT_DIRECTORIES)"

definition workspace_location :: "'g wm_env \<Rightarrow> string \<Rightarrow> (string \<times> string, 'g ws_world) io" where
  "workspace_location e ident =
     (case resolveWorkspacePath (wm_cwd e) (wk_root (wm_section e)) ident of
        Inl m \<Rightarrow> io_throw (JsError m)
      | Inr loc \<Rightarrow> io_return loc)"

section \<open>Creation\<close>

text \<open>The inner \<open>try\<close>: whether the directory had to be created.\<close>

definition stat_or_create :: "string \<Rightarrow> string list \<Rightarrow> (bool, 'g ws_world) io" where
  "stat_or_create path p w =
     (case fs_stat (ww_nodes w) p of
        StatDir \<Rightarrow> (Inr False, w)
      | StatOther \<Rightarrow> (Inl (JsError (''workspace target is not a directory: '' @ path)), w)
      | StatFailed err \<Rightarrow> (Inl err, w)
      | StatMissing \<Rightarrow> io_bind (fs_mkdir p) (\<lambda>_. io_return True) w)"

definition ensureDirectoryWorkspace :: "'g wm_env \<Rightarrow> string \<Rightarrow> (git_workspace, 'g ws_world) io" where
  "ensureDirectoryWorkspace e ident =
     io_bind (mkdir_from [] (segs e (wk_root (wm_section e))))
       (\<lambda>_. io_bind (workspace_location e ident)
          (\<lambda>(key, path). io_bind (stat_or_create path (segs e path))
             (\<lambda>createdNow.
                let ws = \<lparr>ws_path = path, ws_key = key, ws_createdNow = createdNow, gw_gitBaseDir = None\<rparr>
                in if createdNow
                   then io_catch
                          (io_bind (runHook e (wh_afterCreate (wk_hooks (wm_section e))) ws key) (\<lambda>_. io_return ws))
                          (\<lambda>err. io_bind (fs_rm (segs e path)) (\<lambda>_. io_throw err))
                   else io_return ws)))"

definition ensureWorktreeWorkspace :: "'g wm_env \<Rightarrow> string \<Rightarrow> issue option \<Rightarrow> (git_workspace, 'g ws_world) io" where
  "ensureWorktreeWorkspace e ident i =
     (case (i, wm_worktree e) of
        (None, _) \<Rightarrow> io_throw (JsError ''worktree strategy requires the full Issue object'')
      | (Some _, None) \<Rightarrow> io_throw (JsError ''worktree strategy requires gitManager and repoRouter deps'')
      | (Some iss, Some (gm, router)) \<Rightarrow>
          (case router iss of
             None \<Rightarrow> io_throw (JsError (''worktree strategy requires a repo match for issue '' @ ident @ '' -- no matching repo route found''))
           | Some route \<Rightarrow>
               io_bind (mkdir_from [] (segs e (wk_root (wm_section e))))
                 (\<lambda>_. io_bind (workspace_location e ident)
                    (\<lambda>(key, path).
                       let baseDir = deriveBaseCloneDir gm (wk_root (wm_section e)) (rm_repoUrl route)
                       in io_bind (pathIsDirectory e path)
                            (\<lambda>there.
                               let ws = \<lparr>ws_path = path, ws_key = key, ws_createdNow = \<not> there, gw_gitBaseDir = Some baseDir\<rparr>
                               in if there then io_return ws
                                  else io_bind (setupWorktree gm route baseDir path iss (wk_branchPrefix (wm_section e)))
                                         (\<lambda>_. io_bind (runHook e (wh_afterCreate (wk_hooks (wm_section e))) ws key)
                                            (\<lambda>_. io_return ws)))))))"

definition ensureWorkspace :: "'g wm_env \<Rightarrow> string \<Rightarrow> issue option \<Rightarrow> (git_workspace, 'g ws_world) io" where
  "ensureWorkspace e ident i =
     (case wk_strategy (wm_section e) of
        WorktreeStrategy \<Rightarrow> ensureWorktreeWorkspace e ident i
      | DirectoryStrategy \<Rightarrow> ensureDirectoryWorkspace e ident)"

section \<open>Removal\<close>

definition enforcePreCleanupCommit :: "'g wm_env \<Rightarrow> string \<Rightarrow> string \<Rightarrow> (removal_result, 'g ws_world) io" where
  "enforcePreCleanupCommit e path ident =
     (case wm_worktree e of
        None \<Rightarrow> io_return emptyRemovalResult
      | Some (gm, _) \<Rightarrow>
          io_bind (pathExists e (path_resolve (wm_cwd e) [path, ''.git'']))
            (\<lambda>hasGit.
               if \<not> hasGit then io_return emptyRemovalResult
               else io_bind (io_catch (io_bind (hasUncommittedChanges gm path) (\<lambda>c. io_return (Inr c))) (\<lambda>err. io_return (Inl err)))
                 (\<lambda>changes. case changes of
                    Inl err \<Rightarrow> io_return (emptyRemovalResult\<lparr>wr_preserved := True, wr_hadUncommittedChanges := True,
                                 wr_autoCommitError := Some (toErrorString err)\<rparr>)
                  | Inr False \<Rightarrow> io_return emptyRemovalResult
                  | Inr True \<Rightarrow>
                      io_catch
                        (io_bind (autoCommit gm path (''['' @ ident @ ''] auto-commit: workspace cleanup preservation'') True)
                          (\<lambda>sha. io_return (emptyRemovalResult\<lparr>wr_hadUncommittedChanges := True, wr_autoCommitAttempted := True,
                                    wr_autoCommitSha := Some sha\<rparr>)))
                        (\<lambda>err. io_return (emptyRemovalResult\<lparr>wr_preserved := True, wr_hadUncommittedChanges := True,
                                  wr_autoCommitAttempted := True, wr_autoCommitError := Some (toErrorString err)\<rparr>)))))"

text \<open>The shared beginning of both removals; \<open>None\<close> is the early return.\<close>

definition before_removal ::
  "'g wm_env \<Rightarrow> string \<Rightarrow> (string \<Rightarrow> removal_result \<Rightarrow> (removal_result, 'g ws_world) io) \<Rightarrow> (removal_result, 'g ws_world) io" where
  "before_removal e ident delete =
     io_bind (workspace_location e ident)
       (\<lambda>(key, path). io_bind (pathIsDirectory e path)
          (\<lambda>there.
             if \<not> there then io_return emptyRemovalResult
             else io_bind (runBeforeRemoveHook e \<lparr>ws_path = path, ws_key = key, ws_createdNow = False\<rparr> key)
                    (\<lambda>_. io_bind (enforcePreCleanupCommit e path ident)
                       (\<lambda>protection. if wr_preserved protection then io_return protection else delete path protection))))"

definition rm_workspace :: "'g wm_env \<Rightarrow> string \<Rightarrow> removal_result \<Rightarrow> (removal_result, 'g ws_world) io" where
  "rm_workspace e path protection =
     io_bind (fs_rm (segs e path)) (\<lambda>_. io_return (protection\<lparr>wr_removed := True\<rparr>))"

definition removeDirectoryWorkspace :: "'g wm_env \<Rightarrow> string \<Rightarrow> (removal_result, 'g ws_world) io" where
  "removeDirectoryWorkspace e ident = before_removal e ident (rm_workspace e)"

definition removeWorktreeWorkspace :: "'g wm_env \<Rightarrow> string \<Rightarrow> issue option \<Rightarrow> (removal_result, 'g ws_world) io" where
  "removeWorktreeWorkspace e ident i =
     (case wm_worktree e of
        None \<Rightarrow> io_throw (JsError ''worktree strategy requires gitManager and repoRouter deps'')
      | Some (gm, router) \<Rightarrow>
          before_removal e ident
            (\<lambda>path protection.
               case Option.bind i router of
                 None \<Rightarrow> rm_workspace e path protection
               | Some route \<Rightarrow>
                   io_catch
                     (io_bind (removeWorktree (ge_git gm) (deriveBaseCloneDir gm (wk_root (wm_section e)) (rm_repoUrl route)) path True)
                       (\<lambda>_. io_return (protection\<lparr>wr_removed := True\<rparr>)))
                     (\<lambda>_. rm_workspace e path protection)))"

definition removeWorkspaceWithResult :: "'g wm_env \<Rightarrow> string \<Rightarrow> issue option \<Rightarrow> (removal_result, 'g ws_world) io" where
  "removeWorkspaceWithResult e ident i =
     (case wk_strategy (wm_section e) of
        WorktreeStrategy \<Rightarrow> removeWorktreeWorkspace e ident i
      | DirectoryStrategy \<Rightarrow> removeDirectoryWorkspace e ident)"

end
