(* ===== verification/WorkspaceClaims.thy ===== *)
theory WorkspaceClaims
  imports WorkspaceManager GitClaims
begin

text \<open>What the creation, the hooks and the removal of workspaces promise, and where they fail.\<close>

section \<open>The file system\<close>

lemma below_refl [simp]: "below p p"
  by (simp add: below_def)

lemma stat_not_missing:
  "p \<noteq> [] \<Longrightarrow> omap_get nodes p = None \<Longrightarrow> fs_stat nodes p \<notin> {StatDir, StatOther}"
  by (auto simp: fs_stat_def)

lemma omap_get_filter_key: "omap_get (filter (\<lambda>(q, _). P q) nodes) r = (if P r then omap_get nodes r else None)"
  by (induction nodes) (auto simp: omap_get_def)

lemma rm_gone:
  assumes "fs_rm p w = (Inr (), w')" "p \<noteq> []"
  shows "fs_stat (ww_nodes w') p \<notin> {StatDir, StatOther}"
proof -
  have "omap_get (ww_nodes w') p = None" using assms
    by (auto simp: fs_rm_def omap_get_filter_key split: if_splits)
  then show ?thesis using assms(2) by (intro stat_not_missing) auto
qed

text \<open>A removal that fails for permission leaves an entry that it could not take away; otherwise the path is gone.\<close>

lemma rm_outcome:
  assumes "fs_rm p w = (res, w')" "p \<noteq> []"
  shows "fs_stat (ww_nodes w') p \<notin> {StatDir, StatOther} \<or>
    (res = Inl (JsError ''EACCES'') \<and> (\<exists>q \<in> set (ww_stays w'). below p q \<and> omap_has (ww_nodes w') q))"
proof (cases "under_file (ww_nodes w) p \<or> stuck_below p w = []")
  case True
  then show ?thesis
  proof
    assume "under_file (ww_nodes w) p"
    then show ?thesis using assms by (auto simp: fs_rm_def fs_stat_def)
  next
    assume "stuck_below p w = []"
    then show ?thesis using assms rm_gone [of p w w'] by (auto simp: fs_rm_def fs_stat_def split: if_splits)
  qed
next
  case False
  then obtain q where q: "q \<in> set (stuck_below p w)" by (cases "stuck_below p w") auto
  have w': "res = Inl (JsError ''EACCES'')" "ww_stays w' = ww_stays w"
    "ww_nodes w' = filter (\<lambda>(q, _). \<not> below p q \<or> list_ex (below q) (stuck_below p w)) (ww_nodes w)"
    using assms(1) False by (auto simp: fs_rm_def)
  have "list_ex (below q) (stuck_below p w)" unfolding list_ex_iff by (rule bexI [OF below_refl q])
  then have "omap_has (ww_nodes w') q" using q by (auto simp: w' stuck_below_def omap_has_def)
  then show ?thesis using q w' by (auto simp: stuck_below_def)
qed

lemma rm_complete: "fs_rm p w = (Inr (), w') \<Longrightarrow> list_all (\<lambda>(q, _). \<not> below p q) (ww_nodes w')"
  by (auto simp: fs_rm_def list_all_iff split: if_splits)

lemma rm_frame: "fs_rm p w = (res, w') \<Longrightarrow> \<not> below p q \<Longrightarrow> omap_get (ww_nodes w') q = omap_get (ww_nodes w) q"
  by (auto simp: fs_rm_def omap_get_filter_key split: if_splits)

text \<open>Making a directory changes nothing below it and makes no file.\<close>

lemma mkdir_from_get:
  "mkdir_from done rest w = (res, w') \<Longrightarrow>
     (length (done @ rest) < length q \<longrightarrow> omap_get (ww_nodes w') q = omap_get (ww_nodes w) q) \<and>
     (omap_get (ww_nodes w') q = Some FileNode \<longleftrightarrow> omap_get (ww_nodes w) q = Some FileNode)"
proof (induction rest arbitrary: "done" w)
  case (Cons seg rest)
  show ?case
  proof (cases "omap_get (ww_nodes w) (done @ [seg])")
    case None
    then show ?thesis
      using Cons.IH [of "done @ [seg]" "w\<lparr>ww_nodes := omap_set (done @ [seg]) DirNode (ww_nodes w)\<rparr>"] Cons.prems by auto
  next
    case (Some n)
    then show ?thesis using Cons.IH [of "done @ [seg]" w] Cons.prems by (cases n) auto
  qed
qed auto

lemma mkdir_root_stat:
  assumes "mkdir_from [] p w = (res, w')" "length p < length q"
  shows "fs_stat (ww_nodes w') q = fs_stat (ww_nodes w) q"
proof -
  have "under_file (ww_nodes w') q = under_file (ww_nodes w) q"
    using mkdir_from_get [OF assms(1)] by (simp add: under_file_def)
  moreover have "omap_get (ww_nodes w') q = omap_get (ww_nodes w) q"
    using mkdir_from_get [OF assms(1)] assms(2) by simp
  ultimately show ?thesis by (simp add: fs_stat_def)
qed

section \<open>Where a workspace lies\<close>

lemma workspace_location_cases:
  assumes "ident \<noteq> []"
  obtains key path where "workspace_location e ident = io_return (key, path)"
    "segs e path = segs e (wk_root (wm_section e)) @ [key]"
    "resolveWorkspacePath (wm_cwd e) (wk_root (wm_section e)) ident = Inr (key, path)"
  using resolveWorkspacePath_child [OF assms, of "wm_cwd e" "wk_root (wm_section e)"] that
  by (auto simp: workspace_location_def segs_def)

section \<open>Creation\<close>

text \<open>
  C35: When a workspace directory did not exist and its creation fails, by its hook or before, then the directory
  does not exist afterwards, so that the next attempt starts again; unless the removal of the directory failed on an
  entry that the hook left and that cannot be taken away, in which case the error of the removal is the one returned.
\<close>

theorem failed_creation_leaves_nothing:
  assumes "ident \<noteq> []" "resolveWorkspacePath (wm_cwd e) (wk_root (wm_section e)) ident = Inr (key, path)"
    and "fs_stat (ww_nodes w) (segs e path) \<notin> {StatDir, StatOther}"
    and "ensureDirectoryWorkspace e ident w = (Inl err, w')"
  shows "fs_stat (ww_nodes w') (segs e path) \<notin> {StatDir, StatOther} \<or>
    (err = JsError ''EACCES'' \<and> (\<exists>q \<in> set (ww_stays w'). below (segs e path) q \<and> omap_has (ww_nodes w') q))"
proof -
  let ?root = "segs e (wk_root (wm_section e))" and ?p = "segs e path"
  have loc: "workspace_location e ident = io_return (key, path)" using assms(2) by (simp add: workspace_location_def)
  have p: "?p = ?root @ [key]"
    using workspace_location_cases [OF assms(1), of e] assms(2) by (metis Inr_inject prod.inject)
  obtain res w1 where mk: "mkdir_from [] ?root w = (res, w1)" by (metis surj_pair)
  then have s1: "fs_stat (ww_nodes w1) ?p = fs_stat (ww_nodes w) ?p" using p by (intro mkdir_root_stat) auto
  show ?thesis
  proof (cases res)
    case (Inl x)
    then show ?thesis using assms(3,4) mk s1 by (simp add: ensureDirectoryWorkspace_def)
  next
    case (Inr u)
    obtain made w2 where st: "stat_or_create path ?p w1 = (made, w2)" by (metis surj_pair)
    show ?thesis
    proof (cases made)
      case (Inl x)
      then have "w2 = w1" using st assms(3) s1
        by (auto simp: stat_or_create_def fs_mkdir_def split: stat_result.splits prod.splits)
      then show ?thesis using Inl Inr assms(3,4) mk s1 st loc by (simp add: ensureDirectoryWorkspace_def)
    next
      case made: (Inr c)
      then have "c" using st assms(3) s1 by (auto simp: stat_or_create_def split: stat_result.splits sum.splits prod.splits)
      let ?ws = "\<lparr>ws_path = path, ws_key = key, ws_createdNow = True, gw_gitBaseDir = None\<rparr>"
      obtain h w3 where hook: "runHook e (wh_afterCreate (wk_hooks (wm_section e))) ?ws key w2 = (h, w3)" by (metis surj_pair)
      obtain rr w4 where rm: "fs_rm ?p w3 = (rr, w4)" by (metis surj_pair)
      have "w' = w4" "rr = Inl x \<Longrightarrow> err = x" for x using assms(4) Inr made \<open>c\<close> mk st loc hook rm
        by (auto simp: ensureDirectoryWorkspace_def Let_def io_throw_def split: sum.splits)
      then show ?thesis using rm_outcome [OF rm] p by auto
    qed
  qed
qed

text \<open>
  In that exceptional case the next call finds the directory and hands it out as a ready workspace: the hook that
  failed is not run again.
\<close>

theorem leftover_directory_handed_out:
  assumes "resolveWorkspacePath (wm_cwd e) (wk_root (wm_section e)) ident = Inr (key, path)"
    and "mkdir_from [] (segs e (wk_root (wm_section e))) w = (Inr (), w1)" "fs_stat (ww_nodes w1) (segs e path) = StatDir"
  shows "ensureDirectoryWorkspace e ident w =
    (Inr \<lparr>ws_path = path, ws_key = key, ws_createdNow = False, gw_gitBaseDir = None\<rparr>, w1)"
  using assms by (simp add: ensureDirectoryWorkspace_def workspace_location_def stat_or_create_def Let_def)

text \<open>
  Under the worktree strategy a failed \<open>afterCreate\<close> hook is never run again: the worktree it ran in stays, and
  the next call finds it and returns the workspace as a ready one, whatever the hook would answer.
\<close>

theorem worktree_hook_skipped:
  assumes "ident \<noteq> []" "resolveWorkspacePath (wm_cwd e) (wk_root (wm_section e)) ident = Inr (key, path)"
    and "wm_worktree e = Some (gm, router)" "router iss = Some route"
    and "mkdir_from [] (segs e (wk_root (wm_section e))) w = (Inr (), w1)" "fs_stat (ww_nodes w1) (segs e path) = StatDir"
  shows "ensureWorktreeWorkspace e ident (Some iss) w =
    (Inr \<lparr>ws_path = path, ws_key = key, ws_createdNow = False,
          gw_gitBaseDir = Some (deriveBaseCloneDir gm (wk_root (wm_section e)) (rm_repoUrl route))\<rparr>, w1)"
  using assms by (simp add: ensureWorktreeWorkspace_def workspace_location_def pathIsDirectory_def Let_def)

section \<open>Removal\<close>

lemma protection_shape:
  assumes "enforcePreCleanupCommit e path ident w = (Inr r, w')"
  shows "\<not> wr_removed r \<and> (wr_preserved r \<or> \<not> wr_hadUncommittedChanges r \<or> wr_autoCommitSha r \<noteq> None)"
  using assms
  by (auto simp: enforcePreCleanupCommit_def emptyRemovalResult_def pathExists_def
      split: option.splits prod.splits sum.splits if_splits bool.splits)

lemma before_removal_cases:
  assumes "before_removal e ident delete w = (Inr r, w')" "ident \<noteq> []"
  obtains "wr_removed r = False" "wr_preserved r \<or> r = emptyRemovalResult"
  | key path w1 r1 w2 where "resolveWorkspacePath (wm_cwd e) (wk_root (wm_section e)) ident = Inr (key, path)"
      "enforcePreCleanupCommit e path ident w1 = (Inr r1, w2)" "\<not> wr_preserved r1" "delete path r1 w2 = (Inr r, w')"
proof -
  obtain key path where loc: "workspace_location e ident = io_return (key, path)"
    "resolveWorkspacePath (wm_cwd e) (wk_root (wm_section e)) ident = Inr (key, path)"
    by (rule workspace_location_cases [OF assms(2)])
  show ?thesis
  proof (cases "fs_stat (ww_nodes w) (segs e path) = StatDir")
    case False
    then have "r = emptyRemovalResult" using assms(1) loc by (simp add: before_removal_def pathIsDirectory_def)
    then show ?thesis by (intro that(1)) (simp_all add: emptyRemovalResult_def)
  next
    case True
    obtain h w1 where hook: "runBeforeRemoveHook e \<lparr>ws_path = path, ws_key = key, ws_createdNow = False\<rparr> key w = (h, w1)"
      by (metis surj_pair)
    obtain x w2 where pr: "enforcePreCleanupCommit e path ident w1 = (x, w2)" by (metis surj_pair)
    have run: "(case h of Inl err \<Rightarrow> (Inl err, w1)
        | Inr u \<Rightarrow> (case x of Inl err \<Rightarrow> (Inl err, w2)
            | Inr r1 \<Rightarrow> (if wr_preserved r1 then io_return r1 else delete path r1) w2)) = (Inr r, w')"
      using assms(1) True hook pr by (auto simp: before_removal_def loc(1) pathIsDirectory_def split: sum.splits)
    obtain u where "h = Inr u" using hook
      by (auto simp: runBeforeRemoveHook_def split: prod.splits sum.splits)
    show ?thesis
    proof (cases x)
      case (Inl err)
      then show ?thesis using run \<open>h = Inr u\<close> pr by simp
    next
      case (Inr r1)
      show ?thesis
      proof (cases "wr_preserved r1")
        case pres: True
        then have "r = r1" using run \<open>h = Inr u\<close> Inr pr by simp
        then show ?thesis using protection_shape [OF pr [unfolded Inr]] pres by (intro that(1)) simp_all
      next
        case False
        then have "delete path r1 w2 = (Inr r, w')" using run \<open>h = Inr u\<close> Inr pr by simp
        then show ?thesis using that(2) [OF loc(2) pr [unfolded Inr] False] by simp
      qed
    qed
  qed
qed


lemma before_removal_run:
  assumes "resolveWorkspacePath (wm_cwd e) (wk_root (wm_section e)) ident = Inr (key, path)"
    and "fs_stat (ww_nodes w) (segs e path) = StatDir"
    and "w1 = snd (runBeforeRemoveHook e \<lparr>ws_path = path, ws_key = key, ws_createdNow = False\<rparr> key w)"
  shows "before_removal e ident delete w = (case enforcePreCleanupCommit e path ident w1 of
     (Inl err, w2) \<Rightarrow> (Inl err, w2)
   | (Inr r1, w2) \<Rightarrow> if wr_preserved r1 then (Inr r1, w2) else delete path r1 w2)"
proof -
  obtain h w' where hook: "runBeforeRemoveHook e \<lparr>ws_path = path, ws_key = key, ws_createdNow = False\<rparr> key w = (h, w')"
    by (metis surj_pair)
  then obtain u where "h = Inr u" by (auto simp: runBeforeRemoveHook_def split: prod.splits sum.splits)
  then show ?thesis using assms hook
    by (auto simp: before_removal_def workspace_location_def pathIsDirectory_def io_return_def split: prod.splits sum.splits)
qed

lemma protection_cases:
  assumes "enforcePreCleanupCommit e path ident w = (Inr r, w')" "wm_worktree e = Some (gm, router)"
    and "fst (pathExists e (path_resolve (wm_cwd e) [path, ''.git'']) w) = Inr True"
  obtains w2 where "hasUncommittedChanges gm path w = (Inr False, w2)" "\<not> wr_preserved r"
  | err where "hasUncommittedChanges gm path w = (Inl err, w')" "wr_preserved r"
  | sha w2 where "hasUncommittedChanges gm path w = (Inr True, w2)" "wr_autoCommitSha r = Some sha" "\<not> wr_preserved r"
      "autoCommit gm path (''['' @ ident @ ''] auto-commit: workspace cleanup preservation'') True w2 = (Inr sha, w')"
  | err w2 where "hasUncommittedChanges gm path w = (Inr True, w2)" "wr_preserved r"
      "autoCommit gm path (''['' @ ident @ ''] auto-commit: workspace cleanup preservation'') True w2 = (Inl err, w')"
proof -
  have git: "pathExists e (path_resolve (wm_cwd e) [path, ''.git'']) w = (Inr True, w)"
    using assms(3) by (simp add: pathExists_def)
  obtain h w2 where st: "hasUncommittedChanges gm path w = (h, w2)" by (metis surj_pair)
  show ?thesis
  proof (cases h)
    case (Inl err)
    then show ?thesis using that(2) assms(1,2) git st by (auto simp: enforcePreCleanupCommit_def)
  next
    case (Inr changed)
    obtain c w3 where ac: "autoCommit gm path (''['' @ ident @ ''] auto-commit: workspace cleanup preservation'') True w2 = (c, w3)"
      by (metis surj_pair)
    show ?thesis
    proof (cases changed)
      case False
      then show ?thesis using that(1) assms(1,2) git st Inr
        by (auto simp: enforcePreCleanupCommit_def emptyRemovalResult_def)
    next
      case True
      then show ?thesis using that(3,4) assms(1,2) git st Inr ac
        by (cases c) (auto simp: enforcePreCleanupCommit_def emptyRemovalResult_def)
    qed
  qed
qed

lemma removal_deletes:
  assumes "removeWorkspaceWithResult e ident i w = (Inr r, w')"
  obtains delete where "before_removal e ident delete w = (Inr r, w')"
    "\<And>path r1 w1 r w2. delete path r1 w1 = (Inr r, w2) \<Longrightarrow> r = r1\<lparr>wr_removed := True\<rparr>"
proof (cases "wk_strategy (wm_section e)")
  case DirectoryStrategy
  then show ?thesis using assms
    by (intro that [of "rm_workspace e"])
      (auto simp: removeWorkspaceWithResult_def removeDirectoryWorkspace_def rm_workspace_def split: sum.splits prod.splits)
next
  case WorktreeStrategy
  then obtain gm router where "wm_worktree e = Some (gm, router)"
    using assms by (auto simp: removeWorkspaceWithResult_def removeWorktreeWorkspace_def io_throw_def split: option.splits)
  then show ?thesis using assms WorktreeStrategy
    by (simp add: removeWorkspaceWithResult_def removeWorktreeWorkspace_def)
      (rule that, assumption, auto simp: rm_workspace_def split: sum.splits prod.splits option.splits)
qed

lemma git_parts:
  "hasUncommittedChanges gm path w = (Inr b, w2) \<Longrightarrow>
     \<exists>out. ge_git gm [''status'', ''--porcelain''] path w = (Inr out, w2) \<and> b = (js_trim out \<noteq> [])"
  "autoCommit gm path msg True w = (Inr sha, w2) \<Longrightarrow>
     \<exists>a wa c wc. ge_git gm [''add'', ''-A''] path w = (Inr a, wa) \<and>
       ge_git gm [''commit'', ''--no-verify'', ''-m'', msg] path wa = (Inr c, wc)"
  by (auto simp: hasUncommittedChanges_def autoCommit_def io_bind_def split: prod.splits sum.splits)

text \<open>
  C14: What happens to uncommitted work when a workspace with a repository in it is removed, \<open>w1\<close> being the world after
  the \<open>beforeRemove\<close> hook: if the result says removed, then \<open>git status\<close> was empty there, or \<open>git add -A\<close> and
  \<open>git commit\<close> had both succeeded before, and the result has the hash; if it does not, then \<open>git status\<close> or the
  commit had failed, the workspace is reported as preserved and the world is as that failure left it: nothing was deleted.
  Under the directory strategy the commit is in the repository that is deleted with the directory.
\<close>

theorem removal_commits_first:
  assumes "resolveWorkspacePath (wm_cwd e) (wk_root (wm_section e)) ident = Inr (key, path)"
    and "wm_worktree e = Some (gm, router)" "fs_stat (ww_nodes w) (segs e path) = StatDir"
    and "w1 = snd (runBeforeRemoveHook e \<lparr>ws_path = path, ws_key = key, ws_createdNow = False\<rparr> key w)"
    and "fst (pathExists e (path_resolve (wm_cwd e) [path, ''.git'']) w1) = Inr True"
    and "removeWorkspaceWithResult e ident i w = (Inr r, w')"
  shows "(wr_removed r \<longrightarrow>
      (\<exists>out w2. ge_git gm [''status'', ''--porcelain''] path w1 = (Inr out, w2) \<and>
         (js_trim out = [] \<or>
          (\<exists>a wa c wc. ge_git gm [''add'', ''-A''] path w2 = (Inr a, wa) \<and> wr_autoCommitSha r \<noteq> None \<and>
             ge_git gm [''commit'', ''--no-verify'', ''-m'', ''['' @ ident @ ''] auto-commit: workspace cleanup preservation''] path wa = (Inr c, wc))))) \<and>
    (\<not> wr_removed r \<longrightarrow> wr_preserved r \<and>
      (\<exists>err w2. hasUncommittedChanges gm path w1 = (Inl err, w') \<or>
         hasUncommittedChanges gm path w1 = (Inr True, w2) \<and>
         autoCommit gm path (''['' @ ident @ ''] auto-commit: workspace cleanup preservation'') True w2 = (Inl err, w')))"
proof -
  obtain delete where d: "before_removal e ident delete w = (Inr r, w')"
    "\<And>path r1 w1 r w2. delete path r1 w1 = (Inr r, w2) \<Longrightarrow> r = r1\<lparr>wr_removed := True\<rparr>"
    using removal_deletes [OF assms(6)] by metis
  obtain x w2 where en: "enforcePreCleanupCommit e path ident w1 = (x, w2)" by (metis surj_pair)
  note run = before_removal_run [OF assms(1,3,4), of delete, unfolded d(1) en]
  then obtain r1 where x: "x = Inr r1" by (cases x) auto
  note shape = protection_shape [OF en [unfolded x]]
  have removed: "r = r1\<lparr>wr_removed := True\<rparr>" if "\<not> wr_preserved r1"
    using run that d(2) [of path r1 w2 r w'] by (simp add: x)
  have kept: "r = r1 \<and> w' = w2" if "wr_preserved r1" using run that by (simp add: x)
  from en [unfolded x] assms(2,5) show ?thesis
  proof (cases rule: protection_cases)
    case (1 w3)
    then show ?thesis using removed git_parts(1) [OF 1(1)] by auto
  next
    case (2 err)
    then show ?thesis using kept shape by auto
  next
    case (3 sha w3)
    then show ?thesis using removed git_parts(1) [OF 3(1)] git_parts(2) [OF 3(4)] by fastforce
  next
    case (4 err w3)
    then show ?thesis using kept shape by blast
  qed
qed

text \<open>
  Under the directory strategy nothing under the workspace survives its removal. The commit that \<open>autoCommit\<close>
  made to preserve the changes lies in the repository of that directory, so it is deleted together with it, and the
  result still carries its hash.
\<close>

theorem directory_removal_complete:
  assumes "ident \<noteq> []" "resolveWorkspacePath (wm_cwd e) (wk_root (wm_section e)) ident = Inr (key, path)"
    and "removeDirectoryWorkspace e ident w = (Inr r, w')" "wr_removed r"
  shows "list_all (\<lambda>(q, _). \<not> below (segs e path) q) (ww_nodes w')"
  using assms(3) [unfolded removeDirectoryWorkspace_def] assms(1)
proof (cases rule: before_removal_cases)
  case 1
  then show ?thesis using assms(4) by simp
next
  case (2 key' path' w1 r1 w2)
  then have "path' = path" using assms(2) by simp
  then have "fs_rm (segs e path) w2 = (Inr (), w')"
    using 2(4) by (auto simp: rm_workspace_def split: sum.splits prod.splits)
  then show ?thesis by (rule rm_complete)
qed

section \<open>Attempts\<close>

lemma transient_target:
  assumes "plain_segment d"
  shows "path_resolve cwd [path_resolve cwd [p, d]] = path_resolve cwd [p, d]"
    "resolve_all cwd [path_resolve cwd [p, d]] = resolve_all cwd [p] @ [d]"
proof -
  have plain: "\<forall>s \<in> set (resolve_all cwd [p] @ [d]). plain_segment s" using resolve_all_plain assms by auto
  have again: "resolve_all cwd [path_resolve cwd [p, d]] = resolve_all cwd [p] @ [d]"
    unfolding path_resolve_def resolve_child [OF assms] by (rule resolve_resolved [OF plain])
  then show "resolve_all cwd [path_resolve cwd [p, d]] = resolve_all cwd [p] @ [d]" .
  show "path_resolve cwd [path_resolve cwd [p, d]] = path_resolve cwd [p, d]"
    by (subst (1) path_resolve_def) (simp add: again, simp add: path_resolve_def resolve_child [OF assms])
qed

lemma rm_transient_step:
  assumes "plain_segment d"
  shows "rm_transient e p (d # ds) w = io_bind (fs_rm (segs e p @ [d])) (\<lambda>_. rm_transient e p ds) w"
proof -
  have "isWithinRoot (wm_cwd e) p (path_resolve (wm_cwd e) [p, d])"
    by (simp add: isWithinRoot_prefix transient_target [OF assms])
  then show ?thesis by (simp add: transient_target [OF assms] segs_def Let_def del: io_simps)
qed

text \<open>
  Preparing an attempt removes the two transient directories of the workspace and nothing else, and only when the
  workspace lies within the root.
\<close>

theorem prepare_removes_transients_only:
  assumes "prepareForAttempt e ws w = (Inr (), w')"
  shows "isWithinRoot (wm_cwd e) (wk_root (wm_section e)) (ws_path ws) \<and>
    w' = w\<lparr>ww_nodes := filter (\<lambda>(q, _). \<not> below (segs e (ws_path ws) @ [''tmp'']) q \<and>
            \<not> below (segs e (ws_path ws) @ [''.elixir_ls'']) q) (ww_nodes w)\<rparr>"
proof -
  have plain: "plain_segment ''tmp''" "plain_segment ''.elixir_ls''" by code_simp+
  have inside: "isWithinRoot (wm_cwd e) (wk_root (wm_section e)) (ws_path ws)"
    using assms by (auto simp: prepareForAttempt_def assertWorkspaceWithinRoot_def io_throw_def split: if_splits)
  then have "rm_transient e (ws_path ws) [''tmp'', ''.elixir_ls''] w = (Inr (), w')"
    using assms by (simp add: prepareForAttempt_def assertWorkspaceWithinRoot_def TRANSIENT_DIRECTORIES_def)
  then have "w' = w\<lparr>ww_nodes := filter (\<lambda>(q, _). \<not> below (segs e (ws_path ws) @ [''.elixir_ls'']) q)
      (filter (\<lambda>(q, _). \<not> below (segs e (ws_path ws) @ [''tmp'']) q) (ww_nodes w))\<rparr>"
    unfolding rm_transient_step [OF plain(1)] io_simps
    by (auto simp: rm_transient_step [OF plain(2)] fs_rm_def simp del: rm_transient.simps(2) split: if_splits)
  then show ?thesis using inside by (simp add: case_prod_unfold conj_commute)
qed

section \<open>Examples\<close>

text \<open>A world with one workspace: a repository with uncommitted changes, counted commits, a hook that fails once.\<close>

definition ws_git :: "(nat ws_world) git" where
  "ws_git args dir w =
     (if args = [''status'', ''--porcelain''] then (Inr ''M a'', w)
      else if ''commit'' \<in> set args then (Inr [], w\<lparr>ww_rest := ww_rest w + 1\<rparr>)
      else if take 2 args = [''worktree'', ''add''] then (Inr [], w\<lparr>ww_nodes := omap_set [''w'', ''A''] DirNode (ww_nodes w)\<rparr>)
      else (Inr ''abc'', w))"

definition ws_env :: "workspace_strategy \<Rightarrow> string option \<Rightarrow> nat wm_env" where
  "ws_env strategy hook =
     \<lparr>wm_cwd = ''/'',
      wm_section = \<lparr>wk_root = ''/w'',
        wk_hooks = \<lparr>wh_afterCreate = hook, wh_beforeRun = None, wh_afterRun = None, wh_beforeRemove = None, wh_timeoutMs = 1000\<rparr>,
        wk_strategy = strategy, wk_branchPrefix = ''risoluto/''\<rparr>,
      wm_pathEnv = None,
      wm_spawn = (\<lambda>h cwd env w. (Exited (Some (if ww_rest w = 0 then 1 else 0)), w\<lparr>ww_rest := ww_rest w + 1\<rparr>)),
      wm_worktree = Some (\<lparr>ge_git = ws_git, ge_env = (\<lambda>_. None), ge_defaultTokenEnv = ''T'', ge_basic_auth = (\<lambda>t. t),
         ge_path_join = join ''/'', ge_create_pr = (\<lambda>_ _ _ _ w. (Inr None, w)), ge_summary = (\<lambda>_ _ w. (Inr None, w)),
         ge_request_merge = (\<lambda>_ _ _ _ _ w. (Inr (), w))\<rparr>, \<lambda>_. Some toy_route)\<rparr>"

definition ws_repo :: "nat ws_world" where
  "ws_repo = \<lparr>ww_nodes = [([''w''], DirNode), ([''w'', ''A''], DirNode), ([''w'', ''A'', ''.git''], DirNode),
     ([''w'', ''A'', ''a''], FileNode), ([''w'', ''A'', ''tmp''], DirNode)], ww_stays = [], ww_rest = 0\<rparr>"

definition ws_empty :: "nat ws_world" where
  "ws_empty = \<lparr>ww_nodes = [], ww_stays = [], ww_rest = 0\<rparr>"

definition committed :: removal_result where
  "committed = emptyRemovalResult\<lparr>wr_removed := True, wr_hadUncommittedChanges := True, wr_autoCommitAttempted := True,
     wr_autoCommitSha := Some ''abc''\<rparr>"

lemma example_location: "resolveWorkspacePath (wm_cwd (ws_env st h)) (wk_root (wm_section (ws_env st h))) ''A'' = Inr (''A'', ''/w/A'')"
proof -
  have "resolveWorkspacePath ''/'' ''/w'' ''A'' = Inr (''A'', ''/w/A'')" by code_simp
  then show ?thesis by (simp add: ws_env_def)
qed

lemma example_segs: "segs (ws_env st h) ''/w/A'' = [''w'', ''A'']" "segs (ws_env st h) ''/w'' = [''w'']"
proof -
  have "resolve_all ''/'' [''/w/A''] = [''w'', ''A'']" "resolve_all ''/'' [''/w''] = [''w'']" by code_simp+
  then show "segs (ws_env st h) ''/w/A'' = [''w'', ''A'']" "segs (ws_env st h) ''/w'' = [''w'']"
    by (simp_all add: segs_def ws_env_def)
qed

theorem failed_creation_leaves_nothing_witness:
  "\<exists>err w'. ensureDirectoryWorkspace (ws_env DirectoryStrategy (Some ''npm ci'')) ''A'' ws_empty = (Inl err, w') \<and>
     ww_rest w' = 1 \<and> fs_stat (ww_nodes w') [''w'', ''A''] \<notin> {StatDir, StatOther}"
proof -
  let ?e = "ws_env DirectoryStrategy (Some ''npm ci'')"
  have run: "ensureDirectoryWorkspace ?e ''A'' ws_empty =
      (Inl (JsError ''hook exited with code 1''), \<lparr>ww_nodes = [([''w''], DirNode)], ww_stays = [], ww_rest = 1\<rparr>)"
    by code_simp
  have "fs_stat (ww_nodes ws_empty) (segs ?e ''/w/A'') \<notin> {StatDir, StatOther}"
    by (simp add: example_segs ws_empty_def fs_stat_def under_file_def)
  from failed_creation_leaves_nothing [OF _ example_location this run] run show ?thesis by (simp add: example_segs)
qed

theorem worktree_hook_skipped_witness:
  "\<exists>err w1. ensureWorktreeWorkspace (ws_env WorktreeStrategy (Some ''npm ci'')) ''A'' (Some flag_issue) ws_empty = (Inl err, w1) \<and>
     ensureWorktreeWorkspace (ws_env WorktreeStrategy (Some ''npm ci'')) ''A'' (Some flag_issue) w1 =
       (Inr \<lparr>ws_path = ''/w/A'', ws_key = ''A'', ws_createdNow = False, gw_gitBaseDir = Some ''/w/.base/u.git''\<rparr>, w1)"
proof -
  let ?e = "ws_env WorktreeStrategy (Some ''npm ci'')"
  let ?w = "\<lparr>ww_nodes = [([''w''], DirNode), ([''w'', ''A''], DirNode)], ww_stays = [], ww_rest = 1\<rparr> :: nat ws_world"
  obtain gm router where wt: "wm_worktree ?e = Some (gm, router)" "router flag_issue = Some toy_route" "ge_path_join gm = join ''/''"
    by (simp add: ws_env_def)
  have first: "ensureWorktreeWorkspace ?e ''A'' (Some flag_issue) ws_empty = (Inl (JsError ''hook exited with code 1''), ?w)"
    by code_simp
  have base: "deriveBaseCloneDir gm (wk_root (wm_section ?e)) (rm_repoUrl toy_route) = ''/w/.base/u.git''"
  proof -
    have "deriveRepoKey ''u'' = ''u''" by code_simp
    then show ?thesis by (simp add: deriveBaseCloneDir_def wt(3) ws_env_def toy_route_def)
  qed
  have "mkdir_from [] (segs ?e (wk_root (wm_section ?e))) ?w = (Inr (), ?w)"
    by code_simp
  moreover have "fs_stat (ww_nodes ?w) (segs ?e ''/w/A'') = StatDir" unfolding example_segs by code_simp
  ultimately have "ensureWorktreeWorkspace ?e ''A'' (Some flag_issue) ?w =
      (Inr \<lparr>ws_path = ''/w/A'', ws_key = ''A'', ws_createdNow = False, gw_gitBaseDir = Some ''/w/.base/u.git''\<rparr>, ?w)"
    using worktree_hook_skipped [OF _ example_location wt(1,2)] base by simp
  with first show ?thesis by blast
qed

lemma example_removal:
  "removeDirectoryWorkspace (ws_env DirectoryStrategy None) ''A'' ws_repo = (Inr committed, \<lparr>ww_nodes = [([''w''], DirNode)], ww_stays = [], ww_rest = 1\<rparr>)"
  by code_simp

theorem removal_commits_first_witness:
  "\<exists>w'. removeWorkspaceWithResult (ws_env DirectoryStrategy None) ''A'' None ws_repo = (Inr committed, w') \<and>
     (\<exists>a wa c wc. ws_git [''add'', ''-A''] ''/w/A'' ws_repo = (Inr a, wa) \<and>
       ws_git [''commit'', ''--no-verify'', ''-m'', ''[A] auto-commit: workspace cleanup preservation''] ''/w/A'' wa = (Inr c, wc))"
proof -
  let ?e = "ws_env DirectoryStrategy None"
  obtain gm router where wt: "wm_worktree ?e = Some (gm, router)" "ge_git gm = ws_git" by (simp add: ws_env_def)
  have run: "removeWorkspaceWithResult ?e ''A'' None ws_repo = (Inr committed, \<lparr>ww_nodes = [([''w''], DirNode)], ww_stays = [], ww_rest = 1\<rparr>)"
    using example_removal by (simp add: removeWorkspaceWithResult_def) (simp add: ws_env_def)
  have dir: "fs_stat (ww_nodes ws_repo) (segs ?e ''/w/A'') = StatDir" unfolding example_segs by code_simp
  have hook: "ws_repo = snd (runBeforeRemoveHook ?e \<lparr>ws_path = ''/w/A'', ws_key = ''A'', ws_createdNow = False\<rparr> ''A'' ws_repo)"
    by code_simp
  have git: "fst (pathExists ?e (path_resolve (wm_cwd ?e) [''/w/A'', ''.git'']) ws_repo) = Inr True" by code_simp
  have status: "ws_git [''status'', ''--porcelain''] ''/w/A'' ws_repo = (Inr ''M a'', ws_repo)" by (simp add: ws_git_def)
  have "js_trim ''M a'' \<noteq> []" by code_simp
  with removal_commits_first [OF example_location wt(1) dir hook git run] run status show ?thesis
    by (auto simp: wt(2) committed_def)
qed

theorem directory_removal_complete_witness:
  "\<exists>r w'. removeDirectoryWorkspace (ws_env DirectoryStrategy None) ''A'' ws_repo = (Inr r, w') \<and> wr_autoCommitSha r = Some ''abc'' \<and>
     list_all (\<lambda>(q, _). \<not> below [''w'', ''A''] q) (ww_nodes w')"
  using directory_removal_complete [OF _ example_location example_removal] example_removal
  by (simp add: committed_def example_segs)

theorem prepare_removes_transients_only_witness:
  "prepareForAttempt (ws_env DirectoryStrategy None) \<lparr>ws_path = ''/w/A'', ws_key = ''A'', ws_createdNow = False\<rparr> ws_repo =
     (Inr (), ws_repo\<lparr>ww_nodes := butlast (ww_nodes ws_repo)\<rparr>)"
proof -
  let ?ws = "\<lparr>ws_path = ''/w/A'', ws_key = ''A'', ws_createdNow = False\<rparr>"
  obtain w' where run: "prepareForAttempt (ws_env DirectoryStrategy None) ?ws ws_repo = (Inr (), w')"
  proof -
    have "isl (fst (prepareForAttempt (ws_env DirectoryStrategy None) ?ws ws_repo)) = False" by code_simp
    moreover obtain a b where "prepareForAttempt (ws_env DirectoryStrategy None) ?ws ws_repo = (a, b)" by (metis surj_pair)
    ultimately show ?thesis using that by (cases a) auto
  qed
  from prepare_removes_transients_only [OF this] run show ?thesis
    by (simp add: example_segs ws_repo_def below_def)
qed

end
