(* ===== verification/AttemptStore.thy ===== *)
theory AttemptStore
  imports ModelPricing Outcome AgentHelpers
begin

text \<open>
  The attempt store: \<open>src/src/persistence/sqlite/attempt-store-sqlite.ts\<close> and \<open>mappers.ts\<close>. Each table is the list of
  its rows in insertion order, and a statement is the list operation it denotes; the constraints are those of the
  tables in \<open>database.ts\<close>. Rows without an order come in insertion order, rows that agree on the sort column as
  well. \<open>JSON.parse\<close> is the host's, and \<open>julianday\<close> is a parameter.
\<close>

section \<open>Rows and their mappers\<close>

record attempt_row =
  ar_attemptId :: string
  ar_issueId :: string
  ar_issueIdentifier :: string
  ar_title :: string
  ar_workspaceKey :: "string option"
  ar_workspacePath :: "string option"
  ar_status :: attempt_status
  ar_attemptNumber :: "int option"
  ar_startedAt :: string
  ar_endedAt :: "string option"
  ar_model :: string
  ar_reasoningEffort :: "reasoning_effort option"
  ar_modelSource :: model_source
  ar_threadId :: "string option"
  ar_turnId :: "string option"
  ar_turnCount :: int
  ar_errorCode :: "string option"
  ar_errorMessage :: "string option"
  ar_inputTokens :: "int option"
  ar_outputTokens :: "int option"
  ar_totalTokens :: "int option"
  ar_pullRequestUrl :: "string option"
  ar_stopSignal :: "stop_signal option"
  ar_summary :: "string option"

definition buildTokenUsage :: "int option \<Rightarrow> int option \<Rightarrow> int option \<Rightarrow> token_usage option" where
  "buildTokenUsage i out t =
     (if i = None \<and> out = None \<and> t = None then None
      else Some \<lparr>inputTokens = coalesce i 0, outputTokens = coalesce out 0, totalTokens = coalesce t 0\<rparr>)"

definition rowToAttemptRecord :: "attempt_row \<Rightarrow> attempt_record" where
  "rowToAttemptRecord row =
     \<lparr>at_attemptId = ar_attemptId row, at_issueId = ar_issueId row, at_issueIdentifier = ar_issueIdentifier row,
      at_title = ar_title row, at_workspaceKey = ar_workspaceKey row, at_workspacePath = ar_workspacePath row,
      at_status = ar_status row, at_attemptNumber = ar_attemptNumber row, at_startedAt = ar_startedAt row,
      at_endedAt = ar_endedAt row, at_model = ar_model row, at_reasoningEffort = of_null (ar_reasoningEffort row),
      at_modelSource = ar_modelSource row, at_threadId = ar_threadId row, at_turnId = ar_turnId row,
      at_turnCount = ar_turnCount row, at_errorCode = ar_errorCode row, at_errorMessage = ar_errorMessage row,
      at_tokenUsage = buildTokenUsage (ar_inputTokens row) (ar_outputTokens row) (ar_totalTokens row),
      at_pullRequestUrl = of_null (ar_pullRequestUrl row), at_stopSignal = of_null (ar_stopSignal row),
      at_summary = of_null (ar_summary row)\<rparr>"

text \<open>
  A column that is \<open>undefined\<close> is left out of an insert, which stores null, and out of an update, which keeps the
  stored value; \<open>old\<close> is that value.
\<close>

definition keep_undef :: "'a jsopt \<Rightarrow> 'a option \<Rightarrow> 'a option" where
  "keep_undef v old = (case v of Undef \<Rightarrow> old | Null \<Rightarrow> None | Val x \<Rightarrow> Some x)"

definition attemptRecordToRow :: "attempt_row option \<Rightarrow> attempt_record \<Rightarrow> attempt_row" where
  "attemptRecordToRow old r =
     \<lparr>ar_attemptId = at_attemptId r, ar_issueId = at_issueId r, ar_issueIdentifier = at_issueIdentifier r,
      ar_title = at_title r, ar_workspaceKey = at_workspaceKey r, ar_workspacePath = at_workspacePath r,
      ar_status = at_status r, ar_attemptNumber = at_attemptNumber r, ar_startedAt = at_startedAt r,
      ar_endedAt = at_endedAt r, ar_model = at_model r,
      ar_reasoningEffort = keep_undef (at_reasoningEffort r) (Option.bind old ar_reasoningEffort),
      ar_modelSource = at_modelSource r, ar_threadId = at_threadId r, ar_turnId = at_turnId r,
      ar_turnCount = at_turnCount r, ar_errorCode = at_errorCode r, ar_errorMessage = at_errorMessage r,
      ar_inputTokens = map_option inputTokens (at_tokenUsage r), ar_outputTokens = map_option outputTokens (at_tokenUsage r),
      ar_totalTokens = map_option totalTokens (at_tokenUsage r), ar_pullRequestUrl = nullish (at_pullRequestUrl r),
      ar_stopSignal = nullish (at_stopSignal r),
      ar_summary = keep_undef (at_summary r) (Option.bind old ar_summary)\<rparr>"

record event_row =
  er_attemptId :: string
  er_timestamp :: string
  er_issueId :: "string option"
  er_issueIdentifier :: "string option"
  er_sessionId :: "string option"
  er_type :: string
  er_message :: string
  er_content :: "string option"
  er_inputTokens :: "int option"
  er_outputTokens :: "int option"
  er_totalTokens :: "int option"
  er_metadata :: "string option"

record attempt_event = recent_event +
  ae_attemptId :: string
  ae_usage :: "token_usage option"

definition attemptEventToRow :: "attempt_event \<Rightarrow> event_row" where
  "attemptEventToRow ev =
     \<lparr>er_attemptId = ae_attemptId ev, er_timestamp = rec_at ev, er_issueId = rec_issueId ev,
      er_issueIdentifier = rec_issueIdentifier ev, er_sessionId = rec_sessionId ev, er_type = rec_event ev,
      er_message = rec_message ev, er_content = rec_content ev, er_inputTokens = map_option inputTokens (ae_usage ev),
      er_outputTokens = map_option outputTokens (ae_usage ev), er_totalTokens = map_option totalTokens (ae_usage ev),
      er_metadata = map_option json_stringify (rec_metadata ev)\<rparr>"

text \<open>\<open>row.metadata ? JSON.parse(row.metadata) : null\<close>; \<open>None\<close> on the outside is the exception.\<close>

definition read_metadata :: "host \<Rightarrow> string option \<Rightarrow> json option option" where
  "read_metadata h m = (case truthy_string m of None \<Rightarrow> Some None | Some t \<Rightarrow> map_option Some (h_json_parse h t))"

definition rowToAttemptEvent :: "host \<Rightarrow> event_row \<Rightarrow> attempt_event option" where
  "rowToAttemptEvent h row =
     map_option
       (\<lambda>metadata.
          \<lparr>rec_at = er_timestamp row, rec_issueId = er_issueId row, rec_issueIdentifier = er_issueIdentifier row,
           rec_sessionId = er_sessionId row, rec_event = er_type row, rec_message = er_message row,
           rec_content = er_content row, rec_metadata = metadata, ae_attemptId = er_attemptId row,
           ae_usage = buildTokenUsage (er_inputTokens row) (er_outputTokens row) (er_totalTokens row)\<rparr>)
       (read_metadata h (er_metadata row))"

record checkpoint =
  cp_attemptId :: string
  cp_trigger :: string
  cp_eventCursor :: "int option"
  cp_status :: attempt_status
  cp_threadId :: "string option"
  cp_turnId :: "string option"
  cp_turnCount :: int
  cp_tokenUsage :: "token_usage option"
  cp_metadata :: "json option"
  cp_createdAt :: string

record checkpoint_record = checkpoint +
  cp_checkpointId :: int
  cp_ordinal :: int

record checkpoint_row =
  cr_checkpointId :: int
  cr_attemptId :: string
  cr_ordinal :: int
  cr_trigger :: string
  cr_eventCursor :: "int option"
  cr_status :: attempt_status
  cr_threadId :: "string option"
  cr_turnId :: "string option"
  cr_turnCount :: int
  cr_inputTokens :: "int option"
  cr_outputTokens :: "int option"
  cr_totalTokens :: "int option"
  cr_metadata :: "string option"
  cr_createdAt :: string

definition fromAttemptCheckpointRecord :: "int \<Rightarrow> int \<Rightarrow> checkpoint \<Rightarrow> checkpoint_row" where
  "fromAttemptCheckpointRecord rowId n c =
     \<lparr>cr_checkpointId = rowId, cr_attemptId = cp_attemptId c, cr_ordinal = n, cr_trigger = cp_trigger c,
      cr_eventCursor = cp_eventCursor c, cr_status = cp_status c, cr_threadId = cp_threadId c, cr_turnId = cp_turnId c,
      cr_turnCount = cp_turnCount c, cr_inputTokens = map_option inputTokens (cp_tokenUsage c),
      cr_outputTokens = map_option outputTokens (cp_tokenUsage c), cr_totalTokens = map_option totalTokens (cp_tokenUsage c),
      cr_metadata = map_option json_stringify (cp_metadata c), cr_createdAt = cp_createdAt c\<rparr>"

definition toAttemptCheckpointRecord :: "host \<Rightarrow> checkpoint_row \<Rightarrow> checkpoint_record option" where
  "toAttemptCheckpointRecord h row =
     map_option
       (\<lambda>metadata.
          \<lparr>cp_attemptId = cr_attemptId row, cp_trigger = cr_trigger row, cp_eventCursor = cr_eventCursor row,
           cp_status = cr_status row, cp_threadId = cr_threadId row, cp_turnId = cr_turnId row,
           cp_turnCount = cr_turnCount row,
           cp_tokenUsage = buildTokenUsage (cr_inputTokens row) (cr_outputTokens row) (cr_totalTokens row),
           cp_metadata = metadata, cp_createdAt = cr_createdAt row, cp_checkpointId = cr_checkpointId row,
           cp_ordinal = cr_ordinal row\<rparr>)
       (read_metadata h (cr_metadata row))"

section \<open>The store\<close>

datatype pr_status = PrOpen | PrMerged | PrClosed

record upsert_pr =
  up_attemptId :: "string option"
  up_issueId :: string
  up_owner :: string
  up_repo :: string
  up_pullNumber :: int
  up_url :: string
  up_status :: pr_status
  up_createdAt :: string
  up_branchName :: string

record pr_record =
  pr_prId :: string
  pr_attemptId :: "string option"
  pr_issueId :: string
  pr_owner :: string
  pr_repo :: string
  pr_pullNumber :: int
  pr_url :: string
  pr_status :: pr_status
  pr_mergedAt :: "string option"
  pr_mergeCommitSha :: "string option"
  pr_createdAt :: string
  pr_updatedAt :: string
  pr_branchName :: string

record attempt_db =
  db_attempts :: "attempt_row list"
  db_events :: "event_row list"
  db_checkpoints :: "checkpoint_row list"
  db_lastCheckpointId :: int
  db_prs :: "pr_record list"

text \<open>The stable ascending order of \<open>ORDER BY\<close> on a text column.\<close>

definition by_text :: "('a \<Rightarrow> string) \<Rightarrow> 'a \<Rightarrow> 'a \<Rightarrow> int" where
  "by_text key a b = (if str_less (key a) (key b) then -1 else if key a = key b then 0 else 1)"

definition getAttempt :: "string \<Rightarrow> attempt_db \<Rightarrow> attempt_record option" where
  "getAttempt attemptId db =
     (case filter (\<lambda>row. ar_attemptId row = attemptId) (db_attempts db) of
        [] \<Rightarrow> None | row # _ \<Rightarrow> Some (rowToAttemptRecord row))"

definition getAllAttempts :: "attempt_db \<Rightarrow> attempt_record list" where
  "getAllAttempts db = map rowToAttemptRecord (db_attempts db)"

definition getEvents :: "host \<Rightarrow> string \<Rightarrow> attempt_db \<Rightarrow> attempt_event list option" where
  "getEvents h attemptId db =
     those (map (rowToAttemptEvent h) (js_sort (by_text er_timestamp) (filter (\<lambda>row. er_attemptId row = attemptId) (db_events db))))"

definition getAttemptsForIssue :: "string \<Rightarrow> attempt_db \<Rightarrow> attempt_record list" where
  "getAttemptsForIssue issueIdentifier db =
     map rowToAttemptRecord
       (js_sort (\<lambda>a b. by_text ar_startedAt b a) (filter (\<lambda>row. ar_issueIdentifier row = issueIdentifier) (db_attempts db)))"

definition createAttempt :: "attempt_record \<Rightarrow> attempt_db \<Rightarrow> attempt_db" where
  "createAttempt a db =
     (if at_attemptId a \<in> set (map ar_attemptId (db_attempts db)) then db
      else db\<lparr>db_attempts := db_attempts db @ [attemptRecordToRow None a]\<rparr>)"

text \<open>
  \<open>{...current, ...patch}\<close> is the function \<open>patch\<close>. Changing the key of a row to one in use violates the primary
  key, and changing that of a row with events their reference.
\<close>

definition updateAttempt ::
  "string \<Rightarrow> (attempt_record \<Rightarrow> attempt_record) \<Rightarrow> attempt_db \<Rightarrow> js_error option \<times> attempt_db" where
  "updateAttempt attemptId patch db =
     (case getAttempt attemptId db of
        None \<Rightarrow> (Some (JsError (''unknown attempt id: '' @ attemptId)), db)
      | Some current \<Rightarrow>
          let merged = patch current
          in if at_attemptId merged \<noteq> attemptId \<and>
                (at_attemptId merged \<in> set (map ar_attemptId (db_attempts db)) \<or> attemptId \<in> set (map er_attemptId (db_events db)))
             then (Some (JsError ''SQLITE_CONSTRAINT''), db)
             else (None, db\<lparr>db_attempts := map (\<lambda>row. if ar_attemptId row = attemptId then attemptRecordToRow (Some row) merged
                                                    else row) (db_attempts db)\<rparr>))"

definition appendEvent :: "attempt_event \<Rightarrow> attempt_db \<Rightarrow> js_error option \<times> attempt_db" where
  "appendEvent ev db =
     (if ae_attemptId ev \<in> set (map ar_attemptId (db_attempts db))
      then (None, db\<lparr>db_events := db_events db @ [attemptEventToRow ev]\<rparr>)
      else (Some (JsError ''SQLITE_CONSTRAINT_FOREIGNKEY''), db))"

definition sumArchivedSeconds :: "(string \<Rightarrow> rat option) \<Rightarrow> attempt_db \<Rightarrow> rat" where
  "sumArchivedSeconds julianday db =
     sum_list (map (\<lambda>row. case (Option.bind (ar_endedAt row) julianday, julianday (ar_startedAt row)) of
         (Some e, Some s) \<Rightarrow> (e - s) * 86400 | _ \<Rightarrow> 0)
       (filter (\<lambda>row. ar_endedAt row \<noteq> None) (db_attempts db)))"

definition sum_col :: "(attempt_row \<Rightarrow> int option) \<Rightarrow> attempt_row list \<Rightarrow> int" where
  "sum_col f rows = sum_list (map (\<lambda>row. coalesce (f row) 0) rows)"

definition sumCostUsd :: "attempt_db \<Rightarrow> rat" where
  "sumCostUsd db =
     (let ended = filter (\<lambda>row. ar_endedAt row \<noteq> None) (db_attempts db)
      in sum_list (map (\<lambda>m. let rows = filter (\<lambda>row. ar_model row = m) ended
                            in case lookupModelPrice m of
                                 None \<Rightarrow> 0
                               | Some p \<Rightarrow> (of_int (sum_col ar_inputTokens rows) * inputUsd p +
                                            of_int (sum_col ar_outputTokens rows) * outputUsd p) / 1000000)
           (remdups (map ar_model ended))))"

definition same_checkpoint :: "checkpoint_row \<Rightarrow> checkpoint \<Rightarrow> bool" where
  "same_checkpoint row c \<longleftrightarrow>
     cr_status row = cp_status c \<and> cr_threadId row = cp_threadId c \<and> cr_turnId row = cp_turnId c \<and>
     cr_turnCount row = cp_turnCount c \<and> cr_trigger row = cp_trigger c"

definition last_checkpoint :: "string \<Rightarrow> attempt_db \<Rightarrow> checkpoint_row option" where
  "last_checkpoint attemptId db =
     (case js_sort (\<lambda>a b. cr_ordinal b - cr_ordinal a) (filter (\<lambda>row. cr_attemptId row = attemptId) (db_checkpoints db)) of
        [] \<Rightarrow> None | row # _ \<Rightarrow> Some row)"

definition appendCheckpoint :: "checkpoint \<Rightarrow> attempt_db \<Rightarrow> js_error option \<times> attempt_db" where
  "appendCheckpoint c db =
     (let lastRow = last_checkpoint (cp_attemptId c) db
      in if (case lastRow of None \<Rightarrow> False | Some row \<Rightarrow> same_checkpoint row c) then (None, db)
         else let nextOrdinal = (case lastRow of None \<Rightarrow> 1 | Some row \<Rightarrow> cr_ordinal row + 1);
                  rowId = db_lastCheckpointId db + 1
              in if list_ex (\<lambda>row. cr_attemptId row = cp_attemptId c \<and> cr_ordinal row = nextOrdinal) (db_checkpoints db)
                 then (Some (JsError ''SQLITE_CONSTRAINT_UNIQUE''), db)
                 else (None, db\<lparr>db_checkpoints := db_checkpoints db @ [fromAttemptCheckpointRecord rowId nextOrdinal c],
                                db_lastCheckpointId := rowId\<rparr>))"

definition listCheckpoints :: "host \<Rightarrow> string \<Rightarrow> attempt_db \<Rightarrow> checkpoint_record list option" where
  "listCheckpoints h attemptId db =
     those (map (toAttemptCheckpointRecord h)
       (js_sort (\<lambda>a b. cr_ordinal a - cr_ordinal b) (filter (\<lambda>row. cr_attemptId row = attemptId) (db_checkpoints db))))"

definition sumArchivedTokens :: "attempt_db \<Rightarrow> token_usage" where
  "sumArchivedTokens db =
     \<lparr>inputTokens = sum_col ar_inputTokens (db_attempts db), outputTokens = sum_col ar_outputTokens (db_attempts db),
      totalTokens = sum_col ar_totalTokens (db_attempts db)\<rparr>"

definition pr_id_of :: "upsert_pr \<Rightarrow> string" where
  "pr_id_of p = up_owner p @ ''/'' @ up_repo p @ ''#'' @ show_int (up_pullNumber p)"

definition upsertPr :: "string \<Rightarrow> upsert_pr \<Rightarrow> attempt_db \<Rightarrow> js_error option \<times> attempt_db" where
  "upsertPr now p db =
     (if list_ex (\<lambda>row. pr_prId row = pr_id_of p \<and> pr_url row \<noteq> up_url p) (db_prs db)
      then (Some (JsError ''SQLITE_CONSTRAINT_PRIMARYKEY''), db)
      else if up_url p \<in> set (map pr_url (db_prs db))
      then (None, db\<lparr>db_prs := map (\<lambda>row. if pr_url row = up_url p
                then row\<lparr>pr_prId := pr_id_of p, pr_attemptId := up_attemptId p, pr_issueId := up_issueId p,
                  pr_owner := up_owner p, pr_repo := up_repo p, pr_pullNumber := up_pullNumber p,
                  pr_branchName := up_branchName p, pr_status := up_status p, pr_updatedAt := now\<rparr>
                else row) (db_prs db)\<rparr>)
      else (None, db\<lparr>db_prs := db_prs db @
             [\<lparr>pr_prId = pr_id_of p, pr_attemptId = up_attemptId p, pr_issueId = up_issueId p, pr_owner = up_owner p,
               pr_repo = up_repo p, pr_pullNumber = up_pullNumber p, pr_url = up_url p, pr_status = up_status p,
               pr_mergedAt = None, pr_mergeCommitSha = None, pr_createdAt = up_createdAt p, pr_updatedAt = now,
               pr_branchName = up_branchName p\<rparr>]\<rparr>))"

definition getOpenPrs :: "attempt_db \<Rightarrow> pr_record list" where
  "getOpenPrs db = filter (\<lambda>row. pr_status row = PrOpen) (db_prs db)"

definition getAllPrs :: "attempt_db \<Rightarrow> pr_record list" where
  "getAllPrs db = db_prs db"

definition updatePrStatus ::
  "string \<Rightarrow> string \<Rightarrow> pr_status \<Rightarrow> string option \<Rightarrow> string option \<Rightarrow> attempt_db \<Rightarrow> attempt_db" where
  "updatePrStatus now url status mergedAt mergeCommitSha db =
     db\<lparr>db_prs := map (\<lambda>row. if pr_url row = url
          then row\<lparr>pr_status := status, pr_mergedAt := mergedAt, pr_mergeCommitSha := mergeCommitSha, pr_updatedAt := now\<rparr>
          else row) (db_prs db)\<rparr>"

end
