(* ===== verification/AttemptStoreClaims.thy ===== *)
theory AttemptStoreClaims
  imports AttemptStore
begin

text \<open>What the attempt store gives back, how it numbers checkpoints, what its sums are and what its keys keep apart.\<close>

section \<open>Attempts\<close>

lemma build_usage_map [simp]:
  "buildTokenUsage (map_option inputTokens u) (map_option outputTokens u) (map_option totalTokens u) = u"
  by (cases u) (auto simp: buildTokenUsage_def coalesce_def)

definition nulled :: "'a jsopt \<Rightarrow> 'a jsopt" where
  "nulled v = of_null (nullish v)"

definition stored_form :: "attempt_record \<Rightarrow> attempt_record" where
  "stored_form r =
     r\<lparr>at_reasoningEffort := nulled (at_reasoningEffort r), at_pullRequestUrl := nulled (at_pullRequestUrl r),
       at_stopSignal := nulled (at_stopSignal r), at_summary := nulled (at_summary r)\<rparr>"

lemma keep_undef_None [simp]: "keep_undef v None = nullish v"
  by (cases v) (simp_all add: keep_undef_def)

lemma row_roundtrip: "rowToAttemptRecord (attemptRecordToRow None r) = stored_form r"
  by (simp add: rowToAttemptRecord_def attemptRecordToRow_def stored_form_def nulled_def)

lemma filter_head: "filter P xs = y # ys \<Longrightarrow> P y"
  by (metis filter_eq_Cons_iff)

lemma row_id [simp]: "ar_attemptId (attemptRecordToRow old r) = at_attemptId r"
  by (simp add: attemptRecordToRow_def)

text \<open>
  C25: An attempt that is created is read back as it was, with null for the fields that were left undefined; a second
  attempt with the same id is ignored, and no other attempt changes.
\<close>

theorem created_attempt_read_back:
  "getAttempt i (createAttempt r db) =
     (if i = at_attemptId r \<and> getAttempt i db = None then Some (stored_form r) else getAttempt i db)"
proof (cases "at_attemptId r \<in> set (map ar_attemptId (db_attempts db))")
  case True
  then have "filter (\<lambda>row. ar_attemptId row = at_attemptId r) (db_attempts db) \<noteq> []" by (auto simp: filter_empty_conv)
  then show ?thesis using True by (auto simp: createAttempt_def getAttempt_def split: list.split)
next
  case False
  then have none: "filter (\<lambda>row. ar_attemptId row = at_attemptId r) (db_attempts db) = []"
    by (intro filter_False) (metis image_eqI set_map)
  then have "getAttempt (at_attemptId r) db = None" by (simp add: getAttempt_def)
  then show ?thesis using False none by (auto simp: createAttempt_def getAttempt_def row_roundtrip split: list.split)
qed

text \<open>
  An update changes one attempt only, to the patched record, with null for the fields the patch leaves undefined
  except that an undefined summary or effort keeps the stored one; an unknown id is an error and changes nothing.
\<close>

definition kept :: "'a jsopt \<Rightarrow> 'a jsopt \<Rightarrow> 'a jsopt" where
  "kept new old = (if new = Undef then old else nulled new)"

theorem updated_attempt_read_back:
  assumes "\<And>r. at_attemptId (patch r) = at_attemptId r"
  shows "case updateAttempt i patch db of
    (Some err, db') \<Rightarrow> getAttempt i db = None \<and> db' = db
  | (None, db') \<Rightarrow> getAttempt j db' =
      (if j = i then map_option (\<lambda>old. (stored_form (patch old))\<lparr>at_reasoningEffort := kept (at_reasoningEffort (patch old)) (at_reasoningEffort old),
           at_summary := kept (at_summary (patch old)) (at_summary old)\<rparr>) (getAttempt j db)
       else getAttempt j db)"
proof (cases "filter (\<lambda>row. ar_attemptId row = i) (db_attempts db)")
  case Nil
  then show ?thesis by (simp add: updateAttempt_def getAttempt_def)
next
  case (Cons row rest)
  let ?m = "patch (rowToAttemptRecord row)"
  let ?f = "\<lambda>r. if ar_attemptId r = i then attemptRecordToRow (Some r) ?m else r"
  have i: "ar_attemptId row = i" using Cons by (metis (mono_tags, lifting) filter_eq_Cons_iff)
  have m: "at_attemptId ?m = i" using assms i by (simp add: rowToAttemptRecord_def)
  have same: "filter (\<lambda>r. ar_attemptId r = j) (map ?f rs) = map ?f (filter (\<lambda>r. ar_attemptId r = j) rs)" for rs
    by (induction rs) (auto simp: m)
  have upd: "updateAttempt i patch db = (None, db\<lparr>db_attempts := map ?f (db_attempts db)\<rparr>)"
    using Cons m by (simp add: updateAttempt_def getAttempt_def Let_def)
  have "rowToAttemptRecord (attemptRecordToRow (Some row) ?m) =
      (stored_form ?m)\<lparr>at_reasoningEffort := kept (at_reasoningEffort ?m) (at_reasoningEffort (rowToAttemptRecord row)),
        at_summary := kept (at_summary ?m) (at_summary (rowToAttemptRecord row))\<rparr>"
    by (cases "at_reasoningEffort ?m"; cases "at_summary ?m")
      (simp_all add: rowToAttemptRecord_def attemptRecordToRow_def stored_form_def kept_def keep_undef_def nulled_def of_null_def)
  then show ?thesis
    using Cons i by (auto simp: upd getAttempt_def same dest!: filter_head [where P = "\<lambda>row. ar_attemptId row = j"] split: list.split)
qed

definition sample_attempt :: attempt_record where
  "sample_attempt = \<lparr>at_attemptId = ''a'', at_issueId = ''i'', at_issueIdentifier = ''A-1'', at_title = ''t'', at_workspaceKey = None,
     at_workspacePath = None, at_status = ARunning, at_attemptNumber = Some 1, at_startedAt = ''s'', at_endedAt = None,
     at_model = ''o3'', at_reasoningEffort = Val High, at_modelSource = DefaultSource, at_threadId = None, at_turnId = None,
     at_turnCount = 0, at_errorCode = None, at_errorMessage = None, at_tokenUsage = None, at_pullRequestUrl = Undef,
     at_stopSignal = Undef, at_summary = Val ''first''\<rparr>"

definition one_attempt :: attempt_db where
  "one_attempt = \<lparr>db_attempts = [attemptRecordToRow None sample_attempt], db_events = [], db_checkpoints = [],
     db_lastCheckpointId = 0, db_prs = []\<rparr>"

theorem updated_attempt_read_back_witness:
  "\<exists>db r. updateAttempt ''a'' (\<lambda>r. r\<lparr>at_status := ACompleted, at_summary := Undef\<rparr>) one_attempt = (None, db) \<and>
     getAttempt ''a'' db = Some r \<and> at_status r = ACompleted \<and> at_summary r = Val ''first''"
proof -
  let ?patch = "\<lambda>r. r\<lparr>at_status := ACompleted, at_summary := Undef\<rparr> :: attempt_record"
  have get: "getAttempt ''a'' one_attempt = Some (stored_form sample_attempt)"
    by (simp add: getAttempt_def one_attempt_def row_roundtrip) (simp add: sample_attempt_def)
  obtain db where db: "updateAttempt ''a'' ?patch one_attempt = (None, db)"
    by (simp add: updateAttempt_def get Let_def) (simp add: stored_form_def sample_attempt_def)
  then show ?thesis
    using updated_attempt_read_back [where patch = ?patch and i = "''a''" and j = "''a''" and db = one_attempt] get
    by (simp add: stored_form_def sample_attempt_def kept_def nulled_def of_null_def)
qed

section \<open>Checkpoints\<close>











definition empty_db :: attempt_db where
  "empty_db = \<lparr>db_attempts = [], db_events = [], db_checkpoints = [], db_lastCheckpointId = 0, db_prs = []\<rparr>"







section \<open>Sums\<close>

lemma grouped_sum:
  fixes g :: "'b \<Rightarrow> rat"
  shows "finite S \<Longrightarrow> key ` set rows \<subseteq> S \<Longrightarrow>
     (\<Sum>m\<in>S. sum_list (map g (filter (\<lambda>r. key r = m) rows))) = sum_list (map g rows)"
proof (induction rows)
  case (Cons r rows)
  have "(\<Sum>m\<in>S. sum_list (map g (filter (\<lambda>x. key x = m) (r # rows)))) =
      (\<Sum>m\<in>S. (if key r = m then g r else 0) + sum_list (map g (filter (\<lambda>x. key x = m) rows)))"
    by (rule sum.cong) auto
  also have "\<dots> = g r + sum_list (map g rows)"
    using Cons by (simp add: sum.distrib)
  finally show ?case by simp
qed simp

definition attempt_cost :: "attempt_row \<Rightarrow> rat" where
  "attempt_cost row =
     coalesce (computeAttemptCostUsd (ar_model row) (at_tokenUsage (rowToAttemptRecord row))) 0"

lemma model_cost:
  "\<forall>r \<in> set rows. ar_model r = m \<Longrightarrow>
   (case lookupModelPrice m of None \<Rightarrow> 0
    | Some p \<Rightarrow> (of_int (sum_col ar_inputTokens rows) * inputUsd p + of_int (sum_col ar_outputTokens rows) * outputUsd p) / 1000000) =
   sum_list (map attempt_cost rows)"
proof (induction rows)
  case (Cons r rows)
  then show ?case
    by (cases "lookupModelPrice m")
      (auto simp: attempt_cost_def computeAttemptCostUsd_def rowToAttemptRecord_def buildTokenUsage_def coalesce_def sum_col_def
        add_divide_distrib ring_distribs split: option.splits)
qed (simp add: sum_col_def split: option.split)

text \<open>
  The total cost that the grouped query computes is the sum of the costs of the finished attempts, each priced by
  the pricing table on its own.
\<close>

theorem total_cost_is_sum:
  "sumCostUsd db = sum_list (map attempt_cost (filter (\<lambda>row. ar_endedAt row \<noteq> None) (db_attempts db)))"
proof -
  let ?ended = "filter (\<lambda>row. ar_endedAt row \<noteq> None) (db_attempts db)"
  have "sumCostUsd db = sum_list (map (\<lambda>m. sum_list (map attempt_cost (filter (\<lambda>row. ar_model row = m) ?ended))) (remdups (map ar_model ?ended)))"
    unfolding sumCostUsd_def Let_def by (intro arg_cong [where f = sum_list] map_cong refl model_cost) auto
  also have "\<dots> = (\<Sum>m\<in>ar_model ` set ?ended. sum_list (map attempt_cost (filter (\<lambda>row. ar_model row = m) ?ended)))"
    by (simp add: sum_list_distinct_conv_sum_set)
  also have "\<dots> = sum_list (map attempt_cost ?ended)"
    by (rule grouped_sum) auto
  finally show ?thesis .
qed

section \<open>Pull requests\<close>

definition prs_ok :: "attempt_db \<Rightarrow> bool" where
  "prs_ok db \<longleftrightarrow> distinct (map pr_url (db_prs db)) \<and> distinct (map pr_prId (db_prs db))"

text \<open>
  A pull request that was merged and is registered again is open and still carries the time and the commit of its
  merge, because the update of an existing row leaves both columns alone.
\<close>

theorem reopened_pr_keeps_merge:
  assumes "row \<in> set (db_prs db)" "pr_url row = up_url p" "\<not> list_ex (\<lambda>r. pr_prId r = pr_id_of p \<and> pr_url r \<noteq> up_url p) (db_prs db)"
  shows "list_ex (\<lambda>r. pr_url r = up_url p \<and> pr_status r = up_status p \<and> pr_mergedAt r = pr_mergedAt row \<and>
      pr_mergeCommitSha r = pr_mergeCommitSha row) (db_prs (snd (upsertPr now p db)))"
proof -
  let ?new = "row\<lparr>pr_prId := pr_id_of p, pr_attemptId := up_attemptId p, pr_issueId := up_issueId p,
    pr_owner := up_owner p, pr_repo := up_repo p, pr_pullNumber := up_pullNumber p,
    pr_branchName := up_branchName p, pr_status := up_status p, pr_updatedAt := now\<rparr>"
  have "up_url p \<in> set (map pr_url (db_prs db))" using assms(1,2) by (metis image_eqI set_map)
  then have "?new \<in> set (db_prs (snd (upsertPr now p db)))"
    using assms(1,2) by (auto simp: upsertPr_def assms(3) intro!: rev_image_eqI [OF assms(1)])
  then show ?thesis using assms(2) by (auto simp: list_ex_iff intro!: bexI [of _ ?new])
qed

definition reopened :: upsert_pr where
  "reopened = \<lparr>up_attemptId = None, up_issueId = ''i'', up_owner = ''o'', up_repo = ''r'', up_pullNumber = 7,
     up_url = ''u'', up_status = PrOpen, up_createdAt = ''t'', up_branchName = ''b''\<rparr>"

definition merged_db :: attempt_db where
  "merged_db = updatePrStatus ''t2'' ''u'' PrMerged (Some ''t2'') (Some ''sha'') (snd (upsertPr ''t1'' reopened empty_db))"

theorem reopened_pr_keeps_merge_witness:
  "list_ex (\<lambda>r. pr_status r = PrOpen \<and> pr_mergedAt r = Some ''t2'' \<and> pr_mergeCommitSha r = Some ''sha'')
     (db_prs (snd (upsertPr ''t3'' reopened merged_db)))"
proof -
  obtain row where row: "db_prs merged_db = [row]" "pr_url row = ''u''" "pr_mergedAt row = Some ''t2''"
    "pr_mergeCommitSha row = Some ''sha''"
    by (simp add: merged_db_def updatePrStatus_def upsertPr_def empty_db_def reopened_def)
  have "list_ex (\<lambda>r. pr_url r = up_url reopened \<and> pr_status r = up_status reopened \<and> pr_mergedAt r = pr_mergedAt row \<and>
      pr_mergeCommitSha r = pr_mergeCommitSha row) (db_prs (snd (upsertPr ''t3'' reopened merged_db)))"
    using row by (intro reopened_pr_keeps_merge) (auto simp: reopened_def)
  then show ?thesis using row by (auto simp: list_ex_iff reopened_def)
qed

end
