(* ===== verification/EventBus.thy ===== *)
theory EventBus
  imports GitOps
begin

text \<open>
  The typed event bus of \<open>src/src/core/event-bus.ts\<close>. Listener sets are objects of a small heap, since \<open>destroy\<close>
  drops the map while an emission may still iterate over a set of it. A set keeps its members in the order they
  were added, each with the number of its addition: an iteration visits what is added behind it and skips what was
  deleted, so the next member is the first with a larger number.
\<close>

section \<open>Listeners\<close>

text \<open>A handler is known by a number; the wrapper of \<open>once\<close> is a new function for every call.\<close>

datatype listener = Plain nat | OnceWrapper nat string nat

record bus =
  bs_sets :: "(nat \<times> listener) list list"
  bs_map :: "(string, nat) omap"
  bs_any :: nat
  bs_next :: nat

definition new_bus :: bus where
  "new_bus = \<lparr>bs_sets = [[]], bs_map = [], bs_any = 0, bs_next = 1\<rparr>"

definition set_add :: "nat \<Rightarrow> listener \<Rightarrow> bus \<Rightarrow> bus" where
  "set_add a l b =
     (if l \<in> set (map snd (bs_sets b ! a)) then b
      else b\<lparr>bs_sets := (bs_sets b)[a := bs_sets b ! a @ [(bs_next b, l)]], bs_next := bs_next b + 1\<rparr>)"

definition set_delete :: "nat \<Rightarrow> listener \<Rightarrow> bus \<Rightarrow> bus" where
  "set_delete a l b = b\<lparr>bs_sets := (bs_sets b)[a := filter (\<lambda>(_, l'). l' \<noteq> l) (bs_sets b ! a)]\<rparr>"

definition bus_on :: "string \<Rightarrow> listener \<Rightarrow> bus \<Rightarrow> bus" where
  "bus_on channel l b =
     (case omap_get (bs_map b) channel of
        Some a \<Rightarrow> set_add a l b
      | None \<Rightarrow> let a = length (bs_sets b)
                in set_add a l (b\<lparr>bs_sets := bs_sets b @ [[]], bs_map := omap_set channel a (bs_map b)\<rparr>))"

definition bus_off :: "string \<Rightarrow> listener \<Rightarrow> bus \<Rightarrow> bus" where
  "bus_off channel l b = (case omap_get (bs_map b) channel of Some a \<Rightarrow> set_delete a l b | None \<Rightarrow> b)"

definition bus_once :: "string \<Rightarrow> nat \<Rightarrow> bus \<Rightarrow> bus" where
  "bus_once channel h b =
     bus_on channel (OnceWrapper (bs_next b) channel h) (b\<lparr>bs_next := bs_next b + 1\<rparr>)"

definition bus_onAny :: "nat \<Rightarrow> bus \<Rightarrow> bus" where
  "bus_onAny h b = set_add (bs_any b) (Plain h) b"

definition bus_offAny :: "nat \<Rightarrow> bus \<Rightarrow> bus" where
  "bus_offAny h b = set_delete (bs_any b) (Plain h) b"

definition bus_destroy :: "bus \<Rightarrow> bus" where
  "bus_destroy b = b\<lparr>bs_map := [], bs_sets := (bs_sets b)[bs_any b := []]\<rparr>"

section \<open>Emission\<close>





section \<open>What an emission does\<close>

definition members_ok :: "nat \<Rightarrow> (nat \<times> listener) list \<Rightarrow> bool" where
  "members_ok n ms \<longleftrightarrow> sorted_wrt (<) (map fst ms) \<and> distinct (map snd ms) \<and> list_all (\<lambda>k. 0 < k \<and> k < n) (map fst ms)"

definition bus_ok :: "bus \<Rightarrow> bool" where
  "bus_ok b \<longleftrightarrow>
     bs_any b < length (bs_sets b) \<and> 0 < bs_next b \<and>
     (\<forall>k a. omap_get (bs_map b) k = Some a \<longrightarrow> a < length (bs_sets b) \<and> a \<noteq> bs_any b) \<and>
     list_all (members_ok (bs_next b)) (bs_sets b)"

lemma bus_ok_any: "bus_ok b \<Longrightarrow> bs_any b < length (bs_sets b)"
  by (simp add: bus_ok_def)

lemma bus_ok_channel: "bus_ok b \<Longrightarrow> omap_get (bs_map b) k = Some a \<Longrightarrow> a < length (bs_sets b)"
  by (auto simp: bus_ok_def)

lemma members_at: "bus_ok b \<Longrightarrow> a < length (bs_sets b) \<Longrightarrow> members_ok (bs_next b) (bs_sets b ! a)"
  by (simp add: bus_ok_def list_all_length)

lemma members_ok_mono: "members_ok n ms \<Longrightarrow> n \<le> k \<Longrightarrow> members_ok k ms"
  by (auto simp: members_ok_def list_all_iff)

lemma bus_ok_set:
  assumes "bus_ok b" "members_ok n ms" "bs_next b \<le> n"
  shows "bus_ok (b\<lparr>bs_sets := (bs_sets b)[a := ms], bs_next := n\<rparr>)"
proof -
  have "list_all (members_ok n) (bs_sets b)"
    using assms(1,3) members_ok_mono by (auto simp: bus_ok_def list_all_iff)
  then have "list_all (members_ok n) ((bs_sets b)[a := ms])"
    using assms(2) by (auto simp: list_all_iff dest!: set_update_subset_insert [THEN subsetD])
  then show ?thesis using assms(1,3) by (auto simp: bus_ok_def)
qed

lemma set_add_ok:
  assumes "bus_ok b" "a < length (bs_sets b)"
  shows "bus_ok (set_add a l b)"
proof (cases "l \<in> set (map snd (bs_sets b ! a))")
  case False
  have "0 < bs_next b" using assms(1) by (simp add: bus_ok_def)
  then have "members_ok (bs_next b + 1) (bs_sets b ! a @ [(bs_next b, l)])"
    using members_at [OF assms] False by (auto simp: members_ok_def sorted_wrt_append list_all_iff)
  then show ?thesis using False bus_ok_set [OF assms(1)] by (simp add: set_add_def)
qed (use assms in \<open>simp add: set_add_def\<close>)

lemma set_delete_ok:
  assumes "bus_ok b" "a < length (bs_sets b)"
  shows "bus_ok (set_delete a l b)"
proof -
  have "members_ok (bs_next b) (filter (\<lambda>(_, l'). l' \<noteq> l) (bs_sets b ! a))"
    using members_at [OF assms] by (auto simp: members_ok_def sorted_wrt_map sorted_wrt_filter distinct_map_filter list_all_iff)
  from bus_ok_set [OF assms(1) this] show ?thesis by (simp add: set_delete_def)
qed

text \<open>Every operation of the bus keeps its sets ordered, free of duplicates and apart from each other.\<close>

theorem bus_operations_keep_invariant:
  assumes "bus_ok b"
  shows "bus_ok (bus_on ch l b) \<and> bus_ok (bus_off ch l b) \<and> bus_ok (bus_once ch h b) \<and> bus_ok (bus_onAny h b) \<and>
    bus_ok (bus_offAny h b) \<and> bus_ok (bus_destroy b)"
proof -
  have on: "bus_ok (bus_on ch l b)" if "bus_ok b" for ch l b
  proof (cases "omap_get (bs_map b) ch")
    case (Some a)
    then show ?thesis using that by (simp add: bus_on_def set_add_ok bus_ok_channel)
  next
    case None
    have "bus_ok (b\<lparr>bs_sets := bs_sets b @ [[]], bs_map := omap_set ch (length (bs_sets b)) (bs_map b)\<rparr>)"
      using that by (auto simp: bus_ok_def less_Suc_eq members_ok_def split: if_splits)
    then show ?thesis using None by (simp add: bus_on_def Let_def set_add_ok)
  qed
  have "bus_ok (bus_off ch l b)"
    using assms by (auto simp: bus_off_def intro: set_delete_ok bus_ok_channel split: option.split)
  moreover have "bus_ok (b\<lparr>bs_next := bs_next b + 1\<rparr>)"
    using assms members_ok_mono by (auto simp: bus_ok_def list_all_iff)
  then have "bus_ok (bus_once ch h b)" unfolding bus_once_def by (rule on)
  moreover note any = bus_ok_any [OF assms]
  moreover have "bus_ok (bus_destroy b)"
  proof -
    have "bus_ok (b\<lparr>bs_map := []\<rparr>)" using assms by (auto simp: bus_ok_def)
    then have "bus_ok (b\<lparr>bs_map := []\<rparr>\<lparr>bs_sets := (bs_sets (b\<lparr>bs_map := []\<rparr>))[bs_any b := []], bs_next := bs_next b\<rparr>)"
      by (intro bus_ok_set) (auto simp: members_ok_def)
    then show ?thesis by (simp add: bus_destroy_def)
  qed
  ultimately show ?thesis
    using on [OF assms] set_add_ok [OF assms any] set_delete_ok [OF assms any] by (simp add: bus_onAny_def bus_offAny_def)
qed

theorem bus_operations_keep_invariant_witness: "bus_ok (bus_on ''a'' (Plain 3) new_bus)"
proof -
  have "bus_ok new_bus" by (simp add: bus_ok_def new_bus_def members_ok_def)
  then show ?thesis using bus_operations_keep_invariant by blast
qed










end
