(* ===== verification/PrMonitor.thy ===== *)
theory PrMonitor
  imports AttemptStore GitOps
begin

text \<open>
  The pull request monitor of \<open>src/src/git/pr-monitor.ts\<close>: its timer as a machine of steps, and one poll over the
  store, the GitHub client, the event bus and the orchestrator, which are functions on a world.
\<close>

section \<open>One poll\<close>

record pr_status_response =
  ps_open :: bool
  ps_merged :: bool
  ps_mergeCommitSha :: "string option"

record 'w monitor_env =
  mon_host :: host
  mon_now :: string
  mon_getOpenPrs :: "(pr_record list, 'w) io"
  mon_getPrStatus :: "string \<Rightarrow> string \<Rightarrow> int \<Rightarrow> (pr_status_response, 'w) io"
  mon_updatePrStatus :: "string \<Rightarrow> pr_status \<Rightarrow> string option \<Rightarrow> string option \<Rightarrow> (unit, 'w) io"
  mon_emit :: "string \<Rightarrow> (string \<times> json) list \<Rightarrow> (unit, 'w) io"
  mon_getAttempt :: "string \<Rightarrow> (attempt_record option, 'w) io"
  mon_getAllAttempts :: "(attempt_record list, 'w) io"
  mon_appendCheckpoint :: "checkpoint \<Rightarrow> (unit, 'w) io"
  mon_requestRefresh :: "(string \<Rightarrow> (unit, 'w) io) option"

definition parseRepoCoordinates :: "pr_record \<Rightarrow> (string \<times> string) option" where
  "parseRepoCoordinates pr =
     (case split_on CHR ''/'' (pr_repo pr) of
        owner # r # rest \<Rightarrow> Some (owner, join ''/'' (r # rest))
      | _ \<Rightarrow> if pr_owner pr \<noteq> [] then Some (pr_owner pr, pr_repo pr) else None)"

definition resolveStatus :: "pr_status_response \<Rightarrow> pr_status" where
  "resolveStatus d = (if ps_merged d then PrMerged else if \<not> ps_open d then PrClosed else PrOpen)"

definition sortAttemptsDesc :: "host \<Rightarrow> attempt_record \<Rightarrow> attempt_record \<Rightarrow> int" where
  "sortAttemptsDesc h l r =
     (let byTime = h_locale_compare h (at_startedAt r) (at_startedAt l);
          byNumber = coalesce (at_attemptNumber r) 0 - coalesce (at_attemptNumber l) 0
      in if byTime \<noteq> 0 then byTime else if byNumber \<noteq> 0 then byNumber
         else h_locale_compare h (at_attemptId r) (at_attemptId l))"

definition latest_attempt :: "'w monitor_env \<Rightarrow> pr_record \<Rightarrow> (attempt_record option, 'w) io" where
  "latest_attempt e pr =
     io_bind (case truthy_string (pr_attemptId pr) of Some i \<Rightarrow> mon_getAttempt e i | None \<Rightarrow> io_return None)
       (\<lambda>own. case own of
          Some a \<Rightarrow> io_return (Some a)
        | None \<Rightarrow> io_bind (mon_getAllAttempts e)
            (\<lambda>all. io_return (case js_sort (sortAttemptsDesc (mon_host e)) (filter (\<lambda>a. at_issueId a = pr_issueId pr) all) of
                [] \<Rightarrow> None | a # _ \<Rightarrow> Some a)))"

definition merged_checkpoint :: "string \<Rightarrow> pr_record \<Rightarrow> string option \<Rightarrow> attempt_record \<Rightarrow> checkpoint" where
  "merged_checkpoint now pr sha a =
     \<lparr>cp_attemptId = at_attemptId a, cp_trigger = ''pr_merged'', cp_eventCursor = None, cp_status = at_status a,
      cp_threadId = at_threadId a, cp_turnId = at_turnId a, cp_turnCount = at_turnCount a, cp_tokenUsage = at_tokenUsage a,
      cp_metadata = Some (JObj [(''prUrl'', JStr (pr_url pr)), (''mergeCommitSha'', jopt JStr sha)]), cp_createdAt = now\<rparr>"

definition state_event :: "string \<Rightarrow> pr_record \<Rightarrow> pr_status \<Rightarrow> string option \<Rightarrow> string \<times> (string \<times> json) list" where
  "state_event now pr newStatus sha =
     (if newStatus = PrMerged
      then (''pr.merged'', [(''issueId'', JStr (pr_issueId pr)), (''url'', JStr (pr_url pr)), (''mergedAt'', JStr now),
             (''mergeCommitSha'', jopt JStr sha)])
      else (''pr.closed'', [(''issueId'', JStr (pr_issueId pr)), (''url'', JStr (pr_url pr))]))"

definition write_checkpoint :: "'w monitor_env \<Rightarrow> pr_record \<Rightarrow> string option \<Rightarrow> (unit, 'w) io" where
  "write_checkpoint e pr sha =
     io_catch
       (io_bind (latest_attempt e pr)
          (\<lambda>latest. case latest of
             Some a \<Rightarrow> mon_appendCheckpoint e (merged_checkpoint (mon_now e) pr sha a)
           | None \<Rightarrow> io_return ()))
       (\<lambda>_. io_return ())"

definition after_update :: "'w monitor_env \<Rightarrow> pr_record \<Rightarrow> pr_status \<Rightarrow> string option \<Rightarrow> (unit, 'w) io" where
  "after_update e pr newStatus sha =
     io_bind (mon_emit e (fst (state_event (mon_now e) pr newStatus sha)) (snd (state_event (mon_now e) pr newStatus sha)))
       (\<lambda>_. io_bind (if newStatus = PrMerged then write_checkpoint e pr sha else io_return ())
          (\<lambda>_. case mon_requestRefresh e of
             Some refresh \<Rightarrow> io_catch (refresh ''pr_state_changed'') (\<lambda>_. io_return ())
           | None \<Rightarrow> io_return ()))"

definition handleStateChange :: "'w monitor_env \<Rightarrow> pr_record \<Rightarrow> pr_status \<Rightarrow> string option \<Rightarrow> (unit, 'w) io" where
  "handleStateChange e pr newStatus sha =
     io_bind
       (io_catch
          (io_bind (mon_updatePrStatus e (pr_url pr) newStatus
                (if newStatus = PrMerged then Some (mon_now e) else None) (if newStatus = PrMerged then sha else None))
             (\<lambda>_. io_return True))
          (\<lambda>_. io_return False))
       (\<lambda>updated. if updated then after_update e pr newStatus sha else io_return ())"

definition checkSinglePr :: "'w monitor_env \<Rightarrow> pr_record \<Rightarrow> (unit, 'w) io" where
  "checkSinglePr e pr =
     (case parseRepoCoordinates pr of
        None \<Rightarrow> io_return ()
      | Some (owner, repo) \<Rightarrow>
          io_bind (io_catch (io_bind (mon_getPrStatus e owner repo (pr_pullNumber pr)) (\<lambda>d. io_return (Some d))) (\<lambda>_. io_return None))
            (\<lambda>prData. case prData of
               None \<Rightarrow> io_return ()
             | Some d \<Rightarrow> if resolveStatus d = PrOpen then io_return ()
                         else handleStateChange e pr (resolveStatus d) (ps_mergeCommitSha d)))"

fun check_prs :: "'w monitor_env \<Rightarrow> pr_record list \<Rightarrow> (unit, 'w) io" where
  "check_prs e [] = io_return ()"
| "check_prs e (pr # prs) = io_bind (checkSinglePr e pr) (\<lambda>_. check_prs e prs)"

definition checkAllOpenPrs :: "'w monitor_env \<Rightarrow> (unit, 'w) io" where
  "checkAllOpenPrs e =
     io_bind (io_catch (io_bind (mon_getOpenPrs e) (\<lambda>prs. io_return (Some prs))) (\<lambda>_. io_return None))
       (\<lambda>openPrs. case openPrs of None \<Rightarrow> io_return () | Some prs \<Rightarrow> check_prs e prs)"

section \<open>The timer\<close>

text \<open>Timers are numbered; \<open>mo_polls\<close> counts the polls that run.\<close>

record monitor =
  mo_running :: bool
  mo_handle :: "nat option"
  mo_timers :: "nat list"
  mo_next :: nat
  mo_polls :: nat

definition new_monitor :: monitor where
  "new_monitor = \<lparr>mo_running = False, mo_handle = None, mo_timers = [], mo_next = 0, mo_polls = 0\<rparr>"

definition scheduleNextPoll :: "monitor \<Rightarrow> monitor" where
  "scheduleNextPoll m =
     (if \<not> mo_running m then m
      else m\<lparr>mo_handle := Some (mo_next m), mo_timers := mo_timers m @ [mo_next m], mo_next := mo_next m + 1\<rparr>)"

definition monitor_start :: "monitor \<Rightarrow> monitor" where
  "monitor_start m = (if mo_running m then m else scheduleNextPoll (m\<lparr>mo_running := True\<rparr>))"

definition monitor_stop :: "monitor \<Rightarrow> monitor" where
  "monitor_stop m =
     (if \<not> mo_running m then m
      else case mo_handle m of
             Some t \<Rightarrow> m\<lparr>mo_running := False, mo_timers := filter (\<lambda>x. x \<noteq> t) (mo_timers m), mo_handle := None\<rparr>
           | None \<Rightarrow> m\<lparr>mo_running := False\<rparr>)"

definition monitor_fire :: "nat \<Rightarrow> monitor \<Rightarrow> monitor" where
  "monitor_fire t m = m\<lparr>mo_timers := filter (\<lambda>x. x \<noteq> t) (mo_timers m), mo_handle := None, mo_polls := mo_polls m + 1\<rparr>"

definition monitor_finish :: "monitor \<Rightarrow> monitor" where
  "monitor_finish m = scheduleNextPoll (m\<lparr>mo_polls := mo_polls m - 1\<rparr>)"

datatype monitor_action = MonStart | MonStop | MonFire nat | MonFinish

inductive monitor_step :: "monitor \<Rightarrow> monitor_action \<Rightarrow> monitor \<Rightarrow> bool" where
  start_step: "monitor_step m MonStart (monitor_start m)"
| stop_step: "monitor_step m MonStop (monitor_stop m)"
| fire_step: "t \<in> set (mo_timers m) \<Longrightarrow> monitor_step m (MonFire t) (monitor_fire t m)"
| finish_step: "0 < mo_polls m \<Longrightarrow> monitor_step m MonFinish (monitor_finish m)"

inductive_cases monitor_stepE: "monitor_step m act m'"

inductive monitor_run :: "monitor \<Rightarrow> monitor_action list \<Rightarrow> monitor \<Rightarrow> bool" where
  run_nil: "monitor_run m [] m"
| run_cons: "monitor_step m act m1 \<Longrightarrow> monitor_run m1 acts m2 \<Longrightarrow> monitor_run m (act # acts) m2"

end
