(* ===== verification/PrMonitorClaims.thy ===== *)
theory PrMonitorClaims
  imports PrMonitor AttemptStoreClaims EventBus GitClaims
begin

text \<open>What the pull request monitor promises for one poll and for its timer, with the attempt store behind it.\<close>

section \<open>Polls on the attempt store\<close>

text \<open>The store as a component of a world; \<open>gh\<close> answers for the pull request of a repository.\<close>

record 'x store_world =
  sw_db :: attempt_db
  sw_rest :: 'x

definition on_store :: "(attempt_db \<Rightarrow> js_error option \<times> attempt_db) \<Rightarrow> (unit, 'x store_world) io" where
  "on_store f w =
     (case f (sw_db w) of
        (Some err, db) \<Rightarrow> (Inl err, w\<lparr>sw_db := db\<rparr>)
      | (None, db) \<Rightarrow> (Inr (), w\<lparr>sw_db := db\<rparr>))"

definition store_monitor ::
  "host \<Rightarrow> string \<Rightarrow> (string \<Rightarrow> string \<Rightarrow> int \<Rightarrow> js_error + pr_status_response) \<Rightarrow>
   (string \<Rightarrow> (string \<times> json) list \<Rightarrow> (unit, 'x) io) \<Rightarrow> (string \<Rightarrow> (unit, 'x) io) option \<Rightarrow> 'x store_world monitor_env" where
  "store_monitor h now gh send refresh =
     \<lparr>mon_host = h, mon_now = now, mon_getOpenPrs = (\<lambda>w. (Inr (getOpenPrs (sw_db w)), w)),
      mon_getPrStatus = (\<lambda>owner repo n w. (gh owner repo n, w)),
      mon_updatePrStatus = (\<lambda>url st t sha. on_store (\<lambda>db. (None, updatePrStatus now url st t sha db))),
      mon_emit = (\<lambda>ch p w. case send ch p (sw_rest w) of (r, x) \<Rightarrow> (r, w\<lparr>sw_rest := x\<rparr>)),
      mon_getAttempt = (\<lambda>i w. (Inr (getAttempt i (sw_db w)), w)),
      mon_getAllAttempts = (\<lambda>w. (Inr (getAllAttempts (sw_db w)), w)),
      mon_appendCheckpoint = (\<lambda>c. on_store (appendCheckpoint c)),
      mon_requestRefresh = map_option (\<lambda>f reason w. case f reason (sw_rest w) of (r, x) \<Rightarrow> (r, w\<lparr>sw_rest := x\<rparr>)) refresh\<rparr>"

definition github_says ::
  "(string \<Rightarrow> string \<Rightarrow> int \<Rightarrow> js_error + pr_status_response) \<Rightarrow> pr_record \<Rightarrow> pr_status" where
  "github_says gh pr =
     (case parseRepoCoordinates pr of
        None \<Rightarrow> PrOpen
      | Some (owner, repo) \<Rightarrow> (case gh owner repo (pr_pullNumber pr) of Inl _ \<Rightarrow> PrOpen | Inr d \<Rightarrow> resolveStatus d))"

definition never_throws :: "(string \<Rightarrow> (string \<times> json) list \<Rightarrow> (unit, 'x) io) \<Rightarrow> bool" where
  "never_throws send \<longleftrightarrow> (\<forall>ch p x. fst (send ch p x) = Inr ())"

lemma prs_appendCheckpoint [simp]: "db_prs (snd (appendCheckpoint c db)) = db_prs db"
  by (simp add: appendCheckpoint_def Let_def split: option.split)

lemma write_checkpoint_prs:
  "\<exists>w'. write_checkpoint (store_monitor h now gh send refresh) pr sha w = (Inr (), w') \<and> db_prs (sw_db w') = db_prs (sw_db w)"
proof -
  let ?e = "store_monitor h now gh send refresh"
  obtain a where la: "latest_attempt ?e pr w = (Inr a, w)"
    by (cases "truthy_string (pr_attemptId pr)"; cases "getAttempt (the (truthy_string (pr_attemptId pr))) (sw_db w)")
      (auto simp: latest_attempt_def store_monitor_def)
  show ?thesis
  proof (cases a)
    case None
    then show ?thesis by (simp add: write_checkpoint_def la)
  next
    case (Some latest)
    obtain r db where ap: "appendCheckpoint (merged_checkpoint now pr sha latest) (sw_db w) = (r, db)" by (metis surj_pair)
    then have "db_prs db = db_prs (sw_db w)" by (metis prs_appendCheckpoint snd_conv)
    moreover have "mon_appendCheckpoint ?e c = on_store (appendCheckpoint c)" "mon_now ?e = now" for c
      by (simp_all add: store_monitor_def)
    ultimately show ?thesis
      by (cases r) (simp_all add: write_checkpoint_def la Some on_store_def ap)
  qed
qed

lemma handleStateChange_store:
  assumes "never_throws send"
  shows "\<exists>w'. handleStateChange (store_monitor h now gh send refresh) pr st sha w = (Inr (), w') \<and>
    db_prs (sw_db w') = db_prs (updatePrStatus now (pr_url pr) st (if st = PrMerged then Some now else None)
      (if st = PrMerged then sha else None) (sw_db w))"
proof -
  let ?e = "store_monitor h now gh send refresh" and ?ev = "state_event now pr st sha"
  let ?w1 = "w\<lparr>sw_db := updatePrStatus now (pr_url pr) st (if st = PrMerged then Some now else None)
      (if st = PrMerged then sha else None) (sw_db w)\<rparr>"
  have now: "mon_now ?e = now" by (simp add: store_monitor_def)
  have "mon_updatePrStatus ?e (pr_url pr) st (if st = PrMerged then Some now else None) (if st = PrMerged then sha else None) w = (Inr (), ?w1)"
    by (simp add: store_monitor_def on_store_def)
  then have upd: "handleStateChange ?e pr st sha w = after_update ?e pr st sha ?w1"
    by (cases "st = PrMerged") (simp_all add: handleStateChange_def now)
  obtain x where em: "send (fst ?ev) (snd ?ev) (sw_rest w) = (Inr (), x)"
    using assms unfolding never_throws_def by (metis prod.collapse)
  let ?w2 = "?w1\<lparr>sw_rest := x\<rparr>"
  have emit: "mon_emit ?e (fst ?ev) (snd ?ev) ?w1 = (Inr (), ?w2)" by (simp add: store_monitor_def em)
  obtain w3 where w3: "(if st = PrMerged then write_checkpoint ?e pr sha else io_return ()) ?w2 = (Inr (), w3)"
    "db_prs (sw_db w3) = db_prs (sw_db ?w2)"
    using write_checkpoint_prs [of h now gh send refresh pr sha ?w2] by (cases "st = PrMerged") auto
  obtain w4 where w4: "(case mon_requestRefresh ?e of Some f \<Rightarrow> io_catch (f ''pr_state_changed'') (\<lambda>_. io_return ()) | None \<Rightarrow> io_return ()) w3 = (Inr () :: js_error + unit, w4)"
    "sw_db w4 = sw_db w3"
  proof (cases refresh)
    case None
    then show ?thesis using that by (simp add: store_monitor_def)
  next
    case (Some f)
    obtain r y where "f ''pr_state_changed'' (sw_rest w3) = (r, y)" by (metis surj_pair)
    then show ?thesis using that Some by (cases r) (simp_all add: store_monitor_def)
  qed
  have "after_update ?e pr st sha ?w1 = (Inr (), w4)"
    using emit w3(1) w4(1) by (simp add: after_update_def now)
  then show ?thesis using upd w3(2) w4(2) by simp
qed

definition merge_sha ::
  "(string \<Rightarrow> string \<Rightarrow> int \<Rightarrow> js_error + pr_status_response) \<Rightarrow> pr_record \<Rightarrow> string option" where
  "merge_sha gh pr =
     (case parseRepoCoordinates pr of
        None \<Rightarrow> None
      | Some (owner, repo) \<Rightarrow> (case gh owner repo (pr_pullNumber pr) of Inl _ \<Rightarrow> None | Inr d \<Rightarrow> ps_mergeCommitSha d))"

definition settle ::
  "(string \<Rightarrow> string \<Rightarrow> int \<Rightarrow> js_error + pr_status_response) \<Rightarrow> string \<Rightarrow> pr_record \<Rightarrow> pr_record \<Rightarrow> pr_record" where
  "settle gh now pr row =
     (let st = github_says gh pr
      in if st = PrOpen then row
         else row\<lparr>pr_status := st, pr_mergedAt := if st = PrMerged then Some now else None,
                pr_mergeCommitSha := if st = PrMerged then merge_sha gh pr else None, pr_updatedAt := now\<rparr>)"

lemma settle_url [simp]: "pr_url (settle gh now pr row) = pr_url row"
  by (simp add: settle_def Let_def)

lemma checkSinglePr_store:
  assumes "never_throws send"
  shows "\<exists>w'. checkSinglePr (store_monitor h now gh send refresh) pr w = (Inr (), w') \<and>
    db_prs (sw_db w') = map (\<lambda>row. if pr_url row = pr_url pr then settle gh now pr row else row) (db_prs (sw_db w))"
proof -
  let ?e = "store_monitor h now gh send refresh"
  have same: "map (\<lambda>row. if pr_url row = pr_url pr then settle gh now pr row else row) rows = rows"
    if "github_says gh pr = PrOpen" for rows
    using that by (induction rows) (auto simp: settle_def)
  have ask: "mon_getPrStatus ?e owner repo n w = (gh owner repo n, w)" for owner repo n
    by (simp add: store_monitor_def)
  show ?thesis
  proof (cases "parseRepoCoordinates pr")
    case None
    then show ?thesis using same by (simp add: checkSinglePr_def github_says_def)
  next
    case (Some c)
    obtain owner repo where c: "c = (owner, repo)" by (cases c)
    show ?thesis
    proof (cases "gh owner repo (pr_pullNumber pr)")
      case (Inl err)
      then show ?thesis using same Some c by (simp add: checkSinglePr_def github_says_def ask)
    next
      case (Inr d)
      have says: "github_says gh pr = resolveStatus d" "merge_sha gh pr = ps_mergeCommitSha d"
        using Some c Inr by (simp_all add: github_says_def merge_sha_def)
      show ?thesis
      proof (cases "resolveStatus d = PrOpen")
        case True
        then show ?thesis using same Some c Inr says by (simp add: checkSinglePr_def ask)
      next
        case False
        then have "checkSinglePr ?e pr w = handleStateChange ?e pr (resolveStatus d) (ps_mergeCommitSha d) w"
          using Some c Inr by (simp add: checkSinglePr_def ask)
        then show ?thesis
          using handleStateChange_store [OF assms, where h = h and now = now and gh = gh and refresh = refresh and pr = pr and st = "resolveStatus d" and sha = "ps_mergeCommitSha d" and w = w] False says
          by (simp add: updatePrStatus_def settle_def Let_def cong: if_cong)
      qed
    qed
  qed
qed

lemma check_prs_store:
  assumes "never_throws send" "distinct (map pr_url prs)"
  shows "\<exists>w'. check_prs (store_monitor h now gh send refresh) prs w = (Inr (), w') \<and>
    db_prs (sw_db w') = map (\<lambda>row. case List.find (\<lambda>pr. pr_url pr = pr_url row) prs of
        None \<Rightarrow> row | Some pr \<Rightarrow> settle gh now pr row) (db_prs (sw_db w))"
  using assms(2)
proof (induction prs arbitrary: w)
  case (Cons pr prs)
  let ?e = "store_monitor h now gh send refresh"
  obtain w1 where w1: "checkSinglePr ?e pr w = (Inr (), w1)"
    "db_prs (sw_db w1) = map (\<lambda>row. if pr_url row = pr_url pr then settle gh now pr row else row) (db_prs (sw_db w))"
    using checkSinglePr_store [OF assms(1), where h = h and now = now and gh = gh and refresh = refresh and pr = pr and w = w] by auto
  obtain w2 where w2: "check_prs ?e prs w1 = (Inr (), w2)"
    "db_prs (sw_db w2) = map (\<lambda>row. case List.find (\<lambda>pr. pr_url pr = pr_url row) prs of
        None \<Rightarrow> row | Some pr \<Rightarrow> settle gh now pr row) (db_prs (sw_db w1))"
    using Cons by force
  have "List.find (\<lambda>p. pr_url p = pr_url pr) prs = None"
    using Cons.prems by (simp add: find_None_iff) (metis image_eqI)
  then have "db_prs (sw_db w2) = map (\<lambda>row. case List.find (\<lambda>pr. pr_url pr = pr_url row) (pr # prs) of
        None \<Rightarrow> row | Some pr \<Rightarrow> settle gh now pr row) (db_prs (sw_db w))"
    by (simp add: w2(2) w1(2) eq_commute [of "pr_url pr"])
  then show ?case using w1(1) w2(1) by simp
qed simp

lemma find_distinct:
  "distinct (map pr_url rows) \<Longrightarrow> row \<in> set rows \<Longrightarrow>
   List.find (\<lambda>pr. pr_url pr = pr_url row) (filter P rows) = (if P row then Some row else None)"
proof (induction rows)
  case (Cons r rows)
  then show ?case
    by (cases "row = r") (auto simp: find_None_iff image_iff)
qed simp

text \<open>
  C16: A poll settles exactly the open pull requests that GitHub reports as merged or closed, with the time and the commit of
  the merge, and leaves every other row alone, those whose status cannot be read or whose repository cannot be parsed
  included; it never fails as long as the listeners of its events do not throw.
\<close>

theorem poll_settles_exactly:
  assumes "never_throws send" "prs_ok (sw_db w)"
  shows "\<exists>w'. checkAllOpenPrs (store_monitor h now gh send refresh) w = (Inr (), w') \<and>
    db_prs (sw_db w') = map (\<lambda>row. if pr_status row = PrOpen then settle gh now row row else row) (db_prs (sw_db w)) \<and>
    getOpenPrs (sw_db w') = filter (\<lambda>pr. github_says gh pr = PrOpen) (getOpenPrs (sw_db w))"
proof -
  let ?e = "store_monitor h now gh send refresh" and ?rows = "db_prs (sw_db w)"
  have d: "distinct (map pr_url ?rows)" using assms(2) by (simp add: prs_ok_def)
  then have "distinct (map pr_url (getOpenPrs (sw_db w)))" by (simp add: getOpenPrs_def distinct_map_filter)
  from check_prs_store [OF assms(1) this, where h = h and now = now and gh = gh and refresh = refresh and w = w]
  obtain w' where w': "check_prs ?e (getOpenPrs (sw_db w)) w = (Inr (), w')"
    "db_prs (sw_db w') = map (\<lambda>row. case List.find (\<lambda>pr. pr_url pr = pr_url row) (getOpenPrs (sw_db w)) of
        None \<Rightarrow> row | Some pr \<Rightarrow> settle gh now pr row) ?rows" by auto
  have rows: "db_prs (sw_db w') = map (\<lambda>row. if pr_status row = PrOpen then settle gh now row row else row) ?rows"
    unfolding w'(2) by (rule map_cong) (auto simp: getOpenPrs_def find_distinct [OF d])
  have "filter (\<lambda>row. pr_status row = PrOpen) (map (\<lambda>row. if pr_status row = PrOpen then settle gh now row row else row) rs) =
      filter (\<lambda>pr. github_says gh pr = PrOpen) (filter (\<lambda>row. pr_status row = PrOpen) rs)" for rs
    by (induction rs) (auto simp: settle_def Let_def)
  then have "getOpenPrs (sw_db w') = filter (\<lambda>pr. github_says gh pr = PrOpen) (getOpenPrs (sw_db w))"
    by (simp add: getOpenPrs_def rows)
  moreover have "checkAllOpenPrs ?e w = (Inr (), w')"
  proof -
    have "mon_getOpenPrs ?e w = (Inr (getOpenPrs (sw_db w)), w)" by (simp add: store_monitor_def)
    then show ?thesis using w'(1) by (simp add: checkAllOpenPrs_def)
  qed
  ultimately show ?thesis using rows by blast
qed

definition toy_pr :: "int \<Rightarrow> string \<Rightarrow> upsert_pr" where
  "toy_pr n url = reopened\<lparr>up_pullNumber := n, up_url := url\<rparr>"

definition toy_host :: host where
  "toy_host = \<lparr>h_date_parse = (\<lambda>_. None), h_locale_compare = (\<lambda>a b. 0), h_json_parse = (\<lambda>_. None)\<rparr>"

definition toy_gh :: "string \<Rightarrow> string \<Rightarrow> int \<Rightarrow> js_error + pr_status_response" where
  "toy_gh owner repo n =
     (if n = 1 then Inl (JsError ''network'')
      else Inr \<lparr>ps_open = False, ps_merged = (n = 7), ps_mergeCommitSha = Some ''sha''\<rparr>)"

definition toy_store :: "nat store_world" where
  "toy_store = \<lparr>sw_db = snd (upsertPr ''t'' (toy_pr 1 ''a'') (snd (upsertPr ''t'' (toy_pr 7 ''b'') empty_db))), sw_rest = 0\<rparr>"

definition toy_row :: "int \<Rightarrow> string \<Rightarrow> pr_record" where
  "toy_row n url = \<lparr>pr_prId = ''o/r#'' @ show_int n, pr_attemptId = None, pr_issueId = ''i'', pr_owner = ''o'', pr_repo = ''r'',
     pr_pullNumber = n, pr_url = url, pr_status = PrOpen, pr_mergedAt = None, pr_mergeCommitSha = None, pr_createdAt = ''t'',
     pr_updatedAt = ''t'', pr_branchName = ''b''\<rparr>"

lemma toy_store_rows: "db_prs (sw_db toy_store) = [toy_row 7 ''b'', toy_row 1 ''a'']" "sw_rest toy_store = 0" "db_checkpoints (sw_db toy_store) = []"
  by code_simp+

lemma toy_coordinates: "parseRepoCoordinates (toy_row n url) = Some (''o'', ''r'')"
  by (simp add: parseRepoCoordinates_def toy_row_def)

theorem poll_settles_exactly_witness:
  "\<exists>w'. checkAllOpenPrs (store_monitor toy_host ''now'' toy_gh (\<lambda>_ _ x. (Inr (), x)) None) toy_store = (Inr (), w') \<and>
     map pr_url (getOpenPrs (sw_db w')) = [''a''] \<and> map pr_mergedAt (db_prs (sw_db w')) = [Some ''now'', None]"
proof -
  have "prs_ok (sw_db toy_store)" unfolding prs_ok_def by code_simp
  moreover have "never_throws (\<lambda>_ _ x. (Inr (), x :: nat))" by (simp add: never_throws_def)
  ultimately obtain w' where w': "checkAllOpenPrs (store_monitor toy_host ''now'' toy_gh (\<lambda>_ _ x. (Inr (), x)) None) toy_store = (Inr (), w')"
    "db_prs (sw_db w') = map (\<lambda>row. if pr_status row = PrOpen then settle toy_gh ''now'' row row else row) (db_prs (sw_db toy_store))"
    "getOpenPrs (sw_db w') = filter (\<lambda>pr. github_says toy_gh pr = PrOpen) (getOpenPrs (sw_db toy_store))"
    using poll_settles_exactly [of "\<lambda>_ _ x. (Inr (), x)" toy_store toy_host "''now''" toy_gh None] by auto
  have "map pr_url (filter (\<lambda>pr. github_says toy_gh pr = PrOpen) (getOpenPrs (sw_db toy_store))) = [''a'']"
    "map pr_mergedAt (map (\<lambda>row. if pr_status row = PrOpen then settle toy_gh ''now'' row row else row) (db_prs (sw_db toy_store))) = [Some ''now'', None]"
    by code_simp+
  with w' show ?thesis by auto
qed

section \<open>A listener that throws\<close>

text \<open>
  A listener of \<open>pr.merged\<close> that throws loses the merge: the status is already written, the exception ends the poll
  before the checkpoint and the refresh, and since the pull request is no longer open no later poll makes up for it.
\<close>

theorem throwing_listener_loses_merge:
  assumes "send ''pr.merged'' (snd (state_event now pr PrMerged sha)) x = (Inl err, y)"
  shows "handleStateChange (store_monitor h now gh send refresh) pr PrMerged sha \<lparr>sw_db = db, sw_rest = x\<rparr> =
    (Inl err, \<lparr>sw_db = updatePrStatus now (pr_url pr) PrMerged (Some now) sha db, sw_rest = y\<rparr>)"
proof -
  have "fst (state_event now pr PrMerged sha) = ''pr.merged''" by (simp add: state_event_def)
  then show ?thesis
    using assms by (simp add: handleStateChange_def after_update_def store_monitor_def on_store_def)
qed

theorem throwing_listener_loses_merge_witness:
  "\<exists>db. checkAllOpenPrs (store_monitor toy_host ''now'' (\<lambda>_ _ _. Inr \<lparr>ps_open = False, ps_merged = True, ps_mergeCommitSha = None\<rparr>)
       (\<lambda>_ _ x. (Inl (JsError ''boom''), x)) (Some (\<lambda>_ x. (Inr (), x + 1)))) toy_store = (Inl (JsError ''boom''), \<lparr>sw_db = db, sw_rest = 0\<rparr>) \<and>
     map pr_status (db_prs db) = [PrMerged, PrOpen] \<and> db_checkpoints db = []"
proof -
  let ?gh = "\<lambda>_ _ _. Inr \<lparr>ps_open = False, ps_merged = True, ps_mergeCommitSha = None\<rparr>"
  let ?send = "\<lambda>_ _ x. (Inl (JsError ''boom''), x)"
  let ?refresh = "Some (\<lambda>_ x. (Inr (), x + 1)) :: (string \<Rightarrow> (unit, nat) io) option"
  let ?e = "store_monitor toy_host ''now'' ?gh ?send ?refresh"
  let ?pr = "toy_row 7 ''b''"
  have open': "getOpenPrs (sw_db toy_store) = [?pr, toy_row 1 ''a'']" "pr_url ?pr = ''b''"
    by (simp_all add: getOpenPrs_def toy_store_rows toy_row_def)
  let ?db = "updatePrStatus ''now'' ''b'' PrMerged (Some ''now'') None (sw_db toy_store)"
  have single: "checkSinglePr ?e ?pr toy_store = handleStateChange ?e ?pr PrMerged None toy_store"
    by (simp add: checkSinglePr_def toy_coordinates store_monitor_def resolveStatus_def)
  have "toy_store = \<lparr>sw_db = sw_db toy_store, sw_rest = 0\<rparr>" using toy_store_rows(2) by simp
  then have "handleStateChange ?e ?pr PrMerged None toy_store = (Inl (JsError ''boom''), \<lparr>sw_db = ?db, sw_rest = 0\<rparr>)"
    using throwing_listener_loses_merge [of ?send "''now''" ?pr None 0 "JsError ''boom''" 0 toy_host ?gh ?refresh "sw_db toy_store"] open'(2)
    by simp
  then have "checkAllOpenPrs ?e toy_store = (Inl (JsError ''boom''), \<lparr>sw_db = ?db, sw_rest = 0\<rparr>)"
    using single by (simp add: checkAllOpenPrs_def open'(1) store_monitor_def)
  moreover have "map pr_status (db_prs ?db) = [PrMerged, PrOpen]" "db_checkpoints ?db = []"
    by (simp_all add: updatePrStatus_def toy_store_rows toy_row_def)
  ultimately show ?thesis by (intro exI [of _ ?db]) simp
qed

section \<open>The timer\<close>

text \<open>No second start while a poll of an earlier run is still under way.\<close>

fun calm :: "monitor \<Rightarrow> monitor_action list \<Rightarrow> bool" where
  "calm m [] = True"
| "calm m (MonStart # acts) = ((mo_running m \<or> mo_polls m = 0) \<and> calm (monitor_start m) acts)"
| "calm m (MonStop # acts) = calm (monitor_stop m) acts"
| "calm m (MonFire t # acts) = calm (monitor_fire t m) acts"
| "calm m (MonFinish # acts) = calm (monitor_finish m) acts"

definition single_loop :: "monitor \<Rightarrow> bool" where
  "single_loop m \<longleftrightarrow>
     (if mo_polls m = 0 \<and> mo_running m then \<exists>t. mo_timers m = [t] \<and> mo_handle m = Some t
      else mo_polls m \<le> 1 \<and> mo_timers m = [] \<and> mo_handle m = None)"

lemma single_loop_steps:
  "single_loop m \<Longrightarrow> mo_running m \<or> mo_polls m = 0 \<Longrightarrow> single_loop (monitor_start m)"
  "single_loop m \<Longrightarrow> single_loop (monitor_stop m)"
  "single_loop m \<Longrightarrow> t \<in> set (mo_timers m) \<Longrightarrow> single_loop (monitor_fire t m)"
  "single_loop m \<Longrightarrow> 0 < mo_polls m \<Longrightarrow> single_loop (monitor_finish m)"
  by (simp_all add: single_loop_def monitor_start_def monitor_stop_def monitor_fire_def monitor_finish_def scheduleNextPoll_def
      split: if_splits option.splits) auto

text \<open>
  C24: There is one loop and no more: with no restart during a poll, at every moment at most one timer or one poll exists,
  one of them while the monitor runs, and no timer is left once it is stopped.
\<close>

theorem monitor_single_loop:
  assumes "monitor_run new_monitor acts m" "calm new_monitor acts"
  shows "length (mo_timers m) + mo_polls m \<le> 1 \<and> (mo_running m = (length (mo_timers m) + mo_polls m = 1) \<or> mo_polls m = 1) \<and>
    (mo_running m \<or> mo_timers m = [])"
proof -
  have "single_loop m'" if "monitor_run m acts m'" "calm m acts" "single_loop m" for m acts m'
    using that
  proof (induction rule: monitor_run.induct)
    case (run_cons m act m1 acts m2)
    have "single_loop m1 \<and> calm m1 acts"
      using run_cons.hyps(1) run_cons.prems
      by (cases rule: monitor_step.cases)
        (simp_all add: single_loop_steps)
    then show ?case using run_cons.IH by simp
  qed
  moreover have "single_loop new_monitor" by (simp add: single_loop_def new_monitor_def)
  ultimately have "single_loop m" using assms by blast
  then show ?thesis by (auto simp: single_loop_def split: if_splits)
qed

text \<open>The monitor is stopped and started again while a poll waits for GitHub.\<close>

definition restart_acts :: "monitor_action list" where
  "restart_acts = [MonStart, MonFire 0, MonStop, MonStart, MonFinish, MonStop]"

definition after_restart :: monitor where
  "after_restart = \<lparr>mo_running = False, mo_handle = None, mo_timers = [1], mo_next = 3, mo_polls = 0\<rparr>"

lemma restart_run: "monitor_run new_monitor restart_acts after_restart"
proof -
  let ?m1 = "\<lparr>mo_running = True, mo_handle = Some 0, mo_timers = [0], mo_next = 1, mo_polls = 0\<rparr>"
  let ?m2 = "\<lparr>mo_running = True, mo_handle = None, mo_timers = [], mo_next = 1, mo_polls = 1\<rparr>"
  let ?m3 = "\<lparr>mo_running = False, mo_handle = None, mo_timers = [], mo_next = 1, mo_polls = 1\<rparr>"
  let ?m4 = "\<lparr>mo_running = True, mo_handle = Some 1, mo_timers = [1], mo_next = 2, mo_polls = 1\<rparr>"
  let ?m5 = "\<lparr>mo_running = True, mo_handle = Some 2, mo_timers = [1, 2], mo_next = 3, mo_polls = 0\<rparr>"
  have "monitor_step new_monitor MonStart ?m1"
    using start_step [of new_monitor] by (simp add: monitor_start_def scheduleNextPoll_def new_monitor_def)
  moreover have "monitor_step ?m1 (MonFire 0) ?m2" using fire_step [of 0 ?m1] by (simp add: monitor_fire_def)
  moreover have "monitor_step ?m2 MonStop ?m3" using stop_step [of ?m2] by (simp add: monitor_stop_def)
  moreover have "monitor_step ?m3 MonStart ?m4" using start_step [of ?m3] by (simp add: monitor_start_def scheduleNextPoll_def eval_nat_numeral)
  moreover have "monitor_step ?m4 MonFinish ?m5" using finish_step [of ?m4] by (simp add: monitor_finish_def scheduleNextPoll_def eval_nat_numeral)
  moreover have "monitor_step ?m5 MonStop after_restart" using stop_step [of ?m5] by (simp add: monitor_stop_def after_restart_def)
  ultimately show ?thesis unfolding restart_acts_def by (blast intro: monitor_run.intros)
qed

theorem monitor_single_loop_witness:
  "\<exists>m. monitor_run new_monitor [MonStart] m \<and> mo_timers m = [0] \<and> mo_polls m = 0"
proof -
  have run: "monitor_run new_monitor [MonStart] (monitor_start new_monitor)"
    by (rule run_cons [OF start_step run_nil])
  have "length (mo_timers (monitor_start new_monitor)) + mo_polls (monitor_start new_monitor) \<le> 1"
    using monitor_single_loop [OF run] by (simp add: new_monitor_def)
  then show ?thesis using run by (auto simp: monitor_start_def scheduleNextPoll_def new_monitor_def)
qed

text \<open>
  A restart during a poll leaves two loops: the new run has its timer, the old poll schedules another one when it
  ends, and a stop clears only the newer, so a timer survives the stop and polls once more.
\<close>

theorem restart_during_poll_leaks_timer:
  "\<exists>m. monitor_run new_monitor restart_acts m \<and> \<not> mo_running m \<and> mo_timers m = [1] \<and> monitor_step m (MonFire 1) (monitor_fire 1 m)"
  using restart_run by (auto simp: after_restart_def intro!: exI [of _ after_restart] fire_step)

end
