(* ===== verification/LinearQueries.thy ===== *)
theory LinearQueries
  imports Prelude
begin

text \<open>
  The GraphQL documents of \<open>src/src/linear/queries.ts\<close>, \<open>transition-query.ts\<close> and the two that \<open>client.ts\<close> writes itself,
  as the texts the template literals give.
\<close>

section \<open>Documents\<close>

definition PAGE_SIZE :: nat where
  "PAGE_SIZE = 50"

definition ISSUE_FIELDS :: string where
  "ISSUE_FIELDS = ''
  id
  identifier
  title
  description
  priority
  branchName
  url
  createdAt
  updatedAt
  state {
    name
  }
  labels {
    nodes {
      name
    }
  }
  inverseRelations {
    nodes {
      id
      type
      issue {
        id
        identifier
        state {
          name
        }
      }
      relatedIssue {
        id
        identifier
        state {
          name
        }
      }
    }
  }
''"

definition buildCandidateIssuesQuery :: "bool \<Rightarrow> string" where
  "buildCandidateIssuesQuery includeProjectFilter =
     (let projectFilter = (if includeProjectFilter then ''project: { slugId: { eq: $projectSlug } }'' else [])
      in ''
    query RisolutoCandidateIssues($after: String, $activeStates: [String!]'' @ (if includeProjectFilter then '', $projectSlug: String!'' else []) @ '') {
      issues(first: '' @ show_nat PAGE_SIZE @ '', after: $after, filter: {
        state: { name: { in: $activeStates } }
        '' @ projectFilter @ ''
      }) {
        nodes {
          '' @ ISSUE_FIELDS @ ''
        }
        pageInfo {
          hasNextPage
          endCursor
        }
      }
    }
  '')"

definition buildCandidateIssuesByStateIdsQuery :: "bool \<Rightarrow> string" where
  "buildCandidateIssuesByStateIdsQuery includeProjectFilter =
     (let projectFilter = (if includeProjectFilter then ''project: { slugId: { eq: $projectSlug } }'' else [])
      in ''
    query RisolutoCandidateIssuesByStateIds($after: String, $stateIds: [ID!]'' @ (if includeProjectFilter then '', $projectSlug: String!'' else []) @ '') {
      issues(first: '' @ show_nat PAGE_SIZE @ '', after: $after, filter: {
        state: { id: { in: $stateIds } }
        '' @ projectFilter @ ''
      }) {
        nodes {
          '' @ ISSUE_FIELDS @ ''
        }
        pageInfo {
          hasNextPage
          endCursor
        }
      }
    }
  '')"

definition buildIssuesByIdsQuery :: string where
  "buildIssuesByIdsQuery = ''
    query RisolutoIssuesByIds($ids: [ID!], $after: String) {
      issues(first: '' @ show_nat PAGE_SIZE @ '', after: $after, filter: { id: { in: $ids } }) {
        nodes {
          '' @ ISSUE_FIELDS @ ''
        }
        pageInfo {
          hasNextPage
          endCursor
        }
      }
    }
  ''"

definition buildIssuesByStatesQuery :: string where
  "buildIssuesByStatesQuery = ''
    query RisolutoIssuesByStates($states: [String!], $after: String) {
      issues(first: '' @ show_nat PAGE_SIZE @ '', after: $after, filter: { state: { name: { in: $states } } }) {
        nodes {
          '' @ ISSUE_FIELDS @ ''
        }
        pageInfo {
          hasNextPage
          endCursor
        }
      }
    }
  ''"

definition buildProjectLookupQuery :: string where
  "buildProjectLookupQuery = ''
    query RisolutoPlanProject($projectSlug: String!) {
      projects(first: 1, filter: { slugId: { eq: $projectSlug } }) {
        nodes {
          id
          name
          slugId
          teams(first: 1) {
            nodes {
              id
              name
              key
            }
          }
        }
      }
    }
  ''"

definition buildTeamStatesQuery :: string where
  "buildTeamStatesQuery = ''
    query RisolutoTeamStates($teamId: String!) {
      team(id: $teamId) {
        id
        name
        states {
          nodes {
            id
            name
            type
          }
        }
      }
    }
  ''"

definition buildCreateIssueMutation :: string where
  "buildCreateIssueMutation = ''
    mutation RisolutoCreateIssue($teamId: String!, $projectId: String, $title: String!, $description: String, $stateId: String) {
      issueCreate(input: { teamId: $teamId, projectId: $projectId, title: $title, description: $description, stateId: $stateId }) {
        success
        issue {
          id
          identifier
          url
        }
      }
    }
  ''"

definition buildCreateLabelMutation :: string where
  "buildCreateLabelMutation = ''
    mutation RisolutoCreateLabel($teamId: String, $name: String!, $color: String) {
      issueLabelCreate(input: { teamId: $teamId, name: $name, color: $color }) {
        success
        issueLabel {
          id
          name
        }
      }
    }
  ''"

definition buildTeamsQuery :: string where
  "buildTeamsQuery = ''
    query RisolutoTeams {
      teams(first: 50) {
        nodes {
          id
          name
          key
        }
      }
    }
  ''"

definition buildCreateProjectMutation :: string where
  "buildCreateProjectMutation = ''
    mutation RisolutoCreateProject($name: String!, $teamIds: [String!]!) {
      projectCreate(input: { name: $name, teamIds: $teamIds }) {
        success
        project {
          id
          name
          slugId
          url
          teams(first: 1) {
            nodes {
              key
            }
          }
        }
      }
    }
  ''"

definition buildWebhooksQuery :: string where
  "buildWebhooksQuery = ''
    query RisolutoWebhooks {
      webhooks(first: 50) {
        nodes {
          id
          url
          enabled
          label
          teamIds
          resourceTypes
          secret
          createdAt
          updatedAt
        }
      }
    }
  ''"

definition buildWebhookCreateMutation :: string where
  "buildWebhookCreateMutation = ''
    mutation RisolutoWebhookCreate($url: String!, $teamIds: [String!], $resourceTypes: [String!]!, $label: String, $secret: String) {
      webhookCreate(input: { url: $url, teamIds: $teamIds, resourceTypes: $resourceTypes, label: $label, secret: $secret }) {
        success
        webhook {
          id
          url
          enabled
          label
          secret
          resourceTypes
          createdAt
        }
      }
    }
  ''"

definition buildWebhookUpdateMutation :: string where
  "buildWebhookUpdateMutation = ''
    mutation RisolutoWebhookUpdate($id: String!, $enabled: Boolean, $url: String, $label: String, $resourceTypes: [String!], $secret: String) {
      webhookUpdate(id: $id, input: { enabled: $enabled, url: $url, label: $label, resourceTypes: $resourceTypes, secret: $secret }) {
        success
        webhook {
          id
          url
          enabled
          label
          secret
          resourceTypes
        }
      }
    }
  ''"

definition buildWebhookDeleteMutation :: string where
  "buildWebhookDeleteMutation = ''
    mutation RisolutoWebhookDelete($id: String!) {
      webhookDelete(id: $id) {
        success
      }
    }
  ''"

definition buildAttachmentsForUrlQuery :: string where
  "buildAttachmentsForUrlQuery = ''
    query RisolutoAttachmentsForUrl($url: String!) {
      attachmentsForURL(url: $url) {
        nodes {
          id
          title
          subtitle
          url
          issue {
            id
            identifier
            title
            state {
              name
            }
          }
        }
      }
    }
  ''"

definition buildAttachmentCreateMutation :: string where
  "buildAttachmentCreateMutation = ''
    mutation RisolutoAttachmentCreate($issueId: String!, $title: String!, $subtitle: String, $url: String!, $iconUrl: String) {
      attachmentCreate(input: { issueId: $issueId, title: $title, subtitle: $subtitle, url: $url, iconUrl: $iconUrl }) {
        success
        attachment {
          id
          url
          title
          subtitle
        }
      }
    }
  ''"

definition buildAttachmentUpdateMutation :: string where
  "buildAttachmentUpdateMutation = ''
    mutation RisolutoAttachmentUpdate($id: String!, $title: String, $subtitle: String, $iconUrl: String) {
      attachmentUpdate(id: $id, input: { title: $title, subtitle: $subtitle, iconUrl: $iconUrl }) {
        success
        attachment {
          id
          url
          title
          subtitle
        }
      }
    }
  ''"

definition buildIssueByIdQuery :: string where
  "buildIssueByIdQuery = ''
    query RisolutoIssueById($id: String!) {
      issue(id: $id) {
        id
        identifier
        title
        state {
          name
        }
      }
    }
  ''"

definition buildIssueCommentMutation :: string where
  "buildIssueCommentMutation = ''
    mutation RisolutoIssueCommentCreate($issueId: String!, $body: String!) {
      commentCreate(input: { issueId: $issueId, body: $body }) {
        success
        comment {
          id
        }
      }
    }
  ''"

definition buildIssueTransitionMutation :: string where
  "buildIssueTransitionMutation = ''
    mutation RisolutoIssueTransition($issueId: String!, $stateId: String) {
      issueUpdate(id: $issueId, input: { stateId: $stateId }) {
        success
        issue {
          id
          identifier
          state {
            name
          }
        }
      }
    }
  ''"

definition buildWorkflowStateLookupQuery :: "bool \<Rightarrow> string" where
  "buildWorkflowStateLookupQuery includeTeamFilter =
     ''
    query RisolutoWorkflowStates'' @ (if includeTeamFilter then ''($teamId: ID)'' else []) @ '' {
      workflowStates(first: 250'' @ (if includeTeamFilter then '', filter: { team: { id: { eq: $teamId } } }'' else []) @ '') {
        nodes {
          id
          name
        }
      }
    }
  ''"

definition listProjectsQuery :: string where
  "listProjectsQuery = ''{ projects(first: 50) { nodes { id name slugId teams { nodes { key } } } } }''"

end
