(* ===== verification/LinearClient.thy ===== *)
theory LinearClient
  imports Effects LinearQueries ConfigPipeline
begin

text \<open>
  The Linear client: \<open>src/src/linear/issue-parser.ts\<close>, \<open>issue-pagination.ts\<close> and \<open>client.ts\<close>. The network is a function on a
  world that answers a request with a failure or a response; an unknown value is a \<open>json option\<close>, and numbers are
  integers. Logging is left out.
\<close>

section \<open>Errors and values\<close>

datatype linear_code = LinTransport | LinHttp | LinGraphql | LinUnknownPayload | LinMissingEndCursor

text \<open>A \<open>LinearClientError\<close> with its cause, or any other error.\<close>

datatype linear_error = LinearClientError linear_code string "string option" | LinearOther string

fun linear_error_text :: "linear_error \<Rightarrow> string" where
  "linear_error_text (LinearClientError c m cause) = m"
| "linear_error_text (LinearOther m) = m"

definition unknown_payload :: "string \<Rightarrow> linear_error" where
  "unknown_payload m = LinearClientError LinUnknownPayload m None"

definition elements :: "json option \<Rightarrow> json list" where
  "elements v = (case v of Some (JArr xs) \<Rightarrow> xs | _ \<Rightarrow> [])"

definition is_true :: "json option \<Rightarrow> bool" where
  "is_true v \<longleftrightarrow> v = Some (JBool True)"

definition first_of :: "json list \<Rightarrow> json option" where
  "first_of xs = (case xs of [] \<Rightarrow> None | x # _ \<Rightarrow> Some x)"

section \<open>issue-parser.ts\<close>

definition normalizeLabels :: "json option \<Rightarrow> string list" where
  "normalizeLabels raw = map js_lower (List.map_filter (\<lambda>item. asString (member (Some item) ''name'')) (elements raw))"

definition normalizeBlockers :: "json option \<Rightarrow> string \<Rightarrow> issue_blocker_ref list" where
  "normalizeBlockers raw issueId =
     map (\<lambda>item.
            let related = member (Some item) ''relatedIssue''; own = member (Some item) ''issue'';
                blocker = (if asString (member own ''id'') = Some issueId \<and> asRecord related \<noteq> [] then related else own)
            in \<lparr>blk_id = asString (member blocker ''id''), blk_identifier = asString (member blocker ''identifier''),
                blk_state = asString (member (member blocker ''state'') ''name'')\<rparr>)
       (elements raw)"

definition normalizeIssue :: "json \<Rightarrow> issue" where
  "normalizeIssue raw =
     (let f = (\<lambda>k. member (Some raw) k)
      in \<lparr>issue_id = coalesce (asString (f ''id'')) [], issue_identifier = coalesce (asString (f ''identifier'')) [],
          issue_title = coalesce (asString (f ''title'')) [], issue_description = asString (f ''description''),
          issue_priority = asNumber (f ''priority''),
          issue_state = coalesce (asString (member (f ''state'') ''name'')) ''unknown'',
          issue_branchName = asString (f ''branchName''), issue_url = asString (f ''url''),
          issue_labels = normalizeLabels (member (f ''labels'') ''nodes''),
          issue_blockedBy = normalizeBlockers (member (f ''inverseRelations'') ''nodes'') (coalesce (asString (f ''id'')) []),
          issue_createdAt = asString (f ''createdAt''), issue_updatedAt = asString (f ''updatedAt'')\<rparr>)"

section \<open>Requests\<close>

text \<open>A failure of \<open>fetch\<close>, or a response: its status, \<open>ok\<close>, its text and its body as JSON, if it is JSON.\<close>

datatype http_reply = NetworkFailure string | HttpReply int bool string "json option"

type_synonym gql_variables = "(string \<times> json) list"

record 'w linear_env =
  le_tracker :: tracker_section
  le_fetch :: "string \<Rightarrow> string \<Rightarrow> string \<Rightarrow> gql_variables option \<Rightarrow> 'w \<Rightarrow> http_reply \<times> 'w"
  le_pause :: "nat \<Rightarrow> 'w \<Rightarrow> 'w"

type_synonym ('a, 'w) lin = "(linear_error, 'a, 'w) eio"

definition requestGraphQL :: "'w linear_env \<Rightarrow> string \<Rightarrow> gql_variables option \<Rightarrow> (json, 'w) lin" where
  "requestGraphQL e query variables w =
     (case le_fetch e (ts_endpoint (le_tracker e)) (ts_apiKey (le_tracker e)) query variables w of
        (NetworkFailure m, w1) \<Rightarrow>
          (Inl (LinearClientError LinTransport ''linear graphql request failed during transport'' (Some m)), w1)
      | (HttpReply status ok body parsed, w1) \<Rightarrow>
          if \<not> ok then (Inl (LinearClientError LinHttp (''Linear API returned '' @ show_int status @ '': '' @ body) None), w1)
          else (case parsed of
                  None \<Rightarrow> (Inl (unknown_payload ''linear graphql response body is not valid json''), w1)
                | Some v \<Rightarrow> (Inr v, w1)))"

text \<open>\<open>typeof x === "object" && x !== null\<close>.\<close>

definition object_value :: "json option \<Rightarrow> bool" where
  "object_value v = (case v of Some (JObj _) \<Rightarrow> True | Some (JArr _) \<Rightarrow> True | _ \<Rightarrow> False)"

definition check_payload :: "json \<Rightarrow> linear_error + json" where
  "check_payload payload =
     (if payload = JNull then Inl (LinearOther ''Cannot read properties of null'')
      else if elements (member (Some payload) ''errors'') \<noteq> []
      then Inl (LinearClientError LinGraphql ''linear graphql response contained errors'' None)
      else if \<not> object_value (member (Some payload) ''data'')
      then Inl (unknown_payload ''linear graphql response missing data object'')
      else Inr payload)"

definition runGraphQL :: "'w linear_env \<Rightarrow> string \<Rightarrow> gql_variables option \<Rightarrow> (json, 'w) lin" where
  "runGraphQL e query variables =
     io_bind (requestGraphQL e query variables) (\<lambda>payload w. (check_payload payload, w))"

definition data_of :: "json \<Rightarrow> string \<Rightarrow> json option" where
  "data_of payload k = member (member (Some payload) ''data'') k"

definition nodes_of :: "json \<Rightarrow> string \<Rightarrow> json list" where
  "nodes_of payload k = elements (member (data_of payload k) ''nodes'')"

section \<open>issue-pagination.ts\<close>

record issues_connection =
  ic_nodes :: "json list"
  ic_hasNextPage :: bool
  ic_endCursor :: "string option"

definition extractIssuesConnection :: "json \<Rightarrow> linear_error + issues_connection" where
  "extractIssuesConnection payload =
     (case data_of payload ''issues'' of
        Some (JObj issues) \<Rightarrow>
          (case omap_get issues ''nodes'' of
             Some (JArr nodes) \<Rightarrow>
               (case omap_get issues ''pageInfo'' of
                  Some (JObj pageInfo) \<Rightarrow>
                    (case omap_get pageInfo ''hasNextPage'' of
                       Some (JBool hasNextPage) \<Rightarrow>
                         (case omap_get pageInfo ''endCursor'' of
                            Some (JStr c) \<Rightarrow> Inr \<lparr>ic_nodes = nodes, ic_hasNextPage = hasNextPage, ic_endCursor = Some c\<rparr>
                          | Some JNull \<Rightarrow> Inr \<lparr>ic_nodes = nodes, ic_hasNextPage = hasNextPage, ic_endCursor = None\<rparr>
                          | _ \<Rightarrow> Inl (unknown_payload ''linear graphql response has invalid pageInfo.endCursor''))
                     | _ \<Rightarrow> Inl (unknown_payload ''linear graphql response missing boolean pageInfo.hasNextPage''))
                | _ \<Rightarrow> Inl (unknown_payload ''linear graphql response missing pageInfo object''))
           | _ \<Rightarrow> Inl (unknown_payload ''linear graphql response missing issues.nodes array''))
      | _ \<Rightarrow> Inl (unknown_payload ''linear graphql response missing issues connection''))"

definition ensurePaginationCursor :: "issues_connection \<Rightarrow> nat \<Rightarrow> linear_error option" where
  "ensurePaginationCursor c issueCount =
     (if ic_hasNextPage c \<and> truthy_string (ic_endCursor c) = None
      then Some (LinearClientError LinMissingEndCursor
             (''pagination returned hasNextPage=true with null endCursor after '' @ show_nat issueCount @ '' issues'') None)
      else None)"

text \<open>The query of one page: what it is asked with and what comes back.\<close>

type_synonym 'w page_query = "string option \<Rightarrow> (json, 'w) lin"

text \<open>The loop ends when the server says so, so it may run forever; \<open>None\<close> is a run that does not end.\<close>

partial_function (option) paginate ::
  "'w page_query \<Rightarrow> issue list \<Rightarrow> string option \<Rightarrow> 'w \<Rightarrow> ((linear_error + issue list) \<times> 'w) option" where
  "paginate run issues after w =
     (case run after w of
        (Inl err, w1) \<Rightarrow> Some (Inl err, w1)
      | (Inr payload, w1) \<Rightarrow>
          (case extractIssuesConnection payload of
             Inl err \<Rightarrow> Some (Inl err, w1)
           | Inr c \<Rightarrow>
               (case ensurePaginationCursor c (length issues + length (ic_nodes c)) of
                  Some err \<Rightarrow> Some (Inl err, w1)
                | None \<Rightarrow>
                    if ic_hasNextPage c then paginate run (issues @ map normalizeIssue (ic_nodes c)) (ic_endCursor c) w1
                    else Some (Inr (issues @ map normalizeIssue (ic_nodes c)), w1))))"

text \<open>Operations that may fail or not end.\<close>

type_synonym ('a, 'w) pio = "'w \<Rightarrow> ((linear_error + 'a) \<times> 'w) option"

definition pio_lift :: "('a, 'w) lin \<Rightarrow> ('a, 'w) pio" where
  "pio_lift m w = Some (m w)"

definition pio_bind :: "('a, 'w) pio \<Rightarrow> ('a \<Rightarrow> ('b, 'w) pio) \<Rightarrow> ('b, 'w) pio" where
  "pio_bind m f w =
     (case m w of
        None \<Rightarrow> None
      | Some (Inl err, w1) \<Rightarrow> Some (Inl err, w1)
      | Some (Inr a, w1) \<Rightarrow> f a w1)"

definition paginateQuery :: "(gql_variables \<Rightarrow> (json, 'w) lin) \<Rightarrow> gql_variables \<Rightarrow> (issue list, 'w) pio" where
  "paginateQuery run base = paginate (\<lambda>after. run (base @ [(''after'', jopt JStr after)])) [] None"

definition strings :: "string list \<Rightarrow> json" where
  "strings xs = JArr (map JStr xs)"

definition slug_of :: "tracker_section \<Rightarrow> string option" where
  "slug_of t = truthy_string (ts_projectSlug t)"

definition buildCandidateIssueVariables :: "tracker_section \<Rightarrow> string \<Rightarrow> string list \<Rightarrow> gql_variables" where
  "buildCandidateIssueVariables t key values =
     (key, strings values) # (case slug_of t of Some s \<Rightarrow> [(''projectSlug'', JStr s)] | None \<Rightarrow> [])"

definition fetch_candidates_with ::
  "tracker_section \<Rightarrow> string list \<Rightarrow> (string \<Rightarrow> gql_variables \<Rightarrow> (json, 'w) lin) \<Rightarrow> (bool \<Rightarrow> string) \<Rightarrow> (issue list, 'w) pio" where
  "fetch_candidates_with t activeStates run build =
     paginateQuery (run (build (slug_of t \<noteq> None)))
       (buildCandidateIssueVariables t ''activeStates'' (activeStates @ ts_terminalStates t))"

fun chunks :: "nat \<Rightarrow> 'a list \<Rightarrow> 'a list list" where
  "chunks n xs = (if xs = [] \<or> n = 0 then [] else take n xs # chunks n (drop n xs))"

declare chunks.simps [simp del]

fun fetch_chunks :: "(string list \<Rightarrow> (issue list, 'w) pio) \<Rightarrow> string list list \<Rightarrow> (issue list, 'w) pio" where
  "fetch_chunks f [] = pio_lift (io_return [])"
| "fetch_chunks f (c # cs) = pio_bind (f c) (\<lambda>issues. pio_bind (fetch_chunks f cs) (\<lambda>rest. pio_lift (io_return (issues @ rest))))"

definition fetchIssueStatesByIds :: "'w linear_env \<Rightarrow> string list \<Rightarrow> (issue list, 'w) pio" where
  "fetchIssueStatesByIds e ids =
     fetch_chunks (\<lambda>chunk. paginateQuery (\<lambda>v. runGraphQL e buildIssuesByIdsQuery (Some v)) [(''ids'', strings chunk)])
       (chunks PAGE_SIZE ids)"

definition fetchIssuesByStates :: "'w linear_env \<Rightarrow> string list \<Rightarrow> (issue list, 'w) pio" where
  "fetchIssuesByStates e states =
     (if states = [] then pio_lift (io_return [])
      else paginateQuery (\<lambda>v. runGraphQL e buildIssuesByStatesQuery (Some v)) [(''states'', strings states)])"

section \<open>client.ts: projects and states\<close>

definition gql :: "'w linear_env \<Rightarrow> string \<Rightarrow> gql_variables \<Rightarrow> (json, 'w) lin" where
  "gql e query variables = runGraphQL e query (Some variables)"

definition first_id :: "json option \<Rightarrow> string \<Rightarrow> string option" where
  "first_id v k = asString (member (first_of (elements (member (member v k) ''nodes''))) ''id'')"

definition resolveProjectContext :: "'w linear_env \<Rightarrow> (string option \<times> string option, 'w) lin" where
  "resolveProjectContext e =
     (case slug_of (le_tracker e) of
        None \<Rightarrow> io_throw (unknown_payload ''tracker.projectSlug is required to create Linear issues'')
      | Some slug \<Rightarrow>
          io_bind (gql e buildProjectLookupQuery [(''projectSlug'', JStr slug)])
            (\<lambda>payload. let project = first_of (nodes_of payload ''projects'')
                        in io_return (asString (member project ''id''), first_id project ''teams'')))"

definition resolveRequiredProjectContext :: "'w linear_env \<Rightarrow> (string \<times> string option, 'w) lin" where
  "resolveRequiredProjectContext e =
     (case slug_of (le_tracker e) of
        None \<Rightarrow> io_throw (LinearOther ''No Linear project selected'')
      | Some slug \<Rightarrow>
          io_bind (gql e buildProjectLookupQuery [(''projectSlug'', JStr slug)])
            (\<lambda>payload. let project = first_of (nodes_of payload ''projects'')
                        in case truthy_string (asString (member project ''id'')) of
                             None \<Rightarrow> io_throw (LinearOther (''Project '' @ js_quote slug @ '' not found''))
                           | Some projectId \<Rightarrow> io_return (projectId, first_id project ''teams'')))"

definition resolveWorkflowTeamId :: "'w linear_env \<Rightarrow> (string option, 'w) lin" where
  "resolveWorkflowTeamId e =
     (if slug_of (le_tracker e) = None then io_return None
      else io_bind (resolveProjectContext e) (\<lambda>p. io_return (snd p)))"

definition state_name :: "json \<Rightarrow> string option" where
  "state_name node = map_option (\<lambda>n. js_lower (js_trim n)) (asString (member (Some node) ''name''))"

definition node_id :: "json \<Rightarrow> string option" where
  "node_id node = truthy_string (asString (member (Some node) ''id''))"

definition find_state :: "json list \<Rightarrow> string \<Rightarrow> string option" where
  "find_state nodes target =
     (case filter (\<lambda>n. node_id n \<noteq> None \<and> state_name n = Some (js_lower (js_trim target))) nodes of
        [] \<Rightarrow> None | n # _ \<Rightarrow> node_id n)"

definition workflow_states :: "'w linear_env \<Rightarrow> string option \<Rightarrow> (json list, 'w) lin" where
  "workflow_states e teamId =
     io_bind (gql e (buildWorkflowStateLookupQuery (truthy_string teamId \<noteq> None))
         (case truthy_string teamId of Some t \<Rightarrow> [(''teamId'', JStr t)] | None \<Rightarrow> []))
       (\<lambda>payload. io_return (nodes_of payload ''workflowStates''))"

definition resolveStateId :: "'w linear_env \<Rightarrow> string \<Rightarrow> (string option, 'w) lin" where
  "resolveStateId e stateName =
     io_bind (resolveWorkflowTeamId e)
       (\<lambda>teamId. io_bind (workflow_states e teamId) (\<lambda>nodes. io_return (find_state nodes stateName)))"

text \<open>The map from state names to ids: in the order of the nodes, without nodes that lack an id or a name.\<close>

definition ids_by_name :: "json list \<Rightarrow> string \<Rightarrow> string list" where
  "ids_by_name nodes name =
     List.map_filter (\<lambda>n. if state_name n = Some name \<and> name \<noteq> [] then node_id n else None) nodes"

definition unique_first :: "'a list \<Rightarrow> 'a list" where
  "unique_first xs = rev (remdups (rev xs))"

definition resolved_state_ids :: "json list \<Rightarrow> string list \<Rightarrow> string list" where
  "resolved_state_ids nodes activeStates =
     unique_first (concat (map (\<lambda>s. ids_by_name nodes (js_lower (js_trim s))) activeStates))"

definition resolveWorkflowStateIds :: "'w linear_env \<Rightarrow> (string list, 'w) lin" where
  "resolveWorkflowStateIds e =
     io_bind (resolveWorkflowTeamId e)
       (\<lambda>teamId. io_bind (workflow_states e teamId)
          (\<lambda>nodes. io_return (resolved_state_ids nodes (ts_activeStates (le_tracker e)))))"

definition resolveTeamStateId :: "'w linear_env \<Rightarrow> string option \<Rightarrow> string \<Rightarrow> (string option, 'w) lin" where
  "resolveTeamStateId e teamId stateName =
     (case truthy_string teamId of
        None \<Rightarrow> io_return None
      | Some t \<Rightarrow>
          io_bind (gql e buildTeamStatesQuery [(''teamId'', JStr t)])
            (\<lambda>payload. io_return (find_state (elements (member (member (data_of payload ''team'') ''states'') ''nodes'')) stateName)))"

definition resolveRequiredTeamStateId :: "'w linear_env \<Rightarrow> string \<Rightarrow> string \<Rightarrow> (string, 'w) lin" where
  "resolveRequiredTeamStateId e teamId stateName =
     io_bind (resolveTeamStateId e (Some teamId) stateName)
       (\<lambda>found. case truthy_string found of
          None \<Rightarrow> io_throw (LinearOther (''No '' @ js_quote stateName @ '' state found for the team''))
        | Some i \<Rightarrow> io_return i)"

section \<open>client.ts: candidates\<close>

definition without_activeStates :: "gql_variables \<Rightarrow> gql_variables" where
  "without_activeStates v = filter (\<lambda>(k, _). k \<noteq> ''activeStates'') v"

definition fetchCandidateIssuesByStateIds :: "'w linear_env \<Rightarrow> string list \<Rightarrow> (issue list, 'w) pio" where
  "fetchCandidateIssuesByStateIds e stateIds =
     fetch_candidates_with (le_tracker e) stateIds
       (\<lambda>query v. gql e query (without_activeStates v @ [(''stateIds'', strings stateIds)])) buildCandidateIssuesByStateIdsQuery"

definition fetchCandidateIssues :: "'w linear_env \<Rightarrow> (issue list, 'w) pio" where
  "fetchCandidateIssues e =
     pio_bind (fetch_candidates_with (le_tracker e) (ts_activeStates (le_tracker e)) (gql e) buildCandidateIssuesQuery)
       (\<lambda>issues. if issues \<noteq> [] then pio_lift (io_return issues)
          else pio_bind (pio_lift (resolveWorkflowStateIds e))
                 (\<lambda>stateIds. if stateIds = [] then pio_lift (io_return []) else fetchCandidateIssuesByStateIds e stateIds))"

section \<open>client.ts: writes\<close>

definition retried :: "'w linear_env \<Rightarrow> (json, 'w) lin \<Rightarrow> (json, 'w) lin" where
  "retried e m = withRetryReturn (LinearOther ''exhausted retries without result'') (le_pause e) 3 m"

definition swallowed :: "'w linear_env \<Rightarrow> (json, 'w) lin \<Rightarrow> (unit, 'w) lin" where
  "swallowed e m = withRetry (le_pause e) 3 (io_bind m (\<lambda>_. io_return ()))"

definition updateIssueState :: "'w linear_env \<Rightarrow> string \<Rightarrow> string \<Rightarrow> (unit, 'w) lin" where
  "updateIssueState e issueId stateId =
     swallowed e (gql e buildIssueTransitionMutation [(''issueId'', JStr issueId), (''stateId'', JStr stateId)])"

definition assertIssueTransitionSucceeded :: "json \<Rightarrow> (unit, 'w) lin" where
  "assertIssueTransitionSucceeded payload =
     (if is_true (member (data_of payload ''issueUpdate'') ''success'') then io_return ()
      else io_throw (unknown_payload ''linear issue transition was not confirmed''))"

definition updateIssueStateStrict :: "'w linear_env \<Rightarrow> string \<Rightarrow> string \<Rightarrow> (unit, 'w) lin" where
  "updateIssueStateStrict e issueId stateId =
     io_bind (retried e (gql e buildIssueTransitionMutation [(''issueId'', JStr issueId), (''stateId'', JStr stateId)]))
       assertIssueTransitionSucceeded"

definition createComment :: "'w linear_env \<Rightarrow> string \<Rightarrow> string \<Rightarrow> (unit, 'w) lin" where
  "createComment e issueId body =
     swallowed e (gql e buildIssueCommentMutation [(''issueId'', JStr issueId), (''body'', JStr body)])"

definition createIssue ::
  "'w linear_env \<Rightarrow> string \<Rightarrow> string option \<Rightarrow> string option \<Rightarrow> (string \<times> string \<times> string option, 'w) lin" where
  "createIssue e title description stateName =
     io_bind (resolveProjectContext e)
       (\<lambda>(projectId, team). case truthy_string team of
          None \<Rightarrow> io_throw (unknown_payload ''project team could not be resolved for issue creation'')
        | Some teamId \<Rightarrow>
            io_bind (case truthy_string stateName of
                Some s \<Rightarrow> resolveTeamStateId e (Some teamId) s | None \<Rightarrow> io_return None)
              (\<lambda>stateId. io_bind (retried e (gql e buildCreateIssueMutation
                    [(''teamId'', JStr teamId), (''projectId'', jopt JStr projectId), (''title'', JStr title),
                     (''description'', jopt JStr description), (''stateId'', jopt JStr stateId)]))
                 (\<lambda>payload.
                    let created = data_of payload ''issueCreate''; issue = member created ''issue''
                    in case (truthy_string (asString (member issue ''id'')), truthy_string (asString (member issue ''identifier''))) of
                         (Some i, Some identifier) \<Rightarrow>
                           if is_true (member created ''success'') then io_return (i, identifier, asString (member issue ''url''))
                           else io_throw (unknown_payload ''linear issue creation was not confirmed'')
                       | _ \<Rightarrow> io_throw (unknown_payload ''linear issue creation was not confirmed''))))"

section \<open>client.ts: webhooks\<close>

record linear_webhook =
  lw_id :: string
  lw_url :: string
  lw_enabled :: bool
  lw_label :: "string option"
  lw_secret :: "string option"
  lw_resourceTypes :: "string list"
  lw_teamIds :: "string list"

definition listWebhooks :: "'w linear_env \<Rightarrow> (linear_webhook list, 'w) lin" where
  "listWebhooks e =
     io_bind (runGraphQL e buildWebhooksQuery None)
       (\<lambda>payload. io_return (map
          (\<lambda>n. let f = member (Some n)
               in \<lparr>lw_id = coalesce (asString (f ''id'')) [], lw_url = coalesce (asString (f ''url'')) [],
                   lw_enabled = is_true (f ''enabled''), lw_label = asString (f ''label''), lw_secret = asString (f ''secret''),
                   lw_resourceTypes = map js_string (elements (f ''resourceTypes'')),
                   lw_teamIds = map js_string (elements (f ''teamIds''))\<rparr>)
          (nodes_of payload ''webhooks'')))"

definition createWebhook ::
  "'w linear_env \<Rightarrow> string \<Rightarrow> string list option \<Rightarrow> string list \<Rightarrow> string option \<Rightarrow> string option \<Rightarrow>
     (string \<times> string option, 'w) lin" where
  "createWebhook e url teamIds resourceTypes label secret =
     io_bind (retried e (gql e buildWebhookCreateMutation
         [(''url'', JStr url), (''teamIds'', jopt strings teamIds), (''resourceTypes'', strings resourceTypes),
          (''label'', jopt JStr label), (''secret'', jopt JStr secret)]))
       (\<lambda>payload. let webhook = member (data_of payload ''webhookCreate'') ''webhook''
                   in io_return (coalesce (asString (member webhook ''id'')) [], asString (member webhook ''secret'')))"

definition updateWebhook :: "'w linear_env \<Rightarrow> string \<Rightarrow> gql_variables \<Rightarrow> (unit, 'w) lin" where
  "updateWebhook e i input = swallowed e (gql e buildWebhookUpdateMutation ((''id'', JStr i) # input))"

definition deleteWebhook :: "'w linear_env \<Rightarrow> string \<Rightarrow> (unit, 'w) lin" where
  "deleteWebhook e i = swallowed e (gql e buildWebhookDeleteMutation [(''id'', JStr i)])"

section \<open>client.ts: setup\<close>

record linear_project_option =
  lpo_id :: "json option"
  lpo_name :: "json option"
  lpo_slugId :: "json option"
  lpo_teamKey :: "string option"

definition listProjects :: "'w linear_env \<Rightarrow> (linear_project_option list, 'w) lin" where
  "listProjects e =
     io_bind (gql e listProjectsQuery [])
       (\<lambda>payload. io_return (map
          (\<lambda>n. \<lparr>lpo_id = member (Some n) ''id'', lpo_name = member (Some n) ''name'', lpo_slugId = member (Some n) ''slugId'',
                lpo_teamKey = asString (member (first_of (elements (member (member (Some n) ''teams'') ''nodes''))) ''key'')\<rparr>)
          (nodes_of payload ''projects'')))"

definition readTeams :: "'w linear_env \<Rightarrow> ((string \<times> string) list, 'w) lin" where
  "readTeams e =
     io_bind (gql e buildTeamsQuery [])
       (\<lambda>payload. io_return (filter (\<lambda>(i, k). i \<noteq> [] \<and> k \<noteq> [])
          (map (\<lambda>t. (coalesce (asString (member (Some t) ''id'')) [], coalesce (asString (member (Some t) ''key'')) []))
             (nodes_of payload ''teams''))))"

record linear_project_record =
  lpr_id :: "string option"
  lpr_name :: "string option"
  lpr_slugId :: string
  lpr_url :: "string option"
  lpr_teamKey :: string

definition createProject :: "'w linear_env \<Rightarrow> string \<Rightarrow> (linear_project_record, 'w) lin" where
  "createProject e name =
     io_bind (readTeams e)
       (\<lambda>teams. case teams of
          [] \<Rightarrow> io_throw (LinearOther ''No teams found in your Linear workspace'')
        | (teamId, teamKey) # _ \<Rightarrow>
            io_bind (gql e buildCreateProjectMutation [(''name'', JStr name), (''teamIds'', strings [teamId])])
              (\<lambda>payload.
                 let result = data_of payload ''projectCreate''; project = member result ''project''
                 in case truthy_string (asString (member project ''slugId'')) of
                      Some slugId \<Rightarrow>
                        if is_true (member result ''success'')
                        then io_return \<lparr>lpr_id = asString (member project ''id''), lpr_name = asString (member project ''name''),
                               lpr_slugId = slugId, lpr_url = asString (member project ''url''),
                               lpr_teamKey = coalesce (asString (member (first_of (elements (member (member project ''teams'') ''nodes''))) ''key'')) teamKey\<rparr>
                        else io_throw (LinearOther ''Linear did not confirm project creation'')
                    | None \<Rightarrow> io_throw (LinearOther ''Linear did not confirm project creation'')))"

definition required_team :: "string option \<Rightarrow> (string, 'w) lin" where
  "required_team team =
     (case truthy_string team of
        None \<Rightarrow> io_throw (LinearOther ''No team found for the selected project'')
      | Some t \<Rightarrow> io_return t)"

definition createSetupTestIssue :: "'w linear_env \<Rightarrow> (string \<times> string, 'w) lin" where
  "createSetupTestIssue e =
     io_bind (resolveRequiredProjectContext e)
       (\<lambda>(projectId, team). io_bind (required_team team)
          (\<lambda>teamId. io_bind (resolveRequiredTeamStateId e teamId ''In Progress'')
             (\<lambda>stateId. io_bind (gql e buildCreateIssueMutation
                  [(''teamId'', JStr teamId), (''projectId'', JStr projectId), (''title'', JStr ''Risoluto smoke test''),
                   (''description'', JStr (''This issue was created automatically to verify your Risoluto setup. '' @
                      ''Risoluto should pick it up within one poll cycle and run a sandboxed agent.'')),
                   (''stateId'', JStr stateId)])
                (\<lambda>payload.
                   let result = data_of payload ''issueCreate''; issue = member result ''issue''
                   in case (truthy_string (asString (member issue ''identifier'')), truthy_string (asString (member issue ''url''))) of
                        (Some identifier, Some url) \<Rightarrow>
                          if is_true (member result ''success'') then io_return (identifier, url)
                          else io_throw (LinearOther ''Linear did not confirm issue creation'')
                      | _ \<Rightarrow> io_throw (LinearOther ''Linear did not confirm issue creation'')))))"

definition graphQLErrorMessages :: "json option \<Rightarrow> linear_error + string list" where
  "graphQLErrorMessages errors =
     (case non_null errors of
        None \<Rightarrow> Inr []
      | Some (JArr es) \<Rightarrow> Inr (map (\<lambda>er. coalesce (asString (member (Some er) ''message'')) ''Linear GraphQL error'') es)
      | Some _ \<Rightarrow> Inl (LinearOther ''map is not a function''))"

definition label_created :: "json \<Rightarrow> (string \<times> string \<times> bool, 'w) lin" where
  "label_created payload =
     (let result = data_of payload ''issueLabelCreate''; label = member result ''issueLabel''
      in case (truthy_string (asString (member label ''id'')), truthy_string (asString (member label ''name''))) of
           (Some i, Some n) \<Rightarrow>
             if is_true (member result ''success'') then io_return (i, n, False)
             else io_throw (LinearOther ''Linear did not confirm label creation'')
         | _ \<Rightarrow> io_throw (LinearOther ''Linear did not confirm label creation''))"

definition ensureRisolutoLabel :: "'w linear_env \<Rightarrow> (string \<times> string \<times> bool, 'w) lin" where
  "ensureRisolutoLabel e =
     io_bind (resolveRequiredProjectContext e)
       (\<lambda>(_, team). io_bind (required_team team)
          (\<lambda>teamId. io_bind (requestGraphQL e buildCreateLabelMutation
               (Some [(''teamId'', JStr teamId), (''name'', JStr ''risoluto''), (''color'', JStr ''#2563eb'')]))
             (\<lambda>payload.
                if payload = JNull then io_throw (LinearOther ''Cannot read properties of null'')
                else case graphQLErrorMessages (member (Some payload) ''errors'') of
                       Inl err \<Rightarrow> io_throw err
                     | Inr messages \<Rightarrow>
                         if list_ex (\<lambda>m. str_includes (js_lower m) ''duplicate'') messages then io_return ([], ''risoluto'', True)
                         else if messages \<noteq> []
                         then io_throw (LinearClientError LinGraphql ''linear graphql response contained errors'' None)
                         else label_created payload)))"

section \<open>client.ts: attachments and lookups\<close>

record linear_issue_lookup =
  ll_id :: string
  ll_identifier :: "string option"
  ll_title :: "string option"
  ll_stateName :: "string option"

record linear_attachment =
  la_id :: string
  la_title :: "string option"
  la_subtitle :: "string option"
  la_url :: string
  la_issue :: "linear_issue_lookup option"

definition issue_lookup :: "json option \<Rightarrow> string \<Rightarrow> linear_issue_lookup" where
  "issue_lookup v i =
     \<lparr>ll_id = i, ll_identifier = asString (member v ''identifier''), ll_title = asString (member v ''title''),
      ll_stateName = asString (member (member v ''state'') ''name'')\<rparr>"

definition findAttachmentsForUrl :: "'w linear_env \<Rightarrow> string \<Rightarrow> (linear_attachment list, 'w) lin" where
  "findAttachmentsForUrl e url =
     io_bind (gql e buildAttachmentsForUrlQuery [(''url'', JStr url)])
       (\<lambda>payload. io_return (map
          (\<lambda>n. let f = member (Some n)
               in \<lparr>la_id = coalesce (asString (f ''id'')) [], la_title = asString (f ''title''), la_subtitle = asString (f ''subtitle''),
                   la_url = coalesce (asString (f ''url'')) url,
                   la_issue = (if object_value (f ''issue'')
                     then Some (issue_lookup (f ''issue'') (coalesce (asString (member (f ''issue'') ''id'')) [])) else None)\<rparr>)
          (nodes_of payload ''attachmentsForURL'')))"

definition createAttachment ::
  "'w linear_env \<Rightarrow> string \<Rightarrow> string \<Rightarrow> string option \<Rightarrow> string \<Rightarrow> string option \<Rightarrow> (string \<times> string, 'w) lin" where
  "createAttachment e issueId title subtitle url iconUrl =
     io_bind (retried e (gql e buildAttachmentCreateMutation
         [(''issueId'', JStr issueId), (''title'', JStr title), (''subtitle'', jopt JStr subtitle), (''url'', JStr url),
          (''iconUrl'', jopt JStr iconUrl)]))
       (\<lambda>payload.
          let created = data_of payload ''attachmentCreate''; attachment = member created ''attachment''
          in case truthy_string (asString (member attachment ''id'')) of
               Some i \<Rightarrow>
                 if is_true (member created ''success'') then io_return (i, coalesce (asString (member attachment ''url'')) url)
                 else io_throw (unknown_payload ''linear attachment creation was not confirmed'')
             | None \<Rightarrow> io_throw (unknown_payload ''linear attachment creation was not confirmed''))"

definition updateAttachment :: "'w linear_env \<Rightarrow> string \<Rightarrow> string option \<Rightarrow> string option \<Rightarrow> string option \<Rightarrow> (unit, 'w) lin" where
  "updateAttachment e i title subtitle iconUrl =
     swallowed e (gql e buildAttachmentUpdateMutation
       [(''id'', JStr i), (''title'', jopt JStr title), (''subtitle'', jopt JStr subtitle), (''iconUrl'', jopt JStr iconUrl)])"

definition getIssueById :: "'w linear_env \<Rightarrow> string \<Rightarrow> (linear_issue_lookup option, 'w) lin" where
  "getIssueById e i =
     io_bind (gql e buildIssueByIdQuery [(''id'', JStr i)])
       (\<lambda>payload. let issue = data_of payload ''issue''
                   in io_return (map_option (issue_lookup issue) (truthy_string (asString (member issue ''id'')))))"

end
