(* ===== verification/LinearClaims.thy ===== *)
theory LinearClaims
  imports LinearClient Dispatch
begin

text \<open>What the Linear client promises about pages, states and transitions, and where it fails.\<close>

declare io_simps [simp]

section \<open>Pages\<close>

text \<open>The server \<open>serve\<close> gives the connections \<open>cs\<close> when its cursors are followed, and then no further page.\<close>

fun page_chain :: "(string option \<Rightarrow> json) \<Rightarrow> string option \<Rightarrow> issues_connection list \<Rightarrow> bool" where
  "page_chain serve after [] = False"
| "page_chain serve after [c] = (extractIssuesConnection (serve after) = Inr c \<and> \<not> ic_hasNextPage c)"
| "page_chain serve after (c # d # cs) =
     (extractIssuesConnection (serve after) = Inr c \<and> ic_hasNextPage c \<and> truthy_string (ic_endCursor c) \<noteq> None \<and>
      page_chain serve (ic_endCursor c) (d # cs))"

text \<open>
  C26: Pagination ends when the pages do, with one request for each page, and gives the issues of all pages in order.
\<close>

theorem pagination_complete:
  assumes "page_chain serve after cs"
  shows "paginate (\<lambda>a w. (Inr (serve a), w + 1)) issues after w =
    Some (Inr (issues @ map normalizeIssue (concat (map ic_nodes cs))), w + length cs)"
  using assms
proof (induction serve after cs arbitrary: issues w rule: page_chain.induct)
  case (2 serve after c)
  then show ?case by (subst paginate.simps) (simp add: ensurePaginationCursor_def)
next
  case (3 serve after c d cs)
  then have c: "extractIssuesConnection (serve after) = Inr c" "ic_hasNextPage c" "truthy_string (ic_endCursor c) \<noteq> None"
    "page_chain serve (ic_endCursor c) (d # cs)" by simp_all
  show ?case
    using "3.IH" [OF c(4), of "issues @ map normalizeIssue (ic_nodes c)" "w + 1"]
    by (subst paginate.simps) (simp add: c(1,2) ensurePaginationCursor_def c(3))
qed simp

definition page :: "string \<Rightarrow> bool \<Rightarrow> json \<Rightarrow> json" where
  "page i again cursor =
     JObj [(''data'', JObj [(''issues'', JObj [(''nodes'', JArr [JObj [(''id'', JStr i)]]),
       (''pageInfo'', JObj [(''hasNextPage'', JBool again), (''endCursor'', cursor)])])])]"

definition two_pages :: "string option \<Rightarrow> json" where
  "two_pages after = (if after = None then page ''a'' True (JStr ''c'') else page ''b'' False JNull)"

lemma extract_page: "extractIssuesConnection (page i again c) =
    (case c of JStr t \<Rightarrow> Inr \<lparr>ic_nodes = [JObj [(''id'', JStr i)]], ic_hasNextPage = again, ic_endCursor = Some t\<rparr>
     | JNull \<Rightarrow> Inr \<lparr>ic_nodes = [JObj [(''id'', JStr i)]], ic_hasNextPage = again, ic_endCursor = None\<rparr>
     | _ \<Rightarrow> Inl (unknown_payload ''linear graphql response has invalid pageInfo.endCursor''))"
  by (simp add: extractIssuesConnection_def page_def data_of_def member_def asRecord_def omap_get_def split: json.split)

theorem pagination_complete_witness:
  "\<exists>issues. paginate (\<lambda>a w. (Inr (two_pages a), w + 1)) [] None (0::nat) = Some (Inr issues, 2) \<and> map issue_id issues = [''a'', ''b'']"
proof -
  let ?cs = "[\<lparr>ic_nodes = [JObj [(''id'', JStr ''a'')]], ic_hasNextPage = True, ic_endCursor = Some ''c''\<rparr>,
    \<lparr>ic_nodes = [JObj [(''id'', JStr ''b'')]], ic_hasNextPage = False, ic_endCursor = None\<rparr>]"
  have "page_chain two_pages None ?cs" by (simp add: two_pages_def extract_page truthy_string_def)
  from pagination_complete [OF this, of "[]" "0::nat"] show ?thesis
    by (simp add: normalizeIssue_def Let_def member_def asRecord_def omap_get_def asString_def eval_nat_numeral)
qed

text \<open>
  Nothing notices a cursor that does not advance: a server that always announces another page with the same cursor is
  asked for ever, and the list of issues grows without end.
\<close>

theorem repeated_cursor_never_ends:
  assumes "\<And>a. extractIssuesConnection (serve a) = Inr c" "ic_hasNextPage c" "truthy_string (ic_endCursor c) \<noteq> None"
  shows "paginate (\<lambda>a w. (Inr (serve a), w + 1)) issues after (w :: nat) = None"
proof (rule ccontr)
  assume "paginate (\<lambda>a w. (Inr (serve a), w + 1)) issues after w \<noteq> None"
  then obtain y where y: "paginate (\<lambda>a w. (Inr (serve a), w + 1)) issues after w = Some y" by auto
  have "run = (\<lambda>a w. (Inr (serve a), w + 1)) \<longrightarrow> False" if "paginate run issues after w = Some y" for run issues after and w :: nat and y
    using that
    by (rule paginate.raw_induct [where P = "\<lambda>run issues after w y. run = (\<lambda>a w. (Inr (serve a), w + 1)) \<longrightarrow> False", rotated])
      (auto simp: assms ensurePaginationCursor_def, blast)
  with y show False by blast
qed

theorem repeated_cursor_never_ends_witness:
  "paginate (\<lambda>a w. (Inr (page ''a'' True (JStr ''c'')), w + 1)) [] None (0::nat) = None"
  by (rule repeated_cursor_never_ends [where c = "\<lparr>ic_nodes = [JObj [(''id'', JStr ''a'')]], ic_hasNextPage = True, ic_endCursor = Some ''c''\<rparr>"])
    (simp_all add: extract_page truthy_string_def)

text \<open>The ids are asked for in pieces of at most fifty that together are the ids, each once and in order.\<close>

theorem chunks_cover:
  "concat (chunks PAGE_SIZE ids) = ids \<and> list_all (\<lambda>c. c \<noteq> [] \<and> length c \<le> PAGE_SIZE) (chunks PAGE_SIZE ids)"
proof (induction PAGE_SIZE ids rule: chunks.induct)
  case (1 ids)
  show ?case
  proof (cases "ids = []")
    case True
    then show ?thesis by (simp add: chunks.simps)
  next
    case False
    have n: "PAGE_SIZE \<noteq> 0" by (simp add: PAGE_SIZE_def)

    have rest: "concat (chunks PAGE_SIZE (drop PAGE_SIZE ids)) = drop PAGE_SIZE ids \<and>
        list_all (\<lambda>c. c \<noteq> [] \<and> length c \<le> PAGE_SIZE) (chunks PAGE_SIZE (drop PAGE_SIZE ids))"
      using 1 False n by simp
    have step: "chunks PAGE_SIZE ids = take PAGE_SIZE ids # chunks PAGE_SIZE (drop PAGE_SIZE ids)"
      using False n by (subst chunks.simps) simp
    show ?thesis unfolding step using rest False by (simp add: PAGE_SIZE_def)
  qed
qed

section \<open>Blockers\<close>

text \<open>
  Every relation that points to an issue is taken for a blocker: the kind of the relation, which the query asks for, is
  not read, so an issue that is only related to an open one is held back as if it were blocked by it.
\<close>

theorem relation_type_ignored:
  "normalizeBlockers (Some (JArr (xs @ JObj ((''type'', t) # fs) # ys))) i =
   normalizeBlockers (Some (JArr (xs @ JObj ((''type'', u) # fs) # ys))) i"
  by (simp add: normalizeBlockers_def elements_def member_def asRecord_def omap_get_def)

definition related_raw :: json where
  "related_raw = JObj [(''id'', JStr ''2''), (''identifier'', JStr ''A-2''), (''title'', JStr ''t''), (''state'', JObj [(''name'', JStr ''Todo'')]),
     (''inverseRelations'', JObj [(''nodes'', JArr [JObj [(''type'', JStr ''related''),
        (''issue'', JObj [(''id'', JStr ''1''), (''identifier'', JStr ''A-1''), (''state'', JObj [(''name'', JStr ''In Progress'')])])]])])]"

theorem related_issue_held_back:
  assumes "item \<in> set (elements (member (member (Some raw) ''inverseRelations'') ''nodes''))"
    and "asString (member (member (Some item) ''issue'') ''id'') \<noteq> Some (issue_id (normalizeIssue raw))"
    and "asString (member (member (member (Some item) ''issue'') ''state'') ''name'') = Some st" "\<not> isTerminalState st config"
  shows "isBlockedByNonTerminal (normalizeIssue raw) config"
  using assms
  by (auto simp: isBlockedByNonTerminal_def normalizeIssue_def normalizeBlockers_def Let_def list_ex_iff intro!: bexI [of _ item])

section \<open>States\<close>

lemma unique_first_set [simp]: "set (unique_first xs) = set xs" "distinct (unique_first xs)"
  by (simp_all add: unique_first_def)

text \<open>
  The ids of the configured states are exactly the ids of the workflow states whose name is one of them up to case and
  blanks, each once.
\<close>

theorem resolved_states_exact:
  "distinct (resolved_state_ids nodes names) \<and>
   (i \<in> set (resolved_state_ids nodes names)) =
     list_ex (\<lambda>n. node_id n = Some i \<and> list_ex (\<lambda>s. state_name n = Some (js_lower (js_trim s)) \<and> js_lower (js_trim s) \<noteq> []) names) nodes"
  by (auto simp: resolved_state_ids_def ids_by_name_def List.map_filter_def list_ex_iff image_iff split: if_splits) force

text \<open>
  C1: A project that is not found does not stop the lookup of a state: without its team the states of the whole workspace
  are searched, so the id can be that of another team's state of the same name.
\<close>

theorem missing_project_searches_all_teams:
  assumes "slug_of (le_tracker e) = Some slug"
    and "gql e buildProjectLookupQuery [(''projectSlug'', JStr slug)] w = (Inr payload, w1)" "nodes_of payload ''projects'' = []"
  shows "resolveStateId e stateName w = io_bind (workflow_states e None) (\<lambda>nodes. io_return (find_state nodes stateName)) w1"
  using assms
  by (simp add: resolveStateId_def resolveWorkflowTeamId_def resolveProjectContext_def first_of_def first_id_def member_def asRecord_def asString_def elements_def)

section \<open>Transitions\<close>

text \<open>
  C28: A strict transition succeeds only when the server confirmed it in the last answer; the plain one succeeds in every case,
  so its caller learns nothing.
\<close>

theorem strict_transition_confirmed:
  "(case updateIssueStateStrict e issueId stateId w of
      (Inr (), w') \<Rightarrow> \<exists>payload w0. gql e buildIssueTransitionMutation [(''issueId'', JStr issueId), (''stateId'', JStr stateId)] w0 = (Inr payload, w') \<and>
          is_true (member (data_of payload ''issueUpdate'') ''success'')
    | (Inl _, _) \<Rightarrow> True) \<and>
   fst (updateIssueState e issueId stateId w) = Inr ()"
proof
  have last: "\<exists>w0. m w0 = (Inr a, w')" if "retry_from pause m k left w = (Inr a, w')" for pause k left w a w' and m :: "(linear_error, 'b, 'a) eio"
    using that
  proof (induction left arbitrary: k w)
    case (Suc left)
    then show ?case by (auto split: prod.splits sum.splits)
  qed auto
  show "case updateIssueStateStrict e issueId stateId w of
      (Inr (), w') \<Rightarrow> \<exists>payload w0. gql e buildIssueTransitionMutation [(''issueId'', JStr issueId), (''stateId'', JStr stateId)] w0 = (Inr payload, w') \<and>
          is_true (member (data_of payload ''issueUpdate'') ''success'')
    | (Inl _, _) \<Rightarrow> True"
  proof (cases "updateIssueStateStrict e issueId stateId w")
    case (Pair r w')
    show ?thesis
    proof (cases r)
      case (Inr u)
      then obtain payload w1 where "retried e (gql e buildIssueTransitionMutation [(''issueId'', JStr issueId), (''stateId'', JStr stateId)]) w = (Inr payload, w1)"
        "assertIssueTransitionSucceeded payload w1 = (Inr (), w')"
        using Pair by (auto simp: updateIssueStateStrict_def split: prod.splits sum.splits)
      moreover from this(1) obtain w0 where
        "gql e buildIssueTransitionMutation [(''issueId'', JStr issueId), (''stateId'', JStr stateId)] w0 = (Inr payload, w1)"
        using last [of "le_pause e" _ 1 2 w payload w1] by (auto simp: retried_def withRetryReturn_def)
      moreover from calculation(2) have "w1 = w' \<and> is_true (member (data_of payload ''issueUpdate'') ''success'')"
        by (simp add: assertIssueTransitionSucceeded_def split: if_splits)
      ultimately have "\<exists>payload w0. gql e buildIssueTransitionMutation [(''issueId'', JStr issueId), (''stateId'', JStr stateId)] w0 = (Inr payload, w') \<and>
          is_true (member (data_of payload ''issueUpdate'') ''success'')" by blast
      then show ?thesis unfolding Pair Inr by (cases u) (simp only: prod.case sum.case unit.case)
    qed (simp add: Pair)
  qed
  show "fst (updateIssueState e issueId stateId w) = Inr ()"
    by (simp add: updateIssueState_def swallowed_def withRetry_def split: prod.split sum.split)
qed

end
