(* ===== verification/GitHubClient.thy ===== *)
theory GitHubClient
  imports LinearClient
begin

text \<open>
  The GitHub clients: \<open>src/src/github/transport.ts\<close>, \<open>issues-client.ts\<close> and \<open>src/src/git/github-pr-client.ts\<close>. The network
  is a function on a world, as for Linear; the URL parser, \<open>encodeURIComponent\<close> and the environment are parameters.
  An issue in an answer has the shape GitHub documents; any other answer is an error here.
\<close>

section \<open>transport.ts\<close>

text \<open>No caller sets the scheme, the leave to send no token, or the signal of a single request, so they are left out.\<close>

datatype github_error =
    GitHubApiError int "json option"
  | GitHubIssuesError string string
  | GitHubOther string

type_synonym ('a, 'w) gh = "(github_error, 'a, 'w) eio"

type_synonym headers = "(string, string) omap"

record 'w gh_transport =
  gt_fetch :: "string \<Rightarrow> string \<Rightarrow> headers \<Rightarrow> string option \<Rightarrow> 'w \<Rightarrow> http_reply \<times> 'w"
  gt_env :: "string \<Rightarrow> string option"
  gt_apiBaseUrl :: string
  gt_graphqlEndpoint :: string
  gt_defaultTokenEnv :: string
  gt_authorizationHeaderName :: string
  gt_authorizationScheme :: string
  gt_defaultHeaders :: headers
  gt_allowMissingToken :: bool

record gh_request =
  gr_pathName :: string
  gr_method :: string
  gr_body :: "string option"
  gr_headers :: headers
  gr_token :: "string option"
  gr_tokenEnvName :: "string option"
  gr_omitAuthorization :: bool

definition drop_slashes :: "string \<Rightarrow> string" where
  "drop_slashes t = rev (dropWhile (\<lambda>c. c = CHR ''/'') (rev t))"

text \<open>The path of the GraphQL endpoint for the host and the path of the API's base URL.\<close>

definition graphql_path :: "string \<Rightarrow> string \<Rightarrow> string" where
  "graphql_path hostname pathname =
     (let normalizedPath = drop_slashes pathname
      in if hostname = ''api.github.com'' then ''/graphql''
         else if normalizedPath = ''/api/v3'' then ''/api/graphql''
         else normalizedPath @ ''/graphql'')"

definition resolveToken :: "'w gh_transport \<Rightarrow> string option \<Rightarrow> string option \<Rightarrow> github_error + string" where
  "resolveToken t tokenOverride tokenEnvName =
     (case tokenOverride of
        Some token \<Rightarrow> Inr token
      | None \<Rightarrow>
          let name = coalesce tokenEnvName (gt_defaultTokenEnv t)
          in case gt_env t name of
               Some token \<Rightarrow> Inr token
             | None \<Rightarrow> if gt_allowMissingToken t then Inr []
                       else Inl (GitHubOther (''missing GitHub token env var: '' @ name)))"

definition spread_onto :: "headers \<Rightarrow> headers \<Rightarrow> headers" where
  "spread_onto base extra = fold (\<lambda>(k, v). omap_set k v) extra base"

definition buildHeaders ::
  "'w gh_transport \<Rightarrow> bool \<Rightarrow> string option \<Rightarrow> string option \<Rightarrow> headers \<Rightarrow> github_error + headers" where
  "buildHeaders t omitAuthorization token tokenEnvName own =
     (case (if omitAuthorization then Inr []
            else case resolveToken t token tokenEnvName of
                   Inl err \<Rightarrow> Inl err
                 | Inr resolved \<Rightarrow> Inr [(gt_authorizationHeaderName t, gt_authorizationScheme t @ '' '' @ resolved)]) of
        Inl err \<Rightarrow> Inl err
      | Inr authorizationHeaders \<Rightarrow> Inr (spread_onto (spread_onto (gt_defaultHeaders t) authorizationHeaders) own))"

text \<open>\<open>undefined\<close> for 204, null for an empty body, the JSON value, or the text itself.\<close>

definition readGitHubPayload :: "int \<Rightarrow> string \<Rightarrow> json option \<Rightarrow> json option" where
  "readGitHubPayload status body parsed =
     (if status = 204 then None else if body = [] then Some JNull else Some (coalesce parsed (JStr body)))"

definition transport_send :: "'w gh_transport \<Rightarrow> gh_request \<Rightarrow> (http_reply, 'w) gh" where
  "transport_send t r w =
     (case buildHeaders t (gr_omitAuthorization r) (gr_token r) (gr_tokenEnvName r) (gr_headers r) of
        Inl err \<Rightarrow> (Inl err, w)
      | Inr headers \<Rightarrow>
          (case gt_fetch t (gt_apiBaseUrl t @ gr_pathName r) (gr_method r) headers (gr_body r) w of
             (NetworkFailure m, w1) \<Rightarrow> (Inl (GitHubOther m), w1)
           | (reply, w1) \<Rightarrow> (Inr reply, w1)))"

definition reply_payload :: "http_reply \<Rightarrow> (json option, 'w) gh" where
  "reply_payload reply =
     (case reply of
        NetworkFailure m \<Rightarrow> io_throw (GitHubOther m)
      | HttpReply status ok body parsed \<Rightarrow>
          let payload = readGitHubPayload status body parsed
          in if ok then io_return payload else io_throw (GitHubApiError status payload))"

definition transport_request :: "'w gh_transport \<Rightarrow> gh_request \<Rightarrow> (json option, 'w) gh" where
  "transport_request t r = io_bind (transport_send t r) reply_payload"

text \<open>The status, whether it is a success, and the payload.\<close>

definition transport_graphql ::
  "'w gh_transport \<Rightarrow> string \<Rightarrow> (string \<times> json) list \<Rightarrow> string option \<Rightarrow> (int \<times> bool \<times> json option, 'w) gh" where
  "transport_graphql t query variables tokenEnvName w =
     (case buildHeaders t False None tokenEnvName [] of
        Inl err \<Rightarrow> (Inl err, w)
      | Inr headers \<Rightarrow>
          (case gt_fetch t (gt_graphqlEndpoint t) ''POST'' headers
               (Some (json_stringify (JObj [(''query'', JStr query), (''variables'', JObj variables)]))) w of
             (NetworkFailure m, w1) \<Rightarrow> (Inl (GitHubOther m), w1)
           | (HttpReply status ok body parsed, w1) \<Rightarrow> (Inr (status, ok, readGitHubPayload status body parsed), w1)))"

section \<open>issues-client.ts\<close>

record raw_github_issue =
  ri_number :: int
  ri_title :: string
  ri_body :: "string option"
  ri_state :: string
  ri_labels :: "string list"
  ri_html_url :: "string option"
  ri_created_at :: "string option"
  ri_updated_at :: "string option"

definition decode_issue :: "json \<Rightarrow> raw_github_issue option" where
  "decode_issue v =
     (let f = (\<lambda>k. member (Some v) k)
      in case (asNumber (f ''number''), asString (f ''title''), asString (f ''state''), f ''labels'') of
           (Some n, Some title, Some state, Some (JArr labels)) \<Rightarrow>
             map_option
               (\<lambda>names. \<lparr>ri_number = n, ri_title = title, ri_body = asString (f ''body''), ri_state = state, ri_labels = names,
                  ri_html_url = asString (f ''html_url''), ri_created_at = asString (f ''created_at''),
                  ri_updated_at = asString (f ''updated_at'')\<rparr>)
               (those (map (\<lambda>l. asString (member (Some l) ''name'')) labels))
         | _ \<Rightarrow> None)"

definition normalizeGitHubIssue :: "raw_github_issue \<Rightarrow> string \<Rightarrow> string \<Rightarrow> string list \<Rightarrow> string list \<Rightarrow> issue" where
  "normalizeGitHubIssue raw owner repo activeStates terminalStates =
     \<lparr>issue_id = show_int (ri_number raw), issue_identifier = owner @ ''/'' @ repo @ ''#'' @ show_int (ri_number raw),
      issue_title = ri_title raw, issue_description = ri_body raw, issue_priority = None,
      issue_state = coalesce (List.find (\<lambda>name. name \<in> set (activeStates @ terminalStates)) (ri_labels raw)) ''open'',
      issue_branchName = None, issue_url = ri_html_url raw, issue_labels = ri_labels raw, issue_blockedBy = [],
      issue_createdAt = ri_created_at raw, issue_updatedAt = ri_updated_at raw\<rparr>"

record 'w gh_issues =
  gi_fetch :: "string \<Rightarrow> string \<Rightarrow> headers \<Rightarrow> string option \<Rightarrow> 'w \<Rightarrow> http_reply \<times> 'w"
  gi_env :: "string \<Rightarrow> string option"
  gi_graphqlEndpoint :: string
  gi_tracker :: tracker_section
  gi_configToken :: "string option"
  gi_encode :: "string \<Rightarrow> string"
  gi_number :: "string \<Rightarrow> int option"
  gi_pause :: "nat \<Rightarrow> 'w \<Rightarrow> 'w"

definition repo_path :: "'w gh_issues \<Rightarrow> string" where
  "repo_path c = ''/repos/'' @ ts_owner (gi_tracker c) @ ''/'' @ ts_repo (gi_tracker c)"

definition gi_getToken :: "'w gh_issues \<Rightarrow> string" where
  "gi_getToken c = coalesce (gi_configToken c) (coalesce (gi_env c ''GITHUB_TOKEN'') [])"

definition gi_transport :: "'w gh_issues \<Rightarrow> 'w gh_transport" where
  "gi_transport c =
     \<lparr>gt_fetch = gi_fetch c, gt_env = gi_env c, gt_apiBaseUrl = or_text (ts_endpoint (gi_tracker c)) ''https://api.github.com'',
      gt_graphqlEndpoint = gi_graphqlEndpoint c, gt_defaultTokenEnv = ''GITHUB_TOKEN'', gt_authorizationHeaderName = ''Authorization'',
      gt_authorizationScheme = ''Bearer'',
      gt_defaultHeaders = [(''Accept'', ''application/vnd.github+json''), (''X-GitHub-Api-Version'', ''2022-11-28''),
        (''Content-Type'', ''application/json'')],
      gt_allowMissingToken = False\<rparr>"

definition gi_send :: "'w gh_issues \<Rightarrow> string \<Rightarrow> string \<Rightarrow> json option \<Rightarrow> (http_reply, 'w) gh" where
  "gi_send c path method body =
     io_catch
       (transport_send (gi_transport c)
          \<lparr>gr_pathName = path, gr_method = method, gr_body = map_option json_stringify body, gr_headers = [],
           gr_token = Some (gi_getToken c), gr_tokenEnvName = None, gr_omitAuthorization = False\<rparr>)
       (\<lambda>_. io_throw (GitHubIssuesError ''github_transport_error'' ''github api request failed during transport''))"

definition gi_request :: "'w gh_issues \<Rightarrow> string \<Rightarrow> string \<Rightarrow> json option \<Rightarrow> (json option, 'w) gh" where
  "gi_request c path method body =
     io_bind (gi_send c path method body)
       (\<lambda>reply. case reply of
          NetworkFailure m \<Rightarrow> io_throw (GitHubOther m)
        | HttpReply status ok text parsed \<Rightarrow>
            if \<not> ok
            then io_throw (GitHubIssuesError ''github_http_error'' (''github api request failed with status '' @ show_int status))
            else if status = 204 then io_return None
            else case parsed of
                   Some v \<Rightarrow> io_return (Some v)
                 | None \<Rightarrow> io_throw (GitHubIssuesError ''github_unknown_payload'' ''github api response body is not valid json''))"

definition decoded :: "('a option) \<Rightarrow> ('a, 'w) gh" where
  "decoded v = (case v of Some a \<Rightarrow> io_return a | None \<Rightarrow> io_throw (GitHubOther ''TypeError''))"

definition fetchOpenIssues :: "'w gh_issues \<Rightarrow> string list \<Rightarrow> (raw_github_issue list, 'w) gh" where
  "fetchOpenIssues c labels =
     io_bind (gi_request c (repo_path c @ ''/issues?state=open&per_page=100'' @
         (if labels \<noteq> [] then ''&labels='' @ gi_encode c (join '','' labels) else [])) ''GET'' None)
       (\<lambda>v. decoded (case v of Some (JArr xs) \<Rightarrow> those (map decode_issue xs) | _ \<Rightarrow> None))"

definition fetch_issue :: "'w gh_issues \<Rightarrow> int \<Rightarrow> (raw_github_issue, 'w) gh" where
  "fetch_issue c n =
     io_bind (gi_request c (repo_path c @ ''/issues/'' @ show_int n) ''GET'' None)
       (\<lambda>v. decoded (Option.bind v decode_issue))"

text \<open>\<open>Promise.all\<close>: every request is made; the first that fails decides.\<close>

fun io_all :: "('a \<Rightarrow> ('e, 'b, 'w) eio) \<Rightarrow> 'a list \<Rightarrow> ('e, 'b list, 'w) eio" where
  "io_all f [] w = (Inr [], w)"
| "io_all f (x # xs) w =
     (case f x w of
        (Inl err, w1) \<Rightarrow> (Inl err, snd (io_all f xs w1))
      | (Inr y, w1) \<Rightarrow> (case io_all f xs w1 of (Inl err, w2) \<Rightarrow> (Inl err, w2) | (Inr ys, w2) \<Rightarrow> (Inr (y # ys), w2)))"

definition fetchIssuesByNumbers :: "'w gh_issues \<Rightarrow> int list \<Rightarrow> (raw_github_issue list, 'w) gh" where
  "fetchIssuesByNumbers c numbers = io_all (fetch_issue c) numbers"

text \<open>A number in a template literal; none is NaN.\<close>

definition show_number :: "int option \<Rightarrow> string" where
  "show_number n = (case n of Some i \<Rightarrow> show_int i | None \<Rightarrow> ''NaN'')"

definition gi_write :: "'w gh_issues \<Rightarrow> int option \<Rightarrow> string \<Rightarrow> string \<Rightarrow> json option \<Rightarrow> (unit, 'w) gh" where
  "gi_write c n suffix method body =
     io_bind (gi_request c (repo_path c @ ''/issues/'' @ show_number n @ suffix) method body) (\<lambda>_. io_return ())"

definition addLabel :: "'w gh_issues \<Rightarrow> int option \<Rightarrow> string \<Rightarrow> (unit, 'w) gh" where
  "addLabel c n label = gi_write c n ''/labels'' ''POST'' (Some (JObj [(''labels'', strings [label])]))"

definition removeLabel :: "'w gh_issues \<Rightarrow> int option \<Rightarrow> string \<Rightarrow> (unit, 'w) gh" where
  "removeLabel c n label = gi_write c n (''/labels/'' @ gi_encode c label) ''DELETE'' None"

definition closeIssue :: "'w gh_issues \<Rightarrow> int option \<Rightarrow> (unit, 'w) gh" where
  "closeIssue c n = gi_write c n [] ''PATCH'' (Some (JObj [(''state'', JStr ''closed'')]))"

definition reopenIssue :: "'w gh_issues \<Rightarrow> int option \<Rightarrow> (unit, 'w) gh" where
  "reopenIssue c n = gi_write c n [] ''PATCH'' (Some (JObj [(''state'', JStr ''open'')]))"

definition gi_createComment :: "'w gh_issues \<Rightarrow> int option \<Rightarrow> string \<Rightarrow> (unit, 'w) gh" where
  "gi_createComment c n body = gi_write c n ''/comments'' ''POST'' (Some (JObj [(''body'', JStr body)]))"

definition gi_createIssue :: "'w gh_issues \<Rightarrow> string \<Rightarrow> string option \<Rightarrow> string list \<Rightarrow> (raw_github_issue, 'w) gh" where
  "gi_createIssue c title body labels =
     withRetryReturn (GitHubOther ''createIssue exhausted retries without result'') (gi_pause c) 3
       (io_bind (gi_request c (repo_path c @ ''/issues'') ''POST''
            (Some (JObj ([(''title'', JStr title)] @ (case body of Some b \<Rightarrow> [(''body'', JStr b)] | None \<Rightarrow> []) @
               [(''labels'', strings labels)]))))
          (\<lambda>v. decoded (Option.bind v decode_issue)))"

definition label_result :: "json option \<Rightarrow> bool \<Rightarrow> string \<times> string \<times> bool" where
  "label_result payload alreadyExists =
     ((case asNumber (member payload ''id'') of Some n \<Rightarrow> (if n = 0 then [] else show_int n) | None \<Rightarrow> []),
      coalesce (asString (member payload ''name'')) [], alreadyExists)"

definition ensureLabel :: "'w gh_issues \<Rightarrow> string \<Rightarrow> string \<Rightarrow> string \<Rightarrow> (string \<times> string \<times> bool, 'w) gh" where
  "ensureLabel c name color description =
     io_bind (gi_send c (repo_path c @ ''/labels'') ''POST''
         (Some (JObj [(''name'', JStr name), (''color'', JStr color), (''description'', JStr description)])))
       (\<lambda>reply. case reply of
          NetworkFailure m \<Rightarrow> io_throw (GitHubOther m)
        | HttpReply status ok text parsed \<Rightarrow>
            if status = 201
            then (case parsed of Some v \<Rightarrow> io_return (label_result (Some v) False) | None \<Rightarrow> io_throw (GitHubOther ''SyntaxError''))
            else if status = 422
            then io_bind (gi_request c (repo_path c @ ''/labels/'' @ gi_encode c name) ''GET'' None)
                   (\<lambda>existing. io_return (label_result existing True))
            else io_throw (GitHubOther (''GitHub API returned '' @ show_int status @ '': '' @ text)))"

end
