(* ===== verification/GitHubPrs.thy ===== *)
theory GitHubPrs
  imports GitHubClient GitOps CodexRequest
begin

text \<open>
  Pull requests on GitHub: \<open>src/src/git/github-pr-client.ts\<close>, \<open>github-api-tool.ts\<close> and \<open>pr-review-ingester.ts\<close>. The \<open>gh\<close> command is
  a parameter that answers with its standard output or an error.
\<close>

section \<open>github-pr-client.ts\<close>

definition open_or_closed :: "json option \<Rightarrow> bool" where
  "open_or_closed v \<longleftrightarrow> v = Some (JStr ''open'') \<or> v = Some (JStr ''closed'')"

definition isPrStatusResponse :: "json option \<Rightarrow> bool" where
  "isPrStatusResponse v \<longleftrightarrow>
     open_or_closed (member v ''state'') \<and> (\<exists>b \<in> {True, False}. member v ''merged'' = Some (JBool b)) \<and>
     asNumber (member v ''number'') \<noteq> None \<and> asString (member v ''html_url'') \<noteq> None"

definition isPrCreateResult :: "json option \<Rightarrow> bool" where
  "isPrCreateResult v \<longleftrightarrow>
     asString (member v ''html_url'') \<noteq> None \<and> asNumber (member v ''number'') \<noteq> None \<and> open_or_closed (member v ''state'')"

definition says_already_exists :: "json option \<Rightarrow> bool" where
  "says_already_exists v = (case asString (member v ''message'') of Some m \<Rightarrow> str_includes m ''already exists'' | None \<Rightarrow> False)"

fun isDuplicatePrError :: "github_error \<Rightarrow> bool" where
  "isDuplicatePrError (GitHubApiError status payload) \<longleftrightarrow>
     status = 422 \<and> (says_already_exists payload \<or> list_ex (\<lambda>er. says_already_exists (Some er)) (elements (member payload ''errors'')))"
| "isDuplicatePrError err = False"

definition pr_footer :: string where
  "pr_footer = ''---'' @ [CHR 0x0A] @ ''*Generated by Risoluto*''"

definition buildPrBody :: "string option \<Rightarrow> string option \<Rightarrow> string" where
  "buildPrBody issueUrl summary =
     (let closesLine = (case truthy_string issueUrl of Some u \<Rightarrow> ''Closes '' @ u | None \<Rightarrow> []);
          parts = (case truthy_string summary of
              Some s \<Rightarrow> [closesLine, ''### Changes'', s, pr_footer]
            | None \<Rightarrow> [closesLine, pr_footer])
      in join [CHR 0x0A, CHR 0x0A] (filter (\<lambda>p. p \<noteq> []) parts))"

definition drop_prefix_ci :: "string \<Rightarrow> string \<Rightarrow> string option" where
  "drop_prefix_ci pre s = (if js_lower (take (length pre) s) = pre then Some (drop (length pre) s) else None)"

definition owner_and_repo :: "string \<Rightarrow> (string \<times> string) option" where
  "owner_and_repo s =
     (case split_on CHR ''/'' s of
        [own, repo] \<Rightarrow> if own \<noteq> [] \<and> repo \<noteq> [] then Some (own, repo) else None
      | _ \<Rightarrow> None)"

text \<open>The two regular expressions: a prefix that ignores case, and two segments without a slash.\<close>

definition parseGithubRepo :: "string \<Rightarrow> (string \<times> string) option" where
  "parseGithubRepo repoUrl =
     (let key = js_trim repoUrl;
          normalized = (if ends_with ''.git'' key then take (length key - 4) key else key)
      in List.find (\<lambda>_. True) (List.map_filter (\<lambda>pre. Option.bind (drop_prefix_ci pre normalized) owner_and_repo)
           [''https://github.com/'', ''http://github.com/'', ''git@github.com:'']))"

record 'w gh_prs =
  gp_transport :: "'w gh_transport"
  gp_tokenEnv :: string

definition githubRequest ::
  "'w gh_prs \<Rightarrow> string \<Rightarrow> string \<Rightarrow> json option \<Rightarrow> string option \<Rightarrow> (json option, 'w) gh" where
  "githubRequest c path method body tokenEnvName =
     transport_request (gp_transport c)
       \<lparr>gr_pathName = path, gr_method = method, gr_body = map_option json_stringify body, gr_headers = [],
        gr_token = None, gr_tokenEnvName = Some (coalesce tokenEnvName (gp_tokenEnv c)), gr_omitAuthorization = False\<rparr>"

definition repo_route :: "string \<Rightarrow> string \<Rightarrow> string" where
  "repo_route own repo = ''/repos/'' @ own @ ''/'' @ repo"

definition createPullRequest ::
  "'w gh_prs \<Rightarrow> repo_match \<Rightarrow> issue \<Rightarrow> string \<Rightarrow> string option \<Rightarrow> (json option, 'w) gh" where
  "createPullRequest c route i branchName summary =
     (let parsed = parseGithubRepo (rm_repoUrl route)
      in case (truthy_string (case rm_githubOwner route of Some x \<Rightarrow> Some x | None \<Rightarrow> map_option fst parsed),
               truthy_string (case rm_githubRepo route of Some x \<Rightarrow> Some x | None \<Rightarrow> map_option snd parsed)) of
           (Some own, Some repo) \<Rightarrow>
             let tokenEnvName = Some (or_text (rm_githubTokenEnv route) (gp_tokenEnv c));
                 path = repo_route own repo @ ''/pulls'';
                 accepted = (\<lambda>v. io_return (if isPrCreateResult v then v else None))
             in io_catch
                  (io_bind (githubRequest c path ''POST''
                       (Some (JObj [(''title'', JStr (issue_identifier i @ '': '' @ issue_title i)), (''head'', JStr branchName),
                          (''base'', JStr (rm_defaultBranch route)), (''body'', JStr (buildPrBody (issue_url i) summary))])) tokenEnvName)
                     accepted)
                  (\<lambda>err. if \<not> isDuplicatePrError err then io_throw err
                     else io_bind (githubRequest c (path @ ''?head='' @ own @ '':'' @ branchName @ ''&state=open'') ''GET'' None tokenEnvName)
                            (\<lambda>existing. accepted (first_of (elements existing))))
         | _ \<Rightarrow> io_throw (GitHubOther ''unable to derive github owner/repo for pull request creation''))"

definition pull_path :: "string \<Rightarrow> string \<Rightarrow> int \<Rightarrow> string" where
  "pull_path own repo n = repo_route own repo @ ''/pulls/'' @ show_int n"

definition addPrComment ::
  "'w gh_prs \<Rightarrow> string \<Rightarrow> string \<Rightarrow> int \<Rightarrow> string \<Rightarrow> string option \<Rightarrow> (json option, 'w) gh" where
  "addPrComment c own repo n body tokenEnvName =
     githubRequest c (repo_route own repo @ ''/issues/'' @ show_int n @ ''/comments'') ''POST'' (Some (JObj [(''body'', JStr body)])) tokenEnvName"

definition json_text :: "json option \<Rightarrow> string" where
  "json_text v = (case v of Some j \<Rightarrow> json_stringify j | None \<Rightarrow> ''undefined'')"

definition gp_getPrStatus :: "'w gh_prs \<Rightarrow> string \<Rightarrow> string \<Rightarrow> int \<Rightarrow> string option \<Rightarrow> (json option, 'w) gh" where
  "gp_getPrStatus c own repo n tokenEnvName =
     io_bind (githubRequest c (pull_path own repo n) ''GET'' None tokenEnvName)
       (\<lambda>raw. if isPrStatusResponse raw then io_return raw
              else io_throw (GitHubOther (''getPrStatus: unexpected response shape from GitHub API -- '' @ json_text raw)))"

definition getPrReviews :: "'w gh_prs \<Rightarrow> string \<Rightarrow> string \<Rightarrow> int \<Rightarrow> string option \<Rightarrow> (json option, 'w) gh" where
  "getPrReviews c own repo n tokenEnvName = githubRequest c (pull_path own repo n @ ''/reviews'') ''GET'' None tokenEnvName"

definition getPrLineComments :: "'w gh_prs \<Rightarrow> string \<Rightarrow> string \<Rightarrow> int \<Rightarrow> string option \<Rightarrow> (json option, 'w) gh" where
  "getPrLineComments c own repo n tokenEnvName = githubRequest c (pull_path own repo n @ ''/comments'') ''GET'' None tokenEnvName"

definition closePr :: "'w gh_prs \<Rightarrow> string \<Rightarrow> string \<Rightarrow> int \<Rightarrow> string option \<Rightarrow> (json option, 'w) gh" where
  "closePr c own repo n tokenEnvName =
     githubRequest c (pull_path own repo n) ''PATCH'' (Some (JObj [(''state'', JStr ''closed'')])) tokenEnvName"

fun merge_method_upper :: "merge_method \<Rightarrow> string" where
  "merge_method_upper Squash = ''SQUASH''"
| "merge_method_upper MergeCommit = ''MERGE''"
| "merge_method_upper Rebase = ''REBASE''"

definition auto_merge_mutation :: string where
  "auto_merge_mutation = ''
      mutation EnableAutoMerge($pullRequestId: ID!, $mergeMethod: PullRequestMergeMethod!) {
        enablePullRequestAutoMerge(input: {
          pullRequestId: $pullRequestId,
          mergeMethod: $mergeMethod
        }) {
          pullRequest {
            autoMergeRequest {
              mergeMethod
            }
          }
        }
      }
    ''"

definition requestAutoMerge ::
  "'w gh_prs \<Rightarrow> string \<Rightarrow> string \<Rightarrow> int \<Rightarrow> merge_method \<Rightarrow> string option \<Rightarrow> (unit, 'w) gh" where
  "requestAutoMerge c own repo n mergeMethod tokenEnvName =
     (let resolvedTokenEnv = Some (coalesce tokenEnvName (gp_tokenEnv c))
      in io_bind (githubRequest c (pull_path own repo n) ''GET'' None resolvedTokenEnv)
           (\<lambda>prData. case asString (member prData ''node_id'') of
              None \<Rightarrow> io_throw (GitHubOther (''requestAutoMerge: PR response missing node_id for '' @ own @ ''/'' @ repo @ ''#'' @ show_int n))
            | Some pullRequestId \<Rightarrow>
                io_bind (transport_graphql (gp_transport c) auto_merge_mutation
                    [(''pullRequestId'', JStr pullRequestId), (''mergeMethod'', JStr (merge_method_upper mergeMethod))] resolvedTokenEnv)
                  (\<lambda>(status, ok, payload).
                     if status = 422 \<or> ok then io_return () else io_throw (GitHubApiError status payload))))"

section \<open>github-api-tool.ts\<close>

datatype github_tool_input = AddPrComment string string int string | GetPrStatus string string int

definition tool_text :: "json option \<Rightarrow> string option" where
  "tool_text v = truthy_string (map_option js_trim (asString v))"

definition asPullNumber :: "json option \<Rightarrow> int option" where
  "asPullNumber v = (case asNumber v of Some n \<Rightarrow> if n \<le> 0 then None else Some n | None \<Rightarrow> None)"

definition parseToolInput :: "json option \<Rightarrow> string + github_tool_input" where
  "parseToolInput args =
     (case (tool_text (member args ''action''), tool_text (member args ''owner''), tool_text (member args ''repo''),
            asPullNumber (member args ''pullNumber'')) of
        (Some action, Some own, Some repo, Some n) \<Rightarrow>
          if action = ''add_pr_comment''
          then (case tool_text (member args ''body'') of
                  None \<Rightarrow> Inl ''github_api add_pr_comment requires a non-empty body''
                | Some body \<Rightarrow> Inr (AddPrComment own repo n body))
          else if action = ''get_pr_status'' then Inr (GetPrStatus own repo n)
          else Inl (''unsupported github_api action: '' @ action)
      | _ \<Rightarrow> Inl ''github_api expects { action, owner, repo, pullNumber, ... }'')"

fun github_error_text :: "github_error \<Rightarrow> string" where
  "github_error_text (GitHubApiError status payload) =
     ''github request failed with status '' @ show_int status @ '': '' @ json_text payload"
| "github_error_text (GitHubIssuesError code m) = m"
| "github_error_text (GitHubOther m) = m"

text \<open>The text of a success is absent when the response is: \<open>JSON.stringify(undefined)\<close> is undefined.\<close>

definition tool_success :: "json option \<Rightarrow> json" where
  "tool_success response =
     (case response of
        Some v \<Rightarrow> toolCallSuccess v
      | None \<Rightarrow> JObj [(''success'', JBool True), (''contentItems'', JArr [JObj [(''type'', JStr ''inputText'')]])])"

definition run_tool :: "'w gh_prs \<Rightarrow> github_tool_input \<Rightarrow> (json option, 'w) gh" where
  "run_tool c input =
     (case input of
        AddPrComment own repo n body \<Rightarrow> addPrComment c own repo n body None
      | GetPrStatus own repo n \<Rightarrow> gp_getPrStatus c own repo n None)"

definition handleGithubApiToolCall :: "'w gh_prs \<Rightarrow> json option \<Rightarrow> 'w \<Rightarrow> json \<times> 'w" where
  "handleGithubApiToolCall c args w =
     (case parseToolInput args of
        Inl m \<Rightarrow> (toolCallFailure m, w)
      | Inr input \<Rightarrow>
          (case run_tool c input w of
             (Inr response, w1) \<Rightarrow> (tool_success response, w1)
           | (Inl err, w1) \<Rightarrow> (toolCallFailure (github_error_text err), w1)))"

section \<open>pr-review-ingester.ts\<close>

record review_entry =
  rv_author :: string
  rv_state :: string
  rv_body :: string

record comment_entry =
  cm_author :: string
  cm_body :: string

record inline_entry =
  in_author :: string
  in_path :: string
  in_body :: string

record review_feedback =
  rf_prNumber :: int
  rf_prUrl :: string
  rf_reviews :: "review_entry list"
  rf_comments :: "comment_entry list"
  rf_inlineComments :: "inline_entry list"

type_synonym 'w gh_cli = "string list \<Rightarrow> (string, 'w) io"

text \<open>\<open>JSON.parse(stdout.trim() || fallback)\<close>; nothing when the command or the parser throws.\<close>

definition gh_json :: "host \<Rightarrow> 'w gh_cli \<Rightarrow> string list \<Rightarrow> string \<Rightarrow> 'w \<Rightarrow> json option \<times> 'w" where
  "gh_json h cli args fallback w =
     (case cli args w of
        (Inl err, w1) \<Rightarrow> (None, w1)
      | (Inr out, w1) \<Rightarrow> (h_json_parse h (or_text (js_trim out) fallback), w1))"

definition findOpenPr :: "host \<Rightarrow> 'w gh_cli \<Rightarrow> string \<Rightarrow> string \<Rightarrow> 'w \<Rightarrow> (int \<times> string) option \<times> 'w" where
  "findOpenPr h cli repo branchName w =
     (let (parsed, w1) = gh_json h cli [''pr'', ''list'', ''--repo'', repo, ''--head'', branchName, ''--state'', ''open'', ''--json'',
            ''number,url'', ''--limit'', ''1''] ''[]'' w;
          top = first_of (elements parsed)
      in (case (asNumber (member top ''number''), asString (member top ''url'')) of
            (Some n, Some url) \<Rightarrow> Some (n, url)
          | _ \<Rightarrow> None, w1))"

definition fetchRawPrPayload ::
  "host \<Rightarrow> 'w gh_cli \<Rightarrow> string \<Rightarrow> int \<Rightarrow> 'w \<Rightarrow> (json option \<times> json option \<times> json option) option \<times> 'w" where
  "fetchRawPrPayload h cli repo n w =
     (let (payload, w1) = gh_json h cli [''pr'', ''view'', show_int n, ''--repo'', repo, ''--json'', ''reviews,comments,reviewThreads''] ''{}'' w
      in (if object_value payload then Some (member payload ''reviews'', member payload ''comments'', member payload ''reviewThreads'') else None, w1))"

text \<open>\<open>state.toUpperCase()\<close>, as one of the known states.\<close>

definition known_review_state :: "string \<Rightarrow> string option" where
  "known_review_state s = List.find (\<lambda>n. js_lower n = js_lower s) [''APPROVED'', ''CHANGES_REQUESTED'', ''COMMENTED'']"

definition body_text :: "json option \<Rightarrow> string option" where
  "body_text v = truthy_string (map_option js_trim (asString (member v ''body'')))"

definition login_of :: "json option \<Rightarrow> string \<Rightarrow> string" where
  "login_of v k = coalesce (asString (member (member v k) ''login'')) ''unknown''"

definition parseReviews :: "json option \<Rightarrow> review_entry list" where
  "parseReviews raw =
     List.map_filter
       (\<lambda>item. case (asString (member (Some item) ''state''), body_text (Some item)) of
          (Some state, Some body) \<Rightarrow>
            map_option (\<lambda>known. \<lparr>rv_author = login_of (Some item) ''user'', rv_state = known, rv_body = body\<rparr>) (known_review_state state)
        | _ \<Rightarrow> None)
       (elements raw)"

definition parseComments :: "json option \<Rightarrow> comment_entry list" where
  "parseComments raw =
     List.map_filter
       (\<lambda>item. map_option (\<lambda>body. \<lparr>cm_author = login_of (Some item) ''user'', cm_body = body\<rparr>) (body_text (Some item)))
       (elements raw)"

definition parseThreadComment :: "json \<Rightarrow> inline_entry option" where
  "parseThreadComment tc =
     map_option (\<lambda>body. \<lparr>in_author = login_of (Some tc) ''author'', in_path = coalesce (asString (member (Some tc) ''path'')) [], in_body = body\<rparr>)
       (body_text (Some tc))"

definition parseInlineComments :: "json option \<Rightarrow> inline_entry list" where
  "parseInlineComments raw =
     concat (map (\<lambda>thread. List.map_filter parseThreadComment (elements (member (Some thread) ''comments''))) (elements raw))"

definition formatPRFeedbackForPrompt :: "review_feedback \<Rightarrow> string" where
  "formatPRFeedbackForPrompt fb =
     (if rf_reviews fb = [] \<and> rf_comments fb = [] \<and> rf_inlineComments fb = [] then []
      else join [CHR 0x0A]
        ([''## Previous PR Review Feedback'', [], ''Pull Request: [#'' @ show_int (rf_prNumber fb) @ '']('' @ rf_prUrl fb @ '')'', []] @
         (if rf_reviews fb \<noteq> []
          then [''### Reviews'', []] @
            concat (map (\<lambda>r. [''**@'' @ rv_author r @ ''** ('' @ rv_state r @ ''):'', rv_body r, []]) (rf_reviews fb)) else []) @
         (if rf_comments fb \<noteq> []
          then [''### PR Comments'', []] @ concat (map (\<lambda>r. [''**@'' @ cm_author r @ ''**:'', cm_body r, []]) (rf_comments fb)) else []) @
         (if rf_inlineComments fb \<noteq> []
          then [''### Inline Review Comments'', []] @
            concat (map (\<lambda>r. [''**@'' @ in_author r @ ''** on `'' @ in_path r @ ''`:'', in_body r, []]) (rf_inlineComments fb)) else [])))"

definition fetchPRReviewFeedback :: "host \<Rightarrow> 'w gh_cli \<Rightarrow> string \<Rightarrow> string \<Rightarrow> 'w \<Rightarrow> review_feedback option \<times> 'w" where
  "fetchPRReviewFeedback h cli repo branchName w =
     (case findOpenPr h cli repo branchName w of
        (None, w1) \<Rightarrow> (None, w1)
      | (Some (n, url), w1) \<Rightarrow>
          (case fetchRawPrPayload h cli repo n w1 of
             (None, w2) \<Rightarrow> (None, w2)
           | (Some (reviews, comments, threads), w2) \<Rightarrow>
               (Some \<lparr>rf_prNumber = n, rf_prUrl = url, rf_reviews = parseReviews reviews, rf_comments = parseComments comments,
                  rf_inlineComments = parseInlineComments threads\<rparr>, w2)))"

end
