(* ===== verification/Trackers.thy ===== *)
theory Trackers
  imports GitHubPrs
begin

text \<open>
  The trackers behind one port: \<open>src/src/linear/graphql-tool.ts\<close>, \<open>tool-provider.ts\<close>, \<open>src/src/tracker/tool-provider.ts\<close>,
  \<open>linear-adapter.ts\<close>, \<open>github-adapter.ts\<close> and \<open>factory.ts\<close>.
\<close>

section \<open>graphql-tool.ts\<close>

definition extractInput :: "json option \<Rightarrow> (string \<times> gql_variables option) option" where
  "extractInput args =
     (case args of
        Some (JStr q) \<Rightarrow> Some (q, None)
      | Some (JObj fs) \<Rightarrow>
          map_option (\<lambda>q. (q, case member args ''variables'' of Some (JObj vs) \<Rightarrow> Some vs | _ \<Rightarrow> None)) (asString (member args ''query''))
      | _ \<Rightarrow> None)"

text \<open>Whether one of the words stands at the front, whatever its case, and ends there: the pattern between two word boundaries.\<close>

definition word_front :: "string list \<Rightarrow> string \<Rightarrow> bool" where
  "word_front ks s = list_ex
     (\<lambda>k. js_lower (take (length k) s) = k \<and> (case drop (length k) s of [] \<Rightarrow> True | c # _ \<Rightarrow> \<not> word_char c)) ks"

fun count_words :: "string list \<Rightarrow> bool \<Rightarrow> string \<Rightarrow> nat" where
  "count_words ks inside [] = 0"
| "count_words ks inside (c # cs) = (if \<not> inside \<and> word_front ks (c # cs) then 1 else 0) + count_words ks (word_char c) cs"

definition countOperations :: "string \<Rightarrow> nat" where
  "countOperations query = count_words [''query'', ''mutation'', ''subscription''] False query"

definition handleLinearGraphqlToolCall :: "'w linear_env \<Rightarrow> json option \<Rightarrow> 'w \<Rightarrow> json \<times> 'w" where
  "handleLinearGraphqlToolCall e args w =
     (case extractInput args of
        None \<Rightarrow> (toolCallFailure ''linear_graphql expects a query string or { query, variables } object'', w)
      | Some (query, variables) \<Rightarrow>
          if countOperations query \<noteq> 1 then (toolCallFailure ''linear_graphql requires exactly one operation'', w)
          else (case runGraphQL e query variables w of
                  (Inl err, w1) \<Rightarrow> (toolCallFailure (linear_error_text err), w1)
                | (Inr response, w1) \<Rightarrow>
                    (if elements (member (Some response) ''errors'') \<noteq> [] then toolCallErrorPayload response else toolCallSuccess response, w1)))"

section \<open>The tool providers\<close>

text \<open>Without a client the provider is \<open>NullTrackerToolProvider\<close>.\<close>

definition toolNames :: "'w linear_env option \<Rightarrow> string list" where
  "toolNames provider = (case provider of None \<Rightarrow> [] | Some _ \<Rightarrow> [''linear_graphql''])"

definition provider_handleToolCall :: "'w linear_env option \<Rightarrow> string \<Rightarrow> json option \<Rightarrow> 'w \<Rightarrow> json option \<times> 'w" where
  "provider_handleToolCall provider toolName args w =
     (case provider of
        None \<Rightarrow> (None, w)
      | Some e \<Rightarrow>
          if toolName \<noteq> ''linear_graphql'' then (None, w)
          else (case handleLinearGraphqlToolCall e args w of (response, w1) \<Rightarrow> (Some response, w1)))"

section \<open>linear-adapter.ts\<close>

datatype provision_input = ListProjects | SelectProject string | CreateProject string | CreateTestIssue | CreateLabel

datatype provision_result =
    ProjectOptions "linear_project_option list"
  | ProjectSelected
  | ProjectCreated linear_project_record
  | TestIssueCreated string string
  | LabelEnsured string string bool

definition linear_transitionIssue :: "'w linear_env \<Rightarrow> string \<Rightarrow> string \<Rightarrow> 'w \<Rightarrow> bool \<times> 'w" where
  "linear_transitionIssue e issueId stateId w =
     (case updateIssueStateStrict e issueId stateId w of (Inr _, w1) \<Rightarrow> (True, w1) | (Inl _, w1) \<Rightarrow> (False, w1))"

definition linear_createIssue ::
  "'w linear_env \<Rightarrow> string \<Rightarrow> string option \<Rightarrow> string option \<Rightarrow> (string \<times> string \<times> string option, 'w) lin" where
  "linear_createIssue e title description stateName = createIssue e title description stateName"

fun surfaced :: "linear_error \<Rightarrow> linear_error" where
  "surfaced (LinearClientError LinTransport m (Some cause)) = LinearOther cause"
| "surfaced err = err"

definition withProvisionErrorSurface :: "('a, 'w) lin \<Rightarrow> ('a, 'w) lin" where
  "withProvisionErrorSurface operation = io_catch operation (\<lambda>err. io_throw (surfaced err))"

definition linear_provision :: "'w linear_env \<Rightarrow> provision_input \<Rightarrow> (provision_result, 'w) lin" where
  "linear_provision e input =
     (case input of
        ListProjects \<Rightarrow> withProvisionErrorSurface (io_bind (listProjects e) (\<lambda>ps. io_return (ProjectOptions ps)))
      | SelectProject slugId \<Rightarrow> io_return ProjectSelected
      | CreateProject name \<Rightarrow> withProvisionErrorSurface (io_bind (createProject e name) (\<lambda>p. io_return (ProjectCreated p)))
      | CreateTestIssue \<Rightarrow>
          withProvisionErrorSurface (io_bind (createSetupTestIssue e) (\<lambda>(ident, url). io_return (TestIssueCreated ident url)))
      | CreateLabel \<Rightarrow>
          withProvisionErrorSurface (io_bind (ensureRisolutoLabel e) (\<lambda>(i, n, existed). io_return (LabelEnsured i n existed))))"

section \<open>github-adapter.ts\<close>

definition normalized_by :: "'w gh_issues \<Rightarrow> raw_github_issue \<Rightarrow> issue" where
  "normalized_by c raw =
     normalizeGitHubIssue raw (ts_owner (gi_tracker c)) (ts_repo (gi_tracker c)) (ts_activeStates (gi_tracker c))
       (ts_terminalStates (gi_tracker c))"

definition normalize_all :: "'w gh_issues \<Rightarrow> (raw_github_issue list, 'w) gh \<Rightarrow> (issue list, 'w) gh" where
  "normalize_all c m = io_bind m (\<lambda>raws. io_return (map (normalized_by c) raws))"

definition github_fetchCandidateIssues :: "'w gh_issues \<Rightarrow> (issue list, 'w) gh" where
  "github_fetchCandidateIssues c = normalize_all c (fetchOpenIssues c [])"

definition github_fetchIssueStatesByIds :: "'w gh_issues \<Rightarrow> string list \<Rightarrow> (issue list, 'w) gh" where
  "github_fetchIssueStatesByIds c ids = normalize_all c (fetchIssuesByNumbers c (List.map_filter (gi_number c) ids))"

definition github_fetchIssuesByStates :: "'w gh_issues \<Rightarrow> string list \<Rightarrow> (issue list, 'w) gh" where
  "github_fetchIssuesByStates c states = normalize_all c (fetchOpenIssues c states)"

definition github_resolveStateId :: "string \<Rightarrow> string option" where
  "github_resolveStateId stateName = truthy_string (Some stateName)"

definition gi_withRetry :: "'w gh_issues \<Rightarrow> (unit, 'w) gh \<Rightarrow> (unit, 'w) gh" where
  "gi_withRetry c m = withRetry (gi_pause c) 3 m"

definition github_updateIssueState :: "'w gh_issues \<Rightarrow> string \<Rightarrow> string \<Rightarrow> (unit, 'w) gh" where
  "github_updateIssueState c issueId stateId =
     (let n = gi_number c issueId
      in io_bind (gi_withRetry c (addLabel c n stateId))
           (\<lambda>_. if stateId \<in> set (ts_terminalStates (gi_tracker c)) then gi_withRetry c (closeIssue c n)
                else gi_withRetry c (reopenIssue c n)))"

definition github_createComment :: "'w gh_issues \<Rightarrow> string \<Rightarrow> string \<Rightarrow> (unit, 'w) gh" where
  "github_createComment c issueId body = gi_withRetry c (gi_createComment c (gi_number c issueId) body)"

definition default_state :: "'w gh_issues \<Rightarrow> string option" where
  "default_state c = (case ts_activeStates (gi_tracker c) of [] \<Rightarrow> None | s # _ \<Rightarrow> Some s)"

definition github_createIssue ::
  "'w gh_issues \<Rightarrow> string \<Rightarrow> string option \<Rightarrow> string option \<Rightarrow> (string \<times> string \<times> string option, 'w) gh" where
  "github_createIssue c title description stateName =
     (let chosen = truthy_string (case stateName of Some s \<Rightarrow> Some s | None \<Rightarrow> default_state c);
          labels = (case chosen of Some s \<Rightarrow> [s] | None \<Rightarrow> [])
      in io_bind (gi_createIssue c title description labels)
           (\<lambda>raw. let i = normalized_by c raw in io_return (issue_id i, issue_identifier i, issue_url i)))"

definition github_transitionIssue :: "'w gh_issues \<Rightarrow> string \<Rightarrow> string \<Rightarrow> 'w \<Rightarrow> bool \<times> 'w" where
  "github_transitionIssue c issueId stateId w =
     (case github_updateIssueState c issueId stateId w of (Inr _, w1) \<Rightarrow> (True, w1) | (Inl _, w1) \<Rightarrow> (False, w1))"

definition createTestIssue :: "'w gh_issues \<Rightarrow> (provision_result, 'w) gh" where
  "createTestIssue c =
     io_bind (github_createIssue c ''Risoluto smoke test''
         (Some (''This issue was created automatically to verify your Risoluto setup. '' @
            ''Risoluto should pick it up within one poll cycle and run a sandboxed agent.'')) (default_state c))
       (\<lambda>(_, identifier, url). io_return (TestIssueCreated identifier (coalesce url [])))"

definition createLabel :: "'w gh_issues \<Rightarrow> (provision_result, 'w) gh" where
  "createLabel c =
     io_bind (ensureLabel c ''risoluto'' ''2563eb'' ''Risoluto automation marker'')
       (\<lambda>(i, n, existed). io_return (LabelEnsured i (or_text n ''risoluto'') existed))"

definition github_provision :: "'w gh_issues \<Rightarrow> provision_input \<Rightarrow> (provision_result, 'w) gh" where
  "github_provision c input =
     (case input of
        ListProjects \<Rightarrow> io_return (ProjectOptions [])
      | SelectProject slugId \<Rightarrow> io_return ProjectSelected
      | CreateProject name \<Rightarrow> io_throw (GitHubOther ''GitHub tracker does not support project creation through setup'')
      | CreateTestIssue \<Rightarrow> createTestIssue c
      | CreateLabel \<Rightarrow> createLabel c)"

section \<open>factory.ts\<close>

datatype 'w tracker_backend = GitHubTracker "'w gh_issues" | LinearTracker "'w linear_env"

text \<open>The tracker, the provider of its tools, and the client kept for the webhooks.\<close>

definition createTracker ::
  "tracker_section \<Rightarrow> (tracker_section \<Rightarrow> 'w gh_issues) \<Rightarrow> (tracker_section \<Rightarrow> 'w linear_env) \<Rightarrow>
     'w tracker_backend \<times> 'w linear_env option \<times> 'w linear_env option" where
  "createTracker config github lin_client =
     (if ts_kind config = ''github'' then (GitHubTracker (github config), None, None)
      else let client = lin_client config in (LinearTracker client, Some client, Some client))"

definition tracker_transition :: "'w tracker_backend \<Rightarrow> string \<Rightarrow> string \<Rightarrow> 'w \<Rightarrow> bool \<times> 'w" where
  "tracker_transition t issueId stateId =
     (case t of GitHubTracker c \<Rightarrow> github_transitionIssue c issueId stateId | LinearTracker e \<Rightarrow> linear_transitionIssue e issueId stateId)"

end
