(* ===== verification/WebhookRegistrar.thy ===== *)
theory WebhookRegistrar
  imports Trackers
begin

text \<open>
  Registering the tracker's webhook: \<open>src/src/webhook/registrar.ts\<close>. The registration port and the secrets store are fields
  of the registrar; \<open>linear_registrar\<close> takes the port of the Linear client. What is logged is a note.
\<close>

section \<open>The registrar\<close>

datatype registrar_note =
    NoWebhookConfig
  | UrlNotRegistered
  | UrlNotVerified string
  | StoredNotVerified string
  | StoredStale
  | StoredActive string
  | ReEnabled string
  | ReEnableFailed string string
  | NoSigningSecret string
  | Registered string
  | NotPermitted string
  | RegistrationFailed string

record 'w registrar =
  rg_listWebhooks :: "(linear_webhook list, 'w) lin"
  rg_createWebhook :: "string \<Rightarrow> string list \<Rightarrow> string \<Rightarrow> (string \<times> string option, 'w) lin"
  rg_updateWebhook :: "string \<Rightarrow> bool \<Rightarrow> (unit, 'w) lin"
  rg_getSecret :: "'w \<Rightarrow> string option"
  rg_setSecret :: "string \<Rightarrow> (unit, 'w) lin"
  rg_onSecretResolved :: "string \<Rightarrow> 'w \<Rightarrow> 'w"
  rg_note :: "registrar_note \<Rightarrow> 'w \<Rightarrow> 'w"

definition noted :: "'w registrar \<Rightarrow> registrar_note \<Rightarrow> (unit, 'w) lin" where
  "noted r n w = (Inr (), rg_note r n w)"

definition resolving :: "'w registrar \<Rightarrow> string \<Rightarrow> (unit, 'w) lin" where
  "resolving r secret w = (Inr (), rg_onSecretResolved r secret w)"

definition hook_for :: "webhook_section \<Rightarrow> linear_webhook list \<Rightarrow> linear_webhook option" where
  "hook_for config webhooks = List.find (\<lambda>h. lw_url h = wb_webhookUrl config) webhooks"

definition useConfigSecret :: "'w registrar \<Rightarrow> webhook_section \<Rightarrow> (unit, 'w) lin" where
  "useConfigSecret r config =
     io_bind (resolving r (wb_webhookSecret config))
       (\<lambda>_. io_catch
          (io_bind (rg_listWebhooks r)
             (\<lambda>webhooks. if hook_for config webhooks = None then noted r UrlNotRegistered else io_return ()))
          (\<lambda>err. noted r (UrlNotVerified (linear_error_text err))))"

text \<open>The answer of the list, or what it threw.\<close>

definition attempted :: "('a, 'w) lin \<Rightarrow> (linear_error + 'a, 'w) lin" where
  "attempted m w = (case m w of (x, w1) \<Rightarrow> (Inr x, w1))"

definition useStoredSecret :: "'w registrar \<Rightarrow> webhook_section \<Rightarrow> string \<Rightarrow> (bool, 'w) lin" where
  "useStoredSecret r config storedSecret =
     io_bind (attempted (rg_listWebhooks r))
       (\<lambda>listed. case listed of
          Inl err \<Rightarrow>
            io_bind (noted r (StoredNotVerified (linear_error_text err)))
              (\<lambda>_. io_bind (resolving r storedSecret) (\<lambda>_. io_return True))
        | Inr webhooks \<Rightarrow>
            (case hook_for config webhooks of
               None \<Rightarrow> io_bind (noted r StoredStale) (\<lambda>_. io_return False)
             | Some h \<Rightarrow>
                 if lw_enabled h
                 then io_bind (noted r (StoredActive (lw_id h))) (\<lambda>_. io_bind (resolving r storedSecret) (\<lambda>_. io_return True))
                 else io_catch
                        (io_bind (rg_updateWebhook r (lw_id h) True)
                           (\<lambda>_. io_bind (noted r (ReEnabled (lw_id h)))
                              (\<lambda>_. io_bind (resolving r storedSecret) (\<lambda>_. io_return True))))
                        (\<lambda>err. io_bind (noted r (ReEnableFailed (lw_id h) (linear_error_text err))) (\<lambda>_. io_return False))))"

definition autoCreate :: "'w registrar \<Rightarrow> webhook_section \<Rightarrow> (unit, 'w) lin" where
  "autoCreate r config =
     io_bind (rg_createWebhook r (wb_webhookUrl config) [''Issue'', ''Comment''] ''Risoluto'')
       (\<lambda>(i, created). case truthy_string created of
          None \<Rightarrow> noted r (NoSigningSecret i)
        | Some secret \<Rightarrow>
            io_bind (rg_setSecret r secret) (\<lambda>_. io_bind (resolving r secret) (\<lambda>_. noted r (Registered i))))"

definition resolveSecret :: "'w registrar \<Rightarrow> webhook_section \<Rightarrow> (unit, 'w) lin" where
  "resolveSecret r config =
     (if wb_webhookSecret config \<noteq> [] then useConfigSecret r config
      else (\<lambda>w. case truthy_string (rg_getSecret r w) of
              Some storedSecret \<Rightarrow>
                io_bind (useStoredSecret r config storedSecret) (\<lambda>resolved. if resolved then io_return () else autoCreate r config) w
            | None \<Rightarrow> autoCreate r config w))"

fun isPermissionError :: "linear_error \<Rightarrow> bool" where
  "isPermissionError (LinearClientError LinHttp m cause) = (0 < count_words [''401'', ''403''] False m)"
| "isPermissionError (LinearClientError LinGraphql m cause) =
     list_ex (str_includes (js_lower m)) [''unauthorized'', ''forbidden'', ''permission'', ''not authorized'']"
| "isPermissionError err = False"

definition registration_error :: "linear_error \<Rightarrow> registrar_note" where
  "registration_error err = (if isPermissionError err then NotPermitted (linear_error_text err) else RegistrationFailed (linear_error_text err))"

definition register :: "'w registrar \<Rightarrow> webhook_section option \<Rightarrow> 'w \<Rightarrow> 'w" where
  "register r config w =
     (case config of
        None \<Rightarrow> rg_note r NoWebhookConfig w
      | Some c \<Rightarrow>
          (case resolveSecret r c w of
             (Inr _, w1) \<Rightarrow> w1
           | (Inl err, w1) \<Rightarrow> rg_note r (registration_error err) w1))"

text \<open>The registration port that the Linear client is.\<close>

definition linear_registrar ::
  "'w linear_env \<Rightarrow> ('w \<Rightarrow> string option) \<Rightarrow> (string \<Rightarrow> (unit, 'w) lin) \<Rightarrow> (string \<Rightarrow> 'w \<Rightarrow> 'w) \<Rightarrow>
     (registrar_note \<Rightarrow> 'w \<Rightarrow> 'w) \<Rightarrow> 'w registrar" where
  "linear_registrar e getSecret setSecret resolved note =
     \<lparr>rg_listWebhooks = listWebhooks e,
      rg_createWebhook = (\<lambda>url types label. createWebhook e url None types (Some label) None),
      rg_updateWebhook = (\<lambda>i on. updateWebhook e i [(''enabled'', JBool on)]),
      rg_getSecret = getSecret, rg_setSecret = setSecret, rg_onSecretResolved = resolved, rg_note = note\<rparr>"

end
