(* ===== verification/TrackerClaims.thy ===== *)
theory TrackerClaims
  imports WebhookRegistrar LinearClaims
begin

text \<open>What the trackers promise behind their common port, and where a promise of the port does not reach.\<close>

section \<open>Transitions\<close>

text \<open>
  A transition of a GitHub issue is always answered with success: both of its writes are retried and their failures
  swallowed, so the answer does not depend on whether a label was added or the issue closed. The port says that the
  answer tells whether the transition succeeded.
\<close>

lemma github_transition_always_succeeds: "fst (github_transitionIssue c issueId stateId w) = True"
proof -
  have quiet: "\<exists>w'. gi_withRetry c m w = (Inr (), w')" for m w
    using void_retry_never_fails [of "gi_pause c" 3 m w] by (metis gi_withRetry_def prod.collapse)
  let ?n = "gi_number c issueId"
  let ?last = "if stateId \<in> set (ts_terminalStates (gi_tracker c)) then gi_withRetry c (closeIssue c ?n) else gi_withRetry c (reopenIssue c ?n)"
  obtain w1 where w1: "gi_withRetry c (addLabel c ?n stateId) w = (Inr (), w1)" using quiet by blast
  obtain w2 where w2: "?last w1 = (Inr (), w2)" using quiet by (cases "stateId \<in> set (ts_terminalStates (gi_tracker c))") auto
  have "github_updateIssueState c issueId stateId w = (Inr (), w2)"
    unfolding github_updateIssueState_def Let_def io_bind_def w1 prod.case sum.case by (rule w2)
  then show ?thesis unfolding github_transitionIssue_def by (simp only: prod.case sum.case unit.case fst_conv)
qed

definition is_state :: "'w gh_issues \<Rightarrow> string \<Rightarrow> bool" where
  "is_state c name \<longleftrightarrow> name \<in> set (ts_activeStates (gi_tracker c) @ ts_terminalStates (gi_tracker c))"

lemma find_append: "List.find P (xs @ ys) = (case List.find P xs of Some x \<Rightarrow> Some x | None \<Rightarrow> List.find P ys)"
  by (induction xs) auto

text \<open>
  Adding the label of the new state does not change the state of an issue that still has the label of another: the first
  label that names a state decides, and a transition removes none.
\<close>

theorem added_label_hidden:
  assumes "List.find (is_state c) (ri_labels raw) = Some old"
  shows "issue_state (normalized_by c (raw\<lparr>ri_labels := ri_labels raw @ added\<rparr>)) = old"
  using assms by (simp add: normalized_by_def normalizeGitHubIssue_def is_state_def [abs_def] find_append)

definition sample_tracker :: tracker_section where
  "sample_tracker =
     \<lparr>ts_kind = ''github'', ts_apiKey = [], ts_endpoint = [], ts_projectSlug = None, ts_owner = ''o'', ts_repo = ''r'',
      ts_activeStates = [''todo'', ''doing''], ts_terminalStates = [''done'']\<rparr>"

definition sample_github :: "nat gh_issues" where
  "sample_github =
     \<lparr>gi_fetch = (\<lambda>_ _ _ _ n. (NetworkFailure ''down'', n + 1)), gi_env = (\<lambda>_. None), gi_graphqlEndpoint = [], gi_tracker = sample_tracker,
      gi_configToken = Some ''t'', gi_encode = id, gi_number = (\<lambda>_. Some 7), gi_pause = (\<lambda>_ n. n)\<rparr>"

definition sample_raw :: raw_github_issue where
  "sample_raw =
     \<lparr>ri_number = 7, ri_title = ''t'', ri_body = None, ri_state = ''open'', ri_labels = [''bug'', ''todo''], ri_html_url = None,
      ri_created_at = None, ri_updated_at = None\<rparr>"

theorem added_label_hidden_witness:
  "issue_state (normalized_by sample_github (sample_raw\<lparr>ri_labels := [''bug'', ''todo'', ''done'']\<rparr>)) = ''todo''"
  using added_label_hidden [of sample_github sample_raw "''todo''" "[''done'']"]
  by (simp add: sample_raw_def is_state_def sample_github_def sample_tracker_def)

text \<open>Whether GitHub has an issue open or closed does not enter its state: without a label that names a state it is open.\<close>

theorem closed_without_label_is_open:
  assumes "List.find (is_state c) (ri_labels raw) = None"
  shows "issue_state (normalized_by c (raw\<lparr>ri_state := s\<rparr>)) = ''open''"
  using assms by (simp add: normalized_by_def normalizeGitHubIssue_def is_state_def [abs_def])

theorem closed_without_label_is_open_witness:
  "issue_state (normalized_by sample_github (sample_raw\<lparr>ri_labels := [], ri_state := ''closed''\<rparr>)) = ''open''"
  using closed_without_label_is_open [of sample_github "sample_raw\<lparr>ri_labels := []\<rparr>" "''closed''"] by simp

section \<open>The tools of the agent\<close>

text \<open>
  An answer with errors never reaches the agent with them: the client throws before the tool looks for errors, so the
  agent reads only that there were some.
\<close>

theorem graphql_errors_not_shown:
  assumes "extractInput args = Some (query, variables)" "countOperations query = 1"
    and "requestGraphQL e query variables w = (Inr payload, w1)" "payload \<noteq> JNull" "elements (member (Some payload) ''errors'') \<noteq> []"
  shows "handleLinearGraphqlToolCall e args w = (toolCallFailure ''linear graphql response contained errors'', w1)"
  using assms by (simp add: handleLinearGraphqlToolCall_def runGraphQL_def check_payload_def)

definition erring_linear :: "nat linear_env" where
  "erring_linear =
     \<lparr>le_tracker = sample_tracker,
      le_fetch = (\<lambda>_ _ _ _ n. (HttpReply 200 True [] (Some (JObj [(''errors'', JArr [JObj [(''message'', JStr ''no such field'')]])])), n + 1)),
      le_pause = (\<lambda>_ n. n)\<rparr>"

theorem graphql_errors_not_shown_witness:
  "handleLinearGraphqlToolCall erring_linear (Some (JStr ''query { x }'')) 0 = (toolCallFailure ''linear graphql response contained errors'', 1)"
proof (rule graphql_errors_not_shown [where query = "''query { x }''" and variables = None and
      payload = "JObj [(''errors'', JArr [JObj [(''message'', JStr ''no such field'')]])]"])
  show "countOperations ''query { x }'' = 1" by code_simp
qed (simp_all add: extractInput_def requestGraphQL_def erring_linear_def member_def asRecord_def omap_get_def elements_def)

text \<open>
  The tool counts words, not operations: the short form of a query, which has no keyword, is refused, and so is a query with
  a variable named query; two operations are refused as they should be.
\<close>

theorem operations_counted_as_words:
  "countOperations ''{ viewer { id } }'' = 0 \<and> countOperations ''query Q($query: String) { s(q: $query) { id } }'' = 3 \<and>
   countOperations ''query A { a } mutation B { b }'' = 2 \<and> countOperations ''query A { mutations }'' = 1"
  by code_simp

text \<open>
  A GitHub tool call that is not well formed answers with a failure and asks the network nothing; a well formed one names a
  positive pull request and an owner and a repository that are neither empty nor padded.
\<close>

definition plain_text :: "string \<Rightarrow> bool" where
  "plain_text t \<longleftrightarrow> t \<noteq> [] \<and> js_trim t = t"

lemma tool_text_plain: "tool_text v = Some t \<Longrightarrow> plain_text t"
  by (auto simp: tool_text_def truthy_string_def plain_text_def split: if_splits option.splits)

fun input_ok :: "github_tool_input \<Rightarrow> bool" where
  "input_ok (AddPrComment own repo n body) = (plain_text own \<and> plain_text repo \<and> 0 < n \<and> plain_text body)"
| "input_ok (GetPrStatus own repo n) = (plain_text own \<and> plain_text repo \<and> 0 < n)"

lemma asPullNumber_pos: "asPullNumber v = Some n \<Longrightarrow> 0 < n"
  by (auto simp: asPullNumber_def split: option.splits if_splits)

theorem tool_input_checked:
  "case parseToolInput args of Inr input \<Rightarrow> input_ok input | Inl m \<Rightarrow> handleGithubApiToolCall c args w = (toolCallFailure m, w)"
  by (auto simp: parseToolInput_def handleGithubApiToolCall_def tool_text_plain asPullNumber_pos split: sum.split option.split)

section \<open>Pull requests\<close>

lemma segment: "CHR ''/'' \<notin> set t \<Longrightarrow> split_on CHR ''/'' t = [t]"
  by (rule split_on_no_sep)

lemma owner_and_repo_pair:
  assumes "own \<noteq> []" "repo \<noteq> []" "CHR ''/'' \<notin> set own" "CHR ''/'' \<notin> set repo"
  shows "owner_and_repo (own @ ''/'' @ repo) = Some (own, repo)"
  using assms by (simp add: owner_and_repo_def split_on_append segment)

lemma trim_ends:
  assumes "\<not> is_js_space (hd t)" "\<not> is_js_space (last t)" "t \<noteq> []"
  shows "js_trim t = t"
proof -
  have "dropWhile is_js_space t = t" "dropWhile is_js_space (rev t) = rev t"
    using assms by (simp_all add: dropWhile_eq_self_iff hd_rev)
  then show ?thesis by (simp add: js_trim_def)
qed

lemma ends_with_append [simp]: "ends_with suf (t @ suf)"
  by (auto simp: ends_with_def starts_with_iff)

text \<open>
  C29: The owner and the repository are read back from the address of a GitHub clone, with the scheme in any mix of case, over
  https and over ssh.
\<close>

theorem parse_repo_roundtrip:
  assumes "own \<noteq> []" "repo \<noteq> []" "CHR ''/'' \<notin> set own" "CHR ''/'' \<notin> set repo"
    and "js_lower pre \<in> {''https://github.com/'', ''git@github.com:''}"
  shows "parseGithubRepo (pre @ own @ ''/'' @ repo @ ''.git'') = Some (own, repo)"
proof -
  let ?body = "own @ ''/'' @ repo" and ?url = "pre @ own @ ''/'' @ repo @ ''.git''"
  have pre: "pre \<noteq> []" using assms(5) by auto
  have len: "length (js_lower p) = length p" for p by (simp add: js_lower_def)
  have sp: "is_js_space (lower_char c) = is_js_space c" for c using list_all_space_lower [of "[c]"] by (simp add: js_lower_def)
  have "\<not> is_js_space (hd (js_lower pre))" using assms(5) by (auto simp: is_js_space_def)
  then have "\<not> is_js_space (hd pre)" using pre by (cases pre) (simp_all add: js_lower_def sp)
  then have trim: "js_trim ?url = ?url" using pre by (intro trim_ends) (simp_all add: is_js_space_def)
  have cut: "(if ends_with ''.git'' ?url then take (length ?url - 4) ?url else ?url) = pre @ ?body"
    using ends_with_append [of "''.git''" "pre @ ?body"] by (simp add: take_append)
  have drop: "drop_prefix_ci p (pre @ ?body) = (if js_lower (take (length p) (pre @ ?body)) = p then Some (drop (length p) (pre @ ?body)) else None)" for p
    by (simp add: drop_prefix_ci_def)
  have hit: "drop_prefix_ci (js_lower pre) (pre @ ?body) = Some ?body" by (simp add: drop_prefix_ci_def len)
  have pair: "owner_and_repo ?body = Some (own, repo)" by (rule owner_and_repo_pair [OF assms(1-4)])
  have miss: "drop_prefix_ci p (pre @ ?body) = None" if "hd p \<noteq> hd (js_lower pre)" "p \<noteq> []" for p
  proof -
    have "hd (js_lower (take (length p) (pre @ ?body))) = hd (js_lower pre)" using pre that(2) by (cases pre; cases p) (simp_all add: js_lower_def)
    then show ?thesis using that by (auto simp: drop_prefix_ci_def)
  qed
  have norm: "parseGithubRepo ?url = List.find (\<lambda>_. True) (List.map_filter (\<lambda>p. Option.bind (drop_prefix_ci p (pre @ ?body)) owner_and_repo)
           [''https://github.com/'', ''http://github.com/'', ''git@github.com:''])"
    unfolding parseGithubRepo_def Let_def trim cut ..
  show ?thesis
  proof (cases "js_lower pre = ''https://github.com/''")
    case True
    then show ?thesis unfolding norm using hit pair by (simp add: List.map_filter_def)
  next
    case False
    then have g: "js_lower pre = ''git@github.com:''" using assms(5) by simp
    then have "drop_prefix_ci ''https://github.com/'' (pre @ ?body) = None" "drop_prefix_ci ''http://github.com/'' (pre @ ?body) = None"
      using miss [of "''https://github.com/''"] miss [of "''http://github.com/''"] by simp_all
    then show ?thesis unfolding norm using hit pair g by (simp add: List.map_filter_def)
  qed
qed

theorem parse_repo_roundtrip_witness: "parseGithubRepo ''HTTPS://GitHub.com/o/r.git'' = Some (''o'', ''r'')"
proof -
  have "js_lower ''HTTPS://GitHub.com/'' = ''https://github.com/''" by code_simp
  then show ?thesis using parse_repo_roundtrip [of "''o''" "''r''" "''HTTPS://GitHub.com/''"] by simp
qed

text \<open>
  When GitHub already has an open pull request for the branch, creating one answers with that pull request.
\<close>

theorem duplicate_pull_request_found:
  assumes "rm_githubOwner route = Some own" "rm_githubRepo route = Some repo" "own \<noteq> []" "repo \<noteq> []"
    and "githubRequest c (repo_route own repo @ ''/pulls'') ''POST''
        (Some (JObj [(''title'', JStr (issue_identifier i @ '': '' @ issue_title i)), (''head'', JStr branchName),
           (''base'', JStr (rm_defaultBranch route)), (''body'', JStr (buildPrBody (issue_url i) summary))]))
        (Some (or_text (rm_githubTokenEnv route) (gp_tokenEnv c))) w = (Inl err, mid)" "isDuplicatePrError err"
    and "githubRequest c (repo_route own repo @ ''/pulls'' @ ''?head='' @ own @ '':'' @ branchName @ ''&state=open'') ''GET'' None
        (Some (or_text (rm_githubTokenEnv route) (gp_tokenEnv c))) mid = (Inr (Some (JArr (pr # others))), w2)"
    and "isPrCreateResult (Some pr)"
  shows "createPullRequest c route i branchName summary w = (Inr (Some pr), w2)"
  using assms
  by (simp add: createPullRequest_def truthy_string_def Let_def elements_def first_of_def)

definition sample_pr :: json where
  "sample_pr = JObj [(''html_url'', JStr ''u''), (''number'', JNum 5), (''state'', JStr ''open'')]"

definition taken_branch :: "nat gh_prs" where
  "taken_branch =
     \<lparr>gp_transport =
        \<lparr>gt_fetch = (\<lambda>_ http_method _ _ n.
             if http_method = ''POST''
             then (HttpReply 422 False ''x'' (Some (JObj [(''message'', JStr ''A pull request already exists'')])), n + 1)
             else (HttpReply 200 True ''x'' (Some (JArr [sample_pr])), n + 1)),
         gt_env = (\<lambda>_. Some ''t''), gt_apiBaseUrl = [], gt_graphqlEndpoint = [], gt_defaultTokenEnv = [],
         gt_authorizationHeaderName = ''authorization'', gt_authorizationScheme = ''Bearer'', gt_defaultHeaders = [], gt_allowMissingToken = False\<rparr>,
      gp_tokenEnv = ''GITHUB_TOKEN''\<rparr>"

definition sample_match :: repo_match where
  "sample_match = \<lparr>rm_repoUrl = [], rm_defaultBranch = ''main'', rm_githubOwner = Some ''o'', rm_githubRepo = Some ''r'', rm_githubTokenEnv = []\<rparr>"

lemma taken_request: "githubRequest taken_branch path http_method body env w =
    (if http_method = ''POST'' then (Inl (GitHubApiError 422 (Some (JObj [(''message'', JStr ''A pull request already exists'')]))), w + 1)
     else (Inr (Some (JArr [sample_pr])), w + 1))"
  by (simp add: githubRequest_def transport_request_def transport_send_def buildHeaders_def resolveToken_def taken_branch_def
      spread_onto_def reply_payload_def readGitHubPayload_def Let_def)

lemma taken_duplicate: "isDuplicatePrError (GitHubApiError 422 (Some (JObj [(''message'', JStr ''A pull request already exists'')])))"
  by (simp add: says_already_exists_def member_def asRecord_def omap_get_def asString_def)

lemma sample_is_pr: "isPrCreateResult (Some sample_pr)"
  by (simp add: isPrCreateResult_def open_or_closed_def sample_pr_def member_def asRecord_def omap_get_def asString_def asNumber_def)

theorem duplicate_pull_request_found_witness:
  "createPullRequest taken_branch sample_match (normalized_by sample_github sample_raw) ''b'' None 0 = (Inr (Some sample_pr), 2)"
proof (rule duplicate_pull_request_found [where own = "''o''" and repo = "''r''" and others = "[]"
      and err = "GitHubApiError 422 (Some (JObj [(''message'', JStr ''A pull request already exists'')]))" and mid = 1])
qed (simp_all add: taken_request sample_match_def taken_duplicate sample_is_pr del: isDuplicatePrError.simps)

end
