(* ===== verification/ReviewClaims.thy ===== *)
theory ReviewClaims
  imports TrackerClaims
begin

text \<open>What is promised of review feedback and of the registration of webhooks.\<close>

section \<open>Review feedback\<close>

text \<open>
  Reviews and comments are read under the name GitHub's REST interface gives their author, which the output of the command
  that is run does not have: every reviewer of such an output is unknown.
\<close>

theorem reviewers_unknown:
  assumes "list_all (\<lambda>item. member (Some item) ''user'' = None) items"
  shows "list_all (\<lambda>r. rv_author r = ''unknown'') (parseReviews (Some (JArr items))) \<and>
    list_all (\<lambda>r. cm_author r = ''unknown'') (parseComments (Some (JArr items)))"
  using assms
  by (auto simp: parseReviews_def parseComments_def elements_def List.map_filter_def list_all_iff login_of_def member_def asRecord_def
      omap_get_def asString_def split: option.splits)

definition cli_review :: json where
  "cli_review = JObj [(''author'', JObj [(''login'', JStr ''ada'')]), (''state'', JStr ''APPROVED''), (''body'', JStr ''fine'')]"

theorem reviewers_unknown_witness: "map rv_author (parseReviews (Some (JArr [cli_review]))) = [''unknown'']"
proof -
  have "list_all (\<lambda>item. member (Some item) ''user'' = None) [cli_review]"
    by (simp add: cli_review_def member_def asRecord_def omap_get_def)
  from reviewers_unknown [OF this] have "list_all (\<lambda>r. rv_author r = ''unknown'') (parseReviews (Some (JArr [cli_review])))" by simp
  moreover have "length (parseReviews (Some (JArr [cli_review]))) = 1" by code_simp
  ultimately show ?thesis by (cases "parseReviews (Some (JArr [cli_review]))") auto
qed

text \<open>
  Only reviews and comments that say something are kept, with the blanks at their ends gone and in one of the three known
  states, and feedback has a text exactly when it has an entry.
\<close>

theorem feedback_says_something:
  "list_all (\<lambda>r. plain_text (rv_body r) \<and> rv_state r \<in> {''APPROVED'', ''CHANGES_REQUESTED'', ''COMMENTED''}) (parseReviews a) \<and>
   list_all (\<lambda>r. plain_text (cm_body r)) (parseComments b) \<and> list_all (\<lambda>r. plain_text (in_body r)) (parseInlineComments d) \<and>
   (formatPRFeedbackForPrompt fb = []) = (rf_reviews fb = [] \<and> rf_comments fb = [] \<and> rf_inlineComments fb = [])"
proof (intro conjI)
  have body: "plain_text t" if "body_text v = Some t" for v t
    using that by (auto simp: body_text_def truthy_string_def plain_text_def split: if_splits option.splits)
  have state: "s' \<in> {''APPROVED'', ''CHANGES_REQUESTED'', ''COMMENTED''}" if "known_review_state s = Some s'" for s s'
    using that by (auto simp: known_review_state_def split: if_splits)
  show "list_all (\<lambda>r. plain_text (rv_body r) \<and> rv_state r \<in> {''APPROVED'', ''CHANGES_REQUESTED'', ''COMMENTED''}) (parseReviews a)"
    unfolding parseReviews_def List.map_filter_def list_all_iff
    by (auto dest: body state split: option.splits)
  show "list_all (\<lambda>r. plain_text (cm_body r)) (parseComments b)"
    by (auto simp: parseComments_def List.map_filter_def list_all_iff dest: body)
  show "list_all (\<lambda>r. plain_text (in_body r)) (parseInlineComments d)"
    by (auto simp: parseInlineComments_def parseThreadComment_def List.map_filter_def list_all_iff dest: body)
  have "join sep (x # y # xs) \<noteq> []" if "x \<noteq> []" for sep x y :: string and xs
    using that by (cases x) simp_all
  then show "(formatPRFeedbackForPrompt fb = []) = (rf_reviews fb = [] \<and> rf_comments fb = [] \<and> rf_inlineComments fb = [])"
    by (auto simp: formatPRFeedbackForPrompt_def)
qed

section \<open>Registering the webhook\<close>

text \<open>The network, the stored secret, the secrets given to the rest of the program, and what was noted.\<close>

record 'w registration_world =
  rw_net :: 'w
  rw_stored :: "string option"
  rw_resolved :: "string list"
  rw_notes :: "registrar_note list"

definition on_net :: "('a, 'w) lin \<Rightarrow> ('a, 'w registration_world) lin" where
  "on_net m w = (case m (rw_net w) of (r, n) \<Rightarrow> (r, w\<lparr>rw_net := n\<rparr>))"

text \<open>A registrar on the Linear client; \<open>disk\<close> is what storing a secret throws, if anything.\<close>

definition live_registrar :: "'w linear_env \<Rightarrow> linear_error option \<Rightarrow> 'w registration_world registrar" where
  "live_registrar e disk =
     \<lparr>rg_listWebhooks = on_net (listWebhooks e),
      rg_createWebhook = (\<lambda>url types label. on_net (createWebhook e url None types (Some label) None)),
      rg_updateWebhook = (\<lambda>i on. on_net (updateWebhook e i [(''enabled'', JBool on)])),
      rg_getSecret = rw_stored,
      rg_setSecret = (\<lambda>s w. case disk of Some err \<Rightarrow> (Inl err, w) | None \<Rightarrow> (Inr (), w\<lparr>rw_stored := Some s\<rparr>)),
      rg_onSecretResolved = (\<lambda>s w. w\<lparr>rw_resolved := rw_resolved w @ [s]\<rparr>),
      rg_note = (\<lambda>n w. w\<lparr>rw_notes := rw_notes w @ [n]\<rparr>)\<rparr>"

text \<open>A step gives out nothing and leaves the store as it is, or it gives out one secret, which the store holds after it.\<close>

definition quiet_step :: "'w registration_world \<Rightarrow> 'w registration_world \<Rightarrow> bool" where
  "quiet_step w w' \<longleftrightarrow> rw_resolved w' = rw_resolved w \<and> rw_stored w' = rw_stored w"

definition gives :: "string \<Rightarrow> 'w registration_world \<Rightarrow> 'w registration_world \<Rightarrow> bool" where
  "gives s w w' \<longleftrightarrow> s \<noteq> [] \<and> rw_resolved w' = rw_resolved w @ [s] \<and> rw_stored w' = Some s"

lemmas registrar_defs = live_registrar_def on_net_def noted_def resolving_def quiet_step_def gives_def

lemma updates_never_fail: "\<exists>n'. updateWebhook e i vs n = (Inr (), n')"
  using void_retry_never_fails [of "le_pause e" 3 "io_bind (gql e buildWebhookUpdateMutation ((''id'', JStr i) # vs)) (\<lambda>_. io_return ())" n]
  by (metis swallowed_def updateWebhook_def prod.collapse)

lemma useStoredSecret_live:
  assumes "rw_stored w = Some s" "s \<noteq> []"
  shows "\<exists>b w'. useStoredSecret (live_registrar e disk) config s w = (Inr b, w') \<and> (if b then gives s w w' else quiet_step w w')"
proof -
  obtain x n where ls: "listWebhooks e (rw_net w) = (x, n)" by (metis surj_pair)
  show ?thesis
  proof (cases x)
    case (Inl err)
    then show ?thesis using assms by (intro exI [of _ True]) (simp add: useStoredSecret_def attempted_def registrar_defs ls)
  next
    case (Inr hooks)
    show ?thesis
    proof (cases "hook_for config hooks")
      case None
      then show ?thesis using assms Inr by (intro exI [of _ False]) (simp add: useStoredSecret_def attempted_def registrar_defs ls)
    next
      case (Some h)
      obtain n' where "updateWebhook e (lw_id h) [(''enabled'', JBool True)] n = (Inr (), n')"
        using updates_never_fail [of e "lw_id h" "[(''enabled'', JBool True)]" n] by blast
      then show ?thesis using assms Inr Some
        by (intro exI [of _ True], cases "lw_enabled h") (simp_all add: useStoredSecret_def attempted_def registrar_defs ls)
    qed
  qed
qed

lemma autoCreate_live: "autoCreate (live_registrar e disk) config w = (x, w') \<Longrightarrow> quiet_step w w' \<or> (\<exists>s. gives s w w')"
  by (auto simp: autoCreate_def registrar_defs truthy_string_def split: prod.splits sum.splits option.splits if_splits)

lemma useConfigSecret_live: "\<exists>w'. useConfigSecret (live_registrar e disk) config w = (Inr (), w') \<and>
    rw_resolved w' = rw_resolved w @ [wb_webhookSecret config] \<and> rw_stored w' = rw_stored w"
proof -
  obtain x n where "listWebhooks e (rw_net w) = (x, n)" by (metis surj_pair)
  then show ?thesis by (cases x) (simp_all add: useConfigSecret_def registrar_defs)
qed

lemma register_step:
  assumes "resolveSecret r config w = (x, w1)"
  shows "register r (Some config) w = (case x of Inr _ \<Rightarrow> w1 | Inl err \<Rightarrow> rg_note r (registration_error err) w1)"
  using assms by (cases x) (simp_all add: register_def)

lemma note_live: "rw_resolved (rg_note (live_registrar e disk) n w) = rw_resolved w" "rw_stored (rg_note (live_registrar e disk) n w) = rw_stored w"
  by (simp_all add: live_registrar_def)

lemma get_live: "rg_getSecret (live_registrar e disk) w = rw_stored w"
  by (simp add: live_registrar_def)

lemma resolveSecret_live:
  assumes "resolveSecret (live_registrar e disk) config w = (x, w1)" "wb_webhookSecret config = []"
  shows "quiet_step w w1 \<or> (\<exists>s. gives s w w1)"
proof (cases "truthy_string (rw_stored w)")
  case None
  then show ?thesis using assms autoCreate_live [of e disk config w x w1] by (simp add: resolveSecret_def get_live)
next
  case (Some s)
  then have s: "rw_stored w = Some s" "s \<noteq> []" by (auto simp: truthy_string_def split: option.splits if_splits)
  obtain b w0 where u: "useStoredSecret (live_registrar e disk) config s w = (Inr b, w0)" "if b then gives s w w0 else quiet_step w w0"
    using useStoredSecret_live [OF s] by blast
  show ?thesis
  proof (cases b)
    case True
    then show ?thesis using assms u Some by (auto simp: resolveSecret_def get_live)
  next
    case False
    then have "autoCreate (live_registrar e disk) config w0 = (x, w1)" "quiet_step w w0"
      using assms u Some by (simp_all add: resolveSecret_def get_live)
    then show ?thesis using autoCreate_live [of e disk config w0 x w1] by (auto simp: quiet_step_def gives_def)
  qed
qed

text \<open>
  C27: Registration gives the rest of the program at most one signing secret. It is the configured one, when there is one, and
  otherwise the one that the secrets store holds afterwards, so the next start verifies signatures with the same secret.
\<close>

theorem registered_secret_is_stored:
  "let w' = register (live_registrar e disk) (Some config) w
   in \<exists>l \<in> {[], [if wb_webhookSecret config = [] then the (rw_stored w') else wb_webhookSecret config]}. rw_resolved w' = rw_resolved w @ l"
proof -
  define w' where "w' = register (live_registrar e disk) (Some config) w"
  obtain x w1 where r: "resolveSecret (live_registrar e disk) config w = (x, w1)" by (metis surj_pair)
  have same: "rw_resolved w' = rw_resolved w1" "rw_stored w' = rw_stored w1"
    by (simp_all add: w'_def register_step [OF r] note_live split: sum.split)
  show ?thesis
  proof (cases "wb_webhookSecret config = []")
    case True
    show ?thesis using resolveSecret_live [OF r True] True by (auto simp: Let_def same quiet_step_def gives_def simp flip: w'_def)
  next
    case False
    then show ?thesis using useConfigSecret_live [of e disk config w] r
      by (auto simp: Let_def same resolveSecret_def simp flip: w'_def)
  qed
qed

text \<open>A configured secret is in use after registration whatever the tracker answers.\<close>

theorem manual_secret_always_used:
  assumes "wb_webhookSecret config \<noteq> []"
  shows "rw_resolved (register (live_registrar e disk) (Some config) w) = rw_resolved w @ [wb_webhookSecret config]"
proof -
  obtain w' where "useConfigSecret (live_registrar e disk) config w = (Inr (), w')" "rw_resolved w' = rw_resolved w @ [wb_webhookSecret config]"
    using useConfigSecret_live by blast
  then show ?thesis using assms by (simp add: register_def resolveSecret_def)
qed

text \<open>
  C31: A disabled webhook is reported as enabled again whether or not the tracker enabled it, because the client swallows the
  failure of the update; the branch that would register a new webhook is never taken.
\<close>

theorem reenable_failure_unnoticed:
  assumes "wb_webhookSecret config = []" "rw_stored w = Some s" "s \<noteq> []"
    and "listWebhooks e (rw_net w) = (Inr hooks, mid)" "hook_for config hooks = Some h" "\<not> lw_enabled h"
  shows "rw_resolved (register (live_registrar e disk) (Some config) w) = rw_resolved w @ [s] \<and>
    rw_notes (register (live_registrar e disk) (Some config) w) = rw_notes w @ [ReEnabled (lw_id h)]"
proof -
  obtain n' where "updateWebhook e (lw_id h) [(''enabled'', JBool True)] mid = (Inr (), n')"
    using updates_never_fail [of e "lw_id h" "[(''enabled'', JBool True)]" mid] by blast
  then show ?thesis using assms
    by (simp add: register_def resolveSecret_def useStoredSecret_def attempted_def registrar_defs truthy_string_def)
qed

definition hooks_reply :: json where
  "hooks_reply = JObj [(''data'', JObj [(''webhooks'', JObj [(''nodes'', JArr [JObj [(''id'', JStr ''h''), (''url'', JStr ''u''),
     (''enabled'', JBool False)]])])])]"

definition readonly_linear :: "nat linear_env" where
  "readonly_linear =
     \<lparr>le_tracker = sample_tracker,
      le_fetch = (\<lambda>_ _ query _ n. if query = buildWebhooksQuery then (HttpReply 200 True [] (Some hooks_reply), n + 1)
        else (NetworkFailure ''down'', n + 1)),
      le_pause = (\<lambda>_ n. n)\<rparr>"

definition sample_webhook :: webhook_section where
  "sample_webhook =
     \<lparr>wb_webhookUrl = ''u'', wb_webhookSecret = [], wb_pollingStretchMs = 0, wb_pollingBaseMs = 0, wb_healthCheckIntervalMs = 0\<rparr>"

definition sample_world :: "nat registration_world" where
  "sample_world = \<lparr>rw_net = 0, rw_stored = Some ''k'', rw_resolved = [], rw_notes = []\<rparr>"

theorem manual_secret_always_used_witness:
  "rw_resolved (register (live_registrar readonly_linear None) (Some (sample_webhook\<lparr>wb_webhookSecret := ''m''\<rparr>)) sample_world) = [''m'']"
  using manual_secret_always_used [of "sample_webhook\<lparr>wb_webhookSecret := ''m''\<rparr>" readonly_linear None sample_world]
  by (simp add: sample_world_def)

theorem reenable_failure_unnoticed_witness:
  "rw_notes (register (live_registrar readonly_linear None) (Some sample_webhook) sample_world) = [ReEnabled ''h'']"
proof -
  let ?h = "\<lparr>lw_id = ''h'', lw_url = ''u'', lw_enabled = False, lw_label = None, lw_secret = None, lw_resourceTypes = [], lw_teamIds = []\<rparr>"
  have ls: "listWebhooks readonly_linear 0 = (Inr [?h], 1)"
    by (simp add: listWebhooks_def runGraphQL_def requestGraphQL_def readonly_linear_def check_payload_def hooks_reply_def nodes_of_def
        data_of_def member_def asRecord_def omap_get_def elements_def object_value_def asString_def is_true_def Let_def)
  show ?thesis
    using reenable_failure_unnoticed [of sample_webhook sample_world "''k''" readonly_linear "[?h]" 1 ?h None] ls
    by (simp add: sample_webhook_def sample_world_def hook_for_def)
qed

section \<open>Lost replies\<close>

text \<open>A Linear server that creates an issue at every request and whose first reply is lost; the world counts the issues.\<close>

definition lossy_linear :: "nat linear_env" where
  "lossy_linear =
     \<lparr>le_tracker = sample_tracker\<lparr>ts_projectSlug := Some ''p''\<rparr>,
      le_fetch = (\<lambda>_ _ _ variables n.
        if omap_get (coalesce variables []) ''title'' = None
        then (HttpReply 200 True [] (Some (JObj [(''data'', JObj [(''projects'', JObj [(''nodes'', JArr [JObj [(''id'', JStr ''p''),
               (''teams'', JObj [(''nodes'', JArr [JObj [(''id'', JStr ''t'')]])])]])])])])), n)
        else if n = 0 then (NetworkFailure ''reset'', 1)
        else (HttpReply 200 True [] (Some (JObj [(''data'', JObj [(''issueCreate'', JObj [(''success'', JBool True),
               (''issue'', JObj [(''id'', JStr ''i''), (''identifier'', JStr ''A-1''), (''url'', JNull)])])])])), n + 1)),
      le_pause = (\<lambda>_ n. n)\<rparr>"

text \<open>
  The creation of an issue is repeated when its reply is lost, so one call can create two issues, of which the caller learns
  of one.
\<close>

theorem lost_reply_creates_twice: "createIssue lossy_linear ''t'' None None 0 = (Inr (''i'', ''A-1'', None), 2)"
proof -
  note eval = member_def asRecord_def omap_get_def asString_def elements_def object_value_def is_true_def Let_def truthy_string_def
    data_of_def nodes_of_def first_of_def first_id_def
  have gql: "gql lossy_linear q vs n =
      (if omap_get vs ''title'' = None
       then (Inr (JObj [(''data'', JObj [(''projects'', JObj [(''nodes'', JArr [JObj [(''id'', JStr ''p''),
               (''teams'', JObj [(''nodes'', JArr [JObj [(''id'', JStr ''t'')]])])]])])])]), n)
       else if n = 0 then (Inl (LinearClientError LinTransport ''linear graphql request failed during transport'' (Some ''reset'')), 1)
       else (Inr (JObj [(''data'', JObj [(''issueCreate'', JObj [(''success'', JBool True),
               (''issue'', JObj [(''id'', JStr ''i''), (''identifier'', JStr ''A-1''), (''url'', JNull)])])])]), n + 1))" for q vs n
    by (simp add: gql_def runGraphQL_def requestGraphQL_def check_payload_def lossy_linear_def eval)
  have env: "le_pause lossy_linear k n = n" "slug_of (le_tracker lossy_linear) = Some ''p''" for k n
    by (simp_all add: lossy_linear_def slug_of_def truthy_string_def sample_tracker_def)
  have ctx: "resolveProjectContext lossy_linear 0 = (Inr (Some ''p'', Some ''t''), 0)"
    by (simp add: resolveProjectContext_def gql env eval)
  show ?thesis
    by (simp add: createIssue_def ctx gql env retried_def withRetryReturn_def numeral_2_eq_2 numeral_3_eq_3 jopt_def eval)
qed

end
