(* ===== verification/Spec2Isabelle.thy ===== *)
theory Spec2Isabelle
  imports StateMachine StatePolicy Views Dispatch LifecycleState RetryQueue SignalDetection Outcome
    OutcomeClaims WorkspacePaths Launcher LauncherClaims RetryLaunch Reconcile ReconcileClaims Recovery
    RecoveryClaims HealthRunner WebhookHealth WatchdogModel ModelPricing Snapshot Orchestrator
    OrchestratorClaims Sanitizer SanitizerClaims AgentHelpers TurnState JsonRpc TurnExecutor
    NotificationHandler CodexRequest AttemptExecutor WebhookInbox WebhookIngress WebhookIngressClaims
    HttpGuards TriggerHandler Notifications NotificationClaims Alerts Automation ConfigOverlay
    ConfigStores JsonText ConfigClaims ConfigValues ConfigSections ConfigPipeline ConfigPipelineClaims
    GitOps GitClaims WorkspaceLock WorkspaceManager WorkspaceClaims AttemptStore AttemptStoreClaims
    EventBus PrMonitor PrMonitorClaims Effects LinearQueries LinearClient LinearClaims GitHubClient
    GitHubPrs Trackers TrackerClaims WebhookRegistrar ReviewClaims
begin

text \<open>
  Risoluto is a service that polls an issue tracker, starts a coding agent in a container for every
  issue that is ready, follows its turns, and retries, completes or gives up the issue when the agent
  ends. This development models the TypeScript backend under \<open>src/src/\<close>: the orchestrator, the policies
  it decides by, the runner of one agent and the services beside them. Each theory opens with the files it models.

  \<^bold>\<open>How the parts interact.\<close> The orchestrator (\<open>orchestrator/orchestrator.ts\<close>, theory Orchestrator) owns one
  mutable state, the record \<open>orch\<close> of LifecycleState: running entries, retry entries, claimed issue ids,
  the views for the dashboard, recent events, usage totals, timers, and a trace of the effects on the
  outside (calls of the attempt store, notifications, abort signals). A tick reconciles running and
  retrying issues with the tracker (Reconcile), finds candidates in the order of Dispatch, and launches
  workers (Launcher) as long as the limits allow. When the promise of a worker settles, Outcome decides
  by the state of the issue (StatePolicy, StateMachine), the stop signal (SignalDetection) and the error
  whether the issue is completed, retried (RetryQueue, RetryLaunch) or released. Recovery does the same
  for attempts found running at start-up. Snapshot, Views and ModelPricing derive what the dashboard and
  the API show; WatchdogModel, HealthRunner and WebhookHealth watch the whole.

  A worker is an attempt (AttemptExecutor) that runs turns (TurnExecutor, TurnState) over a JSON-RPC connection
  (JsonRpc); what the agent sends is taken apart by AgentHelpers, NotificationHandler and CodexRequest, and Sanitizer
  removes secrets from it before it is stored or shown. It works in a workspace (WorkspacePaths, WorkspaceLock,
  WorkspaceManager) with git (GitOps), its attempts are rows of AttemptStore, and PrMonitor follows its pull
  requests. Trackers is the common port of Linear (LinearQueries, LinearClient) and GitHub (GitHubClient, GitHubPrs),
  over the retries of Effects. Webhooks (WebhookInbox, WebhookIngress, WebhookRegistrar), the guards and the trigger
  endpoint of the HTTP server (HttpGuards, TriggerHandler), Notifications, Alerts, Automation and the EventBus stand beside them.
  The configuration is an overlay in a file or a database (ConfigOverlay, ConfigStores) from which every section is
  derived and validated (ConfigValues, ConfigSections, ConfigPipeline).

  \<^bold>\<open>Conventions\<close> (Prelude, CoreTypes). A field \<open>T | null\<close> is an \<open>option\<close>; where \<open>undefined\<close> shows, a
  \<open>jsopt\<close>. A \<open>Map\<close> is an association list in insertion order (\<open>omap\<close>), the
  instance of the interface \<open>js_map\<close> of Prelude. Numbers are \<open>int\<close>: the values the code computes with are
  integers far below \<open>2^53\<close>; so \<open>NaN\<close>, infinities and fractions are outside the model. Strings are lists of
  Latin-1 code units, on which \<open>toLowerCase\<close> keeps the length. \<open>Array.prototype.sort\<close> is a stable
  insertion sort (\<open>js_sort\<close>). Exceptions are values: an operation that can throw returns
  \<open>js_error option\<close> or a sum, and the operations of Effects also change a world of any type. \<open>Date.parse\<close>,
  \<open>localeCompare\<close> and \<open>JSON.parse\<close> are fields of \<open>host\<close>; other platform and package functions are fields of
  the environment of the operation that calls them.
  An \<open>await\<close> is a function of the environment record of the operation: at each suspension point it may
  change the state, and a property that needs it says what the other code keeps (\<open>launch_rely\<close>,
  \<open>retry_rely\<close>, \<open>recovery_rely\<close>, \<open>rely\<close>) or that nothing interferes (\<open>quiet\<close>, \<open>launch_quiet\<close>).

  \<^bold>\<open>What is shown\<close> (in the theories named ...Claims, or at the end of the model's own theory).
  \<^item> Claims: every running or retrying issue of a running orchestrator is claimed, through launches, retries,
    outcomes, recovery and stop (LauncherClaims, RetryLaunch, OutcomeClaims, RecoveryClaims,
    OrchestratorClaims). After an outcome handler has released its claim another task may start the issue again;
    what a rejection does then is a finding.
  \<^item> Polling: a state machine in which \<open>start\<close> is a call that returns or rejects later; while the service runs and no
    start is under way or has failed, exactly one of "a tick is in flight" and "a timer is armed" holds
    (OrchestratorClaims). A tick in flight outlives \<open>stop\<close>.
  \<^item> Outcomes: the disposition of a finished worker is exactly that of a decision table (OutcomeClaims).
  \<^item> Limits: a round of launches keeps the limits, in total and per state, if nothing else launches meanwhile.
  \<^item> Secrets: no text of the form of six kinds of keys, described without the scanners, is left by the redaction
    (SanitizerClaims). Passwords in URLs and assignments are not claimed.
  \<^item> Agents: termination of the loop of turns, cleanup of an attempt, the fates of requests and of completions
    (TurnExecutor, AttemptExecutor, JsonRpc, TurnState, CodexRequest).
  \<^item> Workspaces and git: mutual exclusion and progress of the lock, creation and removal with failing hooks and
    failing removals, the merge policy, routing, branch names (WorkspaceLock, WorkspaceClaims, GitClaims).
  \<^item> Stores: attempts, checkpoints and inbox rows as what was written (AttemptStoreClaims, WebhookInbox).
  \<^item> Webhooks: effects only of authentic, fresh, new deliveries; registration of secrets (WebhookIngressClaims,
    ReviewClaims).
  \<^item> Configuration: path operations, outcomes of a patch, round trips, URLs, equality of overlays up to the order of
    keys (ConfigClaims, ConfigPipelineClaims).
  \<^item> Trackers: pagination, confirmed transitions, retries, parsing of repository addresses (LinearClaims,
    TrackerClaims, Effects); policies: transitions, stages, board columns, dispatch order, stop signals, prices.

  \<^bold>\<open>Bounds.\<close> No definition uses fuel: every recursion is structural or has a measure, but three loops
  that may not end, which are \<open>partial_function\<close>s with an option result: the loop of turns, the pagination and the
  visit of listeners that may change the bus. That they return is proved under a condition on their environment, or shown to fail.

  \<^bold>\<open>Not modelled.\<close> Most HTTP routes and the schemas, the SQL engine, Docker and child processes, the storage of
  secrets, prompts, metrics and logs, the command line, the setup wizard and the user interface: they are input and
  output around the parts above. The file system has no symbolic links, and permissions only where a removal fails;
  the listeners of the event bus do not throw in the webhook workflow. The third-party packages (the template
  engine, the loggers, SQLite) are not under the source tree.
\<close>

end
